(* ===== verification/Prelude.thy ===== *)
theory Prelude
  imports
    Complex_Main
    "HOL-Library.AList"
    "HOL-Library.Char_ord"
    "HOL-Library.List_Lexorder"
    "HOL-Library.Sublist"
begin

section \<open>Prelude: text, dictionaries, numbers and stateful computations\<close>

text \<open>
  The vocabulary every component shares.

  Python values of the standard library are given by executable definitions: \<open>str\<close> is
  \<^typ>\<open>string\<close> (one \<^typ>\<open>char\<close> per code point; letters are cased as ASCII), an insertion-ordered
  \<open>dict\<close> is an association list with distinct keys updated by \<^const>\<open>AList.update\<close>, \<open>int\<close> is
  \<^typ>\<open>int\<close>, a \<open>float\<close> is the rational its decimal literal denotes.  A method that reads and
  writes an object and may raise is a function from the state to a result and the state it leaves,
  with the exception on the left of a sum; the state reached before a raise is kept, as in Python.
\<close>

named_theorems text_simps \<open>evaluation of the text operations\<close>
named_theorems op_simps \<open>unfolding of stateful computations\<close>

subsection \<open>Characters and text\<close>

definition code :: "char \<Rightarrow> int" where
  "code c = of_char c"

definition is_digit :: "char \<Rightarrow> bool" where
  "is_digit c \<longleftrightarrow> 48 \<le> code c \<and> code c \<le> 57"

definition is_upper :: "char \<Rightarrow> bool" where
  "is_upper c \<longleftrightarrow> 65 \<le> code c \<and> code c \<le> 90"

definition is_lower :: "char \<Rightarrow> bool" where
  "is_lower c \<longleftrightarrow> 97 \<le> code c \<and> code c \<le> 122"

definition is_space :: "char \<Rightarrow> bool" where
  "is_space c \<longleftrightarrow> code c = 32 \<or> 9 \<le> code c \<and> code c \<le> 13 \<or> 28 \<le> code c \<and> code c \<le> 31
     \<or> code c = 133 \<or> code c = 160"

definition lower_char :: "char \<Rightarrow> char" where
  "lower_char c = (if is_upper c then char_of (code c + 32) else c)"

definition upper_char :: "char \<Rightarrow> char" where
  "upper_char c = (if is_lower c then char_of (code c - 32) else c)"

definition str_lower :: "string \<Rightarrow> string" where
  "str_lower = map lower_char"

definition str_upper :: "string \<Rightarrow> string" where
  "str_upper = map upper_char"

definition strip_with :: "(char \<Rightarrow> bool) \<Rightarrow> string \<Rightarrow> string" where
  "strip_with p s = rev (dropWhile p (rev (dropWhile p s)))"

definition str_strip :: "string \<Rightarrow> string" where
  "str_strip = strip_with is_space"

text \<open>\<open>s.split(c)\<close> with a one-character separator: never empty, and \<open>c.join\<close> undoes it.\<close>

fun split_on :: "char \<Rightarrow> string \<Rightarrow> string list" where
  "split_on c [] = [[]]"
| "split_on c (x # xs) =
     (if x = c then [] # split_on c xs
      else (case split_on c xs of [] \<Rightarrow> [[x]] | w # ws \<Rightarrow> (x # w) # ws))"

fun join_with :: "string \<Rightarrow> string list \<Rightarrow> string" where
  "join_with sep [] = []"
| "join_with sep [w] = w"
| "join_with sep (w # ws) = w @ sep @ join_with sep ws"

text \<open>\<open>s.split(c, 1)\<close> and \<open>s.partition(c)\<close>: the text before and after the first separator.\<close>

definition split_first :: "char \<Rightarrow> string \<Rightarrow> string \<times> string option" where
  "split_first c s =
     (case dropWhile (\<lambda>x. x \<noteq> c) s of
        [] \<Rightarrow> (s, None)
      | _ # rest \<Rightarrow> (takeWhile (\<lambda>x. x \<noteq> c) s, Some rest))"

fun replace_char :: "char \<Rightarrow> string \<Rightarrow> string \<Rightarrow> string" where
  "replace_char c t [] = []"
| "replace_char c t (x # xs) = (if x = c then t else [x]) @ replace_char c t xs"

lemma replace_char_append: "replace_char c t (xs @ ys) = replace_char c t xs @ replace_char c t ys"
  by (induction xs) auto

text \<open>The decimal digits of a non-negative integer, and \<open>str\<close> of any integer.\<close>

function dec_str :: "int \<Rightarrow> string" where
  "dec_str n = (if n < 10 then [char_of (48 + n)] else dec_str (n div 10) @ [char_of (48 + n mod 10)])"
  by pat_completeness auto
termination
  by (relation "measure nat") auto

declare dec_str.simps [simp del]

definition int_str :: "int \<Rightarrow> string" where
  "int_str i = (if i < 0 then ''-'' @ dec_str (- i) else dec_str i)"

definition pad_left :: "nat \<Rightarrow> char \<Rightarrow> string \<Rightarrow> string" where
  "pad_left k c s = replicate (k - length s) c @ s"

text \<open>\<open>int(s)\<close> on a run of ASCII digits.\<close>

definition digits_val :: "string \<Rightarrow> int" where
  "digits_val s = foldl (\<lambda>n c. 10 * n + (code c - 48)) 0 s"

lemma split_on_nonempty [simp]: "split_on c s \<noteq> []"
  by (induction s) (auto split: list.splits)

lemma split_on_no_sep: "w \<in> set (split_on c s) \<Longrightarrow> c \<notin> set w"
  by (induction s arbitrary: w) (auto split: list.splits if_splits)

lemma join_with_Cons:
  "ws \<noteq> [] \<Longrightarrow> join_with sep (w # ws) = w @ sep @ join_with sep ws"
  by (cases ws) auto

lemma join_with_Cons_head: "join_with sep ((x # w) # ws) = x # join_with sep (w # ws)"
  by (cases ws) auto

lemma join_split_on: "join_with [c] (split_on c s) = s"
  by (induction s) (auto split: list.splits simp: join_with_Cons join_with_Cons_head)

lemma split_on_unique:
  assumes "\<forall>w \<in> set ws. c \<notin> set w" and "ws \<noteq> []"
  shows "split_on c (join_with [c] ws) = ws"
  using assms
proof (induction ws)
  case (Cons w ws)
  have base: "c \<notin> set w \<Longrightarrow> split_on c w = [w]" for w
    by (induction w) auto
  have step: "c \<notin> set w \<Longrightarrow> split_on c (w @ c # t) = w # split_on c t" for w t
    by (induction w) auto
  show ?case
  proof (cases "ws = []")
    case False
    then show ?thesis using Cons by (simp add: join_with_Cons step)
  qed (use Cons.prems base in auto)
qed simp

subsection \<open>Decimal text of a number\<close>

lemma code_char_of_digit: "0 \<le> d \<Longrightarrow> d < 10 \<Longrightarrow> code (char_of (48 + d)) = 48 + d"
  by (simp add: code_def)

lemma digits_val_append: "digits_val (s @ [c]) = 10 * digits_val s + (code c - 48)"
  by (simp add: digits_val_def)

lemma digits_val_dec_str: "0 \<le> n \<Longrightarrow> digits_val (dec_str n) = n"
proof (induction n rule: dec_str.induct)
  case (1 n)
  show ?case
  proof (cases "n < 10")
    case True
    with 1 show ?thesis
      by (simp add: dec_str.simps [of n] digits_val_def code_char_of_digit)
  next
    case False
    then have "digits_val (dec_str (n div 10)) = n div 10" using 1 by simp
    moreover have "code (char_of (48 + n mod 10)) = 48 + n mod 10"
      by (rule code_char_of_digit) simp_all
    ultimately show ?thesis
      using False by (simp add: dec_str.simps [of n] digits_val_append)
  qed
qed

lemma dec_str_inj: "0 \<le> m \<Longrightarrow> 0 \<le> n \<Longrightarrow> dec_str m = dec_str n \<longleftrightarrow> m = n"
  by (metis digits_val_dec_str)

lemma dec_str_digits: "0 \<le> n \<Longrightarrow> c \<in> set (dec_str n) \<Longrightarrow> is_digit c"
proof (induction n rule: dec_str.induct)
  case (1 n)
  have "is_digit (char_of (48 + d))" if "0 \<le> d" "d < 10" for d :: int
    using that by (simp add: is_digit_def code_char_of_digit)
  then show ?case
    using 1 by (auto simp: dec_str.simps [of n] split: if_splits)
qed

lemma dec_str_not_Nil [simp]: "dec_str n \<noteq> []"
  by (subst dec_str.simps) simp

lemma dash_not_digit: "\<not> is_digit (CHR ''-'')"
  by (simp add: is_digit_def code_def)

lemma int_str_inj: "int_str i = int_str j \<longleftrightarrow> i = j"
proof -
  have dash: "dec_str a \<noteq> ''-'' @ t" if "0 \<le> a" for a t
  proof
    assume "dec_str a = ''-'' @ t"
    then have "CHR ''-'' \<in> set (dec_str a)" by simp
    then show False using dec_str_digits [OF that] dash_not_digit by blast
  qed
  show ?thesis
    using dash [of i] dash [of j] dash [of i, symmetric] dash [of j, symmetric]
    by (auto simp: int_str_def dec_str_inj split: if_splits)
qed

lemma int_str_chars: "c \<in> set (int_str i) \<Longrightarrow> is_digit c \<or> c = CHR ''-''"
  by (auto simp: int_str_def dest!: dec_str_digits [rotated] split: if_splits)

subsection \<open>Rounding and fixed-point text\<close>

text \<open>
  \<open>round(x, k)\<close> rounds half to even, and \<open>f"{x:.kf}"\<close> prints that value with \<open>k\<close> decimals.
\<close>

definition round_half_even :: "'a::floor_ceiling \<Rightarrow> int" where
  "round_half_even x =
     (let f = \<lfloor>x\<rfloor>; d = x - of_int f
      in if d < 1 / 2 then f else if d > 1 / 2 then f + 1 else if even f then f else f + 1)"

definition py_round :: "nat \<Rightarrow> 'a::floor_ceiling \<Rightarrow> rat" where
  "py_round k x = of_int (round_half_even (x * 10 ^ k)) / 10 ^ k"

definition decimal_str :: "nat \<Rightarrow> int \<Rightarrow> string" where
  "decimal_str k m =
     (let a = \<bar>m\<bar>
      in (if m < 0 then ''-'' else []) @ dec_str (a div 10 ^ k)
         @ (if k = 0 then [] else ''.'' @ pad_left k (CHR ''0'') (dec_str (a mod 10 ^ k))))"

definition fmt_fixed :: "nat \<Rightarrow> 'a::floor_ceiling \<Rightarrow> string" where
  "fmt_fixed k x = decimal_str k (round_half_even (x * 10 ^ k))"

text \<open>
  \<open>repr\<close> of a float: the shortest decimal, searched up to 17 places (the precision of a double),
  for magnitudes Python prints positionally.
\<close>

fun places :: "nat \<Rightarrow> rat \<Rightarrow> nat" where
  "places 0 x = 0"
| "places (Suc n) x = (if x = of_int \<lfloor>x\<rfloor> then 0 else Suc (places n (x * 10)))"

definition float_repr :: "rat \<Rightarrow> string" where
  "float_repr x = (let k = max 1 (places 17 x) in fmt_fixed k x)"

lemma round_half_even_of_int [simp]: "round_half_even (of_int i) = i"
  by (simp add: round_half_even_def)

lemma round_half_even_mono:
  assumes "x \<le> y" shows "round_half_even x \<le> round_half_even y"
proof -
  have f: "\<lfloor>x\<rfloor> \<le> \<lfloor>y\<rfloor>" using assms by (rule floor_mono)
  show ?thesis
  proof (cases "\<lfloor>x\<rfloor> = \<lfloor>y\<rfloor>")
    case True
    then show ?thesis using assms
      unfolding round_half_even_def Let_def by (auto split: if_splits)
  next
    case False
    with f have "\<lfloor>x\<rfloor> + 1 \<le> \<lfloor>y\<rfloor>" by simp
    then show ?thesis
      unfolding round_half_even_def Let_def by (auto split: if_splits)
  qed
qed

lemma py_round_mono: "x \<le> y \<Longrightarrow> py_round k x \<le> py_round k y"
  unfolding py_round_def
  by (intro divide_right_mono) (auto intro!: round_half_even_mono mult_right_mono)

lemma py_round_of_int [simp]: "py_round k (of_int i) = of_int i"
proof -
  have "(of_int i :: 'a::floor_ceiling) * 10 ^ k = of_int (i * 10 ^ k)" by simp
  then show ?thesis
    unfolding py_round_def by (simp only: round_half_even_of_int) simp
qed

lemma py_round_range:
  assumes "of_int a \<le> x" and "x \<le> of_int b"
  shows "of_int a \<le> py_round k x \<and> py_round k x \<le> of_int b"
  using py_round_mono [OF assms(1), of k] py_round_mono [OF assms(2), of k] by simp

subsection \<open>Stateful computations that may raise\<close>

type_synonym ('s, 'e, 'a) op = "'s \<Rightarrow> ('e + 'a) \<times> 's"

definition returnE :: "'a \<Rightarrow> ('s, 'e, 'a) op" where
  [op_simps]: "returnE a = (\<lambda>s. (Inr a, s))"

definition raiseE :: "'e \<Rightarrow> ('s, 'e, 'a) op" where
  [op_simps]: "raiseE e = (\<lambda>s. (Inl e, s))"

definition bindE :: "('s, 'e, 'a) op \<Rightarrow> ('a \<Rightarrow> ('s, 'e, 'b) op) \<Rightarrow> ('s, 'e, 'b) op" where
  [op_simps]: "bindE m f = (\<lambda>s. case m s of (Inl e, s') \<Rightarrow> (Inl e, s') | (Inr a, s') \<Rightarrow> f a s')"

definition readE :: "('s \<Rightarrow> 'a) \<Rightarrow> ('s, 'e, 'a) op" where
  [op_simps]: "readE f = (\<lambda>s. (Inr (f s), s))"

definition writeE :: "('s \<Rightarrow> 's) \<Rightarrow> ('s, 'e, unit) op" where
  [op_simps]: "writeE f = (\<lambda>s. (Inr (), f s))"

text \<open>\<open>try\<close>/\<open>except\<close>: the handler runs in the state the exception left.\<close>

definition catchE :: "('s, 'e, 'a) op \<Rightarrow> ('e \<Rightarrow> ('s, 'e, 'a) op) \<Rightarrow> ('s, 'e, 'a) op" where
  [op_simps]: "catchE m h = (\<lambda>s. case m s of (Inl e, s') \<Rightarrow> h e s' | (Inr a, s') \<Rightarrow> (Inr a, s'))"

fun mapE :: "('a \<Rightarrow> ('s, 'e, 'b) op) \<Rightarrow> 'a list \<Rightarrow> ('s, 'e, 'b list) op" where
  "mapE f [] = returnE []"
| "mapE f (x # xs) = bindE (f x) (\<lambda>y. bindE (mapE f xs) (\<lambda>ys. returnE (y # ys)))"

lemma bindE_returnE [simp]: "bindE (returnE a) f = f a"
  by (simp add: op_simps)

lemma bindE_raiseE [simp]: "bindE (raiseE e) f = raiseE e"
  by (simp add: op_simps)

lemma bindE_assoc: "bindE (bindE m f) g = bindE m (\<lambda>a. bindE (f a) g)"
  by (rule ext) (simp add: op_simps split: prod.splits sum.splits)

text \<open>An invariant of the state kept by an operation, and its composition along \<^const>\<open>bindE\<close>.\<close>

definition keeps :: "('s \<Rightarrow> bool) \<Rightarrow> ('s, 'e, 'a) op \<Rightarrow> bool" where
  "keeps I m \<longleftrightarrow> (\<forall>s. I s \<longrightarrow> I (snd (m s)))"

lemma keepsI: "(\<And>s. I s \<Longrightarrow> I (snd (m s))) \<Longrightarrow> keeps I m"
  by (simp add: keeps_def)

lemma keepsD: "keeps I m \<Longrightarrow> I s \<Longrightarrow> I (snd (m s))"
  by (simp add: keeps_def)

lemma keeps_returnE [simp, intro]: "keeps I (returnE a)"
  by (simp add: keeps_def op_simps)

lemma keeps_raiseE [simp, intro]: "keeps I (raiseE e)"
  by (simp add: keeps_def op_simps)

lemma keeps_readE [simp, intro]: "keeps I (readE f)"
  by (simp add: keeps_def op_simps)

lemma keeps_writeE [intro]: "(\<And>s. I s \<Longrightarrow> I (f s)) \<Longrightarrow> keeps I (writeE f)"
  by (simp add: keeps_def op_simps)

lemma keeps_bindE [intro]:
  assumes "keeps I m" and "\<And>a. keeps I (f a)"
  shows "keeps I (bindE m f)"
proof (rule keepsI)
  fix s assume "I s"
  then have "I (snd (m s))" using assms(1) by (rule keepsD [rotated])
  then show "I (snd (bindE m f s))"
    using assms(2) by (auto simp: op_simps keeps_def split: prod.splits sum.splits)
qed

lemma keeps_catchE [intro]:
  assumes "keeps I m" and "\<And>e. keeps I (h e)"
  shows "keeps I (catchE m h)"
proof (rule keepsI)
  fix s assume "I s"
  then have "I (snd (m s))" using assms(1) by (rule keepsD [rotated])
  then show "I (snd (catchE m h s))"
    using assms(2) by (auto simp: op_simps keeps_def split: prod.splits sum.splits)
qed

lemma keeps_mapE [intro]: "(\<And>x. keeps I (f x)) \<Longrightarrow> keeps I (mapE f xs)"
  by (induction xs) auto

end
