(* ===== verification/Clock.thy ===== *)
theory Clock
  imports Prelude
begin

section \<open>Instants, and their ISO-8601 text\<close>

text \<open>
  An aware \<open>datetime\<close> in UTC is the number of microseconds since the Unix epoch.  The civil date of
  an instant follows \<open>datetime.date.fromordinal\<close> (400-, 100-, 4- and 1-year cycles), and \<open>iso_z\<close> is
  the format of \<open>core/util.py\<close>: milliseconds, suffix \<open>Z\<close>.
\<close>

type_synonym time = int

definition usec :: int where "usec = 1000000"

abbreviation seconds :: "int \<Rightarrow> time" where
  "seconds n \<equiv> n * usec"

definition days_before_month :: "bool \<Rightarrow> int \<Rightarrow> int" where
  "days_before_month leap m =
     [0, 31, 59, 90, 120, 151, 181, 212, 243, 273, 304, 334] ! nat (m - 1)
     + (if 2 < m \<and> leap then 1 else 0)"

definition ord2ymd :: "int \<Rightarrow> int \<times> int \<times> int" where
  "ord2ymd n0 =
     (let n400 = n0 div 146097; n = n0 mod 146097;
          n100 = n div 36524; n = n mod 36524;
          n4 = n div 1461; n = n mod 1461;
          n1 = n div 365; n = n mod 365;
          year = n400 * 400 + 1 + n100 * 100 + n4 * 4 + n1
      in if n1 = 4 \<or> n100 = 4 then (year - 1, 12, 31)
         else
           let leap = (n1 = 3 \<and> (n4 \<noteq> 24 \<or> n100 = 3));
               month = (n + 50) div 32;
               month = (if days_before_month leap month > n then month - 1 else month)
           in (year, month, n - days_before_month leap month + 1))"

definition epoch_ordinal :: int where "epoch_ordinal = 719162"

definition pad :: "nat \<Rightarrow> int \<Rightarrow> string" where
  "pad k i = pad_left k (CHR ''0'') (dec_str i)"

definition date_str :: "time \<Rightarrow> string" where
  "date_str t =
     (case ord2ymd (t div (86400 * usec) + epoch_ordinal) of
        (y, m, d) \<Rightarrow> pad 4 y @ ''-'' @ pad 2 m @ ''-'' @ pad 2 d)"

definition clock_str :: "time \<Rightarrow> string" where
  "clock_str t =
     (let s = t div usec mod 86400
      in pad 2 (s div 3600) @ '':'' @ pad 2 (s div 60 mod 60) @ '':'' @ pad 2 (s mod 60))"

definition iso_z :: "time \<Rightarrow> string" where
  "iso_z t = date_str t @ ''T'' @ clock_str t @ ''.'' @ pad 3 (t mod usec div 1000) @ ''Z''"

text \<open>\<open>str(datetime)\<close>: microseconds are printed only when they are not zero.\<close>

definition datetime_str :: "time \<Rightarrow> string" where
  "datetime_str t =
     date_str t @ '' '' @ clock_str t
       @ (if t mod usec = 0 then [] else ''.'' @ pad 6 (t mod usec)) @ ''+00:00''"

text \<open>What an instant becomes once written as \<open>iso_z\<close> and read back: its millisecond.\<close>

definition to_millis :: "time \<Rightarrow> time" where
  "to_millis t = t div 1000 * 1000"

lemma to_millis_idem [simp]: "to_millis (to_millis t) = to_millis t"
  by (simp add: to_millis_def)

lemma to_millis_le: "to_millis t \<le> t"
  by (simp add: to_millis_def minus_mod_eq_div_mult [symmetric])

lemma to_millis_mono: "s \<le> t \<Longrightarrow> to_millis s \<le> to_millis t"
  by (simp add: to_millis_def zdiv_mono1)

lemma millis_div:
  assumes "(1000::int) dvd k" and "0 < k"
  shows "to_millis t div k = t div k"
proof -
  obtain j where k: "k = 1000 * j" using assms(1) by (auto elim: dvdE)
  with assms(2) have "0 < j" by simp
  have "to_millis t div k = to_millis t div 1000 div j"
    using \<open>0 < j\<close> by (simp add: k zdiv_zmult2_eq)
  also have "\<dots> = t div 1000 div j" by (simp add: to_millis_def)
  also have "\<dots> = t div k" using \<open>0 < j\<close> by (simp add: k zdiv_zmult2_eq)
  finally show ?thesis .
qed

lemma millis_of_second: "t mod usec div 1000 = t div 1000 mod 1000"
proof -
  have "t mod (1000 * 1000) = 1000 * (t div 1000 mod 1000) + t mod 1000"
    by (rule zmod_zmult2_eq) simp
  then show ?thesis by (simp add: usec_def)
qed

lemma iso_z_to_millis [simp]: "iso_z (to_millis t) = iso_z t"
proof -
  have sec: "to_millis t div usec = t div usec" by (rule millis_div) (simp_all add: usec_def)
  have day: "to_millis t div (86400 * usec) = t div (86400 * usec)"
    by (rule millis_div) (simp_all add: usec_def)
  have ms: "to_millis t mod usec div 1000 = t mod usec div 1000"
    unfolding millis_of_second by (simp add: to_millis_def)
  show ?thesis
    unfolding iso_z_def date_str_def clock_str_def by (simp only: sec day ms)
qed

end
