(* ===== verification/PyVal.thy ===== *)
theory PyVal
  imports Clock
begin

section \<open>Dynamically typed values and their canonical JSON\<close>

text \<open>
  The values an event payload, a playbook parameter or an audit record may hold, with the Python
  operations the code applies to them (truth value, \<open>str\<close>, \<open>repr\<close>, \<open>==\<close>), and
  \<open>core/util.py\<close>'s \<open>canonical_json\<close>, the serialisation every audit fingerprint and every
  deduplication key is computed from.  The canonical text is insensitive to the order of dictionary
  keys; \<open>jsonify\<close> is what a JSON column of the database gives back of a value.
\<close>

datatype pyval =
    PNone
  | PBool bool
  | PInt int
  | PFloat rat
  | PStr string
  | PTime time
  | PList "pyval list"
  | PDict "(string \<times> pyval) list"

type_synonym dict = "(string \<times> pyval) list"

abbreviation dict_get :: "dict \<Rightarrow> string \<Rightarrow> pyval option" where
  "dict_get \<equiv> map_of"

abbreviation dict_set :: "string \<Rightarrow> 'v \<Rightarrow> (string \<times> 'v) list \<Rightarrow> (string \<times> 'v) list" where
  "dict_set \<equiv> AList.update"

text \<open>\<open>d.get(k)\<close> where an absent key and a stored \<open>None\<close> are the same.\<close>

definition dict_val :: "dict \<Rightarrow> string \<Rightarrow> pyval" where
  "dict_val d k = (case map_of d k of None \<Rightarrow> PNone | Some v \<Rightarrow> v)"

fun truthy :: "pyval \<Rightarrow> bool" where
  "truthy PNone = False"
| "truthy (PBool b) = b"
| "truthy (PInt i) = (i \<noteq> 0)"
| "truthy (PFloat x) = (x \<noteq> 0)"
| "truthy (PStr s) = (s \<noteq> [])"
| "truthy (PTime t) = True"
| "truthy (PList xs) = (xs \<noteq> [])"
| "truthy (PDict d) = (d \<noteq> [])"

text \<open>\<open>bool\<close> is a subclass of \<open>int\<close>: the numeric value of a truth value is 0 or 1.\<close>

fun num_of :: "pyval \<Rightarrow> rat option" where
  "num_of (PBool b) = Some (if b then 1 else 0)"
| "num_of (PInt i) = Some (of_int i)"
| "num_of (PFloat x) = Some x"
| "num_of _ = None"

fun py_eq :: "pyval \<Rightarrow> pyval \<Rightarrow> bool" where
  "py_eq PNone b = (b = PNone)"
| "py_eq (PStr s) b = (b = PStr s)"
| "py_eq (PTime t) b = (b = PTime t)"
| "py_eq (PList xs) b =
     (case b of PList ys \<Rightarrow> list_all2 py_eq xs ys | _ \<Rightarrow> False)"
| "py_eq (PDict xs) b =
     (case b of
        PDict ys \<Rightarrow> length xs = length ys \<and>
          list_all (\<lambda>(k, v). case map_of ys k of None \<Rightarrow> False | Some w \<Rightarrow> py_eq v w) xs
      | _ \<Rightarrow> False)"
| "py_eq a b = (num_of a = num_of b)"

subsection \<open>Text of a value\<close>

text \<open>
  \<open>repr\<close> of a string prefers single quotes and switches to double quotes only when the text holds
  a single quote and no double quote.
\<close>

definition hex_digit :: "int \<Rightarrow> char" where
  "hex_digit n = char_of (if n < 10 then 48 + n else 87 + n)"

definition hex2 :: "int \<Rightarrow> string" where
  "hex2 n = [hex_digit (n div 16), hex_digit (n mod 16)]"

definition repr_char :: "char \<Rightarrow> char \<Rightarrow> string" where
  "repr_char q c =
     (if c = q \<or> c = CHR 0x5C then [CHR 0x5C, c]
      else if c = CHR 0x0A then [CHR 0x5C, CHR ''n'']
      else if c = CHR 0x0D then [CHR 0x5C, CHR ''r'']
      else if c = CHR 0x09 then [CHR 0x5C, CHR ''t'']
      else if code c < 32 \<or> 127 \<le> code c \<and> code c \<le> 160 \<or> code c = 173
        then [CHR 0x5C, CHR ''x''] @ hex2 (code c)
      else [c])"

definition repr_str :: "string \<Rightarrow> string" where
  "repr_str s =
     (let q = (if CHR 0x27 \<in> set s \<and> CHR 0x22 \<notin> set s then CHR 0x22 else CHR 0x27)
      in [q] @ concat (map (repr_char q) s) @ [q])"

primrec py_repr :: "pyval \<Rightarrow> string" where
  "py_repr PNone = ''None''"
| "py_repr (PBool b) = (if b then ''True'' else ''False'')"
| "py_repr (PInt i) = int_str i"
| "py_repr (PFloat x) = float_repr x"
| "py_repr (PStr s) = repr_str s"
| "py_repr (PTime t) = datetime_str t"
| "py_repr (PList xs) = ''['' @ join_with '', '' (map py_repr xs) @ '']''"
| "py_repr (PDict d) =
     ''{'' @ join_with '', '' (map (\<lambda>(k, t). repr_str k @ '': '' @ t) (map (map_prod id py_repr) d))
       @ ''}''"

definition py_str :: "pyval \<Rightarrow> string" where
  "py_str v = (case v of PStr s \<Rightarrow> s | _ \<Rightarrow> py_repr v)"

subsection \<open>Canonical JSON\<close>

text \<open>
  \<open>json.dumps(value, sort_keys=True, separators=(",", ":"), ensure_ascii=True)\<close>.  With
  \<open>ensure_ascii\<close> every character outside the range from space to tilde is escaped.  The fallback \<open>_json_default\<close> writes an
  instant as \<open>iso_z\<close>.
\<close>

definition esc_char :: "char \<Rightarrow> string" where
  "esc_char c =
     (if c = CHR 0x22 then [CHR 0x5C, CHR 0x22]
      else if c = CHR 0x5C then [CHR 0x5C, CHR 0x5C]
      else if c = CHR 0x0A then [CHR 0x5C, CHR ''n'']
      else if c = CHR 0x0D then [CHR 0x5C, CHR ''r'']
      else if c = CHR 0x09 then [CHR 0x5C, CHR ''t'']
      else if c = CHR 0x0C then [CHR 0x5C, CHR ''f'']
      else if c = CHR 0x08 then [CHR 0x5C, CHR ''b'']
      else if 32 \<le> code c \<and> code c \<le> 126 then [c]
      else [CHR 0x5C, CHR ''u'', CHR ''0'', CHR ''0''] @ hex2 (code c))"

definition json_str :: "string \<Rightarrow> string" where
  "json_str s = [CHR 0x22] @ concat (map esc_char s) @ [CHR 0x22]"

primrec canonical_json :: "pyval \<Rightarrow> string" where
  "canonical_json PNone = ''null''"
| "canonical_json (PBool b) = (if b then ''true'' else ''false'')"
| "canonical_json (PInt i) = int_str i"
| "canonical_json (PFloat x) = float_repr x"
| "canonical_json (PStr s) = json_str s"
| "canonical_json (PTime t) = json_str (iso_z t)"
| "canonical_json (PList xs) = ''['' @ join_with '','' (map canonical_json xs) @ '']''"
| "canonical_json (PDict d) =
     ''{'' @ join_with '','' (map (\<lambda>(k, t). json_str k @ '':'' @ t)
        (sort_key fst (map (map_prod id canonical_json) d))) @ ''}''"

text \<open>
  What a JSON column returns of a value written with \<open>json.dumps(value, default=str)\<close>: an instant has
  become its \<open>str\<close>, everything else is itself.
\<close>

primrec jsonify :: "pyval \<Rightarrow> pyval" where
  "jsonify PNone = PNone"
| "jsonify (PBool b) = PBool b"
| "jsonify (PInt i) = PInt i"
| "jsonify (PFloat x) = PFloat x"
| "jsonify (PStr s) = PStr s"
| "jsonify (PTime t) = PStr (datetime_str t)"
| "jsonify (PList xs) = PList (map jsonify xs)"
| "jsonify (PDict d) = PDict (map (map_prod id jsonify) d)"

definition json_column :: "dict \<Rightarrow> dict" where
  "json_column d = map (map_prod id jsonify) d"

primrec no_time :: "pyval \<Rightarrow> bool" where
  "no_time PNone = True"
| "no_time (PBool b) = True"
| "no_time (PInt i) = True"
| "no_time (PFloat x) = True"
| "no_time (PStr s) = True"
| "no_time (PTime t) = False"
| "no_time (PList xs) = list_all id (map no_time xs)"
| "no_time (PDict d) = list_all snd (map (map_prod id no_time) d)"

definition json_safe :: "dict \<Rightarrow> bool" where
  "json_safe d \<longleftrightarrow> list_all (\<lambda>(k, v). no_time v) d"

lemma jsonify_no_time: "no_time v \<Longrightarrow> jsonify v = v"
proof (induction v)
  case (PList xs)
  then show ?case by (simp add: list_all_iff map_idI)
next
  case (PDict d)
  have "map_prod id jsonify kv = kv" if "kv \<in> set d" for kv
  proof (cases kv)
    case (Pair k v)
    with that PDict show ?thesis by (fastforce simp: list_all_iff)
  qed
  then show ?case by (simp add: map_idI)
qed simp_all

lemma json_column_safe: "json_safe d \<Longrightarrow> json_column d = d"
  by (auto simp: json_column_def json_safe_def list_all_iff jsonify_no_time intro!: map_idI)

lemma json_column_Nil [simp]: "json_column [] = []" and json_safe_Nil [simp]: "json_safe []"
  by (simp_all add: json_column_def json_safe_def)

lemma json_safe_Cons [simp]: "json_safe ((k, v) # d) \<longleftrightarrow> no_time v \<and> json_safe d"
  by (simp add: json_safe_def)

text \<open>The canonical text does not depend on the order of the keys.\<close>

lemma canonical_json_order:
  assumes "distinct (map fst d)" and "distinct (map fst d')" and "set d = set d'"
  shows "canonical_json (PDict d) = canonical_json (PDict d')"
proof -
  let ?m = "map (map_prod id canonical_json)"
  have inj: "distinct (?m e) \<and> inj_on fst (set (?m e))" if "distinct (map fst e)" for e
  proof -
    have "distinct (map fst (?m e))" using that by (simp add: comp_def)
    then show ?thesis by (simp only: distinct_map)
  qed
  have dist: "distinct (map fst (sort_key fst (?m e)))" if "distinct (map fst e)" for e
    using inj [OF that] distinct_map [of fst "sort_key fst (?m e)"]
    by (simp only: distinct_sort set_sort)
  have "set (?m d) = set (?m d')" using assms(3) by simp
  then have "inj_on fst (set (sort_key fst (?m d)) \<union> set (sort_key fst (?m d')))"
    using inj [OF assms(1)] by (simp only: set_sort Un_absorb)
  then have "sort_key fst (?m d) = sort_key fst (?m d')"
    by (rule map_sorted_distinct_set_unique) (simp_all add: dist assms)
  then show ?thesis by simp
qed

end
