(* ===== verification/Errors.thy ===== *)
theory Errors
  imports PyVal
begin

section \<open>Typed errors\<close>

text \<open>
  \<open>core/errors.py\<close>: one constructor per exception class, the stable API code and the HTTP status of
  each, and the body the API returns.  Messages are the source's texts without their accents.
\<close>

datatype error_kind =
    ThotSecureError | ConfigError | ValidationError | AuthenticationError | PermissionDeniedError
  | NotFoundError | ConflictError | RateLimitedError | TargetNotAllowedError
  | ProtectedTargetError | RuleError | PolicyError | PlaybookError | ConnectorError
  | StorageError | AuditIntegrityError | DryRunRefused | AutonomyRefused

fun error_code :: "error_kind \<Rightarrow> string" where
  "error_code ThotSecureError = ''internal_error''"
| "error_code ConfigError = ''config_error''"
| "error_code ValidationError = ''validation_error''"
| "error_code AuthenticationError = ''unauthenticated''"
| "error_code PermissionDeniedError = ''forbidden''"
| "error_code NotFoundError = ''not_found''"
| "error_code ConflictError = ''conflict''"
| "error_code RateLimitedError = ''rate_limited''"
| "error_code TargetNotAllowedError = ''target_not_allowed''"
| "error_code ProtectedTargetError = ''protected_target''"
| "error_code RuleError = ''rule_error''"
| "error_code PolicyError = ''policy_error''"
| "error_code PlaybookError = ''playbook_error''"
| "error_code ConnectorError = ''connector_error''"
| "error_code StorageError = ''storage_error''"
| "error_code AuditIntegrityError = ''audit_integrity_error''"
| "error_code DryRunRefused = ''dry_run_refused''"
| "error_code AutonomyRefused = ''autonomy_refused''"

fun http_status :: "error_kind \<Rightarrow> int" where
  "http_status ThotSecureError = 500"
| "http_status ConfigError = 500"
| "http_status ValidationError = 422"
| "http_status AuthenticationError = 401"
| "http_status PermissionDeniedError = 403"
| "http_status NotFoundError = 404"
| "http_status ConflictError = 409"
| "http_status RateLimitedError = 429"
| "http_status TargetNotAllowedError = 403"
| "http_status ProtectedTargetError = 403"
| "http_status RuleError = 422"
| "http_status PolicyError = 422"
| "http_status PlaybookError = 422"
| "http_status ConnectorError = 502"
| "http_status StorageError = 500"
| "http_status AuditIntegrityError = 500"
| "http_status DryRunRefused = 409"
| "http_status AutonomyRefused = 409"

text \<open>
  An exception of the product: its class, its message, its details (\<open>retry_after\<close> of
  \<open>RateLimitedError\<close> is an attribute of its own); or one the Python library raises, by the name of
  its class and its text.
\<close>

datatype exn =
    Exn (exn_kind: error_kind) (exn_message: string) (exn_details: dict)
        (exn_retry_after: "int option")
  | Foreign (exn_class: string) (exn_text: string)

abbreviation Err :: "error_kind \<Rightarrow> string \<Rightarrow> dict \<Rightarrow> exn" where
  "Err k m d \<equiv> Exn k m d None"

fun to_dict :: "exn \<Rightarrow> dict" where
  "to_dict (Exn k m d _) =
     [(''error'', PDict [(''code'', PStr (error_code k)), (''message'', PStr m),
        (''details'', PDict d)])]"
| "to_dict (Foreign c m) =
     [(''error'', PDict [(''code'', PStr ''internal_error''),
        (''message'', PStr ''erreur interne''), (''details'', PDict [])])]"

fun exn_str :: "exn \<Rightarrow> string" where
  "exn_str (Exn k m d _) =
     ''['' @ error_code k @ ''] '' @ m
       @ (if d = [] then [] else '' ('' @ py_repr (PDict d) @ '')'')"
| "exn_str (Foreign c m) = m"

text \<open>The code of a class identifies it: clients can dispatch on it.\<close>

lemma error_code_inj: "error_code a = error_code b \<longleftrightarrow> a = b"
  by (cases a; cases b) simp_all

end
