(* ===== verification/IpAddr.thy ===== *)
theory IpAddr
  imports Prelude
begin

section \<open>IP addresses and networks\<close>

text \<open>
  The part of the standard library's \<open>ipaddress\<close> the safety guards rest on: \<open>ip_address\<close>,
  \<open>ip_network(strict=False)\<close> and \<open>address in network\<close>, followed by the predicates of
  \<open>core/util.py\<close> built on them.  An address is an unsigned integer with its version; a network is a
  base address and a prefix length.  Parsing failures (\<open>ValueError\<close>) are \<^const>\<open>None\<close>.
\<close>

datatype ip = IPv4 int | IPv6 int

datatype ip_net = IPNet (net_bits: nat) (net_base: int) (net_plen: nat)

subsection \<open>Addresses\<close>

text \<open>Four decimal octets, one to three digits each, without leading zeros.\<close>

definition parse_octet :: "string \<Rightarrow> int option" where
  "parse_octet s =
     (if s = [] \<or> \<not> list_all is_digit s \<or> 3 < length s then None
      else if s \<noteq> ''0'' \<and> hd s = CHR ''0'' then None
      else if 255 < digits_val s then None
      else Some (digits_val s))"

definition parse_ipv4 :: "string \<Rightarrow> int option" where
  "parse_ipv4 s =
     (case split_on (CHR ''.'') s of
        [a, b, c, d] \<Rightarrow>
          (case (parse_octet a, parse_octet b, parse_octet c, parse_octet d) of
             (Some w, Some x, Some y, Some z) \<Rightarrow> Some (((w * 256 + x) * 256 + y) * 256 + z)
           | _ \<Rightarrow> None)
      | _ \<Rightarrow> None)"

definition hex_val :: "char \<Rightarrow> int option" where
  "hex_val c =
     (if is_digit c then Some (code c - 48)
      else if 97 \<le> code c \<and> code c \<le> 102 then Some (code c - 87)
      else if 65 \<le> code c \<and> code c \<le> 70 then Some (code c - 55)
      else None)"

fun hex_vals :: "int \<Rightarrow> string \<Rightarrow> int option" where
  "hex_vals n [] = Some n"
| "hex_vals n (c # cs) = (case hex_val c of None \<Rightarrow> None | Some d \<Rightarrow> hex_vals (16 * n + d) cs)"

definition parse_hextet :: "string \<Rightarrow> int option" where
  "parse_hextet s = (if s = [] \<or> 4 < length s then None else hex_vals 0 s)"

fun hextets :: "int \<Rightarrow> string list \<Rightarrow> int option" where
  "hextets n [] = Some n"
| "hextets n (s # ss) =
     (case parse_hextet s of None \<Rightarrow> None | Some d \<Rightarrow> hextets (65536 * n + d) ss)"

text \<open>The positions strictly inside the list of parts that are empty: one at most, from \<open>::\<close>.\<close>

definition inner_empty :: "string list \<Rightarrow> nat list" where
  "inner_empty parts = filter (\<lambda>i. parts ! i = []) [1..<length parts - 1]"

definition hex_str :: "int \<Rightarrow> string" where
  "hex_str n = map (\<lambda>k. char_of (let d = n div 16 ^ k mod 16 in if d < 10 then 48 + d else 87 + d)) [3, 2, 1, 0]"

definition expand_v4_tail :: "string list \<Rightarrow> string list option" where
  "expand_v4_tail parts =
     (if CHR ''.'' \<in> set (last parts)
      then (case parse_ipv4 (last parts) of
              None \<Rightarrow> None
            | Some n \<Rightarrow> Some (butlast parts @ [hex_str (n div 65536), hex_str (n mod 65536)]))
      else Some parts)"

definition assemble_ipv6 :: "string list \<Rightarrow> int option" where
  "assemble_ipv6 parts =
     (if 9 < length parts then None
      else case inner_empty parts of
        [] \<Rightarrow>
          if length parts \<noteq> 8 \<or> hd parts = [] \<or> last parts = [] then None else hextets 0 parts
      | [i] \<Rightarrow>
          let hi = (if hd parts = [] then i - 1 else i);
              lo0 = length parts - i - 1;
              lo = (if last parts = [] then lo0 - 1 else lo0)
          in if hd parts = [] \<and> hi \<noteq> 0 \<or> last parts = [] \<and> lo \<noteq> 0 then None
             else if 8 < hi + lo + 1 then None
             else (case hextets 0 (take hi parts) of
                     None \<Rightarrow> None
                   | Some n \<Rightarrow>
                       hextets (n * 65536 ^ (8 - (hi + lo))) (drop (length parts - lo) parts))
      | _ \<Rightarrow> None)"

definition parse_ipv6 :: "string \<Rightarrow> int option" where
  "parse_ipv6 s0 =
     (case split_first (CHR ''%'') s0 of
        (s, scope) \<Rightarrow>
          if (case scope of None \<Rightarrow> False | Some z \<Rightarrow> z = [] \<or> CHR ''%'' \<in> set z) then None
          else let parts = split_on (CHR '':'') s
               in if length parts < 3 then None
                  else case expand_v4_tail parts of
                         None \<Rightarrow> None | Some ps \<Rightarrow> assemble_ipv6 ps)"

definition ip_address :: "string \<Rightarrow> ip option" where
  "ip_address s =
     (if CHR ''/'' \<in> set s then None
      else case parse_ipv4 s of
             Some n \<Rightarrow> Some (IPv4 n)
           | None \<Rightarrow> map_option IPv6 (parse_ipv6 s))"

subsection \<open>Networks\<close>

definition prefix_digits :: "nat \<Rightarrow> string \<Rightarrow> nat option" where
  "prefix_digits w s =
     (if s = [] \<or> \<not> list_all is_digit s \<or> int w < digits_val s then None
      else Some (nat (digits_val s)))"

text \<open>A dotted netmask (or hostmask) of prefix length \<open>p\<close>.\<close>

definition prefix_mask :: "string \<Rightarrow> nat option" where
  "prefix_mask s =
     (case parse_ipv4 s of
        None \<Rightarrow> None
      | Some m \<Rightarrow>
          (case find (\<lambda>p. m = 2 ^ 32 - 2 ^ (32 - p)) [0..<33] of
             Some p \<Rightarrow> Some p
           | None \<Rightarrow> find (\<lambda>p. m = 2 ^ (32 - p) - 1) [0..<33]))"

definition base_of :: "nat \<Rightarrow> nat \<Rightarrow> int \<Rightarrow> int" where
  "base_of w p n = n div 2 ^ (w - p) * 2 ^ (w - p)"

definition net4 :: "string \<Rightarrow> string option \<Rightarrow> ip_net option" where
  "net4 a p =
     (case parse_ipv4 a of
        None \<Rightarrow> None
      | Some n \<Rightarrow>
          (case p of
             None \<Rightarrow> Some (IPNet 32 n 32)
           | Some t \<Rightarrow>
               (case (case prefix_digits 32 t of Some k \<Rightarrow> Some k | None \<Rightarrow> prefix_mask t) of
                  None \<Rightarrow> None
                | Some k \<Rightarrow> Some (IPNet 32 (base_of 32 k n) k))))"

definition net6 :: "string \<Rightarrow> string option \<Rightarrow> ip_net option" where
  "net6 a p =
     (case parse_ipv6 a of
        None \<Rightarrow> None
      | Some n \<Rightarrow>
          (case p of
             None \<Rightarrow> Some (IPNet 128 n 128)
           | Some t \<Rightarrow>
               (case prefix_digits 128 t of
                  None \<Rightarrow> None
                | Some k \<Rightarrow> Some (IPNet 128 (base_of 128 k n) k))))"

definition ip_network :: "string \<Rightarrow> ip_net option" where
  "ip_network s =
     (case split_first (CHR ''/'') s of
        (a, p) \<Rightarrow>
          if (case p of None \<Rightarrow> False | Some t \<Rightarrow> CHR ''/'' \<in> set t) then None
          else case net4 a p of Some n \<Rightarrow> Some n | None \<Rightarrow> net6 a p)"

fun ip_in_net :: "ip \<Rightarrow> ip_net \<Rightarrow> bool" where
  "ip_in_net (IPv4 n) net = (net_bits net = 32 \<and> base_of 32 (net_plen net) n = net_base net)"
| "ip_in_net (IPv6 n) net = (net_bits net = 128 \<and> base_of 128 (net_plen net) n = net_base net)"

subsection \<open>Predicates of \<open>core/util.py\<close>\<close>

definition is_valid_ip :: "string \<Rightarrow> bool" where
  "is_valid_ip v \<longleftrightarrow> ip_address (str_strip v) \<noteq> None"

definition is_valid_cidr :: "string \<Rightarrow> bool" where
  "is_valid_cidr v \<longleftrightarrow> ip_network (str_strip v) \<noteq> None"

fun any_net :: "ip \<Rightarrow> string list \<Rightarrow> bool" where
  "any_net a [] = False"
| "any_net a (c # cs) =
     (case ip_network (str_strip c) of
        None \<Rightarrow> any_net a cs
      | Some net \<Rightarrow> if ip_in_net a net then True else any_net a cs)"

definition ip_in_cidrs :: "string \<Rightarrow> string list \<Rightarrow> bool" where
  "ip_in_cidrs v cidrs =
     (case ip_address (str_strip v) of None \<Rightarrow> False | Some a \<Rightarrow> any_net a cidrs)"

subsection \<open>What the predicates mean\<close>

lemma any_net_iff:
  "any_net a cs \<longleftrightarrow> (\<exists>c \<in> set cs. \<exists>net. ip_network (str_strip c) = Some net \<and> ip_in_net a net)"
  by (induction cs) (auto split: option.splits)

lemma ip_in_cidrs_iff:
  "ip_in_cidrs v cs \<longleftrightarrow>
     (\<exists>a. ip_address (str_strip v) = Some a \<and>
        (\<exists>c \<in> set cs. \<exists>net. ip_network (str_strip c) = Some net \<and> ip_in_net a net))"
  by (auto simp: ip_in_cidrs_def any_net_iff split: option.splits)

lemma ip_in_cidrs_valid: "ip_in_cidrs v cs \<Longrightarrow> is_valid_ip v"
  by (auto simp: ip_in_cidrs_iff is_valid_ip_def)

lemma ip_in_cidrs_Nil [simp]: "\<not> ip_in_cidrs v []"
  by (simp add: ip_in_cidrs_iff)

lemma ip_in_cidrs_append: "ip_in_cidrs v (cs @ ds) \<longleftrightarrow> ip_in_cidrs v cs \<or> ip_in_cidrs v ds"
  by (auto simp: ip_in_cidrs_iff)

lemma strip_with_keeps: "x \<in> set s \<Longrightarrow> \<not> p x \<Longrightarrow> x \<in> set (strip_with p s)"
proof -
  have dw: "x \<in> set t \<Longrightarrow> \<not> p x \<Longrightarrow> x \<in> set (dropWhile p t)" for t
    by (induction t) auto
  assume "x \<in> set s" "\<not> p x"
  then show ?thesis by (simp add: strip_with_def dw)
qed

text \<open>A range written with a slash is not an address: no list of ranges contains it.\<close>

lemma slash_not_address: "CHR ''/'' \<in> set v \<Longrightarrow> ip_address (str_strip v) = None"
proof -
  assume "CHR ''/'' \<in> set v"
  moreover have "\<not> is_space (CHR ''/'')" by (simp add: is_space_def code_def)
  ultimately have "CHR ''/'' \<in> set (str_strip v)"
    unfolding str_strip_def by (rule strip_with_keeps)
  then show ?thesis by (simp add: ip_address_def)
qed

lemma slash_not_in_cidrs: "CHR ''/'' \<in> set v \<Longrightarrow> \<not> ip_in_cidrs v cs"
  by (simp add: ip_in_cidrs_def slash_not_address)

text \<open>Membership compares the leading bits, whatever the low bits of the base were.\<close>

lemma base_of_eq_iff:
  "base_of w k m = base_of w k n \<longleftrightarrow> m div 2 ^ (w - k) = n div 2 ^ (w - k)"
  by (simp add: base_of_def)

lemma base_of_full [simp]: "base_of w w n = n"
  by (simp add: base_of_def)

lemma digits_val_nonneg: "list_all is_digit s \<Longrightarrow> 0 \<le> digits_val s"
proof (induction s rule: rev_induct)
  case (snoc c s)
  then show ?case by (auto simp: digits_val_append is_digit_def)
qed (simp add: digits_val_def)

lemma parse_octet_range: "parse_octet s = Some n \<Longrightarrow> 0 \<le> n \<and> n \<le> 255"
  by (auto simp: parse_octet_def digits_val_nonneg split: if_splits)

lemma parse_ipv4_range:
  assumes "parse_ipv4 s = Some n" shows "0 \<le> n \<and> n < 2 ^ 32"
proof -
  obtain a b c d w x y z where
    oct: "parse_octet a = Some w" "parse_octet b = Some x" "parse_octet c = Some y"
      "parse_octet d = Some z" and n: "n = ((w * 256 + x) * 256 + y) * 256 + z"
    using assms by (auto simp: parse_ipv4_def split: list.splits option.splits)
  show ?thesis
    using oct [THEN parse_octet_range] by (simp add: n)
qed

end
