(* ===== verification/Models.thy ===== *)
theory Models
  imports Errors IpAddr
begin

section \<open>Domain model\<close>

text \<open>
  \<open>core/models.py\<close>: the literal types as enumerations with the text they stand for, the models as
  records in the source's field order, and the validators as functions that return the normalised
  value or the error message.  A field named \<open>x\<close> of a model \<open>M\<close> carries a short prefix of \<open>M\<close>,
  because record selectors share one name space.
\<close>

subsection \<open>Literal types\<close>

datatype severity = Info | Low | Medium | High | Critical

datatype decision_kind = Auto | Require_approval | Notify_only | Ignore

datatype action_status =
    Planned | Pending_approval | Approved | Rejected | Executing | Succeeded | Failed | Expired
  | Rolled_back

datatype finding_status = Open | Acked | Closed | Suppressed

datatype event_kind =
    Http_request | Http_response | Log_line | Tls_cert | Dependency | Config_audit | Syslog
  | Anomaly | Generic

datatype source_type =
    Src_web_probe | Src_log_tail | Src_dependency | Src_webhook | Src_syslog | Src_tls_cert
  | Src_config_audit | Src_baseline | Src_manual | Src_demo

datatype role = Viewer | Analyst | Responder | Admin

datatype tenant_mode = Mode_manual | Mode_supervised | Mode_auto

datatype action_mode = Act_auto | Act_manual

datatype target_type =
    T_ip | T_cidr | T_host | T_url | T_user | T_session | T_file | T_package | T_secret | T_other

fun severity_str :: "severity \<Rightarrow> string" where
  "severity_str Info = ''info''"
| "severity_str Low = ''low''"
| "severity_str Medium = ''medium''"
| "severity_str High = ''high''"
| "severity_str Critical = ''critical''"

fun decision_str :: "decision_kind \<Rightarrow> string" where
  "decision_str Auto = ''auto''"
| "decision_str Require_approval = ''require_approval''"
| "decision_str Notify_only = ''notify_only''"
| "decision_str Ignore = ''ignore''"

fun status_str :: "action_status \<Rightarrow> string" where
  "status_str Planned = ''planned''"
| "status_str Pending_approval = ''pending_approval''"
| "status_str Approved = ''approved''"
| "status_str Rejected = ''rejected''"
| "status_str Executing = ''executing''"
| "status_str Succeeded = ''succeeded''"
| "status_str Failed = ''failed''"
| "status_str Expired = ''expired''"
| "status_str Rolled_back = ''rolled_back''"

fun finding_status_str :: "finding_status \<Rightarrow> string" where
  "finding_status_str Open = ''open''"
| "finding_status_str Acked = ''acked''"
| "finding_status_str Closed = ''closed''"
| "finding_status_str Suppressed = ''suppressed''"

fun event_kind_str :: "event_kind \<Rightarrow> string" where
  "event_kind_str Http_request = ''http.request''"
| "event_kind_str Http_response = ''http.response''"
| "event_kind_str Log_line = ''log.line''"
| "event_kind_str Tls_cert = ''tls.cert''"
| "event_kind_str Dependency = ''dependency''"
| "event_kind_str Config_audit = ''config.audit''"
| "event_kind_str Syslog = ''syslog''"
| "event_kind_str Anomaly = ''anomaly''"
| "event_kind_str Generic = ''generic''"

fun source_type_str :: "source_type \<Rightarrow> string" where
  "source_type_str Src_web_probe = ''web_probe''"
| "source_type_str Src_log_tail = ''log_tail''"
| "source_type_str Src_dependency = ''dependency''"
| "source_type_str Src_webhook = ''webhook''"
| "source_type_str Src_syslog = ''syslog''"
| "source_type_str Src_tls_cert = ''tls_cert''"
| "source_type_str Src_config_audit = ''config_audit''"
| "source_type_str Src_baseline = ''baseline''"
| "source_type_str Src_manual = ''manual''"
| "source_type_str Src_demo = ''demo''"

fun role_str :: "role \<Rightarrow> string" where
  "role_str Viewer = ''viewer''"
| "role_str Analyst = ''analyst''"
| "role_str Responder = ''responder''"
| "role_str Admin = ''admin''"

fun mode_str :: "tenant_mode \<Rightarrow> string" where
  "mode_str Mode_manual = ''manual''"
| "mode_str Mode_supervised = ''supervised''"
| "mode_str Mode_auto = ''auto''"

fun action_mode_str :: "action_mode \<Rightarrow> string" where
  "action_mode_str Act_auto = ''auto''"
| "action_mode_str Act_manual = ''manual''"

fun target_type_str :: "target_type \<Rightarrow> string" where
  "target_type_str T_ip = ''ip''"
| "target_type_str T_cidr = ''cidr''"
| "target_type_str T_host = ''host''"
| "target_type_str T_url = ''url''"
| "target_type_str T_user = ''user''"
| "target_type_str T_session = ''session''"
| "target_type_str T_file = ''file''"
| "target_type_str T_package = ''package''"
| "target_type_str T_secret = ''secret''"
| "target_type_str T_other = ''other''"

subsection \<open>Severities\<close>

definition SEVERITY_ORDER :: "(string \<times> int) list" where
  "SEVERITY_ORDER = [(''info'', 0), (''low'', 1), (''medium'', 2), (''high'', 3), (''critical'', 4)]"

definition severity_rank :: "string option \<Rightarrow> int" where
  "severity_rank s =
     (let t = (case s of None \<Rightarrow> ''info'' | Some v \<Rightarrow> if v = [] then ''info'' else v)
      in case map_of SEVERITY_ORDER (str_lower t) of None \<Rightarrow> 0 | Some r \<Rightarrow> r)"

definition severity_at_least :: "string option \<Rightarrow> string \<Rightarrow> bool" where
  "severity_at_least v m \<longleftrightarrow> severity_rank (Some m) \<le> severity_rank v"

fun max_severity_from :: "string \<Rightarrow> string option list \<Rightarrow> string" where
  "max_severity_from best [] = best"
| "max_severity_from best (v # vs) =
     (if severity_rank v > severity_rank (Some best)
      then max_severity_from (str_lower (case v of None \<Rightarrow> ''None'' | Some s \<Rightarrow> s)) vs
      else max_severity_from best vs)"

definition max_severity :: "string option list \<Rightarrow> string" where
  "max_severity = max_severity_from ''info''"

subsection \<open>Events\<close>

record event_source =
  src_type :: source_type
  src_name :: "string option"
  src_host :: "string option"

record event =
  ev_id :: string
  ev_tenant :: string
  ev_ts :: time
  ev_kind :: event_kind
  ev_source :: event_source
  ev_hint :: "severity option"
  ev_labels :: dict
  ev_payload :: dict
  ev_raw_ref :: "string option"

fun is_scalar :: "pyval \<Rightarrow> bool" where
  "is_scalar (PDict _) = False"
| "is_scalar (PList _) = False"
| "is_scalar _ = True"

text \<open>
  \<open>Event._validate_labels\<close>: labels stay flat, and a text label is cut to 1024 characters.
\<close>

fun validate_labels :: "dict \<Rightarrow> string + dict" where
  "validate_labels [] = Inr []"
| "validate_labels ((k, v) # rest) =
     (if \<not> is_scalar v then Inl (''labels.'' @ k @ '' doit etre scalaire'')
      else case validate_labels rest of
             Inl e \<Rightarrow> Inl e
           | Inr flat \<Rightarrow> Inr ((k, case v of PStr s \<Rightarrow> PStr (take 1024 s) | _ \<Rightarrow> v) # flat))"

definition validate_event_tenant :: "string \<Rightarrow> string + string" where
  "validate_event_tenant v =
     (let c = str_lower (str_strip v)
      in if c = [] \<or> 64 < length c then Inl ''tenant_id invalide (1-64 caracteres)'' else Inr c)"

definition opt_str :: "string option \<Rightarrow> pyval" where
  "opt_str v = (case v of None \<Rightarrow> PNone | Some s \<Rightarrow> PStr s)"

text \<open>\<open>event.model_dump(mode="python")\<close>: the dictionary the rules are evaluated on.\<close>

definition event_dump :: "event \<Rightarrow> pyval" where
  "event_dump e = PDict
     [(''event_id'', PStr (ev_id e)),
      (''schema_version'', PStr ''1''),
      (''tenant_id'', PStr (ev_tenant e)),
      (''ts'', PTime (ev_ts e)),
      (''kind'', PStr (event_kind_str (ev_kind e))),
      (''source'', PDict [(''type'', PStr (source_type_str (src_type (ev_source e)))),
                          (''name'', opt_str (src_name (ev_source e))),
                          (''host'', opt_str (src_host (ev_source e)))]),
      (''severity_hint'', opt_str (map_option severity_str (ev_hint e))),
      (''labels'', PDict (ev_labels e)),
      (''payload'', PDict (ev_payload e)),
      (''raw_ref'', opt_str (ev_raw_ref e))]"

subsection \<open>Findings and risk\<close>

record finding =
  f_id :: string
  f_tenant :: string
  f_rule_id :: string
  f_rule_name :: string
  f_severity :: severity
  f_risk_score :: rat
  f_confidence :: rat
  f_status :: finding_status
  f_title :: string
  f_description :: string
  f_remediation :: string
  f_tags :: "string list"
  f_mitre :: "string list"
  f_evidence :: dict
  f_first_seen :: time
  f_last_seen :: time
  f_count :: int
  f_event_ids :: "string list"
  f_created_at :: time
  f_updated_at :: time
  f_dedup_key :: string
  f_resolution :: "string option"
  f_comment :: "string option"

definition clamp_score :: "rat \<Rightarrow> rat" where
  "clamp_score v = max 0 (min 100 (py_round 2 v))"

definition clamp_confidence :: "rat \<Rightarrow> rat" where
  "clamp_confidence v = max 0 (min 1 v)"

record risk_breakdown =
  rb_base :: rat
  rb_severity_factor :: rat
  rb_confidence_factor :: rat
  rb_asset_factor :: rat
  rb_repetition_factor :: rat
  rb_final :: rat
  rb_formula :: string
  rb_steps :: "string list"

subsection \<open>Decisions\<close>

record decision =
  d_decision :: decision_kind
  d_policy_id :: "string option"
  d_playbook :: "string option"
  d_params :: dict
  d_reason :: string
  d_risk_score :: rat
  d_expires_at :: "time option"
  d_cooldown :: "int option"
  d_dry_run :: bool
  d_evaluated :: "string list"
  d_guards :: "string list"

text \<open>\<open>bool(self.playbook)\<close> is false for a missing and for an empty name.\<close>

definition opt_truthy :: "string option \<Rightarrow> bool" where
  "opt_truthy v \<longleftrightarrow> v \<noteq> None \<and> v \<noteq> Some []"

definition triggers_action :: "decision \<Rightarrow> bool" where
  "triggers_action d \<longleftrightarrow> d_decision d \<in> {Auto, Require_approval} \<and> opt_truthy (d_playbook d)"

subsection \<open>Actions\<close>

record action_target =
  tgt_type :: target_type
  tgt_value :: string

definition target_str :: "action_target \<Rightarrow> string" where
  "target_str t = target_type_str (tgt_type t) @ '':'' @ tgt_value t"

record action_rollback =
  r_available :: bool
  r_token :: "string option"
  r_performed_at :: "time option"
  r_result :: "dict option"
  r_expires_at :: "time option"
  r_auto_after :: "int option"

definition new_rollback :: "bool \<Rightarrow> action_rollback" where
  "new_rollback available =
     \<lparr>r_available = available, r_token = None, r_performed_at = None, r_result = None,
      r_expires_at = None, r_auto_after = None\<rparr>"

record action =
  a_id :: string
  a_tenant :: string
  a_finding_id :: "string option"
  a_policy_id :: "string option"
  a_playbook :: string
  a_status :: action_status
  a_mode :: action_mode
  a_dry_run :: bool
  a_params :: dict
  a_target :: action_target
  a_requested_by :: string
  a_requested_at :: time
  a_approved_by :: "string option"
  a_approved_at :: "time option"
  a_rejected_by :: "string option"
  a_rejected_at :: "time option"
  a_executed_at :: "time option"
  a_expires_at :: "time option"
  a_result :: "dict option"
  a_rollback :: action_rollback
  a_idempotency_key :: string
  a_audit_seq :: "int option"
  a_reason :: string

definition is_terminal :: "action \<Rightarrow> bool" where
  "is_terminal a \<longleftrightarrow> a_status a \<in> {Succeeded, Failed, Rejected, Expired, Rolled_back}"

definition can_execute :: "action \<Rightarrow> bool" where
  "can_execute a \<longleftrightarrow> a_status a \<in> {Planned, Approved}"

definition to_audit_dict :: "action \<Rightarrow> dict" where
  "to_audit_dict a =
     [(''action_id'', PStr (a_id a)),
      (''playbook'', PStr (a_playbook a)),
      (''status'', PStr (status_str (a_status a))),
      (''dry_run'', PBool (a_dry_run a)),
      (''mode'', PStr (action_mode_str (a_mode a))),
      (''target'', PStr (target_str (a_target a)))]"

subsection \<open>Tenants, keys, principals\<close>

record tenant =
  t_id :: string
  t_name :: string
  t_mode :: tenant_mode
  t_dry_run :: bool
  t_allowlist :: "string list"
  t_protected :: "string list"
  t_max_actions :: int
  t_cooldown :: int
  t_criticality :: rat
  t_created_at :: time
  t_updated_at :: time

definition is_alnum :: "char \<Rightarrow> bool" where
  "is_alnum c \<longleftrightarrow> is_digit c \<or> is_upper c \<or> is_lower c"

definition validate_tenant_id :: "string \<Rightarrow> string + string" where
  "validate_tenant_id v =
     (let c = str_lower (str_strip v)
      in if c = [] \<or> 64 < length c then Inl ''tenant_id invalide (1-64 caracteres)''
         else if \<not> list_all (\<lambda>ch. is_alnum ch \<or> ch \<in> {CHR ''-'', CHR ''_''}) c
           then Inl ''tenant_id : alphanumeriques, tiret et souligne uniquement''
         else Inr c)"

definition clamp_criticality :: "rat \<Rightarrow> rat" where
  "clamp_criticality v = max (1 / 10) (min 3 v)"

text \<open>An empty allowlist is tolerant; otherwise a target is required and must be in it.\<close>

definition allows_automation_for :: "tenant \<Rightarrow> string option \<Rightarrow> bool" where
  "allows_automation_for t v =
     (if t_allowlist t = [] then True
      else case v of
             None \<Rightarrow> False
           | Some s \<Rightarrow> if s = [] then False else ip_in_cidrs s (t_allowlist t))"

definition tenant_is_protected :: "tenant \<Rightarrow> string option \<Rightarrow> bool" where
  "tenant_is_protected t v =
     (case v of
        None \<Rightarrow> False
      | Some s \<Rightarrow> if s = [] \<or> t_protected t = [] then False else ip_in_cidrs s (t_protected t))"

record api_key =
  k_id :: string
  k_tenant :: string
  k_label :: string
  k_role :: role
  k_prefix :: string
  k_created_at :: time
  k_last_used_at :: "time option"
  k_revoked_at :: "time option"
  k_hash :: string

definition key_active :: "api_key \<Rightarrow> bool" where
  "key_active k \<longleftrightarrow> k_revoked_at k = None"

record principal =
  pr_tenant :: string
  pr_role :: string
  pr_key_id :: "string option"
  pr_label :: string
  pr_capabilities :: "string list"
  pr_authenticated :: bool

definition actor :: "principal \<Rightarrow> string" where
  "actor p =
     (if opt_truthy (pr_key_id p) then ''api-key:'' @ the (pr_key_id p)
      else ''console:'' @ pr_tenant p)"

definition can :: "principal \<Rightarrow> string \<Rightarrow> bool" where
  "can p c \<longleftrightarrow> c \<in> set (pr_capabilities p)"

subsection \<open>Detection rules\<close>

datatype operator =
    Op_eq | Op_ne | Op_gt | Op_gte | Op_lt | Op_lte | Op_in | Op_not_in | Op_contains
  | Op_icontains | Op_startswith | Op_endswith | Op_regex | Op_exists | Op_cidr | Op_len_gt
  | Op_len_lt

record condition =
  c_field :: string
  c_op :: operator
  c_value :: pyval
  c_case_sensitive :: bool
  c_negate :: bool

definition validate_field :: "string \<Rightarrow> string + string" where
  "validate_field v =
     (let c = str_strip v
      in if c = [] then Inl ''field ne peut pas etre vide''
         else if prefix ''$'' c \<or> sublist ''..'' c
           then Inl (''chemin de champ invalide: '' @ repr_str c)
         else Inr c)"

record threshold =
  th_count :: int
  th_window :: int
  th_group_by :: "string list"

definition validate_threshold :: "threshold \<Rightarrow> string + threshold" where
  "validate_threshold th =
     (if th_count th < 1 then Inl ''threshold.count doit etre >= 1''
      else if th_window th < 1 \<or> 86400 < th_window th
        then Inl ''threshold.window_seconds doit etre dans [1, 86400]''
      else Inr th)"

record match_spec =
  ms_all :: "condition list"
  ms_any :: "condition list"
  ms_not :: "condition list"
  ms_threshold :: "threshold option"

definition match_is_empty :: "match_spec \<Rightarrow> bool" where
  "match_is_empty m \<longleftrightarrow> ms_all m = [] \<and> ms_any m = [] \<and> ms_not m = []"

record rule_dedup =
  dd_key :: "string list"
  dd_ttl :: int

definition validate_ttl :: "int \<Rightarrow> string + int" where
  "validate_ttl v =
     (if v < 1 \<or> 30 * 86400 < v then Inl ''dedup.ttl_seconds doit etre dans [1, 2592000]''
      else Inr v)"

record rule_risk =
  rk_base :: "rat option"
  rk_criticality :: rat

definition clamp_base :: "rat option \<Rightarrow> rat option" where
  "clamp_base v = map_option (\<lambda>x. max 0 (min 100 x)) v"

datatype rule_status = Draft | Test | Stable | Deprecated

record rule =
  ru_id :: string
  ru_title :: string
  ru_description :: string
  ru_status :: rule_status
  ru_severity :: severity
  ru_confidence :: rat
  ru_enabled :: bool
  ru_tags :: "string list"
  ru_source_types :: "source_type list"
  ru_kinds :: "event_kind list"
  ru_match :: match_spec
  ru_dedup :: rule_dedup
  ru_risk :: rule_risk
  ru_false_positives :: "string list"
  ru_remediation :: string
  ru_references :: "string list"
  ru_path :: "string option"
  ru_sigma :: bool

definition validate_rule_id :: "string \<Rightarrow> string + string" where
  "validate_rule_id v =
     (let c = str_upper (str_strip v)
      in if c = [] then Inl ''id est obligatoire''
         else if 80 < length c then Inl ''id trop long (max 80)''
         else Inr c)"

definition validate_semantics :: "rule \<Rightarrow> string + rule" where
  "validate_semantics r =
     (if match_is_empty (ru_match r)
        then Inl ''match doit definir au moins une condition dans all/any/not''
      else if str_strip (ru_title r) = [] then Inl ''title est obligatoire''
      else if ru_severity r \<in> {High, Critical} \<and> str_strip (ru_remediation r) = []
        then Inl (''la regle '' @ ru_id r @ '' est de severite '' @ severity_str (ru_severity r)
                  @ '' : remediation est obligatoire'')
      else Inr r)"

subsection \<open>Decision policies\<close>

record policy_then =
  pt_decision :: decision_kind
  pt_playbook :: "string option"
  pt_params :: dict
  pt_dry_run :: "bool option"
  pt_cooldown :: "int option"
  pt_max_actions :: "int option"

definition validate_then :: "policy_then \<Rightarrow> string + policy_then" where
  "validate_then t =
     (if pt_decision t \<in> {Auto, Require_approval} \<and> \<not> opt_truthy (pt_playbook t)
        then Inl (''then.decision='' @ decision_str (pt_decision t) @ '' exige then.playbook'')
      else Inr t)"

record policy =
  po_id :: string
  po_priority :: int
  po_description :: string
  po_enabled :: bool
  po_when :: dict
  po_then :: policy_then
  po_rollback_playbook :: "string option"
  po_rollback_after :: "int option"

definition validate_policy_id :: "string \<Rightarrow> string + string" where
  "validate_policy_id v =
     (let c = str_strip v
      in if c = [] \<or> 80 < length c then Inl ''id de politique invalide (1-80 caracteres)''
         else Inr c)"

subsection \<open>Playbooks\<close>

datatype param_type =
    Pt_string | Pt_integer | Pt_boolean | Pt_duration | Pt_ip | Pt_cidr | Pt_host | Pt_path
  | Pt_package | Pt_secret | Pt_url

record playbook_param =
  pp_type :: param_type
  pp_required :: bool
  pp_default :: pyval
  pp_description :: string
  pp_min :: "rat option"
  pp_max :: "rat option"
  pp_choices :: "string list option"

record playbook_step =
  st_connector :: string
  st_call :: string
  st_with :: dict
  st_optional :: bool

record playbook =
  pb_name :: string
  pb_description :: string
  pb_reversible :: bool
  pb_dry_run_capable :: bool
  pb_connectors :: "string list"
  pb_params :: "(string \<times> playbook_param) list"
  pb_execute :: "playbook_step list"
  pb_rollback :: "playbook_step list"

definition validate_playbook_name :: "string \<Rightarrow> string + string" where
  "validate_playbook_name v =
     (let c = str_strip v
      in if c = [] \<or> 80 < length c then Inl ''name de playbook invalide'' else Inr c)"

definition validate_reversibility :: "playbook \<Rightarrow> string + playbook" where
  "validate_reversibility p =
     (if pb_execute p = []
        then Inl (''le playbook '' @ pb_name p @ '' ne definit aucune etape d execution'')
      else if pb_reversible p \<and> pb_rollback p = []
        then Inl (''le playbook '' @ pb_name p
                  @ '' est marque reversible=true mais ne definit aucun rollback'')
      else Inr p)"

subsection \<open>Audit records\<close>

record audit_record =
  au_seq :: int
  au_ts :: time
  au_tenant :: string
  au_actor :: string
  au_actor_role :: string
  au_action :: string
  au_target :: dict
  au_before :: dict
  au_after :: dict
  au_prev_hash :: string
  au_hash :: string
  au_context :: dict

record verify_result =
  vr_valid :: bool
  vr_records :: int
  vr_broken_at :: "int option"
  vr_reason :: "string option"

subsection \<open>Lemmas on the literal types\<close>

text \<open>The rank read from the text of a severity is the position of the constructor.\<close>

fun sev_index :: "severity \<Rightarrow> int" where
  "sev_index Info = 0"
| "sev_index Low = 1"
| "sev_index Medium = 2"
| "sev_index High = 3"
| "sev_index Critical = 4"

lemma severity_rank_str [simp]: "severity_rank (Some (severity_str s)) = sev_index s"
  by (cases s; hypsubst; code_simp)

lemma severity_rank_range: "0 \<le> severity_rank s \<and> severity_rank s \<le> 4"
  by (auto simp: severity_rank_def SEVERITY_ORDER_def Let_def)

lemma status_str_inj: "status_str a = status_str b \<longleftrightarrow> a = b"
  by (cases a; cases b) simp_all

lemma clamp_score_range: "0 \<le> clamp_score v \<and> clamp_score v \<le> 100"
  by (simp add: clamp_score_def)

lemma tenant_protected_slash:
  "CHR ''/'' \<in> set s \<Longrightarrow> \<not> tenant_is_protected t (Some s)"
  by (simp add: tenant_is_protected_def slash_not_in_cidrs)

end
