(* ===== verification/Rbac.thy ===== *)
theory Rbac
  imports Models
begin

section \<open>Roles and capabilities\<close>

text \<open>
  \<open>tenancy/rbac.py\<close>: the capability table, its lookup (which fails closed on an unknown role), the
  check every protected entry point performs, and the construction of a principal.
\<close>

definition CAP_READ_EVENTS :: string where "CAP_READ_EVENTS = ''read:events''"
definition CAP_WRITE_EVENTS :: string where "CAP_WRITE_EVENTS = ''write:events''"
definition CAP_READ_FINDINGS :: string where "CAP_READ_FINDINGS = ''read:findings''"
definition CAP_WRITE_FINDINGS :: string where "CAP_WRITE_FINDINGS = ''write:findings''"
definition CAP_READ_RULES :: string where "CAP_READ_RULES = ''read:rules''"
definition CAP_READ_POLICIES :: string where "CAP_READ_POLICIES = ''read:policies''"
definition CAP_READ_AUDIT :: string where "CAP_READ_AUDIT = ''read:audit''"
definition CAP_READ_STATS :: string where "CAP_READ_STATS = ''read:stats''"
definition CAP_EXECUTE_ACTIONS :: string where "CAP_EXECUTE_ACTIONS = ''execute:actions''"
definition CAP_APPROVE_ACTIONS :: string where "CAP_APPROVE_ACTIONS = ''approve:actions''"
definition CAP_ADMIN_TENANTS :: string where "CAP_ADMIN_TENANTS = ''admin:tenants''"
definition CAP_ADMIN_KEYS :: string where "CAP_ADMIN_KEYS = ''admin:keys''"
definition CAP_ADMIN_RULES :: string where "CAP_ADMIN_RULES = ''admin:rules''"
definition CAP_ADMIN_POLICIES :: string where "CAP_ADMIN_POLICIES = ''admin:policies''"
definition CAP_ADMIN_SYSTEM :: string where "CAP_ADMIN_SYSTEM = ''admin:system''"

lemmas cap_defs =
  CAP_READ_EVENTS_def CAP_WRITE_EVENTS_def CAP_READ_FINDINGS_def CAP_WRITE_FINDINGS_def
  CAP_READ_RULES_def CAP_READ_POLICIES_def CAP_READ_AUDIT_def CAP_READ_STATS_def
  CAP_EXECUTE_ACTIONS_def CAP_APPROVE_ACTIONS_def CAP_ADMIN_TENANTS_def CAP_ADMIN_KEYS_def
  CAP_ADMIN_RULES_def CAP_ADMIN_POLICIES_def CAP_ADMIN_SYSTEM_def

definition ROLE_CAPABILITIES :: "(string \<times> string list) list" where
  "ROLE_CAPABILITIES =
     [(''viewer'',
        [CAP_READ_EVENTS, CAP_READ_FINDINGS, CAP_READ_RULES, CAP_READ_POLICIES, CAP_READ_AUDIT,
         CAP_READ_STATS]),
      (''analyst'',
        [CAP_READ_EVENTS, CAP_READ_FINDINGS, CAP_READ_RULES, CAP_READ_POLICIES, CAP_READ_AUDIT,
         CAP_READ_STATS, CAP_WRITE_EVENTS, CAP_WRITE_FINDINGS]),
      (''responder'',
        [CAP_READ_EVENTS, CAP_READ_FINDINGS, CAP_READ_RULES, CAP_READ_POLICIES, CAP_READ_AUDIT,
         CAP_READ_STATS, CAP_WRITE_EVENTS, CAP_WRITE_FINDINGS, CAP_EXECUTE_ACTIONS,
         CAP_APPROVE_ACTIONS]),
      (''admin'',
        [CAP_READ_EVENTS, CAP_READ_FINDINGS, CAP_READ_RULES, CAP_READ_POLICIES, CAP_READ_AUDIT,
         CAP_READ_STATS, CAP_WRITE_EVENTS, CAP_WRITE_FINDINGS, CAP_EXECUTE_ACTIONS,
         CAP_APPROVE_ACTIONS, CAP_ADMIN_TENANTS, CAP_ADMIN_KEYS, CAP_ADMIN_RULES,
         CAP_ADMIN_POLICIES, CAP_ADMIN_SYSTEM])]"

definition ALL_CAPABILITIES :: "string list" where
  "ALL_CAPABILITIES = remdups (concat (map snd ROLE_CAPABILITIES))"

definition capabilities_for :: "string \<Rightarrow> string list" where
  "capabilities_for r =
     (case map_of ROLE_CAPABILITIES (str_lower r) of None \<Rightarrow> [] | Some cs \<Rightarrow> cs)"

definition has_capability :: "string \<Rightarrow> string \<Rightarrow> bool" where
  "has_capability r c \<longleftrightarrow> c \<in> set (capabilities_for r)"

definition require_capability :: "string \<Rightarrow> string \<Rightarrow> string \<Rightarrow> exn + unit" where
  "require_capability r c act =
     (if has_capability r c then Inr ()
      else Inl (Err PermissionDeniedError
        (''le role '' @ r @ '' ne dispose pas de la capacite '' @ c)
        [(''required'', PStr c), (''role'', PStr r), (''actor'', PStr act)]))"

definition build_principal ::
  "string \<Rightarrow> string \<Rightarrow> string option \<Rightarrow> string \<Rightarrow> bool \<Rightarrow> principal" where
  "build_principal tenant r key label authenticated =
     \<lparr>pr_tenant = tenant, pr_role = r, pr_key_id = key, pr_label = label,
      pr_capabilities = capabilities_for r, pr_authenticated = authenticated\<rparr>"

definition role_matrix :: "(string \<times> string list) list" where
  "role_matrix = map (\<lambda>(r, cs). (r, sort cs)) (sort_key fst ROLE_CAPABILITIES)"

subsection \<open>Lemmas\<close>

lemma role_str_lower: "str_lower (role_str x) = role_str x"
  by (cases x; hypsubst; code_simp)

lemma capabilities_known:
  "str_lower r = role_str x \<Longrightarrow> capabilities_for r = capabilities_for (role_str x)"
  by (simp only: capabilities_for_def role_str_lower)

lemma capabilities_unknown:
  assumes "\<And>x. str_lower r \<noteq> role_str x"
  shows "capabilities_for r = []"
  using assms [of Viewer] assms [of Analyst] assms [of Responder] assms [of Admin]
  by (simp add: capabilities_for_def ROLE_CAPABILITIES_def)

fun role_index :: "role \<Rightarrow> nat" where
  "role_index Viewer = 0"
| "role_index Analyst = 1"
| "role_index Responder = 2"
| "role_index Admin = 3"

lemma cap_set_hierarchy:
  "set (capabilities_for (role_str Viewer)) \<subset> set (capabilities_for (role_str Analyst))"
  "set (capabilities_for (role_str Analyst)) \<subset> set (capabilities_for (role_str Responder))"
  "set (capabilities_for (role_str Responder)) \<subset> set (capabilities_for (role_str Admin))"
  by code_simp+

text \<open>
  The four roles form a chain of strictly growing privileges, the last of which holds every
  capability of the product.
\<close>

theorem role_hierarchy:
  "(role_index a < role_index b \<longleftrightarrow>
      set (capabilities_for (role_str a)) \<subset> set (capabilities_for (role_str b)))
   \<and> set (capabilities_for (role_str Admin)) = set ALL_CAPABILITIES"
proof
  let ?c = "\<lambda>x. set (capabilities_for (role_str x))"
  have chain: "?c Viewer \<subset> ?c Analyst" "?c Analyst \<subset> ?c Responder" "?c Responder \<subset> ?c Admin"
    by (fact cap_set_hierarchy)+
  have up: "?c x \<subset> ?c y" if "role_index x < role_index y" for x y
    using that chain by (cases x; cases y; (simp del: role_str.simps)?; blast)
  have inj: "x = y" if "role_index x = role_index y" for x y
    using that by (cases x; cases y; simp)
  show "role_index a < role_index b \<longleftrightarrow> ?c a \<subset> ?c b"
    using up [of a b] up [of b a] inj [of a b] by (metis nat_neq_iff order_less_asym psubset_eq)
  show "?c Admin = set ALL_CAPABILITIES"
    by code_simp
qed

text \<open>
  The check fails closed. It succeeds exactly when the lower-cased name is one of the four
  roles and that role carries the capability; otherwise it raises \<open>PermissionDeniedError\<close> (403), so
  that a name that is no role is refused every capability.
\<close>

theorem require_capability_correct:
  "if \<exists>x. str_lower r = role_str x \<and> c \<in> set (capabilities_for (role_str x))
   then require_capability r c act = Inr ()
   else \<exists>e. require_capability r c act = Inl e \<and> exn_kind e = PermissionDeniedError
        \<and> http_status (exn_kind e) = 403"
proof (cases "\<exists>x. str_lower r = role_str x")
  case True
  then obtain x where x: "str_lower r = role_str x" by blast
  moreover have "y = x" if "role_str x = role_str y" for y
    using that by (cases x; cases y; simp)
  ultimately show ?thesis
    using capabilities_known [OF x] by (auto simp: require_capability_def has_capability_def)
next
  case False
  then have "capabilities_for r = []" using capabilities_unknown by blast
  with False show ?thesis by (auto simp: require_capability_def has_capability_def)
qed

definition ADMIN_CAPABILITIES :: "string list" where
  "ADMIN_CAPABILITIES =
     [CAP_ADMIN_TENANTS, CAP_ADMIN_KEYS, CAP_ADMIN_RULES, CAP_ADMIN_POLICIES, CAP_ADMIN_SYSTEM]"

text \<open>
  Acting on the infrastructure is separated from reading it. Only \<open>responder\<close> and \<open>admin\<close> may
  execute or approve actions, only \<open>admin\<close> holds an administration capability, and a principal
  built for a role can do exactly what the role can.
\<close>

theorem action_capabilities_restricted:
  "(has_capability (role_str r) CAP_EXECUTE_ACTIONS \<longleftrightarrow> r \<in> {Responder, Admin})
   \<and> (has_capability (role_str r) CAP_APPROVE_ACTIONS \<longleftrightarrow> r \<in> {Responder, Admin})
   \<and> list_all (\<lambda>c. has_capability (role_str r) c \<longleftrightarrow> r = Admin) ADMIN_CAPABILITIES
   \<and> (can (build_principal t (role_str r) k l b) d \<longleftrightarrow> has_capability (role_str r) d)"
proof (intro conjI)
  show "can (build_principal t (role_str r) k l b) d \<longleftrightarrow> has_capability (role_str r) d"
    by (simp add: can_def build_principal_def has_capability_def)
qed (cases r; hypsubst; code_simp)+

end
