(* ===== verification/Risk.thy ===== *)
theory Risk
  imports Models
begin

section \<open>Explainable risk score\<close>

text \<open>
  \<open>scoring/risk.py\<close>.  The factors are rationals; the repetition factor goes through a base-10
  logarithm, so the product is a real number until it is clamped and rounded to two decimals.  The
  lemmas are the guarantees the module documents: the score is bounded, monotone in severity,
  confidence, criticality and repetition, with a repetition bonus that stops growing.
\<close>

subsection \<open>Definitions\<close>

definition clamp :: "'a::linorder \<Rightarrow> 'a \<Rightarrow> 'a \<Rightarrow> 'a" where
  "clamp v low high = max low (min high v)"

fun severity_base :: "severity \<Rightarrow> rat" where
  "severity_base Info = 8"
| "severity_base Low = 20"
| "severity_base Medium = 40"
| "severity_base High = 62"
| "severity_base Critical = 82"

definition RULE_BASE_WEIGHT :: rat where "RULE_BASE_WEIGHT = 18"

definition MAX_REPETITION_BONUS :: real where "MAX_REPETITION_BONUS = 1 / 2"

definition rule_base :: "rule \<Rightarrow> rat" where
  "rule_base r =
     severity_base (ru_severity r) +
       (case rk_base (ru_risk r) of None \<Rightarrow> 0 | Some b \<Rightarrow> b / 100 * RULE_BASE_WEIGHT)"

definition confidence_factor :: "rule \<Rightarrow> rat" where
  "confidence_factor r = 1 / 2 + 1 / 2 * clamp (ru_confidence r) 0 1"

definition criticality_of :: "tenant option \<Rightarrow> rat option \<Rightarrow> rat" where
  "criticality_of t c =
     (case c of Some x \<Rightarrow> x | None \<Rightarrow> (case t of Some u \<Rightarrow> t_criticality u | None \<Rightarrow> 1))"

definition asset_factor :: "rule \<Rightarrow> rat \<Rightarrow> rat" where
  "asset_factor r c = clamp (c * rk_criticality (ru_risk r)) (1 / 10) 3"

definition repetition_factor :: "int \<Rightarrow> real" where
  "repetition_factor n = 1 + min MAX_REPETITION_BONUS (log 10 (real_of_int (max 1 n)) * (1 / 4))"

definition raw_score :: "rule \<Rightarrow> rat \<Rightarrow> int \<Rightarrow> real" where
  "raw_score r c n =
     of_rat (rule_base r) * of_rat (confidence_factor r) * of_rat (asset_factor r c)
       * repetition_factor n"

definition final_score :: "rule \<Rightarrow> rat \<Rightarrow> int \<Rightarrow> rat" where
  "final_score r c n = py_round 2 (clamp (raw_score r c n) 0 100)"

definition risk_steps :: "rule \<Rightarrow> rat \<Rightarrow> int \<Rightarrow> string list" where
  "risk_steps r c n =
     [''base severite '' @ severity_str (ru_severity r) @ '' = ''
        @ fmt_fixed 1 (severity_base (ru_severity r)),
      (case rk_base (ru_risk r) of
         Some b \<Rightarrow> ''bonus regle = '' @ fmt_fixed 1 (b / 100 * RULE_BASE_WEIGHT)
       | None \<Rightarrow> ''bonus regle = 0.0 (non specifie)''),
      ''facteur de confiance (confidence='' @ fmt_fixed 2 (ru_confidence r) @ '') = ''
        @ fmt_fixed 3 (confidence_factor r),
      ''facteur d actif (criticite='' @ fmt_fixed 2 c @ '', regle=''
        @ fmt_fixed 2 (rk_criticality (ru_risk r)) @ '') = '' @ fmt_fixed 3 (asset_factor r c),
      ''facteur de repetition (count='' @ int_str (max 1 n) @ '') = ''
        @ fmt_fixed 3 (repetition_factor n),
      ''score = '' @ fmt_fixed 1 (rule_base r) @ '' x '' @ fmt_fixed 3 (confidence_factor r)
        @ '' x '' @ fmt_fixed 3 (asset_factor r c) @ '' x '' @ fmt_fixed 3 (repetition_factor n)
        @ '' = '' @ fmt_fixed 2 (final_score r c n)]"

definition compute_risk ::
  "rule \<Rightarrow> tenant option \<Rightarrow> int \<Rightarrow> rat option \<Rightarrow> risk_breakdown" where
  "compute_risk r t n asset =
     (let c = criticality_of t asset
      in \<lparr>rb_base = py_round 2 (rule_base r),
          rb_severity_factor = 1,
          rb_confidence_factor = py_round 3 (confidence_factor r),
          rb_asset_factor = py_round 3 (asset_factor r c),
          rb_repetition_factor = py_round 3 (repetition_factor n),
          rb_final = final_score r c n,
          rb_formula = ''final = clamp(base x confiance x actif x repetition, 0, 100)'',
          rb_steps = risk_steps r c n\<rparr>)"

definition risk_band :: "rat \<Rightarrow> string" where
  "risk_band s =
     (if 85 \<le> s then ''critique'' else if 70 \<le> s then ''eleve'' else if 45 \<le> s then ''moyen''
      else if 20 \<le> s then ''faible'' else ''informational'')"

text \<open>The validators of the model keep \<open>risk.base\<close> in [0, 100] and the confidence in [0, 1].\<close>

definition risk_wf :: "rule \<Rightarrow> bool" where
  "risk_wf r \<longleftrightarrow>
     (case rk_base (ru_risk r) of None \<Rightarrow> True | Some b \<Rightarrow> 0 \<le> b \<and> b \<le> 100)
     \<and> 0 \<le> ru_confidence r \<and> ru_confidence r \<le> 1 \<and> 0 \<le> rk_criticality (ru_risk r)"

subsection \<open>Bounds and monotonicity of the factors\<close>

lemma clamp_mono: "x \<le> y \<Longrightarrow> clamp x a b \<le> clamp y a b"
  unfolding clamp_def by (intro max.mono min.mono) auto

lemma clamp_range: "a \<le> b \<Longrightarrow> a \<le> clamp x a b \<and> clamp x a b \<le> b"
  by (simp add: clamp_def)

lemma severity_base_pos: "0 < severity_base s"
  by (cases s) simp_all

lemma severity_base_mono: "sev_index s \<le> sev_index s' \<Longrightarrow> severity_base s \<le> severity_base s'"
  by (cases s; cases s') simp_all

lemma rule_base_nonneg: "risk_wf r \<Longrightarrow> 0 \<le> rule_base r"
  using severity_base_pos [of "ru_severity r"]
  by (auto simp: risk_wf_def rule_base_def RULE_BASE_WEIGHT_def split: option.splits)

lemma confidence_factor_range: "1 / 2 \<le> confidence_factor r \<and> confidence_factor r \<le> 1"
  using clamp_range [of "0::rat" 1 "ru_confidence r"] by (simp add: confidence_factor_def)

lemma asset_factor_range: "1 / 10 \<le> asset_factor r c \<and> asset_factor r c \<le> 3"
  unfolding asset_factor_def by (rule clamp_range) simp

lemma repetition_factor_range: "1 \<le> repetition_factor n \<and> repetition_factor n \<le> 3 / 2"
  by (auto simp: repetition_factor_def MAX_REPETITION_BONUS_def)

lemma repetition_factor_mono: "m \<le> n \<Longrightarrow> repetition_factor m \<le> repetition_factor n"
  unfolding repetition_factor_def
  by (intro add_left_mono min.mono mult_right_mono) (auto simp: max_def)

lemma repetition_factor_one: "n \<le> 1 \<Longrightarrow> repetition_factor n = 1"
  by (simp add: repetition_factor_def MAX_REPETITION_BONUS_def max_def)

lemma repetition_factor_cap:
  assumes "100 \<le> n" shows "repetition_factor n = 3 / 2"
proof -
  have "log 10 ((10::real) ^ 2) = 2" by (subst log_nat_power) simp_all
  then have "log 10 (100::real) = 2" by simp
  moreover have "log 10 (100::real) \<le> log 10 (real_of_int (max 1 n))"
    using assms by (simp add: max_def)
  ultimately have "1 / 2 \<le> log 10 (real_of_int (max 1 n)) * (1 / 4)" by simp
  then show ?thesis by (simp add: repetition_factor_def MAX_REPETITION_BONUS_def min_def)
qed

lemma raw_score_mono:
  assumes "0 \<le> rule_base r" and "rule_base r \<le> rule_base r'"
    and "confidence_factor r \<le> confidence_factor r'"
    and "asset_factor r c \<le> asset_factor r' c'"
    and "m \<le> n"
  shows "raw_score r c m \<le> raw_score r' c' n"
proof -
  have nonneg: "0 \<le> confidence_factor r" "0 \<le> asset_factor r c" "0 \<le> repetition_factor m"
    using confidence_factor_range [of r] asset_factor_range [of r c]
      repetition_factor_range [of m] by linarith+
  have "rule_base r * confidence_factor r \<le> rule_base r' * confidence_factor r'"
    using assms nonneg by (intro mult_mono) auto
  then have "rule_base r * confidence_factor r * asset_factor r c
      \<le> rule_base r' * confidence_factor r' * asset_factor r' c'"
    using assms nonneg by (intro mult_mono) auto
  then have le: "(of_rat (rule_base r * confidence_factor r * asset_factor r c) :: real)
      \<le> of_rat (rule_base r' * confidence_factor r' * asset_factor r' c')"
    by (simp only: of_rat_less_eq)
  have pos: "0 \<le> (of_rat (rule_base r * confidence_factor r * asset_factor r c) :: real)"
    using assms nonneg by simp
  show ?thesis
    unfolding raw_score_def of_rat_mult [symmetric]
    by (intro mult_mono repetition_factor_mono assms nonneg order_trans [OF pos le] le)
qed

lemma final_score_mono: "raw_score r c m \<le> raw_score r' c' n \<Longrightarrow> final_score r c m \<le> final_score r' c' n"
  unfolding final_score_def by (intro py_round_mono clamp_mono)

subsection \<open>Guarantees\<close>

text \<open>The score of every finding lies in [0, 100].\<close>

theorem risk_score_bounded:
  "0 \<le> rb_final (compute_risk r t n asset) \<and> rb_final (compute_risk r t n asset) \<le> 100"
proof -
  have "of_int 0 \<le> clamp (raw_score r c n) 0 100 \<and> clamp (raw_score r c n) 0 100 \<le> of_int 100" for c
    using clamp_range [of "0::real" 100] by simp
  then show ?thesis
    using py_round_range [of 0 _ 100 2]
    by (fastforce simp: compute_risk_def final_score_def Let_def)
qed

text \<open>A rule to evaluate the score on: everything but the risk inputs is fixed.\<close>

definition sample_rule :: "severity \<Rightarrow> rat option \<Rightarrow> rat \<Rightarrow> rule" where
  "sample_rule s b c =
     \<lparr>ru_id = ''R'', ru_title = ''t'', ru_description = [], ru_status = Stable, ru_severity = s,
      ru_confidence = c, ru_enabled = True, ru_tags = [], ru_source_types = [], ru_kinds = [],
      ru_match = \<lparr>ms_all = [], ms_any = [], ms_not = [], ms_threshold = None\<rparr>,
      ru_dedup = \<lparr>dd_key = [], dd_ttl = 900\<rparr>, ru_risk = \<lparr>rk_base = b, rk_criticality = 1\<rparr>,
      ru_false_positives = [], ru_remediation = ''r'', ru_references = [], ru_path = None,
      ru_sigma = False\<rparr>"

text \<open>
  The score is monotone. Raising the severity, the confidence, the criticality of the asset or
  the number of occurrences, everything else equal, never lowers it.
\<close>

theorem risk_score_monotone:
  assumes "risk_wf r" and "risk_wf r'"
    and "sev_index (ru_severity r) \<le> sev_index (ru_severity r')"
    and "ru_confidence r \<le> ru_confidence r'"
    and "rk_base (ru_risk r') = rk_base (ru_risk r)"
    and "rk_criticality (ru_risk r') = rk_criticality (ru_risk r)"
    and "criticality_of t a \<le> criticality_of t' a'"
    and "m \<le> n"
  shows "rb_final (compute_risk r t m a) \<le> rb_final (compute_risk r' t' n a')"
proof -
  let ?c = "criticality_of t a" and ?c' = "criticality_of t' a'"
  have base: "rule_base r \<le> rule_base r'"
    using severity_base_mono [OF assms(3)] assms(5) by (simp add: rule_base_def)
  have conf: "confidence_factor r \<le> confidence_factor r'"
    unfolding confidence_factor_def using assms(4) by (simp add: clamp_mono)
  have "?c * rk_criticality (ru_risk r) \<le> ?c' * rk_criticality (ru_risk r')"
    using assms(1,6,7) by (simp add: risk_wf_def mult_right_mono)
  then have asset: "asset_factor r ?c \<le> asset_factor r' ?c'"
    unfolding asset_factor_def by (rule clamp_mono)
  show ?thesis
    using final_score_mono [OF raw_score_mono [OF rule_base_nonneg [OF assms(1)] base conf asset assms(8)]]
    by (simp add: compute_risk_def Let_def)
qed

lemma sample_rule_wf:
  "0 \<le> c \<Longrightarrow> c \<le> 1 \<Longrightarrow> (case b of None \<Rightarrow> True | Some x \<Rightarrow> 0 \<le> x \<and> x \<le> 100) \<Longrightarrow>
   risk_wf (sample_rule s b c)"
  by (simp add: risk_wf_def sample_rule_def)

theorem risk_score_monotone_witness:
  "rb_final (compute_risk (sample_rule Low None (1 / 2)) None 1 None)
   \<le> rb_final (compute_risk (sample_rule High None 1) None 50 (Some 2))"
  by (rule risk_score_monotone)
    (simp_all add: sample_rule_wf, simp_all add: sample_rule_def criticality_of_def)

text \<open>
  Repetition has a ceiling. From one hundred occurrences on, the score does not grow any more,
  and it never exceeds the score of a single occurrence by more than half of the unrounded product.
\<close>

theorem risk_repetition_saturates:
  assumes "100 \<le> n"
  shows "rb_final (compute_risk r t n a) = rb_final (compute_risk r t 100 a)
    \<and> raw_score r c n = 3 / 2 * raw_score r c 1"
  using assms repetition_factor_one [of 1]
  by (simp_all add: compute_risk_def Let_def final_score_def raw_score_def repetition_factor_cap)

theorem risk_repetition_saturates_witness:
  "rb_final (compute_risk (sample_rule Low None 1) None 10000 None)
   = rb_final (compute_risk (sample_rule Low None 1) None 100 None)"
  using risk_repetition_saturates [of 10000] by simp

lemma rule_base_bound:
  "risk_wf r \<Longrightarrow> severity_base (ru_severity r) \<le> rule_base r
     \<and> rule_base r \<le> severity_base (ru_severity r) + 18"
  by (auto simp: risk_wf_def rule_base_def RULE_BASE_WEIGHT_def split: option.splits)

text \<open>
  From \<open>low\<close> upwards the author's bonus \<open>risk.base\<close> cannot overturn the hierarchy of severities:
  a rule of a higher severity scores at least as much, whatever the two bonuses are.
\<close>

theorem risk_bonus_keeps_hierarchy:
  assumes "risk_wf r" and "risk_wf r'"
    and "ru_severity r \<noteq> Info"
    and "sev_index (ru_severity r) < sev_index (ru_severity r')"
    and "ru_confidence r = ru_confidence r'"
    and "rk_criticality (ru_risk r) = rk_criticality (ru_risk r')"
  shows "rb_final (compute_risk r t n a) \<le> rb_final (compute_risk r' t n a)"
proof -
  have "severity_base (ru_severity r) + 18 \<le> severity_base (ru_severity r')"
    using assms(3,4) by (cases "ru_severity r"; cases "ru_severity r'") simp_all
  then have base: "rule_base r \<le> rule_base r'"
    using rule_base_bound [OF assms(1)] rule_base_bound [OF assms(2)] by linarith
  show ?thesis
    using final_score_mono [OF raw_score_mono [OF rule_base_nonneg [OF assms(1)] base _ _ order_refl]]
      assms(5,6)
    by (simp add: compute_risk_def Let_def confidence_factor_def asset_factor_def)
qed

theorem risk_bonus_keeps_hierarchy_witness:
  "rb_final (compute_risk (sample_rule Low (Some 100) 1) None 1 None)
   \<le> rb_final (compute_risk (sample_rule Medium None 1) None 1 None)"
  by (rule risk_bonus_keeps_hierarchy)
    (simp_all add: sample_rule_wf, simp_all add: sample_rule_def)

text \<open>
  Below \<open>low\<close> it can. A rule of severity \<open>info\<close> with the largest bonus scores 26, more than the
  20 of a rule of severity \<open>low\<close> without one, although the bonus is meant not to override the
  hierarchy of severities.
\<close>

theorem risk_info_overtakes_low:
  "rb_final (compute_risk (sample_rule Info (Some 100) 1) None 1 None) = 26
   \<and> rb_final (compute_risk (sample_rule Low None 1) None 1 None) = 20"
proof -
  have round: "py_round 2 (of_int i :: real) = of_int i" for i by (rule py_round_of_int)
  show ?thesis
    using round [of 26] round [of 20]
    by (simp_all add: compute_risk_def Let_def final_score_def raw_score_def rule_base_def
        confidence_factor_def asset_factor_def criticality_of_def sample_rule_def clamp_def
        repetition_factor_one RULE_BASE_WEIGHT_def of_rat_divide of_rat_add of_rat_mult)
qed

end
