(* ===== verification/RateLimit.thy ===== *)
theory RateLimit
  imports Errors
begin

section \<open>The rate limiter\<close>

text \<open>
  \<open>observability/ratelimit.py\<close>: one token bucket per identifier, refilled on access, with an
  opportunistic eviction of the buckets nobody touched for five minutes.  Instants are readings of
  the monotonic clock in seconds.  The locale \<open>rate_contract\<close> states what a client relies on (how
  many tokens an identifier can still draw, how a call changes that) and derives the bound on what
  a sequence of calls grants; the limiter is shown to meet it, evictions included.
\<close>

subsection \<open>State and operations\<close>

record bucket =
  bk_tokens :: rat
  bk_updated_at :: rat
  bk_capacity :: rat

record rate_limiter =
  rl_per_minute :: int
  rl_burst :: rat
  rl_buckets :: "(string \<times> bucket) list"
  rl_allowed :: int
  rl_rejected :: int

definition rate_limiter_init :: "int \<Rightarrow> int option \<Rightarrow> rate_limiter" where
  "rate_limiter_init per_minute burst =
     (let pm = max 1 per_minute
      in \<lparr>rl_per_minute = pm,
          rl_burst = of_int (case burst of Some b \<Rightarrow> b | None \<Rightarrow> max 10 (pm div 6)),
          rl_buckets = [], rl_allowed = 0, rl_rejected = 0\<rparr>)"

definition rate_per_second :: "rate_limiter \<Rightarrow> rat" where
  "rate_per_second l = of_int (rl_per_minute l) / 60"

definition evict_stale :: "rat \<Rightarrow> (string \<times> bucket) list \<Rightarrow> (string \<times> bucket) list" where
  "evict_stale now bs = filter (\<lambda>(k, b). \<not> now - bk_updated_at b > 300) bs"

definition refill_bucket :: "rate_limiter \<Rightarrow> rat \<Rightarrow> string \<Rightarrow> bucket" where
  "refill_bucket l now ident =
     (let b = (case map_of (rl_buckets l) ident of
                 Some b \<Rightarrow> b
               | None \<Rightarrow> \<lparr>bk_tokens = rl_burst l, bk_updated_at = now, bk_capacity = rl_burst l\<rparr>);
          elapsed = max 0 (now - bk_updated_at b)
      in b\<lparr>bk_tokens := min (bk_capacity b) (bk_tokens b + elapsed * rate_per_second l),
           bk_updated_at := now\<rparr>)"

definition check :: "string \<Rightarrow> rat \<Rightarrow> rat \<Rightarrow> (rate_limiter, exn, unit) op" where
  "check ident cost now l =
     (let b = refill_bucket l now ident;
          stored = AList.update ident b (rl_buckets l);
          kept = (if int (length stored) > 10000 then evict_stale now stored else stored)
      in if bk_tokens b < cost
         then (Inl (Exn RateLimitedError
                 ''trop de requetes : ralentissez ou augmentez THOT_RATE_LIMIT_PER_MIN''
                 [(''limit_per_minute'', PInt (rl_per_minute l))]
                 (Some (max 1 \<lfloor>(cost - bk_tokens b) / rate_per_second l\<rfloor>))),
               l\<lparr>rl_buckets := kept, rl_rejected := rl_rejected l + 1\<rparr>)
         else (Inr (),
               l\<lparr>rl_buckets := AList.update ident (b\<lparr>bk_tokens := bk_tokens b - cost\<rparr>) kept,
                 rl_allowed := rl_allowed l + 1\<rparr>))"

definition stats :: "rate_limiter \<Rightarrow> (string \<times> int) list" where
  "stats l = [(''allowed'', rl_allowed l), (''rejected'', rl_rejected l),
     (''tracked_identifiers'', int (length (rl_buckets l))), (''limit_per_minute'', rl_per_minute l)]"

text \<open>A client's calls, each with its instant, identifier and cost, and which were granted.\<close>

type_synonym call = "rat \<times> string \<times> rat"

fun run_checks :: "call list \<Rightarrow> rate_limiter \<Rightarrow> bool list \<times> rate_limiter" where
  "run_checks [] l = ([], l)"
| "run_checks ((now, ident, cost) # cs) l =
     (let (r, l') = check ident cost now l; (gs, l'') = run_checks cs l'
      in ((\<not> isl r) # gs, l''))"

definition granted :: "string \<Rightarrow> call list \<Rightarrow> bool list \<Rightarrow> rat" where
  "granted ident cs gs =
     (\<Sum>((now, i, cost), g) \<leftarrow> zip cs gs. if g \<and> i = ident then cost else 0)"

fun in_order :: "rat \<Rightarrow> call list \<Rightarrow> bool" where
  "in_order t [] \<longleftrightarrow> True"
| "in_order t ((now, i, cost) # cs) \<longleftrightarrow> t \<le> now \<and> 0 \<le> cost \<and> in_order now cs"

fun last_instant :: "rat \<Rightarrow> call list \<Rightarrow> rat" where
  "last_instant t [] = t"
| "last_instant t ((now, i, cost) # cs) = last_instant now cs"

subsection \<open>The contract of a rate limiter\<close>

locale rate_contract =
  fixes step :: "string \<Rightarrow> rat \<Rightarrow> rat \<Rightarrow> 's \<Rightarrow> bool \<times> 's"
    and avail :: "'s \<Rightarrow> string \<Rightarrow> rat \<Rightarrow> rat"
    and inv :: "rat \<Rightarrow> 's \<Rightarrow> bool"
    and rate :: "'s \<Rightarrow> rat"
  assumes step_inv: "inv t s \<Longrightarrow> t \<le> now \<Longrightarrow> 0 \<le> cost \<Longrightarrow> inv now (snd (step i cost now s))"
    and step_rate: "rate (snd (step i cost now s)) = rate s"
    and avail_nonneg: "inv t s \<Longrightarrow> t \<le> now \<Longrightarrow> 0 \<le> avail s i now"
    and avail_refill: "inv t s \<Longrightarrow> t \<le> now \<Longrightarrow> avail s i now \<le> avail s i t + (now - t) * rate s"
    and step_avail: "inv t s \<Longrightarrow> t \<le> now \<Longrightarrow> 0 \<le> cost \<Longrightarrow>
      avail (snd (step i cost now s)) j now
        = avail s j now - (if fst (step i cost now s) \<and> i = j then cost else 0)"
begin

fun run :: "(rat \<times> string \<times> rat) list \<Rightarrow> 's \<Rightarrow> bool list \<times> 's" where
  "run [] s = ([], s)"
| "run ((now, i, cost) # cs) s =
     (let (g, s') = step i cost now s; (gs, s'') = run cs s' in (g # gs, s''))"

lemma granted_bound:
  assumes "inv t s" and "in_order t cs"
  shows "granted j cs (fst (run cs s)) \<le> avail s j t + (last_instant t cs - t) * rate s"
  using assms
proof (induction cs arbitrary: t s)
  case Nil
  then show ?case using avail_nonneg [of t s t j] by (simp add: granted_def)
next
  case (Cons c cs)
  obtain now i cost where c: "c = (now, i, cost)" by (cases c) auto
  let ?s = "snd (step i cost now s)"
  have ord: "t \<le> now" "0 \<le> cost" "in_order now cs" using Cons.prems c by auto
  have "granted j cs (fst (run cs ?s))
      \<le> avail ?s j now + (last_instant now cs - now) * rate s"
    using Cons.IH [of now ?s] step_inv [OF Cons.prems(1)] ord by (simp add: step_rate)
  moreover have "granted j (c # cs) (fst (run (c # cs) s))
      = (if fst (step i cost now s) \<and> i = j then cost else 0) + granted j cs (fst (run cs ?s))"
    by (simp add: c granted_def split_beta)
  moreover note step_avail [OF Cons.prems(1) ord(1,2), of i j]
    avail_refill [OF Cons.prems(1) ord(1), of j]
  ultimately show ?case by (simp add: c algebra_simps)
qed

end

subsection \<open>The limiter meets the contract\<close>

definition bucket_ok :: "rate_limiter \<Rightarrow> rat \<Rightarrow> bucket \<Rightarrow> bool" where
  "bucket_ok l t b \<longleftrightarrow> bk_capacity b = rl_burst l \<and> 0 \<le> bk_tokens b \<and> bk_tokens b \<le> rl_burst l
     \<and> bk_updated_at b \<le> t"

definition limiter_ok :: "rat \<Rightarrow> rate_limiter \<Rightarrow> bool" where
  "limiter_ok t l \<longleftrightarrow> 1 \<le> rl_per_minute l \<and> 0 \<le> rl_burst l \<and> rl_burst l \<le> 5 * of_int (rl_per_minute l)
     \<and> distinct (map fst (rl_buckets l)) \<and> (\<forall>(k, b) \<in> set (rl_buckets l). bucket_ok l t b)"

definition available :: "rate_limiter \<Rightarrow> string \<Rightarrow> rat \<Rightarrow> rat" where
  "available l ident now = bk_tokens (refill_bucket l now ident)"

lemma limiter_okD:
  assumes "limiter_ok t l"
  shows "1 \<le> rl_per_minute l" "0 < rate_per_second l" "0 \<le> rl_burst l"
    "rl_burst l \<le> 300 * rate_per_second l" "distinct (map fst (rl_buckets l))"
    "map_of (rl_buckets l) i = Some b \<Longrightarrow> bucket_ok l t b"
  using assms map_of_SomeD [of "rl_buckets l" i b]
  by (auto simp: limiter_ok_def rate_per_second_def)

lemma available_alt:
  assumes "limiter_ok t l" and "t \<le> now"
  shows "available l i now =
    (case map_of (rl_buckets l) i of
       None \<Rightarrow> rl_burst l
     | Some b \<Rightarrow> min (rl_burst l) (bk_tokens b + (now - bk_updated_at b) * rate_per_second l))"
  using assms(2) limiter_okD(6) [OF assms(1), of i]
  by (auto simp: available_def refill_bucket_def bucket_ok_def max_def Let_def split: option.splits)

lemma refill_ok:
  assumes "limiter_ok t l" and "t \<le> now"
  shows "bucket_ok l now (refill_bucket l now i)" and "bk_updated_at (refill_bucket l now i) = now"
  using limiter_okD(2,3) [OF assms(1)] limiter_okD(6) [OF assms(1), of i] assms(2)
  by (auto simp: refill_bucket_def bucket_ok_def Let_def split: option.splits)

lemma map_of_evict:
  "distinct (map fst bs) \<Longrightarrow>
   map_of (evict_stale now bs) k =
     (case map_of bs k of
        None \<Rightarrow> None
      | Some b \<Rightarrow> if now - bk_updated_at b > 300 then None else Some b)"
proof (induction bs)
  case (Cons a bs)
  then have "map_of bs k = None" if "fst a = k" using that by (auto simp: map_of_eq_None_iff)
  with Cons show ?case by (cases a) (auto simp: evict_stale_def split: option.splits)
qed (simp add: evict_stale_def)

lemma evict_subset: "set (evict_stale now bs) \<subseteq> set bs"
  by (auto simp: evict_stale_def)

lemma evict_distinct: "distinct (map fst bs) \<Longrightarrow> distinct (map fst (evict_stale now bs))"
  unfolding evict_stale_def by (rule distinct_map_filter)

text \<open>The buckets a call leaves, before the cost is drawn.\<close>

definition kept_buckets :: "rate_limiter \<Rightarrow> rat \<Rightarrow> string \<Rightarrow> (string \<times> bucket) list" where
  "kept_buckets l now i =
     (let stored = AList.update i (refill_bucket l now i) (rl_buckets l)
      in if int (length stored) > 10000 then evict_stale now stored else stored)"

lemma kept_distinct:
  "limiter_ok t l \<Longrightarrow> distinct (map fst (kept_buckets l now i))"
  by (auto simp: kept_buckets_def Let_def limiter_ok_def intro!: evict_distinct distinct_update)

lemma kept_lookup:
  assumes "limiter_ok t l" and "t \<le> now"
  shows "map_of (kept_buckets l now i) j =
    (if j = i then Some (refill_bucket l now i)
     else if int (length (AList.update i (refill_bucket l now i) (rl_buckets l))) > 10000
       \<and> (\<exists>b. map_of (rl_buckets l) j = Some b \<and> now - bk_updated_at b > 300)
     then None else map_of (rl_buckets l) j)"
  using refill_ok [OF assms, of i] limiter_okD(5) [OF assms(1)]
  by (cases "map_of (rl_buckets l) j")
    (simp_all add: kept_buckets_def Let_def map_of_evict distinct_update update_conv')

lemma kept_ok:
  assumes "limiter_ok t l" and "t \<le> now" and "(k, b) \<in> set (kept_buckets l now i)"
  shows "bucket_ok l now b"
proof -
  have "map_of (kept_buckets l now i) k = Some b"
    using assms(3) kept_distinct [OF assms(1)] by (simp add: map_of_eq_Some_iff)
  then show ?thesis
    using refill_ok(1) [OF assms(1,2), of i] limiter_okD(6) [OF assms(1), of k b] assms(2)
    by (auto simp: kept_lookup [OF assms(1,2)] bucket_ok_def split: if_splits)
qed


lemma check_alt:
  "check i cost now l =
     (let b = refill_bucket l now i
      in if bk_tokens b < cost
         then (Inl (Exn RateLimitedError
                 ''trop de requetes : ralentissez ou augmentez THOT_RATE_LIMIT_PER_MIN''
                 [(''limit_per_minute'', PInt (rl_per_minute l))]
                 (Some (max 1 \<lfloor>(cost - bk_tokens b) / rate_per_second l\<rfloor>))),
               l\<lparr>rl_buckets := kept_buckets l now i, rl_rejected := rl_rejected l + 1\<rparr>)
         else (Inr (),
               l\<lparr>rl_buckets := AList.update i (b\<lparr>bk_tokens := bk_tokens b - cost\<rparr>)
                   (kept_buckets l now i),
                 rl_allowed := rl_allowed l + 1\<rparr>))"
  by (simp add: check_def kept_buckets_def Let_def)

lemma check_granted: "isl (fst (check i cost now l)) \<longleftrightarrow> available l i now < cost"
  by (simp add: check_alt Let_def available_def)

lemma check_frame:
  "rl_per_minute (snd (check i cost now l)) = rl_per_minute l"
  "rl_burst (snd (check i cost now l)) = rl_burst l"
  "rate_per_second (snd (check i cost now l)) = rate_per_second l"
  by (simp_all add: check_alt Let_def rate_per_second_def)

lemma check_lookup:
  assumes "limiter_ok t l" and "t \<le> now"
  shows "map_of (rl_buckets (snd (check i cost now l))) j =
    (if j = i then
       Some (let b = refill_bucket l now i
             in if bk_tokens b < cost then b else b\<lparr>bk_tokens := bk_tokens b - cost\<rparr>)
     else map_of (kept_buckets l now i) j)"
  using kept_lookup [OF assms, of i i]
  by (simp add: check_alt Let_def update_conv')

lemma check_ok:
  assumes "limiter_ok t l" and "t \<le> now" and "0 \<le> cost"
  shows "limiter_ok now (snd (check i cost now l))"
proof -
  let ?l = "snd (check i cost now l)"
  have dist: "distinct (map fst (rl_buckets ?l))"
    using kept_distinct [OF assms(1)] by (auto simp: check_alt Let_def distinct_update)
  have "bucket_ok l now b" if "(k, b) \<in> set (rl_buckets ?l)" for k b
  proof -
    have "map_of (rl_buckets ?l) k = Some b" using that dist by (simp add: map_of_eq_Some_iff)
    moreover have "b' = b \<Longrightarrow> bucket_ok l now b" if "map_of (kept_buckets l now i) k = Some b'" for b'
      using kept_ok [OF assms(1,2)] map_of_SomeD [OF that] by blast
    ultimately show ?thesis
      using refill_ok(1) [OF assms(1,2), of i] assms(3)
      by (auto simp: check_lookup [OF assms(1,2)] bucket_ok_def Let_def split: if_splits)
  qed
  then show ?thesis
    using assms(1) dist by (auto simp: limiter_ok_def bucket_ok_def check_frame)
qed

text \<open>Eviction is invisible: a bucket it drops had refilled completely.\<close>

lemma kept_available:
  assumes "limiter_ok t l" and "t \<le> now" and "j \<noteq> i"
  shows "available (l\<lparr>rl_buckets := kept_buckets l now i\<rparr>) j now = available l j now"
proof (cases "map_of (rl_buckets l) j")
  case None
  then show ?thesis using assms
    by (simp add: available_def refill_bucket_def kept_lookup [OF assms(1,2)] rate_per_second_def)
next
  case (Some b)
  have ok: "bucket_ok l t b" using limiter_okD(6) [OF assms(1) Some] .
  have full: "available l j now = rl_burst l" if "now - bk_updated_at b > 300"
  proof -
    have "rl_burst l \<le> 300 * rate_per_second l" using limiter_okD(4) [OF assms(1)] .
    also have "\<dots> \<le> (now - bk_updated_at b) * rate_per_second l"
      using that limiter_okD(2) [OF assms(1)] by (intro mult_right_mono) auto
    finally show ?thesis
      using ok Some by (simp add: available_alt [OF assms(1,2)] bucket_ok_def)
  qed
  show ?thesis
    using assms(3) Some full
    by (auto simp: available_def refill_bucket_def kept_lookup [OF assms(1,2)] rate_per_second_def
        Let_def)
qed

lemma available_cong:
  assumes "map_of (rl_buckets l) j = map_of (rl_buckets l') j" and "rl_burst l = rl_burst l'"
    and "rl_per_minute l = rl_per_minute l'"
  shows "available l j now = available l' j now"
  using assms
  by (auto simp: available_def refill_bucket_def rate_per_second_def Let_def split: option.splits)

lemma check_available:
  assumes "limiter_ok t l" and "t \<le> now" and "0 \<le> cost"
  shows "available (snd (check i cost now l)) j now
    = available l j now - (if \<not> isl (fst (check i cost now l)) \<and> i = j then cost else 0)"
proof (cases "j = i")
  case True
  have "bucket_ok l now (refill_bucket l now i)" by (rule refill_ok [OF assms(1,2)])
  then show ?thesis
    using True available_alt [OF check_ok [OF assms] order_refl, of i i] assms(3)
    by (auto simp: check_lookup [OF assms(1,2)] check_frame check_granted bucket_ok_def Let_def
        available_def refill_ok(2) [OF assms(1,2)] min_def)
next
  case False
  then show ?thesis
    using kept_available [OF assms(1,2) False]
      available_cong [of "snd (check i cost now l)" j "l\<lparr>rl_buckets := kept_buckets l now i\<rparr>" now]
    by (simp add: check_lookup [OF assms(1,2)] check_frame)
qed

interpretation limiter: rate_contract
  "\<lambda>i cost now l. (\<not> isl (fst (check i cost now l)), snd (check i cost now l))"
  available limiter_ok rate_per_second
proof
  fix t now cost :: rat and i j and l :: rate_limiter
  show "rate_per_second (snd (\<not> isl (fst (check i cost now l)), snd (check i cost now l)))
      = rate_per_second l"
    by (simp add: check_frame)
  assume ok: "limiter_ok t l" and le: "t \<le> now"
  show "0 \<le> available l i now"
    using refill_ok(1) [OF ok le, of i] by (simp add: available_def bucket_ok_def)
  have "(now - t) * rate_per_second l \<ge> 0" using le limiter_okD(2) [OF ok] by simp
  then show "available l i now \<le> available l i t + (now - t) * rate_per_second l"
    by (auto simp: available_alt [OF ok le] available_alt [OF ok order_refl] algebra_simps min_def
        split: option.splits)
  assume "0 \<le> cost"
  with ok le show "limiter_ok now (snd (\<not> isl (fst (check i cost now l)), snd (check i cost now l)))"
    and "available (snd (\<not> isl (fst (check i cost now l)), snd (check i cost now l))) j now
      = available l j now
        - (if fst (\<not> isl (fst (check i cost now l)), snd (check i cost now l)) \<and> i = j
           then cost else 0)"
    by (simp_all add: check_ok check_available)
qed

lemma run_checks_run: "limiter.run cs l = run_checks cs l"
proof (induction cs arbitrary: l)
  case (Cons c cs)
  then show ?case by (cases c) (simp add: split_beta)
qed simp


lemma init_ok:
  assumes "burst = None \<and> 2 \<le> pm \<or> (\<exists>b. burst = Some b \<and> 0 \<le> b \<and> b \<le> 5 * max 1 pm)"
  shows "limiter_ok t (rate_limiter_init pm burst)"
proof -
  have "(of_int (case burst of Some b \<Rightarrow> b | None \<Rightarrow> max 10 (max 1 pm div 6)) :: rat)
      \<le> of_int (5 * max 1 pm)"
    using assms unfolding of_int_le_iff by auto
  then show ?thesis
    using assms by (auto simp: limiter_ok_def rate_limiter_init_def Let_def)
qed

subsection \<open>Properties\<close>

text \<open>
  C40: whatever the sequence of calls, over whatever identifiers and with whatever evictions, the cost
  granted to one identifier between two instants is at most the burst plus the rate times the time
  that passed.  (The default burst meets the hypothesis from two requests per minute on.)
\<close>

theorem rate_limit_bound:
  assumes "burst = None \<and> 2 \<le> pm \<or> (\<exists>b. burst = Some b \<and> 0 \<le> b \<and> b \<le> 5 * max 1 pm)"
    and "in_order t cs"
  shows "granted ident cs (fst (run_checks cs (rate_limiter_init pm burst)))
    \<le> rl_burst (rate_limiter_init pm burst) + (last_instant t cs - t) * (of_int (max 1 pm) / 60)"
proof -
  let ?l = "rate_limiter_init pm burst"
  have "available ?l ident t = rl_burst ?l" "rate_per_second ?l = of_int (max 1 pm) / 60"
    by (simp_all add: available_def refill_bucket_def rate_per_second_def rate_limiter_init_def Let_def)
  then show ?thesis
    using limiter.granted_bound [OF init_ok [OF assms(1)] assms(2), of ident]
    unfolding run_checks_run by (simp only:)
qed

theorem rate_limit_bound_witness:
  "granted ''k'' [(0, ''k'', 10), (3, ''k'', 1), (7, ''k'', 1)]
     (fst (run_checks [(0, ''k'', 10), (3, ''k'', 1), (7, ''k'', 1)] (rate_limiter_init 12 None)))
   \<le> 10 + (7 - 0) * (12 / 60)"
  using rate_limit_bound [of None 12 0 "[(0, ''k'', 10), (3, ''k'', 1), (7, ''k'', 1)]" "''k''"]
  by (simp add: rate_limiter_init_def)

text \<open>
  A call is granted exactly when the refilled bucket holds its cost.  It then draws that cost from
  its own identifier and from no other, counts one grant, and a refusal draws nothing, counts one
  rejection and is the \<open>429\<close> error with a positive delay.
\<close>

theorem rate_check_correct:
  assumes "limiter_ok t l" and "t \<le> now" and "0 \<le> cost"
  shows "let (r, l') = check i cost now l
    in limiter_ok now l'
     \<and> available l' j now = available l j now - (if cost \<le> available l i now \<and> i = j then cost else 0)
     \<and> (if cost \<le> available l i now
        then r = Inr () \<and> rl_allowed l' = rl_allowed l + 1 \<and> rl_rejected l' = rl_rejected l
        else rl_allowed l' = rl_allowed l \<and> rl_rejected l' = rl_rejected l + 1
          \<and> (\<exists>m d n. r = Inl (Exn RateLimitedError m d (Some n)) \<and> 1 \<le> n))"
proof -
  have "cost \<le> available l i now \<longleftrightarrow> \<not> isl (fst (check i cost now l))"
    by (auto simp: check_granted)
  then have "limiter_ok now (snd (check i cost now l))
     \<and> available (snd (check i cost now l)) j now
       = available l j now - (if cost \<le> available l i now \<and> i = j then cost else 0)"
    using check_ok [OF assms] check_available [OF assms] by simp
  then show ?thesis
    by (auto simp: check_alt Let_def available_def split_beta)
qed

theorem rate_check_correct_witness:
  "let (r, l') = check ''k'' 1 0 (rate_limiter_init 60 None)
   in limiter_ok 0 l' \<and> available l' ''k'' 0 = 9 \<and> r = Inr () \<and> rl_allowed l' = 1"
proof -
  let ?l = "rate_limiter_init 60 None"
  have "available ?l ''k'' 0 = 10"
    by (simp add: available_def refill_bucket_def rate_limiter_init_def)
  then show ?thesis
    using init_ok [of None 60 0]
      rate_check_correct [where t = 0 and l = ?l and now = 0 and cost = 1 and i = "''k''" and j = "''k''"]
    by (simp add: split_beta rate_limiter_init_def)
qed

text \<open>
  A refused client that comes back one second after the delay it was given is served, when its
  cost fits the burst at all; the extra second is needed, since the delay is rounded down.
\<close>

theorem retry_after_suffices:
  assumes "limiter_ok t l" and "t \<le> now" and "0 \<le> cost" and "cost \<le> rl_burst l"
    and "check i cost now l = (Inl (Exn k m d (Some n)), l')"
    and "now + of_int n + 1 \<le> later"
  shows "fst (check i cost later l') = Inr ()"
proof -
  let ?b = "refill_bucket l now i" and ?r = "rate_per_second l"
  have l': "l' = snd (check i cost now l)" using assms(5) by simp
  have low: "bk_tokens ?b < cost" and n: "\<lfloor>(cost - bk_tokens ?b) / ?r\<rfloor> \<le> n"
    using assms(5) by (auto simp: check_alt Let_def split: if_splits)
  have pos: "0 < ?r" using limiter_okD(2) [OF assms(1)] .
  have "(cost - bk_tokens ?b) / ?r \<le> of_int n + 1" using n by linarith
  then have "cost - bk_tokens ?b \<le> (of_int n + 1) * ?r" using pos by (simp add: field_simps)
  also have "\<dots> \<le> (later - now) * ?r" using pos assms(6) by (intro mult_right_mono) auto
  finally have enough: "cost \<le> bk_tokens ?b + (later - now) * ?r" by simp
  have "1 \<le> n" using assms(5) by (auto simp: check_alt Let_def split: if_splits)
  then have "(1 :: rat) \<le> of_int n" by simp
  then have le: "now \<le> later" using assms(6) by linarith
  have "map_of (rl_buckets l') i = Some ?b"
    using low by (simp add: l' check_lookup [OF assms(1,2)])
  then have "cost \<le> available l' i later"
    using enough assms(4) available_alt [OF check_ok [OF assms(1-3)] le, of i i]
    by (simp add: l' check_frame refill_ok(2) [OF assms(1,2)])
  then show ?thesis by (simp add: check_alt Let_def available_def not_less [symmetric])
qed


text \<open>A client that drew 10 of 10 tokens at 30 per minute and asks for one more at once.\<close>

definition drained :: rate_limiter where
  "drained = snd (check ''k'' 10 0 (rate_limiter_init 30 None))"

lemma drained_ok: "limiter_ok 0 drained"
  unfolding drained_def by (rule check_ok [OF init_ok [of None 30] order_refl]) simp_all

lemma drained_alt:
  "drained = \<lparr>rl_per_minute = 30, rl_burst = 10,
     rl_buckets = [(''k'', \<lparr>bk_tokens = 0, bk_updated_at = 0, bk_capacity = 10\<rparr>)],
     rl_allowed = 1, rl_rejected = 0\<rparr>"
  by (simp add: drained_def check_def refill_bucket_def rate_limiter_init_def Let_def
      rate_per_second_def)

theorem retry_after_suffices_witness:
  "fst (check ''k'' 1 3 (snd (check ''k'' 1 0 drained))) = Inr ()"
proof (rule retry_after_suffices [OF drained_ok order_refl, of 1 "''k''" RateLimitedError _ _ 2])
  show "check ''k'' 1 0 drained =
    (Inl (Exn RateLimitedError
       ''trop de requetes : ralentissez ou augmentez THOT_RATE_LIMIT_PER_MIN''
       [(''limit_per_minute'', PInt 30)] (Some 2)), snd (check ''k'' 1 0 drained))"
    by (simp add: drained_alt check_def refill_bucket_def Let_def rate_per_second_def)
qed (simp_all add: drained_alt)

text \<open>
  The delay itself may be too short.  At 30 requests per minute, 0.4 seconds after the bucket was
  drained, a refused client is told to wait one second; coming back exactly then, it is refused
  again.
\<close>

theorem retry_after_rounds_down:
  "(case check ''k'' 1 (2 / 5) drained of
      (Inl e, l') \<Rightarrow> exn_retry_after e = Some 1 \<and> isl (fst (check ''k'' 1 (2 / 5 + 1) l'))
    | (Inr _, l') \<Rightarrow> False)"
  by (simp add: drained_alt check_def refill_bucket_def Let_def rate_per_second_def)

end
