(* ===== verification/Sha256.thy ===== *)
theory Sha256
  imports Prelude "HOL-Library.Word"
begin

section \<open>SHA-256\<close>

text \<open>
  \<open>hashlib.sha256(data).hexdigest()\<close> as \<open>core/util.py\<close>'s \<open>sha256_hex\<close> uses it: the UTF-8 bytes of a
  text, the padding and the compression function of FIPS 180-4 on 32-bit words, and the 64
  lower-case hexadecimal digits of the result.  The audit chain and the deduplication keys are
  computed with it; the lemmas give the shape of a digest.
\<close>

unbundle bit_operations_syntax

type_synonym w32 = "32 word"

text \<open>The standard's constants, in decimal.\<close>

definition sha_k :: "w32 list" where
  "sha_k =
    [1116352408, 1899447441, 3049323471, 3921009573, 961987163, 1508970993,
     2453635748, 2870763221, 3624381080, 310598401, 607225278, 1426881987,
     1925078388, 2162078206, 2614888103, 3248222580, 3835390401, 4022224774,
     264347078, 604807628, 770255983, 1249150122, 1555081692, 1996064986,
     2554220882, 2821834349, 2952996808, 3210313671, 3336571891, 3584528711,
     113926993, 338241895, 666307205, 773529912, 1294757372, 1396182291,
     1695183700, 1986661051, 2177026350, 2456956037, 2730485921, 2820302411,
     3259730800, 3345764771, 3516065817, 3600352804, 4094571909, 275423344,
     430227734, 506948616, 659060556, 883997877, 958139571, 1322822218,
     1537002063, 1747873779, 1955562222, 2024104815, 2227730452, 2361852424,
     2428436474, 2756734187, 3204031479, 3329325298]"

definition sha_init :: "w32 list" where
  "sha_init =
    [1779033703, 3144134277, 1013904242, 2773480762, 1359893119, 2600822924,
     528734635, 1541459225]"

subsection \<open>Bytes\<close>

definition utf8_char :: "char \<Rightarrow> int list" where
  "utf8_char c = (if code c < 128 then [code c] else [192 + code c div 64, 128 + code c mod 64])"

definition utf8 :: "string \<Rightarrow> int list" where
  "utf8 s = concat (map utf8_char s)"

fun be_bytes :: "nat \<Rightarrow> int \<Rightarrow> int list" where
  "be_bytes 0 n = []"
| "be_bytes (Suc k) n = be_bytes k (n div 256) @ [n mod 256]"

definition pad_message :: "int list \<Rightarrow> int list" where
  "pad_message m =
     m @ [128] @ replicate (nat ((55 - int (length m)) mod 64)) 0 @ be_bytes 8 (8 * int (length m))"

fun be_words :: "int list \<Rightarrow> w32 list" where
  "be_words (a # b # c # d # bs) =
     word_of_int (((a * 256 + b) * 256 + c) * 256 + d) # be_words bs"
| "be_words _ = []"

fun blocks :: "w32 list \<Rightarrow> w32 list list" where
  "blocks [] = []"
| "blocks (w # ws) = take 16 (w # ws) # blocks (drop 15 ws)"

subsection \<open>The compression function\<close>

definition rotr :: "nat \<Rightarrow> w32 \<Rightarrow> w32" where
  "rotr n w = drop_bit n w OR push_bit (32 - n) w"

definition small0 :: "w32 \<Rightarrow> w32" where
  "small0 x = rotr 7 x XOR rotr 18 x XOR drop_bit 3 x"

definition small1 :: "w32 \<Rightarrow> w32" where
  "small1 x = rotr 17 x XOR rotr 19 x XOR drop_bit 10 x"

definition big0 :: "w32 \<Rightarrow> w32" where
  "big0 x = rotr 2 x XOR rotr 13 x XOR rotr 22 x"

definition big1 :: "w32 \<Rightarrow> w32" where
  "big1 x = rotr 6 x XOR rotr 11 x XOR rotr 25 x"

definition sha_ch :: "w32 \<Rightarrow> w32 \<Rightarrow> w32 \<Rightarrow> w32" where
  "sha_ch x y z = (x AND y) XOR (NOT x AND z)"

definition sha_maj :: "w32 \<Rightarrow> w32 \<Rightarrow> w32 \<Rightarrow> w32" where
  "sha_maj x y z = (x AND y) XOR (x AND z) XOR (y AND z)"

text \<open>The message schedule, last word first.\<close>

fun schedule_rev :: "nat \<Rightarrow> w32 list \<Rightarrow> w32 list" where
  "schedule_rev 0 ws = ws"
| "schedule_rev (Suc n) ws =
     schedule_rev n
       ((small1 (ws ! 1) + ws ! 6 + small0 (ws ! 14) + ws ! 15) # ws)"

definition schedule :: "w32 list \<Rightarrow> w32 list" where
  "schedule block = rev (schedule_rev 48 (rev block))"

type_synonym sha_state = "w32 \<times> w32 \<times> w32 \<times> w32 \<times> w32 \<times> w32 \<times> w32 \<times> w32"

fun sha_round :: "sha_state \<Rightarrow> w32 \<times> w32 \<Rightarrow> sha_state" where
  "sha_round (a, b, c, d, e, f, g, h) (k, w) =
     (let t1 = h + big1 e + sha_ch e f g + k + w; t2 = big0 a + sha_maj a b c
      in (t1 + t2, a, b, c, d + t1, e, f, g))"

fun compress :: "sha_state \<Rightarrow> w32 list \<Rightarrow> sha_state" where
  "compress (a, b, c, d, e, f, g, h) block =
     (case foldl sha_round (a, b, c, d, e, f, g, h) (zip sha_k (schedule block)) of
        (a', b', c', d', e', f', g', h') \<Rightarrow>
          (a + a', b + b', c + c', d + d', e + e', f + f', g + g', h + h'))"

definition sha256 :: "int list \<Rightarrow> w32 list" where
  "sha256 m =
     (case foldl compress
        (sha_init ! 0, sha_init ! 1, sha_init ! 2, sha_init ! 3,
         sha_init ! 4, sha_init ! 5, sha_init ! 6, sha_init ! 7) (blocks (be_words (pad_message m)))
      of (a, b, c, d, e, f, g, h) \<Rightarrow> [a, b, c, d, e, f, g, h])"

subsection \<open>Hexadecimal text\<close>

definition hex_char :: "int \<Rightarrow> char" where
  "hex_char n = char_of (if n < 10 then 48 + n else 87 + n)"

fun hex_digits :: "nat \<Rightarrow> int \<Rightarrow> string" where
  "hex_digits 0 n = []"
| "hex_digits (Suc k) n = hex_digits k (n div 16) @ [hex_char (n mod 16)]"

definition word_hex :: "w32 \<Rightarrow> string" where
  "word_hex w = hex_digits 8 (uint w)"

definition sha256_hex :: "string \<Rightarrow> string" where
  "sha256_hex data = concat (map word_hex (sha256 (utf8 data)))"

subsection \<open>Shape of a digest\<close>

definition is_hex :: "char \<Rightarrow> bool" where
  "is_hex c \<longleftrightarrow> c \<in> set ''0123456789abcdef''"

lemma hex_char_is_hex: "0 \<le> n \<Longrightarrow> n < 16 \<Longrightarrow> is_hex (hex_char n)"
proof -
  assume "0 \<le> n" "n < 16"
  then have "n \<in> set [0..15]" by simp
  moreover have "list_all (\<lambda>n. is_hex (hex_char n)) [0..15]" by code_simp
  ultimately show ?thesis by (simp add: list_all_iff)
qed

lemma hex_digits_shape: "length (hex_digits k n) = k \<and> list_all is_hex (hex_digits k n)"
  by (induction k arbitrary: n) (auto simp: hex_char_is_hex)

lemma sha256_hex_shape: "length (sha256_hex s) = 64 \<and> list_all is_hex (sha256_hex s)"
  by (auto simp: sha256_hex_def sha256_def word_hex_def hex_digits_shape split: prod.splits)

end
