(* ===== verification/Hashchain.thy ===== *)
theory Hashchain
  imports Models Sha256
begin

section \<open>The audit hash chain\<close>

text \<open>
  \<open>audit/hashchain.py\<close>: the fingerprint of a record, its verification, and the CEF export line.  The
  locale \<open>hash_chain\<close> is the theory of a log whose records carry the digest of their predecessor: it
  is stated for any digest and any payload that determines the previous hash, and interpreted on the
  code's fingerprint.  It shows that the last digest commits to every payload of the log, or else
  exhibits two different payloads with one digest.
\<close>

subsection \<open>Fingerprints\<close>

definition GENESIS_HASH :: string where "GENESIS_HASH = ''sha256:genesis''"

definition HASH_PREFIX :: string where "HASH_PREFIX = ''sha256:''"

definition fingerprint_payload ::
  "int \<Rightarrow> string \<Rightarrow> string \<Rightarrow> string \<Rightarrow> string \<Rightarrow> string \<Rightarrow> dict \<Rightarrow> dict \<Rightarrow> dict \<Rightarrow> string \<Rightarrow> string" where
  "fingerprint_payload seq ts tenant who role what target before after prev =
     join_with ''|''
       [int_str seq, ts, tenant, who, role, what, canonical_json (PDict target),
        canonical_json (PDict before), canonical_json (PDict after), prev]"

definition record_fingerprint ::
  "int \<Rightarrow> string \<Rightarrow> string \<Rightarrow> string \<Rightarrow> string \<Rightarrow> string \<Rightarrow> dict \<Rightarrow> dict \<Rightarrow> dict \<Rightarrow> string \<Rightarrow> string" where
  "record_fingerprint seq ts tenant who role what target before after prev =
     HASH_PREFIX @ sha256_hex
       (fingerprint_payload seq ts tenant who role what target before after prev)"

definition next_prev_hash :: "string option \<Rightarrow> string" where
  "next_prev_hash last_hash = (if opt_truthy last_hash then the last_hash else GENESIS_HASH)"

definition is_valid_hash_format :: "string option \<Rightarrow> bool" where
  "is_valid_hash_format v =
     (case v of
        None \<Rightarrow> False
      | Some s \<Rightarrow>
          if s = [] \<or> take 7 s \<noteq> HASH_PREFIX then False
          else if s = GENESIS_HASH then True
          else length (drop 7 s) = 64 \<and> list_all is_hex (drop 7 s))"

text \<open>
  \<open>AuditChain.verify\<close> hands \<open>verify_record\<close> a dictionary with every key of the stored record; it is
  the record here, whose instant is read through \<open>iso_z\<close>.
\<close>

definition recomputed :: "audit_record \<Rightarrow> string \<Rightarrow> string" where
  "recomputed r prev =
     record_fingerprint (au_seq r) (iso_z (au_ts r)) (au_tenant r) (au_actor r) (au_actor_role r)
       (au_action r) (au_target r) (au_before r) (au_after r) prev"

definition verify_record :: "audit_record \<Rightarrow> string \<Rightarrow> bool \<times> string option" where
  "verify_record r expected_prev =
     (if au_prev_hash r \<noteq> expected_prev then
        (False, Some (''chaine rompue : prev_hash='' @ repr_str (au_prev_hash r)
           @ '' alors que le precedent se termine par '' @ repr_str expected_prev))
      else if recomputed r expected_prev \<noteq> au_hash r then
        (False, Some (''contenu modifie : empreinte recalculee '' @ recomputed r expected_prev
           @ '' differente de la valeur stockee '' @ au_hash r))
      else (True, None))"

subsection \<open>SIEM export\<close>

definition cef_escape :: "string \<Rightarrow> string" where
  "cef_escape v =
     replace_char (CHR 0x0D) [CHR 0x5C, CHR ''r'']
      (replace_char (CHR 0x0A) [CHR 0x5C, CHR ''n'']
        (replace_char (CHR ''='') [CHR 0x5C, CHR ''='']
          (replace_char (CHR ''|'') [CHR 0x5C, CHR ''|'']
            (replace_char (CHR 0x5C) [CHR 0x5C, CHR 0x5C] v))))"

definition cef_level :: "dict \<Rightarrow> int" where
  "cef_level context =
     (let s = (case dict_get context ''severity'' of None \<Rightarrow> ''info'' | Some v \<Rightarrow> py_str v)
      in case map_of [(''debug'', 1), (''info'', 3), (''low'', 4), (''medium'', 6), (''high'', 8),
           (''critical'', 10)] s of None \<Rightarrow> 3 | Some l \<Rightarrow> l)"

definition to_cef :: "audit_record \<Rightarrow> string" where
  "to_cef r =
     ''CEF:0|Thot Secure|Thot Secure|0.1.0|'' @ cef_escape (au_action r) @ ''|''
       @ cef_escape (au_action r) @ ''|'' @ int_str (cef_level (au_context r)) @ ''|''
       @ join_with '' ''
          [''rt='' @ cef_escape (iso_z (au_ts r)),
           ''suser='' @ cef_escape (au_actor r),
           ''sproc='' @ cef_escape (au_actor_role r),
           ''cs1Label=tenant cs1='' @ cef_escape (au_tenant r),
           ''cs2Label=audit_seq cs2='' @ int_str (au_seq r),
           ''cs3Label=target cs3='' @ cef_escape (canonical_json (PDict (au_target r))),
           ''cs4Label=before cs4='' @ cef_escape (canonical_json (PDict (au_before r))),
           ''cs5Label=after cs5='' @ cef_escape (canonical_json (PDict (au_after r))),
           ''cs6Label=hash cs6='' @ cef_escape (au_hash r)]"

subsection \<open>Logs linked by digests\<close>

locale hash_chain =
  fixes digest :: "string \<Rightarrow> string"
    and payload :: "'r \<Rightarrow> string \<Rightarrow> string"
    and prev :: "'r \<Rightarrow> string"
    and stored :: "'r \<Rightarrow> string"
    and genesis :: string
    and wf :: "string \<Rightarrow> bool"
  assumes digest_wf: "wf (digest x)"
    and genesis_wf: "wf genesis"
    and digest_not_genesis: "digest x \<noteq> genesis"
    and payload_prev: "wf p \<Longrightarrow> wf q \<Longrightarrow> payload r p = payload s q \<Longrightarrow> p = q"
begin

fun linked :: "string \<Rightarrow> 'r list \<Rightarrow> bool" where
  "linked p [] \<longleftrightarrow> True"
| "linked p (r # rs) \<longleftrightarrow> prev r = p \<and> stored r = digest (payload r p) \<and> linked (stored r) rs"

fun head :: "string \<Rightarrow> 'r list \<Rightarrow> string" where
  "head p [] = p"
| "head p (r # rs) = head (stored r) rs"

fun payloads :: "string \<Rightarrow> 'r list \<Rightarrow> string list" where
  "payloads p [] = []"
| "payloads p (r # rs) = payload r p # payloads (stored r) rs"

lemma head_append [simp]: "head p (rs @ ss) = head (head p rs) ss"
  by (induction rs arbitrary: p) auto

lemma linked_append [simp]: "linked p (rs @ ss) \<longleftrightarrow> linked p rs \<and> linked (head p rs) ss"
  by (induction rs arbitrary: p) auto

lemma payloads_append [simp]: "payloads p (rs @ ss) = payloads p rs @ payloads (head p rs) ss"
  by (induction rs arbitrary: p) auto

lemma linked_take: "linked p rs \<Longrightarrow> linked p (take n rs)"
  by (metis append_take_drop_id linked_append)

lemma head_wf: "linked p rs \<Longrightarrow> wf p \<Longrightarrow> wf (head p rs)"
  by (induction rs arbitrary: p) (auto simp: digest_wf)

lemma head_not_genesis: "linked p rs \<Longrightarrow> rs \<noteq> [] \<Longrightarrow> head p rs \<noteq> genesis"
  by (induction rs rule: rev_induct) (auto simp: digest_not_genesis)

text \<open>The record after a proper prefix links to that prefix and to no other start.\<close>

lemma suffix_not_linked:
  "linked genesis (rs @ ss) \<Longrightarrow> rs \<noteq> [] \<Longrightarrow> ss \<noteq> [] \<Longrightarrow> \<not> linked genesis ss"
  by (cases ss) (auto dest: head_not_genesis)

definition collision :: "string list \<Rightarrow> string list \<Rightarrow> bool" where
  "collision xs ys \<longleftrightarrow> (\<exists>x \<in> set xs. \<exists>y \<in> set ys. x \<noteq> y \<and> digest x = digest y)"

theorem head_commits:
  assumes "linked genesis rs" and "linked genesis ss" and "head genesis rs = head genesis ss"
  shows "payloads genesis rs = payloads genesis ss
    \<or> collision (payloads genesis rs) (payloads genesis ss)"
  using assms
proof (induction rs arbitrary: ss rule: rev_induct)
  case Nil
  then have "ss = []" using head_not_genesis [of genesis ss] by auto
  then show ?case by simp
next
  case (snoc r rs)
  then have "ss \<noteq> []" using head_not_genesis [of genesis "rs @ [r]"] by auto
  then obtain ss' s where ss: "ss = ss' @ [s]" by (cases ss rule: rev_cases) auto
  let ?x = "payload r (head genesis rs)" and ?y = "payload s (head genesis ss')"
  have same: "digest ?x = digest ?y" using snoc.prems ss by simp
  show ?case
  proof (cases "?x = ?y")
    case False
    with same show ?thesis unfolding collision_def ss by force
  next
    case True
    have "wf (head genesis rs)" "wf (head genesis ss')"
      using snoc.prems ss head_wf [OF _ genesis_wf] by auto
    then have "head genesis rs = head genesis ss'" using payload_prev True by blast
    then have "payloads genesis rs = payloads genesis ss'
        \<or> collision (payloads genesis rs) (payloads genesis ss')"
      using snoc ss by simp
    then show ?thesis using True ss by (auto simp: collision_def)
  qed
qed

end

subsection \<open>The code's chain\<close>

definition record_payload :: "audit_record \<Rightarrow> string \<Rightarrow> string" where
  "record_payload r prev =
     fingerprint_payload (au_seq r) (iso_z (au_ts r)) (au_tenant r) (au_actor r) (au_actor_role r)
       (au_action r) (au_target r) (au_before r) (au_after r) prev"

abbreviation digest :: "string \<Rightarrow> string" where
  "digest x \<equiv> HASH_PREFIX @ sha256_hex x"

abbreviation no_bar :: "string \<Rightarrow> bool" where
  "no_bar s \<equiv> CHR ''|'' \<notin> set s"

lemma recomputed_digest: "recomputed r p = digest (record_payload r p)"
  by (simp add: recomputed_def record_fingerprint_def record_payload_def)

lemma after_last_sep:
  assumes "a @ c # p = b @ c # q" and "c \<notin> set p" and "c \<notin> set q"
  shows "a = b \<and> p = q"
proof -
  have "takeWhile (\<lambda>x. x \<noteq> c) (rev p @ c # rev a) = takeWhile (\<lambda>x. x \<noteq> c) (rev q @ c # rev b)"
    using arg_cong [OF assms(1), of rev] by simp
  moreover have "takeWhile (\<lambda>x. x \<noteq> c) (rev w @ c # v) = rev w" if "c \<notin> set w" for w v
    using that by (subst takeWhile_append2) auto
  ultimately have "rev p = rev q" using assms(2,3) by simp
  then show ?thesis using assms(1) by simp
qed

lemma join_with_snoc: "ws \<noteq> [] \<Longrightarrow> join_with [c] (ws @ [w]) = join_with [c] ws @ c # w"
proof (induction ws)
  case (Cons v vs)
  then show ?case by (cases vs) (simp_all add: join_with_Cons)
qed simp

lemma digest_chars: "no_bar (digest x)"
proof -
  have "\<not> is_hex (CHR ''|'')" "no_bar HASH_PREFIX" by code_simp+
  then show ?thesis using sha256_hex_shape [of x] by (auto simp: list_all_iff)
qed

lemma digest_length: "length (digest x) = 71"
  using sha256_hex_shape [of x] by (simp add: HASH_PREFIX_def)

lemma genesis_length: "length ''sha256:genesis'' \<noteq> 71"
  by simp

interpretation chain: hash_chain digest record_payload au_prev_hash au_hash GENESIS_HASH no_bar
proof
  show "digest x \<noteq> GENESIS_HASH" for x
    using digest_length [of x] by (metis GENESIS_HASH_def genesis_length)
  show "no_bar GENESIS_HASH" by code_simp
  show "p = q" if "no_bar p" "no_bar q" "record_payload r p = record_payload s q" for p q r s
  proof -
    let ?ws = "\<lambda>r. [int_str (au_seq r), iso_z (au_ts r), au_tenant r, au_actor r, au_actor_role r,
      au_action r, canonical_json (PDict (au_target r)), canonical_json (PDict (au_before r)),
      canonical_json (PDict (au_after r))]"
    have "record_payload r p = join_with ''|'' (?ws r) @ CHR ''|'' # p" for r p
      using join_with_snoc [of "?ws r" "CHR ''|''" p]
      by (simp add: record_payload_def fingerprint_payload_def)
    then show ?thesis using that after_last_sep by metis
  qed
qed (rule digest_chars)

lemma verify_record_iff:
  "fst (verify_record r p) \<longleftrightarrow> au_prev_hash r = p \<and> au_hash r = digest (record_payload r p)"
  by (auto simp: verify_record_def recomputed_digest)

text \<open>
  A fingerprint is always well formed, and so is the \<open>prev_hash\<close> the next record is given.
\<close>

theorem fingerprint_format:
  "is_valid_hash_format
     (Some (record_fingerprint seq ts tenant who role what target before after prev))
   \<and> is_valid_hash_format (Some (next_prev_hash None))
   \<and> next_prev_hash (Some (record_fingerprint seq ts tenant who role what target before after prev))
     = record_fingerprint seq ts tenant who role what target before after prev"
proof -
  have "take 7 (digest x) = HASH_PREFIX" "drop 7 (digest x) = sha256_hex x" for x
    by (simp_all add: HASH_PREFIX_def)
  moreover have "digest x \<noteq> []" for x by (simp add: HASH_PREFIX_def)
  ultimately have "is_valid_hash_format (Some (digest x)) \<and> next_prev_hash (Some (digest x)) = digest x"
    for x
    using sha256_hex_shape [of x]
    by (simp only: is_valid_hash_format_def next_prev_hash_def opt_truthy_def option.case
        option.sel option.inject) simp
  moreover have "is_valid_hash_format (Some GENESIS_HASH)" by code_simp
  ultimately show ?thesis
    by (simp add: record_fingerprint_def next_prev_hash_def opt_truthy_def)
qed

text \<open>
  Two representations of the same record have the same fingerprint: it does not depend on the
  order of the keys of the three documents.
\<close>

theorem fingerprint_key_order:
  assumes "distinct (map fst target)" "distinct (map fst target')" "set target = set target'"
    and "distinct (map fst before)" "distinct (map fst before')" "set before = set before'"
    and "distinct (map fst after)" "distinct (map fst after')" "set after = set after'"
  shows "record_fingerprint seq ts tenant who role what target before after prev
    = record_fingerprint seq ts tenant who role what target' before' after' prev"
  using assms canonical_json_order [of target target'] canonical_json_order [of before before']
    canonical_json_order [of after after']
  by (simp only: record_fingerprint_def fingerprint_payload_def)

theorem fingerprint_key_order_witness:
  "record_fingerprint 1 ''t'' ''a'' ''b'' ''c'' ''d'' [(''x'', PInt 1), (''y'', PNone)] [] [] ''p''
   = record_fingerprint 1 ''t'' ''a'' ''b'' ''c'' ''d'' [(''y'', PNone), (''x'', PInt 1)] [] [] ''p''"
  by (rule fingerprint_key_order) auto

text \<open>
  The separator is not escaped.  Moving text across the boundary of two fields, here from the role
  to the actor, leaves the fingerprint unchanged, so a record altered that way still verifies.
\<close>

theorem fingerprint_field_shift:
  "record_fingerprint seq ts tenant (who @ ''|'' @ x) role what target before after prev
   = record_fingerprint seq ts tenant who (x @ ''|'' @ role) what target before after prev"
  by (simp add: record_fingerprint_def fingerprint_payload_def)

subsection \<open>CEF lines\<close>

definition cef_char :: "char \<Rightarrow> string" where
  "cef_char c =
     (if c = CHR 0x5C \<or> c = CHR ''|'' \<or> c = CHR ''='' then [CHR 0x5C, c]
      else if c = CHR 0x0A then [CHR 0x5C, CHR ''n'']
      else if c = CHR 0x0D then [CHR 0x5C, CHR ''r''] else [c])"

lemma cef_escape_alt: "cef_escape s = concat (map cef_char s)"
  by (induction s) (auto simp: cef_escape_def cef_char_def replace_char_append)

fun cef_unescape :: "string \<Rightarrow> string" where
  "cef_unescape [] = []"
| "cef_unescape (x # xs) =
     (if x = CHR 0x5C then
        (case xs of
           [] \<Rightarrow> [x]
         | y # ys \<Rightarrow> (if y = CHR ''n'' then CHR 0x0A else if y = CHR ''r'' then CHR 0x0D else y)
             # cef_unescape ys)
      else x # cef_unescape xs)"

lemma cef_unescape_char: "cef_unescape (cef_char c @ s) = c # cef_unescape s"
  by (auto simp: cef_char_def)

text \<open>
  Escaping for CEF loses nothing (a reader that undoes it gets the field back) and a record is
  exported as one line, whatever its fields hold: no field can start a forged second line.
\<close>

theorem cef_escape_roundtrip:
  "cef_unescape (cef_escape s) = s \<and> CHR 0x0A \<notin> set (to_cef r) \<and> CHR 0x0D \<notin> set (to_cef r)"
proof (intro conjI)
  show "cef_unescape (cef_escape s) = s"
    by (induction s) (simp_all add: cef_escape_alt cef_unescape_char)
  have field: "CHR 0x0A \<notin> set (cef_escape v)" "CHR 0x0D \<notin> set (cef_escape v)" for v
    by (auto simp: cef_escape_alt cef_char_def split: if_splits)
  have num: "CHR 0x0A \<notin> set (int_str i)" "CHR 0x0D \<notin> set (int_str i)" for i
    using int_str_chars [of "CHR 0x0A" i] int_str_chars [of "CHR 0x0D" i]
    by (auto simp: is_digit_def code_def)
  show "CHR 0x0A \<notin> set (to_cef r)" "CHR 0x0D \<notin> set (to_cef r)"
    using field num by (auto simp: to_cef_def)
qed

end
