(* ===== verification/Json.thy ===== *)
theory Json
  imports PyVal
begin

section \<open>JSON text and its parser\<close>

text \<open>
  \<open>json.dumps\<close> in the two layouts the code uses (with \<open>ensure_ascii=False\<close> and \<open>default=str\<close>) and
  \<open>json.loads\<close>.  The store's JSON columns, the rollback tokens of the executor and the exported audit
  lines are texts of this kind.  The main theorem is the round trip: parsing what was printed gives
  the value back, instants having become their text.  The parser recurses with fuel; the length of
  the text is always enough, since every call consumes a character.
\<close>

subsection \<open>Printing\<close>

definition dump_char :: "char \<Rightarrow> string" where
  "dump_char c = (if 127 \<le> code c then [c] else esc_char c)"

definition dump_str :: "string \<Rightarrow> string" where
  "dump_str s = [CHR 0x22] @ concat (map dump_char s) @ [CHR 0x22]"

primrec json_text :: "string \<Rightarrow> string \<Rightarrow> pyval \<Rightarrow> string" where
  "json_text comma colon PNone = ''null''"
| "json_text comma colon (PBool b) = (if b then ''true'' else ''false'')"
| "json_text comma colon (PInt i) = int_str i"
| "json_text comma colon (PFloat x) = float_repr x"
| "json_text comma colon (PStr s) = dump_str s"
| "json_text comma colon (PTime t) = dump_str (datetime_str t)"
| "json_text comma colon (PList xs) = ''['' @ join_with comma (map (json_text comma colon) xs) @ '']''"
| "json_text comma colon (PDict d) =
     ''{'' @ join_with comma (map (\<lambda>(k, t). dump_str k @ colon @ t)
        (map (map_prod id (json_text comma colon)) d)) @ ''}''"

text \<open>The default separators, and \<open>separators=(",", ":")\<close>.\<close>

abbreviation json_dumps :: "pyval \<Rightarrow> string" where
  "json_dumps \<equiv> json_text '', '' '': ''"

abbreviation json_compact :: "pyval \<Rightarrow> string" where
  "json_compact \<equiv> json_text '','' '':''"

subsection \<open>Parsing\<close>

definition is_ws :: "char \<Rightarrow> bool" where
  "is_ws c \<longleftrightarrow> c \<in> {CHR '' '', CHR 0x09, CHR 0x0A, CHR 0x0D}"

definition skip_ws :: "string \<Rightarrow> string" where
  "skip_ws = dropWhile is_ws"

definition hex_value :: "char \<Rightarrow> int option" where
  "hex_value c =
     (if is_digit c then Some (code c - 48)
      else if 97 \<le> code c \<and> code c \<le> 102 then Some (code c - 87)
      else if 65 \<le> code c \<and> code c \<le> 70 then Some (code c - 55)
      else None)"

definition simple_escape :: "char \<Rightarrow> char option" where
  "simple_escape c =
     map_of [(CHR 0x22, CHR 0x22), (CHR 0x5C, CHR 0x5C), (CHR ''/'', CHR ''/''), (CHR ''b'', CHR 0x08),
             (CHR ''f'', CHR 0x0C), (CHR ''n'', CHR 0x0A), (CHR ''r'', CHR 0x0D), (CHR ''t'', CHR 0x09)] c"

text \<open>A \<open>\<backslash>uXXXX\<close> escape; code points above 255 are outside the model's texts.\<close>

definition unicode_escape :: "string \<Rightarrow> (char \<times> string) option" where
  "unicode_escape s =
     (case s of
        a # b # c # d # r \<Rightarrow>
          (case (hex_value a, hex_value b, hex_value c, hex_value d) of
             (Some x, Some y, Some z, Some w) \<Rightarrow>
               if x = 0 \<and> y = 0 then Some (char_of (16 * z + w), r) else None
           | _ \<Rightarrow> None)
      | _ \<Rightarrow> None)"

lemma unicode_escape_shorter: "unicode_escape s = Some (c, r) \<Longrightarrow> length r < length s"
  by (auto simp: unicode_escape_def split: list.splits option.splits if_splits)

text \<open>The text of a string after its opening quote.\<close>

function parse_chars :: "string \<Rightarrow> (string \<times> string) option" where
  "parse_chars s =
     (case s of
        [] \<Rightarrow> None
      | c # cs \<Rightarrow>
          if c = CHR 0x22 then Some ([], cs)
          else if c = CHR 0x5C then
            (case cs of
               [] \<Rightarrow> None
             | e # r \<Rightarrow>
                 if e = CHR ''u'' then
                   (case unicode_escape r of
                      None \<Rightarrow> None
                    | Some (x, r') \<Rightarrow> map_option (map_prod ((#) x) id) (parse_chars r'))
                 else
                   (case simple_escape e of
                      None \<Rightarrow> None
                    | Some x \<Rightarrow> map_option (map_prod ((#) x) id) (parse_chars r)))
          else if code c < 32 then None
          else map_option (map_prod ((#) c) id) (parse_chars cs))"
  by pat_completeness auto
termination
  by (relation "measure length") (auto dest: unicode_escape_shorter)

declare parse_chars.simps [simp del]

text \<open>A number: sign, digits, then a fraction or an exponent for a float.\<close>

definition parse_number :: "string \<Rightarrow> (pyval \<times> string) option" where
  "parse_number s =
     (let neg = (take 1 s = ''-''); body = (if neg then drop 1 s else s);
          digits = takeWhile is_digit body; rest = dropWhile is_digit body;
          frac = (if take 1 rest = ''.'' then takeWhile is_digit (drop 1 rest) else []);
          after = (if frac = [] then rest else dropWhile is_digit (drop 1 rest));
          sgn = (if neg then -1 else 1)
      in if digits = [] \<or> 1 < length digits \<and> take 1 digits = ''0'' then None
         else if take 1 after \<in> {''e'', ''E''} then
           (let sign = take 1 (drop 1 after);
                ex = (if sign \<in> {''-'', ''+''} then drop 2 after else drop 1 after);
                eds = takeWhile is_digit ex;
                m = of_int (sgn * digits_val (digits @ frac)) / 10 ^ length frac;
                e = nat (digits_val eds)
            in if eds = []
               then Some (if frac = [] then PInt (sgn * digits_val digits) else PFloat m, after)
               else Some (PFloat (if sign = ''-'' then m / 10 ^ e else m * 10 ^ e),
                          dropWhile is_digit ex))
         else if frac = [] then Some (PInt (sgn * digits_val digits), after)
         else Some (PFloat (of_int (sgn * digits_val (digits @ frac)) / 10 ^ length frac), after))"

definition collect :: "(string \<times> pyval) list \<Rightarrow> dict" where
  "collect kvs = foldl (\<lambda>d (k, v). dict_set k v d) [] kvs"

fun parse_value :: "nat \<Rightarrow> string \<Rightarrow> (pyval \<times> string) option"
  and parse_items :: "nat \<Rightarrow> string \<Rightarrow> (pyval list \<times> string) option"
  and parse_members :: "nat \<Rightarrow> string \<Rightarrow> ((string \<times> pyval) list \<times> string) option" where
  "parse_value 0 s = None"
| "parse_value (Suc n) s =
     (case s of
        [] \<Rightarrow> None
      | c # cs \<Rightarrow>
          if c = CHR 0x22 then map_option (map_prod PStr id) (parse_chars cs)
          else if c = CHR ''['' then
            (if take 1 (skip_ws cs) = '']'' then Some (PList [], drop 1 (skip_ws cs))
             else map_option (map_prod PList id) (parse_items n (skip_ws cs)))
          else if c = CHR ''{'' then
            (if take 1 (skip_ws cs) = ''}'' then Some (PDict [], drop 1 (skip_ws cs))
             else map_option (map_prod (\<lambda>kvs. PDict (collect kvs)) id) (parse_members n (skip_ws cs)))
          else if take 4 s = ''null'' then Some (PNone, drop 4 s)
          else if take 4 s = ''true'' then Some (PBool True, drop 4 s)
          else if take 5 s = ''false'' then Some (PBool False, drop 5 s)
          else parse_number s)"
| "parse_items 0 s = None"
| "parse_items (Suc n) s =
     (case parse_value n s of
        None \<Rightarrow> None
      | Some (v, r) \<Rightarrow>
          (case skip_ws r of
             [] \<Rightarrow> None
           | c # t \<Rightarrow>
               if c = CHR '']'' then Some ([v], t)
               else if c = CHR '','' then map_option (map_prod ((#) v) id) (parse_items n (skip_ws t))
               else None))"
| "parse_members 0 s = None"
| "parse_members (Suc n) s =
     (if take 1 s \<noteq> [CHR 0x22] then None
      else
        (case parse_chars (drop 1 s) of
           None \<Rightarrow> None
         | Some (k, r) \<Rightarrow>
             if take 1 (skip_ws r) \<noteq> '':'' then None
             else
               (case parse_value n (skip_ws (drop 1 (skip_ws r))) of
                  None \<Rightarrow> None
                | Some (v, u) \<Rightarrow>
                    (case skip_ws u of
                       [] \<Rightarrow> None
                     | c # t \<Rightarrow>
                         if c = CHR ''}'' then Some ([(k, v)], t)
                         else if c = CHR '','' then
                           map_option (map_prod ((#) (k, v)) id) (parse_members n (skip_ws t))
                         else None))))"

definition json_loads :: "string \<Rightarrow> pyval option" where
  "json_loads s =
     (case parse_value (Suc (length s)) (skip_ws s) of
        None \<Rightarrow> None
      | Some (v, r) \<Rightarrow> if skip_ws r = [] then Some v else None)"


subsection \<open>Strings come back\<close>

lemma code_range: "0 \<le> code c \<and> code c < 256"
  by (simp add: code_def of_char_def)

lemma char_of_code: "char_of (code c) = c"
  by (simp add: code_def)

lemma hex_value_digit:
  assumes "0 \<le> n" and "n < 16" shows "hex_value (hex_digit n) = Some n"
proof -
  have "n \<in> set [0..15]" using assms by simp
  moreover have "list_all (\<lambda>n. hex_value (hex_digit n) = Some n) [0..15]" by code_simp
  ultimately show ?thesis by (simp add: list_all_iff)
qed

lemma unicode_escape_hex:
  "unicode_escape (''00'' @ hex2 (code c) @ t) = Some (c, t)"
proof -
  have "hex_value (hex_digit (code c div 16)) = Some (code c div 16)"
    using code_range [of c] by (intro hex_value_digit) auto
  moreover have "hex_value (hex_digit (code c mod 16)) = Some (code c mod 16)"
    by (rule hex_value_digit) simp_all
  moreover have "hex_value (CHR ''0'') = Some 0" by code_simp
  ultimately show ?thesis
    by (simp add: unicode_escape_def hex2_def char_of_code)
qed

lemma parse_dump_char:
  "parse_chars (dump_char c @ t) = map_option (map_prod ((#) c) id) (parse_chars t)"
proof -
  let ?named = "{CHR 0x22, CHR 0x5C, CHR 0x0A, CHR 0x0D, CHR 0x09, CHR 0x0C, CHR 0x08}"
  let ?self = "127 \<le> code c \<or> 32 \<le> code c \<and> code c \<le> 126"
  consider (named) "c \<in> ?named" | (self) "c \<notin> ?named" ?self | (uni) "c \<notin> ?named" "\<not> ?self" by blast
  then show ?thesis
  proof cases
    case named
    then show ?thesis
      by (auto simp: dump_char_def esc_char_def code_def simple_escape_def
          parse_chars.simps [of "CHR 0x5C # _"])
  next
    case self
    then have "dump_char c = [c]" "32 \<le> code c" by (auto simp: dump_char_def esc_char_def)
    with self show ?thesis by (simp add: parse_chars.simps [of "c # _"])
  next
    case uni
    then have "dump_char c = [CHR 0x5C, CHR ''u''] @ ''00'' @ hex2 (code c)"
      by (auto simp: dump_char_def esc_char_def)
    then show ?thesis
      using unicode_escape_hex [of c t] by (simp add: parse_chars.simps [of "CHR 0x5C # _"])
  qed
qed

lemma parse_dump_str: "parse_chars (concat (map dump_char s) @ CHR 0x22 # t) = Some (s, t)"
  by (induction s) (simp_all add: parse_dump_char parse_chars.simps [of "CHR 0x22 # t"])

subsection \<open>Numbers come back\<close>

definition stops :: "string \<Rightarrow> bool" where
  "stops r \<longleftrightarrow> r = [] \<or> hd r \<in> {CHR '','', CHR '']'', CHR ''}''}"

lemma stops_char:
  assumes "stops r"
  shows "takeWhile is_digit r = []" "dropWhile is_digit r = r" "take 1 r \<notin> {''.'', ''e'', ''E''}"
proof -
  have "\<not> is_digit (CHR '','')" "\<not> is_digit (CHR '']'')" "\<not> is_digit (CHR ''}'')" by code_simp+
  with assms show "takeWhile is_digit r = []" "dropWhile is_digit r = r" "take 1 r \<notin> {''.'', ''e'', ''E''}"
    by (cases r; auto simp: stops_def)+
qed

lemma dec_str_head: "0 \<le> n \<Longrightarrow> 1 < length (dec_str n) \<Longrightarrow> hd (dec_str n) \<noteq> CHR ''0''"
proof (induction n rule: dec_str.induct)
  case (1 n)
  have "\<not> n < 10" using 1(3) by (auto simp: dec_str.simps [of n] split: if_splits)
  show ?case
  proof (cases "n div 10 < 10")
    case True
    have "code (char_of (48 + n div 10)) = 48 + n div 10"
      using True \<open>\<not> n < 10\<close> by (intro code_char_of_digit) auto
    moreover have "code (CHR ''0'') = 48" by code_simp
    moreover have "n div 10 \<noteq> 0" using \<open>\<not> n < 10\<close> by simp
    ultimately have "char_of (48 + n div 10) \<noteq> CHR ''0''" by auto
    then show ?thesis
      using True \<open>\<not> n < 10\<close> by (simp add: dec_str.simps [of n] dec_str.simps [of "n div 10"])
  next
    case False
    then have "1 < length (dec_str (n div 10))"
      by (simp add: dec_str.simps [of "n div 10"])
    then show ?thesis
      using 1 \<open>\<not> n < 10\<close> by (simp add: dec_str.simps [of n])
  qed
qed

lemma dec_str_all_digits: "0 \<le> n \<Longrightarrow> list_all is_digit (dec_str n)"
  by (auto simp: list_all_iff dest: dec_str_digits)

lemma take_digits:
  assumes "list_all is_digit ds" and "r = [] \<or> \<not> is_digit (hd r)"
  shows "takeWhile is_digit (ds @ r) = ds" "dropWhile is_digit (ds @ r) = r"
  using assms by (induction ds) (cases r, auto)+

lemma minus_not_digit: "0 \<le> n \<Longrightarrow> take 1 (dec_str n @ r) \<noteq> ''-''"
proof -
  assume n: "0 \<le> n"
  have "is_digit (hd (dec_str n))" using dec_str_digits [OF n, of "hd (dec_str n)"] by simp
  then have "hd (dec_str n) \<noteq> CHR ''-''" using dash_not_digit by auto
  then show ?thesis by (cases "dec_str n") auto
qed

lemma stops_not_digit: "stops r \<Longrightarrow> r = [] \<or> \<not> is_digit (hd r)"
  using stops_char(1) [of r] by (cases r) (auto split: if_splits)

lemma parse_int_str:
  assumes "stops r" shows "parse_number (int_str i @ r) = Some (PInt i, r)"
proof -
  let ?a = "\<bar>i\<bar>"
  have shape: "int_str i = (if i < 0 then ''-'' else []) @ dec_str ?a"
    by (simp add: int_str_def)
  have digits: "takeWhile is_digit (dec_str ?a @ r) = dec_str ?a" "dropWhile is_digit (dec_str ?a @ r) = r"
    using take_digits [OF dec_str_all_digits [of ?a] stops_not_digit [OF assms]] by simp_all
  have "\<not> (1 < length (dec_str ?a) \<and> take 1 (dec_str ?a) = ''0'')"
    using dec_str_head [of ?a] by (cases "dec_str ?a") auto
  moreover have "take 1 (dec_str i @ r) \<noteq> ''-''" if "\<not> i < 0"
    using that minus_not_digit [of i r] by simp
  moreover have "take 1 r \<noteq> ''.''" "take 1 r \<notin> {''e'', ''E''}"
    using stops_char(3) [OF assms] by auto
  ultimately show ?thesis
    using digits unfolding shape parse_number_def Let_def
    by (cases "i < 0") (simp_all add: digits_val_dec_str)
qed


text \<open>A float with at most 17 decimals, the ones \<open>float_repr\<close> prints in full.\<close>

definition short_float :: "rat \<Rightarrow> bool" where
  "short_float x \<longleftrightarrow> x * 10 ^ 17 = of_int \<lfloor>x * 10 ^ 17\<rfloor>"

lemma places_whole: "x * 10 ^ n \<in> \<int> \<Longrightarrow> x * 10 ^ places n x \<in> \<int>"
proof (induction n arbitrary: x)
  case (Suc n)
  show ?case
  proof (cases "x = of_int \<lfloor>x\<rfloor>")
    case True
    then have "x \<in> \<int>" by (metis Ints_of_int)
    then show ?thesis using True by simp
  next
    case False
    have "x * 10 * 10 ^ places n (x * 10) \<in> \<int>" 
      using Suc.IH [of "x * 10"] Suc.prems by (simp add: mult.assoc)
    then show ?thesis using False by (simp add: mult.assoc)
  qed
qed simp

lemma short_float_scaled:
  assumes "short_float x" shows "x * 10 ^ max 1 (places 17 x) \<in> \<int>"
proof -
  have "x * 10 ^ 17 \<in> \<int>" using assms unfolding short_float_def by (metis Ints_of_int)
  then have whole: "x * 10 ^ places 17 x \<in> \<int>" by (rule places_whole)
  show ?thesis
  proof (cases "places 17 x")
    case 0
    then have "x * 10 \<in> \<int>" using Ints_mult [OF whole, of 10] by simp
    then show ?thesis using 0 by simp
  next
    case (Suc k)
    then have "max 1 (places 17 x) = places 17 x" by simp
    with whole show ?thesis by metis
  qed
qed

lemma digits_val_foldl:
  "foldl (\<lambda>n c. 10 * n + (code c - 48)) a s = a * 10 ^ length s + digits_val s"
proof (induction s arbitrary: a)
  case (Cons c s)
  show ?case
    using Cons [of "10 * a + (code c - 48)"] Cons [of "code c - 48"]
    by (simp add: digits_val_def algebra_simps)
qed (simp add: digits_val_def)

lemma digits_val_app: "digits_val (s @ t) = digits_val s * 10 ^ length t + digits_val t"
  using digits_val_foldl [of "digits_val s" t] by (simp add: digits_val_def)

lemma digits_val_zeros: "digits_val (replicate j (CHR ''0'') @ s) = digits_val s"
proof -
  have "digits_val (replicate j (CHR ''0'')) = 0"
    by (induction j) (simp_all add: digits_val_def code_def)
  then show ?thesis by (simp add: digits_val_app)
qed

lemma dec_str_length: "0 \<le> n \<Longrightarrow> n < 10 ^ Suc k \<Longrightarrow> length (dec_str n) \<le> Suc k"
proof (induction k arbitrary: n)
  case (Suc k)
  show ?case
  proof (cases "n < 10")
    case False
    have below: "n < 10 * m \<Longrightarrow> n div 10 < m" for m :: int by presburger
    have "n div 10 < 10 ^ Suc k" by (rule below) (use Suc.prems in simp)
    then have "length (dec_str (n div 10)) \<le> Suc k" using Suc by simp
    then show ?thesis using False by (simp add: dec_str.simps [of n])
  qed (simp add: dec_str.simps [of n])
qed (simp add: dec_str.simps)


lemma parse_decimal_str:
  assumes "stops r" and "0 < k"
  shows "parse_number (decimal_str k m @ r) = Some (PFloat (of_int m / 10 ^ k), r)"
proof -
  let ?a = "\<bar>m\<bar>"
  let ?w = "dec_str (?a div 10 ^ k)" and ?f = "pad_left k (CHR ''0'') (dec_str (?a mod 10 ^ k))"
  obtain j where k: "k = Suc j" using assms(2) by (cases k) auto
  have frac: "0 \<le> ?a mod 10 ^ k" "?a mod 10 ^ k < 10 ^ k" by simp_all
  have len: "length ?f = k"
    using dec_str_length [of "?a mod 10 ^ k" j] frac k by (simp add: pad_left_def)
  have whole: "0 \<le> ?a div 10 ^ k" by (simp add: pos_imp_zdiv_nonneg_iff)
  have "is_digit (CHR ''0'')" "\<not> is_digit (CHR ''.'')" by code_simp+
  then have digits: "list_all is_digit ?w" "list_all is_digit ?f" "\<not> is_digit (CHR ''.'')"
    using dec_str_all_digits [OF whole] dec_str_all_digits [OF frac(1)]
    by (auto simp: pad_left_def list_all_iff)
  have shape: "decimal_str k m @ r = (if m < 0 then ''-'' else []) @ ?w @ CHR ''.'' # ?f @ r"
    using assms(2) by (simp add: decimal_str_def Let_def)
  have "digits_val ?f = ?a mod 10 ^ k"
    using digits_val_dec_str [OF frac(1)] by (simp only: pad_left_def digits_val_zeros)
  then have val: "digits_val (?w @ ?f) = ?a"
    using digits_val_dec_str [OF whole] len div_mult_mod_eq [of ?a "10 ^ k"]
    by (simp only: digits_val_app)
  have run: "takeWhile is_digit (?w @ CHR ''.'' # ?f @ r) = ?w"
    "dropWhile is_digit (?w @ CHR ''.'' # ?f @ r) = CHR ''.'' # ?f @ r"
    "takeWhile is_digit (?f @ r) = ?f" "dropWhile is_digit (?f @ r) = r"
    using take_digits [OF digits(1), of "CHR ''.'' # ?f @ r"] digits(3)
      take_digits [OF digits(2) stops_not_digit [OF assms(1)]] by simp_all
  have "\<not> (1 < length ?w \<and> take 1 ?w = ''0'')"
    using dec_str_head [OF whole] by (cases ?w) auto
  moreover have "take 1 (?w @ CHR ''.'' # ?f @ r) \<noteq> ''-''" by (rule minus_not_digit [OF whole])
  moreover have "?f \<noteq> []" using len assms(2) by auto
  moreover have "take 1 r \<notin> {''e'', ''E''}" using stops_char(3) [OF assms(1)] by auto
  ultimately show ?thesis
    using run val len unfolding shape parse_number_def Let_def
    by (cases "m < 0") (simp_all del: append_assoc)
qed

lemma parse_float_repr:
  assumes "stops r" and "short_float x"
  shows "parse_number (float_repr x @ r) = Some (PFloat x, r)"
proof -
  let ?k = "max 1 (places 17 x)"
  obtain i where i: "x * 10 ^ ?k = of_int i"
    using short_float_scaled [OF assms(2)] by (auto elim: Ints_cases)
  have "of_int i / 10 ^ ?k = x" unfolding i [symmetric] by simp
  moreover have "round_half_even (x * 10 ^ ?k) = i" unfolding i by simp
  ultimately show ?thesis
    using parse_decimal_str [OF assms(1), of ?k i]
    by (simp only: float_repr_def Let_def fmt_fixed_def)
qed

subsection \<open>Values come back\<close>

primrec json_wf :: "pyval \<Rightarrow> bool" where
  "json_wf PNone = True"
| "json_wf (PBool b) = True"
| "json_wf (PInt i) = True"
| "json_wf (PFloat x) = short_float x"
| "json_wf (PStr s) = True"
| "json_wf (PTime t) = True"
| "json_wf (PList xs) = list_all id (map json_wf xs)"
| "json_wf (PDict d) = (distinct (map fst d) \<and> list_all snd (map (map_prod id json_wf) d))"

lemma number_head:
  "\<exists>c t. int_str i = c # t \<and> (is_digit c \<or> c = CHR ''-'')"
  "\<exists>c t. float_repr x = c # t \<and> (is_digit c \<or> c = CHR ''-'')"
proof -
  have dec: "\<exists>c t. dec_str n = c # t \<and> is_digit c" if "0 \<le> n" for n
    using dec_str_digits [OF that] by (cases "dec_str n") auto
  show "\<exists>c t. int_str i = c # t \<and> (is_digit c \<or> c = CHR ''-'')"
    using dec [of i] by (auto simp: int_str_def)
  have "\<exists>c t. decimal_str k m = c # t \<and> (is_digit c \<or> c = CHR ''-'')" for k m
    using dec [of "\<bar>m\<bar> div 10 ^ k"] by (auto simp: decimal_str_def Let_def pos_imp_zdiv_nonneg_iff)
  then show "\<exists>c t. float_repr x = c # t \<and> (is_digit c \<or> c = CHR ''-'')"
    by (simp add: float_repr_def Let_def fmt_fixed_def)
qed

lemma number_char:
  assumes "is_digit c \<or> c = CHR ''-''"
  shows "c \<notin> {CHR 0x22, CHR ''['', CHR ''{'', CHR ''n'', CHR ''t'', CHR ''f'', CHR '']'', CHR ''}''} \<and> \<not> is_ws c"
proof -
  have "list_all (\<lambda>d. \<not> is_digit d \<and> d \<noteq> CHR ''-'')
    [CHR 0x22, CHR ''['', CHR ''{'', CHR ''n'', CHR ''t'', CHR ''f'', CHR '']'', CHR ''}'', CHR '' '', CHR 0x09,
     CHR 0x0A, CHR 0x0D]"
    by code_simp
  with assms show ?thesis by (auto simp: is_ws_def)
qed

lemma parse_number_value:
  assumes "\<exists>c t. s = c # t \<and> (is_digit c \<or> c = CHR ''-'')"
  shows "parse_value (Suc n) (s @ r) = parse_number (s @ r)"
proof -
  obtain c t where s: "s = c # t" and c: "is_digit c \<or> c = CHR ''-''" using assms by blast
  show ?thesis using number_char [OF c] unfolding s by simp
qed


text \<open>The first character of a value's text is neither a blank nor a closing bracket.\<close>

lemma text_head:
  "\<exists>h t. json_text comma colon v = h # t \<and> \<not> is_ws h \<and> h \<noteq> CHR '']'' \<and> h \<noteq> CHR ''}''"
proof (cases v)
  case (PInt i)
  then show ?thesis using number_head(1) [of i] number_char by fastforce
next
  case (PFloat x)
  then show ?thesis using number_head(2) [of x] number_char by fastforce
qed (simp_all add: is_ws_def dump_str_def)

lemma skip_text: "skip_ws (json_text comma colon v @ r) = json_text comma colon v @ r"
  using text_head [of comma colon v] by (auto simp: skip_ws_def)

lemma skip_blanks: "list_all is_ws w \<Longrightarrow> skip_ws (w @ s) = skip_ws s"
  by (induction w) (simp_all add: skip_ws_def)

lemma skip_named [simp]:
  "skip_ws (CHR '','' # s) = CHR '','' # s" "skip_ws (CHR '']'' # s) = CHR '']'' # s"
  "skip_ws (CHR ''}'' # s) = CHR ''}'' # s" "skip_ws (CHR '':'' # s) = CHR '':'' # s"
  "skip_ws (CHR 0x22 # s) = CHR 0x22 # s"
  by (simp_all add: skip_ws_def is_ws_def)

lemma stops_named [simp]:
  "stops (CHR '','' # s)" "stops (CHR '']'' # s)" "stops (CHR ''}'' # s)" "stops []"
  by (simp_all add: stops_def)

lemma dump_str_parse: "parse_chars (drop 1 (dump_str k @ r)) = Some (k, r)" "take 1 (dump_str k @ r) = [CHR 0x22]"
  using parse_dump_str [of k r] by (simp_all add: dump_str_def)

lemma collect_distinct: "distinct (map fst d) \<Longrightarrow> collect d = d"
proof -
  have "distinct (map fst (e @ d)) \<Longrightarrow> foldl (\<lambda>d (k, v). dict_set k v d) e d = e @ d" for e :: dict
  proof (induction d arbitrary: e)
    case (Cons kv d)
    have "dict_set (fst kv) (snd kv) e = e @ [kv]" if "fst kv \<notin> fst ` set e"
      using that by (induction e) auto
    with Cons show ?case by (cases kv) auto
  qed simp
  then show "distinct (map fst d) \<Longrightarrow> collect d = d" by (simp add: collect_def)
qed

lemma parse_items_text:
  assumes "\<And>x n r. x \<in> set xs \<Longrightarrow> stops r \<Longrightarrow> length (json_text comma colon x) \<le> n \<Longrightarrow>
      parse_value n (json_text comma colon x @ r) = Some (jsonify x, r)"
    and "xs \<noteq> []" and "comma = CHR '','' # w" and "list_all is_ws w"
    and "length (join_with comma (map (json_text comma colon) xs)) < n"
  shows "parse_items n (join_with comma (map (json_text comma colon) xs) @ CHR '']'' # r)
    = Some (map jsonify xs, r)"
  using assms(1,2,5)
proof (induction xs arbitrary: n)
  case (Cons x xs)
  obtain m where n: "n = Suc m" using Cons.prems(3) by (cases n) auto
  let ?t = "json_text comma colon"
  show ?case
  proof (cases "xs = []")
    case True
    then have "parse_value m (?t x @ CHR '']'' # r) = Some (jsonify x, CHR '']'' # r)"
      using Cons.prems n by (intro Cons.prems(1)) auto
    then show ?thesis using True n by simp
  next
    case False
    let ?rest = "join_with comma (map ?t xs) @ CHR '']'' # r"
    have join: "join_with comma (map ?t (x # xs)) = ?t x @ comma @ join_with comma (map ?t xs)"
      using False by (simp add: join_with_Cons)
    have "parse_value m (?t x @ comma @ ?rest) = Some (jsonify x, comma @ ?rest)"
      using Cons.prems n join by (intro Cons.prems(1)) (auto simp: assms(3))
    moreover have "parse_items m ?rest = Some (map jsonify xs, r)"
      using Cons.prems n join False by (intro Cons.IH) (auto simp: assms(3))
    moreover have "skip_ws (w @ ?rest) = ?rest"
    proof -
      obtain y ys where "xs = y # ys" using False by (cases xs) auto
      then obtain u where "?rest = ?t y @ u" by (cases ys) (auto simp: assms(3))
      then show ?thesis using skip_blanks [OF assms(4)] skip_text by metis
    qed
    ultimately show ?thesis using n join by (simp add: assms(3))
  qed
qed simp


lemma parse_members_step:
  assumes "colon = CHR '':'' # u" and "list_all is_ws u"
    and "parse_value m (json_text comma colon x @ s) = Some (v, s)"
  shows "parse_members (Suc m) (dump_str k @ colon @ json_text comma colon x @ s) =
    (case skip_ws s of
       [] \<Rightarrow> None
     | c # t \<Rightarrow>
         if c = CHR ''}'' then Some ([(k, v)], t)
         else if c = CHR '','' then map_option (map_prod ((#) (k, v)) id) (parse_members m (skip_ws t))
         else None)"
proof -
  let ?r = "colon @ json_text comma colon x @ s"
  have "skip_ws (drop 1 (skip_ws ?r)) = json_text comma colon x @ s" "take 1 (skip_ws ?r) = '':''"
    using skip_blanks [OF assms(2)] skip_text [of comma colon x s] by (simp_all add: assms(1))
  then show ?thesis
    using assms(3) dump_str_parse [of k ?r] by (simp only: parse_members.simps) simp
qed

lemma parse_members_text:
  assumes "\<And>k x n r. (k, x) \<in> set d \<Longrightarrow> stops r \<Longrightarrow> length (json_text comma colon x) \<le> n \<Longrightarrow>
      parse_value n (json_text comma colon x @ r) = Some (jsonify x, r)"
    and "d \<noteq> []" and "comma = CHR '','' # w" and "list_all is_ws w"
    and "colon = CHR '':'' # u" and "list_all is_ws u"
    and "length (join_with comma (map (\<lambda>(k, x). dump_str k @ colon @ json_text comma colon x) d)) < n"
  shows "parse_members n
      (join_with comma (map (\<lambda>(k, x). dump_str k @ colon @ json_text comma colon x) d) @ CHR ''}'' # r)
    = Some (map (map_prod id jsonify) d, r)"
  using assms(1,2,7)
proof (induction d arbitrary: n)
  case (Cons kx d)
  obtain k x where kx: "kx = (k, x)" by fastforce
  obtain m where n: "n = Suc m" using Cons.prems(3) by (cases n) auto
  let ?t = "json_text comma colon" and ?f = "\<lambda>(k, x). dump_str k @ colon @ json_text comma colon x"
  show ?case
  proof (cases "d = []")
    case True
    then have "parse_value m (?t x @ CHR ''}'' # r) = Some (jsonify x, CHR ''}'' # r)"
      using Cons.prems n kx by (intro Cons.prems(1) [of k]) auto
    from parse_members_step [OF assms(5,6) this, of k] show ?thesis
      using True n kx by (simp del: parse_members.simps)
  next
    case False
    let ?rest = "join_with comma (map ?f d) @ CHR ''}'' # r"
    have join: "join_with comma (map ?f (kx # d)) = dump_str k @ colon @ ?t x @ comma @ join_with comma (map ?f d)"
      using False kx by (simp add: join_with_Cons)
    have val: "parse_value m (?t x @ comma @ ?rest) = Some (jsonify x, comma @ ?rest)"
      using Cons.prems n join kx by (intro Cons.prems(1) [of k]) (auto simp: assms(3))
    have "parse_members m ?rest = Some (map (map_prod id jsonify) d, r)"
      using Cons.prems n join False by (intro Cons.IH) (auto simp: assms(3))
    moreover have "skip_ws (w @ ?rest) = ?rest"
    proof -
      obtain k' y ys where "d = (k', y) # ys" using False by (cases d) auto
      then obtain v where "?rest = dump_str k' @ v" by (cases ys) (auto simp: assms(3))
      then show ?thesis using skip_blanks [OF assms(4), of ?rest] by (simp add: dump_str_def)
    qed
    moreover have "skip_ws (comma @ ?rest) = CHR '','' # w @ ?rest" by (simp add: assms(3))
    ultimately show ?thesis
      using parse_members_step [OF assms(5,6) val, of k] kx unfolding n join
      by (simp add: id_def del: parse_members.simps)
  qed
qed simp

lemma parse_text:
  assumes "comma = CHR '','' # w" and "list_all is_ws w" and "colon = CHR '':'' # u" and "list_all is_ws u"
  shows "json_wf v \<Longrightarrow> stops r \<Longrightarrow> length (json_text comma colon v) \<le> n \<Longrightarrow>
    parse_value n (json_text comma colon v @ r) = Some (jsonify v, r)"
proof (induction v arbitrary: n r)
  case (PInt i)
  obtain m where n: "n = Suc m" using PInt number_head(1) [of i] by (cases n) auto
  then show ?case using parse_number_value [OF number_head(1)] parse_int_str PInt by simp
next
  case (PFloat x)
  obtain m where n: "n = Suc m" using PFloat number_head(2) [of x] by (cases n) auto
  then show ?case using parse_number_value [OF number_head(2)] parse_float_repr PFloat by simp
next
  case (PStr s)
  obtain m where n: "n = Suc m" using PStr by (cases n) (auto simp: dump_str_def)
  then show ?case using parse_dump_str [of s r] by (simp add: dump_str_def)
next
  case (PTime t)
  obtain m where n: "n = Suc m" using PTime by (cases n) (auto simp: dump_str_def)
  then show ?case using parse_dump_str [of "datetime_str t" r] by (simp add: dump_str_def)
next
  case (PList xs)
  obtain m where n: "n = Suc m" using PList.prems by (cases n) auto
  show ?case
  proof (cases "xs = []")
    case False
    let ?b = "join_with comma (map (json_text comma colon) xs) @ CHR '']'' # r"
    have "parse_items m ?b = Some (map jsonify xs, r)"
      using PList n False by (intro parse_items_text [OF _ _ assms(1,2)]) (auto simp: list_all_iff)
    moreover have "skip_ws ?b = ?b \<and> take 1 ?b \<noteq> '']''"
    proof -
      obtain y ys where "xs = y # ys" using False by (cases xs) auto
      then obtain v where "?b = json_text comma colon y @ v" by (cases ys) (auto simp: assms(1))
      then show ?thesis using skip_text [of comma colon y v] text_head [of comma colon y] by auto
    qed
    ultimately show ?thesis using n by simp
  qed (use n in simp)
next
  case (PDict d)
  obtain m where n: "n = Suc m" using PDict.prems by (cases n) auto
  let ?f = "\<lambda>(k, x). dump_str k @ colon @ json_text comma colon x"
  have mp: "map (\<lambda>(k, t). dump_str k @ colon @ t) (map (map_prod id (json_text comma colon)) d) = map ?f d"
    by (auto simp: comp_def)
  show ?case
  proof (cases "d = []")
    case False
    let ?b = "join_with comma (map ?f d) @ CHR ''}'' # r"
    have "parse_members m ?b = Some (map (map_prod id jsonify) d, r)"
    proof (rule parse_members_text [OF _ False assms])
      show "parse_value n' (json_text comma colon x @ r') = Some (jsonify x, r')"
        if "(k, x) \<in> set d" "stops r'" "length (json_text comma colon x) \<le> n'" for k x n' r'
        using PDict.IH [of "(k, x)" x] PDict.prems(1) that by (fastforce simp: list_all_iff)
      show "length (join_with comma (map ?f d)) < m"
        using PDict.prems(3) n unfolding json_text.simps mp by simp
    qed
    moreover have "skip_ws ?b = ?b \<and> take 1 ?b \<noteq> ''}''"
    proof -
      obtain k' y ys where "d = (k', y) # ys" using False by (cases d) auto
      then obtain v where "?b = dump_str k' @ v" by (cases ys) (auto simp: assms(1))
      then show ?thesis by (simp add: dump_str_def)
    qed
    moreover have "collect (map (map_prod id jsonify) d) = map (map_prod id jsonify) d"
      using PDict.prems(1) by (intro collect_distinct) (simp add: comp_def)
    ultimately show ?thesis using n unfolding json_text.simps mp by simp
  qed (use n in simp)
qed (case_tac [!] n, auto split: if_splits)


text \<open>
  JSON round trip.  Parsing the text of a value, in either layout, returns the value with its
  instants replaced by their text, for every value whose floats have at most 17 decimals and whose
  dictionaries have distinct keys; whatever bytes its strings hold.
\<close>

theorem json_roundtrip:
  assumes "json_wf v"
  shows "json_loads (json_dumps v) = Some (jsonify v) \<and> json_loads (json_compact v) = Some (jsonify v)"
proof -
  have "json_loads (json_text comma colon v) = Some (jsonify v)"
    if "comma = CHR '','' # w" "list_all is_ws w" "colon = CHR '':'' # u" "list_all is_ws u"
    for comma colon w u
    using parse_text [OF that assms, of "[]" "Suc (length (json_text comma colon v))"]
      skip_text [of comma colon v "[]"]
    by (simp add: json_loads_def del: parse_value.simps) (simp add: skip_ws_def)
  from this [of "'', ''" "'' ''" "'': ''" "'' ''"] this [of "'',''" "[]" "'':''" "[]"]
  show ?thesis by (simp add: is_ws_def)
qed

theorem json_roundtrip_witness:
  "json_loads (json_dumps (PDict [(''a'', PList [PInt (- 3), PFloat (1 / 2)]), (''b'', PStr [CHR 0x0A])]))
   = Some (PDict [(''a'', PList [PInt (- 3), PFloat (1 / 2)]), (''b'', PStr [CHR 0x0A])])"
proof -
  have "short_float (1 / 2)" by (simp add: short_float_def)
  then show ?thesis
    using json_roundtrip [of "PDict [(''a'', PList [PInt (- 3), PFloat (1 / 2)]), (''b'', PStr [CHR 0x0A])]"]
    by (simp del: json_text.simps)
qed

end
