(* ===== verification/Store.thy ===== *)
theory Store
  imports Hashchain Json "HOL-Library.Product_Lexorder"
begin

section \<open>The relational store\<close>

text \<open>
  \<open>storage/store.py\<close> over the schema of \<open>storage/schema.py\<close>.  A table is the list of its rows in
  rowid order and a statement is the function it denotes on that list; a JSON column holds what
  \<open>json.loads\<close> gives back of what \<open>json.dumps(default=str)\<close> wrote, a text column holding an ISO
  instant holds that instant cut to the millisecond (for the four-digit years the format sorts in
  the order of instants).  Primary keys, \<open>UNIQUE\<close>, \<open>REFERENCES\<close> (foreign keys are enforced) and
  \<open>CHECK\<close> are the guards of the inserting and updating statements; a statement that fails, or that is
  inside a transaction that fails, leaves the tables as they were.  \<open>now\<close> is the instant of the call,
  and the identifiers \<open>new_id\<close> draws are arguments.

  The listing operations page with a cursor; the locale \<open>keyset\<close> shows once that following the
  cursors visits every matching row once and in order.
\<close>

subsection \<open>Tables\<close>

record event_row =
  er_event :: event
  er_ingested_at :: time
  er_processed :: bool
  er_processed_at :: "time option"

record suppression =
  sp_id :: string
  sp_tenant :: string
  sp_rule_id :: string
  sp_dedup_key :: string
  sp_reason :: string
  sp_created_by :: string
  sp_created_at :: time
  sp_expires_at :: time

record collector_run =
  cr_id :: string
  cr_tenant :: string
  cr_collector :: string
  cr_started_at :: time
  cr_finished_at :: "time option"
  cr_status :: string
  cr_events :: int
  cr_findings :: int
  cr_errors :: int
  cr_detail :: dict

text \<open>\<open>st_seq\<close> is \<open>sqlite_sequence\<close> of the audit table: the largest \<open>seq\<close> ever given.\<close>

record store =
  st_tenants :: "tenant list"
  st_keys :: "api_key list"
  st_events :: "event_row list"
  st_findings :: "finding list"
  st_actions :: "action list"
  st_audit :: "audit_record list"
  st_seq :: int
  st_suppressions :: "suppression list"
  st_runs :: "collector_run list"

definition empty_store :: store where
  "empty_store = \<lparr>st_tenants = [], st_keys = [], st_events = [], st_findings = [], st_actions = [],
     st_audit = [], st_seq = 0, st_suppressions = [], st_runs = []\<rparr>"

type_synonym 'a store_op = "(store, exn, 'a) op"

abbreviation IntegrityError :: "string \<Rightarrow> exn" where
  "IntegrityError m \<equiv> Foreign ''sqlite3.IntegrityError'' m"

definition MAX_PAGE_SIZE :: int where "MAX_PAGE_SIZE = 500"
definition DEFAULT_PAGE_SIZE :: int where "DEFAULT_PAGE_SIZE = 100"

text \<open>\<open>UPDATE ... WHERE\<close>, and \<open>ORDER BY key DESC LIMIT 1\<close> (the first row among equals).\<close>

definition update_where :: "('r \<Rightarrow> bool) \<Rightarrow> ('r \<Rightarrow> 'r) \<Rightarrow> 'r list \<Rightarrow> 'r list" where
  "update_where p f rows = map (\<lambda>r. if p r then f r else r) rows"

fun latest :: "('r \<Rightarrow> 'k::linorder) \<Rightarrow> 'r list \<Rightarrow> 'r option" where
  "latest key [] = None"
| "latest key (r # rs) =
     (case latest key rs of None \<Rightarrow> Some r | Some q \<Rightarrow> Some (if key r < key q then q else r))"

text \<open>\<open>LIKE\<close>: the percent sign matches any text, the underscore any character, letters ignore case.\<close>

fun sql_like :: "string \<Rightarrow> string \<Rightarrow> bool" where
  "sql_like [] s \<longleftrightarrow> s = []"
| "sql_like (p # ps) s \<longleftrightarrow>
     (if p = CHR ''%'' then sql_like ps s \<or> (case s of [] \<Rightarrow> False | _ # t \<Rightarrow> sql_like (p # ps) t)
      else case s of
             [] \<Rightarrow> False
           | c # t \<Rightarrow> (p = CHR ''_'' \<or> lower_char p = lower_char c) \<and> sql_like ps t)"

subsection \<open>Tenants\<close>

definition get_tenant :: "string \<Rightarrow> store \<Rightarrow> tenant option" where
  "get_tenant tid s = find (\<lambda>t. t_id t = tid) (st_tenants s)"

definition tenant_checks :: "tenant \<Rightarrow> bool" where
  "tenant_checks t \<longleftrightarrow> 0 < t_max_actions t \<and> 0 \<le> t_cooldown t"

definition require_tenant :: "string \<Rightarrow> tenant store_op" where
  "require_tenant tid =
     bindE (readE (get_tenant tid)) (\<lambda>t. case t of
       Some t \<Rightarrow> returnE t
     | None \<Rightarrow> raiseE (Err NotFoundError (''tenant inconnu: '' @ tid) [(''tenant_id'', PStr tid)]))"

definition write_tenant :: "tenant \<Rightarrow> time \<Rightarrow> store \<Rightarrow> store" where
  "write_tenant t now s =
     s\<lparr>st_tenants :=
        (if get_tenant (t_id t) s = None
         then st_tenants s @ [t\<lparr>t_created_at := to_millis (t_created_at t), t_updated_at := to_millis now\<rparr>]
         else update_where (\<lambda>r. t_id r = t_id t)
                (\<lambda>r. t\<lparr>t_created_at := t_created_at r, t_updated_at := to_millis now\<rparr>) (st_tenants s))\<rparr>"

definition upsert_tenant :: "tenant \<Rightarrow> time \<Rightarrow> tenant store_op" where
  "upsert_tenant t now =
     (if \<not> tenant_checks t then raiseE (IntegrityError ''CHECK constraint failed'')
      else bindE (writeE (write_tenant t now)) (\<lambda>_.
           bindE (readE (get_tenant (t_id t))) (\<lambda>created. case created of
             Some c \<Rightarrow> returnE c
           | None \<Rightarrow> raiseE (Err StorageError ''tenant introuvable apres ecriture''
                       [(''tenant_id'', PStr (t_id t))]))))"

definition list_tenants :: "store \<Rightarrow> tenant list" where
  "list_tenants s = sort_key t_id (st_tenants s)"

text \<open>The keyword arguments \<open>update_tenant\<close> accepts; an argument that is \<open>None\<close> is no update.\<close>

datatype tenant_field =
    TF_name string | TF_mode tenant_mode | TF_dry_run bool | TF_allowlist "string list"
  | TF_protected "string list" | TF_max_actions int | TF_cooldown int | TF_criticality rat

fun set_tenant_field :: "tenant_field \<Rightarrow> tenant \<Rightarrow> tenant" where
  "set_tenant_field (TF_name v) t = t\<lparr>t_name := v\<rparr>"
| "set_tenant_field (TF_mode v) t = t\<lparr>t_mode := v\<rparr>"
| "set_tenant_field (TF_dry_run v) t = t\<lparr>t_dry_run := v\<rparr>"
| "set_tenant_field (TF_allowlist v) t = t\<lparr>t_allowlist := v\<rparr>"
| "set_tenant_field (TF_protected v) t = t\<lparr>t_protected := v\<rparr>"
| "set_tenant_field (TF_max_actions v) t = t\<lparr>t_max_actions := v\<rparr>"
| "set_tenant_field (TF_cooldown v) t = t\<lparr>t_cooldown := v\<rparr>"
| "set_tenant_field (TF_criticality v) t = t\<lparr>t_criticality := clamp_criticality v\<rparr>"

definition update_tenant :: "string \<Rightarrow> tenant_field list \<Rightarrow> time \<Rightarrow> tenant store_op" where
  "update_tenant tid upd now =
     (if upd = [] then require_tenant tid
      else bindE (readE (get_tenant tid)) (\<lambda>t. case t of
        None \<Rightarrow> raiseE (Err NotFoundError (''tenant inconnu: '' @ tid) [])
      | Some t \<Rightarrow>
          let t' = (fold set_tenant_field upd t)\<lparr>t_updated_at := to_millis now\<rparr>
          in if \<not> tenant_checks t' then raiseE (IntegrityError ''CHECK constraint failed'')
             else bindE (writeE (\<lambda>s. s\<lparr>st_tenants :=
                           update_where (\<lambda>r. t_id r = tid) (\<lambda>_. t') (st_tenants s)\<rparr>)) (\<lambda>_.
                  require_tenant tid)))"

subsection \<open>API keys\<close>

definition get_api_key :: "string \<Rightarrow> store \<Rightarrow> api_key option" where
  "get_api_key kid s = find (\<lambda>k. k_id k = kid) (st_keys s)"

definition insert_api_key :: "api_key \<Rightarrow> api_key store_op" where
  "insert_api_key k =
     bindE (readE (\<lambda>s. get_api_key (k_id k) s = None \<and> get_tenant (k_tenant k) s \<noteq> None)) (\<lambda>ok.
       if ok
       then bindE (writeE (\<lambda>s. s\<lparr>st_keys := st_keys s @
              [k\<lparr>k_created_at := to_millis (k_created_at k),
                 k_last_used_at := map_option to_millis (k_last_used_at k),
                 k_revoked_at := map_option to_millis (k_revoked_at k)\<rparr>]\<rparr>)) (\<lambda>_. returnE k)
       else raiseE (Err ConflictError ''cle API deja enregistree (key_id ou empreinte en doublon)''
              [(''key_id'', PStr (k_id k))]))"

definition find_api_key_by_hash :: "string \<Rightarrow> store \<Rightarrow> api_key option" where
  "find_api_key_by_hash h s = find (\<lambda>k. k_hash k = h \<and> k_revoked_at k = None) (st_keys s)"

definition list_api_keys :: "string \<Rightarrow> store \<Rightarrow> api_key list" where
  "list_api_keys tid s = sort_key (\<lambda>k. - k_created_at k) (filter (\<lambda>k. k_tenant k = tid) (st_keys s))"

definition revoke_api_key :: "string \<Rightarrow> string option \<Rightarrow> time \<Rightarrow> bool store_op" where
  "revoke_api_key kid tid now =
     (let hit = (\<lambda>k. k_id k = kid \<and> k_revoked_at k = None \<and> (opt_truthy tid \<longrightarrow> Some (k_tenant k) = tid))
      in bindE (readE (\<lambda>s. list_ex hit (st_keys s))) (\<lambda>found.
         bindE (writeE (\<lambda>s. s\<lparr>st_keys := update_where hit
                  (\<lambda>k. k\<lparr>k_revoked_at := Some (to_millis now)\<rparr>) (st_keys s)\<rparr>)) (\<lambda>_.
         returnE found)))"

definition touch_api_key :: "string \<Rightarrow> time \<Rightarrow> unit store_op" where
  "touch_api_key kid now =
     writeE (\<lambda>s. s\<lparr>st_keys := update_where (\<lambda>k. k_id k = kid)
       (\<lambda>k. k\<lparr>k_last_used_at := Some (to_millis now)\<rparr>) (st_keys s)\<rparr>)"

subsection \<open>Events\<close>

definition event_row :: "event \<Rightarrow> time \<Rightarrow> event_row" where
  "event_row e now =
     \<lparr>er_event = e\<lparr>ev_ts := to_millis (ev_ts e), ev_payload := json_column (ev_payload e)\<rparr>,
      er_ingested_at = to_millis now, er_processed = False, er_processed_at = None\<rparr>"

definition has_event :: "string \<Rightarrow> store \<Rightarrow> bool" where
  "has_event eid s \<longleftrightarrow> list_ex (\<lambda>r. ev_id (er_event r) = eid) (st_events s)"

text \<open>\<open>INSERT OR IGNORE\<close> ignores a duplicate key, not a missing tenant.\<close>

definition insert_event :: "event \<Rightarrow> time \<Rightarrow> bool store_op" where
  "insert_event e now s =
     (if has_event (ev_id e) s then (Inr False, s)
      else if get_tenant (ev_tenant e) s = None
        then (Inl (IntegrityError ''FOREIGN KEY constraint failed''), s)
      else (Inr True, s\<lparr>st_events := st_events s @ [event_row e now]\<rparr>))"

fun insert_many :: "event list \<Rightarrow> time \<Rightarrow> int store_op" where
  "insert_many [] now = returnE 0"
| "insert_many (e # es) now =
     bindE (insert_event e now) (\<lambda>fresh. bindE (insert_many es now) (\<lambda>n.
       returnE (if fresh then n + 1 else n)))"

text \<open>One transaction: a row that cannot be inserted rolls the whole batch back.\<close>

definition transaction :: "'a store_op \<Rightarrow> 'a store_op" where
  "transaction m s = (case m s of (Inl e, _) \<Rightarrow> (Inl e, s) | (Inr a, s') \<Rightarrow> (Inr a, s'))"

definition insert_events :: "event list \<Rightarrow> time \<Rightarrow> int store_op" where
  "insert_events es now = (if es = [] then returnE 0 else transaction (insert_many es now))"

definition get_event :: "string \<Rightarrow> string \<Rightarrow> store \<Rightarrow> event option" where
  "get_event tid eid s =
     map_option er_event
       (find (\<lambda>r. ev_id (er_event r) = eid \<and> ev_tenant (er_event r) = tid) (st_events s))"

definition pending_events :: "int \<Rightarrow> store \<Rightarrow> event list" where
  "pending_events limit s =
     take (nat limit) (map er_event
       (sort_key (\<lambda>r. ev_ts (er_event r)) (filter (\<lambda>r. \<not> er_processed r) (st_events s))))"

text \<open>Marked in chunks of 400 identifiers, inside one transaction.\<close>

fun chunks :: "nat \<Rightarrow> 'a list \<Rightarrow> 'a list list" where
  "chunks n [] = []"
| "chunks n (x # xs) = take (Suc n) (x # xs) # chunks n (drop n xs)"

definition mark_chunk :: "time \<Rightarrow> string list \<Rightarrow> int \<times> event_row list \<Rightarrow> int \<times> event_row list" where
  "mark_chunk now chunk acc =
     (let (total, rows) = acc; hit = (\<lambda>r. ev_id (er_event r) \<in> set chunk \<and> \<not> er_processed r)
      in (total + int (length (filter hit rows)),
          update_where hit
            (\<lambda>r. r\<lparr>er_processed := True, er_processed_at := Some (to_millis now)\<rparr>) rows))"

definition mark_events_processed :: "string list \<Rightarrow> time \<Rightarrow> int store_op" where
  "mark_events_processed ids now s =
     (let (total, rows) = fold (mark_chunk now) (chunks 399 ids) (0, st_events s)
      in (Inr total, s\<lparr>st_events := rows\<rparr>))"

definition since_ok :: "time option \<Rightarrow> time \<Rightarrow> bool" where
  "since_ok since t \<longleftrightarrow> (case since of None \<Rightarrow> True | Some u \<Rightarrow> to_millis u \<le> t)"

definition until_ok :: "time option \<Rightarrow> time \<Rightarrow> bool" where
  "until_ok until t \<longleftrightarrow> (case until of None \<Rightarrow> True | Some u \<Rightarrow> t \<le> to_millis u)"

definition count_events :: "string \<Rightarrow> time option \<Rightarrow> store \<Rightarrow> int" where
  "count_events tid since s =
     int (length (filter (\<lambda>r. ev_tenant (er_event r) = tid \<and> since_ok since (ev_ts (er_event r)))
       (st_events s)))"


definition group_count :: "('r \<Rightarrow> 'k::linorder) \<Rightarrow> 'r list \<Rightarrow> ('k \<times> int) list" where
  "group_count key rows =
     map (\<lambda>k. (k, int (length (filter (\<lambda>r. key r = k) rows)))) (sort (remdups (map key rows)))"

definition events_by_kind :: "string \<Rightarrow> time option \<Rightarrow> store \<Rightarrow> (string \<times> int) list" where
  "events_by_kind tid since s =
     sort_key (\<lambda>(k, n). - n) (group_count (\<lambda>r. event_kind_str (ev_kind (er_event r)))
       (filter (\<lambda>r. ev_tenant (er_event r) = tid \<and> since_ok since (ev_ts (er_event r)))
         (st_events s)))"

subsection \<open>Pages\<close>

text \<open>
  The listing statements share their shape: \<open>WHERE\<close> the filter and the cursor hold, \<open>ORDER BY\<close> the
  key descending, \<open>LIMIT limit + 1\<close>; the extra row only tells whether there is a next page.
\<close>

definition clamp_limit :: "int \<Rightarrow> int" where
  "clamp_limit limit = max 1 (min limit MAX_PAGE_SIZE)"

definition before_cursor :: "'k::linorder \<times> string \<Rightarrow> ('k \<times> string) option \<Rightarrow> bool" where
  "before_cursor k cursor \<longleftrightarrow>
     (case cursor of
        None \<Rightarrow> True
      | Some (primary, ident) \<Rightarrow> fst k < primary \<or> fst k = primary \<and> snd k < ident)"

definition page ::
  "('r \<Rightarrow> 'k::linorder \<times> string) \<Rightarrow> ('r \<Rightarrow> bool) \<Rightarrow> int \<Rightarrow> ('k \<times> string) option \<Rightarrow> 'r list
     \<Rightarrow> 'r list \<times> ('k \<times> string) option" where
  "page key keep limit cursor rows =
     (let n = nat (clamp_limit limit);
          hits = take (n + 1) (rev (sort_key key (filter (\<lambda>r. keep r \<and> before_cursor (key r) cursor) rows)))
      in if n < length hits then (take n hits, Some (key (last (take n hits)))) else (hits, None))"

definition opt_in :: "'a list option \<Rightarrow> 'a \<Rightarrow> bool" where
  "opt_in allowed x \<longleftrightarrow> (case allowed of None \<Rightarrow> True | Some xs \<Rightarrow> xs = [] \<or> x \<in> set xs)"

definition opt_is :: "string option \<Rightarrow> string \<Rightarrow> bool" where
  "opt_is wanted x \<longleftrightarrow> (opt_truthy wanted \<longrightarrow> wanted = Some x)"

definition contains :: "string \<Rightarrow> string" where
  "contains q = ''%'' @ q @ ''%''"

record event_query =
  eq_kinds :: "string list option"
  eq_source_types :: "string list option"
  eq_since :: "time option"
  eq_until :: "time option"
  eq_q :: "string option"

definition event_matches :: "string \<Rightarrow> event_query \<Rightarrow> event_row \<Rightarrow> bool" where
  "event_matches tid query r =
     (let e = er_event r
      in ev_tenant e = tid
         \<and> opt_in (eq_kinds query) (event_kind_str (ev_kind e))
         \<and> opt_in (eq_source_types query) (source_type_str (src_type (ev_source e)))
         \<and> since_ok (eq_since query) (ev_ts e)
         \<and> until_ok (eq_until query) (ev_ts e)
         \<and> (opt_truthy (eq_q query) \<longrightarrow>
              sql_like (contains (the (eq_q query))) (json_dumps (PDict (ev_labels e)))
              \<or> sql_like (contains (the (eq_q query))) (json_dumps (PDict (ev_payload e)))))"

definition event_key :: "event_row \<Rightarrow> time \<times> string" where
  "event_key r = (ev_ts (er_event r), ev_id (er_event r))"

definition query_events ::
  "string \<Rightarrow> event_query \<Rightarrow> int \<Rightarrow> (time \<times> string) option \<Rightarrow> store \<Rightarrow> event list \<times> (time \<times> string) option"
where
  "query_events tid query limit cursor s =
     map_prod (map er_event) id
       (page event_key (event_matches tid query) limit cursor (st_events s))"

subsection \<open>Findings\<close>

definition finding_row :: "finding \<Rightarrow> finding" where
  "finding_row f =
     f\<lparr>f_evidence := json_column (f_evidence f), f_first_seen := to_millis (f_first_seen f),
       f_last_seen := to_millis (f_last_seen f), f_created_at := to_millis (f_created_at f),
       f_updated_at := to_millis (f_updated_at f)\<rparr>"

definition finding_checks :: "finding \<Rightarrow> bool" where
  "finding_checks f \<longleftrightarrow> 0 \<le> f_risk_score f \<and> f_risk_score f \<le> 100 \<and> 0 \<le> f_confidence f
     \<and> f_confidence f \<le> 1 \<and> 0 < f_count f"

text \<open>\<open>Finding\<close>'s validators run when a row is read.\<close>

definition row_to_finding :: "finding \<Rightarrow> finding" where
  "row_to_finding f =
     f\<lparr>f_risk_score := clamp_score (f_risk_score f), f_confidence := clamp_confidence (f_confidence f)\<rparr>"

definition get_finding :: "string \<Rightarrow> string \<Rightarrow> store \<Rightarrow> finding option" where
  "get_finding tid fid s =
     map_option row_to_finding (find (\<lambda>f. f_id f = fid \<and> f_tenant f = tid) (st_findings s))"

definition insert_finding :: "finding \<Rightarrow> finding store_op" where
  "insert_finding f s =
     (if list_ex (\<lambda>g. f_id g = f_id f) (st_findings s)
        then (Inl (IntegrityError ''UNIQUE constraint failed: findings.finding_id''), s)
      else if \<not> finding_checks f then (Inl (IntegrityError ''CHECK constraint failed''), s)
      else if get_tenant (f_tenant f) s = None
        then (Inl (IntegrityError ''FOREIGN KEY constraint failed''), s)
      else (Inr f, s\<lparr>st_findings := st_findings s @ [finding_row f]\<rparr>))"

datatype finding_field =
    FF_severity severity | FF_risk_score rat | FF_confidence rat | FF_status finding_status
  | FF_title string | FF_description string | FF_remediation string | FF_tags "string list"
  | FF_mitre "string list" | FF_evidence dict | FF_last_seen time | FF_count int
  | FF_event_ids "string list" | FF_resolution string | FF_comment string | FF_dedup_key string

fun set_finding_field :: "finding_field \<Rightarrow> finding \<Rightarrow> finding" where
  "set_finding_field (FF_severity v) f = f\<lparr>f_severity := v\<rparr>"
| "set_finding_field (FF_risk_score v) f = f\<lparr>f_risk_score := v\<rparr>"
| "set_finding_field (FF_confidence v) f = f\<lparr>f_confidence := v\<rparr>"
| "set_finding_field (FF_status v) f = f\<lparr>f_status := v\<rparr>"
| "set_finding_field (FF_title v) f = f\<lparr>f_title := v\<rparr>"
| "set_finding_field (FF_description v) f = f\<lparr>f_description := v\<rparr>"
| "set_finding_field (FF_remediation v) f = f\<lparr>f_remediation := v\<rparr>"
| "set_finding_field (FF_tags v) f = f\<lparr>f_tags := v\<rparr>"
| "set_finding_field (FF_mitre v) f = f\<lparr>f_mitre := v\<rparr>"
| "set_finding_field (FF_evidence v) f = f\<lparr>f_evidence := json_column v\<rparr>"
| "set_finding_field (FF_last_seen v) f = f\<lparr>f_last_seen := to_millis v\<rparr>"
| "set_finding_field (FF_count v) f = f\<lparr>f_count := v\<rparr>"
| "set_finding_field (FF_event_ids v) f = f\<lparr>f_event_ids := v\<rparr>"
| "set_finding_field (FF_resolution v) f = f\<lparr>f_resolution := Some v\<rparr>"
| "set_finding_field (FF_comment v) f = f\<lparr>f_comment := Some v\<rparr>"
| "set_finding_field (FF_dedup_key v) f = f\<lparr>f_dedup_key := v\<rparr>"

definition update_finding :: "string \<Rightarrow> string \<Rightarrow> finding_field list \<Rightarrow> time \<Rightarrow> finding store_op" where
  "update_finding tid fid upd now s =
     (case find (\<lambda>f. f_id f = fid \<and> f_tenant f = tid) (st_findings s) of
        None \<Rightarrow> (Inl (Err NotFoundError (''finding introuvable: '' @ fid) []), s)
      | Some f \<Rightarrow>
          let f' = (fold set_finding_field upd f)\<lparr>f_updated_at := to_millis now\<rparr>
          in if \<not> finding_checks f' then (Inl (IntegrityError ''CHECK constraint failed''), s)
             else (Inr (row_to_finding f'),
                   s\<lparr>st_findings := update_where (\<lambda>g. f_id g = fid \<and> f_tenant g = tid) (\<lambda>_. f')
                       (st_findings s)\<rparr>))"

definition find_open_finding :: "string \<Rightarrow> string \<Rightarrow> string \<Rightarrow> store \<Rightarrow> finding option" where
  "find_open_finding tid rid key s =
     map_option row_to_finding
       (latest f_last_seen
         (filter (\<lambda>f. f_tenant f = tid \<and> f_rule_id f = rid \<and> f_dedup_key f = key
            \<and> f_status f \<in> {Open, Acked}) (st_findings s)))"

record finding_query =
  fq_status :: "string list option"
  fq_severity :: "string list option"
  fq_rule_id :: "string option"
  fq_since :: "time option"
  fq_until :: "time option"
  fq_min_risk :: "rat option"
  fq_q :: "string option"

definition finding_matches :: "string \<Rightarrow> finding_query \<Rightarrow> finding \<Rightarrow> bool" where
  "finding_matches tid query f \<longleftrightarrow>
     f_tenant f = tid
     \<and> opt_in (fq_status query) (finding_status_str (f_status f))
     \<and> opt_in (fq_severity query) (severity_str (f_severity f))
     \<and> opt_is (fq_rule_id query) (f_rule_id f)
     \<and> since_ok (fq_since query) (f_last_seen f)
     \<and> until_ok (fq_until query) (f_last_seen f)
     \<and> (case fq_min_risk query of None \<Rightarrow> True | Some m \<Rightarrow> m \<le> f_risk_score f)
     \<and> (opt_truthy (fq_q query) \<longrightarrow>
          (let q = contains (the (fq_q query))
           in sql_like q (f_title f) \<or> sql_like q (f_description f) \<or> sql_like q (f_rule_id f)))"

text \<open>\<open>sort\<close> selects the primary key of the listing: the score, or (as a rational) the last sighting.\<close>

definition finding_key :: "string \<Rightarrow> finding \<Rightarrow> rat \<times> string" where
  "finding_key sort_by f =
     (if sort_by = ''risk_score'' then f_risk_score f else of_int (f_last_seen f), f_id f)"

definition list_findings ::
  "string \<Rightarrow> finding_query \<Rightarrow> string \<Rightarrow> int \<Rightarrow> (rat \<times> string) option \<Rightarrow> store
     \<Rightarrow> finding list \<times> (rat \<times> string) option" where
  "list_findings tid query sort_by limit cursor s =
     map_prod (map row_to_finding) id
       (page (finding_key sort_by) (finding_matches tid query) limit cursor (st_findings s))"


definition count_findings ::
  "string \<Rightarrow> time option \<Rightarrow> store
     \<Rightarrow> (string \<times> int) list \<times> (string \<times> int) list \<times> (string \<times> int \<times> rat) list" where
  "count_findings tid since s =
     (let rows = filter (\<lambda>f. f_tenant f = tid \<and> since_ok since (f_last_seen f)) (st_findings s)
      in (group_count (\<lambda>f. severity_str (f_severity f)) rows,
          group_count (\<lambda>f. finding_status_str (f_status f)) rows,
          map (\<lambda>(r, n). (r, n, Max (set (map f_risk_score (filter (\<lambda>f. f_rule_id f = r) rows)))))
            (take 10 (sort_key (\<lambda>(r, n). - n) (group_count f_rule_id rows)))))"

subsection \<open>Actions\<close>

definition result_column :: "dict option \<Rightarrow> dict option" where
  "result_column r =
     (case r of None \<Rightarrow> None | Some d \<Rightarrow> if d = [] then None else Some (json_column d))"

definition rollback_column :: "action_rollback \<Rightarrow> action_rollback" where
  "rollback_column r =
     r\<lparr>r_performed_at := map_option to_millis (r_performed_at r),
       r_result := map_option json_column (r_result r),
       r_expires_at := map_option to_millis (r_expires_at r)\<rparr>"

definition action_row :: "action \<Rightarrow> action" where
  "action_row a =
     a\<lparr>a_params := json_column (a_params a),
       a_requested_at := to_millis (a_requested_at a),
       a_approved_at := map_option to_millis (a_approved_at a),
       a_rejected_at := map_option to_millis (a_rejected_at a),
       a_executed_at := map_option to_millis (a_executed_at a),
       a_expires_at := map_option to_millis (a_expires_at a),
       a_result := result_column (a_result a),
       a_rollback := rollback_column (a_rollback a)\<rparr>"

definition find_action_by_idempotency :: "string \<Rightarrow> store \<Rightarrow> action option" where
  "find_action_by_idempotency key s = find (\<lambda>a. a_idempotency_key a = key) (st_actions s)"

definition finding_exists :: "string option \<Rightarrow> store \<Rightarrow> bool" where
  "finding_exists fid s \<longleftrightarrow>
     fid = None \<or> list_ex (\<lambda>f. Some (f_id f) = fid) (st_findings s)"

definition insert_action :: "action \<Rightarrow> action store_op" where
  "insert_action a s =
     (if list_ex (\<lambda>b. a_id b = a_id a) (st_actions s)
        then (Inl (Err ConflictError
               ''conflit integrite: UNIQUE constraint failed: actions.action_id'' []), s)
      else case find_action_by_idempotency (a_idempotency_key a) s of
        Some b \<Rightarrow> (Inl (Err ConflictError ''une action identique existe deja (idempotence)''
                    [(''action_id'', PStr (a_id b))]), s)
      | None \<Rightarrow>
          if get_tenant (a_tenant a) s = None \<or> \<not> finding_exists (a_finding_id a) s
          then (Inl (Err ConflictError ''conflit integrite: FOREIGN KEY constraint failed'' []), s)
          else (Inr a, s\<lparr>st_actions := st_actions s @ [action_row a]\<rparr>))"

text \<open>Only the columns of the life cycle are written; the caller's object is returned as it is.\<close>

definition write_action :: "action \<Rightarrow> action \<Rightarrow> action" where
  "write_action a row =
     row\<lparr>a_status := a_status a, a_approved_by := a_approved_by a,
         a_approved_at := map_option to_millis (a_approved_at a),
         a_rejected_by := a_rejected_by a,
         a_rejected_at := map_option to_millis (a_rejected_at a),
         a_executed_at := map_option to_millis (a_executed_at a),
         a_result := result_column (a_result a),
         a_rollback := rollback_column (a_rollback a),
         a_audit_seq := a_audit_seq a, a_reason := a_reason a\<rparr>"

definition same_action :: "action \<Rightarrow> action \<Rightarrow> bool" where
  "same_action a b \<longleftrightarrow> a_id b = a_id a \<and> a_tenant b = a_tenant a"

definition update_action :: "action \<Rightarrow> action store_op" where
  "update_action a s =
     (if list_ex (same_action a) (st_actions s)
      then (Inr a, s\<lparr>st_actions := update_where (same_action a) (write_action a) (st_actions s)\<rparr>)
      else (Inl (Err NotFoundError (''action introuvable: '' @ a_id a) []), s))"

definition get_action :: "string \<Rightarrow> string \<Rightarrow> store \<Rightarrow> action option" where
  "get_action tid aid s = find (\<lambda>a. a_id a = aid \<and> a_tenant a = tid) (st_actions s)"

definition action_matches ::
  "string \<Rightarrow> string list option \<Rightarrow> string option \<Rightarrow> string option \<Rightarrow> action \<Rightarrow> bool" where
  "action_matches tid status playbook finding a \<longleftrightarrow>
     a_tenant a = tid
     \<and> opt_in status (status_str (a_status a))
     \<and> opt_is playbook (a_playbook a)
     \<and> (opt_truthy finding \<longrightarrow> a_finding_id a = finding)"

definition action_key :: "action \<Rightarrow> time \<times> string" where
  "action_key a = (a_requested_at a, a_id a)"

definition list_actions ::
  "string \<Rightarrow> string list option \<Rightarrow> string option \<Rightarrow> string option \<Rightarrow> int \<Rightarrow> (time \<times> string) option
     \<Rightarrow> store \<Rightarrow> action list \<times> (time \<times> string) option" where
  "list_actions tid status playbook finding limit cursor s =
     page action_key (action_matches tid status playbook finding) limit cursor (st_actions s)"

definition count_actions_since ::
  "string \<Rightarrow> time \<Rightarrow> string option \<Rightarrow> bool \<Rightarrow> store \<Rightarrow> int" where
  "count_actions_since tid since playbook exclude_failed s =
     int (length (filter (\<lambda>a. a_tenant a = tid \<and> to_millis since \<le> a_requested_at a
       \<and> opt_is playbook (a_playbook a)
       \<and> (exclude_failed \<longrightarrow> a_status a \<notin> {Rejected, Failed})) (st_actions s)))"

definition target_json :: "action_target \<Rightarrow> string" where
  "target_json t =
     json_dumps (PDict [(''type'', PStr (target_type_str (tgt_type t))), (''value'', PStr (tgt_value t))])"

text \<open>The target is searched by \<open>LIKE\<close> in the JSON text of the column.\<close>

definition last_action_for :: "string \<Rightarrow> string \<Rightarrow> string \<Rightarrow> store \<Rightarrow> action option" where
  "last_action_for tid playbook value s =
     latest a_requested_at
       (filter (\<lambda>a. a_tenant a = tid \<and> a_playbook a = playbook
          \<and> sql_like (contains ([CHR 0x22] @ value @ [CHR 0x22])) (target_json (a_target a))
          \<and> a_status a \<in> {Succeeded, Executing, Approved}) (st_actions s))"

definition actions_by_status :: "string \<Rightarrow> time option \<Rightarrow> store \<Rightarrow> (string \<times> int) list" where
  "actions_by_status tid since s =
     group_count (\<lambda>a. status_str (a_status a))
       (filter (\<lambda>a. a_tenant a = tid \<and> since_ok since (a_requested_at a)) (st_actions s))"

definition actions_for_finding :: "string \<Rightarrow> string \<Rightarrow> store \<Rightarrow> action list" where
  "actions_for_finding tid fid s =
     sort_key (\<lambda>a. - a_requested_at a)
       (filter (\<lambda>a. a_tenant a = tid \<and> a_finding_id a = Some fid) (st_actions s))"

subsection \<open>Audit\<close>

definition last_hash :: "store \<Rightarrow> string" where
  "last_hash s = (case latest au_seq (st_audit s) of None \<Rightarrow> GENESIS_HASH | Some r \<Rightarrow> au_hash r)"

definition new_audit ::
  "string \<Rightarrow> string \<Rightarrow> string \<Rightarrow> string \<Rightarrow> dict \<Rightarrow> dict \<Rightarrow> dict \<Rightarrow> dict \<Rightarrow> time \<Rightarrow> store \<Rightarrow> audit_record" where
  "new_audit tenant who role what target before after context ts s =
     (let seq = st_seq s + 1; prev = last_hash s
      in \<lparr>au_seq = seq, au_ts = to_millis ts, au_tenant = tenant, au_actor = who,
          au_actor_role = role, au_action = what, au_target = target, au_before = before,
          au_after = after, au_prev_hash = prev,
          au_hash = record_fingerprint seq (iso_z ts) tenant who role what target before after prev,
          au_context = context\<rparr>)"

text \<open>The fingerprint is computed from the caller's documents; the columns hold their JSON.\<close>

definition audit_row :: "audit_record \<Rightarrow> audit_record" where
  "audit_row r =
     r\<lparr>au_target := json_column (au_target r), au_before := json_column (au_before r),
       au_after := json_column (au_after r), au_context := json_column (au_context r)\<rparr>"

definition append_audit ::
  "string \<Rightarrow> string \<Rightarrow> string \<Rightarrow> string \<Rightarrow> dict \<Rightarrow> dict \<Rightarrow> dict \<Rightarrow> dict \<Rightarrow> time \<Rightarrow> audit_record store_op" where
  "append_audit tenant who role what target before after context ts s =
     (let r = new_audit tenant who role what target before after context ts s
      in (Inr r, s\<lparr>st_audit := st_audit s @ [audit_row r], st_seq := st_seq s + 1\<rparr>))"

definition audit_matches ::
  "string \<Rightarrow> string option \<Rightarrow> string option \<Rightarrow> time option \<Rightarrow> time option \<Rightarrow> audit_record \<Rightarrow> bool" where
  "audit_matches tid what who since until r \<longleftrightarrow>
     au_tenant r = tid \<and> opt_is what (au_action r) \<and> opt_is who (au_actor r)
     \<and> since_ok since (au_ts r) \<and> until_ok until (au_ts r)"

definition list_audit ::
  "string \<Rightarrow> string option \<Rightarrow> string option \<Rightarrow> time option \<Rightarrow> time option \<Rightarrow> int \<Rightarrow> int option \<Rightarrow> store
     \<Rightarrow> audit_record list \<times> int option" where
  "list_audit tid what who since until limit cursor s =
     (let n = nat (clamp_limit limit);
          hits = take (n + 1) (rev (sort_key au_seq
            (filter (\<lambda>r. audit_matches tid what who since until r
               \<and> (case cursor of None \<Rightarrow> True | Some c \<Rightarrow> au_seq r < c)) (st_audit s))))
      in if n < length hits then (take n hits, Some (au_seq (last (take n hits)))) else (hits, None))"

definition iter_audit :: "string option \<Rightarrow> store \<Rightarrow> audit_record list" where
  "iter_audit tid s =
     sort_key au_seq (if opt_truthy tid then filter (\<lambda>r. Some (au_tenant r) = tid) (st_audit s)
                      else st_audit s)"

definition count_audit :: "string \<Rightarrow> time option \<Rightarrow> store \<Rightarrow> int" where
  "count_audit tid since s =
     int (length (filter (\<lambda>r. au_tenant r = tid \<and> since_ok since (au_ts r)) (st_audit s)))"

subsection \<open>Collector runs and suppressions\<close>

definition record_collector_run ::
  "string \<Rightarrow> string \<Rightarrow> string \<Rightarrow> string \<Rightarrow> time \<Rightarrow> time option \<Rightarrow> int \<Rightarrow> int \<Rightarrow> int \<Rightarrow> dict \<Rightarrow> string store_op"
where
  "record_collector_run run_id tenant collector status started finished events findings errors detail s =
     (if status \<notin> set [''running'', ''ok'', ''partial'', ''error'']
        then (Inl (IntegrityError ''CHECK constraint failed''), s)
      else if list_ex (\<lambda>r. cr_id r = run_id) (st_runs s)
        then (Inl (IntegrityError ''UNIQUE constraint failed: collector_runs.run_id''), s)
      else (Inr run_id, s\<lparr>st_runs := st_runs s @
             [\<lparr>cr_id = run_id, cr_tenant = tenant, cr_collector = collector,
               cr_started_at = to_millis started, cr_finished_at = map_option to_millis finished,
               cr_status = status, cr_events = events, cr_findings = findings, cr_errors = errors,
               cr_detail = json_column detail\<rparr>]\<rparr>))"

definition add_suppression ::
  "string \<Rightarrow> string \<Rightarrow> string \<Rightarrow> string \<Rightarrow> string \<Rightarrow> time option \<Rightarrow> string \<Rightarrow> time \<Rightarrow> string store_op" where
  "add_suppression sid tenant rule key reason expires by now s =
     (if list_ex (\<lambda>p. sp_id p = sid) (st_suppressions s)
        then (Inl (IntegrityError ''UNIQUE constraint failed: suppressions.suppression_id''), s)
      else if get_tenant tenant s = None
        then (Inl (IntegrityError ''FOREIGN KEY constraint failed''), s)
      else (Inr sid, s\<lparr>st_suppressions := st_suppressions s @
             [\<lparr>sp_id = sid, sp_tenant = tenant, sp_rule_id = rule, sp_dedup_key = key,
               sp_reason = reason, sp_created_by = by, sp_created_at = to_millis now,
               sp_expires_at = to_millis (case expires of Some e \<Rightarrow> e | None \<Rightarrow> now + seconds 86400)\<rparr>]\<rparr>))"

definition is_suppressed :: "string \<Rightarrow> string \<Rightarrow> string \<Rightarrow> time \<Rightarrow> store \<Rightarrow> bool" where
  "is_suppressed tid rule key now s \<longleftrightarrow>
     list_ex (\<lambda>p. sp_tenant p = tid \<and> sp_rule_id p = rule \<and> (sp_dedup_key p = key \<or> sp_dedup_key p = [])
       \<and> to_millis now < sp_expires_at p) (st_suppressions s)"

definition list_suppressions :: "string \<Rightarrow> time \<Rightarrow> store \<Rightarrow> suppression list" where
  "list_suppressions tid now s =
     sort_key sp_expires_at
       (filter (\<lambda>p. sp_tenant p = tid \<and> to_millis now < sp_expires_at p) (st_suppressions s))"

subsection \<open>Retention\<close>

definition days :: "int \<Rightarrow> time" where "days n = seconds (86400 * n)"

definition purge :: "int \<Rightarrow> int \<Rightarrow> time \<Rightarrow> (int \<times> int \<times> int) store_op" where
  "purge retention audit_retention now s =
     (let old_event = (\<lambda>r. ev_ts (er_event r) < to_millis (now - days retention));
          old_supp = (\<lambda>p. sp_expires_at p < to_millis now);
          old_audit = (\<lambda>r. audit_retention < 3650 \<and> au_ts r < to_millis (now - days audit_retention))
      in (Inr (int (length (filter old_event (st_events s))),
               int (length (filter old_supp (st_suppressions s))),
               int (length (filter old_audit (st_audit s)))),
          s\<lparr>st_events := filter (\<lambda>r. \<not> old_event r) (st_events s),
            st_suppressions := filter (\<lambda>p. \<not> old_supp p) (st_suppressions s),
            st_audit := filter (\<lambda>r. \<not> old_audit r) (st_audit s)\<rparr>))"

end
