(* ===== verification/StoreProps.thy ===== *)
theory StoreProps
  imports Store
begin

section \<open>Integrity, isolation and paging of the store\<close>

text \<open>
  The guarantees the header of \<open>storage/store.py\<close> announces, proved of every operation: the integrity
  constraints of the schema (keys, references, checks) are an invariant; what one tenant writes
  leaves everything another tenant reads unchanged; events and actions are idempotent.
\<close>

subsection \<open>Statements\<close>

lemma update_where_Nil [simp]: "update_where p f [] = []"
  by (simp add: update_where_def)

lemma map_update_where [simp]:
  "(\<And>r. p r \<Longrightarrow> g (f r) = g r) \<Longrightarrow> map g (update_where p f rows) = map g rows"
  by (simp add: update_where_def)

lemma filter_update_where:
  assumes "\<And>r. p r \<Longrightarrow> \<not> q r" and "\<And>r. p r \<Longrightarrow> \<not> q (f r)"
  shows "filter q (update_where p f rows) = filter q rows"
  using assms by (induction rows) (auto simp: update_where_def)

lemma set_update_where:
  "x \<in> set (update_where p f rows) \<longleftrightarrow> (\<exists>r \<in> set rows. x = (if p r then f r else r))"
  by (auto simp: update_where_def)

lemma list_all_update_where:
  "list_all q rows \<Longrightarrow> (\<And>r. p r \<Longrightarrow> q r \<Longrightarrow> q (f r)) \<Longrightarrow> list_all q (update_where p f rows)"
  by (auto simp: list_all_iff set_update_where)

lemma find_filter: "find p (filter q rows) = find (\<lambda>r. q r \<and> p r) rows"
  by (induction rows) auto

lemma latest_set: "latest key rows = Some r \<Longrightarrow> r \<in> set rows"
  by (induction rows arbitrary: r) (auto split: option.splits if_splits)

lemma latest_max: "latest key rows = Some r \<Longrightarrow> q \<in> set rows \<Longrightarrow> key q \<le> key r"
proof (induction rows arbitrary: r q)
  case (Cons x xs)
  show ?case
  proof (cases "latest key xs")
    case None
    then have "xs = []" by (cases xs) (auto split: option.splits)
    with Cons.prems show ?thesis by simp
  next
    case (Some y)
    with Cons.IH [OF Some] Cons.prems show ?thesis
      by (fastforce simp: not_less split: if_splits)
  qed
qed simp

lemma latest_None [simp]: "latest key rows = None \<longleftrightarrow> rows = []"
  by (cases rows) (auto split: option.splits)

subsection \<open>The schema's constraints\<close>

definition tenant_ids :: "store \<Rightarrow> string set" where
  "tenant_ids s = set (map t_id (st_tenants s))"

definition store_ok :: "store \<Rightarrow> bool" where
  "store_ok s \<longleftrightarrow>
     distinct (map t_id (st_tenants s)) \<and> list_all tenant_checks (st_tenants s)
     \<and> distinct (map k_id (st_keys s)) \<and> list_all (\<lambda>k. k_tenant k \<in> tenant_ids s) (st_keys s)
     \<and> distinct (map (\<lambda>r. ev_id (er_event r)) (st_events s))
     \<and> list_all (\<lambda>r. ev_tenant (er_event r) \<in> tenant_ids s) (st_events s)
     \<and> distinct (map f_id (st_findings s))
     \<and> list_all (\<lambda>f. f_tenant f \<in> tenant_ids s \<and> finding_checks f) (st_findings s)
     \<and> distinct (map a_id (st_actions s)) \<and> distinct (map a_idempotency_key (st_actions s))
     \<and> list_all (\<lambda>a. a_tenant a \<in> tenant_ids s \<and> finding_exists (a_finding_id a) s) (st_actions s)
     \<and> sorted_wrt (<) (map au_seq (st_audit s)) \<and> list_all (\<lambda>r. au_seq r \<le> st_seq s) (st_audit s)
     \<and> distinct (map sp_id (st_suppressions s))
     \<and> list_all (\<lambda>p. sp_tenant p \<in> tenant_ids s) (st_suppressions s)
     \<and> distinct (map cr_id (st_runs s))"

lemma store_ok_tenantsD:
  "store_ok s \<Longrightarrow> distinct (map t_id (st_tenants s))"
  "store_ok s \<Longrightarrow> list_all tenant_checks (st_tenants s)"
  by (simp_all add: store_ok_def)

lemma empty_store_ok: "store_ok empty_store"
  by (simp add: store_ok_def empty_store_def)

lemma get_tenant_None: "get_tenant t s = None \<longleftrightarrow> t \<notin> tenant_ids s"
  by (auto simp: get_tenant_def tenant_ids_def find_None_iff)

lemma get_tenant_Some: "get_tenant t s = Some x \<Longrightarrow> x \<in> set (st_tenants s) \<and> t_id x = t"
  by (auto simp: get_tenant_def find_Some_iff)


lemma store_ok_tenants:
  assumes "store_ok s" and "distinct (map t_id ts)" and "list_all tenant_checks ts"
    and "tenant_ids s \<subseteq> set (map t_id ts)"
  shows "store_ok (s\<lparr>st_tenants := ts\<rparr>)"
  using assms
  by (auto simp: store_ok_def tenant_ids_def finding_exists_def list_all_iff subset_iff)

lemma keeps_upsert_tenant: "keeps store_ok (upsert_tenant t now)"
proof -
  have "store_ok (write_tenant t now s)" if ok: "store_ok s" and "tenant_checks t" for s
  proof (cases "get_tenant (t_id t) s = None")
    case True
    then show ?thesis
      using that store_ok_tenantsD [OF ok] unfolding write_tenant_def
      by (auto simp: get_tenant_None tenant_ids_def tenant_checks_def intro!: store_ok_tenants)
  next
    case False
    have "map t_id (update_where (\<lambda>r. t_id r = t_id t)
        (\<lambda>r. t\<lparr>t_created_at := t_created_at r, t_updated_at := to_millis now\<rparr>) (st_tenants s))
      = map t_id (st_tenants s)"
      by simp
    with that store_ok_tenantsD [OF ok] show ?thesis
      unfolding write_tenant_def if_not_P [OF False]
      by (intro store_ok_tenants list_all_update_where)
        (auto simp del: set_map simp: tenant_ids_def tenant_checks_def)
  qed
  then show ?thesis
    by (auto simp: upsert_tenant_def intro!: keeps_bindE keeps_writeE split: option.splits)
qed

lemma set_tenant_field_id [simp]: "t_id (fold set_tenant_field upd t) = t_id t"
proof (induction upd arbitrary: t)
  case (Cons u us)
  then show ?case by (cases u) simp_all
qed simp

lemma keeps_require_tenant: "keeps store_ok (require_tenant tid)"
  by (auto simp: require_tenant_def intro!: keeps_bindE split: option.splits)

lemma update_tenant_ok:
  assumes "store_ok s" and "tenant_checks t" and "t_id t = tid"
  shows "store_ok (s\<lparr>st_tenants := update_where (\<lambda>r. t_id r = tid) (\<lambda>_. t) (st_tenants s)\<rparr>)"
proof -
  have "map t_id (update_where (\<lambda>r. t_id r = tid) (\<lambda>_. t) (st_tenants s)) = map t_id (st_tenants s)"
    using assms(3) by simp
  with assms store_ok_tenantsD [OF assms(1)] show ?thesis
    by (intro store_ok_tenants list_all_update_where) (auto simp del: set_map simp: tenant_ids_def)
qed

lemma keeps_update_tenant: "keeps store_ok (update_tenant tid upd now)"
proof (rule keepsI)
  fix s assume ok: "store_ok s"
  show "store_ok (snd (update_tenant tid upd now s))"
    using ok keepsD [OF keeps_require_tenant ok, of tid]
      keepsD [OF keeps_require_tenant update_tenant_ok [OF ok]]
    by (auto simp: update_tenant_def op_simps Let_def get_tenant_Some split: option.splits)
qed

lemma keeps_insert_api_key: "keeps store_ok (insert_api_key k)"
  by (auto simp: keeps_def insert_api_key_def op_simps store_ok_def get_tenant_None get_api_key_def
      find_None_iff tenant_ids_def finding_exists_def list_all_iff)

lemma keys_ok:
  assumes "store_ok s" and "\<And>k. p k \<Longrightarrow> k_id (f k) = k_id k \<and> k_tenant (f k) = k_tenant k"
  shows "store_ok (s\<lparr>st_keys := update_where p f (st_keys s)\<rparr>)"
proof -
  have "list_all (\<lambda>k. k_tenant k \<in> tenant_ids s) (update_where p f (st_keys s))"
    using assms by (intro list_all_update_where) (auto simp: store_ok_def)
  then show ?thesis
    using assms by (simp add: store_ok_def tenant_ids_def finding_exists_def)
qed

lemma keeps_key_updates:
  "keeps store_ok (revoke_api_key kid tid now)" "keeps store_ok (touch_api_key kid now)"
  unfolding revoke_api_key_def touch_api_key_def Let_def
  by (intro keeps_bindE keeps_readE keeps_writeE keeps_returnE keys_ok; simp)+

lemma keeps_insert_event: "keeps store_ok (insert_event e now)"
  by (auto simp: keeps_def insert_event_def store_ok_def get_tenant_None has_event_def list_ex_iff
      tenant_ids_def finding_exists_def list_all_iff event_row_def)

lemma keeps_transaction: "keeps I m \<Longrightarrow> keeps I (transaction m)"
  by (auto simp: keeps_def transaction_def split: prod.splits sum.splits)

lemma keeps_insert_events: "keeps store_ok (insert_events es now)"
proof -
  have "keeps store_ok (insert_many es now)"
    by (induction es) (auto intro!: keeps_bindE keeps_insert_event)
  then show ?thesis by (auto simp: insert_events_def intro: keeps_transaction)
qed

lemma mark_chunk_ids:
  "map er_event (snd (fold (mark_chunk now) cs (n, rows))) = map er_event rows"
  by (induction cs arbitrary: n rows) (simp_all add: mark_chunk_def Let_def)

lemma events_ok:
  assumes "store_ok s" and same: "map er_event rows = map er_event (st_events s)"
  shows "store_ok (s\<lparr>st_events := rows\<rparr>)"
proof -
  have "map (\<lambda>r. g (er_event r)) rows = map (\<lambda>r. g (er_event r)) (st_events s)" for g :: "event \<Rightarrow> string"
    using arg_cong [OF same, of "map g"] by (simp add: comp_def)
  moreover have "er_event ` set rows = er_event ` set (st_events s)"
    using arg_cong [OF same, of set] by simp
  then have "(\<forall>r \<in> set rows. ev_tenant (er_event r) \<in> T)
      \<longleftrightarrow> (\<forall>r \<in> set (st_events s). ev_tenant (er_event r) \<in> T)" for T
    by (metis (no_types, lifting) image_iff)
  ultimately show ?thesis
    using assms(1) by (simp add: store_ok_def tenant_ids_def finding_exists_def list_all_iff)
qed

lemma keeps_mark_events: "keeps store_ok (mark_events_processed ids now)"
  by (rule keepsI) (simp add: mark_events_processed_def split_beta events_ok mark_chunk_ids)

lemma find_findingD:
  "find (\<lambda>f. f_id f = fid \<and> f_tenant f = tid) (st_findings s) = Some f \<Longrightarrow>
   f \<in> set (st_findings s) \<and> f_id f = fid \<and> f_tenant f = tid"
  by (auto simp: find_Some_iff)

lemma set_finding_field_frame [simp]:
  "f_id (fold set_finding_field upd f) = f_id f"
  "f_tenant (fold set_finding_field upd f) = f_tenant f"
proof -
  have "f_id (set_finding_field u g) = f_id g" "f_tenant (set_finding_field u g) = f_tenant g" for u g
    by (cases u; simp)+
  then show "f_id (fold set_finding_field upd f) = f_id f"
    "f_tenant (fold set_finding_field upd f) = f_tenant f"
    by (induction upd arbitrary: f) simp_all
qed

lemma findings_ok:
  assumes "store_ok s" and "distinct (map f_id fs)" and "set (map f_id (st_findings s)) \<subseteq> set (map f_id fs)"
    and "list_all (\<lambda>f. f_tenant f \<in> tenant_ids s \<and> finding_checks f) fs"
  shows "store_ok (s\<lparr>st_findings := fs\<rparr>)"
proof -
  have "finding_exists (a_finding_id a) (s\<lparr>st_findings := fs\<rparr>)"
    if "a \<in> set (st_actions s)" for a
  proof -
    have "finding_exists (a_finding_id a) s" using assms(1) that by (simp add: store_ok_def list_all_iff)
    then show ?thesis using assms(3) by (fastforce simp: finding_exists_def list_ex_iff)
  qed
  then show ?thesis
    using assms unfolding store_ok_def by (simp add: tenant_ids_def list_all_iff)
qed

lemma keeps_insert_finding: "keeps store_ok (insert_finding f)"
proof (rule keepsI)
  fix s assume ok: "store_ok s"
  have *: "finding_checks (finding_row f) = finding_checks f" "f_id (finding_row f) = f_id f"
    "f_tenant (finding_row f) = f_tenant f"
    by (simp_all add: finding_checks_def finding_row_def)
  have "distinct (map f_id (st_findings s))"
    "list_all (\<lambda>f. f_tenant f \<in> tenant_ids s \<and> finding_checks f) (st_findings s)"
    using ok by (simp_all add: store_ok_def)
  then show "store_ok (snd (insert_finding f s))"
    using ok
    by (auto simp: insert_finding_def list_ex_iff get_tenant_None * intro!: findings_ok) blast
qed

lemma keeps_update_finding: "keeps store_ok (update_finding tid fid upd now)"
proof (rule keepsI)
  fix s assume ok: "store_ok s"
  have rows: "distinct (map f_id (st_findings s))"
    "list_all (\<lambda>f. f_tenant f \<in> tenant_ids s \<and> finding_checks f) (st_findings s)"
    using ok by (simp_all add: store_ok_def)
  have "store_ok (s\<lparr>st_findings := update_where (\<lambda>g. f_id g = fid \<and> f_tenant g = tid) (\<lambda>_. f)
      (st_findings s)\<rparr>)" if "f_id f = fid" "f_tenant f = tid" "finding_checks f" for f
  proof -
    have "map f_id (update_where (\<lambda>g. f_id g = fid \<and> f_tenant g = tid) (\<lambda>_. f) (st_findings s))
        = map f_id (st_findings s)"
      by (rule map_update_where) (simp add: that(1))
    with rows that ok show ?thesis
      by (intro findings_ok list_all_update_where) (auto simp del: set_map)
  qed
  then show "store_ok (snd (update_finding tid fid upd now s))"
    using ok by (auto simp: update_finding_def Let_def finding_checks_def dest: find_findingD
        split: option.splits)
qed

lemma keeps_insert_action: "keeps store_ok (insert_action a)"
  by (auto simp: keeps_def insert_action_def store_ok_def get_tenant_None list_ex_iff
      find_action_by_idempotency_def find_None_iff tenant_ids_def finding_exists_def list_all_iff
      action_row_def split: option.splits)

lemma write_action_frame [simp]:
  "a_id (write_action a b) = a_id b" "a_tenant (write_action a b) = a_tenant b"
  "a_idempotency_key (write_action a b) = a_idempotency_key b"
  "a_finding_id (write_action a b) = a_finding_id b"
  by (simp_all add: write_action_def)

lemma actions_ok:
  assumes "store_ok s"
    and "\<And>b. a_id (f b) = a_id b \<and> a_tenant (f b) = a_tenant b
      \<and> a_idempotency_key (f b) = a_idempotency_key b \<and> a_finding_id (f b) = a_finding_id b"
  shows "store_ok (s\<lparr>st_actions := update_where p f (st_actions s)\<rparr>)"
proof -
  have "list_all (\<lambda>a. a_tenant a \<in> tenant_ids s \<and> finding_exists (a_finding_id a) s)
      (update_where p f (st_actions s))"
    using assms by (intro list_all_update_where) (auto simp: store_ok_def)
  then show ?thesis
    using assms by (simp add: store_ok_def tenant_ids_def finding_exists_def)
qed

lemma keeps_update_action: "keeps store_ok (update_action a)"
  by (rule keepsI) (simp add: update_action_def actions_ok)

lemma keeps_append_audit:
  "keeps store_ok (append_audit tenant who role what target before after context ts)"
  by (auto simp: keeps_def append_audit_def Let_def store_ok_def tenant_ids_def finding_exists_def
      list_all_iff new_audit_def audit_row_def sorted_wrt_append intro: order_trans)

lemma keeps_collector_suppression:
  "keeps store_ok (record_collector_run run_id tenant collector status started finished ev fi er detail)"
  "keeps store_ok (add_suppression sid tenant rule key reason expires by now)"
  by (auto simp: keeps_def record_collector_run_def add_suppression_def store_ok_def tenant_ids_def
      finding_exists_def list_all_iff list_ex_iff get_tenant_None)

lemma keeps_purge: "keeps store_ok (purge retention audit_retention now)"
  by (auto simp: keeps_def purge_def Let_def store_ok_def tenant_ids_def finding_exists_def
      list_all_iff distinct_map_filter sorted_wrt_filter sorted_wrt_map)

text \<open>
  C26: no sequence of store operations can break the schema: primary keys, the idempotency key and the
  audit sequence stay unique, every row refers to an existing tenant (and every action to an existing
  finding), and the checks on quotas, scores and counters hold, whether an operation succeeds or
  raises.
\<close>

theorem store_integrity:
  "keeps store_ok (upsert_tenant t now) \<and> keeps store_ok (update_tenant tid tf now)
   \<and> keeps store_ok (insert_api_key k) \<and> keeps store_ok (revoke_api_key kid otid now)
   \<and> keeps store_ok (touch_api_key kid now)
   \<and> keeps store_ok (insert_event e now) \<and> keeps store_ok (insert_events es now)
   \<and> keeps store_ok (mark_events_processed ids now)
   \<and> keeps store_ok (insert_finding f) \<and> keeps store_ok (update_finding tid fid ff now)
   \<and> keeps store_ok (insert_action a) \<and> keeps store_ok (update_action a)
   \<and> keeps store_ok (append_audit tid who role what target before after context ts)
   \<and> keeps store_ok (record_collector_run rid tid collector status started finished n m errors detail)
   \<and> keeps store_ok (add_suppression sid tid rule key reason expires by now)
   \<and> keeps store_ok (purge retention audit_retention now)
   \<and> store_ok empty_store"
  by (intro conjI keeps_upsert_tenant keeps_update_tenant keeps_insert_api_key keeps_key_updates
      keeps_insert_event keeps_insert_events keeps_mark_events keeps_insert_finding
      keeps_update_finding keeps_insert_action keeps_update_action keeps_append_audit
      keeps_collector_suppression keeps_purge empty_store_ok)


subsection \<open>Isolation of tenants\<close>

text \<open>
  The rows a tenant owns.  A read is local when it sees nothing else, a write when it changes nothing
  of any other tenant's view.
\<close>

definition tenant_view :: "string \<Rightarrow> store \<Rightarrow> store" where
  "tenant_view tid s =
     \<lparr>st_tenants = filter (\<lambda>t. t_id t = tid) (st_tenants s),
      st_keys = filter (\<lambda>k. k_tenant k = tid) (st_keys s),
      st_events = filter (\<lambda>r. ev_tenant (er_event r) = tid) (st_events s),
      st_findings = filter (\<lambda>f. f_tenant f = tid) (st_findings s),
      st_actions = filter (\<lambda>a. a_tenant a = tid) (st_actions s),
      st_audit = filter (\<lambda>r. au_tenant r = tid) (st_audit s), st_seq = 0,
      st_suppressions = filter (\<lambda>p. sp_tenant p = tid) (st_suppressions s),
      st_runs = filter (\<lambda>r. cr_tenant r = tid) (st_runs s)\<rparr>"

lemma tenant_view_sel [simp]:
  "st_tenants (tenant_view tid s) = filter (\<lambda>t. t_id t = tid) (st_tenants s)"
  "st_keys (tenant_view tid s) = filter (\<lambda>k. k_tenant k = tid) (st_keys s)"
  "st_events (tenant_view tid s) = filter (\<lambda>r. ev_tenant (er_event r) = tid) (st_events s)"
  "st_findings (tenant_view tid s) = filter (\<lambda>f. f_tenant f = tid) (st_findings s)"
  "st_actions (tenant_view tid s) = filter (\<lambda>a. a_tenant a = tid) (st_actions s)"
  "st_audit (tenant_view tid s) = filter (\<lambda>r. au_tenant r = tid) (st_audit s)"
  "st_suppressions (tenant_view tid s) = filter (\<lambda>p. sp_tenant p = tid) (st_suppressions s)"
  by (simp_all add: tenant_view_def)

definition local_read :: "string \<Rightarrow> (store \<Rightarrow> 'a) \<Rightarrow> bool" where
  "local_read tid f \<longleftrightarrow> (\<forall>s. f (tenant_view tid s) = f s)"

definition local_write :: "string \<Rightarrow> 'a store_op \<Rightarrow> bool" where
  "local_write tid m \<longleftrightarrow> (\<forall>b s. b \<noteq> tid \<longrightarrow> tenant_view b (snd (m s)) = tenant_view b s)"

lemma local_write_bind:
  "local_write tid m \<Longrightarrow> (\<And>a. local_write tid (f a)) \<Longrightarrow> local_write tid (bindE m f)"
  by (auto simp: local_write_def op_simps split: prod.splits sum.splits) (metis snd_conv)+

lemma local_write_pure:
  "local_write tid (returnE a)" "local_write tid (raiseE e)" "local_write tid (readE g)"
  by (simp_all add: local_write_def op_simps)

lemma local_write_writeE:
  "(\<And>b s. b \<noteq> tid \<Longrightarrow> tenant_view b (g s) = tenant_view b s) \<Longrightarrow> local_write tid (writeE g)"
  by (simp add: local_write_def op_simps)

lemmas local_writes = local_write_bind local_write_pure local_write_writeE

lemma filter_and: "filter (\<lambda>r. p r \<and> q r) (filter p rows) = filter (\<lambda>r. p r \<and> q r) rows"
  by (simp add: conj_comms)

lemma page_filter:
  assumes "\<And>r. keep r \<Longrightarrow> p r"
  shows "page key keep limit cursor (filter p rows) = page key keep limit cursor rows"
proof -
  have "filter (\<lambda>r. keep r \<and> before_cursor (key r) cursor) (filter p rows)
      = filter (\<lambda>r. keep r \<and> before_cursor (key r) cursor) rows"
    using assms by (induction rows) auto
  then show ?thesis by (simp add: page_def)
qed

lemma find_owned:
  "(\<And>r. q r \<Longrightarrow> p r) \<Longrightarrow> find q (filter p rows) = find q rows"
  by (induction rows) auto

lemma filter_owned:
  "(\<And>r. q r \<Longrightarrow> p r) \<Longrightarrow> filter q (filter p rows) = filter q rows"
  by (induction rows) auto

text \<open>
  C27: every query of a tenant is answered from that tenant's own rows.
\<close>

theorem tenant_reads_local:
  "local_read tid (get_tenant tid) \<and> local_read tid (list_api_keys tid)
   \<and> local_read tid (get_event tid eid) \<and> local_read tid (query_events tid eq limit ec)
   \<and> local_read tid (count_events tid since) \<and> local_read tid (events_by_kind tid since)
   \<and> local_read tid (get_finding tid fid) \<and> local_read tid (find_open_finding tid rid key)
   \<and> local_read tid (list_findings tid fq sort_by limit fc) \<and> local_read tid (count_findings tid since)
   \<and> local_read tid (get_action tid aid) \<and> local_read tid (list_actions tid status pb ofid limit ac)
   \<and> local_read tid (count_actions_since tid start pb xf) \<and> local_read tid (last_action_for tid pbk v)
   \<and> local_read tid (actions_by_status tid since) \<and> local_read tid (actions_for_finding tid fid)
   \<and> local_read tid (list_audit tid what who since until limit cursor)
   \<and> local_read tid (count_audit tid since)
   \<and> local_read tid (is_suppressed tid rid key now) \<and> local_read tid (list_suppressions tid now)"
  unfolding local_read_def
proof (intro conjI allI)
  fix s :: store
  let ?v = "tenant_view tid s"
  show "get_tenant tid ?v = get_tenant tid s" by (simp add: get_tenant_def find_owned)
  show "list_api_keys tid ?v = list_api_keys tid s" by (simp add: list_api_keys_def)
  show "get_event tid eid ?v = get_event tid eid s" 
    unfolding get_event_def tenant_view_sel by (subst find_owned) auto
  show "query_events tid eq limit ec ?v = query_events tid eq limit ec s"
    unfolding query_events_def tenant_view_sel
    by (subst page_filter) (simp_all add: event_matches_def Let_def)
  show "count_events tid since ?v = count_events tid since s"
    and "events_by_kind tid since ?v = events_by_kind tid since s"
    by (simp_all add: count_events_def events_by_kind_def filter_owned)
  show "get_finding tid fid ?v = get_finding tid fid s" 
    unfolding get_finding_def tenant_view_sel by (subst find_owned) auto
  show "find_open_finding tid rid key ?v = find_open_finding tid rid key s"
    unfolding find_open_finding_def tenant_view_sel by (subst filter_owned) auto
  show "list_findings tid fq sort_by limit fc ?v = list_findings tid fq sort_by limit fc s"
    unfolding list_findings_def tenant_view_sel
    by (subst page_filter) (simp_all add: finding_matches_def)
  show "count_findings tid since ?v = count_findings tid since s"
    by (simp add: count_findings_def filter_owned)
  show "get_action tid aid ?v = get_action tid aid s" 
    unfolding get_action_def tenant_view_sel by (subst find_owned) auto
  show "list_actions tid status pb ofid limit ac ?v = list_actions tid status pb ofid limit ac s"
    unfolding list_actions_def tenant_view_sel
    by (subst page_filter) (simp_all add: action_matches_def)
  show "count_actions_since tid start pb xf ?v = count_actions_since tid start pb xf s"
    by (simp add: count_actions_since_def filter_owned)
  show "last_action_for tid pbk v ?v = last_action_for tid pbk v s"
    by (simp add: last_action_for_def filter_owned)
  show "actions_by_status tid since ?v = actions_by_status tid since s"
    and "actions_for_finding tid fid ?v = actions_for_finding tid fid s"
    by (simp_all add: actions_by_status_def actions_for_finding_def filter_owned)
  show "list_audit tid what who since until limit cursor ?v
      = list_audit tid what who since until limit cursor s"
    by (simp add: list_audit_def filter_owned audit_matches_def)
  show "count_audit tid since ?v = count_audit tid since s"
    by (simp add: count_audit_def filter_owned)
  show "is_suppressed tid rid key now ?v = is_suppressed tid rid key now s"
    by (auto simp: is_suppressed_def list_ex_iff)
  show "list_suppressions tid now ?v = list_suppressions tid now s"
    by (simp add: list_suppressions_def filter_owned)
qed


lemma tenant_view_cong:
  assumes "filter (\<lambda>t. t_id t = b) (st_tenants s) = filter (\<lambda>t. t_id t = b) (st_tenants s')"
    and "filter (\<lambda>k. k_tenant k = b) (st_keys s) = filter (\<lambda>k. k_tenant k = b) (st_keys s')"
    and "filter (\<lambda>r. ev_tenant (er_event r) = b) (st_events s)
      = filter (\<lambda>r. ev_tenant (er_event r) = b) (st_events s')"
    and "filter (\<lambda>f. f_tenant f = b) (st_findings s) = filter (\<lambda>f. f_tenant f = b) (st_findings s')"
    and "filter (\<lambda>a. a_tenant a = b) (st_actions s) = filter (\<lambda>a. a_tenant a = b) (st_actions s')"
    and "filter (\<lambda>r. au_tenant r = b) (st_audit s) = filter (\<lambda>r. au_tenant r = b) (st_audit s')"
    and "filter (\<lambda>p. sp_tenant p = b) (st_suppressions s)
      = filter (\<lambda>p. sp_tenant p = b) (st_suppressions s')"
    and "filter (\<lambda>r. cr_tenant r = b) (st_runs s) = filter (\<lambda>r. cr_tenant r = b) (st_runs s')"
  shows "tenant_view b s = tenant_view b s'"
  using assms by (simp add: tenant_view_def)

lemma local_upsert_tenant: "local_write (t_id t) (upsert_tenant t now)"
  unfolding upsert_tenant_def
  by (auto intro!: local_writes tenant_view_cong split: option.splits)
    (auto simp: write_tenant_def filter_update_where)

lemma local_update_tenant: "local_write tid (update_tenant tid upd now)"
proof -
  have req: "local_write tid (require_tenant tid)"
    unfolding require_tenant_def by (auto intro!: local_writes split: option.splits)
  show ?thesis
    unfolding local_write_def
  proof (intro allI impI)
    fix b s assume b: "b \<noteq> tid"
    show "tenant_view b (snd (update_tenant tid upd now s)) = tenant_view b s"
    proof (cases "upd = [] \<or> get_tenant tid s = None")
      case True
      then show ?thesis
        using req b by (auto simp: update_tenant_def local_write_def op_simps)
    next
      case False
      then obtain t where t: "get_tenant tid s = Some t" by auto
      let ?t = "(fold set_tenant_field upd t)\<lparr>t_updated_at := to_millis now\<rparr>"
      let ?s = "s\<lparr>st_tenants := update_where (\<lambda>r. t_id r = tid) (\<lambda>_. ?t) (st_tenants s)\<rparr>"
      have "t_id ?t = tid" using get_tenant_Some [OF t] by simp
      then have "tenant_view b ?s = tenant_view b s"
        using b by (auto intro!: tenant_view_cong filter_update_where)
      moreover have "tenant_view b (snd (require_tenant tid ?s)) = tenant_view b ?s"
        using req b by (simp add: local_write_def)
      ultimately show ?thesis
        using False t by (auto simp: update_tenant_def op_simps Let_def)
    qed
  qed
qed

lemma local_insert_event: "local_write (ev_tenant e) (insert_event e now)"
  by (auto simp: local_write_def insert_event_def event_row_def intro!: tenant_view_cong)

lemma local_transaction: "local_write tid m \<Longrightarrow> local_write tid (transaction m)"
  by (auto simp: local_write_def transaction_def split: prod.splits sum.splits) (metis snd_conv)

lemma local_insert_api_key: "local_write (k_tenant k) (insert_api_key k)"
  unfolding insert_api_key_def by (auto intro!: local_writes tenant_view_cong)

lemma local_revoke_api_key: "tid \<noteq> [] \<Longrightarrow> local_write tid (revoke_api_key kid (Some tid) now)"
  unfolding revoke_api_key_def Let_def
  by (auto simp: opt_truthy_def intro!: local_writes tenant_view_cong filter_update_where)

lemma local_insert_events:
  assumes "\<And>e. e \<in> set es \<Longrightarrow> ev_tenant e = tid"
  shows "local_write tid (insert_events es now)"
proof -
  have "local_write tid (insert_many es now)"
    using assms
  proof (induction es)
    case (Cons e es)
    then have "local_write tid (insert_event e now)" using local_insert_event [of e now] by simp
    with Cons show ?case by (auto intro!: local_writes)
  qed (auto intro!: local_writes)
  then show ?thesis by (auto simp: insert_events_def intro!: local_transaction local_writes)
qed

lemma local_insert_finding: "local_write (f_tenant f) (insert_finding f)"
  by (auto simp: local_write_def insert_finding_def finding_row_def intro!: tenant_view_cong)

lemma local_update_finding: "local_write tid (update_finding tid fid ff now)"
  by (auto simp: local_write_def update_finding_def Let_def
      intro!: tenant_view_cong filter_update_where split: option.splits) (auto dest: find_findingD)

lemma local_insert_action: "local_write (a_tenant a) (insert_action a)"
  by (auto simp: local_write_def insert_action_def action_row_def
      intro!: tenant_view_cong split: option.splits)

lemma local_update_action: "local_write (a_tenant a) (update_action a)"
  by (auto simp: local_write_def update_action_def same_action_def
      intro!: tenant_view_cong filter_update_where)

lemma local_append_audit: "local_write tid (append_audit tid who role what target before after context ts)"
  by (auto simp: local_write_def append_audit_def Let_def new_audit_def audit_row_def
      intro!: tenant_view_cong)

lemma local_add_suppression: "local_write tid (add_suppression sid tid rule key reason expires by now)"
  by (auto simp: local_write_def add_suppression_def intro!: tenant_view_cong)

lemma local_record_run:
  "local_write tid (record_collector_run rid tid collector status started finished n m errors detail)"
  by (auto simp: local_write_def record_collector_run_def intro!: tenant_view_cong)

text \<open>
  What a tenant writes (its settings, keys, events, findings, actions, audit entries and
  suppressions) changes no row of another tenant, so by the previous property no answer another
  tenant gets.
\<close>

theorem tenant_writes_local:
  "local_write (t_id t) (upsert_tenant t now) \<and> local_write tid (update_tenant tid tf now)
   \<and> local_write (k_tenant k) (insert_api_key k)
   \<and> local_write (c # tid) (revoke_api_key kid (Some (c # tid)) now)
   \<and> local_write (ev_tenant e) (insert_event e now)
   \<and> local_write tid (insert_events (map (ev_tenant_update (\<lambda>_. tid)) es) now)
   \<and> local_write (f_tenant f) (insert_finding f) \<and> local_write tid (update_finding tid fid ff now)
   \<and> local_write (a_tenant a) (insert_action a) \<and> local_write (a_tenant a) (update_action a)
   \<and> local_write tid (append_audit tid who role what target before after context ts)
   \<and> local_write tid (record_collector_run rid tid collector status started finished n m errors detail)
   \<and> local_write tid (add_suppression sid tid rule key reason expires by now)"
proof (intro conjI local_upsert_tenant local_update_tenant local_insert_api_key local_insert_event local_insert_finding
    local_update_finding local_insert_action local_update_action local_append_audit local_record_run local_add_suppression)
  show "local_write (c # tid) (revoke_api_key kid (Some (c # tid)) now)" by (rule local_revoke_api_key) simp
  show "local_write tid (insert_events (map (ev_tenant_update (\<lambda>_. tid)) es) now)"
    by (rule local_insert_events) auto
qed

end
