(* ===== verification/StoreLaws.thy ===== *)
theory StoreLaws
  imports StoreProps
begin

section \<open>Laws of the store's operations\<close>

text \<open>
  What the clients of \<open>storage/store.py\<close> rely on: batches of events are atomic and idempotent, an
  action read back is the one written, the idempotency key is a lock, and the look-up the cooldown
  is computed from finds the last action on a target.
\<close>

subsection \<open>Events\<close>

definition event_ids :: "store \<Rightarrow> string set" where
  "event_ids s = set (map (\<lambda>r. ev_id (er_event r)) (st_events s))"

lemma has_event_iff: "has_event i s \<longleftrightarrow> i \<in> event_ids s"
  by (auto simp: has_event_def event_ids_def list_ex_iff)

lemma insert_event_ids:
  "insert_event e now s = (Inr b, s') \<Longrightarrow>
     event_ids s' = insert (ev_id e) (event_ids s)
     \<and> int (length (st_events s')) = int (length (st_events s)) + (if b then 1 else 0)"
  by (auto simp: insert_event_def event_ids_def event_row_def has_event_iff split: if_splits)

lemma insert_many_ids:
  "insert_many es now s = (Inr n, s') \<Longrightarrow>
     event_ids s' = event_ids s \<union> set (map ev_id es)
     \<and> int (length (st_events s')) = int (length (st_events s)) + n"
proof (induction es arbitrary: s n)
  case (Cons e es)
  from Cons.prems obtain b s1 m where 1: "insert_event e now s = (Inr b, s1)"
    and 2: "insert_many es now s1 = (Inr m, s')" and n: "n = (if b then m + 1 else m)"
    by (auto simp: op_simps split: prod.splits sum.splits)
  show ?case using insert_event_ids [OF 1] Cons.IH [OF 2] n by auto
qed (auto simp: op_simps)

lemma insert_many_known:
  "set (map ev_id es) \<subseteq> event_ids s \<Longrightarrow> insert_many es now s = (Inr 0, s)"
  by (induction es) (simp_all add: op_simps insert_event_def has_event_iff)

text \<open>
  A batch of events is atomic and idempotent.  When it fails nothing is stored; when it succeeds the
  count it returns is the number of rows it added, every event of the batch is stored, and sending
  the same batch again stores nothing and returns zero.
\<close>

theorem insert_events_atomic_idempotent:
  "case insert_events es now s of
     (Inl e, s') \<Rightarrow> s' = s
   | (Inr n, s') \<Rightarrow>
       int (length (st_events s')) = int (length (st_events s)) + n
       \<and> event_ids s' = event_ids s \<union> set (map ev_id es)
       \<and> insert_events es later s' = (Inr 0, s')"
proof (cases "es = []")
  case True
  then show ?thesis by (simp add: insert_events_def op_simps)
next
  case False
  obtain r s' where run: "insert_many es now s = (r, s')" by fastforce
  show ?thesis
  proof (cases r)
    case (Inl e)
    with False run show ?thesis by (simp add: insert_events_def transaction_def)
  next
    case (Inr n)
    then have "event_ids s' = event_ids s \<union> set (map ev_id es)
        \<and> int (length (st_events s')) = int (length (st_events s)) + n"
      using insert_many_ids run by simp
    moreover from this have "insert_many es later s' = (Inr 0, s')"
      by (intro insert_many_known) auto
    ultimately show ?thesis
      using False run Inr by (simp add: insert_events_def transaction_def)
  qed
qed

subsection \<open>Marking events\<close>

lemma concat_chunks: "concat (chunks n xs) = xs"
  by (induction n xs rule: chunks.induct) simp_all

lemma mark_chunk_pair:
  "mark_chunk now c (n, rows) =
     (n + int (length (filter (\<lambda>r. ev_id (er_event r) \<in> set c \<and> \<not> er_processed r) rows)),
      update_where (\<lambda>r. ev_id (er_event r) \<in> set c \<and> \<not> er_processed r)
        (\<lambda>r. r\<lparr>er_processed := True, er_processed_at := Some (to_millis now)\<rparr>) rows)"
  by (simp add: mark_chunk_def Let_def)

lemma mark_chunk_fold:
  "fold (mark_chunk now) cs (n, rows) =
     (n + int (length (filter (\<lambda>r. ev_id (er_event r) \<in> set (concat cs) \<and> \<not> er_processed r) rows)),
      update_where (\<lambda>r. ev_id (er_event r) \<in> set (concat cs) \<and> \<not> er_processed r)
        (\<lambda>r. r\<lparr>er_processed := True, er_processed_at := Some (to_millis now)\<rparr>) rows)"
proof (induction cs arbitrary: n rows)
  case Nil
  then show ?case by (simp add: update_where_def)
next
  case (Cons c cs)
  let ?mark = "\<lambda>r. r\<lparr>er_processed := True, er_processed_at := Some (to_millis now)\<rparr>"
  let ?in = "\<lambda>ids r. ev_id (er_event r) \<in> set ids \<and> \<not> er_processed r"
  have "int (length (filter (?in c) rows))
      + int (length (filter (?in (concat cs)) (update_where (?in c) ?mark rows)))
      = int (length (filter (?in (c @ concat cs)) rows))"
    by (induction rows) (auto simp: update_where_def)
  moreover have "update_where (?in (concat cs)) ?mark (update_where (?in c) ?mark rows)
      = update_where (?in (c @ concat cs)) ?mark rows"
    by (auto simp: update_where_def)
  ultimately show ?case
    by (simp only: fold_simps comp_def mark_chunk_pair Cons.IH concat.simps add.assoc)
qed

text \<open>
  Marking events in chunks of 400 is marking them in one statement: the pending events of the list
  are marked, the others untouched, and the total is the number of rows that changed, whatever the
  length of the list and the duplicates in it.
\<close>

theorem mark_events_processed_correct:
  "mark_events_processed ids now s =
     (Inr (int (length (filter (\<lambda>r. ev_id (er_event r) \<in> set ids \<and> \<not> er_processed r) (st_events s)))),
      s\<lparr>st_events := update_where (\<lambda>r. ev_id (er_event r) \<in> set ids \<and> \<not> er_processed r)
          (\<lambda>r. r\<lparr>er_processed := True, er_processed_at := Some (to_millis now)\<rparr>) (st_events s)\<rparr>)"
  by (simp add: mark_events_processed_def mark_chunk_fold concat_chunks)

subsection \<open>Actions\<close>

text \<open>
  An action that is inserted is the action that is read back (instants to the millisecond), it
  holds its idempotency key against every other action, and an insertion that is refused raises a
  conflict and stores nothing.
\<close>

theorem insert_action_correct:
  "case insert_action a s of
     (Inr b, s') \<Rightarrow>
       b = a \<and> get_action (a_tenant a) (a_id a) s' = Some (action_row a)
       \<and> find_action_by_idempotency (a_idempotency_key a) s' = Some (action_row a)
       \<and> (\<exists>e. insert_action (other\<lparr>a_idempotency_key := a_idempotency_key a\<rparr>) s' = (Inl e, s'))
   | (Inl e, s') \<Rightarrow> s' = s \<and> (\<exists>m d. e = Err ConflictError m d)"
proof -
  have row: "a_id (action_row a) = a_id a" "a_tenant (action_row a) = a_tenant a"
    "a_idempotency_key (action_row a) = a_idempotency_key a"
    by (simp_all add: action_row_def)
  have snoc: "find p (rows @ [r]) = (case find p rows of None \<Rightarrow> if p r then Some r else None | Some x \<Rightarrow> Some x)"
    for p :: "action \<Rightarrow> bool" and rows r
    by (induction rows) auto
  have none: "find (\<lambda>b. a_id b = a_id a \<and> a_tenant b = a_tenant a) (st_actions s) = None"
    if "\<not> list_ex (\<lambda>b. a_id b = a_id a) (st_actions s)"
    using that by (auto simp: find_None_iff list_ex_iff)
  show ?thesis
    using none
    by (auto simp: insert_action_def get_action_def find_action_by_idempotency_def snoc row
        split: option.splits)
qed

text \<open>
  Updating an action writes its life-cycle columns on the row of that action and leaves the rest of
  the row (playbook, target, parameters, dry-run, deadline, idempotency key) and all other rows as
  they were; an unknown action is \<open>404\<close>.
\<close>

theorem update_action_correct:
  "case update_action a s of
     (Inr b, s') \<Rightarrow>
       b = a \<and> st_actions s' = map (\<lambda>r. if same_action a r then write_action a r else r) (st_actions s)
       \<and> s' = s\<lparr>st_actions := st_actions s'\<rparr>
       \<and> get_action (a_tenant a) (a_id a) s'
         = map_option (write_action a) (get_action (a_tenant a) (a_id a) s)
       \<and> get_action (a_tenant a) (a_id a) s \<noteq> None
   | (Inl e, s') \<Rightarrow> s' = s \<and> get_action (a_tenant a) (a_id a) s = None
       \<and> e = Err NotFoundError (''action introuvable: '' @ a_id a) []"
proof -
  have upd: "find (\<lambda>r. a_id r = a_id a \<and> a_tenant r = a_tenant a)
      (update_where (same_action a) (write_action a) rows)
    = map_option (write_action a) (find (\<lambda>r. a_id r = a_id a \<and> a_tenant r = a_tenant a) rows)" for rows
    by (induction rows) (auto simp: update_where_def same_action_def)
  have ex: "list_ex (same_action a) (st_actions s) \<longleftrightarrow> get_action (a_tenant a) (a_id a) s \<noteq> None"
    by (auto simp: get_action_def list_ex_iff same_action_def find_None_iff)
  have get: "get_action (a_tenant a) (a_id a)
      (s\<lparr>st_actions := update_where (same_action a) (write_action a) (st_actions s)\<rparr>)
    = map_option (write_action a) (get_action (a_tenant a) (a_id a) s)"
    by (simp add: get_action_def upd)
  show ?thesis
    using ex get
    by (cases "list_ex (same_action a) (st_actions s)") (simp_all add: update_action_def update_where_def)
qed


subsection \<open>The last action on a target\<close>

lemma like_any: "sql_like ps s \<Longrightarrow> sql_like (CHR ''%'' # ps) (x @ s)"
proof (induction x)
  case (Cons c x)
  have "sql_like (CHR ''%'' # ps) (c # x @ s)"
    using Cons by (subst sql_like.simps) simp
  then show ?case by simp
qed simp

lemma like_all: "sql_like ''%'' s"
  by (induction s) simp_all

lemma like_self: "sql_like q q"
proof (induction q)
  case (Cons c q)
  show ?case
  proof (cases "c = CHR ''%''")
    case True
    have "sql_like (CHR ''%'' # q) ([CHR ''%''] @ q)" by (rule like_any) (rule Cons)
    then show ?thesis using True by simp
  qed (use Cons in simp)
qed simp

lemma like_prefix: "sql_like (q @ ''%'') (q @ y)"
proof (induction q)
  case Nil
  then show ?case using like_all by simp
next
  case (Cons c q)
  show ?case
  proof (cases "c = CHR ''%''")
    case True
    have "sql_like (CHR ''%'' # q @ ''%'') ([CHR ''%''] @ q @ y)" by (rule like_any) (rule Cons)
    then show ?thesis using True by simp
  qed (use Cons in simp)
qed

lemma like_contains: "sql_like (contains q) (x @ q @ y)"
  using like_any [OF like_prefix [of q y], of x] by (simp add: contains_def)

text \<open>A pattern without the percent sign matches a text character by character.\<close>

definition like_char :: "char \<Rightarrow> char \<Rightarrow> bool" where
  "like_char p c \<longleftrightarrow> p \<noteq> CHR ''%'' \<and> (p = CHR ''_'' \<or> lower_char p = lower_char c)"

lemma like_contains_chars:
  assumes "list_all2 like_char q r"
  shows "sql_like (contains q) (x @ r @ y)"
proof -
  have "sql_like (q @ ''%'') (r @ y)"
    using assms
  proof (induction rule: list_all2_induct)
    case Nil
    then show ?case using like_all by simp
  qed (simp add: like_char_def)
  then show ?thesis using like_any by (simp add: contains_def)
qed

text \<open>A value that JSON writes as it is.\<close>

definition plain :: "string \<Rightarrow> bool" where
  "plain v \<longleftrightarrow> list_all (\<lambda>c. dump_char c = [c]) v"

lemma dump_plain: "plain v \<Longrightarrow> concat (map dump_char v) = v"
  by (induction v) (simp_all add: plain_def)

lemma target_json_value:
  assumes "plain (tgt_value t)"
  shows "\<exists>x y. target_json t = x @ ([CHR 0x22] @ tgt_value t @ [CHR 0x22]) @ y"
proof -
  let ?x = "''{'' @ dump_str ''type'' @ '': '' @ dump_str (target_type_str (tgt_type t)) @ '', ''
    @ dump_str ''value'' @ '': ''"
  have "dump_str (tgt_value t) = [CHR 0x22] @ tgt_value t @ [CHR 0x22]"
    using assms by (simp add: dump_str_def dump_plain)
  then have "target_json t = ?x @ ([CHR 0x22] @ tgt_value t @ [CHR 0x22]) @ ''}''"
    by (simp add: target_json_def)
  then show ?thesis by blast
qed

lemma ne_of_mem: "x \<in> set xs \<Longrightarrow> xs \<noteq> []"
  by auto

text \<open>
  The look-up behind the cooldown misses nothing: when an approved, running or successful action of
  the playbook exists on a target whose value JSON does not escape, the look-up returns an action,
  and one at least as recent.
\<close>

theorem last_action_found:
  assumes "a \<in> set (st_actions s)" and "a_tenant a = tid" and "a_playbook a = pb"
    and "tgt_value (a_target a) = v" and "plain v"
    and "a_status a \<in> {Succeeded, Executing, Approved}"
  shows "\<exists>b. last_action_for tid pb v s = Some b \<and> a_requested_at a \<le> a_requested_at b"
proof -
  let ?hit = "\<lambda>a. a_tenant a = tid \<and> a_playbook a = pb
    \<and> sql_like (contains ([CHR 0x22] @ v @ [CHR 0x22])) (target_json (a_target a))
    \<and> a_status a \<in> {Succeeded, Executing, Approved}"
  have "?hit a"
    using assms target_json_value [of "a_target a"] like_contains by metis
  then have hit: "a \<in> set (filter ?hit (st_actions s))" using assms(1) by simp
  then have "filter ?hit (st_actions s) \<noteq> []" by (rule ne_of_mem)
  then obtain b where "latest a_requested_at (filter ?hit (st_actions s)) = Some b"
    by (cases "latest a_requested_at (filter ?hit (st_actions s))") (simp_all only: latest_None)
  with latest_max [OF this hit] show ?thesis by (simp add: last_action_for_def)
qed

definition sample_action :: "string \<Rightarrow> target_type \<Rightarrow> string \<Rightarrow> action" where
  "sample_action i ty v =
     \<lparr>a_id = i, a_tenant = ''acme'', a_finding_id = None, a_policy_id = None, a_playbook = ''block_ip'',
      a_status = Succeeded, a_mode = Act_auto, a_dry_run = False, a_params = [],
      a_target = \<lparr>tgt_type = ty, tgt_value = v\<rparr>, a_requested_by = ''system'', a_requested_at = 0,
      a_approved_by = None, a_approved_at = None, a_rejected_by = None, a_rejected_at = None,
      a_executed_at = None, a_expires_at = None, a_result = None, a_rollback = new_rollback False,
      a_idempotency_key = i, a_audit_seq = None, a_reason = []\<rparr>"

theorem last_action_found_witness:
  "\<exists>b. last_action_for ''acme'' ''block_ip'' ''10.0.0.7''
     (empty_store\<lparr>st_actions := [sample_action ''a1'' T_ip ''10.0.0.7'']\<rparr>) = Some b
   \<and> a_requested_at (sample_action ''a1'' T_ip ''10.0.0.7'') \<le> a_requested_at b"
proof (rule last_action_found)
  show "plain ''10.0.0.7''" by code_simp
qed (simp_all add: sample_action_def)

text \<open>
  But it may find an action on another target.  The value is a pattern searched in the JSON text of
  the whole target, so an underscore matches any character and the name of a target type matches
  every target of that type.
\<close>

theorem last_action_overmatches:
  "last_action_for ''acme'' ''block_ip'' ''user_a'' (empty_store\<lparr>st_actions := [sample_action ''a1'' T_user ''userXa'']\<rparr>)
     = Some (sample_action ''a1'' T_user ''userXa'')
   \<and> last_action_for ''acme'' ''block_ip'' ''host'' (empty_store\<lparr>st_actions := [sample_action ''a1'' T_host ''db-1'']\<rparr>)
     = Some (sample_action ''a1'' T_host ''db-1'')"
proof -
  let ?q = "\<lambda>v. [CHR 0x22] @ v @ [CHR 0x22]"
  have "target_json \<lparr>tgt_type = T_user, tgt_value = ''userXa''\<rparr>
      = ''{'' @ ?q ''type'' @ '': '' @ ?q ''user'' @ '', '' @ ?q ''value'' @ '': '' @ ?q ''userXa'' @ ''}''"
    "target_json \<lparr>tgt_type = T_host, tgt_value = ''db-1''\<rparr>
      = ''{'' @ ?q ''type'' @ '': '' @ ?q ''host'' @ '', '' @ ?q ''value'' @ '': '' @ ?q ''db-1'' @ ''}''"
    by code_simp+
  moreover have "list_all2 like_char (?q ''user_a'') (?q ''userXa'')" "list_all2 like_char (?q ''host'') (?q ''host'')"
    by code_simp+
  ultimately have "sql_like (contains (?q ''user_a'')) (target_json \<lparr>tgt_type = T_user, tgt_value = ''userXa''\<rparr>)"
    "sql_like (contains (?q ''host'')) (target_json \<lparr>tgt_type = T_host, tgt_value = ''db-1''\<rparr>)"
    using like_contains_chars by (metis append.assoc)+
  then show ?thesis
    unfolding last_action_for_def
    by (simp add: sample_action_def del: sql_like.simps append.simps)
qed

end
