(* ===== verification/StorePages.thy ===== *)
theory StorePages
  imports StoreProps
begin

section \<open>Following the cursors\<close>

text \<open>
  The listing operations of \<open>storage/store.py\<close> page with a cursor: the key of the last row served.
  The locale \<open>keyset\<close> shows once that a client that follows the cursors sees every matching row
  exactly once and in order; it is interpreted on the four listing operations.
\<close>

text \<open>A client that asks for page after page until there is no next cursor, at most \<open>n\<close> times.\<close>

fun follow :: "('c option \<Rightarrow> 'a list \<times> 'c option) \<Rightarrow> nat \<Rightarrow> 'c option \<Rightarrow> 'a list" where
  "follow fetch 0 cursor = []"
| "follow fetch (Suc n) cursor =
     (let (items, next_cursor) = fetch cursor
      in items @ (case next_cursor of None \<Rightarrow> [] | Some c \<Rightarrow> follow fetch n (Some c)))"

locale keyset =
  fixes key :: "'r \<Rightarrow> 'k::linorder"
    and fetch :: "'q \<Rightarrow> 'r list \<Rightarrow> 'k option \<Rightarrow> 'r list \<times> 'k option"
    and keep :: "'q \<Rightarrow> 'r \<Rightarrow> bool"
    and size :: "'q \<Rightarrow> nat"
  assumes size_pos: "0 < size q"
    and fetch: "fetch q rows c =
      (let hits = filter (\<lambda>r. c = None \<or> key r < the c) (rev (sort_key key (filter (keep q) rows)))
       in if size q < length hits
          then (take (size q) hits, Some (key (last (take (size q) hits)))) else (hits, None))"
begin

lemma follow_suffix:
  assumes "sorted_wrt (\<lambda>a b. key b < key a) L"
    and "L = rev (sort_key key (filter (keep q) rows))"
    and "L = P @ S" and "filter (\<lambda>r. c = None \<or> key r < the c) L = S" and "length S \<le> n"
  shows "follow (fetch q rows) (Suc n) c = S"
  using assms(3-5)
proof (induction n arbitrary: c P S)
  case 0
  then have "fetch q rows c = ([], None)"
    unfolding fetch assms(2) [symmetric] by (simp only: Let_def) simp
  then show ?case using 0 by simp
next
  case (Suc n)
  have page: "fetch q rows c = (if size q < length S
      then (take (size q) S, Some (key (last (take (size q) S)))) else (S, None))"
    unfolding fetch assms(2) [symmetric] by (simp only: Let_def Suc.prems(2))
  show ?case
  proof (cases "size q < length S")
    case False
    then show ?thesis by (simp add: page)
  next
    case True
    let ?T = "take (size q) S" and ?D = "drop (size q) S"
    let ?x = "last ?T"
    have "?T \<noteq> []" using True size_pos [of q] by (cases S) auto
    then have "L = (P @ butlast ?T) @ ?x # ?D"
      using Suc.prems(1) append_take_drop_id [of "size q" S]
      by (metis append.assoc append_Cons append_Nil append_butlast_last_id)
    moreover from this assms(1) have "filter (\<lambda>r. key r < key ?x) L = ?D"
      by (fastforce simp: sorted_wrt_append filter_empty_conv filter_id_conv dest: order_less_asym)
    moreover have "length ?D \<le> n" using Suc.prems(3) size_pos [of q] True by auto
    ultimately have "follow (fetch q rows) (Suc n) (Some (key ?x)) = ?D"
      using Suc.IH [of "P @ butlast ?T @ [?x]" ?D "Some (key ?x)"] by simp
    then show ?thesis
      using True by (subst follow.simps(2)) (simp add: page del: follow.simps)
  qed
qed

lemma follow_all:
  assumes "distinct (map key (filter (keep q) rows))"
  shows "follow (fetch q rows) (Suc (length rows)) None = rev (sort_key key (filter (keep q) rows))"
proof (rule follow_suffix [OF _ refl, of _ _ "[]"])
  let ?L = "sort_key key (filter (keep q) rows)"
  have "distinct (filter (keep q) rows) \<and> inj_on key (set (filter (keep q) rows))"
    using assms by (simp only: distinct_map)
  then have "distinct (map key ?L)" by (simp only: distinct_map distinct_sort set_sort)
  moreover have "sorted (map key ?L)" by simp
  ultimately have "sorted_wrt (<) (map key ?L)" by (simp only: strict_sorted_iff)
  then show "sorted_wrt (\<lambda>a b. key b < key a) (rev ?L)"
    by (simp only: sorted_wrt_rev sorted_wrt_map)
qed simp_all

end


subsection \<open>The listing operations\<close>

lemma before_cursor_less: "before_cursor k c \<longleftrightarrow> c = None \<or> k < the c"
  by (auto simp: before_cursor_def less_prod_def' split: option.splits prod.splits)

lemma page_fetch:
  "page key keep limit c rows =
     (let hits = filter (\<lambda>r. c = None \<or> key r < the c) (rev (sort_key key (filter keep rows)));
          n = nat (clamp_limit limit)
      in if n < length hits then (take n hits, Some (key (last (take n hits)))) else (hits, None))"
proof -
  let ?n = "nat (clamp_limit limit)"
  let ?hits = "filter (\<lambda>r. c = None \<or> key r < the c) (rev (sort_key key (filter keep rows)))"
  have "rev (sort_key key (filter (\<lambda>r. keep r \<and> before_cursor (key r) c) rows)) = ?hits"
    by (simp add: before_cursor_less rev_filter filter_sort [symmetric] conj_commute)
  moreover have "min (length ?hits) ?n = ?n" if "?n < length (take (Suc ?n) ?hits)" using that by simp
  ultimately show ?thesis
    by (auto simp: page_def Let_def min_def)
qed

lemma clamp_limit_pos: "0 < clamp_limit limit"
  by (simp add: clamp_limit_def)

interpretation event_pages: keyset event_key
  "\<lambda>(keep, limit) rows c. page event_key keep limit c rows"
  "\<lambda>(keep, limit). keep" "\<lambda>(keep, limit). nat (clamp_limit limit)"
  by unfold_locales (auto simp: page_fetch clamp_limit_pos Let_def split: prod.splits)

interpretation action_pages: keyset action_key
  "\<lambda>(keep, limit) rows c. page action_key keep limit c rows"
  "\<lambda>(keep, limit). keep" "\<lambda>(keep, limit). nat (clamp_limit limit)"
  by unfold_locales (auto simp: page_fetch clamp_limit_pos Let_def split: prod.splits)

interpretation finding_pages: keyset "finding_key sort_by"
  "\<lambda>(keep, limit) rows c. page (finding_key sort_by) keep limit c rows"
  "\<lambda>(keep, limit). keep" "\<lambda>(keep, limit). nat (clamp_limit limit)" for sort_by
  by unfold_locales (auto simp: page_fetch clamp_limit_pos Let_def split: prod.splits)

definition audit_page ::
  "(audit_record \<Rightarrow> bool) \<times> int \<Rightarrow> audit_record list \<Rightarrow> int option \<Rightarrow> audit_record list \<times> int option" where
  "audit_page q rows cursor =
     (let n = nat (clamp_limit (snd q));
          hits = take (n + 1) (rev (sort_key au_seq
            (filter (\<lambda>r. fst q r \<and> (case cursor of None \<Rightarrow> True | Some c \<Rightarrow> au_seq r < c)) rows)))
      in if n < length hits then (take n hits, Some (au_seq (last (take n hits)))) else (hits, None))"

lemma audit_page_fetch:
  "audit_page q rows c =
     (let hits = filter (\<lambda>r. c = None \<or> au_seq r < the c) (rev (sort_key au_seq (filter (fst q) rows)));
          n = nat (clamp_limit (snd q))
      in if n < length hits then (take n hits, Some (au_seq (last (take n hits)))) else (hits, None))"
proof -
  have "rev (sort_key au_seq (filter (\<lambda>r. fst q r \<and> (case c of None \<Rightarrow> True | Some k \<Rightarrow> au_seq r < k)) rows))
      = filter (\<lambda>r. c = None \<or> au_seq r < the c) (rev (sort_key au_seq (filter (fst q) rows)))"
    by (cases c) (simp_all add: rev_filter filter_sort [symmetric] conj_commute)
  then show ?thesis by (auto simp: audit_page_def Let_def min_def)
qed

interpretation audit_pages: keyset au_seq audit_page fst "\<lambda>q. nat (clamp_limit (snd q))"
  by unfold_locales (simp_all add: audit_page_fetch clamp_limit_pos Let_def)

lemma list_audit_page:
  "list_audit tid what who since until limit c s
   = audit_page (audit_matches tid what who since until, limit) (st_audit s) c"
  by (simp only: list_audit_def audit_page_def fst_conv snd_conv)

lemma follow_map:
  "follow (\<lambda>c. map_prod (map g) id (fetch c)) n c = map g (follow fetch n c)"
  by (induction n arbitrary: c) (auto simp: split_beta split: option.splits)

lemma distinct_key_filter:
  "distinct (map (\<lambda>r. f r) rows) \<Longrightarrow> (\<And>r. snd (key r) = f r) \<Longrightarrow> distinct (map key (filter p rows))"
proof -
  assume d: "distinct (map (\<lambda>r. f r) rows)" and k: "\<And>r. snd (key r) = f r"
  have "inj_on f (set rows)" "distinct rows" using d by (simp_all add: distinct_map)
  then show ?thesis
    using k by (auto simp: distinct_map inj_on_def) (metis k)
qed

text \<open>
  C39: the cursors are complete.  In a store that meets its constraints, a client that starts without a
  cursor and follows the cursor of each page until there is none receives, for every listing and
  every page size, exactly the rows that match its query, each once, newest first (highest score
  first for findings sorted by score).
\<close>

theorem listing_complete:
  assumes "store_ok s"
  shows "follow (\<lambda>c. query_events tid eq limit c s) (Suc (length (st_events s))) None
      = map er_event (rev (sort_key event_key (filter (event_matches tid eq) (st_events s))))
    \<and> follow (\<lambda>c. list_findings tid fq sort_by limit c s) (Suc (length (st_findings s))) None
      = map row_to_finding
          (rev (sort_key (finding_key sort_by) (filter (finding_matches tid fq) (st_findings s))))
    \<and> follow (\<lambda>c. list_actions tid st pb fid limit c s) (Suc (length (st_actions s))) None
      = rev (sort_key action_key (filter (action_matches tid st pb fid) (st_actions s)))
    \<and> follow (\<lambda>c. list_audit tid what who since until limit c s) (Suc (length (st_audit s))) None
      = rev (sort_key au_seq (filter (audit_matches tid what who since until) (st_audit s)))"
proof (intro conjI)
  have d: "distinct (map (\<lambda>r. ev_id (er_event r)) (st_events s))" "distinct (map f_id (st_findings s))"
    "distinct (map a_id (st_actions s))" "sorted_wrt (<) (map au_seq (st_audit s))"
    using assms by (simp_all add: store_ok_def)
  show "follow (\<lambda>c. query_events tid eq limit c s) (Suc (length (st_events s))) None
      = map er_event (rev (sort_key event_key (filter (event_matches tid eq) (st_events s))))"
    using event_pages.follow_all [of "(event_matches tid eq, limit)" "st_events s"]
      distinct_key_filter [OF d(1), of event_key]
    unfolding query_events_def follow_map by (simp add: event_key_def del: follow.simps)
  show "follow (\<lambda>c. list_findings tid fq sort_by limit c s) (Suc (length (st_findings s))) None
      = map row_to_finding
          (rev (sort_key (finding_key sort_by) (filter (finding_matches tid fq) (st_findings s))))"
    using finding_pages.follow_all [of sort_by "(finding_matches tid fq, limit)" "st_findings s"]
      distinct_key_filter [OF d(2), of "finding_key sort_by"]
    unfolding list_findings_def follow_map by (simp add: finding_key_def del: follow.simps)
  show "follow (\<lambda>c. list_actions tid st pb fid limit c s) (Suc (length (st_actions s))) None
      = rev (sort_key action_key (filter (action_matches tid st pb fid) (st_actions s)))"
    using action_pages.follow_all [of "(action_matches tid st pb fid, limit)" "st_actions s"]
      distinct_key_filter [OF d(3), of action_key]
    unfolding list_actions_def by (simp add: action_key_def del: follow.simps)
  have "distinct (map au_seq (filter p (st_audit s)))" for p
    using d(4) by (simp add: distinct_map_filter strict_sorted_iff)
  then show "follow (\<lambda>c. list_audit tid what who since until limit c s) (Suc (length (st_audit s))) None
      = rev (sort_key au_seq (filter (audit_matches tid what who since until) (st_audit s)))"
    using audit_pages.follow_all [of "(audit_matches tid what who since until, limit)" "st_audit s"]
    unfolding list_audit_page by (simp del: follow.simps)
qed


definition sample_audit :: "int \<Rightarrow> string \<Rightarrow> audit_record" where
  "sample_audit n tenant =
     \<lparr>au_seq = n, au_ts = seconds n, au_tenant = tenant, au_actor = ''system'', au_actor_role = ''system'',
      au_action = ''system.start'', au_target = [], au_before = [], au_after = [],
      au_prev_hash = ''p'', au_hash = ''h'', au_context = []\<rparr>"

definition sample_log :: store where
  "sample_log = empty_store\<lparr>st_audit := [sample_audit 1 ''a'', sample_audit 2 ''b'', sample_audit 4 ''a''],
     st_seq := 4\<rparr>"

theorem listing_complete_witness:
  "follow (\<lambda>c. list_audit ''a'' None None None None 1 c sample_log) 4 None
   = [sample_audit 4 ''a'', sample_audit 1 ''a'']"
proof -
  have ok: "store_ok sample_log"
    by (simp add: sample_log_def store_ok_def empty_store_def sample_audit_def)
  have len: "Suc (length (st_audit sample_log)) = 4" by (simp add: sample_log_def)
  have hits: "rev (sort_key au_seq (filter (audit_matches ''a'' None None None None) (st_audit sample_log)))
      = [sample_audit 4 ''a'', sample_audit 1 ''a'']"
    by (simp add: sample_log_def sample_audit_def audit_matches_def opt_is_def opt_truthy_def
        since_ok_def until_ok_def)
  show ?thesis
    using listing_complete [OF ok, where tid = "''a''" and what = None and who = None and since = None
        and until = None and limit = 1]
    unfolding len hits by blast
qed

end
