(* ===== verification/AuditLog.thy ===== *)
theory AuditLog
  imports StoreProps
begin

section \<open>The audit journal\<close>

text \<open>
  \<open>audit/chain.py\<close>: the facade over the audit table that writes chained records, verifies the whole
  chain, and exports it.  The journal the store builds is shown to be a chain in the sense of the
  locale \<open>hash_chain\<close>, verification is shown to accept exactly the chains, and the consequences for
  tampering, truncation and retention follow.
\<close>

subsection \<open>Operations\<close>

definition record_audit ::
  "string \<Rightarrow> string \<Rightarrow> string \<Rightarrow> string \<Rightarrow> dict \<Rightarrow> dict \<Rightarrow> dict \<Rightarrow> dict \<Rightarrow> time \<Rightarrow> audit_record store_op" where
  "record_audit tenant who what role target before after context ts =
     append_audit tenant who role what target before after context ts"

definition record_state_change ::
  "string \<Rightarrow> string \<Rightarrow> string \<Rightarrow> string \<Rightarrow> dict \<Rightarrow> dict \<Rightarrow> dict \<Rightarrow> dict \<Rightarrow> time \<Rightarrow> audit_record store_op" where
  "record_state_change tenant who role what target before after context ts =
     record_audit tenant who what role target before after context ts"

definition tail :: "string \<Rightarrow> int \<Rightarrow> store \<Rightarrow> audit_record list" where
  "tail tid limit s = fst (list_audit tid None None None None limit None s)"

definition audit_count :: "string \<Rightarrow> store \<Rightarrow> int" where
  "audit_count tid s = count_audit tid None s"

fun verify_loop :: "string option \<Rightarrow> string \<Rightarrow> int \<Rightarrow> int \<Rightarrow> audit_record list \<Rightarrow> verify_result" where
  "verify_loop tid expected_prev counted seen [] =
     \<lparr>vr_valid = True, vr_records = (if opt_truthy tid then counted else seen),
      vr_broken_at = None, vr_reason = None\<rparr>"
| "verify_loop tid expected_prev counted seen (r # rs) =
     (let seen = seen + 1;
          counted = (if opt_truthy tid \<and> Some (au_tenant r) = tid then counted + 1 else counted);
          (valid, reason) = verify_record r expected_prev
      in if \<not> valid
         then \<lparr>vr_valid = False, vr_records = seen, vr_broken_at = Some (au_seq r), vr_reason = reason\<rparr>
         else verify_loop tid (au_hash r) counted seen rs)"

definition verify :: "string option \<Rightarrow> store \<Rightarrow> verify_result" where
  "verify tid s = verify_loop tid GENESIS_HASH 0 0 (iter_audit None s)"

definition export_payload :: "audit_record \<Rightarrow> dict" where
  "export_payload r =
     [(''seq'', PInt (au_seq r)), (''ts'', PStr (iso_z (au_ts r))), (''tenant_id'', PStr (au_tenant r)),
      (''actor'', PStr (au_actor r)), (''actor_role'', PStr (au_actor_role r)),
      (''action'', PStr (au_action r)), (''target'', PDict (au_target r)),
      (''before'', PDict (au_before r)), (''after'', PDict (au_after r)),
      (''context'', PDict (au_context r)), (''prev_hash'', PStr (au_prev_hash r)),
      (''hash'', PStr (au_hash r))]"

definition export ::
  "string \<Rightarrow> string \<Rightarrow> int \<Rightarrow> time option \<Rightarrow> time option \<Rightarrow> store \<Rightarrow> string list" where
  "export tid fmt limit since until s =
     map (\<lambda>r. if fmt = ''cef'' then to_cef r else json_compact (PDict (export_payload r)))
       (rev (fst (list_audit tid None None since until (min limit 10000) None s)))"

definition integrity_summary :: "string \<Rightarrow> time \<Rightarrow> store \<Rightarrow> dict" where
  "integrity_summary tid now s =
     (let result = verify (Some tid) s; recent = tail tid 1 s
      in [(''valid'', PBool (vr_valid result)), (''records'', PInt (vr_records result)),
          (''broken_at'', case vr_broken_at result of None \<Rightarrow> PNone | Some n \<Rightarrow> PInt n),
          (''reason'', opt_str (vr_reason result)),
          (''last_record_at'', case recent of [] \<Rightarrow> PNone | r # _ \<Rightarrow> PStr (iso_z (au_ts r))),
          (''last_hash'', case recent of [] \<Rightarrow> PNone | r # _ \<Rightarrow> PStr (au_hash r)),
          (''checked_at'', PStr (iso_z now))])"

subsection \<open>The journal is a chain\<close>

definition audit_linked :: "store \<Rightarrow> bool" where
  "audit_linked s \<longleftrightarrow> sorted_wrt (<) (map au_seq (st_audit s))
     \<and> list_all (\<lambda>r. au_seq r \<le> st_seq s) (st_audit s) \<and> chain.linked GENESIS_HASH (st_audit s)"

lemma sort_ascending:
  assumes "sorted_wrt (<) (map au_seq rs)"
  shows "sort_key au_seq rs = rs"
  using assms by (simp add: sort_key_id_if_sorted strict_sorted_imp_sorted)

lemma iter_audit_sorted: "sorted_wrt (<) (map au_seq (st_audit s)) \<Longrightarrow> iter_audit None s = st_audit s"
  by (simp add: iter_audit_def opt_truthy_def sort_ascending)

lemma audit_linkedD:
  "audit_linked s \<Longrightarrow> sorted_wrt (<) (map au_seq (st_audit s))"
  "audit_linked s \<Longrightarrow> chain.linked GENESIS_HASH (st_audit s)"
  by (simp_all add: audit_linked_def)

lemma latest_snoc:
  "(\<And>q. q \<in> set rs \<Longrightarrow> key q < key r) \<Longrightarrow> latest key (rs @ [r]) = Some r"
  by (induction rs) (auto simp: not_less dest: less_imp_le)

lemma last_hash_head:
  assumes "sorted_wrt (<) (map au_seq (st_audit s))"
  shows "last_hash s = chain.head GENESIS_HASH (st_audit s)"
proof (cases "st_audit s" rule: rev_cases)
  case (snoc rs r)
  then have "latest au_seq (st_audit s) = Some r"
    using assms by (auto simp: sorted_wrt_append intro!: latest_snoc)
  then show ?thesis using snoc by (simp add: last_hash_def)
qed (simp add: last_hash_def)

lemma verify_loop_linked:
  "vr_valid (verify_loop tid p n m rs) \<longleftrightarrow> chain.linked p rs"
proof (induction rs arbitrary: p n m)
  case (Cons r rs)
  then show ?case
    using verify_record_iff [of r p] by (auto simp: Let_def split_beta)
qed simp

lemma verify_loop_broken:
  "chain.linked p rs \<Longrightarrow> \<not> fst (verify_record r (chain.head p rs)) \<Longrightarrow>
   vr_broken_at (verify_loop tid p i j (rs @ r # rs')) = Some (au_seq r)"
proof (induction rs arbitrary: p i j)
  case (Cons q rs)
  have "fst (verify_record q p)" using Cons.prems(1) by (simp add: verify_record_iff)
  moreover have "vr_broken_at (verify_loop tid (au_hash q) i' j' (rs @ r # rs')) = Some (au_seq r)" for i' j'
    by (rule Cons.IH) (use Cons.prems in auto)
  ultimately show ?case by (simp add: Let_def split_beta)
qed (simp add: Let_def split_beta)

lemma verify_loop_valid_None:
  "vr_valid (verify_loop tid p i j rs) \<longleftrightarrow> vr_broken_at (verify_loop tid p i j rs) = None"
  by (induction rs arbitrary: p i j) (simp_all add: Let_def split_beta)

lemma not_linked_split:
  "\<not> chain.linked p qs \<Longrightarrow>
   \<exists>rs r rs'. qs = rs @ r # rs' \<and> chain.linked p rs \<and> \<not> fst (verify_record r (chain.head p rs))"
proof (induction qs arbitrary: p)
  case (Cons q qs)
  show ?case
  proof (cases "fst (verify_record q p)")
    case True
    then have "\<not> chain.linked (au_hash q) qs" using Cons.prems by (simp add: verify_record_iff)
    then obtain rs r rs' where "qs = rs @ r # rs'" "chain.linked (au_hash q) rs"
      "\<not> fst (verify_record r (chain.head (au_hash q) rs))"
      using Cons.IH by blast
    with True show ?thesis
      by (intro exI [of _ "q # rs"] exI [of _ r] exI [of _ rs']) (simp add: verify_record_iff)
  qed (intro exI [of _ "[]"], simp)
qed simp

text \<open>What one more record does to the chain: it extends it when its documents survive their columns.\<close>

lemma append_linked:
  assumes "audit_linked s" and "json_safe target" and "json_safe before" and "json_safe after"
  shows "audit_linked (snd (append_audit tenant who role what target before after context ts s))"
proof -
  let ?r = "audit_row (new_audit tenant who role what target before after context ts s)"
  have "au_prev_hash ?r = chain.head GENESIS_HASH (st_audit s)"
    using last_hash_head [OF audit_linkedD(1) [OF assms(1)]] by (simp add: new_audit_def Let_def audit_row_def)
  moreover have "au_hash ?r = digest (record_payload ?r (chain.head GENESIS_HASH (st_audit s)))"
    using last_hash_head [OF audit_linkedD(1) [OF assms(1)]] assms(2-4)
    by (simp add: new_audit_def Let_def audit_row_def record_payload_def record_fingerprint_def
        json_column_safe)
  ultimately have "chain.linked GENESIS_HASH (st_audit s @ [?r])"
    using assms(1) by (simp add: audit_linked_def)
  moreover have "au_seq ?r = st_seq s + 1" by (simp add: new_audit_def audit_row_def Let_def)
  ultimately show ?thesis
    using assms(1)
    by (auto simp: audit_linked_def append_audit_def Let_def list_all_iff sorted_wrt_append
        intro: order_trans)
qed


subsection \<open>What a payload commits to\<close>

text \<open>
  The bar separates the fields of a payload and is escaped in none.  The first six hold none when the names do not; the
  text of a document may hold bars, but only within its quotes.  \<open>from_bar q s\<close> is what follows in \<open>s\<close> from the first bar
  outside quotes, \<open>q\<close> telling whether \<open>s\<close> starts within.
\<close>

fun from_bar :: "bool \<Rightarrow> string \<Rightarrow> string" where
  "from_bar q [] = []"
| "from_bar False (c # s) = (if c = CHR ''|'' then c # s else from_bar (c = CHR 0x22) s)"
| "from_bar True (c # s) =
     (if c = CHR 0x5C then (case s of [] \<Rightarrow> [] | _ # t \<Rightarrow> from_bar True t) else from_bar (c \<noteq> CHR 0x22) s)"

abbreviation barless :: "char \<Rightarrow> bool" where
  "barless c \<equiv> c \<noteq> CHR ''|'' \<and> c \<noteq> CHR 0x22"

lemma from_bar_plain: "list_all barless t \<Longrightarrow> from_bar False (t @ r) = from_bar False r"
  by (induction t) auto

lemma hex_digit_plain: "0 \<le> n \<Longrightarrow> n < 16 \<Longrightarrow> hex_digit n \<noteq> CHR 0x22 \<and> hex_digit n \<noteq> CHR 0x5C"
proof -
  assume "0 \<le> n" "n < 16"
  then have "n \<in> set [0..15]" by simp
  moreover have "list_all (\<lambda>n. hex_digit n \<noteq> CHR 0x22 \<and> hex_digit n \<noteq> CHR 0x5C) [0..15]" by code_simp
  ultimately show ?thesis by (auto simp: list_all_iff)
qed

lemma from_bar_esc: "from_bar True (esc_char c @ r) = from_bar True r"
proof -
  have code: "0 \<le> code c \<and> code c < 256" by (simp add: code_def of_char_def)
  have "hex_digit (code c div 16) \<noteq> CHR 0x22 \<and> hex_digit (code c div 16) \<noteq> CHR 0x5C"
    "hex_digit (code c mod 16) \<noteq> CHR 0x22 \<and> hex_digit (code c mod 16) \<noteq> CHR 0x5C"
    using code by (intro hex_digit_plain; presburger)+
  then show ?thesis by (simp add: esc_char_def hex2_def)
qed

lemma from_bar_str: "from_bar False (json_str s @ r) = from_bar False r"
proof -
  have "from_bar True (concat (map esc_char s) @ t) = from_bar True t" for t
    by (induction s arbitrary: t) (simp_all add: from_bar_esc)
  then show ?thesis by (simp add: json_str_def)
qed

lemma plain_chars: "list_all (\<lambda>c. is_digit c \<or> c = CHR ''-'' \<or> c = CHR ''.'' \<or> c = CHR '':'' \<or> c = CHR ''T'' \<or> c = CHR ''Z'') t
  \<Longrightarrow> list_all barless t"
  by (erule list.pred_mono_strong) (auto simp: is_digit_def code_def)

lemma digits_plain: "0 \<le> i \<Longrightarrow> list_all barless (dec_str i)"
  by (rule plain_chars) (auto simp: list_all_iff dest: dec_str_digits)

lemma float_repr_plain: "list_all barless (float_repr x)"
proof -
  have "list_all barless (pad_left k (CHR ''0'') t)" if "list_all barless t" for k t
    using that by (simp add: pad_left_def list_all_iff ball_Un)
  note pad = this [OF digits_plain]
  have "list_all barless (decimal_str k m)" for k m
    by (simp add: decimal_str_def Let_def digits_plain pad pos_imp_zdiv_nonneg_iff)
  then show ?thesis by (simp only: float_repr_def fmt_fixed_def Let_def)
qed

lemma int_str_plain: "list_all barless (int_str i)"
  by (rule plain_chars) (auto simp: list_all_iff dest: int_str_chars)

lemma from_bar_join:
  "(\<And>t r. t \<in> set ts \<Longrightarrow> from_bar False (t @ r) = from_bar False r)
     \<Longrightarrow> from_bar False (join_with '','' ts @ r) = from_bar False r"
proof (induction ts)
  case (Cons t ts)
  then show ?case by (cases ts) (simp_all add: join_with_Cons)
qed simp

text \<open>The text of a value, whatever it holds, has no bar outside quotes.\<close>

lemma from_bar_json: "from_bar False (canonical_json v @ r) = from_bar False r"
proof (induction v arbitrary: r)
  case (PList xs)
  have "from_bar False (join_with '','' (map canonical_json xs) @ t) = from_bar False t" for t
    by (rule from_bar_join) (use PList in auto)
  then show ?case by simp
next
  case (PDict d)
  have "from_bar False ((\<lambda>(k, t). json_str k @ '':'' @ t) kt @ t) = from_bar False t"
    if "kt \<in> set (sort_key fst (map (map_prod id canonical_json) d))" for kt t
    using that PDict by (fastforce simp: from_bar_str)
  then have "from_bar False (join_with '','' (map (\<lambda>(k, t). json_str k @ '':'' @ t)
      (sort_key fst (map (map_prod id canonical_json) d))) @ t) = from_bar False t" for t
    by (intro from_bar_join) auto
  then show ?case by simp
qed (simp_all add: from_bar_str from_bar_plain int_str_plain float_repr_plain)

lemma json_field_split:
  assumes "canonical_json v @ CHR ''|'' # x = canonical_json w @ CHR ''|'' # y"
  shows "canonical_json v = canonical_json w \<and> x = y"
proof -
  have "CHR ''|'' # x = CHR ''|'' # y"
    using arg_cong [OF assms, of "from_bar False"] by (simp only: from_bar_json) simp
  then show ?thesis using assms by (simp del: canonical_json.simps)
qed

lemma plain_field_split:
  assumes "a @ CHR ''|'' # x = b @ CHR ''|'' # y" and "no_bar a" and "no_bar b"
  shows "a = b \<and> x = y"
proof -
  have "takeWhile (\<lambda>c. c \<noteq> CHR ''|'') (u @ CHR ''|'' # v) = u" if "no_bar u" for u v
    using that by (subst takeWhile_append2) auto
  then have "a = b" using assms by metis
  with assms(1) show ?thesis by simp
qed

text \<open>An instant since 1970 is written with digits.\<close>

lemma month_start:
  assumes "0 \<le> n" and "n \<le> 364"
  shows "days_before_month leap (if days_before_month leap ((n + 50) div 32) > n then (n + 50) div 32 - 1 else (n + 50) div 32) \<le> n"
proof -
  have "list_all (\<lambda>leap. list_all (\<lambda>n. days_before_month leap (if days_before_month leap ((n + 50) div 32) > n
      then (n + 50) div 32 - 1 else (n + 50) div 32) \<le> n) [0..364]) [False, True]" by code_simp
  moreover have "n \<in> set [0..364]" "leap \<in> set [False, True]" using assms by auto
  ultimately show ?thesis by (simp only: list_all_iff)
qed

lemma ord2ymd_nonneg:
  assumes "0 \<le> n0" and "ord2ymd n0 = (y, m, d)"
  shows "0 \<le> y \<and> 0 \<le> m \<and> 0 \<le> d"
proof -
  define a where "a = n0 div 146097"
  define b where "b = n0 mod 146097 div 36524"
  define c where "c = n0 mod 146097 mod 36524 div 1461"
  define e where "e = n0 mod 146097 mod 36524 mod 1461 div 365"
  define n where "n = n0 mod 146097 mod 36524 mod 1461 mod 365"
  note defs = a_def b_def c_def e_def n_def
  have n: "0 \<le> n" "n \<le> 364" by (simp_all add: n_def)
  have pos: "0 \<le> a" "0 \<le> b" "0 \<le> c" "0 \<le> e"
    using assms(1) by (simp_all add: defs pos_imp_zdiv_nonneg_iff)
  define q where "q = (n + 50) div 32"
  define leap where "leap \<longleftrightarrow> e = 3 \<and> (c \<noteq> 24 \<or> b = 3)"
  define k where "k = (if n < days_before_month leap q then q - 1 else q)"
  have "1 \<le> q" using n by (simp add: q_def)
  then have "0 \<le> k" by (simp add: k_def)
  moreover have "days_before_month leap k \<le> n"
    using month_start [OF n, of leap] unfolding k_def q_def .
  ultimately have k: "0 \<le> k" "days_before_month leap k \<le> n" .
  have "ord2ymd n0 = (let year = a * 400 + 1 + b * 100 + c * 4 + e
      in if e = 4 \<or> b = 4 then (year - 1, 12, 31) else (year, k, n - days_before_month leap k + 1))"
    by (simp only: ord2ymd_def Let_def defs [symmetric] q_def k_def leap_def)
  then show ?thesis using assms(2) pos k by (auto simp: Let_def split: if_splits)
qed

lemma pad_digits: "0 \<le> i \<Longrightarrow> c \<in> set (pad k i) \<Longrightarrow> is_digit c"
proof -
  have "is_digit (CHR ''0'')" by code_simp
  then show "0 \<le> i \<Longrightarrow> c \<in> set (pad k i) \<Longrightarrow> is_digit c"
    by (auto simp: pad_def pad_left_def dest: dec_str_digits split: if_splits)
qed

lemma iso_z_no_bar:
  assumes "0 \<le> t"
  shows "no_bar (iso_z t)"
proof -
  obtain y m d where o1: "ord2ymd (t div (86400 * usec) + epoch_ordinal) = (y, m, d)" by (metis prod_cases3)
  have "0 \<le> t div (86400 * usec) + epoch_ordinal"
    using assms by (simp add: epoch_ordinal_def usec_def pos_imp_zdiv_nonneg_iff add_nonneg_nonneg)
  from ord2ymd_nonneg [OF this o1] have ymd: "0 \<le> y" "0 \<le> m" "0 \<le> d" by simp_all
  have bar: "\<not> is_digit (CHR ''|'')" by code_simp
  have nb: "CHR ''|'' \<notin> set (pad k i)" if "0 \<le> i" for k i using pad_digits [OF that] bar by blast
  have "0 \<le> t div usec mod 86400" "0 \<le> t mod usec" by (simp_all add: usec_def)
  then show ?thesis
    using nb ymd by (simp add: iso_z_def date_str_def o1 clock_str_def Let_def pos_imp_zdiv_nonneg_iff)
qed

text \<open>What the fingerprint covers of a record, and the records whose names hold no bar.\<close>

definition same_record :: "audit_record \<Rightarrow> audit_record \<Rightarrow> bool" where
  "same_record r q \<longleftrightarrow>
     au_seq r = au_seq q \<and> iso_z (au_ts r) = iso_z (au_ts q) \<and> au_tenant r = au_tenant q \<and> au_actor r = au_actor q
     \<and> au_actor_role r = au_actor_role q \<and> au_action r = au_action q
     \<and> canonical_json (PDict (au_target r)) = canonical_json (PDict (au_target q))
     \<and> canonical_json (PDict (au_before r)) = canonical_json (PDict (au_before q))
     \<and> canonical_json (PDict (au_after r)) = canonical_json (PDict (au_after q))
     \<and> au_prev_hash r = au_prev_hash q \<and> au_hash r = au_hash q"

definition plain_names :: "audit_record \<Rightarrow> bool" where
  "plain_names r \<longleftrightarrow>
     no_bar (au_tenant r) \<and> no_bar (au_actor r) \<and> no_bar (au_actor_role r) \<and> no_bar (au_action r) \<and> 0 \<le> au_ts r"

lemma payload_fields:
  assumes "record_payload r p = record_payload q p'" and "plain_names r" and "plain_names q"
    and "au_prev_hash r = p" and "au_prev_hash q = p'" and "au_hash r = digest (record_payload r p)"
    and "au_hash q = digest (record_payload q p')"
  shows "same_record r q"
proof -
  have bar: "no_bar (int_str i)" for i using int_str_plain [of i] by (auto simp: list_all_iff)
  note iso = iso_z_no_bar [of "au_ts r"] iso_z_no_bar [of "au_ts q"]
  have j: "join_with ''|'' (a # b # xs) = a @ CHR ''|'' # join_with ''|'' (b # xs)" for a b xs
    by (simp add: join_with_Cons)
  show ?thesis
    using assms bar iso
    unfolding record_payload_def fingerprint_payload_def j plain_names_def same_record_def
    by (auto dest!: plain_field_split json_field_split simp: int_str_inj simp del: canonical_json.simps)
qed

lemma payloads_records:
  assumes "chain.linked p rs" and "chain.linked p qs" and "chain.payloads p rs = chain.payloads p qs"
    and "list_all plain_names rs" and "list_all plain_names qs"
  shows "list_all2 same_record rs qs"
  using assms
proof (induction rs arbitrary: qs p)
  case (Cons r rs)
  then obtain q qs' where qs: "qs = q # qs'" by (cases qs) auto
  then have "same_record r q" using Cons.prems by (intro payload_fields [of r p q p]) auto
  moreover have "au_hash r = au_hash q" using Cons.prems qs by simp
  then have "list_all2 same_record rs qs'" using Cons.prems qs by (intro Cons.IH [of "au_hash r"]) auto
  ultimately show ?case using qs by simp
next
  case Nil
  then show ?case by (cases qs) auto
qed

subsection \<open>Properties\<close>

text \<open>
  C7: verification is exact.  On a journal sorted by sequence number it answers \<open>valid\<close> exactly when
  every record links to its predecessor and carries the fingerprint of its content, and when it
  answers \<open>invalid\<close> the record it names is the first that does not.
\<close>

theorem verify_exact:
  assumes "sorted_wrt (<) (map au_seq (st_audit s))"
  shows "(vr_valid (verify tid s) \<longleftrightarrow> chain.linked GENESIS_HASH (st_audit s))
    \<and> (\<forall>n. vr_broken_at (verify tid s) = Some n \<longleftrightarrow>
         (\<exists>rs r rs'. st_audit s = rs @ r # rs' \<and> au_seq r = n \<and> chain.linked GENESIS_HASH rs
            \<and> \<not> fst (verify_record r (chain.head GENESIS_HASH rs))))"
proof
  note iter = iter_audit_sorted [OF assms]
  let ?split = "\<lambda>n. \<exists>rs r rs'. st_audit s = rs @ r # rs' \<and> au_seq r = n \<and> chain.linked GENESIS_HASH rs
    \<and> \<not> fst (verify_record r (chain.head GENESIS_HASH rs))"
  show valid: "vr_valid (verify tid s) \<longleftrightarrow> chain.linked GENESIS_HASH (st_audit s)"
    by (simp add: verify_def iter verify_loop_linked)
  have hit: "vr_broken_at (verify tid s) = Some n" if "?split n" for n
    using that by (auto simp: verify_def iter verify_loop_broken)
  have "?split n" if "vr_broken_at (verify tid s) = Some n" for n
  proof -
    have "\<not> chain.linked GENESIS_HASH (st_audit s)"
      using that valid verify_loop_valid_None by (simp add: verify_def)
    then obtain m where "?split m" using not_linked_split by blast
    then show ?thesis using hit that by fastforce
  qed
  with hit show "\<forall>n. vr_broken_at (verify tid s) = Some n \<longleftrightarrow> ?split n" by blast
qed

lemma empty_linked: "audit_linked empty_store"
  by (simp add: audit_linked_def empty_store_def)

lemma empty_record_linked:
  "audit_linked (snd (record_audit t a b r [] [] [] [] 0 empty_store))"
  by (simp add: record_audit_def append_linked empty_linked)

theorem verify_exact_witness:
  "vr_valid (verify None (snd (record_audit ''t'' ''a'' ''b'' ''r'' [] [] [] [] 0 empty_store)))"
  using verify_exact [of "snd (record_audit ''t'' ''a'' ''b'' ''r'' [] [] [] [] 0 empty_store)" None]
    empty_record_linked [of "''t''" "''a''" "''b''" "''r''"]
  by (simp add: audit_linked_def)

text \<open>
  C8: the journal the code writes verifies, on one condition.  Recording an entry whose target, before and
  after documents hold no raw instant keeps the chain intact, whatever the tenant and the context, and
  verification then succeeds with one more record.  An entry that does hold one breaks the chain
  (\<open>raw_instant_breaks_record\<close>).
\<close>

theorem record_keeps_chain:
  assumes "audit_linked s" and "json_safe target" and "json_safe before" and "json_safe after"
  shows "let s' = snd (record_audit tenant who what role target before after context ts s)
    in audit_linked s' \<and> vr_valid (verify None s')
       \<and> vr_records (verify None s') = vr_records (verify None s) + 1"
proof -
  let ?s = "snd (record_audit tenant who what role target before after context ts s)"
  have ok: "audit_linked ?s"
    unfolding record_audit_def by (rule append_linked [OF assms])
  have count: "vr_records (verify_loop None p i j rs) = j + int (length rs)" if "chain.linked p rs" for p i j rs
    using that verify_record_iff
    by (induction rs arbitrary: p i j) (auto simp: Let_def split_beta opt_truthy_def)
  have "length (st_audit ?s) = Suc (length (st_audit s))"
    by (simp add: record_audit_def append_audit_def Let_def)
  then show ?thesis
    using ok audit_linkedD [OF ok] audit_linkedD [OF assms(1)]
    by (simp add: verify_def iter_audit_sorted verify_loop_linked count)
qed

theorem record_keeps_chain_witness:
  "vr_valid (verify None (snd (record_audit ''t'' ''a'' ''b'' ''r'' [(''k'', PInt 1)] [] [] [] 5 empty_store)))"
  using record_keeps_chain [OF empty_linked, of "[(''k'', PInt 1)]" "[]" "[]" "''t''" "''a''" "''b''" "''r''" "[]" 5]
  by (simp add: Let_def)

text \<open>
  C9: tampering is evident.  If a journal has been replaced by another that still verifies and ends on
  the same hash, then it has as many records and each has kept its sequence number, its instant as
  written, its tenant, actor, role and action, its target, before and after documents as serialised, and
  its two hashes; or else the two journals exhibit two different texts with the same SHA-256 digest.  The
  names (tenant, actor, role, action) of both journals hold no bar and the instants are since 1970: the bar
  separates the fields of the fingerprinted text and is not escaped, so that text moved across it goes
  unseen (\<open>fingerprint_field_shift\<close>).  The context of a record is not fingerprinted.
\<close>

theorem audit_tamper_evident:
  assumes "sorted_wrt (<) (map au_seq (st_audit s))" and "sorted_wrt (<) (map au_seq (st_audit s'))"
    and "vr_valid (verify None s)" and "vr_valid (verify None s')"
    and "last_hash s = last_hash s'"
    and "list_all plain_names (st_audit s)" and "list_all plain_names (st_audit s')"
  shows "list_all2 same_record (st_audit s) (st_audit s') \<or> (\<exists>x y. x \<noteq> y \<and> sha256_hex x = sha256_hex y
      \<and> x \<in> set (chain.payloads GENESIS_HASH (st_audit s)) \<and> y \<in> set (chain.payloads GENESIS_HASH (st_audit s')))"
proof -
  have linked: "chain.linked GENESIS_HASH (st_audit s)" "chain.linked GENESIS_HASH (st_audit s')"
    using assms(3,4) by (simp_all add: verify_def verify_loop_linked iter_audit_sorted assms(1,2))
  have "chain.payloads GENESIS_HASH (st_audit s) = chain.payloads GENESIS_HASH (st_audit s')
      \<or> chain.collision (chain.payloads GENESIS_HASH (st_audit s)) (chain.payloads GENESIS_HASH (st_audit s'))"
    using chain.head_commits [OF linked] assms(5) last_hash_head [OF assms(1)] last_hash_head [OF assms(2)] by simp
  then show ?thesis
    using payloads_records [OF linked _ assms(6,7)] by (auto simp: chain.collision_def)
qed

text \<open>
  An entry of the journal, and the same with another context: both verify and end on the same hash, as the
  context is not fingerprinted; what the fingerprint covers is the same.
\<close>

definition noted_from :: "string \<Rightarrow> store" where
  "noted_from ip = snd (record_audit ''acme'' ''ann'' ''key.revoke'' ''admin'' [(''id'', PStr ''k|1'')] [] [(''n'', PInt 1)]
     [(''ip'', PStr ip)] 0 empty_store)"

lemma noted_linked: "audit_linked (noted_from ip)"
  by (simp add: noted_from_def record_audit_def append_linked empty_linked)

lemma noted_journal:
  "st_audit (noted_from ip) = [(audit_row (new_audit ''acme'' ''ann'' ''admin'' ''key.revoke'' [(''id'', PStr ''k|1'')] []
     [(''n'', PInt 1)] [] 0 empty_store))\<lparr>au_context := [(''ip'', PStr ip)]\<rparr>]"
  by (simp add: noted_from_def record_audit_def append_audit_def Let_def empty_store_def new_audit_def audit_row_def json_column_def)

lemma noted_plain: "list_all plain_names (st_audit (noted_from ip))"
  by (simp add: noted_journal plain_names_def new_audit_def audit_row_def Let_def empty_store_def to_millis_def)

theorem audit_tamper_evident_witness:
  "st_audit (noted_from ''10.0.0.1'') \<noteq> st_audit (noted_from ''10.9.9.9'')
   \<and> (list_all2 same_record (st_audit (noted_from ''10.0.0.1'')) (st_audit (noted_from ''10.9.9.9''))
      \<or> (\<exists>x y. x \<noteq> y \<and> sha256_hex x = sha256_hex y
           \<and> x \<in> set (chain.payloads GENESIS_HASH (st_audit (noted_from ''10.0.0.1'')))
           \<and> y \<in> set (chain.payloads GENESIS_HASH (st_audit (noted_from ''10.9.9.9'')))))"
proof
  show "st_audit (noted_from ''10.0.0.1'') \<noteq> st_audit (noted_from ''10.9.9.9'')"
    by (auto simp: noted_journal dest: arg_cong [where f = au_context])
  have valid: "vr_valid (verify None (noted_from ip))" for ip
    using audit_linkedD [OF noted_linked] by (simp add: verify_def iter_audit_sorted verify_loop_linked)
  have last: "last_hash (noted_from ''10.0.0.1'') = last_hash (noted_from ''10.9.9.9'')"
    by (simp add: last_hash_def noted_journal)
  show "list_all2 same_record (st_audit (noted_from ''10.0.0.1'')) (st_audit (noted_from ''10.9.9.9''))
      \<or> (\<exists>x y. x \<noteq> y \<and> sha256_hex x = sha256_hex y
           \<and> x \<in> set (chain.payloads GENESIS_HASH (st_audit (noted_from ''10.0.0.1'')))
           \<and> y \<in> set (chain.payloads GENESIS_HASH (st_audit (noted_from ''10.9.9.9''))))"
    by (rule audit_tamper_evident [OF audit_linkedD(1) [OF noted_linked] audit_linkedD(1) [OF noted_linked] valid valid last
        noted_plain noted_plain])
qed

text \<open>
  The end of the journal is not protected.  Deleting the most recent records, any number of them,
  leaves a journal that verifies.
\<close>

theorem tail_truncation_undetected:
  assumes "audit_linked s"
  shows "vr_valid (verify None (s\<lparr>st_audit := take n (st_audit s)\<rparr>))"
proof -
  have "sorted_wrt (<) (map au_seq (take n (st_audit s)))"
    using audit_linkedD(1) [OF assms] by (metis append_take_drop_id map_append sorted_wrt_append)
  then show ?thesis
    using chain.linked_take [OF audit_linkedD(2) [OF assms]]
    by (simp add: verify_def iter_audit_sorted verify_loop_linked)
qed

theorem tail_truncation_undetected_witness:
  "vr_valid (verify None ((snd (record_audit ''t'' ''a'' ''b'' ''r'' [] [] [] [] 0 empty_store))
     \<lparr>st_audit := take 0 (st_audit (snd (record_audit ''t'' ''a'' ''b'' ''r'' [] [] [] [] 0 empty_store)))\<rparr>))"
  by (rule tail_truncation_undetected [OF empty_record_linked])

text \<open>
  Retention breaks the chain.  When the purge removes the oldest records and keeps later ones,
  verification of the remaining journal fails, at the first record it kept.
\<close>

theorem purge_breaks_chain:
  assumes "audit_linked s" and "st_audit s = old @ r # kept" and "old \<noteq> []"
    and "audit_retention < 3650"
    and "\<forall>q \<in> set old. au_ts q < to_millis (now - days audit_retention)"
    and "\<forall>q \<in> set (r # kept). to_millis (now - days audit_retention) \<le> au_ts q"
  shows "\<not> vr_valid (verify None (snd (purge retention audit_retention now s)))
    \<and> vr_broken_at (verify None (snd (purge retention audit_retention now s))) = Some (au_seq r)"
proof -
  let ?s = "snd (purge retention audit_retention now s)"
  have rows: "st_audit ?s = r # kept"
    using assms(2,4-6) by (auto simp: purge_def Let_def filter_empty_conv filter_id_conv not_less)
  have sorted: "sorted_wrt (<) (map au_seq (r # kept))"
    using audit_linkedD(1) [OF assms(1)] assms(2) by (simp add: sorted_wrt_append)
  have "au_prev_hash r = chain.head GENESIS_HASH old" "chain.linked GENESIS_HASH old"
    using audit_linkedD(2) [OF assms(1)] assms(2) by auto
  then have "\<not> fst (verify_record r GENESIS_HASH)"
    using chain.head_not_genesis assms(3) by (auto simp: verify_record_iff)
  then show ?thesis
    using sorted verify_loop_broken [of GENESIS_HASH "[]" r None 0 0 kept]
      verify_loop_valid_None [of None GENESIS_HASH 0 0 "r # kept"]
    by (simp add: verify_def iter_audit_sorted rows)
qed

text \<open>Two records, a year and a day apart, purged with the default retention of the journal.\<close>

definition two_records :: store where
  "two_records = snd (record_audit ''t'' ''a'' ''b'' ''r'' [] [] [] [] (days 366)
     (snd (record_audit ''t'' ''a'' ''b'' ''r'' [] [] [] [] 0 empty_store)))"

lemma two_records_linked: "audit_linked two_records"
  unfolding two_records_def record_audit_def
  by (intro append_linked empty_linked) simp_all

theorem purge_breaks_chain_witness:
  "\<not> vr_valid (verify None (snd (purge 30 365 (days 366) two_records)))
   \<and> vr_broken_at (verify None (snd (purge 30 365 (days 366) two_records))) = Some 2"
proof -
  let ?s = "snd (record_audit ''t'' ''a'' ''b'' ''r'' [] [] [] [] 0 empty_store)"
  let ?q = "audit_row (new_audit ''t'' ''a'' ''r'' ''b'' [] [] [] [] 0 empty_store)"
  let ?r = "audit_row (new_audit ''t'' ''a'' ''r'' ''b'' [] [] [] [] (days 366) ?s)"
  have rows: "st_audit two_records = [?q] @ ?r # []"
    by (simp add: two_records_def record_audit_def append_audit_def Let_def empty_store_def)
  have seq: "au_seq ?r = 2" and ts: "au_ts ?q = 0" "au_ts ?r = to_millis (days 366)"
    by (simp_all add: audit_row_def new_audit_def Let_def record_audit_def append_audit_def
        empty_store_def to_millis_def)
  have "au_ts ?q < to_millis (days 366 - days 365)" "to_millis (days 366 - days 365) \<le> au_ts ?r"
    unfolding ts by (simp_all add: days_def usec_def to_millis_def)
  then show ?thesis
    using purge_breaks_chain [OF two_records_linked rows, where audit_retention = 365
        and now = "days 366" and retention = 30] seq
    by simp
qed

lemma instant_texts:
  "canonical_json (PDict [(''at'', PTime t)]) \<noteq> canonical_json (PDict [(''at'', PStr (datetime_str t))])"
proof -
  have iso: "\<exists>a. iso_z t = a @ ''Z''" by (simp add: iso_z_def)
  have dt: "\<exists>b. datetime_str t = b @ ''0''"
    unfolding datetime_str_def by (rule exI [of _ "_ @ ''+00:0''"]) simp
  have "esc_char (CHR ''Z'') = ''Z''" "esc_char (CHR ''0'') = ''0''" by code_simp+
  then have "json_str (iso_z t) \<noteq> json_str (datetime_str t)"
    using iso dt by (auto simp: json_str_def)
  then show ?thesis by simp
qed

text \<open>
  An instant left in a document breaks the record that carries it.  The fingerprint is computed from
  the ISO text of the instant, the column holds another text of it, so the stored record verifies
  only if the two payloads collide under SHA-256.
\<close>

theorem raw_instant_breaks_record:
  assumes "audit_linked s"
  shows "let r = new_audit tenant who role what [] [] [(''at'', PTime t)] context ts s;
      s' = snd (record_audit tenant who what role [] [] [(''at'', PTime t)] context ts s);
      written = record_payload r (last_hash s); read = record_payload (audit_row r) (last_hash s)
    in written \<noteq> read \<and> (vr_valid (verify None s') \<longleftrightarrow> sha256_hex written = sha256_hex read)"
proof -
  let ?n = "new_audit tenant who role what [] [] [(''at'', PTime t)] context ts s"
  let ?s = "snd (record_audit tenant who what role [] [] [(''at'', PTime t)] context ts s)"
  have head: "chain.head GENESIS_HASH (st_audit s) = last_hash s"
    using last_hash_head [OF audit_linkedD(1) [OF assms]] by simp
  have rows: "st_audit ?s = st_audit s @ [audit_row ?n]"
    by (simp add: record_audit_def append_audit_def Let_def)
  have "sorted_wrt (<) (map au_seq (st_audit ?s))"
    using assms unfolding rows
    by (auto simp: audit_linked_def sorted_wrt_append audit_row_def new_audit_def Let_def list_all_iff)
  then have "vr_valid (verify None ?s) \<longleftrightarrow> chain.linked GENESIS_HASH (st_audit s @ [audit_row ?n])"
    using rows by (simp add: verify_def iter_audit_sorted verify_loop_linked)
  also have "\<dots> \<longleftrightarrow> au_hash ?n = digest (record_payload (audit_row ?n) (last_hash s))"
    using audit_linkedD(2) [OF assms] by (simp add: head audit_row_def new_audit_def Let_def)
  also have "au_hash ?n = digest (record_payload ?n (last_hash s))"
    by (simp add: new_audit_def Let_def record_payload_def record_fingerprint_def)
  finally have valid: "vr_valid (verify None ?s) \<longleftrightarrow>
      sha256_hex (record_payload ?n (last_hash s)) = sha256_hex (record_payload (audit_row ?n) (last_hash s))"
    by simp
  have "record_payload ?n (last_hash s) \<noteq> record_payload (audit_row ?n) (last_hash s)"
    using instant_texts [of t]
    by (simp add: record_payload_def fingerprint_payload_def audit_row_def new_audit_def Let_def
        json_column_def)
  with valid show ?thesis by (simp add: Let_def)
qed

theorem raw_instant_breaks_record_witness:
  "let r = new_audit ''t'' ''a'' ''r'' ''b'' [] [] [(''at'', PTime 0)] [] 0 empty_store;
      s' = snd (record_audit ''t'' ''a'' ''b'' ''r'' [] [] [(''at'', PTime 0)] [] 0 empty_store);
      written = record_payload r (last_hash empty_store);
      read = record_payload (audit_row r) (last_hash empty_store)
   in written \<noteq> read \<and> (vr_valid (verify None s') \<longleftrightarrow> sha256_hex written = sha256_hex read)"
  by (rule raw_instant_breaks_record [OF empty_linked])

text \<open>
  An export never holds more than 500 records: the page size of the store caps it, although its own
  limit, and its default, is 10000.
\<close>

theorem export_capped:
  "length (export tid fmt limit since until s) \<le> 500"
proof -
  have "length (fst (list_audit tid None None since until l None s)) \<le> nat (clamp_limit l)" for l
    by (auto simp: list_audit_def Let_def)
  moreover have "nat (clamp_limit l) \<le> 500" for l
    by (simp add: clamp_limit_def MAX_PAGE_SIZE_def)
  ultimately show ?thesis
    unfolding export_def by (simp del: One_nat_def) (meson order_trans)
qed

end
