(* ===== verification/Util.thy ===== *)
theory Util
  imports Models Json Sha256
begin

section \<open>Shared utilities\<close>

text \<open>
  The part of \<open>core/util.py\<close> the components above the store call: dotted paths into nested
  dictionaries and lists, host normalisation, tolerant number parsing, short digests, HTML escaping
  and list helpers.  Attributes of scalars a dotted path may reach are those that hold data
  (\<open>ts.year\<close>, \<open>count.real\<close>); bound methods of the interpreter's types are not values of the model.
\<close>

subsection \<open>Paths into nested structures\<close>

fun scalar_attr :: "pyval \<Rightarrow> string \<Rightarrow> pyval option" where
  "scalar_attr (PInt i) a =
     map_of [(''real'', PInt i), (''imag'', PInt 0), (''numerator'', PInt i), (''denominator'', PInt 1)] a"
| "scalar_attr (PBool b) a =
     (let i = (if b then 1 else 0)
      in map_of [(''real'', PInt i), (''imag'', PInt 0), (''numerator'', PInt i),
                 (''denominator'', PInt 1)] a)"
| "scalar_attr (PFloat x) a = map_of [(''real'', PFloat x), (''imag'', PFloat 0)] a"
| "scalar_attr (PTime t) a =
     (case ord2ymd (t div (86400 * usec) + epoch_ordinal) of
        (y, m, d) \<Rightarrow>
          let s = t div usec mod 86400
          in map_of [(''year'', PInt y), (''month'', PInt m), (''day'', PInt d),
               (''hour'', PInt (s div 3600)), (''minute'', PInt (s div 60 mod 60)),
               (''second'', PInt (s mod 60)), (''microsecond'', PInt (t mod usec)),
               (''fold'', PInt 0)] a)"
| "scalar_attr _ a = None"

text \<open>One segment of a path; \<^const>\<open>None\<close> stands for every way a segment can be missing.\<close>

fun path_step :: "pyval \<Rightarrow> string \<Rightarrow> pyval option" where
  "path_step PNone seg = None"
| "path_step (PDict d) seg = map_of d seg"
| "path_step (PList xs) seg =
     (if seg = [] \<or> \<not> list_all is_digit seg then None
      else let i = digits_val seg in if int (length xs) \<le> i then None else Some (xs ! nat i))"
| "path_step v seg = scalar_attr v seg"

fun path_walk :: "pyval \<Rightarrow> string list \<Rightarrow> pyval option" where
  "path_walk v [] = Some v"
| "path_walk v (seg # segs) =
     (case path_step v seg of None \<Rightarrow> None | Some w \<Rightarrow> path_walk w segs)"

definition deep_get :: "pyval \<Rightarrow> string \<Rightarrow> pyval" where
  "deep_get v path =
     (if path = [] then v
      else case path_walk v (split_on (CHR ''.'') path) of None \<Rightarrow> PNone | Some w \<Rightarrow> w)"

fun path_set :: "dict \<Rightarrow> string list \<Rightarrow> pyval \<Rightarrow> dict" where
  "path_set d [] v = d"
| "path_set d [seg] v = dict_set seg v d"
| "path_set d (seg # segs) v =
     dict_set seg (PDict (path_set (case map_of d seg of Some (PDict e) \<Rightarrow> e | _ \<Rightarrow> []) segs v)) d"

definition deep_set :: "dict \<Rightarrow> string \<Rightarrow> pyval \<Rightarrow> dict" where
  "deep_set d path v = path_set d (split_on (CHR ''.'') path) v"

text \<open>
  \<open>flatten\<close>: nested dictionaries become dotted keys, down to \<open>max_depth\<close> levels; \<open>out.update\<close> keeps
  the first position and the last value of a repeated path.
\<close>

fun flatten_into :: "nat \<Rightarrow> string \<Rightarrow> dict \<Rightarrow> dict \<Rightarrow> dict" where
  "flatten_into n pre [] acc = acc"
| "flatten_into n pre ((k, v) # rest) acc =
     (let path = (if pre = [] then k else pre @ ''.'' @ k)
      in flatten_into n pre rest
           (case (v, n) of
              (PDict d, Suc m) \<Rightarrow>
                fold (\<lambda>(p, w). dict_set p w) (flatten_into m path d []) acc
            | _ \<Rightarrow> dict_set path v acc))"

definition flatten :: "dict \<Rightarrow> dict" where
  "flatten d = flatten_into 4 [] d []"

text \<open>What is written at a path is what the path reads, and other first segments are untouched.\<close>

lemma path_walk_set:
  "segs \<noteq> [] \<Longrightarrow> path_walk (PDict (path_set d segs v)) segs = Some v"
  by (induction d segs v rule: path_set.induct) (auto simp: update_conv')

lemma deep_get_deep_set: "path \<noteq> [] \<Longrightarrow> deep_get (PDict (deep_set d path v)) path = v"
  by (simp add: deep_get_def deep_set_def path_walk_set)

lemma path_set_other: "hd segs \<noteq> k \<Longrightarrow> map_of (path_set d segs v) k = map_of d k"
  by (induction d segs v rule: path_set.induct) (auto simp: update_conv')

subsection \<open>Hosts\<close>

definition scheme_char :: "char \<Rightarrow> bool" where
  "scheme_char c \<longleftrightarrow> is_lower c \<or> is_digit c \<or> c \<in> {CHR ''+'', CHR ''.'', CHR ''-''}"

definition drop_scheme :: "string \<Rightarrow> string" where
  "drop_scheme s =
     (let rest = dropWhile scheme_char s
      in if s \<noteq> [] \<and> is_lower (hd s) \<and> take 3 rest = ''://'' then drop 3 rest else s)"

definition normalize_host :: "string \<Rightarrow> string" where
  "normalize_host v =
     (let t = drop_scheme (str_lower (str_strip v));
          t = fst (split_first (CHR ''/'') t);
          t = last (split_on (CHR ''@'') t)
      in if take 1 t = ''['' then dropWhile (\<lambda>c. c = CHR ''['') (hd (split_on (CHR '']'') t))
         else if length (filter (\<lambda>c. c = CHR '':'') t) = 1 then fst (split_first (CHR '':'') t)
         else t)"

subsection \<open>Digests\<close>

definition stable_hash :: "pyval \<Rightarrow> string" where
  "stable_hash v = take 32 (sha256_hex (canonical_json v))"

definition short_id :: "string \<Rightarrow> string" where
  "short_id v = take 12 v"

text \<open>Two dictionaries with the same entries have the same digest, whatever their order.\<close>

lemma stable_hash_order:
  "distinct (map fst d) \<Longrightarrow> distinct (map fst d') \<Longrightarrow> set d = set d' \<Longrightarrow>
     stable_hash (PDict d) = stable_hash (PDict d')"
  using canonical_json_order [of d d'] by (simp only: stable_hash_def)

subsection \<open>Numbers\<close>

text \<open>
  The text of a number as \<open>int\<close> and \<open>float\<close> read it: surrounding space, a sign, digits that single
  underscores may group, and for \<open>float\<close> a fraction and an exponent.  The spellings of infinities and
  of not-a-number, which no rational represents, are refused like any other text.
\<close>

fun group_ok :: "bool \<Rightarrow> string \<Rightarrow> bool" where
  "group_ok after_digit [] = after_digit"
| "group_ok after_digit (c # cs) =
     (if is_digit c then group_ok True cs
      else if c = CHR ''_'' \<and> after_digit then cs \<noteq> [] \<and> group_ok False cs
      else False)"

definition digit_group :: "string \<Rightarrow> int option" where
  "digit_group s = (if group_ok False s then Some (digits_val (filter is_digit s)) else None)"

definition split_sign :: "string \<Rightarrow> int \<times> string" where
  "split_sign s =
     (if take 1 s = ''-'' then (-1, drop 1 s)
      else if take 1 s = ''+'' then (1, drop 1 s) else (1, s))"

definition parse_int :: "string \<Rightarrow> int option" where
  "parse_int s =
     (case split_sign (str_strip s) of
        (sg, t) \<Rightarrow> map_option (\<lambda>n. sg * n) (digit_group t))"

definition fraction_value :: "string \<Rightarrow> rat option" where
  "fraction_value s =
     (case digit_group s of
        None \<Rightarrow> None
      | Some n \<Rightarrow> Some (of_int n / 10 ^ length (filter is_digit s)))"

definition mantissa :: "string \<Rightarrow> rat option" where
  "mantissa s =
     (case split_first (CHR ''.'') s of
        (a, None) \<Rightarrow> map_option of_int (digit_group a)
      | (a, Some b) \<Rightarrow>
          if a = [] then fraction_value b
          else if b = [] then map_option of_int (digit_group a)
          else case (digit_group a, fraction_value b) of
                 (Some n, Some f) \<Rightarrow> Some (of_int n + f)
               | _ \<Rightarrow> None)"

definition scale10 :: "rat \<Rightarrow> int \<Rightarrow> rat" where
  "scale10 m e = (if 0 \<le> e then m * 10 ^ nat e else m / 10 ^ nat (- e))"

definition parse_float :: "string \<Rightarrow> rat option" where
  "parse_float s =
     (case split_sign (str_strip s) of
        (sg, t) \<Rightarrow>
          (case split_first (CHR ''e'') (str_lower t) of
             (m, None) \<Rightarrow> map_option (\<lambda>v. of_int sg * v) (mantissa m)
           | (m, Some e) \<Rightarrow>
               (case (mantissa m, split_sign e) of
                  (Some v, (es, ed)) \<Rightarrow>
                    map_option (\<lambda>n. of_int sg * scale10 v (es * n)) (digit_group ed)
                | _ \<Rightarrow> None)))"

definition trunc_rat :: "rat \<Rightarrow> int" where
  "trunc_rat x = (if x < 0 then \<lceil>x\<rceil> else \<lfloor>x\<rfloor>)"

text \<open>\<open>int(v)\<close> and \<open>float(v)\<close>; \<^const>\<open>None\<close> is a \<open>TypeError\<close> or a \<open>ValueError\<close>.\<close>

fun py_int :: "pyval \<Rightarrow> int option" where
  "py_int (PBool b) = Some (if b then 1 else 0)"
| "py_int (PInt i) = Some i"
| "py_int (PFloat x) = Some (trunc_rat x)"
| "py_int (PStr s) = parse_int s"
| "py_int _ = None"

fun py_float :: "pyval \<Rightarrow> rat option" where
  "py_float (PStr s) = parse_float s"
| "py_float v = num_of v"

definition safe_int :: "pyval \<Rightarrow> int \<Rightarrow> int" where
  "safe_int v d = (case py_int v of None \<Rightarrow> d | Some i \<Rightarrow> i)"

definition safe_float :: "pyval \<Rightarrow> rat \<Rightarrow> rat" where
  "safe_float v d = (case py_float v of None \<Rightarrow> d | Some x \<Rightarrow> x)"

text \<open>\<open>int(str(i)) == i\<close>.\<close>

lemma group_ok_digits: "s \<noteq> [] \<Longrightarrow> list_all is_digit s \<Longrightarrow> group_ok b s"
  by (induction s arbitrary: b) (auto, metis group_ok.simps(1) list.exhaust)

lemma strip_with_none: "list_all (\<lambda>c. \<not> p c) s \<Longrightarrow> strip_with p s = s"
proof -
  have dw: "list_all (\<lambda>c. \<not> p c) t \<Longrightarrow> dropWhile p t = t" for t by (cases t) auto
  assume "list_all (\<lambda>c. \<not> p c) s"
  then show ?thesis by (simp add: strip_with_def dw list_all_iff)
qed

lemma digit_not_space: "is_digit c \<Longrightarrow> \<not> is_space c"
  by (simp add: is_digit_def is_space_def)

lemma dec_str_all: "0 \<le> n \<Longrightarrow> list_all is_digit (dec_str n)"
  by (simp add: list_all_iff dec_str_digits)

lemma digit_group_dec_str: "0 \<le> n \<Longrightarrow> digit_group (dec_str n) = Some n"
  using dec_str_all [of n]
  by (simp add: digit_group_def group_ok_digits digits_val_dec_str list_all_iff filter_id_conv)

lemma split_sign_digits:
  assumes "list_all is_digit s" shows "split_sign s = (1, s)"
proof (cases s)
  case (Cons c cs)
  with assms have "is_digit c" by simp
  then have "c \<noteq> CHR ''-'' \<and> c \<noteq> CHR ''+''" by (auto simp: is_digit_def code_def)
  then show ?thesis by (simp add: split_sign_def Cons)
qed (simp add: split_sign_def)

lemma parse_int_int_str: "parse_int (int_str i) = Some i"
proof -
  have "\<not> is_space (CHR ''-'')" by (simp add: is_space_def code_def)
  then have "list_all (\<lambda>c. \<not> is_space c) (int_str i)"
    by (auto simp: list_all_iff dest!: int_str_chars dest: digit_not_space)
  then have "str_strip (int_str i) = int_str i"
    unfolding str_strip_def by (rule strip_with_none)
  then show ?thesis
    using dec_str_all [of i] dec_str_all [of "- i"]
    by (simp add: parse_int_def int_str_def split_sign_digits digit_group_dec_str)
       (simp add: split_sign_def digit_group_dec_str)
qed

subsection \<open>Durations, text and lists\<close>

definition humanize_duration :: "rat option \<Rightarrow> string" where
  "humanize_duration v =
     (case v of
        None \<Rightarrow> ''n/a''
      | Some x \<Rightarrow>
          let s = trunc_rat x
          in if s < 0 then ''expire''
             else if s < 60 then int_str s @ ''s''
             else
               let minutes = s div 60; sec = s mod 60
               in if minutes < 60
                    then int_str minutes @ ''m'' @ (if sec \<noteq> 0 then '' '' @ int_str sec @ ''s'' else [])
                  else
                    let hours = minutes div 60; minutes = minutes mod 60
                    in if hours < 24
                         then int_str hours @ ''h''
                                @ (if minutes \<noteq> 0 then '' '' @ int_str minutes @ ''m'' else [])
                       else int_str (hours div 24) @ ''j''
                              @ (if hours mod 24 \<noteq> 0 then '' '' @ int_str (hours mod 24) @ ''h'' else []))"

text \<open>Five successive replacements; the ampersand goes first, so that no escape is escaped again.\<close>

definition strip_html :: "string \<Rightarrow> string" where
  "strip_html s =
     replace_char (CHR 0x27) ''&#x27;'' (replace_char (CHR 0x22) ''&quot;''
       (replace_char (CHR ''>'') ''&gt;'' (replace_char (CHR ''<'') ''&lt;''
         (replace_char (CHR ''&'') ''&amp;'' s))))"

definition html_char :: "char \<Rightarrow> string" where
  "html_char c =
     (if c = CHR ''&'' then ''&amp;'' else if c = CHR ''<'' then ''&lt;''
      else if c = CHR ''>'' then ''&gt;'' else if c = CHR 0x22 then ''&quot;''
      else if c = CHR 0x27 then ''&#x27;'' else [c])"

lemma strip_html_pointwise: "strip_html s = concat (map html_char s)"
proof (induction s)
  case (Cons c s)
  have "strip_html (c # s) = strip_html [c] @ strip_html s"
    by (simp add: strip_html_def replace_char_append)
  moreover have "strip_html [c] = html_char c" by (simp add: strip_html_def html_char_def)
  ultimately show ?case using Cons by simp
qed (simp add: strip_html_def)

text \<open>\<open>chunked\<close>; a step of 0 is the \<open>ValueError\<close> of \<open>range\<close>.\<close>

function chunks_of :: "'a list \<Rightarrow> nat \<Rightarrow> 'a list list" where
  "chunks_of xs n = (if xs = [] \<or> n = 0 then [] else take n xs # chunks_of (drop n xs) n)"
  by pat_completeness auto
termination by (relation "measure (length \<circ> fst)") (auto simp: comp_def)

declare chunks_of.simps [simp del]

definition chunked :: "'a list \<Rightarrow> nat \<Rightarrow> exn + 'a list list" where
  "chunked xs n =
     (if n = 0 then Inl (Foreign ''ValueError'' ''range() arg 3 must not be zero'')
      else Inr (chunks_of xs n))"

text \<open>
  \<open>dedupe\<close>: a scalar is its own key, anything else is keyed by its canonical JSON; keys are compared
  the way a Python set compares them.
\<close>

fun dedupe_key :: "pyval \<Rightarrow> pyval" where
  "dedupe_key (PList xs) = PStr (canonical_json (PList xs))"
| "dedupe_key (PDict d) = PStr (canonical_json (PDict d))"
| "dedupe_key (PTime t) = PStr (canonical_json (PTime t))"
| "dedupe_key v = v"

fun dedupe_from :: "pyval list \<Rightarrow> pyval list \<Rightarrow> pyval list" where
  "dedupe_from seen [] = []"
| "dedupe_from seen (x # xs) =
     (let k = dedupe_key x
      in if list_ex (py_eq k) seen then dedupe_from seen xs
         else x # dedupe_from (k # seen) xs)"

definition dedupe :: "pyval list \<Rightarrow> pyval list" where
  "dedupe xs = dedupe_from [] xs"

text \<open>Escaped text holds no markup character: rendering it inside an element or a quoted attribute
  cannot open a tag or close the attribute.  Chunking loses nothing, and no chunk exceeds its size.\<close>

lemma strip_html_inert:
  "set (strip_html s) \<inter> {CHR ''<'', CHR ''>'', CHR 0x22, CHR 0x27} = {}"
  by (auto simp: strip_html_pointwise html_char_def split: if_splits)

lemma chunks_of_correct:
  "0 < n \<Longrightarrow> concat (chunks_of xs n) = xs \<and> (\<forall>c \<in> set (chunks_of xs n). c \<noteq> [] \<and> length c \<le> n)"
proof (induction xs n rule: chunks_of.induct)
  case (1 xs n)
  then show ?case by (subst (1 2) chunks_of.simps) auto
qed

subsection \<open>Iteration over untyped values\<close>

text \<open>The sequencing of fallible conversions, and what \<open>for x in v\<close> does to an untyped value.\<close>

fun traverse :: "('a \<Rightarrow> 'e + 'b) \<Rightarrow> 'a list \<Rightarrow> 'e + 'b list" where
  "traverse f [] = Inr []"
| "traverse f (x # xs) =
     (case f x of
        Inl e \<Rightarrow> Inl e
      | Inr y \<Rightarrow> (case traverse f xs of Inl e \<Rightarrow> Inl e | Inr ys \<Rightarrow> Inr (y # ys)))"

fun type_name :: "pyval \<Rightarrow> string" where
  "type_name PNone = ''NoneType''"
| "type_name (PBool _) = ''bool''"
| "type_name (PInt _) = ''int''"
| "type_name (PFloat _) = ''float''"
| "type_name (PStr _) = ''str''"
| "type_name (PTime _) = ''datetime.datetime''"
| "type_name (PList _) = ''list''"
| "type_name (PDict _) = ''dict''"

fun py_iter :: "pyval \<Rightarrow> exn + pyval list" where
  "py_iter (PList xs) = Inr xs"
| "py_iter (PStr s) = Inr (map (\<lambda>c. PStr [c]) s)"
| "py_iter (PDict d) = Inr (map (PStr \<circ> fst) d)"
| "py_iter v = Inl (Foreign ''TypeError'' ([CHR 0x27] @ type_name v @ [CHR 0x27] @ '' object is not iterable''))"

text \<open>\<open>v or []\<close>, then iterated.\<close>

definition iter_or_empty :: "pyval \<Rightarrow> exn + pyval list" where
  "iter_or_empty v = (if truthy v then py_iter v else Inr [])"

definition float_of :: "pyval \<Rightarrow> exn + rat" where
  "float_of v =
     (case py_float v of
        Some x \<Rightarrow> Inr x
      | None \<Rightarrow>
          (case v of
             PStr s \<Rightarrow> Inl (Foreign ''ValueError'' (''could not convert string to float: '' @ repr_str s))
           | _ \<Rightarrow> Inl (Foreign ''TypeError''
                 (''float() argument must be a string or a real number, not '' @ repr_str (type_name v)))))"

lemma traverse_Inr_iff:
  "traverse f xs = Inr ys \<longleftrightarrow> list_all2 (\<lambda>x y. f x = Inr y) xs ys"
proof (induction xs arbitrary: ys)
  case (Cons x xs)
  have "traverse f (x # xs) = Inr ys \<longleftrightarrow>
      (\<exists>y zs. ys = y # zs \<and> f x = Inr y \<and> traverse f xs = Inr zs)"
    by (auto split: sum.splits)
  then show ?case by (simp add: Cons list_all2_Cons1 conj_commute)
qed auto

lemma traverse_error: "traverse f xs = Inl e \<Longrightarrow> \<exists>x \<in> set xs. f x = Inl e"
  by (induction xs) (auto split: sum.splits)

end
