(* ===== verification/Scope.thy ===== *)
theory Scope
  imports Util
begin

section \<open>Declared scope\<close>

text \<open>
  \<open>scope.py\<close>: the assets and ranges a tenant declares, the loader that reads them from the parsed
  \<open>config/targets.yaml\<close>, and the verdict on whether an action stays inside them.  The YAML parser is
  outside the model: the loader starts from the document it returns.  Log lines are not modelled.
\<close>

definition INBOUND_MITIGATION_PLAYBOOKS :: "string list" where
  "INBOUND_MITIGATION_PLAYBOOKS =
     [''block-source-ip'', ''rate-limit-source'', ''unblock-source-ip'', ''remove-rate-limit'']"

definition INFRASTRUCTURE_PLAYBOOKS :: "string list" where
  "INFRASTRUCTURE_PLAYBOOKS =
     [''isolate-host'', ''unisolate-host'', ''quarantine-artifact'', ''restore-artifact'',
      ''patch-dependency'', ''rotate-secret'', ''revoke-session'', ''harden-endpoint'']"

subsection \<open>Data\<close>

record asset =
  as_host :: string
  as_urls :: "string list"
  as_criticality :: rat
  as_tags :: "string list"
  as_notes :: string

definition normalized_host :: "asset \<Rightarrow> string" where
  "normalized_host a = normalize_host (as_host a)"

record config_file =
  cf_path :: string
  cf_kind :: string
  cf_tags :: "string list"

record log_source =
  ls_path :: string
  ls_format :: string
  ls_tags :: "string list"

record tenant_scope =
  ts_tenant :: string
  ts_assets :: "asset list"
  ts_owned :: "string list"
  ts_protected :: "string list"
  ts_allow_probe :: bool
  ts_log_sources :: "log_source list"
  ts_manifests :: "string list"
  ts_config_files :: "config_file list"

record scope_decision =
  sd_allowed :: bool
  sd_reason :: string
  sd_requires_approval :: bool

record target_registry =
  reg_scopes :: "(string \<times> tenant_scope) list"
  reg_source :: "string option"

subsection \<open>Questions to a scope\<close>

definition hosts :: "tenant_scope \<Rightarrow> string set" where
  "hosts s = normalized_host ` set (ts_assets s)"

definition urls :: "tenant_scope \<Rightarrow> string list" where
  "urls s = concat (map as_urls (ts_assets s))"

definition asset_for_host :: "tenant_scope \<Rightarrow> string option \<Rightarrow> asset option" where
  "asset_for_host s h =
     (if \<not> opt_truthy h then None
      else let c = normalize_host (the h) in find (\<lambda>a. normalized_host a = c) (ts_assets s))"

definition owns :: "tenant_scope \<Rightarrow> string option \<Rightarrow> bool" where
  "owns s v =
     (if \<not> opt_truthy v then False
      else let t = str_strip (the v)
           in if is_valid_cidr t \<and> CHR ''/'' \<in> set t then t \<in> set (ts_owned s)
              else if is_valid_ip t then ip_in_cidrs t (ts_owned s)
              else normalize_host t \<in> hosts s)"

definition scope_is_protected :: "tenant_scope \<Rightarrow> string \<Rightarrow> bool" where
  "scope_is_protected s v =
     (if v = [] then False
      else let t = str_strip v
           in if is_valid_ip t \<or> CHR ''/'' \<in> set t \<and> is_valid_cidr t then ip_in_cidrs t (ts_protected s)
              else normalize_host t \<in> normalize_host ` set (ts_protected s))"

definition asset_criticality :: "tenant_scope \<Rightarrow> string option \<Rightarrow> rat" where
  "asset_criticality s h = (case asset_for_host s h of None \<Rightarrow> 1 | Some a \<Rightarrow> as_criticality a)"

subsection \<open>Questions to the registry\<close>

definition empty_scope :: "string \<Rightarrow> tenant_scope" where
  "empty_scope tid =
     \<lparr>ts_tenant = tid, ts_assets = [], ts_owned = [], ts_protected = [], ts_allow_probe = False,
      ts_log_sources = [], ts_manifests = [], ts_config_files = []\<rparr>"

definition for_tenant :: "target_registry \<Rightarrow> string \<Rightarrow> tenant_scope" where
  "for_tenant r tid =
     (case map_of (reg_scopes r) (str_lower tid) of
        None \<Rightarrow> empty_scope (str_lower tid) | Some s \<Rightarrow> s)"

definition has_tenant :: "target_registry \<Rightarrow> string \<Rightarrow> bool" where
  "has_tenant r tid \<longleftrightarrow> map_of (reg_scopes r) (str_lower tid) \<noteq> None"

definition tenants :: "target_registry \<Rightarrow> string list" where
  "tenants r = sort (map fst (reg_scopes r))"

definition quote :: "string \<Rightarrow> string" where
  "quote s = [CHR 0x27] @ s @ [CHR 0x27]"

definition check_probe :: "target_registry \<Rightarrow> string \<Rightarrow> scope_decision" where
  "check_probe r tid =
     (let s = for_tenant r tid
      in if ts_assets s = []
           then \<lparr>sd_allowed = False,
                 sd_reason = ''aucun actif declare pour le tenant '' @ quote tid
                   @ '' : renseignez config/targets.yaml avant toute collecte'',
                 sd_requires_approval = False\<rparr>
         else if \<not> ts_allow_probe s
           then \<lparr>sd_allowed = False,
                 sd_reason = ''le tenant '' @ quote tid @ '' n'' @ [CHR 0x27] @ ''a pas active ''
                   @ quote ''allow_probe''
                   @ '' : l'' @ [CHR 0x27] @ ''audit de surface necessite un opt-in explicite'',
                 sd_requires_approval = False\<rparr>
         else \<lparr>sd_allowed = True,
                sd_reason = int_str (int (length (ts_assets s))) @ '' actif(s) declare(s)'',
                sd_requires_approval = False\<rparr>)"

text \<open>\<open>f"{v}"\<close> and \<open>v or ""\<close> of an optional text.\<close>

definition show_opt :: "string option \<Rightarrow> string" where
  "show_opt v = (case v of None \<Rightarrow> ''None'' | Some s \<Rightarrow> s)"

definition or_empty :: "string option \<Rightarrow> string" where
  "or_empty v = (case v of None \<Rightarrow> [] | Some s \<Rightarrow> s)"

definition check_action ::
    "target_registry \<Rightarrow> string \<Rightarrow> string \<Rightarrow> target_type \<Rightarrow> string option \<Rightarrow> string option \<Rightarrow> scope_decision"
  where
  "check_action r tid pb tt tv ah =
     (let s = for_tenant r tid
      in if scope_is_protected s (or_empty tv) \<or> scope_is_protected s (or_empty ah)
           then \<lparr>sd_allowed = False,
                 sd_reason = ''cible protegee par le tenant '' @ quote tid
                   @ '' (protected_targets) : aucune action automatique n'' @ [CHR 0x27]
                   @ ''est autorisee'',
                 sd_requires_approval = False\<rparr>
         else if pb \<in> set INBOUND_MITIGATION_PLAYBOOKS then
           if opt_truthy ah \<and> asset_for_host s ah \<noteq> None
             then \<lparr>sd_allowed = True,
                   sd_reason = ''actif '' @ quote (the ah) @ '' declare pour le tenant '' @ quote tid,
                   sd_requires_approval = False\<rparr>
           else if ts_assets s = []
             then \<lparr>sd_allowed = False,
                   sd_reason = ''aucun actif declare pour '' @ quote tid
                     @ '': une action de blocage ne peut pas etre justifiee par un perimetre vide'',
                   sd_requires_approval = True\<rparr>
           else \<lparr>sd_allowed = True,
                  sd_reason = ''actif source non identifie comme declare (''
                    @ (if opt_truthy ah then the ah else ''inconnu'')
                    @ '') : action autorisee mais soumise a approbation humaine'',
                  sd_requires_approval = True\<rparr>
         else if pb \<in> set INFRASTRUCTURE_PLAYBOOKS then
           if owns s tv
             then \<lparr>sd_allowed = True,
                   sd_reason = ''cible '' @ quote (show_opt tv) @ '' appartient au perimetre de '' @ quote tid,
                   sd_requires_approval = False\<rparr>
           else \<lparr>sd_allowed = False,
                  sd_reason = ''cible '' @ quote (show_opt tv) @ '' absente du perimetre declare de ''
                    @ quote tid
                    @ '' (owned_cidrs / assets) : une action sur notre propre infrastructure exige une cible declaree'',
                  sd_requires_approval = True\<rparr>
         else \<lparr>sd_allowed = True,
                sd_reason = ''playbook '' @ quote pb
                  @ '' non classe : approbation humaine requise par defaut'',
                sd_requires_approval = True\<rparr>)"

subsection \<open>Loading the declaration\<close>

text \<open>\<open>[str(x) for x in v or []]\<close>.\<close>

definition str_items :: "pyval \<Rightarrow> exn + string list" where
  "str_items v = (case iter_or_empty v of Inl e \<Rightarrow> Inl e | Inr xs \<Rightarrow> Inr (map py_str xs))"

definition plain_asset :: "string \<Rightarrow> asset" where
  "plain_asset h = \<lparr>as_host = h, as_urls = [], as_criticality = 1, as_tags = [], as_notes = []\<rparr>"

definition str_or :: "pyval \<Rightarrow> string \<Rightarrow> string" where
  "str_or v d = (if truthy v then py_str v else d)"

definition load_asset :: "pyval \<Rightarrow> exn + asset option" where
  "load_asset item =
     (case item of
        PStr h \<Rightarrow> Inr (Some (plain_asset h))
      | PDict b \<Rightarrow>
          if \<not> truthy (dict_val b ''host'') then Inr None
          else (case str_items (dict_val b ''urls'') of
                  Inl e \<Rightarrow> Inl e
                | Inr us \<Rightarrow>
                    (case float_of (case map_of b ''criticality'' of None \<Rightarrow> PFloat 1 | Some v \<Rightarrow> v) of
                       Inl e \<Rightarrow> Inl e
                     | Inr c \<Rightarrow>
                         (case str_items (dict_val b ''tags'') of
                            Inl e \<Rightarrow> Inl e
                          | Inr tags \<Rightarrow>
                              Inr (Some \<lparr>as_host = py_str (dict_val b ''host''), as_urls = us,
                                         as_criticality = c, as_tags = tags,
                                         as_notes = str_or (dict_val b ''notes'') []\<rparr>))))
      | _ \<Rightarrow> Inr None)"

definition load_log_source :: "pyval \<Rightarrow> exn + log_source option" where
  "load_log_source item =
     (case item of
        PStr p \<Rightarrow> Inr (Some \<lparr>ls_path = p, ls_format = ''auto'', ls_tags = []\<rparr>)
      | PDict b \<Rightarrow>
          if \<not> truthy (dict_val b ''path'') then Inr None
          else (case str_items (dict_val b ''tags'') of
                  Inl e \<Rightarrow> Inl e
                | Inr tags \<Rightarrow>
                    Inr (Some \<lparr>ls_path = py_str (dict_val b ''path''),
                               ls_format = str_or (dict_val b ''format'') ''auto'', ls_tags = tags\<rparr>))
      | _ \<Rightarrow> Inr None)"

definition load_config_file :: "pyval \<Rightarrow> exn + config_file option" where
  "load_config_file item =
     (case item of
        PStr p \<Rightarrow> Inr (Some \<lparr>cf_path = p, cf_kind = ''auto'', cf_tags = []\<rparr>)
      | PDict b \<Rightarrow>
          if \<not> truthy (dict_val b ''path'') then Inr None
          else (case str_items (dict_val b ''tags'') of
                  Inl e \<Rightarrow> Inl e
                | Inr tags \<Rightarrow>
                    Inr (Some \<lparr>cf_path = py_str (dict_val b ''path''),
                               cf_kind = str_or (dict_val b ''kind'') ''auto'', cf_tags = tags\<rparr>))
      | _ \<Rightarrow> Inr None)"

definition load_items :: "(pyval \<Rightarrow> exn + 'a option) \<Rightarrow> pyval \<Rightarrow> exn + 'a list" where
  "load_items f v =
     (case iter_or_empty v of
        Inl e \<Rightarrow> Inl e
      | Inr xs \<Rightarrow>
          (case traverse f xs of Inl e \<Rightarrow> Inl e | Inr ys \<Rightarrow> Inr (List.map_filter id ys)))"

definition usable_cidr :: "string \<Rightarrow> bool" where
  "usable_cidr s \<longleftrightarrow> is_valid_cidr s"

definition usable_protected :: "string \<Rightarrow> bool" where
  "usable_protected s \<longleftrightarrow> is_valid_cidr s \<or> is_valid_ip s \<or> CHR ''.'' \<in> set s"

definition load_scope :: "string \<Rightarrow> dict \<Rightarrow> exn + tenant_scope" where
  "load_scope tid b =
     (case load_items load_asset (dict_val b ''assets'') of
        Inl e \<Rightarrow> Inl e
      | Inr assets \<Rightarrow>
     (case str_items (dict_val b ''owned_cidrs'') of
        Inl e \<Rightarrow> Inl e
      | Inr owned \<Rightarrow>
     (case str_items (dict_val b ''protected_targets'') of
        Inl e \<Rightarrow> Inl e
      | Inr prot \<Rightarrow>
     (case load_items load_log_source (dict_val b ''log_sources'') of
        Inl e \<Rightarrow> Inl e
      | Inr logs \<Rightarrow>
     (case str_items (dict_val b ''manifests'') of
        Inl e \<Rightarrow> Inl e
      | Inr manifests \<Rightarrow>
     (case load_items load_config_file (dict_val b ''config_files'') of
        Inl e \<Rightarrow> Inl e
      | Inr confs \<Rightarrow>
          Inr \<lparr>ts_tenant = str_lower tid, ts_assets = assets,
               ts_owned = filter usable_cidr owned, ts_protected = filter usable_protected prot,
               ts_allow_probe = truthy (dict_val b ''allow_probe''), ts_log_sources = logs,
               ts_manifests = manifests, ts_config_files = confs\<rparr>))))))"

fun load_scopes :: "(string \<times> pyval) list \<Rightarrow> (string \<times> tenant_scope) list \<Rightarrow> exn + (string \<times> tenant_scope) list"
  where
  "load_scopes [] acc = Inr acc"
| "load_scopes ((tid, PDict b) # rest) acc =
     (case load_scope tid b of
        Inl e \<Rightarrow> Inl e
      | Inr s \<Rightarrow> load_scopes rest (dict_set (str_lower tid) s acc))"
| "load_scopes (_ # rest) acc = load_scopes rest acc"

text \<open>
  \<open>from_file\<close> after the YAML parse: \<^const>\<open>None\<close> stands for a missing or unreadable file, and an
  empty document reads as an empty dictionary.
\<close>

definition from_file :: "string \<Rightarrow> pyval option \<Rightarrow> exn + target_registry" where
  "from_file path parsed =
     (case parsed of
        None \<Rightarrow> Inr \<lparr>reg_scopes = [], reg_source = Some path\<rparr>
      | Some doc \<Rightarrow>
          (case (if truthy doc then doc else PDict []) of
             PDict d \<Rightarrow>
               (case (if truthy (dict_val d ''tenants'') then dict_val d ''tenants'' else PDict []) of
                  PDict ts \<Rightarrow>
                    (case load_scopes ts [] of
                       Inl e \<Rightarrow> Inl e
                     | Inr scopes \<Rightarrow> Inr \<lparr>reg_scopes = scopes, reg_source = Some path\<rparr>)
                | _ \<Rightarrow> Inr \<lparr>reg_scopes = [], reg_source = Some path\<rparr>)
           | v \<Rightarrow> Inl (Foreign ''AttributeError''
                   (quote (type_name v) @ '' object has no attribute '' @ quote ''get''))))"

subsection \<open>Laws\<close>

lemma playbook_classes_disjoint:
  "pb \<in> set INBOUND_MITIGATION_PLAYBOOKS \<Longrightarrow> pb \<notin> set INFRASTRUCTURE_PLAYBOOKS"
  by (auto simp: INBOUND_MITIGATION_PLAYBOOKS_def INFRASTRUCTURE_PLAYBOOKS_def)

definition scope_protects :: "target_registry \<Rightarrow> string \<Rightarrow> string option \<Rightarrow> string option \<Rightarrow> bool" where
  "scope_protects r tid tv ah \<longleftrightarrow>
     scope_is_protected (for_tenant r tid) (or_empty tv)
       \<or> scope_is_protected (for_tenant r tid) (or_empty ah)"

text \<open>An action may run without a human exactly when neither its target nor the attacked asset is
  protected and the declaration covers it: the attacked asset is declared for a mitigation of
  incoming traffic, the target itself is owned for a change to the infrastructure.  It is refused
  outright exactly when a protected target is involved, and everything else needs an approval.\<close>

theorem check_action_correct:
  "(sd_allowed (check_action r tid pb tt tv ah) \<and> \<not> sd_requires_approval (check_action r tid pb tt tv ah)
     \<longleftrightarrow> \<not> scope_protects r tid tv ah \<and>
         (pb \<in> set INBOUND_MITIGATION_PLAYBOOKS \<and> asset_for_host (for_tenant r tid) ah \<noteq> None
          \<or> pb \<in> set INFRASTRUCTURE_PLAYBOOKS \<and> owns (for_tenant r tid) tv)) \<and>
   (\<not> sd_allowed (check_action r tid pb tt tv ah) \<and> \<not> sd_requires_approval (check_action r tid pb tt tv ah)
     \<longleftrightarrow> scope_protects r tid tv ah)"
  using playbook_classes_disjoint [of pb]
  by (auto simp: check_action_def scope_protects_def Let_def asset_for_host_def)

text \<open>A surface audit is allowed exactly when the tenant declared an asset and opted in, and an
  undeclared tenant has neither.\<close>

theorem check_probe_correct:
  "(sd_allowed (check_probe r tid) \<longleftrightarrow>
      ts_assets (for_tenant r tid) \<noteq> [] \<and> ts_allow_probe (for_tenant r tid)) \<and>
   \<not> (sd_allowed (check_probe r tid) \<and> \<not> has_tenant r tid)"
  by (auto simp: check_probe_def Let_def has_tenant_def for_tenant_def empty_scope_def
      split: option.splits)

text \<open>What the loader accepts is usable: ranges parse, keys are unique and are the scopes' own ids.\<close>

definition scope_ok :: "string \<times> tenant_scope \<Rightarrow> bool" where
  "scope_ok ks \<longleftrightarrow> ts_tenant (snd ks) = fst ks \<and> list_all is_valid_cidr (ts_owned (snd ks))
     \<and> list_all usable_protected (ts_protected (snd ks))"

definition registry_ok :: "target_registry \<Rightarrow> bool" where
  "registry_ok r \<longleftrightarrow> distinct (map fst (reg_scopes r)) \<and> list_all scope_ok (reg_scopes r)"

lemma load_scope_ok: "load_scope tid b = Inr s \<Longrightarrow> scope_ok (str_lower tid, s)"
  by (auto simp: load_scope_def scope_ok_def usable_cidr_def list_all_iff split: sum.splits)

lemma set_dict_set: "x \<in> set (dict_set k v d) \<Longrightarrow> x = (k, v) \<or> x \<in> set d"
  by (induction d) (auto split: if_splits)

lemma load_scopes_ok:
  "load_scopes ts acc = Inr scopes \<Longrightarrow> distinct (map fst acc) \<Longrightarrow> list_all scope_ok acc \<Longrightarrow>
     distinct (map fst scopes) \<and> list_all scope_ok scopes"
proof (induction ts acc rule: load_scopes.induct)
  case (2 tid b rest acc)
  then show ?case
    by (auto simp: list_all_iff distinct_update dest!: set_dict_set load_scope_ok split: sum.splits)
qed auto

text \<open>A malformed declaration stops the load with an error of the interpreter.\<close>

definition foreign :: "exn \<Rightarrow> bool" where
  "foreign e \<longleftrightarrow> (case e of Foreign _ _ \<Rightarrow> True | _ \<Rightarrow> False)"

lemma iter_foreign: "iter_or_empty v = Inl e \<Longrightarrow> foreign e"
  by (cases v) (auto simp: iter_or_empty_def foreign_def split: if_splits)

lemma str_items_foreign: "str_items v = Inl e \<Longrightarrow> foreign e"
  by (auto simp: str_items_def dest: iter_foreign split: sum.splits)

lemma float_of_foreign: "float_of v = Inl e \<Longrightarrow> foreign e"
  by (auto simp: float_of_def foreign_def split: option.splits pyval.splits)

lemma load_items_foreign:
  "load_items f v = Inl e \<Longrightarrow> (\<And>x e. f x = Inl e \<Longrightarrow> foreign e) \<Longrightarrow> foreign e"
  by (auto simp: load_items_def dest: iter_foreign traverse_error split: sum.splits)

lemma load_asset_foreign: "load_asset x = Inl e \<Longrightarrow> foreign e"
  by (auto simp: load_asset_def dest: str_items_foreign float_of_foreign
      split: pyval.splits if_splits sum.splits)

lemma load_log_source_foreign: "load_log_source x = Inl e \<Longrightarrow> foreign e"
  by (auto simp: load_log_source_def dest: str_items_foreign
      split: pyval.splits if_splits sum.splits)

lemma load_config_file_foreign: "load_config_file x = Inl e \<Longrightarrow> foreign e"
  by (auto simp: load_config_file_def dest: str_items_foreign
      split: pyval.splits if_splits sum.splits)

lemma load_scope_foreign: "load_scope tid b = Inl e \<Longrightarrow> foreign e"
  by (auto simp: load_scope_def dest: str_items_foreign
      load_items_foreign [OF _ load_asset_foreign] load_items_foreign [OF _ load_log_source_foreign]
      load_items_foreign [OF _ load_config_file_foreign] split: sum.splits)

lemma load_scopes_foreign: "load_scopes ts acc = Inl e \<Longrightarrow> foreign e"
  by (induction ts acc rule: load_scopes.induct) (auto dest: load_scope_foreign split: sum.splits)

lemma from_file_foreign: "from_file path parsed = Inl e \<Longrightarrow> foreign e"
  by (auto simp: from_file_def foreign_def [of "Foreign _ _"] dest: load_scopes_foreign
      split: option.splits pyval.splits sum.splits if_splits)

lemma from_file_loaded: "from_file path parsed = Inr r \<Longrightarrow> registry_ok r"
  using load_scopes_ok [of _ "[]"]
  by (fastforce simp: from_file_def registry_ok_def split: option.splits pyval.splits sum.splits if_splits)

text \<open>Loading a declaration stops with an error of the interpreter or yields a well-formed
  registry: one scope per tenant under its own lower-case identifier, every owned range parses, every
  protected entry is usable.\<close>

theorem from_file_ok:
  "case from_file path parsed of Inl e \<Rightarrow> foreign e | Inr r \<Rightarrow> registry_ok r"
  by (auto dest: from_file_foreign from_file_loaded split: sum.split)

text \<open>
  A range is compared to the protected entries as if it were an address, which it never is: the very
  range a tenant protects is not recognised as protected, while the addresses inside it are.
\<close>

theorem protected_range_not_guarded:
  "\<not> scope_is_protected (empty_scope tid \<lparr>ts_protected := [''10.0.0.0/8'']\<rparr>) ''10.0.0.0/8'' \<and>
   scope_is_protected (empty_scope tid \<lparr>ts_protected := [''10.0.0.0/8'']\<rparr>) ''10.1.2.3''"
proof -
  have strip: "str_strip ''10.0.0.0/8'' = ''10.0.0.0/8''" "str_strip ''10.1.2.3'' = ''10.1.2.3''"
    by code_simp+
  have facts: "is_valid_cidr ''10.0.0.0/8''" "is_valid_ip ''10.1.2.3''"
    "ip_in_cidrs ''10.1.2.3'' [''10.0.0.0/8'']"
    by code_simp+
  show ?thesis
    by (simp add: scope_is_protected_def strip facts slash_not_in_cidrs Let_def empty_scope_def)
qed

end
