(* ===== verification/Matchers.thy ===== *)
theory Matchers
  imports Util
begin

section \<open>Comparison operators of detection rules\<close>

text \<open>
  \<open>detection/matchers.py\<close>.  The regular expressions written by rule authors are compiled by the
  interpreter's \<open>re\<close> module, a parameter \<open>re_compile\<close> of the definitions: it takes a pattern and whether case
  is ignored, and gives the text of an \<open>re.error\<close> or the predicate ``\<open>search\<close> finds a match''.  The two
  fixed patterns of the backtracking filter are written out.  Numbers include the infinities and
  not-a-number, because \<open>float\<close> reads them from text an event may carry.
\<close>

type_synonym regex_engine = "string \<Rightarrow> bool \<Rightarrow> string + (string \<Rightarrow> bool)"

definition MAX_REGEX_INPUT :: nat where "MAX_REGEX_INPUT = 8192"
definition MAX_REGEX_PATTERN :: nat where "MAX_REGEX_PATTERN = 2048"

subsection \<open>Numbers as \<open>float\<close> sees them\<close>

datatype number = Fin rat | PInf | NInf | NaN

fun num_less :: "number \<Rightarrow> number \<Rightarrow> bool" where
  "num_less NaN b = False"
| "num_less a NaN = False"
| "num_less (Fin x) (Fin y) = (x < y)"
| "num_less NInf b = (b \<noteq> NInf)"
| "num_less a PInf = (a \<noteq> PInf)"
| "num_less a b = False"

fun num_eq :: "number \<Rightarrow> number \<Rightarrow> bool" where
  "num_eq NaN b = False"
| "num_eq a b = (a = b)"

definition read_number :: "string \<Rightarrow> number option" where
  "read_number s =
     (case split_sign (str_lower (str_strip s)) of
        (sg, t) \<Rightarrow>
          if t = ''inf'' \<or> t = ''infinity'' then Some (if sg = 1 then PInf else NInf)
          else if t = ''nan'' then Some NaN
          else map_option Fin (parse_float s))"

text \<open>The prefix \<open>^([-+]?\d+(?:\.\d+)?)\<close> of a text: \<open>42 items\<close> reads as 42.\<close>

definition leading_number :: "string \<Rightarrow> rat option" where
  "leading_number s =
     (case split_sign s of
        (sg, t) \<Rightarrow>
          let a = takeWhile is_digit t; rest = dropWhile is_digit t;
              b = (if take 1 rest = ''.'' then takeWhile is_digit (drop 1 rest) else [])
          in if a = [] then None
             else Some (of_int sg * (of_int (digits_val a)
                    + (if b = [] then 0 else of_int (digits_val b) / 10 ^ length b))))"

subsection \<open>Patterns refused for their backtracking\<close>

definition quantifier :: "char \<Rightarrow> bool" where
  "quantifier c \<longleftrightarrow> c = CHR ''+'' \<or> c = CHR ''*''"

definition repeats :: "string \<Rightarrow> bool" where
  "repeats s \<longleftrightarrow> s \<noteq> [] \<and> (quantifier (hd s) \<or> hd s = CHR ''{'')"

text \<open>The three alternatives of \<open>_NESTED_QUANTIFIER\<close>, at the head of a text.\<close>

definition nested_group :: "string \<Rightarrow> bool" where
  "nested_group s =
     (case s of
        c # t \<Rightarrow>
          c = CHR ''('' \<and> list_ex quantifier (takeWhile (\<lambda>x. x \<noteq> CHR '')'') t)
            \<and> dropWhile (\<lambda>x. x \<noteq> CHR '')'') t \<noteq> []
            \<and> repeats (drop 1 (dropWhile (\<lambda>x. x \<noteq> CHR '')'') t))
      | [] \<Rightarrow> False)"

definition nested_class :: "string \<Rightarrow> bool" where
  "nested_class s =
     (case s of
        c # t \<Rightarrow>
          (let r = drop 1 (dropWhile (\<lambda>x. x \<noteq> CHR '']'') t)
           in c = CHR ''['' \<and> r \<noteq> [] \<and> quantifier (hd r) \<and> repeats (drop 1 r))
      | [] \<Rightarrow> False)"

definition nested_any :: "string \<Rightarrow> bool" where
  "nested_any s \<longleftrightarrow> take 2 s = ''.*'' \<and> repeats (drop 2 s)"

text \<open>The second pattern: a group without alternatives, spaces allowed before the repetition.\<close>

definition spaced_group :: "string \<Rightarrow> bool" where
  "spaced_group s =
     (case s of
        c # t \<Rightarrow>
          (let body = takeWhile (\<lambda>x. x \<notin> {CHR ''('', CHR '')'', CHR ''|''}) t;
               rest = drop (length body) t
           in c = CHR ''('' \<and> list_ex quantifier body \<and> take 1 rest = '')''
                \<and> repeats (dropWhile is_space (drop 1 rest)))
      | [] \<Rightarrow> False)"

definition looks_like_redos :: "string \<Rightarrow> bool" where
  "looks_like_redos p \<longleftrightarrow>
     MAX_REGEX_PATTERN < length p
     \<or> list_ex (\<lambda>s. nested_group s \<or> nested_class s \<or> nested_any s) (suffixes p)
     \<or> list_ex spaced_group (suffixes p)"

definition compile_regex :: "regex_engine \<Rightarrow> string \<Rightarrow> bool \<Rightarrow> string + (string \<Rightarrow> bool)" where
  "compile_regex re_compile p case_sensitive =
     (if MAX_REGEX_PATTERN < length p
        then Inl (''motif trop long ('' @ int_str (int (length p)) @ '' > 2048)'')
      else if looks_like_redos p
        then Inl (''motif a risque de retour arriere catastrophique refuse: '' @ repr_str p)
      else case re_compile p (\<not> case_sensitive) of
             Inl exc \<Rightarrow> Inl (''expression reguliere invalide: '' @ exc)
           | Inr search \<Rightarrow> Inr search)"

subsection \<open>Conversions and comparison\<close>

definition as_text :: "pyval \<Rightarrow> string" where
  "as_text v =
     (case v of
        PStr s \<Rightarrow> s
      | PNone \<Rightarrow> []
      | PBool b \<Rightarrow> if b then ''true'' else ''false''
      | _ \<Rightarrow> py_str v)"

fun as_number :: "pyval \<Rightarrow> number option" where
  "as_number (PStr s) =
     (let t = str_strip s
      in if t = [] then None
         else case read_number t of
                Some n \<Rightarrow> Some n
              | None \<Rightarrow> map_option Fin (leading_number t))"
| "as_number v = map_option Fin (num_of v)"

definition sign_of :: "bool \<Rightarrow> bool \<Rightarrow> int" where
  "sign_of gt lt = (if gt then 1 else 0) - (if lt then 1 else 0)"

definition compare_vals :: "pyval \<Rightarrow> pyval \<Rightarrow> int option" where
  "compare_vals a b =
     (case (num_of a, num_of b) of
        (Some x, Some y) \<Rightarrow> Some (sign_of (x > y) (x < y))
      | _ \<Rightarrow>
          (case (as_number a, as_number b) of
             (Some x, Some y) \<Rightarrow> Some (sign_of (num_less y x) (num_less x y))
           | _ \<Rightarrow>
               if a = PNone \<or> b = PNone then None
               else Some (sign_of (as_text a > as_text b) (as_text a < as_text b))))"

fun length_of :: "pyval \<Rightarrow> int option" where
  "length_of (PStr s) = Some (int (length s))"
| "length_of (PList xs) = Some (int (length xs))"
| "length_of (PDict d) = Some (int (length d))"
| "length_of _ = None"

subsection \<open>Evaluation of a condition\<close>

text \<open>\<open>isinstance(v, (list, tuple, set))\<close> gives its elements, anything else is one element.\<close>

fun as_items :: "pyval \<Rightarrow> pyval list" where
  "as_items (PList xs) = xs"
| "as_items v = [v]"

definition fold_case :: "bool \<Rightarrow> string \<Rightarrow> string" where
  "fold_case case_sensitive s = (if case_sensitive then s else str_lower s)"

definition contains_text :: "string \<Rightarrow> string \<Rightarrow> bool" where
  "contains_text needle s \<longleftrightarrow> sublist needle s"

fun is_bool :: "pyval \<Rightarrow> bool" where
  "is_bool (PBool b) = True"
| "is_bool _ = False"

fun both_text :: "pyval \<Rightarrow> pyval \<Rightarrow> (string \<times> string) option" where
  "both_text (PStr s) (PStr t) = Some (s, t)"
| "both_text _ _ = None"

definition ordered_or_eq :: "pyval \<Rightarrow> pyval \<Rightarrow> bool" where
  "ordered_or_eq a e = (case compare_vals a e of Some c \<Rightarrow> c = 0 | None \<Rightarrow> py_eq a e)"

definition eval_eq :: "bool \<Rightarrow> pyval \<Rightarrow> pyval \<Rightarrow> bool" where
  "eval_eq cs a e =
     (case both_text a e of
        Some (s, t) \<Rightarrow> if \<not> cs then str_lower s = str_lower t else ordered_or_eq a e
      | None \<Rightarrow>
          if is_bool a \<or> is_bool e then str_lower (as_text a) = str_lower (as_text e)
          else ordered_or_eq a e)"

definition eval_ne :: "bool \<Rightarrow> pyval \<Rightarrow> pyval \<Rightarrow> bool" where
  "eval_ne cs a e =
     (case both_text a e of
        Some (s, t) \<Rightarrow> if \<not> cs then str_lower s \<noteq> str_lower t else \<not> ordered_or_eq a e
      | None \<Rightarrow> \<not> ordered_or_eq a e)"

definition eval_order :: "(int \<Rightarrow> bool) \<Rightarrow> pyval \<Rightarrow> pyval \<Rightarrow> bool" where
  "eval_order ok a e = (case compare_vals a e of None \<Rightarrow> False | Some c \<Rightarrow> ok c)"

definition eval_in :: "bool \<Rightarrow> pyval \<Rightarrow> pyval \<Rightarrow> bool" where
  "eval_in cs a e =
     (fold_case cs (as_text a) \<in> set (map (fold_case cs \<circ> as_text) (as_items e)))"

fun eval_patterns :: "regex_engine \<Rightarrow> bool \<Rightarrow> string \<Rightarrow> pyval list \<Rightarrow> bool" where
  "eval_patterns re_compile cs s [] = False"
| "eval_patterns re_compile cs s (p # ps) =
     (case compile_regex re_compile (py_str p) cs of
        Inl _ \<Rightarrow> False
      | Inr search \<Rightarrow> if search s then True else eval_patterns re_compile cs s ps)"

definition eval_regex :: "regex_engine \<Rightarrow> bool \<Rightarrow> pyval \<Rightarrow> pyval \<Rightarrow> bool" where
  "eval_regex re_compile cs a e =
     (if a = PNone then False
      else eval_patterns re_compile cs (take MAX_REGEX_INPUT (as_text a)) (as_items e))"

definition eval_cidr :: "pyval \<Rightarrow> pyval \<Rightarrow> bool" where
  "eval_cidr a e =
     (if a = PNone then False
      else let cidrs = filter is_valid_cidr (map py_str (as_items e))
           in if cidrs = [] then False else ip_in_cidrs (as_text a) cidrs)"

definition eval_length :: "(rat \<Rightarrow> rat \<Rightarrow> bool) \<Rightarrow> pyval \<Rightarrow> pyval \<Rightarrow> bool" where
  "eval_length ok a e =
     (case length_of a of None \<Rightarrow> False | Some n \<Rightarrow> ok (of_int n) (safe_float e 0))"

definition evaluate :: "regex_engine \<Rightarrow> condition \<Rightarrow> pyval \<Rightarrow> bool" where
  "evaluate re_compile c ctx =
     (let a = deep_get ctx (c_field c); e = c_value c; cs = c_case_sensitive c
      in case c_op c of
           Op_exists \<Rightarrow> (a \<noteq> PNone) = (if e = PNone then True else truthy e)
         | Op_eq \<Rightarrow> eval_eq cs a e
         | Op_ne \<Rightarrow> eval_ne cs a e
         | Op_gt \<Rightarrow> eval_order (\<lambda>c. c > 0) a e
         | Op_gte \<Rightarrow> eval_order (\<lambda>c. c \<ge> 0) a e
         | Op_lt \<Rightarrow> eval_order (\<lambda>c. c < 0) a e
         | Op_lte \<Rightarrow> eval_order (\<lambda>c. c \<le> 0) a e
         | Op_in \<Rightarrow> eval_in cs a e
         | Op_not_in \<Rightarrow> \<not> eval_in cs a e
         | Op_contains \<Rightarrow> contains_text (fold_case cs (as_text e)) (fold_case cs (as_text a))
         | Op_icontains \<Rightarrow> contains_text (str_lower (as_text e)) (str_lower (as_text a))
         | Op_startswith \<Rightarrow> prefix (fold_case cs (as_text e)) (fold_case cs (as_text a))
         | Op_endswith \<Rightarrow> suffix (fold_case cs (as_text e)) (fold_case cs (as_text a))
         | Op_regex \<Rightarrow> eval_regex re_compile cs a e
         | Op_cidr \<Rightarrow> eval_cidr a e
         | Op_len_gt \<Rightarrow> eval_length (>) a e
         | Op_len_lt \<Rightarrow> eval_length (<) a e)"

definition evaluate_condition :: "regex_engine \<Rightarrow> condition \<Rightarrow> pyval \<Rightarrow> bool" where
  "evaluate_condition re_compile c ctx =
     (let result = evaluate re_compile c ctx in if c_negate c then \<not> result else result)"

subsection \<open>Static control of a condition\<close>

fun op_str :: "operator \<Rightarrow> string" where
  "op_str Op_eq = ''eq''"
| "op_str Op_ne = ''ne''"
| "op_str Op_gt = ''gt''"
| "op_str Op_gte = ''gte''"
| "op_str Op_lt = ''lt''"
| "op_str Op_lte = ''lte''"
| "op_str Op_in = ''in''"
| "op_str Op_not_in = ''not_in''"
| "op_str Op_contains = ''contains''"
| "op_str Op_icontains = ''icontains''"
| "op_str Op_startswith = ''startswith''"
| "op_str Op_endswith = ''endswith''"
| "op_str Op_regex = ''regex''"
| "op_str Op_exists = ''exists''"
| "op_str Op_cidr = ''cidr''"
| "op_str Op_len_gt = ''len_gt''"
| "op_str Op_len_lt = ''len_lt''"

fun check_patterns :: "regex_engine \<Rightarrow> bool \<Rightarrow> pyval list \<Rightarrow> string option" where
  "check_patterns re_compile cs [] = None"
| "check_patterns re_compile cs (PStr p # ps) =
     (case compile_regex re_compile p cs of
        Inl exc \<Rightarrow> Some exc
      | Inr _ \<Rightarrow> check_patterns re_compile cs ps)"
| "check_patterns re_compile cs (v # ps) =
     Some (''op=regex exige une chaine (recu '' @ type_name v @ '')'')"

fun check_ranges :: "pyval list \<Rightarrow> string option" where
  "check_ranges [] = None"
| "check_ranges (v # vs) =
     (if is_valid_cidr (py_str v) then check_ranges vs
      else Some (''op=cidr exige une IP/plage valide (recu '' @ py_repr v @ '')''))"

fun list_or_scalar :: "pyval \<Rightarrow> bool" where
  "list_or_scalar PNone = False"
| "list_or_scalar (PTime t) = False"
| "list_or_scalar (PDict d) = False"
| "list_or_scalar _ = True"

fun textual :: "pyval \<Rightarrow> bool" where
  "textual (PStr s) = True"
| "textual v = (num_of v \<noteq> None)"

text \<open>\<^const>\<open>None\<close> is \<open>(True, None)\<close>, \<^const>\<open>Some\<close> the message of a refusal.\<close>

definition condition_is_coherent :: "regex_engine \<Rightarrow> condition \<Rightarrow> string option" where
  "condition_is_coherent re_compile c =
     (let v = c_value c; op = c_op c
      in if op = Op_exists then None
         else if op = Op_regex then check_patterns re_compile (c_case_sensitive c) (as_items v)
         else if op = Op_cidr then check_ranges (as_items v)
         else if op \<in> {Op_gt, Op_gte, Op_lt, Op_lte, Op_len_gt, Op_len_lt} then
           (if as_number v = None
              then Some (''op='' @ op_str op @ '' exige une valeur numerique (recu '' @ py_repr v @ '')'')
            else None)
         else if op \<in> {Op_in, Op_not_in} \<and> \<not> list_or_scalar v
           then Some (''op='' @ op_str op @ '' exige une liste ou un scalaire (recu ''
                      @ type_name v @ '')'')
         else if op \<in> {Op_contains, Op_icontains, Op_startswith, Op_endswith} \<and> \<not> textual v
           then Some (''op='' @ op_str op @ '' exige une valeur textuelle (recu ''
                      @ type_name v @ '')'')
         else None)"

definition is_ip_like :: "pyval \<Rightarrow> bool" where
  "is_ip_like v = is_valid_ip (as_text v)"

subsection \<open>Laws of the operators\<close>

lemma sign_of_swap: "sign_of b a = - sign_of a b"
  by (simp add: sign_of_def)

lemma compare_vals_swap: "compare_vals b a = map_option uminus (compare_vals a b)"
  by (cases "num_of a"; cases "num_of b"; cases "as_number a"; cases "as_number b")
     (auto simp: compare_vals_def sign_of_swap [symmetric])

lemma check_patterns_None:
  "check_patterns re_compile cs ps = None \<Longrightarrow> p \<in> set ps \<Longrightarrow>
     \<exists>t search. p = PStr t \<and> compile_regex re_compile t cs = Inr search"
  by (induction re_compile cs ps rule: check_patterns.induct) (auto split: sum.splits)

definition finds :: "regex_engine \<Rightarrow> bool \<Rightarrow> pyval \<Rightarrow> string \<Rightarrow> bool" where
  "finds re_compile cs p s =
     (case compile_regex re_compile (py_str p) cs of Inl _ \<Rightarrow> False | Inr search \<Rightarrow> search s)"

lemma eval_patterns_coherent:
  "check_patterns re_compile cs ps = None \<Longrightarrow>
     eval_patterns re_compile cs s ps \<longleftrightarrow> (\<exists>p \<in> set ps. finds re_compile cs p s)"
  by (induction re_compile cs ps rule: check_patterns.induct)
     (auto simp: finds_def py_str_def split: sum.splits)

lemma check_ranges_None: "check_ranges vs = None \<longleftrightarrow> (\<forall>v \<in> set vs. is_valid_cidr (py_str v))"
  by (induction vs) auto

text \<open>The four order operators agree with one another on every pair of values: greater-than is
  less-than with the operands exchanged, the weak operators are the negations of the strict ones
  whenever the values are comparable, and values are incomparable only when one of them is absent.\<close>

theorem order_operators_consistent:
  "eval_order (\<lambda>c. c > 0) a e = eval_order (\<lambda>c. c < 0) e a \<and>
   eval_order (\<lambda>c. c \<ge> 0) a e = (compare_vals a e \<noteq> None \<and> \<not> eval_order (\<lambda>c. c < 0) a e) \<and>
   eval_order (\<lambda>c. c \<le> 0) a e = (compare_vals a e \<noteq> None \<and> \<not> eval_order (\<lambda>c. c > 0) a e) \<and>
   (compare_vals a e = None \<longleftrightarrow> a = PNone \<or> e = PNone)"
proof -
  have none: "compare_vals a e = None \<longleftrightarrow> a = PNone \<or> e = PNone"
    by (cases "num_of a"; cases "num_of e"; cases "as_number a"; cases "as_number e")
       (auto simp: compare_vals_def)
  show ?thesis
    unfolding eval_order_def compare_vals_swap [of e a] none [symmetric]
    by (cases "compare_vals a e") auto
qed

text \<open>A condition accepted by the static control means what it says: a regular-expression condition
  holds exactly when the field is present and one of its patterns is found in the first 8192
  characters, a range condition exactly when the field is an address of one of its ranges.  No pattern
  of an accepted condition is refused at evaluation.\<close>

theorem coherent_condition_exact:
  assumes "condition_is_coherent re_compile c = None"
  shows "(c_op c = Op_regex \<longrightarrow>
            (evaluate re_compile c ctx \<longleftrightarrow> deep_get ctx (c_field c) \<noteq> PNone \<and>
               (\<exists>p \<in> set (as_items (c_value c)). finds re_compile (c_case_sensitive c) p
                  (take MAX_REGEX_INPUT (as_text (deep_get ctx (c_field c))))))) \<and>
         (c_op c = Op_cidr \<longrightarrow>
            (evaluate re_compile c ctx \<longleftrightarrow> deep_get ctx (c_field c) \<noteq> PNone \<and>
               ip_in_cidrs (as_text (deep_get ctx (c_field c))) (map py_str (as_items (c_value c)))))"
proof (intro conjI impI)
  assume op: "c_op c = Op_regex"
  with assms show "evaluate re_compile c ctx \<longleftrightarrow> deep_get ctx (c_field c) \<noteq> PNone \<and>
      (\<exists>p \<in> set (as_items (c_value c)). finds re_compile (c_case_sensitive c) p
         (take MAX_REGEX_INPUT (as_text (deep_get ctx (c_field c)))))"
    by (simp add: evaluate_def Let_def eval_regex_def condition_is_coherent_def eval_patterns_coherent)
next
  assume op: "c_op c = Op_cidr"
  with assms have "\<forall>v \<in> set (as_items (c_value c)). is_valid_cidr (py_str v)"
    by (simp add: condition_is_coherent_def Let_def check_ranges_None)
  then have all: "filter is_valid_cidr (map py_str (as_items (c_value c))) = map py_str (as_items (c_value c))"
    by (simp add: filter_id_conv)
  show "evaluate re_compile c ctx \<longleftrightarrow> deep_get ctx (c_field c) \<noteq> PNone \<and>
      ip_in_cidrs (as_text (deep_get ctx (c_field c))) (map py_str (as_items (c_value c)))"
    by (auto simp: evaluate_def Let_def op eval_cidr_def all)
qed

definition literal_search :: regex_engine where
  "literal_search p ignore_case = Inr (\<lambda>s. if ignore_case then contains_text (str_lower p) (str_lower s)
                                       else contains_text p s)"

definition sample_ctx :: pyval where
  "sample_ctx = PDict [(''labels'', PDict [(''src_ip'', PStr ''10.1.2.3''), (''path'', PStr ''/Admin'')])]"

definition range_condition :: condition where
  "range_condition = \<lparr>c_field = ''labels.src_ip'', c_op = Op_cidr, c_value = PList [PStr ''10.0.0.0/8''],
     c_case_sensitive = False, c_negate = False\<rparr>"

definition pattern_condition :: condition where
  "pattern_condition = \<lparr>c_field = ''labels.path'', c_op = Op_regex, c_value = PStr ''/admin'',
     c_case_sensitive = False, c_negate = False\<rparr>"

theorem coherent_condition_exact_witness:
  "condition_is_coherent literal_search range_condition = None \<and>
   condition_is_coherent literal_search pattern_condition = None \<and>
   evaluate literal_search range_condition sample_ctx \<and>
   evaluate literal_search pattern_condition sample_ctx"
proof -
  have quiet: "\<not> list_ex (\<lambda>s. nested_group s \<or> nested_class s \<or> nested_any s) (suffixes ''/admin'')"
    "\<not> list_ex spaced_group (suffixes ''/admin'')"
    by code_simp+
  have comp: "compile_regex literal_search ''/admin'' False =
      Inr (\<lambda>s. contains_text (str_lower ''/admin'') (str_lower s))"
    using quiet by (simp add: compile_regex_def looks_like_redos_def MAX_REGEX_PATTERN_def
        literal_search_def del: suffixes.simps)
  have c1: "condition_is_coherent literal_search range_condition = None"
    by code_simp
  have c2: "condition_is_coherent literal_search pattern_condition = None"
    by (simp add: condition_is_coherent_def pattern_condition_def comp)
  have r: "deep_get sample_ctx (c_field range_condition) = PStr ''10.1.2.3''"
    "deep_get sample_ctx (c_field pattern_condition) = PStr ''/Admin''"
    "ip_in_cidrs (as_text (PStr ''10.1.2.3'')) (map py_str (as_items (c_value range_condition)))"
    "contains_text (str_lower ''/admin'') (str_lower ''/Admin'')"
    by code_simp+
  have "finds literal_search (c_case_sensitive pattern_condition) (PStr ''/admin'')
      (take MAX_REGEX_INPUT (as_text (PStr ''/Admin'')))"
    by (simp add: finds_def pattern_condition_def py_str_def comp as_text_def MAX_REGEX_INPUT_def r)
  then show ?thesis
    using coherent_condition_exact [OF c1, of sample_ctx]
      coherent_condition_exact [OF c2, of sample_ctx] r c1 c2
    by (simp add: range_condition_def pattern_condition_def)
qed

subsection \<open>Where the operators surprise\<close>

text \<open>
  Not-a-number compares as equal to everything: a field holding the text \<open>nan\<close> satisfies \<open>eq\<close>, \<open>gte\<close>
  and \<open>lte\<close> with any number.
\<close>

theorem nan_equals_every_number:
  "eval_eq cs (PStr ''nan'') (PInt i) \<and> eval_order (\<lambda>c. c \<ge> 0) (PStr ''nan'') (PInt i) \<and>
   eval_order (\<lambda>c. c \<le> 0) (PStr ''nan'') (PInt i)"
proof -
  have "as_number (PStr ''nan'') = Some NaN" by code_simp
  then have "compare_vals (PStr ''nan'') (PInt i) = Some 0"
    by (simp add: compare_vals_def sign_of_def)
  then show ?thesis by (simp add: eval_eq_def eval_order_def ordered_or_eq_def)
qed

text \<open>
  \<open>eq\<close> reads a truth value as text in lower case and \<open>ne\<close> does not: a field can be both equal to and
  different from the same value.
\<close>

theorem eq_ne_overlap:
  "eval_eq True (PBool True) (PStr ''TRUE'') \<and> eval_ne True (PBool True) (PStr ''TRUE'')"
  by code_simp

end
