(* ===== verification/Decision.thy ===== *)
theory Decision
  imports Store Scope Matchers
begin

section \<open>Decision engine\<close>

text \<open>
  \<open>decision/engine.py\<close>: the evaluation of a policy's \<open>when\<close> block, the selection of the first matching
  policy, and the guards no policy can lift.  The settings are the fields this engine and the
  action engine read.  One call
  reads the clock once (\<open>now\<close>).  The texts of the reasons are transliterated: accents are dropped, the
  mathematical signs are written in words.  A list of severities in a policy holds texts.
\<close>

record settings =
  s_dry_run :: bool
  s_require_target_declaration :: bool
  s_critical_score_threshold :: rat
  s_default_cooldown_seconds :: int
  s_approve_ttl_seconds :: int

record decision_context =
  cx_finding :: finding
  cx_tenant :: tenant
  cx_environment :: string
  cx_settings :: "settings option"
  cx_asset_host :: "string option"
  cx_target_value :: "string option"
  cx_extra :: dict

record policy_evaluation =
  pe_policy_id :: string
  pe_matched :: bool
  pe_reasons :: "string list"

definition WEEKDAYS :: "string list" where
  "WEEKDAYS = [''monday'', ''tuesday'', ''wednesday'', ''thursday'', ''friday'', ''saturday'', ''sunday'']"

text \<open>The Unix epoch was a Thursday.\<close>

definition weekday :: "time \<Rightarrow> nat" where
  "weekday t = nat ((t div (86400 * usec) + 3) mod 7)"

definition str_list :: "string list \<Rightarrow> pyval" where
  "str_list xs = PList (map PStr xs)"

definition resolve :: "decision_context \<Rightarrow> time \<Rightarrow> string \<Rightarrow> pyval" where
  "resolve cx now key =
     (let f = cx_finding cx
      in case map_of
           [(''finding.severity'', PStr (severity_str (f_severity f))),
            (''finding.risk_score'', PFloat (f_risk_score f)),
            (''finding.confidence'', PFloat (f_confidence f)),
            (''finding.rule_id'', PStr (f_rule_id f)),
            (''finding.tags'', str_list (f_tags f)),
            (''finding.tags_any'', str_list (f_tags f)),
            (''finding.status'', PStr (finding_status_str (f_status f))),
            (''finding.count'', PInt (f_count f)),
            (''finding.title'', PStr (f_title f)),
            (''finding.mitre'', str_list (f_mitre f)),
            (''tenant.id'', PStr (t_id (cx_tenant cx))),
            (''tenant.mode'', PStr (mode_str (t_mode (cx_tenant cx)))),
            (''environment'', PStr (cx_environment cx)),
            (''time.hour_utc'', PInt (now div usec mod 86400 div 3600)),
            (''time.weekday'', PStr (WEEKDAYS ! weekday now)),
            (''action.playbook'', dict_val (cx_extra cx) ''playbook'')] key
         of None \<Rightarrow> PNone | Some v \<Rightarrow> v)"

definition explain :: "policy_evaluation \<Rightarrow> string" where
  "explain e =
     pe_policy_id e @ '' '' @ (if pe_matched e then ''correspond'' else ''ne correspond pas'') @ '': ''
       @ join_with '' ; '' (pe_reasons e)"

subsection \<open>Conditions\<close>

fun to_number :: "pyval \<Rightarrow> number option" where
  "to_number (PStr s) = read_number s"
| "to_number v = map_option Fin (num_of v)"

definition numeric_compare :: "number option \<Rightarrow> number option \<Rightarrow> string \<Rightarrow> bool" where
  "numeric_compare l r op =
     (case (l, r) of
        (Some a, Some b) \<Rightarrow>
          if op = ''gt'' then num_less b a
          else if op = ''gte'' then num_less b a \<or> num_eq a b
          else if op = ''lt'' then num_less a b
          else if op = ''lte'' then num_less a b \<or> num_eq a b
          else False
      | _ \<Rightarrow> False)"

definition regex_match :: "regex_engine \<Rightarrow> pyval \<Rightarrow> pyval \<Rightarrow> bool" where
  "regex_match re_compile p v =
     (if v = PNone then False
      else case compile_regex re_compile (py_str p) False of
             Inl _ \<Rightarrow> False
           | Inr search \<Rightarrow> search (take 4096 (py_str v)))"

fun as_list :: "pyval \<Rightarrow> pyval list" where
  "as_list PNone = []"
| "as_list (PList xs) = xs"
| "as_list v = [v]"

definition norm :: "pyval \<Rightarrow> string" where
  "norm v =
     (case v of
        PNone \<Rightarrow> []
      | PBool b \<Rightarrow> if b then ''true'' else ''false''
      | _ \<Rightarrow> str_lower (str_strip (py_str v)))"

definition norms :: "pyval list \<Rightarrow> string list" where
  "norms vs = remdups (map norm vs)"

definition sorted_text :: "string list \<Rightarrow> string" where
  "sorted_text xs = py_repr (str_list (sort xs))"

fun severity_operators :: "string \<Rightarrow> (string \<times> pyval) list \<Rightarrow> (string \<times> pyval) option" where
  "severity_operators actual [] = None"
| "severity_operators actual ((op, v) # rest) =
     (if numeric_compare (Some (Fin (of_int (severity_rank (Some actual)))))
           (Some (Fin (of_int (severity_rank (Some (py_str v)))))) op
      then severity_operators actual rest else Some (op, v))"

definition evaluate_severity :: "pyval \<Rightarrow> pyval \<Rightarrow> bool \<times> string" where
  "evaluate_severity actual expected =
     (let a = py_str actual; rank = severity_rank (Some a)
      in case expected of
           PList xs \<Rightarrow>
             (let ok = rank \<in> set (map (\<lambda>x. severity_rank (Some (py_str x))) xs)
              in (ok, ''finding.severity='' @ a @ (if ok then '' dans '' else '' hors de '')
                      @ sorted_text (map py_str xs)))
         | PDict ops \<Rightarrow>
             (case severity_operators a ops of
                Some (op, v) \<Rightarrow>
                  (False, ''finding.severity='' @ a @ '' ne satisfait pas ''
                          @ quote (op @ '' '' @ py_str v))
              | None \<Rightarrow> (True, ''finding.severity='' @ a @ '' satisfait '' @ py_str expected))
         | _ \<Rightarrow>
             (let ok = rank = severity_rank (Some (py_str expected))
              in (ok, ''finding.severity='' @ a @ (if ok then '' == '' else '' != '')
                      @ py_str expected)))"

text \<open>One comparator of a mapping: \<^const>\<open>None\<close> when it holds, else the explanation of its failure.\<close>

definition operator_failure :: "regex_engine \<Rightarrow> string \<Rightarrow> pyval \<Rightarrow> string \<times> pyval \<Rightarrow> string option" where
  "operator_failure re_compile key actual opv =
     (let op = fst opv; v = snd opv; shown = key @ ''='' @ py_repr actual
      in if op \<in> {''gt'', ''gte'', ''lt'', ''lte''} then
           (if numeric_compare (to_number actual) (to_number v) op then None
            else Some (shown @ '' ne satisfait pas '' @ quote (op @ '' '' @ py_str v)))
         else if op = ''eq'' then
           (if norm actual \<noteq> norm v then Some (shown @ '' != '' @ py_repr v) else None)
         else if op = ''ne'' then
           (if norm actual = norm v then Some (shown @ '' == '' @ py_repr v @ '' (attendu different)'')
            else None)
         else if op \<in> {''in'', ''not_in''} then
           (let candidates = norms (as_list v); found = norm actual \<in> set candidates
            in if op = ''in'' \<and> \<not> found then Some (shown @ '' hors de '' @ sorted_text candidates)
               else if op = ''not_in'' \<and> found
                 then Some (shown @ '' dans '' @ sorted_text candidates @ '' (exclu)'')
               else None)
         else if op = ''matches'' then
           (if regex_match re_compile v actual then None
            else Some (shown @ '' ne correspond pas au motif '' @ py_repr v))
         else Some (key @ '': operateur inconnu '' @ quote op))"

fun evaluate_operators :: "regex_engine \<Rightarrow> string \<Rightarrow> pyval \<Rightarrow> (string \<times> pyval) list \<Rightarrow> string option" where
  "evaluate_operators re_compile key actual [] = None"
| "evaluate_operators re_compile key actual (opv # rest) =
     (case operator_failure re_compile key actual opv of
        Some why \<Rightarrow> Some why
      | None \<Rightarrow> evaluate_operators re_compile key actual rest)"

definition evaluate_key :: "regex_engine \<Rightarrow> string \<Rightarrow> pyval \<Rightarrow> pyval \<Rightarrow> bool \<times> string" where
  "evaluate_key re_compile key actual expected =
     (if key = ''finding.severity'' then evaluate_severity actual expected
      else case expected of
        PDict ops \<Rightarrow>
          (case evaluate_operators re_compile key actual ops of
             Some why \<Rightarrow> (False, why)
           | None \<Rightarrow> (True, key @ ''='' @ py_repr actual @ '' satisfait '' @ py_repr expected))
      | PList xs \<Rightarrow>
          (let required = norms xs; present = norms (as_list actual);
               both = filter (\<lambda>x. x \<in> set present) required
           in if key = ''finding.tags'' then
                (let ok = set required \<subseteq> set present
                 in (ok, key @ ''='' @ sorted_text present
                         @ (if ok then '' contient '' else '' ne contient pas '') @ sorted_text required))
              else if key \<in> {''finding.mitre'', ''finding.tags_any''} then
                (both \<noteq> [], key @ '' inter '' @ sorted_text required @ '' = '' @ sorted_text both)
              else
                (let ok = norm actual \<in> set required
                 in (ok, key @ ''='' @ py_repr actual @ (if ok then '' dans '' else '' hors de '')
                         @ sorted_text required)))
      | _ \<Rightarrow>
          (let ok = norm actual = norm expected
           in (ok, key @ ''='' @ py_repr actual @ (if ok then '' == '' else '' != '') @ py_repr expected)))"

fun evaluate_keys ::
    "regex_engine \<Rightarrow> decision_context \<Rightarrow> time \<Rightarrow> dict \<Rightarrow> string list \<Rightarrow> bool \<times> string list" where
  "evaluate_keys re_compile cx now [] reasons = (True, reasons)"
| "evaluate_keys re_compile cx now ((key, expected) # rest) reasons =
     (case evaluate_key re_compile key (resolve cx now key) expected of
        (ok, reason) \<Rightarrow>
          if \<not> ok then (False, reasons @ [reason])
          else evaluate_keys re_compile cx now rest (reasons @ [reason]))"

definition evaluate_when :: "regex_engine \<Rightarrow> dict \<Rightarrow> decision_context \<Rightarrow> time \<Rightarrow> bool \<times> string list" where
  "evaluate_when re_compile w cx now =
     (if w = [] then (True, [''aucune condition (politique fourre-tout)''])
      else evaluate_keys re_compile cx now w [])"

subsection \<open>Targets of a finding\<close>

text \<open>The samples of a finding are the list of dictionaries the detection engine stores there.\<close>

definition samples_of :: "finding \<Rightarrow> pyval list" where
  "samples_of f = (case dict_val (f_evidence f) ''samples'' of PList xs \<Rightarrow> xs | _ \<Rightarrow> [])"

definition dict_of :: "pyval \<Rightarrow> dict" where
  "dict_of v = (case v of PDict d \<Rightarrow> d | _ \<Rightarrow> [])"

definition HOST_KEYS :: "string list" where
  "HOST_KEYS = [''host'', ''asset'', ''target_host'', ''vhost'', ''server'', ''fqdn'']"

definition TARGET_HINTS :: "string list" where
  "TARGET_HINTS = [''src_ip'', ''source_ip'', ''client_ip'', ''remote_addr'', ''attacker_ip'']"

definition first_label :: "dict \<Rightarrow> string list \<Rightarrow> string option" where
  "first_label labels keys =
     map_option (\<lambda>k. py_str (dict_val labels k)) (find (\<lambda>k. truthy (dict_val labels k)) keys)"

definition sample_labels :: "finding \<Rightarrow> dict" where
  "sample_labels f =
     (let xs = samples_of f
      in if xs = [] then []
         else case last xs of
           PDict s \<Rightarrow>
             (let labels = dict_of (dict_val s ''labels''); host = dict_val (dict_of (dict_val s ''source'')) ''host''
              in if truthy host \<and> \<not> truthy (dict_val labels ''host'') then dict_set ''host'' host labels
                 else labels)
         | _ \<Rightarrow> [])"

definition extract_targets :: "finding \<Rightarrow> string option \<times> string option" where
  "extract_targets f =
     (let labels = sample_labels f in (first_label labels HOST_KEYS, first_label labels TARGET_HINTS))"

definition resolve_param_target :: "finding \<Rightarrow> string option \<Rightarrow> string option" where
  "resolve_param_target f path =
     (if \<not> opt_truthy path then None
      else map_option (\<lambda>s. py_str (deep_get s (the path)))
             (find (\<lambda>s. truthy (deep_get s (the path))) (rev (samples_of f))))"

definition target_type_for :: "string \<Rightarrow> target_type" where
  "target_type_for pb =
     (if pb \<in> {''block-source-ip'', ''rate-limit-source'', ''unblock-source-ip'', ''remove-rate-limit''}
        then T_ip
      else if pb \<in> {''isolate-host'', ''unisolate-host'', ''harden-endpoint''} then T_host
      else if pb \<in> {''quarantine-artifact'', ''restore-artifact''} then T_file
      else if pb = ''patch-dependency'' then T_package
      else if pb = ''rotate-secret'' then T_secret
      else if pb = ''revoke-session'' then T_session
      else T_other)"

subsection \<open>The engine\<close>

record decision_engine =
  de_policies :: "policy list"
  de_settings :: "settings option"
  de_registry :: target_registry
  de_evaluations :: int

definition by_priority :: "policy list \<Rightarrow> policy list" where
  "by_priority ps = sort_key (\<lambda>p. (- po_priority p, po_id p)) ps"

definition new_engine :: "policy list \<Rightarrow> settings option \<Rightarrow> target_registry \<Rightarrow> decision_engine" where
  "new_engine ps st reg =
     \<lparr>de_policies = by_priority ps, de_settings = st, de_registry = reg, de_evaluations = 0\<rparr>"

definition reload :: "policy list \<Rightarrow> decision_engine \<Rightarrow> decision_engine" where
  "reload ps e = e\<lparr>de_policies := by_priority ps\<rparr>"

definition enabled_policies :: "decision_engine \<Rightarrow> policy list" where
  "enabled_policies e = filter po_enabled (de_policies e)"

subsection \<open>Guards\<close>

definition effective_settings :: "decision_engine \<Rightarrow> decision_context \<Rightarrow> settings option" where
  "effective_settings e cx = (case cx_settings cx of None \<Rightarrow> de_settings e | Some s \<Rightarrow> Some s)"

definition dry_run_global :: "decision_engine \<Rightarrow> decision_context \<Rightarrow> bool" where
  "dry_run_global e cx = (case effective_settings e cx of None \<Rightarrow> True | Some s \<Rightarrow> s_dry_run s)"

definition add_guard :: "string \<Rightarrow> string \<Rightarrow> decision_kind \<Rightarrow> decision \<Rightarrow> decision" where
  "add_guard g why k d =
     d\<lparr>d_guards := d_guards d @ [g], d_decision := k, d_reason := d_reason d @ '' | garde-fou : '' @ why\<rparr>"

definition target_protected :: "decision_engine \<Rightarrow> decision_context \<Rightarrow> bool" where
  "target_protected e cx \<longleftrightarrow>
     tenant_is_protected (cx_tenant cx) (cx_target_value cx)
     \<or> tenant_is_protected (cx_tenant cx) (cx_asset_host cx)
     \<or> scope_protects (de_registry e) (t_id (cx_tenant cx)) (cx_target_value cx) (cx_asset_host cx)"

definition scope_verdict :: "decision_engine \<Rightarrow> decision_context \<Rightarrow> string \<Rightarrow> scope_decision" where
  "scope_verdict e cx pb =
     check_action (de_registry e) (t_id (cx_tenant cx)) pb (target_type_for pb) (cx_target_value cx)
       (cx_asset_host cx)"

text \<open>The guard on the declared scope; \<^const>\<open>Inl\<close> is an early return.\<close>

definition scope_guard :: "decision_engine \<Rightarrow> decision_context \<Rightarrow> decision \<Rightarrow> decision + decision" where
  "scope_guard e cx d =
     (case effective_settings e cx of
        None \<Rightarrow> Inr d
      | Some s \<Rightarrow>
          if \<not> s_require_target_declaration s \<or> \<not> opt_truthy (d_playbook d) then Inr d
          else let v = scope_verdict e cx (the (d_playbook d))
               in if \<not> sd_allowed v \<and> \<not> sd_requires_approval v
                    then Inl (add_guard ''out_of_scope'' (sd_reason v) Notify_only d)
                  else if sd_requires_approval v \<and> d_decision d = Auto
                    then Inr (add_guard ''scope_requires_approval'' (sd_reason v) Require_approval d)
                  else Inr d)"

definition critical_threshold :: "decision_engine \<Rightarrow> decision_context \<Rightarrow> rat" where
  "critical_threshold e cx =
     (case effective_settings e cx of None \<Rightarrow> 85 | Some s \<Rightarrow> s_critical_score_threshold s)"

definition mode_guard :: "decision_engine \<Rightarrow> decision_context \<Rightarrow> decision \<Rightarrow> decision" where
  "mode_guard e cx d =
     (let t = cx_tenant cx; score = f_risk_score (cx_finding cx); critical = critical_threshold e cx
      in if d_decision d \<noteq> Auto then d
         else case t_mode t of
           Mode_manual \<Rightarrow>
             add_guard ''tenant_manual''
               (''tenant en mode '' @ quote ''manual'' @ '' (approbation obligatoire)'') Require_approval d
         | Mode_supervised \<Rightarrow>
             if critical \<le> score
               then add_guard ''critical_score_threshold''
                      (''score '' @ fmt_fixed 1 score @ '' au moins egal au seuil critique '' @ fmt_fixed 1 critical
                       @ '' en mode '' @ quote ''supervised'' @ '' - validation humaine requise'')
                      Require_approval d
             else if \<not> allows_automation_for t (cx_target_value cx)
               then add_guard ''autonomy_allowlist''
                      (''cible hors de l'' @ [CHR 0x27] @ ''allowlist d'' @ [CHR 0x27] @ ''autonomie ''
                       @ py_repr (str_list (t_allowlist t)) @ '' - validation humaine requise'')
                      Require_approval d
             else d
         | Mode_auto \<Rightarrow> d)"

definition or_int :: "int option \<Rightarrow> int \<Rightarrow> int" where
  "or_int v d = (case v of None \<Rightarrow> d | Some n \<Rightarrow> if n = 0 then d else n)"

definition hourly_cap :: "decision_context \<Rightarrow> policy \<Rightarrow> int" where
  "hourly_cap cx p = or_int (pt_max_actions (po_then p)) (t_max_actions (cx_tenant cx))"

definition recent_actions :: "decision_context \<Rightarrow> time \<Rightarrow> store \<Rightarrow> int" where
  "recent_actions cx now st = count_actions_since (t_id (cx_tenant cx)) (now - seconds 3600) None True st"

definition cap_reason :: "int \<Rightarrow> int \<Rightarrow> string" where
  "cap_reason cap recent =
     ''plafond de '' @ int_str cap @ '' actions/heure atteint ('' @ int_str recent
       @ '' deja demandees) - protection contre un faux positif massif''"

definition effective_cooldown :: "decision_context \<Rightarrow> decision \<Rightarrow> int" where
  "effective_cooldown cx d = or_int (d_cooldown d) (t_cooldown (cx_tenant cx))"

text \<open>The recent action on the same target, when its cooldown still runs.\<close>

definition cooldown_hit :: "decision_context \<Rightarrow> time \<Rightarrow> store \<Rightarrow> decision \<Rightarrow> action option" where
  "cooldown_hit cx now st d =
     (let c = effective_cooldown cx d
      in if c \<noteq> 0 \<and> opt_truthy (cx_target_value cx) \<and> opt_truthy (d_playbook d)
         then case last_action_for (t_id (cx_tenant cx)) (the (d_playbook d)) (the (cx_target_value cx)) st of
                None \<Rightarrow> None
              | Some a \<Rightarrow>
                  if now - a_requested_at a < seconds c \<and> a_status a \<in> {Succeeded, Executing, Approved}
                  then Some a else None
         else None)"

definition cooldown_reason :: "decision_context \<Rightarrow> time \<Rightarrow> decision \<Rightarrow> action \<Rightarrow> string" where
  "cooldown_reason cx now d a =
     ''cooldown actif pour '' @ quote (the (d_playbook d)) @ '' sur '' @ quote (the (cx_target_value cx))
       @ '' ('' @ int_str (trunc_rat (of_int (now - a_requested_at a) / of_int usec)) @ ''s ecoulees < ''
       @ int_str (effective_cooldown cx d) @ ''s) - action deja appliquee''"

definition dry_run_guard :: "decision_engine \<Rightarrow> decision_context \<Rightarrow> policy \<Rightarrow> decision \<Rightarrow> decision" where
  "dry_run_guard e cx p d =
     (let dry = (if pt_dry_run (po_then p) = Some False then dry_run_global e cx
                 else dry_run_global e cx \<or> t_dry_run (cx_tenant cx));
          d = d\<lparr>d_dry_run := dry\<rparr>
      in if dry
         then add_guard ''dry_run''
                (''mode simulation actif ('' @ (if dry_run_global e cx then ''global'' else ''tenant'')
                 @ '') - aucune action reelle ne sera appliquee'') (d_decision d) d
         else d)"

definition protected_reason :: string where
  "protected_reason =
     ''cible protegee (protected_targets) - automatisation refusee, une action manuelle reste possible''"

definition apply_guards ::
    "decision_engine \<Rightarrow> decision_context \<Rightarrow> policy \<Rightarrow> time \<Rightarrow> store \<Rightarrow> decision \<Rightarrow> decision" where
  "apply_guards e cx p now st d =
     (if target_protected e cx then add_guard ''protected_target'' protected_reason Notify_only d
      else case scope_guard e cx d of
        Inl d \<Rightarrow> d
      | Inr d \<Rightarrow>
          let d = mode_guard e cx d; cap = hourly_cap cx p; recent = recent_actions cx now st
          in if cap \<le> recent then add_guard ''hourly_cap'' (cap_reason cap recent) Notify_only d
             else case cooldown_hit cx now st d of
               Some a \<Rightarrow> add_guard ''cooldown'' (cooldown_reason cx now d a) Notify_only d
             | None \<Rightarrow> dry_run_guard e cx p d)"

subsection \<open>Deciding\<close>

fun select_policy ::
    "regex_engine \<Rightarrow> decision_context \<Rightarrow> time \<Rightarrow> policy list \<Rightarrow> string list \<Rightarrow> policy option \<times> string list"
  where
  "select_policy re_compile cx now [] evaluated = (None, evaluated)"
| "select_policy re_compile cx now (p # ps) evaluated =
     (if fst (evaluate_when re_compile (po_when p) cx now) then (Some p, evaluated @ [po_id p])
      else select_policy re_compile cx now ps (evaluated @ [po_id p]))"

definition default_decision :: "decision_context \<Rightarrow> string list \<Rightarrow> decision" where
  "default_decision cx evaluated =
     \<lparr>d_decision = Notify_only, d_policy_id = None, d_playbook = None, d_params = [],
      d_reason = ''aucune politique correspondante : notification seule par defaut (''
        @ int_str (int (length evaluated)) @ '' politique(s) evaluee(s))'',
      d_risk_score = f_risk_score (cx_finding cx), d_expires_at = None, d_cooldown = None,
      d_dry_run = True, d_evaluated = evaluated, d_guards = [''default_notify_only'']\<rparr>"

definition policy_decision ::
    "regex_engine \<Rightarrow> decision_context \<Rightarrow> time \<Rightarrow> policy \<Rightarrow> string list \<Rightarrow> decision" where
  "policy_decision re_compile cx now p evaluated =
     (let t = po_then p; after = or_int (po_rollback_after p) 0
      in \<lparr>d_decision = pt_decision t, d_policy_id = Some (po_id p), d_playbook = pt_playbook t,
          d_params = pt_params t,
          d_reason = ''politique '' @ quote (po_id p) @ '' (priorite '' @ int_str (po_priority p) @ '') : ''
            @ explain \<lparr>pe_policy_id = po_id p, pe_matched = True,
                        pe_reasons = snd (evaluate_when re_compile (po_when p) cx now)\<rparr>,
          d_risk_score = f_risk_score (cx_finding cx),
          d_expires_at = (if after = 0 then None else Some (now + seconds after)),
          d_cooldown = Some (case pt_cooldown t of Some c \<Rightarrow> c | None \<Rightarrow> t_cooldown (cx_tenant cx)),
          d_dry_run = (case pt_dry_run t of Some b \<Rightarrow> b | None \<Rightarrow> True),
          d_evaluated = evaluated, d_guards = []\<rparr>)"

definition decide ::
    "regex_engine \<Rightarrow> decision_context \<Rightarrow> time \<Rightarrow> store \<Rightarrow> decision_engine \<Rightarrow> decision \<times> decision_engine" where
  "decide re_compile cx now st e =
     ((case select_policy re_compile cx now (enabled_policies e) [] of
         (None, evaluated) \<Rightarrow> default_decision cx evaluated
       | (Some p, evaluated) \<Rightarrow>
           let d = policy_decision re_compile cx now p evaluated
           in if d_decision d = Ignore then d\<lparr>d_guards := d_guards d @ [''explicit_ignore'']\<rparr>
              else if d_decision d = Notify_only then d
              else apply_guards e cx p now st d),
      e\<lparr>de_evaluations := de_evaluations e + 1\<rparr>)"

definition finding_context :: "finding \<Rightarrow> tenant \<Rightarrow> string \<Rightarrow> settings option \<Rightarrow> decision_context" where
  "finding_context f t env st =
     (case extract_targets f of
        (ah, tv) \<Rightarrow>
          \<lparr>cx_finding = f, cx_tenant = t, cx_environment = env, cx_settings = st, cx_asset_host = ah,
           cx_target_value = tv, cx_extra = []\<rparr>)"

definition decide_for_finding ::
    "regex_engine \<Rightarrow> finding \<Rightarrow> tenant \<Rightarrow> string \<Rightarrow> settings option \<Rightarrow> time \<Rightarrow> store \<Rightarrow> decision_engine
       \<Rightarrow> decision \<times> decision_engine" where
  "decide_for_finding re_compile f t env st now s e =
     decide re_compile (finding_context f t env st) now s e"

end
