(* ===== verification/DecisionProps.thy ===== *)
theory DecisionProps
  imports Decision
begin

section \<open>Properties of the decision engine\<close>

text \<open>
  Which policy is selected, what the \<open>when\<close> block means, and what the guards guarantee: an automatic
  decision is characterised exactly, a guard only ever makes a decision more cautious, and a real
  effect needs every simulation switch to be off.
\<close>

subsection \<open>Selection\<close>

definition policy_matches :: "regex_engine \<Rightarrow> decision_context \<Rightarrow> time \<Rightarrow> policy \<Rightarrow> bool" where
  "policy_matches re_compile cx now p \<longleftrightarrow> fst (evaluate_when re_compile (po_when p) cx now)"

definition selected :: "regex_engine \<Rightarrow> decision_context \<Rightarrow> time \<Rightarrow> decision_engine \<Rightarrow> policy option" where
  "selected re_compile cx now e = find (policy_matches re_compile cx now) (enabled_policies e)"

lemma select_policy_find:
  "fst (select_policy re_compile cx now ps evaluated) = find (policy_matches re_compile cx now) ps"
  by (induction ps arbitrary: evaluated) (simp_all add: policy_matches_def)

lemma select_policy_split:
  obtains evaluated where
    "select_policy re_compile cx now (enabled_policies e) [] = (selected re_compile cx now e, evaluated)"
  by (metis select_policy_find selected_def prod.collapse)

lemma find_sorted_least:
  assumes "sorted (map k xs)" and "find P xs = Some x"
  shows "x \<in> {y \<in> set xs. P y} \<and> k x = Min (k ` {y \<in> set xs. P y})"
  using assms
proof (induction xs)
  case (Cons z zs)
  show ?case
  proof (cases "P z")
    case True
    with Cons.prems have "x = z" "P z" by simp_all
    moreover have "k z = Min (k ` {y \<in> set (z # zs). P y})"
      using Cons.prems(1) True by (intro Min_eqI [symmetric]) auto
    ultimately show ?thesis by simp
  next
    case False
    then have "{y \<in> set (z # zs). P y} = {y \<in> set zs. P y}" by auto
    then show ?thesis using Cons False by simp
  qed
qed simp

definition policy_order :: "policy \<Rightarrow> int \<times> string" where
  "policy_order p = (- po_priority p, po_id p)"

definition candidates :: "regex_engine \<Rightarrow> decision_context \<Rightarrow> time \<Rightarrow> policy list \<Rightarrow> policy set" where
  "candidates re_compile cx now ps = {p \<in> set ps. po_enabled p \<and> policy_matches re_compile cx now p}"

lemma enabled_reload: "enabled_policies (reload ps e) = filter po_enabled (sort_key policy_order ps)"
  by (simp add: enabled_policies_def reload_def by_priority_def policy_order_def [abs_def])

text \<open>After a load of the policies, the one that decides is the enabled, matching policy of highest
  priority (the smallest identifier breaks ties), and there is none exactly when no enabled policy
  matches.\<close>

theorem select_highest_priority:
  "case selected re_compile cx now (reload ps e) of
     None \<Rightarrow> candidates re_compile cx now ps = {}
   | Some p \<Rightarrow> p \<in> candidates re_compile cx now ps \<and>
       policy_order p = Min (policy_order ` candidates re_compile cx now ps)"
proof -
  let ?xs = "filter po_enabled (sort_key policy_order ps)"
  have set: "{y \<in> set ?xs. policy_matches re_compile cx now y} = candidates re_compile cx now ps"
    by (auto simp: candidates_def)
  have "sorted (map policy_order ?xs)" by (simp add: sorted_filter)
  note least = find_sorted_least [OF this, of "policy_matches re_compile cx now", unfolded set]
  show ?thesis
  proof (cases "selected re_compile cx now (reload ps e)")
    case None
    then have "candidates re_compile cx now ps = {}"
      by (auto simp: selected_def enabled_reload find_None_iff candidates_def)
    with None show ?thesis by simp
  next
    case (Some p)
    then show ?thesis using least by (simp add: selected_def enabled_reload)
  qed
qed

subsection \<open>Conditions\<close>

definition key_holds :: "regex_engine \<Rightarrow> decision_context \<Rightarrow> time \<Rightarrow> string \<times> pyval \<Rightarrow> bool" where
  "key_holds re_compile cx now kv \<longleftrightarrow>
     fst (evaluate_key re_compile (fst kv) (resolve cx now (fst kv)) (snd kv))"

lemma evaluate_keys_all:
  "fst (evaluate_keys re_compile cx now w reasons) = list_all (key_holds re_compile cx now) w"
  by (induction w arbitrary: reasons) (auto simp: key_holds_def split: prod.splits if_splits)

lemma evaluate_operators_all:
  "evaluate_operators re_compile key a ops = None \<longleftrightarrow>
     list_all (\<lambda>opv. operator_failure re_compile key a opv = None) ops"
  by (induction ops) (auto split: option.splits)

text \<open>A \<open>when\<close> block is the conjunction of its keys, a mapping of comparators the conjunction of its
  comparators, and a list of values a disjunction (on tags, the required ones must all be present).\<close>

theorem when_semantics:
  "fst (evaluate_when re_compile w cx now) = list_all (key_holds re_compile cx now) w \<and>
   fst (evaluate_key re_compile ''finding.risk_score'' a (PDict ops)) =
     list_all (\<lambda>opv. operator_failure re_compile ''finding.risk_score'' a opv = None) ops \<and>
   fst (evaluate_key re_compile ''finding.rule_id'' a (PList vs)) = (norm a \<in> norm ` set vs) \<and>
   fst (evaluate_key re_compile ''finding.tags_any'' a (PList vs)) =
     (norm ` set vs \<inter> norm ` set (as_list a) \<noteq> {}) \<and>
   fst (evaluate_key re_compile ''finding.tags'' a (PList vs)) =
     (norm ` set vs \<subseteq> norm ` set (as_list a))"
proof (intro conjI)
  show "fst (evaluate_when re_compile w cx now) = list_all (key_holds re_compile cx now) w"
    by (simp add: evaluate_when_def evaluate_keys_all)
  show "fst (evaluate_key re_compile ''finding.risk_score'' a (PDict ops)) =
      list_all (\<lambda>opv. operator_failure re_compile ''finding.risk_score'' a opv = None) ops"
    by (auto simp: evaluate_key_def evaluate_operators_all [symmetric] split: option.splits)
qed (auto simp: evaluate_key_def norms_def Let_def filter_empty_conv)

subsection \<open>What each guard changes\<close>

named_theorems guard_simps \<open>the fields a guard leaves alone\<close>

lemma add_guard_fields [simp]:
  "d_decision (add_guard g why k d) = k" "d_playbook (add_guard g why k d) = d_playbook d"
  "d_cooldown (add_guard g why k d) = d_cooldown d" "d_params (add_guard g why k d) = d_params d"
  "d_policy_id (add_guard g why k d) = d_policy_id d" "d_dry_run (add_guard g why k d) = d_dry_run d"
  "d_guards (add_guard g why k d) = d_guards d @ [g]"
  by (simp_all add: add_guard_def)

lemma mode_guard_fields [guard_simps]:
  "d_playbook (mode_guard e cx d) = d_playbook d" "d_cooldown (mode_guard e cx d) = d_cooldown d"
  "d_params (mode_guard e cx d) = d_params d" "d_policy_id (mode_guard e cx d) = d_policy_id d"
  by (simp_all add: mode_guard_def Let_def split: tenant_mode.splits)

lemma dry_run_guard_fields [guard_simps]:
  "d_playbook (dry_run_guard e cx p d) = d_playbook d" "d_params (dry_run_guard e cx p d) = d_params d"
  "d_policy_id (dry_run_guard e cx p d) = d_policy_id d"
  "d_decision (dry_run_guard e cx p d) = d_decision d"
  "d_dry_run (dry_run_guard e cx p d) =
     (dry_run_global e cx \<or> t_dry_run (cx_tenant cx) \<and> pt_dry_run (po_then p) \<noteq> Some False)"
  by (auto simp: dry_run_guard_def Let_def)

lemma dry_run_guard_guards: "set (d_guards d) \<subseteq> set (d_guards (dry_run_guard e cx p d))"
  by (auto simp: dry_run_guard_def Let_def)

lemma cooldown_hit_cong:
  assumes "d_cooldown d = d_cooldown d'" and "d_playbook d = d_playbook d'"
  shows "cooldown_hit cx now st d = cooldown_hit cx now st d'"
  unfolding cooldown_hit_def effective_cooldown_def assms ..

definition scope_clear :: "decision_engine \<Rightarrow> decision_context \<Rightarrow> string option \<Rightarrow> bool" where
  "scope_clear e cx pb \<longleftrightarrow>
     (case effective_settings e cx of
        None \<Rightarrow> True
      | Some s \<Rightarrow> s_require_target_declaration s \<and> opt_truthy pb
                    \<longrightarrow> sd_allowed (scope_verdict e cx (the pb))
                        \<and> \<not> sd_requires_approval (scope_verdict e cx (the pb)))"

definition mode_clear :: "decision_engine \<Rightarrow> decision_context \<Rightarrow> bool" where
  "mode_clear e cx \<longleftrightarrow>
     (case t_mode (cx_tenant cx) of
        Mode_manual \<Rightarrow> False
      | Mode_supervised \<Rightarrow> f_risk_score (cx_finding cx) < critical_threshold e cx
          \<and> allows_automation_for (cx_tenant cx) (cx_target_value cx)
      | Mode_auto \<Rightarrow> True)"

text \<open>The scope is only ever crossed outright by a protected target, which an earlier guard stopped.\<close>

lemma verdict_not_refused:
  "\<not> target_protected e cx \<Longrightarrow>
     sd_allowed (scope_verdict e cx pb) \<or> sd_requires_approval (scope_verdict e cx pb)"
  using check_action_correct [of "de_registry e" "t_id (cx_tenant cx)" pb "target_type_for pb"
      "cx_target_value cx" "cx_asset_host cx"]
  unfolding scope_verdict_def target_protected_def by blast

lemma scope_guard_Inr:
  assumes "\<not> target_protected e cx"
  obtains d' where "scope_guard e cx d = Inr d'" "d_playbook d' = d_playbook d"
    "d_cooldown d' = d_cooldown d" "d_params d' = d_params d" "d_policy_id d' = d_policy_id d"
    "d_decision d' = (if d_decision d = Auto \<and> \<not> scope_clear e cx (d_playbook d) then Require_approval
       else d_decision d)"
    "d_guards d' = d_guards d @ (if d_decision d = Auto \<and> \<not> scope_clear e cx (d_playbook d)
       then [''scope_requires_approval''] else [])"
proof (cases "effective_settings e cx")
  case None
  then show ?thesis by (intro that [of d]) (simp_all add: scope_guard_def scope_clear_def)
next
  case (Some s)
  then show ?thesis
    using verdict_not_refused [OF assms, of "the (d_playbook d)"]
    by (intro that [of "case scope_guard e cx d of Inl d \<Rightarrow> d | Inr d \<Rightarrow> d"])
       (auto simp: scope_guard_def scope_clear_def Let_def)
qed

lemma mode_guard_decision:
  "d_decision (mode_guard e cx d) =
     (if d_decision d = Auto \<and> \<not> mode_clear e cx then Require_approval else d_decision d)"
  by (auto simp: mode_guard_def mode_clear_def Let_def split: tenant_mode.splits)

lemma mode_guard_guards:
  "set (d_guards d) \<subseteq> set (d_guards (mode_guard e cx d)) \<and>
   (d_decision (mode_guard e cx d) = d_decision d \<or>
    set (d_guards (mode_guard e cx d))
      \<inter> {''tenant_manual'', ''critical_score_threshold'', ''autonomy_allowlist''} \<noteq> {})"
  by (auto simp: mode_guard_def Let_def split: tenant_mode.splits)

text \<open>The whole chain of guards, on a decision that asks for an action.\<close>

lemma apply_guards_decision:
  "d_decision (apply_guards e cx p now st d) =
     (if target_protected e cx \<or> hourly_cap cx p \<le> recent_actions cx now st \<or> cooldown_hit cx now st d \<noteq> None
        then Notify_only
      else if d_decision d = Auto \<and> \<not> (scope_clear e cx (d_playbook d) \<and> mode_clear e cx)
        then Require_approval
      else d_decision d)"
proof (cases "target_protected e cx")
  case False
  from scope_guard_Inr [OF False, of d] obtain d' where
    d': "scope_guard e cx d = Inr d'" "d_playbook d' = d_playbook d" "d_cooldown d' = d_cooldown d"
      "d_decision d' = (if d_decision d = Auto \<and> \<not> scope_clear e cx (d_playbook d) then Require_approval
         else d_decision d)" by blast
  have hit: "cooldown_hit cx now st (mode_guard e cx d') = cooldown_hit cx now st d"
    by (rule cooldown_hit_cong) (simp_all add: guard_simps d')
  show ?thesis
    using False
    by (auto simp: apply_guards_def d'(1) Let_def hit mode_guard_decision d'(4) guard_simps
        split: option.splits)
qed (simp add: apply_guards_def)

lemma apply_guards_fields:
  "d_playbook (apply_guards e cx p now st d) = d_playbook d \<and>
   d_params (apply_guards e cx p now st d) = d_params d \<and>
   d_policy_id (apply_guards e cx p now st d) = d_policy_id d"
proof (cases "target_protected e cx")
  case False
  from scope_guard_Inr [OF False, of d] obtain d' where
    "scope_guard e cx d = Inr d'" "d_playbook d' = d_playbook d" "d_params d' = d_params d"
    "d_policy_id d' = d_policy_id d" by blast
  then show ?thesis
    using False by (simp add: apply_guards_def Let_def guard_simps split: option.splits)
qed (simp add: apply_guards_def)

lemma apply_guards_dry_run:
  "d_decision (apply_guards e cx p now st d) \<in> {Auto, Require_approval} \<Longrightarrow>
   d_dry_run (apply_guards e cx p now st d) =
     (dry_run_global e cx \<or> t_dry_run (cx_tenant cx) \<and> pt_dry_run (po_then p) \<noteq> Some False)"
proof (cases "target_protected e cx")
  case False
  assume acts: "d_decision (apply_guards e cx p now st d) \<in> {Auto, Require_approval}"
  from scope_guard_Inr [OF False, of d] obtain d' where "scope_guard e cx d = Inr d'" by blast
  then show ?thesis
    using False acts by (auto simp: apply_guards_def Let_def guard_simps split: option.splits if_splits)
qed (auto simp: apply_guards_def)

definition downgrades :: "string set" where
  "downgrades = {''protected_target'', ''scope_requires_approval'', ''tenant_manual'',
     ''critical_score_threshold'', ''autonomy_allowlist'', ''hourly_cap'', ''cooldown''}"

lemma apply_guards_logged:
  "d_decision (apply_guards e cx p now st d) = d_decision d \<or>
   set (d_guards (apply_guards e cx p now st d)) \<inter> downgrades \<noteq> {}"
proof (cases "target_protected e cx")
  case False
  from scope_guard_Inr [OF False, of d] obtain d' where
    d': "scope_guard e cx d = Inr d'"
      "d_decision d' = (if d_decision d = Auto \<and> \<not> scope_clear e cx (d_playbook d) then Require_approval
         else d_decision d)"
      "d_guards d' = d_guards d @ (if d_decision d = Auto \<and> \<not> scope_clear e cx (d_playbook d)
         then [''scope_requires_approval''] else [])" by blast
  have scope: "d_decision d' = d_decision d \<or> ''scope_requires_approval'' \<in> set (d_guards d')"
    by (simp add: d')
  have "d_decision (mode_guard e cx d') = d_decision d \<or> set (d_guards (mode_guard e cx d')) \<inter> downgrades \<noteq> {}"
    using scope mode_guard_guards [of d' e cx] unfolding downgrades_def by auto
  moreover have "set (d_guards (mode_guard e cx d')) \<subseteq> set (d_guards (dry_run_guard e cx p (mode_guard e cx d')))"
    by (rule dry_run_guard_guards)
  ultimately have "d_decision (dry_run_guard e cx p (mode_guard e cx d')) = d_decision d \<or>
      set (d_guards (dry_run_guard e cx p (mode_guard e cx d'))) \<inter> downgrades \<noteq> {}"
    by (auto simp: guard_simps)
  then show ?thesis
    using False by (simp add: apply_guards_def d'(1) Let_def downgrades_def split: option.splits)
qed (simp add: apply_guards_def downgrades_def)

subsection \<open>Decisions\<close>

definition policy_base :: "regex_engine \<Rightarrow> decision_context \<Rightarrow> time \<Rightarrow> policy \<Rightarrow> decision" where
  "policy_base re_compile cx now p = policy_decision re_compile cx now p []"

lemma policy_decision_fields [simp]:
  "d_decision (policy_decision re_compile cx now p ev) = pt_decision (po_then p)"
  "d_playbook (policy_decision re_compile cx now p ev) = pt_playbook (po_then p)"
  "d_params (policy_decision re_compile cx now p ev) = pt_params (po_then p)"
  "d_policy_id (policy_decision re_compile cx now p ev) = Some (po_id p)"
  by (simp_all add: policy_decision_def Let_def)

lemma decide_None:
  "selected re_compile cx now e = None \<Longrightarrow>
     \<exists>ev. fst (decide re_compile cx now st e) = default_decision cx ev"
  by (rule select_policy_split [of re_compile cx now e]) (auto simp: decide_def)

lemma decide_Some:
  assumes "selected re_compile cx now e = Some p"
  obtains ev where "fst (decide re_compile cx now st e) =
    (let d = policy_decision re_compile cx now p ev
     in if pt_decision (po_then p) = Ignore then d\<lparr>d_guards := d_guards d @ [''explicit_ignore'']\<rparr>
        else if pt_decision (po_then p) = Notify_only then d
        else apply_guards e cx p now st d)"
  using assms
  by (cases rule: select_policy_split [of re_compile cx now e])
     (auto simp: decide_def Let_def intro: that)

text \<open>C4: A finding is handled automatically exactly when the selected policy asks for it and every guard
  agrees: the target and the asset are not protected, the declared scope covers the action, the
  tenant's mode permits it (never in manual mode; in supervised mode only below the critical score and
  inside the allowlist), fewer actions than the hourly cap were requested in the last hour, and no
  cooldown runs on the target.\<close>

theorem decide_auto_exact:
  "d_decision (fst (decide re_compile cx now st e)) = Auto \<longleftrightarrow>
     (\<exists>p. selected re_compile cx now e = Some p \<and> pt_decision (po_then p) = Auto \<and>
        \<not> target_protected e cx \<and> scope_clear e cx (pt_playbook (po_then p)) \<and> mode_clear e cx \<and>
        recent_actions cx now st < hourly_cap cx p \<and>
        cooldown_hit cx now st (policy_base re_compile cx now p) = None)"
proof (cases "selected re_compile cx now e")
  case None
  then show ?thesis using decide_None [OF None, of st] by (auto simp: default_decision_def)
next
  case (Some p)
  from Some obtain ev where d: "fst (decide re_compile cx now st e) =
    (let d = policy_decision re_compile cx now p ev
     in if pt_decision (po_then p) = Ignore then d\<lparr>d_guards := d_guards d @ [''explicit_ignore'']\<rparr>
        else if pt_decision (po_then p) = Notify_only then d
        else apply_guards e cx p now st d)" by (rule decide_Some [of _ _ _ _ _ st])
  have hit: "cooldown_hit cx now st (policy_decision re_compile cx now p ev)
      = cooldown_hit cx now st (policy_base re_compile cx now p)"
    by (rule cooldown_hit_cong) (simp_all add: policy_base_def policy_decision_def Let_def)
  show ?thesis
    unfolding d Some
    by (cases "pt_decision (po_then p)") (simp_all add: apply_guards_decision hit not_le conj_ac Let_def)
qed

fun caution :: "decision_kind \<Rightarrow> nat" where
  "caution Auto = 0"
| "caution Require_approval = 1"
| "caution Notify_only = 2"
| "caution Ignore = 3"

text \<open>The guards only ever make a decision more cautious: the decision keeps the playbook and the
  parameters of the selected policy, is never more permissive than the policy asked, and every
  difference is justified by a guard recorded in it.  Without a matching policy the decision is a
  notification that names no playbook.\<close>

theorem guards_only_restrict:
  "case selected re_compile cx now e of
     None \<Rightarrow> d_decision (fst (decide re_compile cx now st e)) = Notify_only
       \<and> d_playbook (fst (decide re_compile cx now st e)) = None
   | Some p \<Rightarrow>
       caution (pt_decision (po_then p)) \<le> caution (d_decision (fst (decide re_compile cx now st e))) \<and>
       d_policy_id (fst (decide re_compile cx now st e)) = Some (po_id p) \<and>
       d_playbook (fst (decide re_compile cx now st e)) = pt_playbook (po_then p) \<and>
       d_params (fst (decide re_compile cx now st e)) = pt_params (po_then p) \<and>
       (d_decision (fst (decide re_compile cx now st e)) = pt_decision (po_then p) \<or>
        list_ex (\<lambda>g. g \<in> downgrades) (d_guards (fst (decide re_compile cx now st e))))"
proof (cases "selected re_compile cx now e")
  case None
  then show ?thesis using decide_None [OF None, of st] by (auto simp: default_decision_def)
next
  case (Some p)
  from Some obtain ev where d: "fst (decide re_compile cx now st e) =
    (let d = policy_decision re_compile cx now p ev
     in if pt_decision (po_then p) = Ignore then d\<lparr>d_guards := d_guards d @ [''explicit_ignore'']\<rparr>
        else if pt_decision (po_then p) = Notify_only then d
        else apply_guards e cx p now st d)" by (rule decide_Some [of _ _ _ _ _ st])
  let ?d = "policy_decision re_compile cx now p ev"
  have kind: "caution (pt_decision (po_then p)) \<le> caution (d_decision (apply_guards e cx p now st ?d))"
    if "pt_decision (po_then p) \<noteq> Ignore"
    using that by (cases "pt_decision (po_then p)") (simp_all add: apply_guards_decision)
  show ?thesis
    unfolding d Some
    using kind apply_guards_logged [of e cx p now st ?d] apply_guards_fields [of e cx p now st ?d]
    by (auto simp: Let_def list_ex_iff)
qed

text \<open>A decision leads to a real effect exactly when it triggers an action and no simulation switch
  applies: the global one is off, and the tenant's is off or lifted by the policy.\<close>

theorem real_effect_exact:
  "triggers_action (fst (decide re_compile cx now st e)) \<and> \<not> d_dry_run (fst (decide re_compile cx now st e))
   \<longleftrightarrow> (\<exists>p. selected re_compile cx now e = Some p \<and> triggers_action (fst (decide re_compile cx now st e)) \<and>
         \<not> dry_run_global e cx \<and> \<not> (t_dry_run (cx_tenant cx) \<and> pt_dry_run (po_then p) \<noteq> Some False))"
proof (cases "selected re_compile cx now e")
  case None
  then show ?thesis using decide_None [OF None, of st] by (auto simp: default_decision_def triggers_action_def)
next
  case (Some p)
  from Some obtain ev where d: "fst (decide re_compile cx now st e) =
    (let d = policy_decision re_compile cx now p ev
     in if pt_decision (po_then p) = Ignore then d\<lparr>d_guards := d_guards d @ [''explicit_ignore'']\<rparr>
        else if pt_decision (po_then p) = Notify_only then d
        else apply_guards e cx p now st d)" by (rule decide_Some [of _ _ _ _ _ st])
  show ?thesis
    unfolding d Some
    using apply_guards_dry_run [of e cx p now st "policy_decision re_compile cx now p ev"]
    by (auto simp: Let_def triggers_action_def)
qed

text \<open>The guard \<open>out_of_scope\<close> never fires: only a protected target is refused outright, and it was
  stopped before.\<close>

theorem out_of_scope_unreachable:
  "\<not> target_protected e cx \<longrightarrow> (\<exists>d'. scope_guard e cx d = Inr d')"
  using scope_guard_Inr [of e cx d] by blast

end
