(* ===== verification/Connectors.thy ===== *)
theory Connectors
  imports Util
begin

section \<open>Connectors and their registry\<close>

text \<open>
  \<open>actions/connectors/base.py\<close>, \<open>simulation.py\<close> and \<open>actions/registry.py\<close>: the only place where the
  program acts on the outside world.  What an operation of a native driver does out there (an HTTP
  call, a file, a command) is a parameter \<open>w_handler\<close> of the world: it may depend on every earlier
  operation, and returns a result or raises.  The state keeps the log of the operations handed to the
  handlers, so that ``no real effect'' is a statement about that log.  Durations are measured as 0.
\<close>

definition OPERATIONS :: "string list" where
  "OPERATIONS =
     [''block_ip'', ''unblock_ip'', ''rate_limit'', ''remove_rate_limit'', ''quarantine_file'',
      ''restore_file'', ''isolate_host'', ''unisolate_host'', ''revoke_session'', ''rotate_secret'',
      ''patch_dependency'', ''harden_endpoint'', ''open_ticket'', ''close_ticket'', ''notify'']"

record connector_result =
  cr_ok :: bool
  cr_operation :: string
  cr_connector :: string
  cr_detail :: string
  cr_simulated :: bool
  cr_data :: dict
  cr_error :: "string option"
  cr_rollback_token :: "string option"

definition result_to_dict :: "connector_result \<Rightarrow> dict" where
  "result_to_dict r =
     [(''ok'', PBool (cr_ok r)), (''connector'', PStr (cr_connector r)),
      (''operation'', PStr (cr_operation r)), (''detail'', PStr (cr_detail r)),
      (''simulated'', PBool (cr_simulated r)), (''data'', PDict (cr_data r)),
      (''error'', opt_str (cr_error r)), (''duration_ms'', PFloat 0),
      (''rollback_token'', opt_str (cr_rollback_token r))]"

text \<open>The outcome of a handler: a result, \<open>ConnectorNotConfiguredError\<close>, or any other exception.\<close>

datatype handler_outcome = Returned connector_result | Not_configured string | Raised string

text \<open>One operation handed to a native driver.\<close>

record effect =
  fx_driver :: string
  fx_operation :: string
  fx_params :: dict

record world =
  w_handler :: "effect list \<Rightarrow> effect \<Rightarrow> handler_outcome"
  w_absolute :: "string option \<Rightarrow> string \<Rightarrow> string"
  w_uuid :: "nat \<Rightarrow> string"

record connector =
  cn_driver :: string
  cn_settings :: dict
  cn_dry_run :: bool
  cn_calls :: int
  cn_failures :: int

subsection \<open>Masking of sensitive parameters\<close>

definition SENSITIVE_KEYS :: "string list" where
  "SENSITIVE_KEYS = [''token'', ''secret'', ''password'', ''api_key'', ''apikey'', ''authorization'', ''key'']"

definition sensitive :: "string \<Rightarrow> bool" where
  "sensitive k \<longleftrightarrow> list_ex (\<lambda>m. sublist m (str_lower k)) SENSITIVE_KEYS"

primrec redact_value :: "pyval \<Rightarrow> pyval" where
  "redact_value PNone = PNone"
| "redact_value (PBool b) = PBool b"
| "redact_value (PInt i) = PInt i"
| "redact_value (PFloat x) = PFloat x"
| "redact_value (PStr s) = PStr s"
| "redact_value (PTime t) = PTime t"
| "redact_value (PList xs) = PList xs"
| "redact_value (PDict d) =
     PDict (map (\<lambda>(k, v). (k, if sensitive k then PStr ''<redacted>'' else v)) (map (map_prod id redact_value) d))"

definition redact_params :: "dict \<Rightarrow> dict" where
  "redact_params d =
     map (\<lambda>(k, v). (k, if sensitive k then PStr ''<redacted>'' else redact_value v)) d"

subsection \<open>Drivers\<close>

definition driver_capabilities :: "(string \<times> string list) list" where
  "driver_capabilities =
     [(''simulation'', OPERATIONS),
      (''nginx-local'', [''block_ip'', ''unblock_ip'', ''rate_limit'', ''remove_rate_limit'']),
      (''local-quarantine'', [''quarantine_file'', ''restore_file'']),
      (''local-ticket'', [''open_ticket'', ''close_ticket'', ''notify'']),
      (''http-webhook'', OPERATIONS),
      (''cloudflare'', [''block_ip'', ''unblock_ip'', ''rate_limit'', ''remove_rate_limit'']),
      (''aws-waf'', [''block_ip'', ''unblock_ip'']),
      (''slack'', [''notify'']),
      (''github-issues'', [''open_ticket'', ''close_ticket''])]"

definition DRIVERS :: "string list" where
  "DRIVERS = map fst driver_capabilities"

definition capabilities :: "connector \<Rightarrow> string list" where
  "capabilities c = (case map_of driver_capabilities (cn_driver c) of None \<Rightarrow> [] | Some ops \<Rightarrow> ops)"

definition supports :: "connector \<Rightarrow> string \<Rightarrow> bool" where
  "supports c operation \<longleftrightarrow> operation \<in> set (capabilities c)"

subsection \<open>Registry\<close>

record connector_conf =
  cc_driver :: string
  cc_settings :: dict

definition conf :: "string \<Rightarrow> dict \<Rightarrow> connector_conf" where
  "conf d st = \<lparr>cc_driver = d, cc_settings = st\<rparr>"

definition DEFAULT_CONNECTORS :: "(string \<times> connector_conf) list" where
  "DEFAULT_CONNECTORS =
     map (\<lambda>n. (n, conf ''simulation'' []))
       [''waf'', ''ratelimit'', ''endpoint'', ''network'', ''iam'', ''secretstore'', ''ci'', ''harden'', ''notify'']
     @ [(''artifact'', conf ''local-quarantine'' [(''quarantine_dir'', PStr ''./data/quarantine'')]),
        (''ticketing'', conf ''local-ticket'' [(''directory'', PStr ''./data/tickets'')])]"

definition PATH_SETTINGS :: "(string \<times> (string \<times> string) list) list" where
  "PATH_SETTINGS =
     [(''nginx-local'', [(''deny_file'', ''./data/actions/nginx-deny.conf''),
                         (''state_file'', ''./data/actions/nginx-state.json'')]),
      (''local-quarantine'', [(''quarantine_dir'', ''./data/quarantine'')]),
      (''local-ticket'', [(''directory'', ''./data/tickets'')])]"

record connector_registry =
  cg_configuration :: "(string \<times> connector_conf) list"
  cg_dry_run :: bool
  cg_source :: "string option"
  cg_root_dir :: "string option"
  cg_instances :: "(string \<times> connector) list"
  cg_unknown :: "string list"

definition new_registry ::
    "(string \<times> connector_conf) list \<Rightarrow> bool \<Rightarrow> string option \<Rightarrow> string option \<Rightarrow> connector_registry" where
  "new_registry configuration dry source rdir =
     \<lparr>cg_configuration = (if configuration = [] then DEFAULT_CONNECTORS else configuration),
      cg_dry_run = dry, cg_source = source, cg_root_dir = rdir, cg_instances = [], cg_unknown = []\<rparr>"

text \<open>
  \<open>from_file\<close> after the YAML parse; \<^const>\<open>None\<close> is a missing or unreadable file.  Settings that are
  not a mapping are kept out of the model.
\<close>

fun merge_connectors :: "(string \<times> pyval) list \<Rightarrow> (string \<times> connector_conf) list \<Rightarrow> (string \<times> connector_conf) list"
  where
  "merge_connectors [] acc = acc"
| "merge_connectors ((n, PStr d) # rest) acc = merge_connectors rest (dict_set n (conf d []) acc)"
| "merge_connectors ((n, PDict b) # rest) acc =
     merge_connectors rest
       (dict_set n (conf (if truthy (dict_val b ''driver'') then py_str (dict_val b ''driver'') else ''simulation'')
                         (case dict_val b ''settings'' of PDict st \<Rightarrow> st | _ \<Rightarrow> [])) acc)"
| "merge_connectors (_ # rest) acc = merge_connectors rest acc"

definition registry_from_file :: "string \<Rightarrow> pyval option \<Rightarrow> bool \<Rightarrow> string option \<Rightarrow> exn + connector_registry" where
  "registry_from_file path parsed dry rdir =
     (case parsed of
        None \<Rightarrow> Inr (new_registry [] dry (Some path) rdir)
      | Some doc \<Rightarrow>
          (case (if truthy doc then doc else PDict []) of
             PDict d \<Rightarrow>
               (case (if truthy (dict_val d ''connectors'') then dict_val d ''connectors'' else PDict []) of
                  PDict cs \<Rightarrow> Inr (new_registry (merge_connectors cs DEFAULT_CONNECTORS) dry (Some path) rdir)
                | _ \<Rightarrow> Inr (new_registry [] dry (Some path) rdir))
           | v \<Rightarrow> Inl (Foreign ''AttributeError''
                   ([CHR 0x27] @ type_name v @ [CHR 0x27] @ '' object has no attribute ''
                    @ [CHR 0x27] @ ''get'' @ [CHR 0x27]))))"

definition absolute_setting :: "world \<Rightarrow> string option \<Rightarrow> pyval \<Rightarrow> pyval \<Rightarrow> pyval" where
  "absolute_setting w rdir old raw =
     (case raw of
        PStr s \<Rightarrow> PStr (w_absolute w rdir s)
      | PList xs \<Rightarrow>
          PList (map (\<lambda>x. case x of PStr s \<Rightarrow> if s = [] then x else PStr (w_absolute w rdir s) | _ \<Rightarrow> x) xs)
      | _ \<Rightarrow> old)"

definition resolve_path :: "world \<Rightarrow> string option \<Rightarrow> string \<times> string \<Rightarrow> dict \<Rightarrow> dict" where
  "resolve_path w rdir kd st =
     (let v = dict_val st (fst kd); raw = (if truthy v then v else PStr (snd kd))
      in case raw of
           PStr _ \<Rightarrow> dict_set (fst kd) (absolute_setting w rdir v raw) st
         | PList _ \<Rightarrow> dict_set (fst kd) (absolute_setting w rdir v raw) st
         | _ \<Rightarrow> st)"

definition resolve_paths :: "world \<Rightarrow> string option \<Rightarrow> string \<Rightarrow> dict \<Rightarrow> dict" where
  "resolve_paths w rdir driver st =
     (case map_of PATH_SETTINGS driver of None \<Rightarrow> st | Some keys \<Rightarrow> fold (resolve_path w rdir) keys st)"

subsection \<open>State of an execution\<close>

record exec_state =
  ex_registry :: connector_registry
  ex_effects :: "effect list"

type_synonym 'a exec_op = "(exec_state, exn, 'a) op"

definition driver_for :: "connector_registry \<Rightarrow> string \<Rightarrow> string \<times> dict" where
  "driver_for g key =
     (let chosen =
        (case map_of (cg_configuration g) key of
           None \<Rightarrow> if key \<in> set DRIVERS then (key, []) else (''simulation'', [])
         | Some b \<Rightarrow> (if cc_driver b = [] then ''simulation'' else cc_driver b, cc_settings b))
      in if fst chosen \<in> set DRIVERS then chosen else (''simulation'', snd chosen))"

definition registry_key :: "string \<Rightarrow> string" where
  "registry_key name = str_lower (str_strip name)"

definition note_unknown :: "string \<Rightarrow> connector_registry \<Rightarrow> connector_registry" where
  "note_unknown key g =
     (if map_of (cg_configuration g) key = None \<and> key \<notin> set DRIVERS \<and> key \<notin> set (cg_unknown g)
      then g\<lparr>cg_unknown := cg_unknown g @ [key]\<rparr> else g)"

text \<open>\<open>get\<close>: the instance of a logical name, created on first use; an instance is known by its key.\<close>

definition registry_get :: "world \<Rightarrow> string \<Rightarrow> exec_state \<Rightarrow> connector \<times> exec_state" where
  "registry_get w name s =
     (let g = ex_registry s; key = registry_key name
      in case map_of (cg_instances g) key of
           Some c \<Rightarrow> (c, s)
         | None \<Rightarrow>
             let (driver, st) = driver_for g key;
                 c = \<lparr>cn_driver = driver, cn_settings = resolve_paths w (cg_root_dir g) driver st,
                      cn_dry_run = cg_dry_run g, cn_calls = 0, cn_failures = 0\<rparr>;
                 g = note_unknown key g
             in (c, s\<lparr>ex_registry := g\<lparr>cg_instances := dict_set key c (cg_instances g)\<rparr>\<rparr>))"

definition put_instance :: "string \<Rightarrow> connector \<Rightarrow> exec_state \<Rightarrow> exec_state" where
  "put_instance name c s =
     s\<lparr>ex_registry := (ex_registry s)
         \<lparr>cg_instances := dict_set (registry_key name) c (cg_instances (ex_registry s))\<rparr>\<rparr>"

definition set_dry_run :: "bool \<Rightarrow> connector_registry \<Rightarrow> connector_registry" where
  "set_dry_run dry g =
     g\<lparr>cg_dry_run := dry, cg_instances := map (\<lambda>(k, c). (k, c\<lparr>cn_dry_run := dry\<rparr>)) (cg_instances g)\<rparr>"

subsection \<open>Calls\<close>

definition failure :: "connector \<Rightarrow> string \<Rightarrow> string \<Rightarrow> connector_result" where
  "failure c operation err =
     \<lparr>cr_ok = False, cr_operation = operation, cr_connector = cn_driver c, cr_detail = [],
      cr_simulated = False, cr_data = [], cr_error = Some err, cr_rollback_token = None\<rparr>"

definition quoted :: "string \<Rightarrow> string" where
  "quoted s = [CHR 0x27] @ s @ [CHR 0x27]"

definition simulation_call :: "connector \<Rightarrow> string \<Rightarrow> dict \<Rightarrow> connector_result" where
  "simulation_call c operation params =
     (if \<not> supports c operation
        then failure c operation
               (''operation '' @ quoted operation @ '' non supportee par le connecteur de simulation'')
      else \<lparr>cr_ok = True, cr_operation = operation, cr_connector = cn_driver c,
            cr_detail = ''[simulation] aucune action reelle : le connecteur '' @ quoted ''simulation''
              @ '' est actif (operation '' @ quoted operation
              @ ''). Configurez config/connectors.yaml pour agir reellement.'',
            cr_simulated = True,
            cr_data = [(''params_echo'', PDict (redact_params params)), (''would_have_called'', PStr operation)],
            cr_error = None, cr_rollback_token = Some (''simulation:'' @ operation)\<rparr>)"

definition dry_run_result :: "connector \<Rightarrow> string \<Rightarrow> dict \<Rightarrow> connector_result" where
  "dry_run_result c operation params =
     \<lparr>cr_ok = True, cr_operation = operation, cr_connector = cn_driver c,
      cr_detail = ''[simulation] '' @ operation @ '' n'' @ [CHR 0x27] @ ''a pas ete applique (dry-run actif)'',
      cr_simulated = True, cr_data = [(''params_echo'', PDict (redact_params params))], cr_error = None,
      cr_rollback_token = None\<rparr>"

text \<open>
  \<open>Connector.call\<close>, with the effect handed to the world when there is one.  Every native driver of
  the registry defines a handler for each of its capabilities.
\<close>

definition call :: "world \<Rightarrow> effect list \<Rightarrow> connector \<Rightarrow> string \<Rightarrow> dict \<Rightarrow> connector_result \<times> effect list" where
  "call w fxs c operation params =
     (if cn_driver c = ''simulation'' then (simulation_call c operation params, fxs)
      else if \<not> supports c operation
        then (failure c operation (''operation '' @ quoted operation @ '' non supportee par le connecteur ''
                @ quoted (cn_driver c)), fxs)
      else if cn_dry_run c then (dry_run_result c operation params, fxs)
      else let fx = \<lparr>fx_driver = cn_driver c, fx_operation = operation, fx_params = params\<rparr>
           in (case w_handler w fxs fx of
                 Not_configured exc \<Rightarrow> failure c operation (''connecteur non configure: '' @ exc)
               | Raised exc \<Rightarrow> failure c operation exc
               | Returned r \<Rightarrow> r\<lparr>cr_operation := operation, cr_connector := cn_driver c\<rparr>,
               fxs @ [fx]))"

definition count_call :: "connector_result \<Rightarrow> connector \<Rightarrow> connector" where
  "count_call r c =
     c\<lparr>cn_calls := cn_calls c + 1, cn_failures := cn_failures c + (if cr_ok r then 0 else 1)\<rparr>"

text \<open>
  What the executor does with one step: fetch the connector, impose the mode of the action on it, and
  call it.
\<close>

definition invoke :: "world \<Rightarrow> bool \<Rightarrow> string \<Rightarrow> string \<Rightarrow> dict \<Rightarrow> exec_state \<Rightarrow> connector_result \<times> exec_state" where
  "invoke w dry name operation params s =
     (let (c, s) = registry_get w name s;
          c = c\<lparr>cn_dry_run := dry\<rparr>;
          (r, fxs) = call w (ex_effects s) c operation params
      in (r, (put_instance name (count_call r c) s)\<lparr>ex_effects := fxs\<rparr>))"

subsection \<open>What a caller may rely on\<close>

text \<open>
  The contract of an effector, as the executor uses it: an invocation in simulation mode leaves the
  world alone, and any invocation hands over at most the operation it was asked for.
\<close>

type_synonym request = "string \<times> string \<times> dict"

fun run_calls ::
    "(string \<Rightarrow> string \<Rightarrow> dict \<Rightarrow> 's \<Rightarrow> connector_result \<times> 's) \<Rightarrow> request list \<Rightarrow> 's \<Rightarrow> 's" where
  "run_calls act [] s = s"
| "run_calls act ((n, operation, params) # cs) s = run_calls act cs (snd (act n operation params s))"

definition fx_request :: "effect \<Rightarrow> string \<times> dict" where
  "fx_request fx = (fx_operation fx, fx_params fx)"

locale effector =
  fixes act :: "bool \<Rightarrow> string \<Rightarrow> string \<Rightarrow> dict \<Rightarrow> 's \<Rightarrow> connector_result \<times> 's"
    and effects :: "'s \<Rightarrow> effect list"
  assumes dry_inert: "effects (snd (act True n operation params s)) = effects s"
    and dry_simulated: "cr_ok (fst (act True n operation params s)) \<Longrightarrow> cr_simulated (fst (act True n operation params s))"
    and asked_only: "effects (snd (act dry n operation params s)) = effects s \<or>
      (\<exists>fx. effects (snd (act dry n operation params s)) = effects s @ [fx] \<and> fx_request fx = (operation, params))"
begin

lemma run_calls_dry: "effects (run_calls (act True) cs s) = effects s"
  by (induction cs arbitrary: s) (auto simp: dry_inert)

lemma run_calls_asked:
  "\<exists>fxs. effects (run_calls (act dry) cs s) = effects s @ fxs \<and> subseq (map fx_request fxs) (map snd cs)"
proof (induction cs arbitrary: s)
  case (Cons c cs)
  obtain n operation params where c: "c = (n, operation, params)" by (cases c)
  let ?s = "snd (act dry n operation params s)"
  obtain fxs where fxs: "effects (run_calls (act dry) cs ?s) = effects ?s @ fxs"
    "subseq (map fx_request fxs) (map snd cs)"
    using Cons.IH by blast
  show ?case
    using asked_only [of dry n operation params s]
  proof
    assume "effects ?s = effects s"
    with fxs show ?thesis by (auto simp: c intro!: exI [of _ fxs])
  next
    assume "\<exists>fx. effects ?s = effects s @ [fx] \<and> fx_request fx = (operation, params)"
    then obtain fx where "effects ?s = effects s @ [fx]" "fx_request fx = (operation, params)" by blast
    with fxs show ?thesis by (auto simp: c intro!: exI [of _ "fx # fxs"])
  qed
qed simp

end

lemma registry_get_effects [simp]: "ex_effects (snd (registry_get w n s)) = ex_effects s"
  by (simp add: registry_get_def Let_def split: option.split prod.split)

lemma call_dry: "cn_dry_run c \<Longrightarrow> snd (call w fxs c operation params) = fxs"
  by (simp add: call_def)

lemma call_simulation: "cn_driver c = ''simulation'' \<Longrightarrow> snd (call w fxs c operation params) = fxs"
  by (simp add: call_def)

lemma call_asked:
  "snd (call w fxs c operation params) = fxs \<or>
   (\<exists>fx. snd (call w fxs c operation params) = fxs @ [fx] \<and> fx_request fx = (operation, params))"
  by (auto simp: call_def fx_request_def Let_def)

lemma call_dry_simulated:
  "cn_dry_run c \<Longrightarrow> cr_ok (fst (call w fxs c operation params)) \<Longrightarrow>
     cr_simulated (fst (call w fxs c operation params))"
  by (auto simp: call_def simulation_call_def failure_def dry_run_result_def split: if_splits)

lemma invoke_effects:
  "ex_effects (snd (invoke w dry n operation params s)) =
     snd (call w (ex_effects s) ((fst (registry_get w n s))\<lparr>cn_dry_run := dry\<rparr>) operation params)"
  by (simp add: invoke_def Let_def split_beta)

lemma invoke_result:
  "fst (invoke w dry n operation params s) =
     fst (call w (ex_effects s) ((fst (registry_get w n s))\<lparr>cn_dry_run := dry\<rparr>) operation params)"
  by (simp add: invoke_def Let_def split_beta)

interpretation conn: effector "invoke w" ex_effects for w
proof
  show "ex_effects (snd (invoke w True n operation params s)) = ex_effects s" for n operation params s
    by (simp add: invoke_effects call_dry)
  show "cr_simulated (fst (invoke w True n operation params s))"
    if "cr_ok (fst (invoke w True n operation params s))" for n operation params s
    using that unfolding invoke_result by (intro call_dry_simulated) simp_all
  show "ex_effects (snd (invoke w dry n operation params s)) = ex_effects s \<or>
      (\<exists>fx. ex_effects (snd (invoke w dry n operation params s)) = ex_effects s @ [fx] \<and>
        fx_request fx = (operation, params))" for dry n operation params s
    unfolding invoke_effects by (rule call_asked)
qed

text \<open>A call in simulation mode, and any call to the simulation driver, hands nothing to the
  outside world and says so: when it succeeds its result is marked as simulated.\<close>

theorem simulated_call_inert:
  assumes "cn_dry_run c \<or> cn_driver c = ''simulation''"
  shows "snd (call w fxs c operation params) = fxs \<and>
    cr_ok (fst (call w fxs c operation params)) = cr_simulated (fst (call w fxs c operation params))"
  using assms
  by (auto simp: call_def simulation_call_def failure_def dry_run_result_def)

definition idle_world :: world where
  "idle_world =
     \<lparr>w_handler = (\<lambda>fxs fx. Returned \<lparr>cr_ok = True, cr_operation = [], cr_connector = [], cr_detail = ''done'',
        cr_simulated = False, cr_data = [], cr_error = None, cr_rollback_token = Some ''tok''\<rparr>),
      w_absolute = (\<lambda>r p. p), w_uuid = (\<lambda>n. int_str (int n))\<rparr>"

definition sample_connector :: connector where
  "sample_connector = \<lparr>cn_driver = ''nginx-local'', cn_settings = [], cn_dry_run = True, cn_calls = 0, cn_failures = 0\<rparr>"

theorem simulated_call_inert_witness:
  "snd (call idle_world [] sample_connector ''block_ip'' [(''ip'', PStr ''203.0.113.9'')]) = [] \<and>
   cr_ok (fst (call idle_world [] sample_connector ''block_ip'' [(''ip'', PStr ''203.0.113.9'')]))"
proof -
  have "cn_dry_run sample_connector \<or> cn_driver sample_connector = ''simulation''" by code_simp
  note simulated_call_inert [OF this, of idle_world "[]" "''block_ip''" "[(''ip'', PStr ''203.0.113.9'')]"]
  moreover have "cr_simulated (fst (call idle_world [] sample_connector ''block_ip'' [(''ip'', PStr ''203.0.113.9'')]))"
    by code_simp
  ultimately show ?thesis by simp
qed

text \<open>A logical name always resolves to a driver of the registry, and to the simulation whenever the
  name or its configured driver is unknown; resolving a name twice gives the same instance.\<close>

theorem registry_get_correct:
  "fst (driver_for g key) \<in> set DRIVERS \<and>
   (case map_of (cg_configuration g) key of
      None \<Rightarrow> (if key \<in> set DRIVERS then fst (driver_for g key) = key else fst (driver_for g key) = ''simulation'')
    | Some b \<Rightarrow> (if cc_driver b \<in> set DRIVERS then fst (driver_for g key) = cc_driver b
                 else fst (driver_for g key) = ''simulation'')) \<and>
   fst (registry_get w name (snd (registry_get w name s))) = fst (registry_get w name s)"
proof -
  have sim: "''simulation'' \<in> set DRIVERS" and no_empty: "[] \<notin> set DRIVERS"
    by (simp_all add: DRIVERS_def driver_capabilities_def)
  have "fst (registry_get w name (snd (registry_get w name s))) = fst (registry_get w name s)"
    by (simp add: registry_get_def Let_def note_unknown_def update_conv' split_beta split: option.split)
  then show ?thesis
    using sim no_empty by (auto simp: driver_for_def Let_def split: option.splits)
qed

lemma redact_keys: "map fst (redact_params d) = map fst d"
  by (induction d) (auto simp: redact_params_def)

fun no_leak :: "pyval \<Rightarrow> bool" where
  "no_leak (PDict d) = list_all (\<lambda>(k, v). (sensitive k \<longrightarrow> v = PStr ''<redacted>'') \<and> no_leak v) d"
| "no_leak v = True"

lemma redact_value_no_leak: "no_leak (redact_value v)"
proof (induction v)
  case (PDict d)
  then show ?case by (fastforce simp: list_all_iff)
qed simp_all

text \<open>The parameters echoed by a simulated call keep their names, and no value under a sensitive name
  survives, at any depth of nested mappings.\<close>

theorem redact_params_complete:
  "map fst (redact_params d) = map fst d \<and> no_leak (PDict (redact_params d))"
  using redact_value_no_leak by (auto simp: redact_keys redact_params_def list_all_iff)

end
