(* ===== verification/Executor.thy ===== *)
theory Executor
  imports Connectors
begin

section \<open>Playbook executor\<close>

text \<open>
  \<open>actions/executor.py\<close>: the rendering of \<open>${...}\<close> placeholders, the ordered execution of a playbook's
  steps through the connectors, the stack packed in the rollback token, and the two ways to undo an
  execution.
\<close>

definition UNDO_MAP :: "(string \<times> string) list" where
  "UNDO_MAP =
     [(''block_ip'', ''unblock_ip''), (''rate_limit'', ''remove_rate_limit''),
      (''quarantine_file'', ''restore_file''), (''isolate_host'', ''unisolate_host''),
      (''open_ticket'', ''close_ticket'')]"

definition IRREVERSIBLE_OPERATIONS :: "string list" where
  "IRREVERSIBLE_OPERATIONS = [''revoke_session'', ''rotate_secret'', ''notify'']"

record step_outcome =
  so_index :: nat
  so_connector :: string
  so_call :: string
  so_ok :: bool
  so_detail :: string
  so_error :: "string option"
  so_simulated :: bool
  so_rollback_token :: "string option"
  so_params :: dict

definition step_to_dict :: "step_outcome \<Rightarrow> dict" where
  "step_to_dict o1 =
     [(''index'', PInt (int (so_index o1))), (''connector'', PStr (so_connector o1)),
      (''call'', PStr (so_call o1)), (''ok'', PBool (so_ok o1)), (''detail'', PStr (so_detail o1)),
      (''error'', opt_str (so_error o1)), (''simulated'', PBool (so_simulated o1)),
      (''rollback_token'', opt_str (so_rollback_token o1)), (''duration_ms'', PFloat 0)]"

record execution_outcome =
  eo_ok :: bool
  eo_steps :: "step_outcome list"
  eo_rollback_token :: "string option"
  eo_error :: "string option"
  eo_simulated :: bool
  eo_rollback_available :: bool

definition applied_steps :: "execution_outcome \<Rightarrow> step_outcome list" where
  "applied_steps r = filter so_ok (eo_steps r)"

definition outcome_to_dict :: "execution_outcome \<Rightarrow> dict" where
  "outcome_to_dict r =
     [(''ok'', PBool (eo_ok r)), (''simulated'', PBool (eo_simulated r)), (''error'', opt_str (eo_error r)),
      (''rollback_available'', PBool (eo_rollback_available r)),
      (''steps'', PList (map (PDict \<circ> step_to_dict) (eo_steps r)))]"

definition new_outcome :: "bool \<Rightarrow> execution_outcome" where
  "new_outcome dry =
     \<lparr>eo_ok = True, eo_steps = [], eo_rollback_token = None, eo_error = None, eo_simulated = dry,
      eo_rollback_available = True\<rparr>"

subsection \<open>Rendering\<close>

text \<open>A template, cut by \<open>\$\{([^}]+)\}\<close> into literal characters and placeholders.\<close>

datatype piece = Lit char | Hole string

definition hole_at :: "string \<Rightarrow> (string \<times> string) option" where
  "hole_at s =
     (let body = drop 2 s; path = takeWhile (\<lambda>c. c \<noteq> CHR ''}'') body;
          rest = dropWhile (\<lambda>c. c \<noteq> CHR ''}'') body
      in if take 2 s = ''${'' \<and> path \<noteq> [] \<and> rest \<noteq> [] then Some (path, tl rest) else None)"

lemma hole_at_shorter: "hole_at s = Some (path, rest) \<Longrightarrow> length rest < length s"
proof -
  assume h: "hole_at s = Some (path, rest)"
  let ?d = "dropWhile (\<lambda>c. c \<noteq> CHR ''}'') (drop 2 s)"
  from h have "rest = tl ?d" "?d \<noteq> []" by (auto simp: hole_at_def Let_def split: if_splits)
  then have "length rest < length ?d" by simp
  also have "length ?d \<le> length (drop 2 s)" by (rule length_dropWhile_le)
  finally show ?thesis by simp
qed

function pieces :: "string \<Rightarrow> piece list" where
  "pieces [] = []"
| "pieces (c # s) =
     (case hole_at (c # s) of
        Some (path, rest) \<Rightarrow> Hole path # pieces rest
      | None \<Rightarrow> Lit c # pieces s)"
  by pat_completeness auto
termination
  by (relation "measure length") (auto dest: hole_at_shorter)

definition build_context :: "dict \<Rightarrow> dict \<Rightarrow> time \<Rightarrow> dict" where
  "build_context params ctx now =
     dict_set ''now'' (PStr (iso_z now)) (dict_set ''params'' (PDict params) ctx)"

definition unresolved :: "string \<Rightarrow> dict \<Rightarrow> exn" where
  "unresolved path ctx =
     Err PlaybookError (''parametre non resolu: ${'' @ path @ ''}'')
       [(''placeholder'', PStr path), (''available'', PList (map PStr (sort (map fst ctx))))]"

fun walk_dicts :: "pyval \<Rightarrow> string list \<Rightarrow> pyval option" where
  "walk_dicts v [] = Some v"
| "walk_dicts (PDict d) (seg # segs) =
     (case map_of d seg of None \<Rightarrow> None | Some v \<Rightarrow> walk_dicts v segs)"
| "walk_dicts v (seg # segs) = None"

definition resolve_hole :: "dict \<Rightarrow> string \<Rightarrow> exn + pyval" where
  "resolve_hole ctx path =
     (case walk_dicts (PDict ctx) (split_on (CHR ''.'') path) of
        None \<Rightarrow> Inl (unresolved path ctx)
      | Some v \<Rightarrow> Inr v)"

definition substitute :: "dict \<Rightarrow> piece \<Rightarrow> exn + string" where
  "substitute ctx p =
     (case p of
        Lit c \<Rightarrow> Inr [c]
      | Hole path \<Rightarrow>
          (case resolve_hole ctx path of
             Inl e \<Rightarrow> Inl e
           | Inr v \<Rightarrow> Inr (if v = PNone then [] else py_str v)))"

definition render_string :: "string \<Rightarrow> dict \<Rightarrow> exn + pyval" where
  "render_string template ctx =
     (case pieces template of
        [Hole path] \<Rightarrow> resolve_hole ctx path
      | ps \<Rightarrow>
          (case traverse (substitute ctx) ps of
             Inl e \<Rightarrow> Inl e
           | Inr parts \<Rightarrow> Inr (PStr (concat parts))))"

lemma traverse_cong [fundef_cong]:
  "xs = ys \<Longrightarrow> (\<And>x. x \<in> set ys \<Longrightarrow> f x = g x) \<Longrightarrow> traverse f xs = traverse g ys"
  by (induction ys arbitrary: xs) (auto split: sum.split)

fun render_value :: "dict \<Rightarrow> pyval \<Rightarrow> exn + pyval" where
  "render_value ctx (PStr s) = render_string s ctx"
| "render_value ctx (PDict d) =
     (case traverse (\<lambda>(k, v). case render_value ctx v of Inl e \<Rightarrow> Inl e | Inr w \<Rightarrow> Inr (k, w)) d of
        Inl e \<Rightarrow> Inl e | Inr d' \<Rightarrow> Inr (PDict d'))"
| "render_value ctx (PList xs) =
     (case traverse (render_value ctx) xs of Inl e \<Rightarrow> Inl e | Inr ys \<Rightarrow> Inr (PList ys))"
| "render_value ctx v = Inr v"

definition render_params :: "playbook_step \<Rightarrow> dict \<Rightarrow> exn + dict" where
  "render_params step ctx =
     traverse (\<lambda>(k, v). case render_value ctx v of Inl e \<Rightarrow> Inl e | Inr w \<Rightarrow> Inr (k, w)) (st_with step)"

subsection \<open>The rollback token\<close>

record applied_step =
  ap_index :: nat
  ap_connector :: string
  ap_call :: string
  ap_params :: dict
  ap_token :: "string option"

definition applied_dict :: "applied_step \<Rightarrow> pyval" where
  "applied_dict a =
     PDict [(''index'', PInt (int (ap_index a))), (''connector'', PStr (ap_connector a)),
            (''call'', PStr (ap_call a)), (''params'', PDict (ap_params a)),
            (''rollback_token'', opt_str (ap_token a))]"

definition token_value :: "string \<Rightarrow> applied_step list \<Rightarrow> pyval" where
  "token_value name steps = PDict [(''playbook'', PStr name), (''steps'', PList (map applied_dict steps))]"

definition pack_token :: "string \<Rightarrow> applied_step list \<Rightarrow> string" where
  "pack_token name steps = json_dumps (token_value name steps)"

definition unpack_token :: "string \<Rightarrow> dict option" where
  "unpack_token token = (case json_loads token of Some (PDict d) \<Rightarrow> Some d | _ \<Rightarrow> None)"

text \<open>\<open>entry.get(k)\<close> of a stack entry; \<open>pack_token\<close> only writes dictionaries.\<close>

definition entry_val :: "pyval \<Rightarrow> string \<Rightarrow> pyval" where
  "entry_val e k = (case e of PDict d \<Rightarrow> dict_val d k | _ \<Rightarrow> PNone)"

definition last_token :: "pyval list \<Rightarrow> string" where
  "last_token steps =
     (case find (\<lambda>e. truthy (entry_val e ''rollback_token'')) (rev steps) of
        None \<Rightarrow> [] | Some e \<Rightarrow> py_str (entry_val e ''rollback_token''))"

definition has_rollback_path :: "playbook \<Rightarrow> applied_step list \<Rightarrow> bool" where
  "has_rollback_path pb applied \<longleftrightarrow>
     pb_rollback pb \<noteq> [] \<or> list_ex (\<lambda>a. map_of UNDO_MAP (ap_call a) \<noteq> None) applied"

definition to_step_outcome :: "nat \<Rightarrow> string \<Rightarrow> string \<Rightarrow> connector_result \<Rightarrow> dict \<Rightarrow> step_outcome" where
  "to_step_outcome i connector operation r params =
     \<lparr>so_index = i, so_connector = connector, so_call = operation, so_ok = cr_ok r, so_detail = cr_detail r,
      so_error = cr_error r, so_simulated = cr_simulated r, so_rollback_token = cr_rollback_token r,
      so_params = filter (\<lambda>(k, v). k \<noteq> ''rollback_token'') params\<rparr>"

definition show_error :: "string option \<Rightarrow> string" where
  "show_error e = (case e of None \<Rightarrow> ''None'' | Some s \<Rightarrow> s)"

subsection \<open>Execution\<close>

definition applied_of :: "nat \<Rightarrow> playbook_step \<Rightarrow> dict \<Rightarrow> connector_result \<Rightarrow> applied_step" where
  "applied_of i step params r =
     \<lparr>ap_index = i, ap_connector = st_connector step, ap_call = st_call step, ap_params = params,
      ap_token = cr_rollback_token r\<rparr>"

definition add_step :: "step_outcome \<Rightarrow> bool \<Rightarrow> execution_outcome \<Rightarrow> execution_outcome" where
  "add_step so simulated r =
     r\<lparr>eo_steps := eo_steps r @ [so], eo_simulated := eo_simulated r \<or> simulated\<rparr>"

definition stop_outcome ::
    "playbook \<Rightarrow> nat \<Rightarrow> playbook_step \<Rightarrow> string option \<Rightarrow> applied_step list \<Rightarrow> execution_outcome \<Rightarrow> execution_outcome"
  where
  "stop_outcome pb i step err applied r =
     r\<lparr>eo_ok := False,
       eo_error := Some (''etape '' @ int_str (int i) @ '' ('' @ st_connector step @ ''.'' @ st_call step
                         @ '') en echec: '' @ show_error err),
       eo_rollback_token := Some (pack_token (pb_name pb) applied),
       eo_rollback_available := applied \<noteq> []\<rparr>"

fun execute_steps ::
    "world \<Rightarrow> bool \<Rightarrow> playbook \<Rightarrow> dict \<Rightarrow> nat \<Rightarrow> playbook_step list \<Rightarrow> applied_step list \<Rightarrow> execution_outcome
       \<Rightarrow> execution_outcome exec_op" where
  "execute_steps w dry pb ctx i [] applied r s =
     (Inr (r\<lparr>eo_rollback_token := Some (pack_token (pb_name pb) applied),
             eo_rollback_available := applied \<noteq> [] \<and> has_rollback_path pb applied\<rparr>), s)"
| "execute_steps w dry pb ctx i (step # steps) applied r s =
     (case render_params step ctx of
        Inl e \<Rightarrow> (Inl e, s)
      | Inr params \<Rightarrow>
          (case invoke w dry (st_connector step) (st_call step) params s of
             (res, s') \<Rightarrow>
               let r' = add_step (to_step_outcome i (st_connector step) (st_call step) res params)
                          (cr_ok res \<and> cr_simulated res) r
               in if cr_ok res
                    then execute_steps w dry pb ctx (Suc i) steps (applied @ [applied_of i step params res]) r' s'
                  else if st_optional step then execute_steps w dry pb ctx (Suc i) steps applied r' s'
                  else (Inr (stop_outcome pb i step (cr_error res) applied r'), s')))"

definition execute_playbook ::
    "world \<Rightarrow> bool \<Rightarrow> bool option \<Rightarrow> playbook \<Rightarrow> dict \<Rightarrow> dict \<Rightarrow> time \<Rightarrow> execution_outcome exec_op" where
  "execute_playbook w own_dry dry pb params ctx now =
     (let effective = (case dry of None \<Rightarrow> own_dry | Some b \<Rightarrow> b)
      in execute_steps w effective pb (build_context params ctx now) 0 (pb_execute pb) [] (new_outcome effective))"

subsection \<open>Undoing\<close>

fun rollback_steps ::
    "world \<Rightarrow> bool \<Rightarrow> dict \<Rightarrow> nat \<Rightarrow> playbook_step list \<Rightarrow> execution_outcome \<Rightarrow> execution_outcome exec_op" where
  "rollback_steps w dry ctx i [] r s = (Inr (r\<lparr>eo_rollback_available := False\<rparr>), s)"
| "rollback_steps w dry ctx i (step # steps) r s =
     (case render_params step ctx of
        Inl e \<Rightarrow> (Inl e, s)
      | Inr params \<Rightarrow>
          (case invoke w dry (st_connector step) (st_call step) params s of
             (res, s') \<Rightarrow>
               let r' = add_step (to_step_outcome i (st_connector step) (st_call step) res params)
                          (cr_simulated res) r
               in if \<not> cr_ok res \<and> \<not> st_optional step
                  then (Inr (r'\<lparr>eo_ok := False,
                         eo_error := Some (''rollback interrompu a l'' @ [CHR 0x27] @ ''etape '' @ int_str (int i)
                           @ '' ('' @ st_connector step @ ''.'' @ st_call step @ ''): ''
                           @ show_error (cr_error res))\<rparr>), s')
                  else rollback_steps w dry ctx (Suc i) steps r' s'))"

definition entry_text :: "pyval \<Rightarrow> string \<Rightarrow> string \<Rightarrow> string" where
  "entry_text e k d = (case e of PDict b \<Rightarrow> (case map_of b k of None \<Rightarrow> d | Some v \<Rightarrow> py_str v) | _ \<Rightarrow> d)"

definition undo_params :: "pyval \<Rightarrow> dict" where
  "undo_params e =
     (let ps = (case entry_val e ''params'' of PDict d \<Rightarrow> d | _ \<Rightarrow> []); tok = entry_val e ''rollback_token''
      in if truthy tok then dict_set ''rollback_token'' tok ps else ps)"

text \<open>The stack unrolled in reverse order: every entry is tried, the last failure is the one reported.\<close>

fun unroll ::
    "world \<Rightarrow> bool \<Rightarrow> nat \<Rightarrow> pyval list \<Rightarrow> execution_outcome \<Rightarrow> string list \<Rightarrow> exec_state
       \<Rightarrow> execution_outcome \<times> string list \<times> exec_state" where
  "unroll w dry i [] r irr s = (r, irr, s)"
| "unroll w dry i (e # es) r irr s =
     (let operation = entry_text e ''call'' []
      in case map_of UNDO_MAP operation of
           None \<Rightarrow>
             unroll w dry (Suc i) es r (if operation \<in> set IRREVERSIBLE_OPERATIONS then irr @ [operation] else irr) s
         | Some undo \<Rightarrow>
             (case invoke w dry (entry_text e ''connector'' ''simulation'') undo (undo_params e) s of
                (res, s') \<Rightarrow>
                  let r' = add_step (to_step_outcome i (str_strip (entry_text e ''connector'' [])) undo res
                                      (undo_params e)) (cr_simulated res) r;
                      r'' = (if cr_ok res then r'
                             else r'\<lparr>eo_ok := False,
                                    eo_error := Some (''annulation partielle : '' @ undo @ '' a echoue (''
                                      @ show_error (cr_error res) @ '')'')\<rparr>)
                  in unroll w dry (Suc i) es r'' irr s'))"

definition irreversible_note :: "string list \<Rightarrow> execution_outcome \<Rightarrow> execution_outcome" where
  "irreversible_note irr r =
     (if irr = [] then r
      else let note = ''operations non reversibles rencontrees, aucune annulation possible : ''
                        @ join_with '', '' (sort (remdups irr))
           in r\<lparr>eo_error := Some (if opt_truthy (eo_error r) then the (eo_error r) @ '' | '' @ note else note)\<rparr>)"

definition rollback_playbook ::
    "world \<Rightarrow> bool \<Rightarrow> bool option \<Rightarrow> playbook option \<Rightarrow> string \<Rightarrow> dict \<Rightarrow> time \<Rightarrow> execution_outcome exec_op" where
  "rollback_playbook w own_dry dry pb token ctx now s =
     (let effective = (case dry of None \<Rightarrow> own_dry | Some b \<Rightarrow> b)
      in case unpack_token token of
           None \<Rightarrow>
             (Inr \<lparr>eo_ok = False, eo_steps = [], eo_rollback_token = None,
                   eo_error = Some ''jeton de rollback illisible'', eo_simulated = False,
                   eo_rollback_available = False\<rparr>, s)
         | Some stack \<Rightarrow>
             (case dict_val stack ''steps'' of
                PList (e # es) \<Rightarrow>
                  if pb \<noteq> None \<and> pb_rollback (the pb) \<noteq> [] then
                    let base = (case dict_val ctx ''params'' of PDict d \<Rightarrow> d | _ \<Rightarrow> []);
                        base = dict_set ''rollback_token'' (PStr (last_token (e # es))) base
                    in rollback_steps w effective (build_context base ctx now) 0 (pb_rollback (the pb))
                         (new_outcome effective) s
                  else
                    (case unroll w effective 0 (rev (e # es)) (new_outcome effective) [] s of
                       (r, irr, s') \<Rightarrow> (Inr ((irreversible_note irr r)\<lparr>eo_rollback_available := False\<rparr>), s'))
              | _ \<Rightarrow> (Inr ((new_outcome effective)\<lparr>eo_rollback_available := False\<rparr>), s)))"

end
