(* ===== verification/ActionEngine.thy ===== *)
theory ActionEngine
  imports AuditLog Decision Executor
begin

section \<open>Action engine\<close>

text \<open>
  \<open>actions/engine.py\<close>: the life cycle of a counter-measure.  The state joins the store, the
  connectors with the log of what they handed to the outside world, the generator of identifiers, and
  the notifications sent to \<open>on_change\<close>.  A call reads the clock once (\<open>now\<close>).  An action object of
  the caller is the value an operation returns; what later calls see is the row in the store.
\<close>

record action_engine =
  ae_playbooks :: "(string \<times> playbook) list"
  ae_settings :: settings
  ae_executor_dry_run :: bool

record engine_state =
  en_store :: store
  en_exec :: exec_state
  en_ids :: nat
  en_notices :: "(string \<times> string) list"

type_synonym 'a engine_op = "(engine_state, exn, 'a) op"

definition on_store :: "'a store_op \<Rightarrow> 'a engine_op" where
  "on_store m s = (case m (en_store s) of (r, st) \<Rightarrow> (r, s\<lparr>en_store := st\<rparr>))"

definition on_exec :: "'a exec_op \<Rightarrow> 'a engine_op" where
  "on_exec m s = (case m (en_exec s) of (r, ex) \<Rightarrow> (r, s\<lparr>en_exec := ex\<rparr>))"

definition new_id :: "world \<Rightarrow> string \<Rightarrow> string engine_op" where
  "new_id w pre s = (Inr (pre @ w_uuid w (en_ids s)), s\<lparr>en_ids := Suc (en_ids s)\<rparr>)"

definition notify :: "action \<Rightarrow> string \<Rightarrow> unit engine_op" where
  "notify a event s = (Inr (), s\<lparr>en_notices := en_notices s @ [(a_id a, event)]\<rparr>)"

definition EXECUTABLE_STATUSES :: "action_status list" where
  "EXECUTABLE_STATUSES = [Planned, Approved]"

definition ROLLBACK_STATUSES :: "action_status list" where
  "ROLLBACK_STATUSES = [Succeeded, Failed]"

definition TARGET_TYPE_BY_PLAYBOOK :: "(string \<times> target_type) list" where
  "TARGET_TYPE_BY_PLAYBOOK =
     [(''block-source-ip'', T_ip), (''unblock-source-ip'', T_ip), (''rate-limit-source'', T_ip),
      (''remove-rate-limit'', T_ip), (''isolate-host'', T_host), (''unisolate-host'', T_host),
      (''harden-endpoint'', T_host), (''quarantine-artifact'', T_file), (''restore-artifact'', T_file),
      (''patch-dependency'', T_package), (''rotate-secret'', T_secret), (''revoke-session'', T_session)]"

subsection \<open>Parameters\<close>

definition param_error :: "string \<Rightarrow> string \<Rightarrow> exn" where
  "param_error name why = Err PlaybookError (''parametre '' @ quote name @ '': '' @ why) []"

definition check_integer :: "string \<Rightarrow> playbook_param \<Rightarrow> pyval \<Rightarrow> exn + pyval" where
  "check_integer name spec v =
     (let n = safe_int v (-1)
      in if n < 0 then Inl (param_error name (''entier attendu (recu '' @ py_repr v @ '')''))
         else if (case pp_min spec of None \<Rightarrow> False | Some m \<Rightarrow> of_int n < m)
           then Inl (param_error name (int_str n @ '' < minimum '' @ float_repr (the (pp_min spec))))
         else if (case pp_max spec of None \<Rightarrow> False | Some m \<Rightarrow> m < of_int n)
           then Inl (param_error name (int_str n @ '' > maximum '' @ float_repr (the (pp_max spec))))
         else Inr (PInt n))"

definition check_param :: "string \<Rightarrow> playbook_param \<Rightarrow> pyval \<Rightarrow> exn + pyval" where
  "check_param name spec v =
     (case pp_type spec of
        Pt_integer \<Rightarrow> check_integer name spec v
      | Pt_duration \<Rightarrow> check_integer name spec v
      | Pt_boolean \<Rightarrow> Inr (PBool (truthy v))
      | Pt_ip \<Rightarrow>
          if is_valid_ip (py_str v) \<or> is_valid_cidr (py_str v) then Inr (PStr (py_str v))
          else Inl (param_error name (''IP ou CIDR attendu (recu '' @ py_repr v @ '')''))
      | _ \<Rightarrow>
          (case pp_choices spec of
             Some (c # cs) \<Rightarrow>
               if py_str v \<notin> set (c # cs)
               then Inl (param_error name (''valeur '' @ quote (py_str v) @ '' hors choix ''
                           @ py_repr (str_list (c # cs))))
               else Inr (PStr (py_str v))
           | _ \<Rightarrow> Inr (PStr (py_str v))))"

fun validate_specs :: "string \<Rightarrow> dict \<Rightarrow> (string \<times> playbook_param) list \<Rightarrow> exn + dict" where
  "validate_specs pb provided [] = Inr []"
| "validate_specs pb provided ((name, spec) # rest) =
     (let given = dict_val provided name;
          chosen = (if given \<noteq> PNone then Some given
                    else if pp_default spec \<noteq> PNone then Some (pp_default spec) else None)
      in case chosen of
           None \<Rightarrow>
             if pp_required spec
             then Inl (Err PlaybookError
                    (''parametre obligatoire manquant: '' @ quote name @ '' (''
                     @ (if pp_description spec = [] then ''sans description'' else pp_description spec) @ '')'')
                    [(''playbook'', PStr pb), (''param'', PStr name)])
             else validate_specs pb provided rest
         | Some v \<Rightarrow>
             (case check_param name spec v of
                Inl e \<Rightarrow> Inl e
              | Inr v' \<Rightarrow>
                  (case validate_specs pb provided rest of Inl e \<Rightarrow> Inl e | Inr ps \<Rightarrow> Inr ((name, v') # ps))))"

definition validate_params :: "playbook \<Rightarrow> dict \<Rightarrow> exn + dict" where
  "validate_params pb provided =
     (let unknown = filter (\<lambda>k. map_of (pb_params pb) k = None) (map fst provided)
      in if unknown \<noteq> []
         then Inl (Err PlaybookError
                (''parametres inconnus pour le playbook '' @ quote (pb_name pb) @ '': ''
                 @ py_repr (str_list (sort unknown)))
                [(''expected'', str_list (sort (map fst (pb_params pb))))])
         else validate_specs (pb_name pb) provided (pb_params pb))"

definition looks_like_field_path :: "string \<Rightarrow> bool" where
  "looks_like_field_path v \<longleftrightarrow>
     CHR ''.'' \<in> set v \<and> CHR '' '' \<notin> set v \<and> \<not> prefix ''http://'' v \<and> \<not> prefix ''https://'' v
     \<and> fst (split_first (CHR ''.'') v) \<in> {''labels'', ''payload'', ''source'', ''evidence''}"

definition resolve_param_paths :: "finding option \<Rightarrow> dict \<Rightarrow> dict" where
  "resolve_param_paths f params =
     (case f of
        None \<Rightarrow> params
      | Some fd \<Rightarrow>
          map (\<lambda>(k, v). (k, case v of
                 PStr s \<Rightarrow>
                   if looks_like_field_path s
                   then (case resolve_param_target fd (Some s) of None \<Rightarrow> v | Some r \<Rightarrow> PStr r)
                   else v
               | _ \<Rightarrow> v)) params)"

definition py_or :: "pyval \<Rightarrow> pyval \<Rightarrow> pyval" where
  "py_or a b = (if truthy a then a else b)"

definition resolve_target_value :: "dict \<Rightarrow> finding option \<Rightarrow> string option" where
  "resolve_target_value params f =
     (let raw = py_or (dict_val params ''target'') (py_or (dict_val params ''ip'') (dict_val params ''path''))
      in if raw = PNone then (case f of None \<Rightarrow> None | Some fd \<Rightarrow> snd (extract_targets fd))
         else
           let t = py_str raw
           in case f of
                None \<Rightarrow> Some t
              | Some fd \<Rightarrow>
                  if CHR ''.'' \<in> set t \<and> CHR ''/'' \<notin> set t \<and> \<not> is_digit (hd t)
                  then (let r = resolve_param_target fd (Some t) in if opt_truthy r then r else Some t)
                  else Some t)"

definition idempotency_key :: "string \<Rightarrow> string \<Rightarrow> string option \<Rightarrow> int \<Rightarrow> time \<Rightarrow> string" where
  "idempotency_key tid pb target cooldown now =
     (let window = max (if cooldown = 0 then 60 else cooldown) 60; bucket = now div usec div window
      in tid @ '':'' @ pb @ '':'' @ (if opt_truthy target then the target else ''n/a'') @ '':'' @ int_str bucket)"

subsection \<open>Status changes\<close>

definition audit_target :: "action \<Rightarrow> dict" where
  "audit_target a = [(''type'', PStr ''action''), (''id'', PStr (a_id a))]"

text \<open>
  \<open>_set_status\<close>: write the row, append the audit record of the transition, write the row again with
  the record's number, notify.  The \<open>extra\<close> attributes are a function on the action.
\<close>

definition set_status ::
    "string \<Rightarrow> string \<Rightarrow> string \<Rightarrow> dict option \<Rightarrow> (action \<Rightarrow> action) \<Rightarrow> dict \<Rightarrow> time \<Rightarrow> action \<Rightarrow> action_status
       \<Rightarrow> action engine_op" where
  "set_status who role what before extra ctx now a status =
     (let previous = (case before of None \<Rightarrow> [(''status'', PStr (status_str (a_status a)))] | Some b \<Rightarrow> b);
          a1 = extra (a\<lparr>a_status := status\<rparr>)
      in bindE (on_store (update_action a1)) (\<lambda>_.
         bindE (on_store (record_state_change (a_tenant a1) who role what (audit_target a1) previous
                            (to_audit_dict a1)
                            (fold (\<lambda>(k, v). dict_set k v) ctx [(''playbook'', PStr (a_playbook a1))]) now)) (\<lambda>rec.
         let a2 = a1\<lparr>a_audit_seq := Some (au_seq rec)\<rparr>
         in bindE (on_store (update_action a2)) (\<lambda>_.
            bindE (notify a2 (status_str status)) (\<lambda>_. returnE a2)))))"

definition mark_failed :: "string \<Rightarrow> string \<Rightarrow> string \<Rightarrow> dict \<Rightarrow> time \<Rightarrow> action \<Rightarrow> action engine_op" where
  "mark_failed who role err result now a =
     set_status who role ''action.fail'' None (\<lambda>a. a\<lparr>a_reason := take 500 err\<rparr>)
       [(''error'', PStr (take 500 err))] now (a\<lparr>a_result := Some result\<rparr>) Failed"

definition opt_time :: "time option \<Rightarrow> pyval" where
  "opt_time t = (case t of None \<Rightarrow> PNone | Some v \<Rightarrow> PStr (iso_z v))"

definition rollback_json :: "action_rollback \<Rightarrow> pyval" where
  "rollback_json r =
     PDict [(''available'', PBool (r_available r)), (''token'', opt_str (r_token r)),
            (''performed_at'', opt_time (r_performed_at r)),
            (''result'', case r_result r of None \<Rightarrow> PNone | Some d \<Rightarrow> PDict d),
            (''expires_at'', opt_time (r_expires_at r)),
            (''auto_after_seconds'', case r_auto_after r of None \<Rightarrow> PNone | Some n \<Rightarrow> PInt n)]"

definition rollback_before :: "action \<Rightarrow> dict" where
  "rollback_before a =
     [(''status'', PStr (status_str (a_status a))), (''rollback'', rollback_json (a_rollback a))]"

definition with_rollback_result :: "dict \<Rightarrow> action \<Rightarrow> dict" where
  "with_rollback_result result a =
     dict_set ''rollback'' (PDict result) (case a_result a of None \<Rightarrow> [] | Some d \<Rightarrow> d)"

definition mark_rollback_failed :: "string \<Rightarrow> string \<Rightarrow> string \<Rightarrow> time \<Rightarrow> action \<Rightarrow> action engine_op" where
  "mark_rollback_failed who role err now a =
     (let result = [(''ok'', PBool False), (''error'', PStr err), (''steps'', PList []),
                    (''simulated'', PBool (a_dry_run a)), (''playbook'', PStr (a_playbook a)),
                    (''rollback_retryable'', PBool True)];
          a1 = a\<lparr>a_result := Some (with_rollback_result result a),
                 a_rollback := (a_rollback a)\<lparr>r_performed_at := Some now, r_result := Some result,
                                             r_available := True\<rparr>,
                 a_reason := take 500 (a_reason a @ '' | rollback en echec: '' @ err)\<rparr>
      in set_status who role ''action.rollback'' (Some (rollback_before a)) id
           [(''rollback_failed'', PBool True), (''error'', PStr (take 500 err))] now a1 Failed)"

subsection \<open>Planning\<close>

definition action_conflict :: "exn \<Rightarrow> bool" where
  "action_conflict e \<longleftrightarrow> (case e of Exn k _ _ _ \<Rightarrow> k = ConflictError | Foreign _ _ \<Rightarrow> False)"

definition existing_action :: "string \<Rightarrow> exn \<Rightarrow> store \<Rightarrow> action option" where
  "existing_action tid e st =
     (case dict_val (exn_details e) ''action_id'' of
        v \<Rightarrow> if truthy v then get_action tid (py_str v) st else None)"

datatype plan_insertion = Inserted action | Reused action

fun plan_insert :: "world \<Rightarrow> string \<Rightarrow> string \<Rightarrow> nat \<Rightarrow> nat \<Rightarrow> action \<Rightarrow> plan_insertion engine_op" where
  "plan_insert w tid base 0 attempt a s =
     (Inl (Err ConflictError ''impossible de creer l action : collision d idempotence repetee''
             [(''idempotency_key'', PStr base)]), s)"
| "plan_insert w tid base (Suc n) attempt a s =
     (case on_store (insert_action a) s of
        (Inr _, s') \<Rightarrow> (Inr (Inserted a), s')
      | (Inl e, s') \<Rightarrow>
          if \<not> action_conflict e then (Inl e, s')
          else
            (case existing_action tid e (en_store s') of
               Some b \<Rightarrow>
                 if \<not> is_terminal b then (Inr (Reused b), s')
                 else bindE (new_id w ''ac_'') (\<lambda>i.
                        plan_insert w tid base n (Suc attempt)
                          (a\<lparr>a_id := i, a_idempotency_key := base @ ''#'' @ int_str (int (Suc attempt))\<rparr>)) s'
             | None \<Rightarrow>
                 bindE (new_id w ''ac_'') (\<lambda>i.
                   plan_insert w tid base n (Suc attempt)
                     (a\<lparr>a_id := i, a_idempotency_key := base @ ''#'' @ int_str (int (Suc attempt))\<rparr>)) s'))"

record plan_request =
  pq_playbook :: string
  pq_finding :: "finding option"
  pq_params :: dict
  pq_mode :: action_mode
  pq_policy_id :: "string option"
  pq_reason :: string
  pq_dry_run :: "bool option"
  pq_expires_in :: "int option"

definition planned_mode :: "playbook \<Rightarrow> action_mode \<Rightarrow> action_mode" where
  "planned_mode pb m = (if \<not> pb_reversible pb \<and> m = Act_auto then Act_manual else m)"

definition planned_reason :: "playbook \<Rightarrow> action_mode \<Rightarrow> string \<Rightarrow> string" where
  "planned_reason pb m reason =
     (if \<not> pb_reversible pb \<and> m = Act_auto
      then strip_with (\<lambda>c. c = CHR '' '' \<or> c = CHR ''|'')
             (reason @ '' | playbook non reversible : approbation humaine obligatoire'')
      else reason)"

definition planned_dry_run :: "settings \<Rightarrow> tenant \<Rightarrow> bool option \<Rightarrow> bool" where
  "planned_dry_run st t dry =
     (s_dry_run st \<or> (case dry of None \<Rightarrow> t_dry_run t | Some b \<Rightarrow> b))"

definition new_action ::
    "action_engine \<Rightarrow> tenant \<Rightarrow> playbook \<Rightarrow> string \<Rightarrow> plan_request \<Rightarrow> dict \<Rightarrow> string option \<Rightarrow> string \<Rightarrow> string \<Rightarrow> time \<Rightarrow> action"
  where
  "new_action cfg t pb who q params target aid key now =
     (let mode = planned_mode pb (pq_mode q); reason = planned_reason pb (pq_mode q) (pq_reason q)
      in \<lparr>a_id = aid, a_tenant = t_id t, a_finding_id = map_option f_id (pq_finding q),
          a_policy_id = pq_policy_id q, a_playbook = pb_name pb,
          a_status = (if mode = Act_auto then Approved else Planned), a_mode = mode,
          a_dry_run = planned_dry_run (ae_settings cfg) t (pq_dry_run q), a_params = params,
          a_target = \<lparr>tgt_type = (case map_of TARGET_TYPE_BY_PLAYBOOK (pb_name pb) of None \<Rightarrow> T_other | Some tt \<Rightarrow> tt),
                      tgt_value = str_strip (or_empty target)\<rparr>,
          a_requested_by = who, a_requested_at = now, a_approved_by = None, a_approved_at = None,
          a_rejected_by = None, a_rejected_at = None, a_executed_at = None,
          a_expires_at = Some (to_millis (now + seconds (or_int (pq_expires_in q) (s_approve_ttl_seconds (ae_settings cfg))))),
          a_result = None, a_rollback = new_rollback (pb_reversible pb), a_idempotency_key = key,
          a_audit_seq = None,
          a_reason = (if reason = [] then ''planification manuelle du playbook '' @ quote (pb_name pb) else reason)\<rparr>)"

definition plan_context :: "playbook \<Rightarrow> plan_request \<Rightarrow> action \<Rightarrow> dict" where
  "plan_context pb q a =
     [(''playbook'', PStr (pb_name pb)), (''policy_id'', opt_str (pq_policy_id q)),
      (''finding_id'', opt_str (a_finding_id a)), (''dry_run'', PBool (a_dry_run a)),
      (''mode'', PStr (action_mode_str (a_mode a))), (''target'', PStr (target_str (a_target a)))]"

text \<open>What follows the insertion of a new action.\<close>

definition register_plan ::
    "tenant \<Rightarrow> playbook \<Rightarrow> plan_request \<Rightarrow> string \<Rightarrow> string \<Rightarrow> time \<Rightarrow> action \<Rightarrow> action engine_op" where
  "register_plan t pb q who role now a =
     bindE (on_store (record_audit (t_id t) who ''action.plan'' role (audit_target a) [] (to_audit_dict a)
                        (plan_context pb q a) now)) (\<lambda>rec.
       let a' = a\<lparr>a_audit_seq := Some (au_seq rec)\<rparr>
       in bindE (on_store (update_action a')) (\<lambda>_.
          bindE (notify a' ''planned'') (\<lambda>_. returnE a')))"

definition plan ::
    "action_engine \<Rightarrow> world \<Rightarrow> tenant \<Rightarrow> string \<Rightarrow> string \<Rightarrow> plan_request \<Rightarrow> time \<Rightarrow> action engine_op" where
  "plan cfg w t who role q now =
     (case map_of (ae_playbooks cfg) (pq_playbook q) of
        None \<Rightarrow>
          raiseE (Err NotFoundError (''playbook inconnu: '' @ pq_playbook q)
                    [(''available'', str_list (sort (map fst (ae_playbooks cfg))))])
      | Some pb \<Rightarrow>
          (case validate_params pb (resolve_param_paths (pq_finding q) (pq_params q)) of
             Inl e \<Rightarrow> raiseE e
           | Inr params \<Rightarrow>
               let target = resolve_target_value params (pq_finding q);
                   cooldown = (if t_cooldown t = 0 then s_default_cooldown_seconds (ae_settings cfg) else t_cooldown t);
                   key = idempotency_key (t_id t) (pb_name pb) target cooldown now
               in bindE (new_id w ''ac_'') (\<lambda>aid.
                  bindE (plan_insert w (t_id t) key 5 0 (new_action cfg t pb who q params target aid key now)) (\<lambda>ins.
                    case ins of Reused b \<Rightarrow> returnE b | Inserted a \<Rightarrow> register_plan t pb q who role now a))))"

subsection \<open>Approval\<close>

definition require_action :: "string \<Rightarrow> string \<Rightarrow> action engine_op" where
  "require_action tid aid s =
     (case get_action tid aid (en_store s) of
        None \<Rightarrow> (Inl (Err NotFoundError (''action introuvable: '' @ aid) [(''action_id'', PStr aid)]), s)
      | Some a \<Rightarrow> (Inr a, s))"

definition status_conflict :: "string \<Rightarrow> string \<Rightarrow> action \<Rightarrow> exn" where
  "status_conflict msg aid a =
     Err ConflictError msg [(''action_id'', PStr aid), (''status'', PStr (status_str (a_status a)))]"

definition approve :: "tenant \<Rightarrow> string \<Rightarrow> string \<Rightarrow> string \<Rightarrow> string \<Rightarrow> time \<Rightarrow> action engine_op" where
  "approve t aid who role comment now =
     bindE (require_action (t_id t) aid) (\<lambda>a.
       if a_status a \<notin> {Planned, Pending_approval}
       then raiseE (status_conflict (''approbation impossible : l action est dans l etat ''
                      @ quote (status_str (a_status a))) aid a)
       else set_status who role ''action.approve'' None
              (\<lambda>a. a\<lparr>a_approved_by := Some who, a_approved_at := Some now\<rparr>)
              [(''comment'', PStr (take 500 comment))] now a Approved)"

definition reject :: "tenant \<Rightarrow> string \<Rightarrow> string \<Rightarrow> string \<Rightarrow> string \<Rightarrow> time \<Rightarrow> action engine_op" where
  "reject t aid who role reason now =
     bindE (require_action (t_id t) aid) (\<lambda>a.
       if is_terminal a
       then raiseE (status_conflict (''rejet impossible : l action est deja terminale (''
                      @ quote (status_str (a_status a)) @ '')'') aid a)
       else set_status who role ''action.reject'' None
              (\<lambda>a. a\<lparr>a_rejected_by := Some who, a_rejected_at := Some now, a_reason := take 500 reason\<rparr>)
              [] now a Rejected)"

subsection \<open>Execution\<close>

definition authorize_execution :: "action \<Rightarrow> playbook \<Rightarrow> tenant \<Rightarrow> time \<Rightarrow> unit engine_op" where
  "authorize_execution a pb t now =
     (if a_status a \<notin> set EXECUTABLE_STATUSES
        then raiseE (status_conflict (''execution impossible : l action est dans l etat ''
                       @ quote (status_str (a_status a))) (a_id a) a)
      else if a_status a = Planned \<and> \<not> a_dry_run a
        then raiseE (Err AutonomyRefused
               ''l action doit etre approuvee avant toute execution reelle (POST /actions/{id}/approve)''
               [(''action_id'', PStr (a_id a))])
      else if \<not> pb_reversible pb \<and> a_mode a = Act_auto
        then raiseE (Err AutonomyRefused
               ''un playbook non reversible ne peut pas etre execute en mode automatique''
               [(''playbook'', PStr (pb_name pb))])
      else if tenant_is_protected t (Some (tgt_value (a_target a)))
        then raiseE (Err ProtectedTargetError
               (''la cible '' @ quote (tgt_value (a_target a)) @ '' est protegee par le tenant : execution refusee'')
               [(''action_id'', PStr (a_id a)), (''target'', PStr (tgt_value (a_target a)))])
      else if (case a_expires_at a of None \<Rightarrow> False | Some e \<Rightarrow> e < now) \<and> a_status a = Pending_approval
        then bindE (set_status ''system'' ''system'' ''action.fail'' None id [] now a Expired) (\<lambda>_.
               raiseE (Err ConflictError ''l action a expire avant approbation'' [(''action_id'', PStr (a_id a))]))
      else returnE ())"

definition execution_context :: "tenant \<Rightarrow> action \<Rightarrow> store \<Rightarrow> dict" where
  "execution_context t a st =
     (let f = (if opt_truthy (a_finding_id a) then get_finding (t_id t) (the (a_finding_id a)) st else None);
          host = (case f of None \<Rightarrow> None | Some fd \<Rightarrow> fst (extract_targets fd));
          txt = (\<lambda>sel. PStr (case f of None \<Rightarrow> [] | Some fd \<Rightarrow> sel fd))
      in [(''params'', PDict (a_params a)),
          (''finding'', PDict
             [(''id'', PStr (or_empty (a_finding_id a))), (''rule_id'', txt f_rule_id),
              (''severity'', txt (severity_str \<circ> f_severity)),
              (''risk_score'', PFloat (case f of None \<Rightarrow> 0 | Some fd \<Rightarrow> f_risk_score fd)),
              (''title'', txt f_title), (''host'', PStr (or_empty host)),
              (''remediation'', txt f_remediation)]),
          (''action'', PDict
             [(''id'', PStr (a_id a)), (''playbook'', PStr (a_playbook a)), (''dry_run'', PBool (a_dry_run a)),
              (''target'', PStr (tgt_value (a_target a)))]),
          (''tenant'', PDict [(''id'', PStr (t_id t)), (''mode'', PStr (mode_str (t_mode t)))])])"

definition is_playbook_error :: "exn \<Rightarrow> bool" where
  "is_playbook_error e \<longleftrightarrow> (case e of Exn k _ _ _ \<Rightarrow> k = PlaybookError | Foreign _ _ \<Rightarrow> False)"

definition execution_result :: "playbook \<Rightarrow> execution_outcome \<Rightarrow> dict" where
  "execution_result pb r =
     outcome_to_dict r @ [(''playbook'', PStr (pb_name pb)), (''reversible'', PBool (pb_reversible pb))]"

definition conclude_execution ::
    "playbook \<Rightarrow> string \<Rightarrow> string \<Rightarrow> time \<Rightarrow> action \<Rightarrow> execution_outcome \<Rightarrow> action engine_op" where
  "conclude_execution pb who role now a r =
     (let result = execution_result pb r
      in if eo_ok r
         then set_status who role ''action.execute'' None
                (\<lambda>a. a\<lparr>a_executed_at := Some now, a_result := Some result\<rparr>)
                [(''simulated'', PBool (eo_simulated r)), (''steps'', PInt (int (length (eo_steps r))))] now
                (a\<lparr>a_result := Some result,
                   a_rollback := (new_rollback (eo_rollback_available r \<and> pb_reversible pb))
                     \<lparr>r_token := eo_rollback_token r, r_expires_at := a_expires_at a\<rparr>\<rparr>) Succeeded
         else mark_failed who role (if opt_truthy (eo_error r) then the (eo_error r) else ''echec'') result now a)"

definition run_execution ::
    "action_engine \<Rightarrow> world \<Rightarrow> tenant \<Rightarrow> playbook \<Rightarrow> string \<Rightarrow> string \<Rightarrow> time \<Rightarrow> action \<Rightarrow> action engine_op" where
  "run_execution cfg w t pb who role now a s =
     (case on_exec (execute_playbook w (ae_executor_dry_run cfg) (Some (a_dry_run a)) pb (a_params a)
                      (execution_context t a (en_store s)) now) s of
        (Inl e, s') \<Rightarrow>
          if is_playbook_error e then mark_failed who role (exn_str e) [(''error'', PStr (exn_str e))] now a s'
          else (Inl e, s')
      | (Inr r, s') \<Rightarrow> conclude_execution pb who role now a r s')"

definition execute ::
    "action_engine \<Rightarrow> world \<Rightarrow> tenant \<Rightarrow> string \<Rightarrow> string \<Rightarrow> string \<Rightarrow> time \<Rightarrow> action engine_op" where
  "execute cfg w t aid who role now =
     bindE (require_action (t_id t) aid) (\<lambda>a.
       case map_of (ae_playbooks cfg) (a_playbook a) of
         None \<Rightarrow> raiseE (Err NotFoundError (''playbook '' @ quote (a_playbook a) @ '' introuvable'') [])
       | Some pb \<Rightarrow>
           bindE (authorize_execution a pb t now) (\<lambda>_.
           bindE (set_status who role ''action.execute'' None id [] now a Executing) (\<lambda>a'.
             run_execution cfg w t pb who role now a')))"

subsection \<open>Rollback\<close>

definition conclude_rollback ::
    "string \<Rightarrow> string \<Rightarrow> string \<Rightarrow> time \<Rightarrow> action \<Rightarrow> execution_outcome \<Rightarrow> action engine_op" where
  "conclude_rollback who role reason now a r =
     (let result = outcome_to_dict r
      in set_status who role ''action.rollback'' (Some (rollback_before a)) id [] now
           (a\<lparr>a_rollback := (a_rollback a)\<lparr>r_performed_at := Some now, r_result := Some result,
                                          r_available := False\<rparr>,
              a_result := Some (with_rollback_result result a),
              a_reason := take 500 (a_reason a @ '' | '' @ reason)\<rparr>)
           (if eo_ok r then Rolled_back else Failed))"

definition run_rollback ::
    "action_engine \<Rightarrow> world \<Rightarrow> tenant \<Rightarrow> string \<Rightarrow> string \<Rightarrow> string \<Rightarrow> time \<Rightarrow> action \<Rightarrow> action engine_op" where
  "run_rollback cfg w t who role reason now a s =
     (case on_exec (rollback_playbook w (ae_executor_dry_run cfg) (Some (a_dry_run a))
                      (map_of (ae_playbooks cfg) (a_playbook a)) (or_empty (r_token (a_rollback a)))
                      (execution_context t a (en_store s)) now) s of
        (Inl e, s') \<Rightarrow>
          if is_playbook_error e then mark_rollback_failed who role (exn_str e) now a s' else (Inl e, s')
      | (Inr r, s') \<Rightarrow> conclude_rollback who role reason now a r s')"

definition rollback ::
    "action_engine \<Rightarrow> world \<Rightarrow> tenant \<Rightarrow> string \<Rightarrow> string \<Rightarrow> string \<Rightarrow> string \<Rightarrow> time \<Rightarrow> action engine_op" where
  "rollback cfg w t aid who role reason now =
     bindE (require_action (t_id t) aid) (\<lambda>a.
       if a_status a \<notin> set ROLLBACK_STATUSES
         then raiseE (status_conflict (''annulation impossible : l action est dans l etat ''
                        @ quote (status_str (a_status a)) @ '' (attendu: ''
                        @ py_repr (str_list (sort (map status_str ROLLBACK_STATUSES))) @ '')'') aid a)
       else if \<not> r_available (a_rollback a)
         then raiseE (Err ConflictError ''cette action ne dispose pas d annulation disponible''
                        [(''action_id'', PStr aid)])
       else if \<not> opt_truthy (r_token (a_rollback a))
         then raiseE (Err ConflictError ''aucune pile de rollback enregistree pour cette action''
                        [(''action_id'', PStr aid)])
       else run_rollback cfg w t who role reason now a)"

subsection \<open>From a decision\<close>

definition decision_request :: "finding \<Rightarrow> decision \<Rightarrow> plan_request" where
  "decision_request f d =
     \<lparr>pq_playbook = or_empty (d_playbook d), pq_finding = Some f, pq_params = d_params d,
      pq_mode = (if d_decision d = Auto then Act_auto else Act_manual), pq_policy_id = d_policy_id d,
      pq_reason = d_reason d, pq_dry_run = Some (d_dry_run d), pq_expires_in = None\<rparr>"

definition from_decision ::
    "action_engine \<Rightarrow> world \<Rightarrow> tenant \<Rightarrow> finding \<Rightarrow> decision \<Rightarrow> string \<Rightarrow> string \<Rightarrow> time \<Rightarrow> action option engine_op" where
  "from_decision cfg w t f d who role now =
     (if \<not> triggers_action d then returnE None
      else bindE (plan cfg w t who role (decision_request f d) now) (\<lambda>a.
           bindE (if d_decision d = Require_approval \<and> a_status a = Planned
                  then set_status who role ''action.plan'' None id
                         [(''decision'', PStr ''require_approval''), (''policy_id'', opt_str (d_policy_id d))]
                         now a Pending_approval
                  else returnE a) (\<lambda>a.
           bindE (if d_decision d = Auto \<and> a_status a = Approved
                  then execute cfg w t (a_id a) who role now
                  else returnE a) (\<lambda>a. returnE (Some a)))))"

subsection \<open>Maintenance\<close>

fun expire_all :: "time \<Rightarrow> action list \<Rightarrow> int engine_op" where
  "expire_all now [] = returnE 0"
| "expire_all now (a # as) =
     (if (case a_expires_at a of None \<Rightarrow> False | Some e \<Rightarrow> e < now)
      then bindE (set_status ''system:reaper'' ''system'' ''action.fail'' None
                    (\<lambda>a. a\<lparr>a_reason := ''delai d approbation depasse''\<rparr>) [] now a Expired) (\<lambda>_.
           bindE (expire_all now as) (\<lambda>n. returnE (n + 1)))
      else expire_all now as)"

definition rollback_due :: "time \<Rightarrow> action \<Rightarrow> bool" where
  "rollback_due now a \<longleftrightarrow>
     r_available (a_rollback a) \<and> opt_truthy (r_token (a_rollback a))
     \<and> (case r_expires_at (a_rollback a) of None \<Rightarrow> False | Some e \<Rightarrow> e \<le> now)"

definition is_refusal :: "exn \<Rightarrow> bool" where
  "is_refusal e \<longleftrightarrow> (case e of Exn k _ _ _ \<Rightarrow> k \<in> {ConflictError, NotFoundError} | Foreign _ _ \<Rightarrow> False)"

fun rollback_all :: "action_engine \<Rightarrow> world \<Rightarrow> tenant \<Rightarrow> time \<Rightarrow> action list \<Rightarrow> int engine_op" where
  "rollback_all cfg w t now [] = returnE 0"
| "rollback_all cfg w t now (a # as) =
     (if rollback_due now a
      then bindE (catchE
             (bindE (rollback cfg w t (a_id a) ''system:reaper'' ''system''
                       ''rollback automatique a expiration'' now) (\<lambda>_. returnE 1))
             (\<lambda>e. if is_refusal e then returnE 0 else raiseE e)) (\<lambda>k.
           bindE (rollback_all cfg w t now as) (\<lambda>n. returnE (k + n)))
      else rollback_all cfg w t now as)"

definition listed :: "string \<Rightarrow> action_status \<Rightarrow> store \<Rightarrow> action list" where
  "listed tid status st = fst (list_actions tid (Some [status_str status]) None None 500 None st)"

definition reap_tenant :: "action_engine \<Rightarrow> world \<Rightarrow> time \<Rightarrow> string \<Rightarrow> (int \<times> int) engine_op" where
  "reap_tenant cfg w now tid =
     bindE (readE (\<lambda>s. get_tenant tid (en_store s))) (\<lambda>t.
       case t of
         None \<Rightarrow> returnE (0, 0)
       | Some t \<Rightarrow>
           bindE (readE (\<lambda>s. listed tid Pending_approval (en_store s))) (\<lambda>pending.
           bindE (expire_all now pending) (\<lambda>expired.
           bindE (readE (\<lambda>s. listed tid Succeeded (en_store s))) (\<lambda>succeeded.
           bindE (rollback_all cfg w t now succeeded) (\<lambda>rolled. returnE (expired, rolled))))))"

fun reap_tenants :: "action_engine \<Rightarrow> world \<Rightarrow> time \<Rightarrow> string list \<Rightarrow> (int \<times> int) engine_op" where
  "reap_tenants cfg w now [] = returnE (0, 0)"
| "reap_tenants cfg w now (tid # tids) =
     bindE (reap_tenant cfg w now tid) (\<lambda>(e, r).
     bindE (reap_tenants cfg w now tids) (\<lambda>(e', r'). returnE (e + e', r + r')))"

definition reap :: "action_engine \<Rightarrow> world \<Rightarrow> string option \<Rightarrow> time \<Rightarrow> (int \<times> int) engine_op" where
  "reap cfg w tid now =
     bindE (readE (\<lambda>s. if opt_truthy tid then [the tid] else map t_id (list_tenants (en_store s))))
       (reap_tenants cfg w now)"

end
