(* ===== verification/ActionLife.thy ===== *)
theory ActionLife
  imports Models Connectors
begin

section \<open>The life cycle of an action, abstractly\<close>

text \<open>
  The state machine drawn at the head of \<open>actions/engine.py\<close>, as a specification: what is visible of
  an action, the moves its status may make, and when something may be done to the outside world.  The
  engine is shown to implement it in \<open>ActionProps\<close>; the guarantees are proved here, on the machine.
\<close>

record life_row =
  l_id :: string
  l_tenant :: string
  l_playbook :: string
  l_mode :: action_mode
  l_dry_run :: bool
  l_status :: action_status
  l_approved_by :: "string option"

record life =
  rows :: "life_row list"
  fx :: "effect list"

inductive move :: "life_row \<Rightarrow> life_row \<Rightarrow> bool" where
  ask: "l_status r = Planned \<Longrightarrow> move r (r\<lparr>l_status := Pending_approval\<rparr>)"
| approve: "l_status r \<in> {Planned, Pending_approval} \<Longrightarrow>
    move r (r\<lparr>l_status := Approved, l_approved_by := Some who\<rparr>)"
| reject: "l_status r \<in> {Planned, Pending_approval, Approved, Executing} \<Longrightarrow> move r (r\<lparr>l_status := Rejected\<rparr>)"
| start: "l_status r = Approved \<or> l_status r = Planned \<and> l_dry_run r \<Longrightarrow> move r (r\<lparr>l_status := Executing\<rparr>)"
| succeed: "l_status r = Executing \<Longrightarrow> move r (r\<lparr>l_status := Succeeded\<rparr>)"
| fail: "l_status r = Executing \<Longrightarrow> move r (r\<lparr>l_status := Failed\<rparr>)"
| expire: "l_status r = Pending_approval \<Longrightarrow> move r (r\<lparr>l_status := Expired\<rparr>)"
| undo: "l_status r \<in> {Succeeded, Failed} \<Longrightarrow> move r (r\<lparr>l_status := Rolled_back\<rparr>)"
| undo_failed: "l_status r \<in> {Succeeded, Failed} \<Longrightarrow> move r (r\<lparr>l_status := Failed\<rparr>)"

inductive_cases moveE: "move r r'"

text \<open>The parameter is the global simulation switch: while it is on, whatever is planned is simulated.\<close>

inductive life_step :: "bool \<Rightarrow> life \<Rightarrow> life \<Rightarrow> bool" for g where
  plan: "l_id r \<notin> l_id ` set (rows A) \<Longrightarrow> l_approved_by r = None \<Longrightarrow>
    l_status r = Planned \<or> l_status r = Approved \<and> l_mode r = Act_auto \<Longrightarrow> (g \<Longrightarrow> l_dry_run r) \<Longrightarrow>
    life_step g A (A\<lparr>rows := rows A @ [r]\<rparr>)"
| change: "rows A = xs @ r # ys \<Longrightarrow> move r r' \<Longrightarrow> life_step g A (A\<lparr>rows := xs @ r' # ys\<rparr>)"
| act: "r \<in> set (rows A) \<Longrightarrow> \<not> l_dry_run r \<Longrightarrow> l_status r \<in> {Executing, Succeeded, Failed} \<Longrightarrow>
    life_step g A (A\<lparr>fx := fx A @ fxs\<rparr>)"

inductive_cases life_stepE: "life_step g A B"

subsection \<open>What the machine guarantees\<close>

definition lawful :: "life_row \<Rightarrow> bool" where
  "lawful r \<longleftrightarrow>
     (l_status r = Approved \<longrightarrow> l_approved_by r \<noteq> None \<or> l_mode r = Act_auto) \<and>
     (l_status r \<in> {Executing, Succeeded, Failed, Rolled_back} \<longrightarrow>
        l_dry_run r \<or> l_approved_by r \<noteq> None \<or> l_mode r = Act_auto)"

definition life_ok :: "life \<Rightarrow> bool" where
  "life_ok A \<longleftrightarrow> distinct (map l_id (rows A)) \<and> list_all lawful (rows A)"

lemma move_fixed:
  "move r r' \<Longrightarrow> l_id r' = l_id r \<and> l_tenant r' = l_tenant r \<and> l_playbook r' = l_playbook r \<and>
     l_mode r' = l_mode r \<and> l_dry_run r' = l_dry_run r \<and> (l_approved_by r = None \<or> l_approved_by r' \<noteq> None)"
  by (erule moveE) auto

lemma move_lawful: "move r r' \<Longrightarrow> lawful r \<Longrightarrow> lawful r'"
  by (erule moveE) (auto simp: lawful_def)

lemma life_step_ok: "life_step g A B \<Longrightarrow> life_ok A \<Longrightarrow> life_ok B"
proof (induction rule: life_step.induct)
  case (plan r A)
  then show ?case by (auto simp: life_ok_def lawful_def)
next
  case (change A xs r ys r')
  then show ?case using move_fixed [OF change(2)] move_lawful [OF change(2)] by (auto simp: life_ok_def)
next
  case (act r A fxs)
  then show ?case by (simp add: life_ok_def)
qed

lemma life_steps_ok: "(life_step g)\<^sup>*\<^sup>* A B \<Longrightarrow> life_ok A \<Longrightarrow> life_ok B"
  by (induction rule: rtranclp_induct) (auto intro: life_step_ok)

text \<open>An end state is left by no move.\<close>

definition final :: "action_status \<Rightarrow> bool" where
  "final st \<longleftrightarrow> st \<in> {Rejected, Expired, Rolled_back}"

lemma move_not_final: "move r r' \<Longrightarrow> \<not> final (l_status r)"
  by (erule moveE) (auto simp: final_def)

lemma life_step_final:
  "life_step g A B \<Longrightarrow> r \<in> set (rows A) \<Longrightarrow> final (l_status r) \<Longrightarrow> r \<in> set (rows B)"
  by (erule life_stepE) (auto dest: move_not_final)

lemma life_steps_final:
  "(life_step g)\<^sup>*\<^sup>* A B \<Longrightarrow> r \<in> set (rows A) \<Longrightarrow> final (l_status r) \<Longrightarrow> r \<in> set (rows B)"
  by (induction rule: rtranclp_induct) (auto intro: life_step_final)

text \<open>Effects only come from authorised actions: approved by someone, or automatic.\<close>

definition authorised :: "life_row \<Rightarrow> bool" where
  "authorised r \<longleftrightarrow> \<not> l_dry_run r \<and> (l_approved_by r \<noteq> None \<or> l_mode r = Act_auto)"

lemma life_step_authorised:
  "life_step g A B \<Longrightarrow> life_ok A \<Longrightarrow> r \<in> set (rows A) \<Longrightarrow> authorised r \<Longrightarrow> \<exists>r' \<in> set (rows B). l_id r' = l_id r \<and> authorised r'"
  by (erule life_stepE) (auto simp: authorised_def dest!: move_fixed)

lemma life_steps_effects:
  "(life_step g)\<^sup>*\<^sup>* A B \<Longrightarrow> life_ok A \<Longrightarrow> fx B \<noteq> fx A \<Longrightarrow> \<exists>r \<in> set (rows B). authorised r"
proof (induction rule: rtranclp_induct)
  case (step B C)
  have ok: "life_ok B" using step life_steps_ok by blast
  show ?case
  proof (cases "fx B = fx A")
    case True
    with step have "fx C \<noteq> fx B" by simp
    with step(2) ok show ?thesis
      by (elim life_stepE) (auto simp: life_ok_def lawful_def authorised_def list_all_iff)
  next
    case False
    then show ?thesis using step life_step_authorised [OF step(2) ok] by blast
  qed
qed simp

text \<open>Under the global switch nothing ever reaches the outside world.\<close>

definition all_simulated :: "life \<Rightarrow> bool" where
  "all_simulated A \<longleftrightarrow> list_all l_dry_run (rows A)"

lemma life_step_simulated: "life_step True A B \<Longrightarrow> all_simulated A \<Longrightarrow> all_simulated B \<and> fx B = fx A"
  by (erule life_stepE) (auto simp: all_simulated_def list_all_iff dest!: move_fixed)

lemma life_steps_simulated:
  "(life_step True)\<^sup>*\<^sup>* A B \<Longrightarrow> all_simulated A \<Longrightarrow> all_simulated B \<and> fx B = fx A"
  by (induction rule: rtranclp_induct) (auto dest: life_step_simulated)

end
