(* ===== verification/ExecutorProps.thy ===== *)
theory ExecutorProps
  imports Executor
begin

section \<open>Properties of the executor\<close>

text \<open>
  An execution is a sequence of connector calls: the rendered steps of the playbook, in order, up to
  the first one that stops it.  From there follow that a simulated run has no effect, that effects
  happen in playbook order, that the token holds exactly the steps that succeeded, and that undoing a
  stack calls the inverse operations in reverse order.
\<close>

subsection \<open>Executions as sequences of calls\<close>

definition rendered_as :: "dict \<Rightarrow> playbook_step \<Rightarrow> request \<Rightarrow> bool" where
  "rendered_as ctx step c \<longleftrightarrow>
     fst c = st_connector step \<and> fst (snd c) = st_call step \<and> render_params step ctx = Inr (snd (snd c))"

lemma execute_steps_calls:
  "\<exists>cs. snd (execute_steps w dry pb ctx i steps applied r s) = run_calls (invoke w dry) cs s \<and>
     length cs \<le> length steps \<and> list_all2 (rendered_as ctx) (take (length cs) steps) cs"
proof (induction steps arbitrary: i applied r s)
  case (Cons step steps)
  show ?case
  proof (cases "render_params step ctx")
    case (Inl e)
    then show ?thesis by (auto intro!: exI [of _ "[]"])
  next
    case (Inr params)
    obtain res s' where inv: "invoke w dry (st_connector step) (st_call step) params s = (res, s')"
      by (cases "invoke w dry (st_connector step) (st_call step) params s")
    let ?c = "(st_connector step, st_call step, params)"
    have one: "rendered_as ctx step ?c" by (simp add: rendered_as_def Inr)
    have more: "\<exists>cs. snd (execute_steps w dry pb ctx i' steps applied' r' s') = run_calls (invoke w dry) cs s \<and>
        length cs \<le> length (step # steps) \<and> list_all2 (rendered_as ctx) (take (length cs) (step # steps)) cs"
      for i' applied' r'
    proof -
      obtain cs' where "snd (execute_steps w dry pb ctx i' steps applied' r' s') = run_calls (invoke w dry) cs' s'"
        "length cs' \<le> length steps" "list_all2 (rendered_as ctx) (take (length cs') steps) cs'"
        using Cons.IH by blast
      then show ?thesis by (intro exI [of _ "?c # cs'"]) (simp add: inv one)
    qed
    have stop: "\<exists>cs. s' = run_calls (invoke w dry) cs s \<and> length cs \<le> length (step # steps) \<and>
        list_all2 (rendered_as ctx) (take (length cs) (step # steps)) cs"
      by (intro exI [of _ "[?c]"]) (simp add: inv one)
    show ?thesis
      using more stop by (simp add: Inr inv Let_def)
  qed
qed (auto intro!: exI [of _ "[]"])

lemma rollback_steps_calls:
  "\<exists>cs. snd (rollback_steps w dry ctx i steps r s) = run_calls (invoke w dry) cs s \<and>
     length cs \<le> length steps \<and> list_all2 (rendered_as ctx) (take (length cs) steps) cs"
proof (induction steps arbitrary: i r s)
  case (Cons step steps)
  show ?case
  proof (cases "render_params step ctx")
    case (Inl e)
    then show ?thesis by (auto intro!: exI [of _ "[]"])
  next
    case (Inr params)
    obtain res s' where inv: "invoke w dry (st_connector step) (st_call step) params s = (res, s')"
      by (cases "invoke w dry (st_connector step) (st_call step) params s")
    let ?c = "(st_connector step, st_call step, params)"
    have one: "rendered_as ctx step ?c" by (simp add: rendered_as_def Inr)
    have more: "\<exists>cs. snd (rollback_steps w dry ctx i' steps r' s') = run_calls (invoke w dry) cs s \<and>
        length cs \<le> length (step # steps) \<and> list_all2 (rendered_as ctx) (take (length cs) (step # steps)) cs"
      for i' r'
    proof -
      obtain cs' where "snd (rollback_steps w dry ctx i' steps r' s') = run_calls (invoke w dry) cs' s'"
        "length cs' \<le> length steps" "list_all2 (rendered_as ctx) (take (length cs') steps) cs'"
        using Cons.IH by blast
      then show ?thesis by (intro exI [of _ "?c # cs'"]) (simp add: inv one)
    qed
    have stop: "\<exists>cs. s' = run_calls (invoke w dry) cs s \<and> length cs \<le> length (step # steps) \<and>
        list_all2 (rendered_as ctx) (take (length cs) (step # steps)) cs"
      by (intro exI [of _ "[?c]"]) (simp add: inv one)
    show ?thesis
      using more stop by (simp add: Inr inv Let_def)
  qed
qed (auto intro!: exI [of _ "[]"])

definition undo_request :: "pyval \<Rightarrow> request option" where
  "undo_request e =
     map_option (\<lambda>undo. (entry_text e ''connector'' ''simulation'', undo, undo_params e))
       (map_of UNDO_MAP (entry_text e ''call'' []))"

lemma unroll_calls:
  "snd (snd (unroll w dry i es r irr s)) = run_calls (invoke w dry) (List.map_filter undo_request es) s"
proof (induction es arbitrary: i r irr s)
  case (Cons e es)
  show ?case
    by (cases "map_of UNDO_MAP (entry_text e ''call'' [])")
       (simp_all add: Let_def Cons.IH undo_request_def map_filter_simps split_beta)
qed (simp add: map_filter_simps)

lemma execute_playbook_calls:
  "\<exists>cs. snd (execute_playbook w own (Some dry) pb params ctx now s) = run_calls (invoke w dry) cs s \<and>
     length cs \<le> length (pb_execute pb) \<and>
     list_all2 (rendered_as (build_context params ctx now)) (take (length cs) (pb_execute pb)) cs"
  unfolding execute_playbook_def Let_def option.case by (rule execute_steps_calls)

lemma rollback_playbook_calls:
  "\<exists>cs. snd (rollback_playbook w own (Some dry) pb token ctx now s) = run_calls (invoke w dry) cs s"
proof -
  have idle: "\<exists>cs. s = run_calls (invoke w dry) cs s" by (rule exI [of _ "[]"]) simp
  have steps: "\<exists>cs. snd (rollback_steps w dry c i ss r s) = run_calls (invoke w dry) cs s" for c i ss r
    using rollback_steps_calls by blast
  have roll: "\<exists>cs. snd (snd (unroll w dry i es r irr s)) = run_calls (invoke w dry) cs s" for i es r irr
    using unroll_calls by blast
  show ?thesis
  proof (cases "unpack_token token")
    case None
    then show ?thesis using idle by (simp add: rollback_playbook_def)
  next
    case (Some stack)
    then show ?thesis
    proof (cases "\<exists>e es. dict_val stack ''steps'' = PList (e # es)")
      case True
      then show ?thesis using Some steps roll by (auto simp: rollback_playbook_def Let_def split_beta)
    next
      case False
      then show ?thesis
        using Some idle by (auto simp: rollback_playbook_def split: pyval.split list.split)
    qed
  qed
qed

text \<open>A simulated run has no effect on the outside world: whatever the playbook, the configuration of
  the connectors and the rollback token, executing or undoing in simulation mode hands no operation to
  a native driver, also when it stops on an error.\<close>

theorem dry_run_inert:
  "ex_effects (snd (execute_playbook w own (Some True) pb params ctx now s)) = ex_effects s \<and>
   ex_effects (snd (rollback_playbook w own (Some True) pb' token ctx now s)) = ex_effects s"
  using execute_playbook_calls [of w own True pb params ctx now s]
    rollback_playbook_calls [of w own True pb' token ctx now s]
  by (auto simp: conn.run_calls_dry)

text \<open>A real run is sequential: the operations handed to native drivers are, in playbook order and
  without repetition, operations of its steps with their placeholders resolved.  Nothing else reaches
  the outside world.\<close>

theorem effects_in_order:
  "\<exists>cs fxs. length cs \<le> length (pb_execute pb) \<and>
     list_all2 (rendered_as (build_context params ctx now)) (take (length cs) (pb_execute pb)) cs \<and>
     ex_effects (snd (execute_playbook w own dry pb params ctx now s)) = ex_effects s @ fxs \<and>
     subseq (map fx_request fxs) (map snd cs)"
proof -
  let ?dry = "case dry of None \<Rightarrow> own | Some b \<Rightarrow> b"
  have same: "execute_playbook w own dry pb params ctx now = execute_playbook w own (Some ?dry) pb params ctx now"
    by (simp add: execute_playbook_def Let_def)
  obtain cs where cs: "snd (execute_playbook w own dry pb params ctx now s) = run_calls (invoke w ?dry) cs s"
    "length cs \<le> length (pb_execute pb)"
    "list_all2 (rendered_as (build_context params ctx now)) (take (length cs) (pb_execute pb)) cs"
    unfolding same using execute_playbook_calls by blast
  then show ?thesis using conn.run_calls_asked [of w ?dry cs s] by metis
qed

subsection \<open>The outcome and its token\<close>

text \<open>How the list of applied steps reflects the recorded outcomes.\<close>

definition mirrors :: "applied_step list \<Rightarrow> step_outcome list \<Rightarrow> bool" where
  "mirrors applied outs \<longleftrightarrow>
     map (\<lambda>a. (ap_index a, ap_connector a, ap_call a, ap_token a)) applied =
     map (\<lambda>o1. (so_index o1, so_connector o1, so_call o1, so_rollback_token o1)) (filter so_ok outs)"

lemma add_step_fields [simp]:
  "eo_steps (add_step so b r) = eo_steps r @ [so]" "eo_ok (add_step so b r) = eo_ok r"
  by (simp_all add: add_step_def)

lemma to_step_outcome_ok [simp]: "so_ok (to_step_outcome i c oper res params) = cr_ok res"
  by (simp add: to_step_outcome_def)

lemma mirrors_applied:
  "mirrors applied outs \<Longrightarrow> cr_ok res \<Longrightarrow>
     mirrors (applied @ [applied_of i step params res])
       (outs @ [to_step_outcome i (st_connector step) (st_call step) res params])"
  by (simp add: mirrors_def applied_of_def to_step_outcome_def)

lemma mirrors_failed: "mirrors applied outs \<Longrightarrow> \<not> so_ok so \<Longrightarrow> mirrors applied (outs @ [so])"
  by (simp add: mirrors_def)

lemma execute_steps_token:
  assumes "mirrors applied (eo_steps r)" and "eo_ok r"
    and "fst (execute_steps w dry pb ctx i steps applied r s) = Inr r'"
  shows "\<exists>applied'. eo_rollback_token r' = Some (pack_token (pb_name pb) applied') \<and>
    mirrors applied' (eo_steps r') \<and>
    (if eo_ok r' then length (eo_steps r') = length (eo_steps r) + length steps
     else eo_steps r' \<noteq> [] \<and> \<not> so_ok (last (eo_steps r')))"
  using assms
proof (induction steps arbitrary: i applied r s)
  case Nil
  then show ?case by auto
next
  case (Cons step steps)
  from Cons.prems(3) obtain params where params: "render_params step ctx = Inr params"
    by (cases "render_params step ctx") auto
  obtain res s' where inv: "invoke w dry (st_connector step) (st_call step) params s = (res, s')"
    by (cases "invoke w dry (st_connector step) (st_call step) params s")
  let ?so = "to_step_outcome i (st_connector step) (st_call step) res params"
  consider "cr_ok res" | "\<not> cr_ok res" "st_optional step" | "\<not> cr_ok res" "\<not> st_optional step" by blast
  then show ?case
  proof cases
    case 1
    then have "fst (execute_steps w dry pb ctx (Suc i) steps (applied @ [applied_of i step params res])
        (add_step ?so (cr_simulated res) r) s') = Inr r'"
      using Cons.prems(3) by (simp add: params inv)
    from Cons.IH [OF _ _ this] show ?thesis
      using 1 Cons.prems(1,2) by (auto simp: mirrors_applied split: if_splits)
  next
    case 2
    then have "fst (execute_steps w dry pb ctx (Suc i) steps applied (add_step ?so False r) s') = Inr r'"
      using Cons.prems(3) by (simp add: params inv)
    from Cons.IH [OF _ _ this] show ?thesis
      using 2 Cons.prems(1,2) by (auto simp: mirrors_failed split: if_splits)
  next
    case 3
    then have "r' = stop_outcome pb i step (cr_error res) applied (add_step ?so False r)"
      using Cons.prems(3) by (simp add: params inv)
    then show ?thesis
      using 3 Cons.prems(1) by (intro exI [of _ applied]) (simp add: stop_outcome_def mirrors_failed)
  qed
qed

text \<open>The token of an execution holds the stack of the steps that succeeded, in order, whether the
  playbook went to its end or was stopped; it goes to its end unless a mandatory step failed, which is
  then the last one tried.\<close>

theorem token_is_stack:
  "case fst (execute_playbook w own dry pb params ctx now s) of
     Inl e \<Rightarrow> True
   | Inr r \<Rightarrow> \<exists>applied. eo_rollback_token r = Some (pack_token (pb_name pb) applied) \<and>
       mirrors applied (eo_steps r) \<and>
       (if eo_ok r then length (eo_steps r) = length (pb_execute pb)
        else eo_steps r \<noteq> [] \<and> \<not> so_ok (last (eo_steps r)))"
proof (cases "fst (execute_playbook w own dry pb params ctx now s)")
  case (Inr r)
  let ?dry = "case dry of None \<Rightarrow> own | Some b \<Rightarrow> b"
  have "fst (execute_steps w ?dry pb (build_context params ctx now) 0 (pb_execute pb) [] (new_outcome ?dry) s) = Inr r"
    using Inr by (simp add: execute_playbook_def Let_def)
  from execute_steps_token [OF _ _ this] show ?thesis
    by (auto simp: Inr mirrors_def new_outcome_def)
qed simp

subsection \<open>Undoing a stack\<close>

definition undo_of :: "applied_step \<Rightarrow> request option" where
  "undo_of a =
     map_option (\<lambda>undo. (ap_connector a, undo,
       if opt_truthy (ap_token a) then dict_set ''rollback_token'' (PStr (the (ap_token a))) (json_column (ap_params a))
       else json_column (ap_params a))) (map_of UNDO_MAP (ap_call a))"

lemma unpack_pack:
  assumes "\<forall>a \<in> set applied. json_wf (PDict (ap_params a))"
  shows "unpack_token (pack_token name applied) =
    Some [(''playbook'', PStr name), (''steps'', PList (map (jsonify \<circ> applied_dict) applied))]"
proof -
  have "json_wf (applied_dict a)" if "a \<in> set applied" for a
    using assms that by (auto simp: applied_dict_def opt_str_def split: option.split)
  then have "json_wf (token_value name applied)" by (auto simp: token_value_def list_all_iff)
  then have "json_loads (pack_token name applied) = Some (jsonify (token_value name applied))"
    unfolding pack_token_def by (rule json_roundtrip [THEN conjunct1])
  then show ?thesis by (simp add: unpack_token_def token_value_def)
qed

lemma jsonify_entry:
  "entry_text (jsonify (applied_dict a)) ''connector'' d = ap_connector a"
  "entry_text (jsonify (applied_dict a)) ''call'' d = ap_call a"
  "entry_val (jsonify (applied_dict a)) ''params'' = PDict (json_column (ap_params a))"
  "entry_val (jsonify (applied_dict a)) ''rollback_token'' = opt_str (ap_token a)"
  by (simp_all add: applied_dict_def entry_text_def entry_val_def dict_val_def py_str_def json_column_def
      opt_str_def split: option.split)

lemma truthy_opt_str [simp]: "truthy (opt_str v) = opt_truthy v"
  by (simp add: opt_str_def opt_truthy_def split: option.split)

lemma undo_request_of: "undo_request (jsonify (applied_dict a)) = undo_of a"
  by (auto simp: undo_request_def undo_of_def undo_params_def jsonify_entry Let_def opt_str_def opt_truthy_def
      intro!: option.map_cong split: option.splits)

definition has_block :: "playbook option \<Rightarrow> bool" where
  "has_block pb \<longleftrightarrow> (case pb of None \<Rightarrow> False | Some p \<Rightarrow> pb_rollback p \<noteq> [])"

text \<open>The token of the last step applied that has one.\<close>

definition latest_token :: "applied_step list \<Rightarrow> string" where
  "latest_token applied = (case find opt_truthy (rev (map ap_token applied)) of None \<Rightarrow> [] | Some v \<Rightarrow> the v)"

lemma last_token_latest: "last_token (map (jsonify \<circ> applied_dict) applied) = latest_token applied"
proof -
  have "(case find (\<lambda>e. truthy (entry_val e ''rollback_token'')) (map (jsonify \<circ> applied_dict) xs) of
        None \<Rightarrow> [] | Some e \<Rightarrow> py_str (entry_val e ''rollback_token''))
      = (case find opt_truthy (map ap_token xs) of None \<Rightarrow> [] | Some v \<Rightarrow> the v)" for xs
    by (induction xs) (auto simp: jsonify_entry opt_str_def opt_truthy_def py_str_def split: option.splits)
  then show ?thesis by (simp add: last_token_def latest_token_def rev_map)
qed

lemma rollback_unrolls:
  assumes "\<forall>a \<in> set applied. json_wf (PDict (ap_params a))" and "\<not> has_block pb"
  shows "snd (rollback_playbook w own (Some dry) pb (pack_token name applied) ctx now s) =
    run_calls (invoke w dry) (List.map_filter undo_of (rev applied)) s"
proof (cases applied)
  case Nil
  then show ?thesis
    using unpack_pack [OF assms(1), of name] by (simp add: rollback_playbook_def dict_val_def map_filter_simps)
next
  case (Cons a as)
  have steps: "dict_val [(''playbook'', PStr name), (''steps'', PList (map (jsonify \<circ> applied_dict) applied))] ''steps''
      = PList (jsonify (applied_dict a) # map (jsonify \<circ> applied_dict) as)"
    by (simp add: dict_val_def Cons)
  have entries: "rev (jsonify (applied_dict a) # map (jsonify \<circ> applied_dict) as) =
      map (jsonify \<circ> applied_dict) (rev applied)"
    by (simp add: Cons rev_map)
  have "List.map_filter undo_request (map (jsonify \<circ> applied_dict) xs) = List.map_filter undo_of xs" for xs
    by (induction xs) (simp_all add: map_filter_simps undo_request_of split: option.split)
  moreover have "(pb \<noteq> None \<and> pb_rollback (the pb) \<noteq> []) = False" using assms(2) by (auto simp: has_block_def split: option.splits)
  ultimately show ?thesis
    using entries
    unfolding rollback_playbook_def unpack_pack [OF assms(1)] option.case steps
    by (simp only: pyval.case list.case if_False) (simp add: Let_def split_beta unroll_calls)
qed

lemma rollback_runs_block:
  assumes "\<forall>a \<in> set applied. json_wf (PDict (ap_params a))" and "has_block pb" and "applied \<noteq> []"
  shows "rollback_playbook w own (Some dry) pb (pack_token name applied) ctx now s =
    rollback_steps w dry (build_context (dict_set ''rollback_token'' (PStr (latest_token applied))
      (case dict_val ctx ''params'' of PDict d \<Rightarrow> d | _ \<Rightarrow> [])) ctx now) 0 (pb_rollback (the pb)) (new_outcome dry) s"
proof -
  obtain a as where applied: "applied = a # as" using assms(3) by (cases applied) auto
  have steps: "dict_val [(''playbook'', PStr name), (''steps'', PList (map (jsonify \<circ> applied_dict) applied))] ''steps''
      = PList (jsonify (applied_dict a) # map (jsonify \<circ> applied_dict) as)"
    by (simp add: dict_val_def applied)
  have "pb \<noteq> None \<and> pb_rollback (the pb) \<noteq> []" using assms(2) by (auto simp: has_block_def split: option.splits)
  moreover have "last_token (jsonify (applied_dict a) # map (jsonify \<circ> applied_dict) as) = latest_token applied"
    using last_token_latest [of applied] by (simp add: applied)
  ultimately show ?thesis
    unfolding rollback_playbook_def unpack_pack [OF assms(1)] option.case steps by (simp add: Let_def)
qed

text \<open>C30: Undoing the token of an execution.  When the playbook has no rollback block of its own (or is gone), it calls
  the inverse of every step that was applied and has one, last step first, on the connector of the step,
  with its parameters and its own rollback token; nothing else is called.  When the playbook has such a block and a
  step was applied, the steps of the block are run instead, in order, with the token of the last step applied that
  has one as their parameter.\<close>

theorem rollback_reverses:
  assumes "\<forall>a \<in> set applied. json_wf (PDict (ap_params a))"
  shows "snd (rollback_playbook w own (Some dry) pb (pack_token name applied) ctx now s) =
    (if has_block pb \<and> applied \<noteq> []
     then snd (rollback_steps w dry (build_context (dict_set ''rollback_token'' (PStr (latest_token applied))
         (case dict_val ctx ''params'' of PDict d \<Rightarrow> d | _ \<Rightarrow> [])) ctx now) 0 (pb_rollback (the pb)) (new_outcome dry) s)
     else run_calls (invoke w dry) (List.map_filter undo_of (rev applied)) s)"
proof (cases "has_block pb")
  case True
  then show ?thesis
    using rollback_runs_block [OF assms True, of w own dry name ctx now s] unpack_pack [OF assms, of name]
    by (cases applied) (simp_all add: rollback_playbook_def dict_val_def map_filter_simps)
qed (simp add: rollback_unrolls [OF assms])

definition sample_stack :: "applied_step list" where
  "sample_stack =
     [\<lparr>ap_index = 0, ap_connector = ''waf'', ap_call = ''block_ip'', ap_params = [(''ip'', PStr ''203.0.113.9'')],
       ap_token = Some ''rule-7''\<rparr>,
      \<lparr>ap_index = 1, ap_connector = ''notify'', ap_call = ''notify'', ap_params = [], ap_token = None\<rparr>,
      \<lparr>ap_index = 2, ap_connector = ''ticketing'', ap_call = ''open_ticket'', ap_params = [], ap_token = None\<rparr>]"

definition sample_exec :: exec_state where
  "sample_exec = \<lparr>ex_registry = new_registry [] False None None, ex_effects = []\<rparr>"

theorem rollback_reverses_witness:
  "snd (rollback_playbook idle_world True (Some False) None (pack_token ''block-source-ip'' sample_stack) [] 0 sample_exec) =
   run_calls (invoke idle_world False)
     [(''ticketing'', ''close_ticket'', []),
      (''waf'', ''unblock_ip'', [(''ip'', PStr ''203.0.113.9''), (''rollback_token'', PStr ''rule-7'')])] sample_exec"
proof -
  have wf: "\<forall>a \<in> set sample_stack. json_wf (PDict (ap_params a))"
    by (simp add: sample_stack_def)
  have "List.map_filter undo_of (rev sample_stack) =
     [(''ticketing'', ''close_ticket'', []),
      (''waf'', ''unblock_ip'', [(''ip'', PStr ''203.0.113.9''), (''rollback_token'', PStr ''rule-7'')])]"
    by code_simp
  then show ?thesis using rollback_reverses [OF wf, of idle_world True False None] by (simp add: has_block_def)
qed

subsection \<open>Rendering\<close>

fun piece_text :: "piece \<Rightarrow> string" where
  "piece_text (Lit c) = [c]"
| "piece_text (Hole path) = ''${'' @ path @ ''}''"

definition missing :: "dict \<Rightarrow> string \<Rightarrow> string set" where
  "missing ctx template =
     {path. Hole path \<in> set (pieces template) \<and> walk_dicts (PDict ctx) (split_on (CHR ''.'') path) = None}"

lemma hole_at_text: "hole_at s = Some (path, rest) \<Longrightarrow> s = ''${'' @ path @ ''}'' @ rest"
proof -
  assume h: "hole_at s = Some (path, rest)"
  let ?b = "drop 2 s"
  from h have "take 2 s = ''${''" "path = takeWhile (\<lambda>c. c \<noteq> CHR ''}'') ?b"
    "dropWhile (\<lambda>c. c \<noteq> CHR ''}'') ?b \<noteq> []" "rest = tl (dropWhile (\<lambda>c. c \<noteq> CHR ''}'') ?b)"
    by (auto simp: hole_at_def Let_def split: if_splits)
  moreover from this have "dropWhile (\<lambda>c. c \<noteq> CHR ''}'') ?b = CHR ''}'' # rest"
    using hd_dropWhile [of "\<lambda>c. c \<noteq> CHR ''}''" ?b] by (metis list.collapse)
  ultimately show ?thesis
    by (metis append_Cons append_Nil append_take_drop_id takeWhile_dropWhile_id)
qed

lemma pieces_text: "concat (map piece_text (pieces s)) = s"
proof (induction s rule: pieces.induct)
  case (2 c s)
  show ?case
  proof (cases "hole_at (c # s)")
    case None
    then show ?thesis using 2 by simp
  next
    case (Some h)
    obtain path rest where h: "h = (path, rest)" by (cases h)
    then show ?thesis using 2(2) [OF Some h [symmetric]] Some hole_at_text [of "c # s" path rest] by simp
  qed
qed simp

lemma substitute_cases:
  "substitute ctx p = Inl e \<longleftrightarrow>
     (\<exists>path. p = Hole path \<and> walk_dicts (PDict ctx) (split_on (CHR ''.'') path) = None \<and> e = unresolved path ctx)"
  by (auto simp: substitute_def resolve_hole_def split: piece.splits option.splits)

text \<open>Rendering never lets a placeholder through: cutting a template loses nothing of it, and
  rendering fails with the error of a missing placeholder exactly when one of them does not resolve.\<close>

theorem render_complete:
  "concat (map piece_text (pieces template)) = template \<and>
   (case render_string template ctx of
      Inl e \<Rightarrow> e \<in> (\<lambda>path. unresolved path ctx) ` missing ctx template
    | Inr v \<Rightarrow> missing ctx template = {})"
proof (rule conjI [OF pieces_text])
  let ?ps = "pieces template"
  show "case render_string template ctx of
      Inl e \<Rightarrow> e \<in> (\<lambda>path. unresolved path ctx) ` missing ctx template
    | Inr v \<Rightarrow> missing ctx template = {}"
  proof (cases "\<exists>path. ?ps = [Hole path]")
    case True
    then show ?thesis
      by (auto simp: render_string_def missing_def resolve_hole_def split: option.split)
  next
    case False
    then have r: "render_string template ctx =
        (case traverse (substitute ctx) ?ps of Inl e \<Rightarrow> Inl e | Inr parts \<Rightarrow> Inr (PStr (concat parts)))"
      by (auto simp: render_string_def split: list.split piece.split)
    show ?thesis
    proof (cases "traverse (substitute ctx) ?ps")
      case (Inl e)
      then show ?thesis using r by (auto dest!: traverse_error simp: substitute_cases missing_def)
    next
      case (Inr parts)
      then have ok: "substitute ctx p \<noteq> Inl e" if "p \<in> set ?ps" for p e
        using that by (auto simp: traverse_Inr_iff in_set_conv_nth list_all2_conv_all_nth)
      then have "missing ctx template = {}"
        using substitute_cases by (fastforce simp: missing_def)
      then show ?thesis using Inr r by simp
    qed
  qed
qed

end
