(* ===== verification/ActionProps.thy ===== *)
theory ActionProps
  imports ActionEngine ActionLife ExecutorProps
begin

section \<open>The action engine implements the life cycle\<close>

text \<open>
  A simulation of the engine by the abstract machine of \<open>ActionLife\<close>: every public operation, on every
  branch, is a sequence of moves of the machine.  The guarantees of the machine then hold of the
  engine: who may act on the outside world, which states are final, and what the global simulation
  switch means.
\<close>

subsection \<open>Abstraction\<close>

definition view :: "action \<Rightarrow> life_row" where
  "view a = \<lparr>l_id = a_id a, l_tenant = a_tenant a, l_playbook = a_playbook a, l_mode = a_mode a,
     l_dry_run = a_dry_run a, l_status = a_status a, l_approved_by = a_approved_by a\<rparr>"

definition abs_state :: "engine_state \<Rightarrow> life" where
  "abs_state s = \<lparr>rows = map view (st_actions (en_store s)), fx = ex_effects (en_exec s)\<rparr>"

lemma view_simps [simp]:
  "l_id (view a) = a_id a" "l_tenant (view a) = a_tenant a" "l_playbook (view a) = a_playbook a"
  "l_mode (view a) = a_mode a" "l_dry_run (view a) = a_dry_run a" "l_status (view a) = a_status a"
  "l_approved_by (view a) = a_approved_by a"
  by (simp_all add: view_def)

lemma abs_simps [simp]:
  "rows (abs_state s) = map view (st_actions (en_store s))" "fx (abs_state s) = ex_effects (en_exec s)"
  by (simp_all add: abs_state_def)

text \<open>
  \<open>lives g P m Q\<close>: from a well-formed state satisfying \<open>P\<close>, the operation \<open>m\<close> is a run of the machine,
  and its result satisfies \<open>Q\<close>.
\<close>

definition lives ::
    "bool \<Rightarrow> (engine_state \<Rightarrow> bool) \<Rightarrow> 'a engine_op \<Rightarrow> ('a \<Rightarrow> engine_state \<Rightarrow> bool) \<Rightarrow> bool" where
  "lives g P m Q \<longleftrightarrow>
     (\<forall>s. life_ok (abs_state s) \<longrightarrow> P s \<longrightarrow>
        (life_step g)\<^sup>*\<^sup>* (abs_state s) (abs_state (snd (m s))) \<and>
        (\<forall>a. fst (m s) = Inr a \<longrightarrow> Q a (snd (m s))))"

named_theorems lives_intros \<open>rules of the simulation\<close>

lemma lives_ok:
  "lives g P m Q \<Longrightarrow> life_ok (abs_state s) \<Longrightarrow> P s \<Longrightarrow> life_ok (abs_state (snd (m s)))"
  unfolding lives_def using life_steps_ok by blast

lemma lives_weaken: "lives g P m Q \<Longrightarrow> (\<And>s. P' s \<Longrightarrow> P s) \<Longrightarrow> (\<And>a s. Q a s \<Longrightarrow> Q' a s) \<Longrightarrow> lives g P' m Q'"
  unfolding lives_def by blast

lemma lives_bind [lives_intros]:
  assumes m: "lives g P m R" and f: "\<And>a. lives g (R a) (f a) Q"
  shows "lives g P (bindE m f) Q"
  unfolding lives_def
proof (intro allI impI)
  fix s assume ok: "life_ok (abs_state s)" and P: "P s"
  show "(life_step g)\<^sup>*\<^sup>* (abs_state s) (abs_state (snd (bindE m f s))) \<and>
      (\<forall>a. fst (bindE m f s) = Inr a \<longrightarrow> Q a (snd (bindE m f s)))"
  proof (cases "fst (m s)")
    case (Inl e)
    then show ?thesis
      using m ok P by (cases "m s") (auto simp: bindE_def lives_def)
  next
    case (Inr a)
    then have R: "R a (snd (m s))" and run: "(life_step g)\<^sup>*\<^sup>* (abs_state s) (abs_state (snd (m s)))"
      using m ok P unfolding lives_def by blast+
    have "bindE m f s = f a (snd (m s))" using Inr by (cases "m s") (simp add: bindE_def)
    with f [of a] R run lives_ok [OF m ok P] show ?thesis
      unfolding lives_def by (metis rtranclp_trans)
  qed
qed

lemma lives_return [lives_intros]: "(\<And>s. P s \<Longrightarrow> Q a s) \<Longrightarrow> lives g P (returnE a) Q"
  by (simp add: lives_def returnE_def)

lemma lives_raise [lives_intros]: "lives g P (raiseE e) Q"
  by (simp add: lives_def raiseE_def)

lemma lives_read [lives_intros]: "(\<And>s. P s \<Longrightarrow> Q (f s) s) \<Longrightarrow> lives g P (readE f) Q"
  by (simp add: lives_def readE_def)

lemma lives_catch [lives_intros]:
  assumes m: "lives g P m Q" and h: "\<And>e. lives g (\<lambda>_. True) (h e) Q"
  shows "lives g P (catchE m h) Q"
  unfolding lives_def
proof (intro allI impI)
  fix s assume ok: "life_ok (abs_state s)" and P: "P s"
  show "(life_step g)\<^sup>*\<^sup>* (abs_state s) (abs_state (snd (catchE m h s))) \<and>
      (\<forall>a. fst (catchE m h s) = Inr a \<longrightarrow> Q a (snd (catchE m h s)))"
  proof (cases "fst (m s)")
    case (Inr a)
    then show ?thesis using m ok P by (cases "m s") (auto simp: catchE_def lives_def)
  next
    case (Inl e)
    then have run: "(life_step g)\<^sup>*\<^sup>* (abs_state s) (abs_state (snd (m s)))"
      using m ok P unfolding lives_def by blast
    have "catchE m h s = h e (snd (m s))" using Inl by (cases "m s") (simp add: catchE_def)
    with h [of e] run lives_ok [OF m ok P] show ?thesis
      unfolding lives_def by (metis rtranclp_trans)
  qed
qed

lemma lives_stutter:
  "(\<And>s. P s \<Longrightarrow> abs_state (snd (m s)) = abs_state s) \<Longrightarrow>
   (\<And>s a. P s \<Longrightarrow> fst (m s) = Inr a \<Longrightarrow> Q a (snd (m s))) \<Longrightarrow> lives g P m Q"
  by (simp add: lives_def)

subsection \<open>Status changes\<close>

definition synced :: "action \<Rightarrow> engine_state \<Rightarrow> bool" where
  "synced a s \<longleftrightarrow> view a \<in> set (rows (abs_state s))"

definition same_core :: "action \<Rightarrow> action \<Rightarrow> bool" where
  "same_core a b \<longleftrightarrow> a_id b = a_id a \<and> a_tenant b = a_tenant a \<and> a_playbook b = a_playbook a \<and>
     a_mode b = a_mode a \<and> a_dry_run b = a_dry_run a"

lemma view_write_action: "view row = view a \<Longrightarrow> same_core a b \<Longrightarrow> view (write_action b row) = view b"
  by (simp add: view_def write_action_def same_core_def)

lemma update_where_unique:
  assumes "distinct (map a_id (xs @ row # ys))" and "same_action b row"
  shows "update_where (same_action b) h (xs @ row # ys) = xs @ h row # ys"
proof -
  have "a_id row \<notin> a_id ` set xs" "a_id row \<notin> a_id ` set ys" and row: "a_id b = a_id row"
    using assms by (simp_all add: same_action_def)
  then have "\<not> same_action b r" if "r \<in> set xs \<or> r \<in> set ys" for r
    using that unfolding same_action_def by (metis image_eqI)
  then have "map (\<lambda>r. if same_action b r then h r else r) zs = zs" if "set zs \<subseteq> set xs \<or> set zs \<subseteq> set ys" for zs
    using that by (intro map_idI) auto
  then show ?thesis using assms(2) by (simp add: update_where_def)
qed

lemma update_action_synced:
  assumes ids: "distinct (map a_id (st_actions st))" and row: "view a \<in> view ` set (st_actions st)"
    and core: "same_core a b"
  obtains xs row ys where "st_actions st = xs @ row # ys" "view row = view a"
    "update_action b st = (Inr b, st\<lparr>st_actions := xs @ write_action b row # ys\<rparr>)"
proof -
  obtain row where row: "row \<in> set (st_actions st)" "view row = view a" using row by auto
  obtain xs ys where st: "st_actions st = xs @ row # ys" using row(1) split_list by fastforce
  have same: "same_action b row"
    using row(2) core by (auto simp: same_action_def same_core_def view_def)
  then have "update_action b st = (Inr b, st\<lparr>st_actions := xs @ write_action b row # ys\<rparr>)"
    using ids update_where_unique [of xs row ys b "write_action b"] by (simp add: update_action_def st)
  with st row(2) show thesis by (rule that)
qed

lemma write_action_twice:
  "write_action c (write_action b row) = write_action c row"
  by (simp add: write_action_def)

text \<open>Writing the same rows: the store after a status change, and the object handed back.\<close>

lemma set_status_run:
  assumes ids: "distinct (map a_id (st_actions (en_store s)))" and sync: "synced a s"
    and core: "same_core a (extra (a\<lparr>a_status := st\<rparr>))"
  obtains xs row ys b s' where "set_status who role what before extra ctx now a st s = (Inr b, s')"
    "st_actions (en_store s) = xs @ row # ys" "view row = view a"
    "view b = view (extra (a\<lparr>a_status := st\<rparr>))"
    "abs_state s' = (abs_state s)\<lparr>rows := map view xs @ view b # map view ys\<rparr>"
proof -
  let ?b = "extra (a\<lparr>a_status := st\<rparr>)"
  obtain xs row ys where st: "st_actions (en_store s) = xs @ row # ys" "view row = view a"
    and up: "update_action ?b (en_store s) = (Inr ?b, (en_store s)\<lparr>st_actions := xs @ write_action ?b row # ys\<rparr>)"
    using update_action_synced [OF ids, of a ?b] sync core by (auto simp: synced_def)
  define st1 where "st1 = (en_store s)\<lparr>st_actions := xs @ write_action ?b row # ys\<rparr>"
  define prev where "prev = (case before of None \<Rightarrow> [(''status'', PStr (status_str (a_status a)))] | Some d \<Rightarrow> d)"
  define ctx1 where "ctx1 = fold (\<lambda>(k, v). dict_set k v) ctx [(''playbook'', PStr (a_playbook ?b))]"
  obtain rc st2 where rec: "record_state_change (a_tenant ?b) who role what (audit_target ?b) prev
      (to_audit_dict ?b) ctx1 now st1 = (Inr rc, st2)" and st2: "st_actions st2 = st_actions st1"
    by (simp add: record_state_change_def record_audit_def append_audit_def Let_def)
  define b where "b = ?b\<lparr>a_audit_seq := Some (au_seq rc)\<rparr>"
  have vw: "view (write_action ?b row) = view ?b" by (rule view_write_action [OF st(2) core])
  have ids2: "distinct (map a_id (st_actions st2))"
    using ids st vw by (auto simp: st2 st1_def dest: arg_cong [where f = l_id])
  have same: "same_action b (write_action ?b row)"
    using vw by (auto simp: same_action_def b_def dest: arg_cong [where f = l_id] arg_cong [where f = l_tenant])
  have up2: "update_action b st2 = (Inr b, st2\<lparr>st_actions := xs @ write_action b row # ys\<rparr>)"
    using update_where_unique [of xs "write_action ?b row" ys b "write_action b"] ids2 same
    by (simp add: update_action_def st2 st1_def write_action_twice)
  have vb: "view b = view ?b" by (simp add: b_def view_def)
  have vwb: "view (write_action b row) = view b"
    by (rule view_write_action [OF st(2)]) (use core in \<open>simp add: b_def same_core_def\<close>)
  define s' where "s' = s\<lparr>en_store := st2\<lparr>st_actions := xs @ write_action b row # ys\<rparr>,
      en_notices := en_notices s @ [(a_id b, status_str st)]\<rparr>"
  have "set_status who role what before extra ctx now a st s = (Inr b, s')"
    by (simp add: set_status_def Let_def bindE_def on_store_def up rec [unfolded st1_def prev_def ctx1_def]
        b_def [symmetric] up2 notify_def returnE_def s'_def)
  moreover have "abs_state s' = (abs_state s)\<lparr>rows := map view xs @ view b # map view ys\<rparr>"
    by (simp add: abs_state_def s'_def vwb)
  ultimately show thesis using st vb by (intro that)
qed

lemma move_same_core: "move (view a) (view b) \<Longrightarrow> same_core a b"
  by (drule move_fixed) (simp add: same_core_def)

lemma lives_status_frame:
  assumes v: "view (extra (a\<lparr>a_status := st\<rparr>)) = r'" and mv: "move (view a) r'"
  shows "lives g (\<lambda>s. synced a s \<and> (\<forall>c \<in> C. synced c s \<and> a_id c \<noteq> a_id a))
    (set_status who role what before extra ctx now a st)
    (\<lambda>b s. synced b s \<and> view b = r' \<and> (\<forall>c \<in> C. synced c s))"
  unfolding lives_def
proof (intro allI impI)
  have core: "same_core a (extra (a\<lparr>a_status := st\<rparr>))" by (rule move_same_core) (simp add: v mv)
  fix s assume ok: "life_ok (abs_state s)" and pre: "synced a s \<and> (\<forall>c \<in> C. synced c s \<and> a_id c \<noteq> a_id a)"
  have "distinct (map a_id (st_actions (en_store s)))" using ok by (simp add: life_ok_def comp_def)
  from set_status_run [where extra = extra and a = a and st = st, OF this conjunct1 [OF pre] core]
  obtain xs row ys b s' where
    run: "set_status who role what before extra ctx now a st s = (Inr b, s')"
      "st_actions (en_store s) = xs @ row # ys" "view row = view a" "view b = view (extra (a\<lparr>a_status := st\<rparr>))"
      "abs_state s' = (abs_state s)\<lparr>rows := map view xs @ view b # map view ys\<rparr>" by metis
  have "life_step g (abs_state s) (abs_state s')"
    unfolding run(5) by (rule life_step.change [of _ _ "view a"]) (use run mv v in simp_all)
  moreover have "synced b s'" unfolding synced_def run(5) by simp
  moreover have "synced c s'" if "c \<in> C" for c
  proof -
    from pre that have c: "view c \<in> set (map view (xs @ row # ys))" "a_id c \<noteq> a_id a"
      unfolding synced_def abs_simps run(2) by blast+
    then have "view c \<noteq> view row" using run(3) by (metis view_simps(1))
    with c(1) show ?thesis unfolding synced_def run(5) by auto
  qed
  ultimately show "(life_step g)\<^sup>*\<^sup>* (abs_state s) (abs_state (snd (set_status who role what before extra ctx now a st s))) \<and>
      (\<forall>b. fst (set_status who role what before extra ctx now a st s) = Inr b \<longrightarrow>
        synced b (snd (set_status who role what before extra ctx now a st s)) \<and>
        view b = r' \<and>
        (\<forall>c \<in> C. synced c (snd (set_status who role what before extra ctx now a st s))))"
    using run(4) v by (simp add: run(1) r_into_rtranclp)
qed

lemma lives_status:
  assumes "view (extra (a\<lparr>a_status := st\<rparr>)) = r'" and "move (view a) r'"
  shows "lives g (synced a) (set_status who role what before extra ctx now a st)
    (\<lambda>b s. synced b s \<and> view b = r')"
  by (rule lives_weaken [OF lives_status_frame [where C = "{}" and extra = extra and a = a and st = st, OF assms]]) auto

subsection \<open>Approval, rejection, execution\<close>

lemma lives_if [lives_intros]:
  "(c \<Longrightarrow> lives g P m Q) \<Longrightarrow> (\<not> c \<Longrightarrow> lives g P n Q) \<Longrightarrow> lives g P (if c then m else n) Q"
  by simp

lemma lives_require [lives_intros]: "lives g P (require_action tid aid) synced"
proof (rule lives_stutter)
  fix s a assume "fst (require_action tid aid s) = Inr a"
  then show "synced a (snd (require_action tid aid s))"
    by (auto simp: require_action_def synced_def get_action_def find_Some_iff split: option.splits
        intro!: image_eqI [of _ view])
qed (simp add: require_action_def split: option.split)

lemma view_status: "view (a\<lparr>a_status := st\<rparr>) = (view a)\<lparr>l_status := st\<rparr>"
  by (simp add: view_def)

lemma view_extras [simp]:
  "view (a\<lparr>a_reason := x1\<rparr>) = view a" "view (a\<lparr>a_result := x2\<rparr>) = view a"
  "view (a\<lparr>a_rollback := x3\<rparr>) = view a" "view (a\<lparr>a_executed_at := x4\<rparr>) = view a"
  "view (a\<lparr>a_rejected_by := x5\<rparr>) = view a" "view (a\<lparr>a_rejected_at := x6\<rparr>) = view a"
  "view (a\<lparr>a_approved_at := x7\<rparr>) = view a" "view (a\<lparr>a_audit_seq := x8\<rparr>) = view a"
  "view (a\<lparr>a_approved_by := x9\<rparr>) = (view a)\<lparr>l_approved_by := x9\<rparr>"
  by (simp_all add: view_def)

lemma synced_extras [simp]:
  "synced (a\<lparr>a_reason := x1\<rparr>) = synced a" "synced (a\<lparr>a_result := x2\<rparr>) = synced a"
  "synced (a\<lparr>a_rollback := x3\<rparr>) = synced a"
  by (rule ext, simp add: synced_def)+

lemma lives_approve: "lives g P (approve t aid who role comment now) synced"
  unfolding approve_def
proof (rule lives_bind [OF lives_require], rule lives_if, rule lives_raise)
  fix a :: action
  assume "\<not> a_status a \<notin> {Planned, Pending_approval}"
  then have "move (view a) ((view a)\<lparr>l_status := Approved, l_approved_by := Some who\<rparr>)"
    by (intro move.approve) simp
  then show "lives g (synced a) (set_status who role ''action.approve'' None
      (\<lambda>a. a\<lparr>a_approved_by := Some who, a_approved_at := Some now\<rparr>)
      [(''comment'', PStr (take 500 comment))] now a Approved) synced"
    by (intro lives_weaken [OF lives_status]) (auto simp: view_status)
qed

lemma lives_reject: "lives g P (reject t aid who role reason now) synced"
  unfolding reject_def
proof (rule lives_bind [OF lives_require], rule lives_if, rule lives_raise)
  fix a :: action
  assume "\<not> is_terminal a"
  then have "move (view a) ((view a)\<lparr>l_status := Rejected\<rparr>)"
    by (intro move.reject) (cases "a_status a"; simp add: is_terminal_def)
  then show "lives g (synced a) (set_status who role ''action.reject'' None
      (\<lambda>a. a\<lparr>a_rejected_by := Some who, a_rejected_at := Some now, a_reason := take 500 reason\<rparr>)
      [] now a Rejected) synced"
    by (intro lives_weaken [OF lives_status]) (auto simp: view_status)
qed

lemma lives_mark_failed:
  "a_status a = Executing \<Longrightarrow> lives g (synced a) (mark_failed who role err result now a) synced"
  unfolding mark_failed_def
  by (intro lives_weaken [OF lives_status]) (auto simp: view_status intro!: move.fail)

lemma lives_conclude:
  "a_status a = Executing \<Longrightarrow> lives g (synced a) (conclude_execution pb who role now a r) synced"
  unfolding conclude_execution_def Let_def
proof (intro lives_if lives_mark_failed, goal_cases)
  case 1
  then show ?case by (intro lives_weaken [OF lives_status]) (auto simp: view_status intro!: move.succeed)
qed

subsection \<open>Acting on the outside world\<close>

lemma run_calls_grow:
  "\<exists>fxs. ex_effects (run_calls (invoke w dry) cs s) = ex_effects s @ fxs \<and> (dry \<longrightarrow> fxs = [])"
proof (cases dry)
  case True
  then show ?thesis using conn.run_calls_dry [of w cs s] by simp
next
  case False
  then show ?thesis using conn.run_calls_asked [of w dry cs s] by auto
qed

lemma execute_effects:
  "\<exists>fxs. ex_effects (snd (execute_playbook w own (Some dry) pb params ctx now s)) = ex_effects s @ fxs \<and>
     (dry \<longrightarrow> fxs = [])"
proof -
  obtain cs where "snd (execute_playbook w own (Some dry) pb params ctx now s) = run_calls (invoke w dry) cs s"
    using execute_playbook_calls by blast
  then show ?thesis using run_calls_grow by simp
qed

lemma rollback_effects:
  "\<exists>fxs. ex_effects (snd (rollback_playbook w own (Some dry) pb token ctx now s)) = ex_effects s @ fxs \<and>
     (dry \<longrightarrow> fxs = [])"
proof -
  obtain cs where "snd (rollback_playbook w own (Some dry) pb token ctx now s) = run_calls (invoke w dry) cs s"
    using rollback_playbook_calls by blast
  then show ?thesis using run_calls_grow by simp
qed

text \<open>An operation that first lets a connector act for \<open>a\<close>, then continues with its outcome.\<close>

lemma lives_acting:
  assumes run: "\<And>s. n s = k (fst (on_exec (m s) s)) (snd (on_exec (m s) s))"
    and effects: "\<And>s ex. \<exists>fxs. ex_effects (snd (m s ex)) = ex_effects ex @ fxs \<and> (a_dry_run a \<longrightarrow> fxs = [])"
    and status: "a_status a \<in> {Executing, Succeeded, Failed}"
    and cont: "\<And>r. lives g (synced a) (k r) Q"
  shows "lives g (synced a) n Q"
  unfolding lives_def
proof (intro allI impI)
  fix s assume ok: "life_ok (abs_state s)" and sync: "synced a s"
  let ?s = "snd (on_exec (m s) s)"
  obtain fxs where fxs: "ex_effects (snd (m s (en_exec s))) = ex_effects (en_exec s) @ fxs"
    "a_dry_run a \<longrightarrow> fxs = []" using effects by blast
  have abs: "abs_state ?s = (abs_state s)\<lparr>fx := fx (abs_state s) @ fxs\<rparr>"
    using fxs(1) by (simp add: abs_state_def on_exec_def split_beta)
  have step: "(life_step g)\<^sup>*\<^sup>* (abs_state s) (abs_state ?s)"
  proof (cases "a_dry_run a")
    case True
    then have "abs_state ?s = abs_state s" using fxs(2) abs by (simp add: abs_state_def)
    then show ?thesis by simp
  next
    case False
    have "life_step g (abs_state s) (abs_state ?s)"
      unfolding abs by (rule life_step.act [of "view a"]) (use sync status False in \<open>auto simp: synced_def\<close>)
    then show ?thesis by blast
  qed
  have sync': "synced a ?s" using sync unfolding synced_def abs by simp
  have "life_ok (abs_state ?s)" using step ok life_steps_ok by blast
  with cont [of "fst (on_exec (m s) s)"] sync' step
  show "(life_step g)\<^sup>*\<^sup>* (abs_state s) (abs_state (snd (n s))) \<and>
      (\<forall>b. fst (n s) = Inr b \<longrightarrow> Q b (snd (n s)))"
    unfolding lives_def run by (meson rtranclp_trans)
qed

lemma lives_run_execution:
  assumes "a_status a = Executing"
  shows "lives g (synced a) (run_execution cfg w t pb who role now a) synced"
proof (rule lives_acting)
  let ?k = "\<lambda>r s'. case r of
      Inl e \<Rightarrow> if is_playbook_error e then mark_failed who role (exn_str e) [(''error'', PStr (exn_str e))] now a s'
               else (Inl e, s')
    | Inr r \<Rightarrow> conclude_execution pb who role now a r s'"
  let ?m = "\<lambda>s. execute_playbook w (ae_executor_dry_run cfg) (Some (a_dry_run a)) pb (a_params a)
     (execution_context t a (en_store s)) now"
  show "run_execution cfg w t pb who role now a s = ?k (fst (on_exec (?m s) s)) (snd (on_exec (?m s) s))" for s
    by (simp add: run_execution_def split_beta split: sum.split)
  show "\<exists>fxs. ex_effects (snd (?m s ex)) = ex_effects ex @ fxs \<and> (a_dry_run a \<longrightarrow> fxs = [])" for s ex
    by (rule execute_effects)
  show "lives g (synced a) (?k r) synced" for r
  proof (cases r)
    case (Inl e)
    then show ?thesis
      using lives_mark_failed [OF assms] lives_raise [of g "synced a" e synced]
      by (cases "is_playbook_error e") (simp_all add: raiseE_def [abs_def])
  qed (simp add: lives_conclude [OF assms])
qed (use assms in simp)

lemma lives_authorize:
  "lives g (synced a) (authorize_execution a pb t now)
     (\<lambda>_ s. synced a s \<and> (a_status a = Approved \<or> a_status a = Planned \<and> a_dry_run a))"
  unfolding authorize_execution_def
  by (cases "a_status a") (auto simp: EXECUTABLE_STATUSES_def intro!: lives_raise lives_return)

lemma lives_start:
  "lives g (\<lambda>s. synced a s \<and> (a_status a = Approved \<or> a_status a = Planned \<and> a_dry_run a))
     (set_status who role what None id [] now a Executing) (\<lambda>b s. synced b s \<and> a_status b = Executing)"
proof (cases "a_status a = Approved \<or> a_status a = Planned \<and> a_dry_run a")
  case True
  then have "move (view a) ((view a)\<lparr>l_status := Executing\<rparr>)" by (intro move.start) simp
  then show ?thesis
    by (intro lives_weaken [OF lives_status]) (auto simp: view_status dest: arg_cong [where f = l_status])
next
  case False
  then show ?thesis by (auto simp: lives_def)
qed

lemma lives_execute: "lives g P (execute cfg w t aid who role now) synced"
  unfolding execute_def
proof (rule lives_bind [OF lives_require])
  fix a
  show "lives g (synced a) (case map_of (ae_playbooks cfg) (a_playbook a) of
         None \<Rightarrow> raiseE (Err NotFoundError (''playbook '' @ quote (a_playbook a) @ '' introuvable'') [])
       | Some pb \<Rightarrow>
           bindE (authorize_execution a pb t now) (\<lambda>_.
           bindE (set_status who role ''action.execute'' None id [] now a Executing) (\<lambda>a'.
             run_execution cfg w t pb who role now a'))) synced"
  proof (cases "map_of (ae_playbooks cfg) (a_playbook a)")
    case (Some pb)
    have "lives g (\<lambda>s. synced b s \<and> a_status b = Executing) (run_execution cfg w t pb who role now b) synced" for b
      using lives_run_execution [of b] by (cases "a_status b = Executing") (auto simp: lives_def)
    then show ?thesis
      unfolding Some option.case by (intro lives_bind [OF lives_authorize] lives_bind [OF lives_start])
  qed (simp add: lives_raise)
qed

subsection \<open>Undoing\<close>

lemma lives_mark_rollback_failed:
  "a_status a \<in> {Succeeded, Failed} \<Longrightarrow> lives g (synced a) (mark_rollback_failed who role err now a) synced"
  unfolding mark_rollback_failed_def Let_def
  by (intro lives_weaken [OF lives_status]) (auto simp: view_status intro!: move.undo_failed)

lemma lives_conclude_rollback:
  assumes "a_status a \<in> {Succeeded, Failed}"
  shows "lives g (synced a) (conclude_rollback who role reason now a r) synced"
proof -
  have "move (view a) ((view a)\<lparr>l_status := if eo_ok r then Rolled_back else Failed\<rparr>)"
    using assms by (auto intro: move.undo move.undo_failed)
  then show ?thesis
    unfolding conclude_rollback_def Let_def by (intro lives_weaken [OF lives_status]) (auto simp: view_status)
qed

lemma lives_run_rollback:
  assumes "a_status a \<in> {Succeeded, Failed}"
  shows "lives g (synced a) (run_rollback cfg w t who role reason now a) synced"
proof (rule lives_acting)
  let ?k = "\<lambda>r s'. case r of
      Inl e \<Rightarrow> if is_playbook_error e then mark_rollback_failed who role (exn_str e) now a s' else (Inl e, s')
    | Inr r \<Rightarrow> conclude_rollback who role reason now a r s'"
  let ?m = "\<lambda>s. rollback_playbook w (ae_executor_dry_run cfg) (Some (a_dry_run a))
     (map_of (ae_playbooks cfg) (a_playbook a)) (or_empty (r_token (a_rollback a)))
     (execution_context t a (en_store s)) now"
  show "run_rollback cfg w t who role reason now a s = ?k (fst (on_exec (?m s) s)) (snd (on_exec (?m s) s))" for s
    by (simp add: run_rollback_def split_beta split: sum.split)
  show "\<exists>fxs. ex_effects (snd (?m s ex)) = ex_effects ex @ fxs \<and> (a_dry_run a \<longrightarrow> fxs = [])" for s ex
    by (rule rollback_effects)
  show "lives g (synced a) (?k r) synced" for r
  proof (cases r)
    case (Inl e)
    then show ?thesis
      using lives_mark_rollback_failed [OF assms] lives_raise [of g "synced a" e synced]
      by (cases "is_playbook_error e") (simp_all add: raiseE_def [abs_def])
  qed (simp add: lives_conclude_rollback [OF assms])
qed (use assms in auto)

lemma lives_rollback: "lives g P (rollback cfg w t aid who role reason now) synced"
  unfolding rollback_def
  by (rule lives_bind [OF lives_require])
     (auto intro!: lives_raise lives_run_rollback simp: ROLLBACK_STATUSES_def)

subsection \<open>Planning\<close>

definition plannable :: "bool \<Rightarrow> action \<Rightarrow> bool" where
  "plannable g a \<longleftrightarrow> a_approved_by a = None \<and> (a_status a = Planned \<or> a_status a = Approved \<and> a_mode a = Act_auto) \<and>
     (g \<longrightarrow> a_dry_run a)"

fun insertion_synced :: "plan_insertion \<Rightarrow> engine_state \<Rightarrow> bool" where
  "insertion_synced (Inserted a) s = synced a s"
| "insertion_synced (Reused a) s = synced a s"

lemma insert_action_cases:
  obtains e where "insert_action a st = (Inl e, st)"
  | "insert_action a st = (Inr a, st\<lparr>st_actions := st_actions st @ [action_row a]\<rparr>)"
    "\<forall>b \<in> set (st_actions st). a_id b \<noteq> a_id a"
  by (cases "insert_action a st")
     (auto simp: insert_action_def list_ex_iff split: if_splits option.splits intro: that)

lemma lives_new_id [lives_intros]: "lives g P (new_id w pre) (\<lambda>_ _. True)"
  by (rule lives_stutter) (simp_all add: new_id_def abs_state_def)

lemma existing_synced: "existing_action tid e (en_store s) = Some b \<Longrightarrow> synced b s"
  by (auto simp: existing_action_def synced_def get_action_def find_Some_iff Let_def split: if_splits
      intro!: image_eqI [of _ view])

lemma lives_plan_insert:
  "plannable g a \<Longrightarrow> lives g P (plan_insert w tid base n k a) insertion_synced"
proof (induction n arbitrary: k a P)
  case 0
  then show ?case by (simp add: lives_def)
next
  case (Suc n)
  let ?b = "\<lambda>i. a\<lparr>a_id := i, a_idempotency_key := base @ ''#'' @ int_str (int (Suc k))\<rparr>"
  have again: "lives g (\<lambda>_. True) (bindE (new_id w ''ac_'') (\<lambda>i. plan_insert w tid base n (Suc k) (?b i))) insertion_synced"
    by (rule lives_bind [OF lives_new_id]) (rule Suc.IH, use Suc.prems in \<open>simp add: plannable_def\<close>)
  show ?case
    unfolding lives_def
  proof (intro allI impI)
    fix s assume ok: "life_ok (abs_state s)"
    show "(life_step g)\<^sup>*\<^sup>* (abs_state s) (abs_state (snd (plan_insert w tid base (Suc n) k a s))) \<and>
        (\<forall>r. fst (plan_insert w tid base (Suc n) k a s) = Inr r \<longrightarrow>
           insertion_synced r (snd (plan_insert w tid base (Suc n) k a s)))"
    proof (cases rule: insert_action_cases [of a "en_store s"])
      case (1 e)
      then show ?thesis
        using again ok existing_synced [of tid e s]
        by (auto simp: on_store_def lives_def split: option.split)
    next
      case 2
      define s' where "s' = s\<lparr>en_store := (en_store s)\<lparr>st_actions := st_actions (en_store s) @ [action_row a]\<rparr>\<rparr>"
      have run: "plan_insert w tid base (Suc n) k a s = (Inr (Inserted a), s')"
        by (simp add: on_store_def 2 s'_def)
      have row: "view (action_row a) = view a" by (simp add: view_def action_row_def)
      have abs: "abs_state s' = (abs_state s)\<lparr>rows := rows (abs_state s) @ [view a]\<rparr>"
        by (simp add: s'_def abs_state_def row)
      have "life_step g (abs_state s) (abs_state s')"
        unfolding abs
        by (rule life_step.plan) (use 2 Suc.prems in \<open>auto simp: plannable_def image_image\<close>)
      then show ?thesis
        unfolding run by (simp add: r_into_rtranclp synced_def abs)
    qed
  qed
qed

lemma lives_register: "lives g (synced a) (register_plan t pb q who role now a) synced"
  unfolding lives_def
proof (intro allI impI)
  fix s assume ok: "life_ok (abs_state s)" and sync: "synced a s"
  obtain rc st1 where rec: "record_audit (t_id t) who ''action.plan'' role (audit_target a) [] (to_audit_dict a)
      (plan_context pb q a) now (en_store s) = (Inr rc, st1)" and st1: "st_actions st1 = st_actions (en_store s)"
    by (simp add: record_audit_def append_audit_def Let_def)
  define b where "b = a\<lparr>a_audit_seq := Some (au_seq rc)\<rparr>"
  have vb: "view b = view a" by (simp add: b_def)
  have "distinct (map a_id (st_actions st1))" using ok by (simp add: life_ok_def comp_def st1)
  moreover have "view a \<in> view ` set (st_actions st1)" using sync by (simp add: synced_def st1)
  moreover have core: "same_core a b" by (simp add: b_def same_core_def)
  ultimately obtain xs row ys where row: "st_actions st1 = xs @ row # ys" "view row = view a"
    "update_action b st1 = (Inr b, st1\<lparr>st_actions := xs @ write_action b row # ys\<rparr>)"
    by (rule update_action_synced)
  define s' where "s' = s\<lparr>en_store := st1\<lparr>st_actions := xs @ write_action b row # ys\<rparr>,
      en_notices := en_notices s @ [(a_id b, ''planned'')]\<rparr>"
  have run: "register_plan t pb q who role now a s = (Inr b, s')"
    by (simp add: register_plan_def bindE_def on_store_def rec Let_def b_def [symmetric] row(3) notify_def
        returnE_def s'_def)
  have "abs_state s' = abs_state s"
    using view_write_action [OF row(2) core] row(1,2) vb by (simp add: abs_state_def s'_def st1 [symmetric])
  then show "(life_step g)\<^sup>*\<^sup>* (abs_state s) (abs_state (snd (register_plan t pb q who role now a s))) \<and>
      (\<forall>c. fst (register_plan t pb q who role now a s) = Inr c \<longrightarrow>
         synced c (snd (register_plan t pb q who role now a s)))"
    using sync vb unfolding run synced_def by simp
qed

lemma new_action_plannable: "plannable (s_dry_run (ae_settings cfg)) (new_action cfg t pb who q params target aid key now)"
  by (simp add: plannable_def new_action_def Let_def planned_dry_run_def)

lemma lives_plan: "lives (s_dry_run (ae_settings cfg)) P (plan cfg w t who role q now) synced"
proof -
  have "lives (s_dry_run (ae_settings cfg)) (insertion_synced ins)
      (case ins of Reused b \<Rightarrow> returnE b | Inserted a \<Rightarrow> register_plan t pb q who role now a) synced" for ins pb
    by (cases ins) (auto intro: lives_return lives_weaken [OF lives_register])
  then have "lives (s_dry_run (ae_settings cfg)) P (bindE (new_id w ''ac_'') (\<lambda>aid.
      bindE (plan_insert w (t_id t) key 5 0 (new_action cfg t pb who q params target aid key now)) (\<lambda>ins.
        case ins of Reused b \<Rightarrow> returnE b | Inserted a \<Rightarrow> register_plan t pb q who role now a))) synced"
    for pb params target key
    by (intro lives_bind [OF lives_new_id] lives_bind [OF lives_plan_insert] new_action_plannable)
  then show ?thesis
    unfolding plan_def Let_def by (auto intro: lives_raise split: option.split sum.split)
qed

lemma lives_from_decision:
  "lives (s_dry_run (ae_settings cfg)) P (from_decision cfg w t f d who role now) (\<lambda>_ _. True)"
proof -
  let ?g = "s_dry_run (ae_settings cfg)"
  have ask: "lives ?g (synced a) (if d_decision d = Require_approval \<and> a_status a = Planned
      then set_status who role ''action.plan'' None id
         [(''decision'', PStr ''require_approval''), (''policy_id'', opt_str (d_policy_id d))] now a Pending_approval
      else returnE a) synced" for a
    by (auto intro!: lives_return lives_weaken [OF lives_status] move.ask simp: view_status)
  have go: "lives ?g (synced a) (if d_decision d = Auto \<and> a_status a = Approved
      then execute cfg w t (a_id a) who role now else returnE a) synced" for a
    by (auto intro: lives_return lives_execute)
  have "lives ?g P (bindE (plan cfg w t who role (decision_request f d) now) (\<lambda>a.
      bindE (if d_decision d = Require_approval \<and> a_status a = Planned
          then set_status who role ''action.plan'' None id
             [(''decision'', PStr ''require_approval''), (''policy_id'', opt_str (d_policy_id d))] now a Pending_approval
          else returnE a) (\<lambda>a.
      bindE (if d_decision d = Auto \<and> a_status a = Approved then execute cfg w t (a_id a) who role now
          else returnE a) (\<lambda>a. returnE (Some a))))) (\<lambda>_ _. True)"
    by (rule lives_bind [OF lives_plan], rule lives_bind [OF ask], rule lives_bind [OF go], rule lives_return) simp
  then show ?thesis unfolding from_decision_def by (auto intro: lives_return)
qed

subsection \<open>Maintenance\<close>

lemma lives_pull: "(c \<Longrightarrow> lives g P m Q) \<Longrightarrow> lives g (\<lambda>s. c \<and> P s) m Q"
  by (cases c) (simp_all add: lives_def)

lemma lives_read_ok: "(\<And>s. life_ok (abs_state s) \<Longrightarrow> Q (f s) s) \<Longrightarrow> lives g P (readE f) Q"
  by (simp add: lives_def readE_def)

lemma lives_expire_all:
  "distinct (map a_id as) \<Longrightarrow> \<forall>a \<in> set as. a_status a = Pending_approval \<Longrightarrow>
   lives g (\<lambda>s. \<forall>a \<in> set as. synced a s) (expire_all now as) (\<lambda>_ _. True)"
proof (induction as)
  case Nil
  show ?case by (simp add: lives_return)
next
  case (Cons a as)
  let ?P = "\<lambda>s. \<forall>b \<in> set (a # as). synced b s"
  have rest: "lives g (\<lambda>s. \<forall>b \<in> set as. synced b s) (expire_all now as) (\<lambda>_ _. True)"
    using Cons by simp
  have mv: "move (view a) ((view a)\<lparr>l_status := Expired\<rparr>)" using Cons.prems by (intro move.expire) simp
  have "lives g ?P (set_status ''system:reaper'' ''system'' ''action.fail'' None
      (\<lambda>a. a\<lparr>a_reason := ''delai d approbation depasse''\<rparr>) [] now a Expired) (\<lambda>_ s. \<forall>b \<in> set as. synced b s)"
    by (rule lives_weaken [OF lives_status_frame [OF _ mv, where C = "set as"]])
       (use Cons.prems in \<open>auto simp: view_status image_iff\<close>)
  then have "lives g ?P (bindE (set_status ''system:reaper'' ''system'' ''action.fail'' None
      (\<lambda>a. a\<lparr>a_reason := ''delai d approbation depasse''\<rparr>) [] now a Expired) (\<lambda>_.
      bindE (expire_all now as) (\<lambda>n. returnE (n + 1)))) (\<lambda>_ _. True)"
    by (rule lives_bind) (rule lives_bind [OF rest], simp add: lives_return)
  moreover have "lives g ?P (expire_all now as) (\<lambda>_ _. True)" by (rule lives_weaken [OF rest]) auto
  ultimately show ?case by simp
qed

lemma lives_rollback_all: "lives g P (rollback_all cfg w t now as) (\<lambda>_ _. True)"
proof (induction as arbitrary: P)
  case Nil
  show ?case by (simp add: lives_return)
next
  case (Cons a as)
  have "lives g P (catchE (bindE (rollback cfg w t (a_id a) ''system:reaper'' ''system''
      ''rollback automatique a expiration'' now) (\<lambda>_. returnE 1))
      (\<lambda>e. if is_refusal e then returnE 0 else raiseE e)) (\<lambda>_ _. True)"
    by (intro lives_catch lives_bind [OF lives_rollback] lives_if lives_return lives_raise) simp_all
  then show ?case using Cons by (auto intro!: lives_bind lives_return)
qed

lemma page_part: "\<exists>n. fst (page key keep limit cursor xs) =
    take n (rev (sort_key key (filter (\<lambda>r. keep r \<and> before_cursor (key r) cursor) xs)))"
  by (auto simp: page_def Let_def intro: exI [of _ "length xs"] exI [of _ "nat (clamp_limit limit)"])

lemma listed_props:
  assumes "distinct (map a_id (st_actions st))"
  shows "distinct (map a_id (listed tid status st)) \<and>
    (\<forall>a \<in> set (listed tid status st). a \<in> set (st_actions st) \<and> a_status a = status)"
proof -
  let ?f = "filter (\<lambda>r. action_matches tid (Some [status_str status]) None None r \<and> before_cursor (action_key r) None)
      (st_actions st)"
  obtain n where n: "listed tid status st = take n (rev (sort_key action_key ?f))"
    using page_part by (metis listed_def list_actions_def)
  have "distinct (map a_id (rev (sort_key action_key ?f)))"
    using assms by (auto simp: distinct_map rev_map [symmetric] intro: inj_on_subset)
  then have "distinct (map a_id (listed tid status st))" unfolding n take_map [symmetric] by (rule distinct_take)
  moreover have "set (listed tid status st) \<subseteq> set ?f" unfolding n by (auto dest: in_set_takeD)
  then have "\<forall>a \<in> set (listed tid status st). a \<in> set (st_actions st) \<and> a_status a = status"
    by (auto simp: action_matches_def opt_in_def simp: status_str_inj)
  ultimately show ?thesis by blast
qed

lemma lives_reap_tenant: "lives g P (reap_tenant cfg w now tid) (\<lambda>_ _. True)"
proof -
  have read: "lives g P (readE (\<lambda>s. listed tid Pending_approval (en_store s)))
      (\<lambda>as s. (distinct (map a_id as) \<and> (\<forall>a \<in> set as. a_status a = Pending_approval)) \<and> (\<forall>a \<in> set as. synced a s))" for P
    by (rule lives_read_ok) (auto simp: life_ok_def synced_def comp_def dest!: listed_props)
  have body: "lives g P (bindE (readE (\<lambda>s. listed tid Pending_approval (en_store s))) (\<lambda>pending.
      bindE (expire_all now pending) (\<lambda>expired.
      bindE (readE (\<lambda>s. listed tid Succeeded (en_store s))) (\<lambda>succeeded.
      bindE (rollback_all cfg w t now succeeded) (\<lambda>rolled. returnE (expired, rolled)))))) (\<lambda>_ _. True)" for P t
    by (rule lives_bind [OF read], rule lives_bind [OF lives_pull [OF lives_expire_all]], simp, simp,
        rule lives_bind, rule lives_read [where Q = "\<lambda>_ _. True"], simp,
        rule lives_bind [OF lives_rollback_all], simp add: lives_return)
  then show ?thesis
    unfolding reap_tenant_def
    by (intro lives_bind [OF lives_read [where Q = "\<lambda>_ _. True"]]) (auto intro: lives_return split: option.split)
qed

lemma lives_reap: "lives g P (reap cfg w tid now) (\<lambda>_ _. True)"
proof -
  have "lives g P (reap_tenants cfg w now tids) (\<lambda>_ _. True)" for tids P
    by (induction tids arbitrary: P)
       (auto simp: split_beta intro!: lives_return lives_bind [OF lives_reap_tenant] lives_bind)
  then show ?thesis
    unfolding reap_def by (intro lives_bind [OF lives_read [where Q = "\<lambda>_ _. True"]]) auto
qed

subsection \<open>The engine as a whole\<close>

text \<open>
  A run of the engine: its public operations in any order, by anyone, at any time, interleaved with
  whatever the rest of the program does to the other tables of the store.
\<close>

inductive engine_step :: "action_engine \<Rightarrow> world \<Rightarrow> engine_state \<Rightarrow> engine_state \<Rightarrow> bool" for cfg w where
  do_plan: "engine_step cfg w s (snd (plan cfg w t who role q now s))"
| do_approve: "engine_step cfg w s (snd (approve t aid who role comment now s))"
| do_reject: "engine_step cfg w s (snd (reject t aid who role reason now s))"
| do_execute: "engine_step cfg w s (snd (execute cfg w t aid who role now s))"
| do_rollback: "engine_step cfg w s (snd (rollback cfg w t aid who role reason now s))"
| do_decision: "engine_step cfg w s (snd (from_decision cfg w t f d who role now s))"
| do_reap: "engine_step cfg w s (snd (reap cfg w tid now s))"
| other: "st_actions (en_store s') = st_actions (en_store s) \<Longrightarrow> en_exec s' = en_exec s \<Longrightarrow> engine_step cfg w s s'"

lemma lives_run: "lives g (\<lambda>_. True) m Q \<Longrightarrow> life_ok (abs_state s) \<Longrightarrow> (life_step g)\<^sup>*\<^sup>* (abs_state s) (abs_state (snd (m s)))"
  by (simp add: lives_def)

lemmas engine_operations = lives_plan lives_approve lives_reject lives_execute lives_rollback
  lives_from_decision lives_reap

lemma engine_step_life:
  "engine_step cfg w s s' \<Longrightarrow> life_ok (abs_state s) \<Longrightarrow>
   (life_step (s_dry_run (ae_settings cfg)))\<^sup>*\<^sup>* (abs_state s) (abs_state s')"
proof (induction rule: engine_step.induct)
  case (other s' s)
  then have "abs_state s' = abs_state s" by (simp add: abs_state_def)
  then show ?case by simp
qed (rule lives_run, rule engine_operations, assumption)+

lemma engine_steps_life:
  "(engine_step cfg w)\<^sup>*\<^sup>* s s' \<Longrightarrow> life_ok (abs_state s) \<Longrightarrow>
   (life_step (s_dry_run (ae_settings cfg)))\<^sup>*\<^sup>* (abs_state s) (abs_state s')"
proof (induction rule: rtranclp_induct)
  case (step s1 s2)
  then have "life_ok (abs_state s1)" using life_steps_ok by blast
  then show ?case using step engine_step_life [OF step(2)] by (meson rtranclp_trans)
qed simp

end
