(* ===== verification/ActionSafety.thy ===== *)
theory ActionSafety
  imports ActionProps StoreLaws
begin

section \<open>What the action engine guarantees\<close>

text \<open>
  The guarantees of the life cycle, stated on the engine itself: refinement of the abstract machine,
  who may act on the outside world, end states, the global simulation switch, idempotent planning and
  the expiry of unanswered requests.
\<close>

subsection \<open>A sample system\<close>

definition sample_tenant :: tenant where
  "sample_tenant = \<lparr>t_id = ''acme'', t_name = ''Acme'', t_mode = Mode_manual, t_dry_run = False, t_allowlist = [],
     t_protected = [''10.0.0.1''], t_max_actions = 10, t_cooldown = 300, t_criticality = 1, t_created_at = 0,
     t_updated_at = 0\<rparr>"

definition sample_playbook :: playbook where
  "sample_playbook = \<lparr>pb_name = ''block_ip'', pb_description = '''', pb_reversible = True,
     pb_dry_run_capable = True, pb_connectors = [''waf''], pb_params = [],
     pb_execute = [], pb_rollback = []\<rparr>"

definition sample_engine :: action_engine where
  "sample_engine = \<lparr>ae_playbooks = [(''block_ip'', sample_playbook)],
     ae_settings = \<lparr>s_dry_run = True, s_require_target_declaration = False, s_critical_score_threshold = 90,
       s_default_cooldown_seconds = 300, s_approve_ttl_seconds = 3600\<rparr>,
     ae_executor_dry_run = True\<rparr>"

definition asked :: action where
  "asked = (sample_action ''a1'' T_ip ''10.0.0.7'')
     \<lparr>a_status := Pending_approval, a_mode := Act_manual, a_dry_run := True, a_expires_at := Some 5\<rparr>"

definition sample_state :: "action list \<Rightarrow> engine_state" where
  "sample_state as = \<lparr>en_store = empty_store\<lparr>st_tenants := [sample_tenant], st_actions := as\<rparr>,
     en_exec = sample_exec, en_ids = 0, en_notices = []\<rparr>"

lemma sample_ok: "life_ok (abs_state (sample_state [asked]))"
  by (simp add: life_ok_def lawful_def sample_state_def asked_def sample_action_def)

lemma one_step: "engine_step cfg w s s' \<Longrightarrow> (engine_step cfg w)\<^sup>*\<^sup>* s s'"
  by blast

subsection \<open>Refinement\<close>

text \<open>C1: The action engine refines the life cycle: from a well-formed state, every run of its public
  operations, in any order and whether they succeed or raise, is a run of the abstract machine on what
  it shows of the actions and of the effects, and it leads to a well-formed state again.\<close>

theorem engine_refines_life:
  assumes "(engine_step cfg w)\<^sup>*\<^sup>* s s'" and "life_ok (abs_state s)"
  shows "(life_step (s_dry_run (ae_settings cfg)))\<^sup>*\<^sup>* (abs_state s) (abs_state s') \<and> life_ok (abs_state s')"
  using engine_steps_life [OF assms] life_steps_ok [OF _ assms(2)] by blast

theorem engine_refines_life_witness:
  "(life_step True)\<^sup>*\<^sup>* (abs_state (sample_state [asked]))
     (abs_state (snd (approve sample_tenant ''a1'' ''ann'' ''admin'' ''ok'' 7 (sample_state [asked])))) \<and>
   life_ok (abs_state (snd (approve sample_tenant ''a1'' ''ann'' ''admin'' ''ok'' 7 (sample_state [asked]))))"
  using engine_refines_life [OF one_step [OF engine_step.do_approve [of sample_engine]] sample_ok]
  by (simp add: sample_engine_def)

subsection \<open>End states\<close>

text \<open>A rejected, expired or rolled back action stays what it is: whatever is asked of the engine
  afterwards, its row is there with the same identity, tenant, playbook, mode, simulation flag, approver
  and status.\<close>

theorem end_states_permanent:
  assumes "(engine_step cfg w)\<^sup>*\<^sup>* s s'" and "life_ok (abs_state s)"
    and "a \<in> set (st_actions (en_store s))" and "a_status a \<in> {Rejected, Expired, Rolled_back}"
  shows "\<exists>b \<in> set (st_actions (en_store s')). view b = view a"
proof -
  have "view a \<in> set (rows (abs_state s'))"
    using life_steps_final [OF engine_steps_life [OF assms(1,2)], of "view a"] assms(3,4) by (simp add: final_def)
  then show ?thesis by (auto simp: image_iff)
qed

theorem end_states_permanent_witness:
  "\<exists>b \<in> set (st_actions (en_store (snd (reap sample_engine idle_world None 9
       (sample_state [asked\<lparr>a_status := Rejected\<rparr>]))))). view b = view (asked\<lparr>a_status := Rejected\<rparr>)"
  by (rule end_states_permanent [OF one_step [OF engine_step.do_reap]])
     (simp_all add: life_ok_def lawful_def sample_state_def asked_def sample_action_def)

subsection \<open>The global simulation switch\<close>

text \<open>C3: While the global simulation switch is on and every stored action is simulated, nothing ever
  reaches the outside world, and every action planned meanwhile is simulated too: not the tenant's
  setting, nor a policy, nor the request can lift the switch.\<close>

theorem global_dry_run_inert:
  assumes "s_dry_run (ae_settings cfg)" and "(engine_step cfg w)\<^sup>*\<^sup>* s s'" and "life_ok (abs_state s)"
    and "\<forall>a \<in> set (st_actions (en_store s)). a_dry_run a"
  shows "ex_effects (en_exec s') = ex_effects (en_exec s) \<and> (\<forall>a \<in> set (st_actions (en_store s')). a_dry_run a)"
  using life_steps_simulated [of "abs_state s" "abs_state s'"] engine_steps_life [OF assms(2,3)] assms(1,4)
  by (simp add: all_simulated_def list_all_iff)

theorem global_dry_run_inert_witness:
  "ex_effects (en_exec (snd (execute sample_engine idle_world sample_tenant ''a1'' ''ann'' ''admin'' 7 (sample_state [asked])))) = []"
proof -
  have "ex_effects (en_exec (snd (execute sample_engine idle_world sample_tenant ''a1'' ''ann'' ''admin'' 7 (sample_state [asked]))))
      = ex_effects (en_exec (sample_state [asked]))"
    by (rule conjunct1 [OF global_dry_run_inert [OF _ one_step [OF engine_step.do_execute [of sample_engine idle_world]] sample_ok]])
       (simp_all add: sample_engine_def sample_state_def asked_def)
  then show ?thesis by (simp add: sample_state_def sample_exec_def)
qed

subsection \<open>The gate of an execution\<close>

definition may_start :: "action \<Rightarrow> playbook \<Rightarrow> tenant \<Rightarrow> bool" where
  "may_start a pb t \<longleftrightarrow>
     (a_status a = Approved \<or> a_status a = Planned \<and> a_dry_run a) \<and>
     (pb_reversible pb \<or> a_mode a \<noteq> Act_auto) \<and> \<not> tenant_is_protected t (Some (tgt_value (a_target a)))"

lemma authorize_refused:
  "\<not> may_start a pb t \<Longrightarrow> \<exists>e. authorize_execution a pb t now s = (Inl e, s)"
  by (cases "a_status a") (auto simp: authorize_execution_def may_start_def EXECUTABLE_STATUSES_def raiseE_def)

lemma authorize_granted: "may_start a pb t \<Longrightarrow> authorize_execution a pb t now s = (Inr (), s)"
  by (auto simp: authorize_execution_def may_start_def EXECUTABLE_STATUSES_def returnE_def)

lemma list_ex_update: "list_ex (same_action a) xs \<Longrightarrow> list_ex (same_action a) (update_where (same_action a) (write_action b) xs)"
  by (induction xs) (auto simp: update_where_def same_action_def write_action_def)

lemma record_state_change_ok:
  obtains rc st' where "record_state_change tid who role what tgt before after ctx now st = (Inr rc, st')"
    "st_actions st' = st_actions st"
  by (simp add: record_state_change_def record_audit_def append_audit_def Let_def)

lemma set_status_notices:
  "prefix (en_notices s) (en_notices (snd (set_status who role what before extra ctx now a st s)))"
  by (auto simp: set_status_def Let_def on_store_def split_beta bindE_def notify_def returnE_def split: sum.split)

lemma start_run:
  assumes "get_action tid aid (en_store s) = Some a"
  obtains b s' where "set_status who role what None id [] now a Executing s = (Inr b, s')"
    "en_notices s' = en_notices s @ [(a_id a, ''executing'')]" "en_exec s' = en_exec s" "a_dry_run b = a_dry_run a"
proof -
  let ?b = "a\<lparr>a_status := Executing\<rparr>"
  let ?up = "\<lambda>c. update_where (same_action c) (write_action c)"
  have "\<exists>r \<in> set (st_actions (en_store s)). same_action ?b r"
    using assms by (auto simp: get_action_def find_Some_iff same_action_def)
  then have ex: "list_ex (same_action ?b) (st_actions (en_store s))" by (simp add: list_ex_iff)
  define st1 where "st1 = (en_store s)\<lparr>st_actions := ?up ?b (st_actions (en_store s))\<rparr>"
  obtain rc st2 where rec: "record_state_change (a_tenant ?b) who role what (audit_target ?b)
      [(''status'', PStr (status_str (a_status a)))] (to_audit_dict ?b) [(''playbook'', PStr (a_playbook ?b))] now st1
      = (Inr rc, st2)" and st2: "st_actions st2 = st_actions st1"
    by (rule record_state_change_ok)
  define b where "b = ?b\<lparr>a_audit_seq := Some (au_seq rc)\<rparr>"
  have "same_action b = same_action ?b" by (simp add: b_def same_action_def fun_eq_iff)
  then have "list_ex (same_action b) (st_actions st2)" using list_ex_update [OF ex] by (simp add: st2 st1_def)
  then have up: "update_action b st2 = (Inr b, st2\<lparr>st_actions := ?up b (st_actions st2)\<rparr>)"
    by (simp add: update_action_def)
  let ?s = "s\<lparr>en_store := st2\<lparr>st_actions := ?up b (st_actions st2)\<rparr>, en_notices := en_notices s @ [(a_id a, ''executing'')]\<rparr>"
  have "set_status who role what None id [] now a Executing s = (Inr b, ?s)"
    using ex rec [unfolded st1_def] up
    by (simp add: set_status_def Let_def bindE_def on_store_def update_action_def [of ?b] notify_def returnE_def
        b_def [symmetric]) (simp add: b_def)
  then show thesis by (rule that) (simp_all add: b_def)
qed

lemma run_execution_notices: "prefix (en_notices s) (en_notices (snd (run_execution cfg w t pb who role now a s)))"
proof -
  let ?m = "execute_playbook w (ae_executor_dry_run cfg) (Some (a_dry_run a)) pb (a_params a)
     (execution_context t a (en_store s)) now"
  obtain r s' where run: "on_exec ?m s = (r, s')" by fastforce
  then have same: "en_notices s = en_notices s'" by (auto simp: on_exec_def split_beta)
  show ?thesis
    unfolding run_execution_def run same
    by (auto simp: conclude_execution_def mark_failed_def Let_def set_status_notices split: sum.split)
qed

lemma status_exec: "en_exec (snd (set_status who role what before extra ctx now a st s)) = en_exec s"
  by (auto simp: set_status_def Let_def on_store_def split_beta bindE_def notify_def returnE_def split: sum.split)

lemma run_execution_dry:
  assumes "a_dry_run a"
  shows "ex_effects (en_exec (snd (run_execution cfg w t pb who role now a s))) = ex_effects (en_exec s)"
proof -
  let ?m = "execute_playbook w (ae_executor_dry_run cfg) (Some (a_dry_run a)) pb (a_params a)
     (execution_context t a (en_store s)) now"
  have "ex_effects (snd (?m (en_exec s))) = ex_effects (en_exec s)"
    using execute_effects [of w "ae_executor_dry_run cfg" "a_dry_run a"] assms by fastforce
  then have "ex_effects (en_exec (snd (on_exec ?m s))) = ex_effects (en_exec s)" by (simp add: on_exec_def split_beta)
  then show ?thesis
    by (auto simp: run_execution_def conclude_execution_def mark_failed_def Let_def status_exec
        split: prod.split sum.split)
qed

lemma execute_started:
  assumes "get_action (t_id t) aid (en_store s) = Some a" "map_of (ae_playbooks cfg) (a_playbook a) = Some pb"
    and "may_start a pb t"
  obtains b s' where "execute cfg w t aid who role now s = run_execution cfg w t pb who role now b s'"
    "en_notices s' = en_notices s @ [(a_id a, ''executing'')]" "en_exec s' = en_exec s" "a_dry_run b = a_dry_run a"
proof (rule start_run [OF assms(1), of who role "''action.execute''" now])
  fix b s' assume run: "set_status who role ''action.execute'' None id [] now a Executing s = (Inr b, s')"
    "en_notices s' = en_notices s @ [(a_id a, ''executing'')]" "en_exec s' = en_exec s" "a_dry_run b = a_dry_run a"
  have "execute cfg w t aid who role now s = run_execution cfg w t pb who role now b s'"
    using run(1) by (simp add: execute_def bindE_def require_action_def assms authorize_granted [OF assms(3)])
  then show thesis using run(2-4) by (rule that)
qed

text \<open>C2: The gate of an execution is exact: \<open>execute\<close> does anything at all if and only if the action
  exists for the tenant, its playbook is loaded, it is approved (or planned and simulated), it is not an
  automatic run of an irreversible playbook, and its target is not protected; otherwise the call raises
  and the store, the connectors and the notifications are untouched.  And whatever it sends to the
  outside world, it sends for an approved action that is not simulated.\<close>

theorem execute_gate_exact:
  "(snd (execute cfg w t aid who role now s) \<noteq> s) =
     (\<exists>a pb. get_action (t_id t) aid (en_store s) = Some a \<and>
        map_of (ae_playbooks cfg) (a_playbook a) = Some pb \<and> may_start a pb t) \<and>
   (ex_effects (en_exec (snd (execute cfg w t aid who role now s))) = ex_effects (en_exec s) \<or>
    (\<exists>a. get_action (t_id t) aid (en_store s) = Some a \<and> a_status a = Approved \<and> \<not> a_dry_run a))"
proof (cases "\<exists>a pb. get_action (t_id t) aid (en_store s) = Some a \<and>
        map_of (ae_playbooks cfg) (a_playbook a) = Some pb \<and> may_start a pb t")
  case True
  then obtain a pb where a: "get_action (t_id t) aid (en_store s) = Some a"
    "map_of (ae_playbooks cfg) (a_playbook a) = Some pb" "may_start a pb t" by blast
  obtain b s' where run: "execute cfg w t aid who role now s = run_execution cfg w t pb who role now b s'"
    "en_notices s' = en_notices s @ [(a_id a, ''executing'')]" "en_exec s' = en_exec s" "a_dry_run b = a_dry_run a"
    by (rule execute_started [OF a])
  have "prefix (en_notices s @ [(a_id a, ''executing'')]) (en_notices (snd (execute cfg w t aid who role now s)))"
    using run_execution_notices [of s'] by (simp add: run)
  then have "snd (execute cfg w t aid who role now s) \<noteq> s" using not_prefix_induct by (auto simp: prefix_def)
  moreover have "ex_effects (en_exec (snd (execute cfg w t aid who role now s))) = ex_effects (en_exec s) \<or>
      a_status a = Approved \<and> \<not> a_dry_run a"
    using run_execution_dry [of b cfg w t pb who role now s'] a(3) by (auto simp: run may_start_def)
  ultimately show ?thesis using True a(1) by blast
next
  case False
  have "snd (execute cfg w t aid who role now s) = s"
  proof (cases "get_action (t_id t) aid (en_store s)")
    case (Some a)
    show ?thesis
    proof (cases "map_of (ae_playbooks cfg) (a_playbook a)")
      case pb: (Some pb)
      then obtain e where "authorize_execution a pb t now s = (Inl e, s)"
        using False Some authorize_refused by blast
      then show ?thesis by (simp add: execute_def bindE_def require_action_def Some pb)
    qed (simp add: execute_def bindE_def require_action_def Some raiseE_def)
  qed (simp add: execute_def bindE_def require_action_def)
  with False show ?thesis by simp
qed

subsection \<open>Unanswered requests expire\<close>

definition overdue :: "time \<Rightarrow> action \<Rightarrow> bool" where
  "overdue now a \<longleftrightarrow> (case a_expires_at a of None \<Rightarrow> False | Some e \<Rightarrow> e < now)"

lemma lives_result:
  "lives g P m Q \<Longrightarrow> life_ok (abs_state s) \<Longrightarrow> P s \<Longrightarrow> m s = (Inr b, s') \<Longrightarrow>
   (life_step g)\<^sup>*\<^sup>* (abs_state s) (abs_state s') \<and> Q b s'"
  unfolding lives_def by (metis fst_conv snd_conv)

lemma lives_frame_run:
  assumes "life_ok (abs_state s)" "a_status a = Pending_approval" "synced a s"
    "\<forall>c \<in> C. synced c s \<and> a_id c \<noteq> a_id a"
  obtains b s' where "set_status who role what None (\<lambda>a. a\<lparr>a_reason := why\<rparr>) [] now a Expired s = (Inr b, s')"
    "(life_step g)\<^sup>*\<^sup>* (abs_state s) (abs_state s')" "\<forall>c \<in> C. synced c s'"
    "(view a)\<lparr>l_status := Expired\<rparr> \<in> set (rows (abs_state s'))"
proof -
  have mv: "move (view a) ((view a)\<lparr>l_status := Expired\<rparr>)" using assms(2) by (intro move.expire) simp
  have ids: "distinct (map a_id (st_actions (en_store s)))" using assms(1) by (simp add: life_ok_def comp_def)
  obtain b s' where run: "set_status who role what None (\<lambda>a. a\<lparr>a_reason := why\<rparr>) [] now a Expired s = (Inr b, s')"
    by (rule set_status_run [where extra = "\<lambda>a. a\<lparr>a_reason := why\<rparr>" and st = Expired, OF ids assms(3)])
       (simp_all add: same_core_def)
  have "lives g (\<lambda>s. synced a s \<and> (\<forall>c \<in> C. synced c s \<and> a_id c \<noteq> a_id a))
      (set_status who role what None (\<lambda>a. a\<lparr>a_reason := why\<rparr>) [] now a Expired)
      (\<lambda>b s. synced b s \<and> view b = (view a)\<lparr>l_status := Expired\<rparr> \<and> (\<forall>c \<in> C. synced c s))"
    by (rule lives_status_frame) (simp_all add: view_status mv)
  from lives_result [OF this assms(1) _ run] assms(3,4)
  have "(life_step g)\<^sup>*\<^sup>* (abs_state s) (abs_state s') \<and> synced b s' \<and>
      view b = (view a)\<lparr>l_status := Expired\<rparr> \<and> (\<forall>c \<in> C. synced c s')" by blast
  then show thesis using run that unfolding synced_def by metis
qed

lemma expire_all_run:
  assumes "life_ok (abs_state s)" "distinct (map a_id as)" "\<forall>a \<in> set as. a_status a = Pending_approval"
    "\<forall>a \<in> set as. synced a s"
  shows "\<exists>n s'. expire_all now as s = (Inr n, s') \<and> (life_step g)\<^sup>*\<^sup>* (abs_state s) (abs_state s') \<and>
    (\<forall>a \<in> set as. overdue now a \<longrightarrow> (view a)\<lparr>l_status := Expired\<rparr> \<in> set (rows (abs_state s')))"
  using assms
proof (induction as arbitrary: s)
  case Nil
  then show ?case by (simp add: returnE_def)
next
  case (Cons a as)
  show ?case
  proof (cases "overdue now a")
    case False
    then show ?thesis using Cons.IH [of s] Cons.prems by (auto simp: overdue_def)
  next
    case True
    have rest: "\<forall>c \<in> set as. synced c s \<and> a_id c \<noteq> a_id a" using Cons.prems by (auto simp: image_iff)
    have a: "a_status a = Pending_approval" "synced a s" using Cons.prems by simp_all
    obtain b s1 where run: "set_status ''system:reaper'' ''system'' ''action.fail'' None
        (\<lambda>a. a\<lparr>a_reason := ''delai d approbation depasse''\<rparr>) [] now a Expired s = (Inr b, s1)"
      and st: "(life_step g)\<^sup>*\<^sup>* (abs_state s) (abs_state s1)" "\<forall>c \<in> set as. synced c s1"
      "(view a)\<lparr>l_status := Expired\<rparr> \<in> set (rows (abs_state s1))"
      by (rule lives_frame_run [OF Cons.prems(1) a rest])
    have "life_ok (abs_state s1)" using life_steps_ok [OF st(1) Cons.prems(1)] .
    then obtain n s2 where s2: "expire_all now as s1 = (Inr n, s2)" "(life_step g)\<^sup>*\<^sup>* (abs_state s1) (abs_state s2)"
      "\<forall>c \<in> set as. overdue now c \<longrightarrow> (view c)\<lparr>l_status := Expired\<rparr> \<in> set (rows (abs_state s2))"
      using Cons.IH [of s1] Cons.prems st(2) by auto
    have "(view a)\<lparr>l_status := Expired\<rparr> \<in> set (rows (abs_state s2))"
      using life_steps_final [OF s2(2) st(3)] by (simp add: final_def)
    moreover have "expire_all now (a # as) s = (Inr (n + 1), s2)"
      using True run s2(1) by (simp add: overdue_def bindE_def returnE_def)
    ultimately show ?thesis using rtranclp_trans [OF st(1) s2(2)] s2(3) by auto
  qed
qed

lemma listed_all:
  assumes "length (filter (\<lambda>a. a_tenant a = tid \<and> a_status a = status) (st_actions st)) \<le> 500"
    and "a \<in> set (st_actions st)" "a_tenant a = tid" "a_status a = status"
  shows "a \<in> set (listed tid status st)"
proof -
  let ?keep = "\<lambda>r. action_matches tid (Some [status_str status]) None None r \<and> before_cursor (action_key r) None"
  have keep: "?keep = (\<lambda>a. a_tenant a = tid \<and> a_status a = status)"
    by (auto simp: action_matches_def opt_in_def opt_is_def opt_truthy_def before_cursor_def fun_eq_iff
        status_str_inj)
  have n: "nat (clamp_limit 500) = 500" by (simp add: clamp_limit_def MAX_PAGE_SIZE_def)
  show ?thesis
    using assms unfolding listed_def list_actions_def page_def n Let_def keep by (simp add: set_sort)
qed

lemma reap_single: "tid \<noteq> [] \<Longrightarrow> snd (reap cfg w (Some tid) now s) = snd (reap_tenant cfg w now tid s)"
  by (auto simp: reap_def bindE_def readE_def opt_truthy_def returnE_def split: sum.split prod.split)

text \<open>C28: An approval request that nobody answers does not stay open: when the reaper passes over a
  tenant that has at most 500 open requests (one page of its listing), each of them whose deadline is
  past is expired afterwards, whatever becomes of the automatic rollbacks of the same pass.\<close>

theorem overdue_requests_expire:
  assumes "life_ok (abs_state s)" and "get_tenant tid (en_store s) = Some t" and "tid \<noteq> []"
    and "length (filter (\<lambda>a. a_tenant a = tid \<and> a_status a = Pending_approval) (st_actions (en_store s))) \<le> 500"
    and "a \<in> set (st_actions (en_store s))" "a_tenant a = tid" "a_status a = Pending_approval" "overdue now a"
  shows "\<exists>b \<in> set (st_actions (en_store (snd (reap cfg w (Some tid) now s)))).
    a_id b = a_id a \<and> a_tenant b = tid \<and> a_status b = Expired"
proof -
  let ?as = "listed tid Pending_approval (en_store s)"
  let ?rest = "bindE (readE (\<lambda>s. listed tid Succeeded (en_store s))) (rollback_all cfg w t now)"
  have ids: "distinct (map a_id (st_actions (en_store s)))" using assms(1) by (simp add: life_ok_def comp_def)
  obtain n s1 where s1: "expire_all now ?as s = (Inr n, s1)" "(life_step True)\<^sup>*\<^sup>* (abs_state s) (abs_state s1)"
    "\<forall>a \<in> set ?as. overdue now a \<longrightarrow> (view a)\<lparr>l_status := Expired\<rparr> \<in> set (rows (abs_state s1))"
    using expire_all_run [OF assms(1), of ?as now True] listed_props [OF ids, of tid Pending_approval]
    by (auto simp: synced_def)
  have "lives True (\<lambda>_. True) ?rest (\<lambda>_ _. True)"
    by (rule lives_bind [OF lives_read [where Q = "\<lambda>_ _. True"] lives_rollback_all]) simp
  then have "(life_step True)\<^sup>*\<^sup>* (abs_state s1) (abs_state (snd (?rest s1)))"
    using life_steps_ok [OF s1(2) assms(1)] by (simp add: lives_def)
  moreover have "snd (reap cfg w (Some tid) now s) = snd (?rest s1)"
    unfolding reap_single [OF assms(3)]
    by (auto simp: reap_tenant_def bindE_def readE_def assms(2) s1(1) returnE_def split: sum.split prod.split)
  moreover have "(view a)\<lparr>l_status := Expired\<rparr> \<in> set (rows (abs_state s1))"
    using s1(3) listed_all [OF assms(4-7)] assms(8) by blast
  ultimately have "(view a)\<lparr>l_status := Expired\<rparr> \<in> set (rows (abs_state (snd (reap cfg w (Some tid) now s))))"
    using life_steps_final [where r = "(view a)\<lparr>l_status := Expired\<rparr>" and g = True]
    by (simp add: final_def del: abs_simps)
  then obtain b where "b \<in> set (st_actions (en_store (snd (reap cfg w (Some tid) now s))))"
    "view b = (view a)\<lparr>l_status := Expired\<rparr>" by auto
  then show ?thesis using assms(6) by (metis life_row.select_convs(1,2,6) life_row.surjective life_row.update_convs(6) view_simps(1,2,6))
qed

theorem overdue_requests_expire_witness:
  "\<exists>b \<in> set (st_actions (en_store (snd (reap sample_engine idle_world (Some ''acme'') 9 (sample_state [asked]))))).
    a_id b = ''a1'' \<and> a_tenant b = ''acme'' \<and> a_status b = Expired"
  using overdue_requests_expire [OF sample_ok, of "''acme''" sample_tenant asked 9 sample_engine idle_world]
  by (simp add: sample_state_def get_tenant_def sample_tenant_def asked_def sample_action_def overdue_def)

subsection \<open>Planning twice\<close>

definition plan_key :: "action_engine \<Rightarrow> tenant \<Rightarrow> playbook \<Rightarrow> plan_request \<Rightarrow> dict \<Rightarrow> time \<Rightarrow> string" where
  "plan_key cfg t pb q params now =
     idempotency_key (t_id t) (pb_name pb) (resolve_target_value params (pq_finding q))
       (if t_cooldown t = 0 then s_default_cooldown_seconds (ae_settings cfg) else t_cooldown t) now"

lemma find_unique:
  "distinct (map f xs) \<Longrightarrow> b \<in> set xs \<Longrightarrow> P b \<Longrightarrow> (\<And>c. P c \<Longrightarrow> f c = f b) \<Longrightarrow> find P xs = Some b"
proof (induction xs)
  case (Cons x xs)
  show ?case
  proof (cases "P x")
    case True
    then have "f x = f b" by (rule Cons.prems(4))
    then have "x = b" using Cons.prems(1,2) by (auto simp: image_iff)
    then show ?thesis using True by simp
  next
    case False
    then have b: "b \<in> set xs" using Cons.prems(2,3) by auto
    have "find P xs = Some b"
      by (rule Cons.IH [OF _ b Cons.prems(3)]) (use Cons.prems(1) in simp, rule Cons.prems(4))
    then show ?thesis using False by simp
  qed
qed simp

text \<open>C29: Planning is idempotent: while an action of the tenant that holds the key of a request (tenant,
  playbook, target and cooldown window) is live, planning the request again returns that action; no row
  is written, nothing is audited or notified.\<close>

theorem plan_idempotent:
  assumes "map_of (ae_playbooks cfg) (pq_playbook q) = Some pb"
    and "validate_params pb (resolve_param_paths (pq_finding q) (pq_params q)) = Inr params"
    and held: "find_action_by_idempotency (plan_key cfg t pb q params now) (en_store s) = Some b"
      "a_tenant b = t_id t" "a_id b \<noteq> []" "\<not> is_terminal b"
    and ids: "distinct (map a_id (st_actions (en_store s)))"
    and fresh: "\<forall>c \<in> set (st_actions (en_store s)). a_id c \<noteq> ''ac_'' @ w_uuid w (en_ids s)"
  shows "plan cfg w t who role q now s = (Inr b, s\<lparr>en_ids := Suc (en_ids s)\<rparr>)"
proof -
  define i where "i = ''ac_'' @ w_uuid w (en_ids s)"
  let ?s = "s\<lparr>en_ids := Suc (en_ids s)\<rparr>"
  let ?key = "plan_key cfg t pb q params now"
  let ?a = "new_action cfg t pb who q params (resolve_target_value params (pq_finding q))
      i ?key now"
  let ?e = "Err ConflictError ''une action identique existe deja (idempotence)'' [(''action_id'', PStr (a_id b))]"
  have a: "a_id ?a = i" "a_idempotency_key ?a = ?key"
    by (simp_all add: new_action_def Let_def)
  have "\<not> list_ex (\<lambda>c. a_id c = a_id ?a) (st_actions (en_store s))" using fresh unfolding list_ex_iff a i_def [symmetric] by blast
  then have ins: "insert_action ?a (en_store s) = (Inl ?e, en_store s)"
    using held(1) by (simp add: insert_action_def a)
  have "b \<in> set (st_actions (en_store s))"
    using held(1) by (auto simp: find_action_by_idempotency_def find_Some_iff)
  then have "get_action (t_id t) (a_id b) (en_store s) = Some b"
    unfolding get_action_def using ids held(2) by (intro find_unique [where f = a_id]) auto
  then have "existing_action (t_id t) ?e (en_store s) = Some b"
    using held(3) by (simp add: existing_action_def dict_val_def py_str_def)
  moreover have "action_conflict ?e" by (simp add: action_conflict_def)
  ultimately have "plan_insert w (t_id t) ?key 5 0 ?a ?s = (Inr (Reused b), ?s)"
    using ins held(4) by (simp add: eval_nat_numeral on_store_def)
  then show ?thesis
    using assms(1,2) by (simp add: plan_def Let_def bindE_def new_id_def returnE_def plan_key_def i_def)
qed

definition sample_request :: plan_request where
  "sample_request = \<lparr>pq_playbook = ''block_ip'', pq_finding = None, pq_params = [], pq_mode = Act_manual,
     pq_policy_id = None, pq_reason = '''', pq_dry_run = None, pq_expires_in = None\<rparr>"

theorem plan_idempotent_witness:
  "plan sample_engine idle_world sample_tenant ''bob'' ''admin'' sample_request 301000000
     (sample_state [asked\<lparr>a_idempotency_key := ''acme:block_ip:n/a:1''\<rparr>])
   = (Inr (asked\<lparr>a_idempotency_key := ''acme:block_ip:n/a:1''\<rparr>),
      (sample_state [asked\<lparr>a_idempotency_key := ''acme:block_ip:n/a:1''\<rparr>])\<lparr>en_ids := 1\<rparr>)"
proof -
  have key: "plan_key sample_engine sample_tenant sample_playbook sample_request [] 301000000 = ''acme:block_ip:n/a:1''"
    by code_simp
  have "plan sample_engine idle_world sample_tenant ''bob'' ''admin'' sample_request 301000000
     (sample_state [asked\<lparr>a_idempotency_key := ''acme:block_ip:n/a:1''\<rparr>])
   = (Inr (asked\<lparr>a_idempotency_key := ''acme:block_ip:n/a:1''\<rparr>),
      (sample_state [asked\<lparr>a_idempotency_key := ''acme:block_ip:n/a:1''\<rparr>])\<lparr>en_ids :=
         Suc (en_ids (sample_state [asked\<lparr>a_idempotency_key := ''acme:block_ip:n/a:1''\<rparr>]))\<rparr>)"
  proof (rule plan_idempotent [where pb = sample_playbook and params = "[]"])
    show "find_action_by_idempotency (plan_key sample_engine sample_tenant sample_playbook sample_request [] 301000000)
        (en_store (sample_state [asked\<lparr>a_idempotency_key := ''acme:block_ip:n/a:1''\<rparr>]))
      = Some (asked\<lparr>a_idempotency_key := ''acme:block_ip:n/a:1''\<rparr>)"
      unfolding key by (simp add: find_action_by_idempotency_def sample_state_def)
  qed (simp_all add: sample_engine_def sample_request_def sample_playbook_def sample_state_def asked_def
         sample_action_def sample_tenant_def is_terminal_def validate_params_def resolve_param_paths_def)
  then show ?thesis by (simp add: sample_state_def)
qed

subsection \<open>Where the engine departs from its documentation\<close>

text \<open>
  The head of \<open>actions/engine.py\<close> says that safety is evaluated again when an action is executed, because
  the simulation switch may have been turned on since it was planned.  The target is checked again, the
  switch is not: \<open>execute\<close> and \<open>rollback\<close> do not depend on the global switch, nor on the executor's own.
\<close>

theorem switch_not_reevaluated:
  "execute (cfg\<lparr>ae_settings := (ae_settings cfg)\<lparr>s_dry_run := on\<rparr>, ae_executor_dry_run := own\<rparr>) w t aid who role now
     = execute cfg w t aid who role now
   \<and> rollback (cfg\<lparr>ae_settings := (ae_settings cfg)\<lparr>s_dry_run := on\<rparr>, ae_executor_dry_run := own\<rparr>) w t aid who role reason now
     = rollback cfg w t aid who role reason now"
proof -
  let ?cfg = "cfg\<lparr>ae_settings := (ae_settings cfg)\<lparr>s_dry_run := on\<rparr>, ae_executor_dry_run := own\<rparr>"
  have "execute_playbook w own (Some d) = execute_playbook w (ae_executor_dry_run cfg) (Some d)" for d
    by (intro ext) (simp add: execute_playbook_def)
  then have "run_execution ?cfg w t pb who role now = run_execution cfg w t pb who role now" for pb
    unfolding run_execution_def [abs_def] by simp
  moreover have "rollback_playbook w own (Some d) = rollback_playbook w (ae_executor_dry_run cfg) (Some d)" for d
    by (intro ext) (simp add: rollback_playbook_def)
  then have "run_rollback ?cfg w t who role reason now = run_rollback cfg w t who role reason now"
    unfolding run_rollback_def [abs_def] by simp
  ultimately show ?thesis by (simp add: execute_def rollback_def cong: option.case_cong if_cong)
qed

text \<open>
  The deadline a policy sets for the automatic rollback (\<open>rollback.auto_after_seconds\<close>, carried by the
  decision as \<open>expires_at\<close>) is not used: planning from a decision does not depend on it.
\<close>

theorem rollback_deadline_ignored:
  "from_decision cfg w t f (d\<lparr>d_expires_at := e\<rparr>) who role now = from_decision cfg w t f d who role now"
  by (simp add: from_decision_def decision_request_def triggers_action_def cong: if_cong)

end
