(* ===== verification/Detection.thy ===== *)
theory Detection
  imports Matchers Risk Store
begin

section \<open>Detection engine\<close>

text \<open>
  \<open>detection/engine.py\<close> with the semantic control of rules (\<open>validate_rule\<close> of
  \<open>detection/rule_loader.py\<close>): compilation of a library of rules, evaluation of an event, threshold
  windows, and the finding built from a match.  An instant is in microseconds; the duration of an
  evaluation, which only feeds statistics, is left out.  The parameter \<open>re_sub\<close> is the substitution of
  the regular expression library; the ellipsis is the character 0x85, its code in Windows-1252.
\<close>

type_synonym regex_sub = "string \<Rightarrow> string \<Rightarrow> string \<Rightarrow> string"

definition MAX_WINDOW_ENTRIES :: nat where "MAX_WINDOW_ENTRIES = 10000"
definition MAX_EVIDENCE_EVENTS :: nat where "MAX_EVIDENCE_EVENTS = 25"

subsection \<open>Control of a rule\<close>

definition condition_problems :: "regex_engine \<Rightarrow> string \<Rightarrow> condition list \<Rightarrow> string list" where
  "condition_problems re_compile part cs =
     List.map_filter (\<lambda>c. map_option (\<lambda>why. ''match.'' @ part @ '': '' @ why) (condition_is_coherent re_compile c)) cs"

definition threshold_problems :: "threshold option \<Rightarrow> string list" where
  "threshold_problems th =
     (case th of
        None \<Rightarrow> []
      | Some t \<Rightarrow>
          (if 1 < th_count t \<and> th_group_by t = []
           then [''match.threshold: group_by est obligatoire des que count > 1 ''
                 @ ''(sinon le seuil s applique globalement, y compris entre tenants)''] else [])
          @ List.map_filter (\<lambda>f.
              if prefix ''labels.'' f then None
              else Some (''match.threshold.group_by: '' @ [CHR 0x27] @ f @ [CHR 0x27]
                @ '' doit referencer un label (ex. labels.src_ip) pour un regroupement fiable'')) (th_group_by t))"

definition tag_problems :: "string list \<Rightarrow> string list" where
  "tag_problems tags =
     map (\<lambda>t. ''tag MITRE suspect: '' @ repr_str t @ '' (format attendu mitre:T1190)'')
       (filter (\<lambda>t. prefix ''mitre:'' t \<and> length t < 9) tags)"

definition validate_rule :: "regex_engine \<Rightarrow> rule \<Rightarrow> string list" where
  "validate_rule re_compile r =
     condition_problems re_compile ''all'' (ms_all (ru_match r))
     @ condition_problems re_compile ''any'' (ms_any (ru_match r))
     @ condition_problems re_compile ''not'' (ms_not (ru_match r))
     @ threshold_problems (ms_threshold (ru_match r)) @ tag_problems (ru_tags r)"

subsection \<open>The library of rules\<close>

record compiled_rule =
  cp_rule :: rule
  cp_source_types :: "source_type list"
  cp_kinds :: "event_kind list"
  cp_dedup_fields :: "string list"
  cp_group_fields :: "string list"
  cp_threshold :: int
  cp_window :: int

type_synonym windows = "((string \<times> string) \<times> time list) list"

record detection_engine =
  de_compiled :: "compiled_rule list"
  de_by_id :: "(string \<times> compiled_rule) list"
  de_windows :: windows
  de_evaluated :: int
  de_matched :: int
  de_suppressed :: int

definition applies_to :: "compiled_rule \<Rightarrow> event \<Rightarrow> bool" where
  "applies_to e ev \<longleftrightarrow>
     \<not> (cp_source_types e \<noteq> [] \<and> src_type (ev_source ev) \<notin> set (cp_source_types e))
     \<and> \<not> (cp_kinds e \<noteq> [] \<and> ev_kind ev \<notin> set (cp_kinds e))"

definition compile_rule :: "rule \<Rightarrow> compiled_rule" where
  "compile_rule r =
     \<lparr>cp_rule = r, cp_source_types = ru_source_types r, cp_kinds = ru_kinds r,
      cp_dedup_fields = dd_key (ru_dedup r),
      cp_group_fields = (case ms_threshold (ru_match r) of None \<Rightarrow> [] | Some t \<Rightarrow> th_group_by t),
      cp_threshold = (case ms_threshold (ru_match r) of None \<Rightarrow> 1 | Some t \<Rightarrow> th_count t),
      cp_window = (case ms_threshold (ru_match r) of None \<Rightarrow> 60 | Some t \<Rightarrow> th_window t)\<rparr>"

fun severity_weight :: "severity \<Rightarrow> int" where
  "severity_weight Info = 0"
| "severity_weight Low = 1"
| "severity_weight Medium = 2"
| "severity_weight High = 3"
| "severity_weight Critical = 4"

definition rule_order :: "compiled_rule \<Rightarrow> int \<times> string" where
  "rule_order e = (- severity_weight (ru_severity (cp_rule e)), ru_id (cp_rule e))"

definition reload_rules :: "regex_engine \<Rightarrow> rule list \<Rightarrow> detection_engine \<Rightarrow> detection_engine" where
  "reload_rules re_compile rules de =
     (let kept = map compile_rule (filter (\<lambda>r. validate_rule re_compile r = []) rules)
      in de\<lparr>de_compiled := sort_key rule_order kept,
            de_by_id := fold (\<lambda>e. AList.update (ru_id (cp_rule e)) e) kept [],
            de_windows := []\<rparr>)"

definition new_detection :: "regex_engine \<Rightarrow> rule list \<Rightarrow> detection_engine" where
  "new_detection re_compile rules =
     reload_rules re_compile rules
       \<lparr>de_compiled = [], de_by_id = [], de_windows = [], de_evaluated = 0, de_matched = 0, de_suppressed = 0\<rparr>"

definition get_rule :: "string \<Rightarrow> detection_engine \<Rightarrow> rule option" where
  "get_rule rid de = map_option cp_rule (map_of (de_by_id de) (str_upper rid))"

subsection \<open>Evaluation of an event\<close>

definition spec_matches :: "regex_engine \<Rightarrow> match_spec \<Rightarrow> pyval \<Rightarrow> bool" where
  "spec_matches re_compile m ctx \<longleftrightarrow>
     list_all (\<lambda>c. evaluate_condition re_compile c ctx) (ms_all m)
     \<and> (ms_any m = [] \<or> list_ex (\<lambda>c. evaluate_condition re_compile c ctx) (ms_any m))
     \<and> list_all (\<lambda>c. \<not> evaluate_condition re_compile c ctx) (ms_not m)"

definition field_values :: "string list \<Rightarrow> event \<Rightarrow> dict" where
  "field_values fs ev = fold (\<lambda>f. dict_set f (deep_get (event_dump ev) f)) fs []"

definition group_key :: "compiled_rule \<Rightarrow> event \<Rightarrow> string" where
  "group_key e ev =
     (if cp_group_fields e = [] then ''-''
      else take 16 (stable_hash (PDict (field_values (cp_group_fields e) ev))))"

definition dedup_key :: "compiled_rule \<Rightarrow> event \<Rightarrow> string" where
  "dedup_key e ev =
     (if cp_dedup_fields e = [] then ''tenant''
      else take 24 (stable_hash (PDict (field_values (cp_dedup_fields e) ev))))"

definition last_entries :: "nat \<Rightarrow> 'a list \<Rightarrow> 'a list" where
  "last_entries n xs = drop (length xs - n) xs"

definition window_after :: "compiled_rule \<Rightarrow> time \<Rightarrow> time list \<Rightarrow> time list" where
  "window_after e now w =
     last_entries MAX_WINDOW_ENTRIES (dropWhile (\<lambda>t. t < now - seconds (cp_window e)) w @ [now])"

definition window_key :: "compiled_rule \<Rightarrow> string \<Rightarrow> string \<times> string" where
  "window_key e g = (ru_id (cp_rule e), g)"

definition window_of :: "string \<times> string \<Rightarrow> windows \<Rightarrow> time list" where
  "window_of k ws = (case map_of ws k of None \<Rightarrow> [] | Some w \<Rightarrow> w)"

definition register_hit :: "compiled_rule \<Rightarrow> string \<Rightarrow> time \<Rightarrow> windows \<Rightarrow> int \<times> windows" where
  "register_hit e g now ws =
     (if cp_threshold e \<le> 1 then (1, ws)
      else
        let w = window_after e now (window_of (window_key e g) ws)
        in (if cp_threshold e \<le> int (length w) then int (length w) else 0,
            AList.update (window_key e g) w ws))"

record match_result =
  mr_rule :: rule
  mr_event :: event
  mr_dedup_key :: string
  mr_group_key :: string
  mr_threshold :: int
  mr_matched_at :: time

definition is_threshold_match :: "match_result \<Rightarrow> bool" where
  "is_threshold_match m \<longleftrightarrow> 1 < mr_threshold m"

definition candidate :: "regex_engine \<Rightarrow> event \<Rightarrow> compiled_rule \<Rightarrow> bool" where
  "candidate re_compile ev e \<longleftrightarrow>
     ru_enabled (cp_rule e) \<and> applies_to e ev \<and> spec_matches re_compile (ru_match (cp_rule e)) (event_dump ev)"

fun evaluate_rules ::
    "regex_engine \<Rightarrow> event \<Rightarrow> time \<Rightarrow> compiled_rule list \<Rightarrow> detection_engine \<Rightarrow> match_result list \<times> detection_engine"
  where
  "evaluate_rules re_compile ev now [] de = ([], de)"
| "evaluate_rules re_compile ev now (e # es) de =
     (if \<not> candidate re_compile ev e then evaluate_rules re_compile ev now es de
      else
        let g = group_key e ev; (n, ws) = register_hit e g now (de_windows de)
        in if n = 0
           then evaluate_rules re_compile ev now es
                  (de\<lparr>de_windows := ws, de_suppressed := de_suppressed de + 1\<rparr>)
           else
             case evaluate_rules re_compile ev now es (de\<lparr>de_windows := ws, de_matched := de_matched de + 1\<rparr>) of
               (rs, de') \<Rightarrow>
                 (\<lparr>mr_rule = cp_rule e, mr_event = ev, mr_dedup_key = dedup_key e ev, mr_group_key = g,
                   mr_threshold = n, mr_matched_at = now\<rparr> # rs, de'))"

definition evaluate_event ::
    "regex_engine \<Rightarrow> event \<Rightarrow> time \<Rightarrow> detection_engine \<Rightarrow> match_result list \<times> detection_engine" where
  "evaluate_event re_compile ev now de =
     (case evaluate_rules re_compile ev now (de_compiled de) de of
        (rs, de') \<Rightarrow> (rs, de'\<lparr>de_evaluated := de_evaluated de' + 1\<rparr>))"

subsection \<open>Evidence\<close>

definition ELLIPSIS :: char where "ELLIPSIS = CHR 0x85"

definition truncate :: "nat \<Rightarrow> string \<Rightarrow> string" where
  "truncate n s = (if length s \<le> n then s else take (n - 1) s @ [ELLIPSIS])"

text \<open>\<open>re.sub\<close> is given the pattern, the replacement and the text; \<open>[CHR 0x5C]\<close> is a backslash.\<close>

definition CONTROL_CHARS :: string where
  "CONTROL_CHARS =
     (let b = [CHR 0x5C]
      in ''['' @ b @ ''x00-'' @ b @ ''x08'' @ b @ ''x0b'' @ b @ ''x0c'' @ b @ ''x0e-'' @ b @ ''x1f'' @ b @ ''x7f]'')"

definition SECRET_PATTERNS :: "(string \<times> string) list" where
  "SECRET_PATTERNS =
     (let b = [CHR 0x5C]; q = [CHR 0x22]; a = [CHR 0x27] in
     [(''-----BEGIN [A-Z ]*PRIVATE KEY-----['' @ b @ ''s'' @ b @ ''S]*?-----END [A-Z ]*PRIVATE KEY-----'',
       ''<private-key-redacted>''),
      (b @ ''beyJ[A-Za-z0-9_'' @ b @ ''-]{8,}'' @ b @ ''.[A-Za-z0-9_'' @ b @ ''-]{8,}'' @ b @ ''.[A-Za-z0-9_'' @ b
       @ ''-]{4,}'', ''<jwt-redacted>''),
      (b @ ''b(?:sk|pk|rk|ghp|gho|ghs|ghu|glpat|xox[baprs]|thot)[-_][A-Za-z0-9_'' @ b @ ''-]{12,}'' @ b @ ''b'',
       ''<token-redacted>''),
      (''(?i)'' @ b @ ''b(proxy-authorization|authorization)'' @ b @ ''b'' @ b @ ''s*[:=][^'' @ b @ ''r'' @ b @ ''n]*'',
       b @ ''1: <redacted>''),
      (''(?i)'' @ b @ ''b(set-cookie|cookie)'' @ b @ ''b'' @ b @ ''s*[:=][^'' @ b @ ''r'' @ b @ ''n]*'',
       b @ ''1: <redacted>''),
      (''(?i)'' @ b @ ''bbearer'' @ b @ ''s+[A-Za-z0-9._'' @ b @ ''-+/=]{8,}'', ''Bearer <redacted>''),
      (''(?i)'' @ b @ ''bbasic'' @ b @ ''s+[A-Za-z0-9+/=]{8,}'', ''Basic <redacted>''),
      (''(?i)'' @ b @ ''b(password|passwd|pwd|pass|secret|client[_-]?secret|api[_-]?key|apikey''
       @ ''|access[_-]?token|refresh[_-]?token|auth[_-]?token|id[_-]?token|token|jwt''
       @ ''|private[_-]?key|passphrase|credential[s]?|session[_-]?id)'' @ b @ ''b'' @ b @ ''s*[:=]'' @ b @ ''s*[^'' @ b
       @ ''s,;&'' @ q @ a @ ''|]+'', b @ ''1=<redacted>''),
      (''(?i)([?&](?:token|key|api_key|apikey|access_token|signature|sig)=)[^&'' @ b @ ''s'' @ q @ a @ '']+'',
       b @ ''1<redacted>'')])"

definition redact_secrets :: "regex_sub \<Rightarrow> nat \<Rightarrow> string \<Rightarrow> string" where
  "redact_secrets re_sub max_length s =
     (if s = [] then []
      else
        let cleaned = fold (\<lambda>(p, r). re_sub p r) SECRET_PATTERNS (re_sub CONTROL_CHARS [] s)
        in if max_length < length cleaned
           then take max_length cleaned @ [ELLIPSIS] @ ''<tronque ''
                  @ int_str (int (length cleaned - max_length)) @ '' car.>''
           else cleaned)"

definition shown :: "regex_sub \<Rightarrow> nat \<Rightarrow> dict \<Rightarrow> dict" where
  "shown re_sub n d =
     map (\<lambda>k. (k, PStr (truncate n (redact_secrets re_sub 4096 (py_str (dict_val d k)))))) (take 12 (sort (map fst d)))"

definition extract_evidence :: "regex_sub \<Rightarrow> rule \<Rightarrow> event \<Rightarrow> pyval" where
  "extract_evidence re_sub r ev =
     PDict [(''ts'', PStr (iso_z (ev_ts ev))), (''event_id'', PStr (ev_id ev)),
            (''kind'', PStr (event_kind_str (ev_kind ev))),
            (''source'', PDict [(''type'', PStr (source_type_str (src_type (ev_source ev)))),
                                (''host'', opt_str (src_host (ev_source ev))),
                                (''name'', opt_str (src_name (ev_source ev)))]),
            (''labels'', PDict (shown re_sub 200 (ev_labels ev))),
            (''payload'', PDict (shown re_sub 300 (ev_payload ev))),
            (''matched_rule'', PStr (ru_id r))]"

definition render_title :: "rule \<Rightarrow> event \<Rightarrow> string" where
  "render_title r ev =
     (let label = dict_val (ev_labels ev); src = label ''src_ip''; path = label ''path''; host = label ''host''
      in take 300 (join_with '' ''
           ([ru_title r]
            @ (if truthy src then [''depuis '' @ py_str src]
               else if opt_truthy (src_host (ev_source ev)) then [''sur '' @ the (src_host (ev_source ev))] else [])
            @ (if truthy path then [''('' @ py_str path @ '')'']
               else if truthy host then [''('' @ py_str host @ '')''] else []))))"

subsection \<open>Construction of a finding\<close>

definition append_unique :: "nat \<Rightarrow> string \<Rightarrow> string list \<Rightarrow> string list" where
  "append_unique limit v vs = (if v \<in> set vs then vs else last_entries limit (vs @ [v]))"

definition breakdown_dump :: "risk_breakdown \<Rightarrow> pyval" where
  "breakdown_dump b =
     PDict [(''base'', PFloat (rb_base b)), (''severity_factor'', PFloat (rb_severity_factor b)),
            (''confidence_factor'', PFloat (rb_confidence_factor b)), (''asset_factor'', PFloat (rb_asset_factor b)),
            (''repetition_factor'', PFloat (rb_repetition_factor b)), (''final'', PFloat (rb_final b)),
            (''formula'', PStr (rb_formula b)), (''steps'', PList (map PStr (rb_steps b)))]"

definition mitre_of :: "string list \<Rightarrow> string list" where
  "mitre_of tags = map (drop 6) (filter (prefix ''mitre:'') tags)"

definition effective_count :: "match_result \<Rightarrow> int \<Rightarrow> int" where
  "effective_count m existing = max 1 (max (existing + 1) (mr_threshold m))"

definition finding_evidence :: "match_result \<Rightarrow> risk_breakdown \<Rightarrow> pyval list \<Rightarrow> dict" where
  "finding_evidence m b samples =
     (let r = mr_rule m; th = ms_threshold (ru_match r)
      in [(''samples'', PList samples), (''risk'', breakdown_dump b), (''group_key'', PStr (mr_group_key m)),
          (''threshold'', PDict
             [(''count'', PInt (case th of None \<Rightarrow> 1 | Some t \<Rightarrow> th_count t)),
              (''window_seconds'', PInt (case th of None \<Rightarrow> 0 | Some t \<Rightarrow> th_window t)),
              (''observed'', PInt (mr_threshold m))]),
          (''rule'', PDict [(''id'', PStr (ru_id r)), (''title'', PStr (ru_title r)), (''path'', opt_str (ru_path r))]),
          (''false_positives'', PList (map PStr (ru_false_positives r)))])"

text \<open>
  A new finding is given the identifier \<open>fid\<close>; a refreshed one keeps the identifier, the status and the
  first instants of its history.
\<close>

definition build_finding ::
    "regex_sub \<Rightarrow> string \<Rightarrow> match_result \<Rightarrow> tenant \<Rightarrow> finding option \<Rightarrow> int \<Rightarrow> time \<Rightarrow> exn + finding" where
  "build_finding re_sub fid m t history existing now =
     (let r = mr_rule m; ev = mr_event m; n = effective_count m existing;
          b = compute_risk r (Some t) n None; sample = extract_evidence re_sub r ev
      in case (case history of None \<Rightarrow> Inr [] | Some h \<Rightarrow> iter_or_empty (dict_val (f_evidence h) ''samples'')) of
           Inl e \<Rightarrow> Inl e
         | Inr previous \<Rightarrow>
             let first_seen = (case history of None \<Rightarrow> ev_ts ev | Some h \<Rightarrow> f_first_seen h)
             in Inr \<lparr>f_id = (case history of None \<Rightarrow> fid | Some h \<Rightarrow> f_id h), f_tenant = t_id t, f_rule_id = ru_id r,
                     f_rule_name = ru_title r, f_severity = ru_severity r,
                     f_risk_score = clamp_score (rb_final b), f_confidence = clamp_confidence (ru_confidence r),
                     f_status = (case history of None \<Rightarrow> Open | Some h \<Rightarrow> f_status h),
                     f_title = render_title r ev, f_description = ru_description r,
                     f_remediation = ru_remediation r, f_tags = ru_tags r, f_mitre = mitre_of (ru_tags r),
                     f_evidence = finding_evidence m b (last_entries MAX_EVIDENCE_EVENTS (previous @ [sample])),
                     f_first_seen = first_seen, f_last_seen = max (ev_ts ev) first_seen, f_count = n,
                     f_event_ids = (case history of None \<Rightarrow> [ev_id ev]
                                    | Some h \<Rightarrow> append_unique 200 (ev_id ev) (f_event_ids h)),
                     f_created_at = (case history of None \<Rightarrow> now | Some h \<Rightarrow> f_created_at h), f_updated_at = now,
                     f_dedup_key = mr_dedup_key m, f_resolution = None, f_comment = None\<rparr>)"

end
