(* ===== verification/DetectionProps.thy ===== *)
theory DetectionProps
  imports Detection "HOL-Library.Multiset"
begin

section \<open>What the detection engine guarantees\<close>

text \<open>
  The threshold windows count what they should, the evaluation of an event treats every rule on its
  own, and a reload leaves only controlled rules, gravest first.
\<close>

subsection \<open>Sliding windows\<close>

lemma last_entries_snoc: "0 < n \<Longrightarrow> last_entries n (last_entries n xs @ [x]) = last_entries n (xs @ [x])"
  by (cases "n \<le> length xs") (auto simp: last_entries_def Suc_diff_le)

lemma last_entries_length: "length (last_entries n xs) = min n (length xs)"
  by (simp add: last_entries_def)

lemma dropWhile_sorted: "sorted xs \<Longrightarrow> dropWhile (\<lambda>t. t < c) xs = filter (\<lambda>t. c \<le> t) (xs :: int list)"
proof (induction xs)
  case (Cons x xs)
  show ?case
  proof (cases "x < c")
    case False
    then have "filter (\<lambda>t. c \<le> t) (x # xs) = x # xs" using Cons.prems by (intro filter_True) auto
    then show ?thesis using False by simp
  qed (use Cons in simp)
qed simp

lemma filter_last_entries:
  assumes "sorted xs"
  shows "filter (\<lambda>t. c \<le> t) (last_entries n xs) = last_entries n (filter (\<lambda>t. c \<le> t) (xs :: int list))"
proof -
  define us vs where "us = takeWhile (\<lambda>t. t < c) xs" and "vs = dropWhile (\<lambda>t. t < c) xs"
  have xs: "xs = us @ vs" by (simp add: us_def vs_def)
  have vs: "filter (\<lambda>t. c \<le> t) xs = vs" unfolding vs_def by (rule dropWhile_sorted [OF assms, symmetric])
  have us: "filter (\<lambda>t. c \<le> t) (drop k us) = []" for k
    by (auto simp: filter_empty_conv us_def dest!: in_set_dropD set_takeWhileD)
  have high: "filter (\<lambda>t. c \<le> t) (drop k vs) = drop k vs" for k
    by (rule filter_True) (use vs in \<open>auto dest!: in_set_dropD\<close>)
  show ?thesis
    unfolding vs unfolding last_entries_def xs using us high high [of 0] by (auto simp: le_diff_conv)
qed

type_synonym hit = "compiled_rule \<times> string \<times> time"

definition run_hits :: "hit list \<Rightarrow> windows \<Rightarrow> windows" where
  "run_hits = fold (\<lambda>(e, g, t) ws. snd (register_hit e g t ws))"

definition hit_times :: "string \<times> string \<Rightarrow> hit list \<Rightarrow> time list" where
  "hit_times k hs = map (\<lambda>(e, g, t). t) (filter (\<lambda>(e, g, t). window_key e g = k) hs)"

definition recent :: "compiled_rule \<Rightarrow> time \<Rightarrow> time list \<Rightarrow> time list" where
  "recent e now ts = filter (\<lambda>t. now - seconds (cp_window e) \<le> t) ts"

lemma window_of_update [simp]:
  "window_of k (AList.update k' w ws) = (if k = k' then w else window_of k ws)"
  by (simp add: window_of_def update_conv')

lemma window_of_register:
  "window_of k (snd (register_hit e g t ws)) =
     (if 1 < cp_threshold e \<and> k = window_key e g then window_after e t (window_of k ws) else window_of k ws)"
  by (simp add: register_hit_def Let_def)

lemma window_after_recent:
  assumes "sorted (ts @ [now])" and "0 \<le> cp_window e" and "w = last_entries MAX_WINDOW_ENTRIES (recent e old ts)"
    and "old \<le> now"
  shows "window_after e now w = last_entries MAX_WINDOW_ENTRIES (recent e now (ts @ [now]))"
proof -
  have ts: "sorted ts" using assms(1) by (simp add: sorted_append)
  then have old: "sorted (recent e old ts)" by (simp add: recent_def sorted_wrt_filter)
  then have "sorted w" unfolding assms(3) last_entries_def by (rule sorted_wrt_drop)
  then have "dropWhile (\<lambda>t. t < now - seconds (cp_window e)) w = recent e now w"
    unfolding recent_def by (rule dropWhile_sorted)
  also have "\<dots> = last_entries MAX_WINDOW_ENTRIES (recent e now (recent e old ts))"
    unfolding assms(3) recent_def [of e now] by (rule filter_last_entries [OF old])
  also have "recent e now (recent e old ts) = recent e now ts"
    using assms(4) by (auto simp: recent_def intro!: filter_cong)
  finally have "window_after e now w =
      last_entries MAX_WINDOW_ENTRIES (last_entries MAX_WINDOW_ENTRIES (recent e now ts) @ [now])"
    by (simp add: window_after_def)
  also have "\<dots> = last_entries MAX_WINDOW_ENTRIES (recent e now ts @ [now])"
    by (rule last_entries_snoc) (simp add: MAX_WINDOW_ENTRIES_def)
  finally show ?thesis using assms(2) by (simp add: recent_def usec_def)
qed

lemma window_content:
  assumes "1 < cp_threshold e" and "0 \<le> cp_window e"
    and "sorted (map (\<lambda>(_, _, t). t) hs)" and "\<forall>(e', g', t) \<in> set hs. window_key e' g' = window_key e g \<longrightarrow> e' = e"
  shows "\<exists>old. window_of (window_key e g) (run_hits hs []) =
      last_entries MAX_WINDOW_ENTRIES (recent e old (hit_times (window_key e g) hs)) \<and>
      (hs = [] \<or> old \<le> (case last hs of (_, _, t) \<Rightarrow> t))"
  using assms(3,4)
proof (induction hs rule: rev_induct)
  case Nil
  then show ?case by (simp add: run_hits_def hit_times_def window_of_def recent_def last_entries_def)
next
  case (snoc h hs)
  obtain e' g' t where h: "h = (e', g', t)" by (cases h)
  have "sorted (map (\<lambda>(_, _, t). t) hs)" using snoc.prems by (simp add: sorted_append)
  then obtain old where old: "window_of (window_key e g) (run_hits hs []) =
      last_entries MAX_WINDOW_ENTRIES (recent e old (hit_times (window_key e g) hs))"
    "hs = [] \<or> old \<le> (case last hs of (_, _, t) \<Rightarrow> t)"
    using snoc.IH snoc.prems(2) by auto
  have le: "hs = [] \<or> old \<le> t"
  proof (cases "hs = []")
    case False
    then have "last hs \<in> set hs" by simp
    then have "(case last hs of (_, _, t) \<Rightarrow> t) \<le> t" using snoc.prems(1) h by (auto simp: sorted_append)
    then show ?thesis using old(2) by auto
  qed simp
  show ?case
  proof (cases "window_key e' g' = window_key e g")
    case True
    then have e: "e' = e" using snoc.prems(2) h by auto
    have times: "hit_times (window_key e g) (hs @ [h]) = hit_times (window_key e g) hs @ [t]"
      using True by (simp add: hit_times_def h)
    have srt: "sorted (hit_times (window_key e g) hs @ [t])"
      using snoc.prems(1) unfolding hit_times_def h
      by (auto simp: sorted_append sorted_map sorted_wrt_filter split_beta)
    have "window_of (window_key e g) (run_hits (hs @ [h]) []) =
        window_after e t (window_of (window_key e g) (run_hits hs []))"
      using assms(1) True e by (simp add: run_hits_def h window_of_register)
    also have "\<dots> = last_entries MAX_WINDOW_ENTRIES (recent e t (hit_times (window_key e g) (hs @ [h])))"
    proof (cases "hs = []")
      case True
      then show ?thesis
        using assms(2) unfolding times by (simp add: hit_times_def run_hits_def window_of_def window_after_def recent_def
            last_entries_def usec_def MAX_WINDOW_ENTRIES_def)
    next
      case False
      then show ?thesis unfolding times using window_after_recent [OF srt assms(2) old(1)] le by simp
    qed
    finally show ?thesis by (intro exI [of _ t]) (simp add: h)
  next
    case False
    then have "hit_times (window_key e g) (hs @ [h]) = hit_times (window_key e g) hs"
      by (simp add: hit_times_def h)
    moreover have "window_of (window_key e g) (run_hits (hs @ [h]) []) = window_of (window_key e g) (run_hits hs [])"
      using False by (auto simp: run_hits_def h window_of_register)
    ultimately have same: "window_of (window_key e g) (run_hits (hs @ [h]) []) =
        last_entries MAX_WINDOW_ENTRIES (recent e old (hit_times (window_key e g) (hs @ [h])))"
      using old(1) by simp
    show ?thesis
    proof (cases "hs = []")
      case True
      then have "hit_times (window_key e g) (hs @ [h]) = []" using False by (simp add: hit_times_def h)
      then show ?thesis using same by (intro exI [of _ t]) (simp add: h recent_def)
    qed (use same le h in auto)
  qed
qed

text \<open>C22: A threshold counts exactly.  Whatever hits came before, of this rule and group or of others, in
  the order of time, a hit at \<open>now\<close> reports the number of hits of its own rule and group within the
  window that ends at \<open>now\<close>, itself included, as soon as that reaches the threshold, and nothing
  before; beyond 10000 hits in a window it reports 10000.\<close>

theorem threshold_exact:
  assumes "1 < cp_threshold e" and "0 \<le> cp_window e"
    and "sorted (map (\<lambda>(_, _, t). t) hs @ [now])"
    and "\<forall>(e', g', t) \<in> set hs. window_key e' g' = window_key e g \<longrightarrow> e' = e"
  shows "fst (register_hit e g now (run_hits hs [])) =
    (let n = int (min MAX_WINDOW_ENTRIES (length (recent e now (hit_times (window_key e g) hs @ [now]))))
     in if cp_threshold e \<le> n then n else 0)"
proof -
  let ?ts = "hit_times (window_key e g) hs"
  have srt: "sorted (map (\<lambda>(_, _, t). t) hs)" using assms(3) by (simp add: sorted_append)
  have ts: "sorted (?ts @ [now])"
    using assms(3) unfolding hit_times_def by (auto simp: sorted_append sorted_map sorted_wrt_filter split_beta)
  obtain old where old: "window_of (window_key e g) (run_hits hs []) = last_entries MAX_WINDOW_ENTRIES (recent e old ?ts)"
    "hs = [] \<or> old \<le> (case last hs of (_, _, t) \<Rightarrow> t)"
    using window_content [OF assms(1,2) srt assms(4)] by blast
  have "window_after e now (window_of (window_key e g) (run_hits hs [])) =
      last_entries MAX_WINDOW_ENTRIES (recent e now (?ts @ [now]))"
  proof (cases "hs = []")
    case True
    then show ?thesis
      using assms(2) by (simp add: hit_times_def run_hits_def window_of_def window_after_def recent_def
          last_entries_def usec_def MAX_WINDOW_ENTRIES_def)
  next
    case False
    then have "last hs \<in> set hs" by simp
    then have "(case last hs of (_, _, t) \<Rightarrow> t) \<le> now" using assms(3) by (auto simp: sorted_append)
    then have "old \<le> now" using old(2) False by auto
    then show ?thesis by (rule window_after_recent [OF ts assms(2) old(1)])
  qed
  then show ?thesis using assms(1) by (simp add: register_hit_def Let_def last_entries_length)
qed

definition sample_match :: match_spec where
  "sample_match = \<lparr>ms_all = [], ms_any = [], ms_not = [],
     ms_threshold = Some \<lparr>th_count = 3, th_window = 60, th_group_by = [''labels.src_ip'']\<rparr>\<rparr>"

definition threshold_rule :: compiled_rule where
  "threshold_rule = compile_rule ((sample_rule Medium None 1)\<lparr>ru_match := sample_match\<rparr>)"

theorem threshold_exact_witness:
  "fst (register_hit threshold_rule ''g'' (seconds 100)
      (run_hits [(threshold_rule, ''g'', seconds 10), (threshold_rule, ''g'', seconds 50), (threshold_rule, ''h'', seconds 60),
        (threshold_rule, ''g'', seconds 70)] [])) = 3"
  by (subst threshold_exact)
     (simp_all add: threshold_rule_def sample_match_def compile_rule_def sample_rule_def window_key_def hit_times_def
       recent_def usec_def MAX_WINDOW_ENTRIES_def)

subsection \<open>Evaluation of an event\<close>

definition hit_count :: "event \<Rightarrow> time \<Rightarrow> windows \<Rightarrow> compiled_rule \<Rightarrow> int" where
  "hit_count ev now ws e = fst (register_hit e (group_key e ev) now ws)"

definition match_of :: "event \<Rightarrow> time \<Rightarrow> windows \<Rightarrow> compiled_rule \<Rightarrow> match_result" where
  "match_of ev now ws e =
     \<lparr>mr_rule = cp_rule e, mr_event = ev, mr_dedup_key = dedup_key e ev, mr_group_key = group_key e ev,
      mr_threshold = hit_count ev now ws e, mr_matched_at = now\<rparr>"

lemma hit_count_cong:
  "window_of (window_key e (group_key e ev)) ws = window_of (window_key e (group_key e ev)) ws' \<Longrightarrow>
   hit_count ev now ws e = hit_count ev now ws' e"
  by (simp add: hit_count_def register_hit_def Let_def)

lemma hit_count_other:
  "ru_id (cp_rule e') \<noteq> ru_id (cp_rule e) \<Longrightarrow> hit_count ev now (snd (register_hit e g now ws)) e' = hit_count ev now ws e'"
  by (rule hit_count_cong) (simp add: window_of_register window_key_def)

lemma evaluate_rules_exact:
  "distinct (map (ru_id \<circ> cp_rule) es) \<Longrightarrow>
   fst (evaluate_rules re_compile ev now es de) =
     map (match_of ev now (de_windows de))
       (filter (\<lambda>e. candidate re_compile ev e \<and> hit_count ev now (de_windows de) e \<noteq> 0) es)"
proof (induction es arbitrary: de)
  case (Cons e es)
  show ?case
  proof (cases "candidate re_compile ev e")
    case True
    obtain n ws where reg: "register_hit e (group_key e ev) now (de_windows de) = (n, ws)" by fastforce
    have n: "hit_count ev now (de_windows de) e = n" by (simp add: hit_count_def reg)
    have same: "hit_count ev now ws e' = hit_count ev now (de_windows de) e'" if "e' \<in> set es" for e'
    proof -
      have "ru_id (cp_rule e') \<noteq> ru_id (cp_rule e)" using Cons.prems that by (auto simp: image_iff)
      then show ?thesis using hit_count_other [of e' e ev now "group_key e ev" "de_windows de"] by (simp add: reg)
    qed
    have rest: "fst (evaluate_rules re_compile ev now es de') = map (match_of ev now (de_windows de))
        (filter (\<lambda>e. candidate re_compile ev e \<and> hit_count ev now (de_windows de) e \<noteq> 0) es)"
      if "de_windows de' = ws" for de'
      using Cons same that by (simp add: match_of_def cong: filter_cong)
    show ?thesis
      using True n by (simp add: Let_def reg split_beta rest match_of_def)
  qed (use Cons in simp)
qed simp

lemma evaluate_rules_counts:
  "de_matched (snd (evaluate_rules re_compile ev now es de)) =
     de_matched de + int (length (fst (evaluate_rules re_compile ev now es de))) \<and>
   de_compiled (snd (evaluate_rules re_compile ev now es de)) = de_compiled de"
  by (induction es arbitrary: de) (auto simp: Let_def split_beta)

text \<open>C21: Every rule of the library is evaluated on its own.  When rule identifiers are distinct, the
  matches of an event are those of the enabled rules that apply to its source and kind, whose
  conditions hold and whose threshold is reached, in the order of the library; what one rule counts
  does not depend on the others, and the counters of the engine count the matches.\<close>

theorem evaluate_exact:
  assumes "distinct (map (ru_id \<circ> cp_rule) (de_compiled de))"
  shows "fst (evaluate_event re_compile ev now de) =
      map (match_of ev now (de_windows de))
        (filter (\<lambda>e. candidate re_compile ev e \<and> hit_count ev now (de_windows de) e \<noteq> 0) (de_compiled de)) \<and>
    de_matched (snd (evaluate_event re_compile ev now de)) =
      de_matched de + int (length (fst (evaluate_event re_compile ev now de))) \<and>
    de_compiled (snd (evaluate_event re_compile ev now de)) = de_compiled de"
  using evaluate_rules_exact [OF assms, of re_compile ev now de] evaluate_rules_counts [of re_compile ev now "de_compiled de" de]
  by (simp add: evaluate_event_def split_beta)

text \<open>After a reload the library holds exactly the rules that pass the control, gravest first and
  by identifier among equals, with empty windows.\<close>

theorem reload_correct:
  "mset (map cp_rule (de_compiled (reload_rules re_compile rules de))) =
     mset (filter (\<lambda>r. validate_rule re_compile r = []) rules) \<and>
   sorted (map rule_order (de_compiled (reload_rules re_compile rules de))) \<and>
   de_windows (reload_rules re_compile rules de) = []"
  by (simp add: reload_rules_def Let_def multiset.map_comp comp_def compile_rule_def)

definition sample_event :: event where
  "sample_event = \<lparr>ev_id = ''e1'', ev_tenant = ''acme'', ev_ts = 0, ev_kind = Log_line,
     ev_source = \<lparr>src_type = Src_log_tail, src_name = None, src_host = None\<rparr>, ev_hint = None, ev_labels = [],
     ev_payload = [], ev_raw_ref = None\<rparr>"

theorem evaluate_exact_witness:
  "map mr_rule (fst (evaluate_event (\<lambda>_ _. Inl []) sample_event 0
      (new_detection (\<lambda>_ _. Inl []) [sample_rule High None 1]))) = [sample_rule High None 1]"
proof -
  let ?r = "sample_rule High None 1" and ?re = "(\<lambda>_ _. Inl []) :: regex_engine"
  have de: "de_compiled (new_detection ?re [?r]) = [compile_rule ?r]"
    by (simp add: new_detection_def reload_rules_def Let_def validate_rule_def condition_problems_def
        threshold_problems_def tag_problems_def sample_rule_def map_filter_simps)
  have one: "candidate ?re ev (compile_rule ?r)" "hit_count ev 0 ws (compile_rule ?r) = 1" for ws ev
    by (simp_all add: candidate_def applies_to_def spec_matches_def hit_count_def register_hit_def compile_rule_def
        sample_rule_def)
  have "distinct (map (ru_id \<circ> cp_rule) (de_compiled (new_detection ?re [?r])))" by (simp add: de)
  from conjunct1 [OF evaluate_exact [OF this, of ?re sample_event 0]] have
    "fst (evaluate_event ?re sample_event 0 (new_detection ?re [?r])) =
       [match_of sample_event 0 (de_windows (new_detection ?re [?r])) (compile_rule ?r)]"
    unfolding de by (simp add: one)
  then show ?thesis by (simp add: match_of_def) (simp add: compile_rule_def)
qed

subsection \<open>Windows are shared by the tenants\<close>

lemma labels_only:
  assumes "prefix ''labels.'' f" and "ev_labels ev' = ev_labels ev"
  shows "deep_get (event_dump ev') f = deep_get (event_dump ev) f"
proof -
  obtain p where "f = ''labels.'' @ p" using assms(1) by (auto simp: prefix_def)
  then have "split_on (CHR ''.'') f = ''labels'' # split_on (CHR ''.'') p" "f \<noteq> []" by simp_all
  then show ?thesis using assms(2) by (simp add: deep_get_def event_dump_def)
qed

text \<open>
  The control of rules asks for a grouping by labels so that a threshold is not shared between
  tenants.  It is shared all the same: the window of a rule is known by the rule and the grouping
  labels, without the tenant, so the events of one tenant count for another's threshold.
\<close>

theorem thresholds_cross_tenants:
  assumes "validate_rule re_compile r = []" and "ms_threshold (ru_match r) = Some th"
    and "ev_labels ev' = ev_labels ev"
  shows "window_key (compile_rule r) (group_key (compile_rule r) ev') = window_key (compile_rule r) (group_key (compile_rule r) ev)"
proof -
  have "prefix ''labels.'' f" if "f \<in> set (th_group_by th)" for f
    using assms(1,2) that
    by (auto simp: validate_rule_def threshold_problems_def List.map_filter_def filter_empty_conv split: if_splits)
  then have vals: "map (\<lambda>f. deep_get (event_dump ev') f) (th_group_by th) = map (\<lambda>f. deep_get (event_dump ev) f) (th_group_by th)"
    using labels_only [OF _ assms(3)] by simp
  have "field_values (th_group_by th) ev' = field_values (th_group_by th) ev"
    unfolding field_values_def using vals by (intro fold_cong) auto
  then show ?thesis using assms(2) by (simp add: window_key_def group_key_def compile_rule_def)
qed

end
