(* ===== verification/RuleLoader.thy ===== *)
theory RuleLoader
  imports Detection Scope
begin

section \<open>Loading of rules\<close>

text \<open>
  \<open>detection/rule_loader.py\<close>: the library of rule files, one bad file never spoiling the others, and the
  translation of a subset of Sigma into the native all/any/not format.  Parsing of YAML and the
  validation of a native document by the schema library are parameters.  A \<open>RuleLoadError\<close> and the
  schema library's \<open>ValidationError\<close> are exceptions of those classes.
\<close>

type_synonym yaml_all = "string \<Rightarrow> string + pyval list"
type_synonym rule_schema = "dict \<Rightarrow> string + rule"

definition load_error :: "string \<Rightarrow> exn" where
  "load_error msg = Foreign ''RuleLoadError'' msg"

definition schema_error :: "string \<Rightarrow> exn" where
  "schema_error msg = Foreign ''ValidationError'' msg"

definition MAX_RULE_FILE_BYTES :: nat where "MAX_RULE_FILE_BYTES = 1048576"

definition SIGMA_LEVEL_MAP :: "(string \<times> severity) list" where
  "SIGMA_LEVEL_MAP = [(''informational'', Info), (''info'', Info), (''low'', Low), (''medium'', Medium),
     (''high'', High), (''critical'', Critical)]"

definition SIGMA_FIELD_PREFIX :: string where "SIGMA_FIELD_PREFIX = ''payload.''"

subsection \<open>Combination of match specifications\<close>

definition empty_spec :: match_spec where
  "empty_spec = \<lparr>ms_all = [], ms_any = [], ms_not = [], ms_threshold = None\<rparr>"

definition merge_and :: "match_spec \<Rightarrow> match_spec \<Rightarrow> exn + match_spec" where
  "merge_and l r =
     (if ms_any l \<noteq> [] \<and> ms_any r \<noteq> []
        then Inl (load_error (''condition Sigma : conjonction de deux branches ou non representable dans le ''
               @ ''format all/any/not - reecrivez la regle au format natif Thot Secure''))
      else Inr \<lparr>ms_all = ms_all l @ ms_all r, ms_any = ms_any l @ ms_any r, ms_not = ms_not l @ ms_not r,
                ms_threshold = (if ms_threshold l \<noteq> None then ms_threshold l else ms_threshold r)\<rparr>)"

definition too_complex :: "match_spec \<Rightarrow> bool" where
  "too_complex m \<longleftrightarrow> 1 < length (ms_all m) \<or> ms_any m \<noteq> [] \<or> ms_not m \<noteq> []"

definition or_error :: "string \<Rightarrow> exn" where
  "or_error side = load_error (''condition Sigma ou : la branche '' @ side @ '' contient plusieurs conditions, ''
     @ ''ce qui n est pas representable dans le format all/any/not - reecrivez la regle au format natif Thot Secure'')"

definition merge_or :: "match_spec \<Rightarrow> match_spec \<Rightarrow> exn + match_spec" where
  "merge_or l r =
     (if too_complex l then Inl (or_error ''gauche'')
      else if too_complex r then Inl (or_error ''droite'')
      else Inr (empty_spec\<lparr>ms_any := ms_all l @ ms_all r\<rparr>))"

definition negate_spec :: "match_spec \<Rightarrow> match_spec" where
  "negate_spec m = empty_spec\<lparr>ms_not := ms_all m @ ms_any m @ ms_not m\<rparr>"

fun combine_from :: "(match_spec \<Rightarrow> match_spec \<Rightarrow> exn + match_spec) \<Rightarrow> match_spec \<Rightarrow> match_spec list \<Rightarrow> exn + match_spec" where
  "combine_from merge acc [] = Inr acc"
| "combine_from merge acc (m # ms) =
     (case merge acc m of Inl e \<Rightarrow> Inl e | Inr acc' \<Rightarrow> combine_from merge acc' ms)"

definition combine_many :: "bool \<Rightarrow> match_spec list \<Rightarrow> exn + match_spec" where
  "combine_many every ms = combine_from (if every then merge_and else merge_or) empty_spec ms"

subsection \<open>The parser of conditions\<close>

text \<open>
  The attribute \<open>position\<close> is the list of tokens that remain.  The methods call one another: the
  conjunctions and disjunctions are given the parser of their operands, which recurs on fuel, and
  \<^const>\<open>None\<close> means that it ran out.
\<close>

type_synonym selections = "(string \<times> match_spec) list"
type_synonym parsed = "(exn + match_spec \<times> string list) option"

definition match_pattern :: "selections \<Rightarrow> string \<Rightarrow> match_spec list" where
  "match_pattern sels p =
     (if suffix ''*'' p then map snd (filter (\<lambda>(n, _). prefix (butlast p) n) sels)
      else case map_of sels p of None \<Rightarrow> [] | Some m \<Rightarrow> [m])"

definition with_rest :: "string list \<Rightarrow> exn + match_spec \<Rightarrow> exn + match_spec \<times> string list" where
  "with_rest ts r = (case r of Inl e \<Rightarrow> Inl e | Inr m \<Rightarrow> Inr (m, ts))"

definition parse_named :: "selections \<Rightarrow> string \<Rightarrow> string list \<Rightarrow> exn + match_spec \<times> string list" where
  "parse_named sels t ts =
     (if str_lower t = ''them'' then
        (if sels = [] then Inl (load_error ''condition Sigma them sans aucune selection definie'')
         else with_rest ts (combine_many False (map snd sels)))
      else case map_of sels t of
        Some m \<Rightarrow> Inr (m, ts)
      | None \<Rightarrow>
          (case match_pattern sels t of
             [] \<Rightarrow> Inl (load_error (''condition Sigma : selection inconnue '' @ repr_str t @ '' (definies : ''
                     @ py_repr (PList (map PStr (sort (map fst sels)))) @ '')''))
           | ms \<Rightarrow> with_rest ts (combine_many False ms)))"

definition parse_selection :: "selections \<Rightarrow> string list \<Rightarrow> exn + match_spec \<times> string list" where
  "parse_selection sels ts =
     (case ts of
        [] \<Rightarrow> Inl (load_error ''condition Sigma incomplete'')
      | t # ts' \<Rightarrow>
          if str_lower t \<in> {''1'', ''all''} \<and> ts' \<noteq> [] \<and> str_lower (hd ts') = ''of'' then
            (case tl ts' of
               [] \<Rightarrow> Inl (load_error ''condition Sigma incomplete (fin d expression inattendue)'')
             | p # rest \<Rightarrow>
                 (case match_pattern sels p of
                    [] \<Rightarrow> Inl (load_error (''condition Sigma : aucune selection ne correspond a '' @ repr_str p))
                  | ms \<Rightarrow> with_rest rest (combine_many (str_lower t = ''all'') ms)))
          else parse_named sels t ts')"

definition and_then :: "parsed \<Rightarrow> (match_spec \<Rightarrow> string list \<Rightarrow> parsed) \<Rightarrow> parsed" where
  "and_then p k =
     (case p of
        None \<Rightarrow> None
      | Some r \<Rightarrow> (case r of Inl e \<Rightarrow> Some (Inl e) | Inr mts \<Rightarrow> k (fst mts) (snd mts)))"

definition merged :: "exn + match_spec \<Rightarrow> (match_spec \<Rightarrow> parsed) \<Rightarrow> parsed" where
  "merged r k = (case r of Inl e \<Rightarrow> Some (Inl e) | Inr m \<Rightarrow> k m)"

definition next_is :: "string \<Rightarrow> string list \<Rightarrow> bool" where
  "next_is word ts \<longleftrightarrow> ts \<noteq> [] \<and> str_lower (hd ts) = word"

definition closing :: "match_spec \<Rightarrow> string list \<Rightarrow> parsed" where
  "closing m ts =
     (if ts = [] \<or> hd ts \<noteq> '')''
      then Some (Inl (load_error ''parenthese fermante manquante dans la condition Sigma''))
      else Some (Inr (m, tl ts)))"

primrec parse_and_loop :: "(string list \<Rightarrow> parsed) \<Rightarrow> nat \<Rightarrow> match_spec \<Rightarrow> string list \<Rightarrow> parsed" where
  "parse_and_loop unary 0 l ts = None"
| "parse_and_loop unary (Suc n) l ts =
     (if \<not> next_is ''and'' ts then Some (Inr (l, ts))
      else and_then (unary (tl ts)) (\<lambda>r ts. merged (merge_and l r) (\<lambda>m. parse_and_loop unary n m ts)))"

definition parse_and :: "(string list \<Rightarrow> parsed) \<Rightarrow> nat \<Rightarrow> string list \<Rightarrow> parsed" where
  "parse_and unary n ts = and_then (unary ts) (parse_and_loop unary n)"

primrec parse_or_loop :: "(string list \<Rightarrow> parsed) \<Rightarrow> nat \<Rightarrow> match_spec \<Rightarrow> string list \<Rightarrow> parsed" where
  "parse_or_loop sub 0 l ts = None"
| "parse_or_loop sub (Suc n) l ts =
     (if \<not> next_is ''or'' ts then Some (Inr (l, ts))
      else and_then (sub (tl ts)) (\<lambda>r ts. merged (merge_or l r) (\<lambda>m. parse_or_loop sub n m ts)))"

definition parse_or :: "(string list \<Rightarrow> parsed) \<Rightarrow> nat \<Rightarrow> string list \<Rightarrow> parsed" where
  "parse_or unary n ts = and_then (parse_and unary n ts) (parse_or_loop (parse_and unary n) n)"

primrec parse_unary :: "selections \<Rightarrow> nat \<Rightarrow> string list \<Rightarrow> parsed" where
  "parse_unary sels 0 ts = None"
| "parse_unary sels (Suc n) ts =
     (if ts = [] then Some (Inl (load_error ''condition Sigma incomplete''))
      else if next_is ''not'' ts
        then and_then (parse_unary sels n (tl ts)) (\<lambda>m ts. Some (Inr (negate_spec m, ts)))
      else if hd ts = ''('' then and_then (parse_or (parse_unary sels n) n (tl ts)) closing
      else Some (parse_selection sels ts))"

text \<open>One unit of fuel per token, and one more, are enough (\<open>parser_terminates\<close>).\<close>

definition parse_condition :: "selections \<Rightarrow> string list \<Rightarrow> (exn + match_spec) option" where
  "parse_condition sels ts =
     (case parse_or (parse_unary sels (length ts + 1)) (length ts + 1) ts of
        None \<Rightarrow> None
      | Some (Inl e) \<Rightarrow> Some (Inl e)
      | Some (Inr (m, [])) \<Rightarrow> Some (Inr m)
      | Some (Inr (m, t # _)) \<Rightarrow>
          Some (Inl (load_error (''condition Sigma : jeton inattendu '' @ repr_str t
            @ '' (formes supportees : A and B, A and not B, A or B, 1 of X*, all of X*)''))))"

fun words_from :: "string \<Rightarrow> string \<Rightarrow> string list" where
  "words_from w [] = (if w = [] then [] else [rev w])"
| "words_from w (c # cs) =
     (if is_space c then (if w = [] then words_from [] cs else rev w # words_from [] cs)
      else words_from (c # w) cs)"

definition tokenize_condition :: "string \<Rightarrow> string list" where
  "tokenize_condition s =
     words_from [] (replace_char (CHR ''|'') '' | '' (replace_char (CHR '')'') '' ) '' (replace_char (CHR ''('') '' ( '' s)))"

definition combine_sigma_condition :: "string \<Rightarrow> selections \<Rightarrow> exn + match_spec" where
  "combine_sigma_condition s sels =
     (case parse_condition sels (tokenize_condition s) of
        None \<Rightarrow> Inl (Foreign ''RecursionError'' [])
      | Some r \<Rightarrow> r)"

subsection \<open>Selections\<close>

function replace_text :: "string \<Rightarrow> string \<Rightarrow> string \<Rightarrow> string" where
  "replace_text p r s =
     (if p = [] \<or> s = [] then s
      else if prefix p s then r @ replace_text p r (drop (length p) s)
      else hd s # replace_text p r (tl s))"
  by pat_completeness auto

termination replace_text
  by (relation "measure (\<lambda>(p, r, s). length s)") (auto simp: neq_Nil_conv)

declare replace_text.simps [simp del]

text \<open>\<open>re.escape\<close>: a backslash before the characters special to regular expressions.\<close>

definition RE_SPECIAL :: string where
  "RE_SPECIAL = ''()[]{}?*+-|^$.&~# '' @ [CHR 0x5C, CHR 0x09, CHR 0x0A, CHR 0x0D, CHR 0x0B, CHR 0x0C]"

definition re_escape :: "string \<Rightarrow> string" where
  "re_escape s = concat (map (\<lambda>c. if c \<in> set RE_SPECIAL then [CHR 0x5C, c] else [c]) s)"

definition sigma_wildcard_to_regex :: "string \<Rightarrow> string" where
  "sigma_wildcard_to_regex p =
     ''(?s)^'' @ replace_text [CHR 0x5C, CHR ''?''] ''.''
       (replace_text [CHR 0x5C, CHR ''*''] ''.*'' (re_escape p)) @ ''$''"

definition new_condition :: "string \<Rightarrow> operator \<Rightarrow> pyval \<Rightarrow> bool \<Rightarrow> exn + condition" where
  "new_condition field op v cs =
     (case validate_field field of
        Inl e \<Rightarrow> Inl (schema_error e)
      | Inr f \<Rightarrow> Inr \<lparr>c_field = f, c_op = op, c_value = v, c_case_sensitive = cs, c_negate = False\<rparr>)"

definition UNSUPPORTED_MODIFIERS :: "string list" where
  "UNSUPPORTED_MODIFIERS = [''base64'', ''base64offset'', ''utf16'', ''utf16le'', ''utf16be'', ''wide'', ''windash'',
     ''expand'', ''fieldref'']"

fun apply_modifiers :: "string \<Rightarrow> string list \<Rightarrow> operator \<times> bool \<times> bool \<Rightarrow> exn + operator \<times> bool \<times> bool" where
  "apply_modifiers sel [] st = Inr st"
| "apply_modifiers sel (m # ms) (op, cs, every) =
     (if m = ''contains'' then apply_modifiers sel ms (Op_icontains, False, every)
      else if m = ''startswith'' then apply_modifiers sel ms (Op_startswith, False, every)
      else if m = ''endswith'' then apply_modifiers sel ms (Op_endswith, False, every)
      else if m = ''re'' then apply_modifiers sel ms (Op_regex, cs, every)
      else if m = ''cidr'' then apply_modifiers sel ms (Op_cidr, cs, every)
      else if m = ''gt'' then apply_modifiers sel ms (Op_gt, cs, every)
      else if m = ''gte'' then apply_modifiers sel ms (Op_gte, cs, every)
      else if m = ''lt'' then apply_modifiers sel ms (Op_lt, cs, every)
      else if m = ''lte'' then apply_modifiers sel ms (Op_lte, cs, every)
      else if m = ''all'' then apply_modifiers sel ms (op, cs, True)
      else Inl (load_error (''selection '' @ quote sel @ '': modificateur Sigma inconnu '' @ quote m)))"

definition has_wildcard :: "pyval \<Rightarrow> bool" where
  "has_wildcard v = (case v of PStr s \<Rightarrow> CHR ''*'' \<in> set s \<or> CHR ''?'' \<in> set s | _ \<Rightarrow> False)"

definition values_of :: "pyval \<Rightarrow> pyval list" where
  "values_of v = (case v of PList xs \<Rightarrow> xs | _ \<Rightarrow> [v])"

definition value_conditions ::
    "string \<Rightarrow> string \<Rightarrow> operator \<Rightarrow> bool \<Rightarrow> bool \<Rightarrow> pyval list \<Rightarrow> exn + condition list" where
  "value_conditions sel path op cs every vs =
     (if every then
        (if op = Op_eq then traverse (\<lambda>v. new_condition path Op_icontains (PStr (py_str v)) False) vs
         else Inl (load_error (''selection '' @ quote sel @ '': modificateur all avec operateur ''
                @ quote (op_str op) @ '' non supporte'')))
      else case vs of
        [v] \<Rightarrow>
          if has_wildcard v \<and> op \<in> {Op_eq, Op_icontains}
          then traverse (\<lambda>v. new_condition path Op_regex (PStr (sigma_wildcard_to_regex (py_str v))) cs) [v]
          else traverse (\<lambda>v. new_condition path op v cs) [v]
      | _ \<Rightarrow>
          if op = Op_eq then traverse (\<lambda>v. new_condition path Op_in v False) [PList vs]
          else Inl (load_error (''selection '' @ quote sel @ '': plusieurs valeurs avec l operateur ''
                 @ quote (op_str op) @ '' ne sont pas representables fidelement - utilisez un operateur ''
                 @ ''ensembliste ou le format natif'')))"

definition sigma_field_conditions :: "string \<Rightarrow> string \<Rightarrow> pyval \<Rightarrow> exn + condition list" where
  "sigma_field_conditions sel spec v =
     (let parts = split_on (CHR ''|'') spec; field = str_strip (hd parts);
          modifiers = map (str_lower \<circ> str_strip) (tl parts);
          path = (if CHR ''.'' \<in> set field then field else SIGMA_FIELD_PREFIX @ field);
          refused = filter (\<lambda>m. m \<in> set modifiers) UNSUPPORTED_MODIFIERS
      in if refused \<noteq> []
         then Inl (load_error (''selection '' @ quote sel @ '': modificateur Sigma non supporte (''
                @ py_repr (PList (map PStr (sort refused))) @ '') - reecrivez la regle au format natif''))
         else case apply_modifiers sel modifiers (Op_eq, True, False) of
           Inl e \<Rightarrow> Inl e
         | Inr (op, cs, every) \<Rightarrow>
             value_conditions sel path op (if op = Op_eq then False else cs) every (values_of v))"

definition sigma_selection_to_spec :: "string \<Rightarrow> pyval \<Rightarrow> exn + match_spec" where
  "sigma_selection_to_spec sel body =
     (case body of
        PDict d \<Rightarrow>
          (case traverse (\<lambda>(k, v). sigma_field_conditions sel k v) d of
             Inl e \<Rightarrow> Inl e
           | Inr css \<Rightarrow>
               if concat css = [] then Inl (load_error (''selection Sigma '' @ quote sel @ '' ne contient aucune condition''))
               else Inr (empty_spec\<lparr>ms_all := concat css\<rparr>))
      | _ \<Rightarrow> Inl (load_error (''selection Sigma '' @ quote sel @ '' doit etre un mapping'')))"

subsection \<open>Translation of a Sigma rule\<close>

definition py_text :: "pyval \<Rightarrow> string" where
  "py_text v = str_strip (py_str (if truthy v then v else PStr []))"

definition sigma_rule_id :: "string \<Rightarrow> string \<Rightarrow> string" where
  "sigma_rule_id given title =
     (let rid = str_upper given;
          slug = take 40 (map (\<lambda>c. if is_alnum c then c else CHR ''-'') (str_upper title));
          named = (if rid = [] then strip_with (\<lambda>c. c = CHR ''-'') (''SIGMA-'' @ slug) else rid)
      in if prefix ''AO-'' named \<or> prefix ''SIGMA-'' named then named else ''SIGMA-'' @ named)"

definition sigma_severity :: "pyval \<Rightarrow> severity" where
  "sigma_severity level =
     (if \<not> truthy level then Medium
      else case map_of SIGMA_LEVEL_MAP (str_lower (py_str level)) of None \<Rightarrow> Medium | Some s \<Rightarrow> s)"

definition texts_of :: "pyval \<Rightarrow> exn + string list" where
  "texts_of v = (case iter_or_empty v of Inl e \<Rightarrow> Inl e | Inr xs \<Rightarrow> Inr (map py_str xs))"

definition attack_ids :: "string list \<Rightarrow> string list" where
  "attack_ids tags =
     map (\<lambda>t. str_upper (the (snd (split_first (CHR ''.'') t)))) (filter (\<lambda>t. prefix ''attack.t'' (str_lower t)) tags)"

text \<open>The schema's own validation of a rule: texts are stripped, then the validators run.\<close>

definition new_rule :: "rule \<Rightarrow> exn + rule" where
  "new_rule r =
     (case validate_rule_id (ru_id r) of
        Inl e \<Rightarrow> Inl (schema_error e)
      | Inr rid \<Rightarrow>
          (case validate_semantics (r\<lparr>ru_id := rid, ru_title := str_strip (ru_title r),
              ru_description := str_strip (ru_description r), ru_tags := map str_strip (ru_tags r),
              ru_false_positives := map str_strip (ru_false_positives r), ru_remediation := str_strip (ru_remediation r),
              ru_references := map str_strip (ru_references r), ru_path := map_option str_strip (ru_path r)\<rparr>) of
             Inl e \<Rightarrow> Inl (schema_error e)
           | Inr r' \<Rightarrow> Inr r'))"

definition SIGMA_REMEDIATION :: string where
  "SIGMA_REMEDIATION = ''Analyser l evenement, confirmer ou infirmer, puis appliquer le playbook adapte.''"

definition sigma_rule ::
    "string option \<Rightarrow> string \<Rightarrow> string \<Rightarrow> string \<Rightarrow> severity \<Rightarrow> match_spec \<Rightarrow> string list \<Rightarrow> string list \<Rightarrow> string list \<Rightarrow> rule" where
  "sigma_rule path rid title description sev m tags fps refs =
     \<lparr>ru_id = rid, ru_title = title, ru_description = description, ru_status = Test, ru_severity = sev,
      ru_confidence = 3 / 5, ru_enabled = True, ru_tags = tags, ru_source_types = [], ru_kinds = [], ru_match = m,
      ru_dedup = \<lparr>dd_key = [''labels.src_ip''], dd_ttl = 900\<rparr>,
      ru_risk = \<lparr>rk_base = Some (if sev \<in> {High, Critical} then 60 else 45), rk_criticality = 1\<rparr>,
      ru_false_positives = fps, ru_remediation = SIGMA_REMEDIATION, ru_references = refs, ru_path = path, ru_sigma = True\<rparr>"

definition checked_rule :: "regex_engine \<Rightarrow> rule \<Rightarrow> exn + rule" where
  "checked_rule re_compile r =
     (if validate_rule re_compile r = [] then Inr r else Inl (load_error (join_with ''; '' (validate_rule re_compile r))))"

definition translate_sigma :: "regex_engine \<Rightarrow> string option \<Rightarrow> dict \<Rightarrow> exn + rule" where
  "translate_sigma re_compile path doc =
     (let title = py_text (dict_val doc ''title''); rid = sigma_rule_id (py_text (dict_val doc ''id'')) title
      in if title = [] then Inl (load_error ''regle Sigma sans title'')
         else case dict_val doc ''detection'' of
           PDict detection \<Rightarrow>
             let condition = py_text (dict_val detection ''condition'')
             in if condition = [] then Inl (load_error ''bloc detection sans condition'')
                else
                  (case traverse (\<lambda>(n, body). case sigma_selection_to_spec n body of Inl e \<Rightarrow> Inl e | Inr m \<Rightarrow> Inr (n, m))
                          (filter (\<lambda>(n, _). n \<noteq> ''condition'') detection) of
                     Inl e \<Rightarrow> Inl e
                   | Inr sels \<Rightarrow>
                  (case combine_sigma_condition condition sels of
                     Inl e \<Rightarrow> Inl e
                   | Inr m \<Rightarrow>
                  (case texts_of (dict_val doc ''tags'') of
                     Inl e \<Rightarrow> Inl e
                   | Inr tags \<Rightarrow>
                  (case texts_of (dict_val doc ''falsepositives'') of
                     Inl e \<Rightarrow> Inl e
                   | Inr fps \<Rightarrow>
                  (case texts_of (dict_val doc ''references'') of
                     Inl e \<Rightarrow> Inl e
                   | Inr refs \<Rightarrow>
                  (case new_rule (sigma_rule path rid title (py_str (if truthy (dict_val doc ''description'')
                            then dict_val doc ''description'' else PStr [])) (sigma_severity (dict_val doc ''level''))
                            m tags fps refs) of
                     Inl e \<Rightarrow> Inl e
                   | Inr r \<Rightarrow>
                       checked_rule re_compile
                         (r\<lparr>ru_tags := fold (\<lambda>t ts. if t \<in> set ts then ts else ts @ [t])
                              (map ((@) ''mitre:'') (attack_ids tags)) (ru_tags r)\<rparr>)))))))
         | _ \<Rightarrow> Inl (load_error ''bloc detection absent ou invalide''))"

subsection \<open>Files\<close>

definition build_rule :: "regex_engine \<Rightarrow> rule_schema \<Rightarrow> string option \<Rightarrow> dict \<Rightarrow> exn + rule" where
  "build_rule re_compile schema path doc =
     (case schema (filter (\<lambda>(k, _). k \<noteq> ''$schema'') doc) of
        Inl e \<Rightarrow> Inl (load_error e)
      | Inr r \<Rightarrow> checked_rule re_compile (r\<lparr>ru_path := path\<rparr>))"

definition document_rule :: "regex_engine \<Rightarrow> rule_schema \<Rightarrow> string option \<Rightarrow> pyval \<Rightarrow> exn + rule list" where
  "document_rule re_compile schema path doc =
     (case doc of
        PNone \<Rightarrow> Inr []
      | PDict d \<Rightarrow>
          (case (if map_of d ''detection'' \<noteq> None \<and> map_of d ''match'' = None
                 then translate_sigma re_compile path d else build_rule re_compile schema path d) of
             Inl e \<Rightarrow> Inl e
           | Inr r \<Rightarrow> Inr [r])
      | _ \<Rightarrow> Inl (load_error ''un document de regle doit etre un mapping YAML''))"

definition utf8_length :: "string \<Rightarrow> nat" where
  "utf8_length s = length s + length (filter (\<lambda>c. 128 \<le> code c) s)"

definition parse_rule_text :: "regex_engine \<Rightarrow> yaml_all \<Rightarrow> rule_schema \<Rightarrow> string option \<Rightarrow> string \<Rightarrow> exn + rule list" where
  "parse_rule_text re_compile yaml schema path txt =
     (if MAX_RULE_FILE_BYTES < utf8_length txt
        then Inl (load_error ''fichier de regle trop volumineux (> 1048576 octets)'')
      else case yaml txt of
        Inl e \<Rightarrow> Inl (load_error (''YAML invalide: '' @ e))
      | Inr docs \<Rightarrow> map_sum id concat (traverse (document_rule re_compile schema path) docs))"

definition load_rule_text :: "regex_engine \<Rightarrow> yaml_all \<Rightarrow> rule_schema \<Rightarrow> string option \<Rightarrow> string \<Rightarrow> exn + rule" where
  "load_rule_text re_compile yaml schema path txt =
     (case parse_rule_text re_compile yaml schema path txt of
        Inl e \<Rightarrow> Inl e
      | Inr [] \<Rightarrow> Inl (load_error ''aucune regle trouvee dans le document'')
      | Inr [r] \<Rightarrow> Inr r
      | Inr rs \<Rightarrow> Inl (load_error (int_str (int (length rs)) @ '' regles trouvees : envoyez un seul document'')))"

text \<open>
  The files of a directory in the order they are visited, with what reading each gives: the text, or
  the error of the operating system or of the decoder.
\<close>

record rule_file =
  rf_path :: string
  rf_name :: string
  rf_suffix :: string
  rf_text :: "string + string"

record rule_diagnostic =
  rd_path :: string
  rd_rule_id :: "string option"
  rd_error :: string

definition RULE_SUFFIXES :: "string list" where
  "RULE_SUFFIXES = [''.yaml'', ''.yml'', ''.json'']"

definition is_rule_file :: "rule_file \<Rightarrow> bool" where
  "is_rule_file f \<longleftrightarrow> str_lower (rf_suffix f) \<in> set RULE_SUFFIXES \<and> \<not> prefix ''.'' (rf_name f)"

type_synonym loaded = "rule list \<times> rule_diagnostic list \<times> (string \<times> string) list"

definition keep_rule :: "string \<Rightarrow> rule \<Rightarrow> loaded \<Rightarrow> loaded" where
  "keep_rule path r st =
     (case st of (rules, diags, seen) \<Rightarrow>
        case map_of seen (ru_id r) of
          Some where_ \<Rightarrow>
            (rules, diags @ [\<lparr>rd_path = path, rd_rule_id = Some (ru_id r),
               rd_error = ''identifiant de regle en double (deja defini dans '' @ where_ @ '')''\<rparr>], seen)
        | None \<Rightarrow> (rules @ [r], diags, AList.update (ru_id r) path seen))"

definition is_load_error :: "exn \<Rightarrow> bool" where
  "is_load_error e \<longleftrightarrow> (case e of Foreign c _ \<Rightarrow> c = ''RuleLoadError'' | _ \<Rightarrow> False)"

definition reject_file :: "string \<Rightarrow> string \<Rightarrow> loaded \<Rightarrow> loaded" where
  "reject_file path why st =
     (case st of (rules, diags, seen) \<Rightarrow>
        (rules, diags @ [\<lparr>rd_path = path, rd_rule_id = None, rd_error = why\<rparr>], seen))"

definition load_file :: "regex_engine \<Rightarrow> yaml_all \<Rightarrow> rule_schema \<Rightarrow> rule_file \<Rightarrow> loaded \<Rightarrow> exn + loaded" where
  "load_file re_compile yaml schema f st =
     (if \<not> is_rule_file f then Inr st
      else case rf_text f of
        Inl e \<Rightarrow> Inr (reject_file (rf_path f) e st)
      | Inr txt \<Rightarrow>
          (case parse_rule_text re_compile yaml schema (Some (rf_path f)) txt of
             Inr rs \<Rightarrow> Inr (fold (keep_rule (rf_path f)) rs st)
           | Inl e \<Rightarrow> if is_load_error e then Inr (reject_file (rf_path f) (exn_text e) st) else Inl e))"

fun load_files :: "regex_engine \<Rightarrow> yaml_all \<Rightarrow> rule_schema \<Rightarrow> rule_file list \<Rightarrow> loaded \<Rightarrow> exn + loaded" where
  "load_files re_compile yaml schema [] st = Inr st"
| "load_files re_compile yaml schema (f # fs) st =
     (case load_file re_compile yaml schema f st of
        Inl e \<Rightarrow> Inl e
      | Inr st' \<Rightarrow> load_files re_compile yaml schema fs st')"

definition load_rules_from_dir ::
    "regex_engine \<Rightarrow> yaml_all \<Rightarrow> rule_schema \<Rightarrow> string \<Rightarrow> rule_file list option \<Rightarrow> exn + rule list \<times> rule_diagnostic list" where
  "load_rules_from_dir re_compile yaml schema dir files =
     (case files of
        None \<Rightarrow> Inr ([], [\<lparr>rd_path = dir, rd_rule_id = None, rd_error = ''repertoire de regles inexistant''\<rparr>])
      | Some fs \<Rightarrow> map_sum id (\<lambda>(rules, diags, _). (rules, diags)) (load_files re_compile yaml schema fs ([], [], [])))"

end
