(* ===== verification/RuleLoaderProps.thy ===== *)
theory RuleLoaderProps
  imports RuleLoader
begin

section \<open>What the loader of rules guarantees\<close>

text \<open>
  The parser of Sigma conditions ends on every list of tokens, it reads the grammar of conditions, and
  what it produces means what the condition means as long as a negation bears on one condition.  A
  library of files keeps the rules of the good files whatever the bad ones hold.
\<close>

subsection \<open>Termination of the parser\<close>

definition shortens :: "(string list \<Rightarrow> parsed) \<Rightarrow> bool" where
  "shortens p \<longleftrightarrow> (\<forall>ts m ts'. p ts = Some (Inr (m, ts')) \<longrightarrow> length ts' < length ts)"

definition total_below :: "nat \<Rightarrow> (string list \<Rightarrow> parsed) \<Rightarrow> bool" where
  "total_below k p \<longleftrightarrow> (\<forall>ts. length ts < k \<longrightarrow> p ts \<noteq> None)"

lemma shortensD: "shortens p \<Longrightarrow> p ts = Some (Inr (m, ts')) \<Longrightarrow> length ts' < length ts"
  by (simp add: shortens_def)

lemma and_then_total: "p \<noteq> None \<Longrightarrow> (\<And>m ts. k m ts \<noteq> None) \<Longrightarrow> and_then p k \<noteq> None"
  by (auto simp: and_then_def split: option.split sum.split)

lemma and_then_Some:
  "and_then p k = Some (Inr r) \<longleftrightarrow> (\<exists>m ts. p = Some (Inr (m, ts)) \<and> k m ts = Some (Inr r))"
  by (auto simp: and_then_def split: option.split sum.split)

lemma and_then_None: "and_then p k = None \<longleftrightarrow> p = None \<or> (\<exists>m ts. p = Some (Inr (m, ts)) \<and> k m ts = None)"
  by (auto simp: and_then_def split: option.split sum.split)

lemma merged_Some: "merged r k = Some (Inr x) \<longleftrightarrow> (\<exists>m. r = Inr m \<and> k m = Some (Inr x))"
  by (auto simp: merged_def split: sum.split)

lemma merged_None: "merged r k = None \<longleftrightarrow> (\<exists>m. r = Inr m \<and> k m = None)"
  by (auto simp: merged_def split: sum.split)

lemma tl_shorter: "next_is t ts \<Longrightarrow> length (tl ts) < length ts"
  by (cases ts) (auto simp: next_is_def)

lemma and_loop_shortens:
  "shortens p \<Longrightarrow> parse_and_loop p n l ts = Some (Inr (m, ts')) \<Longrightarrow> length ts' \<le> length ts"
proof (induction n arbitrary: l ts)
  case (Suc n)
  show ?case
  proof (cases "next_is ''and'' ts")
    case True
    then obtain r ts1 l1 where "p (tl ts) = Some (Inr (r, ts1))" "parse_and_loop p n l1 ts1 = Some (Inr (m, ts'))"
      using Suc.prems by (auto simp: and_then_Some merged_Some)
    then have "length ts' \<le> length ts1" "length ts1 < length (tl ts)"
      using Suc.IH Suc.prems(1) shortensD by blast+
    then show ?thesis using tl_shorter [OF True] by simp
  qed (use Suc.prems in simp)
qed simp

lemma or_loop_shortens:
  "shortens p \<Longrightarrow> parse_or_loop p n l ts = Some (Inr (m, ts')) \<Longrightarrow> length ts' \<le> length ts"
proof (induction n arbitrary: l ts)
  case (Suc n)
  show ?case
  proof (cases "next_is ''or'' ts")
    case True
    then obtain r ts1 l1 where "p (tl ts) = Some (Inr (r, ts1))" "parse_or_loop p n l1 ts1 = Some (Inr (m, ts'))"
      using Suc.prems by (auto simp: and_then_Some merged_Some)
    then have "length ts' \<le> length ts1" "length ts1 < length (tl ts)"
      using Suc.IH Suc.prems(1) shortensD by blast+
    then show ?thesis using tl_shorter [OF True] by simp
  qed (use Suc.prems in simp)
qed simp

lemma parse_and_shortens: "shortens p \<Longrightarrow> shortens (parse_and p n)"
  unfolding shortens_def [of "parse_and p n"] parse_and_def
  by (auto simp: and_then_Some dest!: and_loop_shortens [rotated]) (force simp: shortens_def)

lemma parse_or_shortens: "shortens p \<Longrightarrow> shortens (parse_or p n)"
  unfolding shortens_def [of "parse_or p n"] parse_or_def
  by (auto simp: and_then_Some dest!: or_loop_shortens [OF parse_and_shortens, rotated])
     (use parse_and_shortens [of p n] in \<open>force simp: shortens_def\<close>)

lemma parse_selection_shortens: "parse_selection sels ts = Inr (m, ts') \<Longrightarrow> length ts' < length ts"
  by (auto simp: parse_selection_def parse_named_def with_rest_def neq_Nil_conv split: list.splits if_splits
      option.splits sum.splits)

lemma parse_unary_shortens: "shortens (parse_unary sels n)"
proof (induction n)
  case (Suc n)
  show ?case
    unfolding shortens_def
  proof (intro allI impI)
    fix ts m ts' assume p: "parse_unary sels (Suc n) ts = Some (Inr (m, ts'))"
    then have ts: "ts \<noteq> []" by auto
    then have tl: "length (tl ts) < length ts" by (simp add: length_greater_0_conv)
    show "length ts' < length ts"
    proof (cases "next_is ''not'' ts \<or> hd ts = ''(''")
      case False
      then show ?thesis using p ts by (auto intro: parse_selection_shortens)
    next
      case True
      then have "length ts' < length (tl ts)"
        using p ts Suc parse_or_shortens [OF Suc, of n]
        by (auto simp: and_then_Some closing_def shortens_def split: if_splits) force+
      then show ?thesis using tl by simp
    qed
  qed
qed (simp add: shortens_def)

lemma and_loop_total:
  "shortens p \<Longrightarrow> total_below k p \<Longrightarrow> length ts < n \<Longrightarrow> length ts \<le> k \<Longrightarrow> parse_and_loop p n l ts \<noteq> None"
proof (induction n arbitrary: l ts)
  case (Suc n)
  show ?case
  proof (cases "next_is ''and'' ts")
    case True
    have "length (tl ts) < k" using tl_shorter [OF True] Suc.prems by simp
    then have "p (tl ts) \<noteq> None" using Suc.prems(2) by (simp add: total_below_def)
    moreover have "parse_and_loop p n l' ts' \<noteq> None" if "p (tl ts) = Some (Inr (r, ts'))" for r ts' l'
    proof (rule Suc.IH [OF Suc.prems(1,2)])
      have "length ts' < length (tl ts)" by (rule shortensD [OF Suc.prems(1) that])
      then show "length ts' < n" "length ts' \<le> k" using tl_shorter [OF True] Suc.prems by simp_all
    qed
    ultimately show ?thesis using True by (auto simp: and_then_None merged_None)
  qed simp
qed simp

lemma or_loop_total:
  "shortens p \<Longrightarrow> total_below k p \<Longrightarrow> length ts < n \<Longrightarrow> length ts \<le> k \<Longrightarrow> parse_or_loop p n l ts \<noteq> None"
proof (induction n arbitrary: l ts)
  case (Suc n)
  show ?case
  proof (cases "next_is ''or'' ts")
    case True
    have "length (tl ts) < k" using tl_shorter [OF True] Suc.prems by simp
    then have "p (tl ts) \<noteq> None" using Suc.prems(2) by (simp add: total_below_def)
    moreover have "parse_or_loop p n l' ts' \<noteq> None" if "p (tl ts) = Some (Inr (r, ts'))" for r ts' l'
    proof (rule Suc.IH [OF Suc.prems(1,2)])
      have "length ts' < length (tl ts)" by (rule shortensD [OF Suc.prems(1) that])
      then show "length ts' < n" "length ts' \<le> k" using tl_shorter [OF True] Suc.prems by simp_all
    qed
    ultimately show ?thesis using True by (auto simp: and_then_None merged_None)
  qed simp
qed simp

lemma parse_and_total: "shortens p \<Longrightarrow> total_below k p \<Longrightarrow> total_below (min k (Suc n)) (parse_and p n)"
  unfolding total_below_def [of "min k (Suc n)"] parse_and_def and_then_None
proof (intro allI impI notI, elim disjE exE conjE)
  fix ts m ts' assume p: "shortens p" "total_below k p" "length ts < min k (Suc n)"
    and run: "p ts = Some (Inr (m, ts'))" "parse_and_loop p n m ts' = None"
  moreover have "length ts' < length ts" by (rule shortensD) fact+
  ultimately show False using and_loop_total [OF p(1,2), of ts' n m] by simp
qed (force simp: total_below_def)

lemma parse_or_total: "shortens p \<Longrightarrow> total_below k p \<Longrightarrow> length ts < k \<Longrightarrow> length ts \<le> n \<Longrightarrow> parse_or p n ts \<noteq> None"
proof
  assume p: "shortens p" "total_below k p" "length ts < k" "length ts \<le> n" and none: "parse_or p n ts = None"
  have sub: "shortens (parse_and p n)" "total_below (min k (Suc n)) (parse_and p n)"
    by (rule parse_and_shortens [OF p(1)], rule parse_and_total [OF p(1,2)])
  from none consider "parse_and p n ts = None"
    | m ts' where "parse_and p n ts = Some (Inr (m, ts'))" "parse_or_loop (parse_and p n) n m ts' = None"
    by (auto simp: parse_or_def and_then_None)
  then show False
  proof cases
    case 1
    then show False using sub(2) p by (auto simp: total_below_def)
  next
    case 2
    then have "length ts' < length ts" using sub(1) by (auto simp: shortens_def)
    then show False using 2 or_loop_total [OF sub, of ts' n m] p by simp
  qed
qed

lemma parse_unary_total: "total_below n (parse_unary sels n)"
proof (induction n)
  case (Suc n)
  show ?case
    unfolding total_below_def
  proof (intro allI impI)
    fix ts :: "string list" assume len: "length ts < Suc n"
    show "parse_unary sels (Suc n) ts \<noteq> None"
    proof (cases "ts = []")
      case False
      then have tl: "length (tl ts) < n" using len by (cases ts) auto
      then have "parse_unary sels n (tl ts) \<noteq> None" "parse_or (parse_unary sels n) n (tl ts) \<noteq> None"
        using Suc parse_or_total [OF parse_unary_shortens Suc tl] by (auto simp: total_below_def)
      then show ?thesis
        using False and_then_total [of "parse_unary sels n (tl ts)" "\<lambda>m ts. Some (Inr (negate_spec m, ts))"]
          and_then_total [of "parse_or (parse_unary sels n) n (tl ts)" closing]
        by (simp add: closing_def)
    qed simp
  qed
qed (simp add: total_below_def)

text \<open>C24: The parser of Sigma conditions ends on every expression: the fuel of one unit per token and
  one more never runs out, so every condition is either translated or refused with an error.\<close>

theorem parser_terminates: "parse_condition sels ts \<noteq> None"
proof -
  have "parse_or (parse_unary sels (length ts + 1)) (length ts + 1) ts \<noteq> None"
    by (rule parse_or_total [OF parse_unary_shortens parse_unary_total]) simp_all
  then show ?thesis
    by (auto simp: parse_condition_def split: option.splits sum.splits prod.splits list.splits)
qed

subsection \<open>Grammar and meaning of conditions\<close>

datatype sigma_expr =
    Named string
  | One_of string
  | All_of string
  | Neg sigma_expr
  | Conj sigma_expr sigma_expr
  | Disj sigma_expr sigma_expr

datatype level = Unary_level | And_level | Or_level

text \<open>\<open>derives lv e ts rest\<close>: the tokens \<open>ts\<close> start with the expression \<open>e\<close>, and \<open>rest\<close> follows it.\<close>

inductive derives :: "level \<Rightarrow> sigma_expr \<Rightarrow> string list \<Rightarrow> string list \<Rightarrow> bool" where
  negation: "str_lower t = ''not'' \<Longrightarrow> derives Unary_level e ts rest \<Longrightarrow> derives Unary_level (Neg e) (t # ts) rest"
| parenthesis: "derives Or_level e ts ('')'' # rest) \<Longrightarrow> derives Unary_level e (''('' # ts) rest"
| one_of: "str_lower q = ''1'' \<Longrightarrow> str_lower q' = ''of'' \<Longrightarrow> derives Unary_level (One_of p) (q # q' # p # rest) rest"
| all_of: "str_lower q = ''all'' \<Longrightarrow> str_lower q' = ''of'' \<Longrightarrow> derives Unary_level (All_of p) (q # q' # p # rest) rest"
| named: "str_lower t \<noteq> ''not'' \<Longrightarrow> t \<noteq> ''('' \<Longrightarrow> derives Unary_level (Named t) (t # rest) rest"
| unary: "derives Unary_level e ts rest \<Longrightarrow> derives And_level e ts rest"
| conjunction: "derives And_level e ts (t # ts') \<Longrightarrow> str_lower t = ''and'' \<Longrightarrow> derives Unary_level e' ts' rest \<Longrightarrow>
    derives And_level (Conj e e') ts rest"
| conjunct: "derives And_level e ts rest \<Longrightarrow> derives Or_level e ts rest"
| disjunction: "derives Or_level e ts (t # ts') \<Longrightarrow> str_lower t = ''or'' \<Longrightarrow> derives And_level e' ts' rest \<Longrightarrow>
    derives Or_level (Disj e e') ts rest"

primrec meaning :: "selections \<Rightarrow> (match_spec \<Rightarrow> bool) \<Rightarrow> sigma_expr \<Rightarrow> bool" where
  "meaning sels f (Named t) =
     (if str_lower t = ''them'' then list_ex f (map snd sels)
      else case map_of sels t of Some m \<Rightarrow> f m | None \<Rightarrow> list_ex f (match_pattern sels t))"
| "meaning sels f (One_of p) = list_ex f (match_pattern sels p)"
| "meaning sels f (All_of p) = list_all f (match_pattern sels p)"
| "meaning sels f (Neg e) = (\<not> meaning sels f e)"
| "meaning sels f (Conj a b) = (meaning sels f a \<and> meaning sels f b)"
| "meaning sels f (Disj a b) = (meaning sels f a \<or> meaning sels f b)"

text \<open>A negation that bears on a selection of a single condition.\<close>

primrec plain_negations :: "selections \<Rightarrow> sigma_expr \<Rightarrow> bool" where
  "plain_negations sels (Named t) = True"
| "plain_negations sels (One_of p) = True"
| "plain_negations sels (All_of p) = True"
| "plain_negations sels (Neg e) =
     (case e of
        Named t \<Rightarrow> str_lower t \<noteq> ''them'' \<and> (case map_of sels t of Some m \<Rightarrow> length (ms_all m) = 1 | None \<Rightarrow> False)
      | _ \<Rightarrow> False)"
| "plain_negations sels (Conj a b) = (plain_negations sels a \<and> plain_negations sels b)"
| "plain_negations sels (Disj a b) = (plain_negations sels a \<and> plain_negations sels b)"

text \<open>No negation at all, and no negation under another.\<close>

primrec positive :: "sigma_expr \<Rightarrow> bool" where
  "positive (Named t) = True"
| "positive (One_of p) = True"
| "positive (All_of p) = True"
| "positive (Neg e) = False"
| "positive (Conj a b) = (positive a \<and> positive b)"
| "positive (Disj a b) = (positive a \<and> positive b)"

primrec unnested :: "sigma_expr \<Rightarrow> bool" where
  "unnested (Named t) = True"
| "unnested (One_of p) = True"
| "unnested (All_of p) = True"
| "unnested (Neg e) = positive e"
| "unnested (Conj a b) = (unnested a \<and> unnested b)"
| "unnested (Disj a b) = (unnested a \<and> unnested b)"

lemma positive_plain: "positive e \<Longrightarrow> plain_negations sels e \<and> unnested e"
  by (induction e) simp_all

definition conjunctive :: "match_spec \<Rightarrow> bool" where
  "conjunctive m \<longleftrightarrow> ms_all m \<noteq> [] \<and> ms_any m = [] \<and> ms_not m = []"

definition selections_ok :: "selections \<Rightarrow> bool" where
  "selections_ok sels \<longleftrightarrow> list_all conjunctive (map snd sels)"

definition nontrivial :: "match_spec \<Rightarrow> bool" where
  "nontrivial m \<longleftrightarrow> ms_all m \<noteq> [] \<or> ms_any m \<noteq> [] \<or> ms_not m \<noteq> []"

lemma selection_spec_ok: "sigma_selection_to_spec n body = Inr m \<Longrightarrow> conjunctive m"
  by (auto simp: sigma_selection_to_spec_def conjunctive_def empty_spec_def split: pyval.splits sum.splits if_splits)

lemma merge_and_meaning:
  "merge_and l r = Inr m \<Longrightarrow>
   spec_matches re_compile m ctx = (spec_matches re_compile l ctx \<and> spec_matches re_compile r ctx) \<and>
   (nontrivial l \<or> nontrivial r \<longrightarrow> nontrivial m)"
  by (auto simp: merge_and_def spec_matches_def nontrivial_def split: if_splits)

lemma merge_or_meaning:
  "merge_or l r = Inr m \<Longrightarrow> nontrivial l \<Longrightarrow> nontrivial r \<Longrightarrow>
   spec_matches re_compile m ctx = (spec_matches re_compile l ctx \<or> spec_matches re_compile r ctx) \<and> nontrivial m"
  by (auto simp: merge_or_def too_complex_def spec_matches_def nontrivial_def empty_spec_def length_Suc_conv
      le_Suc_eq not_less split: if_splits)

lemma combine_all_meaning:
  "combine_from merge_and acc ms = Inr m \<Longrightarrow>
   spec_matches re_compile m ctx =
     (spec_matches re_compile acc ctx \<and> list_all (\<lambda>m. spec_matches re_compile m ctx) ms) \<and>
   (nontrivial acc \<or> list_ex nontrivial ms \<longrightarrow> nontrivial m)"
proof (induction ms arbitrary: acc)
  case (Cons a ms)
  then obtain acc' where acc': "merge_and acc a = Inr acc'" "combine_from merge_and acc' ms = Inr m"
    by (auto split: sum.splits)
  then show ?case using Cons.IH [OF acc'(2)] merge_and_meaning [OF acc'(1), of re_compile ctx] by auto
qed simp

lemma combine_all_keeps:
  "combine_from merge_and acc ms = Inr m \<Longrightarrow> ms_not acc = [] \<Longrightarrow> list_all conjunctive ms \<Longrightarrow> ms_not m = []"
  by (induction ms arbitrary: acc) (auto simp: merge_and_def conjunctive_def split: sum.splits if_splits)

text \<open>A disjunction of more than one selection is always refused: the first merge leaves an \<open>any\<close>.\<close>

lemma combine_or_cases:
  assumes "combine_many False ms = Inr m" and "list_all conjunctive ms" and "ms \<noteq> []"
  obtains a where "ms = [a]" "length (ms_all a) = 1" "m = empty_spec\<lparr>ms_any := ms_all a\<rparr>"
proof -
  obtain a ms' where ms: "ms = a # ms'" using assms(3) by (cases ms) auto
  from assms(1) obtain acc where acc: "merge_or empty_spec a = Inr acc" "combine_from merge_or acc ms' = Inr m"
    by (auto simp: combine_many_def ms split: sum.splits)
  then have one: "acc = empty_spec\<lparr>ms_any := ms_all a\<rparr>" "\<not> 1 < length (ms_all a)" and "ms_all a \<noteq> []"
    using assms(2) by (auto simp: merge_or_def too_complex_def empty_spec_def ms conjunctive_def split: if_splits)
  then have len: "length (ms_all a) = 1" by (simp add: not_less le_Suc_eq)
  have "ms' = []"
  proof (rule ccontr)
    assume "ms' \<noteq> []"
    then obtain b bs where "ms' = b # bs" by (cases ms') auto
    then show False using acc(2) one(1) \<open>ms_all a \<noteq> []\<close> by (simp add: merge_or_def too_complex_def)
  qed
  then show thesis using that [OF _ len] acc(2) one(1) ms by simp
qed

lemma combine_many_meaning:
  assumes "combine_many every ms = Inr m" and "list_all conjunctive ms" and "ms \<noteq> []"
  shows "spec_matches re_compile m ctx =
     (if every then list_all (\<lambda>m. spec_matches re_compile m ctx) ms else list_ex (\<lambda>m. spec_matches re_compile m ctx) ms) \<and>
   nontrivial m \<and> ms_not m = []"
proof (cases every)
  case True
  obtain a ms' where "ms = a # ms'" using assms(3) by (cases ms) auto
  then have "list_ex nontrivial ms" using assms(2) by (auto simp: conjunctive_def nontrivial_def)
  then show ?thesis
    using combine_all_meaning [of empty_spec ms m re_compile ctx] combine_all_keeps [of empty_spec ms m] assms(1,2) True
    by (auto simp: combine_many_def empty_spec_def spec_matches_def)
next
  case False
  from assms have "combine_many False ms = Inr m" using False by simp
  then obtain a where a: "ms = [a]" "length (ms_all a) = 1" "m = empty_spec\<lparr>ms_any := ms_all a\<rparr>"
    using combine_or_cases assms(2,3) by blast
  obtain c where "ms_all a = [c]" using a(2) by (auto simp: length_Suc_conv)
  then show ?thesis
    using a False assms(2) by (simp add: spec_matches_def empty_spec_def nontrivial_def conjunctive_def)
qed

subsection \<open>The parser reads the grammar and keeps the meaning\<close>

definition denotes :: "regex_engine \<Rightarrow> selections \<Rightarrow> match_spec \<Rightarrow> sigma_expr \<Rightarrow> bool" where
  "denotes re_compile sels m e \<longleftrightarrow>
     (plain_negations sels e \<longrightarrow> nontrivial m \<and>
        (\<forall>ctx. spec_matches re_compile m ctx = meaning sels (\<lambda>m. spec_matches re_compile m ctx) e)) \<and>
     (unnested e \<longrightarrow> nontrivial m \<and>
        (\<forall>ctx. spec_matches re_compile m ctx \<longrightarrow> meaning sels (\<lambda>m. spec_matches re_compile m ctx) e)) \<and>
     (positive e \<longrightarrow> ms_not m = []) \<and>
     (\<forall>t s. e = Named t \<longrightarrow> str_lower t \<noteq> ''them'' \<longrightarrow> map_of sels t = Some s \<longrightarrow> m = s)"

definition reads :: "regex_engine \<Rightarrow> selections \<Rightarrow> level \<Rightarrow> (string list \<Rightarrow> parsed) \<Rightarrow> bool" where
  "reads re_compile sels lv p \<longleftrightarrow>
     (\<forall>ts m rest. p ts = Some (Inr (m, rest)) \<longrightarrow> (\<exists>e. derives lv e ts rest \<and> denotes re_compile sels m e))"

lemma next_isD: "next_is t ts \<Longrightarrow> \<exists>u. ts = u # tl ts \<and> str_lower u = t"
  by (cases ts) (auto simp: next_is_def)

lemma readsD:
  "reads re_compile sels lv p \<Longrightarrow> p ts = Some (Inr (m, rest)) \<Longrightarrow> \<exists>e. derives lv e ts rest \<and> denotes re_compile sels m e"
  by (simp add: reads_def)

lemma denotes_and: "merge_and l r = Inr m \<Longrightarrow> denotes re_compile sels l a \<Longrightarrow> denotes re_compile sels r b \<Longrightarrow> denotes re_compile sels m (Conj a b)"
  using merge_and_meaning [of l r m re_compile] by (auto simp: denotes_def merge_and_def split: if_splits)

lemma denotes_or: "merge_or l r = Inr m \<Longrightarrow> denotes re_compile sels l a \<Longrightarrow> denotes re_compile sels r b \<Longrightarrow> denotes re_compile sels m (Disj a b)"
  using merge_or_meaning [of l r m re_compile] by (auto simp: denotes_def merge_or_def empty_spec_def split: if_splits)

lemma and_loop_reads:
  assumes "reads re_compile sels Unary_level p"
  shows "parse_and_loop p n l ts = Some (Inr (m, rest)) \<Longrightarrow> derives And_level a ts0 ts \<Longrightarrow> denotes re_compile sels l a \<Longrightarrow>
    \<exists>e. derives And_level e ts0 rest \<and> denotes re_compile sels m e"
proof (induction n arbitrary: l ts a)
  case (Suc n)
  show ?case
  proof (cases "next_is ''and'' ts")
    case True
    then obtain u where u: "ts = u # tl ts" "str_lower u = ''and''" using next_isD by blast
    obtain r ts1 l1 where run: "p (tl ts) = Some (Inr (r, ts1))" "merge_and l r = Inr l1"
      "parse_and_loop p n l1 ts1 = Some (Inr (m, rest))"
      using Suc.prems(1) True by (auto simp: and_then_Some merged_Some)
    obtain b where b: "derives Unary_level b (tl ts) ts1" "denotes re_compile sels r b"
      using readsD [OF assms run(1)] by blast
    have "derives And_level (Conj a b) ts0 ts1"
      by (rule derives.conjunction [OF _ u(2) b(1)]) (use Suc.prems(2) u(1) in simp)
    then show ?thesis by (rule Suc.IH [OF run(3) _ denotes_and [OF run(2) Suc.prems(3) b(2)]])
  qed (use Suc.prems in auto)
qed simp

lemma or_loop_reads:
  assumes "reads re_compile sels And_level p"
  shows "parse_or_loop p n l ts = Some (Inr (m, rest)) \<Longrightarrow> derives Or_level a ts0 ts \<Longrightarrow> denotes re_compile sels l a \<Longrightarrow>
    \<exists>e. derives Or_level e ts0 rest \<and> denotes re_compile sels m e"
proof (induction n arbitrary: l ts a)
  case (Suc n)
  show ?case
  proof (cases "next_is ''or'' ts")
    case True
    then obtain u where u: "ts = u # tl ts" "str_lower u = ''or''" using next_isD by blast
    obtain r ts1 l1 where run: "p (tl ts) = Some (Inr (r, ts1))" "merge_or l r = Inr l1"
      "parse_or_loop p n l1 ts1 = Some (Inr (m, rest))"
      using Suc.prems(1) True by (auto simp: and_then_Some merged_Some)
    obtain b where b: "derives And_level b (tl ts) ts1" "denotes re_compile sels r b"
      using readsD [OF assms run(1)] by blast
    have "derives Or_level (Disj a b) ts0 ts1"
      by (rule derives.disjunction [OF _ u(2) b(1)]) (use Suc.prems(2) u(1) in simp)
    then show ?thesis by (rule Suc.IH [OF run(3) _ denotes_or [OF run(2) Suc.prems(3) b(2)]])
  qed (use Suc.prems in auto)
qed simp

lemma parse_and_reads:
  assumes "reads re_compile sels Unary_level p" shows "reads re_compile sels And_level (parse_and p n)"
  unfolding reads_def parse_and_def and_then_Some
proof (intro allI impI, elim exE conjE)
  fix ts m rest l ts1 assume run: "p ts = Some (Inr (l, ts1))" "parse_and_loop p n l ts1 = Some (Inr (m, rest))"
  obtain a where "derives Unary_level a ts ts1" "denotes re_compile sels l a" using readsD [OF assms run(1)] by blast
  then show "\<exists>e. derives And_level e ts rest \<and> denotes re_compile sels m e"
    by (rule and_loop_reads [OF assms run(2) derives.unary])
qed

lemma parse_or_reads:
  assumes "reads re_compile sels Unary_level p" shows "reads re_compile sels Or_level (parse_or p n)"
  unfolding reads_def parse_or_def and_then_Some
proof (intro allI impI, elim exE conjE)
  fix ts m rest l ts1 assume run: "parse_and p n ts = Some (Inr (l, ts1))"
    "parse_or_loop (parse_and p n) n l ts1 = Some (Inr (m, rest))"
  have sub: "reads re_compile sels And_level (parse_and p n)" by (rule parse_and_reads [OF assms])
  obtain a where "derives And_level a ts ts1" "denotes re_compile sels l a" using readsD [OF sub run(1)] by blast
  then show "\<exists>e. derives Or_level e ts rest \<and> denotes re_compile sels m e"
    by (rule or_loop_reads [OF sub run(2) derives.conjunct])
qed

lemma selection_ok: "selections_ok sels \<Longrightarrow> map_of sels t = Some m \<Longrightarrow> conjunctive m"
  by (drule map_of_SomeD) (auto simp: selections_ok_def list_all_iff)

lemma match_pattern_ok: "selections_ok sels \<Longrightarrow> list_all conjunctive (match_pattern sels p)"
proof (cases "suffix ''*'' p")
  case True
  assume "selections_ok sels"
  then show ?thesis using True by (auto simp: selections_ok_def match_pattern_def list_all_iff)
next
  case False
  assume "selections_ok sels"
  then have "conjunctive m" if "map_of sels p = Some m" for m using that by (rule selection_ok)
  then show ?thesis using False by (simp add: match_pattern_def split: option.split)
qed

lemma parse_named_cases:
  assumes "parse_named sels t ts = Inr (m, rest)"
  obtains "str_lower t = ''them''" "sels \<noteq> []" "combine_many False (map snd sels) = Inr m" "rest = ts"
  | "str_lower t \<noteq> ''them''" "map_of sels t = Some m" "rest = ts"
  | "str_lower t \<noteq> ''them''" "map_of sels t = None" "match_pattern sels t \<noteq> []"
    "combine_many False (match_pattern sels t) = Inr m" "rest = ts"
proof (cases "str_lower t = ''them''")
  case True
  then show thesis
    using assms that(1) by (auto simp: parse_named_def with_rest_def split: if_splits sum.splits)
next
  case named: False
  show thesis
  proof (cases "map_of sels t")
    case None
    then show thesis
      using assms that(3) named by (auto simp: parse_named_def with_rest_def split: list.splits sum.splits)
  next
    case (Some m')
    then show thesis using assms that(2) named by (simp add: parse_named_def)
  qed
qed

lemma parse_named_reads:
  assumes "selections_ok sels" and "parse_named sels t ts = Inr (m, rest)"
  shows "rest = ts \<and> denotes re_compile sels m (Named t)"
  using assms(2)
proof (cases rule: parse_named_cases)
  case 1
  then show ?thesis
    using combine_many_meaning [of False "map snd sels" m re_compile] assms(1)
    by (auto simp: denotes_def selections_ok_def)
next
  case 2
  then show ?thesis
    using selection_ok [OF assms(1) 2(2)] by (auto simp: denotes_def nontrivial_def conjunctive_def)
next
  case 3
  then show ?thesis
    using combine_many_meaning [OF 3(4) match_pattern_ok [OF assms(1)] 3(3), of re_compile] by (auto simp: denotes_def)
qed

lemma parse_selection_reads:
  assumes "selections_ok sels" and "parse_selection sels ts = Inr (m, rest)"
    and "\<not> next_is ''not'' ts" "hd ts \<noteq> ''(''"
  shows "\<exists>e. derives Unary_level e ts rest \<and> denotes re_compile sels m e"
proof -
  obtain t ts' where ts: "ts = t # ts'" using assms(2) by (cases ts) (auto simp: parse_selection_def)
  show ?thesis
  proof (cases "str_lower t \<in> {''1'', ''all''} \<and> ts' \<noteq> [] \<and> str_lower (hd ts') = ''of''")
    case False
    then have "parse_named sels t ts' = Inr (m, rest)" using assms(2) by (auto simp: parse_selection_def ts)
    from parse_named_reads [OF assms(1) this] have "rest = ts'" "denotes re_compile sels m (Named t)" by blast+
    moreover have "derives Unary_level (Named t) (t # ts') ts'"
      by (rule derives.named) (use assms(3,4) ts in \<open>simp_all add: next_is_def\<close>)
    ultimately show ?thesis using ts by blast
  next
    case True
    then obtain q ts'' where q: "ts' = q # ts''" "str_lower q = ''of''" by (cases ts') auto
    obtain p where p: "ts'' = p # rest" and run: "combine_many (str_lower t = ''all'') (match_pattern sels p) = Inr m"
      and ne: "match_pattern sels p \<noteq> []"
      using assms(2) True q by (auto simp: parse_selection_def ts with_rest_def split: list.splits sum.splits)
    have meaning: "nontrivial m \<and> ms_not m = [] \<and> (\<forall>ctx. spec_matches re_compile m ctx =
        (if str_lower t = ''all'' then list_all (\<lambda>m. spec_matches re_compile m ctx) (match_pattern sels p)
         else list_ex (\<lambda>m. spec_matches re_compile m ctx) (match_pattern sels p)))"
      using combine_many_meaning [OF run match_pattern_ok [OF assms(1)] ne] by blast
    show ?thesis
    proof (cases "str_lower t = ''all''")
      case True
      then show ?thesis
        using derives.all_of [OF True q(2), of p rest] meaning by (auto simp: ts q(1) p denotes_def)
    next
      case False
      then have one: "str_lower t = ''1''"
        using \<open>str_lower t \<in> {''1'', ''all''} \<and> ts' \<noteq> [] \<and> str_lower (hd ts') = ''of''\<close> by simp
      show ?thesis
        using derives.one_of [OF one q(2), of p rest] meaning False by (auto simp: ts q(1) p denotes_def)
    qed
  qed
qed

text \<open>A negation under no other is translated into a condition at least as strong.\<close>

lemma negation_stronger:
  assumes "denotes re_compile sels m e" and "positive e"
  shows "nontrivial (negate_spec m)"
    and "spec_matches re_compile (negate_spec m) ctx \<Longrightarrow> \<not> meaning sels (\<lambda>s. spec_matches re_compile s ctx) e"
proof -
  have m: "nontrivial m" "ms_not m = []"
      "spec_matches re_compile m ctx = meaning sels (\<lambda>s. spec_matches re_compile s ctx) e"
    using assms positive_plain [OF assms(2), of sels] by (simp_all add: denotes_def)
  then show "nontrivial (negate_spec m)" by (auto simp: nontrivial_def negate_spec_def empty_spec_def)
  show "\<not> meaning sels (\<lambda>s. spec_matches re_compile s ctx) e" if "spec_matches re_compile (negate_spec m) ctx"
    using that m by (cases "ms_all m"; cases "ms_any m") (auto simp: spec_matches_def negate_spec_def empty_spec_def nontrivial_def list_all_iff list_ex_iff)
qed

lemma denotes_negation:
  assumes "selections_ok sels" and "denotes re_compile sels m e"
  shows "denotes re_compile sels (negate_spec m) (Neg e)"
proof (cases "plain_negations sels (Neg e)")
  case True
  then obtain t s where e: "e = Named t" "str_lower t \<noteq> ''them''" "map_of sels t = Some s" "length (ms_all s) = 1"
    by (cases e) (auto split: option.splits)
  then have m: "m = s" using assms(2) by (simp add: denotes_def)
  obtain c where "ms_all s = [c]" using e(4) by (auto simp: length_Suc_conv)
  then show ?thesis
    using e selection_ok [OF assms(1) e(3)]
    by (simp add: denotes_def m negate_spec_def empty_spec_def spec_matches_def nontrivial_def conjunctive_def)
next
  case False
  then show ?thesis using negation_stronger [OF assms(2)] by (simp add: denotes_def)
qed

lemma parse_unary_reads: "selections_ok sels \<Longrightarrow> reads re_compile sels Unary_level (parse_unary sels n)"
proof (induction n)
  case (Suc n)
  show ?case
    unfolding reads_def
  proof (intro allI impI)
    fix ts m rest assume p: "parse_unary sels (Suc n) ts = Some (Inr (m, rest))"
    then have ts: "ts = hd ts # tl ts" by (cases ts) auto
    consider "next_is ''not'' ts" | "\<not> next_is ''not'' ts" "hd ts = ''(''" | "\<not> next_is ''not'' ts" "hd ts \<noteq> ''(''"
      by blast
    then show "\<exists>e. derives Unary_level e ts rest \<and> denotes re_compile sels m e"
    proof cases
      case 1
      then obtain m' where m': "parse_unary sels n (tl ts) = Some (Inr (m', rest))" "m = negate_spec m'"
        using p by (auto simp: and_then_Some split: if_splits)
      from m'(1) obtain e where e: "derives Unary_level e (tl ts) rest" "denotes re_compile sels m' e"
        using readsD [OF Suc.IH [OF Suc.prems]] by blast
      have "derives Unary_level (Neg e) (hd ts # tl ts) rest"
        by (rule derives.negation [OF _ e(1)]) (use 1 in \<open>simp add: next_is_def\<close>)
      then show ?thesis using denotes_negation [OF Suc.prems e(2)] ts m'(2) by auto
    next
      case 2
      then obtain ts' where "parse_or (parse_unary sels n) n (tl ts) = Some (Inr (m, '')'' # rest))"
        using p by (auto simp: and_then_Some closing_def neq_Nil_conv split: if_splits)
      then obtain e where e: "derives Or_level e (tl ts) ('')'' # rest)" "denotes re_compile sels m e"
        using readsD [OF parse_or_reads [OF Suc.IH [OF Suc.prems]]] by blast
      then show ?thesis using derives.parenthesis [OF e(1)] ts 2(2) by metis
    next
      case 3
      then have "parse_selection sels ts = Inr (m, rest)" using p by (auto split: if_splits)
      then show ?thesis by (rule parse_selection_reads [OF Suc.prems _ 3])
    qed
  qed
qed (simp add: reads_def)

text \<open>C23: A Sigma condition that is translated keeps its meaning, within what its negations allow.  The tokens form an
  expression of the grammar of conditions.  When every negation bears on a named selection of a single condition, the
  translated specification holds of an event exactly when the expression does; when no negation is under another, whatever
  the selections, the expression holds of every event the specification holds of.  Neither holds of every accepted
  condition: \<open>negation_not_faithful\<close> and \<open>double_negation_inverted\<close> are the counterexamples.\<close>

theorem translation_faithful:
  assumes "selections_ok sels" and "parse_condition sels ts = Some (Inr m)"
  shows "\<exists>e. derives Or_level e ts [] \<and>
    (plain_negations sels e \<longrightarrow>
      (\<forall>ctx. spec_matches re_compile m ctx = meaning sels (\<lambda>s. spec_matches re_compile s ctx) e)) \<and>
    (unnested e \<longrightarrow>
      (\<forall>ctx. spec_matches re_compile m ctx \<longrightarrow> meaning sels (\<lambda>s. spec_matches re_compile s ctx) e))"
proof -
  have "parse_or (parse_unary sels (length ts + 1)) (length ts + 1) ts = Some (Inr (m, []))"
    using assms(2) by (auto simp: parse_condition_def split: option.splits sum.splits list.splits)
  then obtain e where "derives Or_level e ts []" "denotes re_compile sels m e"
    using readsD [OF parse_or_reads [OF parse_unary_reads [OF assms(1)]]] by blast
  then show ?thesis unfolding denotes_def by blast
qed

definition sample_condition :: "string \<Rightarrow> condition" where
  "sample_condition f = \<lparr>c_field = f, c_op = Op_exists, c_value = PNone, c_case_sensitive = False, c_negate = False\<rparr>"

definition sample_selections :: selections where
  "sample_selections = [(''sel'', empty_spec\<lparr>ms_all := [sample_condition ''labels.a'', sample_condition ''labels.b'']\<rparr>),
     (''flt'', empty_spec\<lparr>ms_all := [sample_condition ''labels.c'']\<rparr>)]"

theorem translation_faithful_witness:
  "\<exists>e. derives Or_level e [''sel'', ''and'', ''not'', ''flt''] [] \<and>
    (plain_negations sample_selections e \<longrightarrow>
      (\<forall>ctx. spec_matches (\<lambda>_ _. Inl [])
          \<lparr>ms_all = [sample_condition ''labels.a'', sample_condition ''labels.b''], ms_any = [],
           ms_not = [sample_condition ''labels.c''], ms_threshold = None\<rparr> ctx =
        meaning sample_selections (\<lambda>s. spec_matches (\<lambda>_ _. Inl []) s ctx) e)) \<and>
    (unnested e \<longrightarrow>
      (\<forall>ctx. spec_matches (\<lambda>_ _. Inl [])
          \<lparr>ms_all = [sample_condition ''labels.a'', sample_condition ''labels.b''], ms_any = [],
           ms_not = [sample_condition ''labels.c''], ms_threshold = None\<rparr> ctx \<longrightarrow>
        meaning sample_selections (\<lambda>s. spec_matches (\<lambda>_ _. Inl []) s ctx) e))"
proof (rule translation_faithful)
  show "selections_ok sample_selections"
    by (simp add: selections_ok_def sample_selections_def conjunctive_def empty_spec_def)
  show "parse_condition sample_selections [''sel'', ''and'', ''not'', ''flt''] =
      Some (Inr \<lparr>ms_all = [sample_condition ''labels.a'', sample_condition ''labels.b''], ms_any = [],
        ms_not = [sample_condition ''labels.c''], ms_threshold = None\<rparr>)"
    by code_simp
qed

text \<open>
  The condition on negations is needed: the negation of a selection of two conditions is translated
  into the absence of both, so an event that meets one of them escapes the rule although the Sigma
  condition holds of it.
\<close>

theorem negation_not_faithful:
  "\<exists>m. parse_condition sample_selections [''not'', ''sel''] = Some (Inr m) \<and>
     (let ctx = PDict [(''labels'', PDict [(''a'', PInt 1)])]
      in \<not> spec_matches re_compile m ctx \<and>
         meaning sample_selections (\<lambda>s. spec_matches re_compile s ctx) (Neg (Named ''sel'')))"
proof -
  have "parse_condition sample_selections [''not'', ''sel''] =
      Some (Inr (empty_spec\<lparr>ms_not := [sample_condition ''labels.a'', sample_condition ''labels.b'']\<rparr>))"
    by code_simp
  moreover have "deep_get (PDict [(''labels'', PDict [(''a'', PInt 1)])]) ''labels.a'' = PInt 1"
    "deep_get (PDict [(''labels'', PDict [(''a'', PInt 1)])]) ''labels.b'' = PNone" by code_simp+
  ultimately show ?thesis
    by (simp add: Let_def spec_matches_def sample_selections_def empty_spec_def evaluate_condition_def evaluate_def
        sample_condition_def str_lower_def lower_char_def is_upper_def code_def)
qed

text \<open>The negation of a negation is translated into the negation itself, so the rule says the contrary of its condition.\<close>

theorem double_negation_inverted:
  "\<exists>m. parse_condition sample_selections [''not'', ''not'', ''flt''] = Some (Inr m) \<and>
     (\<forall>ctx. spec_matches re_compile m ctx =
       (\<not> meaning sample_selections (\<lambda>s. spec_matches re_compile s ctx) (Neg (Neg (Named ''flt'')))))"
proof -
  have "parse_condition sample_selections [''not'', ''not'', ''flt''] =
      Some (Inr (empty_spec\<lparr>ms_not := [sample_condition ''labels.c'']\<rparr>))"
    by code_simp
  then show ?thesis
    by (simp add: spec_matches_def sample_selections_def empty_spec_def str_lower_def lower_char_def is_upper_def code_def)
qed

text \<open>
  \<open>1 of X*\<close> and \<open>them\<close> are announced as supported, yet the disjunction of two selections or more is
  refused whatever they are: merging the first leaves a specification the second cannot be merged with.
\<close>

theorem disjunction_of_many_refused:
  assumes "list_all conjunctive (a # b # ms)"
  shows "\<exists>e. combine_many False (a # b # ms) = Inl e"
proof (cases "combine_many False (a # b # ms)")
  case (Inr m)
  then show ?thesis using combine_or_cases [OF Inr assms] by auto
qed simp

subsection \<open>The library of files\<close>

definition loaded_core :: "loaded \<Rightarrow> rule list \<times> (string \<times> string) list" where
  "loaded_core st = (case st of (rules, diags, seen) \<Rightarrow> (rules, seen))"

lemma keep_rule_core:
  "loaded_core st = loaded_core st' \<Longrightarrow> loaded_core (keep_rule p r st) = loaded_core (keep_rule p r st')"
  by (auto simp: loaded_core_def keep_rule_def split: prod.splits option.splits)

lemma keep_rules_core:
  "loaded_core st = loaded_core st' \<Longrightarrow> loaded_core (fold (keep_rule p) rs st) = loaded_core (fold (keep_rule p) rs st')"
proof (induction rs arbitrary: st st')
  case (Cons r rs)
  show ?case using Cons.IH [OF keep_rule_core [OF Cons.prems]] by simp
qed simp

lemma reject_core: "loaded_core (reject_file p w st) = loaded_core st"
  by (simp add: loaded_core_def reject_file_def split: prod.split)

lemma load_file_core:
  "loaded_core st = loaded_core st' \<Longrightarrow>
   map_sum id loaded_core (load_file re_compile yaml schema f st) = map_sum id loaded_core (load_file re_compile yaml schema f st')"
  by (auto simp: load_file_def reject_core split: sum.split dest: keep_rules_core)

lemma load_files_core:
  "loaded_core st = loaded_core st' \<Longrightarrow>
   map_sum id loaded_core (load_files re_compile yaml schema fs st) = map_sum id loaded_core (load_files re_compile yaml schema fs st')"
proof (induction fs arbitrary: st st')
  case (Cons f fs)
  note same = load_file_core [OF Cons.prems, of re_compile yaml schema f]
  show ?case
  proof (cases "load_file re_compile yaml schema f st")
    case (Inl e)
    with same have "load_file re_compile yaml schema f st' = Inl e"
      by (cases "load_file re_compile yaml schema f st'") simp_all
    with Inl show ?thesis by simp
  next
    case (Inr st1)
    with same obtain st2 where st2: "load_file re_compile yaml schema f st' = Inr st2" "loaded_core st1 = loaded_core st2"
      by (cases "load_file re_compile yaml schema f st'") simp_all
    show ?thesis using Cons.IH [OF st2(2)] Inr st2(1) by simp
  qed
qed simp

lemma load_files_append:
  "load_files re_compile yaml schema (fs @ gs) st =
     (case load_files re_compile yaml schema fs st of Inl e \<Rightarrow> Inl e | Inr st' \<Rightarrow> load_files re_compile yaml schema gs st')"
  by (induction fs arbitrary: st) (simp_all split: sum.split)

definition bad_file :: "regex_engine \<Rightarrow> yaml_all \<Rightarrow> rule_schema \<Rightarrow> rule_file \<Rightarrow> bool" where
  "bad_file re_compile yaml schema f \<longleftrightarrow>
     (case rf_text f of
        Inl e \<Rightarrow> True
      | Inr txt \<Rightarrow>
          (case parse_rule_text re_compile yaml schema (Some (rf_path f)) txt of Inl e \<Rightarrow> is_load_error e | Inr _ \<Rightarrow> False))"

text \<open>C25: A bad file never spoils the library: when a file cannot be read or is rejected with a loading
  error, the library holds exactly the rules it would hold without that file.\<close>

theorem bad_file_isolated:
  assumes "bad_file re_compile yaml schema f"
  shows "map_sum id fst (load_rules_from_dir re_compile yaml schema dir (Some (fs @ f # gs))) =
    map_sum id fst (load_rules_from_dir re_compile yaml schema dir (Some (fs @ gs)))"
proof -
  have rules: "map_sum id fst (load_rules_from_dir re_compile yaml schema dir (Some hs)) =
      map_sum id fst (map_sum id loaded_core (load_files re_compile yaml schema hs ([], [], [])))" for hs
    by (cases "load_files re_compile yaml schema hs ([], [], [])")
       (auto simp: load_rules_from_dir_def loaded_core_def split: prod.split)
  have "\<exists>why. \<forall>st. load_file re_compile yaml schema f st =
      Inr (if is_rule_file f then reject_file (rf_path f) why st else st)"
  proof (cases "rf_text f")
    case (Inl e)
    then show ?thesis by (intro exI [of _ e]) (simp add: load_file_def)
  next
    case (Inr body)
    then obtain e where "\<not> is_rule_file f \<or>
        parse_rule_text re_compile yaml schema (Some (rf_path f)) body = Inl e \<and> is_load_error e"
      using assms by (auto simp: bad_file_def split: sum.splits)
    with Inr show ?thesis by (intro exI [of _ "exn_text e"]) (auto simp: load_file_def)
  qed
  then obtain why where skip:
    "\<And>st. load_file re_compile yaml schema f st = Inr (if is_rule_file f then reject_file (rf_path f) why st else st)"
    by blast
  have "map_sum id loaded_core (load_files re_compile yaml schema (f # gs) st) =
      map_sum id loaded_core (load_files re_compile yaml schema gs st)" for st
    using load_files_core [of "if is_rule_file f then reject_file (rf_path f) why st else st" st re_compile yaml schema gs]
    by (simp add: skip reject_core)
  then show ?thesis unfolding rules load_files_append by (auto split: sum.split)
qed


theorem bad_file_isolated_witness:
  "bad_file (\<lambda>_ _. Inl []) (\<lambda>_. Inl ''tab'') (\<lambda>_. Inl [])
      \<lparr>rf_path = ''/r/b.yml'', rf_name = ''b.yml'', rf_suffix = ''.yml'', rf_text = Inr ''id: x''\<rparr> \<and>
   map_sum id fst (load_rules_from_dir (\<lambda>_ _. Inl []) (\<lambda>_. Inl ''tab'') (\<lambda>_. Inl []) ''/r''
      (Some ([] @ \<lparr>rf_path = ''/r/b.yml'', rf_name = ''b.yml'', rf_suffix = ''.yml'', rf_text = Inr ''id: x''\<rparr> # []))) =
   map_sum id fst (load_rules_from_dir (\<lambda>_ _. Inl []) (\<lambda>_. Inl ''tab'') (\<lambda>_. Inl []) ''/r'' (Some ([] @ [])))"
proof -
  have bad: "bad_file (\<lambda>_ _. Inl []) (\<lambda>_. Inl ''tab'') (\<lambda>_. Inl [])
      \<lparr>rf_path = ''/r/b.yml'', rf_name = ''b.yml'', rf_suffix = ''.yml'', rf_text = Inr ''id: x''\<rparr>"
    by (simp add: bad_file_def parse_rule_text_def MAX_RULE_FILE_BYTES_def utf8_length_def load_error_def is_load_error_def)
  then show ?thesis using bad_file_isolated [OF bad] by blast
qed

subsection \<open>What the library holds\<close>

text \<open>
  The loader keeps, beside the rules, the identifiers it has seen; the invariant ties the two and says
  that every rule kept passed the static control.
\<close>

definition library_inv :: "regex_engine \<Rightarrow> loaded \<Rightarrow> bool" where
  "library_inv re_compile st \<longleftrightarrow>
     (case st of (rules, _, seen) \<Rightarrow>
        distinct (map ru_id rules) \<and> set (map ru_id rules) = fst ` set seen \<and>
        (\<forall>r \<in> set rules. validate_rule re_compile r = []))"

lemma keep_rule_inv:
  assumes "library_inv re_compile st" "validate_rule re_compile r = []"
  shows "library_inv re_compile (keep_rule path r st)"
proof -
  obtain rules diags seen where st: "st = (rules, diags, seen)" by (cases st)
  have "ru_id r \<notin> ru_id ` set rules" if "map_of seen (ru_id r) = None"
    using assms(1) that by (auto simp: st library_inv_def map_of_eq_None_iff)
  moreover have "fst ` set (AList.update (ru_id r) path seen) = insert (ru_id r) (fst ` set seen)"
    using dom_update [of "ru_id r" path seen] by simp
  ultimately show ?thesis
    using assms by (auto simp: st library_inv_def keep_rule_def split: option.splits)
qed

lemma keep_rules_inv:
  "library_inv re_compile st \<Longrightarrow> \<forall>r \<in> set rs. validate_rule re_compile r = [] \<Longrightarrow>
   library_inv re_compile (fold (keep_rule path) rs st)"
  by (induction rs arbitrary: st) (simp_all add: keep_rule_inv)

lemma reject_file_inv: "library_inv re_compile st \<Longrightarrow> library_inv re_compile (reject_file path why st)"
  by (cases st) (simp add: library_inv_def reject_file_def)

lemma checked_rule_ok: "checked_rule re_compile r = Inr r' \<Longrightarrow> validate_rule re_compile r' = []"
  by (auto simp: checked_rule_def split: if_splits)

lemma translate_sigma_ok:
  "translate_sigma re_compile path doc = Inr r \<Longrightarrow> validate_rule re_compile r = []"
  by (auto simp: translate_sigma_def Let_def dest: checked_rule_ok
      split: if_splits pyval.splits sum.splits)

lemma build_rule_ok: "build_rule re_compile schema path doc = Inr r \<Longrightarrow> validate_rule re_compile r = []"
  by (auto simp: build_rule_def dest: checked_rule_ok split: sum.splits)

lemma document_rule_ok:
  "document_rule re_compile schema path doc = Inr rs \<Longrightarrow> r \<in> set rs \<Longrightarrow> validate_rule re_compile r = []"
  by (auto simp: document_rule_def dest: translate_sigma_ok build_rule_ok split: if_splits pyval.splits sum.splits)

lemma traverse_members:
  "traverse f xs = Inr yss \<Longrightarrow> ys \<in> set yss \<Longrightarrow> \<exists>x \<in> set xs. f x = Inr ys"
  by (induction xs arbitrary: yss) (auto split: sum.splits)

lemma parse_rule_text_ok:
  assumes "parse_rule_text re_compile yaml schema path body = Inr rs"
  shows "\<forall>r \<in> set rs. validate_rule re_compile r = []"
proof -
  from assms obtain docs where "map_sum id concat (traverse (document_rule re_compile schema path) docs) = Inr rs"
    by (auto simp: parse_rule_text_def split: if_splits sum.splits)
  then obtain rss where "traverse (document_rule re_compile schema path) docs = Inr rss" "rs = concat rss"
    by (cases "traverse (document_rule re_compile schema path) docs") auto
  then show ?thesis by (auto dest!: traverse_members dest: document_rule_ok)
qed

lemma load_file_inv:
  "load_file re_compile yaml schema f st = Inr st' \<Longrightarrow> library_inv re_compile st \<Longrightarrow> library_inv re_compile st'"
  by (auto simp: load_file_def reject_file_inv keep_rules_inv parse_rule_text_ok split: if_splits sum.splits)

lemma load_files_inv:
  "load_files re_compile yaml schema fs st = Inr st' \<Longrightarrow> library_inv re_compile st \<Longrightarrow> library_inv re_compile st'"
  by (induction fs arbitrary: st) (auto split: sum.splits dest: load_file_inv)

text \<open>Whatever the files hold, a library that loads holds each identifier once and only rules that
  pass every check of the static control.\<close>

theorem library_sound:
  assumes "load_rules_from_dir re_compile yaml schema dir files = Inr (rules, diags)"
  shows "distinct (map ru_id rules) \<and> list_all (\<lambda>r. validate_rule re_compile r = []) rules"
proof (cases files)
  case None
  then show ?thesis using assms by (simp add: load_rules_from_dir_def)
next
  case (Some fs)
  then obtain seen where "load_files re_compile yaml schema fs ([], [], []) = Inr (rules, diags, seen)"
    using assms by (cases "load_files re_compile yaml schema fs ([], [], [])") (auto simp: load_rules_from_dir_def)
  then have "library_inv re_compile (rules, diags, seen)"
    by (rule load_files_inv) (simp add: library_inv_def)
  then show ?thesis by (simp add: library_inv_def list_all_iff)
qed


definition sample_file :: "string \<Rightarrow> rule_file" where
  "sample_file n = \<lparr>rf_path = ''/r/'' @ n, rf_name = n, rf_suffix = ''.yml'', rf_text = Inr n\<rparr>"

definition sample_loading :: "exn + rule list \<times> rule_diagnostic list" where
  "sample_loading = load_rules_from_dir (\<lambda>_ _. Inl []) (\<lambda>_. Inr [PDict []]) (\<lambda>_. Inr (sample_rule High None 1)) ''/r''
     (Some [sample_file ''a.yml'', sample_file ''b.yml''])"

lemma sample_loading_value:
  "\<exists>d. sample_loading = Inr ([(sample_rule High None 1)\<lparr>ru_path := Some ''/r/a.yml''\<rparr>], [d])"
  by (simp add: sample_loading_def load_rules_from_dir_def sample_file_def load_file_def is_rule_file_def RULE_SUFFIXES_def
      parse_rule_text_def utf8_length_def MAX_RULE_FILE_BYTES_def document_rule_def build_rule_def checked_rule_def
      validate_rule_def condition_problems_def threshold_problems_def tag_problems_def sample_rule_def map_filter_simps
      keep_rule_def str_lower_def lower_char_def is_upper_def code_def)

theorem library_sound_witness:
  "\<exists>rules diags. sample_loading = Inr (rules, diags) \<and> length rules = 1 \<and>
     distinct (map ru_id rules) \<and> list_all (\<lambda>r. validate_rule (\<lambda>_ _. Inl []) r = []) rules"
proof -
  obtain d where "sample_loading = Inr ([(sample_rule High None 1)\<lparr>ru_path := Some ''/r/a.yml''\<rparr>], [d])"
    using sample_loading_value by blast
  with library_sound [OF this [unfolded sample_loading_def]] show ?thesis by auto
qed

text \<open>
  The schema error of a translated Sigma rule is not a loading error: a document whose identifier is too
  long is refused by the model of the rule, and the error leaves the loader instead of becoming a
  diagnostic, whatever the other files hold.
\<close>

theorem sigma_schema_error_escapes:
  "\<exists>doc. document_rule re_compile schema path (PDict doc) = Inl (schema_error ''id trop long (max 80)'') \<and>
     \<not> is_load_error (schema_error ''id trop long (max 80)'')"
proof (intro exI conjI)
  let ?doc = "[(''title'', PStr ''t''), (''id'', PStr (replicate 81 CHR ''7'')),
     (''detection'', PDict [(''sel'', PDict [(''f'', PInt 1)]), (''condition'', PStr ''sel'')])]"
  show "document_rule re_compile schema path (PDict ?doc) = Inl (schema_error ''id trop long (max 80)'')"
    by code_simp
qed (simp add: is_load_error_def schema_error_def)

end
