(* ===== verification/Anomaly.thy ===== *)
theory Anomaly
  imports Scope
begin

section \<open>Statistical anomalies\<close>

text \<open>
  \<open>detection/anomaly.py\<close>: exponentially weighted means and variances of the number of events per
  interval, for each entity (an address, a host, an account) and for the number of distinct entities of
  each tenant.  Numbers are rationals; \<open>math.sqrt\<close>, which rounds, is the argument \<open>sqrt_of\<close>.  An
  ordered dictionary is an association list in insertion order.  The detector reads the clock once per
  event (\<open>ts\<close>).  The counters of a run are kept; nothing in \<open>observe\<close> can raise in this model, so its
  catch-all handler has no case.
\<close>

definition VARIANCE_FLOOR :: rat where "VARIANCE_FLOOR = 1"

definition CHECK_RATE :: string where "CHECK_RATE = ''rate_anomaly''"
definition CHECK_NEW_SOURCE :: string where "CHECK_NEW_SOURCE = ''new_source''"
definition CHECK_CARDINALITY :: string where "CHECK_CARDINALITY = ''source_cardinality_anomaly''"

record entity_stats =
  es_entity :: string
  es_buckets_seen :: int
  es_count :: int
  es_bucket_start :: time
  es_mean :: rat
  es_variance :: rat
  es_total :: int
  es_first_seen :: time
  es_last_seen :: time

record tenant_cardinality =
  tc_bucket_start :: time
  tc_current :: "string set"
  tc_buckets_seen :: int
  tc_mean :: rat
  tc_variance :: rat
  tc_processed :: int
  tc_known :: "string set"

record anomaly_signal =
  sg_tenant :: string
  sg_check :: string
  sg_entity :: string
  sg_observed :: rat
  sg_expected :: rat
  sg_zscore :: rat
  sg_hint :: severity
  sg_detail :: string
  sg_field :: string
  sg_bucket_seconds :: int
  sg_labels :: dict
  sg_payload :: dict

record detector_config =
  dc_bucket :: int
  dc_warmup :: int
  dc_threshold :: rat
  dc_min_observed :: int
  dc_fields :: "string list"
  dc_max_entities :: int
  dc_ttl :: int
  dc_new_sources :: bool
  dc_alpha :: rat

type_synonym entity_key = "string \<times> string \<times> string"

record detector =
  dt_entities :: "(entity_key \<times> entity_stats) list"
  dt_tenants :: "(string \<times> tenant_cardinality) list"
  dt_observed :: int
  dt_emitted :: int
  dt_evicted :: int

subsection \<open>Configuration\<close>

definition new_config ::
    "int \<Rightarrow> int \<Rightarrow> rat \<Rightarrow> int \<Rightarrow> string list option \<Rightarrow> int \<Rightarrow> int \<Rightarrow> bool \<Rightarrow> int \<Rightarrow> detector_config" where
  "new_config bucket warmup threshold min_observed chosen max_entities ttl new_sources width =
     \<lparr>dc_bucket = max 1 bucket, dc_warmup = max 1 warmup, dc_threshold = threshold,
      dc_min_observed = max 1 min_observed,
      dc_fields = filter (\<lambda>f. f \<noteq> [])
        (case chosen of Some (f # fs) \<Rightarrow> f # fs | _ \<Rightarrow> [''labels.src_ip'']),
      dc_max_entities = max 1 max_entities, dc_ttl = max 0 ttl, dc_new_sources = new_sources,
      dc_alpha = 2 / (of_int (max 1 width) + 1)\<rparr>"

definition new_detector :: detector where
  "new_detector = \<lparr>dt_entities = [], dt_tenants = [], dt_observed = 0, dt_emitted = 0, dt_evicted = 0\<rparr>"

definition reset :: "detector \<Rightarrow> detector" where
  "reset dt = dt\<lparr>dt_entities := [], dt_tenants := [], dt_evicted := 0\<rparr>"

record anomaly_settings =
  as_enabled :: bool
  as_bucket_seconds :: int
  as_warmup_samples :: int
  as_zscore_threshold :: rat
  as_min_observed :: int
  as_entity_fields :: "string list"
  as_max_entities :: int
  as_entity_ttl_seconds :: int
  as_detect_new_sources :: bool

definition build_detector :: "anomaly_settings \<Rightarrow> (detector_config \<times> detector) option" where
  "build_detector s =
     (if \<not> as_enabled s then None
      else Some (new_config (as_bucket_seconds s) (as_warmup_samples s) (as_zscore_threshold s) (as_min_observed s)
                   (Some (as_entity_fields s)) (as_max_entities s) (as_entity_ttl_seconds s)
                   (as_detect_new_sources s) 15, new_detector))"

subsection \<open>Statistics\<close>

definition bucket_start :: "time \<Rightarrow> int \<Rightarrow> time" where
  "bucket_start ts n = (ts div seconds n) * seconds n"

definition entity_value :: "event \<Rightarrow> string \<Rightarrow> string option" where
  "entity_value ev f =
     (let v = deep_get (event_dump ev) f
      in if v = PNone \<or> v = PStr [] then None else Some (take 128 (py_str v)))"

definition severity_for :: "rat \<Rightarrow> severity" where
  "severity_for z = (if 20 \<le> z then Critical else if 12 \<le> z then High else if 7 \<le> z then Medium else Low)"

definition zscore :: "(rat \<Rightarrow> rat) \<Rightarrow> rat \<Rightarrow> rat \<Rightarrow> rat \<Rightarrow> rat" where
  "zscore sqrt_of mean variance observed = (observed - mean) / sqrt_of (max variance VARIANCE_FLOOR)"

definition ewma_mean :: "rat \<Rightarrow> rat \<Rightarrow> rat \<Rightarrow> rat" where
  "ewma_mean \<alpha> observed mean = \<alpha> * observed + (1 - \<alpha>) * mean"

definition ewma_variance :: "rat \<Rightarrow> rat \<Rightarrow> rat \<Rightarrow> rat \<Rightarrow> rat" where
  "ewma_variance \<alpha> observed mean variance = \<alpha> * (observed - mean)\<^sup>2 + (1 - \<alpha>) * variance"

definition update_model :: "detector_config \<Rightarrow> int \<Rightarrow> entity_stats \<Rightarrow> entity_stats" where
  "update_model cfg observed st =
     st\<lparr>es_mean := ewma_mean (dc_alpha cfg) (of_int observed) (es_mean st),
        es_variance := ewma_variance (dc_alpha cfg) (of_int observed) (es_mean st) (es_variance st)\<rparr>"

definition close_bucket :: "detector_config \<Rightarrow> int \<Rightarrow> entity_stats \<Rightarrow> entity_stats" where
  "close_bucket cfg observed st = (update_model cfg observed st)\<lparr>es_buckets_seen := es_buckets_seen st + 1\<rparr>"

definition close_stale_buckets :: "detector_config \<Rightarrow> time \<Rightarrow> entity_stats \<Rightarrow> entity_stats" where
  "close_stale_buckets cfg ts st =
     (if es_bucket_start st = 0 then st\<lparr>es_bucket_start := bucket_start ts (dc_bucket cfg)\<rparr>
      else
        let elapsed = (ts - es_bucket_start st) div seconds (dc_bucket cfg)
        in if elapsed \<le> 1 then st
           else (close_bucket cfg 0 ^^ nat (min (elapsed - 1) (dc_warmup cfg * 4))) st)"

subsection \<open>Signals of an entity\<close>

definition rate_signal :: "detector_config \<Rightarrow> (rat \<Rightarrow> rat) \<Rightarrow> string \<Rightarrow> string \<Rightarrow> int \<Rightarrow> entity_stats \<Rightarrow> anomaly_signal" where
  "rate_signal cfg sqrt_of tid f observed st =
     (let z = zscore sqrt_of (es_mean st) (es_variance st) (of_int observed)
      in \<lparr>sg_tenant = tid, sg_check = CHECK_RATE, sg_entity = es_entity st, sg_observed = of_int observed,
          sg_expected = es_mean st, sg_zscore = z, sg_hint = severity_for z,
          sg_detail = int_str observed @ '' evenements en '' @ int_str (dc_bucket cfg) @ ''s pour '' @ quote (es_entity st)
            @ '', contre '' @ fmt_fixed 1 (es_mean st) @ '' attendus (ecart de '' @ fmt_fixed 1 z
            @ '' ecarts-types, base de '' @ int_str (es_buckets_seen st) @ '' intervalles observes).'',
          sg_field = f, sg_bucket_seconds = dc_bucket cfg, sg_labels = [],
          sg_payload = [(''baseline_samples'', PInt (es_buckets_seen st)),
                        (''total_events_seen'', PInt (es_total st))]\<rparr>)"

definition evaluate_bucket ::
    "detector_config \<Rightarrow> (rat \<Rightarrow> rat) \<Rightarrow> string \<Rightarrow> string \<Rightarrow> int \<Rightarrow> entity_stats \<Rightarrow> anomaly_signal list \<times> entity_stats" where
  "evaluate_bucket cfg sqrt_of tid f observed st =
     ((if dc_warmup cfg \<le> es_buckets_seen st \<and> dc_min_observed cfg \<le> observed
          \<and> dc_threshold cfg \<le> zscore sqrt_of (es_mean st) (es_variance st) (of_int observed)
       then [rate_signal cfg sqrt_of tid f observed st] else []),
      close_bucket cfg observed st)"

definition new_cardinality :: tenant_cardinality where
  "new_cardinality =
     \<lparr>tc_bucket_start = 0, tc_current = {}, tc_buckets_seen = 0, tc_mean = 0, tc_variance = 0, tc_processed = 0,
      tc_known = {}\<rparr>"

definition tenant_state :: "string \<Rightarrow> detector \<Rightarrow> tenant_cardinality" where
  "tenant_state tid dt = (case map_of (dt_tenants dt) tid of None \<Rightarrow> new_cardinality | Some tc \<Rightarrow> tc)"

definition set_tenant_state :: "string \<Rightarrow> tenant_cardinality \<Rightarrow> detector \<Rightarrow> detector" where
  "set_tenant_state tid tc dt = dt\<lparr>dt_tenants := AList.update tid tc (dt_tenants dt)\<rparr>"

definition is_new_source :: "detector_config \<Rightarrow> string \<Rightarrow> tenant_cardinality \<Rightarrow> bool \<times> tenant_cardinality" where
  "is_new_source cfg entity tc =
     (let seen = tc\<lparr>tc_known := insert entity (tc_known tc)\<rparr>
      in if tc_processed tc \<le> dc_warmup cfg * 2 then (False, seen)
         else if entity \<in> tc_known tc then (False, tc) else (True, seen))"

definition new_source_signal :: "detector_config \<Rightarrow> string \<Rightarrow> string \<Rightarrow> string \<Rightarrow> anomaly_signal" where
  "new_source_signal cfg tid f entity =
     \<lparr>sg_tenant = tid, sg_check = CHECK_NEW_SOURCE, sg_entity = entity, sg_observed = 1, sg_expected = 0, sg_zscore = 0,
      sg_hint = Low,
      sg_detail = ''Premiere observation de '' @ quote entity @ '' sur '' @ f
        @ '' pour ce tenant. A confirmer : nouvelle source legitime (partenaire, nouvel utilisateur) ou signe de reconnaissance.'',
      sg_field = f, sg_bucket_seconds = dc_bucket cfg, sg_labels = [(''first_seen'', PBool True)],
      sg_payload = [(''warmup_completed'', PBool True)]\<rparr>"

definition new_entity :: "detector_config \<Rightarrow> string \<Rightarrow> time \<Rightarrow> entity_stats" where
  "new_entity cfg entity ts =
     \<lparr>es_entity = entity, es_buckets_seen = 0, es_count = 0, es_bucket_start = bucket_start ts (dc_bucket cfg),
      es_mean = 0, es_variance = 0, es_total = 0, es_first_seen = ts, es_last_seen = ts\<rparr>"

definition count_event :: "time \<Rightarrow> entity_stats \<Rightarrow> entity_stats" where
  "count_event ts st = st\<lparr>es_count := es_count st + 1, es_total := es_total st + 1, es_last_seen := ts\<rparr>"

definition judge_bucket ::
    "detector_config \<Rightarrow> (rat \<Rightarrow> rat) \<Rightarrow> string \<Rightarrow> string \<Rightarrow> time \<Rightarrow> entity_stats \<Rightarrow> anomaly_signal list \<times> entity_stats" where
  "judge_bucket cfg sqrt_of tid f ts st =
     (if seconds (dc_bucket cfg) \<le> ts - es_bucket_start st
      then case evaluate_bucket cfg sqrt_of tid f (es_count st - 1) st of
             (signals, st') \<Rightarrow> (signals, st'\<lparr>es_bucket_start := bucket_start ts (dc_bucket cfg), es_count := 1\<rparr>)
      else ([], st))"

subsection \<open>Bounded memory\<close>

definition expire_entities ::
    "detector_config \<Rightarrow> time \<Rightarrow> (entity_key \<times> entity_stats) list \<Rightarrow> (entity_key \<times> entity_stats) list" where
  "expire_entities cfg ts es =
     (if dc_ttl cfg = 0 then es else dropWhile (\<lambda>(_, st). es_last_seen st < ts - seconds (dc_ttl cfg)) es)"

definition enforce_limits :: "detector_config \<Rightarrow> time \<Rightarrow> detector \<Rightarrow> detector" where
  "enforce_limits cfg ts dt =
     (let kept = expire_entities cfg ts (dt_entities dt);
          kept' = drop (length kept - nat (dc_max_entities cfg)) kept
      in dt\<lparr>dt_entities := kept',
            dt_evicted := dt_evicted dt + int (length (dt_entities dt) - length kept')\<rparr>)"

subsection \<open>Observation of an event\<close>

definition observe_entity ::
    "detector_config \<Rightarrow> (rat \<Rightarrow> rat) \<Rightarrow> string \<Rightarrow> string \<Rightarrow> string \<Rightarrow> time \<Rightarrow> detector \<Rightarrow> anomaly_signal list \<times> detector" where
  "observe_entity cfg sqrt_of tid f entity ts dt =
     (let key = (tid, f, entity);
          (fresh, st, dt1) =
            (case map_of (dt_entities dt) key of
               Some st \<Rightarrow> ([], st, dt)
             | None \<Rightarrow>
                 if dc_new_sources cfg
                 then case is_new_source cfg entity (tenant_state tid dt) of
                        (new, tc) \<Rightarrow>
                          ((if new then [new_source_signal cfg tid f entity] else []), new_entity cfg entity ts,
                           set_tenant_state tid tc dt)
                 else ([], new_entity cfg entity ts, dt));
          (judged, st') = judge_bucket cfg sqrt_of tid f ts (count_event ts (close_stale_buckets cfg ts st))
      in (fresh @ judged, enforce_limits cfg ts (dt1\<lparr>dt_entities := AList.update key st' (dt_entities dt1)\<rparr>)))"

fun observe_fields ::
    "detector_config \<Rightarrow> (rat \<Rightarrow> rat) \<Rightarrow> event \<Rightarrow> time \<Rightarrow> string list \<Rightarrow> detector \<Rightarrow> anomaly_signal list \<times> detector" where
  "observe_fields cfg sqrt_of ev ts [] dt = ([], dt)"
| "observe_fields cfg sqrt_of ev ts (f # fs) dt =
     (case entity_value ev f of
        None \<Rightarrow> observe_fields cfg sqrt_of ev ts fs dt
      | Some entity \<Rightarrow>
          (case observe_entity cfg sqrt_of (ev_tenant ev) f entity ts dt of
             (ss, dt') \<Rightarrow> (case observe_fields cfg sqrt_of ev ts fs dt' of (ss', dt'') \<Rightarrow> (ss @ ss', dt''))))"

definition cardinality_signal ::
    "detector_config \<Rightarrow> (rat \<Rightarrow> rat) \<Rightarrow> string \<Rightarrow> int \<Rightarrow> tenant_cardinality \<Rightarrow> anomaly_signal" where
  "cardinality_signal cfg sqrt_of tid observed tc =
     (let z = zscore sqrt_of (tc_mean tc) (tc_variance tc) (of_int observed)
      in \<lparr>sg_tenant = tid, sg_check = CHECK_CARDINALITY, sg_entity = tid, sg_observed = of_int observed,
          sg_expected = tc_mean tc, sg_zscore = z, sg_hint = High,
          sg_detail = int_str observed @ '' sources distinctes en '' @ int_str (dc_bucket cfg)
            @ ''s pour ce tenant, contre '' @ fmt_fixed 1 (tc_mean tc) @ '' habituellement (ecart de '' @ fmt_fixed 1 z
            @ '' ecarts-types). Schema compatible avec une attaque distribuee ou un balayage reparti.'',
          sg_field = (case dc_fields cfg of [] \<Rightarrow> ''labels.src_ip'' | f # _ \<Rightarrow> f), sg_bucket_seconds = dc_bucket cfg,
          sg_labels = [(''distinct_sources'', PInt observed)],
          sg_payload = [(''baseline_samples'', PInt (tc_buckets_seen tc))]\<rparr>)"

definition note_entity :: "detector_config \<Rightarrow> event \<Rightarrow> time \<Rightarrow> tenant_cardinality \<Rightarrow> tenant_cardinality" where
  "note_entity cfg ev ts tc =
     (let tc1 = (if tc_bucket_start tc = 0 then tc\<lparr>tc_bucket_start := bucket_start ts (dc_bucket cfg)\<rparr> else tc)
      in case (case dc_fields cfg of [] \<Rightarrow> None | f # _ \<Rightarrow> entity_value ev f) of
           None \<Rightarrow> tc1
         | Some entity \<Rightarrow> tc1\<lparr>tc_current := insert entity (tc_current tc1)\<rparr>)"

definition observe_cardinality ::
    "detector_config \<Rightarrow> (rat \<Rightarrow> rat) \<Rightarrow> event \<Rightarrow> time \<Rightarrow> tenant_cardinality \<Rightarrow> anomaly_signal list \<times> tenant_cardinality" where
  "observe_cardinality cfg sqrt_of ev ts tc0 =
     (let tc = note_entity cfg ev ts tc0; observed = int (card (tc_current tc))
      in if ts - tc_bucket_start tc < seconds (dc_bucket cfg) then ([], tc)
         else
           ((if dc_warmup cfg \<le> tc_buckets_seen tc \<and> dc_min_observed cfg \<le> observed
                \<and> dc_threshold cfg \<le> zscore sqrt_of (tc_mean tc) (tc_variance tc) (of_int observed)
             then [cardinality_signal cfg sqrt_of (ev_tenant ev) observed tc] else []),
            tc\<lparr>tc_mean := ewma_mean (dc_alpha cfg) (of_int observed) (tc_mean tc),
               tc_variance := ewma_variance (dc_alpha cfg) (of_int observed) (tc_mean tc) (tc_variance tc),
               tc_buckets_seen := tc_buckets_seen tc + 1, tc_current := {},
               tc_bucket_start := bucket_start ts (dc_bucket cfg)\<rparr>))"

definition count_processed :: "string \<Rightarrow> detector \<Rightarrow> detector" where
  "count_processed tid dt =
     (let tc = tenant_state tid dt
      in set_tenant_state tid (tc\<lparr>tc_processed := tc_processed tc + 1\<rparr>) (dt\<lparr>dt_observed := dt_observed dt + 1\<rparr>))"

definition observe ::
    "detector_config \<Rightarrow> (rat \<Rightarrow> rat) \<Rightarrow> event \<Rightarrow> time \<Rightarrow> detector \<Rightarrow> anomaly_signal list \<times> detector" where
  "observe cfg sqrt_of ev ts dt0 =
     (let tid = ev_tenant ev;
          (ss, dt) = observe_fields cfg sqrt_of ev ts (dc_fields cfg) (count_processed tid dt0);
          (cs, tc) = observe_cardinality cfg sqrt_of ev ts (tenant_state tid dt)
      in (ss @ cs, (set_tenant_state tid tc dt)\<lparr>dt_emitted := dt_emitted dt + int (length (ss @ cs))\<rparr>))"

subsection \<open>The event of a signal\<close>

text \<open>
  A signal becomes an ordinary event with a new identifier and the present instant.  Text labels are
  stripped and cut by the model of an event.
\<close>

definition copied_label :: "dict \<Rightarrow> string \<Rightarrow> dict \<Rightarrow> dict" where
  "copied_label source k labels =
     (if dict_val source k \<noteq> PNone \<and> map_of labels k = None then labels @ [(k, dict_val source k)] else labels)"

definition signal_labels :: "anomaly_signal \<Rightarrow> event \<Rightarrow> dict" where
  "signal_labels sg ev =
     (let base = [(''check'', PStr (sg_check sg)), (''entity'', PStr (sg_entity sg)), (''entity_field'', PStr (sg_field sg)),
                  (''observed'', PFloat (py_round 3 (sg_observed sg))), (''expected'', PFloat (py_round 3 (sg_expected sg))),
                  (''zscore'', PFloat (py_round 3 (sg_zscore sg))), (''bucket_seconds'', PInt (sg_bucket_seconds sg)),
                  (''method'', PStr ''ewma_zscore''), (''detector'', PStr ''anomaly'')];
          copied = fold (copied_label (ev_labels ev))
                     [''src_ip'', ''host'', ''method'', ''path'', ''user'', ''status''] base;
          hosted = (if map_of copied ''host'' = None then copied @ [(''host'', opt_str (src_host (ev_source ev)))] else copied)
      in fold (\<lambda>(k, v). dict_set k v) (sg_labels sg) hosted)"

definition strip_label :: "pyval \<Rightarrow> pyval" where
  "strip_label v = (case v of PStr s \<Rightarrow> PStr (str_strip s) | _ \<Rightarrow> v)"

definition signal_event :: "anomaly_signal \<Rightarrow> event \<Rightarrow> string \<Rightarrow> time \<Rightarrow> string + event" where
  "signal_event sg ev eid now =
     (case validate_event_tenant (sg_tenant sg) of
        Inl e \<Rightarrow> Inl e
      | Inr tid \<Rightarrow>
          (case validate_labels (map (\<lambda>(k, v). (k, strip_label v)) (signal_labels sg ev)) of
             Inl e \<Rightarrow> Inl e
           | Inr labels \<Rightarrow>
               Inr \<lparr>ev_id = eid, ev_tenant = tid, ev_ts = now, ev_kind = Anomaly,
                    ev_source = \<lparr>src_type = Src_baseline, src_name = Some ''anomaly_detector'', src_host = src_host (ev_source ev)\<rparr>,
                    ev_hint = Some (sg_hint sg), ev_labels = labels,
                    ev_payload = fold (\<lambda>(k, v). dict_set k v) (sg_payload sg)
                      [(''explanation'', PStr (sg_detail sg)),
                       (''baseline'', PDict
                          [(''mean'', PFloat (py_round 3 (sg_expected sg))), (''observed'', PFloat (py_round 3 (sg_observed sg))),
                           (''zscore'', PFloat (py_round 3 (sg_zscore sg))),
                           (''model'', PStr ''EWMA + z-score (variance plancher appliquee)'')])],
                    ev_raw_ref = None\<rparr>))"

definition detector_stats :: "detector_config \<Rightarrow> detector \<Rightarrow> dict" where
  "detector_stats cfg dt =
     [(''observed_events'', PInt (dt_observed dt)), (''signals_emitted'', PInt (dt_emitted dt)),
      (''tracked_entities'', PInt (int (length (dt_entities dt)))), (''tracked_tenants'', PInt (int (length (dt_tenants dt)))),
      (''evicted_entities'', PInt (dt_evicted dt)), (''bucket_seconds'', PInt (dc_bucket cfg)),
      (''warmup_samples'', PInt (dc_warmup cfg)), (''zscore_threshold'', PFloat (dc_threshold cfg)),
      (''min_observed'', PInt (dc_min_observed cfg)), (''entity_fields'', PList (map PStr (dc_fields cfg)))]"

end
