(* ===== verification/AnomalyProps.thy ===== *)
theory AnomalyProps
  imports Anomaly
begin

section \<open>Properties of the anomaly detector\<close>

text \<open>
  The memory of the detector is bounded, its statistics are the weighted means they claim to be and never
  divide by zero, tenants do not disturb one another, and a new source is announced once.
\<close>

fun observe_run ::
    "detector_config \<Rightarrow> (rat \<Rightarrow> rat) \<Rightarrow> (event \<times> time) list \<Rightarrow> detector \<Rightarrow> anomaly_signal list \<times> detector" where
  "observe_run cfg sqrt_of [] dt = ([], dt)"
| "observe_run cfg sqrt_of ((ev, ts) # es) dt =
     (case observe cfg sqrt_of ev ts dt of
        (ss, dt') \<Rightarrow> (case observe_run cfg sqrt_of es dt' of (ss', dt'') \<Rightarrow> (ss @ ss', dt'')))"

subsection \<open>Weighted means\<close>

lemma ewma_nonneg:
  "0 \<le> \<alpha> \<Longrightarrow> \<alpha> \<le> 1 \<Longrightarrow> 0 \<le> x \<Longrightarrow> 0 \<le> m \<Longrightarrow> 0 \<le> ewma_mean \<alpha> x m"
  by (simp add: ewma_mean_def)

lemma ewma_variance_nonneg:
  "0 \<le> \<alpha> \<Longrightarrow> \<alpha> \<le> 1 \<Longrightarrow> 0 \<le> v \<Longrightarrow> 0 \<le> ewma_variance \<alpha> x m v"
  by (simp add: ewma_variance_def)

text \<open>The mean of an entity after a series of intervals is the exponentially weighted sum of the counts
  observed: the \<open>i\<close>-th count has weight \<open>\<alpha> (1 - \<alpha>)\<close> to the power of the number of later intervals.\<close>

theorem mean_closed_form:
  "es_mean (fold (close_bucket cfg) xs st) =
     (1 - dc_alpha cfg) ^ length xs * es_mean st
     + (\<Sum>i < length xs. dc_alpha cfg * (1 - dc_alpha cfg) ^ (length xs - Suc i) * of_int (xs ! i))"
proof (induction xs rule: rev_induct)
  case (snoc x xs)
  let ?q = "1 - dc_alpha cfg"
  let ?sum = "\<lambda>k. \<Sum>i < length xs. dc_alpha cfg * ?q ^ (k - Suc i) * of_int (xs ! i)"
  have "?sum (Suc (length xs)) = ?q * ?sum (length xs)"
    unfolding sum_distrib_left
    by (intro sum.cong refl) (simp add: Suc_diff_Suc mult_ac flip: power_Suc)
  moreover have "(\<Sum>i < Suc (length xs). dc_alpha cfg * ?q ^ (Suc (length xs) - Suc i) * of_int ((xs @ [x]) ! i)) =
      ?sum (Suc (length xs)) + dc_alpha cfg * of_int x"
    by (simp add: nth_append)
  moreover have "es_mean (fold (close_bucket cfg) (xs @ [x]) st) =
      dc_alpha cfg * of_int x + ?q * es_mean (fold (close_bucket cfg) xs st)"
    by (simp add: close_bucket_def update_model_def ewma_mean_def)
  ultimately show ?case by (simp only: snoc.IH length_append_singleton power_Suc) (simp add: algebra_simps)
qed simp

subsection \<open>The invariant of the state\<close>

definition config_ok :: "detector_config \<Rightarrow> bool" where
  "config_ok cfg \<longleftrightarrow> 1 \<le> dc_bucket cfg \<and> 1 \<le> dc_max_entities cfg \<and> 0 < dc_alpha cfg \<and> dc_alpha cfg \<le> 1"

definition stats_ok :: "entity_stats \<Rightarrow> bool" where
  "stats_ok st \<longleftrightarrow> 0 \<le> es_mean st \<and> 0 \<le> es_variance st \<and> 0 \<le> es_count st"

definition cardinality_ok :: "tenant_cardinality \<Rightarrow> bool" where
  "cardinality_ok tc \<longleftrightarrow> 0 \<le> tc_mean tc \<and> 0 \<le> tc_variance tc \<and> finite (tc_current tc)"

definition detector_ok :: "detector_config \<Rightarrow> detector \<Rightarrow> bool" where
  "detector_ok cfg dt \<longleftrightarrow>
     distinct (map fst (dt_entities dt)) \<and> int (length (dt_entities dt)) \<le> dc_max_entities cfg
     \<and> (\<forall>(_, st) \<in> set (dt_entities dt). stats_ok st) \<and> (\<forall>tid. cardinality_ok (tenant_state tid dt))"

lemma new_config_ok: "config_ok (new_config b w t o' fs m ttl ns n)"
  by (simp add: new_config_def config_ok_def field_simps)

lemma tenant_state_set [simp]:
  "tenant_state t (set_tenant_state tid tc dt) = (if t = tid then tc else tenant_state t dt)"
  by (simp add: tenant_state_def set_tenant_state_def update_conv')

lemma tenant_state_entities [simp]:
  "tenant_state t (dt\<lparr>dt_entities := es\<rparr>) = tenant_state t dt"
  "tenant_state t (dt\<lparr>dt_emitted := n\<rparr>) = tenant_state t dt"
  "tenant_state t (dt\<lparr>dt_observed := n\<rparr>) = tenant_state t dt"
  "tenant_state t (dt\<lparr>dt_evicted := n\<rparr>) = tenant_state t dt"
  "tenant_state t (enforce_limits cfg ts dt) = tenant_state t dt"
  by (simp_all add: tenant_state_def enforce_limits_def Let_def)

lemma entities_set_tenant [simp]: "dt_entities (set_tenant_state tid tc dt) = dt_entities dt"
  by (simp add: set_tenant_state_def)

lemma close_bucket_ok: "config_ok cfg \<Longrightarrow> 0 \<le> x \<Longrightarrow> stats_ok st \<Longrightarrow> stats_ok (close_bucket cfg x st)"
  by (simp add: stats_ok_def close_bucket_def update_model_def config_ok_def ewma_nonneg ewma_variance_nonneg)

lemma close_buckets_ok: "config_ok cfg \<Longrightarrow> stats_ok st \<Longrightarrow> stats_ok ((close_bucket cfg 0 ^^ n) st)"
  by (induction n) (simp_all add: close_bucket_ok)

lemma close_stale_ok: "config_ok cfg \<Longrightarrow> stats_ok st \<Longrightarrow> stats_ok (close_stale_buckets cfg ts st)"
proof -
  assume "config_ok cfg" "stats_ok st"
  then show ?thesis using close_buckets_ok by (auto simp: close_stale_buckets_def Let_def) (simp add: stats_ok_def)
qed

lemma count_event_ok: "stats_ok st \<Longrightarrow> stats_ok (count_event ts st) \<and> 1 \<le> es_count (count_event ts st)"
  by (simp add: stats_ok_def count_event_def)

lemma judge_bucket_ok:
  assumes "config_ok cfg" "stats_ok st" "1 \<le> es_count st"
  shows "stats_ok (snd (judge_bucket cfg sqrt_of tid f ts st))"
proof -
  have "stats_ok (close_bucket cfg (es_count st - 1) st)"
    using assms by (intro close_bucket_ok) auto
  then show ?thesis using assms(2) by (auto simp: judge_bucket_def evaluate_bucket_def stats_ok_def)
qed

lemma new_entity_ok: "stats_ok (new_entity cfg e ts)"
  by (simp add: stats_ok_def new_entity_def)

lemma update_entities_ok:
  "stats_ok st \<Longrightarrow> \<forall>(_, s) \<in> set es. stats_ok s \<Longrightarrow> \<forall>(_, s) \<in> set (AList.update k st es). stats_ok s"
  by (induction es) auto

lemma enforce_limits_entities:
  "\<exists>n. dt_entities (enforce_limits cfg ts dt) = drop n (dt_entities dt)"
proof -
  have "\<exists>n. expire_entities cfg ts es = drop n es" for es
    unfolding expire_entities_def by (metis drop_0 dropWhile_eq_drop)
  then obtain n where n: "expire_entities cfg ts (dt_entities dt) = drop n (dt_entities dt)" by blast
  show ?thesis by (simp add: enforce_limits_def Let_def n) blast
qed

lemma enforce_limits_bound:
  "1 \<le> dc_max_entities cfg \<Longrightarrow> int (length (dt_entities (enforce_limits cfg ts dt))) \<le> dc_max_entities cfg"
  by (simp add: enforce_limits_def Let_def)

lemma enforce_limits_ok:
  assumes "config_ok cfg" "distinct (map fst (dt_entities dt))" "\<forall>(_, st) \<in> set (dt_entities dt). stats_ok st"
    "\<forall>tid. cardinality_ok (tenant_state tid dt)"
  shows "detector_ok cfg (enforce_limits cfg ts dt)"
proof -
  obtain n where n: "dt_entities (enforce_limits cfg ts dt) = drop n (dt_entities dt)"
    using enforce_limits_entities by blast
  have "int (length (dt_entities (enforce_limits cfg ts dt))) \<le> dc_max_entities cfg"
    using assms(1) by (intro enforce_limits_bound) (simp add: config_ok_def)
  then show ?thesis using assms
    by (auto simp: detector_ok_def n drop_map [symmetric] dest: in_set_dropD)
qed

lemma is_new_source_ok: "cardinality_ok tc \<Longrightarrow> cardinality_ok (snd (is_new_source cfg e tc))"
  by (simp add: is_new_source_def cardinality_ok_def Let_def)

lemma observe_entity_ok:
  assumes cfg: "config_ok cfg" and ok: "detector_ok cfg dt"
  shows "detector_ok cfg (snd (observe_entity cfg sqrt_of tid f entity ts dt))"
proof -
  have judged: "stats_ok (snd (judge_bucket cfg sqrt_of tid f ts (count_event ts (close_stale_buckets cfg ts st))))"
    if "stats_ok st" for st
    using judge_bucket_ok [OF cfg] count_event_ok close_stale_ok [OF cfg that] by blast
  have step: "detector_ok cfg (enforce_limits cfg ts (dt'\<lparr>dt_entities := AList.update k st (dt_entities dt)\<rparr>))"
    if "dt_entities dt' = dt_entities dt" "\<forall>tid. cardinality_ok (tenant_state tid dt')" "stats_ok st" for dt' k st
    using that ok update_entities_ok [OF that(3), of "dt_entities dt" k]
    by (intro enforce_limits_ok [OF cfg]) (simp_all add: detector_ok_def distinct_update)
  have old: "stats_ok st" if "map_of (dt_entities dt) k = Some st" for k st
    using ok map_of_SomeD [OF that] by (auto simp: detector_ok_def)
  have tenants: "\<forall>tid. cardinality_ok (tenant_state tid dt)"
    "\<forall>t. cardinality_ok (tenant_state t (set_tenant_state tid (snd (is_new_source cfg entity (tenant_state tid dt))) dt))"
    using ok by (auto simp: detector_ok_def is_new_source_ok)
  show ?thesis
  proof (cases "map_of (dt_entities dt) (tid, f, entity)")
    case None
    then show ?thesis
      using step [OF refl tenants(1) judged [OF new_entity_ok]]
        step [OF entities_set_tenant tenants(2) judged [OF new_entity_ok]]
      by (simp add: observe_entity_def None Let_def split_beta)
  next
    case (Some st)
    then show ?thesis using step [OF refl tenants(1) judged [OF old [OF Some]]]
      by (simp add: observe_entity_def Some Let_def split_beta)
  qed
qed

lemma observe_fields_ok:
  "config_ok cfg \<Longrightarrow> detector_ok cfg dt \<Longrightarrow> detector_ok cfg (snd (observe_fields cfg sqrt_of ev ts fs dt))"
proof (induction fs arbitrary: dt)
  case (Cons f fs)
  then show ?case
    using observe_entity_ok [OF Cons.prems, of sqrt_of "ev_tenant ev" f _ ts]
    by (auto split: option.split prod.split) (metis snd_conv)
qed simp

lemma observe_cardinality_ok:
  assumes "config_ok cfg" "cardinality_ok tc"
  shows "cardinality_ok (snd (observe_cardinality cfg sqrt_of ev ts tc))"
proof -
  have "cardinality_ok (note_entity cfg ev ts tc)"
    using assms(2) by (auto simp: note_entity_def cardinality_ok_def Let_def split: option.split)
  then show ?thesis using assms(1)
    by (auto simp: observe_cardinality_def cardinality_ok_def Let_def config_ok_def ewma_nonneg ewma_variance_nonneg)
qed

lemma count_processed_ok: "detector_ok cfg dt \<Longrightarrow> detector_ok cfg (count_processed tid dt)"
  by (auto simp: detector_ok_def count_processed_def Let_def) (simp add: cardinality_ok_def)

lemma observe_ok:
  assumes "config_ok cfg" "detector_ok cfg dt"
  shows "detector_ok cfg (snd (observe cfg sqrt_of ev ts dt))"
proof -
  let ?dt = "snd (observe_fields cfg sqrt_of ev ts (dc_fields cfg) (count_processed (ev_tenant ev) dt))"
  have "detector_ok cfg ?dt" using assms by (intro observe_fields_ok count_processed_ok)
  moreover from this have "cardinality_ok (snd (observe_cardinality cfg sqrt_of ev ts (tenant_state (ev_tenant ev) ?dt)))"
    using assms(1) by (intro observe_cardinality_ok) (auto simp: detector_ok_def)
  ultimately show ?thesis by (simp add: observe_def Let_def split_beta detector_ok_def)
qed

lemma new_detector_ok: "config_ok cfg \<Longrightarrow> detector_ok cfg new_detector"
  by (simp add: detector_ok_def new_detector_def config_ok_def tenant_state_def cardinality_ok_def new_cardinality_def)

lemma observe_run_ok:
  "config_ok cfg \<Longrightarrow> detector_ok cfg dt \<Longrightarrow> detector_ok cfg (snd (observe_run cfg sqrt_of es dt))"
proof (induction es arbitrary: dt)
  case (Cons e es)
  obtain ev ts where e: "e = (ev, ts)" by (cases e)
  show ?case using Cons.IH [OF Cons.prems(1) observe_ok [OF Cons.prems, of sqrt_of ev ts]]
    by (simp add: e split_beta)
qed simp

text \<open>C18: Whatever the stream of events and the parameters of the detector, it tracks each entity once and never
  more entities than its bound, and every mean and every variance it divides by stays non-negative, so that
  the deviation is computed on at least the floor of the variance.\<close>

theorem detector_state_bounded:
  "detector_ok (new_config b w t o' fs m ttl ns n)
     (snd (observe_run (new_config b w t o' fs m ttl ns n) sqrt_of es new_detector))"
  by (intro observe_run_ok new_detector_ok new_config_ok)

subsection \<open>New sources\<close>

definition known :: "string \<Rightarrow> detector \<Rightarrow> string set" where
  "known tid dt = tc_known (tenant_state tid dt)"

definition new_sources :: "anomaly_signal list \<Rightarrow> (string \<times> string) list" where
  "new_sources ss = map (\<lambda>sg. (sg_tenant sg, sg_entity sg)) (filter (\<lambda>sg. sg_check sg = CHECK_NEW_SOURCE) ss)"

text \<open>What a step may announce: each source once, not known before, known after; nothing is forgotten.\<close>

definition announces :: "detector \<Rightarrow> anomaly_signal list \<Rightarrow> detector \<Rightarrow> bool" where
  "announces dt ss dt' \<longleftrightarrow>
     distinct (new_sources ss)
     \<and> (\<forall>(t, e) \<in> set (new_sources ss). e \<notin> known t dt \<and> e \<in> known t dt')
     \<and> (\<forall>t. known t dt \<subseteq> known t dt')"

lemma new_sources_append: "new_sources (ss @ ss') = new_sources ss @ new_sources ss'"
  by (simp add: new_sources_def)

lemma announces_append: "announces dt ss dt' \<Longrightarrow> announces dt' ss' dt'' \<Longrightarrow> announces dt (ss @ ss') dt''"
  by (fastforce simp: announces_def new_sources_append)

lemma announces_none: "new_sources ss = [] \<Longrightarrow> \<forall>t. known t dt' = known t dt \<Longrightarrow> announces dt ss dt'"
  by (simp add: announces_def)

lemma check_names [simp]: "CHECK_RATE \<noteq> CHECK_NEW_SOURCE" "CHECK_CARDINALITY \<noteq> CHECK_NEW_SOURCE"
  by (simp_all add: CHECK_RATE_def CHECK_NEW_SOURCE_def CHECK_CARDINALITY_def)

lemma judge_bucket_no_source: "new_sources (fst (judge_bucket cfg sqrt_of tid f ts st)) = []"
  by (simp add: judge_bucket_def evaluate_bucket_def rate_signal_def new_sources_def Let_def)

lemma known_simps [simp]:
  "known t (enforce_limits cfg ts dt) = known t dt"
  "known t (dt\<lparr>dt_entities := es\<rparr>) = known t dt"
  "known t (dt\<lparr>dt_emitted := n\<rparr>) = known t dt"
  "known t (set_tenant_state tid tc dt) = (if t = tid then tc_known tc else known t dt)"
  by (simp_all add: known_def)

lemma observe_entity_announces:
  "announces dt (fst (observe_entity cfg sqrt_of tid f entity ts dt)) (snd (observe_entity cfg sqrt_of tid f entity ts dt))"
proof -
  have one: "new_sources [new_source_signal cfg tid f entity] = [(tid, entity)]"
    by (simp add: new_sources_def new_source_signal_def)
  have "announces dt (if fst (is_new_source cfg entity (tenant_state tid dt)) then [new_source_signal cfg tid f entity] else [])
      (set_tenant_state tid (snd (is_new_source cfg entity (tenant_state tid dt))) dt)"
    by (auto simp: announces_def one is_new_source_def Let_def known_def) (auto simp: new_sources_def)
  then show ?thesis
    by (auto simp: observe_entity_def Let_def split_beta announces_def new_sources_append judge_bucket_no_source
        new_sources_def [of "[]"] split: option.split)
qed

lemma observe_fields_announces:
  "announces dt (fst (observe_fields cfg sqrt_of ev ts fs dt)) (snd (observe_fields cfg sqrt_of ev ts fs dt))"
proof (induction fs arbitrary: dt)
  case (Cons f fs)
  show ?case
  proof (cases "entity_value ev f")
    case (Some e)
    show ?thesis
      using announces_append [OF observe_entity_announces [of dt cfg sqrt_of "ev_tenant ev" f e ts] Cons.IH]
      by (simp add: Some split_beta)
  qed (simp add: Cons.IH)
qed (simp add: announces_def new_sources_def)

lemma observe_cardinality_known:
  "tc_known (snd (observe_cardinality cfg sqrt_of ev ts tc)) = tc_known tc"
  "new_sources (fst (observe_cardinality cfg sqrt_of ev ts tc)) = []"
  by (auto simp: observe_cardinality_def note_entity_def Let_def new_sources_def cardinality_signal_def split: option.split)

lemma observe_announces:
  "announces dt (fst (observe cfg sqrt_of ev ts dt)) (snd (observe cfg sqrt_of ev ts dt))"
proof -
  let ?tid = "ev_tenant ev" and ?mid = "count_processed (ev_tenant ev) dt"
  let ?dt = "snd (observe_fields cfg sqrt_of ev ts (dc_fields cfg) ?mid)"
  let ?c = "observe_cardinality cfg sqrt_of ev ts (tenant_state ?tid ?dt)"
  have "known t ?mid = known t dt" for t by (simp add: count_processed_def Let_def known_def)
  then have "announces dt [] ?mid" by (intro announces_none) (simp_all add: new_sources_def)
  from announces_append [OF this observe_fields_announces [of ?mid cfg sqrt_of ev ts "dc_fields cfg"]]
  have "announces dt (fst (observe_fields cfg sqrt_of ev ts (dc_fields cfg) ?mid)) ?dt" by simp
  moreover have "announces ?dt (fst ?c) (set_tenant_state ?tid (snd ?c) ?dt)"
    by (intro announces_none) (simp_all add: observe_cardinality_known known_def)
  ultimately have "announces dt (fst (observe_fields cfg sqrt_of ev ts (dc_fields cfg) ?mid) @ fst ?c)
      (set_tenant_state ?tid (snd ?c) ?dt)"
    by (rule announces_append)
  then show ?thesis by (simp add: observe_def Let_def split_beta announces_def)
qed

lemma observe_run_announces:
  "announces dt (fst (observe_run cfg sqrt_of es dt)) (snd (observe_run cfg sqrt_of es dt))"
proof (induction es arbitrary: dt)
  case (Cons e es)
  obtain ev ts where e: "e = (ev, ts)" by (cases e)
  show ?case using announces_append [OF observe_announces [of dt cfg sqrt_of ev ts] Cons.IH]
    by (simp add: e split_beta)
qed (simp add: announces_def new_sources_def)

text \<open>In any stream of events a source is announced as new at most once per tenant, even when its statistics
  have been evicted in between and whatever the number of fields that name it.\<close>

theorem new_source_announced_once: "distinct (new_sources (fst (observe_run cfg sqrt_of es dt)))"
  using observe_run_announces [of dt cfg sqrt_of es] by (simp add: announces_def)

subsection \<open>Tenants and thresholds\<close>

lemma observe_entity_tenants:
  "t \<noteq> tid \<Longrightarrow> tenant_state t (snd (observe_entity cfg sqrt_of tid f entity ts dt)) = tenant_state t dt"
  by (simp add: observe_entity_def Let_def split_beta split: option.split)

lemma observe_fields_tenants:
  "t \<noteq> ev_tenant ev \<Longrightarrow> tenant_state t (snd (observe_fields cfg sqrt_of ev ts fs dt)) = tenant_state t dt"
  by (induction fs arbitrary: dt) (auto simp: split_beta observe_entity_tenants split: option.split)

definition raised_for :: "detector_config \<Rightarrow> string \<Rightarrow> anomaly_signal \<Rightarrow> bool" where
  "raised_for cfg tid sg \<longleftrightarrow>
     sg_tenant sg = tid
     \<and> (sg_check sg = CHECK_NEW_SOURCE
        \<or> of_int (dc_min_observed cfg) \<le> sg_observed sg \<and> dc_threshold cfg \<le> sg_zscore sg)"

lemma observe_entity_raised: "list_all (raised_for cfg tid) (fst (observe_entity cfg sqrt_of tid f entity ts dt))"
proof -
  have "list_all (raised_for cfg tid) (fst (judge_bucket cfg sqrt_of tid f ts st))" for st
    by (simp add: judge_bucket_def evaluate_bucket_def rate_signal_def raised_for_def Let_def)
  then show ?thesis
    by (auto simp: observe_entity_def Let_def split_beta raised_for_def new_source_signal_def split: option.split)
qed

lemma observe_fields_raised: "list_all (raised_for cfg (ev_tenant ev)) (fst (observe_fields cfg sqrt_of ev ts fs dt))"
  by (induction fs arbitrary: dt) (auto simp: split_beta observe_entity_raised split: option.split)

text \<open>The events of a tenant leave the baseline of every other tenant untouched, and every signal they raise is
  one of their own tenant: a source never seen before, or a volume at least the configured minimum whose
  deviation reaches the configured threshold.\<close>

theorem tenants_isolated:
  assumes "t \<noteq> ev_tenant ev"
  shows "tenant_state t (snd (observe cfg sqrt_of ev ts dt)) = tenant_state t dt \<and>
    list_all (raised_for cfg (ev_tenant ev)) (fst (observe cfg sqrt_of ev ts dt))"
proof -
  have "tenant_state t (count_processed (ev_tenant ev) dt) = tenant_state t dt"
    using assms by (simp add: count_processed_def Let_def)
  moreover have "list_all (raised_for cfg (ev_tenant ev)) (fst (observe_cardinality cfg sqrt_of ev ts tc))" for tc
    by (simp add: observe_cardinality_def cardinality_signal_def raised_for_def Let_def)
  ultimately show ?thesis using assms
    by (simp add: observe_def Let_def split_beta observe_fields_tenants observe_fields_raised)
qed

definition probe_event :: "string \<Rightarrow> event" where
  "probe_event tid = \<lparr>ev_id = ''e1'', ev_tenant = tid, ev_ts = 0, ev_kind = Log_line,
     ev_source = \<lparr>src_type = Src_log_tail, src_name = None, src_host = None\<rparr>, ev_hint = None,
     ev_labels = [(''src_ip'', PStr ''203.0.113.9'')], ev_payload = [], ev_raw_ref = None\<rparr>"

definition default_detector :: detector_config where
  "default_detector = new_config 60 30 4 20 None 20000 86400 True 15"

theorem tenants_isolated_witness:
  "tenant_state ''b'' (snd (observe default_detector (\<lambda>x. x) (probe_event ''a'') 1 new_detector)) = new_cardinality \<and>
   list_all (raised_for default_detector ''a'') (fst (observe default_detector (\<lambda>x. x) (probe_event ''a'') 1 new_detector))"
  using tenants_isolated [of "''b''" "probe_event ''a''" default_detector "\<lambda>x. x" 1 new_detector]
  by (simp add: probe_event_def tenant_state_def new_detector_def)

subsection \<open>Limits of the detector\<close>

text \<open>
  The empty intervals of a silent entity are counted before its last active interval is judged.  A source
  that sends twenty events a minute, stops for two hours and comes back is reported: its ordinary last
  minute is compared with the mean the silence has brought down to nothing.  Had it not stopped, the same
  minute would raise nothing.
\<close>

definition steady_source :: "time \<Rightarrow> entity_stats" where
  "steady_source start =
     \<lparr>es_entity = ''203.0.113.9'', es_buckets_seen = 60, es_count = 20, es_bucket_start = start, es_mean = 20, es_variance = 0,
      es_total = 1220, es_first_seen = 0, es_last_seen = start\<rparr>"

lemma silent_model:
  "es_mean ((close_bucket cfg 0 ^^ n) st) = (1 - dc_alpha cfg) ^ n * es_mean st"
  "es_variance st = 0 \<Longrightarrow> (1 - dc_alpha cfg) * es_variance ((close_bucket cfg 0 ^^ n) st) =
     (es_mean st)\<^sup>2 * (1 - dc_alpha cfg) ^ n * (1 - (1 - dc_alpha cfg) ^ n)"
  "es_count ((close_bucket cfg 0 ^^ n) st) = es_count st"
  "es_bucket_start ((close_bucket cfg 0 ^^ n) st) = es_bucket_start st"
  "es_buckets_seen ((close_bucket cfg 0 ^^ n) st) = es_buckets_seen st + int n"
proof -
  show mean: "es_mean ((close_bucket cfg 0 ^^ n) st) = (1 - dc_alpha cfg) ^ n * es_mean st" for n
    by (induction n) (simp_all add: close_bucket_def update_model_def ewma_mean_def)
  show "(1 - dc_alpha cfg) * es_variance ((close_bucket cfg 0 ^^ n) st) =
     (es_mean st)\<^sup>2 * (1 - dc_alpha cfg) ^ n * (1 - (1 - dc_alpha cfg) ^ n)" if "es_variance st = 0"
  proof (induction n)
    case (Suc n)
    let ?q = "1 - dc_alpha cfg" and ?v = "es_variance ((close_bucket cfg 0 ^^ n) st)"
    have "?q * es_variance ((close_bucket cfg 0 ^^ Suc n) st) = ?q * (dc_alpha cfg * (?q ^ n * es_mean st)\<^sup>2 + ?q * ?v)"
      by (simp add: close_bucket_def update_model_def ewma_variance_def mean)
    also have "\<dots> = ?q * (1 - ?q) * (?q ^ n * es_mean st)\<^sup>2 + ?q * (?q * ?v)"
      by (simp add: distrib_left mult.assoc)
    finally show ?case by (simp only: Suc.IH) (simp add: power2_eq_square algebra_simps)
  qed (simp add: that)
qed (induction n; simp add: close_bucket_def update_model_def)+

theorem silence_turns_normal_into_anomaly:
  assumes "sqrt_of 1 = 1"
  defines "judge \<equiv> \<lambda>ts. judge_bucket default_detector sqrt_of ''acme'' ''labels.src_ip'' ts
      (count_event ts (close_stale_buckets default_detector ts (steady_source (seconds 60))))"
  shows "fst (judge (seconds 7320)) \<noteq> [] \<and> fst (judge (seconds 120)) = []"
proof -
  let ?st = "(close_bucket default_detector 0 ^^ 120) (steady_source (seconds 60))"
  have cfg: "dc_alpha default_detector = 1 / 8" "dc_bucket default_detector = 60" "dc_warmup default_detector = 30"
    "dc_threshold default_detector = 4" "dc_min_observed default_detector = 20"
    by (simp_all add: default_detector_def new_config_def)
  have stale: "close_stale_buckets default_detector (seconds 7320) (steady_source (seconds 60)) = ?st"
    by (simp add: close_stale_buckets_def steady_source_def cfg usec_def)
  have bound: "3200 * ((7 / 8) ^ 120 * (1 - (7 / 8) ^ 120)) \<le> (7 :: rat)"
    by (simp add: power_divide)
  have "es_variance ?st \<le> 1"
    using silent_model(2) [of "steady_source (seconds 60)" default_detector 120] bound
    by (simp add: cfg steady_source_def)
  then have "zscore sqrt_of (es_mean ?st) (es_variance ?st) 20 = 20 - es_mean ?st"
    by (simp add: zscore_def VARIANCE_FLOOR_def max_def assms(1))
  moreover have "es_mean ?st \<le> 1"
    by (simp add: silent_model(1) cfg steady_source_def power_divide)
  ultimately have "4 \<le> zscore sqrt_of (es_mean ?st) (es_variance ?st) 20" by simp
  then have "fst (judge (seconds 7320)) \<noteq> []"
    by (simp add: judge_def stale judge_bucket_def evaluate_bucket_def count_event_def cfg silent_model split_beta)
       (simp add: steady_source_def usec_def)
  moreover have "fst (judge (seconds 120)) = []"
    by (simp add: judge_def judge_bucket_def evaluate_bucket_def count_event_def close_stale_buckets_def cfg
        steady_source_def usec_def zscore_def)
  ultimately show ?thesis ..
qed

text \<open>
  Entities are evicted in the order they were created, not in the order they were last seen: the entity
  seen most recently goes first when it is the oldest, and an expired one behind it stays.
\<close>

theorem active_entity_evicted_first:
  fixes key :: "string \<Rightarrow> entity_key"
  defines "entry \<equiv> \<lambda>k t. (key k, (steady_source 0)\<lparr>es_last_seen := seconds t\<rparr>)"
  shows "dt_entities (enforce_limits (default_detector\<lparr>dc_max_entities := 2\<rparr>) (seconds 100000)
      (new_detector\<lparr>dt_entities := [entry ''a'' 100000, entry ''b'' 1, entry ''c'' 2]\<rparr>)) =
    [entry ''b'' 1, entry ''c'' 2]"
  by (simp add: entry_def enforce_limits_def expire_entities_def default_detector_def new_config_def new_detector_def usec_def)

end
