(* ===== verification/Crypto.thy ===== *)
theory Crypto
  imports Sha256 Json
begin

section \<open>Keyed digests, key derivation and Base64\<close>

text \<open>
  What \<open>tenancy/auth.py\<close> uses of the standard library: \<open>hmac.new(key, msg, sha256)\<close> (RFC 2104),
  \<open>hashlib.scrypt\<close> (RFC 7914) and the URL-safe alphabet of \<open>base64\<close> (RFC 4648), whose decoder skips the
  characters that are not of the alphabet.  Bytes are integers below 256.  The lemma that the session
  tokens rest on is the round trip of Base64.
\<close>

subsection \<open>HMAC-SHA256\<close>

definition word_bytes :: "w32 \<Rightarrow> int list" where
  "word_bytes w = be_bytes 4 (uint w)"

definition sha256_bytes :: "int list \<Rightarrow> int list" where
  "sha256_bytes m = concat (map word_bytes (sha256 m))"

definition hmac_key :: "int list \<Rightarrow> int list" where
  "hmac_key k = (let k' = (if 64 < length k then sha256_bytes k else k) in k' @ replicate (64 - length k') 0)"

definition hmac_sha256 :: "int list \<Rightarrow> int list \<Rightarrow> int list" where
  "hmac_sha256 k m =
     sha256_bytes (map (\<lambda>b. xor b 92) (hmac_key k) @ sha256_bytes (map (\<lambda>b. xor b 54) (hmac_key k) @ m))"

definition hex_of :: "int list \<Rightarrow> string" where
  "hex_of bs = concat (map (hex_digits 2) bs)"

subsection \<open>scrypt\<close>

text \<open>PBKDF2 with one iteration: the blocks are the keyed digests of the salt followed by their number.\<close>

definition pbkdf2_once :: "int list \<Rightarrow> int list \<Rightarrow> nat \<Rightarrow> int list" where
  "pbkdf2_once password salt dklen =
     take dklen (concat (map (\<lambda>i. hmac_sha256 password (salt @ be_bytes 4 (int i))) [1..<Suc ((dklen + 31) div 32)]))"

definition rotl :: "nat \<Rightarrow> w32 \<Rightarrow> w32" where
  "rotl n w = push_bit n w OR drop_bit (32 - n) w"

definition salsa_add :: "nat \<Rightarrow> nat \<Rightarrow> nat \<Rightarrow> nat \<Rightarrow> w32 list \<Rightarrow> w32 list" where
  "salsa_add i j k r x = x[i := x ! i XOR rotl r (x ! j + x ! k)]"

definition quarter_round :: "nat \<Rightarrow> nat \<Rightarrow> nat \<Rightarrow> nat \<Rightarrow> w32 list \<Rightarrow> w32 list" where
  "quarter_round a b c d x =
     salsa_add a d c 18 (salsa_add d c b 13 (salsa_add c b a 9 (salsa_add b a d 7 x)))"

definition double_round :: "w32 list \<Rightarrow> w32 list" where
  "double_round x =
     fold (\<lambda>(a, b, c, d). quarter_round a b c d)
       [(0, 4, 8, 12), (5, 9, 13, 1), (10, 14, 2, 6), (15, 3, 7, 11),
        (0, 1, 2, 3), (5, 6, 7, 4), (10, 11, 8, 9), (15, 12, 13, 14)] x"

definition salsa20_8 :: "w32 list \<Rightarrow> w32 list" where
  "salsa20_8 x = map2 (+) ((double_round ^^ 4) x) x"

fun mix_blocks :: "w32 list \<Rightarrow> w32 list list \<Rightarrow> w32 list list" where
  "mix_blocks x [] = []"
| "mix_blocks x (b # bs) = (let y = salsa20_8 (map2 (XOR) x b) in y # mix_blocks y bs)"

definition evens :: "'a list \<Rightarrow> 'a list" where
  "evens xs = map (\<lambda>i. xs ! (2 * i)) [0..<(length xs + 1) div 2]"

definition odds :: "'a list \<Rightarrow> 'a list" where
  "odds xs = map (\<lambda>i. xs ! (2 * i + 1)) [0..<length xs div 2]"

definition block_mix :: "w32 list list \<Rightarrow> w32 list list" where
  "block_mix bs = (let ys = mix_blocks (last bs) bs in evens ys @ odds ys)"

definition integerify :: "w32 list list \<Rightarrow> int" where
  "integerify bs = uint (last bs ! 0)"

text \<open>The table of the states \<open>x, mix x, mix (mix x), ...\<close>, then as many lookups in it.\<close>

fun mix_table :: "nat \<Rightarrow> w32 list list \<Rightarrow> w32 list list list \<times> w32 list list" where
  "mix_table 0 x = ([], x)"
| "mix_table (Suc n) x = (case mix_table n (block_mix x) of (v, y) \<Rightarrow> (x # v, y))"

definition mix_lookup :: "w32 list list list \<Rightarrow> nat \<Rightarrow> w32 list list \<Rightarrow> w32 list list" where
  "mix_lookup v n x = block_mix (map2 (map2 (XOR)) x (v ! nat (integerify x mod int n)))"

definition ro_mix :: "nat \<Rightarrow> w32 list list \<Rightarrow> w32 list list" where
  "ro_mix n x = (case mix_table n x of (v, y) \<Rightarrow> (mix_lookup v n ^^ n) y)"

fun le_words :: "int list \<Rightarrow> w32 list" where
  "le_words (a # b # c # d # bs) = word_of_int (((d * 256 + c) * 256 + b) * 256 + a) # le_words bs"
| "le_words _ = []"

definition scrypt_lane :: "nat \<Rightarrow> int list \<Rightarrow> int list" where
  "scrypt_lane n bytes = concat (map (\<lambda>w. rev (word_bytes w)) (concat (ro_mix n (blocks (le_words bytes)))))"

definition scrypt :: "int list \<Rightarrow> int list \<Rightarrow> nat \<Rightarrow> nat \<Rightarrow> nat \<Rightarrow> nat \<Rightarrow> int list" where
  "scrypt password salt n r p dklen =
     (let b = pbkdf2_once password salt (p * 128 * r);
          lanes = map (\<lambda>i. take (128 * r) (drop (i * 128 * r) b)) [0..<p]
      in pbkdf2_once password (concat (map (scrypt_lane n) lanes)) dklen)"

subsection \<open>Base64\<close>

definition B64_ALPHABET :: string where
  "B64_ALPHABET = ''ABCDEFGHIJKLMNOPQRSTUVWXYZabcdefghijklmnopqrstuvwxyz0123456789-_''"

definition b64_char :: "int \<Rightarrow> char" where
  "b64_char n = B64_ALPHABET ! nat n"

fun b64_encode :: "int list \<Rightarrow> string" where
  "b64_encode [] = []"
| "b64_encode [a] = [b64_char (a div 4), b64_char (a mod 4 * 16), CHR ''='', CHR ''='']"
| "b64_encode [a, b] = [b64_char (a div 4), b64_char (a mod 4 * 16 + b div 16), b64_char (b mod 16 * 4), CHR ''='']"
| "b64_encode (a # b # c # bs) =
     [b64_char (a div 4), b64_char (a mod 4 * 16 + b div 16), b64_char (b mod 16 * 4 + c div 64), b64_char (c mod 64)]
     @ b64_encode bs"

text \<open>The decoder translates \<open>-\<close> and \<open>_\<close> to \<open>+\<close> and \<open>/\<close> first, so both pairs are read.\<close>

definition b64_value :: "char \<Rightarrow> int option" where
  "b64_value c =
     (if is_upper c then Some (code c - 65)
      else if is_lower c then Some (code c - 71)
      else if is_digit c then Some (code c + 4)
      else if c \<in> {CHR ''-'', CHR ''+''} then Some 62
      else if c \<in> {CHR ''_'', CHR ''/''} then Some 63
      else None)"

text \<open>
  \<open>binascii.a2b_base64\<close>: the position in the group of four, the number of padding characters seen since the
  last digit and the bits left over.  \<open>None\<close> is its error.
\<close>

fun b64_scan :: "nat \<Rightarrow> nat \<Rightarrow> int \<Rightarrow> string \<Rightarrow> int list option" where
  "b64_scan q pads left [] = (if q = 0 then Some [] else None)"
| "b64_scan q pads left (c # cs) =
     (if c = CHR ''='' then
        (if 2 \<le> q \<and> 4 \<le> q + Suc pads then Some []
         else b64_scan q (if 2 \<le> q then Suc pads else pads) left cs)
      else case b64_value c of
        None \<Rightarrow> b64_scan q pads left cs
      | Some v \<Rightarrow>
          if q = 0 then b64_scan 1 0 v cs
          else if q = 1 then map_option ((#) (left * 4 + v div 16)) (b64_scan 2 0 (v mod 16) cs)
          else if q = 2 then map_option ((#) (left * 16 + v div 4)) (b64_scan 3 0 (v mod 4) cs)
          else map_option ((#) (left * 64 + v)) (b64_scan 0 0 0 cs))"

definition b64_decode :: "string \<Rightarrow> int list option" where
  "b64_decode s = b64_scan 0 0 0 s"

definition b64_pad :: "string \<Rightarrow> string" where
  "b64_pad s = s @ replicate (nat ((- int (length s)) mod 4)) (CHR ''='')"

definition strip_padding :: "string \<Rightarrow> string" where
  "strip_padding s = rev (dropWhile (\<lambda>c. c = CHR ''='') (rev s))"

text \<open>\<open>bytes.decode("utf-8")\<close>; code points above 255 are outside the model's texts.\<close>

fun utf8_decode :: "int list \<Rightarrow> string option" where
  "utf8_decode [] = Some []"
| "utf8_decode (b # bs) =
     (if b < 128 then map_option ((#) (char_of b)) (utf8_decode bs)
      else if 194 \<le> b \<and> b < 196
      then (case bs of
              [] \<Rightarrow> None
            | c # cs \<Rightarrow>
                if 128 \<le> c \<and> c < 192
                then map_option ((#) (char_of (b mod 64 * 64 + (c - 128)))) (utf8_decode cs)
                else None)
      else None)"

subsection \<open>Base64 is lossless\<close>

lemma b64_digit: "0 \<le> n \<Longrightarrow> n < 64 \<Longrightarrow> b64_value (b64_char n) = Some n \<and> b64_char n \<noteq> CHR ''=''"
proof -
  assume "0 \<le> n" "n < 64"
  then have "n \<in> set [0..63]" by simp
  moreover have "list_all (\<lambda>n. b64_value (b64_char n) = Some n \<and> b64_char n \<noteq> CHR ''='') [0..63]" by code_simp
  ultimately show ?thesis by (simp add: list_all_iff)
qed

definition is_byte :: "int \<Rightarrow> bool" where
  "is_byte b \<longleftrightarrow> 0 \<le> b \<and> b < 256"

lemma byte_digits:
  assumes "is_byte a"
  shows "0 \<le> a div 4 \<and> a div 4 < 64" "0 \<le> a mod 4 * 16 \<and> a mod 4 * 16 + 15 < 64"
    "0 \<le> a div 16 \<and> a div 16 < 16" "0 \<le> a mod 16 * 4 \<and> a mod 16 * 4 + 3 < 64"
    "0 \<le> a div 64 \<and> a div 64 < 4" "0 \<le> a mod 64 \<and> a mod 64 < 64"
  using assms by (simp_all add: is_byte_def) presburger+

lemma b64_chars:
  assumes "0 \<le> n" "n < 64"
  shows "b64_value (b64_char n) = Some n" "b64_char n \<noteq> CHR ''=''" "CHR ''='' \<noteq> b64_char n"
  using b64_digit [OF assms] by auto

lemma scan_steps:
  assumes "0 \<le> v" "v < 64"
  shows "b64_scan 0 p l (b64_char v # cs) = b64_scan 1 0 v cs"
    "b64_scan 1 p l (b64_char v # cs) = map_option ((#) (l * 4 + v div 16)) (b64_scan 2 0 (v mod 16) cs)"
    "b64_scan 2 p l (b64_char v # cs) = map_option ((#) (l * 16 + v div 4)) (b64_scan 3 0 (v mod 4) cs)"
    "b64_scan 3 p l (b64_char v # cs) = map_option ((#) (l * 64 + v)) (b64_scan 0 0 0 cs)"
  unfolding b64_scan.simps(2) b64_chars(1) [OF assms] if_not_P [OF b64_chars(2) [OF assms]] by simp_all

lemma scan_padding: "b64_scan 2 0 l [CHR ''='', CHR ''=''] = Some []" "b64_scan 3 0 l [CHR ''=''] = Some []"
  by simp_all

lemma scan_group:
  assumes "0 \<le> v \<and> v < 64" "0 \<le> w \<and> w < 64" "0 \<le> x \<and> x < 64" "0 \<le> y \<and> y < 64"
  shows "b64_scan 0 0 0 (b64_char v # b64_char w # b64_char x # b64_char y # cs) =
    map_option (\<lambda>r. (v * 4 + w div 16) # (w mod 16 * 16 + x div 4) # (x mod 4 * 64 + y) # r) (b64_scan 0 0 0 cs)"
    "b64_scan 0 0 0 [b64_char v, b64_char w, b64_char x, CHR ''=''] = Some [v * 4 + w div 16, w mod 16 * 16 + x div 4]"
    "b64_scan 0 0 0 [b64_char v, b64_char w, CHR ''='', CHR ''=''] = Some [v * 4 + w div 16]"
  using assms by (simp_all only: scan_steps scan_padding option.map option.map_comp comp_def)

lemma byte_regroup:
  assumes "is_byte a" "is_byte b" "is_byte c"
  shows "a div 4 * 4 + (a mod 4 * 16) div 16 = a" "a div 4 * 4 + (a mod 4 * 16 + b div 16) div 16 = a"
    "(a mod 4 * 16 + b div 16) mod 16 * 16 + (b mod 16 * 4) div 4 = b"
    "(a mod 4 * 16 + b div 16) mod 16 * 16 + (b mod 16 * 4 + c div 64) div 4 = b"
    "(b mod 16 * 4 + c div 64) mod 4 * 64 + c mod 64 = c"
proof -
  note r = byte_digits [OF assms(2)] byte_digits [OF assms(3)]
  have b: "b div 16 div 16 = 0" "b div 16 mod 16 = b div 16"
    using r(3) by (metis div_pos_pos_trivial, metis mod_pos_pos_trivial)
  have c: "c div 64 div 4 = 0" "c div 64 mod 4 = c div 64"
    using r(11) by (metis div_pos_pos_trivial, metis mod_pos_pos_trivial)
  show "a div 4 * 4 + (a mod 4 * 16) div 16 = a" by simp
  show "a div 4 * 4 + (a mod 4 * 16 + b div 16) div 16 = a" using b(1) by (simp del: div_mult2_eq)
  show "(a mod 4 * 16 + b div 16) mod 16 * 16 + (b mod 16 * 4) div 4 = b" using b(2) by simp
  show "(a mod 4 * 16 + b div 16) mod 16 * 16 + (b mod 16 * 4 + c div 64) div 4 = b" using b(2) c(1) by simp
  show "(b mod 16 * 4 + c div 64) mod 4 * 64 + c mod 64 = c" using c(2) by simp
qed

lemma byte_groups:
  assumes "is_byte a" "is_byte b" "is_byte c"
  shows "0 \<le> a div 4 \<and> a div 4 < 64" "0 \<le> a mod 4 * 16 \<and> a mod 4 * 16 < 64"
    "0 \<le> a mod 4 * 16 + b div 16 \<and> a mod 4 * 16 + b div 16 < 64" "0 \<le> b mod 16 * 4 \<and> b mod 16 * 4 < 64"
    "0 \<le> b mod 16 * 4 + c div 64 \<and> b mod 16 * 4 + c div 64 < 64" "0 \<le> c mod 64 \<and> c mod 64 < 64"
proof -
  have add: "0 \<le> x + y \<and> x + y < 64" if "0 \<le> x \<and> x + k < 64" "0 \<le> y \<and> y < k + 1" for x y k :: int
    using that by linarith
  have low: "0 \<le> x \<and> x < 64" if "0 \<le> x \<and> x + k < 64" "0 \<le> k" for x k :: int
    using that by linarith
  note da = byte_digits [OF assms(1)] and db = byte_digits [OF assms(2)] and dc = byte_digits [OF assms(3)]
  show "0 \<le> a div 4 \<and> a div 4 < 64" by (rule da(1))
  show "0 \<le> a mod 4 * 16 \<and> a mod 4 * 16 < 64" using low [OF da(2)] by simp
  show "0 \<le> a mod 4 * 16 + b div 16 \<and> a mod 4 * 16 + b div 16 < 64" using add [OF da(2)] db(3) by simp
  show "0 \<le> b mod 16 * 4 \<and> b mod 16 * 4 < 64" using low [OF db(4)] by simp
  show "0 \<le> b mod 16 * 4 + c div 64 \<and> b mod 16 * 4 + c div 64 < 64" using add [OF db(4)] dc(5) by simp
  show "0 \<le> c mod 64 \<and> c mod 64 < 64" by (rule dc(6))
qed

lemma byte_zero: "is_byte 0"
  by (simp add: is_byte_def)

lemma b64_scan_encode: "list_all is_byte bs \<Longrightarrow> b64_scan 0 0 0 (b64_encode bs) = Some bs"
proof (induction bs rule: b64_encode.induct)
  case (2 a)
  then have a: "is_byte a" by simp
  note g = byte_groups [OF a byte_zero byte_zero]
  show ?case
    by (simp only: b64_encode.simps scan_group(3) [OF g(1,2,6,6)] byte_regroup(1) [OF a byte_zero byte_zero])
next
  case (3 a b)
  then have ab: "is_byte a" "is_byte b" by simp_all
  note g = byte_groups [OF ab byte_zero]
  show ?case
    by (simp only: b64_encode.simps scan_group(2) [OF g(1,3,4,6)] byte_regroup(2,3) [OF ab byte_zero])
next
  case (4 a b c bs)
  then have abc: "is_byte a" "is_byte b" "is_byte c" and ih: "b64_scan 0 0 0 (b64_encode bs) = Some bs" by simp_all
  note g = byte_groups [OF abc]
  show ?case
    by (simp only: b64_encode.simps append.simps scan_group(1) [OF g(1,3,5,6)] byte_regroup(2,4,5) [OF abc] ih option.map)
qed simp

lemma b64_padding:
  assumes "list_all is_byte bs"
  shows "\<exists>body k. b64_encode bs = body @ replicate k (CHR ''='') \<and> CHR ''='' \<notin> set body \<and> k < 4
    \<and> (length body + k) mod 4 = 0"
  using assms
proof (induction bs rule: b64_encode.induct)
  case 1
  show ?case by (intro exI [of _ "[]"] exI [of _ 0]) simp
next
  case (2 a)
  then have a: "is_byte a" by simp
  note g = byte_groups [OF a byte_zero byte_zero]
  show ?case
    by (intro exI [of _ "[b64_char (a div 4), b64_char (a mod 4 * 16)]"] exI [of _ 2])
       (simp add: b64_chars g numeral_eq_Suc)
next
  case (3 a b)
  then have ab: "is_byte a" "is_byte b" by simp_all
  note g = byte_groups [OF ab byte_zero]
  show ?case
    by (intro exI [of _ "[b64_char (a div 4), b64_char (a mod 4 * 16 + b div 16), b64_char (b mod 16 * 4)]"] exI [of _ 1])
       (simp add: b64_chars g)
next
  case (4 a b c bs)
  then have abc: "is_byte a" "is_byte b" "is_byte c" by simp_all
  note g = byte_groups [OF abc]
  obtain body k where ih: "b64_encode bs = body @ replicate k (CHR ''='')" "CHR ''='' \<notin> set body" "k < 4"
    "(length body + k) mod 4 = 0" using 4 by auto
  have len: "(length (w # x # y # z # body) + k) mod 4 = 0" for w x y z using ih(4) by simp
  show ?case
    by (intro exI [of _ "b64_char (a div 4) # b64_char (a mod 4 * 16 + b div 16) # b64_char (b mod 16 * 4 + c div 64)
          # b64_char (c mod 64) # body"] exI [of _ k] conjI len)
       (simp_all add: ih(1-3) b64_chars g)
qed

lemma strip_then_pad:
  assumes "list_all is_byte bs"
  shows "b64_pad (strip_padding (b64_encode bs)) = b64_encode bs"
proof -
  obtain body k where b: "b64_encode bs = body @ replicate k (CHR ''='')"
    "CHR ''='' \<notin> set body" "k < 4" "(length body + k) mod 4 = 0" using b64_padding [OF assms] by (elim exE conjE)
  have drop: "dropWhile p (rev w) = rev w" if "\<forall>c \<in> set w. \<not> p c" for p and w :: string
    using that by (cases w rule: rev_cases) simp_all
  have "\<forall>c \<in> set body. \<not> c = CHR ''=''" using b(2) by (intro ballI notI) (simp only:)
  from drop [OF this] have "dropWhile (\<lambda>c. c = CHR ''='') (rev body) = rev body" .
  then have "strip_padding (b64_encode bs) = body"
    by (simp add: strip_padding_def b(1) dropWhile_append)
  moreover have "nat ((- int (length body)) mod 4) = k"
  proof -
    from b(4) obtain m where "length body + k = 4 * m" by (auto simp: dvd_def simp flip: dvd_eq_mod_eq_0)
    then have "- int (length body) = int k + 4 * (- int m)" by linarith
    then show ?thesis using b(3) by (simp only: mod_mult_self2) simp
  qed
  ultimately show ?thesis by (simp add: b64_pad_def b(1))
qed

lemma b64_roundtrip: "list_all is_byte bs \<Longrightarrow> b64_decode (b64_pad (strip_padding (b64_encode bs))) = Some bs"
  by (simp add: strip_then_pad b64_decode_def b64_scan_encode)

lemma utf8_bytes: "list_all is_byte (utf8 s)"
proof -
  have "list_all is_byte (utf8_char c)" for c
    using code_range [of c] by (auto simp: utf8_char_def is_byte_def)
  then show ?thesis by (induction s) (simp_all add: utf8_def)
qed

lemma utf8_ascii: "list_all (\<lambda>c. code c < 128) s \<Longrightarrow> utf8 s = map code s"
  by (induction s) (simp_all add: utf8_def utf8_char_def)

lemma utf8_decode_ascii: "list_all (\<lambda>c. code c < 128) s \<Longrightarrow> utf8_decode (utf8 s) = Some s"
  by (induction s) (simp_all add: utf8_ascii char_of_code)

end
