(* ===== verification/Auth.thy ===== *)
theory Auth
  imports AuditLog Rbac Crypto Util
begin

section \<open>Authentication\<close>

text \<open>
  \<open>tenancy/auth.py\<close>: API keys looked up by their identifier and compared by their scrypt digest, a cache of
  the successful authentications, signed sessions of the console, and the bootstrap of an empty database.
  The state joins the store, the cache (digest of the key presented, principal, expiry), the instants
  of the last writes of \<open>last_used_at\<close>, and the counters.  Random texts (\<open>uuid\<close> and \<open>tok\<close>) and the two clocks
  (\<open>tick\<close> for the monotonic one, \<open>now\<close> for the wall clock) are arguments.  An operation under the lock is
  one step.
\<close>

definition KEY_PREFIX :: string where "KEY_PREFIX = ''thot_''"
definition AUTH_CACHE_TTL :: time where "AUTH_CACHE_TTL = seconds 60"
definition TOUCH_INTERVAL :: time where "TOUCH_INTERVAL = seconds 60"
definition DEV_BOOTSTRAP_KEY :: string where "DEV_BOOTSTRAP_KEY = ''thot_BOOTSTRAP_changemebeforefirstuse''"

record auth_settings =
  ac_secret_key :: string
  ac_session_ttl :: int
  ac_env :: string
  ac_demo_tenant :: string
  ac_bootstrap_key :: string

record key_service =
  ks_store :: store
  ks_cache :: "(string \<times> principal \<times> time) list"
  ks_touched :: "(string \<times> time) list"
  ks_authentications :: int
  ks_failures :: int

type_synonym 'a key_op = "(key_service, exn, 'a) op"

definition on_keys :: "'a store_op \<Rightarrow> 'a key_op" where
  "on_keys m s = (case m (ks_store s) of (r, st) \<Rightarrow> (r, s\<lparr>ks_store := st\<rparr>))"

subsection \<open>Keys and digests\<close>

definition hash_key :: "auth_settings \<Rightarrow> string \<Rightarrow> string" where
  "hash_key cfg key =
     ''scrypt$8192$8$1$'' @ hex_of (scrypt (utf8 key) (utf8 (ac_secret_key cfg)) 8192 8 1 32)"

definition split_key :: "string \<Rightarrow> (string \<times> string) option" where
  "split_key key =
     (case split_on (CHR ''_'') key of
        [p, kid, secret] \<Rightarrow>
          if p \<noteq> ''thot'' \<or> kid = [] \<or> length secret < 16 then None else Some (kid, secret)
      | _ \<Rightarrow> None)"

definition key_info :: "api_key \<Rightarrow> api_key" where
  "key_info k = k\<lparr>k_hash := []\<rparr>"

definition make_key :: "string \<Rightarrow> string \<Rightarrow> string" where
  "make_key kid secret = KEY_PREFIX @ kid @ ''_'' @ secret"

definition new_key_record :: "auth_settings \<Rightarrow> string \<Rightarrow> string \<Rightarrow> string \<Rightarrow> role \<Rightarrow> string \<Rightarrow> time \<Rightarrow> api_key" where
  "new_key_record cfg kid key tid r label now =
     \<lparr>k_id = kid, k_tenant = tid, k_label = take 80 label, k_role = r, k_prefix = take (length KEY_PREFIX + 6) key,
      k_created_at = now, k_last_used_at = None, k_revoked_at = None, k_hash = hash_key cfg key\<rparr>"

definition store_key :: "api_key \<Rightarrow> string \<Rightarrow> string \<Rightarrow> time \<Rightarrow> unit key_op" where
  "store_key k who who_role now =
     bindE (on_keys (insert_api_key k)) (\<lambda>_.
     bindE (on_keys (record_audit (k_tenant k) who ''key.create'' who_role
              [(''type'', PStr ''api_key''), (''id'', PStr (k_id k))] []
              [(''key_id'', PStr (k_id k)), (''role'', PStr (role_str (k_role k))), (''label'', PStr (k_label k))]
              [(''note'', PStr ''le secret n est jamais journalise ni relisible'')] now)) (\<lambda>_.
     returnE ()))"

definition create ::
    "auth_settings \<Rightarrow> string \<Rightarrow> string \<Rightarrow> string \<Rightarrow> role \<Rightarrow> string \<Rightarrow> string \<Rightarrow> string \<Rightarrow> time \<Rightarrow> (api_key \<times> string) key_op" where
  "create cfg uuid tok tid r label who who_role now =
     bindE (readE (\<lambda>s. get_tenant tid (ks_store s))) (\<lambda>t. case t of
       None \<Rightarrow> raiseE (Err NotFoundError (''tenant inconnu: '' @ tid) [(''tenant_id'', PStr tid)])
     | Some t \<Rightarrow>
         let kid = take 12 (str_upper (''k'' @ uuid));
             key = make_key kid (filter (\<lambda>c. c \<notin> {CHR ''-'', CHR ''_''}) tok);
             k = new_key_record cfg kid key (t_id t) r label now
         in bindE (store_key k who who_role now) (\<lambda>_. returnE (key_info k, key)))"

definition revoke :: "string \<Rightarrow> string option \<Rightarrow> string \<Rightarrow> time \<Rightarrow> bool key_op" where
  "revoke kid tid who now =
     bindE (readE (\<lambda>s. get_api_key kid (ks_store s))) (\<lambda>found. case found of
       None \<Rightarrow> raiseE (Err NotFoundError (''cle API inconnue: '' @ kid) [(''key_id'', PStr kid)])
     | Some k \<Rightarrow>
         if opt_truthy tid \<and> Some (k_tenant k) \<noteq> tid
         then raiseE (Err NotFoundError (''cle API inconnue: '' @ kid) [])
         else
           bindE (on_keys (revoke_api_key kid tid now)) (\<lambda>revoked.
           bindE (writeE (\<lambda>s. s\<lparr>ks_cache := []\<rparr>)) (\<lambda>_.
           bindE (if revoked
                  then bindE (on_keys (record_audit (k_tenant k) who ''key.revoke'' ''admin''
                         [(''type'', PStr ''api_key''), (''id'', PStr kid)] [(''revoked_at'', PNone)]
                         [(''revoked_at'', PStr (iso_z now))] [] now)) (\<lambda>_. returnE ())
                  else returnE ()) (\<lambda>_.
           returnE revoked))))"

definition list_keys :: "string \<Rightarrow> store \<Rightarrow> api_key list" where
  "list_keys tid st = map key_info (list_api_keys tid st)"

subsection \<open>Authentication of a request\<close>

definition auth_error :: "string \<Rightarrow> exn" where
  "auth_error msg = Err AuthenticationError msg []"

definition count_failure :: "string \<Rightarrow> 'a key_op" where
  "count_failure msg =
     bindE (writeE (\<lambda>s. s\<lparr>ks_failures := ks_failures s + 1\<rparr>)) (\<lambda>_. raiseE (auth_error msg))"

definition key_principal :: "api_key \<Rightarrow> principal" where
  "key_principal k = build_principal (k_tenant k) (role_str (k_role k)) (Some (k_id k)) (k_label k) True"

text \<open>The cache is read under the lock; an expired entry is dropped.\<close>

definition read_cache :: "string \<Rightarrow> time \<Rightarrow> principal option key_op" where
  "read_cache cache_key tick s =
     (case map_of (ks_cache s) cache_key of
        None \<Rightarrow> (Inr None, s)
      | Some (p, expires) \<Rightarrow>
          if tick < expires then (Inr (Some p), s) else (Inr None, s\<lparr>ks_cache := AList.delete cache_key (ks_cache s)\<rparr>))"

definition check_key :: "auth_settings \<Rightarrow> string \<Rightarrow> api_key key_op" where
  "check_key cfg key =
     (case split_key key of
        None \<Rightarrow> count_failure ''format de cle API invalide (attendu: thot_<identifiant>_<secret>)''
      | Some (kid, _) \<Rightarrow>
          bindE (readE (\<lambda>s. get_api_key kid (ks_store s))) (\<lambda>found. case found of
            None \<Rightarrow> count_failure ''cle API inconnue ou revoquee''
          | Some k \<Rightarrow>
              if k_revoked_at k \<noteq> None then count_failure ''cle API inconnue ou revoquee''
              else if hash_key cfg key \<noteq> k_hash k then count_failure ''cle API invalide''
              else returnE k))"

definition remember :: "string \<Rightarrow> api_key \<Rightarrow> time \<Rightarrow> time \<Rightarrow> principal key_op" where
  "remember cache_key k tick now =
     bindE (readE (\<lambda>s. TOUCH_INTERVAL < tick - (case map_of (ks_touched s) (k_id k) of None \<Rightarrow> 0 | Some t \<Rightarrow> t)))
       (\<lambda>touch.
     bindE (writeE (\<lambda>s. s\<lparr>ks_cache := AList.update cache_key (key_principal k, tick + AUTH_CACHE_TTL) (ks_cache s),
                        ks_touched := (if touch then AList.update (k_id k) tick (ks_touched s) else ks_touched s)\<rparr>))
       (\<lambda>_.
     bindE (if touch then on_keys (touch_api_key (k_id k) now) else returnE ()) (\<lambda>_.
     returnE (key_principal k))))"

definition authenticate :: "auth_settings \<Rightarrow> string option \<Rightarrow> time \<Rightarrow> time \<Rightarrow> principal key_op" where
  "authenticate cfg presented tick now =
     bindE (writeE (\<lambda>s. s\<lparr>ks_authentications := ks_authentications s + 1\<rparr>)) (\<lambda>_.
       if \<not> opt_truthy presented then count_failure ''en-tete X-API-Key manquant''
       else
         let key = the presented; cache_key = sha256_hex key
         in bindE (read_cache cache_key tick) (\<lambda>hit. case hit of
              Some p \<Rightarrow> returnE p
            | None \<Rightarrow> bindE (check_key cfg key) (\<lambda>k. remember cache_key k tick now)))"

definition invalidate :: "string option \<Rightarrow> unit key_op" where
  "invalidate kid =
     writeE (\<lambda>s. s\<lparr>ks_cache :=
       (if kid = None then [] else filter (\<lambda>(_, p, _). pr_key_id p \<noteq> kid) (ks_cache s))\<rparr>)"

subsection \<open>Sessions of the console\<close>

definition session_text :: "dict \<Rightarrow> string" where
  "session_text d = ''{'' @ join_with '','' (map (\<lambda>(k, v). json_str k @ '':'' @ canonical_json v) d) @ ''}''"

definition sign :: "auth_settings \<Rightarrow> string \<Rightarrow> string" where
  "sign cfg encoded = hex_of (hmac_sha256 (utf8 (ac_secret_key cfg)) (utf8 encoded))"

definition issue_session :: "auth_settings \<Rightarrow> principal \<Rightarrow> int option \<Rightarrow> time \<Rightarrow> string" where
  "issue_session cfg p ttl now =
     (let life = (case ttl of Some n \<Rightarrow> if n = 0 then ac_session_ttl cfg else n | None \<Rightarrow> ac_session_ttl cfg);
          payload = [(''tenant_id'', PStr (pr_tenant p)), (''role'', PStr (pr_role p)),
                     (''key_id'', PStr (case pr_key_id p of None \<Rightarrow> [] | Some k \<Rightarrow> k)),
                     (''exp'', PInt (now div usec + life))];
          encoded = strip_padding (b64_encode (utf8 (session_text payload)))
      in encoded @ ''.'' @ sign cfg encoded)"

definition is_ascii :: "string \<Rightarrow> bool" where
  "is_ascii s \<longleftrightarrow> list_all (\<lambda>c. code c < 128) s"

definition dict_or :: "dict \<Rightarrow> string \<Rightarrow> pyval \<Rightarrow> pyval" where
  "dict_or d k v = (case map_of d k of None \<Rightarrow> v | Some w \<Rightarrow> w)"

definition session_payload :: "string \<Rightarrow> pyval option" where
  "session_payload encoded =
     (case b64_decode (b64_pad encoded) of
        None \<Rightarrow> None
      | Some bytes \<Rightarrow> (case utf8_decode bytes of None \<Rightarrow> None | Some t \<Rightarrow> json_loads t))"

text \<open>
  The reading of a payload whose signature is right.  A key identifier that is a number is looked up as the
  text the column compares it with.  The errors are those no handler catches: an expiry that is not a number,
  a key identifier that is not a scalar, a field the model of a principal refuses.
\<close>

definition column_text :: "pyval \<Rightarrow> string option" where
  "column_text v =
     (case v of PStr k \<Rightarrow> Some k | PInt n \<Rightarrow> Some (int_str n) | PBool _ \<Rightarrow> Some ''1''
      | PFloat x \<Rightarrow> Some (float_repr x) | _ \<Rightarrow> None)"

definition live_key :: "string \<Rightarrow> store \<Rightarrow> bool" where
  "live_key kid st \<longleftrightarrow> (case get_api_key kid st of None \<Rightarrow> False | Some k \<Rightarrow> k_revoked_at k = None)"

definition session_principal :: "dict \<Rightarrow> string option \<Rightarrow> exn + principal option" where
  "session_principal d kid =
     (let r = py_str (dict_or d ''role'' (PStr ''viewer''))
      in if r \<notin> fst ` set ROLE_CAPABILITIES then Inl (Foreign ''ValidationError'' ''role'')
         else Inr (Some (build_principal (py_str (dict_or d ''tenant_id'' (PStr []))) r kid ''console'' True)))"

definition read_session :: "dict \<Rightarrow> time \<Rightarrow> store \<Rightarrow> exn + principal option" where
  "read_session d now st =
     (case py_int (dict_or d ''exp'' (PInt 0)) of
        None \<Rightarrow> Inl (Foreign ''TypeError'' ''int()'')
      | Some expiry \<Rightarrow>
          let v = dict_or d ''key_id'' PNone
          in if expiry < now div usec then Inr None
             else if \<not> truthy v then session_principal d None
             else case column_text v of
               None \<Rightarrow> Inl (Foreign ''InterfaceError'' ''key_id'')
             | Some kid \<Rightarrow>
                 if \<not> live_key kid st then Inr None
                 else if v \<noteq> PStr kid then Inl (Foreign ''ValidationError'' ''key_id'')
                 else session_principal d (Some kid))"

definition verify_session :: "auth_settings \<Rightarrow> string option \<Rightarrow> time \<Rightarrow> store \<Rightarrow> exn + principal option" where
  "verify_session cfg token now st =
     (if \<not> opt_truthy token \<or> CHR ''.'' \<notin> set (the token) then Inr None
      else case split_first (CHR ''.'') (the token) of
        (encoded, rest) \<Rightarrow>
          let signature = (case rest of None \<Rightarrow> [] | Some r \<Rightarrow> r)
          in if \<not> is_ascii encoded then Inl (Foreign ''UnicodeEncodeError'' ''ascii'')
             else if \<not> is_ascii signature then Inl (Foreign ''TypeError'' ''compare_digest'')
             else if sign cfg encoded \<noteq> signature then Inr None
             else case session_payload encoded of
               None \<Rightarrow> Inr None
             | Some (PDict d) \<Rightarrow> read_session d now st
             | Some _ \<Rightarrow> Inl (Foreign ''AttributeError'' ''get''))"

subsection \<open>Bootstrap\<close>

definition bootstrap_tenant :: "string \<Rightarrow> time \<Rightarrow> tenant" where
  "bootstrap_tenant tid now =
     \<lparr>t_id = tid, t_name = ''Tenant d amorcage'', t_mode = Mode_supervised, t_dry_run = True, t_allowlist = [],
      t_protected = [], t_max_actions = 20, t_cooldown = 300, t_criticality = 1, t_created_at = now, t_updated_at = now\<rparr>"

definition bootstrap :: "auth_settings \<Rightarrow> time \<Rightarrow> tenant option key_op" where
  "bootstrap cfg now =
     bindE (readE (\<lambda>s. list_tenants (ks_store s))) (\<lambda>tenants.
       if tenants \<noteq> [] then returnE None
       else case validate_tenant_id (if ac_env cfg = ''dev'' then ac_demo_tenant cfg else ''admin'') of
         Inl e \<Rightarrow> raiseE (Foreign ''ValidationError'' e)
       | Inr tid \<Rightarrow>
           let t = bootstrap_tenant tid now;
               key = (if ac_bootstrap_key cfg = [] then DEV_BOOTSTRAP_KEY else ac_bootstrap_key cfg);
               rec = \<lparr>k_id = ''BOOTSTRAP'', k_tenant = tid, k_label = ''cle d amorcage (a revoquer)'', k_role = Admin,
                      k_prefix = take 12 key, k_created_at = now, k_last_used_at = None, k_revoked_at = None,
                      k_hash = hash_key cfg key\<rparr>
           in bindE (on_keys (upsert_tenant t now)) (\<lambda>_.
              bindE (on_keys (insert_api_key rec)) (\<lambda>_.
              bindE (on_keys (record_audit tid ''system:bootstrap'' ''tenant.create'' ''system''
                       [(''type'', PStr ''tenant''), (''id'', PStr tid)] []
                       [(''tenant_id'', PStr tid), (''mode'', PStr ''supervised''), (''dry_run'', PBool True)]
                       [(''note'', PStr ''tenant d amorcage cree automatiquement''),
                        (''bootstrap_key_is_dev'', PBool (ac_bootstrap_key cfg = DEV_BOOTSTRAP_KEY))] now)) (\<lambda>_.
              returnE (Some t)))))"

definition mask_key :: "string \<Rightarrow> string" where
  "mask_key key =
     (case split_key key of
        None \<Rightarrow> ''<cle invalide>''
      | Some (kid, _) \<Rightarrow> KEY_PREFIX @ kid @ ''_<secret masque>'')"

text \<open>\<open>Settings._validate_bootstrap_key\<close>: the format the configuration accepts.\<close>

definition bootstrap_key_accepted :: "string \<Rightarrow> bool" where
  "bootstrap_key_accepted key \<longleftrightarrow>
     (case split_on (CHR ''_'') key of [p, _, secret] \<Rightarrow> p = ''thot'' \<and> 16 \<le> length secret | _ \<Rightarrow> False)"

end
