(* ===== verification/AuthProps.thy ===== *)
theory AuthProps
  imports Auth
begin

section \<open>Properties of authentication\<close>

text \<open>
  A principal is only given for a key that is active and whose digest is the stored one, also when the
  answer comes from the cache; a revoked key is dead for good; a key just created works; a session says
  who it was issued to.  The operations are the steps of a relation, and the facts are invariants of it.
\<close>

subsection \<open>Keys in the store\<close>

lemma find_update_where:
  "(\<And>x. q (f x) = q x) \<Longrightarrow> find q (update_where p f xs) = map_option (\<lambda>x. if p x then f x else x) (find q xs)"
  by (induction xs) (auto simp: update_where_def)

text \<open>A key as the store holds it, apart from the instant of its last use.\<close>

definition key_at :: "store \<Rightarrow> string \<Rightarrow> api_key option" where
  "key_at st kid = map_option (\<lambda>k. k\<lparr>k_last_used_at := None\<rparr>) (get_api_key kid st)"

lemma find_append_Some: "find p xs = Some x \<Longrightarrow> find p (xs @ ys) = Some x"
  by (induction xs) (auto split: if_splits)

lemma get_api_key_id: "get_api_key kid st = Some r \<Longrightarrow> k_id r = kid"
  by (auto simp: get_api_key_def find_Some_iff)

lemma key_at_id: "key_at st kid = Some k \<Longrightarrow> k_id k = kid"
  by (auto simp: key_at_def dest: get_api_key_id)

lemma touch_keys: "key_at (snd (touch_api_key k now st)) = key_at st"
  by (auto simp: touch_api_key_def key_at_def get_api_key_def op_simps find_update_where option.map_comp comp_def
      intro!: ext option.map_cong)

lemma insert_keys: "key_at st \<subseteq>\<^sub>m key_at (snd (insert_api_key k st))"
  by (auto simp: insert_api_key_def op_simps get_api_key_def key_at_def map_le_def find_append_Some)

lemma audit_keys: "key_at (snd (record_audit a b c d e f g h i st)) = key_at st"
  by (intro ext) (simp add: record_audit_def append_audit_def Let_def get_api_key_def key_at_def)

lemma tenant_keys: "key_at (snd (upsert_tenant t now st)) = key_at st"
  by (intro ext) (auto simp: upsert_tenant_def op_simps write_tenant_def get_api_key_def key_at_def split: option.splits)

lemma revoke_keys:
  "key_at (snd (revoke_api_key kid tid now st)) k =
     (case key_at st k of
        None \<Rightarrow> None
      | Some r \<Rightarrow>
          Some (if k = kid \<and> k_revoked_at r = None \<and> (opt_truthy tid \<longrightarrow> Some (k_tenant r) = tid)
                then r\<lparr>k_revoked_at := Some (to_millis now)\<rparr> else r))"
proof -
  let ?hit = "\<lambda>k. k_id k = kid \<and> k_revoked_at k = None \<and> (opt_truthy tid \<longrightarrow> Some (k_tenant k) = tid)"
  have "get_api_key k (snd (revoke_api_key kid tid now st)) =
      map_option (\<lambda>r. if ?hit r then r\<lparr>k_revoked_at := Some (to_millis now)\<rparr> else r) (get_api_key k st)"
    by (simp add: revoke_api_key_def op_simps get_api_key_def Let_def find_update_where)
  then show ?thesis
    by (auto simp: key_at_def dest: get_api_key_id split: option.split)
qed

subsection \<open>The invariant of the cache\<close>

definition matches_key :: "auth_settings \<Rightarrow> string \<Rightarrow> api_key \<Rightarrow> bool" where
  "matches_key cfg key k \<longleftrightarrow>
     (case split_key key of None \<Rightarrow> False | Some (kid, _) \<Rightarrow> k_id k = kid \<and> hash_key cfg key = k_hash k)"

text \<open>What a principal given for a presented digest rests on.\<close>

definition vouched :: "auth_settings \<Rightarrow> store \<Rightarrow> string \<Rightarrow> principal \<Rightarrow> bool" where
  "vouched cfg st cache_key p \<longleftrightarrow>
     (\<exists>key k. sha256_hex key = cache_key \<and> key_at st (k_id k) = Some k \<and> k_revoked_at k = None
        \<and> matches_key cfg key k \<and> p = key_principal k)"

definition cache_ok :: "auth_settings \<Rightarrow> key_service \<Rightarrow> bool" where
  "cache_ok cfg s \<longleftrightarrow> (\<forall>(d, p, _) \<in> set (ks_cache s). vouched cfg (ks_store s) d p)"

lemma vouched_mono:
  assumes "vouched cfg st d p" "key_at st \<subseteq>\<^sub>m key_at st'"
  shows "vouched cfg st' d p"
proof -
  obtain key k where k: "sha256_hex key = d" "key_at st (k_id k) = Some k" "k_revoked_at k = None"
    "matches_key cfg key k" "p = key_principal k" using assms(1) by (auto simp: vouched_def)
  have "key_at st' (k_id k) = Some k" using assms(2) k(2) by (metis domI map_le_def)
  with k show ?thesis unfolding vouched_def by blast
qed

lemma cache_ok_mono:
  "cache_ok cfg s \<Longrightarrow> key_at (ks_store s) \<subseteq>\<^sub>m key_at (ks_store s') \<Longrightarrow> set (ks_cache s') \<subseteq> set (ks_cache s) \<Longrightarrow> cache_ok cfg s'"
  unfolding cache_ok_def using vouched_mono by blast

lemma set_AList_delete: "set (AList.delete k xs) \<subseteq> set xs"
  by (auto simp: AList.delete_eq)

lemma set_AList_update: "set (AList.update k v xs) \<subseteq> insert (k, v) (set xs)"
  by (induction xs) auto

text \<open>An operation that only adds keys and shrinks the cache.\<close>

definition grows :: "'a key_op \<Rightarrow> bool" where
  "grows m \<longleftrightarrow> (\<forall>s. key_at (ks_store s) \<subseteq>\<^sub>m key_at (ks_store (snd (m s))) \<and> set (ks_cache (snd (m s))) \<subseteq> set (ks_cache s))"

named_theorems grow_intros \<open>operations that only add keys\<close>

lemma grows_return [grow_intros]: "grows (returnE a)" "grows (raiseE e)" "grows (readE f)"
  by (simp_all add: grows_def op_simps)

lemma grows_bind [grow_intros]:
  assumes "grows m" "\<And>a. grows (f a)"
  shows "grows (bindE m f)"
  unfolding grows_def
proof (intro allI)
  fix s
  show "key_at (ks_store s) \<subseteq>\<^sub>m key_at (ks_store (snd (bindE m f s))) \<and> set (ks_cache (snd (bindE m f s))) \<subseteq> set (ks_cache s)"
  proof (cases "m s")
    case (Pair r s')
    have m: "key_at (ks_store s) \<subseteq>\<^sub>m key_at (ks_store s')" "set (ks_cache s') \<subseteq> set (ks_cache s)"
      using assms(1) Pair unfolding grows_def by (metis snd_conv)+
    show ?thesis
    proof (cases r)
      case (Inr a)
      have "key_at (ks_store s') \<subseteq>\<^sub>m key_at (ks_store (snd (f a s')))" "set (ks_cache (snd (f a s'))) \<subseteq> set (ks_cache s')"
        using assms(2) [of a] unfolding grows_def by blast+
      then show ?thesis using m map_le_trans [OF m(1)] by (auto simp: op_simps Pair Inr)
    qed (use m Pair in \<open>simp add: op_simps\<close>)
  qed
qed

lemma grows_store [grow_intros]:
  assumes "\<And>st. key_at st \<subseteq>\<^sub>m key_at (snd (m st))"
  shows "grows (on_keys m)"
  by (auto simp: grows_def on_keys_def split_beta assms)

lemma grows_write [grow_intros]:
  "(\<And>s. ks_store (f s) = ks_store s \<and> set (ks_cache (f s)) \<subseteq> set (ks_cache s)) \<Longrightarrow> grows (writeE f)"
  by (simp add: grows_def op_simps)

lemma grows_if [grow_intros]: "grows m \<Longrightarrow> grows n \<Longrightarrow> grows (if b then m else n)"
  by simp

lemma grows_cache_ok: "grows m \<Longrightarrow> cache_ok cfg s \<Longrightarrow> cache_ok cfg (snd (m s))"
  by (auto simp: grows_def intro: cache_ok_mono)

lemma key_inserts [grow_intros]: "grows (on_keys (insert_api_key k))"
  by (intro grow_intros insert_keys)

lemma key_audits [grow_intros]: "grows (on_keys (record_audit a b c d e f g h i))"
  by (intro grow_intros) (simp add: audit_keys)

lemma key_touches [grow_intros]: "grows (on_keys (touch_api_key k now))"
  by (intro grow_intros) (simp add: touch_keys)

lemma key_tenants [grow_intros]: "grows (on_keys (upsert_tenant t now))"
  by (intro grow_intros) (simp add: tenant_keys)

lemma grows_create: "grows (create cfg uuid tok tid r label who who_role now)"
  unfolding create_def store_key_def Let_def by (intro grow_intros) (auto split: option.split intro!: grow_intros)

lemma grows_bootstrap: "grows (bootstrap cfg now)"
  unfolding bootstrap_def Let_def by (intro grow_intros) (auto split: sum.split intro!: grow_intros)

lemma grows_invalidate: "grows (invalidate kid)"
  unfolding invalidate_def by (intro grow_intros) auto

lemma grows_read_cache: "grows (read_cache d tick)"
  using set_AList_delete by (fastforce simp: grows_def read_cache_def split: option.split)

lemma grows_check: "grows (check_key cfg key)"
  unfolding check_key_def count_failure_def
  by (auto split: option.split intro!: grow_intros)

lemma check_key_result:
  assumes "check_key cfg key s = (Inr k, s')"
  shows "s' = s" "get_api_key (k_id k) (ks_store s) = Some k" "k_revoked_at k = None" "matches_key cfg key k"
  using assms get_api_key_id
  by (auto simp: check_key_def count_failure_def op_simps matches_key_def split: option.splits if_splits)

lemma remember_result:
  "fst (remember d k tick now s) = Inr (key_principal k)"
  "key_at (ks_store (snd (remember d k tick now s))) = key_at (ks_store s)"
  "ks_cache (snd (remember d k tick now s)) = AList.update d (key_principal k, tick + AUTH_CACHE_TTL) (ks_cache s)"
  by (simp_all add: remember_def returnE_def bindE_def readE_def writeE_def on_keys_def split_beta touch_keys split: sum.split)
     (simp_all add: touch_api_key_def op_simps)

lemma erased_vouches:
  assumes "get_api_key (k_id k) st = Some k" "k_revoked_at k = None" "matches_key cfg key k"
  shows "vouched cfg st (sha256_hex key) (key_principal k)"
  unfolding vouched_def
proof (intro exI conjI)
  let ?k = "k\<lparr>k_last_used_at := None\<rparr>"
  show "key_at st (k_id ?k) = Some ?k" using assms(1) by (simp add: key_at_def)
  show "matches_key cfg key ?k" using assms(3) by (auto simp: matches_key_def split: option.splits)
qed (use assms(2) in \<open>simp_all add: key_principal_def\<close>)

lemma remember_ok:
  assumes "cache_ok cfg s" "get_api_key (k_id k) (ks_store s) = Some k" "k_revoked_at k = None" "matches_key cfg key k"
  shows "cache_ok cfg (snd (remember (sha256_hex key) k tick now s))"
proof -
  let ?s = "snd (remember (sha256_hex key) k tick now s)"
  have le: "key_at (ks_store s) \<subseteq>\<^sub>m key_at (ks_store ?s)" by (simp add: remember_result)
  have "vouched cfg (ks_store ?s) (sha256_hex key) (key_principal k)"
    using erased_vouches [OF assms(2-4)] le by (rule vouched_mono)
  moreover have "vouched cfg (ks_store ?s) d p" if "(d, p, e) \<in> set (ks_cache s)" for d p e
    using assms(1) that le by (auto simp: cache_ok_def intro: vouched_mono)
  ultimately show ?thesis
    using set_AList_update [of "sha256_hex key" "(key_principal k, tick + AUTH_CACHE_TTL)" "ks_cache s"]
    by (auto simp: cache_ok_def remember_result)
qed

lemma read_cache_result:
  "read_cache d tick s = (Inr (Some p), s') \<Longrightarrow> s' = s \<and> (\<exists>e. (d, p, e) \<in> set (ks_cache s))"
  by (auto simp: read_cache_def split: option.splits if_splits) (use map_of_SomeD in fast)+

lemma read_cache_right: "\<exists>h. fst (read_cache d tick s) = Inr h"
  by (auto simp: read_cache_def split: option.split)

lemma authenticate_present:
  assumes "opt_truthy presented"
  shows "authenticate cfg presented tick now s =
    (case read_cache (sha256_hex (the presented)) tick (s\<lparr>ks_authentications := ks_authentications s + 1\<rparr>) of
       (Inl e, s1) \<Rightarrow> (Inl e, s1)
     | (Inr (Some p), s1) \<Rightarrow> (Inr p, s1)
     | (Inr None, s1) \<Rightarrow>
         (case check_key cfg (the presented) s1 of
            (Inl e, s2) \<Rightarrow> (Inl e, s2)
          | (Inr k, s2) \<Rightarrow> remember (sha256_hex (the presented)) k tick now s2))"
  using assms by (simp add: authenticate_def op_simps Let_def split: prod.split sum.split option.split)

lemma authenticate_sound:
  fixes presented and tick now :: time
  assumes ok: "cache_ok cfg s"
  defines "r \<equiv> authenticate cfg presented tick now s"
  shows "cache_ok cfg (snd r)" "key_at (ks_store s) \<subseteq>\<^sub>m key_at (ks_store (snd r))"
    "fst r = Inr p \<Longrightarrow> vouched cfg (ks_store (snd r)) (sha256_hex (the presented)) p"
proof -
  let ?s0 = "s\<lparr>ks_authentications := ks_authentications s + 1\<rparr>"
  have ok0: "cache_ok cfg ?s0" using ok by (simp add: cache_ok_def)
  have "cache_ok cfg (snd r) \<and> key_at (ks_store s) \<subseteq>\<^sub>m key_at (ks_store (snd r)) \<and>
      (\<forall>p. fst r = Inr p \<longrightarrow> vouched cfg (ks_store (snd r)) (sha256_hex (the presented)) p)"
  proof (cases "opt_truthy presented")
    case True
    let ?key = "the presented"
    obtain h s1 where c: "read_cache (sha256_hex ?key) tick ?s0 = (Inr h, s1)"
      using read_cache_right [of "sha256_hex ?key" tick ?s0] by (cases "read_cache (sha256_hex ?key) tick ?s0") auto
    have s1: "cache_ok cfg s1" "key_at (ks_store s) \<subseteq>\<^sub>m key_at (ks_store s1)"
      using grows_cache_ok [OF grows_read_cache ok0, of "sha256_hex ?key" tick]
        grows_read_cache [of "sha256_hex ?key" tick] c by (auto simp: grows_def dest: spec [of _ ?s0])
    show ?thesis
    proof (cases h)
      case (Some q)
      with read_cache_result c have "s1 = ?s0" "\<exists>e. (sha256_hex ?key, q, e) \<in> set (ks_cache ?s0)" by blast+
      then have "vouched cfg (ks_store s1) (sha256_hex ?key) q" using ok0 by (auto simp: cache_ok_def)
      then show ?thesis using s1 by (simp add: r_def authenticate_present [OF True] c Some)
    next
      case None
      obtain v s2 where d: "check_key cfg ?key s1 = (v, s2)" by (cases "check_key cfg ?key s1")
      show ?thesis
      proof (cases v)
        case (Inl e)
        have "cache_ok cfg s2" "key_at (ks_store s1) \<subseteq>\<^sub>m key_at (ks_store s2)"
          using grows_cache_ok [OF grows_check [of cfg ?key] s1(1)] grows_check [of cfg ?key] d
          by (auto simp: grows_def dest: spec [of _ s1])
        then show ?thesis using map_le_trans [OF s1(2)] by (simp add: r_def authenticate_present [OF True] c None d Inl)
      next
        case (Inr k)
        note k = check_key_result [OF d [unfolded Inr]]
        have eq: "r = remember (sha256_hex ?key) k tick now s1"
          by (simp add: r_def authenticate_present [OF True] c None d Inr k(1))
        have "vouched cfg (ks_store (snd r)) (sha256_hex ?key) (key_principal k)"
          using erased_vouches [OF k(2-4)] unfolding eq by (rule vouched_mono) (simp add: remember_result)
        then show ?thesis using s1 remember_ok [OF s1(1) k(2-4), of tick now] by (simp add: eq remember_result)
      qed
    qed
  next
    case False
    then have "r = (Inl (auth_error ''en-tete X-API-Key manquant''), ?s0\<lparr>ks_failures := ks_failures s + 1\<rparr>)"
      by (simp add: r_def authenticate_def count_failure_def op_simps)
    then show ?thesis using ok by (simp add: cache_ok_def)
  qed
  then show "cache_ok cfg (snd r)" "key_at (ks_store s) \<subseteq>\<^sub>m key_at (ks_store (snd r))"
    "fst r = Inr p \<Longrightarrow> vouched cfg (ks_store (snd r)) (sha256_hex (the presented)) p" by blast+
qed

subsection \<open>The operations as steps\<close>

inductive auth_step :: "auth_settings \<Rightarrow> key_service \<Rightarrow> key_service \<Rightarrow> bool" for cfg where
  do_authenticate: "auth_step cfg s (snd (authenticate cfg presented tick now s))"
| do_create: "auth_step cfg s (snd (create cfg uuid tok tid r label who who_role now s))"
| do_revoke: "auth_step cfg s (snd (revoke kid tid who now s))"
| do_invalidate: "auth_step cfg s (snd (invalidate kid s))"
| do_bootstrap: "auth_step cfg s (snd (bootstrap cfg now s))"
| other: "st_keys (ks_store s') = st_keys (ks_store s) \<Longrightarrow> ks_cache s' = ks_cache s \<Longrightarrow> auth_step cfg s s'"

definition key_dead :: "string \<Rightarrow> store \<Rightarrow> bool" where
  "key_dead kid st \<longleftrightarrow> (\<exists>k. key_at st kid = Some k \<and> k_revoked_at k \<noteq> None)"

lemma key_dead_mono: "key_dead kid st \<Longrightarrow> key_at st \<subseteq>\<^sub>m key_at st' \<Longrightarrow> key_dead kid st'"
  unfolding key_dead_def map_le_def by (metis domI)

lemma vouched_not_dead: "vouched cfg st d p \<Longrightarrow> key_dead kid st \<Longrightarrow> pr_key_id p \<noteq> Some kid"
  by (auto simp: vouched_def key_dead_def key_principal_def build_principal_def)

lemma revoke_cases:
  "snd (revoke kid tid who now s) = s \<and> (\<exists>e. fst (revoke kid tid who now s) = Inl e)
   \<or> ks_cache (snd (revoke kid tid who now s)) = []
     \<and> key_at (ks_store (snd (revoke kid tid who now s))) = key_at (snd (revoke_api_key kid tid now (ks_store s)))
     \<and> (\<exists>k. get_api_key kid (ks_store s) = Some k \<and> (opt_truthy tid \<longrightarrow> Some (k_tenant k) = tid))"
proof (cases "get_api_key kid (ks_store s)")
  case None
  then show ?thesis by (simp add: revoke_def op_simps)
next
  case (Some k)
  obtain b st where r: "revoke_api_key kid tid now (ks_store s) = (Inr b, st)"
    by (simp add: revoke_api_key_def op_simps Let_def)
  obtain rec st' where a: "record_audit (k_tenant k) who ''key.revoke'' ''admin'' [(''type'', PStr ''api_key''), (''id'', PStr kid)]
      [(''revoked_at'', PNone)] [(''revoked_at'', PStr (iso_z now))] [] now st = (Inr rec, st')"
    by (simp add: record_audit_def append_audit_def Let_def)
  then have "key_at st' = key_at st" by (metis audit_keys snd_conv)
  then show ?thesis using r a
    by (simp add: revoke_def bindE_def readE_def writeE_def raiseE_def returnE_def on_keys_def Some)
qed

lemma revoke_cache_ok: "cache_ok cfg s \<Longrightarrow> cache_ok cfg (snd (revoke kid tid who now s))"
  using revoke_cases [of kid tid who now s] by (auto simp: cache_ok_def)

lemma revoke_keeps_dead: "key_dead k (ks_store s) \<Longrightarrow> key_dead k (ks_store (snd (revoke kid tid who now s)))"
  using revoke_cases [of kid tid who now s] by (auto simp: key_dead_def revoke_keys split: option.splits)

lemma revoke_kills:
  assumes "fst (revoke kid tid who now s) = Inr b"
  shows "key_dead kid (ks_store (snd (revoke kid tid who now s)))"
proof -
  from assms revoke_cases [of kid tid who now s] obtain k where
    k: "get_api_key kid (ks_store s) = Some k" "opt_truthy tid \<longrightarrow> Some (k_tenant k) = tid"
    and eq: "key_at (ks_store (snd (revoke kid tid who now s))) = key_at (snd (revoke_api_key kid tid now (ks_store s)))"
    by auto
  then have "key_at (ks_store s) kid = Some (k\<lparr>k_last_used_at := None\<rparr>)" by (simp add: key_at_def)
  then show ?thesis using k(2) by (auto simp: key_dead_def eq revoke_keys)
qed

lemma grows_step:
  assumes "grows m" "cache_ok cfg s"
  shows "cache_ok cfg (snd (m s)) \<and> (\<forall>kid. key_dead kid (ks_store s) \<longrightarrow> key_dead kid (ks_store (snd (m s))))"
proof -
  have "key_at (ks_store s) \<subseteq>\<^sub>m key_at (ks_store (snd (m s)))" using assms(1) by (simp add: grows_def)
  then show ?thesis using grows_cache_ok [OF assms] key_dead_mono by blast
qed

lemma auth_step_ok:
  "auth_step cfg s s' \<Longrightarrow> cache_ok cfg s \<Longrightarrow> cache_ok cfg s' \<and> (\<forall>kid. key_dead kid (ks_store s) \<longrightarrow> key_dead kid (ks_store s'))"
proof (induction rule: auth_step.induct)
  case (do_authenticate s presented tick now)
  then show ?case using authenticate_sound(1,2) key_dead_mono by blast
next
  case (do_revoke s kid tid who now)
  then show ?case using revoke_cache_ok revoke_keeps_dead by blast
next
  case (other s' s)
  then have "key_at (ks_store s') = key_at (ks_store s)" by (intro ext) (simp add: key_at_def get_api_key_def)
  then show ?case using other by (simp add: cache_ok_def vouched_def key_dead_def)
next
  case (do_create s uuid tok tid r label who who_role now)
  from grows_step [OF grows_create this] show ?case .
next
  case (do_invalidate s kid)
  from grows_step [OF grows_invalidate this] show ?case .
next
  case (do_bootstrap s now)
  from grows_step [OF grows_bootstrap this] show ?case .
qed

lemma auth_steps_ok:
  "(auth_step cfg)\<^sup>*\<^sup>* s s' \<Longrightarrow> cache_ok cfg s \<Longrightarrow> cache_ok cfg s' \<and> (\<forall>kid. key_dead kid (ks_store s) \<longrightarrow> key_dead kid (ks_store s'))"
proof (induction rule: rtranclp_induct)
  case (step s1 s2)
  then show ?case using auth_step_ok [OF step(2)] by blast
qed simp

lemma empty_cache_ok: "ks_cache s = [] \<Longrightarrow> cache_ok cfg s"
  by (simp add: cache_ok_def)

text \<open>One authentication at a time, in the only process that writes to the table of keys: a request is only given a
  principal that an active key of the store vouches for.  After any run of the service from an empty cache, the key presented has the SHA-256 of a key whose identifier names a key that is
  not revoked and whose scrypt digest is the stored one, and the principal has its tenant and its role.\<close>

theorem principal_vouched:
  assumes "ks_cache s0 = []" "(auth_step cfg)\<^sup>*\<^sup>* s0 s" "fst (authenticate cfg presented tick now s) = Inr p"
  shows "vouched cfg (ks_store (snd (authenticate cfg presented tick now s))) (sha256_hex (the presented)) p"
  using auth_steps_ok [OF assms(2) empty_cache_ok [OF assms(1)]] authenticate_sound(3) [OF _ assms(3)] by blast

definition bearer :: "exn + principal \<Rightarrow> string option" where
  "bearer r = (case r of Inl _ \<Rightarrow> None | Inr p \<Rightarrow> pr_key_id p)"

definition session_bearer :: "exn + principal option \<Rightarrow> string option" where
  "session_bearer r = (case r of Inr (Some p) \<Rightarrow> pr_key_id p | _ \<Rightarrow> None)"

lemma session_not_dead:
  assumes "key_dead kid st"
  shows "session_bearer (verify_session cfg token now st) \<noteq> Some kid"
proof -
  from assms obtain k where k: "get_api_key kid st = Some k" "k_revoked_at k \<noteq> None"
    by (auto simp: key_dead_def key_at_def)
  have "session_bearer (read_session d now st) \<noteq> Some kid" for d
    using k by (auto simp: read_session_def session_principal_def live_key_def session_bearer_def Let_def build_principal_def split: option.split)
  then show ?thesis
    by (auto simp: verify_session_def session_bearer_def Let_def split: prod.split option.split pyval.split)
qed

text \<open>Under the same conditions revocation is immediate: once \<open>revoke\<close> has answered for a key, no request is authenticated as
  that key, not even from the cache, and no session of that key is accepted.  With authentications in progress, or a
  revocation by another process, the theory \<open>AuthRace\<close> gives the bound.\<close>

theorem revoked_at_once:
  assumes "ks_cache s0 = []" "(auth_step cfg)\<^sup>*\<^sup>* s0 s1" "fst (revoke kid tid who now s1) = Inr b"
    "(auth_step cfg)\<^sup>*\<^sup>* (snd (revoke kid tid who now s1)) s2"
  shows "bearer (fst (authenticate cfg presented tick now' s2)) \<noteq> Some kid \<and>
    session_bearer (verify_session cfg token now'' (ks_store s2)) \<noteq> Some kid"
proof -
  have "cache_ok cfg s1" using auth_steps_ok [OF assms(2) empty_cache_ok [OF assms(1)]] ..
  from auth_steps_ok [OF assms(4) revoke_cache_ok [OF this]] revoke_kills [OF assms(3)]
  have s2: "cache_ok cfg s2" "key_dead kid (ks_store s2)" by blast+
  note sound = authenticate_sound [OF s2(1), of presented tick now']
  have "key_dead kid (ks_store (snd (authenticate cfg presented tick now' s2)))"
    using s2(2) sound(2) by (rule key_dead_mono)
  then have "bearer (fst (authenticate cfg presented tick now' s2)) \<noteq> Some kid"
    using sound(3) vouched_not_dead by (auto simp: bearer_def split: sum.split)
  then show ?thesis using session_not_dead [OF s2(2)] by blast
qed

subsection \<open>A key just created\<close>

lemma split_key_made:
  assumes "kid \<noteq> []" "CHR ''_'' \<notin> set kid" "CHR ''_'' \<notin> set secret" "16 \<le> length secret"
  shows "split_key (make_key kid secret) = Some (kid, secret)"
proof -
  have "make_key kid secret = join_with [CHR ''_''] [''thot'', kid, secret]"
    by (simp add: make_key_def KEY_PREFIX_def)
  then have "split_on (CHR ''_'') (make_key kid secret) = [''thot'', kid, secret]"
    using assms(2,3) by (simp add: split_on_unique del: join_with.simps)
  then show ?thesis using assms(1,4) by (simp add: split_key_def)
qed

lemma find_append_new: "find p xs = None \<Longrightarrow> p x \<Longrightarrow> find p (xs @ [x]) = Some x"
  by (induction xs) (auto split: if_splits)

lemma insert_api_key_row:
  assumes "insert_api_key k st = (Inr v, st')"
  shows "get_api_key (k_id k) st' = Some (k\<lparr>k_created_at := to_millis (k_created_at k),
      k_last_used_at := map_option to_millis (k_last_used_at k), k_revoked_at := map_option to_millis (k_revoked_at k)\<rparr>)"
proof -
  have "find (\<lambda>r. k_id r = k_id k) (st_keys st) = None"
    using assms by (auto simp: insert_api_key_def op_simps get_api_key_def split: if_splits)
  then have "find (\<lambda>r. k_id r = k_id k) (st_keys st @ [r]) = Some r" if "k_id r = k_id k" for r
    using that find_append_new by metis
  then show ?thesis using assms by (auto simp: insert_api_key_def op_simps get_api_key_def split: if_splits)
qed

lemma audit_lookup: "get_api_key kid (snd (record_audit a b c d e f g h i st)) = get_api_key kid st"
  by (simp add: record_audit_def append_audit_def Let_def get_api_key_def)

lemma store_key_result:
  assumes "fst (store_key k who who_role now s) = Inr ()"
  shows "ks_cache (snd (store_key k who who_role now s)) = ks_cache s"
    "get_api_key (k_id k) (ks_store (snd (store_key k who who_role now s))) =
       Some (k\<lparr>k_created_at := to_millis (k_created_at k), k_last_used_at := map_option to_millis (k_last_used_at k),
               k_revoked_at := map_option to_millis (k_revoked_at k)\<rparr>)"
proof -
  obtain v st where i: "insert_api_key k (ks_store s) = (v, st)" by (cases "insert_api_key k (ks_store s)")
  from assms obtain u where v: "v = Inr u" by (cases v) (simp_all add: store_key_def bindE_def on_keys_def i)
  show "ks_cache (snd (store_key k who who_role now s)) = ks_cache s"
    by (simp add: store_key_def bindE_def on_keys_def returnE_def i v split_beta split: sum.split)
  have "get_api_key (k_id k) (ks_store (snd (store_key k who who_role now s))) = get_api_key (k_id k) st"
    by (simp add: store_key_def bindE_def on_keys_def returnE_def i v split_beta audit_lookup split: sum.split)
  then show "get_api_key (k_id k) (ks_store (snd (store_key k who who_role now s))) =
       Some (k\<lparr>k_created_at := to_millis (k_created_at k), k_last_used_at := map_option to_millis (k_last_used_at k),
               k_revoked_at := map_option to_millis (k_revoked_at k)\<rparr>)"
    using insert_api_key_row [OF i [unfolded v]] by simp
qed

lemma create_result:
  assumes "create cfg uuid tok tid r label who who_role now s = (Inr (info, key), s')"
  defines "kid \<equiv> take 12 (str_upper (''k'' @ uuid))"
  shows "key = make_key kid (filter (\<lambda>c. c \<notin> {CHR ''-'', CHR ''_''}) tok)" "k_id info = kid"
    "ks_cache s' = ks_cache s"
    "\<exists>k. get_api_key kid (ks_store s') = Some k \<and> k_id k = kid \<and> k_revoked_at k = None \<and> k_hash k = hash_key cfg key
       \<and> k_role k = r \<and> k_label k = take 80 label \<and> k_tenant k = tid"
proof -
  obtain t where t: "get_tenant tid (ks_store s) = Some t"
    using assms(1) by (cases "get_tenant tid (ks_store s)") (simp_all add: create_def op_simps)
  then have tid: "t_id t = tid" by (auto simp: get_tenant_def find_Some_iff)
  let ?key = "make_key kid (filter (\<lambda>c. c \<notin> {CHR ''-'', CHR ''_''}) tok)"
  let ?k = "new_key_record cfg kid ?key tid r label now"
  have c: "create cfg uuid tok tid r label who who_role now s =
      (case store_key ?k who who_role now s of (Inl e, s1) \<Rightarrow> (Inl e, s1) | (Inr _, s1) \<Rightarrow> (Inr (key_info ?k, ?key), s1))"
    by (simp only: create_def bindE_def readE_def returnE_def t tid Let_def kid_def prod.case sum.case option.case)
  then obtain s1 where s1: "store_key ?k who who_role now s = (Inr (), s1)"
    using assms(1) by (cases "store_key ?k who who_role now s") (auto split: sum.splits)
  then have eqs: "key = ?key" "info = key_info ?k" "s' = s1" using assms(1) unfolding c by auto
  show "key = ?key" "k_id info = kid" by (simp_all add: eqs key_info_def new_key_record_def)
  note row = store_key_result [of ?k who who_role now s, unfolded s1 fst_conv snd_conv, OF refl]
  show "ks_cache s' = ks_cache s" using row(1) by (simp add: eqs)
  show "\<exists>k. get_api_key kid (ks_store s') = Some k \<and> k_id k = kid \<and> k_revoked_at k = None \<and> k_hash k = hash_key cfg key
       \<and> k_role k = r \<and> k_label k = take 80 label \<and> k_tenant k = tid"
    using row(2) by (simp add: eqs new_key_record_def)
qed

lemma upper_char_underscore:
  assumes "upper_char c = CHR ''_''"
  shows "c = CHR ''_''"
proof (rule ccontr)
  assume "c \<noteq> CHR ''_''"
  with assms have low: "is_lower c" by (auto simp: upper_char_def split: if_splits)
  have "code (char_of n) = n mod 256" for n :: int by (simp add: code_def)
  moreover have "code (CHR ''_'') = 95" by (simp add: code_def)
  moreover from low assms have "char_of (code c - 32) = CHR ''_''" by (simp only: upper_char_def if_True)
  ultimately have "(code c - 32) mod 256 = 95" by metis
  moreover have "(code c - 32) mod 256 = code c - 32"
    using low by (intro mod_pos_pos_trivial) (simp_all add: is_lower_def)
  ultimately show False using low by (simp add: is_lower_def)
qed

lemma upper_underscore: "CHR ''_'' \<in> set (str_upper w) \<Longrightarrow> CHR ''_'' \<in> set w"
proof (induction w)
  case (Cons c w)
  then show ?case using upper_char_underscore [of c] by (cases "upper_char c = CHR ''_''") (simp_all add: str_upper_def)
qed (simp add: str_upper_def)

text \<open>C16: A key that \<open>create\<close> returns authenticates as its tenant and its role: its random identifier has no
  underscore, at least sixteen characters of its secret are left once dashes and underscores are removed, and
  nothing was cached under its digest.\<close>

theorem created_key_works:
  assumes "create cfg uuid tok tid r label who who_role now s = (Inr (info, key), s')"
    "CHR ''_'' \<notin> set uuid" "16 \<le> length (filter (\<lambda>c. c \<notin> {CHR ''-'', CHR ''_''}) tok)"
    "map_of (ks_cache s) (sha256_hex key) = None"
  shows "fst (authenticate cfg (Some key) tick now' s') =
    Inr (build_principal tid (role_str r) (Some (k_id info)) (take 80 label) True)"
proof -
  let ?kid = "take 12 (str_upper (''k'' @ uuid))"
  note c = create_result [OF assms(1)]
  obtain k where k: "get_api_key ?kid (ks_store s') = Some k" "k_id k = ?kid" "k_revoked_at k = None"
    "k_hash k = hash_key cfg key" "k_role k = r" "k_label k = take 80 label" "k_tenant k = tid"
    using c(4) by blast
  have "CHR ''_'' \<notin> set (str_upper (''k'' @ uuid))" using assms(2) upper_underscore by fastforce
  then have split: "split_key key = Some (?kid, filter (\<lambda>c. c \<notin> {CHR ''-'', CHR ''_''}) tok)"
    unfolding c(1) by (intro split_key_made) (use assms(3) in \<open>auto simp: str_upper_def dest: in_set_takeD\<close>)
  then have present: "opt_truthy (Some key)" by (auto simp: opt_truthy_def c(1) make_key_def)
  have "read_cache (sha256_hex key) tick (s'\<lparr>ks_authentications := n\<rparr>) = (Inr None, s'\<lparr>ks_authentications := n\<rparr>)" for n
    using assms(4) by (simp add: read_cache_def c(3))
  moreover have "check_key cfg key (s'\<lparr>ks_authentications := n\<rparr>) = (Inr k, s'\<lparr>ks_authentications := n\<rparr>)" for n
    using k(1,3,4) by (simp add: check_key_def split op_simps)
  ultimately show ?thesis
    by (simp add: authenticate_present [OF present] remember_result key_principal_def k c(2))
qed

subsection \<open>Concrete runs\<close>

definition sample_settings :: auth_settings where
  "sample_settings = \<lparr>ac_secret_key = ''pepper'', ac_session_ttl = 3600, ac_env = ''dev'', ac_demo_tenant = ''acme'',
     ac_bootstrap_key = DEV_BOOTSTRAP_KEY\<rparr>"

definition sample_text :: string where "sample_text = ''thot_K1_aaaaaaaaaaaaaaaa''"

definition sample_record :: api_key where
  "sample_record = new_key_record sample_settings ''K1'' sample_text ''acme'' Admin ''ci'' 0"

definition sample_service :: "api_key list \<Rightarrow> key_service" where
  "sample_service keys =
     \<lparr>ks_store = empty_store\<lparr>st_tenants := [bootstrap_tenant ''acme'' 0], st_keys := keys\<rparr>, ks_cache = [], ks_touched = [],
      ks_authentications = 0, ks_failures = 0\<rparr>"

lemma sample_split: "split_key sample_text = Some (''K1'', ''aaaaaaaaaaaaaaaa'')"
  by (simp add: sample_text_def split_key_def)

lemma sample_check:
  "check_key sample_settings sample_text (sample_service [sample_record]\<lparr>ks_authentications := n\<rparr>) =
     (Inr sample_record, sample_service [sample_record]\<lparr>ks_authentications := n\<rparr>)"
  by (simp add: check_key_def sample_split op_simps sample_service_def get_api_key_def sample_record_def new_key_record_def)

lemma sample_authenticates:
  "fst (authenticate sample_settings (Some sample_text) 0 0 (sample_service [sample_record])) = Inr (key_principal sample_record)"
proof -
  have present: "opt_truthy (Some sample_text)" by (simp add: opt_truthy_def sample_text_def)
  have "read_cache d 0 (sample_service [sample_record]\<lparr>ks_authentications := n\<rparr>) =
      (Inr None, sample_service [sample_record]\<lparr>ks_authentications := n\<rparr>)" for d n
    by (simp add: read_cache_def sample_service_def)
  then show ?thesis by (simp add: authenticate_present [OF present] sample_check remember_result)
qed

theorem principal_vouched_witness:
  "vouched sample_settings (ks_store (snd (authenticate sample_settings (Some sample_text) 0 0 (sample_service [sample_record]))))
     (sha256_hex sample_text) (key_principal sample_record)"
  using principal_vouched [OF _ rtranclp.rtrancl_refl sample_authenticates]
  by (simp add: sample_service_def)

theorem revoked_at_once_witness:
  "let s = snd (revoke ''K1'' None ''cli'' 5 (sample_service [sample_record])) in
   bearer (fst (authenticate sample_settings (Some sample_text) 0 0 s)) \<noteq> Some ''K1'' \<and>
   session_bearer (verify_session sample_settings (Some ''a.b'') 0 (ks_store s)) \<noteq> Some ''K1''"
proof -
  have e: "ks_cache (sample_service [sample_record]) = []" by (simp add: sample_service_def)
  have r: "fst (revoke ''K1'' None ''cli'' 5 (sample_service [sample_record])) = Inr True"
    by (simp add: revoke_def op_simps sample_service_def sample_record_def new_key_record_def get_api_key_def on_keys_def
        opt_truthy_def revoke_api_key_def Let_def record_audit_def append_audit_def)
  show ?thesis unfolding Let_def
    by (rule revoked_at_once [OF e rtranclp.rtrancl_refl r rtranclp.rtrancl_refl])
qed

theorem created_key_works_witness:
  "\<exists>info key s'. create sample_settings ''0f'' (replicate 32 (CHR ''a'')) ''acme'' Analyst ''ci'' ''cli'' ''admin'' 0
      (sample_service []) = (Inr (info, key), s') \<and>
     fst (authenticate sample_settings (Some key) 0 0 s') =
       Inr (build_principal ''acme'' ''analyst'' (Some (k_id info)) (take 80 ''ci'') True)"
proof -
  let ?s = "sample_service []" and ?tok = "replicate 32 (CHR ''a'')"
  obtain info key s' where c: "create sample_settings ''0f'' ?tok ''acme'' Analyst ''ci'' ''cli'' ''admin'' 0 ?s = (Inr (info, key), s')"
    by (simp add: create_def store_key_def op_simps Let_def on_keys_def sample_service_def get_tenant_def
        bootstrap_tenant_def insert_api_key_def get_api_key_def new_key_record_def record_audit_def append_audit_def)
  have "map_of (ks_cache ?s) (sha256_hex key) = None" by (simp add: sample_service_def)
  from created_key_works [OF c _ _ this, of 0 0] c show ?thesis by simp
qed

subsection \<open>Sessions\<close>

definition printable :: "string \<Rightarrow> bool" where
  "printable s \<longleftrightarrow> list_all (\<lambda>c. code c < 127) s"

lemma json_str_printable: "printable s \<Longrightarrow> json_str s = dump_str s"
proof -
  assume "printable s"
  then have "map dump_char s = map esc_char s" by (induction s) (simp_all add: printable_def dump_char_def)
  then show ?thesis by (simp only: json_str_def dump_str_def)
qed

lemma is_ascii_simps [simp]:
  "is_ascii []" "is_ascii (c # s) \<longleftrightarrow> code c < 128 \<and> is_ascii s" "is_ascii (s @ t) \<longleftrightarrow> is_ascii s \<and> is_ascii t"
  by (simp_all add: is_ascii_def)

lemma hex_char_ascii: "is_hex c \<Longrightarrow> code c < 128 \<and> c \<noteq> CHR ''.''"
proof -
  have "list_all (\<lambda>c. code c < 128 \<and> c \<noteq> CHR ''.'') ''0123456789abcdef''" by code_simp
  then show "is_hex c \<Longrightarrow> code c < 128 \<and> c \<noteq> CHR ''.''" unfolding is_hex_def list_all_iff by blast
qed

lemma sign_ascii: "is_ascii (sign cfg w)"
proof -
  have "is_ascii (hex_digits n b)" for n b
    using hex_digits_shape [of n b] hex_char_ascii by (auto simp: is_ascii_def list_all_iff)
  then have "is_ascii (hex_of bs)" for bs
    by (induction bs) (simp_all add: hex_of_def)
  then show ?thesis by (simp add: sign_def)
qed

lemma b64_char_plain: "0 \<le> n \<Longrightarrow> n < 64 \<Longrightarrow> code (b64_char n) < 128 \<and> b64_char n \<noteq> CHR ''.''"
proof -
  assume "0 \<le> n" "n < 64"
  then have "n \<in> set [0..63]" by simp
  moreover have "list_all (\<lambda>n. code (b64_char n) < 128 \<and> b64_char n \<noteq> CHR ''.'') [0..63]" by code_simp
  ultimately show ?thesis by (simp add: list_all_iff)
qed

lemma padding_plain: "code (CHR ''='') < 128"
  by (simp add: code_def)

lemma b64_encode_plain: "list_all is_byte bs \<Longrightarrow> list_all (\<lambda>c. code c < 128 \<and> c \<noteq> CHR ''.'') (b64_encode bs)"
proof (induction bs rule: b64_encode.induct)
  case (2 a)
  then have a: "is_byte a" by simp
  from byte_groups [OF a byte_zero byte_zero] show ?case by (simp add: b64_char_plain padding_plain)
next
  case (3 a b)
  then have ab: "is_byte a" "is_byte b" by simp_all
  from byte_groups [OF ab byte_zero] show ?case by (simp add: b64_char_plain padding_plain)
next
  case (4 a b c bs)
  then have abc: "is_byte a" "is_byte b" "is_byte c" by simp_all
  from byte_groups [OF abc] 4 show ?case by (simp add: b64_char_plain)
qed simp

lemma strip_padding_subset: "set (strip_padding s) \<subseteq> set s"
proof -
  have "set (dropWhile p (rev s)) \<subseteq> set (rev s)" for p by (meson set_dropWhileD subsetI)
  then show ?thesis by (simp add: strip_padding_def)
qed

lemma encoded_plain: "is_ascii (strip_padding (b64_encode (utf8 s))) \<and> CHR ''.'' \<notin> set (strip_padding (b64_encode (utf8 s)))"
  using b64_encode_plain [OF utf8_bytes [of s]] strip_padding_subset [of "b64_encode (utf8 s)"]
  by (auto simp: is_ascii_def list_all_iff)

definition session_dict :: "string \<Rightarrow> string \<Rightarrow> string \<Rightarrow> int \<Rightarrow> dict" where
  "session_dict tid r kid expiry =
     [(''tenant_id'', PStr tid), (''role'', PStr r), (''key_id'', PStr kid), (''exp'', PInt expiry)]"

lemma session_text_json:
  assumes "printable tid" "printable r" "printable kid"
  shows "session_text (session_dict tid r kid expiry) = json_compact (PDict (session_dict tid r kid expiry))"
proof -
  have "printable ''tenant_id''" "printable ''role''" "printable ''key_id''" "printable ''exp''"
    by (simp_all add: printable_def code_def)
  with assms show ?thesis by (simp add: session_text_def session_dict_def json_str_printable)
qed

lemma hex_digit_ascii: "0 \<le> n \<Longrightarrow> n < 16 \<Longrightarrow> code (hex_digit n) < 128"
proof -
  assume "0 \<le> n" "n < 16"
  then have "n \<in> set [0..15]" by simp
  moreover have "list_all (\<lambda>n. code (hex_digit n) < 128) [0..15]" by code_simp
  ultimately show ?thesis by (simp add: list_all_iff)
qed

lemma esc_char_ascii: "is_ascii (esc_char c)"
proof -
  have "code CHR 0x22 < 128" "code CHR 0x5C < 128" "code (CHR ''n'') < 128" "code (CHR ''r'') < 128" "code (CHR ''t'') < 128"
    "code (CHR ''f'') < 128" "code (CHR ''b'') < 128" "code (CHR ''u'') < 128" "code (CHR ''0'') < 128"
    by (simp_all add: code_def)
  moreover have "code (hex_digit (code c div 16)) < 128" "code (hex_digit (code c mod 16)) < 128"
    using code_range [of c] by (auto intro!: hex_digit_ascii)
  ultimately show ?thesis unfolding esc_char_def hex2_def by simp
qed

lemma json_str_ascii: "is_ascii (json_str s)"
proof -
  have "is_ascii (concat (map esc_char s))" by (induction s) (simp_all add: esc_char_ascii)
  moreover have "code CHR 0x22 < 128" by (simp add: code_def)
  ultimately show ?thesis by (simp add: json_str_def)
qed

lemma int_str_ascii: "is_ascii (int_str i)"
proof -
  have "is_ascii (dec_str n)" if "0 \<le> n" for n
    using dec_str_all_digits [OF that] by (auto simp: is_ascii_def list_all_iff is_digit_def)
  moreover have "code CHR ''-'' < 128" by (simp add: code_def)
  ultimately show ?thesis by (simp add: int_str_def)
qed

lemma session_text_ascii: "is_ascii (session_text (session_dict tid r kid expiry))"
proof -
  have "code (CHR ''{'') < 128" "code (CHR ''}'') < 128" "code (CHR '','') < 128" "code (CHR '':'') < 128"
    by (simp_all add: code_def)
  then show ?thesis by (simp add: session_text_def session_dict_def json_str_ascii int_str_ascii)
qed

lemma session_payload_back:
  assumes "printable tid" "printable r" "printable kid"
  shows "session_payload (strip_padding (b64_encode (utf8 (session_text (session_dict tid r kid expiry)))))
    = Some (PDict (session_dict tid r kid expiry))"
proof -
  have wf: "json_wf (PDict (session_dict tid r kid expiry))" by (simp add: session_dict_def)
  have "jsonify (PDict (session_dict tid r kid expiry)) = PDict (session_dict tid r kid expiry)"
    by (simp add: session_dict_def)
  then have "json_loads (session_text (session_dict tid r kid expiry)) = Some (PDict (session_dict tid r kid expiry))"
    using json_roundtrip [OF wf] by (simp only: session_text_json [OF assms])
  then show ?thesis
    using session_text_ascii [of tid r kid expiry]
    by (simp add: session_payload_def b64_roundtrip utf8_bytes utf8_decode_ascii is_ascii_def)
qed

text \<open>C17: A session reads back as the principal it was issued to.  For a key that is active, a known role and texts
  of printable ASCII, the token verifies until its expiry, the instant of issue plus the lifetime, and names the
  same tenant, role and key.\<close>

theorem session_roundtrip:
  assumes "printable (pr_tenant p)" "printable (pr_role p)" "printable kid" "pr_key_id p = Some kid" "kid \<noteq> []"
    "pr_role p \<in> fst ` set ROLE_CAPABILITIES"
    "get_api_key kid st = Some k" "k_revoked_at k = None" "ttl \<noteq> 0" "now' div usec \<le> now div usec + ttl"
  shows "verify_session cfg (Some (issue_session cfg p (Some ttl) now)) now' st =
    Inr (Some (build_principal (pr_tenant p) (pr_role p) (Some kid) ''console'' True))"
proof -
  let ?d = "session_dict (pr_tenant p) (pr_role p) kid (now div usec + ttl)"
  define enc where "enc = strip_padding (b64_encode (utf8 (session_text ?d)))"
  have token: "issue_session cfg p (Some ttl) now = enc @ ''.'' @ sign cfg enc"
    using assms(4,9) by (simp add: issue_session_def enc_def session_dict_def Let_def)
  have enc: "is_ascii enc" "CHR ''.'' \<notin> set enc" using encoded_plain [of "session_text ?d"] by (simp_all add: enc_def)
  have "dropWhile (\<lambda>x. x \<noteq> CHR ''.'') (enc @ CHR ''.'' # t) = CHR ''.'' # t"
    "takeWhile (\<lambda>x. x \<noteq> CHR ''.'') (enc @ CHR ''.'' # t) = enc" for t
    using enc(2) by (auto simp: dropWhile_append takeWhile_append)
  then have split: "split_first (CHR ''.'') (enc @ ''.'' @ sign cfg enc) = (enc, Some (sign cfg enc))"
    by (simp add: split_first_def)
  have "read_session ?d now' st = Inr (Some (build_principal (pr_tenant p) (pr_role p) (Some kid) ''console'' True))"
    using assms(5-8,10) by (simp add: read_session_def session_principal_def live_key_def column_text_def session_dict_def dict_or_def py_str_def)
  moreover have "session_payload enc = Some (PDict ?d)"
    unfolding enc_def using assms(1-3) by (rule session_payload_back)
  ultimately show ?thesis
    unfolding token by (simp add: verify_session_def split [simplified] sign_ascii enc opt_truthy_def)
qed

theorem session_roundtrip_witness:
  "verify_session sample_settings
     (Some (issue_session sample_settings (key_principal sample_record) (Some 300) 0)) 1 (ks_store (sample_service [sample_record])) =
   Inr (Some (build_principal (pr_tenant (key_principal sample_record)) (pr_role (key_principal sample_record)) (Some ''K1'') ''console'' True))"
  by (rule session_roundtrip [where k = sample_record])
     (simp_all add: key_principal_def build_principal_def sample_record_def new_key_record_def sample_service_def
       get_api_key_def printable_def code_def usec_def ROLE_CAPABILITIES_def)

subsection \<open>Limits\<close>

text \<open>
  A session token with a character outside ASCII is not refused: verifying it raises an error that no handler
  catches.
\<close>

theorem non_ascii_session_raises:
  "\<exists>e. verify_session cfg (Some [CHR 0xE9, CHR ''.'', CHR ''x'']) now st = Inl e"
  by (simp add: verify_session_def split_first_def opt_truthy_def is_ascii_def code_def)

text \<open>
  The configuration accepts any identifier in the bootstrap key, while the record is stored under the fixed
  identifier \<open>BOOTSTRAP\<close>: with another identifier the only administration key of a new installation is refused.
\<close>

theorem bootstrap_key_unusable:
  "bootstrap_key_accepted ''thot_ADMIN_unSecretDeSeizeCaracteres'' \<and>
   (\<exists>e. fst (authenticate (sample_settings\<lparr>ac_bootstrap_key := ''thot_ADMIN_unSecretDeSeizeCaracteres''\<rparr>)
          (Some ''thot_ADMIN_unSecretDeSeizeCaracteres'') tick 0
          (snd (bootstrap (sample_settings\<lparr>ac_bootstrap_key := ''thot_ADMIN_unSecretDeSeizeCaracteres''\<rparr>) 0
            ((sample_service [])\<lparr>ks_store := empty_store\<rparr>)))) = Inl e)"
proof -
  let ?key = "''thot_ADMIN_unSecretDeSeizeCaracteres''"
  let ?cfg = "sample_settings\<lparr>ac_bootstrap_key := ?key\<rparr>"
  let ?s = "snd (bootstrap ?cfg 0 ((sample_service [])\<lparr>ks_store := empty_store\<rparr>))"
  have tid: "validate_tenant_id ''acme'' = Inr ''acme''" by code_simp
  have keys: "map k_id (st_keys (ks_store ?s)) = [''BOOTSTRAP'']" "ks_cache ?s = []"
    by (simp_all add: bootstrap_def op_simps sample_service_def sample_settings_def tid list_tenants_def empty_store_def
        Let_def on_keys_def upsert_tenant_def tenant_checks_def bootstrap_tenant_def write_tenant_def get_tenant_def
        insert_api_key_def get_api_key_def record_audit_def append_audit_def)
  have split: "split_key ?key = Some (''ADMIN'', ''unSecretDeSeizeCaracteres'')" by (simp add: split_key_def)
  have "find (\<lambda>k. k_id k = ''ADMIN'') ks = None" if "map k_id ks = [''BOOTSTRAP'']" for ks
    using that by (cases ks) auto
  from this [OF keys(1)] have "get_api_key ''ADMIN'' (ks_store ?s) = None" by (simp only: get_api_key_def)
  moreover have "opt_truthy (Some ?key)" by (simp add: opt_truthy_def)
  ultimately have "\<exists>e. fst (authenticate ?cfg (Some ?key) tick 0 ?s) = Inl e"
    by (simp only: authenticate_present read_cache_def option.sel)
       (simp add: keys(2) check_key_def split op_simps count_failure_def)
  moreover have "bootstrap_key_accepted ?key" by (simp add: bootstrap_key_accepted_def)
  ultimately show ?thesis by blast
qed

text \<open>
  Revocation races with an authentication in progress: the key is read before the revocation, its principal is
  put in the cache after the revocation has cleared it, and the revoked key works until the entry expires.
\<close>

theorem revocation_race:
  "let s1 = snd (check_key sample_settings sample_text (sample_service [sample_record]));
       s2 = snd (revoke ''K1'' None ''cli'' 5 s1);
       s3 = snd (remember (sha256_hex sample_text) sample_record 0 5 s2)
   in fst (authenticate sample_settings (Some sample_text) (seconds 59) 6 s3) = Inr (key_principal sample_record)"
proof -
  let ?s1 = "snd (check_key sample_settings sample_text (sample_service [sample_record]))"
  let ?s3 = "snd (remember (sha256_hex sample_text) sample_record 0 5 (snd (revoke ''K1'' None ''cli'' 5 ?s1)))"
  have present: "opt_truthy (Some sample_text)" by (simp add: opt_truthy_def sample_text_def)
  have "map_of (ks_cache ?s3) (sha256_hex sample_text) = Some (key_principal sample_record, AUTH_CACHE_TTL)"
    by (simp add: remember_result update_conv')
  then have "read_cache (sha256_hex sample_text) (seconds 59) (?s3\<lparr>ks_authentications := n\<rparr>) =
      (Inr (Some (key_principal sample_record)), ?s3\<lparr>ks_authentications := n\<rparr>)" for n
    by (simp add: read_cache_def AUTH_CACHE_TTL_def usec_def)
  then show ?thesis by (simp add: Let_def authenticate_present [OF present])
qed

end
