(* ===== verification/AuthRace.thy ===== *)
theory AuthRace
  imports AuthProps
begin

section \<open>Authentications in progress\<close>

text \<open>
  The server authenticates requests on several threads, and other processes (the command line) write to the same
  database.  An authentication is three pieces that take the lock or the store in turn: it reads the cache, it checks the
  key, it fills the cache.  The pieces of \<open>authenticate\<close> are taken apart here and interleaved with one another, with
  the other operations of the service and with what other processes do to the table of keys.  What is
  presented is answered at the end with the instant its authentication began.
\<close>

subsection \<open>Interleaved steps\<close>

datatype thread =
    Looking string time
  | Checked string api_key time

record shared =
  sh_svc :: key_service
  sh_clock :: time
  sh_threads :: "thread list"

type_synonym answer_given = "string \<times> time \<times> principal"

abbreviation counted :: "key_service \<Rightarrow> key_service" where
  "counted v \<equiv> v\<lparr>ks_authentications := ks_authentications v + 1\<rparr>"

abbreviation sh_store :: "shared \<Rightarrow> store" where
  "sh_store s \<equiv> ks_store (sh_svc s)"

inductive race_step :: "auth_settings \<Rightarrow> shared \<Rightarrow> answer_given option \<Rightarrow> shared \<Rightarrow> bool" for cfg where
  hits: "read_cache (sha256_hex key) (sh_clock s) (counted (sh_svc s)) = (Inr (Some p), v)
    \<Longrightarrow> race_step cfg s (Some (key, sh_clock s, p)) (s\<lparr>sh_svc := v\<rparr>)"
| misses: "read_cache (sha256_hex key) (sh_clock s) (counted (sh_svc s)) = (Inr None, v)
    \<Longrightarrow> race_step cfg s None (s\<lparr>sh_svc := v, sh_threads := Looking key (sh_clock s) # sh_threads s\<rparr>)"
| checks: "sh_threads s = xs @ Looking key t # ys \<Longrightarrow> check_key cfg key (sh_svc s) = (Inr k, v)
    \<Longrightarrow> race_step cfg s None (s\<lparr>sh_svc := v, sh_threads := xs @ Checked key k t # ys\<rparr>)"
| refuses: "sh_threads s = xs @ Looking key t # ys \<Longrightarrow> check_key cfg key (sh_svc s) = (Inl e, v)
    \<Longrightarrow> race_step cfg s None (s\<lparr>sh_svc := v, sh_threads := xs @ ys\<rparr>)"
| remembers: "sh_threads s = xs @ Checked key k t # ys \<Longrightarrow> remember (sha256_hex key) k t now (sh_svc s) = (Inr p, v)
    \<Longrightarrow> race_step cfg s (Some (key, t, p)) (s\<lparr>sh_svc := v, sh_threads := xs @ ys\<rparr>)"
| passes: "sh_clock s \<le> t \<Longrightarrow> race_step cfg s None (s\<lparr>sh_clock := t\<rparr>)"
| creates: "race_step cfg s None (s\<lparr>sh_svc := snd (create cfg uuid tok tid r label who role now (sh_svc s))\<rparr>)"
| revokes: "race_step cfg s None (s\<lparr>sh_svc := snd (revoke kid tid who now (sh_svc s))\<rparr>)"
| invalidates: "race_step cfg s None (s\<lparr>sh_svc := snd (invalidate kid (sh_svc s))\<rparr>)"
| bootstraps: "race_step cfg s None (s\<lparr>sh_svc := snd (bootstrap cfg now (sh_svc s))\<rparr>)"
| revoked_elsewhere: "race_step cfg s None
    (s\<lparr>sh_svc := (sh_svc s)\<lparr>ks_store := snd (revoke_api_key kid tid now (sh_store s))\<rparr>\<rparr>)"
| created_elsewhere: "race_step cfg s None (s\<lparr>sh_svc := (sh_svc s)\<lparr>ks_store := snd (insert_api_key k (sh_store s))\<rparr>\<rparr>)"
| touched_elsewhere: "race_step cfg s None (s\<lparr>sh_svc := (sh_svc s)\<lparr>ks_store := snd (touch_api_key kid now (sh_store s))\<rparr>\<rparr>)"
| elsewhere: "st_keys st = st_keys (sh_store s) \<Longrightarrow> race_step cfg s None (s\<lparr>sh_svc := (sh_svc s)\<lparr>ks_store := st\<rparr>\<rparr>)"

definition race_next :: "auth_settings \<Rightarrow> shared \<Rightarrow> shared \<Rightarrow> bool" where
  "race_next cfg s s' \<longleftrightarrow> (\<exists>ans. race_step cfg s ans s')"

lemmas race_cases = race_step.cases [consumes 1]

lemma race_keeps:
  assumes "\<And>s ans s'. race_step cfg s ans s' \<Longrightarrow> P s \<Longrightarrow> P s'" and "(race_next cfg)\<^sup>*\<^sup>* s s'" and "P s"
  shows "P s'"
  using assms(2,3) by (induction rule: rtranclp_induct) (auto simp: race_next_def intro: assms(1))

text \<open>The operation \<open>authenticate\<close> is its pieces, one after the other.\<close>

lemma authenticate_in_pieces:
  assumes "opt_truthy (Some key)"
  shows "(race_next cfg)\<^sup>*\<^sup>* s (s\<lparr>sh_svc := snd (authenticate cfg (Some key) (sh_clock s) now (sh_svc s))\<rparr>)"
proof -
  obtain h v where c: "read_cache (sha256_hex key) (sh_clock s) (counted (sh_svc s)) = (Inr h, v)"
    using read_cache_right [of "sha256_hex key" "sh_clock s" "counted (sh_svc s)"] by (metis prod.collapse)
  note eq = authenticate_present [OF assms, of cfg "sh_clock s" now "sh_svc s"]
  show ?thesis
  proof (cases h)
    case (Some p)
    then have "race_next cfg s (s\<lparr>sh_svc := v\<rparr>)" using hits [of key s p v cfg] c by (auto simp: race_next_def)
    then show ?thesis using c Some by (simp add: eq r_into_rtranclp)
  next
    case None
    let ?s1 = "s\<lparr>sh_svc := v, sh_threads := Looking key (sh_clock s) # sh_threads s\<rparr>"
    have s1: "race_next cfg s ?s1" using misses [of key s v cfg] c None by (auto simp: race_next_def)
    obtain r u where d: "check_key cfg key v = (r, u)" by fastforce
    show ?thesis
    proof (cases r)
      case (Inl e)
      then have "race_next cfg ?s1 (s\<lparr>sh_svc := u\<rparr>)"
        using refuses [of ?s1 "[]" key "sh_clock s" "sh_threads s" cfg e u] d by (auto simp: race_next_def)
      with s1 show ?thesis using c None d Inl by (simp add: eq)
    next
      case (Inr k)
      let ?s2 = "s\<lparr>sh_svc := u, sh_threads := Checked key k (sh_clock s) # sh_threads s\<rparr>"
      have s2: "race_next cfg ?s1 ?s2"
        using checks [of ?s1 "[]" key "sh_clock s" "sh_threads s" cfg k u] d Inr by (auto simp: race_next_def)
      obtain w where w: "remember (sha256_hex key) k (sh_clock s) now u = (Inr (key_principal k), w)"
        using remember_result(1) [of "sha256_hex key" k "sh_clock s" now u] by (metis prod.collapse)
      have "race_next cfg ?s2 (s\<lparr>sh_svc := w\<rparr>)"
        using remembers [of ?s2 "[]" key k "sh_clock s" "sh_threads s" now "key_principal k" w cfg] w
        by (auto simp: race_next_def)
      with s1 s2 show ?thesis using c None d Inr w by (simp add: eq)
    qed
  qed
qed

subsection \<open>What an answer rests on\<close>

text \<open>A key of the store, revoked since or not, whose digest is that of a key with the presented fingerprint.\<close>

definition rests :: "auth_settings \<Rightarrow> store \<Rightarrow> string \<Rightarrow> principal \<Rightarrow> bool" where
  "rests cfg st d p \<longleftrightarrow>
     (\<exists>key k. sha256_hex key = d \<and> key_at st (k_id k) = Some k \<and> matches_key cfg key k \<and> p = key_principal k)"

definition well_rested :: "auth_settings \<Rightarrow> shared \<Rightarrow> bool" where
  "well_rested cfg s \<longleftrightarrow>
     (\<forall>(d, p, _) \<in> set (ks_cache (sh_svc s)). rests cfg (sh_store s) d p)
     \<and> (\<forall>key k t. Checked key k t \<in> set (sh_threads s) \<longrightarrow> rests cfg (sh_store s) (sha256_hex key) (key_principal k))"

text \<open>The table of keys only grows, but for revocations.\<close>

definition evolves :: "store \<Rightarrow> store \<Rightarrow> bool" where
  "evolves st st' \<longleftrightarrow> (\<forall>kid k. key_at st kid = Some k \<longrightarrow>
     (\<exists>k'. key_at st' kid = Some k' \<and> k'\<lparr>k_revoked_at := None\<rparr> = k\<lparr>k_revoked_at := None\<rparr>
        \<and> (k_revoked_at k \<noteq> None \<longrightarrow> k_revoked_at k' \<noteq> None)))"

lemma evolves_grows: "key_at st \<subseteq>\<^sub>m key_at st' \<Longrightarrow> evolves st st'"
  unfolding evolves_def map_le_def by (metis domI)

lemma evolves_revoke: "evolves st (snd (revoke_api_key kid tid now st))"
  by (auto simp: evolves_def revoke_keys)

lemma evolves_op: "grows m \<Longrightarrow> evolves (ks_store v) (ks_store (snd (m v))) \<and> set (ks_cache (snd (m v))) \<subseteq> set (ks_cache v)"
  by (auto simp: grows_def intro: evolves_grows)

lemma evolves_in_revoke:
  "evolves (ks_store v) (ks_store (snd (revoke kid tid who now v))) \<and> set (ks_cache (snd (revoke kid tid who now v))) \<subseteq> set (ks_cache v)"
  using revoke_cases [of kid tid who now v] evolves_revoke [of "ks_store v" kid tid now]
  by (auto simp: evolves_def)


lemma evolves_rests:
  assumes "rests cfg st d p" and "evolves st st'"
  shows "rests cfg st' d p"
proof -
  obtain key k where k: "sha256_hex key = d" "key_at st (k_id k) = Some k" "matches_key cfg key k" "p = key_principal k"
    using assms(1) by (auto simp: rests_def)
  then obtain k' where k': "key_at st' (k_id k) = Some k'" "k'\<lparr>k_revoked_at := None\<rparr> = k\<lparr>k_revoked_at := None\<rparr>"
    using assms(2) unfolding evolves_def by blast
  note field = arg_cong [OF k'(2)]
  have f: "k_id k' = k_id k" "k_hash k' = k_hash k" "k_tenant k' = k_tenant k" "k_role k' = k_role k" "k_label k' = k_label k"
    by (use field [of k_id] in simp, use field [of k_hash] in simp, use field [of k_tenant] in simp,
        use field [of k_role] in simp, use field [of k_label] in simp)
  then have "matches_key cfg key k' = matches_key cfg key k" "key_principal k' = key_principal k"
    by (simp_all add: matches_key_def key_principal_def split: option.split)
  with f(1) have "key_at st' (k_id k') = Some k'" "matches_key cfg key k'" "p = key_principal k'" using k k'(1) by simp_all
  then show ?thesis using k(1) unfolding rests_def by blast
qed

text \<open>
  Every step is of one of four kinds: it answers from the cache, it checks a key, it fills the cache, or it
  leaves no more in the cache, no key checked, and a table of keys that has evolved.
\<close>

lemma race_kinds [consumes 1, case_names hit check fill quiet]:
  assumes "race_step cfg s ans s'"
  obtains (hit) key p e v where "ans = Some (key, sh_clock s, p)" "(sha256_hex key, p, e) \<in> set (ks_cache (sh_svc s))" "sh_clock s < e"
      "ks_store v = sh_store s" "ks_cache v = ks_cache (sh_svc s)" "s' = s\<lparr>sh_svc := v\<rparr>"
  | (check) xs key t ys k where "ans = None" "sh_threads s = xs @ Looking key t # ys"
      "get_api_key (k_id k) (sh_store s) = Some k" "k_revoked_at k = None" "matches_key cfg key k"
      "s' = s\<lparr>sh_threads := xs @ Checked key k t # ys\<rparr>"
  | (fill) xs key k t ys v where "ans = Some (key, t, key_principal k)" "sh_threads s = xs @ Checked key k t # ys"
      "key_at (ks_store v) = key_at (sh_store s)"
      "ks_cache v = AList.update (sha256_hex key) (key_principal k, t + AUTH_CACHE_TTL) (ks_cache (sh_svc s))"
      "s' = s\<lparr>sh_svc := v, sh_threads := xs @ ys\<rparr>"
  | (quiet) "ans = None" "evolves (sh_store s) (sh_store s')" "set (ks_cache (sh_svc s')) \<subseteq> set (ks_cache (sh_svc s))"
      "\<forall>th \<in> set (sh_threads s'). th \<in> set (sh_threads s) \<or> (\<exists>key. th = Looking key (sh_clock s))"
      "sh_clock s \<le> sh_clock s'"
  using assms
proof (cases rule: race_cases)
  case (hits key p v)
  then obtain e where e: "map_of (ks_cache (sh_svc s)) (sha256_hex key) = Some (p, e)" "sh_clock s < e" "v = counted (sh_svc s)"
    by (auto simp: read_cache_def split: option.splits if_splits)
  then show ?thesis using hits that(1) [of key p e v] map_of_SomeD [OF e(1)] by simp
next
  case (misses key v)
  have "evolves (ks_store (counted (sh_svc s))) (ks_store v) \<and> set (ks_cache v) \<subseteq> set (ks_cache (counted (sh_svc s)))"
    using evolves_op [OF grows_read_cache, of "counted (sh_svc s)" "sha256_hex key" "sh_clock s"] misses by simp
  then show ?thesis using misses that(4) by auto
next
  case (checks xs key t ys k v)
  then show ?thesis using that(2) check_key_result [OF checks(4)] by simp
next
  case (refuses xs key t ys e v)
  then show ?thesis using that(4) evolves_op [OF grows_check, of "sh_svc s" cfg key] by auto
next
  case (remembers xs key k t ys now p v)
  then show ?thesis
    using that(3) remember_result [of "sha256_hex key" k t now "sh_svc s"] by auto
next
  case (creates uuid tok tid r label who role now)
  then show ?thesis using that(4) evolves_op [OF grows_create] by auto
next
  case (revokes kid tid who now)
  then show ?thesis using that(4) evolves_in_revoke by auto
next
  case (invalidates kid)
  then show ?thesis using that(4) evolves_op [OF grows_invalidate] by auto
next
  case (bootstraps now)
  then show ?thesis using that(4) evolves_op [OF grows_bootstrap] by auto
next
  case (revoked_elsewhere kid tid now)
  then show ?thesis using that(4) evolves_revoke by auto
next
  case (created_elsewhere k)
  then show ?thesis using that(4) evolves_grows [OF insert_keys] by auto
next
  case (touched_elsewhere kid now)
  then show ?thesis using that(4) evolves_grows [of "sh_store s"] by (auto simp: touch_keys)
next
  case (elsewhere st)
  then have "key_at st = key_at (sh_store s)" by (intro ext) (simp add: key_at_def get_api_key_def)
  then show ?thesis using elsewhere that(4) evolves_grows [of "sh_store s" st] by auto
qed (use that(4) evolves_grows in auto)

subsection \<open>Invariants\<close>

lemma well_rested_step:
  assumes "race_step cfg s ans s'" and "well_rested cfg s"
  shows "well_rested cfg s' \<and> (\<forall>key t p. ans = Some (key, t, p) \<longrightarrow> rests cfg (sh_store s') (sha256_hex key) p)"
  using assms(1)
proof (cases rule: race_kinds)
  case (hit key p e v)
  then show ?thesis using assms(2) by (auto simp: well_rested_def)
next
  case (check xs key t ys k)
  have "rests cfg (sh_store s) (sha256_hex key) (key_principal k)"
    using erased_vouches [OF check(3-5)] by (auto simp: vouched_def rests_def)
  then show ?thesis using assms(2) check by (auto simp: well_rested_def)
next
  case (fill xs key k t ys v)
  have same: "rests cfg (ks_store v) d p = rests cfg (sh_store s) d p" for d p using fill(3) by (simp add: rests_def)
  have "rests cfg (sh_store s) (sha256_hex key) (key_principal k)" using assms(2) fill(2) by (auto simp: well_rested_def)
  then show ?thesis
    using assms(2) fill set_AList_update [of "sha256_hex key" "(key_principal k, t + AUTH_CACHE_TTL)" "ks_cache (sh_svc s)"]
    by (auto simp: well_rested_def same)
next
  case quiet
  then show ?thesis using assms(2) evolves_rests [OF _ quiet(2)] by (fastforce simp: well_rested_def)
qed

text \<open>An entry of the cache lives no longer than it may, and no authentication began in the future.\<close>

definition timely :: "shared \<Rightarrow> bool" where
  "timely s \<longleftrightarrow> (\<forall>(d, p, e) \<in> set (ks_cache (sh_svc s)). e \<le> sh_clock s + AUTH_CACHE_TTL)
     \<and> (\<forall>key t. Looking key t \<in> set (sh_threads s) \<longrightarrow> t \<le> sh_clock s)
     \<and> (\<forall>key k t. Checked key k t \<in> set (sh_threads s) \<longrightarrow> t \<le> sh_clock s)"





subsection \<open>Properties\<close>

definition at_rest :: "shared \<Rightarrow> bool" where
  "at_rest s \<longleftrightarrow> ks_cache (sh_svc s) = [] \<and> sh_threads s = []"

lemma at_rest_ok: "at_rest s \<Longrightarrow> well_rested cfg s" "at_rest s \<Longrightarrow> timely s"
  by (simp_all add: at_rest_def well_rested_def timely_def)

text \<open>C14: The principal an authentication is answered with rests on a key of the store: however authentications
  interleave with one another, with the operations of the service and with other processes that write to the table of
  keys, there is a stored key whose scrypt digest is that of a key with the SHA-256 of what was presented, and the principal has
  its tenant, role and identifier.  That key may have been revoked meanwhile: for how long it is still answered for is
  \<open>revoked_key_dead\<close>.\<close>

theorem authentication_sound:
  assumes "at_rest s0" and "(race_next cfg)\<^sup>*\<^sup>* s0 s" and "race_step cfg s (Some (key, t, p)) s'"
  shows "\<exists>key' k. sha256_hex key' = sha256_hex key \<and> key_at (sh_store s') (k_id k) = Some k \<and> matches_key cfg key' k
    \<and> p = key_principal k"
proof -
  have "well_rested cfg s"
    using race_keeps [of cfg "well_rested cfg", OF _ assms(2) at_rest_ok(1) [OF assms(1)]] well_rested_step by blast
  from well_rested_step [OF assms(3) this] show ?thesis by (simp add: rests_def)
qed


subsection \<open>A race\<close>

text \<open>
  An authentication checks its key, the key is revoked, the authentication fills the cache: the next one, 59 s later, is
  answered from it.  This is the worst the bound allows.
\<close>

definition race_start :: shared where
  "race_start = \<lparr>sh_svc = sample_service [sample_record], sh_clock = 0, sh_threads = []\<rparr>"

definition race_checked :: shared where
  "race_checked = race_start\<lparr>sh_svc := counted (sample_service [sample_record]), sh_threads := [Checked sample_text sample_record 0]\<rparr>"



lemma race_start_rest: "at_rest race_start"
  by (simp add: race_start_def at_rest_def sample_service_def)

lemma race_to_checked: "(race_next sample_settings)\<^sup>*\<^sup>* race_start race_checked"
proof -
  let ?v = "counted (sample_service [sample_record])" and ?s1 = "race_start\<lparr>sh_svc := counted (sample_service [sample_record]),
    sh_threads := [Looking sample_text 0]\<rparr>"
  have "read_cache (sha256_hex sample_text) 0 ?v = (Inr None, ?v)" by (simp add: read_cache_def sample_service_def)
  then have "race_next sample_settings race_start ?s1"
    using misses [of sample_text race_start ?v sample_settings] by (auto simp: race_next_def race_start_def)
  moreover have "check_key sample_settings sample_text ?v = (Inr sample_record, ?v)" by (rule sample_check)
  then have "race_next sample_settings ?s1 race_checked"
    using checks [of ?s1 "[]" sample_text 0 "[]" sample_settings sample_record ?v]
    by (auto simp: race_next_def race_checked_def)
  ultimately show ?thesis by simp
qed

lemma race_fills:
  "race_step sample_settings race_checked (Some (sample_text, 0, key_principal sample_record))
     (race_checked\<lparr>sh_svc := snd (remember (sha256_hex sample_text) sample_record 0 5 (sh_svc race_checked)), sh_threads := []\<rparr>)"
  using remembers [of race_checked "[]" sample_text sample_record 0 "[]" 5 "key_principal sample_record"]
    remember_result(1) [of "sha256_hex sample_text" sample_record 0 5 "sh_svc race_checked"]
  by (simp add: race_checked_def prod_eq_iff)

theorem authentication_sound_witness:
  "\<exists>s'. race_step sample_settings race_checked (Some (sample_text, 0, key_principal sample_record)) s'
     \<and> (\<exists>key' k. sha256_hex key' = sha256_hex sample_text \<and> key_at (sh_store s') (k_id k) = Some k
        \<and> matches_key sample_settings key' k \<and> key_principal sample_record = key_principal k)"
  using race_fills authentication_sound [OF race_start_rest race_to_checked race_fills] by blast






end
