(* ===== verification/Bus.thy ===== *)
theory Bus
  imports Store "HOL-Library.Sublist"
begin

section \<open>The event bus\<close>

text \<open>
  \<open>bus/base.py\<close>, \<open>bus/memory.py\<close> and \<open>bus/sqlite_bus.py\<close>: the queues of the subscribers, the diffusion of an event,
  and the SQLite bus that replays and polls the events not yet processed.  A subscriber is the model of its
  \<open>asyncio.Queue\<close>: a maximal size (zero is no limit) and the events held.  Subscribers are independent, so
  the order of the set of queues does not matter.  Left out: the tasks and delays of the event loop, \<open>drain\<close>,
  which only waits, the errors of the store, and NATS, a network service.
\<close>

definition DEFAULT_QUEUE_SIZE :: int where "DEFAULT_QUEUE_SIZE = 5000"

record subscriber =
  sb_id :: nat
  sb_max :: int
  sb_queue :: "event list"

record bus =
  bu_queue_size :: int
  bu_subscribers :: "subscriber list"
  bu_next :: nat
  bu_started :: bool
  bu_published :: int
  bu_dropped :: int
  bu_delivered :: int
  bu_received :: int
  bu_errors :: int

definition new_bus :: "int \<Rightarrow> bus" where
  "new_bus size' = \<lparr>bu_queue_size = size', bu_subscribers = [], bu_next = 0, bu_started = False, bu_published = 0,
     bu_dropped = 0, bu_delivered = 0, bu_received = 0, bu_errors = 0\<rparr>"

definition bus_start :: "bus \<Rightarrow> bus" where "bus_start b = b\<lparr>bu_started := True\<rparr>"

definition bus_stop :: "bus \<Rightarrow> bus" where "bus_stop b = b\<lparr>bu_started := False, bu_subscribers := []\<rparr>"

definition subscribe :: "int option \<Rightarrow> bus \<Rightarrow> nat \<times> bus" where
  "subscribe maxsize b =
     (let limit = (case maxsize of None \<Rightarrow> bu_queue_size b | Some n \<Rightarrow> if n = 0 then bu_queue_size b else n)
      in (bu_next b, b\<lparr>bu_subscribers := bu_subscribers b @ [\<lparr>sb_id = bu_next b, sb_max = limit, sb_queue = []\<rparr>],
                       bu_next := Suc (bu_next b)\<rparr>))"

definition unsubscribe :: "nat \<Rightarrow> bus \<Rightarrow> bus" where
  "unsubscribe i b = b\<lparr>bu_subscribers := filter (\<lambda>q. sb_id q \<noteq> i) (bu_subscribers b)\<rparr>"

definition subscriber_count :: "bus \<Rightarrow> int" where
  "subscriber_count b = int (length (bu_subscribers b))"

definition queue_full :: "subscriber \<Rightarrow> bool" where
  "queue_full q \<longleftrightarrow> 0 < sb_max q \<and> sb_max q \<le> int (length (sb_queue q))"

text \<open>A full queue gives up its oldest event.\<close>

definition make_room :: "subscriber \<Rightarrow> subscriber" where
  "make_room q = (if queue_full q then q\<lparr>sb_queue := tl (sb_queue q)\<rparr> else q)"

definition offer :: "event \<Rightarrow> subscriber \<Rightarrow> subscriber" where
  "offer ev q =
     (let q1 = make_room q in if queue_full q1 then q1 else q1\<lparr>sb_queue := sb_queue q1 @ [ev]\<rparr>)"

definition offer_counts :: "subscriber \<Rightarrow> int \<times> int" where
  "offer_counts q =
     (let evicted = (if queue_full q then 1 else 0)
      in if queue_full (make_room q) then (evicted + 1, 0) else (evicted, 1))"

definition dispatch :: "event \<Rightarrow> bus \<Rightarrow> bus" where
  "dispatch ev b =
     b\<lparr>bu_subscribers := map (offer ev) (bu_subscribers b),
       bu_dropped := bu_dropped b + sum_list (map (fst \<circ> offer_counts) (bu_subscribers b)),
       bu_delivered := bu_delivered b + sum_list (map (snd \<circ> offer_counts) (bu_subscribers b))\<rparr>"

definition publish :: "event \<Rightarrow> bus \<Rightarrow> bus" where
  "publish ev b = dispatch ev (b\<lparr>bu_published := bu_published b + 1, bu_received := bu_received b + 1\<rparr>)"

text \<open>What a consumer takes from its queue.\<close>

definition take_event :: "nat \<Rightarrow> bus \<Rightarrow> event option \<times> bus" where
  "take_event i b =
     (case find (\<lambda>q. sb_id q = i) (bu_subscribers b) of
        None \<Rightarrow> (None, b)
      | Some q \<Rightarrow>
          (case sb_queue q of
             [] \<Rightarrow> (None, b)
           | ev # _ \<Rightarrow>
               (Some ev, b\<lparr>bu_subscribers := map (\<lambda>r. if sb_id r = i then r\<lparr>sb_queue := tl (sb_queue r)\<rparr> else r)
                                             (bu_subscribers b)\<rparr>)))"

definition bus_stats :: "string \<Rightarrow> bus \<Rightarrow> dict" where
  "bus_stats name b =
     [(''bus'', PStr name), (''started'', PBool (bu_started b)), (''subscribers'', PInt (subscriber_count b)),
      (''published'', PInt (bu_published b)), (''delivered'', PInt (bu_delivered b)), (''received'', PInt (bu_received b)),
      (''dropped'', PInt (bu_dropped b)), (''errors'', PInt (bu_errors b))]"

subsection \<open>The SQLite bus\<close>

record sqlite_bus =
  sq_bus :: bus
  sq_seen :: "string set"
  sq_replayed :: int

definition new_sqlite_bus :: "int \<Rightarrow> sqlite_bus" where
  "new_sqlite_bus size' = \<lparr>sq_bus = new_bus size', sq_seen = {}, sq_replayed = 0\<rparr>"

definition sqlite_publish :: "event \<Rightarrow> sqlite_bus \<Rightarrow> sqlite_bus" where
  "sqlite_publish ev q = q\<lparr>sq_bus := publish ev (sq_bus q), sq_seen := insert (ev_id ev) (sq_seen q)\<rparr>"

text \<open>An event the bus has not seen is received and dispatched once.\<close>

definition deliver_new :: "event \<Rightarrow> sqlite_bus \<Rightarrow> sqlite_bus" where
  "deliver_new ev q =
     (if ev_id ev \<in> sq_seen q then q
      else q\<lparr>sq_seen := insert (ev_id ev) (sq_seen q),
             sq_bus := dispatch ev ((sq_bus q)\<lparr>bu_received := bu_received (sq_bus q) + 1\<rparr>)\<rparr>)"

definition sqlite_replay :: "int \<Rightarrow> store \<Rightarrow> sqlite_bus \<Rightarrow> int \<times> sqlite_bus" where
  "sqlite_replay limit st q =
     (let pending = pending_events limit st in (int (length pending), fold deliver_new pending q))"

definition sqlite_start :: "store \<Rightarrow> sqlite_bus \<Rightarrow> sqlite_bus" where
  "sqlite_start st q =
     (case sqlite_replay 1000 st (q\<lparr>sq_bus := bus_start (sq_bus q)\<rparr>) of (n, q') \<Rightarrow> q'\<lparr>sq_replayed := n\<rparr>)"

text \<open>One turn of the polling loop.  The events it delivers are those not seen at the start of the turn.\<close>

definition poll_turn :: "store \<Rightarrow> sqlite_bus \<Rightarrow> sqlite_bus" where
  "poll_turn st q =
     (let fresh = filter (\<lambda>ev. ev_id ev \<notin> sq_seen q) (pending_events 500 st);
          q' = fold (\<lambda>ev q. q\<lparr>sq_seen := insert (ev_id ev) (sq_seen q),
                 sq_bus := dispatch ev ((sq_bus q)\<lparr>bu_received := bu_received (sq_bus q) + 1\<rparr>)\<rparr>) fresh q
      in if 50000 < card (sq_seen q') then q'\<lparr>sq_seen := ev_id ` set (pending_events 1000 st)\<rparr> else q')"

subsection \<open>Nothing a subscriber was given is lost without being counted\<close>

text \<open>A run of the bus: publications, and events taken by the consumers; the last component counts them.\<close>

datatype bus_act = Publish event | Take nat

definition held :: "bus \<Rightarrow> int" where
  "held b = (\<Sum>q \<leftarrow> bu_subscribers b. int (length (sb_queue q)))"

fun bus_run :: "bus_act list \<Rightarrow> bus \<times> int \<Rightarrow> bus \<times> int" where
  "bus_run [] s = s"
| "bus_run (Publish ev # acts) (b, n) = bus_run acts (publish ev b, n)"
| "bus_run (Take i # acts) (b, n) =
     bus_run acts (snd (take_event i b), n + (if fst (take_event i b) = None then 0 else 1))"

fun history :: "bus_act list \<Rightarrow> event list" where
  "history [] = []"
| "history (Publish ev # acts) = ev # history acts"
| "history (Take i # acts) = history acts"

definition queue_ok :: "event list \<Rightarrow> subscriber \<Rightarrow> bool" where
  "queue_ok h q \<longleftrightarrow> suffix (sb_queue q) h \<and> (0 < sb_max q \<longrightarrow> int (length (sb_queue q)) \<le> sb_max q)"

text \<open>The account of a run that started from \<open>b0\<close>: what it published (\<open>h\<close>), what was taken (\<open>n\<close>).\<close>

definition account :: "bus \<Rightarrow> event list \<Rightarrow> bus \<times> int \<Rightarrow> bool" where
  "account b0 h s \<longleftrightarrow>
     (let b = fst s; delivered = bu_delivered b - bu_delivered b0
      in map sb_id (bu_subscribers b) = map sb_id (bu_subscribers b0) \<and>
         list_all (queue_ok h) (bu_subscribers b) \<and>
         delivered = int (length h) * int (length (bu_subscribers b0)) \<and>
         delivered = bu_dropped b - bu_dropped b0 + snd s + held b)"

lemma room_made: "queue_ok h q \<Longrightarrow> \<not> queue_full (make_room q)"
  by (auto simp: queue_ok_def make_room_def queue_full_def)

lemma offer_queue:
  assumes "queue_ok h q"
  shows "sb_queue (offer ev q) = (if queue_full q then tl (sb_queue q) else sb_queue q) @ [ev]"
    and "sb_id (offer ev q) = sb_id q" and "sb_max (offer ev q) = sb_max q"
    and "offer_counts q = (if queue_full q then 1 else 0, 1)"
  using room_made [OF assms] by (auto simp: offer_def offer_counts_def Let_def make_room_def)

lemma suffix_snoc: "suffix xs h \<Longrightarrow> suffix (xs @ [x]) (h @ [x])"
  by simp

lemma offer_ok:
  assumes "queue_ok h q"
  shows "queue_ok (h @ [ev]) (offer ev q)"
proof -
  have "suffix (tl (sb_queue q)) h" using assms by (auto simp: queue_ok_def intro: suffix_order.trans suffix_tl)
  then show ?thesis
    using assms by (auto simp: queue_ok_def offer_queue [OF assms] suffix_snoc queue_full_def)
qed

lemma offers:
  assumes "list_all (queue_ok h) qs"
  shows "list_all (queue_ok (h @ [ev])) (map (offer ev) qs)"
    and "map sb_id (map (offer ev) qs) = map sb_id qs"
    and "sum_list (map (snd \<circ> offer_counts) qs) = int (length qs)"
    and "(\<Sum>q \<leftarrow> map (offer ev) qs. int (length (sb_queue q))) + sum_list (map (fst \<circ> offer_counts) qs) =
      (\<Sum>q \<leftarrow> qs. int (length (sb_queue q))) + int (length qs)"
proof -
  have one: "int (length (sb_queue (offer ev q))) + fst (offer_counts q) = int (length (sb_queue q)) + 1" if "queue_ok h q" for q
    using that by (auto simp: offer_queue [OF that] queue_full_def)
  show "list_all (queue_ok (h @ [ev])) (map (offer ev) qs)" "map sb_id (map (offer ev) qs) = map sb_id qs"
    "sum_list (map (snd \<circ> offer_counts) qs) = int (length qs)"
    using assms by (induction qs) (auto simp: offer_ok offer_queue)
  show "(\<Sum>q \<leftarrow> map (offer ev) qs. int (length (sb_queue q))) + sum_list (map (fst \<circ> offer_counts) qs) =
      (\<Sum>q \<leftarrow> qs. int (length (sb_queue q))) + int (length qs)"
    using assms
  proof (induction qs)
    case (Cons q qs)
    then show ?case using one [of q] by simp
  qed simp
qed

lemma publish_account:
  assumes "account b0 h (b, n)"
  shows "account b0 (h @ [ev]) (publish ev b, n)"
proof -
  have ok: "list_all (queue_ok h) (bu_subscribers b)" and same: "map sb_id (bu_subscribers b) = map sb_id (bu_subscribers b0)"
    using assms by (simp_all add: account_def Let_def)
  have "length (bu_subscribers b) = length (bu_subscribers b0)" using arg_cong [OF same, of length] by simp
  then show ?thesis
    using assms offers(1,2,4) [OF ok, of ev] offers(3) [OF ok] by (simp add: account_def publish_def dispatch_def held_def Let_def algebra_simps)
qed

lemma taken_sum:
  assumes "distinct (map sb_id qs)" and "find (\<lambda>q. sb_id q = i) qs = Some q" and "sb_queue q \<noteq> []"
  shows "(\<Sum>q \<leftarrow> map (\<lambda>r. if sb_id r = i then r\<lparr>sb_queue := tl (sb_queue r)\<rparr> else r) qs. int (length (sb_queue q))) + 1 =
    (\<Sum>q \<leftarrow> qs. int (length (sb_queue q)))"
  using assms
proof (induction qs)
  case (Cons r qs)
  show ?case
  proof (cases "sb_id r = i")
    case True
    with Cons.prems(2) have "r = q" by simp
    have "sb_id r \<notin> sb_id ` set qs" using Cons.prems(1) by simp
    then have "\<forall>x \<in> set qs. sb_id x \<noteq> i" using True by (metis image_eqI)
    then have "map (\<lambda>r. if sb_id r = i then r\<lparr>sb_queue := tl (sb_queue r)\<rparr> else r) qs = qs" by (intro map_idI) simp
    then show ?thesis using True \<open>r = q\<close> Cons.prems(3) by (cases "sb_queue q") simp_all
  next
    case False
    with Cons show ?thesis by simp
  qed
qed simp

lemma take_account:
  assumes "account b0 h (b, n)" and "distinct (map sb_id (bu_subscribers b0))"
  shows "account b0 h (snd (take_event i b), n + (if fst (take_event i b) = None then 0 else 1))"
proof (cases "find (\<lambda>q. sb_id q = i) (bu_subscribers b)")
  case None
  with assms show ?thesis by (simp add: take_event_def)
next
  case (Some q)
  show ?thesis
  proof (cases "sb_queue q")
    case Nil
    with Some assms show ?thesis by (simp add: take_event_def)
  next
    case (Cons ev evs)
    let ?f = "\<lambda>r. if sb_id r = i then r\<lparr>sb_queue := tl (sb_queue r)\<rparr> else r"
    have ids: "distinct (map sb_id (bu_subscribers b))" using assms by (simp add: account_def Let_def)
    have step: "queue_ok h (?f r)" if "queue_ok h r" for r
      using that by (auto simp: queue_ok_def intro: suffix_order.trans suffix_tl)
    have "list_all (queue_ok h) (bu_subscribers b)" using assms by (simp add: account_def Let_def)
    then have "list_all (queue_ok h) (map ?f (bu_subscribers b))"
      unfolding list.pred_map by (rule list.pred_mono_strong) (simp only: comp_def step)
    moreover have "map sb_id (map ?f (bu_subscribers b)) = map sb_id (bu_subscribers b)" by simp
    moreover have "take_event i b = (Some ev, b\<lparr>bu_subscribers := map ?f (bu_subscribers b)\<rparr>)"
      using Some Cons by (simp add: take_event_def)
    moreover have "(\<Sum>q \<leftarrow> map ?f (bu_subscribers b). int (length (sb_queue q))) + 1 =
        (\<Sum>q \<leftarrow> bu_subscribers b. int (length (sb_queue q)))"
      by (rule taken_sum [OF ids Some]) (simp add: Cons)
    ultimately obtain qs where "list_all (queue_ok h) qs" "map sb_id qs = map sb_id (bu_subscribers b)"
      "take_event i b = (Some ev, b\<lparr>bu_subscribers := qs\<rparr>)"
      "(\<Sum>q \<leftarrow> qs. int (length (sb_queue q))) + 1 = (\<Sum>q \<leftarrow> bu_subscribers b. int (length (sb_queue q)))"
      by blast
    then show ?thesis using assms(1) by (simp add: account_def Let_def held_def)
  qed
qed

lemma run_account:
  "account b0 h s \<Longrightarrow> distinct (map sb_id (bu_subscribers b0)) \<Longrightarrow> account b0 (h @ history acts) (bus_run acts s)"
proof (induction acts arbitrary: h s)
  case (Cons a acts)
  obtain b n where s: "s = (b, n)" by (cases s)
  show ?case
  proof (cases a)
    case (Publish ev)
    then show ?thesis using Cons.IH [OF publish_account [OF Cons.prems(1) [unfolded s]] Cons.prems(2)] s by simp
  next
    case (Take i)
    then show ?thesis using Cons.IH [OF take_account [OF Cons.prems(1) [unfolded s] Cons.prems(2)] Cons.prems(2)] s by simp
  qed
qed simp

text \<open>C20: A bus whose subscribers start with empty queues accounts for every copy of every event: each event
  published is given to each subscriber, and what was given was taken, is held, or is counted as dropped.  A queue
  never exceeds its size, and holds the latest events published, in their order.\<close>

theorem bus_accounts:
  assumes "list_all (\<lambda>q. sb_queue q = []) (bu_subscribers b)" and "distinct (map sb_id (bu_subscribers b))"
    and "bus_run acts (b, 0) = (b', n)"
  shows "bu_delivered b' - bu_delivered b = int (length (history acts)) * int (length (bu_subscribers b)) \<and>
    bu_delivered b' - bu_delivered b = (bu_dropped b' - bu_dropped b) + n + held b' \<and>
    (\<forall>q \<in> set (bu_subscribers b'). suffix (sb_queue q) (history acts) \<and>
       (0 < sb_max q \<longrightarrow> int (length (sb_queue q)) \<le> sb_max q))"
proof -
  have none: "map (\<lambda>q. int (length (sb_queue q))) (bu_subscribers b) = map (\<lambda>_. 0) (bu_subscribers b)"
    using assms(1) by (simp add: list_all_iff)
  have "held b = 0" unfolding held_def none by simp
  then have "account b [] (b, 0)" using assms(1) by (auto simp: account_def queue_ok_def list_all_iff)
  from run_account [OF this assms(2), of acts] show ?thesis
    unfolding assms(3) by (simp add: account_def Let_def queue_ok_def list_all_iff)
qed

definition sample_subscribers :: bus where
  "sample_subscribers = snd (subscribe (Some 1) (snd (subscribe None (new_bus 2))))"

definition alert :: "string \<Rightarrow> event" where
  "alert i = \<lparr>ev_id = i, ev_tenant = ''acme'', ev_ts = 0, ev_kind = Log_line,
     ev_source = \<lparr>src_type = Src_manual, src_name = None, src_host = None\<rparr>, ev_hint = None, ev_labels = [],
     ev_payload = [], ev_raw_ref = None\<rparr>"

theorem bus_accounts_witness:
  "let acts = [Publish (alert ''a''), Publish (alert ''b''), Take 0, Publish (alert ''c'')];
       (b', n) = bus_run acts (sample_subscribers, 0)
   in n = 1 \<and> held b' = 3 \<and> bu_dropped b' = 2 \<and> bu_delivered b' = 6 \<and>
      (\<forall>q \<in> set (bu_subscribers b'). suffix (sb_queue q) (map alert [''a'', ''b'', ''c'']))"
proof -
  let ?acts = "[Publish (alert ''a''), Publish (alert ''b''), Take 0, Publish (alert ''c'')]"
  obtain b' n where r: "bus_run ?acts (sample_subscribers, 0) = (b', n)" by fastforce
  have "list_all (\<lambda>q. sb_queue q = []) (bu_subscribers sample_subscribers)"
    "distinct (map sb_id (bu_subscribers sample_subscribers))"
    by (simp_all add: sample_subscribers_def new_bus_def subscribe_def Let_def)
  note account = bus_accounts [OF this r]
  have "n = 1 \<and> held b' = 3 \<and> bu_dropped b' = 2"
    using r by (auto simp: sample_subscribers_def new_bus_def subscribe_def Let_def publish_def dispatch_def offer_def
        make_room_def queue_full_def offer_counts_def take_event_def held_def)
  with account r show ?thesis by (simp add: sample_subscribers_def new_bus_def subscribe_def Let_def)
qed

subsection \<open>Limits of the bus\<close>

text \<open>
  An event published while nobody listens is neither delivered nor counted as dropped, although the contract of
  the bus says that a loss is always counted.
\<close>

theorem unheard_event_vanishes:
  assumes "bu_subscribers b = []"
  shows "bu_delivered (publish ev b) = bu_delivered b \<and> bu_dropped (publish ev b) = bu_dropped b \<and>
    bu_subscribers (publish ev b) = []"
  using assms by (simp add: publish_def dispatch_def)

text \<open>
  The replay at the start of the SQLite bus comes before the subscription of the worker (\<open>Service.start\<close>): it
  delivers the pending events to nobody and remembers them as seen, so the polling loop never delivers them either.
\<close>

lemma deliver_new_unheard:
  "bu_subscribers (sq_bus q) = [] \<Longrightarrow>
   bu_subscribers (sq_bus (fold deliver_new es q)) = [] \<and> bu_delivered (sq_bus (fold deliver_new es q)) = bu_delivered (sq_bus q) \<and>
   sq_seen (fold deliver_new es q) = ev_id ` set es \<union> sq_seen q"
  by (induction es arbitrary: q) (auto simp: deliver_new_def dispatch_def)

theorem replayed_events_lost:
  assumes "bu_subscribers (sq_bus q) = []"
  shows "bu_delivered (sq_bus (sqlite_start st q)) = bu_delivered (sq_bus q) \<and>
    (\<forall>ev \<in> set (pending_events 1000 st). ev_id ev \<in> sq_seen (sqlite_start st q))"
  using assms(1) deliver_new_unheard [of "q\<lparr>sq_bus := bus_start (sq_bus q)\<rparr>" "pending_events 1000 st"]
  by (simp add: sqlite_start_def sqlite_replay_def bus_start_def Let_def)

end
