(* ===== verification/Pipeline.thy ===== *)
theory Pipeline
  imports ActionEngine Detection Anomaly
begin

section \<open>The pipeline\<close>

text \<open>
  \<open>pipeline.py\<close>: an event is detected, scored, decided on, acted on and audited.  The state joins those of
  the engines, the counters, and the result of the event under way: what was found before an exception
  stays in the result the caller gets.  Every call reads the clock once (\<open>now\<close>).  The settings of the
  pipeline are those of the action engine.  Left out: the publication on the bus, which is detached from
  the processing, and the logs.
\<close>

definition MAX_BATCH :: nat where "MAX_BATCH = 500"

record pipeline_config =
  pg_regex :: regex_engine
  pg_sub :: regex_sub
  pg_sqrt :: "rat \<Rightarrow> rat"
  pg_actions :: action_engine
  pg_world :: world
  pg_env :: string
  pg_anomaly :: "detector_config option"
  pg_retention :: int
  pg_audit_retention :: int

record process_result =
  res_event_id :: string
  res_findings :: "finding list"
  res_decisions :: "decision list"
  res_actions :: "action list"
  res_error :: "string option"

record pipeline_state =
  pp_engine :: engine_state
  pp_detection :: detection_engine
  pp_decision :: decision_engine
  pp_detector :: detector
  pp_processed :: int
  pp_created :: int
  pp_updated :: int
  pp_triggered :: int
  pp_anomalies :: int
  pp_errors :: int
  pp_result :: process_result

type_synonym 'a pipe_op = "(pipeline_state, exn, 'a) op"

abbreviation pp_store :: "pipeline_state \<Rightarrow> store" where
  "pp_store s \<equiv> en_store (pp_engine s)"

definition on_engine :: "'a engine_op \<Rightarrow> 'a pipe_op" where
  "on_engine m s = (case m (pp_engine s) of (r, en) \<Rightarrow> (r, s\<lparr>pp_engine := en\<rparr>))"

definition on_data :: "'a store_op \<Rightarrow> 'a pipe_op" where
  "on_data m = on_engine (on_store m)"

definition new_result :: "string \<Rightarrow> process_result" where
  "new_result eid = \<lparr>res_event_id = eid, res_findings = [], res_decisions = [], res_actions = [], res_error = None\<rparr>"

definition new_pipeline :: "engine_state \<Rightarrow> detection_engine \<Rightarrow> decision_engine \<Rightarrow> pipeline_state" where
  "new_pipeline en de pe =
     \<lparr>pp_engine = en, pp_detection = de, pp_decision = pe, pp_detector = new_detector, pp_processed = 0,
      pp_created = 0, pp_updated = 0, pp_triggered = 0, pp_anomalies = 0, pp_errors = 0, pp_result = new_result []\<rparr>"

definition audit_step ::
    "string \<Rightarrow> string \<Rightarrow> string \<Rightarrow> string \<Rightarrow> dict \<Rightarrow> dict \<Rightarrow> dict \<Rightarrow> dict \<Rightarrow> time \<Rightarrow> unit pipe_op" where
  "audit_step tid who what role target before after context now =
     bindE (on_data (record_audit tid who what role target before after context now)) (\<lambda>_. returnE ())"

subsection \<open>Findings\<close>

definition finding_target :: "finding \<Rightarrow> dict" where
  "finding_target f = [(''type'', PStr ''finding''), (''id'', PStr (f_id f))]"

text \<open>An open finding whose deduplication window is over is closed, and another one will be opened.\<close>

definition retire_stale :: "tenant \<Rightarrow> rule \<Rightarrow> time \<Rightarrow> finding option \<Rightarrow> finding option pipe_op" where
  "retire_stale t r now found =
     (case found of
        None \<Rightarrow> returnE None
      | Some h \<Rightarrow>
          if seconds (dd_ttl (ru_dedup r)) < now - f_last_seen h
          then bindE (on_data (update_finding (t_id t) (f_id h)
                 [FF_status Closed, FF_resolution ''auto_closed_expired_dedup_window'',
                  FF_comment (''fenetre de deduplication de '' @ int_str (dd_ttl (ru_dedup r)) @ ''s depassee'')] now))
                 (\<lambda>_. returnE None)
          else returnE (Some h))"

definition refreshed_fields :: "finding \<Rightarrow> finding_field list" where
  "refreshed_fields f =
     [FF_severity (f_severity f), FF_risk_score (f_risk_score f), FF_confidence (f_confidence f), FF_title (f_title f),
      FF_description (f_description f), FF_remediation (f_remediation f), FF_tags (f_tags f), FF_mitre (f_mitre f),
      FF_evidence (f_evidence f), FF_last_seen (f_last_seen f), FF_count (f_count f), FF_event_ids (f_event_ids f)]"

definition built :: "exn + finding \<Rightarrow> finding pipe_op" where
  "built r = (case r of Inl e \<Rightarrow> raiseE e | Inr f \<Rightarrow> returnE f)"

definition refresh_finding :: "pipeline_config \<Rightarrow> match_result \<Rightarrow> tenant \<Rightarrow> finding \<Rightarrow> time \<Rightarrow> finding pipe_op" where
  "refresh_finding cfg m t h now =
     bindE (built (build_finding (pg_sub cfg) [] m t (Some h) (f_count h) now)) (\<lambda>f0.
     let f = f0\<lparr>f_count := f_count h + 1\<rparr>
     in bindE (on_data (update_finding (t_id t) (f_id f) (refreshed_fields f) now)) (\<lambda>_.
        bindE (writeE (\<lambda>s. s\<lparr>pp_updated := pp_updated s + 1\<rparr>)) (\<lambda>_.
        bindE (readE (\<lambda>s. case get_finding (t_id t) (f_id f) (pp_store s) of None \<Rightarrow> f | Some g \<Rightarrow> g)) (\<lambda>g.
        bindE (if f_risk_score h < f_risk_score g
               then audit_step (t_id t) ''system:pipeline'' ''finding.update'' ''system'' (finding_target g)
                      [(''risk_score'', PFloat (f_risk_score h)), (''count'', PInt (f_count h))]
                      [(''risk_score'', PFloat (f_risk_score g)), (''count'', PInt (f_count g))]
                      [(''rule_id'', PStr (ru_id (mr_rule m))), (''reason'', PStr ''aggravation du score de risque'')] now
               else returnE ()) (\<lambda>_.
        returnE g)))))"

definition create_finding :: "pipeline_config \<Rightarrow> match_result \<Rightarrow> tenant \<Rightarrow> time \<Rightarrow> finding pipe_op" where
  "create_finding cfg m t now =
     bindE (on_engine (new_id (pg_world cfg) ''fi_'')) (\<lambda>fid.
     bindE (built (build_finding (pg_sub cfg) fid m t None 0 now)) (\<lambda>f.
     bindE (on_data (insert_finding f)) (\<lambda>_.
     bindE (writeE (\<lambda>s. s\<lparr>pp_created := pp_created s + 1\<rparr>)) (\<lambda>_.
     bindE (audit_step (t_id t) ''system:pipeline'' ''finding.create'' ''system'' (finding_target f) []
              [(''rule_id'', PStr (f_rule_id f)), (''severity'', PStr (severity_str (f_severity f))),
               (''risk_score'', PFloat (f_risk_score f)), (''title'', PStr (f_title f))]
              [(''event_id'', PStr (ev_id (mr_event m))), (''dedup_key'', PStr (mr_dedup_key m))] now) (\<lambda>_.
     returnE f)))))"

definition upsert_finding :: "pipeline_config \<Rightarrow> match_result \<Rightarrow> tenant \<Rightarrow> time \<Rightarrow> finding pipe_op" where
  "upsert_finding cfg m t now =
     bindE (readE (\<lambda>s. find_open_finding (t_id t) (ru_id (mr_rule m)) (mr_dedup_key m) (pp_store s))) (\<lambda>found.
     bindE (retire_stale t (mr_rule m) now found) (\<lambda>existing. case existing of
       None \<Rightarrow> create_finding cfg m t now
     | Some h \<Rightarrow> refresh_finding cfg m t h now))"

subsection \<open>Decision and action\<close>

definition decide_finding :: "pipeline_config \<Rightarrow> finding \<Rightarrow> tenant \<Rightarrow> time \<Rightarrow> decision pipe_op" where
  "decide_finding cfg f t now =
     bindE (\<lambda>s. case decide (pg_regex cfg) (finding_context f t (pg_env cfg) (Some (ae_settings (pg_actions cfg)))) now
                       (pp_store s) (pp_decision s) of (d, pe) \<Rightarrow> (Inr d, s\<lparr>pp_decision := pe\<rparr>)) (\<lambda>d.
     bindE (audit_step (t_id t) ''system:policy-engine'' ''decision.evaluate'' ''system'' (finding_target f) []
              [(''decision'', PStr (decision_str (d_decision d))), (''policy_id'', opt_str (d_policy_id d)),
               (''playbook'', opt_str (d_playbook d)), (''dry_run'', PBool (d_dry_run d))]
              [(''reason'', PStr (take 800 (d_reason d))), (''guards'', PList (map PStr (d_guards d)))] now) (\<lambda>_.
     returnE d))"

definition record_result :: "(process_result \<Rightarrow> process_result) \<Rightarrow> unit pipe_op" where
  "record_result g = writeE (\<lambda>s. s\<lparr>pp_result := g (pp_result s)\<rparr>)"

definition note_action :: "action option \<Rightarrow> unit pipe_op" where
  "note_action a =
     (case a of
        None \<Rightarrow> returnE ()
      | Some a \<Rightarrow> writeE (\<lambda>s. s\<lparr>pp_result := (pp_result s)\<lparr>res_actions := res_actions (pp_result s) @ [a]\<rparr>,
                               pp_triggered := pp_triggered s + 1\<rparr>))"

definition react_match :: "pipeline_config \<Rightarrow> tenant \<Rightarrow> time \<Rightarrow> match_result \<Rightarrow> unit pipe_op" where
  "react_match cfg t now m =
     bindE (upsert_finding cfg m t now) (\<lambda>f.
     bindE (record_result (\<lambda>r. r\<lparr>res_findings := res_findings r @ [f]\<rparr>)) (\<lambda>_.
     bindE (decide_finding cfg f t now) (\<lambda>d.
     bindE (record_result (\<lambda>r. r\<lparr>res_decisions := res_decisions r @ [d]\<rparr>)) (\<lambda>_.
     bindE (on_engine (from_decision (pg_actions cfg) (pg_world cfg) t f d ''system:policy-engine'' ''system'' now))
       note_action))))"

fun react_matches :: "pipeline_config \<Rightarrow> tenant \<Rightarrow> time \<Rightarrow> match_result list \<Rightarrow> unit pipe_op" where
  "react_matches cfg t now [] = returnE ()"
| "react_matches cfg t now (m # ms) = bindE (react_match cfg t now m) (\<lambda>_. react_matches cfg t now ms)"

definition detect :: "pipeline_config \<Rightarrow> event \<Rightarrow> time \<Rightarrow> match_result list pipe_op" where
  "detect cfg ev now s =
     (case evaluate_event (pg_regex cfg) ev now (pp_detection s) of (ms, de) \<Rightarrow> (Inr ms, s\<lparr>pp_detection := de\<rparr>))"

definition react_to :: "pipeline_config \<Rightarrow> event \<Rightarrow> tenant \<Rightarrow> time \<Rightarrow> unit pipe_op" where
  "react_to cfg ev t now = bindE (detect cfg ev now) (react_matches cfg t now)"

subsection \<open>Anomalies\<close>

definition audit_anomaly :: "tenant \<Rightarrow> event \<Rightarrow> event \<Rightarrow> anomaly_signal \<Rightarrow> time \<Rightarrow> unit pipe_op" where
  "audit_anomaly t ev ae sg now =
     audit_step (t_id t) ''system:anomaly-detector'' ''anomaly.detected'' ''system''
       [(''type'', PStr ''event''), (''id'', PStr (ev_id ae))] []
       [(''check'', PStr (sg_check sg)), (''entity'', PStr (sg_entity sg)),
        (''observed'', PFloat (py_round 3 (sg_observed sg))), (''expected'', PFloat (py_round 3 (sg_expected sg))),
        (''zscore'', PFloat (py_round 3 (sg_zscore sg))), (''severity_hint'', PStr (severity_str (sg_hint sg)))]
       [(''source_event_id'', PStr (ev_id ev)), (''method'', PStr ''ewma_zscore'')] now"

definition react_signal :: "pipeline_config \<Rightarrow> event \<Rightarrow> tenant \<Rightarrow> time \<Rightarrow> anomaly_signal \<Rightarrow> unit pipe_op" where
  "react_signal cfg ev t now sg =
     bindE (on_engine (new_id (pg_world cfg) ''ev_'')) (\<lambda>eid.
     case signal_event sg ev eid now of
       Inl why \<Rightarrow> raiseE (Foreign ''ValidationError'' why)
     | Inr ae \<Rightarrow>
         bindE (on_data (insert_event ae now)) (\<lambda>fresh.
           if \<not> fresh then returnE ()
           else
             bindE (writeE (\<lambda>s. s\<lparr>pp_anomalies := pp_anomalies s + 1\<rparr>)) (\<lambda>_.
             bindE (audit_anomaly t ev ae sg now) (\<lambda>_.
             react_to cfg ae t now))))"

fun react_signals :: "pipeline_config \<Rightarrow> event \<Rightarrow> tenant \<Rightarrow> time \<Rightarrow> anomaly_signal list \<Rightarrow> unit pipe_op" where
  "react_signals cfg ev t now [] = returnE ()"
| "react_signals cfg ev t now (sg # sgs) = bindE (react_signal cfg ev t now sg) (\<lambda>_. react_signals cfg ev t now sgs)"

definition process_anomalies :: "pipeline_config \<Rightarrow> event \<Rightarrow> tenant \<Rightarrow> time \<Rightarrow> unit pipe_op" where
  "process_anomalies cfg ev t now =
     (case pg_anomaly cfg of
        None \<Rightarrow> returnE ()
      | Some dc \<Rightarrow>
          if src_type (ev_source ev) = Src_baseline \<or> ev_kind ev = Anomaly then returnE ()
          else
            bindE (\<lambda>s. case observe dc (pg_sqrt cfg) ev now (pp_detector s) of
                         (sgs, dt) \<Rightarrow> (Inr sgs, s\<lparr>pp_detector := dt\<rparr>))
              (react_signals cfg ev t now))"

subsection \<open>Processing of an event\<close>

fun class_name :: "error_kind \<Rightarrow> string" where
  "class_name ThotSecureError = ''ThotSecureError''"
| "class_name ConfigError = ''ConfigError''"
| "class_name ValidationError = ''ValidationError''"
| "class_name AuthenticationError = ''AuthenticationError''"
| "class_name PermissionDeniedError = ''PermissionDeniedError''"
| "class_name NotFoundError = ''NotFoundError''"
| "class_name ConflictError = ''ConflictError''"
| "class_name RateLimitedError = ''RateLimitedError''"
| "class_name TargetNotAllowedError = ''TargetNotAllowedError''"
| "class_name ProtectedTargetError = ''ProtectedTargetError''"
| "class_name RuleError = ''RuleError''"
| "class_name PolicyError = ''PolicyError''"
| "class_name PlaybookError = ''PlaybookError''"
| "class_name ConnectorError = ''ConnectorError''"
| "class_name StorageError = ''StorageError''"
| "class_name AuditIntegrityError = ''AuditIntegrityError''"
| "class_name DryRunRefused = ''DryRunRefused''"
| "class_name AutonomyRefused = ''AutonomyRefused''"

definition error_line :: "exn \<Rightarrow> string" where
  "error_line e =
     (case e of Exn k _ _ _ \<Rightarrow> class_name k | Foreign c _ \<Rightarrow> c) @ '': '' @ exn_str e"

definition process_body :: "pipeline_config \<Rightarrow> event \<Rightarrow> time \<Rightarrow> unit pipe_op" where
  "process_body cfg ev now =
     bindE (readE (\<lambda>s. get_tenant (ev_tenant ev) (pp_store s))) (\<lambda>t. case t of
       None \<Rightarrow> record_result (\<lambda>r. r\<lparr>res_error := Some (''tenant inconnu: '' @ ev_tenant ev)\<rparr>)
     | Some t \<Rightarrow>
         bindE (react_to cfg ev t now) (\<lambda>_.
         bindE (process_anomalies cfg ev t now) (\<lambda>_.
         bindE (writeE (\<lambda>s. s\<lparr>pp_processed := pp_processed s + 1\<rparr>)) (\<lambda>_.
         bindE (on_data (mark_events_processed [ev_id ev] now)) (\<lambda>_.
         returnE ())))))"

definition process_failure :: "exn \<Rightarrow> unit pipe_op" where
  "process_failure e =
     writeE (\<lambda>s. s\<lparr>pp_errors := pp_errors s + 1, pp_result := (pp_result s)\<lparr>res_error := Some (error_line e)\<rparr>\<rparr>)"

definition process_event :: "pipeline_config \<Rightarrow> event \<Rightarrow> time \<Rightarrow> process_result pipe_op" where
  "process_event cfg ev now =
     bindE (record_result (\<lambda>_. new_result (ev_id ev))) (\<lambda>_.
     bindE (catchE (process_body cfg ev now) process_failure) (\<lambda>_.
     readE pp_result))"

subsection \<open>Ingestion of a batch\<close>

record ingest_outcome =
  io_accepted :: int
  io_rejected :: int
  io_event_ids :: "string list"
  io_summaries :: "dict list"
  io_errors :: "dict list"
  io_findings :: "finding list"
  io_decisions :: "decision list"
  io_actions :: "action list"

definition new_outcome :: ingest_outcome where
  "new_outcome = \<lparr>io_accepted = 0, io_rejected = 0, io_event_ids = [], io_summaries = [], io_errors = [],
     io_findings = [], io_decisions = [], io_actions = []\<rparr>"

definition batch_too_large :: dict where
  "batch_too_large = [(''error'', PStr ''batch_too_large''),
     (''message'', PStr (''maximum '' @ int_str (int MAX_BATCH) @ '' evenements par lot''))]"

definition unknown_tenant :: "event \<Rightarrow> dict" where
  "unknown_tenant ev = [(''error'', PStr ''unknown_tenant''), (''message'', PStr (''tenant inconnu: '' @ ev_tenant ev)),
     (''event_id'', PStr (ev_id ev))]"

definition accepted_events :: "store \<Rightarrow> event list \<Rightarrow> event list" where
  "accepted_events st es = filter (\<lambda>ev. get_tenant (ev_tenant ev) st \<noteq> None) es"

definition admission :: "store \<Rightarrow> event list \<Rightarrow> ingest_outcome" where
  "admission st es =
     (let batch = take MAX_BATCH es; refused = filter (\<lambda>ev. get_tenant (ev_tenant ev) st = None) batch
      in new_outcome\<lparr>io_rejected := int (length refused),
           io_errors := (if MAX_BATCH < length es then [batch_too_large] else []) @ map unknown_tenant refused\<rparr>)"

definition tenant_counts :: "event list \<Rightarrow> (string \<times> int) list" where
  "tenant_counts es =
     fold (\<lambda>ev acc. AList.update (ev_tenant ev) ((case map_of acc (ev_tenant ev) of None \<Rightarrow> 0 | Some n \<Rightarrow> n) + 1) acc) es []"

fun audit_batches :: "string \<Rightarrow> string \<Rightarrow> time \<Rightarrow> (string \<times> int) list \<Rightarrow> unit pipe_op" where
  "audit_batches who role now [] = returnE ()"
| "audit_batches who role now ((tid, n) # cs) =
     bindE (audit_step tid who ''event.ingest'' role
              [(''type'', PStr ''event_batch''), (''id'', PStr (''batch:'' @ iso_z now))] [] [(''accepted'', PInt n)] [] now)
       (\<lambda>_. audit_batches who role now cs)"

type_synonym finding_states = "(string \<times> finding \<times> decision option) list"

definition paired :: "process_result \<Rightarrow> (finding \<times> decision option) list" where
  "paired r =
     map (\<lambda>i. (res_findings r ! i, if i < length (res_decisions r) then Some (res_decisions r ! i) else None))
       [0 ..< length (res_findings r)]"

definition keep_last :: "process_result \<Rightarrow> finding_states \<Rightarrow> finding_states" where
  "keep_last r states = fold (\<lambda>(f, d). AList.update (f_id f) (f, d)) (paired r) states"

fun process_all :: "pipeline_config \<Rightarrow> time \<Rightarrow> event list \<Rightarrow> finding_states \<times> action list
    \<Rightarrow> (finding_states \<times> action list) pipe_op" where
  "process_all cfg now [] acc = returnE acc"
| "process_all cfg now (ev # es) acc =
     bindE (process_event cfg ev now) (\<lambda>r.
       process_all cfg now es (keep_last r (fst acc), snd acc @ res_actions r))"

definition finding_summary :: "finding \<Rightarrow> decision option \<Rightarrow> dict" where
  "finding_summary f d =
     [(''finding_id'', PStr (f_id f)), (''rule_id'', PStr (f_rule_id f)), (''severity'', PStr (severity_str (f_severity f))),
      (''risk_score'', PFloat (f_risk_score f)), (''status'', PStr (finding_status_str (f_status f))),
      (''count'', PInt (f_count f)),
      (''decision'', case d of None \<Rightarrow> PNone | Some d \<Rightarrow> PStr (decision_str (d_decision d))),
      (''playbook'', case d of None \<Rightarrow> PNone | Some d \<Rightarrow> opt_str (d_playbook d)),
      (''guards'', PList (case d of None \<Rightarrow> [] | Some d \<Rightarrow> map PStr (d_guards d)))]"

definition with_states :: "finding_states \<times> action list \<Rightarrow> ingest_outcome \<Rightarrow> ingest_outcome" where
  "with_states acc o' =
     (let states = map snd (fst acc)
      in o'\<lparr>io_findings := map fst states, io_decisions := List.map_filter snd states,
            io_actions := snd acc, io_summaries := map (\<lambda>(f, d). finding_summary f d) states\<rparr>)"

definition ingest ::
    "pipeline_config \<Rightarrow> event list \<Rightarrow> string \<Rightarrow> string \<Rightarrow> bool \<Rightarrow> time \<Rightarrow> ingest_outcome pipe_op" where
  "ingest cfg es who role process now =
     bindE (readE pp_store) (\<lambda>st.
     let o1 = admission st es; accepted = accepted_events st (take MAX_BATCH es)
     in if accepted = [] then returnE o1
        else
          bindE (on_data (insert_events accepted now)) (\<lambda>inserted.
          let o2 = o1\<lparr>io_accepted := inserted, io_rejected := io_rejected o1 + int (length accepted) - inserted,
                      io_event_ids := map ev_id accepted\<rparr>
          in bindE (if inserted \<noteq> 0 then audit_batches who role now (tenant_counts accepted) else returnE ()) (\<lambda>_.
             if process then bindE (process_all cfg now accepted ([], [])) (\<lambda>acc. returnE (with_states acc o2))
             else returnE o2)))"

subsection \<open>Replay and maintenance\<close>

fun process_each :: "pipeline_config \<Rightarrow> time \<Rightarrow> event list \<Rightarrow> int pipe_op" where
  "process_each cfg now [] = returnE 0"
| "process_each cfg now (ev # es) =
     bindE (process_event cfg ev now) (\<lambda>_. bindE (process_each cfg now es) (\<lambda>n. returnE (n + 1)))"

definition replay_pending :: "pipeline_config \<Rightarrow> time \<Rightarrow> int pipe_op" where
  "replay_pending cfg now =
     bindE (readE (\<lambda>s. pending_events (int MAX_BATCH) (pp_store s))) (process_each cfg now)"

text \<open>One turn of the loop of \<open>run_worker\<close>, for an event taken from the queue.\<close>

definition worker_turn :: "pipeline_config \<Rightarrow> event \<Rightarrow> time \<Rightarrow> unit pipe_op" where
  "worker_turn cfg ev now =
     bindE (readE (\<lambda>s. get_event (ev_tenant ev) (ev_id ev) (pp_store s))) (\<lambda>known.
       if known \<noteq> None then returnE () else bindE (process_event cfg ev now) (\<lambda>_. returnE ()))"

definition purge_expired :: "pipeline_config \<Rightarrow> time \<Rightarrow> (int \<times> int \<times> int) pipe_op" where
  "purge_expired cfg now =
     bindE (on_data (purge (pg_retention cfg) (pg_audit_retention cfg) now)) (\<lambda>(events, suppressions, audit).
     bindE (readE (\<lambda>s. list_tenants (pp_store s))) (\<lambda>tenants.
     bindE (case tenants of
              t # _ \<Rightarrow>
                if events \<noteq> 0 \<or> suppressions \<noteq> 0 \<or> audit \<noteq> 0
                then audit_step (t_id t) ''system:retention'' ''retention.purge'' ''system''
                       [(''type'', PStr ''retention''), (''id'', PStr ''purge'')] []
                       [(''events'', PInt events), (''suppressions'', PInt suppressions), (''audit'', PInt audit)]
                       [(''retention_days'', PInt (pg_retention cfg))] now
                else returnE ()
            | [] \<Rightarrow> returnE ()) (\<lambda>_.
     returnE (events, suppressions, audit))))"

definition pipeline_counters :: "pipeline_config \<Rightarrow> pipeline_state \<Rightarrow> dict" where
  "pipeline_counters cfg s =
     [(''processed_events'', PInt (pp_processed s)), (''created_findings'', PInt (pp_created s)),
      (''updated_findings'', PInt (pp_updated s)), (''triggered_actions'', PInt (pp_triggered s)),
      (''anomaly_events'', PInt (pp_anomalies s)), (''errors'', PInt (pp_errors s)),
      (''anomaly'', PDict (case pg_anomaly cfg of None \<Rightarrow> [(''enabled'', PBool False)]
                           | Some dc \<Rightarrow> detector_stats dc (pp_detector s))),
      (''max_batch'', PInt (int MAX_BATCH))]"

end
