(* ===== verification/PipelineProps.thy ===== *)
theory PipelineProps
  imports Pipeline ActionSafety DecisionProps DetectionProps
begin

section \<open>What the pipeline guarantees\<close>

text \<open>
  The pipeline composes the engines.  A relation between the state before and after is proved of every
  operation of the pipeline once, from what it says of the few primitive steps (locales \<open>run_relation\<close>,
  \<open>reaction\<close> and \<open>pipeline_run\<close>); its interpretations give the refinement of the life cycle, the rows of
  the events, the inertness of tenants in manual mode, and the uniqueness of open findings.
\<close>

subsection \<open>What the action engine leaves alone\<close>

definition others :: "engine_state \<Rightarrow> tenant list \<times> event_row list \<times> finding list" where
  "others en = (st_tenants (en_store en), st_events (en_store en), st_findings (en_store en))"

lemma on_store_others:
  "(\<And>st. st_tenants (snd (m st)) = st_tenants st \<and> st_events (snd (m st)) = st_events st \<and>
     st_findings (snd (m st)) = st_findings st) \<Longrightarrow> keeps (\<lambda>s. others s = X) (on_store m)"
  by (auto simp: keeps_def on_store_def others_def split: prod.split) (metis snd_conv)+

named_theorems frames

lemma store_frames [frames]:
  "keeps (\<lambda>s. others s = X) (on_store (update_action a))" "keeps (\<lambda>s. others s = X) (on_store (insert_action a))"
  "keeps (\<lambda>s. others s = X) (on_store (record_audit t who what role target before after context now))"
  "keeps (\<lambda>s. others s = X) (on_store (record_state_change t who what role target before after context now))"
  by (rule on_store_others; simp add: update_action_def insert_action_def record_state_change_def record_audit_def
      append_audit_def Let_def split: option.split)+

lemma step_frames [frames]:
  "keeps (\<lambda>s. others s = X) (new_id w p)" "keeps (\<lambda>s. others s = X) (notify a ev)"
  "keeps (\<lambda>s. others s = X) (require_action tid aid)" "keeps (\<lambda>s. others s = X) (on_exec m)"
  by (simp_all add: keeps_def others_def new_id_def notify_def require_action_def on_exec_def split: option.split prod.split)

lemma set_status_frame [frames]: "keeps (\<lambda>s. others s = X) (set_status who role what before extra ctx now a st)"
  unfolding set_status_def Let_def by (intro keeps_bindE keeps_returnE frames)

lemma mark_failed_frame [frames]: "keeps (\<lambda>s. others s = X) (mark_failed who role err result now a)"
  unfolding mark_failed_def by (rule frames)

lemma plan_insert_frame [frames]: "keeps (\<lambda>s. others s = X) (plan_insert w tid base n k a)"
proof (induction n arbitrary: k a)
  case (Suc n)
  let ?again = "bindE (new_id w ''ac_'') (\<lambda>i. plan_insert w tid base n (Suc k)
      (a\<lparr>a_id := i, a_idempotency_key := base @ ''#'' @ int_str (int (Suc k))\<rparr>))"
  have again: "keeps (\<lambda>s. others s = X) ?again" by (intro keeps_bindE frames Suc)
  show ?case
  proof (rule keepsI)
    fix s assume s: "others s = X"
    obtain r s' where m: "on_store (insert_action a) s = (r, s')" by fastforce
    have s': "others s' = X" using keepsD [OF store_frames(2) s, of a] m by simp
    with keepsD [OF again s'] m show "others (snd (plan_insert w tid base (Suc n) k a s)) = X"
      by (auto split: sum.split option.split)
  qed
qed (simp add: keeps_def)

lemma register_frame [frames]: "keeps (\<lambda>s. others s = X) (register_plan t pb q who role now a)"
  unfolding register_plan_def Let_def by (intro keeps_bindE keeps_returnE frames)

lemma plan_frame [frames]: "keeps (\<lambda>s. others s = X) (plan cfg w t who role q now)"
  unfolding plan_def Let_def
  by (auto intro!: keeps_bindE frames split: option.split sum.split plan_insertion.split)

lemma authorize_frame [frames]: "keeps (\<lambda>s. others s = X) (authorize_execution a pb t now)"
  unfolding authorize_execution_def by (auto intro!: keeps_bindE frames)

lemma conclude_frame [frames]: "keeps (\<lambda>s. others s = X) (conclude_execution pb who role now a r)"
  unfolding conclude_execution_def Let_def by (auto intro!: frames)

lemma run_frame [frames]: "keeps (\<lambda>s. others s = X) (run_execution cfg w t pb who role now a)"
proof (rule keepsI)
  fix s assume s: "others s = X"
  let ?m = "on_exec (execute_playbook w (ae_executor_dry_run cfg) (Some (a_dry_run a)) pb (a_params a)
                      (execution_context t a (en_store s)) now)"
  obtain r s' where m: "?m s = (r, s')" by fastforce
  have "others s' = X" using keepsD [OF step_frames(4) s] m by (metis snd_conv)
  then show "others (snd (run_execution cfg w t pb who role now a s)) = X"
    using m keepsD [OF conclude_frame] keepsD [OF mark_failed_frame] by (auto simp: run_execution_def split: sum.split)
qed

lemma execute_frame [frames]: "keeps (\<lambda>s. others s = X) (execute cfg w t aid who role now)"
  unfolding execute_def by (auto intro!: keeps_bindE frames split: option.split)

lemma from_decision_frame: "others (snd (from_decision cfg w t f d who role now s)) = others s"
proof -
  have "keeps (\<lambda>s'. others s' = others s) (from_decision cfg w t f d who role now)"
    unfolding from_decision_def by (auto intro!: keeps_bindE frames)
  then show ?thesis by (auto dest: keepsD)
qed

text \<open>Planning, and every change of status, leave the outside world alone.\<close>

abbreviation outside :: "effect list \<Rightarrow> 'a engine_op \<Rightarrow> bool" where
  "outside X m \<equiv> keeps (\<lambda>s. ex_effects (en_exec s) = X) m"

named_theorems inert

lemma step_inert [inert]:
  "outside X (new_id w p)" "outside X (notify a ev)" "outside X (require_action tid aid)" "outside X (on_store m)"
  by (simp_all add: keeps_def new_id_def notify_def require_action_def on_store_def split: option.split prod.split)

lemma set_status_inert [inert]: "outside X (set_status who role what before extra ctx now a st)"
  unfolding set_status_def Let_def by (intro keeps_bindE keeps_returnE inert)

lemma plan_insert_inert [inert]: "outside X (plan_insert w tid base n k a)"
proof (induction n arbitrary: k a)
  case (Suc n)
  let ?again = "bindE (new_id w ''ac_'') (\<lambda>i. plan_insert w tid base n (Suc k)
      (a\<lparr>a_id := i, a_idempotency_key := base @ ''#'' @ int_str (int (Suc k))\<rparr>))"
  have again: "outside X ?again" by (intro keeps_bindE inert Suc)
  show ?case
  proof (rule keepsI)
    fix s :: engine_state assume s: "ex_effects (en_exec s) = X"
    obtain r s' where m: "on_store (insert_action a) s = (r, s')" by fastforce
    have s': "ex_effects (en_exec s') = X" using keepsD [OF step_inert(4) s, of "insert_action a"] m by simp
    with keepsD [OF again s'] m show "ex_effects (en_exec (snd (plan_insert w tid base (Suc n) k a s))) = X"
      by (auto split: sum.split option.split)
  qed
qed (simp add: keeps_def)

lemma plan_inert [inert]: "outside X (plan cfg w t who role q now)"
  unfolding plan_def register_plan_def Let_def
  by (auto intro!: keeps_bindE inert split: option.split sum.split plan_insertion.split)

lemma from_decision_inert:
  assumes "d_decision d \<noteq> Auto"
  shows "ex_effects (en_exec (snd (from_decision cfg w t f d who role now s))) = ex_effects (en_exec s)"
proof -
  have "outside (ex_effects (en_exec s)) (from_decision cfg w t f d who role now)"
    unfolding from_decision_def using assms by (auto intro!: keeps_bindE inert)
  then show ?thesis by (auto dest: keepsD)
qed

subsection \<open>Relations kept by the pipeline\<close>

locale run_relation =
  fixes R :: "pipeline_state \<Rightarrow> pipeline_state \<Rightarrow> bool"
  assumes refl: "R s s"
    and trans: "R s s' \<Longrightarrow> R s' s'' \<Longrightarrow> R s s''"
begin

lemma bind:
  assumes "R s (snd (m s))" and "\<And>a s'. m s = (Inr a, s') \<Longrightarrow> R s s' \<Longrightarrow> R s' (snd (f a s'))"
  shows "R s (snd (bindE m f s))"
proof (cases "m s")
  case (Pair r s')
  with assms show ?thesis by (cases r) (auto simp: bindE_def intro: trans)
qed

lemma pure: "R s (snd (returnE a s))" "R s (snd (raiseE e s))" "R s (snd (readE g s))"
  by (simp_all add: returnE_def raiseE_def readE_def refl)

lemma catch:
  assumes "R s (snd (m s))" and "\<And>e s'. m s = (Inl e, s') \<Longrightarrow> R s s' \<Longrightarrow> R s' (snd (h e s'))"
  shows "R s (snd (catchE m h s))"
proof (cases "m s")
  case (Pair r s')
  with assms show ?thesis by (cases r) (auto simp: catchE_def intro: trans)
qed

end

text \<open>\<open>silent\<close> speaks of the steps that touch neither the engine nor what the processing reports.\<close>

locale quiet_relation = run_relation +
  assumes silent: "pp_engine s' = pp_engine s \<Longrightarrow> pp_processed s' = pp_processed s \<Longrightarrow> pp_errors s' = pp_errors s \<Longrightarrow>
      res_error (pp_result s') = res_error (pp_result s) \<Longrightarrow> R s s'"
    and ident: "R s (snd (on_engine (new_id w p) s))"
    and audit: "R s (snd (audit_step tid who what role target before after context now s))"

text \<open>Relations that do not depend on the findings.\<close>

locale finding_relation = quiet_relation +
  assumes updated: "R s (snd (on_data (update_finding tid fid upd now) s))"
    and inserted: "R s (snd (on_data (insert_finding f) s))"
begin

lemma upsert: "R s (snd (upsert_finding cfg m t now s))"
proof -
  have counted: "R s (snd (writeE (\<lambda>s. s\<lparr>pp_updated := pp_updated s + 1\<rparr>) s))"
    "R s (snd (writeE (\<lambda>s. s\<lparr>pp_created := pp_created s + 1\<rparr>) s))" for s
    by (simp_all add: writeE_def silent)
  have built: "R s (snd (built r s))" for r s
    by (simp add: built_def pure split: sum.split)
  show ?thesis
    unfolding upsert_finding_def retire_stale_def refresh_finding_def create_finding_def Let_def
    by (auto intro!: bind pure updated inserted counted built ident audit split: option.split)
qed

lemma decides: "R s (snd (decide_finding cfg f t now s))"
  unfolding decide_finding_def
  by (auto intro!: bind pure audit silent split: prod.split)

lemma react_match:
  assumes "\<And>f d s1 s2 s3. R s s3 \<Longrightarrow> decide_finding cfg f t now s1 = (Inr d, s2) \<Longrightarrow>
    R s3 (snd (on_engine (from_decision (pg_actions cfg) (pg_world cfg) t f d ''system:policy-engine'' ''system'' now) s3))"
  shows "R s (snd (react_match cfg t now m s))"
proof -
  have recorded: "R s (snd (record_result g s))" if "\<And>r. res_error (g r) = res_error r" for g s
    using that by (simp add: record_result_def writeE_def silent)
  have noted: "R s (snd (note_action a s))" for a s
    by (auto simp: note_action_def writeE_def pure intro!: silent split: option.split)
  show ?thesis
    unfolding react_match_def
    by (intro bind upsert recorded decides noted assms) (auto intro: trans)
qed

end

text \<open>The reaction to an event.  \<open>Q t\<close> is what is known of the tenant in hand.\<close>

locale reaction = quiet_relation +
  fixes cfg :: pipeline_config and Q :: "tenant \<Rightarrow> pipeline_state \<Rightarrow> bool"
  assumes stable: "Q t s \<Longrightarrow> R s s' \<Longrightarrow> Q t s'"
    and known: "get_tenant tid (pp_store s) = Some t \<Longrightarrow> Q t s"
    and react: "Q t s \<Longrightarrow> R s (snd (react_match cfg t now m s))"
    and signal_stored: "ev_kind ae = Anomaly \<Longrightarrow> R s (snd (on_data (insert_event ae now) s))"
begin

lemma react_matches: "Q t s \<Longrightarrow> R s (snd (react_matches cfg t now ms s))"
proof (induction ms arbitrary: s)
  case (Cons m ms)
  then show ?case by (auto intro!: bind react intro: stable)
qed (simp add: pure)

lemma react_to:
  assumes "Q t s"
  shows "R s (snd (react_to cfg ev t now s))"
  unfolding react_to_def
proof (rule bind)
  show "R s (snd (detect cfg ev now s))" by (auto simp: detect_def intro!: silent split: prod.split)
  show "R s' (snd (react_matches cfg t now ms s'))" if "R s s'" for ms s'
    using that assms by (intro react_matches) (rule stable)
qed

lemma react_signal:
  assumes "Q t s"
  shows "R s (snd (react_signal cfg ev t now sg s))"
proof -
  have kind: "ev_kind ae = Anomaly" if "signal_event sg ev eid now = Inr ae" for eid ae
    using that by (auto simp: signal_event_def split: sum.splits)
  have counted: "R s' (snd (writeE (\<lambda>s. s\<lparr>pp_anomalies := pp_anomalies s + 1\<rparr>) s'))" for s'
    by (auto simp: writeE_def intro: silent)
  show ?thesis
    unfolding react_signal_def audit_anomaly_def
    by (auto intro!: bind ident pure signal_stored audit counted react_to kind split: sum.split) (assumption | meson assms stable)+
qed

lemma react_signals: "Q t s \<Longrightarrow> R s (snd (react_signals cfg ev t now sgs s))"
proof (induction sgs arbitrary: s)
  case (Cons sg sgs)
  then show ?case by (auto intro!: bind react_signal intro: stable)
qed (simp add: pure)

lemma process_anomalies:
  assumes "Q t s"
  shows "R s (snd (process_anomalies cfg ev t now s))"
  unfolding process_anomalies_def using assms
  by (auto intro!: bind pure react_signals silent split: option.split prod.split intro: stable)

end

text \<open>The processing as a whole, where every change of the counters is kept by the relation.\<close>

locale pipeline_run = reaction +
  assumes counters: "pp_engine s' = pp_engine s \<Longrightarrow> R s s'"
    and mark: "R s (snd (on_data (mark_events_processed ids now) s))"
    and stored: "R s (snd (on_data (insert_events es now) s))"
    and purged: "R s (snd (on_data (purge d a now) s))"
begin

lemma process_event: "R s (snd (process_event cfg ev now s))"
proof -
  have written: "R s (snd (writeE g s))" if "\<And>s. pp_engine (g s) = pp_engine s" for g s
    using that by (simp add: writeE_def counters)
  have body: "R s (snd (process_body cfg ev now s))" for s
    unfolding process_body_def record_result_def
    by (auto simp: readE_def intro!: bind pure written react_to process_anomalies mark split: option.split)
      (rule refl | meson known stable)+
  show ?thesis
    unfolding process_event_def process_failure_def record_result_def
    by (intro bind catch written pure body) auto
qed

lemma process_all: "R s (snd (process_all cfg now es acc s))"
proof (induction es arbitrary: acc s)
  case (Cons ev es)
  show ?case unfolding process_all.simps by (rule bind [OF process_event Cons.IH])
qed (simp add: pure)

lemma process_each: "R s (snd (process_each cfg now es s))"
proof (induction es arbitrary: s)
  case (Cons ev es)
  show ?case unfolding process_each.simps by (intro bind process_event Cons.IH pure)
qed (simp add: pure)

lemma audit_batches: "R s (snd (audit_batches who role now cs s))"
proof (induction cs arbitrary: s)
  case (Cons c cs)
  then show ?case by (cases c) (auto intro!: bind audit)
qed (simp add: pure)

lemma ingest: "R s (snd (ingest cfg es who role process now s))"
  unfolding ingest_def Let_def
  by (auto intro!: bind pure stored audit_batches process_all)

lemma replay: "R s (snd (replay_pending cfg now s))"
  unfolding replay_pending_def by (intro bind pure process_each)

lemma worker: "R s (snd (worker_turn cfg ev now s))"
  unfolding worker_turn_def by (auto intro!: bind pure process_event)

lemma retention: "R s (snd (purge_expired cfg now s))"
  unfolding purge_expired_def by (auto intro!: bind pure purged audit split: list.split)

end

subsection \<open>The primitive steps\<close>

lemma on_engine_simps [simp]:
  "pp_engine (snd (on_engine m s)) = snd (m (pp_engine s))" "pp_processed (snd (on_engine m s)) = pp_processed s"
  "pp_errors (snd (on_engine m s)) = pp_errors s" "pp_result (snd (on_engine m s)) = pp_result s"
  by (simp_all add: on_engine_def split: prod.split)

lemma on_data_simps [simp]:
  "en_store (snd (on_store m en)) = snd (m (en_store en))" "en_exec (snd (on_store m en)) = en_exec en"
  "pp_engine (snd (on_data m s)) = snd (on_store m (pp_engine s))" "pp_processed (snd (on_data m s)) = pp_processed s"
  "pp_errors (snd (on_data m s)) = pp_errors s" "pp_result (snd (on_data m s)) = pp_result s"
  by (simp_all add: on_store_def on_data_def split: prod.split)

lemma audit_step_state: "snd (audit_step tid who what role target before after context now s) =
    snd (on_data (record_audit tid who what role target before after context now) s)"
  by (simp add: audit_step_def op_simps split: prod.split sum.split)

lemma new_id_simps [simp]: "en_store (snd (new_id w p en)) = en_store en" "en_exec (snd (new_id w p en)) = en_exec en"
  by (simp_all add: new_id_def)

named_theorems table_simps \<open>the tables an operation of the store leaves alone\<close>

lemma record_audit_tables [table_simps]:
  "st_actions (snd (record_audit tid who what role target before after context now st)) = st_actions st"
  "st_tenants (snd (record_audit tid who what role target before after context now st)) = st_tenants st"
  "st_events (snd (record_audit tid who what role target before after context now st)) = st_events st"
  "st_findings (snd (record_audit tid who what role target before after context now st)) = st_findings st"
  by (simp_all add: record_audit_def append_audit_def Let_def)

lemma finding_tables [table_simps]:
  "st_actions (snd (update_finding tid fid upd now st)) = st_actions st"
  "st_tenants (snd (update_finding tid fid upd now st)) = st_tenants st"
  "st_events (snd (update_finding tid fid upd now st)) = st_events st"
  "st_actions (snd (insert_finding f st)) = st_actions st" "st_tenants (snd (insert_finding f st)) = st_tenants st"
  "st_events (snd (insert_finding f st)) = st_events st"
  by (simp_all add: update_finding_def insert_finding_def Let_def split: option.split)

lemma insert_event_tables [table_simps]:
  "st_actions (snd (insert_event e now st)) = st_actions st" "st_tenants (snd (insert_event e now st)) = st_tenants st"
  "st_findings (snd (insert_event e now st)) = st_findings st"
  by (simp_all add: insert_event_def)

lemma insert_events_tables [table_simps]:
  "st_actions (snd (insert_events es now st)) = st_actions st" "st_tenants (snd (insert_events es now st)) = st_tenants st"
  "st_findings (snd (insert_events es now st)) = st_findings st"
proof -
  have one: "keeps (\<lambda>st. (st_actions st, st_tenants st, st_findings st) = X) (insert_event e now)" for X e
    by (simp add: keeps_def insert_event_def)
  have "keeps (\<lambda>st. (st_actions st, st_tenants st, st_findings st) = X) (insert_many es now)" for X
    by (induction es) (simp_all add: keeps_bindE one)
  then have "keeps (\<lambda>st. (st_actions st, st_tenants st, st_findings st) = X) (insert_events es now)" for X
    by (simp add: insert_events_def keeps_transaction)
  from keepsD [OF this refl, of st]
  show "st_actions (snd (insert_events es now st)) = st_actions st" "st_tenants (snd (insert_events es now st)) = st_tenants st"
    "st_findings (snd (insert_events es now st)) = st_findings st"
    by simp_all
qed

lemma event_tables [table_simps]:
  "st_actions (snd (mark_events_processed ids now st)) = st_actions st"
  "st_tenants (snd (mark_events_processed ids now st)) = st_tenants st"
  "st_findings (snd (mark_events_processed ids now st)) = st_findings st"
  "st_actions (snd (purge d a now st)) = st_actions st" "st_tenants (snd (purge d a now st)) = st_tenants st"
  "st_findings (snd (purge d a now st)) = st_findings st"
  by (simp_all add: mark_events_processed_def purge_def Let_def split_beta)

subsection \<open>The pipeline refines the life cycle of actions\<close>

definition acts :: "pipeline_config \<Rightarrow> pipeline_state \<Rightarrow> pipeline_state \<Rightarrow> bool" where
  "acts cfg s s' \<longleftrightarrow> (engine_step (pg_actions cfg) (pg_world cfg))\<^sup>*\<^sup>* (pp_engine s) (pp_engine s')"

lemma acts_other:
  "st_actions (pp_store s') = st_actions (pp_store s) \<Longrightarrow> en_exec (pp_engine s') = en_exec (pp_engine s) \<Longrightarrow> acts cfg s s'"
  unfolding acts_def by (intro one_step engine_step.other)

interpretation acts: finding_relation "acts cfg" for cfg
proof
  show "acts cfg s s" for s by (simp add: acts_def)
  show "acts cfg s s' \<Longrightarrow> acts cfg s' s'' \<Longrightarrow> acts cfg s s''" for s s' s'' by (simp add: acts_def)
qed (rule acts_other; simp add: audit_step_state table_simps)+

lemma acts_decision: "acts cfg s (snd (on_engine (from_decision (pg_actions cfg) (pg_world cfg) t f d who role now) s))"
  by (simp add: acts_def one_step engine_step.do_decision)

interpretation acts: pipeline_run "acts cfg" cfg "\<lambda>_ _. True" for cfg
proof
  show "acts cfg s (snd (react_match cfg t now m s))" for s t now m by (rule acts.react_match [OF acts_decision])
qed (simp | rule acts_other; simp add: table_simps)+

inductive pipeline_step :: "pipeline_config \<Rightarrow> pipeline_state \<Rightarrow> pipeline_state \<Rightarrow> bool" for cfg where
  do_ingest: "pipeline_step cfg s (snd (ingest cfg es who role process now s))"
| do_process: "pipeline_step cfg s (snd (process_event cfg ev now s))"
| do_worker: "pipeline_step cfg s (snd (worker_turn cfg ev now s))"
| do_replay: "pipeline_step cfg s (snd (replay_pending cfg now s))"
| do_purge: "pipeline_step cfg s (snd (purge_expired cfg now s))"

inductive_cases pipeline_stepE: "pipeline_step cfg s s'"

context pipeline_run
begin

lemma step: "pipeline_step cfg s s' \<Longrightarrow> R s s'"
  by (erule pipeline_stepE) (auto intro: ingest process_event worker replay retention)

lemma steps: "(pipeline_step cfg)\<^sup>*\<^sup>* s s' \<Longrightarrow> R s s'"
  by (induction rule: rtranclp_induct) (auto intro: refl trans step)

end

text \<open>C10: The pipeline refines the life cycle of actions: whatever is ingested, processed, replayed, consumed from
  the bus or purged, what a run shows of the actions and of the outside world is a run of the abstract machine,
  and it leads to a well-formed state again.\<close>

theorem pipeline_refines_life:
  assumes "(pipeline_step cfg)\<^sup>*\<^sup>* s s'" and "life_ok (abs_state (pp_engine s))"
  shows "(life_step (s_dry_run (ae_settings (pg_actions cfg))))\<^sup>*\<^sup>* (abs_state (pp_engine s)) (abs_state (pp_engine s')) \<and>
    life_ok (abs_state (pp_engine s'))"
proof -
  have run: "(engine_step (pg_actions cfg) (pg_world cfg))\<^sup>*\<^sup>* (pp_engine s) (pp_engine s')"
    using acts.steps [OF assms(1)] by (simp add: acts_def)
  show ?thesis using engine_steps_life [OF run assms(2)] life_steps_ok [OF _ assms(2)] by blast
qed

subsection \<open>An event is marked exactly when its processing succeeds\<close>

definition event_grows :: "pipeline_state \<Rightarrow> pipeline_state \<Rightarrow> bool" where
  "event_grows s s' \<longleftrightarrow>
     (\<exists>new. st_events (pp_store s') = st_events (pp_store s) @ new \<and>
        list_all (\<lambda>r. \<not> er_processed r \<and> ev_kind (er_event r) = Anomaly) new) \<and>
     pp_processed s' = pp_processed s \<and> pp_errors s' = pp_errors s \<and> res_error (pp_result s') = res_error (pp_result s)"

lemma event_growsI:
  "st_events (pp_store s') = st_events (pp_store s) \<Longrightarrow> pp_processed s' = pp_processed s \<Longrightarrow> pp_errors s' = pp_errors s \<Longrightarrow>
   res_error (pp_result s') = res_error (pp_result s) \<Longrightarrow> event_grows s s'"
  by (simp add: event_grows_def)

lemma audit_step_engine [simp]:
  "pp_processed (snd (audit_step tid who what role target before after context now s)) = pp_processed s"
  "pp_errors (snd (audit_step tid who what role target before after context now s)) = pp_errors s"
  "pp_result (snd (audit_step tid who what role target before after context now s)) = pp_result s"
  by (simp_all add: audit_step_state)

interpretation grows: finding_relation event_grows
proof
  show "event_grows s s" for s by (rule event_growsI) simp_all
  show "event_grows s s' \<Longrightarrow> event_grows s' s'' \<Longrightarrow> event_grows s s''" for s s' s''
    by (auto simp: event_grows_def)
qed (rule event_growsI; simp add: audit_step_state table_simps)+

lemma from_decision_tables:
  "st_events (en_store (snd (from_decision cfg w t f d who role now en))) = st_events (en_store en)"
  "st_tenants (en_store (snd (from_decision cfg w t f d who role now en))) = st_tenants (en_store en)"
  "st_findings (en_store (snd (from_decision cfg w t f d who role now en))) = st_findings (en_store en)"
  using from_decision_frame [of cfg w t f d who role now en] by (simp_all add: others_def)

interpretation grows: reaction event_grows cfg "\<lambda>_ _. True" for cfg
proof
  show "event_grows s (snd (react_match cfg t now m s))" for s t now m
    by (rule grows.react_match) (simp add: event_growsI from_decision_tables)
  show "event_grows s (snd (on_data (insert_event ae now) s))" if "ev_kind ae = Anomaly" for ae now s
    using that by (simp add: event_grows_def insert_event_def event_row_def)
qed simp_all

definition marked :: "string \<Rightarrow> time \<Rightarrow> event_row list \<Rightarrow> event_row list" where
  "marked eid now rs =
     update_where (\<lambda>r. ev_id (er_event r) = eid \<and> \<not> er_processed r)
       (\<lambda>r. r\<lparr>er_processed := True, er_processed_at := Some (to_millis now)\<rparr>) rs"

lemma mark_one: "mark_events_processed [eid] now st = (fst (mark_events_processed [eid] now st), st\<lparr>st_events := marked eid now (st_events st)\<rparr>)"
  by (simp add: mark_events_processed_def mark_chunk_def marked_def Let_def)

lemma mark_returns: "\<exists>n. fst (mark_events_processed ids now st) = Inr n"
  by (simp add: mark_events_processed_def split_beta Let_def)

text \<open>C13: The processing of an event never raises.  When it reports no error the event is marked as processed and
  counted; when it reports one, no event is marked and the event will be replayed.  What else it writes to the
  table of events are the anomalies it raised, not yet processed.\<close>

theorem processed_exactly_on_success:
  "\<exists>r new. fst (process_event cfg ev now s) = Inr r \<and>
     list_all (\<lambda>r. \<not> er_processed r \<and> ev_kind (er_event r) = Anomaly) new \<and>
     (let s' = snd (process_event cfg ev now s); rows' = st_events (pp_store s) @ new
      in if res_error r = None
         then st_events (pp_store s') = marked (ev_id ev) now rows' \<and>
              pp_processed s' = pp_processed s + 1 \<and> pp_errors s' = pp_errors s
         else st_events (pp_store s') = rows' \<and> pp_processed s' = pp_processed s)"
proof -
  let ?s1 = "s\<lparr>pp_result := new_result (ev_id ev)\<rparr>"
  show ?thesis
  proof (cases "get_tenant (ev_tenant ev) (pp_store s)")
    case None
    then show ?thesis
      by (simp add: process_event_def process_body_def record_result_def op_simps new_result_def)
  next
    case (Some t)
    let ?m = "bindE (react_to cfg ev t now) (\<lambda>_. process_anomalies cfg ev t now)"
    obtain r s2 where m: "?m ?s1 = (r, s2)" by fastforce
    have "event_grows ?s1 (snd (?m ?s1))"
      by (intro grows.bind grows.react_to grows.process_anomalies) simp_all
    then obtain new where new: "st_events (pp_store s2) = st_events (pp_store s) @ new"
      "list_all (\<lambda>r. \<not> er_processed r \<and> ev_kind (er_event r) = Anomaly) new"
      "pp_processed s2 = pp_processed s" "pp_errors s2 = pp_errors s" "res_error (pp_result s2) = None"
      unfolding m by (auto simp: event_grows_def new_result_def)
    have body: "process_body cfg ev now ?s1 =
        bindE ?m (\<lambda>_. bindE (writeE (\<lambda>s. s\<lparr>pp_processed := pp_processed s + 1\<rparr>)) (\<lambda>_.
          bindE (on_data (mark_events_processed [ev_id ev] now)) (\<lambda>_. returnE ()))) ?s1"
      using Some by (simp add: process_body_def readE_def bindE_assoc) (simp add: bindE_def)
    show ?thesis
    proof (cases r)
      case (Inl e)
      with m have "process_body cfg ev now ?s1 = (Inl e, s2)" unfolding body by (simp add: bindE_def)
      with new show ?thesis
        by (intro exI [of _ "pp_result (snd (process_failure e s2))"] exI [of _ new])
            (simp add: process_event_def process_failure_def record_result_def op_simps)
    next
      case (Inr u)
      let ?s3 = "s2\<lparr>pp_processed := pp_processed s2 + 1\<rparr>"
      obtain n where n: "fst (mark_events_processed [ev_id ev] now (pp_store ?s3)) = Inr n" using mark_returns by blast
      define s4 where "s4 = snd (on_data (mark_events_processed [ev_id ev] now) ?s3)"
      have "on_data (mark_events_processed [ev_id ev] now) ?s3 = (Inr n, s4)"
        using n by (auto simp: s4_def on_data_def on_engine_def on_store_def split: prod.split)
      with m Inr have "process_body cfg ev now ?s1 = (Inr (), s4)"
        unfolding body by (simp add: bindE_def writeE_def returnE_def)
      moreover have "st_events (pp_store s4) = marked (ev_id ev) now (st_events (pp_store s2))"
        "pp_processed s4 = pp_processed s2 + 1" "pp_errors s4 = pp_errors s2" "pp_result s4 = pp_result s2"
        by (simp_all add: s4_def arg_cong [OF mark_one, of snd, simplified])
      ultimately show ?thesis
        using new by (intro exI [of _ "pp_result s4"] exI [of _ new]) (simp add: process_event_def record_result_def op_simps)
    qed
  qed
qed

subsection \<open>Tenants in manual mode\<close>

definition all_manual :: "pipeline_state \<Rightarrow> bool" where
  "all_manual s \<longleftrightarrow> (\<forall>t \<in> set (st_tenants (pp_store s)). t_mode t = Mode_manual)"

definition hands_off :: "pipeline_state \<Rightarrow> pipeline_state \<Rightarrow> bool" where
  "hands_off s s' \<longleftrightarrow> st_tenants (pp_store s') = st_tenants (pp_store s) \<and>
     (all_manual s \<longrightarrow> ex_effects (en_exec (pp_engine s')) = ex_effects (en_exec (pp_engine s)))"

lemma hands_offI:
  "st_tenants (pp_store s') = st_tenants (pp_store s) \<Longrightarrow> en_exec (pp_engine s') = en_exec (pp_engine s) \<Longrightarrow> hands_off s s'"
  by (simp add: hands_off_def)

lemma decide_manual:
  assumes "t_mode (cx_tenant cx) = Mode_manual"
  shows "d_decision (fst (decide re_compile cx now st e)) \<noteq> Auto"
proof (cases "selected re_compile cx now e")
  case None
  from decide_None [OF this] obtain ev where "fst (decide re_compile cx now st e) = default_decision cx ev" by blast
  moreover have "d_decision (default_decision cx ev) = Notify_only" by (simp add: default_decision_def)
  ultimately show ?thesis by simp
next
  case (Some p)
  from decide_Some [OF this] obtain ev where d: "fst (decide re_compile cx now st e) =
    (let d = policy_decision re_compile cx now p ev
     in if pt_decision (po_then p) = Ignore then d\<lparr>d_guards := d_guards d @ [''explicit_ignore'']\<rparr>
        else if pt_decision (po_then p) = Notify_only then d
        else apply_guards e cx p now st d)" .
  have "\<not> mode_clear e cx" using assms by (simp add: mode_clear_def)
  then show ?thesis unfolding d by (simp add: Let_def apply_guards_decision)
qed

lemma decide_finding_result:
  assumes "decide_finding cfg f t now s1 = (Inr d, s2)"
  shows "d = fst (decide (pg_regex cfg) (finding_context f t (pg_env cfg) (Some (ae_settings (pg_actions cfg)))) now
    (pp_store s1) (pp_decision s1))"
  using assms by (simp add: decide_finding_def op_simps split: prod.splits sum.splits)

lemma context_tenant: "cx_tenant (finding_context f t env st) = t"
  by (simp add: finding_context_def split: prod.split)

interpretation hands_off: finding_relation hands_off
proof
  show "hands_off s s" for s by (simp add: hands_off_def)
  show "hands_off s s' \<Longrightarrow> hands_off s' s'' \<Longrightarrow> hands_off s s''" for s s' s''
    by (simp add: hands_off_def all_manual_def)
qed (rule hands_offI; simp add: audit_step_state table_simps)+

lemma hands_off_match:
  assumes "t \<in> set (st_tenants (pp_store s))"
  shows "hands_off s (snd (react_match cfg t now m s))"
proof (rule hands_off.react_match)
  fix f d s1 s2 s3
  assume s3: "hands_off s s3" and d: "decide_finding cfg f t now s1 = (Inr d, s2)"
  have "d_decision d \<noteq> Auto" if "all_manual s3"
  proof -
    have "t_mode t = Mode_manual" using that s3 assms by (simp add: all_manual_def hands_off_def)
    with decide_manual show ?thesis unfolding decide_finding_result [OF d] by (simp add: context_tenant)
  qed
  then show "hands_off s3 (snd (on_engine (from_decision (pg_actions cfg) (pg_world cfg) t f d
      ''system:policy-engine'' ''system'' now) s3))"
    by (simp add: hands_off_def from_decision_tables from_decision_inert)
qed

interpretation hands_off: pipeline_run hands_off cfg "\<lambda>t s. t \<in> set (st_tenants (pp_store s))" for cfg
proof
  show "t \<in> set (st_tenants (pp_store s'))" if "t \<in> set (st_tenants (pp_store s))" "hands_off s s'" for t s s'
    using that by (simp add: hands_off_def)
  show "t \<in> set (st_tenants (pp_store s))" if "get_tenant tid (pp_store s) = Some t" for tid s t
    using that by (auto simp: get_tenant_def find_Some_iff in_set_conv_nth)
  show "hands_off s (snd (react_match cfg t now m s))" if "t \<in> set (st_tenants (pp_store s))" for t s now m
    using that by (rule hands_off_match)
qed (rule hands_offI; simp add: table_simps)+

text \<open>C12: When every tenant is in manual mode the pipeline never acts on the outside world, whatever the rules, the
  policies, the events and the anomalies: what it decides waits for an approval.\<close>

theorem manual_mode_inert:
  assumes "(pipeline_step cfg)\<^sup>*\<^sup>* s s'" and "\<forall>t \<in> set (st_tenants (pp_store s)). t_mode t = Mode_manual"
  shows "ex_effects (en_exec (pp_engine s')) = ex_effects (en_exec (pp_engine s))"
  using hands_off.steps [OF assms(1)] assms(2) by (simp add: hands_off_def all_manual_def)

subsection \<open>One open finding per rule and deduplication key\<close>

definition slot :: "finding \<Rightarrow> string \<times> string \<times> string" where
  "slot f = (f_tenant f, f_rule_id f, f_dedup_key f)"

definition is_open :: "finding \<Rightarrow> bool" where
  "is_open f \<longleftrightarrow> f_status f \<in> {Open, Acked}"

definition one_open :: "finding list \<Rightarrow> bool" where
  "one_open fs \<longleftrightarrow> distinct (map f_id fs) \<and> distinct (map slot (filter is_open fs))"

definition open_slots :: "finding list \<Rightarrow> (string \<times> string \<times> string) set" where
  "open_slots fs = slot ` set (filter is_open fs)"

lemma one_open_insert:
  "one_open fs \<Longrightarrow> \<forall>g \<in> set fs. f_id g \<noteq> f_id f \<Longrightarrow> slot f \<notin> open_slots fs \<Longrightarrow> one_open (fs @ [f])"
  by (auto simp: one_open_def open_slots_def)

lemma update_unique:
  assumes "distinct (map f_id fs)" and "find (\<lambda>g. f_id g = fid \<and> f_tenant g = tid) fs = Some f"
  obtains us vs where "fs = us @ f # vs" and
    "update_where (\<lambda>g. f_id g = fid \<and> f_tenant g = tid) (\<lambda>_. f') fs = us @ f' # vs" and "f_id f = fid" and "f_tenant f = tid"
proof -
  have f: "f \<in> set fs" "f_id f = fid" "f_tenant f = tid"
    using assms(2) by (auto simp: find_Some_iff in_set_conv_nth)
  obtain us vs where fs: "fs = us @ f # vs" using split_list [OF f(1)] by blast
  have "fid \<notin> f_id ` set us" "fid \<notin> f_id ` set vs" using assms(1) f(2) unfolding fs by auto
  moreover have "update_where (\<lambda>g. f_id g = fid \<and> f_tenant g = tid) (\<lambda>_. f') xs = xs" if "fid \<notin> f_id ` set xs" for xs
    using that by (induction xs) (auto simp: update_where_def)
  ultimately have "update_where (\<lambda>g. f_id g = fid \<and> f_tenant g = tid) (\<lambda>_. f') fs = us @ f' # vs"
    using f(2,3) unfolding fs by (simp add: update_where_def)
  with that fs f(2,3) show thesis by blast
qed

lemma one_open_update:
  assumes "one_open (us @ f # vs)" and "f_id f' = f_id f" and "is_open f' \<Longrightarrow> is_open f \<and> slot f' = slot f"
  shows "one_open (us @ f' # vs)"
proof (cases "is_open f'")
  case True
  with assms show ?thesis by (simp add: one_open_def)
next
  case False
  with assms(1,2) show ?thesis by (cases "is_open f") (auto simp: one_open_def)
qed

lemma close_frees:
  assumes "one_open (us @ f # vs)" and "is_open f" and "\<not> is_open f'"
  shows "slot f \<notin> open_slots (us @ f' # vs)"
  using assms by (auto simp: one_open_def open_slots_def)

definition open_ok :: "pipeline_state \<Rightarrow> bool" where
  "open_ok s \<longleftrightarrow> one_open (st_findings (pp_store s))"

definition keeps_one :: "pipeline_state \<Rightarrow> pipeline_state \<Rightarrow> bool" where
  "keeps_one s s' \<longleftrightarrow> (open_ok s \<longrightarrow> open_ok s')"

lemma keeps_oneI: "st_findings (pp_store s') = st_findings (pp_store s) \<Longrightarrow> keeps_one s s'"
  by (simp add: keeps_one_def open_ok_def)

interpretation one: quiet_relation keeps_one
proof
  show "keeps_one s s" for s by (simp add: keeps_one_def)
  show "keeps_one s s' \<Longrightarrow> keeps_one s' s'' \<Longrightarrow> keeps_one s s''" for s s' s'' by (simp add: keeps_one_def)
qed (rule keeps_oneI; simp add: audit_step_state table_simps)+

lemma field_slot: "slot (finding_row f) = slot f" "f_id (finding_row f) = f_id f" "is_open (finding_row f) = is_open f"
  by (simp_all add: slot_def finding_row_def is_open_def)

lemma refresh_keeps_slot:
  "slot (fold set_finding_field (refreshed_fields f) g) = slot g"
  "is_open (fold set_finding_field (refreshed_fields f) g) = is_open g"
  "f_id (fold set_finding_field (refreshed_fields f) g) = f_id g"
  by (simp_all add: refreshed_fields_def slot_def is_open_def)

lemma update_keeps_one:
  assumes "\<And>g. f_id (fold set_finding_field upd g) = f_id g"
    and "\<And>g. is_open (fold set_finding_field upd g) \<Longrightarrow> is_open g \<and> slot (fold set_finding_field upd g) = slot g"
    and "one_open (st_findings st)"
  shows "one_open (st_findings (snd (update_finding tid fid upd now st)))"
proof (cases "find (\<lambda>f. f_id f = fid \<and> f_tenant f = tid) (st_findings st)")
  case None
  with assms(3) show ?thesis by (simp add: update_finding_def)
next
  case (Some f)
  let ?f' = "(fold set_finding_field upd f)\<lparr>f_updated_at := to_millis now\<rparr>"
  have ids: "distinct (map f_id (st_findings st))" using assms(3) by (simp add: one_open_def)
  obtain us vs where fs: "st_findings st = us @ f # vs"
    "update_where (\<lambda>g. f_id g = fid \<and> f_tenant g = tid) (\<lambda>_. ?f') (st_findings st) = us @ ?f' # vs"
    by (rule update_unique [OF ids Some])
  have "one_open (us @ ?f' # vs)"
    by (rule one_open_update [OF assms(3) [unfolded fs(1)]])
      (use assms(1,2) in \<open>simp_all add: is_open_def slot_def\<close>)
  with Some fs assms(3) show ?thesis by (simp add: update_finding_def Let_def)
qed

definition wanted :: "tenant \<Rightarrow> match_result \<Rightarrow> string \<times> string \<times> string" where
  "wanted t m = (t_id t, ru_id (mr_rule m), mr_dedup_key m)"

lemma build_slot:
  assumes "build_finding re_sub fid m t history existing now = Inr f"
  shows "slot f = wanted t m \<and> f_id f = (case history of None \<Rightarrow> fid | Some h \<Rightarrow> f_id h)"
  using assms by (auto simp: build_finding_def Let_def slot_def wanted_def split: sum.splits)

lemma built_result: "built r s = (Inr f, s') \<Longrightarrow> r = Inr f \<and> s' = s"
  by (auto simp: built_def op_simps split: sum.splits)

lemma insert_keeps_one:
  assumes "slot f \<notin> open_slots (st_findings (pp_store s))"
  shows "keeps_one s (snd (on_data (insert_finding f) s))"
  using assms one_open_insert [of "st_findings (pp_store s)" "finding_row f"]
  by (auto simp: keeps_one_def open_ok_def insert_finding_def field_slot list_ex_iff)

lemma counted_keeps_one: "(\<And>s. pp_engine (g s) = pp_engine s) \<Longrightarrow> keeps_one s (snd (writeE g s))"
  by (simp add: writeE_def keeps_oneI)

lemma create_keeps_one:
  assumes "wanted t m \<notin> open_slots (st_findings (pp_store s))"
  shows "keeps_one s (snd (create_finding cfg m t now s))"
  unfolding create_finding_def
proof (rule one.bind [OF one.ident])
  fix fid s1 assume "on_engine (new_id (pg_world cfg) ''fi_'') s = (Inr fid, s1)"
  then have s1: "st_findings (pp_store s1) = st_findings (pp_store s)"
    by (metis on_engine_simps(1) new_id_simps(1) snd_conv)
  show "keeps_one s1 (snd (bindE (built (build_finding (pg_sub cfg) fid m t None 0 now)) (\<lambda>f.
      bindE (on_data (insert_finding f)) (\<lambda>_.
      bindE (writeE (\<lambda>s. s\<lparr>pp_created := pp_created s + 1\<rparr>)) (\<lambda>_.
      bindE (audit_step (t_id t) ''system:pipeline'' ''finding.create'' ''system'' (finding_target f) []
              [(''rule_id'', PStr (f_rule_id f)), (''severity'', PStr (severity_str (f_severity f))),
               (''risk_score'', PFloat (f_risk_score f)), (''title'', PStr (f_title f))]
              [(''event_id'', PStr (ev_id (mr_event m))), (''dedup_key'', PStr (mr_dedup_key m))] now) (\<lambda>_.
      returnE f)))) s1))" (is "keeps_one s1 (snd (bindE ?built ?rest s1))")
  proof (rule one.bind)
    show "keeps_one s1 (snd (?built s1))" by (simp add: built_def one.pure split: sum.split)
    fix f s2 assume "?built s1 = (Inr f, s2)"
    from built_result [OF this] build_slot have "s2 = s1" "slot f = wanted t m" by blast+
    with assms s1 have "slot f \<notin> open_slots (st_findings (pp_store s2))" by simp
    then show "keeps_one s2 (snd (?rest f s2))"
      by (intro one.bind insert_keeps_one one.pure one.audit counted_keeps_one) simp_all
  qed
qed

lemma refresh_keeps_one: "keeps_one s (snd (refresh_finding cfg m t h now s))"
proof -
  have upd: "keeps_one s (snd (on_data (update_finding tid fid (refreshed_fields f) now) s))" for s tid fid f
    using update_keeps_one [of "refreshed_fields f"] by (simp add: keeps_one_def open_ok_def refresh_keeps_slot)
  have built: "keeps_one s (snd (built r s))" for r s by (simp add: built_def one.pure split: sum.split)
  show ?thesis
    unfolding refresh_finding_def Let_def
    by (auto intro!: one.bind one.pure upd built one.audit counted_keeps_one)
qed

lemma latest_in: "latest k xs = Some x \<Longrightarrow> x \<in> set xs"
  by (induction xs arbitrary: x) (auto split: option.splits if_splits)

lemma latest_none: "latest k xs = None \<longleftrightarrow> xs = []"
  by (cases xs) (auto split: option.split)

lemma no_open_finding:
  assumes "find_open_finding (t_id t) (ru_id (mr_rule m)) (mr_dedup_key m) st = None"
  shows "wanted t m \<notin> open_slots (st_findings st)"
  using assms by (auto simp: find_open_finding_def latest_none open_slots_def wanted_def slot_def is_open_def filter_empty_conv)

lemma open_finding:
  assumes "find_open_finding tid rid key st = Some h"
  obtains g where "g \<in> set (st_findings st)" "is_open g" "slot g = (tid, rid, key)" "f_id h = f_id g" "f_tenant g = tid"
  using assms by (auto simp: find_open_finding_def is_open_def slot_def row_to_finding_def dest!: latest_in)

lemma close_slot:
  assumes "one_open (st_findings st)" and "g \<in> set (st_findings st)" "is_open g" "f_id g = fid" "f_tenant g = tid"
    and "update_finding tid fid [FF_status Closed, FF_resolution res, FF_comment com] now st = (Inr x, st')"
  shows "slot g \<notin> open_slots (st_findings st')"
proof -
  have ids: "distinct (map f_id (st_findings st))" using assms(1) by (simp add: one_open_def)
  from assms(6) obtain f where f: "find (\<lambda>f. f_id f = fid \<and> f_tenant f = tid) (st_findings st) = Some f"
    by (auto simp: update_finding_def split: option.splits)
  then have "f \<in> set (st_findings st)" "f_id f = fid" by (auto simp: find_Some_iff in_set_conv_nth)
  then have "f = g" using ids assms(2,4) by (simp add: distinct_map inj_on_def)
  let ?f' = "(fold set_finding_field [FF_status Closed, FF_resolution res, FF_comment com] f)\<lparr>f_updated_at := to_millis now\<rparr>"
  obtain us vs where fs: "st_findings st = us @ f # vs"
    "update_where (\<lambda>g. f_id g = fid \<and> f_tenant g = tid) (\<lambda>_. ?f') (st_findings st) = us @ ?f' # vs"
    by (rule update_unique [OF ids f])
  have "st_findings st' = us @ ?f' # vs"
    using assms(6) f fs(2) by (auto simp: update_finding_def Let_def split: if_splits)
  then show ?thesis
    using close_frees [of us f vs ?f'] assms(1,3) fs(1) \<open>f = g\<close> by (simp add: is_open_def)
qed

lemma retired_slot:
  assumes ok: "open_ok s"
    and "retire_stale t (mr_rule m) now (find_open_finding (t_id t) (ru_id (mr_rule m)) (mr_dedup_key m) (pp_store s)) s =
      (Inr None, s')"
  shows "wanted t m \<notin> open_slots (st_findings (pp_store s'))"
proof (cases "find_open_finding (t_id t) (ru_id (mr_rule m)) (mr_dedup_key m) (pp_store s)")
  case None
  with assms(2) have "s' = s" by (simp add: retire_stale_def op_simps)
  with no_open_finding [OF None] show ?thesis by simp
next
  case (Some h)
  from open_finding [OF this] obtain g where g: "g \<in> set (st_findings (pp_store s))" "is_open g" "slot g = wanted t m"
    "f_id h = f_id g" "f_tenant g = t_id t" unfolding wanted_def by metis
  let ?upd = "[FF_status Closed, FF_resolution ''auto_closed_expired_dedup_window'',
      FF_comment (''fenetre de deduplication de '' @ int_str (dd_ttl (ru_dedup (mr_rule m))) @ ''s depassee'')]"
  obtain r st' where u: "update_finding (t_id t) (f_id h) ?upd now (pp_store s) = (r, st')" by fastforce
  with assms(2) Some obtain x where "r = Inr x" "pp_store s' = st'"
    by (cases r) (auto simp: retire_stale_def op_simps on_data_def on_engine_def on_store_def split: if_splits)
  with close_slot [OF ok [unfolded open_ok_def] g(1,2) _ g(5)] u g(3,4) show ?thesis by metis
qed

lemma retire_keeps_one: "keeps_one s (snd (retire_stale t r now found s))"
proof -
  have "keeps_one s (snd (on_data (update_finding tid fid [FF_status Closed, FF_resolution res, FF_comment com] now) s))"
    for tid fid res com s
    using update_keeps_one [of "[FF_status Closed, FF_resolution res, FF_comment com]"]
    by (simp add: keeps_one_def open_ok_def is_open_def)
  then show ?thesis
    unfolding retire_stale_def by (auto intro!: one.bind one.pure split: option.split)
qed

lemma upsert_keeps_one: "keeps_one s (snd (upsert_finding cfg m t now s))"
proof -
  let ?found = "find_open_finding (t_id t) (ru_id (mr_rule m)) (mr_dedup_key m) (pp_store s)"
  have "upsert_finding cfg m t now s = bindE (retire_stale t (mr_rule m) now ?found) (\<lambda>existing. case existing of
      None \<Rightarrow> create_finding cfg m t now | Some h \<Rightarrow> refresh_finding cfg m t h now) s"
    by (simp add: upsert_finding_def bindE_def readE_def)
  moreover have "keeps_one s (snd (bindE (retire_stale t (mr_rule m) now ?found) (\<lambda>existing. case existing of
      None \<Rightarrow> create_finding cfg m t now | Some h \<Rightarrow> refresh_finding cfg m t h now) s))" if "open_ok s"
  proof (rule one.bind)
    show "keeps_one s (snd (retire_stale t (mr_rule m) now ?found s))" by (rule retire_keeps_one)
    show "keeps_one s' (snd ((case existing of None \<Rightarrow> create_finding cfg m t now
        | Some h \<Rightarrow> refresh_finding cfg m t h now) s'))"
      if "retire_stale t (mr_rule m) now ?found s = (Inr existing, s')" for existing s'
      using that \<open>open_ok s\<close> by (cases existing) (simp_all add: create_keeps_one retired_slot refresh_keeps_one)
  qed
  ultimately show ?thesis by (cases "open_ok s") (simp_all add: keeps_one_def)
qed

lemma decide_keeps_one: "keeps_one s (snd (decide_finding cfg f t now s))"
  unfolding decide_finding_def
  by (intro one.bind one.pure one.audit) (auto intro: keeps_oneI split: prod.split)

lemma match_keeps_one: "keeps_one s (snd (react_match cfg t now m s))"
  unfolding react_match_def
  by (intro one.bind upsert_keeps_one decide_keeps_one keeps_oneI)
    (auto simp: record_result_def writeE_def note_action_def returnE_def from_decision_tables split: option.split)

interpretation one: pipeline_run keeps_one cfg "\<lambda>_ _. True" for cfg
proof
  show "keeps_one s (snd (react_match cfg t now m s))" for s t now m by (rule match_keeps_one)
qed (simp | rule keeps_oneI; simp add: table_simps)+

text \<open>C11: Deduplication: the pipeline keeps at most one open finding per tenant, rule and deduplication key, whatever
  it ingests, processes, replays or purges, and the identifiers of findings distinct.\<close>

theorem one_open_finding:
  assumes "(pipeline_step cfg)\<^sup>*\<^sup>* s s'" and "one_open (st_findings (pp_store s))"
  shows "one_open (st_findings (pp_store s'))"
  using one.steps [OF assms(1)] assms(2) by (simp add: keeps_one_def open_ok_def)

subsection \<open>A sample pipeline\<close>

definition sample_pipeline :: pipeline_config where
  "sample_pipeline = \<lparr>pg_regex = (\<lambda>_ _. Inl []), pg_sub = (\<lambda>_ _ s. s), pg_sqrt = (\<lambda>x. x), pg_actions = sample_engine,
     pg_world = idle_world, pg_env = ''dev'', pg_anomaly = None, pg_retention = 30, pg_audit_retention = 365\<rparr>"

definition sample_start :: "rule list \<Rightarrow> pipeline_state" where
  "sample_start rules = new_pipeline (sample_state [asked]) (new_detection (\<lambda>_ _. Inl []) rules)
     (new_engine [] None \<lparr>reg_scopes = [], reg_source = None\<rparr>)"

lemma one_pipeline_step: "pipeline_step cfg s s' \<Longrightarrow> (pipeline_step cfg)\<^sup>*\<^sup>* s s'"
  by blast

theorem pipeline_refines_life_witness:
  "(life_step True)\<^sup>*\<^sup>* (abs_state (sample_state [asked]))
     (abs_state (pp_engine (snd (ingest sample_pipeline [sample_event] ''ann'' ''analyst'' True 7 (sample_start [sample_rule High None 1])))))"
proof -
  have "life_ok (abs_state (pp_engine (sample_start [sample_rule High None 1])))"
    using sample_ok by (simp add: sample_start_def new_pipeline_def)
  from pipeline_refines_life [OF one_pipeline_step [OF do_ingest [of sample_pipeline]] this]
  show ?thesis by (simp add: sample_start_def new_pipeline_def sample_pipeline_def sample_engine_def)
qed

theorem manual_mode_inert_witness:
  "ex_effects (en_exec (pp_engine (snd (ingest sample_pipeline [sample_event] ''ann'' ''analyst'' True 7
     (sample_start [sample_rule High None 1]))))) = []"
  using manual_mode_inert [OF one_pipeline_step [OF do_ingest [of sample_pipeline]], of "sample_start [sample_rule High None 1]"]
  by (simp add: sample_start_def new_pipeline_def sample_state_def sample_tenant_def sample_exec_def)

theorem one_open_finding_witness:
  "one_open (st_findings (pp_store (snd (process_event sample_pipeline sample_event 7 (sample_start [sample_rule High None 1])))))"
  using one_open_finding [OF one_pipeline_step [OF do_process [of sample_pipeline]], of "sample_start [sample_rule High None 1]"]
  by (simp add: sample_start_def new_pipeline_def sample_state_def empty_store_def one_open_def)

subsection \<open>Limits of the pipeline\<close>

text \<open>
  An event that is sent twice is stored once and processed twice; and the audit record of the batch says that two
  events were accepted where one was.
\<close>

theorem duplicates_processed_again:
  "let (r, s) = ingest sample_pipeline [sample_event, sample_event] ''ann'' ''analyst'' True 7 (sample_start [])
   in (\<exists>o'. r = Inr o' \<and> io_accepted o' = 1) \<and> length (st_events (pp_store s)) = 1 \<and> pp_processed s = 2 \<and>
      map au_after (st_audit (pp_store s)) = [[(''accepted'', PInt 2)]]"
proof -
  have de: "new_detection (\<lambda>_ _. Inl []) [] =
      \<lparr>de_compiled = [], de_by_id = [], de_windows = [], de_evaluated = 0, de_matched = 0, de_suppressed = 0\<rparr>"
    by (simp add: new_detection_def reload_rules_def)
  show ?thesis
    by (simp add: ingest_def op_simps sample_start_def new_pipeline_def sample_state_def sample_tenant_def sample_event_def
      empty_store_def get_tenant_def accepted_events_def admission_def new_outcome_def MAX_BATCH_def Let_def de
      on_data_def on_engine_def on_store_def insert_events_def transaction_def insert_event_def has_event_def event_row_def
      tenant_counts_def audit_step_def record_audit_def append_audit_def new_audit_def audit_row_def
      process_event_def process_body_def record_result_def new_result_def react_to_def detect_def evaluate_event_def
      process_anomalies_def sample_pipeline_def keep_last_def paired_def with_states_def
      mark_events_processed_def mark_chunk_def update_where_def json_column_def)
qed

text \<open>
  The consumer of the bus skips every event that is stored, processed or not: what the bus replays comes from the
  store, so a pending event is never processed that way.
\<close>

theorem worker_skips_stored_events:
  assumes "get_event (ev_tenant ev) (ev_id ev) (pp_store s) \<noteq> None"
  shows "worker_turn cfg ev now s = (Inr (), s)"
  using assms by (simp add: worker_turn_def op_simps)

end
