(* ===== verification/Loaders.thy ===== *)
theory Loaders
  imports DecisionProps RuleLoader ActionEngine
begin

section \<open>Policies and playbooks on disk\<close>

text \<open>
  \<open>decision/policy_loader.py\<close> and \<open>actions/playbook_loader.py\<close>.  The two loaders are the same loop over the files of
  a directory, written once here and instantiated twice: a file that cannot be read, a document that is
  not a mapping, an item that is refused or defined twice gives a diagnostic, and the loading goes on.  The
  YAML reader and the schemas of the models (with the text of their errors) are parameters, as in
  \<open>RuleLoader\<close>.
\<close>

subsection \<open>The loop\<close>

type_synonym 'a library = "(string \<times> string \<times> 'a) list \<times> rule_diagnostic list"

record 'a document_kind =
  dk_parse :: "dict \<Rightarrow> string + 'a"
  dk_name :: "'a \<Rightarrow> string"
  dk_key :: string
  dk_not_mapping :: string
  dk_duplicate :: string
  dk_too_large :: string

definition MAX_DOCUMENT_BYTES :: nat where "MAX_DOCUMENT_BYTES = 524288"

definition diagnose :: "string \<Rightarrow> string option \<Rightarrow> string \<Rightarrow> 'a library \<Rightarrow> 'a library" where
  "diagnose path rid why lib =
     (fst lib, snd lib @ [\<lparr>rd_path = path, rd_rule_id = rid, rd_error = why\<rparr>])"

definition keep_item :: "'a document_kind \<Rightarrow> string \<Rightarrow> 'a \<Rightarrow> 'a library \<Rightarrow> 'a library" where
  "keep_item k path x lib =
     (case map_of (fst lib) (dk_name k x) of
        Some (where_, _) \<Rightarrow>
          diagnose path (Some (dk_name k x)) (dk_duplicate k @ '' (deja defini dans '' @ where_ @ '')'') lib
      | None \<Rightarrow> (fst lib @ [(dk_name k x, path, x)], snd lib))"

definition load_document :: "'a document_kind \<Rightarrow> string \<Rightarrow> pyval \<Rightarrow> 'a library \<Rightarrow> 'a library" where
  "load_document k path doc lib =
     (case doc of
        PDict d \<Rightarrow>
          (case dk_parse k d of
             Inl why \<Rightarrow> diagnose path (Some (py_str (dict_val d (dk_key k)))) why lib
           | Inr x \<Rightarrow> keep_item k path x lib)
      | _ \<Rightarrow> diagnose path None (dk_not_mapping k) lib)"

definition file_documents :: "'a document_kind \<Rightarrow> yaml_all \<Rightarrow> rule_file \<Rightarrow> string + pyval list" where
  "file_documents k yaml f =
     (case rf_text f of
        Inl e \<Rightarrow> Inl e
      | Inr content \<Rightarrow>
          if MAX_DOCUMENT_BYTES < utf8_length content then Inl (dk_too_large k)
          else map_sum id (filter (\<lambda>d. d \<noteq> PNone)) (yaml content))"

definition load_source :: "'a document_kind \<Rightarrow> yaml_all \<Rightarrow> rule_file \<Rightarrow> 'a library \<Rightarrow> 'a library" where
  "load_source k yaml f lib =
     (case file_documents k yaml f of
        Inl why \<Rightarrow> diagnose (rf_path f) None why lib
      | Inr docs \<Rightarrow> fold (load_document k (rf_path f)) docs lib)"

definition load_sources :: "'a document_kind \<Rightarrow> yaml_all \<Rightarrow> rule_file list \<Rightarrow> 'a library" where
  "load_sources k yaml fs = fold (load_source k yaml) fs ([], [])"

subsection \<open>Policies\<close>

definition ALLOWED_WHEN_KEYS :: "string list" where
  "ALLOWED_WHEN_KEYS =
     [''finding.severity'', ''finding.risk_score'', ''finding.confidence'', ''finding.rule_id'', ''finding.tags'',
      ''finding.tags_any'', ''finding.status'', ''finding.count'', ''finding.title'', ''finding.mitre'', ''tenant.id'',
      ''tenant.mode'', ''environment'', ''time.hour_utc'', ''time.weekday'', ''action.playbook'']"

definition ALLOWED_WHEN_OPERATORS :: "string list" where
  "ALLOWED_WHEN_OPERATORS = [''eq'', ''ne'', ''gt'', ''gte'', ''lt'', ''lte'', ''in'', ''not_in'', ''matches'']"

definition SEVERITY_NAMES :: "string list" where
  "SEVERITY_NAMES = [''info'', ''low'', ''medium'', ''high'', ''critical'']"

definition shown_list :: "string list \<Rightarrow> string" where
  "shown_list xs = py_repr (str_list (sort xs))"

definition unknown_of :: "string list \<Rightarrow> dict \<Rightarrow> string list" where
  "unknown_of allowed d = sort (filter (\<lambda>x. x \<notin> set allowed) (map fst d))"

definition severity_problems :: "dict \<Rightarrow> string list" where
  "severity_problems ops =
     List.map_filter (\<lambda>op.
       case map_of ops op of
         None \<Rightarrow> None
       | Some v \<Rightarrow>
           if str_lower (py_str v) \<in> set SEVERITY_NAMES then None
           else Some (quote ''finding.severity'' @ '' avec '' @ quote op
                      @ '' attend un niveau (info|low|medium|high|critical)''))
       [''gt'', ''gte'', ''lt'', ''lte'']"

definition when_problems :: "string \<times> pyval \<Rightarrow> string list" where
  "when_problems kv =
     (case snd kv of
        PDict ops \<Rightarrow>
          (if unknown_of ALLOWED_WHEN_OPERATORS ops \<noteq> []
           then [''operateurs inconnus pour '' @ quote (fst kv) @ '': '' @ shown_list (unknown_of ALLOWED_WHEN_OPERATORS ops)]
           else [])
          @ (if fst kv = ''finding.severity'' then severity_problems ops else [])
      | PNone \<Rightarrow> [''valeur invalide pour '' @ quote (fst kv) @ '': '' @ type_name (snd kv)]
      | PTime _ \<Rightarrow> [''valeur invalide pour '' @ quote (fst kv) @ '': '' @ type_name (snd kv)]
      | _ \<Rightarrow> [])"

definition is_unknown :: "string list option \<Rightarrow> string option \<Rightarrow> bool" where
  "is_unknown known name \<longleftrightarrow>
     opt_truthy name \<and> (case known of None \<Rightarrow> False | Some ks \<Rightarrow> the name \<notin> set ks)"

definition playbook_problems :: "string list option \<Rightarrow> policy \<Rightarrow> string list" where
  "playbook_problems known p =
     (if is_unknown known (pt_playbook (po_then p))
      then [''then.playbook='' @ quote (the (pt_playbook (po_then p))) @ '' n existe pas (disponibles: ''
            @ shown_list (the known) @ '')''] else [])
     @ (if is_unknown known (po_rollback_playbook p)
        then [''rollback.playbook='' @ quote (the (po_rollback_playbook p)) @ '' n existe pas''] else [])"

definition negative_problem :: "string \<Rightarrow> int option \<Rightarrow> string list" where
  "negative_problem f v = (case v of None \<Rightarrow> [] | Some n \<Rightarrow> if n < 0 then [f @ '' ne peut pas etre negatif''] else [])"

definition then_problems :: "policy \<Rightarrow> string list" where
  "then_problems p =
     (let t = po_then p in
      (if pt_decision t = Auto \<and> po_when p = []
       then [''une politique auto sans aucune condition when executerait des actions sur tous les findings : c est interdit (ajoutez au moins une condition)'']
       else [])
      @ (if pt_dry_run t = Some False \<and> pt_decision t = Auto \<and> str_strip (po_description p) = []
         then [''une politique auto avec dry_run=false doit etre documentee (description)''] else [])
      @ (case pt_max_actions t of
           None \<Rightarrow> []
         | Some n \<Rightarrow> if 100 < n then [''then.max_actions_per_hour > 100 : refuse (risque de tempete d actions)''] else [])
      @ negative_problem ''then.cooldown_seconds'' (pt_cooldown t)
      @ negative_problem ''rollback.auto_after_seconds'' (po_rollback_after p))"

definition validate_policy :: "string list option \<Rightarrow> policy \<Rightarrow> string list" where
  "validate_policy known p =
     (if unknown_of ALLOWED_WHEN_KEYS (po_when p) \<noteq> []
      then [''cles inconnues dans when: '' @ shown_list (unknown_of ALLOWED_WHEN_KEYS (po_when p)) @ '' (autorisees: ''
            @ shown_list ALLOWED_WHEN_KEYS @ '')''] else [])
     @ concat (map when_problems (po_when p)) @ playbook_problems known p @ then_problems p"

type_synonym policy_schema = "dict \<Rightarrow> string + policy"

definition parse_policy :: "policy_schema \<Rightarrow> string list option \<Rightarrow> dict \<Rightarrow> string + policy" where
  "parse_policy schema known doc =
     (case schema doc of
        Inl e \<Rightarrow> Inl e
      | Inr p \<Rightarrow> if validate_policy known p = [] then Inr p else Inl (join_with ''; '' (validate_policy known p)))"

definition policy_kind :: "policy_schema \<Rightarrow> string list option \<Rightarrow> policy document_kind" where
  "policy_kind schema known =
     \<lparr>dk_parse = parse_policy schema known, dk_name = po_id, dk_key = ''id'',
      dk_not_mapping = ''la politique doit etre un mapping'', dk_duplicate = ''identifiant de politique en double'',
      dk_too_large = ''fichier de politique trop volumineux''\<rparr>"

definition is_policy_file :: "rule_file \<Rightarrow> bool" where
  "is_policy_file f \<longleftrightarrow> is_rule_file f \<and> ''rego'' \<notin> set (split_on (CHR ''/'') (rf_path f))"

definition load_policies_from_dir ::
    "yaml_all \<Rightarrow> policy_schema \<Rightarrow> string list option \<Rightarrow> string \<Rightarrow> rule_file list option \<Rightarrow> policy list \<times> rule_diagnostic list" where
  "load_policies_from_dir yaml schema known dir files =
     (case files of
        None \<Rightarrow> ([], [\<lparr>rd_path = dir, rd_rule_id = None, rd_error = ''repertoire de politiques inexistant''\<rparr>])
      | Some fs \<Rightarrow>
          (case load_sources (policy_kind schema known) yaml (filter is_policy_file fs) of
             (items, diags) \<Rightarrow> (by_priority (map (snd \<circ> snd) items), diags)))"

subsection \<open>Playbooks\<close>

fun walk_values :: "pyval \<Rightarrow> string list" where
  "walk_values (PStr s) = [s]"
| "walk_values (PDict d) = concat (map (\<lambda>kv. walk_values (snd kv)) d)"
| "walk_values (PList xs) = concat (map walk_values xs)"
| "walk_values v = []"

definition placeholders :: "string \<Rightarrow> string list" where
  "placeholders s = List.map_filter (\<lambda>p. case p of Hole path \<Rightarrow> Some path | Lit _ \<Rightarrow> None) (pieces s)"

definition step_placeholders :: "playbook_step \<Rightarrow> string list" where
  "step_placeholders st = concat (map placeholders (walk_values (PDict (st_with st))))"

definition NAMESPACES :: "string list" where
  "NAMESPACES = [''params'', ''finding'', ''action'', ''tenant'', ''now'', ''context'']"

definition step_name :: "playbook_step \<Rightarrow> string" where
  "step_name st = ''etape '' @ st_connector st @ ''.'' @ st_call st"

definition unknown_namespace :: "string \<Rightarrow> bool" where
  "unknown_namespace p \<longleftrightarrow> \<not> prefix ''params.'' p \<and> hd (split_on (CHR ''.'') p) \<notin> set NAMESPACES"

definition step_problems :: "string list option \<Rightarrow> playbook_step \<Rightarrow> string list" where
  "step_problems known st =
     map (\<lambda>p. step_name st @ '': espace de nommage inconnu dans '' @ quote (''${'' @ p @ ''}''))
       (filter unknown_namespace (step_placeholders st))
     @ (case known of
          None \<Rightarrow> []
        | Some ks \<Rightarrow>
            if st_connector st \<in> set ks then []
            else [step_name st @ '': connecteur '' @ quote (st_connector st) @ '' inconnu (disponibles: '' @ shown_list ks @ '')''])"

definition referenced_params :: "playbook \<Rightarrow> string list" where
  "referenced_params pb =
     map (drop 7) (filter (prefix ''params.'') (concat (map step_placeholders (pb_execute pb @ pb_rollback pb))))"

definition undeclared_params :: "playbook \<Rightarrow> string list" where
  "undeclared_params pb =
     sort (remdups (filter (\<lambda>n. n \<notin> insert ''rollback_token'' (fst ` set (pb_params pb))) (referenced_params pb)))"

definition is_int :: "pyval \<Rightarrow> bool" where
  "is_int v = (case v of PInt _ \<Rightarrow> True | PBool _ \<Rightarrow> True | _ \<Rightarrow> False)"

definition param_problems :: "string \<times> playbook_param \<Rightarrow> string list" where
  "param_problems np =
     (let n = fst np; sp = snd np; label = ''parametre '' @ quote n in
      (if pp_required sp \<and> pp_default sp \<noteq> PNone then [label @ '': required=true et default sont contradictoires''] else [])
      @ (if pp_type sp \<in> {Pt_integer, Pt_duration} \<and> pp_default sp \<noteq> PNone \<and> \<not> is_int (pp_default sp)
         then [label @ '': default doit etre un entier''] else [])
      @ (case (pp_min sp, pp_max sp) of
           (Some a, Some b) \<Rightarrow> if b < a then [label @ '': min > max''] else []
         | _ \<Rightarrow> []))"

definition undo_problems :: "playbook \<Rightarrow> string list" where
  "undo_problems pb =
     map (\<lambda>st. step_name st @ '': une etape d execution ne peut pas etre une operation d annulation (placez-la dans rollback)'')
       (filter (\<lambda>st. prefix ''undo_'' (st_call st)) (pb_execute pb))"

definition validate_playbook :: "string list option \<Rightarrow> playbook \<Rightarrow> string list" where
  "validate_playbook known pb =
     concat (map (step_problems known) (pb_execute pb @ pb_rollback pb))
     @ (if undeclared_params pb \<noteq> []
        then [''parametres utilises mais non declares dans params: '' @ shown_list (undeclared_params pb)
              @ '' (tout parametre doit etre type et documente)''] else [])
     @ concat (map param_problems (pb_params pb)) @ undo_problems pb"

type_synonym playbook_schema = "dict \<Rightarrow> string + playbook"

definition parse_playbook :: "playbook_schema \<Rightarrow> string list option \<Rightarrow> dict \<Rightarrow> string + playbook" where
  "parse_playbook schema known doc =
     (case schema doc of
        Inl e \<Rightarrow> Inl e
      | Inr pb \<Rightarrow> if validate_playbook known pb = [] then Inr pb else Inl (join_with ''; '' (validate_playbook known pb)))"

definition playbook_kind :: "playbook_schema \<Rightarrow> string list option \<Rightarrow> playbook document_kind" where
  "playbook_kind schema known =
     \<lparr>dk_parse = parse_playbook schema known, dk_name = pb_name, dk_key = ''name'',
      dk_not_mapping = ''un playbook doit etre un mapping YAML'', dk_duplicate = ''nom de playbook en double'',
      dk_too_large = ''fichier trop volumineux''\<rparr>"

definition load_playbooks_from_dir ::
    "yaml_all \<Rightarrow> playbook_schema \<Rightarrow> string list option \<Rightarrow> string \<Rightarrow> rule_file list option
       \<Rightarrow> (string \<times> playbook) list \<times> rule_diagnostic list" where
  "load_playbooks_from_dir yaml schema known dir files =
     (case files of
        None \<Rightarrow> ([], [\<lparr>rd_path = dir, rd_rule_id = None, rd_error = ''repertoire de playbooks inexistant''\<rparr>])
      | Some fs \<Rightarrow>
          (case load_sources (playbook_kind schema known) yaml (filter is_rule_file fs) of
             (items, diags) \<Rightarrow> (map (\<lambda>(n, _, pb). (n, pb)) items, diags)))"

end
