(* ===== verification/LoaderProps.thy ===== *)
theory LoaderProps
  imports Loaders ActionSafety
begin

section \<open>What the loaders of policies and playbooks guarantee\<close>

text \<open>
  The loop keeps names distinct and lets nothing in that was not accepted, for policies and playbooks alike; what
  the control of a policy refuses is then impossible in the decisions of an engine that runs the loaded library.
\<close>

subsection \<open>The loop\<close>

definition library_ok :: "'a document_kind \<Rightarrow> 'a library \<Rightarrow> bool" where
  "library_ok k lib \<longleftrightarrow>
     distinct (map fst (fst lib)) \<and>
     (\<forall>(n, path, x) \<in> set (fst lib). n = dk_name k x \<and> (\<exists>d. dk_parse k d = Inr x))"

lemma diagnose_ok [simp]: "library_ok k (diagnose path rid why lib) = library_ok k lib"
  by (simp add: library_ok_def diagnose_def)

lemma keep_item_ok:
  "library_ok k lib \<Longrightarrow> dk_parse k d = Inr x \<Longrightarrow> library_ok k (keep_item k path x lib)"
  by (auto simp: keep_item_def library_ok_def diagnose_def map_of_eq_None_iff split: option.split)

lemma load_document_ok: "library_ok k lib \<Longrightarrow> library_ok k (load_document k path doc lib)"
  by (auto simp: load_document_def intro: keep_item_ok split: pyval.split sum.split)

lemma load_source_ok: "library_ok k lib \<Longrightarrow> library_ok k (load_source k yaml f lib)"
proof -
  have "library_ok k lib \<Longrightarrow> library_ok k (fold (load_document k (rf_path f)) docs lib)" for docs lib
    by (induction docs arbitrary: lib) (simp_all add: load_document_ok)
  then show "library_ok k lib \<Longrightarrow> library_ok k (load_source k yaml f lib)"
    by (simp add: load_source_def split: sum.split)
qed

lemma load_sources_ok: "library_ok k (load_sources k yaml fs)"
proof -
  have "library_ok k lib \<Longrightarrow> library_ok k (fold (load_source k yaml) fs lib)" for lib
    by (induction fs arbitrary: lib) (simp_all add: load_source_ok)
  moreover have "library_ok k ([], [])" by (simp add: library_ok_def)
  ultimately show ?thesis unfolding load_sources_def by blast
qed

subsection \<open>Policies\<close>

lemma parse_policy_valid: "parse_policy schema known d = Inr p \<Longrightarrow> validate_policy known p = []"
  by (auto simp: parse_policy_def split: sum.splits if_splits)

lemma parse_policy_schema: "parse_policy schema known d = Inr p \<Longrightarrow> schema d = Inr p"
  by (auto simp: parse_policy_def split: sum.splits if_splits)

text \<open>The schema of a policy: the fields are those of the library of schemas, the validators (\<open>_validate_id\<close>, \<open>_validate_playbook\<close>) those of the model.\<close>

definition policy_model :: "policy_schema \<Rightarrow> policy_schema" where
  "policy_model parse d =
     (case parse d of
        Inl e \<Rightarrow> Inl e
      | Inr p \<Rightarrow>
          (case validate_policy_id (po_id p) of
             Inl e \<Rightarrow> Inl e
           | Inr i \<Rightarrow>
               (case validate_then (po_then p) of Inl e \<Rightarrow> Inl e | Inr t \<Rightarrow> Inr (p\<lparr>po_id := i, po_then := t\<rparr>))))"

lemma policy_model_then:
  assumes "policy_model parse d = Inr p" and "pt_decision (po_then p) = Auto"
  shows "opt_truthy (pt_playbook (po_then p))"
  using assms by (auto simp: policy_model_def validate_then_def split: sum.splits if_splits)

lemma distinct_map_sort_key: "distinct (map g (sort_key f xs)) = distinct (map g xs)"
  by (simp add: distinct_map)

lemma loaded_policies:
  assumes "load_policies_from_dir yaml schema known dir files = (ps, diags)"
  shows "distinct (map po_id ps)" and "sorted (map (\<lambda>p. (- po_priority p, po_id p)) ps)"
    and "p \<in> set ps \<Longrightarrow> validate_policy known p = []" and "p \<in> set ps \<Longrightarrow> \<exists>d. schema d = Inr p"
proof -
  have "distinct (map po_id ps) \<and> sorted (map (\<lambda>p. (- po_priority p, po_id p)) ps) \<and>
      (\<forall>p \<in> set ps. validate_policy known p = [] \<and> (\<exists>d. schema d = Inr p))"
  proof (cases files)
    case None
    with assms show ?thesis by (simp add: load_policies_from_dir_def)
  next
    case (Some fs)
    define lib where "lib = load_sources (policy_kind schema known) yaml (filter is_policy_file fs)"
    have ps: "ps = by_priority (map (snd \<circ> snd) (fst lib))"
      using assms Some by (simp add: load_policies_from_dir_def lib_def split: prod.splits)
    have ok: "library_ok (policy_kind schema known) lib" unfolding lib_def by (rule load_sources_ok)
    then have "map po_id (map (snd \<circ> snd) (fst lib)) = map fst (fst lib)"
      by (auto simp: library_ok_def policy_kind_def)
    moreover have "distinct (map fst (fst lib))" using ok unfolding library_ok_def by blast
    ultimately have "distinct (map po_id (map (snd \<circ> snd) (fst lib)))" by (simp only:)
    then have "distinct (map po_id ps)"
      unfolding ps by_priority_def by (simp only: distinct_map_sort_key)
    moreover have "sorted (map (\<lambda>p. (- po_priority p, po_id p)) ps)" unfolding ps by_priority_def by (rule sorted_sort_key)
    moreover have "\<forall>p \<in> set ps. validate_policy known p = [] \<and> (\<exists>d. schema d = Inr p)"
      using ok parse_policy_valid parse_policy_schema unfolding ps by_priority_def by (fastforce simp: library_ok_def policy_kind_def)
    ultimately show ?thesis by blast
  qed
  then show "distinct (map po_id ps)" "sorted (map (\<lambda>p. (- po_priority p, po_id p)) ps)"
    "p \<in> set ps \<Longrightarrow> validate_policy known p = []" "p \<in> set ps \<Longrightarrow> \<exists>d. schema d = Inr p" by blast+
qed

lemma validate_policy_parts:
  assumes "validate_policy known p = []"
  shows "unknown_of ALLOWED_WHEN_KEYS (po_when p) = []" and "playbook_problems known p = []" and "then_problems p = []"
proof -
  have "u = []" if "(if u \<noteq> [] then [x] else []) @ r = []" for u :: "string list" and x :: string and r
    using that by (cases "u = []") simp_all
  with assms show "unknown_of ALLOWED_WHEN_KEYS (po_when p) = []" unfolding validate_policy_def by blast
  show "playbook_problems known p = []" "then_problems p = []"
    using assms unfolding validate_policy_def append_is_Nil_conv by blast+
qed

lemma no_text: "(if b then [x] else []) = [] \<longleftrightarrow> \<not> b"
  by simp

lemma valid_policy_then:
  assumes "validate_policy known p = []" and "pt_decision (po_then p) = Auto"
  shows "po_when p \<noteq> []" and "pt_dry_run (po_then p) = Some False \<Longrightarrow> str_strip (po_description p) \<noteq> []"
  using validate_policy_parts(3) [OF assms(1)] assms(2)
  unfolding then_problems_def Let_def append_is_Nil_conv no_text by blast+

lemma valid_policy_cap:
  assumes "validate_policy known p = []" and "pt_max_actions (po_then p) = Some n"
  shows "n \<le> 100"
  using validate_policy_parts(3) [OF assms(1)] assms(2)
  unfolding then_problems_def Let_def append_is_Nil_conv by (simp only: option.case no_text not_less)

lemma valid_policy_playbook:
  assumes "validate_policy (Some ks) p = []" and "opt_truthy (pt_playbook (po_then p))"
  shows "the (pt_playbook (po_then p)) \<in> set ks"
proof -
  have "\<not> is_unknown (Some ks) (pt_playbook (po_then p))"
    using validate_policy_parts(2) [OF assms(1)] unfolding playbook_problems_def append_is_Nil_conv no_text by blast
  with assms(2) show ?thesis by (simp add: is_unknown_def)
qed

lemma automatic_below_cap:
  assumes "d_decision (fst (decide re_compile cx now st e)) = Auto" and "selected re_compile cx now e = Some p"
  shows "recent_actions cx now st < hourly_cap cx p"
proof -
  from decide_Some [OF assms(2)] obtain ev where d: "fst (decide re_compile cx now st e) =
    (let d = policy_decision re_compile cx now p ev
     in if pt_decision (po_then p) = Ignore then d\<lparr>d_guards := d_guards d @ [''explicit_ignore'']\<rparr>
        else if pt_decision (po_then p) = Notify_only then d
        else apply_guards e cx p now st d)" .
  show ?thesis
    using assms(1) unfolding d by (auto simp: Let_def apply_guards_decision not_le split: if_splits)
qed

lemma automatic_policy:
  assumes "d_decision (fst (decide re_compile cx now st e)) = Auto"
  obtains p where "selected re_compile cx now e = Some p" and "pt_decision (po_then p) = Auto"
    and "d_policy_id (fst (decide re_compile cx now st e)) = Some (po_id p)"
    and "d_playbook (fst (decide re_compile cx now st e)) = pt_playbook (po_then p)"
proof (cases "selected re_compile cx now e")
  case None
  from decide_None [OF this] obtain ev where "fst (decide re_compile cx now st e) = default_decision cx ev" by blast
  moreover have "d_decision (default_decision cx ev) = Notify_only" by (simp add: default_decision_def)
  ultimately show ?thesis using assms by simp
next
  case (Some p)
  from decide_Some [OF this] obtain ev where d: "fst (decide re_compile cx now st e) =
    (let d = policy_decision re_compile cx now p ev
     in if pt_decision (po_then p) = Ignore then d\<lparr>d_guards := d_guards d @ [''explicit_ignore'']\<rparr>
        else if pt_decision (po_then p) = Notify_only then d
        else apply_guards e cx p now st d)" .
  have "pt_decision (po_then p) = Auto"
    using assms unfolding d by (auto simp: Let_def apply_guards_decision split: if_splits)
  with that Some show ?thesis
    unfolding d by (simp add: Let_def apply_guards_fields)
qed

text \<open>C38: An engine that runs a loaded library never decides automatically out of nothing: the decision comes from a
  policy of the library that states at least one condition and whose conditions hold; it names a playbook that exists;
  the actions that were requested for the tenant in the last hour, the rejected and the failed ones apart, are fewer than
  the cap of the policy, which is at most 100, or than the quota of the tenant when the policy gives none or zero; and
  the policy is documented when it lifts the simulation of its tenant.\<close>

theorem automatic_decisions_guarded:
  assumes "load_policies_from_dir yaml (policy_model parse) (Some ks) dir files = (ps, diags)"
    and "d_decision (fst (decide re_compile cx now st (new_engine ps s reg))) = Auto"
  shows "\<exists>p \<in> set ps. d_policy_id (fst (decide re_compile cx now st (new_engine ps s reg))) = Some (po_id p) \<and>
    po_when p \<noteq> [] \<and> fst (evaluate_when re_compile (po_when p) cx now) \<and>
    (\<exists>name \<in> set ks. d_playbook (fst (decide re_compile cx now st (new_engine ps s reg))) = Some name) \<and>
    int (length (filter (\<lambda>a. a_tenant a = t_id (cx_tenant cx) \<and> to_millis (now - seconds 3600) \<le> a_requested_at a \<and>
        a_status a \<notin> {Rejected, Failed}) (st_actions st)))
      < (if pt_max_actions (po_then p) \<in> {None, Some 0} then t_max_actions (cx_tenant cx) else the (pt_max_actions (po_then p))) \<and>
    (\<forall>n. pt_max_actions (po_then p) = Some n \<longrightarrow> n \<le> 100) \<and>
    \<not> (pt_dry_run (po_then p) = Some False \<and> str_strip (po_description p) = [])"
proof -
  let ?e = "new_engine ps s reg"
  from automatic_policy [OF assms(2)] obtain p where p: "selected re_compile cx now ?e = Some p" "pt_decision (po_then p) = Auto"
    "d_policy_id (fst (decide re_compile cx now st ?e)) = Some (po_id p)"
    "d_playbook (fst (decide re_compile cx now st ?e)) = pt_playbook (po_then p)" .
  have mem: "p \<in> set ps" and holds: "fst (evaluate_when re_compile (po_when p) cx now)"
    using p(1) by (auto simp: selected_def find_Some_iff in_set_conv_nth enabled_policies_def new_engine_def by_priority_def
        policy_matches_def dest!: nth_mem)
  note v = loaded_policies(3) [OF assms(1) mem]
  obtain d where d: "policy_model parse d = Inr p" using loaded_policies(4) [OF assms(1) mem] by blast
  have named: "opt_truthy (pt_playbook (po_then p))" using policy_model_then [OF d p(2)] .
  then obtain name where name: "pt_playbook (po_then p) = Some name" by (cases "pt_playbook (po_then p)") (simp_all add: opt_truthy_def)
  then have known: "name \<in> set ks" using valid_policy_playbook [OF v named] by simp
  have "recent_actions cx now st < hourly_cap cx p"
    by (rule automatic_below_cap [OF assms(2) p(1)])
  then have cap: "int (length (filter (\<lambda>a. a_tenant a = t_id (cx_tenant cx) \<and> to_millis (now - seconds 3600) \<le> a_requested_at a \<and>
        a_status a \<notin> {Rejected, Failed}) (st_actions st)))
      < (if pt_max_actions (po_then p) \<in> {None, Some 0} then t_max_actions (cx_tenant cx) else the (pt_max_actions (po_then p)))"
    by (simp add: recent_actions_def count_actions_since_def hourly_cap_def or_int_def opt_is_def opt_truthy_def split: option.splits if_splits)
  show ?thesis
    using mem p(3,4) name known holds cap valid_policy_then [OF v p(2)] valid_policy_cap [OF v] by auto
qed

definition sample_policy :: "decision_kind \<Rightarrow> dict \<Rightarrow> policy" where
  "sample_policy k conditions =
     \<lparr>po_id = ''p1'', po_priority = 10, po_description = ''block the source'', po_enabled = True, po_when = conditions,
      po_then = \<lparr>pt_decision = k, pt_playbook = Some ''block_ip'', pt_params = [], pt_dry_run = None, pt_cooldown = None,
        pt_max_actions = Some 2\<rparr>,
      po_rollback_playbook = None, po_rollback_after = None\<rparr>"

definition policy_source :: rule_file where
  "policy_source = \<lparr>rf_path = ''/p/a.yml'', rf_name = ''a.yml'', rf_suffix = ''.yml'', rf_text = Inr ''p''\<rparr>"

definition acme_policy :: policy where
  "acme_policy = sample_policy Auto [(''tenant.id'', PStr ''acme'')]"

lemma policy_source_is_file: "is_policy_file policy_source"
  by (simp add: is_policy_file_def is_rule_file_def RULE_SUFFIXES_def policy_source_def str_lower_def
      lower_char_def is_upper_def code_def)

lemma acme_policy_valid: "validate_policy (Some [''block_ip'']) acme_policy = []"
  by code_simp

lemma acme_policy_loaded:
  "load_policies_from_dir (\<lambda>_. Inr [PDict []]) (policy_model (\<lambda>_. Inr acme_policy)) (Some [''block_ip'']) ''/p'' (Some [policy_source])
     = ([acme_policy], [])"
proof -
  have docs: "file_documents k (\<lambda>_. Inr [PDict []]) policy_source = Inr [PDict []]" for k :: "policy document_kind"
    by (simp add: file_documents_def policy_source_def utf8_length_def MAX_DOCUMENT_BYTES_def)
  have "policy_model (\<lambda>_. Inr acme_policy) d = Inr acme_policy" for d by code_simp
  then show ?thesis
    by (simp add: load_policies_from_dir_def policy_source_is_file load_sources_def load_source_def docs load_document_def
        keep_item_def policy_kind_def parse_policy_def acme_policy_valid by_priority_def)
qed

definition sample_finding :: finding where
  "sample_finding =
     \<lparr>f_id = ''f1'', f_tenant = ''acme'', f_rule_id = ''r1'', f_rule_name = ''rule'', f_severity = High, f_risk_score = 70,
      f_confidence = 1, f_status = Open, f_title = ''t'', f_description = [], f_remediation = [], f_tags = [],
      f_mitre = [], f_evidence = [], f_first_seen = 0, f_last_seen = 0, f_count = 1, f_event_ids = [], f_created_at = 0,
      f_updated_at = 0, f_dedup_key = ''k'', f_resolution = None, f_comment = None\<rparr>"

definition auto_context :: decision_context where
  "auto_context =
     \<lparr>cx_finding = sample_finding, cx_tenant = sample_tenant\<lparr>t_mode := Mode_auto\<rparr>, cx_environment = ''dev'',
      cx_settings = None, cx_asset_host = None, cx_target_value = None, cx_extra = []\<rparr>"

lemma acme_selected:
  "selected (\<lambda>_ _. Inl []) auto_context 0 (new_engine [acme_policy] None \<lparr>reg_scopes = [], reg_source = None\<rparr>) = Some acme_policy"
  by (simp add: selected_def enabled_policies_def new_engine_def by_priority_def acme_policy_def sample_policy_def
      policy_matches_def evaluate_when_def resolve_def auto_context_def sample_tenant_def evaluate_key_def)

lemma acme_automatic:
  "d_decision (fst (decide (\<lambda>_ _. Inl []) auto_context 0 empty_store
       (new_engine [acme_policy] None \<lparr>reg_scopes = [], reg_source = None\<rparr>))) = Auto \<and>
   d_playbook (fst (decide (\<lambda>_ _. Inl []) auto_context 0 empty_store
       (new_engine [acme_policy] None \<lparr>reg_scopes = [], reg_source = None\<rparr>))) = Some ''block_ip''"
proof -
  let ?e = "new_engine [acme_policy] None \<lparr>reg_scopes = [], reg_source = None\<rparr>"
  have clear: "\<not> target_protected ?e auto_context" "mode_clear ?e auto_context" "scope_clear ?e auto_context pb"
    "recent_actions auto_context 0 empty_store = 0" "hourly_cap auto_context acme_policy = 2"
    "cooldown_hit auto_context 0 empty_store d = None" for pb d
    by (simp_all add: target_protected_def auto_context_def sample_tenant_def tenant_is_protected_def scope_protects_def
        mode_clear_def scope_clear_def effective_settings_def new_engine_def recent_actions_def empty_store_def
        count_actions_since_def hourly_cap_def or_int_def acme_policy_def sample_policy_def cooldown_hit_def
        Let_def opt_truthy_def scope_is_protected_def for_tenant_def or_empty_def)
  have kind: "pt_decision (po_then acme_policy) = Auto" "pt_playbook (po_then acme_policy) = Some ''block_ip''"
    by (simp_all add: acme_policy_def sample_policy_def)
  from decide_Some [OF acme_selected, of empty_store] obtain ev where
    d: "fst (decide (\<lambda>_ _. Inl []) auto_context 0 empty_store ?e) =
      (let d = policy_decision (\<lambda>_ _. Inl []) auto_context 0 acme_policy ev
       in if pt_decision (po_then acme_policy) = Ignore then d\<lparr>d_guards := d_guards d @ [''explicit_ignore'']\<rparr>
          else if pt_decision (po_then acme_policy) = Notify_only then d
          else apply_guards ?e auto_context acme_policy 0 empty_store d)" .
  show ?thesis
    unfolding d by (simp add: kind clear apply_guards_decision apply_guards_fields)
qed

theorem automatic_decisions_guarded_witness:
  "(let d = fst (decide (\<lambda>_ _. Inl []) auto_context 0 empty_store (new_engine [acme_policy] None \<lparr>reg_scopes = [], reg_source = None\<rparr>))
    in d_decision d = Auto \<and> d_policy_id d = Some ''p1'' \<and> d_playbook d = Some ''block_ip'') \<and>
   fst (evaluate_when (\<lambda>_ _. Inl []) (po_when acme_policy) auto_context 0)"
  using automatic_decisions_guarded [OF acme_policy_loaded, of "\<lambda>_ _. Inl []" auto_context 0 empty_store None
      "\<lparr>reg_scopes = [], reg_source = None\<rparr>"] acme_automatic
  by (simp add: Let_def) (simp add: acme_policy_def sample_policy_def)

subsection \<open>Playbooks\<close>

lemma parse_playbook_valid: "parse_playbook schema known d = Inr pb \<Longrightarrow> validate_playbook known pb = []"
  by (auto simp: parse_playbook_def split: sum.splits if_splits)

lemma loaded_playbooks:
  assumes "load_playbooks_from_dir yaml schema known dir files = (pbs, diags)"
  shows "distinct (map fst pbs) \<and> (\<forall>(n, pb) \<in> set pbs. n = pb_name pb \<and> validate_playbook known pb = [])"
proof (cases files)
  case None
  with assms show ?thesis by (simp add: load_playbooks_from_dir_def)
next
  case (Some fs)
  define lib where "lib = load_sources (playbook_kind schema known) yaml (filter is_rule_file fs)"
  have pbs: "pbs = map (\<lambda>(n, _, pb). (n, pb)) (fst lib)"
    using assms Some by (simp add: load_playbooks_from_dir_def lib_def split: prod.splits)
  have ok: "library_ok (playbook_kind schema known) lib" unfolding lib_def by (rule load_sources_ok)
  have "map fst pbs = map fst (fst lib)" unfolding pbs by auto
  with ok have "distinct (map fst pbs)" by (simp add: library_ok_def)
  moreover have "\<forall>(n, pb) \<in> set pbs. n = pb_name pb \<and> validate_playbook known pb = []"
    using ok parse_playbook_valid unfolding pbs by (fastforce simp: library_ok_def playbook_kind_def)
  ultimately show ?thesis by blast
qed

definition placeholder_ok :: "playbook \<Rightarrow> string \<Rightarrow> bool" where
  "placeholder_ok pb p \<longleftrightarrow>
     (if prefix ''params.'' p then drop 7 p = ''rollback_token'' \<or> drop 7 p \<in> fst ` set (pb_params pb)
      else hd (split_on (CHR ''.'') p) \<in> set NAMESPACES)"

text \<open>C19: In a loaded library of playbooks the names are distinct, every placeholder of a step names a declared parameter,
  the token of the rollback, or a known namespace, every connector is known, and no step of an execution is an
  operation of cancellation.\<close>

theorem playbook_library_sound:
  assumes "load_playbooks_from_dir yaml schema (Some ks) dir files = (pbs, diags)"
  shows "distinct (map fst pbs) \<and> (\<forall>(n, pb) \<in> set pbs. n = pb_name pb \<and>
    (\<forall>st \<in> set (pb_execute pb @ pb_rollback pb).
       st_connector st \<in> set ks \<and> list_all (placeholder_ok pb) (step_placeholders st)) \<and>
    (\<forall>st \<in> set (pb_execute pb). \<not> prefix ''undo_'' (st_call st)))"
proof -
  have "(\<forall>st \<in> set (pb_execute pb @ pb_rollback pb).
       st_connector st \<in> set ks \<and> list_all (placeholder_ok pb) (step_placeholders st)) \<and>
    (\<forall>st \<in> set (pb_execute pb). \<not> prefix ''undo_'' (st_call st))" if v: "validate_playbook (Some ks) pb = []" for pb
  proof -
    have steps: "\<forall>st \<in> set (pb_execute pb @ pb_rollback pb). step_problems (Some ks) st = []"
      and declared: "undeclared_params pb = []" and undo: "undo_problems pb = []"
      using v by (auto simp: validate_playbook_def split: if_splits)
    have "st_connector st \<in> set ks \<and> list_all (placeholder_ok pb) (step_placeholders st)"
      if st: "st \<in> set (pb_execute pb @ pb_rollback pb)" for st
    proof -
      have "st_connector st \<in> set ks" "filter unknown_namespace (step_placeholders st) = []"
        using bspec [OF steps st] by (auto simp: step_problems_def split: if_splits)
      moreover have "drop 7 p \<in> insert ''rollback_token'' (fst ` set (pb_params pb))"
        if "p \<in> set (step_placeholders st)" "prefix ''params.'' p" for p
      proof -
        have "drop 7 p \<in> set (referenced_params pb)" using that st by (force simp: referenced_params_def)
        moreover have "filter (\<lambda>n. n \<notin> insert ''rollback_token'' (fst ` set (pb_params pb))) (referenced_params pb) = []"
          using arg_cong [OF declared, of set] by (simp add: undeclared_params_def del: insert_iff)
        ultimately show ?thesis by (simp only: filter_empty_conv) blast
      qed
      ultimately show ?thesis
        by (auto simp: list_all_iff placeholder_ok_def unknown_namespace_def filter_empty_conv)
    qed
    moreover have "\<forall>st \<in> set (pb_execute pb). \<not> prefix ''undo_'' (st_call st)"
      using undo by (simp add: undo_problems_def filter_empty_conv)
    ultimately show ?thesis by blast
  qed
  with loaded_playbooks [OF assms] show ?thesis by fast
qed


definition notify_playbook :: playbook where
  "notify_playbook =
     \<lparr>pb_name = ''block_ip'', pb_description = [], pb_reversible = True, pb_dry_run_capable = True, pb_connectors = [''waf''],
      pb_params = [(''target'', \<lparr>pp_type = Pt_ip, pp_required = True, pp_default = PNone, pp_description = [], pp_min = None,
        pp_max = None, pp_choices = None\<rparr>)],
      pb_execute = [\<lparr>st_connector = ''waf'', st_call = ''block_ip'', st_with = [(''ip'', PStr ''${params.target}'')],
        st_optional = False\<rparr>],
      pb_rollback = [\<lparr>st_connector = ''waf'', st_call = ''undo_block_ip'',
        st_with = [(''token'', PStr ''${params.rollback_token}'')], st_optional = False\<rparr>]\<rparr>"

lemma notify_playbook_valid: "validate_playbook (Some [''waf'']) notify_playbook = []"
  by code_simp

lemma notify_playbook_loaded:
  "load_playbooks_from_dir (\<lambda>_. Inr [PDict []]) (\<lambda>_. Inr notify_playbook) (Some [''waf'']) ''/p'' (Some [policy_source])
     = ([(''block_ip'', notify_playbook)], [])"
proof -
  have docs: "file_documents k (\<lambda>_. Inr [PDict []]) policy_source = Inr [PDict []]" for k :: "playbook document_kind"
    by (simp add: file_documents_def policy_source_def utf8_length_def MAX_DOCUMENT_BYTES_def)
  have name: "pb_name notify_playbook = ''block_ip''" by (simp add: notify_playbook_def)
  have "is_rule_file policy_source" using policy_source_is_file by (simp add: is_policy_file_def)
  then show ?thesis
    by (simp add: load_playbooks_from_dir_def load_sources_def load_source_def docs load_document_def
        keep_item_def playbook_kind_def parse_playbook_def notify_playbook_valid name)
qed

theorem playbook_library_sound_witness:
  "list_all (placeholder_ok notify_playbook) [''params.target''] \<and> \<not> prefix ''undo_'' ''block_ip''"
proof -
  obtain st where st: "st \<in> set (pb_execute notify_playbook)" "st_call st = ''block_ip''"
    "step_placeholders st = [''params.target'']"
  proof -
    have "step_placeholders (hd (pb_execute notify_playbook)) = [''params.target'']" by code_simp
    then show ?thesis by (intro that [of "hd (pb_execute notify_playbook)"]) (simp_all add: notify_playbook_def)
  qed
  have "case (''block_ip'', notify_playbook) of (n, pb) \<Rightarrow> n = pb_name pb \<and>
    (\<forall>st \<in> set (pb_execute pb @ pb_rollback pb).
       st_connector st \<in> set [''waf''] \<and> list_all (placeholder_ok pb) (step_placeholders st)) \<and>
    (\<forall>st \<in> set (pb_execute pb). \<not> prefix ''undo_'' (st_call st))"
    by (rule bspec [OF conjunct2 [OF playbook_library_sound [OF notify_playbook_loaded]]]) (rule list.set_intros(1))
  then have "list_all (placeholder_ok notify_playbook) (step_placeholders st)" "\<not> prefix ''undo_'' (st_call st)"
    using st(1) unfolding prod.case set_append by blast+
  then show ?thesis unfolding st(2,3) by blast
qed

subsection \<open>What the control lets through\<close>

text \<open>
  The control accepts the comparators \<open>eq\<close>, \<open>ne\<close>, \<open>in\<close>, \<open>not_in\<close> and \<open>matches\<close> on the severity, which the engine evaluates
  as a failed comparison: such a policy is loaded and never selected.
\<close>

theorem severity_equality_never_holds:
  "validate_policy (Some [''block_ip'']) (sample_policy Auto [(''finding.severity'', PDict [(''eq'', PStr ''high'')])]) = [] \<and>
   \<not> policy_matches re_compile cx now (sample_policy Auto [(''finding.severity'', PDict [(''eq'', PStr ''high'')])])"
proof
  show "validate_policy (Some [''block_ip''])
      (sample_policy Auto [(''finding.severity'', PDict [(''eq'', PStr ''high'')])]) = []"
    by code_simp
  show "\<not> policy_matches re_compile cx now (sample_policy Auto [(''finding.severity'', PDict [(''eq'', PStr ''high'')])])"
    by (simp add: policy_matches_def evaluate_when_def sample_policy_def evaluate_key_def evaluate_severity_def
        numeric_compare_def Let_def)
qed

text \<open>
  The control accepts the namespace \<open>context\<close>, which no execution provides: a step that uses it is never rendered.
\<close>

theorem context_namespace_unresolved:
  assumes "hd (split_on (CHR ''.'') path) = ''context''"
  shows "placeholder_ok pb path \<or> prefix ''params.'' path"
    and "\<exists>e. resolve_hole (build_context params (execution_context t a st) now) path = Inl e"
proof -
  show "placeholder_ok pb path \<or> prefix ''params.'' path"
    using assms by (simp add: placeholder_ok_def NAMESPACES_def)
  obtain rest where "split_on (CHR ''.'') path = ''context'' # rest"
    using assms by (metis list.collapse split_on_nonempty)
  then show "\<exists>e. resolve_hole (build_context params (execution_context t a st) now) path = Inl e"
    by (simp add: resolve_hole_def build_context_def execution_context_def Let_def)
qed

end
