(* ===== verification/LocalConnectors.thy ===== *)
theory LocalConnectors
  imports Connectors Sha256
begin

section \<open>The native connectors that act on the local machine\<close>

text \<open>
  \<open>actions/connectors/local.py\<close>: the drivers \<open>nginx-local\<close> (a list of entries and the include file rendered from
  it), \<open>local-quarantine\<close> (files moved under a manifest of digests) and \<open>local-ticket\<close> (one text per ticket).  The
  state files are typed: \<^const>\<open>None\<close> is a missing or unreadable file, and what is written is what is read back.  A
  file operation succeeds; what the machine decides (the resolution of a path, the outcome of the reload command,
  fresh identifiers) is a parameter.
\<close>

subsection \<open>Parameters of an operation\<close>

definition first_param :: "dict \<Rightarrow> string list \<Rightarrow> string \<Rightarrow> string" where
  "first_param d ks other =
     (case find (\<lambda>k. truthy (dict_val d k)) ks of None \<Rightarrow> other | Some k \<Rightarrow> py_str (dict_val d k))"

definition int_error :: "pyval \<Rightarrow> string" where
  "int_error v =
     (case v of
        PStr s \<Rightarrow> ''invalid literal for int() with base 10: '' @ py_repr v
      | _ \<Rightarrow> ''int() argument must be a string, a bytes-like object or a real number, not '' @ quoted (type_name v))"

definition duration_param :: "dict \<Rightarrow> string + int" where
  "duration_param d =
     (let v = dict_val d ''duration_seconds''
      in if truthy v then (case py_int v of None \<Rightarrow> Inl (int_error v) | Some n \<Rightarrow> Inr n) else Inr 3600)"

definition success :: "string \<Rightarrow> dict \<Rightarrow> string option \<Rightarrow> connector_result" where
  "success detail data token =
     \<lparr>cr_ok = True, cr_operation = [], cr_connector = [], cr_detail = detail, cr_simulated = False, cr_data = data,
      cr_error = None, cr_rollback_token = token\<rparr>"

definition refusal :: "string \<Rightarrow> connector_result" where
  "refusal err =
     \<lparr>cr_ok = False, cr_operation = [], cr_connector = [], cr_detail = [], cr_simulated = False, cr_data = [],
      cr_error = Some err, cr_rollback_token = None\<rparr>"

text \<open>What one call reads of the machine: the clock, a fresh identifier, and the outcome of a command.\<close>

datatype command_outcome = Exited int string | Not_run string

record machine =
  mc_now :: time
  mc_uuid :: string
  mc_run :: "string list \<Rightarrow> command_outcome"
  mc_resolve :: "string \<Rightarrow> string"
  mc_ascii :: "string \<Rightarrow> string"

subsection \<open>Nginx\<close>

datatype nx_operation = Nx_block | Nx_rate string

record nx_entry =
  nx_id :: string
  nx_op :: nx_operation
  nx_ip :: string
  nx_note :: string
  nx_created :: string
  nx_expires :: "time option"

record nginx =
  ng_state :: "nx_entry list option"
  ng_deny :: "string option"

definition load_state :: "nginx \<Rightarrow> nx_entry list" where
  "load_state s = (case ng_state s of None \<Rightarrow> [] | Some es \<Rightarrow> es)"

definition is_block :: "nx_entry \<Rightarrow> bool" where
  "is_block e \<longleftrightarrow> nx_op e = Nx_block"

definition or_text :: "string \<Rightarrow> string \<Rightarrow> string" where
  "or_text s other = (if s = [] then other else s)"

definition expiry_text :: "nx_entry \<Rightarrow> string" where
  "expiry_text e = (case nx_expires e of None \<Rightarrow> ''jamais'' | Some t \<Rightarrow> iso_z t)"

definition rate_lines :: "nx_entry \<Rightarrow> string list" where
  "rate_lines e =
     [''# '' @ or_text (nx_note e) ''rate limit'' @ '' - expire '' @ expiry_text e,
      ''limit_req_zone $binary_remote_addr zone=thotsecure_'' @ take 8 (nx_id e) @ '':10m rate=''
        @ (case nx_op e of Nx_rate r \<Rightarrow> r | Nx_block \<Rightarrow> ''10r/s'') @ '';'']"

definition deny_lines :: "nx_entry \<Rightarrow> string list" where
  "deny_lines e =
     [''# motif: '' @ or_text (nx_note e) ''n/a'' @ '' - expire '' @ expiry_text e, ''deny '' @ nx_ip e @ '';'']"

definition file_head :: "string list" where
  "file_head =
     [''# Fichier genere par Thot Secure - NE PAS EDITER A LA MAIN.'',
      ''# Chaque entree correspond a une action auditee et reversible depuis l interface.'',
      ''# Incluez ce fichier dans votre bloc http{} ou server{} :'',
      ''#     include /etc/nginx/conf.d/thotsecure-deny.conf;'', '''']"

definition rate_section :: "nx_entry list \<Rightarrow> string list" where
  "rate_section es =
     (if filter (\<lambda>e. \<not> is_block e) es = [] then []
      else ''# --- Limitation de debit (zones) ---''
        # concat (map rate_lines (sort_key nx_id (filter (\<lambda>e. \<not> is_block e) es))) @ [''''])"

definition deny_section :: "nx_entry list \<Rightarrow> string list" where
  "deny_section es =
     (if filter is_block es = [] then []
      else ''# --- Adresses bloquees ---'' # concat (map deny_lines (sort_key nx_ip (filter is_block es))) @ [''''])"

definition rendered_lines :: "nx_entry list \<Rightarrow> string list" where
  "rendered_lines es =
     file_head @ rate_section es @ deny_section es @ (if es = [] then [''# (aucune entree active)''] else [])"

definition render_file :: "nx_entry list \<Rightarrow> string" where
  "render_file es = join_with [CHR 0x0A] (rendered_lines es) @ [CHR 0x0A]"

text \<open>\<open>_save_state\<close> followed by \<open>_render\<close>, which reads the state it has just written.\<close>

definition save_and_render :: "nx_entry list \<Rightarrow> nginx \<Rightarrow> nginx" where
  "save_and_render es s = s\<lparr>ng_state := Some es, ng_deny := Some (render_file es)\<rparr>"

definition prune :: "time \<Rightarrow> nginx \<Rightarrow> nat \<times> nginx" where
  "prune now s =
     (let es = load_state s;
          kept = filter (\<lambda>e. case nx_expires e of None \<Rightarrow> True | Some t \<Rightarrow> now < to_millis t) es
      in (length es - length kept, save_and_render kept s))"

fun split_blank :: "string \<Rightarrow> string list" where
  "split_blank [] = []"
| "split_blank (c # s) =
     (if is_space c then split_blank s
      else case s of
        [] \<Rightarrow> [[c]]
      | d # t \<Rightarrow> if is_space d then [c] # split_blank t
                 else (case split_blank s of [] \<Rightarrow> [[c]] | w # ws \<Rightarrow> (c # w) # ws))"

definition reload_command :: "dict \<Rightarrow> string list option" where
  "reload_command settings =
     (case dict_val settings ''reload_command'' of
        PStr s \<Rightarrow> if s = [] then None else Some (split_blank s)
      | PList xs \<Rightarrow> if xs = [] then None else Some (map py_str xs)
      | _ \<Rightarrow> None)"

definition nginx_reload :: "machine \<Rightarrow> dict \<Rightarrow> bool \<times> string" where
  "nginx_reload m settings =
     (case reload_command settings of
        None \<Rightarrow> (False, ''aucun rechargement declenche : configurez reload_command pour l activer'')
      | Some command \<Rightarrow>
          (case mc_run m command of
             Not_run exc \<Rightarrow> (False, ''echec du rechargement: '' @ exc)
           | Exited rc err \<Rightarrow>
               if rc \<noteq> 0 then (False, ''rechargement en erreur: '' @ take 200 err)
               else (True, ''rechargement Nginx effectue'')))"

definition target_ip :: "dict \<Rightarrow> string" where
  "target_ip params = str_strip (first_param params [''target'', ''ip''] [])"

definition new_entry :: "machine \<Rightarrow> nx_operation \<Rightarrow> string \<Rightarrow> string \<Rightarrow> int \<Rightarrow> nx_entry" where
  "new_entry m k ip reason duration =
     \<lparr>nx_id = ''nx_'' @ mc_uuid m, nx_op = k, nx_ip = ip, nx_note = take 200 reason, nx_created = iso_z (mc_now m),
      nx_expires = Some (mc_now m + seconds duration)\<rparr>"

definition op_block_ip :: "machine \<Rightarrow> dict \<Rightarrow> dict \<Rightarrow> nginx \<Rightarrow> handler_outcome \<times> nginx" where
  "op_block_ip m settings params s =
     (if target_ip params = [] then (Returned (refusal ''parametre target (IP) manquant''), s)
      else case duration_param params of
        Inl e \<Rightarrow> (Raised e, s)
      | Inr duration \<Rightarrow>
          let e = new_entry m Nx_block (target_ip params) (first_param params [''reason''] ''Thot Secure auto-mitigation'')
                    duration;
              (reloaded, detail) = nginx_reload m settings
          in (Returned (success (''IP '' @ target_ip params @ '' ajoutee au fichier d inclusion Nginx. '' @ detail)
                [(''entry_id'', PStr (nx_id e)), (''expires_at'', PStr (expiry_text e)), (''reloaded'', PBool reloaded)]
                (Some (nx_id e))),
              save_and_render (load_state s @ [e]) s))"

definition op_rate_limit :: "machine \<Rightarrow> dict \<Rightarrow> dict \<Rightarrow> nginx \<Rightarrow> handler_outcome \<times> nginx" where
  "op_rate_limit m settings params s =
     (if target_ip params = [] then (Returned (refusal ''parametre target (IP) manquant''), s)
      else case duration_param params of
        Inl e \<Rightarrow> (Raised e, s)
      | Inr duration \<Rightarrow>
          let rate = first_param params [''rate''] ''10r/s'';
              e = new_entry m (Nx_rate rate) (target_ip params) (first_param params [''reason''] ''Thot Secure rate limit'')
                    duration;
              (reloaded, detail) = nginx_reload m settings
          in (Returned (success (''Zone de limitation declaree pour '' @ target_ip params @ '' ('' @ rate @ ''). '' @ detail)
                [(''entry_id'', PStr (nx_id e)), (''reloaded'', PBool reloaded)] (Some (nx_id e))),
              save_and_render (load_state s @ [e]) s))"

text \<open>The entries an undo removes: the one of the token, and every entry of the address in the same class.\<close>

definition undone :: "(nx_entry \<Rightarrow> bool) \<Rightarrow> dict \<Rightarrow> nx_entry \<Rightarrow> bool" where
  "undone cls params e \<longleftrightarrow>
     truthy (dict_val params ''rollback_token'') \<and> dict_val params ''rollback_token'' = PStr (nx_id e) \<or>
     target_ip params \<noteq> [] \<and> nx_ip e = target_ip params \<and> cls e"

definition op_remove :: "(nx_entry \<Rightarrow> bool) \<Rightarrow> string \<Rightarrow> string \<Rightarrow> machine \<Rightarrow> dict \<Rightarrow> dict \<Rightarrow> nginx \<Rightarrow> handler_outcome \<times> nginx" where
  "op_remove cls noun missing m settings params s =
     (let es = load_state s; kept = filter (\<lambda>e. \<not> undone cls params e) es; removed = length es - length kept;
          (reloaded, detail) = nginx_reload m settings
      in (Returned ((success (int_str (int removed) @ noun @ detail)
             [(''removed'', PInt (int removed)), (''reloaded'', PBool reloaded)] None)
             \<lparr>cr_ok := 0 < removed, cr_error := (if 0 < removed then None else Some missing)\<rparr>),
          save_and_render kept s))"

definition op_unblock_ip :: "machine \<Rightarrow> dict \<Rightarrow> dict \<Rightarrow> nginx \<Rightarrow> handler_outcome \<times> nginx" where
  "op_unblock_ip = op_remove is_block '' entree(s) retiree(s). '' ''aucune entree correspondante (deja debloquee ?)''"

definition op_remove_rate_limit :: "machine \<Rightarrow> dict \<Rightarrow> dict \<Rightarrow> nginx \<Rightarrow> handler_outcome \<times> nginx" where
  "op_remove_rate_limit = op_remove (\<lambda>e. \<not> is_block e) '' zone(s) retiree(s). '' ''aucune zone correspondante''"

definition nginx_handler :: "machine \<Rightarrow> dict \<Rightarrow> string \<Rightarrow> dict \<Rightarrow> nginx \<Rightarrow> handler_outcome \<times> nginx" where
  "nginx_handler m settings operation =
     (if operation = ''block_ip'' then op_block_ip m settings
      else if operation = ''unblock_ip'' then op_unblock_ip m settings
      else if operation = ''rate_limit'' then op_rate_limit m settings
      else if operation = ''remove_rate_limit'' then op_remove_rate_limit m settings
      else (\<lambda>params s. (Raised operation, s)))"

subsection \<open>Quarantine\<close>

datatype node = File string | Directory

type_synonym files = "(string \<times> node) list"

record manifest_entry =
  qe_id :: string
  qe_original :: string
  qe_quarantined :: string
  qe_sha256 :: string
  qe_size :: int
  qe_reason :: string
  qe_at :: string
  qe_restored :: "string option"

record quarantine =
  qn_files :: files
  qn_manifest :: "manifest_entry list option"

definition load_manifest :: "quarantine \<Rightarrow> manifest_entry list" where
  "load_manifest s = (case qn_manifest s of None \<Rightarrow> [] | Some es \<Rightarrow> es)"

definition parts :: "string \<Rightarrow> string list" where
  "parts p = filter (\<lambda>w. w \<noteq> []) (split_on (CHR ''/'') p)"

definition base_name :: "string \<Rightarrow> string" where
  "base_name p = (if parts p = [] then [] else last (parts p))"

definition allowed_roots :: "machine \<Rightarrow> dict \<Rightarrow> string list" where
  "allowed_roots m settings =
     (case dict_val settings ''allowed_roots'' of
        PList xs \<Rightarrow> map (mc_resolve m) (if xs = [] then [''./data''] else map py_str xs)
      | _ \<Rightarrow> [mc_resolve m ''./data''])"

definition quarantine_dir :: "dict \<Rightarrow> string" where
  "quarantine_dir settings = first_param settings [''quarantine_dir''] ''./data/quarantine''"

definition is_relative_to :: "string \<Rightarrow> string \<Rightarrow> bool" where
  "is_relative_to p dir \<longleftrightarrow> prefix (parts dir) (parts p)"

definition is_allowed :: "machine \<Rightarrow> dict \<Rightarrow> string \<Rightarrow> bool" where
  "is_allowed m settings p \<longleftrightarrow> list_ex (is_relative_to (mc_resolve m p)) (allowed_roots m settings)"

text \<open>Digest of the bytes of a file; the chunks only bound the memory.\<close>

definition sha256_file :: "string \<Rightarrow> string" where
  "sha256_file content = concat (map word_hex (sha256 (map code content)))"

text \<open>\<open>shutil.move\<close>: into the directory when the destination is one, and over the file otherwise.\<close>

definition move_target :: "files \<Rightarrow> string \<Rightarrow> string \<Rightarrow> string" where
  "move_target fs src dst = (if map_of fs dst = Some Directory then dst @ ''/'' @ base_name src else dst)"

definition move_file :: "string \<Rightarrow> string \<Rightarrow> files \<Rightarrow> string + files" where
  "move_file src dst fs =
     (let to = move_target fs src dst
      in if map_of fs dst = Some Directory \<and> map_of fs to \<noteq> None
         then Inl (''Destination path '' @ quoted to @ '' already exists'')
         else case map_of fs src of
           None \<Rightarrow> Inl (''No such file or directory: '' @ quoted src)
         | Some n \<Rightarrow> Inr (dict_set to n (AList.delete src fs)))"

definition raw_param :: "dict \<Rightarrow> string list \<Rightarrow> string option" where
  "raw_param d ks = map_option (\<lambda>k. py_str (dict_val d k)) (find (\<lambda>k. truthy (dict_val d k)) ks)"

definition quarantined_path :: "machine \<Rightarrow> dict \<Rightarrow> string \<Rightarrow> string" where
  "quarantined_path m settings source =
     mc_resolve m (quarantine_dir settings @ ''/qz_'' @ mc_uuid m @ ''_'' @ base_name source @ ''.quarantined'')"

text \<open>
  The keys of \<^const>\<open>qn_files\<close> are resolved paths; \<open>source\<close> is what the caller named, once resolved.
\<close>

definition op_quarantine_file :: "machine \<Rightarrow> dict \<Rightarrow> dict \<Rightarrow> quarantine \<Rightarrow> handler_outcome \<times> quarantine" where
  "op_quarantine_file m settings params s =
     (case raw_param params [''target'', ''path''] of
        None \<Rightarrow> (Returned (refusal ''parametre target (chemin) manquant''), s)
      | Some raw \<Rightarrow>
          let source = mc_resolve m raw; fs = qn_files s
          in case map_of fs source of
               None \<Rightarrow> (Returned (refusal (''fichier introuvable: '' @ raw)), s)
             | Some Directory \<Rightarrow> (Returned (refusal ''la quarantaine ne s applique qu aux fichiers''), s)
             | Some (File content) \<Rightarrow>
                 if \<not> is_allowed m settings raw
                 then (Returned (refusal (''chemin hors perimetre autorise: '' @ raw @ '' (allowed_roots=''
                         @ py_repr (PList (map PStr (allowed_roots m settings))) @ '')'')), s)
                 else let dest = quarantined_path m settings source
                   in case move_file source dest fs of
                        Inl e \<Rightarrow> (Raised e, s)
                      | Inr fs' \<Rightarrow>
                          let e = \<lparr>qe_id = ''qz_'' @ mc_uuid m, qe_original = source, qe_quarantined = dest,
                                qe_sha256 = sha256_file content, qe_size = int (length content),
                                qe_reason = take 300 (first_param params [''reason''] []), qe_at = iso_z (mc_now m),
                                qe_restored = None\<rparr>
                          in (Returned (success (''fichier mis en quarantaine (sha256='' @ take 12 (sha256_file content) @ '')'')
                                [(''entry_id'', PStr (qe_id e)), (''sha256'', PStr (qe_sha256 e)),
                                 (''quarantined_path'', PStr dest)] (Some (qe_id e))),
                              \<lparr>qn_files = fs', qn_manifest = Some (load_manifest s @ [e])\<rparr>))"

definition chosen_entry :: "machine \<Rightarrow> dict \<Rightarrow> manifest_entry \<Rightarrow> bool" where
  "chosen_entry m params e \<longleftrightarrow>
     raw_param params [''rollback_token'', ''entry_id''] = Some (qe_id e) \<or>
     (case raw_param params [''target'', ''path''] of None \<Rightarrow> False | Some raw \<Rightarrow> qe_original e = mc_resolve m raw)"

text \<open>The first entry chosen is updated in place.\<close>

fun mark_restored :: "(manifest_entry \<Rightarrow> bool) \<Rightarrow> string \<Rightarrow> manifest_entry list \<Rightarrow> manifest_entry list" where
  "mark_restored P instant [] = []"
| "mark_restored P instant (e # es) = (if P e then e\<lparr>qe_restored := Some instant\<rparr> # es else e # mark_restored P instant es)"

definition op_restore_file :: "machine \<Rightarrow> dict \<Rightarrow> dict \<Rightarrow> quarantine \<Rightarrow> handler_outcome \<times> quarantine" where
  "op_restore_file m settings params s =
     (case find (chosen_entry m params) (load_manifest s) of
        None \<Rightarrow> (Returned (refusal ''aucune entree de quarantaine correspondante''), s)
      | Some e \<Rightarrow>
          if qe_restored e \<noteq> None then (Returned (refusal ''ce fichier a deja ete restaure''), s)
          else case map_of (qn_files s) (qe_quarantined e) of
            None \<Rightarrow> (Returned (refusal ''fichier en quarantaine introuvable''), s)
          | Some Directory \<Rightarrow> (Raised (''Is a directory: '' @ quoted (qe_quarantined e)), s)
          | Some (File content) \<Rightarrow>
              if sha256_file content \<noteq> qe_sha256 e
              then (Returned (refusal ''empreinte differente de celle enregistree : le fichier a ete modifie, restauration refusee (investigation requise)''), s)
              else case move_file (qe_quarantined e) (qe_original e) (qn_files s) of
                Inl exc \<Rightarrow> (Raised exc, s)
              | Inr fs' \<Rightarrow>
                  (Returned (success (''fichier restaure vers '' @ qe_original e)
                     [(''entry_id'', PStr (qe_id e)), (''path'', PStr (qe_original e))] None),
                   \<lparr>qn_files = fs',
                    qn_manifest = Some (mark_restored (chosen_entry m params) (iso_z (mc_now m)) (load_manifest s))\<rparr>))"

subsection \<open>Tickets\<close>

text \<open>The directory of tickets: the text of each file, in the order of their creation.\<close>

type_synonym tickets = "(string \<times> string) list"

fun slug_chars :: "bool \<Rightarrow> string \<Rightarrow> string" where
  "slug_chars gap [] = []"
| "slug_chars gap (c # s) =
     (if is_lower c \<or> is_digit c then c # slug_chars False s
      else if gap then slug_chars True s else CHR ''-'' # slug_chars True s)"

definition slugify :: "machine \<Rightarrow> nat \<Rightarrow> string \<Rightarrow> string" where
  "slugify m n v =
     or_text (take n (strip_with (\<lambda>c. c = CHR ''-'') (slug_chars False (str_lower (mc_ascii m v))))) ''item''"

definition compact_stamp :: "time \<Rightarrow> string" where
  "compact_stamp t = filter (\<lambda>c. c \<noteq> CHR ''-'' \<and> c \<noteq> CHR '':'') (date_str t @ ''T'' @ clock_str t @ ''Z'')"

definition ticket_path :: "dict \<Rightarrow> string \<Rightarrow> string" where
  "ticket_path settings tid = first_param settings [''directory''] ''./data/tickets'' @ ''/'' @ tid @ ''.md''"

definition shown_param :: "dict \<Rightarrow> string \<Rightarrow> string" where
  "shown_param d k = (case map_of d k of None \<Rightarrow> [] | Some v \<Rightarrow> py_str v)"

definition ticket_body :: "machine \<Rightarrow> dict \<Rightarrow> string \<Rightarrow> string" where
  "ticket_body m params tid =
     (let title = first_param params [''title''] ''Incident Thot Secure''
      in join_with [CHR 0x0A]
        [''---'', ''ticket_id: '' @ tid, ''title: '' @ title, ''severity: '' @ first_param params [''severity''] ''medium'',
         ''tenant_id: '' @ shown_param params ''tenant_id'', ''finding_id: '' @ shown_param params ''finding_id'',
         ''action_id: '' @ shown_param params ''action_id'', ''created_at: '' @ iso_z (mc_now m), ''status: open'', ''---'',
         '''', ''# '' @ title, '''', ''## Contexte'', '''',
         first_param params [''description''] ''Ticket ouvert automatiquement par Thot Secure.'', '''',
         ''## Remediation recommandee'', '''',
         first_param params [''remediation''] ''Analyser, confirmer, appliquer, documenter.'', '''', ''## Journal'', '''',
         ''- '' @ iso_z (mc_now m) @ '' - ticket ouvert par Thot Secure'', ''''])"

definition op_open_ticket :: "machine \<Rightarrow> dict \<Rightarrow> dict \<Rightarrow> tickets \<Rightarrow> handler_outcome \<times> tickets" where
  "op_open_ticket m settings params s =
     (let tid = compact_stamp (mc_now m) @ ''-'' @ slugify m 40 (first_param params [''title''] ''Incident Thot Secure'');
          path = ticket_path settings tid
      in (Returned (success (''ticket cree: '' @ path) [(''ticket_id'', PStr tid), (''path'', PStr path)] (Some tid)),
          dict_set path (ticket_body m params tid) s))"

definition op_close_ticket :: "machine \<Rightarrow> dict \<Rightarrow> dict \<Rightarrow> tickets \<Rightarrow> handler_outcome \<times> tickets" where
  "op_close_ticket m settings params s =
     (let tid = first_param params [''rollback_token'', ''ticket_id''] []; path = ticket_path settings tid
      in if tid = [] then (Returned (refusal ''identifiant de ticket manquant''), s)
         else case map_of s path of
           None \<Rightarrow> (Returned (refusal (''ticket introuvable: '' @ path)), s)
         | Some body \<Rightarrow>
             (Returned (success (''ticket cloture: '' @ path) [(''ticket_id'', PStr tid)] None),
              dict_set path (body @ [CHR 0x0A] @ ''## Cloture'' @ [CHR 0x0A, CHR 0x0A] @ ''- '' @ iso_z (mc_now m)
                @ '' - cloture : '' @ first_param params [''resolution''] ''resolu'' @ [CHR 0x0A] @ ''- commentaire : ''
                @ first_param params [''comment''] ''n/a'' @ [CHR 0x0A]) s))"

definition op_notify :: "machine \<Rightarrow> dict \<Rightarrow> dict \<Rightarrow> tickets \<Rightarrow> handler_outcome \<times> tickets" where
  "op_notify m settings params s =
     (let path = first_param settings [''directory''] ''./data/tickets'' @ ''/notifications.log'';
          old = (case map_of s path of None \<Rightarrow> [] | Some body \<Rightarrow> body);
          message = first_param params [''message''] ''Notification Thot Secure''
      in (Returned (success ''notification journalisee localement'' [] None),
          dict_set path (old @ iso_z (mc_now m) @ [CHR 0x09] @ take 500 message @ [CHR 0x0A]) s))"

end
