(* ===== verification/LocalProps.thy ===== *)
theory LocalProps
  imports LocalConnectors
begin

section \<open>Guarantees of the local connectors\<close>

text \<open>
  Every operation can be undone with the token it returned, in any number, last first; the include file always
  renders the state; a quarantine touches only the file it was asked for, inside the roots it was given.
\<close>

subsection \<open>Operations that can be undone\<close>

text \<open>
  The contract of a driver whose operations are undone: \<open>run\<close> with a fresh identifier, the \<open>undo\<close> the executor calls for it, with
  the token made of the identifier and the parameters of the step, what is \<open>view\<close>ed of the state.
\<close>

fun run_all :: "('i \<Rightarrow> 'p \<Rightarrow> 's \<Rightarrow> 's) \<Rightarrow> ('i \<times> 'p) list \<Rightarrow> 's \<Rightarrow> 's" where
  "run_all r [] s = s"
| "run_all r ((i, p) # xs) s = run_all r xs (r i p s)"

fun all_fresh :: "('i \<Rightarrow> 'p \<Rightarrow> 's \<Rightarrow> bool) \<Rightarrow> ('i \<Rightarrow> 'p \<Rightarrow> 's \<Rightarrow> 's) \<Rightarrow> ('i \<times> 'p) list \<Rightarrow> 's \<Rightarrow> bool" where
  "all_fresh f r [] s = True"
| "all_fresh f r ((i, p) # xs) s = (f i p s \<and> all_fresh f r xs (r i p s))"

definition undo_calls :: "('i \<Rightarrow> 'p \<Rightarrow> 's \<Rightarrow> 's) \<Rightarrow> ('i \<times> 'p) list \<Rightarrow> 's \<Rightarrow> 's" where
  "undo_calls u xs = foldr (\<lambda>(i, p). u i p) xs"

lemma undo_calls_simps [simp]:
  "undo_calls u [] s = s" "undo_calls u ((i, p) # xs) s = u i p (undo_calls u xs s)"
  by (simp_all add: undo_calls_def)

locale undoable_calls =
  fixes run :: "'i \<Rightarrow> 'p \<Rightarrow> 's \<Rightarrow> 's"
    and undo :: "'i \<Rightarrow> 'p \<Rightarrow> 's \<Rightarrow> 's"
    and view :: "'s \<Rightarrow> 'v"
    and good :: "'s \<Rightarrow> bool"
    and fresh :: "'i \<Rightarrow> 'p \<Rightarrow> 's \<Rightarrow> bool"
  assumes undo_run: "good s \<Longrightarrow> fresh i p s \<Longrightarrow> view (undo i p (run i p s)) = view s"
    and good_run: "good s \<Longrightarrow> fresh i p s \<Longrightarrow> good (run i p s)"
    and good_undo: "good s \<Longrightarrow> good (undo i p s)"
    and undo_view: "good s \<Longrightarrow> good s' \<Longrightarrow> view s = view s' \<Longrightarrow> view (undo i p s) = view (undo i p s')"
begin

lemma good_run_all: "good s \<Longrightarrow> all_fresh fresh run xs s \<Longrightarrow> good (run_all run xs s)"
  by (induction xs arbitrary: s) (auto simp: good_run)

lemma good_undo_calls: "good s \<Longrightarrow> good (undo_calls undo xs s)"
  by (induction xs) (auto simp: good_undo)

lemma undo_calls_restores:
  "good s \<Longrightarrow> all_fresh fresh run xs s \<Longrightarrow> view (undo_calls undo xs (run_all run xs s)) = view s"
proof (induction xs arbitrary: s)
  case (Cons x xs)
  obtain i p where x: "x = (i, p)" by (cases x)
  let ?s = "run i p s"
  have s: "good ?s" "all_fresh fresh run xs ?s" using Cons.prems by (simp_all add: x good_run)
  have "view (undo i p (undo_calls undo xs (run_all run xs ?s))) = view (undo i p ?s)"
    using s by (intro undo_view good_undo_calls good_run_all Cons.IH)
  also have "\<dots> = view s" using Cons.prems by (simp add: x undo_run)
  finally show ?case by (simp add: x)
qed simp

end

text \<open>A driver that needs the token alone.\<close>

definition undo_all :: "('i \<Rightarrow> 's \<Rightarrow> 's) \<Rightarrow> ('i \<times> 'p) list \<Rightarrow> 's \<Rightarrow> 's" where
  "undo_all u = undo_calls (\<lambda>i p. u i)"

locale undoable =
  fixes run :: "'i \<Rightarrow> 'p \<Rightarrow> 's \<Rightarrow> 's"
    and undo :: "'i \<Rightarrow> 's \<Rightarrow> 's"
    and view :: "'s \<Rightarrow> 'v"
    and good :: "'s \<Rightarrow> bool"
    and fresh :: "'i \<Rightarrow> 'p \<Rightarrow> 's \<Rightarrow> bool"
  assumes token_undo_run: "good s \<Longrightarrow> fresh i p s \<Longrightarrow> view (undo i (run i p s)) = view s"
    and token_good_run: "good s \<Longrightarrow> fresh i p s \<Longrightarrow> good (run i p s)"
    and token_good_undo: "good s \<Longrightarrow> good (undo i s)"
    and token_undo_view: "good s \<Longrightarrow> good s' \<Longrightarrow> view s = view s' \<Longrightarrow> view (undo i s) = view (undo i s')"

sublocale undoable \<subseteq> token: undoable_calls run "\<lambda>i p. undo i" view good fresh
  by unfold_locales (auto intro: token_undo_run token_good_run token_good_undo token_undo_view)

context undoable begin

lemma undo_all_restores:
  "good s \<Longrightarrow> all_fresh fresh run xs s \<Longrightarrow> view (undo_all undo xs (run_all run xs s)) = view s"
  unfolding undo_all_def by (rule token.undo_calls_restores)

end

subsection \<open>Nginx\<close>

datatype nx_request = Block dict | Limit dict

fun nx_run :: "machine \<Rightarrow> dict \<Rightarrow> string \<Rightarrow> nx_request \<Rightarrow> nginx \<Rightarrow> nginx" where
  "nx_run m settings i (Block params) s = snd (op_block_ip (m\<lparr>mc_uuid := i\<rparr>) settings params s)"
| "nx_run m settings i (Limit params) s = snd (op_rate_limit (m\<lparr>mc_uuid := i\<rparr>) settings params s)"

text \<open>The undo of a step, as the executor calls it: the inverse operation, with the parameters of the step and its token.\<close>

definition with_token :: "string \<Rightarrow> dict \<Rightarrow> dict" where
  "with_token i params = dict_set ''rollback_token'' (PStr (''nx_'' @ i)) params"

fun nx_undo :: "machine \<Rightarrow> dict \<Rightarrow> string \<Rightarrow> nx_request \<Rightarrow> nginx \<Rightarrow> nginx" where
  "nx_undo m settings i (Block params) s = snd (op_unblock_ip m settings (with_token i params) s)"
| "nx_undo m settings i (Limit params) s = snd (op_remove_rate_limit m settings (with_token i params) s)"

fun nx_concerns :: "nx_request \<Rightarrow> nx_entry \<Rightarrow> bool" where
  "nx_concerns (Block params) e \<longleftrightarrow> is_block e \<and> nx_ip e = target_ip params"
| "nx_concerns (Limit params) e \<longleftrightarrow> \<not> is_block e \<and> nx_ip e = target_ip params"

text \<open>The identifier is new, and no entry of the same class is there for the address.\<close>

definition nx_fresh :: "string \<Rightarrow> nx_request \<Rightarrow> nginx \<Rightarrow> bool" where
  "nx_fresh i p s \<longleftrightarrow> list_all (\<lambda>e. nx_id e \<noteq> ''nx_'' @ i \<and> \<not> nx_concerns p e) (load_state s)"

lemma dict_val_with_token:
  "dict_val (with_token i params) k = (if k = ''rollback_token'' then PStr (''nx_'' @ i) else dict_val params k)"
  by (simp add: with_token_def dict_val_def update_conv')

lemma undone_with_token [simp]:
  "undone cls (with_token i params) e \<longleftrightarrow> nx_id e = ''nx_'' @ i \<or> target_ip params \<noteq> [] \<and> nx_ip e = target_ip params \<and> cls e"
  by (auto simp: undone_def target_ip_def first_param_def dict_val_with_token)

lemma load_save [simp]: "load_state (save_and_render es s) = es"
  by (simp add: load_state_def save_and_render_def)

lemma op_remove_state: "snd (op_remove cls noun missing m settings params s) =
    save_and_render (filter (\<lambda>e. \<not> undone cls params e) (load_state s)) s"
  by (simp add: op_remove_def Let_def split: prod.split)

fun nx_lifted :: "string \<Rightarrow> nx_request \<Rightarrow> nx_entry \<Rightarrow> bool" where
  "nx_lifted i (Block params) e \<longleftrightarrow> nx_id e = ''nx_'' @ i \<or> target_ip params \<noteq> [] \<and> nx_concerns (Block params) e"
| "nx_lifted i (Limit params) e \<longleftrightarrow> nx_id e = ''nx_'' @ i \<or> target_ip params \<noteq> [] \<and> nx_concerns (Limit params) e"

lemma nx_undo_entries: "load_state (nx_undo m settings i p s) = filter (\<lambda>e. \<not> nx_lifted i p e) (load_state s)"
  by (cases p) (auto simp: op_unblock_ip_def op_remove_rate_limit_def op_remove_state intro!: filter_cong)

lemma nx_run_entries:
  "load_state (nx_run m settings i p s) = load_state s \<or>
   (\<exists>e. nx_id e = ''nx_'' @ i \<and> load_state (nx_run m settings i p s) = load_state s @ [e])"
proof -
  have "nx_id (new_entry (m\<lparr>mc_uuid := i\<rparr>) k ip reason d) = ''nx_'' @ i" for k ip reason d
    by (simp add: new_entry_def)
  then show ?thesis
    by (cases p) (auto simp: op_block_ip_def op_rate_limit_def Let_def split: sum.split prod.split)
qed

interpretation nx: undoable_calls "nx_run m settings" "nx_undo m settings" load_state "\<lambda>_. True" nx_fresh for m settings
proof
  fix i p and s :: nginx assume fresh: "nx_fresh i p s"
  have "filter (\<lambda>e. \<not> nx_lifted i p e) (load_state s) = load_state s"
    using fresh by (cases p) (auto simp: nx_fresh_def list_all_iff filter_id_conv)
  moreover have "nx_lifted i p e" if "nx_id e = ''nx_'' @ i" for e using that by (cases p) simp_all
  ultimately show "load_state (nx_undo m settings i p (nx_run m settings i p s)) = load_state s"
    using nx_run_entries [of m settings i p s] by (auto simp: nx_undo_entries)
qed (simp_all add: nx_undo_entries)

text \<open>C32: Blocks and rate limits are undone: after any series of them, undoing them from the last to the first the way the
  executor does (a block by \<open>unblock_ip\<close>, a rate limit by \<open>remove_rate_limit\<close>, each with the parameters of its step and its
  token) gives back the entries there were.  Each identifier is new and, when an operation is run, no entry of its
  class is there for its address: an undo names the address, and lifts every entry of that class it has
  (\<open>undo_lifts_other_blocks\<close>).\<close>

theorem nginx_undo_restores:
  assumes "all_fresh nx_fresh (nx_run m settings) xs s"
  shows "load_state (undo_calls (nx_undo m settings) xs (run_all (nx_run m settings) xs s)) = load_state s"
  by (rule nx.undo_calls_restores [OF TrueI assms])

subsection \<open>The include file\<close>

abbreviation newline :: char where "newline \<equiv> CHR 0x0A"

definition one_line :: "nx_entry \<Rightarrow> bool" where
  "one_line e \<longleftrightarrow>
     newline \<notin> set (nx_id e) \<union> set (nx_ip e) \<union> set (nx_note e) \<union> set (expiry_text e) \<and>
     (case nx_op e of Nx_block \<Rightarrow> True | Nx_rate r \<Rightarrow> newline \<notin> set r)"

inductive nginx_step :: "nginx \<Rightarrow> nginx \<Rightarrow> bool" where
  nginx_call: "nginx_step s (snd (nginx_handler m settings operation params s))"
| nginx_prune: "nginx_step s (snd (prune now s))"

definition no_nginx :: nginx where "no_nginx = \<lparr>ng_state = None, ng_deny = None\<rparr>"

definition in_sync :: "nginx \<Rightarrow> bool" where
  "in_sync s \<longleftrightarrow> s = no_nginx \<or> ng_deny s = Some (render_file (load_state s))"

lemma save_in_sync [simp]: "in_sync (save_and_render es s)"
  by (simp add: in_sync_def) (simp add: save_and_render_def load_state_def)

lemma step_in_sync: "nginx_step s s' \<Longrightarrow> in_sync s \<Longrightarrow> in_sync s'"
proof (induction rule: nginx_step.induct)
  case (nginx_call s m settings operation params)
  then show ?case
    by (auto simp: nginx_handler_def op_block_ip_def op_rate_limit_def op_unblock_ip_def op_remove_rate_limit_def
        op_remove_state Let_def split: sum.split prod.split)
next
  case (nginx_prune s now)
  then show ?case by (simp add: prune_def Let_def)
qed

lemma steps_in_sync: "nginx_step\<^sup>*\<^sup>* s s' \<Longrightarrow> in_sync s \<Longrightarrow> in_sync s'"
  by (induction rule: rtranclp_induct) (auto intro: step_in_sync)

definition is_deny :: "string \<Rightarrow> bool" where
  "is_deny l \<longleftrightarrow> prefix ''deny '' l"

lemma deny_of_entry: "filter is_deny (deny_lines e) = [''deny '' @ nx_ip e @ '';'']"
  by (simp add: is_deny_def deny_lines_def)

lemma deny_of_rate: "filter is_deny (rate_lines e) = []"
  by (simp add: is_deny_def rate_lines_def)

lemma concat_deny: "filter is_deny (concat (map deny_lines es)) = map (\<lambda>e. ''deny '' @ nx_ip e @ '';'') es"
  by (induction es) (simp_all only: list.map concat.simps filter_append deny_of_entry append.simps filter.simps)

lemma concat_rate: "filter is_deny (concat (map rate_lines es)) = []"
  by (induction es) (simp_all only: list.map concat.simps filter_append deny_of_rate append.simps filter.simps)

lemma deny_of_section: "filter is_deny (deny_section es) =
    map (\<lambda>e. ''deny '' @ nx_ip e @ '';'') (sort_key nx_ip (filter is_block es))"
proof (cases "filter is_block es = []")
  case True
  then show ?thesis by (simp add: deny_section_def)
next
  case False
  have "\<not> is_deny ''# --- Adresses bloquees ---''" "\<not> is_deny ''''" by (simp_all add: is_deny_def)
  with False show ?thesis
    unfolding deny_section_def by (simp only: if_False filter_append concat_deny filter.simps append_Nil2 append.simps)
qed

lemma deny_of_rates: "filter is_deny (rate_section es) = []"
proof (cases "filter (\<lambda>e. \<not> is_block e) es = []")
  case True
  then show ?thesis unfolding rate_section_def by (simp only: refl if_True filter.simps)
next
  case False
  have "\<not> is_deny ''# --- Limitation de debit (zones) ---''" "\<not> is_deny ''''" by (simp_all add: is_deny_def)
  with False show ?thesis
    unfolding rate_section_def by (simp only: if_False filter_append concat_rate filter.simps append_Nil2 append.simps)
qed

lemma deny_of_file: "filter is_deny (rendered_lines es) =
    map (\<lambda>e. ''deny '' @ nx_ip e @ '';'') (sort_key nx_ip (filter is_block es))"
proof -
  have "filter is_deny file_head = []" by (simp add: file_head_def is_deny_def)
  moreover have "filter is_deny (if es = [] then [''# (aucune entree active)''] else []) = []" by (simp add: is_deny_def)
  ultimately show ?thesis
    unfolding rendered_lines_def by (simp only: filter_append deny_of_rates deny_of_section append.simps append_Nil2)
qed

lemma rate_lines_plain: "one_line e \<Longrightarrow> l \<in> set (rate_lines e) \<Longrightarrow> newline \<notin> set l"
  by (auto simp: rate_lines_def one_line_def or_text_def split: nx_operation.splits if_splits dest: in_set_takeD)

lemma deny_lines_plain: "one_line e \<Longrightarrow> l \<in> set (deny_lines e) \<Longrightarrow> newline \<notin> set l"
  by (auto simp: deny_lines_def one_line_def or_text_def split: if_splits)

lemma rendered_plain:
  assumes "list_all one_line es" and "l \<in> set (rendered_lines es)"
  shows "newline \<notin> set l"
proof -
  have one: "one_line e" if "e \<in> set es" for e using assms(1) that by (simp add: list_all_iff)
  have "l \<in> set file_head \<or> l \<in> set (rate_section es) \<or> l \<in> set (deny_section es) \<or> l = ''# (aucune entree active)''"
    using assms(2) by (auto simp: rendered_lines_def split: if_splits)
  then show ?thesis
  proof (elim disjE)
    assume "l \<in> set file_head"
    then show ?thesis by (auto simp: file_head_def)
  next
    assume "l \<in> set (rate_section es)"
    then have "l \<in> {''# --- Limitation de debit (zones) ---'', ''''} \<or> (\<exists>e \<in> set es. l \<in> set (rate_lines e))"
      by (auto simp: rate_section_def split: if_splits)
    then show ?thesis using rate_lines_plain one by auto
  next
    assume "l \<in> set (deny_section es)"
    then have "l \<in> {''# --- Adresses bloquees ---'', ''''} \<or> (\<exists>e \<in> set es. l \<in> set (deny_lines e))"
      by (auto simp: deny_section_def split: if_splits)
    then show ?thesis using deny_lines_plain one by auto
  qed simp
qed

lemma file_lines:
  assumes "list_all one_line es"
  shows "split_on newline (render_file es) = rendered_lines es @ ['''']"
proof -
  have "rendered_lines es \<noteq> []" by (simp add: rendered_lines_def file_head_def)
  moreover have "join_with [c] (ws @ ['''']) = join_with [c] ws @ [c]" if "ws \<noteq> []" for c ws
    using that
  proof (induction ws)
    case (Cons w ws)
    then show ?case by (cases "ws = []") (simp_all add: join_with_Cons)
  qed simp
  ultimately have "render_file es = join_with [newline] (rendered_lines es @ [''''])" by (simp add: render_file_def)
  moreover have "\<forall>w \<in> set (rendered_lines es @ ['''']). newline \<notin> set w"
    using rendered_plain [OF assms] by auto
  ultimately show ?thesis by (simp only: split_on_unique append_is_Nil_conv list.simps simp_thms)
qed

text \<open>Whatever is asked of the driver, and whenever expired entries are pruned, the include file it leaves denies
  exactly the addresses of the block entries of its state, in order, as long as no text of an entry breaks a line.\<close>

theorem include_file_exact:
  assumes "nginx_step\<^sup>*\<^sup>* no_nginx s" and "ng_deny s = Some text" and "list_all one_line (load_state s)"
  shows "filter is_deny (split_on newline text) =
    map (\<lambda>e. ''deny '' @ nx_ip e @ '';'') (sort_key nx_ip (filter is_block (load_state s)))"
proof -
  have "in_sync s" by (rule steps_in_sync [OF assms(1)]) (simp add: in_sync_def)
  with assms(2) have "text = render_file (load_state s)" by (auto simp: in_sync_def no_nginx_def)
  then have "filter is_deny (split_on newline text) = filter is_deny (rendered_lines (load_state s) @ [''''])"
    by (simp only: file_lines [OF assms(3)])
  also have "\<dots> = filter is_deny (rendered_lines (load_state s))" by (simp add: is_deny_def)
  finally show ?thesis by (simp only: deny_of_file)
qed

subsection \<open>Quarantine\<close>

definition qn_run :: "machine \<Rightarrow> dict \<Rightarrow> string \<Rightarrow> dict \<Rightarrow> quarantine \<Rightarrow> quarantine" where
  "qn_run m settings i params s = snd (op_quarantine_file (m\<lparr>mc_uuid := i\<rparr>) settings params s)"

definition token_param :: "string \<Rightarrow> dict" where
  "token_param t = [(''rollback_token'', PStr t)]"

definition qn_undo :: "machine \<Rightarrow> dict \<Rightarrow> string \<Rightarrow> quarantine \<Rightarrow> quarantine" where
  "qn_undo m settings i s = snd (op_restore_file m settings (token_param (''qz_'' @ i)) s)"

definition active :: "manifest_entry \<Rightarrow> bool" where
  "active e \<longleftrightarrow> qe_restored e = None"

definition qn_view :: "quarantine \<Rightarrow> (string \<rightharpoonup> node) \<times> manifest_entry list" where
  "qn_view s = (map_of (qn_files s), filter active (load_manifest s))"

definition qn_good :: "quarantine \<Rightarrow> bool" where
  "qn_good s \<longleftrightarrow> distinct (map qe_id (load_manifest s))"

text \<open>The identifier is new, and so is the file name it gives in the directory of the quarantine.\<close>

definition qn_fresh :: "machine \<Rightarrow> dict \<Rightarrow> string \<Rightarrow> dict \<Rightarrow> quarantine \<Rightarrow> bool" where
  "qn_fresh m settings i params s \<longleftrightarrow>
     list_all (\<lambda>e. qe_id e \<noteq> ''qz_'' @ i) (load_manifest s) \<and>
     (case raw_param params [''target'', ''path''] of
        None \<Rightarrow> True
      | Some raw \<Rightarrow>
          map_of (qn_files s) (quarantined_path (m\<lparr>mc_uuid := i\<rparr>) settings (mc_resolve m raw)) = None)"

lemma move_file_plain:
  assumes "map_of fs dst = None"
  shows "move_file src dst fs = (case map_of fs src of
      None \<Rightarrow> Inl (''No such file or directory: '' @ quoted src) | Some n \<Rightarrow> Inr (dict_set dst n (AList.delete src fs)))"
  using assms by (simp add: move_file_def move_target_def)

lemma map_of_moved: "map_of (dict_set dst n (AList.delete src fs)) = ((map_of fs)(src := None))(dst \<mapsto> n)"
  by (simp add: update_conv' delete_conv')

lemma chosen_token [simp]: "chosen_entry m (token_param t) e \<longleftrightarrow> t \<noteq> [] \<and> qe_id e = t"
  by (auto simp: chosen_entry_def raw_param_def token_param_def dict_val_def py_str_def)

lemma chosen_qz [simp]: "chosen_entry m (token_param (CHR ''q'' # t)) = (\<lambda>e. qe_id e = CHR ''q'' # t)"
  by (rule ext) simp

lemma load_manifest_some [simp]: "load_manifest \<lparr>qn_files = fs, qn_manifest = Some es\<rparr> = es"
  by (simp add: load_manifest_def)

text \<open>What a quarantine does, when it does something.\<close>

lemma qn_run_cases:
  obtains "qn_run m settings i params s = s"
  | raw source content dest fs e where
      "raw_param params [''target'', ''path''] = Some raw" "source = mc_resolve m raw"
      "map_of (qn_files s) source = Some (File content)" "is_allowed (m\<lparr>mc_uuid := i\<rparr>) settings raw"
      "dest = quarantined_path (m\<lparr>mc_uuid := i\<rparr>) settings source" "move_file source dest (qn_files s) = Inr fs"
      "qe_id e = ''qz_'' @ i" "qe_original e = source" "qe_quarantined e = dest" "qe_sha256 e = sha256_file content"
      "active e" "qn_run m settings i params s = \<lparr>qn_files = fs, qn_manifest = Some (load_manifest s @ [e])\<rparr>"
proof (cases "\<exists>raw source content dest fs. raw_param params [''target'', ''path''] = Some raw \<and> source = mc_resolve m raw \<and>
    map_of (qn_files s) source = Some (File content) \<and> is_allowed (m\<lparr>mc_uuid := i\<rparr>) settings raw \<and>
    dest = quarantined_path (m\<lparr>mc_uuid := i\<rparr>) settings source \<and> move_file source dest (qn_files s) = Inr fs")
  case True
  then obtain raw source content dest fs where *: "raw_param params [''target'', ''path''] = Some raw" "source = mc_resolve m raw"
    "map_of (qn_files s) source = Some (File content)" "is_allowed (m\<lparr>mc_uuid := i\<rparr>) settings raw"
    "dest = quarantined_path (m\<lparr>mc_uuid := i\<rparr>) settings source" "move_file source dest (qn_files s) = Inr fs" by blast
  show thesis
    by (rule that(2) [OF *, of "\<lparr>qe_id = ''qz_'' @ i, qe_original = source, qe_quarantined = dest,
        qe_sha256 = sha256_file content, qe_size = int (length content),
        qe_reason = take 300 (first_param params [''reason''] []), qe_at = iso_z (mc_now m), qe_restored = None\<rparr>"])
       (use * in \<open>simp_all add: active_def qn_run_def op_quarantine_file_def Let_def\<close>)
next
  case False
  then have "qn_run m settings i params s = s"
    by (auto simp: qn_run_def op_quarantine_file_def Let_def split: option.split node.split sum.split)
  then show thesis by (rule that(1))
qed

lemma mark_restored_ids [simp]: "map qe_id (mark_restored P t es) = map qe_id es"
  by (induction es) auto

lemma mark_restored_active:
  "distinct (map qe_id es) \<Longrightarrow> filter active (mark_restored (\<lambda>e. qe_id e = i) t es) = filter (\<lambda>e. active e \<and> qe_id e \<noteq> i) es"
proof (induction es)
  case (Cons e es)
  have other: "qe_id x \<noteq> qe_id e" if "x \<in> set es" for x using Cons.prems that by (auto simp: image_iff)
  show ?case
  proof (cases "qe_id e = i")
    case True
    with other have "filter active es = filter (\<lambda>x. active x \<and> qe_id x \<noteq> i) es" by (intro filter_cong) auto
    with True show ?thesis by (simp add: active_def [abs_def])
  next
    case False
    with Cons show ?thesis by simp
  qed
qed simp

text \<open>What a restoration by token does, in terms of what is viewed.\<close>

definition view_undo :: "string \<Rightarrow> (string \<rightharpoonup> node) \<times> manifest_entry list \<Rightarrow> (string \<rightharpoonup> node) \<times> manifest_entry list" where
  "view_undo t v =
     (case find (\<lambda>e. qe_id e = t) (snd v) of
        None \<Rightarrow> v
      | Some e \<Rightarrow>
          (case fst v (qe_quarantined e) of
             Some (File content) \<Rightarrow>
               if sha256_file content \<noteq> qe_sha256 e then v
               else (let into = fst v (qe_original e) = Some Directory;
                         to = (if into then qe_original e @ ''/'' @ base_name (qe_quarantined e) else qe_original e)
                     in if into \<and> fst v to \<noteq> None then v
                        else (((fst v)(qe_quarantined e := None))(to \<mapsto> File content), filter (\<lambda>e. qe_id e \<noteq> t) (snd v)))
           | _ \<Rightarrow> v))"

lemma find_active:
  "distinct (map qe_id es) \<Longrightarrow> find (\<lambda>e. qe_id e = t) (filter active es) =
     (case find (\<lambda>e. qe_id e = t) es of None \<Rightarrow> None | Some e \<Rightarrow> if active e then Some e else None)"
proof (induction es)
  case (Cons e es)
  show ?case
  proof (cases "qe_id e = t")
    case True
    have other: "qe_id x \<noteq> qe_id e" if "x \<in> set es" for x using Cons.prems that by (auto simp: image_iff)
    with True have "find (\<lambda>e. qe_id e = t) (filter active es) = None" unfolding find_None_iff by auto
    then show ?thesis using True by simp
  next
    case False
    then show ?thesis using Cons by simp
  qed
qed simp

lemma qn_undo_view:
  assumes "qn_good s"
  shows "qn_view (qn_undo m settings i s) = view_undo (''qz_'' @ i) (qn_view s)"
proof (cases "find (\<lambda>e. qe_id e = ''qz_'' @ i) (load_manifest s)")
  case None
  then show ?thesis
    using assms by (simp add: qn_undo_def op_restore_file_def view_undo_def qn_view_def qn_good_def find_active)
next
  case (Some e)
  have found: "find (\<lambda>e. qe_id e = ''qz_'' @ i) (filter active (load_manifest s)) = (if active e then Some e else None)"
    using Some assms by (simp add: qn_good_def find_active)
  show ?thesis
  proof (cases "active e")
    case False
    then show ?thesis
      using Some found by (auto simp: qn_undo_def op_restore_file_def view_undo_def qn_view_def active_def)
  next
    case True
    have "filter active (mark_restored (\<lambda>e. qe_id e = ''qz_'' @ i) t (load_manifest s)) =
        filter (\<lambda>e. qe_id e \<noteq> ''qz_'' @ i) (filter active (load_manifest s))" for t
      using assms by (simp add: mark_restored_active qn_good_def conj_commute)
    moreover have "qe_restored e = None" using True by (simp add: active_def)
    ultimately show ?thesis
      using Some found True
      by (simp add: qn_undo_def op_restore_file_def view_undo_def qn_view_def move_file_def move_target_def map_of_moved
          Let_def split: option.split node.split)
  qed
qed

lemma find_at_end: "find P xs = None \<Longrightarrow> find P (xs @ [y]) = (if P y then Some y else None)"
  by (induction xs) (auto split: if_splits)

lemma qn_run_view:
  assumes "qn_good s" and "qn_fresh m settings i params s"
  shows "qn_view (qn_undo m settings i (qn_run m settings i params s)) = qn_view s"
    and "qn_good (qn_run m settings i params s)"
proof -
  have new: "\<forall>e \<in> set (load_manifest s). qe_id e \<noteq> ''qz_'' @ i"
    using assms(2) by (simp add: qn_fresh_def list_all_iff)
  have none: "find (\<lambda>e. qe_id e = ''qz_'' @ i) (filter active (load_manifest s)) = None"
    using new by (auto simp: find_None_iff)
  show "qn_view (qn_undo m settings i (qn_run m settings i params s)) = qn_view s"
  proof (cases rule: qn_run_cases [of m settings i params s])
    case 1
    then show ?thesis
      unfolding 1 qn_undo_view [OF assms(1)] by (simp only: view_undo_def qn_view_def snd_conv none option.case)
  next
    case (2 raw source content dest fs e)
    have "map_of (qn_files s) dest = None" using assms(2) 2(1,2,5) by (simp add: qn_fresh_def)
    with 2(3,6) have fs: "map_of fs = ((map_of (qn_files s))(source := None))(dest \<mapsto> File content)" and "dest \<noteq> source"
      by (auto simp: move_file_plain map_of_moved)
    have good: "qn_good (qn_run m settings i params s)"
      using assms(1) new 2(7,12) by (auto simp: qn_good_def)
    have "find (\<lambda>e. qe_id e = ''qz_'' @ i) (filter active (load_manifest s) @ [e]) = Some e"
      using find_at_end [OF none] 2(7) by simp
    moreover have "filter (\<lambda>e. qe_id e \<noteq> ''qz_'' @ i) (filter active (load_manifest s)) = filter active (load_manifest s)"
      using new by (intro filter_True) simp
    moreover have view: "qn_view (qn_run m settings i params s) =
        (((map_of (qn_files s))(source := None))(dest \<mapsto> File content), filter active (load_manifest s) @ [e])"
      using 2(11,12) fs by (simp add: qn_view_def)
    moreover have "(map_of (qn_files s))(source := None, dest := None, source \<mapsto> File content) = map_of (qn_files s)"
      using 2(3) \<open>map_of (qn_files s) dest = None\<close> by (auto simp: fun_eq_iff)
    ultimately show ?thesis
      unfolding qn_undo_view [OF good] view
      using 2(7-10) \<open>dest \<noteq> source\<close> by (simp add: view_undo_def Let_def fun_upd_twist) (simp add: qn_view_def)
  qed
  show "qn_good (qn_run m settings i params s)"
    by (cases rule: qn_run_cases [of m settings i params s]) (use assms(1) new in \<open>auto simp: qn_good_def\<close>)
qed

lemma qn_undo_good: "qn_good s \<Longrightarrow> qn_good (qn_undo m settings i s)"
proof -
  have "map qe_id (load_manifest (qn_undo m settings i s)) = map qe_id (load_manifest s)"
    by (simp add: qn_undo_def op_restore_file_def split: option.split node.split sum.split)
  then show "qn_good s \<Longrightarrow> qn_good (qn_undo m settings i s)" by (simp add: qn_good_def)
qed

interpretation qn: undoable "qn_run m settings" "qn_undo m settings" qn_view qn_good "qn_fresh m settings" for m settings
  using qn_run_view qn_undo_good by unfold_locales (blast, blast, blast, metis qn_undo_view)

text \<open>C33: Files put in quarantine come back: after any series of quarantines under fresh names, restoring their tokens
  from the last to the first gives back every file, with its content, at its place.\<close>

theorem quarantine_restores:
  assumes "distinct (map qe_id (load_manifest s))" and "all_fresh (qn_fresh m settings) (qn_run m settings) xs s"
  shows "map_of (qn_files (undo_all (qn_undo m settings) xs (run_all (qn_run m settings) xs s))) = map_of (qn_files s)"
  using qn.undo_all_restores [OF _ assms(2)] assms(1) by (simp add: qn_view_def qn_good_def)

text \<open>A quarantine is confined: if it changes anything, it takes one file, which lies under one of the roots the driver
  was given, to a path of the quarantine directory, and leaves every other path as it was.\<close>

theorem quarantine_confined:
  "snd (op_quarantine_file m settings params s) = s \<or>
   (\<exists>raw content. raw_param params [''target'', ''path''] = Some raw \<and>
      map_of (qn_files s) (mc_resolve m raw) = Some (File content) \<and>
      list_ex (is_relative_to (mc_resolve m raw)) (allowed_roots m settings) \<and>
      (\<exists>dest. prefix (quarantined_path m settings (mc_resolve m raw)) dest \<and>
         map_of (qn_files (snd (op_quarantine_file m settings params s))) =
           ((map_of (qn_files s))(mc_resolve m raw := None))(dest \<mapsto> File content)))"
proof (cases rule: qn_run_cases [of m settings "mc_uuid m" params s])
  case 1
  then show ?thesis by (simp add: qn_run_def)
next
  case (2 raw source content dest fs e)
  have "fs = dict_set (move_target (qn_files s) source dest) (File content) (AList.delete source (qn_files s))"
    using 2(3,6) by (auto simp: move_file_def Let_def split: if_splits)
  then have "map_of fs = ((map_of (qn_files s))(source := None))(move_target (qn_files s) source dest \<mapsto> File content)"
    by (simp only: map_of_moved)
  moreover have "prefix dest (move_target (qn_files s) source dest)" by (simp add: move_target_def)
  moreover have "map_of (qn_files (snd (op_quarantine_file m settings params s))) = map_of fs"
    using 2(12) by (simp add: qn_run_def)
  ultimately show ?thesis
    using 2(1-5) by (auto simp: is_allowed_def intro!: exI [of _ "move_target (qn_files s) source dest"])
qed

subsection \<open>Sample machine\<close>

definition sample_machine :: machine where
  "sample_machine = \<lparr>mc_now = 0, mc_uuid = ''7'', mc_run = (\<lambda>_. Not_run []), mc_resolve = (\<lambda>p. p), mc_ascii = (\<lambda>s. s)\<rparr>"

definition block_of :: "string \<Rightarrow> dict" where
  "block_of reason = [(''target'', PStr ''203.0.113.9''), (''reason'', PStr reason)]"

definition limit_of :: "string \<Rightarrow> dict" where
  "limit_of ip = [(''ip'', PStr ip), (''rate'', PStr ''5r/s'')]"

text \<open>A block and a rate limit of one address, and a block of another, over an entry that stays.\<close>

definition sample_series :: "(string \<times> nx_request) list" where
  "sample_series = [(''1'', Block (block_of ''scan'')), (''2'', Limit (limit_of ''203.0.113.9'')),
     (''3'', Limit (limit_of ''198.51.100.4''))]"

definition one_blocked :: nginx where
  "one_blocked = nx_run sample_machine [] ''0'' (Block [(''ip'', PStr ''198.51.100.4'')]) no_nginx"

lemma sample_blocks_fresh: "all_fresh nx_fresh (nx_run sample_machine []) sample_series one_blocked"
  by code_simp

theorem nginx_undo_restores_witness:
  "map nx_id (load_state (run_all (nx_run sample_machine []) sample_series one_blocked)) = [''nx_0'', ''nx_1'', ''nx_2'', ''nx_3''] \<and>
   load_state (undo_calls (nx_undo sample_machine []) sample_series (run_all (nx_run sample_machine []) sample_series one_blocked))
     = load_state one_blocked"
proof
  show "map nx_id (load_state (run_all (nx_run sample_machine []) sample_series one_blocked)) = [''nx_0'', ''nx_1'', ''nx_2'', ''nx_3'']"
    by code_simp
  show "load_state (undo_calls (nx_undo sample_machine []) sample_series (run_all (nx_run sample_machine []) sample_series one_blocked))
      = load_state one_blocked"
    by (rule nginx_undo_restores [OF sample_blocks_fresh])
qed

theorem include_file_exact_witness:
  "\<exists>text. ng_deny (nx_run sample_machine [] ''1'' (Block (block_of ''scan'')) no_nginx) = Some text \<and>
     filter is_deny (split_on newline text) = [''deny 203.0.113.9;'']"
proof -
  let ?s = "nx_run sample_machine [] ''1'' (Block (block_of ''scan'')) no_nginx"
  obtain out where out: "ng_deny ?s = Some out"
    by (simp add: op_block_ip_def target_ip_def block_of_def duration_param_def dict_val_def save_and_render_def Let_def
        first_param_def str_strip_def strip_with_def is_space_def code_def py_str_def split: prod.split)
  have "nginx_step no_nginx ?s"
    using nginx_call [of no_nginx "sample_machine\<lparr>mc_uuid := ''1''\<rparr>" "[]" "''block_ip''" "block_of ''scan''"]
    by (simp add: nginx_handler_def)
  then have "nginx_step\<^sup>*\<^sup>* no_nginx ?s" by blast
  moreover have "list_all one_line (load_state ?s)" by code_simp
  moreover have "map (\<lambda>e. ''deny '' @ nx_ip e @ '';'') (sort_key nx_ip (filter is_block (load_state ?s))) = [''deny 203.0.113.9;'']"
    by code_simp
  ultimately show ?thesis using include_file_exact [OF _ out] out by simp
qed

definition sample_files :: quarantine where
  "sample_files = \<lparr>qn_files = [(''/srv/a'', File ''x'')], qn_manifest = None\<rparr>"

definition quarantine_settings :: dict where
  "quarantine_settings = [(''quarantine_dir'', PStr ''/q''), (''allowed_roots'', PList [PStr ''/srv''])]"

lemma sample_quarantine_fresh:
  "all_fresh (qn_fresh sample_machine quarantine_settings) (qn_run sample_machine quarantine_settings)
     [(''1'', [(''target'', PStr ''/srv/a'')])] sample_files"
  by (simp add: qn_fresh_def sample_files_def load_manifest_def raw_param_def dict_val_def py_str_def sample_machine_def
      quarantined_path_def quarantine_settings_def quarantine_dir_def first_param_def)

theorem quarantine_restores_witness:
  "map_of (qn_files (undo_all (qn_undo sample_machine quarantine_settings) [(''1'', [(''target'', PStr ''/srv/a'')])]
     (run_all (qn_run sample_machine quarantine_settings) [(''1'', [(''target'', PStr ''/srv/a'')])] sample_files))) ''/srv/a''
   = Some (File ''x'')"
proof -
  have "distinct (map qe_id (load_manifest sample_files))" by (simp add: sample_files_def load_manifest_def)
  from quarantine_restores [OF this sample_quarantine_fresh] show ?thesis by (simp add: sample_files_def)
qed

subsection \<open>Limits of the local connectors\<close>

text \<open>
  The reason of a block is copied into a comment of the include file as it is: a line break in it ends the comment, and
  what follows is a directive.
\<close>

theorem reason_injects_directive:
  "\<exists>text. ng_deny (nx_run sample_machine [] ''1''
       (Block (block_of (''x'' @ [newline] @ ''allow all;'' @ [newline] @ ''#''))) no_nginx) = Some text \<and>
     ''allow all;'' \<in> set (split_on newline text)"
proof -
  have "map_option (\<lambda>t. ''allow all;'' \<in> set (split_on newline t)) (ng_deny (nx_run sample_machine [] ''1''
       (Block (block_of (''x'' @ [newline] @ ''allow all;'' @ [newline] @ ''#''))) no_nginx)) = Some True"
    by code_simp
  then show ?thesis by auto
qed

text \<open>
  An undo that also names the address lifts every block of that address: two actions blocked it, the rollback of the first
  leaves it open.
\<close>

theorem undo_lifts_other_blocks:
  "load_state (snd (op_unblock_ip sample_machine [] [(''rollback_token'', PStr ''nx_1''), (''target'', PStr ''203.0.113.9'')]
     (run_all (nx_run sample_machine []) [(''1'', Block (block_of ''scan'')), (''2'', Block (block_of ''flood''))] no_nginx))) = []"
  by code_simp

text \<open>
  A file that was quarantined, restored and quarantined again cannot be restored by its path: the first entry of the
  manifest with that path is the one already restored.
\<close>

theorem second_restore_by_path_refused:
  "let s = qn_run sample_machine quarantine_settings ''2'' [(''target'', PStr ''/srv/a'')]
       (qn_undo sample_machine quarantine_settings ''1''
         (qn_run sample_machine quarantine_settings ''1'' [(''target'', PStr ''/srv/a'')] sample_files))
   in map_of (qn_files s) ''/srv/a'' = None \<and>
      fst (op_restore_file sample_machine quarantine_settings [(''path'', PStr ''/srv/a'')] s)
        = Returned (refusal ''ce fichier a deja ete restaure'')"
proof -
  have roots: "allowed_roots (sample_machine\<lparr>mc_uuid := i\<rparr>) quarantine_settings = [''/srv'']" for i
    by (simp add: allowed_roots_def quarantine_settings_def dict_val_def py_str_def sample_machine_def)
  have dest: "quarantined_path (sample_machine\<lparr>mc_uuid := i\<rparr>) quarantine_settings ''/srv/a'' = ''/q/qz_'' @ i @ ''_a.quarantined''" for i
    by (simp add: quarantined_path_def quarantine_settings_def quarantine_dir_def first_param_def dict_val_def py_str_def
        sample_machine_def base_name_def parts_def)
  have inside: "is_relative_to ''/srv/a'' ''/srv''" by (simp add: is_relative_to_def parts_def)
  have raw: "raw_param [(''target'', PStr ''/srv/a'')] [''target'', ''path''] = Some ''/srv/a''"
    by (simp add: raw_param_def dict_val_def py_str_def)
  define e where "e i = \<lparr>qe_id = ''qz_'' @ i, qe_original = ''/srv/a'', qe_quarantined = ''/q/qz_'' @ i @ ''_a.quarantined'',
    qe_sha256 = sha256_file ''x'', qe_size = 1, qe_reason = [], qe_at = iso_z 0, qe_restored = None\<rparr>" for i
  have run: "qn_run sample_machine quarantine_settings i [(''target'', PStr ''/srv/a'')]
      \<lparr>qn_files = [(''/srv/a'', File ''x'')], qn_manifest = mo\<rparr> =
    \<lparr>qn_files = [(''/q/qz_'' @ i @ ''_a.quarantined'', File ''x'')],
     qn_manifest = Some ((case mo of None \<Rightarrow> [] | Some es \<Rightarrow> es) @ [e i])\<rparr>" for i mo
    by (simp add: qn_run_def op_quarantine_file_def raw Let_def is_allowed_def roots dest inside move_file_def move_target_def
        load_manifest_def e_def first_param_def dict_val_def) (simp add: sample_machine_def inside)
  have undo: "qn_undo sample_machine quarantine_settings ''1''
      \<lparr>qn_files = [(''/q/qz_'' @ ''1'' @ ''_a.quarantined'', File ''x'')], qn_manifest = Some [e ''1'']\<rparr> =
    \<lparr>qn_files = [(''/srv/a'', File ''x'')], qn_manifest = Some [e ''1''\<lparr>qe_restored := Some (iso_z 0)\<rparr>]\<rparr>"
    by (simp add: qn_undo_def op_restore_file_def load_manifest_def e_def move_file_def move_target_def sample_machine_def)
  show ?thesis
    unfolding sample_files_def run undo Let_def option.case append_Nil
    by (simp add: op_restore_file_def load_manifest_def chosen_entry_def raw_param_def dict_val_def py_str_def e_def
        sample_machine_def)
qed

text \<open>
  A ticket is named by the second it was opened in and its title: two incidents of the same title in the same second are
  one file, and the first one is lost.
\<close>

theorem same_second_ticket_lost:
  "length (snd (op_open_ticket sample_machine [] [(''title'', PStr ''scan''), (''finding_id'', PStr ''f2'')]
     (snd (op_open_ticket sample_machine [] [(''title'', PStr ''scan''), (''finding_id'', PStr ''f1'')] [])))) = 1"
  by code_simp

end
