(* ===== verification/Api.thy ===== *)
theory Api
  imports Pipeline Auth RateLimit Loaders
begin

section \<open>The API\<close>

text \<open>
  \<open>api/\<close>: the routes that read and change the state of the service, with the dependencies they share
  (\<open>deps.py\<close>) and the answers to errors (\<open>errors.py\<close>).  The state joins the pipeline, the key service, the rate
  limiter and the libraries the service holds; the store of the key service is that of the pipeline.  A call
  brings its headers, its two clocks and its random texts.  The reading of a body by its schema, and of the
  fields of an event, belongs to a library: bodies arrive as the constructors of \<open>request\<close>, and what is read of an
  event is a parameter.  Left out: metrics and logs, the formatting of answers as documents, reports, collectors.
\<close>

subsection \<open>State and configuration\<close>

type_synonym event_schema = "string \<Rightarrow> time \<Rightarrow> dict \<Rightarrow> dict list + event"

record api_config =
  ap_pipe :: pipeline_config
  ap_auth :: auth_settings
  ap_max_batch :: int
  ap_schema :: event_schema
  ap_yaml :: yaml_all
  ap_rule_schema :: rule_schema
  ap_policy_schema :: policy_schema
  ap_rules_path :: string
  ap_policies_path :: string

record api_state =
  as_pipe :: pipeline_state
  as_keys :: key_service
  as_limiter :: rate_limiter
  as_rules :: "rule list"
  as_rule_diagnostics :: "rule_diagnostic list"
  as_policies :: "policy list"
  as_policy_diagnostics :: "rule_diagnostic list"

record api_call =
  cl_now :: time
  cl_tick :: time
  cl_api_key :: "string option"
  cl_authorization :: "string option"
  cl_forwarded :: string
  cl_host :: "string option"
  cl_uuid :: string
  cl_token :: string
  cl_request_id :: "string option"
  cl_rule_files :: "rule_file list option"
  cl_policy_files :: "rule_file list option"

type_synonym 'a api_op = "(api_state, exn, 'a) op"

abbreviation as_store :: "api_state \<Rightarrow> store" where
  "as_store s \<equiv> pp_store (as_pipe s)"

definition with_store :: "store \<Rightarrow> pipeline_state \<Rightarrow> pipeline_state" where
  "with_store st p = p\<lparr>pp_engine := (pp_engine p)\<lparr>en_store := st\<rparr>\<rparr>"

definition on_pipe :: "'a pipe_op \<Rightarrow> 'a api_op" where
  "on_pipe m s = (case m (as_pipe s) of (r, p) \<Rightarrow> (r, s\<lparr>as_pipe := p\<rparr>))"

definition on_db :: "'a store_op \<Rightarrow> 'a api_op" where
  "on_db m = on_pipe (on_data m)"

definition on_auth :: "'a key_op \<Rightarrow> 'a api_op" where
  "on_auth m s =
     (case m ((as_keys s)\<lparr>ks_store := as_store s\<rparr>) of
        (r, ks) \<Rightarrow> (r, s\<lparr>as_keys := ks, as_pipe := with_store (ks_store ks) (as_pipe s)\<rparr>))"

definition on_limiter :: "(rate_limiter, exn, 'a) op \<Rightarrow> 'a api_op" where
  "on_limiter m s = (case m (as_limiter s) of (r, l) \<Rightarrow> (r, s\<lparr>as_limiter := l\<rparr>))"

abbreviation ap_actions :: "api_config \<Rightarrow> action_engine" where
  "ap_actions cfg \<equiv> pg_actions (ap_pipe cfg)"

abbreviation ap_settings :: "api_config \<Rightarrow> settings" where
  "ap_settings cfg \<equiv> ae_settings (ap_actions cfg)"

subsection \<open>Dependencies of the routes\<close>

definition header_key :: "string option \<Rightarrow> string option \<Rightarrow> string option" where
  "header_key x_api_key authorization =
     (if opt_truthy x_api_key then Some (str_strip (the x_api_key))
      else if opt_truthy authorization \<and> prefix ''bearer '' (str_lower (the authorization))
        then Some (str_strip (drop 7 (the authorization)))
      else None)"

definition current_principal :: "api_config \<Rightarrow> api_call \<Rightarrow> principal api_op" where
  "current_principal cfg c =
     (let key = header_key (cl_api_key c) (cl_authorization c)
      in if \<not> opt_truthy key
         then raiseE (Err AuthenticationError ''cle API absente : renseignez l en-tete X-API-Key''
                        [(''header'', PStr ''X-API-Key'')])
         else on_auth (authenticate (ap_auth cfg) key (cl_tick c) (cl_now c)))"

definition allow :: "string \<Rightarrow> principal \<Rightarrow> unit api_op" where
  "allow cap p = (case require_capability (pr_role p) cap (actor p) of Inl e \<Rightarrow> raiseE e | Inr _ \<Rightarrow> returnE ())"

definition home_tenant :: "principal \<Rightarrow> tenant api_op" where
  "home_tenant p = on_db (require_tenant (pr_tenant p))"

definition unknown_tenant_error :: "string \<Rightarrow> exn" where
  "unknown_tenant_error tid = Err NotFoundError (''tenant inconnu: '' @ tid) [(''tenant_id'', PStr tid)]"

definition resolve_tenant :: "principal \<Rightarrow> string option \<Rightarrow> tenant api_op" where
  "resolve_tenant p requested =
     (if opt_truthy requested \<and> requested \<noteq> Some (pr_tenant p)
      then bindE (allow CAP_ADMIN_TENANTS p) (\<lambda>_.
           bindE (readE (\<lambda>s. get_tenant (the requested) (as_store s))) (\<lambda>t. case t of
             None \<Rightarrow> raiseE (unknown_tenant_error (the requested))
           | Some t \<Rightarrow> returnE t))
      else home_tenant p)"

definition client_identifier :: "api_call \<Rightarrow> principal option \<Rightarrow> string" where
  "client_identifier c p =
     (if p \<noteq> None \<and> opt_truthy (pr_key_id (the p)) then ''key:'' @ the (pr_key_id (the p))
      else if cl_forwarded c \<noteq> [] then ''ip:'' @ str_strip (hd (split_on (CHR '','') (cl_forwarded c)))
      else ''ip:'' @ (case cl_host c of None \<Rightarrow> ''inconnu'' | Some h \<Rightarrow> h))"

subsection \<open>Answers\<close>

record action_view =
  av_action :: action
  av_effective_dry_run :: bool
  av_reversible :: "bool option"
  av_params :: "(string \<times> playbook_param) list"
  av_in_scope :: bool
  av_protected :: bool
  av_next_step :: "string option"

datatype answer =
    Ans_action action_view
  | Ans_executed action_view action_status
  | Ans_actions "action list" "(time \<times> string) option" int
  | Ans_finding finding "action list" decision "audit_record list"
  | Ans_findings "finding list" "(rat \<times> string) option"
  | Ans_status finding
  | Ans_suppressed finding string time
  | Ans_event event
  | Ans_events "event list" "(time \<times> string) option"
  | Ans_ingested ingest_outcome "dict list"
  | Ans_tenant tenant
  | Ans_tenants "(tenant \<times> int) list"
  | Ans_key api_key string
  | Ans_keys "api_key list" int
  | Ans_none
  | Ans_reloaded int "rule_diagnostic list"
  | Ans_audit "audit_record list" "int option"
  | Ans_verdict verify_result
  | Ans_export "string list"

definition next_step :: "action \<Rightarrow> string option" where
  "next_step a =
     (let url = (\<lambda>verb. Some (''POST /api/v1/actions/'' @ a_id a @ ''/'' @ verb))
      in if a_status a = Pending_approval then url ''approve''
         else if a_status a = Approved then url ''execute''
         else if a_status a = Succeeded \<and> r_available (a_rollback a) then url ''rollback''
         else None)"

definition action_payload :: "api_config \<Rightarrow> action \<Rightarrow> tenant \<Rightarrow> api_state \<Rightarrow> action_view" where
  "action_payload cfg a t s =
     (let pb = map_of (ae_playbooks (ap_actions cfg)) (a_playbook a);
          scope = for_tenant (de_registry (pp_decision (as_pipe s))) (a_tenant a)
      in \<lparr>av_action = a,
          av_effective_dry_run = (s_dry_run (ap_settings cfg) \<or> t_dry_run t \<or> a_dry_run a),
          av_reversible = map_option pb_reversible pb,
          av_params = (case pb of None \<Rightarrow> [] | Some pb \<Rightarrow> pb_params pb),
          av_in_scope = (owns scope (Some (tgt_value (a_target a))) \<or> ts_assets scope \<noteq> []),
          av_protected = tenant_is_protected t (Some (tgt_value (a_target a))),
          av_next_step = next_step a\<rparr>)"

definition view_action :: "api_config \<Rightarrow> tenant \<Rightarrow> action \<Rightarrow> answer api_op" where
  "view_action cfg t a = bindE (readE (action_payload cfg a t)) (\<lambda>v. returnE (Ans_action v))"

subsection \<open>Actions (\<open>routers/actions.py\<close>)\<close>

definition missing_finding :: "string \<Rightarrow> exn" where
  "missing_finding fid = Err NotFoundError (''finding introuvable: '' @ fid) [(''finding_id'', PStr fid)]"

definition require_finding :: "string \<Rightarrow> string \<Rightarrow> finding api_op" where
  "require_finding tid fid =
     bindE (readE (\<lambda>s. get_finding tid fid (as_store s))) (\<lambda>f. case f of
       None \<Rightarrow> raiseE (missing_finding fid)
     | Some f \<Rightarrow> returnE f)"

definition require_stored_action :: "string \<Rightarrow> string \<Rightarrow> action api_op" where
  "require_stored_action tid aid =
     bindE (readE (\<lambda>s. get_action tid aid (as_store s))) (\<lambda>a. case a of
       None \<Rightarrow> raiseE (Err NotFoundError (''action introuvable: '' @ aid) [(''action_id'', PStr aid)])
     | Some a \<Rightarrow> returnE a)"

record plan_body =
  pl_finding :: "string option"
  pl_playbook :: string
  pl_params :: dict
  pl_dry_run :: "bool option"
  pl_reason :: string

definition api_plan_request :: "principal \<Rightarrow> plan_body \<Rightarrow> finding option \<Rightarrow> plan_request" where
  "api_plan_request p b f =
     \<lparr>pq_playbook = pl_playbook b, pq_finding = f, pq_params = pl_params b, pq_mode = Act_manual, pq_policy_id = None,
      pq_reason = (if pl_reason b = [] then ''planification via API par '' @ actor p else pl_reason b),
      pq_dry_run = pl_dry_run b, pq_expires_in = None\<rparr>"

definition plan_action :: "api_config \<Rightarrow> api_call \<Rightarrow> principal \<Rightarrow> plan_body \<Rightarrow> answer api_op" where
  "plan_action cfg c p b =
     bindE (allow CAP_EXECUTE_ACTIONS p) (\<lambda>_.
     bindE (home_tenant p) (\<lambda>t.
     bindE (if opt_truthy (pl_finding b)
            then bindE (require_finding (pr_tenant p) (the (pl_finding b))) (\<lambda>f. returnE (Some f))
            else returnE None) (\<lambda>f.
     bindE (on_pipe (on_engine (plan (ap_actions cfg) (pg_world (ap_pipe cfg)) t (actor p) (pr_role p)
              (api_plan_request p b f) (cl_now c))))
       (view_action cfg t))))"

definition list_actions_route ::
    "principal \<Rightarrow> string list option \<Rightarrow> string option \<Rightarrow> string option \<Rightarrow> int \<Rightarrow> (time \<times> string) option \<Rightarrow> answer api_op" where
  "list_actions_route p status playbook finding limit cursor =
     bindE (allow CAP_READ_FINDINGS p) (\<lambda>_.
     bindE (readE (\<lambda>s. list_actions (pr_tenant p) status playbook finding limit cursor (as_store s))) (\<lambda>(as, next).
     returnE (Ans_actions as next (int (length (filter (\<lambda>a. a_status a = Pending_approval) as))))))"

definition get_action_route :: "api_config \<Rightarrow> principal \<Rightarrow> string \<Rightarrow> answer api_op" where
  "get_action_route cfg p aid =
     bindE (allow CAP_READ_FINDINGS p) (\<lambda>_.
     bindE (require_stored_action (pr_tenant p) aid) (\<lambda>a.
     bindE (home_tenant p) (\<lambda>t. view_action cfg t a)))"

definition approve_action :: "api_config \<Rightarrow> api_call \<Rightarrow> principal \<Rightarrow> string \<Rightarrow> string \<Rightarrow> answer api_op" where
  "approve_action cfg c p aid comment =
     bindE (allow CAP_APPROVE_ACTIONS p) (\<lambda>_.
     bindE (home_tenant p) (\<lambda>t.
     bindE (on_pipe (on_engine (approve t aid (actor p) (pr_role p) comment (cl_now c)))) (view_action cfg t)))"

definition reject_action :: "api_config \<Rightarrow> api_call \<Rightarrow> principal \<Rightarrow> string \<Rightarrow> string \<Rightarrow> answer api_op" where
  "reject_action cfg c p aid reason =
     bindE (allow CAP_APPROVE_ACTIONS p) (\<lambda>_.
     bindE (home_tenant p) (\<lambda>t.
     bindE (on_pipe (on_engine (reject t aid (actor p) (pr_role p) reason (cl_now c)))) (view_action cfg t)))"

definition execute_action :: "api_config \<Rightarrow> api_call \<Rightarrow> principal \<Rightarrow> string \<Rightarrow> answer api_op" where
  "execute_action cfg c p aid =
     bindE (allow CAP_EXECUTE_ACTIONS p) (\<lambda>_.
     bindE (home_tenant p) (\<lambda>t.
     bindE (require_stored_action (pr_tenant p) aid) (\<lambda>before.
     bindE (on_pipe (on_engine (execute (ap_actions cfg) (pg_world (ap_pipe cfg)) t aid (actor p) (pr_role p) (cl_now c))))
       (\<lambda>a. bindE (readE (action_payload cfg a t)) (\<lambda>v. returnE (Ans_executed v (a_status before)))))))"

definition rollback_action :: "api_config \<Rightarrow> api_call \<Rightarrow> principal \<Rightarrow> string \<Rightarrow> string \<Rightarrow> answer api_op" where
  "rollback_action cfg c p aid reason =
     bindE (allow CAP_EXECUTE_ACTIONS p) (\<lambda>_.
     bindE (home_tenant p) (\<lambda>t.
     bindE (on_pipe (on_engine (rollback (ap_actions cfg) (pg_world (ap_pipe cfg)) t aid (actor p) (pr_role p) reason
              (cl_now c)))) (view_action cfg t)))"

subsection \<open>Findings (\<open>routers/findings.py\<close>)\<close>

definition TRANSITIONS :: "(string \<times> finding_status list) list" where
  "TRANSITIONS = [(''ack'', [Open]), (''close'', [Open, Acked, Suppressed]), (''suppress'', [Open, Acked]),
     (''reopen'', [Acked, Closed])]"

definition assert_transition :: "finding_status \<Rightarrow> string \<Rightarrow> unit api_op" where
  "assert_transition current tr =
     (let allowed = (case map_of TRANSITIONS tr of None \<Rightarrow> [] | Some ss \<Rightarrow> ss)
      in if current \<in> set allowed then returnE ()
         else raiseE (Err ConflictError
                (''transition '' @ quote tr @ '' impossible depuis le statut '' @ quote (finding_status_str current))
                [(''current_status'', PStr (finding_status_str current)),
                 (''allowed_from'', str_list (sort (map finding_status_str allowed)))]))"

definition transition ::
    "api_call \<Rightarrow> principal \<Rightarrow> string \<Rightarrow> finding_status \<Rightarrow> string \<Rightarrow> string \<Rightarrow> string option \<Rightarrow> dict \<Rightarrow> finding api_op" where
  "transition c p fid status what comment resolution context =
     bindE (home_tenant p) (\<lambda>t.
     bindE (require_finding (pr_tenant p) fid) (\<lambda>f.
     bindE (on_db (update_finding (pr_tenant p) fid
              (FF_status status # (if comment = [] then [] else [FF_comment comment])
                 @ (case resolution of None \<Rightarrow> [] | Some r \<Rightarrow> [FF_resolution r])) (cl_now c))) (\<lambda>updated.
     bindE (on_db (record_state_change (pr_tenant p) (actor p) (pr_role p) what
              [(''type'', PStr ''finding''), (''id'', PStr fid)]
              [(''status'', PStr (finding_status_str (f_status f))), (''resolution'', opt_str (f_resolution f))]
              [(''status'', PStr (finding_status_str (f_status updated))), (''resolution'', opt_str (f_resolution updated))]
              (fold (\<lambda>(k, v). dict_set k v) context
                 [(''comment'', PStr (take 500 comment)), (''tenant'', PStr (t_id t))]) (cl_now c))) (\<lambda>_.
     returnE updated))))"

definition ack_finding :: "api_call \<Rightarrow> principal \<Rightarrow> string \<Rightarrow> string \<Rightarrow> answer api_op" where
  "ack_finding c p fid comment =
     bindE (allow CAP_WRITE_FINDINGS p) (\<lambda>_.
     bindE (require_finding (pr_tenant p) fid) (\<lambda>f.
     bindE (assert_transition (f_status f) ''ack'') (\<lambda>_.
     bindE (transition c p fid Acked ''finding.ack'' comment None []) (\<lambda>u. returnE (Ans_status u)))))"

definition close_finding :: "api_call \<Rightarrow> principal \<Rightarrow> string \<Rightarrow> string \<Rightarrow> string \<Rightarrow> answer api_op" where
  "close_finding c p fid resolution comment =
     bindE (allow CAP_WRITE_FINDINGS p) (\<lambda>_.
     bindE (require_finding (pr_tenant p) fid) (\<lambda>f.
     bindE (assert_transition (f_status f) ''close'') (\<lambda>_.
     bindE (transition c p fid Closed ''finding.close'' comment (Some resolution) []) (\<lambda>u. returnE (Ans_status u)))))"

text \<open>\<open>datetime.isoformat()\<close> of an instant in UTC.\<close>

definition isoformat :: "time \<Rightarrow> string" where
  "isoformat t =
     date_str t @ ''T'' @ clock_str t @ (if t mod usec = 0 then [] else ''.'' @ pad 6 (t mod usec)) @ ''+00:00''"

definition suppress_finding ::
    "api_config \<Rightarrow> api_call \<Rightarrow> principal \<Rightarrow> string \<Rightarrow> int \<Rightarrow> string \<Rightarrow> string \<Rightarrow> answer api_op" where
  "suppress_finding cfg c p fid duration reason key =
     bindE (allow CAP_WRITE_FINDINGS p) (\<lambda>_.
     bindE (require_finding (pr_tenant p) fid) (\<lambda>f.
     bindE (assert_transition (f_status f) ''suppress'') (\<lambda>_.
     let expires = cl_now c + seconds duration
     in bindE (on_pipe (on_engine (new_id (pg_world (ap_pipe cfg)) ''sp_''))) (\<lambda>sid.
        bindE (on_db (add_suppression sid (pr_tenant p) (f_rule_id f) (if key = [] then f_dedup_key f else key)
                 reason (Some expires) (actor p) (cl_now c))) (\<lambda>sid.
        bindE (transition c p fid Suppressed ''finding.suppress'' reason None
                 [(''expires_at'', PStr (isoformat expires)), (''suppression_id'', PStr sid)]) (\<lambda>u.
        returnE (Ans_suppressed u sid expires)))))))"

subsection \<open>Events (\<open>routers/events.py\<close>)\<close>

text \<open>The events of a body: a single one, a list, or an object with a list of them.\<close>

definition extract_events :: "pyval \<Rightarrow> pyval list" where
  "extract_events payload =
     (case payload of
        PDict d \<Rightarrow> (case dict_val d ''events'' of PList es \<Rightarrow> es | _ \<Rightarrow> [payload])
      | PList es \<Rightarrow> es
      | _ \<Rightarrow> [])"

text \<open>
  The tenant is that of the key whatever the client wrote; the two validators of the class are applied to what the
  schema reads of the other fields.
\<close>

definition read_event :: "event_schema \<Rightarrow> string \<Rightarrow> string \<Rightarrow> time \<Rightarrow> dict \<Rightarrow> dict list + event" where
  "read_event schema tid eid now item =
     (let candidate = dict_set ''tenant_id'' (PStr tid) item
      in case schema eid now candidate of
           Inl es \<Rightarrow> Inl es
         | Inr ev \<Rightarrow>
             (case validate_event_tenant tid of
                Inl e \<Rightarrow> Inl [[(''location'', PStr ''tenant_id''), (''message'', PStr e)]]
              | Inr t \<Rightarrow>
                  (case validate_labels (ev_labels ev) of
                     Inl e \<Rightarrow> Inl [[(''location'', PStr ''labels''), (''message'', PStr e)]]
                   | Inr ls \<Rightarrow> Inr (ev\<lparr>ev_tenant := t, ev_labels := ls\<rparr>))))"

definition not_an_object :: "nat \<Rightarrow> dict" where
  "not_an_object i = [(''index'', PInt (int i)), (''error'', PStr ''not_an_object'')]"

definition invalid_event :: "nat \<Rightarrow> dict list \<Rightarrow> dict" where
  "invalid_event i es =
     [(''index'', PInt (int i)), (''error'', PStr ''validation_error''), (''details'', PList (map PDict (take 5 es)))]"

fun read_events :: "api_config \<Rightarrow> string \<Rightarrow> time \<Rightarrow> nat \<Rightarrow> pyval list \<Rightarrow> (event list \<times> dict list) api_op" where
  "read_events cfg tid now i [] = returnE ([], [])"
| "read_events cfg tid now i (v # vs) =
     (case v of
        PDict item \<Rightarrow>
          bindE (on_pipe (on_engine (new_id (pg_world (ap_pipe cfg)) ''ev_''))) (\<lambda>eid.
          bindE (read_events cfg tid now (Suc i) vs) (\<lambda>(evs, errs).
          returnE (case read_event (ap_schema cfg) tid eid now item of
                     Inl es \<Rightarrow> (evs, invalid_event i es # errs)
                   | Inr ev \<Rightarrow> (ev # evs, errs))))
      | _ \<Rightarrow>
          bindE (read_events cfg tid now (Suc i) vs) (\<lambda>(evs, errs). returnE (evs, not_an_object i # errs)))"

definition tick_seconds :: "time \<Rightarrow> rat" where
  "tick_seconds t = of_int t / of_int usec"

definition batch_error :: "api_config \<Rightarrow> nat \<Rightarrow> exn" where
  "batch_error cfg n = Err ValidationError
     (''lot trop volumineux : '' @ int_str (int n) @ '' > '' @ int_str (ap_max_batch cfg))
     [(''max_batch'', PInt (ap_max_batch cfg))]"

definition ingest_events :: "api_config \<Rightarrow> api_call \<Rightarrow> principal \<Rightarrow> pyval \<Rightarrow> answer api_op" where
  "ingest_events cfg c p payload =
     bindE (allow CAP_WRITE_EVENTS p) (\<lambda>_.
     bindE (on_limiter (RateLimit.check (client_identifier c (Some p)) 1 (tick_seconds (cl_tick c)))) (\<lambda>_.
     let raw = extract_events payload
     in if raw = [] then raiseE (Err ValidationError ''aucun evenement fourni'' [])
        else if ap_max_batch cfg < int (length raw) then raiseE (batch_error cfg (length raw))
        else
          bindE (read_events cfg (pr_tenant p) (cl_now c) 0 raw) (\<lambda>(evs, errs).
            if errs \<noteq> [] \<and> evs = []
            then raiseE (Err ValidationError ''aucun evenement valide dans le lot''
                           [(''errors'', PList (map PDict (take 20 errs)))])
            else bindE (on_pipe (ingest (ap_pipe cfg) evs (actor p) (pr_role p) True (cl_now c))) (\<lambda>o'.
                 returnE (Ans_ingested o' (take 50 errs))))))"

definition list_events_route ::
    "principal \<Rightarrow> event_query \<Rightarrow> int \<Rightarrow> (time \<times> string) option \<Rightarrow> answer api_op" where
  "list_events_route p query limit cursor =
     bindE (allow CAP_READ_EVENTS p) (\<lambda>_.
     bindE (readE (\<lambda>s. query_events (pr_tenant p) query limit cursor (as_store s))) (\<lambda>(es, next).
     returnE (Ans_events es next)))"

definition get_event_route :: "principal \<Rightarrow> string \<Rightarrow> answer api_op" where
  "get_event_route p eid =
     bindE (allow CAP_READ_EVENTS p) (\<lambda>_.
     bindE (readE (\<lambda>s. get_event (pr_tenant p) eid (as_store s))) (\<lambda>e. case e of
       None \<Rightarrow> raiseE (Err NotFoundError (''evenement introuvable: '' @ eid) [(''event_id'', PStr eid)])
     | Some e \<Rightarrow> returnE (Ans_event e)))"

subsection \<open>Reading findings (\<open>routers/findings.py\<close>)\<close>

definition list_findings_route ::
    "principal \<Rightarrow> finding_query \<Rightarrow> string \<Rightarrow> int \<Rightarrow> (rat \<times> string) option \<Rightarrow> answer api_op" where
  "list_findings_route p query sort_by limit cursor =
     bindE (allow CAP_READ_FINDINGS p) (\<lambda>_.
     bindE (readE (\<lambda>s. list_findings (pr_tenant p) query sort_by limit cursor (as_store s))) (\<lambda>(fs, next).
     returnE (Ans_findings fs next)))"

definition current_decision :: "api_config \<Rightarrow> api_call \<Rightarrow> finding \<Rightarrow> tenant \<Rightarrow> decision api_op" where
  "current_decision cfg c f t =
     on_pipe (\<lambda>s. case decide_for_finding (pg_regex (ap_pipe cfg)) f t (pg_env (ap_pipe cfg)) None (cl_now c) (pp_store s)
                        (pp_decision s) of (d, pe) \<Rightarrow> (Inr d, s\<lparr>pp_decision := pe\<rparr>))"

definition about_finding :: "string \<Rightarrow> audit_record \<Rightarrow> bool" where
  "about_finding fid r \<longleftrightarrow> dict_val (au_target r) ''id'' = PStr fid"

definition get_finding_route :: "api_config \<Rightarrow> api_call \<Rightarrow> principal \<Rightarrow> string \<Rightarrow> answer api_op" where
  "get_finding_route cfg c p fid =
     bindE (allow CAP_READ_FINDINGS p) (\<lambda>_.
     bindE (require_finding (pr_tenant p) fid) (\<lambda>f.
     bindE (readE (\<lambda>s. actions_for_finding (pr_tenant p) fid (as_store s))) (\<lambda>as.
     bindE (home_tenant p) (\<lambda>t.
     bindE (current_decision cfg c f t) (\<lambda>d.
     bindE (readE (\<lambda>s. take 50 (filter (about_finding fid) (AuditLog.tail (pr_tenant p) 200 (as_store s))))) (\<lambda>trail.
     returnE (Ans_finding f as d trail)))))))"

subsection \<open>Tenants and keys (\<open>routers/tenants.py\<close>)\<close>

record tenant_body =
  tb_id :: string
  tb_name :: string
  tb_mode :: tenant_mode
  tb_dry_run :: bool
  tb_allowlist :: "string list"
  tb_protected :: "string list"
  tb_max_actions :: int
  tb_cooldown :: int
  tb_criticality :: rat

definition tenant_dict :: "tenant \<Rightarrow> dict" where
  "tenant_dict t =
     [(''tenant_id'', PStr (t_id t)), (''name'', PStr (t_name t)), (''mode'', PStr (mode_str (t_mode t))),
      (''dry_run'', PBool (t_dry_run t)), (''autonomy_allowlist'', str_list (t_allowlist t)),
      (''protected_targets'', str_list (t_protected t)), (''max_actions_per_hour'', PInt (t_max_actions t)),
      (''cooldown_seconds'', PInt (t_cooldown t)), (''asset_criticality'', PFloat (t_criticality t)),
      (''created_at'', PStr (iso_z (t_created_at t))), (''updated_at'', PStr (iso_z (t_updated_at t)))]"

definition body_tenant :: "tenant_body \<Rightarrow> time \<Rightarrow> string + tenant" where
  "body_tenant b now =
     (case validate_tenant_id (tb_id b) of
        Inl e \<Rightarrow> Inl e
      | Inr tid \<Rightarrow>
          Inr \<lparr>t_id = tid, t_name = tb_name b, t_mode = tb_mode b, t_dry_run = tb_dry_run b,
               t_allowlist = tb_allowlist b, t_protected = tb_protected b, t_max_actions = tb_max_actions b,
               t_cooldown = tb_cooldown b, t_criticality = clamp_criticality (tb_criticality b),
               t_created_at = now, t_updated_at = now\<rparr>)"

definition create_tenant :: "api_call \<Rightarrow> principal \<Rightarrow> tenant_body \<Rightarrow> answer api_op" where
  "create_tenant c p b =
     bindE (allow CAP_ADMIN_TENANTS p) (\<lambda>_.
     case body_tenant b (cl_now c) of
       Inl e \<Rightarrow> raiseE (Foreign ''ValidationError'' e)
     | Inr t \<Rightarrow>
         bindE (on_db (upsert_tenant t (cl_now c))) (\<lambda>stored.
         bindE (on_db (record_audit (t_id stored) (actor p) ''tenant.create'' (pr_role p)
                  [(''type'', PStr ''tenant''), (''id'', PStr (t_id stored))] [] (tenant_dict stored)
                  [(''created_by'', PStr (actor p))] (cl_now c))) (\<lambda>_.
         returnE (Ans_tenant stored))))"

definition get_tenant_route :: "principal \<Rightarrow> string \<Rightarrow> answer api_op" where
  "get_tenant_route p tid =
     bindE (allow CAP_READ_STATS p) (\<lambda>_. bindE (resolve_tenant p (Some tid)) (\<lambda>t. returnE (Ans_tenant t)))"

definition list_tenants_route :: "principal \<Rightarrow> answer api_op" where
  "list_tenants_route p =
     bindE (allow CAP_ADMIN_TENANTS p) (\<lambda>_.
     bindE (readE (\<lambda>s. map (\<lambda>t. (t, int (length (list_keys (t_id t) (as_store s))))) (list_tenants (as_store s))))
       (\<lambda>ts. returnE (Ans_tenants ts)))"

fun field_name :: "tenant_field \<Rightarrow> string" where
  "field_name (TF_name _) = ''name''"
| "field_name (TF_mode _) = ''mode''"
| "field_name (TF_dry_run _) = ''dry_run''"
| "field_name (TF_allowlist _) = ''autonomy_allowlist''"
| "field_name (TF_protected _) = ''protected_targets''"
| "field_name (TF_max_actions _) = ''max_actions_per_hour''"
| "field_name (TF_cooldown _) = ''cooldown_seconds''"
| "field_name (TF_criticality _) = ''asset_criticality''"

definition changed_values :: "tenant_field list \<Rightarrow> tenant \<Rightarrow> dict" where
  "changed_values changes t = map (\<lambda>x. (field_name x, dict_val (tenant_dict t) (field_name x))) changes"

definition update_tenant_route :: "api_call \<Rightarrow> principal \<Rightarrow> string \<Rightarrow> tenant_field list \<Rightarrow> answer api_op" where
  "update_tenant_route c p tid changes =
     bindE (allow CAP_ADMIN_TENANTS p) (\<lambda>_.
     bindE (on_db (require_tenant tid)) (\<lambda>before.
     bindE (on_db (update_tenant tid changes (cl_now c))) (\<lambda>updated.
     bindE (on_db (record_state_change (t_id updated) (actor p) (pr_role p) ''tenant.update''
              [(''type'', PStr ''tenant''), (''id'', PStr (t_id updated))]
              (changed_values changes before) (changed_values changes updated)
              [(''dry_run_disabled'', PBool (TF_dry_run False \<in> set changes)),
               (''autonomy_changed'', PBool (''mode'' \<in> field_name ` set changes))] (cl_now c))) (\<lambda>_.
     returnE (Ans_tenant updated)))))"

definition create_key :: "api_config \<Rightarrow> api_call \<Rightarrow> principal \<Rightarrow> string \<Rightarrow> role \<Rightarrow> string \<Rightarrow> answer api_op" where
  "create_key cfg c p tid r label =
     bindE (allow CAP_ADMIN_KEYS p) (\<lambda>_.
     bindE (resolve_tenant p (Some tid)) (\<lambda>t.
     bindE (on_auth (create (ap_auth cfg) (cl_uuid c) (cl_token c) (t_id t) r label (actor p) (pr_role p) (cl_now c)))
       (\<lambda>(info, key). returnE (Ans_key info key))))"

definition list_keys_route :: "principal \<Rightarrow> string \<Rightarrow> answer api_op" where
  "list_keys_route p tid =
     bindE (allow CAP_ADMIN_KEYS p) (\<lambda>_.
     bindE (resolve_tenant p (Some tid)) (\<lambda>t.
     bindE (readE (\<lambda>s. list_keys (t_id t) (as_store s))) (\<lambda>ks.
     returnE (Ans_keys ks (int (length (filter key_active ks)))))))"

definition revoke_key :: "api_call \<Rightarrow> principal \<Rightarrow> string \<Rightarrow> answer api_op" where
  "revoke_key c p kid =
     bindE (allow CAP_ADMIN_KEYS p) (\<lambda>_.
     bindE (on_auth (revoke kid (Some (pr_tenant p)) (actor p) (cl_now c))) (\<lambda>_. returnE Ans_none))"

subsection \<open>Libraries and journal (\<open>routers/security.py\<close>, \<open>service.py\<close>)\<close>

definition service_reload_rules :: "api_config \<Rightarrow> api_call \<Rightarrow> (int \<times> rule_diagnostic list) api_op" where
  "service_reload_rules cfg c s =
     (case load_rules_from_dir (pg_regex (ap_pipe cfg)) (ap_yaml cfg) (ap_rule_schema cfg) (ap_rules_path cfg)
             (cl_rule_files c) of
        Inl e \<Rightarrow> (Inl e, s)
      | Inr (rules, diags) \<Rightarrow>
          (Inr (int (length rules), diags),
           s\<lparr>as_rules := rules, as_rule_diagnostics := diags,
             as_pipe := (as_pipe s)\<lparr>pp_detection :=
               Detection.reload_rules (pg_regex (ap_pipe cfg)) rules (pp_detection (as_pipe s))\<rparr>\<rparr>))"

definition service_reload_policies :: "api_config \<Rightarrow> api_call \<Rightarrow> (int \<times> rule_diagnostic list) api_op" where
  "service_reload_policies cfg c s =
     (case load_policies_from_dir (ap_yaml cfg) (ap_policy_schema cfg) (Some (map fst (ae_playbooks (ap_actions cfg))))
             (ap_policies_path cfg) (cl_policy_files c) of
        (policies, diags) \<Rightarrow>
          (Inr (int (length policies), diags),
           s\<lparr>as_policies := policies, as_policy_diagnostics := diags,
             as_pipe := (as_pipe s)\<lparr>pp_decision := reload policies (pp_decision (as_pipe s))\<rparr>\<rparr>))"

definition diagnostic_dict :: "rule_diagnostic \<Rightarrow> dict" where
  "diagnostic_dict d =
     [(''path'', PStr (rd_path d)), (''rule_id'', opt_str (rd_rule_id d)), (''error'', PStr (rd_error d))]"

definition audit_reload ::
    "api_call \<Rightarrow> principal \<Rightarrow> string \<Rightarrow> string \<Rightarrow> int \<Rightarrow> rule_diagnostic list \<Rightarrow> answer api_op" where
  "audit_reload c p what kind n diags =
     bindE (on_db (record_audit (pr_tenant p) (actor p) what (pr_role p)
              [(''type'', PStr kind), (''id'', PStr ''library'')] []
              [(''loaded'', PInt n), (''rejected'', PInt (int (length diags)))]
              [(''diagnostics'', PList (map (PDict \<circ> diagnostic_dict) (take 20 diags)))] (cl_now c)))
       (\<lambda>_. returnE (Ans_reloaded n diags))"

definition reload_rules_route :: "api_config \<Rightarrow> api_call \<Rightarrow> principal \<Rightarrow> answer api_op" where
  "reload_rules_route cfg c p =
     bindE (allow CAP_ADMIN_RULES p) (\<lambda>_.
     bindE (service_reload_rules cfg c) (\<lambda>(n, diags). audit_reload c p ''rules.reload'' ''rules'' n diags))"

definition reload_policies_route :: "api_config \<Rightarrow> api_call \<Rightarrow> principal \<Rightarrow> answer api_op" where
  "reload_policies_route cfg c p =
     bindE (allow CAP_ADMIN_POLICIES p) (\<lambda>_.
     bindE (service_reload_policies cfg c) (\<lambda>(n, diags). audit_reload c p ''policies.reload'' ''policies'' n diags))"

definition list_audit_route ::
    "principal \<Rightarrow> string option \<Rightarrow> string option \<Rightarrow> time option \<Rightarrow> time option \<Rightarrow> int \<Rightarrow> int option \<Rightarrow> answer api_op" where
  "list_audit_route p what who since until limit cursor =
     bindE (allow CAP_READ_AUDIT p) (\<lambda>_.
     bindE (readE (\<lambda>s. list_audit (pr_tenant p) what who since until limit cursor (as_store s))) (\<lambda>(rs, next).
     returnE (Ans_audit rs next)))"

definition verify_audit_route :: "principal \<Rightarrow> answer api_op" where
  "verify_audit_route p =
     bindE (allow CAP_READ_AUDIT p) (\<lambda>_.
     bindE (readE (\<lambda>s. verify (Some (pr_tenant p)) (as_store s))) (\<lambda>v. returnE (Ans_verdict v)))"

definition export_audit_route :: "api_call \<Rightarrow> principal \<Rightarrow> string \<Rightarrow> int \<Rightarrow> time option \<Rightarrow> answer api_op" where
  "export_audit_route c p fmt limit since =
     bindE (allow CAP_READ_AUDIT p) (\<lambda>_.
     bindE (readE (\<lambda>s. export (pr_tenant p) fmt limit since None (as_store s))) (\<lambda>lines.
     bindE (on_db (record_audit (pr_tenant p) (actor p) ''audit.export'' (pr_role p)
              [(''type'', PStr ''audit''), (''id'', PStr ''export'')] []
              [(''format'', PStr fmt), (''records'', PInt (int (length lines)))] [] (cl_now c))) (\<lambda>_.
     returnE (Ans_export lines))))"

subsection \<open>Requests and responses\<close>

datatype request =
    R_plan plan_body
  | R_actions "string list option" "string option" "string option" int "(time \<times> string) option"
  | R_action string
  | R_approve string string
  | R_reject string string
  | R_execute string
  | R_rollback string string
  | R_findings finding_query string int "(rat \<times> string) option"
  | R_finding string
  | R_ack string string
  | R_close string string string
  | R_suppress string int string string
  | R_ingest pyval
  | R_events event_query int "(time \<times> string) option"
  | R_event string
  | R_tenants
  | R_create_tenant tenant_body
  | R_tenant string
  | R_update_tenant string "tenant_field list"
  | R_create_key string role string
  | R_keys string
  | R_revoke_key string
  | R_reload_rules
  | R_reload_policies
  | R_audit "string option" "string option" "time option" "time option" int "int option"
  | R_verify_audit
  | R_export_audit string int "time option"

fun route :: "api_config \<Rightarrow> api_call \<Rightarrow> principal \<Rightarrow> request \<Rightarrow> answer api_op" where
  "route cfg c p (R_plan b) = plan_action cfg c p b"
| "route cfg c p (R_actions st pb f n k) = list_actions_route p st pb f n k"
| "route cfg c p (R_action aid) = get_action_route cfg p aid"
| "route cfg c p (R_approve aid comment) = approve_action cfg c p aid comment"
| "route cfg c p (R_reject aid reason) = reject_action cfg c p aid reason"
| "route cfg c p (R_execute aid) = execute_action cfg c p aid"
| "route cfg c p (R_rollback aid reason) = rollback_action cfg c p aid reason"
| "route cfg c p (R_findings query srt n k) = list_findings_route p query srt n k"
| "route cfg c p (R_finding fid) = get_finding_route cfg c p fid"
| "route cfg c p (R_ack fid comment) = ack_finding c p fid comment"
| "route cfg c p (R_close fid resolution comment) = close_finding c p fid resolution comment"
| "route cfg c p (R_suppress fid duration reason key) = suppress_finding cfg c p fid duration reason key"
| "route cfg c p (R_ingest payload) = ingest_events cfg c p payload"
| "route cfg c p (R_events query n k) = list_events_route p query n k"
| "route cfg c p (R_event eid) = get_event_route p eid"
| "route cfg c p R_tenants = list_tenants_route p"
| "route cfg c p (R_create_tenant b) = create_tenant c p b"
| "route cfg c p (R_tenant tid) = get_tenant_route p tid"
| "route cfg c p (R_update_tenant tid changes) = update_tenant_route c p tid changes"
| "route cfg c p (R_create_key tid r label) = create_key cfg c p tid r label"
| "route cfg c p (R_keys tid) = list_keys_route p tid"
| "route cfg c p (R_revoke_key kid) = revoke_key c p kid"
| "route cfg c p R_reload_rules = reload_rules_route cfg c p"
| "route cfg c p R_reload_policies = reload_policies_route cfg c p"
| "route cfg c p (R_audit what who since until n k) = list_audit_route p what who since until n k"
| "route cfg c p R_verify_audit = verify_audit_route p"
| "route cfg c p (R_export_audit fmt n since) = export_audit_route c p fmt n since"

record response =
  rs_status :: int
  rs_answer :: "answer option"
  rs_error :: dict
  rs_retry_after :: "int option"

definition error_response :: "int \<Rightarrow> string \<Rightarrow> string \<Rightarrow> dict \<Rightarrow> int option \<Rightarrow> response" where
  "error_response status err msg details retry =
     \<lparr>rs_status = status, rs_answer = None,
      rs_error = [(''error'', PDict [(''code'', PStr err), (''message'', PStr msg), (''details'', PDict details)])],
      rs_retry_after = retry\<rparr>"

definition handle_error :: "api_config \<Rightarrow> api_call \<Rightarrow> exn \<Rightarrow> response" where
  "handle_error cfg c e =
     (case e of
        Exn k m d retry \<Rightarrow>
          error_response (http_status k) (error_code k) m d (if k = RateLimitedError then retry else None)
      | Foreign cls txt \<Rightarrow>
          error_response 500 ''internal_error''
            (if pg_env (ap_pipe cfg) = ''prod''
             then ''erreur interne : consultez les journaux du service avec l identifiant de requete''
             else cls @ '': '' @ txt)
            (if opt_truthy (cl_request_id c) then [(''request_id'', PStr (the (cl_request_id c)))] else []) None)"

fun success_status :: "request \<Rightarrow> int" where
  "success_status (R_plan _) = 201"
| "success_status (R_ingest _) = 202"
| "success_status (R_create_tenant _) = 201"
| "success_status (R_create_key _ _ _) = 201"
| "success_status (R_revoke_key _) = 204"
| "success_status _ = 200"

definition serve :: "api_config \<Rightarrow> api_call \<Rightarrow> request \<Rightarrow> api_state \<Rightarrow> response \<times> api_state" where
  "serve cfg c req s =
     (case bindE (current_principal cfg c) (\<lambda>p. route cfg c p req) s of
        (Inl e, s') \<Rightarrow> (handle_error cfg c e, s')
      | (Inr ans, s') \<Rightarrow>
          (\<lparr>rs_status = success_status req, rs_answer = Some ans, rs_error = [], rs_retry_after = None\<rparr>, s'))"

end
