(* ===== verification/Confined.thy ===== *)
theory Confined
  imports Pipeline StoreProps
begin

section \<open>What is done for a tenant stays within its rows\<close>

text \<open>
  Every write of the engines and of the pipeline names the tenant it works for.  An operation is confined to a tenant
  when it changes no row of another one, and its results, when it returns, satisfy a predicate; the rules below carry
  this through the compositions of the code.  The flag that says an event was processed is set by the identifier of the
  event alone: the comparison leaves it out for a given set of identifiers, those of the events that are processed, and
  for those only.
\<close>

subsection \<open>Rows of the others\<close>

definition unmarked :: "event_row \<Rightarrow> event_row" where
  "unmarked r = r\<lparr>er_processed := False, er_processed_at := None\<rparr>"

definition unmarked_in :: "string set \<Rightarrow> event_row \<Rightarrow> event_row" where
  "unmarked_in I r = (if ev_id (er_event r) \<in> I then unmarked r else r)"

definition rows_but :: "string set \<Rightarrow> string \<Rightarrow> store \<Rightarrow> store" where
  "rows_but I b st = (tenant_view b st)\<lparr>st_events := map (unmarked_in I) (st_events (tenant_view b st))\<rparr>"

text \<open>The identifiers of events the service may still draw once it has drawn \<open>k\<close> of any kind.\<close>

definition drawn_from :: "world \<Rightarrow> nat \<Rightarrow> string set" where
  "drawn_from w k = {''ev_'' @ w_uuid w n | n. k \<le> n}"

lemma drawn_from_mono: "j \<le> k \<Longrightarrow> drawn_from w k \<subseteq> drawn_from w j"
  by (auto simp: drawn_from_def intro: order_trans)

definition apart :: "string set \<Rightarrow> string \<Rightarrow> store \<Rightarrow> store \<Rightarrow> bool" where
  "apart I tid st st' \<longleftrightarrow> (\<forall>b. b \<noteq> tid \<longrightarrow> rows_but I b st' = rows_but I b st)"

text \<open>A tenant none of whose events bears such an identifier keeps its rows whole.\<close>

lemma unmarked_in_event [simp]: "er_event (unmarked_in I r) = er_event r"
  by (simp add: unmarked_in_def unmarked_def)

lemma unmarked_in_untouched:
  assumes "map (unmarked_in I) xs = map (unmarked_in I) ys" and "\<forall>r \<in> set ys. ev_id (er_event r) \<notin> I"
  shows "xs = ys"
proof -
  have er: "map er_event xs = map er_event ys"
    using arg_cong [OF assms(1), of "map er_event"] by (simp add: comp_def)
  have "ev_id (er_event r) \<notin> I" if "r \<in> set xs" for r
  proof -
    have "er_event r \<in> er_event ` set ys" using that arg_cong [OF er, of set] by auto
    then show ?thesis using assms(2) by auto
  qed
  then have "map (unmarked_in I) xs = xs" by (intro map_idI) (simp add: unmarked_in_def)
  moreover have "map (unmarked_in I) ys = ys" using assms(2) by (intro map_idI) (simp add: unmarked_in_def)
  ultimately show ?thesis using assms(1) by metis
qed

lemma rows_but_untouched:
  assumes "rows_but I b st' = rows_but I b st"
    and "\<forall>r \<in> set (st_events (tenant_view b st)). ev_id (er_event r) \<notin> I"
  shows "tenant_view b st' = tenant_view b st"
proof -
  have "map (unmarked_in I) (st_events (tenant_view b st')) = map (unmarked_in I) (st_events (tenant_view b st))"
    using arg_cong [OF assms(1), of st_events] by (simp add: rows_but_def)
  from unmarked_in_untouched [OF this assms(2)] show ?thesis
    using assms(1) by (cases "tenant_view b st'"; cases "tenant_view b st") (simp add: rows_but_def)
qed

lemma apart_refl [simp, intro]: "apart I tid st st"
  by (simp add: apart_def)

lemma apart_trans: "apart I tid st st' \<Longrightarrow> apart I tid st' st'' \<Longrightarrow> apart I tid st st''"
  by (simp add: apart_def)

definition confined :: "string set \<Rightarrow> ('s \<Rightarrow> store) \<Rightarrow> string \<Rightarrow> ('a \<Rightarrow> bool) \<Rightarrow> ('s, 'e, 'a) op \<Rightarrow> bool" where
  "confined I get tid Q m \<longleftrightarrow> (\<forall>s. apart I tid (get s) (get (snd (m s))) \<and> (\<forall>a. fst (m s) = Inr a \<longrightarrow> Q a))"

named_theorems conf \<open>confined operations\<close>

lemma confinedI: "(\<And>s. apart I tid (get s) (get (snd (m s)))) \<Longrightarrow> (\<And>s a. fst (m s) = Inr a \<Longrightarrow> Q a) \<Longrightarrow> confined I get tid Q m"
  by (simp add: confined_def)

lemma confined_at: "confined I get tid Q m \<Longrightarrow> get s = st \<Longrightarrow> apart I tid st (get (snd (m s)))"
  by (auto simp: confined_def)

lemma confined_weaken: "confined I get tid P m \<Longrightarrow> (\<And>a. P a \<Longrightarrow> Q a) \<Longrightarrow> confined I get tid Q m"
  by (auto simp: confined_def)

lemma confined_any: "confined I get tid P m \<Longrightarrow> confined I get tid (\<lambda>_. True) m"
  by (erule confined_weaken, simp)

lemma confined_return: "Q a \<Longrightarrow> confined I get tid Q (returnE a)"
  by (simp add: confined_def returnE_def)

lemma confined_raise: "confined I get tid Q (raiseE e)"
  by (simp add: confined_def raiseE_def)

lemma confined_read: "(\<And>s. Q (f s)) \<Longrightarrow> confined I get tid Q (readE f)"
  by (simp add: confined_def readE_def)

lemma confined_write: "(\<And>s. get (f s) = get s) \<Longrightarrow> confined I get tid (\<lambda>_. True) (writeE f)"
  by (simp add: confined_def writeE_def)

lemma confined_bind:
  assumes "confined I get tid P m" and "\<And>a. P a \<Longrightarrow> confined I get tid Q (f a)"
  shows "confined I get tid Q (bindE m f)"
proof (rule confinedI)
  fix s
  obtain r s' where m: "m s = (r, s')" by fastforce
  have s': "apart I tid (get s) (get s')" using assms(1) m by (auto simp: confined_def dest!: spec [of _ s])
  show "apart I tid (get s) (get (snd (bindE m f s)))"
  proof (cases r)
    case (Inr a)
    then have "P a" using assms(1) m by (auto simp: confined_def dest!: spec [of _ s])
    from assms(2) [OF this] have "apart I tid (get s') (get (snd (f a s')))" by (simp add: confined_def)
    with s' show ?thesis using m Inr by (auto simp: bindE_def intro: apart_trans)
  qed (use m s' in \<open>simp add: bindE_def\<close>)
  show "Q b" if "fst (bindE m f s) = Inr b" for b
  proof (cases r)
    case (Inr a)
    then have "P a" using assms(1) m by (auto simp: confined_def dest!: spec [of _ s])
    from assms(2) [OF this] show ?thesis using that m Inr by (auto simp: confined_def bindE_def)
  qed (use m that in \<open>simp add: bindE_def\<close>)
qed

lemma confined_catch:
  assumes "confined I get tid Q m" and "\<And>e. confined I get tid Q (h e)"
  shows "confined I get tid Q (catchE m h)"
proof (rule confinedI)
  fix s
  obtain r s' where m: "m s = (r, s')" by fastforce
  have s': "apart I tid (get s) (get s')" using assms(1) m by (auto simp: confined_def dest!: spec [of _ s])
  show "apart I tid (get s) (get (snd (catchE m h s)))"
  proof (cases r)
    case (Inl e)
    have "apart I tid (get s') (get (snd (h e s')))" using assms(2) by (simp add: confined_def)
    with s' show ?thesis using m Inl by (auto simp: catchE_def intro: apart_trans)
  qed (use m s' in \<open>simp add: catchE_def\<close>)
  show "Q b" if "fst (catchE m h s) = Inr b" for b
    using that assms m by (cases r) (auto simp: confined_def catchE_def dest!: spec [of _ s])
qed

lemmas confined_rules = confined_return confined_raise confined_read confined_write confined_bind confined_catch

subsection \<open>Operations of the store\<close>

lemma rows_but_view: "tenant_view b st' = tenant_view b st \<Longrightarrow> rows_but I b st' = rows_but I b st"
  by (simp add: rows_but_def)

lemma local_confined: "local_write tid m \<Longrightarrow> confined I id tid (\<lambda>_. True) m"
  by (auto simp: confined_def local_write_def apart_def intro: rows_but_view)

lemma store_confined [conf]:
  "confined I id (f_tenant f) (\<lambda>_. True) (insert_finding f)" "confined I id tid (\<lambda>_. True) (update_finding tid fid upd now)"
  "confined I id (a_tenant a) (\<lambda>_. True) (insert_action a)" "confined I id (a_tenant a) (\<lambda>_. True) (update_action a)"
  "confined I id (ev_tenant e) (\<lambda>_. True) (insert_event e now)"
  "confined I id tid (\<lambda>_. True) (add_suppression sid tid rule key reason expires by now)"
  by (intro local_confined local_insert_finding local_update_finding local_insert_action local_update_action
      local_insert_event local_add_suppression)+

lemma record_audit_confined [conf]:
  "confined I id tid (\<lambda>_. True) (record_audit tid who what role target before after context now)"
  using local_append_audit by (auto simp: record_audit_def intro!: local_confined)

lemma record_change_confined [conf]:
  "confined I id tid (\<lambda>_. True) (record_state_change tid who role what target before after context now)"
  unfolding record_state_change_def by (rule conf)

lemma mark_confined:
  assumes "set ids \<subseteq> I"
  shows "confined I id tid (\<lambda>_. True) (mark_events_processed ids now)"
proof -
  have one: "map (unmarked_in I) (filter (\<lambda>r. ev_tenant (er_event r) = b) (snd (mark_chunk now c (n, rows)))) =
      map (unmarked_in I) (filter (\<lambda>r. ev_tenant (er_event r) = b) rows)" if "set c \<subseteq> I" for b c n rows
    using that by (induction rows) (auto simp: mark_chunk_def Let_def update_where_def unmarked_in_def unmarked_def)
  have all: "map (unmarked_in I) (filter (\<lambda>r. ev_tenant (er_event r) = b) (snd (fold (mark_chunk now) cs acc))) =
      map (unmarked_in I) (filter (\<lambda>r. ev_tenant (er_event r) = b) (snd acc))" if "\<forall>c \<in> set cs. set c \<subseteq> I" for b cs acc
    using that
  proof (induction cs arbitrary: acc)
    case (Cons c cs)
    then show ?case using one [of c b "fst acc" "snd acc"] by simp
  qed simp
  have "\<forall>c \<in> set (chunks n ids). set c \<subseteq> I" for n
    using assms by (induction n ids rule: chunks.induct) (auto dest: in_set_takeD in_set_dropD)
  then have "rows_but I b (snd (mark_events_processed ids now st)) = rows_but I b st" for b st
    using all [of "chunks 399 ids" b "(0, st_events st)"]
    by (simp add: mark_events_processed_def rows_but_def tenant_view_def Let_def split_beta)
  then show ?thesis by (auto simp: confined_def apart_def)
qed

lemma on_store_confined: "confined I id tid Q m \<Longrightarrow> confined I en_store tid Q (on_store m)"
  by (auto simp: confined_def on_store_def split: prod.split) (metis fst_conv snd_conv)+

lemma on_engine_confined: "confined I en_store tid Q m \<Longrightarrow> confined I pp_store tid Q (on_engine m)"
  by (auto simp: confined_def on_engine_def split: prod.split) (metis fst_conv snd_conv)+

subsection \<open>The action engine\<close>

abbreviation owned :: "string \<Rightarrow> action \<Rightarrow> bool" where
  "owned tid a \<equiv> a_tenant a = tid"

lemma engine_steps_confined [conf]:
  "confined I en_store tid (\<lambda>_. True) (new_id w p)" "confined I en_store tid (\<lambda>_. True) (notify a ev)"
  "confined I en_store tid (\<lambda>_. True) (on_exec m)"
  by (simp_all add: confined_def new_id_def notify_def on_exec_def split: prod.split)

lemma get_action_owned: "get_action tid aid st = Some a \<Longrightarrow> owned tid a"
  by (auto simp: get_action_def find_Some_iff)

lemma require_confined [conf]: "confined I en_store tid (owned tid) (require_action tid aid)"
  by (auto simp: confined_def require_action_def get_action_owned split: option.split)

lemma owned_write: "owned tid a \<Longrightarrow> confined I en_store tid (\<lambda>_. True) (on_store (update_action a))"
  by (auto intro: on_store_confined conf)

lemma audited_confined:
  "confined I en_store tid (\<lambda>_. True) (on_store (record_state_change tid who role what target before after ctx now))"
  "confined I en_store tid (\<lambda>_. True) (on_store (record_audit tid who what role target before after ctx now))"
  by (intro on_store_confined conf)+

lemma set_status_confined:
  assumes "owned tid a" and "\<And>b. a_tenant (extra b) = a_tenant b"
  shows "confined I en_store tid (owned tid) (set_status who role what before extra ctx now a status)"
proof -
  define b where "b = extra (a\<lparr>a_status := status\<rparr>)"
  have b: "owned tid b" "owned tid (b\<lparr>a_audit_seq := n\<rparr>)" for n using assms by (simp_all add: b_def)
  show ?thesis
    unfolding set_status_def Let_def b_def [symmetric] unfolding b
    by (intro confined_bind [OF owned_write] confined_bind [OF audited_confined(1)]
      confined_bind [OF engine_steps_confined(2)] confined_return b)
qed

lemma mark_failed_confined: "owned tid a \<Longrightarrow> confined I en_store tid (owned tid) (mark_failed who role err result now a)"
  unfolding mark_failed_def by (rule set_status_confined) simp_all

lemma existing_owned: "existing_action tid e st = Some b \<Longrightarrow> owned tid b"
  by (auto simp: existing_action_def Let_def get_action_owned split: if_splits)

definition plan_owned :: "string \<Rightarrow> plan_insertion \<Rightarrow> bool" where
  "plan_owned tid p = (case p of Inserted a \<Rightarrow> owned tid a | Reused a \<Rightarrow> owned tid a)"

lemma plan_insert_confined: "owned tid a \<Longrightarrow> confined I en_store tid (plan_owned tid) (plan_insert w tid base n k a)"
proof (induction n arbitrary: k a)
  case (Suc n)
  let ?next = "\<lambda>i. plan_insert w tid base n (Suc k) (a\<lparr>a_id := i, a_idempotency_key := base @ ''#'' @ int_str (int (Suc k))\<rparr>)"
  have again: "confined I en_store tid (plan_owned tid) (bindE (new_id w ''ac_'') ?next)"
    by (rule confined_bind [OF engine_steps_confined(1)], rule Suc.IH) (use Suc.prems in simp)
  have ins: "confined I en_store tid (\<lambda>_. True) (on_store (insert_action a))"
    using Suc.prems by (auto intro: on_store_confined conf)
  show ?case
  proof (rule confinedI)
    fix s
    obtain r s' where m: "on_store (insert_action a) s = (r, s')" by fastforce
    then have s': "apart I tid (en_store s) (en_store s')" using ins by (auto simp: confined_def dest!: spec [of _ s])
    have nxt: "apart I tid (en_store s') (en_store (snd (bindE (new_id w ''ac_'') ?next s')))"
      using again by (simp add: confined_def)
    show "apart I tid (en_store s) (en_store (snd (plan_insert w tid base (Suc n) k a s)))"
      using m s' apart_trans [OF s' nxt] by (auto split: sum.split option.split)
    show "plan_owned tid b" if "fst (plan_insert w tid base (Suc n) k a s) = Inr b" for b
      using that m again Suc.prems
      by (auto simp: plan_owned_def confined_def existing_owned split: sum.splits option.splits if_splits)
  qed
qed (simp add: confined_def)

lemma register_confined: "owned (t_id t) a \<Longrightarrow> confined I en_store (t_id t) (owned (t_id t)) (register_plan t pb q who role now a)"
  unfolding register_plan_def Let_def
  by (intro confined_bind [OF on_store_confined [OF record_audit_confined]] confined_bind [OF owned_write]
      confined_bind [OF engine_steps_confined(2)] confined_return) simp_all

lemma new_action_owned: "owned (t_id t) (new_action cfg t pb who q params target aid key now)"
  by (simp add: new_action_def Let_def)

lemma plan_confined: "confined I en_store (t_id t) (owned (t_id t)) (plan cfg w t who role q now)"
proof -
  have "confined I en_store (t_id t) (owned (t_id t))
      (case ins of Reused b \<Rightarrow> returnE b | Inserted a \<Rightarrow> register_plan t pb q who role now a)"
    if "plan_owned (t_id t) ins" for ins pb
    using that by (auto simp: plan_owned_def intro: confined_return register_confined split: plan_insertion.splits)
  then show ?thesis
    unfolding plan_def Let_def
    by (auto intro!: confined_raise confined_bind [OF engine_steps_confined(1)]
        confined_bind [OF plan_insert_confined [OF new_action_owned]] split: option.split sum.split)
qed

lemma approve_confined: "confined I en_store (t_id t) (owned (t_id t)) (approve t aid who role comment now)"
  unfolding approve_def by (auto intro!: confined_bind [OF require_confined] confined_raise set_status_confined)

lemma reject_confined: "confined I en_store (t_id t) (owned (t_id t)) (reject t aid who role reason now)"
  unfolding reject_def by (auto intro!: confined_bind [OF require_confined] confined_raise set_status_confined)

lemma authorize_confined: "owned tid a \<Longrightarrow> confined I en_store tid (\<lambda>_. True) (authorize_execution a pb t now)"
  unfolding authorize_execution_def
  by (auto intro!: confined_raise confined_return confined_bind [OF set_status_confined])

lemma conclude_confined: "owned tid a \<Longrightarrow> confined I en_store tid (owned tid) (conclude_execution pb who role now a r)"
  unfolding conclude_execution_def Let_def by (auto intro!: set_status_confined mark_failed_confined)

text \<open>A call to the executor, followed by what is recorded of it.\<close>

lemma after_exec_confined:
  assumes "\<And>s. m s = (case on_exec (f s) s of (Inl e, s') \<Rightarrow> h e s' | (Inr r, s') \<Rightarrow> k r s')"
    and "\<And>e. confined I en_store tid Q (h e)" and "\<And>r. confined I en_store tid Q (k r)"
  shows "confined I en_store tid Q m"
proof (rule confinedI)
  fix s
  obtain r s' where e: "on_exec (f s) s = (r, s')" by fastforce
  then have st: "en_store s' = en_store s" by (auto simp: on_exec_def split: prod.splits)
  have m: "m s = (case r of Inl e \<Rightarrow> h e s' | Inr x \<Rightarrow> k x s')" using assms(1) e by (auto split: sum.split)
  show "apart I tid (en_store s) (en_store (snd (m s)))"
    using assms(2,3) st [symmetric] unfolding m by (auto simp: confined_def split: sum.split)
  show "Q a" if "fst (m s) = Inr a" for a
    using that assms(2,3) unfolding m by (auto simp: confined_def split: sum.splits)
qed

lemma confined_handler: "confined I get tid Q m \<Longrightarrow> confined I get tid Q (\<lambda>s. if b then m s else (Inl e, s))"
  by (simp add: confined_def)

lemma run_confined: "owned tid a \<Longrightarrow> confined I en_store tid (owned tid) (run_execution cfg w t pb who role now a)"
  by (rule after_exec_confined [where f = "\<lambda>s. execute_playbook w (ae_executor_dry_run cfg) (Some (a_dry_run a)) pb (a_params a)
        (execution_context t a (en_store s)) now"
        and h = "\<lambda>e s'. if is_playbook_error e then mark_failed who role (exn_str e) [(''error'', PStr (exn_str e))] now a s' else (Inl e, s')"
        and k = "conclude_execution pb who role now a"])
     (auto simp: run_execution_def intro: conclude_confined mark_failed_confined confined_handler)

lemma execute_confined: "confined I en_store (t_id t) (owned (t_id t)) (execute cfg w t aid who role now)"
  unfolding execute_def
  by (auto intro!: confined_bind [OF require_confined] confined_raise confined_bind [OF authorize_confined]
      confined_bind [OF set_status_confined] run_confined split: option.split)

lemma rollback_recorded_confined:
  "owned tid a \<Longrightarrow> confined I en_store tid (owned tid) (conclude_rollback who role reason now a r)"
  "owned tid a \<Longrightarrow> confined I en_store tid (owned tid) (mark_rollback_failed who role err now a)"
  unfolding conclude_rollback_def mark_rollback_failed_def Let_def by (auto intro!: set_status_confined)

lemma run_rollback_confined: "owned tid a \<Longrightarrow> confined I en_store tid (owned tid) (run_rollback cfg w t who role reason now a)"
  by (rule after_exec_confined [where f = "\<lambda>s. rollback_playbook w (ae_executor_dry_run cfg) (Some (a_dry_run a))
        (map_of (ae_playbooks cfg) (a_playbook a)) (or_empty (r_token (a_rollback a))) (execution_context t a (en_store s)) now"
        and h = "\<lambda>e s'. if is_playbook_error e then mark_rollback_failed who role (exn_str e) now a s' else (Inl e, s')"
        and k = "conclude_rollback who role reason now a"])
     (auto simp: run_rollback_def intro: rollback_recorded_confined confined_handler)

lemma rollback_confined: "confined I en_store (t_id t) (owned (t_id t)) (rollback cfg w t aid who role reason now)"
  unfolding rollback_def
  by (auto intro!: confined_bind [OF require_confined] confined_raise run_rollback_confined)

lemma from_decision_confined: "confined I en_store (t_id t) (\<lambda>_. True) (from_decision cfg w t f d who role now)"
  unfolding from_decision_def
  by (auto intro!: confined_return confined_bind [OF plan_confined] set_status_confined execute_confined
      confined_bind [where P = "owned (t_id t)"])

subsection \<open>The pipeline\<close>

lemma on_data_confined: "confined I id tid Q m \<Longrightarrow> confined I pp_store tid Q (on_data m)"
  by (simp add: on_data_def on_engine_confined on_store_confined)

lemma audit_step_confined: "confined I pp_store tid (\<lambda>_. True) (audit_step tid who what role target before after ctx now)"
  unfolding audit_step_def by (intro confined_bind [OF on_data_confined [OF record_audit_confined]] confined_return) simp

lemma record_result_confined: "confined I pp_store tid (\<lambda>_. True) (record_result g)"
  unfolding record_result_def by (rule confined_write) simp

abbreviation found_in :: "string \<Rightarrow> finding \<Rightarrow> bool" where
  "found_in tid f \<equiv> f_tenant f = tid"

lemma open_finding_in: "find_open_finding tid rid key st = Some f \<Longrightarrow> found_in tid f"
  by (auto simp: find_open_finding_def row_to_finding_def dest: latest_set)

lemma get_finding_in: "get_finding tid fid st = Some f \<Longrightarrow> found_in tid f"
  by (auto simp: get_finding_def find_Some_iff row_to_finding_def)

lemma retire_confined: "confined I pp_store (t_id t) (\<lambda>_. True) (retire_stale t r now found)"
  unfolding retire_stale_def
  by (auto intro!: confined_return confined_bind [OF on_data_confined] conf split: option.split)


lemma built_in: "(\<And>f. r = Inr f \<Longrightarrow> P f) \<Longrightarrow> confined I pp_store tid P (built r)"
  by (auto simp: built_def intro: confined_raise confined_return split: sum.split)

lemma build_finding_in: "build_finding re fid m t h n now = Inr f \<Longrightarrow> found_in (t_id t) f"
  by (auto simp: build_finding_def Let_def split: sum.splits)

lemma counted_confined:
  "confined I pp_store tid (\<lambda>_. True) (writeE (\<lambda>s. s\<lparr>pp_updated := f s\<rparr>))"
  "confined I pp_store tid (\<lambda>_. True) (writeE (\<lambda>s. s\<lparr>pp_created := f s\<rparr>))"
  "confined I pp_store tid (\<lambda>_. True) (writeE (\<lambda>s. s\<lparr>pp_processed := f s\<rparr>))"
  "confined I pp_store tid (\<lambda>_. True) (writeE (\<lambda>s. s\<lparr>pp_anomalies := f s\<rparr>))"
  by (simp_all add: confined_write)

lemma refresh_confined: "confined I pp_store (t_id t) (\<lambda>_. True) (refresh_finding cfg m t h now)"
  unfolding refresh_finding_def Let_def
  by (intro confined_bind [OF built_in [where P = "\<lambda>_. True"]] confined_bind [OF on_data_confined [OF store_confined(2)]]
      confined_bind [OF counted_confined(1)] confined_bind [OF confined_read [where Q = "\<lambda>_. True"]]
      confined_bind [where P = "\<lambda>_. True"] confined_return)
     (auto intro: audit_step_confined confined_return)

lemma created_confined: "found_in tid f \<Longrightarrow> confined I pp_store tid (\<lambda>_. True) (on_data (insert_finding f))"
  by (auto intro: on_data_confined conf)

lemma create_confined: "confined I pp_store (t_id t) (\<lambda>_. True) (create_finding cfg m t now)"
  unfolding create_finding_def
  by (intro confined_bind [OF on_engine_confined [OF engine_steps_confined(1)]]
      confined_bind [OF built_in [where P = "found_in (t_id t)"]] confined_bind [OF created_confined]
      confined_bind [OF counted_confined(2)] confined_bind [OF audit_step_confined] confined_return)
     (auto intro: build_finding_in)

lemma upsert_confined: "confined I pp_store (t_id t) (\<lambda>_. True) (upsert_finding cfg m t now)"
  unfolding upsert_finding_def
  by (intro confined_bind [OF confined_read [where Q = "\<lambda>_. True"]] confined_bind [OF retire_confined])
     (auto intro: create_confined refresh_confined split: option.split)

lemma evaluated_confined:
  "confined I pp_store tid (\<lambda>_. True) (\<lambda>s. case f s of (d, pe) \<Rightarrow> (Inr (g s d), s\<lparr>pp_decision := pe\<rparr>))"
  by (simp_all add: confined_def split: prod.split)

lemma decide_confined: "confined I pp_store (t_id t) (\<lambda>_. True) (decide_finding cfg f t now)"
  unfolding decide_finding_def
  by (intro confined_bind [OF evaluated_confined] confined_bind [OF audit_step_confined] confined_return) simp

lemma note_confined: "confined I pp_store tid (\<lambda>_. True) (note_action a)"
  by (auto simp: note_action_def intro: confined_return confined_write split: option.split)

lemma react_match_confined: "confined I pp_store (t_id t) (\<lambda>_. True) (react_match cfg t now m)"
  unfolding react_match_def
  by (intro confined_bind [OF upsert_confined] confined_bind [OF record_result_confined] confined_bind [OF decide_confined]
      confined_bind [OF on_engine_confined [OF from_decision_confined]] note_confined)

lemma react_matches_confined: "confined I pp_store (t_id t) (\<lambda>_. True) (react_matches cfg t now ms)"
  by (induction ms) (auto intro: confined_return confined_bind [OF react_match_confined])

lemma detect_confined: "confined I pp_store tid (\<lambda>_. True) (detect cfg ev now)"
  by (simp add: confined_def detect_def split: prod.split)

lemma react_to_confined: "confined I pp_store (t_id t) (\<lambda>_. True) (react_to cfg ev t now)"
  unfolding react_to_def
  by (rule confined_bind [OF detect_confined react_matches_confined])


subsection \<open>Anomalies, events and batches\<close>

definition event_tenant_ok :: "string \<Rightarrow> bool" where
  "event_tenant_ok tid \<longleftrightarrow> validate_event_tenant tid = Inr tid"

lemma entity_signals_in: "sg \<in> set (fst (observe_entity cfg r tid f e ts dt)) \<Longrightarrow> sg_tenant sg = tid"
  by (auto simp: observe_entity_def Let_def judge_bucket_def evaluate_bucket_def rate_signal_def new_source_signal_def
      split: option.splits prod.splits if_splits)

lemma field_signals_in: "sg \<in> set (fst (observe_fields cfg r ev ts fs dt)) \<Longrightarrow> sg_tenant sg = ev_tenant ev"
proof (induction fs arbitrary: dt)
  case (Cons f fs)
  show ?case
  proof (cases "entity_value ev f")
    case (Some e)
    obtain ss dt' where o1: "observe_entity cfg r (ev_tenant ev) f e ts dt = (ss, dt')" by fastforce
    obtain ss' dt'' where o2: "observe_fields cfg r ev ts fs dt' = (ss', dt'')" by fastforce
    from Cons.prems Some o1 o2 have "sg \<in> set ss \<or> sg \<in> set ss'" by simp
    then show ?thesis using entity_signals_in [of sg cfg r "ev_tenant ev" f e ts dt] o1 o2 Cons.IH [of dt'] by auto
  qed (use Cons in simp)
qed simp

lemma cardinality_signals_in: "sg \<in> set (fst (observe_cardinality cfg r ev ts tc)) \<Longrightarrow> sg_tenant sg = ev_tenant ev"
  by (auto simp: observe_cardinality_def Let_def cardinality_signal_def split: if_splits)

lemma signals_in: "sg \<in> set (fst (observe cfg r ev ts dt)) \<Longrightarrow> sg_tenant sg = ev_tenant ev"
  using field_signals_in [of sg cfg r ev ts "dc_fields cfg" "count_processed (ev_tenant ev) dt"]
  by (auto simp: observe_def Let_def split: prod.splits) (metis cardinality_signals_in fst_conv)

lemma signal_event_in: "signal_event sg ev eid now = Inr ae \<Longrightarrow> event_tenant_ok (sg_tenant sg) \<Longrightarrow> ev_tenant ae = sg_tenant sg"
  by (auto simp: signal_event_def event_tenant_ok_def split: sum.splits)

lemma inserted_confined: "ev_tenant e = tid \<Longrightarrow> confined I pp_store tid (\<lambda>_. True) (on_data (insert_event e now))"
  by (auto intro: on_data_confined conf)

lemma audit_anomaly_confined: "confined I pp_store (t_id t) (\<lambda>_. True) (audit_anomaly t ev ae sg now)"
  unfolding audit_anomaly_def by (rule audit_step_confined)

lemma react_signal_confined:
  assumes "sg_tenant sg = t_id t" and "event_tenant_ok (t_id t)"
  shows "confined I pp_store (t_id t) (\<lambda>_. True) (react_signal cfg ev t now sg)"
proof -
  have "confined I pp_store (t_id t) (\<lambda>_. True) (bindE (on_data (insert_event ae now)) (\<lambda>fresh.
      if \<not> fresh then returnE () else bindE (writeE (\<lambda>s. s\<lparr>pp_anomalies := pp_anomalies s + 1\<rparr>)) (\<lambda>_.
        bindE (audit_anomaly t ev ae sg now) (\<lambda>_. react_to cfg ae t now))))"
    if "signal_event sg ev eid now = Inr ae" for eid ae
    using signal_event_in [OF that] assms
    by (intro confined_bind [OF inserted_confined])
       (auto intro!: confined_return confined_bind [OF counted_confined(4)] confined_bind [OF audit_anomaly_confined]
          react_to_confined)
  then show ?thesis
    unfolding react_signal_def
    by (auto intro!: confined_bind [OF on_engine_confined [OF engine_steps_confined(1)]] confined_raise split: sum.split)
qed

lemma react_signals_confined:
  "(\<And>sg. sg \<in> set sgs \<Longrightarrow> sg_tenant sg = t_id t) \<Longrightarrow> event_tenant_ok (t_id t)
    \<Longrightarrow> confined I pp_store (t_id t) (\<lambda>_. True) (react_signals cfg ev t now sgs)"
  by (induction sgs) (auto intro!: confined_return confined_bind [OF react_signal_confined])

lemma anomalies_confined:
  assumes "ev_tenant ev = t_id t" and "event_tenant_ok (t_id t)"
  shows "confined I pp_store (t_id t) (\<lambda>_. True) (process_anomalies cfg ev t now)"
proof -
  have "confined I pp_store (t_id t) (\<lambda>sgs. \<forall>sg \<in> set sgs. sg_tenant sg = t_id t)
      (\<lambda>s. case observe dc (pg_sqrt cfg) ev now (pp_detector s) of (sgs, dt) \<Rightarrow> (Inr sgs, s\<lparr>pp_detector := dt\<rparr>))" for dc
    using assms(1) by (auto simp: confined_def split: prod.split) (metis signals_in fst_conv)
  from confined_bind [OF this react_signals_confined] show ?thesis
    using assms(2) unfolding process_anomalies_def by (auto intro: confined_return split: option.split)
qed

lemma process_body_confined:
  assumes "ev_tenant ev = tid" and "event_tenant_ok tid" and "ev_id ev \<in> I"
  shows "confined I pp_store tid (\<lambda>_. True) (process_body cfg ev now)"
proof -
  have read: "confined I pp_store tid (\<lambda>t. \<forall>t'. t = Some t' \<longrightarrow> t_id t' = tid) (readE (\<lambda>s. get_tenant (ev_tenant ev) (pp_store s)))"
    using assms(1) by (intro confined_read) (auto dest: get_tenant_Some)
  show ?thesis
    unfolding process_body_def
  proof (rule confined_bind [OF read])
    fix t :: "tenant option" assume t: "\<forall>t'. t = Some t' \<longrightarrow> t_id t' = tid"
    show "confined I pp_store tid (\<lambda>_. True) (case t of
        None \<Rightarrow> record_result (\<lambda>r. r\<lparr>res_error := Some (''tenant inconnu: '' @ ev_tenant ev)\<rparr>)
      | Some t \<Rightarrow> bindE (react_to cfg ev t now) (\<lambda>_. bindE (process_anomalies cfg ev t now) (\<lambda>_.
          bindE (writeE (\<lambda>s. s\<lparr>pp_processed := pp_processed s + 1\<rparr>)) (\<lambda>_.
          bindE (on_data (mark_events_processed [ev_id ev] now)) (\<lambda>_. returnE ())))))"
    proof (cases t)
      case (Some t')
      with t have [simp]: "tid = t_id t'" by simp
      show ?thesis using assms unfolding Some
        by (auto intro!: confined_bind [OF react_to_confined] confined_bind [OF anomalies_confined]
            confined_bind [OF counted_confined(3)] confined_bind [OF on_data_confined [OF mark_confined]] confined_return)
    qed (simp add: record_result_confined)
  qed
qed

lemma process_event_confined:
  assumes "ev_tenant ev = tid" and "event_tenant_ok tid" and "ev_id ev \<in> I"
  shows "confined I pp_store tid (\<lambda>_. True) (process_event cfg ev now)"
  unfolding process_event_def process_failure_def
  by (intro confined_bind [OF record_result_confined] confined_bind [OF confined_catch [OF process_body_confined [OF assms]]]
      confined_read confined_write) simp_all

lemma process_all_confined:
  "ev_id ` set es \<subseteq> I \<Longrightarrow> \<forall>ev \<in> set es. ev_tenant ev = tid \<Longrightarrow> event_tenant_ok tid \<Longrightarrow> confined I pp_store tid (\<lambda>_. True) (process_all cfg now es acc)"
  by (induction es arbitrary: acc) (auto intro!: confined_return confined_bind [OF process_event_confined])

lemma batches_confined: "\<forall>c \<in> set cs. fst c = tid \<Longrightarrow> confined I pp_store tid (\<lambda>_. True) (audit_batches who role now cs)"
  by (induction cs) (auto intro!: confined_return confined_bind [OF audit_step_confined])

lemma updated_keys: "c \<in> set (AList.update k v m) \<Longrightarrow> fst c = k \<or> c \<in> set m"
  by (induction m) (auto split: if_splits)

lemma counts_of_tenant: "\<forall>ev \<in> set es. ev_tenant ev = tid \<Longrightarrow> c \<in> set (tenant_counts es) \<Longrightarrow> fst c = tid"
proof -
  have all: "\<forall>ev \<in> set es. ev_tenant ev = tid \<Longrightarrow> \<forall>c \<in> set acc. fst c = tid \<Longrightarrow>
      \<forall>c \<in> set (fold (\<lambda>ev acc. AList.update (ev_tenant ev) (h ev acc) acc) es acc). fst c = tid" for acc and h :: "event \<Rightarrow> (string \<times> int) list \<Rightarrow> int"
  proof (induction es arbitrary: acc)
    case (Cons ev es)
    have "\<forall>c \<in> set (AList.update (ev_tenant ev) (h ev acc) acc). fst c = tid" using Cons.prems updated_keys by fastforce
    with Cons show ?case by simp
  qed simp
  show "fst c = tid" if es: "\<forall>ev \<in> set es. ev_tenant ev = tid" and c: "c \<in> set (tenant_counts es)"
    using c unfolding tenant_counts_def by (rule all [OF es, THEN bspec, rotated]) simp
qed

lemma ingest_confined:
  assumes "\<forall>ev \<in> set es. ev_tenant ev = tid" and "event_tenant_ok tid" and "ev_id ` set es \<subseteq> I"
  shows "confined I pp_store tid (\<lambda>_. True) (ingest cfg es who role process now)"
proof -
  define acc where "acc st = accepted_events st (take MAX_BATCH es)" for st
  have acc: "\<forall>ev \<in> set (acc st). ev_tenant ev = tid" for st
    using assms(1) by (auto simp: acc_def accepted_events_def dest: in_set_takeD)
  have ids: "ev_id ` set (acc st) \<subseteq> I" for st
    using assms(3) by (auto simp: acc_def accepted_events_def dest: in_set_takeD)
  have ins: "confined I pp_store tid (\<lambda>_. True) (on_data (insert_events (acc st) now))" for st
    using acc by (auto intro!: on_data_confined local_confined local_insert_events)
  show ?thesis
    unfolding ingest_def Let_def acc_def [symmetric]
    using acc ids assms(2)
    by (intro confined_bind [OF confined_read [where Q = "\<lambda>_. True"]])
       (auto intro!: confined_return confined_bind [OF ins] confined_bind [OF process_all_confined [OF ids]]
          confined_bind [where P = "\<lambda>_. True" and f = "\<lambda>_. _"] batches_confined ballI
          dest: counts_of_tenant [OF acc])
qed

end
