(* ===== verification/ApiProps.thy ===== *)
theory ApiProps
  imports Api Confined AuthProps LoaderProps PipelineProps
begin

section \<open>What the API lets a caller do\<close>

text \<open>
  A route changes nothing for a caller without its capability, and what it changes for a caller that does not
  administer tenants stays within the rows of the caller's tenant; a triage of a finding succeeds exactly from the
  statuses of the table.
\<close>

subsection \<open>Capabilities\<close>

definition needed :: "request \<Rightarrow> string" where
  "needed req =
     (case req of
        R_plan _ \<Rightarrow> ''execute:actions'' | R_execute _ \<Rightarrow> ''execute:actions'' | R_rollback _ _ \<Rightarrow> ''execute:actions''
      | R_approve _ _ \<Rightarrow> ''approve:actions'' | R_reject _ _ \<Rightarrow> ''approve:actions''
      | R_actions _ _ _ _ _ \<Rightarrow> ''read:findings'' | R_action _ \<Rightarrow> ''read:findings''
      | R_findings _ _ _ _ \<Rightarrow> ''read:findings'' | R_finding _ \<Rightarrow> ''read:findings''
      | R_ack _ _ \<Rightarrow> ''write:findings'' | R_close _ _ _ \<Rightarrow> ''write:findings'' | R_suppress _ _ _ _ \<Rightarrow> ''write:findings''
      | R_ingest _ \<Rightarrow> ''write:events'' | R_events _ _ _ \<Rightarrow> ''read:events'' | R_event _ \<Rightarrow> ''read:events''
      | R_tenants \<Rightarrow> ''admin:tenants'' | R_create_tenant _ \<Rightarrow> ''admin:tenants'' | R_update_tenant _ _ \<Rightarrow> ''admin:tenants''
      | R_tenant _ \<Rightarrow> ''read:stats''
      | R_create_key _ _ _ \<Rightarrow> ''admin:keys'' | R_keys _ \<Rightarrow> ''admin:keys'' | R_revoke_key _ \<Rightarrow> ''admin:keys''
      | R_reload_rules \<Rightarrow> ''admin:rules'' | R_reload_policies \<Rightarrow> ''admin:policies''
      | R_audit _ _ _ _ _ _ \<Rightarrow> ''read:audit'' | R_verify_audit \<Rightarrow> ''read:audit'' | R_export_audit _ _ _ \<Rightarrow> ''read:audit'')"

definition forbidden :: "principal \<Rightarrow> string \<Rightarrow> exn" where
  "forbidden p cap = Err PermissionDeniedError (''le role '' @ pr_role p @ '' ne dispose pas de la capacite '' @ cap)
     [(''required'', PStr cap), (''role'', PStr (pr_role p)), (''actor'', PStr (actor p))]"

lemma denied: "\<not> has_capability (pr_role p) cap \<Longrightarrow> bindE (allow cap p) f s = (Inl (forbidden p cap), s)"
  by (simp add: allow_def require_capability_def bindE_def raiseE_def forbidden_def)

lemmas route_defs =
  plan_action_def list_actions_route_def get_action_route_def approve_action_def reject_action_def execute_action_def
  rollback_action_def list_findings_route_def get_finding_route_def ack_finding_def close_finding_def
  suppress_finding_def ingest_events_def list_events_route_def get_event_route_def list_tenants_route_def
  create_tenant_def get_tenant_route_def update_tenant_route_def create_key_def list_keys_route_def revoke_key_def
  reload_rules_route_def reload_policies_route_def list_audit_route_def verify_audit_route_def export_audit_route_def

lemma route_denied:
  assumes "\<not> has_capability (pr_role p) (needed req)"
  shows "route cfg c p req s = (Inl (forbidden p (needed req)), s)"
proof (cases req)
qed (use assms in \<open>simp_all add: needed_def route_defs cap_defs denied\<close>)

text \<open>C6: A caller whose role lacks the capability a route needs is answered 403, and the request changes nothing:
  neither the store, nor the outside world, nor the libraries, nor the limiter.\<close>

theorem unauthorised_request_inert:
  assumes "current_principal cfg c s = (Inr p, s1)" and "\<not> has_capability (pr_role p) (needed req)"
  shows "snd (serve cfg c req s) = s1 \<and> rs_status (fst (serve cfg c req s)) = 403"
proof -
  have "bindE (current_principal cfg c) (\<lambda>p. route cfg c p req) s = (Inl (forbidden p (needed req)), s1)"
    using assms by (simp add: bindE_def route_denied)
  then show ?thesis by (simp add: serve_def forbidden_def handle_error_def error_response_def)
qed


subsection \<open>The tenant of a caller\<close>

lemma on_pipe_confined: "confined I pp_store tid Q m \<Longrightarrow> confined I as_store tid Q (on_pipe m)"
  by (auto simp: confined_def on_pipe_def split: prod.split) (metis fst_conv snd_conv)+

lemma on_db_confined: "confined I id tid Q m \<Longrightarrow> confined I as_store tid Q (on_db m)"
  by (simp add: on_db_def on_pipe_confined on_data_confined)

lemma on_limiter_confined: "confined I as_store tid (\<lambda>_. True) (on_limiter m)"
  by (simp add: confined_def on_limiter_def split: prod.split)

lemma on_auth_confined: "confined I ks_store tid Q m \<Longrightarrow> confined I as_store tid Q (on_auth m)"
  by (auto simp: confined_def on_auth_def with_store_def split: prod.split) (metis fst_conv snd_conv key_service.select_convs(1) key_service.update_convs(1) key_service.surjective)+

lemma on_keys_confined: "confined I id tid Q m \<Longrightarrow> confined I ks_store tid Q (on_keys m)"
  by (auto simp: confined_def on_keys_def split: prod.split) (metis fst_conv snd_conv)+

lemma allow_confined: "confined I as_store tid (\<lambda>_. has_capability (pr_role p) cap) (allow cap p)"
  by (auto simp: allow_def require_capability_def intro: confined_raise confined_return)

lemma allow_any: "confined I as_store tid (\<lambda>_. True) (allow cap p)"
  by (rule confined_any [OF allow_confined])

lemma require_tenant_confined: "confined I id tid (\<lambda>t. t_id t = tid') (require_tenant tid')"
  by (auto simp: confined_def require_tenant_def op_simps dest: get_tenant_Some split: option.split)

lemma home_confined: "confined I as_store tid (\<lambda>t. t_id t = pr_tenant p) (home_tenant p)"
  unfolding home_tenant_def by (rule on_db_confined [OF require_tenant_confined])

lemma resolve_confined:
  assumes "\<not> has_capability (pr_role p) CAP_ADMIN_TENANTS"
  shows "confined I as_store tid (\<lambda>t. t_id t = pr_tenant p) (resolve_tenant p requested)"
  using assms home_confined unfolding resolve_tenant_def
  by (auto intro: confined_bind [OF allow_confined])

lemma read_any: "confined I get tid (\<lambda>_. True) (readE f)"
  by (rule confined_read) simp

lemma view_confined: "confined I as_store tid (\<lambda>_. True) (view_action cfg t a)"
  unfolding view_action_def by (intro confined_bind [OF read_any] confined_return) simp

lemma required_confined:
  "confined I as_store tid (\<lambda>_. True) (require_finding tid' fid)" "confined I as_store tid (\<lambda>_. True) (require_stored_action tid' aid)"
  unfolding require_finding_def require_stored_action_def
  by (auto intro!: confined_bind [OF read_any] confined_raise confined_return split: option.split)

lemma transition_confined: "confined I as_store (pr_tenant p) (\<lambda>_. True) (transition c p fid st what comment res ctx)"
  unfolding transition_def
  by (intro confined_bind [OF home_confined] confined_bind [OF required_confined(1)]
      confined_bind [OF on_db_confined [OF store_confined(2)]] confined_bind [OF on_db_confined [OF record_change_confined]]
      confined_return) simp

lemma assert_confined: "confined I as_store tid (\<lambda>_. True) (assert_transition st tr)"
  by (simp add: assert_transition_def Let_def confined_return confined_raise)

lemma keys_audited: "confined I ks_store tid (\<lambda>_. True) (on_keys (record_audit tid who what role target before after ctx now))"
  by (intro on_keys_confined conf)

lemma stored_key_confined: "confined I ks_store (k_tenant k) (\<lambda>_. True) (store_key k who role now)"
proof -
  have "confined I ks_store (k_tenant k) (\<lambda>_. True) (on_keys (insert_api_key k))"
    by (intro on_keys_confined local_confined local_insert_api_key)
  then show ?thesis
    unfolding store_key_def by (intro confined_bind [OF _ confined_bind [OF keys_audited confined_return]]) simp_all
qed

lemma key_created_confined: "confined I ks_store tid (\<lambda>_. True) (create cfg u tok tid r label who role now)"
proof -
  have stored: "confined I ks_store tid (\<lambda>_. True) (bindE (store_key k who role now) f)"
    if "k_tenant k = tid" "\<And>x. f x = returnE y" for k f y
    using stored_key_confined [where k = k] that by (auto intro!: confined_bind confined_return)
  have found: "confined I ks_store tid (\<lambda>t. \<forall>t'. t = Some t' \<longrightarrow> t_id t' = tid) (readE (\<lambda>s. get_tenant tid (ks_store s)))"
    by (intro confined_read) (auto dest: get_tenant_Some)
  show ?thesis
    unfolding create_def Let_def
    by (rule confined_bind [OF found]) (auto intro: confined_raise stored simp: new_key_record_def split: option.split)
qed

lemma key_revoked_confined:
  assumes "tid \<noteq> []"
  shows "confined I ks_store tid (\<lambda>_. True) (revoke kid (Some tid) who now)"
proof -
  have rev: "confined I ks_store tid (\<lambda>_. True) (on_keys (revoke_api_key kid (Some tid) now))"
    using assms by (intro on_keys_confined local_confined local_revoke_api_key)
  have cleared: "confined I ks_store tid (\<lambda>_. True) (writeE (\<lambda>s. s\<lparr>ks_cache := []\<rparr>))"
    by (rule confined_write) simp
  have noted: "confined I ks_store tid (\<lambda>_. True)
      (if b then bindE (on_keys (record_audit tid who ''key.revoke'' ''admin'' [(''type'', PStr ''api_key''), (''id'', PStr kid)]
          [(''revoked_at'', PNone)] [(''revoked_at'', PStr (iso_z now))] [] now)) (\<lambda>_. returnE ())
       else returnE ())" for b
    by (simp add: confined_bind [OF keys_audited] confined_return)
  have "confined I ks_store tid (\<lambda>_. True) (bindE (on_keys (revoke_api_key kid (Some tid) now)) (\<lambda>revoked.
      bindE (writeE (\<lambda>s. s\<lparr>ks_cache := []\<rparr>)) (\<lambda>_.
      bindE (if revoked then bindE (on_keys (record_audit tid who ''key.revoke'' ''admin''
          [(''type'', PStr ''api_key''), (''id'', PStr kid)] [(''revoked_at'', PNone)] [(''revoked_at'', PStr (iso_z now))] [] now))
          (\<lambda>_. returnE ()) else returnE ()) (\<lambda>_. returnE revoked))))"
    by (intro confined_bind [OF rev] confined_bind [OF cleared] confined_bind [OF noted] confined_return) simp
  then show ?thesis
    unfolding revoke_def
    by (intro confined_bind [OF read_any]) (auto simp: opt_truthy_def assms intro: confined_raise split: option.split)
qed

subsection \<open>Ingestion through the API\<close>

lemma tenant_ok_nonempty: "event_tenant_ok tid \<Longrightarrow> tid \<noteq> []"
  by (auto simp: event_tenant_ok_def validate_event_tenant_def Let_def split: if_splits)

lemma read_event_tenant: "read_event schema tid eid now item = Inr ev \<Longrightarrow> event_tenant_ok tid \<Longrightarrow> ev_tenant ev = tid"
  by (auto simp: read_event_def event_tenant_ok_def Let_def split: sum.splits)

abbreviation as_ids :: "api_state \<Rightarrow> nat" where
  "as_ids s \<equiv> en_ids (pp_engine (as_pipe s))"

text \<open>
  The identifiers of the events a request sends: those the schema reads from its items, or those the service draws for
  items without one.
\<close>

definition item_ids :: "api_config \<Rightarrow> string \<Rightarrow> time \<Rightarrow> nat \<Rightarrow> pyval list \<Rightarrow> string set" where
  "item_ids cfg tid now k vs =
     {ev_id ev | ev item eid. PDict item \<in> set vs \<and> eid \<in> drawn_from (pg_world (ap_pipe cfg)) k
        \<and> read_event (ap_schema cfg) tid eid now item = Inr ev}"

definition sent_ids :: "api_config \<Rightarrow> api_call \<Rightarrow> principal \<Rightarrow> api_state \<Rightarrow> request \<Rightarrow> string set" where
  "sent_ids cfg c p s req =
     (case req of
        R_ingest payload \<Rightarrow> item_ids cfg (pr_tenant p) (cl_now c) (as_ids s) (extract_events payload)
      | _ \<Rightarrow> {})"

lemma item_ids_tail: "j \<le> k \<Longrightarrow> item_ids cfg tid now k vs \<subseteq> item_ids cfg tid now j (v # vs)"
  using drawn_from_mono [of j k "pg_world (ap_pipe cfg)"] unfolding item_ids_def by simp blast

lemma item_ids_head:
  "read_event (ap_schema cfg) tid (''ev_'' @ w_uuid (pg_world (ap_pipe cfg)) k) now item = Inr ev
     \<Longrightarrow> ev_id ev \<in> item_ids cfg tid now k (PDict item # vs)"
  by (auto simp: item_ids_def drawn_from_def)

lemma api_new_id:
  obtains s1 where "on_pipe (on_engine (new_id w pre)) s = (Inr (pre @ w_uuid w (as_ids s)), s1)" and "as_store s1 = as_store s"
    and "as_ids s1 = Suc (as_ids s)"
  by (simp add: on_pipe_def on_engine_def new_id_def)

lemma read_events_sent:
  assumes "event_tenant_ok tid"
  shows "\<exists>evs errs s'. read_events cfg tid now i vs s = (Inr (evs, errs), s') \<and> as_store s' = as_store s
     \<and> (\<forall>ev \<in> set evs. ev_tenant ev = tid \<and> ev_id ev \<in> item_ids cfg tid now (as_ids s) vs)"
proof (induction vs arbitrary: i s)
  case (Cons v vs)
  have skipped: "\<exists>evs errs s'. bindE (read_events cfg tid now (Suc i) vs) (\<lambda>(evs, errs). returnE (evs, x # errs)) s
      = (Inr (evs, errs), s') \<and> as_store s' = as_store s
      \<and> (\<forall>ev \<in> set evs. ev_tenant ev = tid \<and> ev_id ev \<in> item_ids cfg tid now (as_ids s) (v # vs))" for x
  proof -
    obtain evs errs s1 where o1: "read_events cfg tid now (Suc i) vs s = (Inr (evs, errs), s1)" "as_store s1 = as_store s"
        "\<forall>ev \<in> set evs. ev_tenant ev = tid \<and> ev_id ev \<in> item_ids cfg tid now (as_ids s) vs"
      using Cons.IH by blast
    then show ?thesis
      using item_ids_tail [of "as_ids s" "as_ids s" cfg tid now vs v] by (auto simp: bindE_def o1(1) returnE_def)
  qed
  show ?case
  proof (cases v)
    case (PDict item)
    obtain s1 where s1: "on_pipe (on_engine (new_id (pg_world (ap_pipe cfg)) ''ev_'')) s
          = (Inr (''ev_'' @ w_uuid (pg_world (ap_pipe cfg)) (as_ids s)), s1)"
        "as_store s1 = as_store s" "as_ids s1 = Suc (as_ids s)"
      by (rule api_new_id)
    obtain evs errs s2 where s2: "read_events cfg tid now (Suc i) vs s1 = (Inr (evs, errs), s2)" "as_store s2 = as_store s1"
        "\<forall>ev \<in> set evs. ev_tenant ev = tid \<and> ev_id ev \<in> item_ids cfg tid now (as_ids s1) vs"
      using Cons.IH by blast
    let ?r = "read_event (ap_schema cfg) tid (''ev_'' @ w_uuid (pg_world (ap_pipe cfg)) (as_ids s)) now item"
    have tl: "\<forall>ev \<in> set evs. ev_tenant ev = tid \<and> ev_id ev \<in> item_ids cfg tid now (as_ids s) (v # vs)"
      using s2(3) item_ids_tail [of "as_ids s" "as_ids s1" cfg tid now vs v] s1(3) by auto
    have "read_events cfg tid now i (v # vs) s =
        (Inr (case ?r of Inl es \<Rightarrow> (evs, invalid_event i es # errs) | Inr ev \<Rightarrow> (ev # evs, errs)), s2)"
      using s1(1) s2(1) by (simp add: PDict bindE_def returnE_def)
    moreover have "\<forall>ev \<in> set (fst (case ?r of Inl es \<Rightarrow> (evs, invalid_event i es # errs) | Inr ev \<Rightarrow> (ev # evs, errs))).
        ev_tenant ev = tid \<and> ev_id ev \<in> item_ids cfg tid now (as_ids s) (v # vs)"
      using tl read_event_tenant [OF _ assms] item_ids_head [of cfg tid "as_ids s" now item _ vs]
      unfolding PDict by (cases ?r) auto
    ultimately show ?thesis using s1(2) s2(2) by (cases ?r) auto
  qed (use skipped in simp_all)
qed (simp add: returnE_def)

lemma ingest_route_apart:
  assumes "event_tenant_ok (pr_tenant p)"
  shows "apart (item_ids cfg (pr_tenant p) (cl_now c) (as_ids s) (extract_events payload)) (pr_tenant p)
     (as_store s) (as_store (snd (ingest_events cfg c p payload s)))"
proof -
  let ?I = "item_ids cfg (pr_tenant p) (cl_now c) (as_ids s) (extract_events payload)"
  have allowed: "\<exists>r. allow CAP_WRITE_EVENTS p s = (r, s)"
    by (simp add: allow_def require_capability_def raiseE_def returnE_def)
  let ?limit = "on_limiter (RateLimit.check (client_identifier c (Some p)) 1 (tick_seconds (cl_tick c)))"
  obtain r s1 where limit: "?limit s = (r, s1)" by fastforce
  then have s1: "as_store s1 = as_store s" "as_ids s1 = as_ids s" by (auto simp: on_limiter_def split: prod.splits)
  obtain evs errs s2 where s2: "read_events cfg (pr_tenant p) (cl_now c) 0 (extract_events payload) s1 = (Inr (evs, errs), s2)"
      "as_store s2 = as_store s1" "\<forall>ev \<in> set evs. ev_tenant ev = pr_tenant p \<and> ev_id ev \<in> ?I"
    using read_events_sent [OF assms, of cfg "cl_now c" 0 "extract_events payload" s1] s1(2) by auto
  have last: "confined ?I as_store (pr_tenant p) (\<lambda>_. True) (bindE (on_pipe (ingest (ap_pipe cfg) evs (actor p) (pr_role p) True (cl_now c)))
      (\<lambda>o'. returnE (Ans_ingested o' (take 50 errs))))"
    using s2(3) assms by (intro confined_bind [OF on_pipe_confined [OF ingest_confined]] confined_return) auto
  obtain q where "allow CAP_WRITE_EVENTS p s = (q, s)" using allowed by blast
  then show ?thesis
    using confined_at [OF last, of s2] s1(1) s2(1,2) limit
    by (cases q; cases r) (auto simp: ingest_events_def Let_def bindE_def limit s2(1) raiseE_def)
qed

lemma engine_confined: "confined I en_store tid Q m \<Longrightarrow> confined I as_store tid Q (on_pipe (on_engine m))"
  by (simp add: on_pipe_confined on_engine_confined)

text \<open>An engine's operation on the tenant of the caller, followed by the view of its result.\<close>

lemma home_engine_confined:
  assumes "\<And>t. t_id t = pr_tenant p \<Longrightarrow> confined I en_store (t_id t) (owned (t_id t)) (m t)"
    and "\<And>t a. confined I as_store (pr_tenant p) (\<lambda>_. True) (k t a)"
  shows "confined I as_store (pr_tenant p) (\<lambda>_. True) (bindE (allow cap p) (\<lambda>_. bindE (home_tenant p) (\<lambda>t.
      bindE (on_pipe (on_engine (m t))) (k t))))"
proof (intro confined_bind [OF allow_any] confined_bind [OF home_confined])
  fix t :: tenant assume t: "t_id t = pr_tenant p"
  then have "confined I as_store (pr_tenant p) (owned (pr_tenant p)) (on_pipe (on_engine (m t)))"
    using engine_confined [OF assms(1) [OF t]] by simp
  then show "confined I as_store (pr_tenant p) (\<lambda>_. True) (bindE (on_pipe (on_engine (m t))) (k t))"
    by (rule confined_bind) (rule assms(2))
qed

lemma plan_route_confined: "confined I as_store (pr_tenant p) (\<lambda>_. True) (plan_action cfg c p b)"
proof -
  have found: "confined I as_store (pr_tenant p) (\<lambda>_. True) (if opt_truthy x
      then bindE (require_finding (pr_tenant p) y) (\<lambda>f. returnE (Some f)) else returnE None)" for x y
    by (auto intro: confined_return confined_bind [OF required_confined(1)])
  have planned: "confined I as_store (pr_tenant p) (owned (pr_tenant p))
      (on_pipe (on_engine (plan (ap_actions cfg) (pg_world (ap_pipe cfg)) t (actor p) (pr_role p) q (cl_now c))))"
    if "t_id t = pr_tenant p" for t q
    using plan_confined [where t = t, THEN engine_confined] that by simp
  show ?thesis
    unfolding plan_action_def
    by (intro confined_bind [OF allow_any] confined_bind [OF home_confined] confined_bind [OF found] confined_bind [OF planned]
        view_confined)
qed

lemma execute_route_confined: "confined I as_store (pr_tenant p) (\<lambda>_. True) (execute_action cfg c p aid)"
proof -
  have run: "confined I as_store (pr_tenant p) (owned (pr_tenant p))
      (on_pipe (on_engine (execute (ap_actions cfg) (pg_world (ap_pipe cfg)) t aid (actor p) (pr_role p) (cl_now c))))"
    if "t_id t = pr_tenant p" for t
    using execute_confined [where t = t, THEN engine_confined] that by simp
  show ?thesis
    unfolding execute_action_def
    by (intro confined_bind [OF allow_any] confined_bind [OF home_confined] confined_bind [OF required_confined(2)]
        confined_bind [OF run] confined_bind [OF read_any] confined_return) simp
qed

lemma action_routes_confined:
  "confined I as_store (pr_tenant p) (\<lambda>_. True) (approve_action cfg c p aid x)"
  "confined I as_store (pr_tenant p) (\<lambda>_. True) (reject_action cfg c p aid x)"
  "confined I as_store (pr_tenant p) (\<lambda>_. True) (rollback_action cfg c p aid x)"
  unfolding approve_action_def reject_action_def rollback_action_def
  by (intro home_engine_confined approve_confined reject_confined rollback_confined view_confined)+

lemma triage_confined:
  "confined I as_store (pr_tenant p) (\<lambda>_. True) (ack_finding c p fid x)"
  "confined I as_store (pr_tenant p) (\<lambda>_. True) (close_finding c p fid r x)"
  unfolding ack_finding_def close_finding_def
  by (intro confined_bind [OF allow_any] confined_bind [OF required_confined(1)] confined_bind [OF assert_confined]
      confined_bind [OF transition_confined] confined_return; simp)+

lemma suppress_confined: "confined I as_store (pr_tenant p) (\<lambda>_. True) (suppress_finding cfg c p fid n x k)"
  unfolding suppress_finding_def Let_def
  by (intro confined_bind [OF allow_any] confined_bind [OF required_confined(1)] confined_bind [OF assert_confined]
      confined_bind [OF engine_confined [OF engine_steps_confined(1)]] confined_bind [OF on_db_confined [OF store_confined(6)]]
      confined_bind [OF transition_confined] confined_return) simp

lemma read_routes_confined:
  "confined I as_store tid (\<lambda>_. True) (list_actions_route p st pb f n k)"
  "confined I as_store tid (\<lambda>_. True) (list_findings_route p query srt n fk)"
  "confined I as_store tid (\<lambda>_. True) (list_events_route p equery n k)"
  "confined I as_store tid (\<lambda>_. True) (get_event_route p eid)"
  "confined I as_store tid (\<lambda>_. True) (list_tenants_route p)"
  "confined I as_store tid (\<lambda>_. True) (list_audit_route p what who since until n ak)"
  "confined I as_store tid (\<lambda>_. True) (verify_audit_route p)"
  unfolding list_actions_route_def list_findings_route_def list_events_route_def get_event_route_def list_tenants_route_def
    list_audit_route_def verify_audit_route_def
  by (auto intro!: confined_bind [OF allow_any] confined_bind [OF read_any] confined_return confined_raise split: option.split)

lemma detail_routes_confined:
  "confined I as_store tid (\<lambda>_. True) (get_action_route cfg p aid)"
  "confined I as_store tid (\<lambda>_. True) (get_finding_route cfg c p fid)"
proof -
  have "confined I as_store tid (\<lambda>_. True) (current_decision cfg c f t)" for f t
    unfolding current_decision_def by (intro on_pipe_confined) (simp add: confined_def split: prod.split)
  then show "confined I as_store tid (\<lambda>_. True) (get_finding_route cfg c p fid)"
    unfolding get_finding_route_def
    by (intro confined_bind [OF allow_any] confined_bind [OF required_confined(1)] confined_bind [OF read_any]
        confined_bind [OF home_confined] confined_return confined_bind [where P = "\<lambda>_. True"]) simp_all
  show "confined I as_store tid (\<lambda>_. True) (get_action_route cfg p aid)"
    unfolding get_action_route_def
    by (intro confined_bind [OF allow_any] confined_bind [OF required_confined(2)] confined_bind [OF home_confined] view_confined)
qed

lemma admin_routes_confined:
  assumes "\<not> has_capability (pr_role p) CAP_ADMIN_TENANTS"
  shows "confined I as_store tid (\<lambda>_. True) (create_tenant c p b)"
    and "confined I as_store tid (\<lambda>_. True) (update_tenant_route c p x changes)"
    and "confined I as_store tid (\<lambda>_. True) (get_tenant_route p x)"
    and "confined I as_store tid (\<lambda>_. True) (list_keys_route p x)"
  using assms unfolding create_tenant_def update_tenant_route_def get_tenant_route_def list_keys_route_def
  by (auto intro!: confined_bind [OF allow_confined] confined_bind [OF resolve_confined] confined_bind [OF read_any] confined_return)

lemma key_routes_confined:
  assumes "\<not> has_capability (pr_role p) CAP_ADMIN_TENANTS" and "pr_tenant p \<noteq> []"
  shows "confined I as_store (pr_tenant p) (\<lambda>_. True) (create_key cfg c p x r l)"
    and "confined I as_store (pr_tenant p) (\<lambda>_. True) (revoke_key c p kid)"
proof -
  have "confined I as_store (pr_tenant p) (\<lambda>_. True) (on_auth (create (ap_auth cfg) u tok (pr_tenant p) r l who role now))"
    for u tok who role now
    by (simp add: on_auth_confined key_created_confined)
  then show "confined I as_store (pr_tenant p) (\<lambda>_. True) (create_key cfg c p x r l)"
    unfolding create_key_def
    by (intro confined_bind [OF allow_any] confined_bind [OF resolve_confined [OF assms(1)]])
       (auto intro!: confined_bind [where P = "\<lambda>_. True"] confined_return)
  show "confined I as_store (pr_tenant p) (\<lambda>_. True) (revoke_key c p kid)"
    unfolding revoke_key_def
    by (intro confined_bind [OF allow_any] confined_bind [OF on_auth_confined [OF key_revoked_confined [OF assms(2)]]]
        confined_return) simp
qed

lemma library_routes_confined:
  "confined I as_store (pr_tenant p) (\<lambda>_. True) (reload_rules_route cfg c p)"
  "confined I as_store (pr_tenant p) (\<lambda>_. True) (reload_policies_route cfg c p)"
  "confined I as_store (pr_tenant p) (\<lambda>_. True) (export_audit_route c p fmt n since)"
proof -
  have audited: "confined I as_store (pr_tenant p) (\<lambda>_. True)
      (on_db (record_audit (pr_tenant p) who what role target before after ctx now))" for who what role target before after ctx now
    by (intro on_db_confined conf)
  have noted: "confined I as_store (pr_tenant p) (\<lambda>_. True) (audit_reload c p what kind n diags)" for what kind n diags
    unfolding audit_reload_def by (intro confined_bind [OF audited] confined_return) simp
  have loaded: "confined I as_store (pr_tenant p) (\<lambda>_. True) (service_reload_rules cfg c)"
    "confined I as_store (pr_tenant p) (\<lambda>_. True) (service_reload_policies cfg c)"
    by (auto simp: confined_def service_reload_rules_def service_reload_policies_def split: sum.split prod.split)
  show "confined I as_store (pr_tenant p) (\<lambda>_. True) (reload_rules_route cfg c p)"
    "confined I as_store (pr_tenant p) (\<lambda>_. True) (reload_policies_route cfg c p)"
    unfolding reload_rules_route_def reload_policies_route_def
    by (auto intro!: confined_bind [OF allow_any] confined_bind [OF loaded(1)] confined_bind [OF loaded(2)] noted)
  show "confined I as_store (pr_tenant p) (\<lambda>_. True) (export_audit_route c p fmt n since)"
    unfolding export_audit_route_def
    by (intro confined_bind [OF allow_any] confined_bind [OF read_any] confined_bind [OF audited] confined_return) simp
qed

lemmas routes_confined =
  plan_route_confined execute_route_confined action_routes_confined triage_confined suppress_confined read_routes_confined
  detail_routes_confined admin_routes_confined key_routes_confined library_routes_confined

lemma route_apart:
  assumes "\<not> has_capability (pr_role p) CAP_ADMIN_TENANTS" and "event_tenant_ok (pr_tenant p)"
  shows "apart (sent_ids cfg c p s req) (pr_tenant p) (as_store s) (as_store (snd (route cfg c p req s)))"
proof (cases "\<exists>payload. req = R_ingest payload")
  case True
  then show ?thesis using ingest_route_apart [OF assms(2)] by (auto simp: sent_ids_def)
next
  case False
  note t = tenant_ok_nonempty [OF assms(2)]
  from False have "confined {} as_store (pr_tenant p) (\<lambda>_. True) (route cfg c p req)"
    by (cases req) (simp_all add: routes_confined assms t)
  moreover have "sent_ids cfg c p s req = {}" using False by (cases req) (simp_all add: sent_ids_def)
  ultimately show ?thesis by (simp add: confined_def)
qed

text \<open>C5: Isolation of tenants: whatever a caller without the administration of tenants asks of any route, the rows of
  every other tenant (its configuration, keys, events, findings, actions, journal, suppressions and runs of collectors)
  are what they were, but for one thing: a request that sends events may set the mark that an event was processed on
  another tenant's event that bears the identifier of one it sends (or one that is drawn for an event it sends without
  any), for the marking goes by the identifier alone.  The comparison leaves that mark out for those identifiers; the
  marks of all other events are compared, and no other route changes any.\<close>

theorem caller_confined_to_tenant:
  assumes "\<not> has_capability (pr_role p) CAP_ADMIN_TENANTS" and "event_tenant_ok (pr_tenant p)" and "b \<noteq> pr_tenant p"
  shows "rows_but (sent_ids cfg c p s req) b (as_store (snd (route cfg c p req s))) = rows_but (sent_ids cfg c p s req) b (as_store s)"
  using route_apart [OF assms(1,2)] assms(3) by (simp add: apart_def)

subsection \<open>Triage of findings\<close>

lemma same_store: "s\<lparr>as_pipe := (as_pipe s)\<lparr>pp_engine := (pp_engine (as_pipe s))\<lparr>en_store := as_store s\<rparr>\<rparr>\<rparr> = (s :: api_state)"
proof -
  have "e\<lparr>en_store := en_store e\<rparr> = e" for e :: engine_state by (cases e) simp
  moreover have "q\<lparr>pp_engine := pp_engine q\<rparr> = q" for q :: pipeline_state by (cases q) simp
  moreover have "s\<lparr>as_pipe := as_pipe s\<rparr> = s" by (cases s) simp
  ultimately show ?thesis by simp
qed

lemma on_db_step:
  "on_db m s = (case m (as_store s) of (r, st) \<Rightarrow> (r, s\<lparr>as_pipe := with_store st (as_pipe s)\<rparr>))"
  by (simp add: on_db_def on_pipe_def on_data_def on_engine_def on_store_def with_store_def split: prod.split)

lemma home_step:
  "home_tenant p s = (case get_tenant (pr_tenant p) (as_store s) of None \<Rightarrow> (Inl (unknown_tenant_error (pr_tenant p)), s) | Some t \<Rightarrow> (Inr t, s))"
  by (simp add: home_tenant_def on_db_step require_tenant_def op_simps with_store_def same_store unknown_tenant_error_def split: option.split)

lemma require_finding_step:
  "require_finding tid fid s = (case get_finding tid fid (as_store s) of None \<Rightarrow> (Inl (missing_finding fid), s) | Some f \<Rightarrow> (Inr f, s))"
  by (simp add: require_finding_def op_simps split: option.split)

lemma with_store_store [simp]: "pp_store (with_store st q) = st"
  by (simp add: with_store_def)

definition findable :: "string \<Rightarrow> string \<Rightarrow> store \<Rightarrow> finding option" where
  "findable tid fid st = find (\<lambda>f. f_id f = fid \<and> f_tenant f = tid) (st_findings st)"

lemma found_row: "get_finding tid fid st = map_option row_to_finding (findable tid fid st)"
  by (simp add: get_finding_def findable_def)

lemma row_checks:
  assumes "store_ok st" and "findable tid fid st = Some f"
  shows "finding_checks f" and "get_tenant tid st \<noteq> None"
proof -
  have "f \<in> set (st_findings st)" "f_tenant f = tid"
    using assms(2) by (auto simp: findable_def find_Some_iff)
  then show "finding_checks f" "get_tenant tid st \<noteq> None"
    using assms(1) by (auto simp: store_ok_def list_all_iff get_tenant_None)
qed

lemma found_after_update:
  assumes "findable tid fid st = Some f" and "f_id g = fid" and "f_tenant g = tid"
  shows "findable tid fid (st\<lparr>st_findings := update_where (\<lambda>h. f_id h = fid \<and> f_tenant h = tid) (\<lambda>_. g) (st_findings st)\<rparr>) = Some g"
proof -
  have "find P (update_where P (\<lambda>_. g) xs) = Some g" if "P g" "find P xs \<noteq> None" for P xs
    using that by (induction xs) (auto simp: update_where_def)
  then show ?thesis using assms by (simp add: findable_def)
qed

definition triaged :: "finding_status \<Rightarrow> string \<Rightarrow> string option \<Rightarrow> time \<Rightarrow> finding \<Rightarrow> finding" where
  "triaged status comment resolution now f =
     f\<lparr>f_status := status, f_comment := (if comment = [] then f_comment f else Some comment),
       f_resolution := (case resolution of None \<Rightarrow> f_resolution f | Some r \<Rightarrow> Some r), f_updated_at := to_millis now\<rparr>"

lemma triaged_fields:
  "(fold set_finding_field (FF_status status # (if comment = [] then [] else [FF_comment comment])
      @ (case resolution of None \<Rightarrow> [] | Some r \<Rightarrow> [FF_resolution r])) f)\<lparr>f_updated_at := to_millis now\<rparr>
    = triaged status comment resolution now f"
  by (simp add: triaged_def split: option.split)

lemma transition_step:
  assumes "store_ok (as_store s)" and "findable (pr_tenant p) fid (as_store s) = Some f"
  shows "\<exists>r. transition c p fid status what comment resolution ctx s =
    (Inr (row_to_finding (triaged status comment resolution (cl_now c) f)),
     s\<lparr>as_pipe := with_store ((as_store s)\<lparr>st_findings := update_where (\<lambda>g. f_id g = fid \<and> f_tenant g = pr_tenant p)
         (\<lambda>_. triaged status comment resolution (cl_now c) f) (st_findings (as_store s)),
       st_audit := st_audit (as_store s) @ [r], st_seq := st_seq (as_store s) + 1\<rparr>) (as_pipe s)\<rparr>)"
proof -
  obtain t where t: "get_tenant (pr_tenant p) (as_store s) = Some t" using row_checks(2) [OF assms] by blast
  have checks: "finding_checks (triaged status comment resolution (cl_now c) f)"
    using row_checks(1) [OF assms] by (simp add: finding_checks_def triaged_def)
  have upd: "update_finding (pr_tenant p) fid (FF_status status # (if comment = [] then [] else [FF_comment comment])
      @ (case resolution of None \<Rightarrow> [] | Some r \<Rightarrow> [FF_resolution r])) (cl_now c) (as_store s) =
    (Inr (row_to_finding (triaged status comment resolution (cl_now c) f)),
     (as_store s)\<lparr>st_findings := update_where (\<lambda>g. f_id g = fid \<and> f_tenant g = pr_tenant p)
       (\<lambda>_. triaged status comment resolution (cl_now c) f) (st_findings (as_store s))\<rparr>)"
    using assms(2) checks unfolding update_finding_def findable_def triaged_fields by (simp only: option.case Let_def if_True simp_thms not_True_eq_False if_False)
  show ?thesis
    unfolding transition_def bindE_def home_step t option.case prod.case sum.case require_finding_step found_row assms(2)
      option.map on_db_step upd
    by (simp add: record_state_change_def record_audit_def append_audit_def Let_def with_store_def returnE_def)
       (rule exI, rule refl)
qed

lemma closing_step:
  assumes "has_capability (pr_role p) CAP_WRITE_FINDINGS"
  shows "close_finding c p fid res comment s =
    (case findable (pr_tenant p) fid (as_store s) of
       None \<Rightarrow> (Inl (missing_finding fid), s)
     | Some f \<Rightarrow> (case assert_transition (f_status f) ''close'' s of
         (Inl e, s') \<Rightarrow> (Inl e, s')
       | (Inr _, s') \<Rightarrow> (case transition c p fid Closed ''finding.close'' comment (Some res) [] s' of
           (Inl e, s') \<Rightarrow> (Inl e, s') | (Inr u, s') \<Rightarrow> (Inr (Ans_status u), s'))))"
  using assms
  by (simp add: close_finding_def allow_def require_capability_def bindE_def returnE_def require_finding_step found_row
      row_to_finding_def split: option.split prod.split sum.split)

text \<open>Closing a finding succeeds exactly for a caller who may write findings, on a finding of its tenant that is not
  closed; it is then closed with the resolution given and one entry is added to the journal, and a refused request leaves
  the service as it was.\<close>

theorem close_exact:
  assumes "store_ok (as_store s)"
  shows "case route cfg c p (R_close fid res comment) s of
      (Inl e, s') \<Rightarrow> s' = s \<and> \<not> (has_capability (pr_role p) CAP_WRITE_FINDINGS \<and>
        (\<exists>f. get_finding (pr_tenant p) fid (as_store s) = Some f \<and> f_status f \<noteq> Closed))
    | (Inr ans, s') \<Rightarrow> has_capability (pr_role p) CAP_WRITE_FINDINGS \<and>
        (\<exists>f. get_finding (pr_tenant p) fid (as_store s) = Some f \<and> f_status f \<noteq> Closed) \<and>
        (\<exists>g. get_finding (pr_tenant p) fid (as_store s') = Some g \<and> f_status g = Closed \<and> f_resolution g = Some res) \<and>
        length (st_audit (as_store s')) = Suc (length (st_audit (as_store s)))"
proof (cases "has_capability (pr_role p) CAP_WRITE_FINDINGS")
  case cap: True
  show ?thesis
  proof (cases "findable (pr_tenant p) fid (as_store s)")
    case (Some f)
    have same: "f_id f = fid" "f_tenant f = pr_tenant p" using Some by (auto simp: findable_def find_Some_iff)
    obtain r where r: "transition c p fid Closed ''finding.close'' comment (Some res) [] s =
        (Inr (row_to_finding (triaged Closed comment (Some res) (cl_now c) f)),
         s\<lparr>as_pipe := with_store ((as_store s)\<lparr>st_findings := update_where (\<lambda>g. f_id g = fid \<and> f_tenant g = pr_tenant p)
             (\<lambda>_. triaged Closed comment (Some res) (cl_now c) f) (st_findings (as_store s)),
           st_audit := st_audit (as_store s) @ [r], st_seq := st_seq (as_store s) + 1\<rparr>) (as_pipe s)\<rparr>)"
      using transition_step [OF assms Some] by blast
    have after: "findable (pr_tenant p) fid ((as_store s)\<lparr>st_findings := update_where (\<lambda>g. f_id g = fid \<and> f_tenant g = pr_tenant p)
        (\<lambda>_. triaged Closed comment (Some res) (cl_now c) f) (st_findings (as_store s)),
        st_audit := a, st_seq := n\<rparr>) = Some (triaged Closed comment (Some res) (cl_now c) f)" for a n
      using found_after_update [OF Some, of "triaged Closed comment (Some res) (cl_now c) f"] same
      by (simp add: findable_def triaged_def)
    show ?thesis
    proof (cases "f_status f = Closed")
      case True
      then show ?thesis
        by (simp add: closing_step cap Some assert_transition_def TRANSITIONS_def Let_def raiseE_def found_row row_to_finding_def)
    next
      case False
      then have "assert_transition (f_status f) ''close'' s = (Inr (), s)"
        by (cases "f_status f") (simp_all add: assert_transition_def TRANSITIONS_def Let_def returnE_def)
      then show ?thesis
        using False by (simp add: closing_step cap Some r found_row after) (simp add: row_to_finding_def triaged_def)
    qed
  qed (simp add: closing_step cap found_row)
qed (simp add: close_finding_def denied)

subsection \<open>Sample calls\<close>

definition sample_api_config :: api_config where
  "sample_api_config = \<lparr>ap_pipe = sample_pipeline,
     ap_auth = \<lparr>ac_secret_key = ''secret'', ac_session_ttl = 3600, ac_env = ''dev'', ac_demo_tenant = ''acme'', ac_bootstrap_key = []\<rparr>,
     ap_max_batch = 500, ap_schema = (\<lambda>_ _ _. Inr sample_event), ap_yaml = (\<lambda>_. Inr []), ap_rule_schema = (\<lambda>_. Inl []),
     ap_policy_schema = (\<lambda>_. Inl []), ap_rules_path = ''rules'', ap_policies_path = ''policies''\<rparr>"

definition sample_key :: string where
  "sample_key = ''thot_K1_0123456789abcdef''"

definition sample_caller :: "string \<Rightarrow> principal" where
  "sample_caller r = build_principal ''acme'' r (Some ''K1'') ''ci'' True"

definition sample_api :: "string \<Rightarrow> api_state" where
  "sample_api r = \<lparr>as_pipe = with_store ((pp_store (sample_start []))\<lparr>st_findings := [sample_finding]\<rparr>) (sample_start []),
     as_keys = \<lparr>ks_store = empty_store, ks_cache = [(sha256_hex sample_key, sample_caller r, 100)], ks_touched = [],
       ks_authentications = 0, ks_failures = 0\<rparr>,
     as_limiter = rate_limiter_init 60 None, as_rules = [], as_rule_diagnostics = [], as_policies = [],
     as_policy_diagnostics = []\<rparr>"

definition sample_call :: api_call where
  "sample_call = \<lparr>cl_now = 7, cl_tick = 7, cl_api_key = Some sample_key, cl_authorization = None, cl_forwarded = [],
     cl_host = None, cl_uuid = ''0'', cl_token = ''t'', cl_request_id = None, cl_rule_files = None, cl_policy_files = None\<rparr>"

lemma sample_header: "header_key (Some sample_key) None = Some sample_key"
  by code_simp

lemma sample_key_text: "sample_key \<noteq> []"
  by (simp add: sample_key_def)

lemma sample_authenticated:
  "\<exists>s1. current_principal sample_api_config sample_call (sample_api r) = (Inr (sample_caller r), s1)"
  by (simp add: current_principal_def sample_call_def sample_header opt_truthy_def sample_key_text on_auth_def
      authenticate_def op_simps read_cache_def sample_api_def Let_def)

lemma viewer_caps: "\<not> has_capability ''viewer'' ''execute:actions''" "\<not> has_capability ''responder'' CAP_ADMIN_TENANTS"
  by code_simp+

theorem unauthorised_request_inert_witness:
  "rs_status (fst (serve sample_api_config sample_call (R_execute ''a1'') (sample_api ''viewer''))) = 403"
proof -
  obtain s1 where "current_principal sample_api_config sample_call (sample_api ''viewer'') = (Inr (sample_caller ''viewer''), s1)"
    using sample_authenticated by blast
  from unauthorised_request_inert [OF this, of "R_execute ''a1''"] show ?thesis
    by (simp add: sample_caller_def build_principal_def needed_def viewer_caps)
qed

text \<open>A request that sends no event leaves another tenant's rows whole, marks included.\<close>

theorem caller_confined_to_tenant_witness:
  "\<forall>s. tenant_view ''beta'' (as_store (snd (route sample_api_config sample_call (sample_caller ''responder'') (R_execute ''a1'') s)))
    = tenant_view ''beta'' (as_store s)"
proof
  fix s
  have "\<not> has_capability (pr_role (sample_caller ''responder'')) CAP_ADMIN_TENANTS"
    by (simp add: sample_caller_def build_principal_def viewer_caps)
  moreover have "event_tenant_ok (pr_tenant (sample_caller ''responder''))" by code_simp
  moreover have "''beta'' \<noteq> pr_tenant (sample_caller ''responder'')" by (simp add: sample_caller_def build_principal_def)
  ultimately show "tenant_view ''beta'' (as_store (snd (route sample_api_config sample_call (sample_caller ''responder'')
      (R_execute ''a1'') s))) = tenant_view ''beta'' (as_store s)"
    by (rule rows_but_untouched [OF caller_confined_to_tenant]) (simp add: sent_ids_def)
qed

lemma sample_api_ok: "store_ok (as_store (sample_api r))"
  by (simp add: sample_api_def sample_start_def new_pipeline_def sample_state_def store_ok_def empty_store_def sample_tenant_def
      tenant_checks_def tenant_ids_def asked_def sample_action_def finding_exists_def sample_finding_def finding_checks_def)

theorem close_exact_witness:
  "\<exists>g. get_finding ''acme'' ''f1'' (as_store (snd (route sample_api_config sample_call (sample_caller ''analyst'')
     (R_close ''f1'' ''benign'' []) (sample_api ''analyst'')))) = Some g \<and> f_status g = Closed"
proof -
  have p: "pr_tenant (sample_caller ''analyst'') = ''acme''" "pr_role (sample_caller ''analyst'') = ''analyst''"
    by (simp_all add: sample_caller_def build_principal_def)
  have cap: "has_capability ''analyst'' CAP_WRITE_FINDINGS" by code_simp
  have found: "get_finding ''acme'' ''f1'' (as_store (sample_api ''analyst'')) = Some (row_to_finding sample_finding)"
    by (simp add: sample_api_def get_finding_def) (simp add: sample_finding_def)
  have "f_status (row_to_finding sample_finding) = Open" by (simp add: row_to_finding_def sample_finding_def)
  then show ?thesis
    using close_exact [where cfg = sample_api_config and c = sample_call and p = "sample_caller ''analyst''" and fid = "''f1''"
        and res = "''benign''" and comment = "[]", OF sample_api_ok [of "''analyst''"]] found cap
    unfolding p by (auto split: prod.splits sum.splits)
qed

subsection \<open>Limits of the API\<close>

text \<open>Creating a tenant whose identifier exists overwrites its configuration, and the journal records no previous state.\<close>

theorem create_overwrites_tenant:
  assumes "has_capability (pr_role p) CAP_ADMIN_TENANTS" and "body_tenant b (cl_now c) = Inr t" and "tenant_checks t"
    and "get_tenant (t_id t) (as_store s) = Some old"
  shows "\<exists>s' ans r. route cfg c p (R_create_tenant b) s = (Inr ans, s') \<and>
    get_tenant (t_id t) (as_store s') = Some (t\<lparr>t_created_at := t_created_at old, t_updated_at := to_millis (cl_now c)\<rparr>) \<and>
    st_audit (as_store s') = st_audit (as_store s) @ [r] \<and> au_before r = json_column []"
proof -
  let ?st = "write_tenant t (cl_now c) (as_store s)" and ?new = "t\<lparr>t_created_at := t_created_at old, t_updated_at := to_millis (cl_now c)\<rparr>"
  have upd: "find (\<lambda>x. t_id x = k) (update_where (\<lambda>r. t_id r = k) f xs) = Some (f y)"
    if "find (\<lambda>x. t_id x = k) xs = Some y" "\<And>x. t_id (f x) = k" for k xs y and f :: "tenant \<Rightarrow> tenant"
    using that by (induction xs) (auto simp: update_where_def split: if_splits)
  have old: "find (\<lambda>x. t_id x = t_id t) (st_tenants (as_store s)) = Some old" using assms(4) by (simp add: get_tenant_def)
  have new: "get_tenant (t_id t) ?st = Some ?new"
    using upd [OF old, of "\<lambda>r. t\<lparr>t_created_at := t_created_at r, t_updated_at := to_millis (cl_now c)\<rparr>"] assms(4)
    by (simp add: write_tenant_def get_tenant_def)
  have ups: "upsert_tenant t (cl_now c) (as_store s) = (Inr ?new, ?st)"
    using assms(3) new by (simp add: upsert_tenant_def op_simps)
  have kept: "st_audit ?st = st_audit (as_store s)" by (simp add: write_tenant_def)
  have same: "get_tenant k (st\<lparr>st_audit := a, st_seq := n\<rparr>) = get_tenant k st" for k st a n by (simp add: get_tenant_def)
  show ?thesis
    using assms(1,2) new kept
    by (simp add: create_tenant_def allow_def require_capability_def bindE_def returnE_def on_db_step ups record_audit_def
        append_audit_def Let_def same audit_row_def new_audit_def)
qed

text \<open>A tenant identifier the model refuses is answered as an internal error.\<close>

theorem invalid_tenant_internal_error:
  assumes "has_capability (pr_role p) CAP_ADMIN_TENANTS" and "validate_tenant_id (tb_id b) = Inl e"
  shows "\<exists>err. route cfg c p (R_create_tenant b) s = (Inl err, s) \<and> rs_status (handle_error cfg c err) = 500"
  using assms by (simp add: create_tenant_def allow_def require_capability_def bindE_def returnE_def body_tenant_def raiseE_def
      handle_error_def error_response_def)

text \<open>The view of an action says its target is in the declared perimeter as soon as the tenant declares an asset.\<close>

theorem any_asset_declares_scope:
  assumes "ts_assets (for_tenant (de_registry (pp_decision (as_pipe s))) (a_tenant a)) \<noteq> []"
  shows "av_in_scope (action_payload cfg a t s)"
  using assms by (simp add: action_payload_def Let_def)

text \<open>No caller can revoke a key of another tenant, even one it has just created for it.\<close>

theorem foreign_key_not_revocable:
  assumes "get_api_key kid (as_store s) = Some k" and "k_tenant k \<noteq> pr_tenant p" and "pr_tenant p \<noteq> []"
  shows "\<exists>e s'. route cfg c p (R_revoke_key kid) s = (Inl e, s') \<and> st_keys (as_store s') = st_keys (as_store s)"
  using assms
  by (cases "has_capability (pr_role p) CAP_ADMIN_KEYS")
     (simp_all add: revoke_key_def denied, simp add: allow_def require_capability_def bindE_def returnE_def on_auth_def revoke_def
        readE_def raiseE_def opt_truthy_def)

text \<open>The identifier of an event is the client's: an event sent under the identifier of another tenant's is ignored,
  and the other tenant's event is marked as processed.\<close>

theorem foreign_event_marked:
  "\<exists>other s'. er_event other = sample_event\<lparr>ev_tenant := ''beta''\<rparr> \<and> \<not> er_processed other \<and>
     s' = (sample_start [])\<lparr>pp_engine := (sample_state [])\<lparr>en_store := (en_store (sample_state []))\<lparr>st_events := [other]\<rparr>\<rparr>\<rparr> \<and>
     map er_processed (st_events (pp_store (snd (process_event sample_pipeline sample_event 7 s')))) = [True]"
proof -
  have de: "new_detection (\<lambda>_ _. Inl []) [] =
      \<lparr>de_compiled = [], de_by_id = [], de_windows = [], de_evaluated = 0, de_matched = 0, de_suppressed = 0\<rparr>"
    by (simp add: new_detection_def reload_rules_def)
  show ?thesis
    by (intro exI conjI, rule event_row.select_convs(1) [of _ 0 False None], simp, rule refl)
       (simp add: op_simps sample_start_def new_pipeline_def sample_state_def sample_tenant_def sample_event_def
        empty_store_def get_tenant_def de on_data_def on_engine_def on_store_def process_event_def process_body_def
        record_result_def new_result_def react_to_def detect_def evaluate_event_def process_anomalies_def sample_pipeline_def
        mark_events_processed_def mark_chunk_def update_where_def Let_def)
qed

end
