(* ===== verification/Streams.thy ===== *)
theory Streams
  imports Api
begin

section \<open>Streams in real time\<close>

text \<open>
  \<open>api/ws.py\<close> and \<open>api/routers/stream.py\<close>: the registry of the clients of the console, the queue of each, the
  diffusion of a frame by tenant, and the decision to open a stream.  Every operation under the lock is one step; a
  client that takes a frame from its queue is one too.  The transport, the heartbeat's timer and the messages a client
  sends are left out.
\<close>

definition MAX_CLIENTS :: int where "MAX_CLIENTS = 200"
definition CLIENT_QUEUE_SIZE :: nat where "CLIENT_QUEUE_SIZE = 200"

subsection \<open>Clients\<close>

record ws_client =
  ws_id :: string
  ws_tenant :: string
  ws_queue :: "dict list"
  ws_dropped :: int

record manager =
  cm_max :: int
  cm_clients :: "(string \<times> ws_client) list"
  cm_broadcasts :: int
  cm_dropped :: int

definition new_manager :: "int \<Rightarrow> manager" where
  "new_manager n = \<lparr>cm_max = n, cm_clients = [], cm_broadcasts = 0, cm_dropped = 0\<rparr>"

definition push :: "dict \<Rightarrow> ws_client \<Rightarrow> ws_client" where
  "push frame c =
     (let c' = (if CLIENT_QUEUE_SIZE \<le> length (ws_queue c)
                then c\<lparr>ws_queue := tl (ws_queue c), ws_dropped := ws_dropped c + 1\<rparr> else c)
      in if length (ws_queue c') < CLIENT_QUEUE_SIZE then c'\<lparr>ws_queue := ws_queue c' @ [frame]\<rparr> else c')"

definition connect :: "string \<Rightarrow> string \<Rightarrow> manager \<Rightarrow> ws_client option \<times> manager" where
  "connect cid tid m =
     (if cm_max m \<le> int (length (cm_clients m)) then (None, m)
      else let c = \<lparr>ws_id = cid, ws_tenant = tid, ws_queue = [], ws_dropped = 0\<rparr>
           in (Some c, m\<lparr>cm_clients := AList.update cid c (cm_clients m)\<rparr>))"

definition disconnect :: "string \<Rightarrow> manager \<Rightarrow> manager" where
  "disconnect cid m = m\<lparr>cm_clients := AList.delete cid (cm_clients m)\<rparr>"

definition served :: "string option \<Rightarrow> ws_client \<Rightarrow> bool" where
  "served dest c \<longleftrightarrow> (case dest of None \<Rightarrow> True | Some tid \<Rightarrow> ws_tenant c = tid \<or> ws_tenant c = ''*'')"

definition broadcast :: "dict \<Rightarrow> string option \<Rightarrow> manager \<Rightarrow> int \<times> manager" where
  "broadcast frame dest m =
     (let cs = map (\<lambda>(cid, c). (cid, if served dest c then push frame c else c)) (cm_clients m)
      in (int (length (filter (\<lambda>(_, c). served dest c) (cm_clients m))),
          m\<lparr>cm_clients := cs, cm_broadcasts := cm_broadcasts m + 1, cm_dropped := sum_list (map (ws_dropped \<circ> snd) cs)\<rparr>))"

definition stream_stats :: "manager \<Rightarrow> dict" where
  "stream_stats m =
     [(''clients'', PInt (int (length (cm_clients m)))), (''max_clients'', PInt (cm_max m)),
      (''broadcasts'', PInt (cm_broadcasts m)), (''dropped'', PInt (cm_dropped m))]"

subsection \<open>Frames\<close>

definition event_frame :: "time \<Rightarrow> event \<Rightarrow> dict" where
  "event_frame now ev =
     [(''type'', PStr ''event''), (''ts'', PStr (iso_z now)),
      (''data'', PDict
        [(''event_id'', PStr (ev_id ev)), (''kind'', PStr (event_kind_str (ev_kind ev))),
         (''src_ip'', dict_val (ev_labels ev) ''src_ip''), (''path'', dict_val (ev_labels ev) ''path''),
         (''check'', dict_val (ev_labels ev) ''check''), (''source'', PStr (source_type_str (src_type (ev_source ev))))])]"

definition finding_frame :: "time \<Rightarrow> string \<Rightarrow> finding \<Rightarrow> dict" where
  "finding_frame now what f =
     [(''type'', PStr ''finding''), (''event'', PStr what), (''ts'', PStr (iso_z now)),
      (''data'', PDict
        [(''finding_id'', PStr (f_id f)), (''rule_id'', PStr (f_rule_id f)), (''severity'', PStr (severity_str (f_severity f))),
         (''risk_score'', PFloat (f_risk_score f)), (''status'', PStr (finding_status_str (f_status f))),
         (''title'', PStr (f_title f))])]"

definition action_frame :: "time \<Rightarrow> string \<Rightarrow> action \<Rightarrow> dict" where
  "action_frame now what a =
     [(''type'', PStr ''action''), (''event'', PStr what), (''ts'', PStr (iso_z now)),
      (''data'', PDict
        [(''action_id'', PStr (a_id a)), (''playbook'', PStr (a_playbook a)), (''status'', PStr (status_str (a_status a))),
         (''dry_run'', PBool (a_dry_run a)), (''mode'', PStr (action_mode_str (a_mode a))),
         (''target'', PStr (target_str (a_target a))), (''finding_id'', opt_str (a_finding_id a))])]"

definition audit_frame :: "time \<Rightarrow> audit_record \<Rightarrow> dict" where
  "audit_frame now r =
     [(''type'', PStr ''audit''), (''ts'', PStr (iso_z now)),
      (''data'', PDict
        [(''seq'', PInt (au_seq r)), (''action'', PStr (au_action r)), (''actor'', PStr (au_actor r)),
         (''target'', PDict (au_target r))])]"

definition publish_event :: "time \<Rightarrow> event \<Rightarrow> manager \<Rightarrow> manager" where
  "publish_event now ev m = snd (broadcast (event_frame now ev) (Some (ev_tenant ev)) m)"

definition publish_finding :: "time \<Rightarrow> string \<Rightarrow> finding \<Rightarrow> manager \<Rightarrow> manager" where
  "publish_finding now what f m = snd (broadcast (finding_frame now what f) (Some (f_tenant f)) m)"

definition publish_action :: "time \<Rightarrow> string \<Rightarrow> action \<Rightarrow> manager \<Rightarrow> manager" where
  "publish_action now what a m = snd (broadcast (action_frame now what a) (Some (a_tenant a)) m)"

definition publish_audit :: "time \<Rightarrow> audit_record \<Rightarrow> manager \<Rightarrow> manager" where
  "publish_audit now r m = snd (broadcast (audit_frame now r) (Some (au_tenant r)) m)"

definition heartbeat :: "time \<Rightarrow> manager \<Rightarrow> manager" where
  "heartbeat now m =
     snd (broadcast [(''type'', PStr ''heartbeat''), (''ts'', PStr (iso_z now)),
            (''data'', PDict [(''clients'', PInt (int (length (cm_clients m))))])] None m)"

text \<open>\<open>stream_frames\<close>: the oldest frame of the queue, or a heartbeat of the client's own when none came in time.\<close>

definition quiet_frame :: "time \<Rightarrow> dict" where
  "quiet_frame now =
     [(''type'', PStr ''heartbeat''), (''ts'', PStr (iso_z now)), (''data'', PDict [(''quiet'', PBool True)])]"

definition next_frame :: "time \<Rightarrow> string \<Rightarrow> manager \<Rightarrow> dict \<times> manager" where
  "next_frame now cid m =
     (case map_of (cm_clients m) cid of
        None \<Rightarrow> (quiet_frame now, m)
      | Some c \<Rightarrow>
          (case ws_queue c of
             [] \<Rightarrow> (quiet_frame now, m)
           | f # fs \<Rightarrow> (f, m\<lparr>cm_clients := AList.update cid (c\<lparr>ws_queue := fs\<rparr>) (cm_clients m)\<rparr>)))"

subsection \<open>Opening a stream\<close>

record stream_call =
  sq_api_key :: "string option"
  sq_token :: "string option"
  sq_tenant :: "string option"
  sq_types :: "string option"
  sq_client :: string
  sq_now :: time
  sq_tick :: time

datatype stream_outcome =
    Closed_stream int string
  | Opened string principal "string list"
  | Failed exn

definition ALL_TYPES :: "string list" where
  "ALL_TYPES = [''event'', ''finding'', ''action'', ''audit'', ''heartbeat'']"

definition asked_types :: "string option \<Rightarrow> string list" where
  "asked_types types =
     (let names = filter (\<lambda>w. w \<noteq> []) (map str_strip (split_on (CHR '','') (case types of None \<Rightarrow> [] | Some t \<Rightarrow> t)))
      in if names = [] then ALL_TYPES else sort (remdups names))"

text \<open>Who opens the stream: a key before a session; no principal is an authentication that is asked for.\<close>

definition stream_principal :: "api_config \<Rightarrow> stream_call \<Rightarrow> api_state \<Rightarrow> (stream_outcome + principal) \<times> api_state" where
  "stream_principal cfg q s =
     (if opt_truthy (sq_api_key q)
      then case on_auth (authenticate (ap_auth cfg) (sq_api_key q) (sq_tick q) (sq_now q)) s of
             (Inr p, s') \<Rightarrow> (Inr p, s')
           | (Inl (Exn AuthenticationError msg _ _), s') \<Rightarrow> (Inl (Closed_stream 1008 (take 120 msg)), s')
           | (Inl e, s') \<Rightarrow> (Inl (Failed e), s')
      else if opt_truthy (sq_token q)
      then case verify_session (ap_auth cfg) (sq_token q) (sq_now q) (as_store s) of
             Inl e \<Rightarrow> (Inl (Failed e), s)
           | Inr None \<Rightarrow> (Inl (Closed_stream 1008 ''jeton de session invalide ou expire''), s)
           | Inr (Some p) \<Rightarrow> (Inr p, s)
      else (Inl (Closed_stream 1008 ''authentification requise (api_key ou token)''), s))"

definition open_for :: "stream_call \<Rightarrow> principal \<Rightarrow> manager \<Rightarrow> stream_outcome \<times> manager" where
  "open_for q p m =
     (let other = opt_truthy (sq_tenant q) \<and> sq_tenant q \<noteq> Some (pr_tenant p);
          target = (if other then the (sq_tenant q) else pr_tenant p)
      in if other \<and> \<not> can p CAP_ADMIN_TENANTS then (Closed_stream 1008 ''acces a un autre tenant refuse'', m)
         else if \<not> can p CAP_READ_EVENTS then (Closed_stream 1008 ''capacite read:events requise'', m)
         else case connect (sq_client q) target m of
           (None, m') \<Rightarrow> (Closed_stream 1013 ''trop de clients connectes'', m')
         | (Some c, m') \<Rightarrow> (Opened target p (asked_types (sq_types q)), m'))"

definition open_stream ::
    "api_config \<Rightarrow> stream_call \<Rightarrow> api_state \<times> manager \<Rightarrow> stream_outcome \<times> api_state \<times> manager" where
  "open_stream cfg q sm =
     (case stream_principal cfg q (fst sm) of
        (Inl o', s') \<Rightarrow> (o', s', snd sm)
      | (Inr p, s') \<Rightarrow> (case open_for q p (snd sm) of (o', m') \<Rightarrow> (o', s', m')))"

end
