(* ===== verification/StreamProps.thy ===== *)
theory StreamProps
  imports Streams
begin

section \<open>Streams stay within their tenant and their bounds\<close>

text \<open>
  The steps of the registry, with the frames that were broadcast and to whom as a trace: what a client holds was meant
  for it, and neither the registry nor a queue grows beyond its bound.
\<close>

subsection \<open>Steps of the registry\<close>

type_synonym sent = "(dict \<times> string option) list"

inductive stream_step :: "sent \<times> manager \<Rightarrow> sent \<times> manager \<Rightarrow> bool" where
  st_connect: "stream_step (tr, m) (tr, snd (connect cid tid m))"
| st_disconnect: "stream_step (tr, m) (tr, disconnect cid m)"
| st_broadcast: "stream_step (tr, m) (tr @ [(frame, dest)], snd (broadcast frame dest m))"
| st_take: "stream_step (tr, m) (tr, snd (next_frame now cid m))"

inductive_cases stream_stepE: "stream_step a b"

definition meant :: "sent \<Rightarrow> ws_client \<Rightarrow> bool" where
  "meant tr c \<longleftrightarrow> (\<forall>f \<in> set (ws_queue c). \<exists>dest. (f, dest) \<in> set tr \<and> served dest c)"

definition streams_ok :: "int \<Rightarrow> sent \<times> manager \<Rightarrow> bool" where
  "streams_ok n x \<longleftrightarrow> cm_max (snd x) = n \<and> int (length (cm_clients (snd x))) \<le> n \<and>
     distinct (map fst (cm_clients (snd x))) \<and>
     (\<forall>k c. (k, c) \<in> set (cm_clients (snd x)) \<longrightarrow> length (ws_queue c) \<le> CLIENT_QUEUE_SIZE \<and> meant (fst x) c)"

lemma served_same: "ws_tenant c = ws_tenant d \<Longrightarrow> served dest c = served dest d"
  by (simp add: served_def split: option.split)

lemma meant_fewer: "meant tr c \<Longrightarrow> ws_queue c = f # fs \<Longrightarrow> meant tr (c\<lparr>ws_queue := fs\<rparr>)"
  using served_same [of "c\<lparr>ws_queue := fs\<rparr>" c] by (simp add: meant_def)

lemma pushed_frames: "f \<in> set (ws_queue (push frame c)) \<Longrightarrow> f = frame \<or> f \<in> set (ws_queue c)"
  by (auto simp: push_def Let_def split: if_splits dest: list.set_sel(2) [rotated])
     (metis list.sel(2) list.set_sel(2))+

lemma push_bound: "length (ws_queue c) \<le> CLIENT_QUEUE_SIZE \<Longrightarrow> length (ws_queue (push frame c)) \<le> CLIENT_QUEUE_SIZE"
  by (auto simp: push_def Let_def CLIENT_QUEUE_SIZE_def)

lemma push_same [simp]: "ws_tenant (push frame c) = ws_tenant c" "served dest (push frame c) = served dest c"
proof -
  show "ws_tenant (push frame c) = ws_tenant c" by (simp add: push_def Let_def)
  then show "served dest (push frame c) = served dest c" by (rule served_same)
qed

lemma meant_more: "meant tr c \<Longrightarrow> meant (tr @ x) c"
  by (auto simp: meant_def)

lemma meant_push: "meant tr c \<Longrightarrow> served dest c \<Longrightarrow> meant (tr @ [(frame, dest)]) (push frame c)"
  by (auto simp: meant_def dest!: pushed_frames)

lemma updated_clients: "(k, d) \<in> set (AList.update cid e cs) \<Longrightarrow> d = e \<or> (k, d) \<in> set cs"
  by (induction cs) (auto split: if_splits)

lemma update_length: "length (AList.update cid e cs) = (if map_of cs cid = None then Suc (length cs) else length cs)"
  by (induction cs) auto

lemma deleted_clients: "(k, d) \<in> set (AList.delete cid cs) \<Longrightarrow> (k, d) \<in> set cs"
  by (induction cs) (auto split: if_splits)

lemma delete_length: "length (AList.delete cid cs) \<le> length cs"
  by (induction cs) auto

text \<open>Replacing one client by an admissible one, or leaving some out, keeps the registry.\<close>

lemma update_ok:
  assumes "streams_ok n (tr, m)" and "length (ws_queue c) \<le> CLIENT_QUEUE_SIZE" and "meant tr c"
    and "map_of (cm_clients m) cid = None \<Longrightarrow> int (length (cm_clients m)) < n"
  shows "streams_ok n (tr, m\<lparr>cm_clients := AList.update cid c (cm_clients m)\<rparr>)"
  using assms by (auto simp: streams_ok_def update_length distinct_update dest!: updated_clients)

lemma connect_ok: "streams_ok n (tr, m) \<Longrightarrow> streams_ok n (tr, snd (connect cid tid m))"
  by (auto simp: connect_def Let_def meant_def intro!: update_ok) (simp add: streams_ok_def)

lemma disconnect_ok: "streams_ok n (tr, m) \<Longrightarrow> streams_ok n (tr, disconnect cid m)"
  using delete_length [of cid "cm_clients m"]
  by (auto simp: streams_ok_def disconnect_def distinct_delete dest!: deleted_clients)

lemma broadcast_ok: "streams_ok n (tr, m) \<Longrightarrow> streams_ok n (tr @ [(frame, dest)], snd (broadcast frame dest m))"
  by (auto simp: streams_ok_def broadcast_def Let_def comp_def split_beta push_bound meant_more meant_push)

lemma take_ok: "streams_ok n (tr, m) \<Longrightarrow> streams_ok n (tr, snd (next_frame now cid m))"
proof (cases "map_of (cm_clients m) cid")
  case (Some c)
  assume ok: "streams_ok n (tr, m)"
  then have c: "length (ws_queue c) \<le> CLIENT_QUEUE_SIZE" "meant tr c"
    using map_of_SomeD [OF Some] by (auto simp: streams_ok_def)
  show ?thesis
  proof (cases "ws_queue c")
    case (Cons f fs)
    have "length (ws_queue (c\<lparr>ws_queue := fs\<rparr>)) \<le> CLIENT_QUEUE_SIZE" "meant tr (c\<lparr>ws_queue := fs\<rparr>)"
      using c Cons by (simp_all add: meant_fewer)
    from update_ok [OF ok this, of cid] show ?thesis using Some Cons by (simp add: next_frame_def)
  qed (use ok Some in \<open>simp add: next_frame_def\<close>)
qed (simp add: next_frame_def)

lemma steps_ok: "stream_step\<^sup>*\<^sup>* x y \<Longrightarrow> streams_ok n x \<Longrightarrow> streams_ok n y"
proof (induction rule: rtranclp_induct)
  case (step y z)
  from step.hyps(2) step.IH [OF step.prems] show ?case
    by cases (simp_all add: connect_ok disconnect_ok broadcast_ok take_ok)
qed

text \<open>C31: Isolation and bounds of the streams: whatever the order of connections, broadcasts and readings, the registry
  holds at most its maximum of clients and a queue at most 200 frames, and every frame a client of a tenant holds was
  broadcast to everyone or to that tenant.\<close>

theorem streams_isolated_and_bounded:
  assumes "stream_step\<^sup>*\<^sup>* ([], new_manager n) (tr, m)" and "0 \<le> n" and "(cid, c) \<in> set (cm_clients m)"
  shows "int (length (cm_clients m)) \<le> n \<and> length (ws_queue c) \<le> CLIENT_QUEUE_SIZE \<and>
    (ws_tenant c \<noteq> ''*'' \<longrightarrow> (\<forall>f \<in> set (ws_queue c). (f, None) \<in> set tr \<or> (f, Some (ws_tenant c)) \<in> set tr))"
proof -
  have "streams_ok n (tr, m)"
    using assms(2) by (intro steps_ok [OF assms(1)]) (simp add: streams_ok_def new_manager_def)
  with assms(3) have "int (length (cm_clients m)) \<le> n" "length (ws_queue c) \<le> CLIENT_QUEUE_SIZE" "meant tr c"
    by (auto simp: streams_ok_def)
  moreover have "dest = None \<or> dest = Some (ws_tenant c)" if "served dest c" "ws_tenant c \<noteq> ''*''" for dest
    using that by (auto simp: served_def split: option.splits)
  ultimately show ?thesis unfolding meant_def by metis
qed

text \<open>Who listens: a stream that is opened is that of an authenticated caller who may read events, on its own tenant
  unless it administers tenants.\<close>

theorem stream_access_sound:
  "case open_stream cfg q (s, m) of
     (Opened target p types, s', m') \<Rightarrow>
       fst (stream_principal cfg q s) = Inr p \<and> can p CAP_READ_EVENTS \<and>
       (target = pr_tenant p \<or> sq_tenant q = Some target \<and> can p CAP_ADMIN_TENANTS) \<and>
       (\<exists>c. map_of (cm_clients m') (sq_client q) = Some c \<and> ws_tenant c = target)
   | (_, s', m') \<Rightarrow> m' = m"
proof (cases "stream_principal cfg q s")
  case (Pair r s')
  show ?thesis
  proof (cases r)
    case (Inl o')
    have "\<not> (\<exists>t p ts. o' = Opened t p ts)"
      using Pair Inl by (auto simp: stream_principal_def split: if_splits prod.splits sum.splits option.splits exn.splits error_kind.splits)
    then show ?thesis using Pair Inl by (auto simp: open_stream_def split: stream_outcome.split)
  next
    case (Inr p)
    show ?thesis
      using Pair Inr by (auto simp: open_stream_def open_for_def Let_def connect_def update_conv' opt_truthy_def
          split: stream_outcome.splits prod.splits if_splits)
  qed
qed

subsection \<open>Witness and limit\<close>

theorem streams_isolated_and_bounded_witness:
  "\<exists>c. map_of (cm_clients (snd (connect ''c1'' ''acme'' (new_manager 1)))) ''c1'' = Some c \<and> length (ws_queue c) \<le> CLIENT_QUEUE_SIZE"
proof -
  let ?c = "\<lparr>ws_id = ''c1'', ws_tenant = ''acme'', ws_queue = [], ws_dropped = 0\<rparr>"
  have m: "cm_clients (snd (connect ''c1'' ''acme'' (new_manager 1))) = [(''c1'', ?c)]"
    by (simp add: connect_def new_manager_def Let_def)
  have run: "stream_step\<^sup>*\<^sup>* ([], new_manager 1) ([], snd (connect ''c1'' ''acme'' (new_manager 1)))"
    by (rule r_into_rtranclp) (rule st_connect)
  have "(''c1'', ?c) \<in> set (cm_clients (snd (connect ''c1'' ''acme'' (new_manager 1))))" by (simp add: m)
  from streams_isolated_and_bounded [OF run _ this] m show ?thesis by simp
qed

text \<open>The types a client asks for are announced to it and never used: it is sent every frame of its tenant.\<close>

theorem types_not_filtered:
  "snd (snd (open_stream cfg (q\<lparr>sq_types := types\<rparr>) sm)) = snd (snd (open_stream cfg q sm))"
proof -
  have "stream_principal cfg (q\<lparr>sq_types := types\<rparr>) s = stream_principal cfg q s" for s
    unfolding stream_principal_def by simp
  moreover have "snd (open_for (q\<lparr>sq_types := types\<rparr>) p m) = snd (open_for q p m)" for p m
    by (simp add: open_for_def Let_def connect_def)
  ultimately show ?thesis by (simp add: open_stream_def split_beta split: sum.split)
qed

end
