(* ===== verification/Collectors.thy ===== *)
theory Collectors
  imports Pipeline
begin

section \<open>Collectors and their runner\<close>

text \<open>
  \<open>collectors/base.py\<close>, \<open>collectors/registry.py\<close> and \<open>collectors/runner.py\<close>: a collector observes and builds events;
  the runner gives it a context, merges what it returned with what it emitted, hands the events to the pipeline and
  records the run.  A collector is a record of its attributes and of its two methods; what it observes (files,
  network) and what it keeps between two passes is a state of its own, the parameter \<open>'w\<close>.  The substitution of
  regular expressions is the one of the pipeline, as for the evidence of a finding.  Left out: the logs, the tasks of the
  event loop and the semaphore, whose state the tick of the scheduler is given.
\<close>

subsection \<open>Cleaning of what is collected\<close>

definition COLLECTED_SECRETS :: "string list" where
  "COLLECTED_SECRETS =
     [''authorization'', ''cookie'', ''set-cookie'', ''password'', ''passwd'', ''token'', ''api_key'', ''apikey'', ''secret'',
      ''private_key'', ''session'', ''csrf'']"

definition secret_key :: "string \<Rightarrow> bool" where
  "secret_key k \<longleftrightarrow> list_ex (\<lambda>m. sublist m (str_lower k)) COLLECTED_SECRETS"

text \<open>\<open>_scalar\<close>: a label is flat.\<close>

definition scalar :: "regex_sub \<Rightarrow> pyval \<Rightarrow> pyval" where
  "scalar re v =
     (case v of
        PStr s \<Rightarrow> PStr (Detection.truncate 512 (redact_secrets re 4096 s))
      | PNone \<Rightarrow> v | PBool _ \<Rightarrow> v | PInt _ \<Rightarrow> v | PFloat _ \<Rightarrow> v
      | _ \<Rightarrow> PStr (Detection.truncate 512 (redact_secrets re 4096 (py_str v))))"

text \<open>\<open>_sanitize\<close>; the argument of \<open>clean_value\<close> is the cleaning of a nested dictionary, absent at the last depth.\<close>

definition clean_value :: "regex_sub \<Rightarrow> (dict \<Rightarrow> dict) option \<Rightarrow> string \<Rightarrow> pyval \<Rightarrow> pyval" where
  "clean_value re deeper k v =
     (if secret_key k then PStr ''<redacted>''
      else case v of
        PDict d \<Rightarrow> (case deeper of None \<Rightarrow> v | Some f \<Rightarrow> PDict (f d))
      | PList xs \<Rightarrow>
          (case deeper of
             None \<Rightarrow> v
           | Some f \<Rightarrow> PList (map (\<lambda>x. case x of PDict d \<Rightarrow> PDict (f d) | _ \<Rightarrow> scalar re x) (take 50 xs)))
      | PStr s \<Rightarrow> PStr (Detection.truncate 2048 (redact_secrets re 4096 s))
      | _ \<Rightarrow> v)"

definition MAX_PAYLOAD :: nat where "MAX_PAYLOAD = 32 * 1024"

definition bounded :: "dict \<Rightarrow> dict" where
  "bounded d =
     (if MAX_PAYLOAD < length (canonical_json (PDict d))
      then [(''_truncated'', PBool True), (''keys'', PList (map PStr (take 50 (sort (map fst d)))))]
      else d)"

primrec sanitize :: "regex_sub \<Rightarrow> nat \<Rightarrow> dict \<Rightarrow> dict" where
  "sanitize re 0 d = bounded (map (\<lambda>(k, v). (k, clean_value re None k v)) d)"
| "sanitize re (Suc n) d = bounded (map (\<lambda>(k, v). (k, clean_value re (Some (sanitize re n)) k v)) d)"

definition SANITIZE_DEPTH :: nat where "SANITIZE_DEPTH = 3"

subsection \<open>Context and result\<close>

record collector_settings =
  cs_root :: string
  cs_syslog :: bool
  cs_max_targets :: nat

record collector_context =
  cx_tenant :: tenant
  cx_scope :: tenant_scope
  cx_settings :: collector_settings
  cx_run_id :: string

datatype run_status = Run_ok | Run_partial | Run_error | Run_skipped

fun run_status_str :: "run_status \<Rightarrow> string" where
  "run_status_str Run_ok = ''ok''"
| "run_status_str Run_partial = ''partial''"
| "run_status_str Run_error = ''error''"
| "run_status_str Run_skipped = ''skipped''"

record collector_result =
  rs_collector :: string
  rs_status :: run_status
  rs_events :: "event list"
  rs_errors :: "string list"
  rs_detail :: dict
  rs_started :: time
  rs_finished :: "time option"

definition new_run :: "string \<Rightarrow> time \<Rightarrow> collector_result" where
  "new_run name now =
     \<lparr>rs_collector = name, rs_status = Run_ok, rs_events = [], rs_errors = [], rs_detail = [], rs_started = now,
      rs_finished = None\<rparr>"

definition add_error :: "regex_sub \<Rightarrow> string \<Rightarrow> collector_result \<Rightarrow> collector_result" where
  "add_error re message r =
     r\<lparr>rs_errors := rs_errors r @ [Detection.truncate 500 (redact_secrets re 4096 message)],
       rs_status := (if rs_status r = Run_ok then Run_partial else rs_status r)\<rparr>"

definition set_detail :: "string \<Rightarrow> pyval \<Rightarrow> collector_result \<Rightarrow> collector_result" where
  "set_detail k v r = r\<lparr>rs_detail := dict_set k v (rs_detail r)\<rparr>"

definition skip_run :: "string \<Rightarrow> string \<Rightarrow> time \<Rightarrow> collector_result" where
  "skip_run name reason now =
     (new_run name now)\<lparr>rs_status := Run_skipped, rs_detail := [(''reason'', PStr reason)]\<rparr>"

definition opt_time :: "time option \<Rightarrow> pyval" where
  "opt_time t = (case t of None \<Rightarrow> PNone | Some u \<Rightarrow> PStr (iso_z u))"

definition run_dict :: "collector_result \<Rightarrow> dict" where
  "run_dict r =
     [(''collector'', PStr (rs_collector r)), (''status'', PStr (run_status_str (rs_status r))),
      (''events'', PInt (int (length (rs_events r)))), (''errors'', PList (map PStr (take 20 (rs_errors r)))),
      (''error_count'', PInt (int (length (rs_errors r)))), (''detail'', PDict (rs_detail r)),
      (''started_at'', opt_time (Some (rs_started r))), (''finished_at'', opt_time (rs_finished r))]"

subsection \<open>Events\<close>

text \<open>
  The state of a pass: the identifiers given, the outside the collector observes, and what it emitted.  A draft holds
  the arguments of \<open>make_event\<close>; the model of an event strips and cuts its text labels.
\<close>

record 'w pass_state =
  ps_ids :: nat
  ps_out :: 'w
  ps_emitted :: "event list"

type_synonym ('w, 'a) pass_op = "('w pass_state, exn, 'a) op"

record draft =
  dr_kind :: event_kind
  dr_labels :: dict
  dr_payload :: dict
  dr_hint :: "severity option"
  dr_name :: "string option"
  dr_host :: "string option"
  dr_type :: "source_type option"
  dr_ts :: "time option"

definition make_event :: "regex_sub \<Rightarrow> tenant \<Rightarrow> string \<Rightarrow> time \<Rightarrow> draft \<Rightarrow> exn + event" where
  "make_event re t eid now d =
     (case validate_event_tenant (t_id t) of
        Inl e \<Rightarrow> Inl (Foreign ''ValidationError'' e)
      | Inr tid \<Rightarrow>
          (case validate_labels (map (\<lambda>(k, v). (k, strip_label (scalar re v))) (dr_labels d)) of
             Inl e \<Rightarrow> Inl (Foreign ''ValidationError'' e)
           | Inr labels \<Rightarrow>
               Inr \<lparr>ev_id = eid, ev_tenant = tid, ev_ts = (case dr_ts d of None \<Rightarrow> now | Some u \<Rightarrow> u), ev_kind = dr_kind d,
                    ev_source = \<lparr>src_type = (case dr_type d of None \<Rightarrow> Src_manual | Some y \<Rightarrow> y), src_name = dr_name d,
                                 src_host = dr_host d\<rparr>,
                    ev_hint = dr_hint d, ev_labels = labels, ev_payload = sanitize re SANITIZE_DEPTH (dr_payload d),
                    ev_raw_ref = None\<rparr>))"

definition pass_id :: "world \<Rightarrow> string \<Rightarrow> ('w, string) pass_op" where
  "pass_id w pre s = (Inr (pre @ w_uuid w (ps_ids s)), s\<lparr>ps_ids := Suc (ps_ids s)\<rparr>)"

definition create_event :: "regex_sub \<Rightarrow> world \<Rightarrow> collector_context \<Rightarrow> time \<Rightarrow> draft \<Rightarrow> ('w, event) pass_op" where
  "create_event re w cx now d =
     bindE (pass_id w ''ev_'') (\<lambda>eid.
       case make_event re (cx_tenant cx) eid now d of Inl e \<Rightarrow> raiseE e | Inr ev \<Rightarrow> returnE ev)"

text \<open>\<open>context.emit\<close>.\<close>

definition emit :: "regex_sub \<Rightarrow> world \<Rightarrow> collector_context \<Rightarrow> time \<Rightarrow> draft \<Rightarrow> ('w, event) pass_op" where
  "emit re w cx now d =
     bindE (create_event re w cx now d) (\<lambda>ev.
     bindE (writeE (\<lambda>s. s\<lparr>ps_emitted := ps_emitted s @ [ev]\<rparr>)) (\<lambda>_. returnE ev))"

subsection \<open>Collectors and their registry\<close>

record 'w collector =
  co_name :: string
  co_source :: source_type
  co_description :: string
  co_interval :: int
  co_optin :: bool
  co_enabled :: "collector_settings \<Rightarrow> tenant_scope \<Rightarrow> bool \<times> string"
  co_collect :: "collector_context \<Rightarrow> time \<Rightarrow> ('w, collector_result) pass_op"

text \<open>\<open>Collector.enabled\<close>, unless a collector overrides it.\<close>

definition default_enabled :: "bool \<Rightarrow> collector_settings \<Rightarrow> tenant_scope \<Rightarrow> bool \<times> string" where
  "default_enabled optin cs sc =
     (if optin \<and> \<not> ts_allow_probe sc
      then (False, ''le tenant '' @ quote (ts_tenant sc) @ '' n'' @ [CHR 0x27] @ ''a pas active '' @ quote ''allow_probe''
              @ '' dans config/targets.yaml (opt-in explicite requis)'')
      else (True, ''autorise''))"

definition describe_collector :: "'w collector \<Rightarrow> dict" where
  "describe_collector c =
     [(''name'', PStr (co_name c)), (''source_type'', PStr (source_type_str (co_source c))),
      (''description'', PStr (co_description c)), (''interval_seconds'', PInt (co_interval c)),
      (''requires_probe_optin'', PBool (co_optin c))]"

type_synonym 'w collector_registry = "(string \<times> 'w collector) list"

definition register_collector :: "'w collector \<Rightarrow> 'w collector_registry \<Rightarrow> 'w collector_registry" where
  "register_collector c reg = AList.update (co_name c) c reg"

definition collector_names :: "'w collector_registry \<Rightarrow> string list" where
  "collector_names reg = sort (map fst reg)"

definition require_collector :: "'w collector_registry \<Rightarrow> string \<Rightarrow> exn + 'w collector" where
  "require_collector reg name =
     (case map_of reg name of
        Some c \<Rightarrow> Inr c
      | None \<Rightarrow> Inl (Err NotFoundError (''collecteur inconnu: '' @ name)
          [(''available'', PList (map PStr (collector_names reg)))]))"

definition all_collectors :: "'w collector_registry \<Rightarrow> 'w collector list" where
  "all_collectors reg = List.map_filter (map_of reg) (collector_names reg)"

subsection \<open>A run\<close>

record 'w runner_state =
  rn_pipe :: pipeline_state
  rn_out :: 'w

type_synonym ('w, 'a) run_op = "('w runner_state, exn, 'a) op"

record runner_config =
  rc_pipeline :: pipeline_config
  rc_targets :: target_registry
  rc_settings :: collector_settings

definition on_pipe :: "'a pipe_op \<Rightarrow> ('w, 'a) run_op" where
  "on_pipe m s = (case m (rn_pipe s) of (r, p) \<Rightarrow> (r, s\<lparr>rn_pipe := p\<rparr>))"

text \<open>A pass draws its identifiers from those of the service and acts on nothing of it but this.\<close>

definition with_ids :: "nat \<Rightarrow> pipeline_state \<Rightarrow> pipeline_state" where
  "with_ids n p = p\<lparr>pp_engine := (pp_engine p)\<lparr>en_ids := n\<rparr>\<rparr>"

definition run_pass :: "('w, 'a) pass_op \<Rightarrow> ('w, (exn + 'a) \<times> event list) run_op" where
  "run_pass m s =
     (case m \<lparr>ps_ids = en_ids (pp_engine (rn_pipe s)), ps_out = rn_out s, ps_emitted = []\<rparr> of
        (r, p) \<Rightarrow> (Inr (r, ps_emitted p), \<lparr>rn_pipe = with_ids (ps_ids p) (rn_pipe s), rn_out = ps_out p\<rparr>))"

fun merge_from :: "string list \<Rightarrow> event list \<Rightarrow> event list" where
  "merge_from seen [] = []"
| "merge_from seen (e # es) = (if ev_id e \<in> set seen then merge_from seen es else e # merge_from (ev_id e # seen) es)"

definition merge_events :: "event list \<Rightarrow> event list \<Rightarrow> event list" where
  "merge_events primary secondary = merge_from [] (primary @ secondary)"

text \<open>\<open>_record_run\<close>: a failure of either write is caught and logged.\<close>

definition record_run ::
    "runner_config \<Rightarrow> string \<Rightarrow> string \<Rightarrow> collector_result \<Rightarrow> int \<Rightarrow> time \<Rightarrow> ('w, unit) run_op" where
  "record_run cfg tid name r findings now =
     catchE
       (bindE (on_pipe (on_engine (new_id (pg_world (rc_pipeline cfg)) ''run_''))) (\<lambda>rid.
        bindE (on_pipe (on_data (record_collector_run rid tid name (run_status_str (rs_status r)) (rs_started r)
                 (Some (case rs_finished r of None \<Rightarrow> now | Some u \<Rightarrow> u)) (int (length (rs_events r))) findings
                 (int (length (rs_errors r))) (rs_detail r)))) (\<lambda>_.
        on_pipe (audit_step tid ''system:collector-runner'' ''collector.run'' ''system''
          [(''type'', PStr ''collector''), (''id'', PStr name)] []
          [(''status'', PStr (run_status_str (rs_status r))), (''events'', PInt (int (length (rs_events r)))),
           (''findings'', PInt findings), (''errors'', PInt (int (length (rs_errors r))))]
          [(''detail'', PDict (rs_detail r))] now))))
       (\<lambda>_. returnE ())"

definition failed_run :: "regex_sub \<Rightarrow> string \<Rightarrow> time \<Rightarrow> exn \<Rightarrow> collector_result" where
  "failed_run re name now e = add_error re (error_line e) ((new_run name now)\<lparr>rs_status := Run_error\<rparr>)"

definition completed :: "event list \<Rightarrow> time \<Rightarrow> collector_result \<Rightarrow> collector_result" where
  "completed emitted now r =
     r\<lparr>rs_events := merge_events (rs_events r) emitted,
       rs_finished := Some (case rs_finished r of None \<Rightarrow> now | Some u \<Rightarrow> u)\<rparr>"

definition accounted :: "ingest_outcome \<Rightarrow> collector_result \<Rightarrow> collector_result" where
  "accounted o' r =
     (let r1 = set_detail ''accepted'' (PInt (io_accepted o')) (set_detail ''findings'' (PInt (int (length (io_findings o')))) r)
      in if io_rejected o' \<noteq> 0 then set_detail ''rejected'' (PInt (io_rejected o')) r1 else r1)"

definition run_actor :: "string \<Rightarrow> string" where
  "run_actor name = ''collector:'' @ name"

text \<open>The events of a pass go to the pipeline; the number of findings it answers with is the run's.\<close>

definition feed ::
    "runner_config \<Rightarrow> string \<Rightarrow> time \<Rightarrow> collector_result \<Rightarrow> ('w, collector_result \<times> int) run_op" where
  "feed cfg name now r =
     (if rs_events r = [] then returnE (r, 0)
      else bindE (on_pipe (ingest (rc_pipeline cfg) (rs_events r) (run_actor name) ''system'' True now)) (\<lambda>o'.
             returnE (accounted o' r, int (length (io_findings o')))))"

definition run_enabled ::
    "runner_config \<Rightarrow> 'w collector \<Rightarrow> tenant \<Rightarrow> string \<Rightarrow> tenant_scope \<Rightarrow> time \<Rightarrow> ('w, collector_result) run_op" where
  "run_enabled cfg c t tid sc now =
     bindE (on_pipe (on_engine (new_id (pg_world (rc_pipeline cfg)) ''run_''))) (\<lambda>rid.
     bindE (run_pass (co_collect c \<lparr>cx_tenant = t, cx_scope = sc, cx_settings = rc_settings cfg, cx_run_id = rid\<rparr> now))
       (\<lambda>(outcome, emitted).
     bindE (feed cfg (co_name c) now
              (completed emitted now (case outcome of Inl e \<Rightarrow> failed_run (pg_sub (rc_pipeline cfg)) (co_name c) now e
                                                    | Inr r \<Rightarrow> r))) (\<lambda>(r, findings).
     bindE (record_run cfg tid (co_name c) r findings now) (\<lambda>_.
     returnE r))))"

definition run_collector ::
    "runner_config \<Rightarrow> 'w collector_registry \<Rightarrow> string \<Rightarrow> string \<Rightarrow> time \<Rightarrow> ('w, collector_result) run_op" where
  "run_collector cfg reg name tid now =
     (case require_collector reg name of
        Inl e \<Rightarrow> raiseE e
      | Inr c \<Rightarrow>
          bindE (readE (\<lambda>s. get_tenant tid (pp_store (rn_pipe s)))) (\<lambda>found. case found of
            None \<Rightarrow> raiseE (Err NotFoundError (''tenant inconnu: '' @ tid) [(''tenant_id'', PStr tid)])
          | Some t \<Rightarrow>
              let sc = for_tenant (rc_targets cfg) tid
              in case co_enabled c (rc_settings cfg) sc of
                   (False, reason) \<Rightarrow>
                     let r = skip_run (co_name c) reason now
                     in bindE (record_run cfg tid (co_name c) r 0 now) (\<lambda>_. returnE r)
                 | (True, _) \<Rightarrow> run_enabled cfg c t tid sc now))"

definition run_all ::
    "runner_config \<Rightarrow> 'w collector_registry \<Rightarrow> string \<Rightarrow> time \<Rightarrow> ('w, (string \<times> collector_result) list) run_op" where
  "run_all cfg reg tid now =
     mapE (\<lambda>c. bindE (run_collector cfg reg (co_name c) tid now) (\<lambda>r. returnE (co_name c, r)))
       (filter (\<lambda>c. 0 < co_interval c) (all_collectors reg))"

text \<open>\<open>_emit_streamed\<close>: an event of a listening collector goes to the pipeline at once.\<close>

definition emit_streamed :: "runner_config \<Rightarrow> string \<Rightarrow> string \<Rightarrow> time \<Rightarrow> draft \<Rightarrow> ('w, event) run_op" where
  "emit_streamed cfg name tid now d =
     bindE (readE (\<lambda>s. get_tenant tid (pp_store (rn_pipe s)))) (\<lambda>found. case found of
       None \<Rightarrow> raiseE (Err NotFoundError (''tenant inconnu: '' @ tid) [])
     | Some t \<Rightarrow>
         bindE (on_pipe (on_engine (new_id (pg_world (rc_pipeline cfg)) ''ev_''))) (\<lambda>eid.
         case make_event (pg_sub (rc_pipeline cfg)) t eid now d of
           Inl e \<Rightarrow> raiseE e
         | Inr ev \<Rightarrow>
             bindE (on_pipe (ingest (rc_pipeline cfg) [ev] (run_actor name) ''system'' True now)) (\<lambda>_. returnE ev)))"

subsection \<open>The scheduler\<close>

text \<open>
  Keys are pairs of a tenant and a collector; an offset is the instant of the last start, in seconds.  A tick starts
  what is due, unless the semaphore is exhausted.
\<close>

type_synonym schedule_key = "string \<times> string"

definition scheduled_keys :: "string list \<Rightarrow> 'w collector_registry \<Rightarrow> (schedule_key \<times> int) list" where
  "scheduled_keys tids reg =
     concat (map (\<lambda>tid. map (\<lambda>c. ((tid, co_name c), co_interval c)) (filter (\<lambda>c. 0 < co_interval c) (all_collectors reg)))
       tids)"

definition first_offsets :: "(schedule_key \<times> int) list \<Rightarrow> (schedule_key \<times> rat) list" where
  "first_offsets ks = map (\<lambda>(i, (k, _)). (k, 90 * of_nat (i mod 10) / 10)) (enumerate 0 ks)"

definition due :: "rat \<Rightarrow> schedule_key \<Rightarrow> int \<Rightarrow> (schedule_key \<times> rat) list \<Rightarrow> bool" where
  "due now k interval offsets \<longleftrightarrow> (case map_of offsets k of None \<Rightarrow> False | Some t \<Rightarrow> t + of_int interval \<le> now)"

fun tick :: "rat \<Rightarrow> bool \<Rightarrow> (schedule_key \<times> int) list \<Rightarrow> (schedule_key \<times> rat) list \<Rightarrow> schedule_key list \<times> (schedule_key \<times> rat) list"
where
  "tick now locked [] offsets = ([], offsets)"
| "tick now locked ((k, interval) # ks) offsets =
     (if due now k interval offsets
      then case tick now locked ks (AList.update k now offsets) of
             (started, offsets') \<Rightarrow> (if locked then started else k # started, offsets')
      else tick now locked ks offsets)"

subsection \<open>State of the collectors\<close>

record collector_stat =
  ct_runs :: int
  ct_last_run :: "time option"
  ct_last_status :: string
  ct_events :: int
  ct_findings :: int
  ct_errors :: int
  ct_detail :: dict

definition latest :: "collector_run list \<Rightarrow> collector_run" where
  "latest rs = fold (\<lambda>r best. if cr_started_at best < cr_started_at r then r else best) (tl rs) (hd rs)"

definition stat_of :: "collector_run list \<Rightarrow> collector_stat" where
  "stat_of rs =
     \<lparr>ct_runs = int (length rs), ct_last_run = Some (cr_started_at (latest rs)), ct_last_status = cr_status (latest rs),
      ct_events = sum_list (map cr_events rs), ct_findings = sum_list (map cr_findings rs),
      ct_errors = sum_list (map cr_errors rs), ct_detail = collector_run.cr_detail (latest rs)\<rparr>"

definition collector_stats :: "string \<Rightarrow> store \<Rightarrow> (string \<times> collector_stat) list" where
  "collector_stats tid st =
     (let rows = filter (\<lambda>r. cr_tenant r = tid) (st_runs st)
      in map (\<lambda>name. (name, stat_of (filter (\<lambda>r. cr_collector r = name) rows))) (sort (remdups (map cr_collector rows))))"

record collector_status =
  cl_name :: string
  cl_source :: source_type
  cl_description :: string
  cl_enabled :: bool
  cl_interval :: int
  cl_last_run :: "time option"
  cl_last_status :: string
  cl_last_error :: "string option"
  cl_events :: int
  cl_findings :: int
  cl_runs :: int
  cl_targets :: "string list"

definition normalize_status :: "string option \<Rightarrow> string" where
  "normalize_status v =
     (case v of Some s \<Rightarrow> if s \<in> set [''ok'', ''partial'', ''error'', ''never''] then s else ''never'' | None \<Rightarrow> ''never'')"

definition collector_targets :: "string \<Rightarrow> tenant_scope \<Rightarrow> string list" where
  "collector_targets name sc =
     (if name = ''web_probe'' \<or> name = ''tls_cert'' then urls sc
      else if name = ''log_tail'' then map ls_path (ts_log_sources sc)
      else if name = ''dependency_scan'' then ts_manifests sc
      else if name = ''config_audit'' then map cf_path (ts_config_files sc)
      else [])"

definition status_of :: "runner_config \<Rightarrow> tenant_scope \<Rightarrow> (string \<times> collector_stat) list \<Rightarrow> 'w collector \<Rightarrow> collector_status" where
  "status_of cfg sc stats c =
     (let observed = map_of stats (co_name c); (allowed, reason) = co_enabled c (rc_settings cfg) sc;
          count = (\<lambda>f. case observed of None \<Rightarrow> 0 | Some o' \<Rightarrow> f o')
      in \<lparr>cl_name = co_name c, cl_source = co_source c, cl_description = co_description c, cl_enabled = allowed,
          cl_interval = co_interval c, cl_last_run = Option.bind observed ct_last_run,
          cl_last_status = normalize_status (map_option ct_last_status observed),
          cl_last_error = (if allowed then None else Some reason),
          cl_events = count ct_events, cl_findings = count ct_findings, cl_runs = count ct_runs,
          cl_targets = collector_targets (co_name c) sc\<rparr>)"

definition runner_status :: "runner_config \<Rightarrow> 'w collector_registry \<Rightarrow> string \<Rightarrow> store \<Rightarrow> collector_status list" where
  "runner_status cfg reg tid st =
     map (status_of cfg (for_tenant (rc_targets cfg) tid) (collector_stats tid st)) (all_collectors reg)"

end
