(* ===== verification/Regex.thy ===== *)
theory Regex
  imports Prelude
begin

section \<open>Regular expressions of the standard library\<close>

text \<open>
  The fragment of Python's \<open>re\<close> the collectors write their patterns in, with the backtracking order of that
  module: \<open>runs r s\<close> lists every way \<open>r\<close> can match at the position \<open>s\<close>, the preferred one first, so that
  \<open>match\<close> takes the head of the list and \<open>search\<close> the first position where the list is not empty.  The order is
  what decides the groups: a greedy repetition lists its longer runs first, a lazy one the shorter.  As in \<open>re\<close>, an
  iteration that consumes nothing ends a repetition.

  \<open>derives\<close> is the reading of an expression as a relation between positions; \<open>runs_exact\<close> shows that the lists hold
  exactly its derivations.
\<close>

subsection \<open>Expressions and positions\<close>

datatype re =
    R_eps
  | R_char "char \<Rightarrow> bool"
  | R_cat re re
  | R_alt re re
  | R_star bool re
  | R_group string re
  | R_start
  | R_line
  | R_end
  | R_word

text \<open>A position: the text before it (backwards), the text after it, the groups captured so far.\<close>

record position =
  po_before :: string
  po_rest :: string
  po_groups :: "(string \<times> string) list"

definition at_start :: "string \<Rightarrow> position" where
  "at_start s = \<lparr>po_before = [], po_rest = s, po_groups = []\<rparr>"

definition is_word :: "char \<Rightarrow> bool" where
  "is_word c \<longleftrightarrow> is_digit c \<or> is_upper c \<or> is_lower c \<or> c = CHR ''_''
     \<or> code c \<in> {170, 178, 179, 181, 185, 186, 188, 189, 190}
     \<or> 192 \<le> code c \<and> code c \<noteq> 215 \<and> code c \<noteq> 247"

definition begins_word :: "string \<Rightarrow> bool" where
  "begins_word s \<longleftrightarrow> (case s of [] \<Rightarrow> False | c # _ \<Rightarrow> is_word c)"

definition consumed :: "position \<Rightarrow> position \<Rightarrow> string" where
  "consumed s t = take (length (po_rest s) - length (po_rest t)) (po_rest s)"

subsection \<open>The matcher\<close>

primrec repetitions :: "nat \<Rightarrow> bool \<Rightarrow> (position \<Rightarrow> position list) \<Rightarrow> position \<Rightarrow> position list" where
  "repetitions 0 greedy f s = [s]"
| "repetitions (Suc n) greedy f s =
     (let more = concat (map (repetitions n greedy f) (filter (\<lambda>t. length (po_rest t) < length (po_rest s)) (f s)))
      in if greedy then more @ [s] else s # more)"

primrec runs :: "re \<Rightarrow> position \<Rightarrow> position list" where
  "runs R_eps s = [s]"
| "runs (R_char p) s =
     (case po_rest s of
        [] \<Rightarrow> []
      | c # cs \<Rightarrow> if p c then [s\<lparr>po_before := c # po_before s, po_rest := cs\<rparr>] else [])"
| "runs (R_cat a b) s = concat (map (runs b) (runs a s))"
| "runs (R_alt a b) s = runs a s @ runs b s"
| "runs (R_star greedy r) s = repetitions (length (po_rest s)) greedy (runs r) s"
| "runs (R_group n r) s = map (\<lambda>t. t\<lparr>po_groups := (n, consumed s t) # po_groups t\<rparr>) (runs r s)"
| "runs R_start s = (if po_before s = [] then [s] else [])"
| "runs R_line s = (if po_before s = [] \<or> hd (po_before s) = CHR 0x0A then [s] else [])"
| "runs R_end s = (if po_rest s = [] \<or> po_rest s = [CHR 0x0A] then [s] else [])"
| "runs R_word s = (if begins_word (po_before s) \<noteq> begins_word (po_rest s) then [s] else [])"

definition re_match :: "re \<Rightarrow> string \<Rightarrow> position option" where
  "re_match r s = (case runs r (at_start s) of [] \<Rightarrow> None | t # _ \<Rightarrow> Some t)"

text \<open>\<open>search\<close> gives the position where the match begins and the one where it ends.\<close>

fun search_from :: "re \<Rightarrow> string \<Rightarrow> string \<Rightarrow> (position \<times> position) option" where
  "search_from r past [] =
     (case runs r \<lparr>po_before = past, po_rest = [], po_groups = []\<rparr> of
        [] \<Rightarrow> None
      | t # _ \<Rightarrow> Some (\<lparr>po_before = past, po_rest = [], po_groups = []\<rparr>, t))"
| "search_from r past (c # cs) =
     (case runs r \<lparr>po_before = past, po_rest = c # cs, po_groups = []\<rparr> of
        [] \<Rightarrow> search_from r (c # past) cs
      | t # _ \<Rightarrow> Some (\<lparr>po_before = past, po_rest = c # cs, po_groups = []\<rparr>, t))"

definition re_search :: "re \<Rightarrow> string \<Rightarrow> (position \<times> position) option" where
  "re_search r s = search_from r [] s"

text \<open>\<open>finditer\<close> for an expression that never matches the empty text, whose matches end further and further.\<close>

fun matches_from :: "nat \<Rightarrow> re \<Rightarrow> string \<Rightarrow> string \<Rightarrow> (position \<times> position) list" where
  "matches_from 0 r past rest = []"
| "matches_from (Suc n) r past rest =
     (case search_from r past rest of
        None \<Rightarrow> []
      | Some (s, t) \<Rightarrow> (s, t) # matches_from n r (po_before t) (po_rest t))"

definition re_finditer :: "re \<Rightarrow> string \<Rightarrow> (position \<times> position) list" where
  "re_finditer r s = matches_from (Suc (length s)) r [] s"

text \<open>\<open>match.group(name)\<close>: \<^const>\<open>None\<close> when the group took no part in the match.\<close>

definition re_group :: "position \<Rightarrow> string \<Rightarrow> string option" where
  "re_group t n = map_of (po_groups t) n"

definition group_text :: "position \<Rightarrow> string \<Rightarrow> string" where
  "group_text t n = (case re_group t n of None \<Rightarrow> [] | Some g \<Rightarrow> g)"

subsection \<open>Shorthands\<close>

definition r_seq :: "re list \<Rightarrow> re" where
  "r_seq rs = foldr R_cat rs R_eps"

fun r_any :: "re list \<Rightarrow> re" where
  "r_any [] = R_char (\<lambda>_. False)"
| "r_any [r] = r"
| "r_any (r # rs) = R_alt r (r_any rs)"

definition r_lit :: "string \<Rightarrow> re" where
  "r_lit w = r_seq (map (\<lambda>c. R_char (\<lambda>x. x = c)) w)"

text \<open>A literal under the flag \<open>(?i)\<close>.\<close>

definition r_ilit :: "string \<Rightarrow> re" where
  "r_ilit w = r_seq (map (\<lambda>c. R_char (\<lambda>x. lower_char x = lower_char c)) w)"

abbreviation r_many :: "re \<Rightarrow> re" where "r_many \<equiv> R_star True"
abbreviation r_lazy :: "re \<Rightarrow> re" where "r_lazy \<equiv> R_star False"

definition r_some :: "re \<Rightarrow> re" where
  "r_some r = R_cat r (r_many r)"

definition r_opt :: "re \<Rightarrow> re" where
  "r_opt r = R_alt r R_eps"

definition r_times :: "nat \<Rightarrow> re \<Rightarrow> re" where
  "r_times n r = r_seq (replicate n r)"

fun r_upto :: "nat \<Rightarrow> re \<Rightarrow> re" where
  "r_upto 0 r = R_eps"
| "r_upto (Suc n) r = r_opt (R_cat r (r_upto n r))"

definition r_between :: "nat \<Rightarrow> nat \<Rightarrow> re \<Rightarrow> re" where
  "r_between lo hi r = R_cat (r_times lo r) (r_upto (hi - lo) r)"

definition r_space :: re where "r_space = R_char is_space"
definition r_nonspace :: re where "r_nonspace = R_char (\<lambda>c. \<not> is_space c)"
definition r_digit :: re where "r_digit = R_char is_digit"
definition r_not :: "string \<Rightarrow> re" where "r_not w = R_char (\<lambda>c. c \<notin> set w)"
definition r_dot :: re where "r_dot = R_char (\<lambda>c. c \<noteq> CHR 0x0A)"
definition r_dotall :: re where "r_dotall = R_char (\<lambda>_. True)"

subsection \<open>The relation between positions\<close>

inductive derives :: "re \<Rightarrow> position \<Rightarrow> position \<Rightarrow> bool" where
  d_eps: "derives R_eps s s"
| d_char: "po_rest s = c # cs \<Longrightarrow> p c \<Longrightarrow> derives (R_char p) s (s\<lparr>po_before := c # po_before s, po_rest := cs\<rparr>)"
| d_cat: "derives a s t \<Longrightarrow> derives b t u \<Longrightarrow> derives (R_cat a b) s u"
| d_left: "derives a s t \<Longrightarrow> derives (R_alt a b) s t"
| d_right: "derives b s t \<Longrightarrow> derives (R_alt a b) s t"
| d_stop: "derives (R_star greedy r) s s"
| d_more: "derives r s t \<Longrightarrow> length (po_rest t) < length (po_rest s) \<Longrightarrow> derives (R_star greedy r) t u
    \<Longrightarrow> derives (R_star greedy r) s u"
| d_group: "derives r s t \<Longrightarrow> derives (R_group n r) s (t\<lparr>po_groups := (n, consumed s t) # po_groups t\<rparr>)"
| d_start: "po_before s = [] \<Longrightarrow> derives R_start s s"
| d_line: "po_before s = [] \<or> hd (po_before s) = CHR 0x0A \<Longrightarrow> derives R_line s s"
| d_end: "po_rest s = [] \<or> po_rest s = [CHR 0x0A] \<Longrightarrow> derives R_end s s"
| d_word: "begins_word (po_before s) \<noteq> begins_word (po_rest s) \<Longrightarrow> derives R_word s s"

inductive_simps derives_simps:
  "derives R_eps s t" "derives (R_char p) s t" "derives (R_cat a b) s t" "derives (R_alt a b) s t"
  "derives (R_group n r) s t" "derives R_start s t" "derives R_line s t" "derives R_end s t" "derives R_word s t"

inductive_cases derives_starE: "derives (R_star greedy r) s t"

lemma repetitions_sound:
  "t \<in> set (repetitions n greedy f s) \<Longrightarrow> (\<And>s t. t \<in> set (f s) \<Longrightarrow> derives r s t) \<Longrightarrow> derives (R_star greedy r) s t"
proof (induction n arbitrary: s)
  case (Suc n)
  then consider "t = s"
    | u where "u \<in> set (f s)" "length (po_rest u) < length (po_rest s)" "t \<in> set (repetitions n greedy f u)"
    by (auto simp: Let_def split: if_splits)
  then show ?case
  proof cases
    case 2
    with Suc show ?thesis by (blast intro: d_more)
  qed (simp add: d_stop)
qed (simp add: d_stop)

lemma repetitions_self: "s \<in> set (repetitions n greedy f s)"
  by (cases n) (auto simp: Let_def)

lemma repetitions_complete:
  "derives q s t \<Longrightarrow> q = R_star greedy r \<Longrightarrow> length (po_rest s) \<le> n \<Longrightarrow>
     (\<And>s t. derives r s t \<Longrightarrow> t \<in> set (f s)) \<Longrightarrow> t \<in> set (repetitions n greedy f s)"
proof (induction arbitrary: n rule: derives.induct)
  case (d_more r' s t greedy' u)
  then obtain k where n: "n = Suc k" by (cases n) auto
  with d_more have u: "u \<in> set (repetitions k greedy f t)" and t: "t \<in> set (f s)" by auto
  then have "\<exists>x. length (po_rest x) < length (po_rest s) \<and> x \<in> set (f s) \<and> u \<in> set (repetitions k greedy f x)"
    using d_more by blast
  then show ?case by (auto simp: Let_def n)
qed (simp_all add: repetitions_self)

lemma runs_exact: "t \<in> set (runs r s) \<longleftrightarrow> derives r s t"
proof (induction r arbitrary: s t)
  case (R_star greedy r)
  then show ?case by (auto intro: repetitions_sound repetitions_complete)
next
  case (R_char p)
  then show ?case by (cases "po_rest s") (auto simp: derives_simps)
qed (auto simp: derives_simps)

text \<open>A derivation moves forward over a piece of the text, which it leaves behind it.\<close>

lemma derives_forward:
  "derives r s t \<Longrightarrow> \<exists>w. po_rest s = w @ po_rest t \<and> po_before t = rev w @ po_before s"
proof (induction rule: derives.induct)
  case (d_cat a s t b u)
  then obtain v w where "po_rest s = v @ po_rest t" "po_before t = rev v @ po_before s"
      "po_rest t = w @ po_rest u" "po_before u = rev w @ po_before t" by blast
  then show ?case by (intro exI [of _ "v @ w"]) simp
next
  case (d_more r s t greedy u)
  then obtain v w where "po_rest s = v @ po_rest t" "po_before t = rev v @ po_before s"
      "po_rest t = w @ po_rest u" "po_before u = rev w @ po_before t" by blast
  then show ?case by (intro exI [of _ "v @ w"]) simp
qed (auto intro: exI [of _ "[]"])

lemma runs_forward:
  "t \<in> set (runs r s) \<Longrightarrow> po_rest s = consumed s t @ po_rest t \<and> po_before t = rev (consumed s t) @ po_before s"
  using derives_forward [of r s t] by (auto simp: runs_exact consumed_def)

lemma re_match_forward: "re_match r s = Some t \<Longrightarrow> s = consumed (at_start s) t @ po_rest t"
  using runs_forward [of t r "at_start s"]
  by (auto simp: re_match_def at_start_def split: list.splits)

text \<open>\<open>match\<close> answers exactly when the expression derives some end from the beginning of the text.\<close>

lemma re_match_iff: "re_match r s \<noteq> None \<longleftrightarrow> (\<exists>t. derives r (at_start s) t)"
  by (cases "runs r (at_start s)") (auto simp: re_match_def runs_exact [symmetric])

lemma search_from_Some:
  "search_from r past rest = Some (s, t) \<Longrightarrow>
     derives r s t \<and> po_groups s = [] \<and> (\<exists>w. rest = w @ po_rest s \<and> po_before s = rev w @ past)"
proof (induction past rest rule: search_from.induct [of _ r])
  case (1 r past)
  then show ?case by (auto simp: runs_exact [symmetric] split: list.splits)
next
  case (2 r past c cs)
  show ?case
  proof (cases "runs r \<lparr>po_before = past, po_rest = c # cs, po_groups = []\<rparr>")
    case Nil
    with 2 obtain w where "derives r s t" "po_groups s = []" "cs = w @ po_rest s" "po_before s = rev w @ c # past"
      by auto
    then show ?thesis by (intro conjI exI [of _ "c # w"]) simp_all
  next
    case (Cons u us)
    with 2 show ?thesis by (auto simp: runs_exact [symmetric])
  qed
qed

lemma search_from_None:
  "search_from r past rest = None \<longleftrightarrow>
     (\<forall>w v. rest = w @ v \<longrightarrow> (\<forall>t. \<not> derives r \<lparr>po_before = rev w @ past, po_rest = v, po_groups = []\<rparr> t))"
proof (induction past rest rule: search_from.induct [of _ r])
  case (1 r past)
  then show ?case by (auto simp: runs_exact [symmetric] split: list.splits)
next
  case (2 r past c cs)
  let ?s = "\<lparr>po_before = past, po_rest = c # cs, po_groups = []\<rparr>"
  show ?case
  proof (cases "runs r ?s")
    case Nil
    then have no: "\<not> derives r ?s t" for t by (simp add: runs_exact [symmetric])
    from Nil 2 have "search_from r past (c # cs) = None \<longleftrightarrow>
        (\<forall>w v. cs = w @ v \<longrightarrow> (\<forall>t. \<not> derives r \<lparr>po_before = rev w @ c # past, po_rest = v, po_groups = []\<rparr> t))" by simp
    also have "\<dots> \<longleftrightarrow> (\<forall>w v. c # cs = w @ v \<longrightarrow> (\<forall>t. \<not> derives r \<lparr>po_before = rev w @ past, po_rest = v, po_groups = []\<rparr> t))"
      (is "?L \<longleftrightarrow> ?R")
    proof
      assume ?L
      show ?R
      proof (intro allI impI)
        fix w v t assume "c # cs = w @ v"
        with \<open>?L\<close> no show "\<not> derives r \<lparr>po_before = rev w @ past, po_rest = v, po_groups = []\<rparr> t"
          by (cases w) auto
      qed
    next
      assume ?R
      then show ?L by (metis append_Cons append.assoc append_Nil rev.simps(2))
    qed
    finally show ?thesis .
  next
    case (Cons u us)
    then have "derives r ?s u" by (simp add: runs_exact [symmetric])
    then have "\<exists>w v t. c # cs = w @ v \<and> derives r \<lparr>po_before = rev w @ past, po_rest = v, po_groups = []\<rparr> t"
      by (intro exI [of _ "[]"] exI [of _ "c # cs"] exI [of _ u]) simp
    with Cons show ?thesis by auto
  qed
qed

end
