(* ===== verification/PyTime.thy ===== *)
theory PyTime
  imports Regex Clock
begin

section \<open>Reading a date\<close>

text \<open>
  The civil calendar from a date to an instant, and \<open>datetime.strptime\<close> on the directives the collectors use.  As in
  CPython, a format is turned into a regular expression matched at the beginning of the text, and a text that goes on
  after the match is refused, as is a date the calendar does not have.  A date without an offset is read as UTC.
\<close>

subsection \<open>The calendar\<close>

definition is_leap :: "int \<Rightarrow> bool" where
  "is_leap y \<longleftrightarrow> y mod 4 = 0 \<and> (y mod 100 \<noteq> 0 \<or> y mod 400 = 0)"

definition days_in_month :: "int \<Rightarrow> int \<Rightarrow> int" where
  "days_in_month y m =
     (if m = 2 then if is_leap y then 29 else 28 else if m \<in> set [4, 6, 9, 11] then 30 else 31)"

definition days_before_year :: "int \<Rightarrow> int" where
  "days_before_year y = (let p = y - 1 in p * 365 + p div 4 - p div 100 + p div 400)"

definition ymd_days :: "int \<Rightarrow> int \<Rightarrow> int \<Rightarrow> int" where
  "ymd_days y m d = days_before_year y + days_before_month (is_leap y) m + d - 1 - epoch_ordinal"

definition date_ok :: "int \<Rightarrow> int \<Rightarrow> int \<Rightarrow> bool" where
  "date_ok y m d \<longleftrightarrow> 1 \<le> y \<and> y \<le> 9999 \<and> 1 \<le> m \<and> m \<le> 12 \<and> 1 \<le> d \<and> d \<le> days_in_month y m"

text \<open>\<open>datetime(y, m, d, hh, mm, ss, tzinfo=UTC)\<close>; \<^const>\<open>None\<close> is its \<open>ValueError\<close>.\<close>

definition civil :: "int \<Rightarrow> int \<Rightarrow> int \<Rightarrow> int \<Rightarrow> int \<Rightarrow> int \<Rightarrow> time option" where
  "civil y m d hh mm ss =
     (if date_ok y m d \<and> 0 \<le> hh \<and> hh < 24 \<and> 0 \<le> mm \<and> mm < 60 \<and> 0 \<le> ss \<and> ss < 60
      then Some (seconds (ymd_days y m d * 86400 + hh * 3600 + mm * 60 + ss)) else None)"

definition year_of :: "time \<Rightarrow> int" where
  "year_of t = fst (ord2ymd (t div (86400 * usec) + epoch_ordinal))"

subsection \<open>Formats\<close>

definition MONTHS :: "(string \<times> int) list" where
  "MONTHS = zip [''jan'', ''feb'', ''mar'', ''apr'', ''may'', ''jun'', ''jul'', ''aug'', ''sep'', ''oct'', ''nov'', ''dec''] [1..12]"

definition r_range :: "char \<Rightarrow> char \<Rightarrow> re" where
  "r_range a b = R_char (\<lambda>c. code a \<le> code c \<and> code c \<le> code b)"

abbreviation r_chr :: "char \<Rightarrow> re" where
  "r_chr x \<equiv> R_char (\<lambda>c. c = x)"

definition dir_Y :: re where "dir_Y = R_group ''Y'' (r_times 4 r_digit)"
definition dir_m :: re where
  "dir_m = R_group ''m'' (r_any [R_cat (r_lit ''1'') (r_range (CHR ''0'') (CHR ''2'')),
     R_cat (r_lit ''0'') (r_range (CHR ''1'') (CHR ''9'')), r_range (CHR ''1'') (CHR ''9'')])"
definition dir_d :: re where
  "dir_d = R_group ''d'' (r_any [R_cat (r_lit ''3'') (r_range (CHR ''0'') (CHR ''1'')),
     R_cat (r_range (CHR ''1'') (CHR ''2'')) r_digit, R_cat (r_lit ''0'') (r_range (CHR ''1'') (CHR ''9'')),
     r_range (CHR ''1'') (CHR ''9''), R_cat (r_lit '' '') (r_range (CHR ''1'') (CHR ''9''))])"
definition dir_b :: re where "dir_b = R_group ''b'' (r_any (map (r_ilit \<circ> fst) MONTHS))"
definition dir_H :: re where
  "dir_H = R_group ''H'' (r_any [R_cat (r_lit ''2'') (r_range (CHR ''0'') (CHR ''3'')),
     R_cat (r_range (CHR ''0'') (CHR ''1'')) r_digit, r_digit])"
definition dir_M :: re where
  "dir_M = R_group ''M'' (r_any [R_cat (r_range (CHR ''0'') (CHR ''5'')) r_digit, r_digit])"
definition dir_S :: re where
  "dir_S = R_group ''S'' (r_any [R_cat (r_lit ''6'') (r_range (CHR ''0'') (CHR ''1'')),
     R_cat (r_range (CHR ''0'') (CHR ''5'')) r_digit, r_digit])"

definition dir_f :: re where "dir_f = R_group ''f'' (r_between 1 6 r_digit)"

text \<open>\<open>%z\<close>: a sign, hours and minutes, possibly seconds, with colons throughout or not at all, or \<open>Z\<close>.\<close>

definition dir_z :: re where
  "dir_z = R_group ''z'' (r_any
     [r_seq [R_group ''sign'' (R_char (\<lambda>c. c \<in> set ''+-'')), R_group ''zh'' (r_times 2 r_digit), R_group ''c1'' (r_opt (r_lit '':'')),
             R_group ''zm'' (R_cat (r_range (CHR ''0'') (CHR ''5'')) r_digit),
             r_opt (r_seq [R_group ''c2'' (r_opt (r_lit '':'')), R_group ''zs'' (R_cat (r_range (CHR ''0'') (CHR ''5'')) r_digit)])],
      r_lit ''Z''])"

definition clock_dirs :: "re list" where
  "clock_dirs = [dir_H, r_lit '':'', dir_M, r_lit '':'', dir_S]"

text \<open>\<open>%d/%b/%Y:%H:%M:%S %z\<close>, \<open>%Y-%m-%dT%H:%M:%S%z\<close> and \<open>%Y-%m-%d %H:%M:%S\<close>.\<close>

definition FMT_COMBINED :: re where
  "FMT_COMBINED = r_seq ([dir_d, r_lit ''/'', dir_b, r_lit ''/'', dir_Y, r_lit '':''] @ clock_dirs @ [r_some r_space, dir_z])"

definition ymd_dirs :: "re list" where
  "ymd_dirs = [dir_Y, r_lit ''-'', dir_m, r_lit ''-'', dir_d]"

definition FMT_ISO :: re where
  "FMT_ISO = r_seq (ymd_dirs @ [r_ilit ''T''] @ clock_dirs @ [dir_z])"

definition FMT_PLAIN :: re where
  "FMT_PLAIN = r_seq (ymd_dirs @ [r_some r_space] @ clock_dirs)"

subsection \<open>Reading\<close>

definition group_int :: "position \<Rightarrow> string \<Rightarrow> int" where
  "group_int t n = digits_val (filter is_digit (group_text t n))"

text \<open>The offset in seconds, \<^const>\<open>None\<close> when it mixes the two styles or exceeds a day.\<close>

definition zone_offset :: "position \<Rightarrow> int option" where
  "zone_offset t =
     (case re_group t ''sign'' of
        None \<Rightarrow> Some 0
      | Some sg \<Rightarrow>
          if re_group t ''zs'' \<noteq> None \<and> group_text t ''c1'' \<noteq> group_text t ''c2'' then None
          else
            let o' = group_int t ''zh'' * 3600 + group_int t ''zm'' * 60 + group_int t ''zs''
            in if 86400 \<le> o' then None else Some (if sg = ''-'' then - o' else o'))"

definition month_of :: "position \<Rightarrow> int" where
  "month_of t =
     (case re_group t ''b'' of
        None \<Rightarrow> group_int t ''m''
      | Some b \<Rightarrow> (case map_of MONTHS (str_lower b) of None \<Rightarrow> 0 | Some m \<Rightarrow> m))"

text \<open>The digits of \<open>%f\<close>, completed to microseconds.\<close>

definition fraction :: "position \<Rightarrow> time" where
  "fraction t =
     (case re_group t ''f'' of None \<Rightarrow> 0 | Some f \<Rightarrow> digits_val (f @ replicate (6 - length f) (CHR ''0'')))"

definition strptime :: "re \<Rightarrow> string \<Rightarrow> time option" where
  "strptime fmt s =
     (case re_match fmt s of
        None \<Rightarrow> None
      | Some t \<Rightarrow>
          if po_rest t \<noteq> [] then None
          else
            (case (civil (group_int t ''Y'') (month_of t) (group_int t ''d'') (group_int t ''H'') (group_int t ''M'')
                     (group_int t ''S''), zone_offset t) of
               (Some u, Some o') \<Rightarrow> Some (u + fraction t - seconds o')
             | _ \<Rightarrow> None))"

end
