(* ===== verification/LogTail.thy ===== *)
theory LogTail
  imports Collectors PyTime
begin

section \<open>Following log files\<close>

text \<open>
  \<open>collectors/log_tail.py\<close>: the declared files are read from where the previous pass stopped, and every line becomes
  an event.  A file is its text (ASCII, so that a character is a byte and \<open>errors="replace"\<close> replaces nothing), read with
  universal newlines; \<open>df_error\<close> is the text of the \<open>OSError\<close> that opening it raises.  \<open>tell\<close> raises after a loop over the lines that was left by \<open>break\<close>, as the standard library
  documents: iteration disables it until the end of the file is reached.  The state file is typed; its JSON is left
  out.  Parameters: the path a declaration denotes, the resolution of symbolic links, and \<open>datetime.fromisoformat\<close>.
\<close>

subsection \<open>Files and positions\<close>

record disk_file =
  df_text :: string
  df_mtime :: time
  df_error :: "string option"

record tail_state =
  tl_offset :: nat
  tl_size :: nat
  tl_modified :: time
  tl_lines :: int
  tl_rotated :: int

datatype tail_file = Tail_absent | Tail_corrupt | Tail_saved "(string \<times> tail_state) list"

record disk =
  dk_files :: "string \<Rightarrow> disk_file option"
  dk_tail :: tail_file

record log_machine =
  lm_path :: "string \<Rightarrow> string \<Rightarrow> string"
  lm_resolve :: "string \<Rightarrow> string"
  lm_iso :: "string \<Rightarrow> time option"

definition new_tail :: tail_state where
  "new_tail = \<lparr>tl_offset = 0, tl_size = 0, tl_modified = 0, tl_lines = 0, tl_rotated = 0\<rparr>"

definition path_name :: "string \<Rightarrow> string" where
  "path_name p = last (split_on (CHR ''/'') p)"

definition LF :: char where "LF = CHR 0x0A"
definition CR :: char where "CR = CHR 0x0D"

function universal_newlines :: "string \<Rightarrow> string" where
  "universal_newlines s =
     (case s of
        [] \<Rightarrow> []
      | c # cs \<Rightarrow>
          if c = CR then LF # universal_newlines (if take 1 cs = [LF] then drop 1 cs else cs)
          else c # universal_newlines cs)"
  by pat_completeness auto
termination
  by (relation "measure length") auto

declare universal_newlines.simps [simp del]

text \<open>The lines of a text, each with its line feed, the last one perhaps without.\<close>

fun keep_lines :: "string \<Rightarrow> string list" where
  "keep_lines [] = []"
| "keep_lines (c # cs) =
     (if c = LF then [LF] # keep_lines cs
      else (case keep_lines cs of [] \<Rightarrow> [[c]] | l # ls \<Rightarrow> (c # l) # ls))"

definition chomp :: "string \<Rightarrow> string" where
  "chomp l = rev (dropWhile (\<lambda>c. c = LF) (rev l))"

subsection \<open>Lines\<close>

record parsed_line =
  pl_kind :: event_kind
  pl_labels :: dict
  pl_payload :: dict
  pl_ts :: "time option"
  pl_hint :: "severity option"

definition quoted_text :: "string \<Rightarrow> re" where
  "quoted_text n = r_seq [r_lit [CHR 0x22], R_group n (r_many (r_not [CHR 0x22])), r_lit [CHR 0x22]]"

definition COMBINED_LOG :: re where
  "COMBINED_LOG = r_seq
     [R_start, R_group ''src_ip'' (r_some r_nonspace), r_some r_space, r_some r_nonspace, r_some r_space,
      R_group ''user'' (r_some r_nonspace), r_some r_space,
      r_lit ''['', R_group ''ts'' (r_some (r_not '']'')), r_lit '']'', r_some r_space,
      r_lit [CHR 0x22], R_group ''method'' (r_some (R_char is_upper)), r_some r_space,
      R_group ''path'' (r_lazy (r_not [CHR 0x22])), r_many r_space,
      r_opt (R_group ''protocol'' (R_cat (r_lit ''HTTP/'') (r_some (R_char (\<lambda>c. is_digit c \<or> c = CHR ''.''))))),
      r_lit [CHR 0x22], r_some r_space,
      R_group ''status'' (r_times 3 r_digit), r_some r_space,
      R_group ''bytes'' (R_alt (r_some r_digit) (r_lit ''-'')), r_many r_space,
      r_opt (r_seq [quoted_text ''referer'', r_many r_space, quoted_text ''user_agent''])]"

definition first_some :: "'a option list \<Rightarrow> 'a option" where
  "first_some xs = Option.bind (find (\<lambda>x. x \<noteq> None) xs) id"

definition parse_combined_ts :: "string \<Rightarrow> time option" where
  "parse_combined_ts v = first_some [strptime FMT_COMBINED v, strptime FMT_ISO v, strptime FMT_PLAIN v]"

definition parse_combined_log :: "position \<Rightarrow> parsed_line" where
  "parse_combined_log m =
     (let status = digits_val (group_text m ''status''); bytes = group_text m ''bytes'';
          user = group_text m ''user''
      in \<lparr>pl_kind = Http_request,
          pl_labels =
            [(''src_ip'', PStr (group_text m ''src_ip'')), (''method'', PStr (group_text m ''method'')),
             (''path'', PStr (group_text m ''path'')), (''status'', PInt status)]
            @ (if user = ''-'' then [] else [(''user'', PStr user)])
            @ [(''user_agent'', PStr (take 512 (group_text m ''user_agent''))),
               (''referer'', PStr (take 512 (group_text m ''referer''))), (''log_format'', PStr ''combined'')],
          pl_payload = [(''status'', PInt status), (''bytes'', PInt (if bytes = [] \<or> bytes = ''-'' then 0 else digits_val bytes))],
          pl_ts = parse_combined_ts (group_text m ''ts''),
          pl_hint = (if 500 \<le> status then Some Medium else if status \<in> set [401, 403] then Some Low else None)\<rparr>)"

definition LABEL_KEYS :: "(string \<times> string list) list" where
  "LABEL_KEYS =
     [(''src_ip'', [''src_ip'', ''remote_addr'', ''client_ip'', ''source_ip'', ''ip'']),
      (''method'', [''method'', ''request_method'', ''http_method'']),
      (''path'', [''path'', ''uri'', ''request_uri'', ''url'', ''request'']),
      (''status'', [''status'', ''status_code'', ''response_status'']),
      (''host'', [''host'', ''server_name'', ''vhost'']),
      (''user_agent'', [''user_agent'', ''http_user_agent'', ''agent'']),
      (''user'', [''user'', ''username'', ''remote_user'', ''actor'']),
      (''level'', [''level'', ''severity'', ''log_level'']),
      (''message'', [''message'', ''msg'', ''event'', ''error''])]"

definition json_label :: "dict \<Rightarrow> string list \<Rightarrow> pyval option" where
  "json_label d ks =
     map_option (\<lambda>k. case dict_val d k of
         PInt i \<Rightarrow> PInt i | PFloat x \<Rightarrow> PFloat x | PBool b \<Rightarrow> PBool b
       | v \<Rightarrow> PStr (take 1024 (py_str v)))
     (find (\<lambda>k. dict_val d k \<noteq> PNone) ks)"

definition json_labels :: "dict \<Rightarrow> dict" where
  "json_labels d = List.map_filter (\<lambda>(l, ks). map_option (Pair l) (json_label d ks)) LABEL_KEYS"

definition level_hint :: "dict \<Rightarrow> severity option" where
  "level_hint labels =
     (let level = str_lower (case map_of labels ''level'' of None \<Rightarrow> [] | Some v \<Rightarrow> py_str v)
      in if level \<in> set [''critical'', ''fatal'', ''panic''] then Some High
         else if level \<in> set [''error'', ''err''] then Some Medium
         else if level = ''warning'' then Some Low else None)"

text \<open>\<open>parse_dt\<close> of \<open>core/util.py\<close> on a value of a document; the iteration over the fallback formats is \<open>strptime\<close>.\<close>

definition FMT_NAIVE :: "re list" where
  "FMT_NAIVE =
     [r_seq (ymd_dirs @ [r_ilit ''T''] @ clock_dirs @ [r_lit ''.'', dir_f]), r_seq (ymd_dirs @ [r_ilit ''T''] @ clock_dirs), FMT_PLAIN, r_seq ymd_dirs]"

definition parse_dt :: "(string \<Rightarrow> time option) \<Rightarrow> pyval \<Rightarrow> exn + time option" where
  "parse_dt from_iso v =
     (case v of
        PNone \<Rightarrow> Inr None
      | PTime t \<Rightarrow> Inr (Some t)
      | PStr s \<Rightarrow>
          let x = str_strip s; y = (if x \<noteq> [] \<and> last x = CHR ''Z'' then butlast x @ ''+00:00'' else x)
          in Inr (if x = [] then None else first_some (from_iso y # map (\<lambda>f. strptime f y) FMT_NAIVE))
      | _ \<Rightarrow> Inl (Foreign ''AttributeError''
               (repr_str (type_name v) @ '' object has no attribute '' @ repr_str ''strip'')))"

definition either :: "dict \<Rightarrow> string list \<Rightarrow> pyval" where
  "either d ks = (case find (\<lambda>k. truthy (dict_val d k)) ks of Some k \<Rightarrow> dict_val d k | None \<Rightarrow> dict_val d (last ks))"

definition parse_json_log :: "(string \<Rightarrow> time option) \<Rightarrow> string \<Rightarrow> exn + parsed_line option" where
  "parse_json_log from_iso line =
     (case json_loads line of
        Some (PDict d) \<Rightarrow>
          let labels = json_labels d
          in (case parse_dt from_iso (either d [''ts'', ''timestamp'', ''time'']) of
                Inl e \<Rightarrow> Inl e
              | Inr ts \<Rightarrow>
                  Inr (Some \<lparr>pl_kind = Log_line, pl_labels = labels,
                             pl_payload = filter (\<lambda>(k, v). k \<notin> set (map fst labels)) d, pl_ts = ts,
                             pl_hint = level_hint labels\<rparr>))
      | _ \<Rightarrow> Inr None)"

definition parse_log_line :: "(string \<Rightarrow> time option) \<Rightarrow> string \<Rightarrow> string \<Rightarrow> exn + parsed_line option" where
  "parse_log_line from_iso line format =
     (if format = ''json'' \<or> format = ''auto'' \<and> take 1 (dropWhile is_space line) = ''{'' then parse_json_log from_iso line
      else case re_match COMBINED_LOG line of
        Some m \<Rightarrow> Inr (Some (parse_combined_log m))
      | None \<Rightarrow>
          if format \<in> set [''nginx'', ''apache'', ''combined''] then Inr None
          else Inr (Some \<lparr>pl_kind = Log_line, pl_labels = [(''message'', PStr (take 1024 line))],
                          pl_payload = [(''raw_length'', PInt (int (length line)))], pl_ts = None, pl_hint = None\<rparr>))"

subsection \<open>A pass over a file\<close>

definition MAX_BYTES_PER_RUN :: nat where "MAX_BYTES_PER_RUN = 4 * 1024 * 1024"
definition MAX_EVENTS_PER_FILE :: nat where "MAX_EVENTS_PER_FILE = 5000"

definition line_draft :: "string \<Rightarrow> parsed_line \<Rightarrow> draft" where
  "line_draft path p =
     \<lparr>dr_kind = pl_kind p, dr_labels = dict_set ''log_file'' (PStr path) (pl_labels p), dr_payload = pl_payload p,
      dr_hint = pl_hint p, dr_name = Some ''log_tail'', dr_host = Some (path_name path), dr_type = Some Src_log_tail,
      dr_ts = pl_ts p\<rparr>"

record 'w reader =
  rd_create :: "draft \<Rightarrow> ('w, event) pass_op"
  rd_iso :: "string \<Rightarrow> time option"

text \<open>
  The loop over the lines: the bytes consumed and the events so far, and whether the loop was left by \<open>break\<close>.
\<close>

fun read_lines ::
    "'w reader \<Rightarrow> string \<Rightarrow> string \<Rightarrow> string list \<Rightarrow> nat \<Rightarrow> event list \<Rightarrow> ('w, bool \<times> event list) pass_op" where
  "read_lines rd path format [] n es = returnE (False, es)"
| "read_lines rd path format (l # ls) n es =
     (let n' = n + length l; line = chomp l
      in if MAX_BYTES_PER_RUN < n' \<or> MAX_EVENTS_PER_FILE \<le> length es then returnE (True, es)
         else if str_strip line = [] then read_lines rd path format ls n' es
         else case parse_log_line (rd_iso rd) line format of
           Inl e \<Rightarrow> raiseE e
         | Inr None \<Rightarrow> read_lines rd path format ls n' es
         | Inr (Some p) \<Rightarrow>
             bindE (rd_create rd (line_draft path p)) (\<lambda>ev. read_lines rd path format ls n' (es @ [ev])))"

definition rewound :: "disk_file \<Rightarrow> tail_state \<Rightarrow> tail_state" where
  "rewound f e =
     (let size = length (df_text f);
          e1 = (if size < tl_offset e \<or> tl_size e \<noteq> 0 \<and> size < tl_size e
                then e\<lparr>tl_rotated := tl_rotated e + 1, tl_offset := 0\<rparr> else e)
      in e1\<lparr>tl_size := size, tl_modified := df_mtime f\<rparr>)"

text \<open>
  The entry is an object: what was changed of it before an \<open>OSError\<close> stays in the state when the state already held it.
\<close>

definition TELL_ERROR :: string where "TELL_ERROR = ''telling position disabled by next() call''"

type_synonym tail_map = "(string \<times> tail_state) list"

definition kept :: "string \<Rightarrow> tail_state \<Rightarrow> tail_map \<Rightarrow> tail_map" where
  "kept key e m = (if map_of m key = None then m else AList.update key e m)"

definition read_new_lines ::
    "'w reader \<Rightarrow> log_machine \<Rightarrow> string \<Rightarrow> string \<Rightarrow> disk_file \<Rightarrow> tail_map \<Rightarrow> ('w, (string + event list) \<times> tail_map) pass_op"
where
  "read_new_lines rd lm path format f m =
     (let key = lm_resolve lm path;
          e = rewound f (case map_of m key of None \<Rightarrow> new_tail | Some e \<Rightarrow> e)
      in case df_error f of
           Some why \<Rightarrow> returnE (Inl why, kept key e m)
         | None \<Rightarrow>
           bindE (read_lines rd path format (keep_lines (universal_newlines (drop (tl_offset e) (df_text f)))) 0 [])
             (\<lambda>(broken, es).
               let e' = e\<lparr>tl_lines := tl_lines e + int (length es)\<rparr>
               in if broken then returnE (Inl TELL_ERROR, kept key e' m)
                  else returnE (Inr es, AList.update key (e'\<lparr>tl_offset := length (df_text f)\<rparr>) m)))"

definition load_tail :: "tail_file \<Rightarrow> tail_map" where
  "load_tail t = (case t of Tail_saved m \<Rightarrow> m | _ \<Rightarrow> [])"

subsection \<open>A pass over the declared files\<close>

definition file_error :: "regex_sub \<Rightarrow> string \<Rightarrow> string \<Rightarrow> collector_result \<Rightarrow> collector_result" where
  "file_error re path why r = add_error re (path @ '': '' @ why) r"

definition add_per_file :: "string \<Rightarrow> pyval \<Rightarrow> collector_result \<Rightarrow> collector_result" where
  "add_per_file path v r =
     set_detail ''per_file''
       (PDict (dict_set path v (case dict_val (rs_detail r) ''per_file'' of PDict d \<Rightarrow> d | _ \<Rightarrow> []))) r"

definition tail_source ::
    "regex_sub \<Rightarrow> 'w reader \<Rightarrow> log_machine \<Rightarrow> string \<Rightarrow> (string \<Rightarrow> disk_file option) \<Rightarrow> log_source
      \<Rightarrow> collector_result \<times> tail_map \<Rightarrow> ('w, collector_result \<times> tail_map) pass_op" where
  "tail_source re rd lm rootdir files src acc =
     (case acc of (r, m) \<Rightarrow>
        let path = lm_path lm rootdir (ls_path src)
        in case files path of
             None \<Rightarrow> returnE (add_error re (''journal introuvable: '' @ path) r, m)
           | Some f \<Rightarrow>
               bindE (read_new_lines rd lm path (ls_format src) f m) (\<lambda>(outcome, m').
                 case outcome of
                   Inl why \<Rightarrow> returnE (file_error re path why r, m')
                 | Inr es \<Rightarrow>
                     returnE (add_per_file path (PInt (int (length es))) (r\<lparr>rs_events := rs_events r @ es\<rparr>), m')))"

fun tail_sources ::
    "regex_sub \<Rightarrow> 'w reader \<Rightarrow> log_machine \<Rightarrow> string \<Rightarrow> (string \<Rightarrow> disk_file option) \<Rightarrow> log_source list
      \<Rightarrow> collector_result \<times> tail_map \<Rightarrow> ('w, collector_result \<times> tail_map) pass_op" where
  "tail_sources re rd lm rootdir files [] acc = returnE acc"
| "tail_sources re rd lm rootdir files (s # ss) acc =
     bindE (tail_source re rd lm rootdir files s acc) (tail_sources re rd lm rootdir files ss)"

definition save_tail :: "tail_map \<Rightarrow> ('a disk_scheme, unit) pass_op" where
  "save_tail m = writeE (\<lambda>s. s\<lparr>ps_out := (ps_out s)\<lparr>dk_tail := Tail_saved m\<rparr>\<rparr>)"

definition tail_collect ::
    "regex_sub \<Rightarrow> world \<Rightarrow> log_machine \<Rightarrow> collector_context \<Rightarrow> time \<Rightarrow> ('a disk_scheme, collector_result) pass_op" where
  "tail_collect re w lm cx now =
     (let sources = ts_log_sources (cx_scope cx)
      in if sources = []
         then returnE (skip_run ''log_tail''
                (''aucun journal declare pour le tenant '' @ quote (ts_tenant (cx_scope cx))
                 @ '' (renseignez '' @ quote ''log_sources'' @ '' dans config/targets.yaml)'') now)
         else
           bindE (readE ps_out) (\<lambda>out.
           bindE (tail_sources re \<lparr>rd_create = create_event re w cx now, rd_iso = lm_iso lm\<rparr> lm (cs_root (cx_settings cx))
                    (dk_files out) sources (new_run ''log_tail'' now, load_tail (dk_tail out))) (\<lambda>(r, m).
           bindE (save_tail m) (\<lambda>_.
           returnE ((set_detail ''sources'' (PList (map (PStr \<circ> ls_path) sources)) r)\<lparr>rs_finished := Some now\<rparr>)))))"

definition log_tail_collector :: "regex_sub \<Rightarrow> world \<Rightarrow> log_machine \<Rightarrow> 'a disk_scheme collector" where
  "log_tail_collector re w lm =
     \<lparr>co_name = ''log_tail'', co_source = Src_log_tail,
      co_description = ''Suit les journaux declares (Nginx/Apache/JSON) et les normalise en evenements.'',
      co_interval = 60, co_optin = False, co_enabled = default_enabled False, co_collect = tail_collect re w lm\<rparr>"

end
