(* ===== verification/Syslog.thy ===== *)
theory Syslog
  imports LogTail
begin

section \<open>Listening to syslog\<close>

text \<open>
  \<open>collectors/syslog.py\<close>: a datagram is parsed as RFC 5424, then RFC 3164, then a dated line, and is otherwise kept as it
  is; it is emitted at once.  A datagram is its bytes, decoded as ASCII.  The counters of the protocol are a record; the
  socket and the loop that waits for the end of the service are left out.  \<open>datetime.fromisoformat\<close> is a parameter.
\<close>

definition r_pri :: re where "r_pri = r_seq [r_lit ''<'', R_group ''pri'' (r_between 1 3 r_digit), r_lit ''>'']"
definition r_word1 :: "string \<Rightarrow> re" where "r_word1 n = R_group n (r_some r_nonspace)"

definition RFC5424 :: re where
  "RFC5424 = r_seq
     [R_start, r_pri, R_group ''version'' r_digit, r_some r_space, r_word1 ''ts'', r_some r_space, r_word1 ''host'', r_some r_space,
      r_word1 ''app'', r_some r_space, r_word1 ''procid'', r_some r_space, r_word1 ''msgid'', r_some r_space,
      R_group ''rest'' (r_many r_dotall), R_end]"

definition r_stamp :: re where
  "r_stamp = R_group ''ts'' (r_seq
     [R_char (\<lambda>c. 65 \<le> code c \<and> code c \<le> 90), r_times 2 (R_char (\<lambda>c. 97 \<le> code c \<and> code c \<le> 122)), r_some r_space,
      r_between 1 2 r_digit, r_some r_space, r_times 2 r_digit, r_lit '':'', r_times 2 r_digit, r_lit '':'', r_times 2 r_digit])"

definition RFC3164 :: re where
  "RFC3164 = r_seq
     [R_start, r_pri, r_stamp, r_some r_space, r_word1 ''host'', r_some r_space,
      R_group ''tag'' (r_some (R_char (\<lambda>c. c \<noteq> CHR '':'' \<and> \<not> is_space c \<and> c \<noteq> CHR ''['')))
      , r_opt (r_seq [r_lit ''['', R_group ''pid'' (r_some r_digit), r_lit '']'']), r_lit '':'', r_opt r_space,
      R_group ''msg'' (r_many r_dotall), R_end]"

definition BARE :: re where
  "BARE = r_seq [R_start, r_stamp, r_some r_space, R_group ''rest'' (r_many r_dotall), R_end]"

definition SEVERITY_BY_CODE :: "(int \<times> severity) list" where
  "SEVERITY_BY_CODE = [(0, Critical), (1, Critical), (2, Critical), (3, High), (4, Medium), (5, Low), (6, Info), (7, Info)]"

definition FACILITIES :: "(int \<times> string) list" where
  "FACILITIES =
     [(0, ''kern''), (1, ''user''), (2, ''mail''), (3, ''daemon''), (4, ''auth''), (5, ''syslog''), (6, ''lpr''), (7, ''news''),
      (8, ''uucp''), (9, ''cron''), (10, ''authpriv''), (11, ''ftp''), (16, ''local0''), (17, ''local1''), (18, ''local2''),
      (19, ''local3''), (20, ''local4''), (21, ''local5''), (22, ''local6''), (23, ''local7'')]"

record syslog_message =
  sm_facility :: string
  sm_severity :: severity
  sm_host :: string
  sm_app :: string
  sm_procid :: string
  sm_msgid :: string
  sm_message :: string
  sm_ts :: time

subsection \<open>Dates\<close>

definition parse_rfc5424_ts :: "(string \<Rightarrow> time option) \<Rightarrow> time \<Rightarrow> string \<Rightarrow> time" where
  "parse_rfc5424_ts from_iso now v =
     (if v \<in> set [''-'', []] then now
      else case from_iso (replace_char (CHR ''Z'') ''+00:00'' v) of None \<Rightarrow> now | Some t \<Rightarrow> t)"

definition RFC3164_TS :: re where
  "RFC3164_TS = r_seq
     [R_start, R_group ''month'' (r_times 3 (R_char (\<lambda>c. is_upper c \<or> is_lower c))), r_some r_space,
      R_group ''day'' (r_between 1 2 r_digit), r_some r_space, R_group ''hour'' (r_times 2 r_digit), r_lit '':'',
      R_group ''minute'' (r_times 2 r_digit), r_lit '':'', R_group ''second'' (r_times 2 r_digit)]"

definition in_year :: "position \<Rightarrow> int \<Rightarrow> int \<Rightarrow> time option" where
  "in_year m month y =
     civil y month (group_int m ''day'') (group_int m ''hour'') (group_int m ''minute'') (group_int m ''second'')"

definition one_space :: "string \<Rightarrow> string" where
  "one_space s = join_with '' '' (filter (\<lambda>w. w \<noteq> []) (split_on (CHR '' '') (map (\<lambda>c. if is_space c then CHR '' '' else c) s)))"

definition parse_rfc3164_ts :: "time \<Rightarrow> string \<Rightarrow> time" where
  "parse_rfc3164_ts now v =
     (case re_match RFC3164_TS (one_space v) of
        None \<Rightarrow> now
      | Some m \<Rightarrow>
          (case map_of MONTHS (str_lower (group_text m ''month'')) of
             None \<Rightarrow> now
           | Some month \<Rightarrow>
               (case in_year m month (year_of now) of
                  None \<Rightarrow> now
                | Some t \<Rightarrow>
                    if now div usec * usec < t \<and> 1 < (t - now) div seconds 86400
                    then (case in_year m month (year_of now - 1) of None \<Rightarrow> now | Some u \<Rightarrow> u)
                    else t)))"

subsection \<open>Messages\<close>

definition facility_name :: "int \<Rightarrow> string" where
  "facility_name pri = (case map_of FACILITIES (pri div 8) of None \<Rightarrow> int_str (pri div 8) | Some f \<Rightarrow> f)"

definition syslog_severity :: "int \<Rightarrow> severity" where
  "syslog_severity pri = (case map_of SEVERITY_BY_CODE (pri mod 8) of None \<Rightarrow> Info | Some v \<Rightarrow> v)"

definition plain_message :: "string \<Rightarrow> time \<Rightarrow> syslog_message" where
  "plain_message body ts =
     \<lparr>sm_facility = ''unknown'', sm_severity = Info, sm_host = [], sm_app = [], sm_procid = [], sm_msgid = [],
      sm_message = take 4096 body, sm_ts = ts\<rparr>"

definition message_5424 :: "(string \<Rightarrow> time option) \<Rightarrow> time \<Rightarrow> position \<Rightarrow> syslog_message" where
  "message_5424 from_iso now m =
     (let pri = group_int m ''pri''
      in \<lparr>sm_facility = facility_name pri, sm_severity = syslog_severity pri, sm_host = group_text m ''host'',
          sm_app = group_text m ''app'', sm_procid = group_text m ''procid'', sm_msgid = group_text m ''msgid'',
          sm_message = take 4096 (str_strip (group_text m ''rest'')),
          sm_ts = parse_rfc5424_ts from_iso now (group_text m ''ts'')\<rparr>)"

definition message_3164 :: "time \<Rightarrow> position \<Rightarrow> syslog_message" where
  "message_3164 now m =
     (let pri = group_int m ''pri''
      in \<lparr>sm_facility = facility_name pri, sm_severity = syslog_severity pri, sm_host = group_text m ''host'',
          sm_app = group_text m ''tag'', sm_procid = group_text m ''pid'', sm_msgid = [],
          sm_message = take 4096 (str_strip (group_text m ''msg'')), sm_ts = parse_rfc3164_ts now (group_text m ''ts'')\<rparr>)"

definition parse_syslog_line :: "(string \<Rightarrow> time option) \<Rightarrow> time \<Rightarrow> string \<Rightarrow> syslog_message option" where
  "parse_syslog_line from_iso now line =
     (let body = str_strip line
      in if body = [] then None
         else Some
           (case re_match RFC5424 body of
              Some m \<Rightarrow> message_5424 from_iso now m
            | None \<Rightarrow>
                (case re_match RFC3164 body of
                   Some m \<Rightarrow> message_3164 now m
                 | None \<Rightarrow>
                     (case re_match BARE body of
                        Some m \<Rightarrow> plain_message (str_strip (group_text m ''rest'')) (parse_rfc3164_ts now (group_text m ''ts''))
                      | None \<Rightarrow> plain_message body now))))"

subsection \<open>Datagrams\<close>

record syslog_protocol =
  sy_received :: int
  sy_dropped :: int
  sy_errors :: int

definition MAX_DATAGRAM :: nat where "MAX_DATAGRAM = 65535"

definition message_draft :: "string \<Rightarrow> int \<Rightarrow> syslog_message \<Rightarrow> draft" where
  "message_draft ip port m =
     \<lparr>dr_kind = Syslog,
      dr_labels = [(''src_ip'', PStr ip), (''src_port'', PInt port), (''facility'', PStr (sm_facility m)),
                   (''syslog_severity'', PStr (severity_str (sm_severity m))), (''app'', PStr (sm_app m)),
                   (''host'', PStr (sm_host m)), (''message'', PStr (sm_message m))],
      dr_payload = [(''procid'', PStr (sm_procid m)), (''msgid'', PStr (sm_msgid m)),
                    (''message_length'', PInt (int (length (sm_message m))))],
      dr_hint = Some (sm_severity m), dr_name = Some ''syslog-udp'',
      dr_host = Some (if sm_host m = [] then ip else sm_host m), dr_type = Some Src_syslog, dr_ts = Some (sm_ts m)\<rparr>"

text \<open>
  \<open>datagram_received\<close>; the protocol is kept beside the state \<open>'s\<close> the emitter works on, and an exception of the
  emitter is counted and dropped.
\<close>

definition datagram_received ::
    "(draft \<Rightarrow> ('s, exn, event) op) \<Rightarrow> (string \<Rightarrow> time option) \<Rightarrow> time \<Rightarrow> string \<Rightarrow> string \<Rightarrow> int \<Rightarrow> syslog_protocol \<times> 's
      \<Rightarrow> syslog_protocol \<times> 's" where
  "datagram_received send from_iso now data ip port st =
     (case st of (p0, s) \<Rightarrow>
        let p = p0\<lparr>sy_received := sy_received p0 + 1\<rparr>; drop_it = (p\<lparr>sy_dropped := sy_dropped p + 1\<rparr>, s)
        in if MAX_DATAGRAM < length data then drop_it
           else case parse_syslog_line from_iso now (str_strip data) of
             None \<Rightarrow> drop_it
           | Some m \<Rightarrow>
               (case send (message_draft ip port m) s of
                  (Inr _, s') \<Rightarrow> (p, s')
                | (Inl _, s') \<Rightarrow> (p\<lparr>sy_errors := sy_errors p + 1\<rparr>, s')))"

definition syslog_collect :: "collector_context \<Rightarrow> time \<Rightarrow> ('w, collector_result) pass_op" where
  "syslog_collect cx now =
     returnE (skip_run ''syslog'' (''collecteur en mode ecoute : demarrez le service avec THOT_SYSLOG_ENABLED=true (il ne s''
       @ [CHR 0x27] @ ''execute pas a intervalle)'') now)"

definition syslog_enabled :: "collector_settings \<Rightarrow> tenant_scope \<Rightarrow> bool \<times> string" where
  "syslog_enabled cs sc = (if cs_syslog cs then (True, ''ecoute syslog activee'') else (False, ''THOT_SYSLOG_ENABLED=false''))"

definition syslog_collector :: "'w collector" where
  "syslog_collector =
     \<lparr>co_name = ''syslog'', co_source = Src_syslog,
      co_description = ''Ecoute syslog (RFC 3164/5424) sur UDP et normalise les messages.'', co_interval = 0, co_optin = False,
      co_enabled = syslog_enabled, co_collect = syslog_collect\<rparr>"

end
