(* ===== verification/ConfigAudit.thy ===== *)
theory ConfigAudit
  imports LogTail
begin

section \<open>Auditing configuration files\<close>

text \<open>
  \<open>collectors/config_audit.py\<close>: declared configuration files are searched for dangerous settings.  The patterns of the
  checks are expressions of theory \<open>Regex\<close>, written with the flags \<open>(?im)\<close>: \<open>^\<close> holds after every line feed, and a
  literal ignores the case.  The text of a pattern is kept too, since the evidence of a missing setting quotes it.
\<close>

subsection \<open>Checks\<close>

record config_check =
  ck_check :: string
  ck_pattern :: re
  ck_text :: string
  ck_severity :: severity
  ck_message :: string
  ck_reference :: string
  ck_expect_absent :: bool

definition BS :: string where "BS = [CHR 0x5C]"

definition r_spaces :: re where "r_spaces = r_many r_space"
definition r_spaces1 :: re where "r_spaces1 = r_some r_space"

text \<open>\<open>^\s*NAME\s+\<close>: a directive at the beginning of a line.\<close>

definition directive :: "string \<Rightarrow> re" where
  "directive name = r_seq [R_line, r_spaces, r_ilit name, r_spaces1]"

definition directive_text :: "string \<Rightarrow> string" where
  "directive_text name = ''(?im)^'' @ BS @ ''s*'' @ name @ BS @ ''s+''"

definition SSH_CHECKS :: "config_check list" where
  "SSH_CHECKS =
     [\<lparr>ck_check = ''ssh_permit_root_login'',
       ck_pattern = R_cat (directive ''PermitRootLogin'')
         (r_any [r_ilit ''yes'', r_ilit ''without-password'', r_ilit ''prohibit-password'']),
       ck_text = directive_text ''PermitRootLogin'' @ ''(yes|without-password|prohibit-password)'', ck_severity = High,
       ck_message = ''La connexion directe de root en SSH est autorisee : un mot de passe root compromis suffit.'',
       ck_reference = ''CIS 5.2.8 - Ensure SSH root login is disabled'', ck_expect_absent = True\<rparr>,
      \<lparr>ck_check = ''ssh_password_authentication'', ck_pattern = R_cat (directive ''PasswordAuthentication'') (r_ilit ''yes''),
       ck_text = directive_text ''PasswordAuthentication'' @ ''yes'', ck_severity = Medium,
       ck_message = ''L'' @ [CHR 0x27] @ ''authentification par mot de passe SSH est active : elle est vulnerable au bourrage d''
         @ [CHR 0x27] @ ''identifiants.'',
       ck_reference = ''CIS 5.2.10 - Ensure SSH access is limited / keys only'', ck_expect_absent = True\<rparr>,
      \<lparr>ck_check = ''ssh_empty_passwords'', ck_pattern = R_cat (directive ''PermitEmptyPasswords'') (r_ilit ''yes''),
       ck_text = directive_text ''PermitEmptyPasswords'' @ ''yes'', ck_severity = Critical,
       ck_message = ''Les mots de passe vides sont acceptes en SSH : acces direct sans authentification.'',
       ck_reference = ''CIS 5.2.9 - Ensure SSH PermitEmptyPasswords is disabled'', ck_expect_absent = True\<rparr>,
      \<lparr>ck_check = ''ssh_max_auth_tries'', ck_pattern = R_cat (directive ''MaxAuthTries'') (r_some (r_range (CHR ''0'') (CHR ''9''))),
       ck_text = directive_text ''MaxAuthTries'' @ ''([0-9]+)'', ck_severity = Low,
       ck_message = ''Limiter MaxAuthTries reduit la fenetre d'' @ [CHR 0x27] @ ''un bourrage d'' @ [CHR 0x27] @ ''identifiants.'',
       ck_reference = ''CIS 5.2.7 - Ensure SSH MaxAuthTries is set to 4 or less'', ck_expect_absent = False\<rparr>,
      \<lparr>ck_check = ''ssh_protocol_v1'', ck_pattern = R_cat (directive ''Protocol'') (r_lit ''1''),
       ck_text = directive_text ''Protocol'' @ ''1'', ck_severity = Critical,
       ck_message = ''Le protocole SSH v1 est obsolete et casse (CVE-2001-0361).'',
       ck_reference = ''ANSSI - Recommandations SSH'', ck_expect_absent = True\<rparr>]"

definition WEB_CHECKS :: "config_check list" where
  "WEB_CHECKS =
     [\<lparr>ck_check = ''web_tls_legacy_protocol'',
       ck_pattern = r_seq [directive ''ssl_protocols'', r_many (r_not '';''), R_word,
         r_any [r_ilit ''TLSv1'', r_ilit ''TLSv1.1'', r_ilit ''SSLv3''], R_word],
       ck_text = directive_text ''ssl_protocols'' @ ''[^;]*'' @ BS @ ''b(TLSv1|TLSv1'' @ BS @ ''.1|SSLv3)'' @ BS @ ''b'',
       ck_severity = High,
       ck_message = ''Des protocoles TLS obsoletes sont actives : le chiffrement est considere comme casse.'',
       ck_reference = ''CIS 2.4 - Nginx TLS configuration'', ck_expect_absent = True\<rparr>,
      \<lparr>ck_check = ''web_server_tokens'',
       ck_pattern = r_seq [directive ''server_tokens'', r_ilit ''on'', r_spaces, r_lit '';''],
       ck_text = directive_text ''server_tokens'' @ ''on'' @ BS @ ''s*;'', ck_severity = Low,
       ck_message = ''server_tokens on divulgue la version exacte du serveur.'',
       ck_reference = ''OWASP - Information exposure'', ck_expect_absent = True\<rparr>,
      \<lparr>ck_check = ''web_directory_listing'',
       ck_pattern = r_seq [directive ''autoindex'', r_ilit ''on'', r_spaces, r_lit '';''],
       ck_text = directive_text ''autoindex'' @ ''on'' @ BS @ ''s*;'', ck_severity = Medium,
       ck_message = ''L'' @ [CHR 0x27] @ ''indexation automatique des repertoires est active : elle expose l'' @ [CHR 0x27]
         @ ''arborescence et les fichiers non lies.'',
       ck_reference = ''OWASP - Directory listing'', ck_expect_absent = True\<rparr>,
      \<lparr>ck_check = ''web_missing_hsts'',
       ck_pattern = r_seq [r_ilit ''add_header'', r_spaces1, r_ilit ''Strict-Transport-Security''],
       ck_text = ''(?im)add_header'' @ BS @ ''s+Strict-Transport-Security'', ck_severity = Medium,
       ck_message = ''Aucun en-tete HSTS trouve : la retrogradation d'' @ [CHR 0x27] @ ''une premiere requete en HTTP est possible.'',
       ck_reference = ''OWASP Secure Headers Project'', ck_expect_absent = False\<rparr>]"

definition CONTAINER_CHECKS :: "config_check list" where
  "CONTAINER_CHECKS =
     [\<lparr>ck_check = ''container_privileged'',
       ck_pattern = r_seq [r_ilit ''privileged'', r_spaces, r_lit '':'', r_spaces, r_ilit ''true''],
       ck_text = ''(?im)privileged'' @ BS @ ''s*:'' @ BS @ ''s*true'', ck_severity = Critical,
       ck_message = ''Un conteneur est lance en mode privilegie : il peut s'' @ [CHR 0x27] @ ''echapper vers l'' @ [CHR 0x27] @ ''hote.'',
       ck_reference = ''CIS Docker 5.4 - Ensure privileged containers are not used'', ck_expect_absent = True\<rparr>,
      \<lparr>ck_check = ''container_docker_socket'', ck_pattern = r_ilit ''/var/run/docker.sock'',
       ck_text = ''(?im)/var/run/docker'' @ BS @ ''.sock'', ck_severity = Critical,
       ck_message = ''Le socket Docker est monte dans un conteneur : cela equivaut a un acces root sur l'' @ [CHR 0x27] @ ''hote.'',
       ck_reference = ''CIS Docker 5.31 - Ensure the Docker socket is not mounted'', ck_expect_absent = True\<rparr>,
      \<lparr>ck_check = ''container_host_network'',
       ck_pattern = r_seq [r_ilit ''network_mode'', r_spaces, r_lit '':'', r_spaces,
         r_opt (R_char (\<lambda>c. c \<in> {CHR 0x22, CHR 0x27})), r_ilit ''host'', r_opt (R_char (\<lambda>c. c \<in> {CHR 0x22, CHR 0x27}))],
       ck_text = ''(?im)network_mode'' @ BS @ ''s*:'' @ BS @ ''s*['' @ BS @ [CHR 0x22, CHR 0x27] @ '']?host['' @ BS @ [CHR 0x22, CHR 0x27] @ '']?'',
       ck_severity = High,
       ck_message = ''Un conteneur partage la pile reseau de l'' @ [CHR 0x27]
         @ ''hote : les protections reseau deviennent inoperantes.'',
       ck_reference = ''CIS Docker 5.9 - Ensure host network mode is not used'', ck_expect_absent = True\<rparr>,
      \<lparr>ck_check = ''container_no_new_privileges'', ck_pattern = r_ilit ''no-new-privileges'',
       ck_text = ''(?im)no-new-privileges'', ck_severity = Medium,
       ck_message = ''L'' @ [CHR 0x27] @ ''option no-new-privileges n'' @ [CHR 0x27]
         @ ''est pas definie : un binaire setuid peut elever les privileges.'',
       ck_reference = ''CIS Docker 5.25 - Ensure no-new-privileges is set'', ck_expect_absent = False\<rparr>,
      \<lparr>ck_check = ''container_readonly_rootfs'',
       ck_pattern = r_seq [r_ilit ''read_only'', r_spaces, r_lit '':'', r_spaces, r_ilit ''true''],
       ck_text = ''(?im)read_only'' @ BS @ ''s*:'' @ BS @ ''s*true'', ck_severity = Low,
       ck_message = ''Le systeme de fichiers du conteneur n'' @ [CHR 0x27] @ ''est pas monte en lecture seule.'',
       ck_reference = ''CIS Docker 5.12 - Ensure the container root filesystem is read-only'', ck_expect_absent = False\<rparr>]"

definition CHECKS_BY_KIND :: "(string \<times> config_check list) list" where
  "CHECKS_BY_KIND =
     [(''ssh'', SSH_CHECKS), (''sshd'', SSH_CHECKS), (''sshd_config'', SSH_CHECKS),
      (''nginx'', WEB_CHECKS), (''apache'', WEB_CHECKS), (''httpd'', WEB_CHECKS),
      (''docker'', CONTAINER_CHECKS), (''docker-compose'', CONTAINER_CHECKS), (''compose'', CONTAINER_CHECKS)]"

definition available_checks :: "(string \<times> string list) list" where
  "available_checks =
     map (\<lambda>(k, cs). (k, map ck_check cs)) [(''ssh'', SSH_CHECKS), (''nginx'', WEB_CHECKS), (''docker'', CONTAINER_CHECKS)]"

subsection \<open>Applying them\<close>

text \<open>\<open>str.splitlines\<close>: the line boundaries of a text that universal newlines have already normalised.\<close>

definition line_break :: "char \<Rightarrow> bool" where
  "line_break c \<longleftrightarrow> code c \<in> {10, 11, 12, 13, 28, 29, 30, 133}"

fun splitlines :: "string \<Rightarrow> string list" where
  "splitlines [] = []"
| "splitlines (c # cs) =
     (if line_break c then [] # splitlines cs
      else (case splitlines cs of [] \<Rightarrow> [[c]] | l # ls \<Rightarrow> (c # l) # ls))"

record config_finding =
  cn_check :: string
  cn_severity :: severity
  cn_message :: string
  cn_reference :: string
  cn_explanation :: string
  cn_evidence :: string
  cn_line :: nat

definition explain :: "config_check \<Rightarrow> string \<Rightarrow> string list \<Rightarrow> nat \<Rightarrow> string" where
  "explain ck evidence lines line =
     (let shown = (if 0 < line \<and> line \<le> length lines then str_strip (lines ! (line - 1)) else evidence)
      in ck_message ck @ '' Reference : '' @ ck_reference ck @ ''. Extrait : '' @ [CHR 0xAB] @ '' '' @ take 200 shown @ '' ''
         @ [CHR 0xBB])"

definition triggered :: "config_check \<Rightarrow> string \<Rightarrow> (string \<times> nat) option" where
  "triggered ck body =
     (case re_search (ck_pattern ck) body of
        Some (s, t) \<Rightarrow>
          if ck_expect_absent ck
          then Some (str_strip (consumed s t), length (filter (\<lambda>c. c = LF) (po_before s)) + 1) else None
      | None \<Rightarrow> if ck_expect_absent ck then None else Some (''aucune occurrence de '' @ ck_text ck, 1))"

definition run_checks :: "string \<Rightarrow> config_check list \<Rightarrow> config_finding list" where
  "run_checks body checks =
     List.map_filter (\<lambda>ck. map_option (\<lambda>(evidence, line).
         \<lparr>cn_check = ck_check ck, cn_severity = ck_severity ck, cn_message = ck_message ck, cn_reference = ck_reference ck,
          cn_explanation = explain ck evidence (splitlines body) line, cn_evidence = evidence, cn_line = line\<rparr>)
       (triggered ck body)) checks"

definition resolve_kind :: "string \<Rightarrow> string \<Rightarrow> string" where
  "resolve_kind kind filename =
     (if kind \<noteq> [] \<and> kind \<noteq> ''auto'' then str_lower kind
      else
        let lower = str_lower filename
        in if sublist ''ssh'' lower then ''ssh''
           else if sublist ''nginx'' lower then ''nginx''
           else if sublist ''apache'' lower \<or> sublist ''httpd'' lower then ''apache''
           else if sublist ''docker'' lower \<or> sublist ''compose'' lower then ''docker''
           else ''inconnu'')"

subsection \<open>A pass\<close>

definition finding_draft :: "string \<Rightarrow> string \<Rightarrow> config_finding \<Rightarrow> draft" where
  "finding_draft path kind f =
     \<lparr>dr_kind = Config_audit,
      dr_labels = [(''check'', PStr (cn_check f)), (''file'', PStr path), (''kind'', PStr kind), (''line'', PInt (int (cn_line f))),
                   (''evidence'', PStr (take 300 (cn_evidence f)))],
      dr_payload = [(''message'', PStr (cn_message f)), (''reference'', PStr (cn_reference f)),
                    (''explanation'', PStr (cn_explanation f))],
      dr_hint = Some (cn_severity f), dr_name = Some ''config_audit'', dr_host = Some (path_name path),
      dr_type = Some Src_config_audit, dr_ts = None\<rparr>"

definition audit_file ::
    "regex_sub \<Rightarrow> (draft \<Rightarrow> ('w, event) pass_op) \<Rightarrow> log_machine \<Rightarrow> string \<Rightarrow> (string \<Rightarrow> disk_file option) \<Rightarrow> config_file
      \<Rightarrow> collector_result \<Rightarrow> ('w, collector_result) pass_op" where
  "audit_file re create lm rootdir files cf r =
     (let path = lm_path lm rootdir (cf_path cf)
      in case files path of
           None \<Rightarrow> returnE (add_error re (''fichier de configuration introuvable: '' @ path) r)
         | Some f \<Rightarrow>
             (case df_error f of
                Some why \<Rightarrow> returnE (file_error re path why r)
              | None \<Rightarrow>
                  let kind = resolve_kind (cf_kind cf) (path_name path)
                  in case map_of CHECKS_BY_KIND kind of
                       None \<Rightarrow>
                         returnE (add_error re (''type de configuration non reconnu pour '' @ path_name path @ '' (kind=''
                           @ repr_str (cf_kind cf) @ '') : aucun controle applique'') r)
                     | Some checks \<Rightarrow>
                         let findings = run_checks (universal_newlines (df_text f)) checks
                         in bindE (mapE (\<lambda>g. create (finding_draft path kind g)) findings) (\<lambda>es.
                            returnE (add_per_file (path_name path)
                              (PDict [(''kind'', PStr kind), (''checks_applied'', PInt (int (length checks))),
                                      (''findings'', PInt (int (length findings)))])
                              (r\<lparr>rs_events := rs_events r @ es\<rparr>)))))"

fun audit_files ::
    "regex_sub \<Rightarrow> (draft \<Rightarrow> ('w, event) pass_op) \<Rightarrow> log_machine \<Rightarrow> string \<Rightarrow> (string \<Rightarrow> disk_file option) \<Rightarrow> config_file list
      \<Rightarrow> collector_result \<Rightarrow> ('w, collector_result) pass_op" where
  "audit_files re create lm rootdir files [] r = returnE r"
| "audit_files re create lm rootdir files (c # cs) r =
     bindE (audit_file re create lm rootdir files c r) (audit_files re create lm rootdir files cs)"

definition audit_collect ::
    "regex_sub \<Rightarrow> world \<Rightarrow> log_machine \<Rightarrow> collector_context \<Rightarrow> time \<Rightarrow> ('a disk_scheme, collector_result) pass_op" where
  "audit_collect re w lm cx now =
     (let configs = ts_config_files (cx_scope cx)
      in if configs = []
         then returnE (skip_run ''config_audit''
                (''aucun fichier de configuration declare pour le tenant '' @ quote (ts_tenant (cx_scope cx))
                 @ '' (renseignez '' @ quote ''config_files'' @ '' dans config/targets.yaml)'') now)
         else
           bindE (readE ps_out) (\<lambda>out.
           bindE (audit_files re (create_event re w cx now) lm (cs_root (cx_settings cx)) (dk_files out) configs
                    (new_run ''config_audit'' now)) (\<lambda>r.
           returnE (r\<lparr>rs_finished := Some now\<rparr>))))"

definition config_audit_collector :: "regex_sub \<Rightarrow> world \<Rightarrow> log_machine \<Rightarrow> 'a disk_scheme collector" where
  "config_audit_collector re w lm =
     \<lparr>co_name = ''config_audit'', co_source = Src_config_audit,
      co_description = ''Detecte les reglages dangereux dans les fichiers de configuration declares.'',
      co_interval = 1800, co_optin = False, co_enabled = default_enabled False, co_collect = audit_collect re w lm\<rparr>"

end
