(* ===== verification/DependencyScan.thy ===== *)
theory DependencyScan
  imports ConfigAudit
begin

section \<open>Declared dependencies against known advisories\<close>

text \<open>
  \<open>collectors/dependency_scan.py\<close>: manifests are parsed into pinned dependencies, which are compared to a local snapshot
  of advisories.  The snapshot is the document read from its file (\<^const>\<open>None\<close> when it is missing or not JSON), and
  is kept by the collector after the first load.  Digits are ASCII, and a score is the rational of its decimal literal.
\<close>

subsection \<open>Versions\<close>

definition lstrip_chars :: "string \<Rightarrow> string \<Rightarrow> string" where
  "lstrip_chars w s = dropWhile (\<lambda>c. c \<in> set w) s"

text \<open>\<open>re.split(r"[.\-]", s)\<close>.\<close>

definition version_parts :: "string \<Rightarrow> string list" where
  "version_parts s = split_on (CHR ''.'') (map (\<lambda>c. if c = CHR ''-'' then CHR ''.'' else c) s)"

definition part_key :: "string \<Rightarrow> int list" where
  "part_key p =
     (let digits = takeWhile is_digit p
      in if digits = [] then [-1]
         else digits_val digits # (if length digits < length p then [-1] else []))"

definition version_key :: "string \<Rightarrow> int list" where
  "version_key v =
     (let cleaned = hd (split_on (CHR ''+'') (lstrip_chars ''v'' (str_strip v)));
          key = concat (map part_key (version_parts cleaned))
      in take 6 (key @ replicate (4 - length key) 0))"

definition compare_versions :: "string \<Rightarrow> string \<Rightarrow> int" where
  "compare_versions a b =
     (let x = version_key a; y = version_key b in (if y < x then 1 else 0) - (if x < y then 1 else 0))"

definition severity_from_cvss :: "rat \<Rightarrow> severity" where
  "severity_from_cvss x =
     (if 9 \<le> x then Critical else if 7 \<le> x then High else if 4 \<le> x then Medium else if 0 < x then Low else Info)"

subsection \<open>Advisories\<close>

record advisory =
  av_cve :: string
  av_package :: string
  av_ecosystem :: string
  av_affected :: string
  av_fixed :: string
  av_cvss :: rat
  av_severity :: string
  av_summary :: string
  av_references :: "string list"

definition AFFECTED_SPEC :: re where
  "AFFECTED_SPEC = r_seq
     [R_start, R_group ''op'' (r_any [r_lit ''<='', r_lit ''>='', r_lit ''<'', r_lit ''>'', r_lit ''=='']), r_many r_space,
      R_group ''bound'' (r_some r_dot), R_end]"

definition affects :: "advisory \<Rightarrow> string \<Rightarrow> bool" where
  "affects a version =
     (case re_match AFFECTED_SPEC (str_strip (av_affected a)) of
        None \<Rightarrow> False
      | Some m \<Rightarrow>
          let c = compare_versions version (str_strip (group_text m ''bound'')); op = group_text m ''op''
          in if op = ''<'' then c < 0 else if op = ''<='' then c \<le> 0 else if op = ''>'' then c > 0
             else if op = ''>='' then c \<ge> 0 else c = 0)"

definition load_advisory :: "pyval \<Rightarrow> exn + advisory" where
  "load_advisory item =
     (case item of
        PDict d \<Rightarrow>
          (case (map_of d ''cve'', map_of d ''package'') of
             (Some cve, Some package) \<Rightarrow>
               (case float_of (if truthy (dict_val d ''cvss'') then dict_val d ''cvss'' else PFloat 0) of
                  Inl e \<Rightarrow> Inl e
                | Inr cvss \<Rightarrow>
                    (case iter_or_empty (dict_val d ''references'') of
                       Inl e \<Rightarrow> Inl e
                     | Inr refs \<Rightarrow>
                         Inr \<lparr>av_cve = py_str cve, av_package = str_lower (py_str package),
                              av_ecosystem = str_lower (str_or (dict_val d ''ecosystem'') ''pypi''),
                              av_affected = str_or (dict_val d ''affected'') ''<0'',
                              av_fixed = str_or (dict_val d ''fixed_version'') [], av_cvss = cvss,
                              av_severity = str_or (dict_val d ''severity'') ''medium'',
                              av_summary = str_or (dict_val d ''summary'') [], av_references = map py_str refs\<rparr>))
           | _ \<Rightarrow> Inl (Foreign ''KeyError'' []))
      | _ \<Rightarrow> Inl (Foreign ''TypeError'' []))"

definition attribute_error :: "pyval \<Rightarrow> string \<Rightarrow> exn" where
  "attribute_error v a =
     Foreign ''AttributeError'' (repr_str (type_name v) @ '' object has no attribute '' @ repr_str a)"

definition load_advisories :: "pyval option \<Rightarrow> exn + advisory list" where
  "load_advisories doc =
     (case doc of
        None \<Rightarrow> Inr []
      | Some (PDict d) \<Rightarrow>
          (case iter_or_empty (dict_val d ''advisories'') of
             Inl e \<Rightarrow> Inl e
           | Inr items \<Rightarrow>
               Inr (List.map_filter (\<lambda>i. case load_advisory i of Inl _ \<Rightarrow> None | Inr a \<Rightarrow> Some a) items))
      | Some v \<Rightarrow> Inl (attribute_error v ''get''))"

subsection \<open>Manifests\<close>

record declared_dependency =
  dp_name :: string
  dp_version :: string
  dp_ecosystem :: string
  dp_raw :: string

definition REQUIREMENT :: re where
  "REQUIREMENT = r_seq
     [R_start, r_many r_space,
      R_group ''name'' (r_some (R_char (\<lambda>c. is_upper c \<or> is_lower c \<or> 48 \<le> code c \<and> code c \<le> 57 \<or> c \<in> set ''._-''))),
      r_many r_space, r_opt (r_seq [r_lit ''['', r_many (r_not '']''), r_lit '']'']), r_many r_space,
      r_opt (R_group ''op'' (r_any [r_lit ''=='', r_lit ''>='', r_lit ''<='', r_lit ''~='', r_lit ''>'', r_lit ''<''])),
      r_many r_space,
      R_group ''version'' (R_cat (r_range (CHR ''0'') (CHR ''9''))
        (r_many (R_char (\<lambda>c. \<not> is_space c \<and> c \<noteq> CHR '';'' \<and> c \<noteq> CHR ''#''))))]"

definition starts_any :: "string list \<Rightarrow> string \<Rightarrow> bool" where
  "starts_any ws s \<longleftrightarrow> list_ex (\<lambda>w. prefix w s) ws"

definition requirement_of :: "string \<Rightarrow> declared_dependency option" where
  "requirement_of line =
     (let s = str_strip line
      in if s = [] \<or> starts_any [''#'', ''-'', ''git+'', ''http''] s then None
         else case re_match REQUIREMENT s of
           None \<Rightarrow> None
         | Some m \<Rightarrow>
             if group_text m ''op'' \<notin> set [''=='', ''~=''] then None
             else Some \<lparr>dp_name = str_lower (group_text m ''name''), dp_version = str_strip (group_text m ''version''),
                        dp_ecosystem = ''pypi'', dp_raw = s\<rparr>)"

definition parse_requirements :: "string \<Rightarrow> declared_dependency list" where
  "parse_requirements body = List.map_filter requirement_of (splitlines body)"

definition leading_digit :: "string \<Rightarrow> bool" where
  "leading_digit v \<longleftrightarrow> v \<noteq> [] \<and> is_digit (hd v)"

definition npm_dependency :: "string \<times> pyval \<Rightarrow> declared_dependency option" where
  "npm_dependency kv =
     (case kv of (name, spec) \<Rightarrow>
        let version = hd (split_on (CHR '' '') (lstrip_chars ''^~>=< '' (py_str spec)))
        in if leading_digit version
           then Some \<lparr>dp_name = str_lower name, dp_version = version, dp_ecosystem = ''npm'', dp_raw = name @ '': '' @ py_str spec\<rparr>
           else None)"

definition npm_section :: "dict \<Rightarrow> string \<Rightarrow> exn + declared_dependency list" where
  "npm_section d section =
     (let v = dict_val d section
      in if \<not> truthy v then Inr []
         else case v of
           PDict e \<Rightarrow> Inr (List.map_filter npm_dependency e)
         | _ \<Rightarrow> Inl (attribute_error v ''items''))"

definition parse_package_json :: "string \<Rightarrow> exn + declared_dependency list" where
  "parse_package_json body =
     (case json_loads body of
        None \<Rightarrow> Inr []
      | Some (PDict d) \<Rightarrow>
          (case traverse (npm_section d) [''dependencies'', ''devDependencies'', ''optionalDependencies''] of
             Inl e \<Rightarrow> Inl e | Inr ds \<Rightarrow> Inr (concat ds))
      | Some v \<Rightarrow> Inl (attribute_error v ''get''))"

text \<open>\<open>s.split()\<close>: the words between runs of white space.\<close>

fun words_from :: "string \<Rightarrow> string \<Rightarrow> string list" where
  "words_from cur [] = (if cur = [] then [] else [rev cur])"
| "words_from cur (c # cs) =
     (if is_space c then (if cur = [] then words_from [] cs else rev cur # words_from [] cs)
      else words_from (c # cur) cs)"

definition go_dependency :: "string \<Rightarrow> declared_dependency option" where
  "go_dependency s =
     (let candidate = (if prefix ''require '' s then str_strip (drop 8 s) else s); parts = words_from [] candidate
      in if length parts < 2 then None
         else
           let version = lstrip_chars ''v'' (parts ! 1)
           in if leading_digit version
              then Some \<lparr>dp_name = str_lower (parts ! 0), dp_version = version, dp_ecosystem = ''go'', dp_raw = s\<rparr> else None)"

fun go_lines :: "bool \<Rightarrow> string list \<Rightarrow> declared_dependency list" where
  "go_lines inside [] = []"
| "go_lines inside (l # ls) =
     (let s = str_strip l
      in if prefix ''require ('' s then go_lines True ls
         else if inside \<and> s = '')'' then go_lines False ls
         else if \<not> inside \<and> \<not> prefix ''require '' s then go_lines inside ls
         else case go_dependency s of None \<Rightarrow> go_lines inside ls | Some d \<Rightarrow> d # go_lines inside ls)"

definition parse_go_mod :: "string \<Rightarrow> declared_dependency list" where
  "parse_go_mod body = go_lines False (splitlines body)"

definition xml_field :: "string \<Rightarrow> string \<Rightarrow> re" where
  "xml_field tag n = r_seq [r_lit (''<'' @ tag @ ''>''), R_group n (r_some (r_not ''<'')), r_lit (''</'' @ tag @ ''>'')]"

definition POM_DEPENDENCY :: re where
  "POM_DEPENDENCY = r_seq
     [r_lit ''<dependency>'', r_many r_space, xml_field ''groupId'' ''group'', r_many r_space, xml_field ''artifactId'' ''artifact'',
      r_many r_space, xml_field ''version'' ''version'']"

definition pom_dependency :: "position \<times> position \<Rightarrow> declared_dependency option" where
  "pom_dependency st =
     (case st of (s, t) \<Rightarrow>
        let version = str_strip (group_text t ''version'')
        in if sublist ''${'' version \<or> \<not> leading_digit version then None
           else Some \<lparr>dp_name = str_lower (str_strip (group_text t ''group'') @ '':'' @ str_strip (group_text t ''artifact'')),
                      dp_version = version, dp_ecosystem = ''maven'', dp_raw = take 200 (consumed s t)\<rparr>)"

definition parse_pom_xml :: "string \<Rightarrow> declared_dependency list" where
  "parse_pom_xml body = List.map_filter pom_dependency (re_finditer POM_DEPENDENCY body)"

definition parse_manifest :: "string \<Rightarrow> string \<Rightarrow> exn + declared_dependency list" where
  "parse_manifest filename body =
     (let lower = str_lower filename
      in if prefix ''requirements'' lower \<or> suffix ''.txt'' lower \<and> sublist ''requirements'' lower
           then Inr (parse_requirements body)
         else if lower = ''package.json'' then parse_package_json body
         else if lower = ''go.mod'' then Inr (parse_go_mod body)
         else if lower = ''pom.xml'' then Inr (parse_pom_xml body)
         else Inr (parse_requirements body))"

subsection \<open>A pass\<close>

definition MAX_FINDINGS_PER_MANIFEST :: nat where "MAX_FINDINGS_PER_MANIFEST = 100"

definition concerned :: "declared_dependency \<Rightarrow> advisory \<Rightarrow> bool" where
  "concerned d a \<longleftrightarrow> av_package a = str_lower (dp_name d) \<and> (av_ecosystem a = [] \<or> av_ecosystem a = dp_ecosystem d)
     \<and> affects a (dp_version d)"

definition advisory_draft :: "string \<Rightarrow> declared_dependency \<Rightarrow> advisory \<Rightarrow> draft" where
  "advisory_draft path d a =
     \<lparr>dr_kind = Dependency,
      dr_labels = [(''package'', PStr (dp_name d)), (''version'', PStr (dp_version d)), (''ecosystem'', PStr (dp_ecosystem d)),
                   (''cve'', PStr (av_cve a)), (''cvss'', PFloat (av_cvss a)), (''fixed_version'', PStr (av_fixed a)),
                   (''manifest'', PStr path), (''check'', PStr ''vulnerable_dependency'')],
      dr_payload = [(''summary'', PStr (av_summary a)), (''severity'', PStr (av_severity a)),
                    (''references'', PList (map PStr (av_references a))), (''declared_in'', PStr (take 300 (dp_raw d)))],
      dr_hint = Some (severity_from_cvss (av_cvss a)), dr_name = Some ''dependency_scan'', dr_host = Some (path_name path),
      dr_type = Some Src_dependency, dr_ts = None\<rparr>"

text \<open>The pairs of a dependency and an advisory, in the order of the two loops.\<close>

definition pairs :: "declared_dependency list \<Rightarrow> advisory list \<Rightarrow> (declared_dependency \<times> advisory) list" where
  "pairs ds avs = concat (map (\<lambda>d. map (Pair d) avs) ds)"

fun report_pairs ::
    "(draft \<Rightarrow> ('w, event) pass_op) \<Rightarrow> string \<Rightarrow> (declared_dependency \<times> advisory) list \<Rightarrow> event list \<Rightarrow> ('w, event list) pass_op"
where
  "report_pairs create path [] es = returnE es"
| "report_pairs create path ((d, a) # ps) es =
     (if \<not> concerned d a then report_pairs create path ps es
      else bindE (create (advisory_draft path d a)) (\<lambda>ev.
             if MAX_FINDINGS_PER_MANIFEST \<le> length (es @ [ev]) then returnE (es @ [ev])
             else report_pairs create path ps (es @ [ev])))"

definition limit_error :: "regex_sub \<Rightarrow> string \<Rightarrow> nat \<Rightarrow> collector_result \<Rightarrow> collector_result" where
  "limit_error re name n r =
     (if MAX_FINDINGS_PER_MANIFEST \<le> n
      then add_error re (name @ '': limite a '' @ int_str (int MAX_FINDINGS_PER_MANIFEST) @ '' avis signales'') r else r)"

definition add_per_manifest :: "string \<Rightarrow> pyval \<Rightarrow> collector_result \<Rightarrow> collector_result" where
  "add_per_manifest name v r =
     set_detail ''per_manifest''
       (PDict (dict_set name v (case dict_val (rs_detail r) ''per_manifest'' of PDict d \<Rightarrow> d | _ \<Rightarrow> []))) r"

type_synonym scan_acc = "collector_result \<times> nat \<times> nat"

definition scan_manifest ::
    "regex_sub \<Rightarrow> (draft \<Rightarrow> ('w, event) pass_op) \<Rightarrow> log_machine \<Rightarrow> string \<Rightarrow> (string \<Rightarrow> disk_file option) \<Rightarrow> advisory list
      \<Rightarrow> string \<Rightarrow> scan_acc \<Rightarrow> ('w, scan_acc) pass_op" where
  "scan_manifest re create lm rootdir files avs manifest acc =
     (case acc of (r, analyzed, found) \<Rightarrow>
        let path = lm_path lm rootdir manifest; name = path_name path
        in case files path of
             None \<Rightarrow> returnE (add_error re (''manifeste introuvable: '' @ path) r, analyzed, found)
           | Some f \<Rightarrow>
               (case df_error f of
                  Some why \<Rightarrow> returnE (file_error re path why r, analyzed, found)
                | None \<Rightarrow>
                    (case parse_manifest name (universal_newlines (df_text f)) of
                       Inl e \<Rightarrow> raiseE e
                     | Inr ds \<Rightarrow>
                         bindE (report_pairs create path (pairs ds avs) []) (\<lambda>es.
                         returnE
                           (add_per_manifest name
                              (PDict [(''dependencies'', PInt (int (length ds))), (''matches'', PInt (int (length es)))])
                              (limit_error re name (length es) (r\<lparr>rs_events := rs_events r @ es\<rparr>)),
                            analyzed + length ds, found + length es)))))"

fun scan_manifests ::
    "regex_sub \<Rightarrow> (draft \<Rightarrow> ('w, event) pass_op) \<Rightarrow> log_machine \<Rightarrow> string \<Rightarrow> (string \<Rightarrow> disk_file option) \<Rightarrow> advisory list
      \<Rightarrow> string list \<Rightarrow> scan_acc \<Rightarrow> ('w, scan_acc) pass_op" where
  "scan_manifests re create lm rootdir files avs [] acc = returnE acc"
| "scan_manifests re create lm rootdir files avs (p # ps) acc =
     bindE (scan_manifest re create lm rootdir files avs p acc) (scan_manifests re create lm rootdir files avs ps)"

record scan_disk = disk +
  ad_document :: "pyval option"
  ad_path :: string
  ad_cache :: "advisory list option"

text \<open>\<open>load_advisories\<close> of the collector: the snapshot is read once.\<close>

definition cached_advisories :: "('a scan_disk_scheme, advisory list) pass_op" where
  "cached_advisories =
     bindE (readE ps_out) (\<lambda>out. case ad_cache out of
       Some avs \<Rightarrow> returnE avs
     | None \<Rightarrow>
         (case load_advisories (ad_document out) of
            Inl e \<Rightarrow> raiseE e
          | Inr avs \<Rightarrow> bindE (writeE (\<lambda>s. s\<lparr>ps_out := (ps_out s)\<lparr>ad_cache := Some avs\<rparr>\<rparr>)) (\<lambda>_. returnE avs)))"

definition scan_collect ::
    "regex_sub \<Rightarrow> world \<Rightarrow> log_machine \<Rightarrow> collector_context \<Rightarrow> time \<Rightarrow> ('a scan_disk_scheme, collector_result) pass_op" where
  "scan_collect re w lm cx now =
     (let manifests = ts_manifests (cx_scope cx)
      in if manifests = []
         then returnE (skip_run ''dependency_scan''
                (''aucun manifeste declare pour le tenant '' @ quote (ts_tenant (cx_scope cx))
                 @ '' (renseignez '' @ quote ''manifests'' @ '' dans config/targets.yaml)'') now)
         else
           bindE cached_advisories (\<lambda>avs.
           bindE (readE ps_out) (\<lambda>out.
           if avs = []
           then returnE (add_error re (''instantane d'' @ [CHR 0x27]
                  @ ''avis vide ou illisible : aucune comparaison possible ('' @ ad_path out @ '')'') (new_run ''dependency_scan'' now))
           else
             bindE (scan_manifests re (create_event re w cx now) lm (cs_root (cx_settings cx)) (dk_files out) avs manifests
                      (set_detail ''advisories_loaded'' (PInt (int (length avs)))
                         (set_detail ''manifests'' (PList (map PStr manifests)) (new_run ''dependency_scan'' now)), 0, 0))
               (\<lambda>(r, analyzed, found).
             returnE ((set_detail ''vulnerable_matches'' (PInt (int found))
                (set_detail ''dependencies_analyzed'' (PInt (int analyzed)) r))\<lparr>rs_finished := Some now\<rparr>)))))"

definition dependency_scan_collector :: "regex_sub \<Rightarrow> world \<Rightarrow> log_machine \<Rightarrow> 'a scan_disk_scheme collector" where
  "dependency_scan_collector re w lm =
     \<lparr>co_name = ''dependency_scan'', co_source = Src_dependency,
      co_description = ''Detecte les dependances vulnerables connues d'' @ [CHR 0x27] @ ''apres un instantane d'' @ [CHR 0x27] @ ''avis local.'',
      co_interval = 3600, co_optin = False, co_enabled = default_enabled False, co_collect = scan_collect re w lm\<rparr>"

end
