(* ===== verification/Probes.thy ===== *)
theory Probes
  imports DependencyScan
begin

section \<open>Probing the declared surface\<close>

text \<open>
  \<open>collectors/net.py\<close>, \<open>collectors/web_probe.py\<close> and \<open>collectors/tls_cert.py\<close>: the declared URLs are requested, their
  certificates inspected, and what is missing or exposed becomes events.  The network is a parameter: what
  \<open>urllib.request.urlopen\<close> gives for a URL, what a TLS connection gives for a host, and the parts \<open>urllib.parse\<close>
  takes from a URL.  The events of a probe are built as a list of drafts, in the order of the code, and then created;
  delays and measured durations other than the one reported are left out.
\<close>

subsection \<open>Requests\<close>

datatype net_exn = Cert_refused string | Timed_out | No_address string | Other_error string

text \<open>\<open>_describe_network_error\<close>.\<close>

fun describe_network_error :: "net_exn \<Rightarrow> string" where
  "describe_network_error (Cert_refused why) = ''certificat TLS refuse: '' @ why"
| "describe_network_error Timed_out = ''delai d'' @ [CHR 0x27] @ ''attente depasse''"
| "describe_network_error (No_address why) = ''resolution DNS impossible: '' @ why"
| "describe_network_error (Other_error why) = take 300 why"

datatype url_outcome =
    Replied (rp_status: int) (rp_headers: "(string \<times> string) list") (rp_body: string) (rp_final: string) (rp_ms: rat)
  | Http_error int "(string \<times> string) list" rat
  | Net_error net_exn rat

record peer_certificate =
  pc_subject :: "(string \<times> string) list list"
  pc_issuer :: "(string \<times> string) list list"
  pc_not_before :: "string option"
  pc_not_after :: "string option"

datatype tls_outcome =
    Handshake "peer_certificate option" string "(string \<times> string) option"
  | Tls_error string
  | Tls_net_error net_exn

datatype chain_outcome = Chain_accepted | Chain_refused string int | Chain_unreachable

record network =
  nw_open :: "string \<Rightarrow> url_outcome"
  nw_tls :: "string \<Rightarrow> int \<Rightarrow> tls_outcome"
  nw_chain :: "string \<Rightarrow> int \<Rightarrow> chain_outcome"
  nw_key_bits :: "string \<Rightarrow> int \<Rightarrow> int option"
  nw_host :: "string \<Rightarrow> string option"
  nw_scheme :: "string \<Rightarrow> string"
  nw_port :: "string \<Rightarrow> int option"
  nw_join :: "string \<Rightarrow> string \<Rightarrow> string"

record http_response =
  hr_url :: string
  hr_status :: int
  hr_headers :: "(string \<times> string) list"
  hr_body :: string
  hr_ms :: rat
  hr_final :: string
  hr_error :: "string option"

definition hr_ok :: "http_response \<Rightarrow> bool" where
  "hr_ok r \<longleftrightarrow> hr_error r = None \<and> 0 < hr_status r"

definition header :: "http_response \<Rightarrow> string \<Rightarrow> string option" where
  "header r n = map_of (hr_headers r) (str_lower n)"

definition header_set :: "http_response \<Rightarrow> string \<Rightarrow> bool" where
  "header_set r n \<longleftrightarrow> opt_truthy (header r n)"

definition response_dict :: "http_response \<Rightarrow> dict" where
  "response_dict r =
     [(''url'', PStr (hr_url r)), (''status'', PInt (hr_status r)),
      (''headers'', PDict (map (\<lambda>(k, v). (k, PStr v)) (hr_headers r))), (''elapsed_ms'', PFloat (py_round 2 (hr_ms r))),
      (''final_url'', PStr (hr_final r)), (''error'', opt_str (hr_error r)), (''body_snippet'', PStr (take 500 (hr_body r)))]"

definition MAX_BODY_BYTES :: nat where "MAX_BODY_BYTES = 64 * 1024"

text \<open>\<open>{key.lower(): value for ...}\<close>: of a header that is repeated, the last value is kept.\<close>

definition header_dict :: "(string \<times> string) list \<Rightarrow> (string \<times> string) list" where
  "header_dict hs = fold (\<lambda>(k, v). AList.update (str_lower k) v) hs []"

definition blank_response :: "string \<Rightarrow> http_response" where
  "blank_response url =
     \<lparr>hr_url = url, hr_status = 0, hr_headers = [], hr_body = [], hr_ms = 0, hr_final = [], hr_error = None\<rparr>"

definition fetch :: "network \<Rightarrow> string \<Rightarrow> http_response" where
  "fetch nw url =
     (if \<not> starts_any [''http://'', ''https://''] (str_lower url)
      then (blank_response url)\<lparr>hr_error := Some (''schema d'' @ [CHR 0x27] @ ''URL non supporte (http/https attendu)'')\<rparr>
      else case nw_open nw url of
        Replied status hs body final ms \<Rightarrow>
          (blank_response url)\<lparr>hr_status := status, hr_headers := header_dict hs, hr_body := take MAX_BODY_BYTES body,
            hr_ms := ms, hr_final := final\<rparr>
      | Http_error status hs ms \<Rightarrow> (blank_response url)\<lparr>hr_status := status, hr_headers := header_dict hs, hr_ms := ms\<rparr>
      | Net_error why ms \<Rightarrow> (blank_response url)\<lparr>hr_ms := ms, hr_error := Some (describe_network_error why)\<rparr>)"

definition host_of :: "network \<Rightarrow> string \<Rightarrow> string" where
  "host_of nw url = str_lower (or_empty (nw_host nw url))"

definition scheme_of :: "network \<Rightarrow> string \<Rightarrow> string" where
  "scheme_of nw url = str_lower (nw_scheme nw url)"

subsection \<open>Web probe\<close>

definition SECURITY_HEADERS :: "(string \<times> string \<times> severity \<times> string) list" where
  "SECURITY_HEADERS =
     [(''strict-transport-security'', ''missing_hsts'', Medium,
       ''Sans HSTS, la premiere requete peut etre interceptee et retrogradee en HTTP.''),
      (''content-security-policy'', ''missing_csp'', Medium,
       ''Sans CSP, une injection de contenu s'' @ [CHR 0x27] @ ''execute directement dans le navigateur.''),
      (''x-content-type-options'', ''missing_xcto'', Low, ''Sans nosniff, le navigateur peut interpreter un fichier comme un script.''),
      (''referrer-policy'', ''missing_referrer_policy'', Low, ''Sans Referrer-Policy, les URL internes fuient vers les sites tiers.''),
      (''permissions-policy'', ''missing_permissions_policy'', Info,
       ''Sans Permissions-Policy, les API navigateur restent accessibles sans restriction.''),
      (''x-frame-options'', ''missing_frame_options'', Low, ''Sans protection anti-cadrage, le site est expose au clickjacking.'')]"

definition EXPOSED_PATHS :: "(string \<times> severity \<times> string) list" where
  "EXPOSED_PATHS =
     [(''/.git/config'', High, ''Depot Git expose : le code source et l'' @ [CHR 0x27] @ ''historique sont telechargeables.''),
      (''/.env'', Critical, ''Fichier d'' @ [CHR 0x27] @ ''environnement expose : secrets et identifiants de base de donnees.''),
      (''/.svn/entries'', Medium, ''Metadonnees Subversion exposees.''),
      (''/server-status'', Medium, ''Page d'' @ [CHR 0x27] @ ''etat du serveur web exposee publiquement.''),
      (''/phpinfo.php'', High, ''Page phpinfo exposee : configuration, chemins et versions reveles.''),
      (''/actuator/env'', High, ''Point d'' @ [CHR 0x27] @ ''entree Spring Boot Actuator expose : variables d'' @ [CHR 0x27] @ ''environnement.''),
      (''/server-info'', Medium, ''Page d'' @ [CHR 0x27] @ ''information serveur Apache exposee.''),
      (''/web.config'', Medium, ''Fichier de configuration IIS expose.''),
      (''/.DS_Store'', Low, ''Fichier macOS expose : revele l'' @ [CHR 0x27] @ ''arborescence du site.'')]"

definition SIGNATURES :: "(string \<times> string list) list" where
  "SIGNATURES =
     [(''/.git/config'', [''[core]'', ''repositoryformatversion'']), (''/.env'', [''APP_KEY'', ''DB_PASSWORD'', ''SECRET_KEY'', ''='']),
      (''/svn/entries'', [''dir'', ''svn'']), (''/server-status'', [''Apache Server Status'', ''Server Version'']),
      (''/phpinfo.php'', [''phpinfo()'', ''PHP Version'']), (''/actuator/env'', [''propertySources'', ''activeProfiles'']),
      (''/server-info'', [''Server Settings'', ''Apache Server Information'']), (''/web.config'', [''<configuration'', ''system.web'']),
      (''/.DS_Store'', [''Bud1''])]"

definition match_signature :: "string \<Rightarrow> string \<Rightarrow> string list" where
  "match_signature path body =
     (case find (\<lambda>(k, _). sublist k path) SIGNATURES of
        None \<Rightarrow> []
      | Some (_, markers) \<Rightarrow> filter (\<lambda>m. sublist (str_lower m) (str_lower body)) markers)"

definition web_draft :: "string \<Rightarrow> dict \<Rightarrow> dict \<Rightarrow> severity option \<Rightarrow> draft" where
  "web_draft host labels payload hint =
     \<lparr>dr_kind = Http_response, dr_labels = labels, dr_payload = payload, dr_hint = hint, dr_name = Some ''web_probe'',
      dr_host = Some host, dr_type = Some Src_web_probe, dr_ts = None\<rparr>"

definition site_labels :: "string \<Rightarrow> string \<Rightarrow> string \<Rightarrow> dict" where
  "site_labels check url host = [(''check'', PStr check), (''url'', PStr url), (''host'', PStr host)]"

definition explanation :: "string \<Rightarrow> dict" where
  "explanation s = [(''explanation'', PStr s)]"

definition header_missing :: "http_response \<Rightarrow> string \<Rightarrow> bool" where
  "header_missing r h \<longleftrightarrow> \<not> header_set r h
     \<and> \<not> (h = ''x-frame-options'' \<and> sublist ''frame-ancestors'' (or_empty (header r ''content-security-policy'')))"

definition check_headers :: "string \<Rightarrow> string \<Rightarrow> http_response \<Rightarrow> draft list" where
  "check_headers url host r =
     map (\<lambda>(h, check, sev, why).
         web_draft host (site_labels check url host @ [(''header'', PStr h)]) (explanation why @ [(''status'', PInt (hr_status r))]) (Some sev))
       (filter (\<lambda>(h, _). header_missing r h) SECURITY_HEADERS)"

definition COOKIE_ATTRIBUTES :: "(string \<times> string \<times> severity \<times> string) list" where
  "COOKIE_ATTRIBUTES =
     [(''secure'', ''cookie_without_secure'', Medium, ''Un cookie de session sans attribut Secure peut fuiter en HTTP.''),
      (''httponly'', ''cookie_without_httponly'', Medium, ''Sans HttpOnly, un script injecte peut lire le cookie de session.''),
      (''samesite'', ''cookie_without_samesite'', Low, ''Sans SameSite, le site est expose aux requetes forgees (CSRF).'')]"

definition check_cookies :: "string \<Rightarrow> string \<Rightarrow> http_response \<Rightarrow> draft list" where
  "check_cookies url host r =
     (case map_of (hr_headers r) ''set-cookie'' of
        None \<Rightarrow> []
      | Some raw \<Rightarrow>
          if raw = [] then []
          else map (\<lambda>(a, check, sev, why). web_draft host (site_labels check url host) (explanation why) (Some sev))
                 (filter (\<lambda>(a, _). \<not> sublist a (str_lower raw)) COOKIE_ATTRIBUTES))"

definition VERSION_NUMBER :: re where
  "VERSION_NUMBER = r_seq [r_some r_digit, r_lit ''.'', r_some r_digit]"

definition check_banner :: "string \<Rightarrow> string \<Rightarrow> http_response \<Rightarrow> draft list" where
  "check_banner url host r =
     List.map_filter (\<lambda>h. case header r h of
         None \<Rightarrow> None
       | Some v \<Rightarrow>
           if v = [] \<or> re_search VERSION_NUMBER v = None then None
           else Some (web_draft host (site_labels ''version_disclosure'' url host @ [(''header'', PStr h)])
             [(''value'', PStr v),
              (''explanation'', PStr (''Une version precise est annoncee publiquement : elle permet de cibler une vulnerabilite connue sans effort.''))]
             (Some Low)))
       [''server'', ''x-powered-by'', ''x-aspnet-version'', ''x-generator'']"

definition slashed :: "string \<Rightarrow> string" where
  "slashed url = (if suffix ''/'' url then url else url @ ''/'')"

definition exposed_path :: "network \<Rightarrow> string \<Rightarrow> string \<Rightarrow> string \<times> severity \<times> string \<Rightarrow> draft option" where
  "exposed_path nw url host p =
     (case p of (path, sev, why) \<Rightarrow>
        let target = nw_join nw (slashed url) (dropWhile (\<lambda>c. c = CHR ''/'') path); r = fetch nw target;
            exposed = (hr_status r = 200); signals = match_signature path (hr_body r)
        in if hr_status r \<in> set [200, 301, 302, 401, 403] \<and> (exposed \<or> signals \<noteq> [])
           then Some (web_draft host
             [(''check'', PStr (if exposed then ''exposed_path'' else ''restricted_path'')), (''url'', PStr target), (''host'', PStr host),
              (''path'', PStr path), (''status'', PInt (hr_status r))]
             [(''explanation'', PStr why), (''signature_match'', PList (map PStr signals)),
              (''size'', PInt (int (length (hr_body r))))]
             (Some (if exposed then sev else Info)))
           else None)"

definition check_exposed_paths :: "network \<Rightarrow> string \<Rightarrow> string \<Rightarrow> draft list" where
  "check_exposed_paths nw url host = List.map_filter (exposed_path nw url host) EXPOSED_PATHS"

definition has_security_txt :: "network \<Rightarrow> string \<Rightarrow> bool" where
  "has_security_txt nw url \<longleftrightarrow>
     (let r = fetch nw (nw_join nw (slashed url) ''.well-known/security.txt'')
      in hr_status r = 200 \<and> sublist ''contact'' (str_lower (hr_body r)))"

definition probe_url :: "network \<Rightarrow> string \<Rightarrow> draft list" where
  "probe_url nw url =
     (let host = host_of nw url; r = fetch nw url
      in if \<not> hr_ok r \<and> opt_truthy (hr_error r)
         then [web_draft host (site_labels ''target_unreachable'' url host) [(''error'', opt_str (hr_error r))] (Some Info)]
         else
           [web_draft host (site_labels ''reachable'' url host @ [(''status'', PInt (hr_status r)), (''scheme'', PStr (scheme_of nw url))])
              (response_dict r) None]
           @ check_headers url host r @ check_cookies url host r @ check_banner url host r
           @ (if scheme_of nw url = ''http''
              then [web_draft host (site_labels ''no_https'' url host)
                      (explanation (''L'' @ [CHR 0x27] @ ''actif est declare en HTTP : le trafic n'' @ [CHR 0x27] @ ''est pas chiffre.'')) (Some High)]
              else [])
           @ check_exposed_paths nw url host
           @ (if \<not> header_set r ''content-security-policy'' \<and> \<not> has_security_txt nw url
              then [web_draft host (site_labels ''missing_security_txt'' url host)
                      (explanation (''Aucun /.well-known/security.txt : les chercheurs n'' @ [CHR 0x27]
                        @ ''ont pas de canal de divulgation identifie.'')) (Some Info)]
              else []))"

text \<open>\<open>try\<close> around the events of one target: those created before an exception are lost with the list.\<close>

definition guarded ::
    "regex_sub \<Rightarrow> string \<Rightarrow> ('w, event list) pass_op \<Rightarrow> collector_result \<Rightarrow> ('w, collector_result) pass_op" where
  "guarded re what m r =
     catchE (bindE m (\<lambda>es. returnE (r\<lparr>rs_events := rs_events r @ es\<rparr>)))
       (\<lambda>e. returnE (add_error re (what @ '': '' @ exn_str e) r))"

fun guard_all ::
    "regex_sub \<Rightarrow> (draft \<Rightarrow> ('w, event) pass_op) \<Rightarrow> (string \<times> draft list) list \<Rightarrow> collector_result \<Rightarrow> ('w, collector_result) pass_op"
where
  "guard_all re create [] r = returnE r"
| "guard_all re create ((what, ds) # ts) r = bindE (guarded re what (mapE create ds) r) (guard_all re create ts)"

definition web_collect ::
    "regex_sub \<Rightarrow> world \<Rightarrow> network \<Rightarrow> collector_context \<Rightarrow> time \<Rightarrow> ('w, collector_result) pass_op" where
  "web_collect re w nw cx now =
     (let all = urls (cx_scope cx); n = cs_max_targets (cx_settings cx); some = (if n < length all then take n all else all);
          r0 = new_run ''web_probe'' now;
          r1 = (if n < length all
                then add_error re (int_str (int (length all)) @ '' URLs declarees, limite a '' @ int_str (int n)
                       @ '' (THOT_HTTP_PROBE_MAX_TARGETS)'') r0 else r0)
      in if all = []
         then returnE (skip_run ''web_probe'' (''aucune URL declaree pour le tenant '' @ quote (ts_tenant (cx_scope cx))) now)
         else
           bindE (guard_all re (create_event re w cx now) (map (\<lambda>u. (u, probe_url nw u)) some)
                    (set_detail ''targets'' (PList (map PStr some)) r1)) (\<lambda>r.
           returnE ((set_detail ''checked'' (PInt (int (length some))) r)\<lparr>rs_finished := Some now\<rparr>)))"

definition web_probe_collector :: "regex_sub \<Rightarrow> world \<Rightarrow> network \<Rightarrow> 'w collector" where
  "web_probe_collector re w nw =
     \<lparr>co_name = ''web_probe'', co_source = Src_web_probe,
      co_description = ''Audit de durcissement des actifs web declares (en-tetes, cookies, exposition).'',
      co_interval = 3600, co_optin = True, co_enabled = default_enabled True, co_collect = web_collect re w nw\<rparr>"

subsection \<open>Certificates\<close>

record cert_info =
  ci_host :: string
  ci_port :: int
  ci_subject :: string
  ci_issuer :: string
  ci_not_before :: "time option"
  ci_not_after :: "time option"
  ci_protocol :: string
  ci_cipher :: string
  ci_days :: "int option"
  ci_error :: "string option"

definition ci_ok :: "cert_info \<Rightarrow> bool" where
  "ci_ok i \<longleftrightarrow> ci_error i = None \<and> ci_not_after i \<noteq> None"

text \<open>\<open>datetime.isoformat()\<close> of an instant in UTC.\<close>

definition isoformat :: "time \<Rightarrow> string" where
  "isoformat t = date_str t @ ''T'' @ clock_str t @ (if t mod usec = 0 then [] else ''.'' @ pad 6 (t mod usec)) @ ''+00:00''"

definition opt_iso :: "time option \<Rightarrow> pyval" where
  "opt_iso t = (case t of None \<Rightarrow> PNone | Some u \<Rightarrow> PStr (isoformat u))"

definition cert_dict :: "cert_info \<Rightarrow> dict" where
  "cert_dict i =
     [(''host'', PStr (ci_host i)), (''port'', PInt (ci_port i)), (''subject'', PStr (ci_subject i)), (''issuer'', PStr (ci_issuer i)),
      (''not_before'', opt_iso (ci_not_before i)), (''not_after'', opt_iso (ci_not_after i)),
      (''days_to_expiry'', case ci_days i of None \<Rightarrow> PNone | Some d \<Rightarrow> PInt d), (''protocol'', PStr (ci_protocol i)),
      (''cipher'', PStr (ci_cipher i)), (''error'', opt_str (ci_error i))]"

definition format_name :: "(string \<times> string) list list \<Rightarrow> string" where
  "format_name entries =
     join_with '', '' (map (\<lambda>(k, v). k @ ''='' @ v) (filter (\<lambda>(k, _). k \<in> set [''commonName'', ''organizationName'']) (concat entries)))"

text \<open>\<open>%b %d %H:%M:%S %Y %Z\<close> and \<open>%Y%m%d%H%M%SZ\<close>; the names of zones are those of UTC.\<close>

definition FMT_SSL :: re where
  "FMT_SSL = r_seq ([dir_b, r_some r_space, dir_d, r_some r_space] @ clock_dirs
     @ [r_some r_space, dir_Y, r_some r_space, r_any [r_ilit ''utc'', r_ilit ''gmt'']])"

definition FMT_ASN1 :: re where
  "FMT_ASN1 = r_seq [dir_Y, dir_m, dir_d, dir_H, dir_M, dir_S, r_ilit ''Z'']"

definition parse_ssl_date :: "string option \<Rightarrow> time option" where
  "parse_ssl_date v =
     (if \<not> opt_truthy v then None else first_some [strptime FMT_SSL (the v), strptime FMT_ASN1 (the v)])"

definition no_cert :: "string \<Rightarrow> int \<Rightarrow> cert_info" where
  "no_cert host port =
     \<lparr>ci_host = host, ci_port = port, ci_subject = [], ci_issuer = [], ci_not_before = None, ci_not_after = None, ci_protocol = [],
      ci_cipher = [], ci_days = None, ci_error = None\<rparr>"

definition empty_certificate :: peer_certificate where
  "empty_certificate = \<lparr>pc_subject = [], pc_issuer = [], pc_not_before = None, pc_not_after = None\<rparr>"

definition inspect_certificate :: "network \<Rightarrow> time \<Rightarrow> string \<Rightarrow> int \<Rightarrow> cert_info" where
  "inspect_certificate nw now host port =
     (case nw_tls nw host port of
        Handshake peer version cipher \<Rightarrow>
          let c = (case peer of None \<Rightarrow> empty_certificate | Some c \<Rightarrow> c); ends = parse_ssl_date (pc_not_after c)
          in (no_cert host port)\<lparr>ci_protocol := version,
               ci_cipher := (case cipher of None \<Rightarrow> [] | Some (a, b) \<Rightarrow> a @ '' ('' @ b @ '')''),
               ci_subject := format_name (pc_subject c), ci_issuer := format_name (pc_issuer c),
               ci_not_before := parse_ssl_date (pc_not_before c), ci_not_after := ends,
               ci_days := map_option (\<lambda>t. (t - now) div seconds 86400) ends\<rparr>
      | Tls_error why \<Rightarrow> (no_cert host port)\<lparr>ci_error := Some (''erreur TLS: '' @ why)\<rparr>
      | Tls_net_error why \<Rightarrow> (no_cert host port)\<lparr>ci_error := Some (describe_network_error why)\<rparr>)"

definition EXPIRY_THRESHOLDS :: "(int \<times> severity \<times> string) list" where
  "EXPIRY_THRESHOLDS =
     [(7, Critical, ''expire dans moins de 7 jours''), (14, High, ''expire dans moins de 14 jours''),
      (30, Medium, ''expire dans moins de 30 jours'')]"

definition LEGACY_PROTOCOLS :: "string list" where
  "LEGACY_PROTOCOLS = [''SSLv2'', ''SSLv3'', ''TLSv1'', ''TLSv1.0'', ''TLSv1.1'']"

definition MIN_RSA_BITS :: int where "MIN_RSA_BITS = 2048"

definition tls_draft :: "string \<Rightarrow> int \<Rightarrow> string \<Rightarrow> dict \<Rightarrow> dict \<Rightarrow> severity option \<Rightarrow> draft" where
  "tls_draft host port check labels payload hint =
     \<lparr>dr_kind = Tls_cert, dr_labels = [(''check'', PStr check), (''host'', PStr host), (''port'', PInt port)] @ labels,
      dr_payload = payload, dr_hint = hint, dr_name = Some ''tls_cert'', dr_host = Some host, dr_type = Some Src_tls_cert,
      dr_ts = None\<rparr>"

text \<open>\<open>{key: value, **info.to_dict()}\<close>.\<close>

definition with_cert :: "dict \<Rightarrow> cert_info \<Rightarrow> dict" where
  "with_cert d i = fold (\<lambda>(k, v). dict_set k v) (cert_dict i) d"

definition check_expiry :: "cert_info \<Rightarrow> string \<Rightarrow> int \<Rightarrow> draft list" where
  "check_expiry i host port =
     (case ci_days i of
        None \<Rightarrow> []
      | Some n \<Rightarrow>
          if n < 0 then [tls_draft host port ''cert_expired'' [(''days_to_expiry'', PInt n)] (cert_dict i) (Some Critical)]
          else (case find (\<lambda>(th, _). n \<le> th) EXPIRY_THRESHOLDS of
                  None \<Rightarrow> []
                | Some (th, sev, why) \<Rightarrow>
                    [tls_draft host port ''cert_expiring_soon'' [(''days_to_expiry'', PInt n), (''threshold'', PInt th)]
                       (with_cert (explanation why) i) (Some sev)]))"

definition check_protocol :: "cert_info \<Rightarrow> string \<Rightarrow> int \<Rightarrow> draft list" where
  "check_protocol i host port =
     (if ci_protocol i \<in> set LEGACY_PROTOCOLS
      then [tls_draft host port ''tls_legacy_protocol'' [(''protocol'', PStr (ci_protocol i))]
              (with_cert (explanation ''Protocole TLS obsolete negocie : chiffrement considere comme casse.'') i) (Some High)]
      else [])"

definition verify_chain :: "network \<Rightarrow> string \<Rightarrow> int \<Rightarrow> string option" where
  "verify_chain nw host port =
     (case nw_chain nw host port of Chain_refused why n \<Rightarrow> Some (why @ '' (code '' @ int_str n @ '')'') | _ \<Rightarrow> None)"

definition check_chain :: "network \<Rightarrow> cert_info \<Rightarrow> string \<Rightarrow> int \<Rightarrow> draft list" where
  "check_chain nw i host port =
     (case verify_chain nw host port of
        None \<Rightarrow> []
      | Some why \<Rightarrow>
          [tls_draft host port ''cert_untrusted'' []
             (with_cert (explanation (''La chaine de certification n'' @ [CHR 0x27] @ ''est pas validable par le magasin systeme (certificat auto-signe, ''
                @ ''expire, ou autorite inconnue).'') @ [(''detail'', PStr why)]) i) (Some High)])"

definition key_strength :: "network \<Rightarrow> string \<Rightarrow> int \<Rightarrow> int option" where
  "key_strength nw host port =
     (case nw_key_bits nw host port of
        Some bits \<Rightarrow> if bits \<noteq> 0 \<and> bits < MIN_RSA_BITS then Some bits else None
      | None \<Rightarrow> None)"

definition check_key :: "network \<Rightarrow> cert_info \<Rightarrow> string \<Rightarrow> int \<Rightarrow> draft list" where
  "check_key nw i host port =
     (case key_strength nw host port of
        None \<Rightarrow> []
      | Some bits \<Rightarrow>
          [tls_draft host port ''cert_weak_key'' []
             (with_cert (explanation (''Cle de '' @ int_str bits @ '' bits : inferieure au minimum recommande de '' @ int_str MIN_RSA_BITS
                @ ''.'')) i) (Some Medium)])"

definition check_certificate :: "network \<Rightarrow> time \<Rightarrow> string \<Rightarrow> int \<Rightarrow> draft list" where
  "check_certificate nw now host port =
     (let i = inspect_certificate nw now host port
      in if \<not> ci_ok i
         then [tls_draft host port ''tls_handshake_failed'' [] (with_cert [(''error'', opt_str (ci_error i))] i) (Some High)]
         else
           [tls_draft host port ''certificate''
              [(''days_to_expiry'', PInt (case ci_days i of None \<Rightarrow> -1 | Some n \<Rightarrow> n)), (''protocol'', PStr (ci_protocol i))]
              (cert_dict i) None]
           @ check_expiry i host port @ check_protocol i host port @ check_chain nw i host port @ check_key nw i host port)"

definition tls_targets :: "network \<Rightarrow> tenant_scope \<Rightarrow> (string \<times> int) list" where
  "tls_targets nw sc =
     concat (map (\<lambda>a. map (\<lambda>u. (if opt_truthy (nw_host nw u) then the (nw_host nw u) else normalized_host a,
                                case nw_port nw u of Some p \<Rightarrow> if p = 0 then 443 else p | None \<Rightarrow> 443))
                   (filter (\<lambda>u. nw_scheme nw u = ''https'') (as_urls a)))
       (ts_assets sc))"

fun first_seen :: "'a list \<Rightarrow> 'a list \<Rightarrow> 'a list" where
  "first_seen seen [] = []"
| "first_seen seen (x # xs) = (if x \<in> set seen then first_seen seen xs else x # first_seen (x # seen) xs)"

definition target_text :: "string \<times> int \<Rightarrow> string" where
  "target_text hp = fst hp @ '':'' @ int_str (snd hp)"

definition tls_collect ::
    "regex_sub \<Rightarrow> world \<Rightarrow> network \<Rightarrow> collector_context \<Rightarrow> time \<Rightarrow> ('w, collector_result) pass_op" where
  "tls_collect re w nw cx now =
     (let targets = first_seen [] (tls_targets nw (cx_scope cx))
      in if targets = []
         then returnE (skip_run ''tls_cert'' (''aucun actif HTTPS declare pour le tenant '' @ quote (ts_tenant (cx_scope cx))) now)
         else
           bindE (guard_all re (create_event re w cx now)
                    (map (\<lambda>hp. (target_text hp, check_certificate nw now (fst hp) (snd hp))) targets)
                    (set_detail ''targets'' (PList (map (PStr \<circ> target_text) targets)) (new_run ''tls_cert'' now))) (\<lambda>r.
           returnE (r\<lparr>rs_finished := Some now\<rparr>)))"

definition tls_cert_collector :: "regex_sub \<Rightarrow> world \<Rightarrow> network \<Rightarrow> 'w collector" where
  "tls_cert_collector re w nw =
     \<lparr>co_name = ''tls_cert'', co_source = Src_tls_cert,
      co_description = ''Surveille l'' @ [CHR 0x27] @ ''expiration et la robustesse des certificats TLS declares.'',
      co_interval = 21600, co_optin = True, co_enabled = default_enabled True, co_collect = tls_collect re w nw\<rparr>"

end
