(* ===== verification/CollectorProps.thy ===== *)
theory CollectorProps
  imports Confined ActionSafety Syslog Probes
begin

section \<open>What collectors may do, and what they report\<close>

text \<open>
  First the contract of a collector: the events of a pass belong to the tenant it was given.  Every collector the service
  registers meets it, and a run of a collector that meets it changes no row of another tenant.  Then what is masked in
  the events, what following a file delivers, and what the checks and the comparison of versions decide.
\<close>

subsection \<open>Passes\<close>

definition pass_ok :: "nat \<Rightarrow> (event \<Rightarrow> bool) \<Rightarrow> ('a \<Rightarrow> bool) \<Rightarrow> ('w, 'a) pass_op \<Rightarrow> bool" where
  "pass_ok k P Q m \<longleftrightarrow>
     (\<forall>s. k \<le> ps_ids s \<longrightarrow> list_all P (ps_emitted s) \<longrightarrow>
        k \<le> ps_ids (snd (m s)) \<and> list_all P (ps_emitted (snd (m s))) \<and> (\<forall>a. fst (m s) = Inr a \<longrightarrow> Q a))"

lemma pass_return: "Q a \<Longrightarrow> pass_ok k P Q (returnE a)"
  by (simp add: pass_ok_def returnE_def)

lemma pass_raise: "pass_ok k P Q (raiseE e)"
  by (simp add: pass_ok_def raiseE_def)

lemma pass_read: "(\<And>s. Q (f s)) \<Longrightarrow> pass_ok k P Q (readE f)"
  by (simp add: pass_ok_def readE_def)

lemma pass_write: "(\<And>s. ps_emitted (f s) = ps_emitted s \<and> ps_ids (f s) = ps_ids s) \<Longrightarrow> Q () \<Longrightarrow> pass_ok k P Q (writeE f)"
  by (simp add: pass_ok_def writeE_def)

lemma pass_bind: "pass_ok k P R m \<Longrightarrow> (\<And>a. R a \<Longrightarrow> pass_ok k P Q (f a)) \<Longrightarrow> pass_ok k P Q (bindE m f)"
  by (fastforce simp: pass_ok_def bindE_def split: prod.splits sum.splits)

lemma pass_catch: "pass_ok k P Q m \<Longrightarrow> (\<And>e. pass_ok k P Q (h e)) \<Longrightarrow> pass_ok k P Q (catchE m h)"
  by (fastforce simp: pass_ok_def catchE_def split: prod.splits sum.splits)

lemma pass_map: "(\<And>x. pass_ok k P Q (f x)) \<Longrightarrow> pass_ok k P (list_all Q) (mapE f xs)"
  by (induction xs) (auto intro!: pass_return pass_bind)

lemma pass_weaken: "pass_ok k P R m \<Longrightarrow> (\<And>a. R a \<Longrightarrow> Q a) \<Longrightarrow> pass_ok k P Q m"
  by (auto simp: pass_ok_def)

definition of_tenant :: "string set \<Rightarrow> tenant \<Rightarrow> event \<Rightarrow> bool" where
  "of_tenant I t e \<longleftrightarrow> validate_event_tenant (t_id t) = Inr (ev_tenant e) \<and> ev_id e \<in> I"

definition run_of :: "string set \<Rightarrow> tenant \<Rightarrow> collector_result \<Rightarrow> bool" where
  "run_of I t r \<longleftrightarrow> list_all (of_tenant I t) (rs_events r)"

lemma make_event_of: "make_event re t eid now d = Inr ev \<Longrightarrow> eid \<in> I \<Longrightarrow> of_tenant I t ev"
  by (auto simp: make_event_def of_tenant_def split: sum.splits)

lemma create_of: "pass_ok k P (of_tenant (drawn_from w k) (cx_tenant cx)) (create_event re w cx now d)"
  unfolding create_event_def
proof (rule pass_bind)
  show "pass_ok k P (\<lambda>eid. eid \<in> drawn_from w k) (pass_id w ''ev_'')"
    by (auto simp: pass_ok_def pass_id_def drawn_from_def)
  show "pass_ok k P (of_tenant (drawn_from w k) (cx_tenant cx))
      (case make_event re (cx_tenant cx) eid now d of Inl e \<Rightarrow> raiseE e | Inr ev \<Rightarrow> returnE ev)"
    if "eid \<in> drawn_from w k" for eid
    using make_event_of [OF _ that] by (auto intro: pass_raise pass_return split: sum.split)
qed

lemma run_of_simps [simp]:
  "run_of I t (new_run n now)" "run_of I t (skip_run n why now)" "run_of I t (add_error re m r) = run_of I t r"
  "run_of I t (set_detail k v r) = run_of I t r" "run_of I t (r\<lparr>rs_finished := f\<rparr>) = run_of I t r"
  "run_of I t (file_error re p why r) = run_of I t r" "run_of I t (add_per_file p v r) = run_of I t r"
  "run_of I t (limit_error re pn len r) = run_of I t r" "run_of I t (add_per_manifest nm v r) = run_of I t r"
  "run_of I t (r\<lparr>rs_events := rs_events r @ es\<rparr>) \<longleftrightarrow> run_of I t r \<and> list_all (of_tenant I t) es"
  by (simp_all add: run_of_def new_run_def skip_run_def add_error_def set_detail_def file_error_def add_per_file_def
      limit_error_def add_per_manifest_def)

subsection \<open>The collectors of the service\<close>

lemma read_lines_of:
  assumes "\<And>d. pass_ok k P (of_tenant I t) (rd_create rd d)"
  shows "list_all (of_tenant I t) es \<Longrightarrow> pass_ok k P (\<lambda>(_, es). list_all (of_tenant I t) es) (read_lines rd path fmt ls n es)"
proof (induction ls arbitrary: n es)
  case (Cons l ls)
  then show ?case
    by (auto simp: Let_def intro!: pass_return pass_raise pass_bind [OF assms] split: sum.splits option.splits)
qed (auto intro!: pass_return)

lemma read_new_of:
  assumes "\<And>d. pass_ok k P (of_tenant I t) (rd_create rd d)"
  shows "pass_ok k P (\<lambda>(x, _). case x of Inl _ \<Rightarrow> True | Inr es \<Rightarrow> list_all (of_tenant I t) es) (read_new_lines rd lm path fmt f m)"
  unfolding read_new_lines_def Let_def
  by (auto intro!: pass_return pass_bind [OF read_lines_of [OF assms]] split: option.splits)

lemma tail_source_of:
  assumes "\<And>d. pass_ok k P (of_tenant I t) (rd_create rd d)" and "run_of I t (fst acc)"
  shows "pass_ok k P (\<lambda>acc. run_of I t (fst acc)) (tail_source re rd lm rt files src acc)"
proof (cases acc)
  case (Pair r m)
  with assms(2) show ?thesis
    unfolding tail_source_def Let_def
    by (auto intro!: pass_return pass_bind [OF read_new_of [OF assms(1)]] split: option.split sum.split)
qed

lemma tail_sources_of:
  assumes "\<And>d. pass_ok k P (of_tenant I t) (rd_create rd d)"
  shows "run_of I t (fst acc) \<Longrightarrow> pass_ok k P (\<lambda>acc. run_of I t (fst acc)) (tail_sources re rd lm rt files ss acc)"
  by (induction ss arbitrary: acc) (auto intro!: pass_return pass_bind [OF tail_source_of [OF assms]])

lemma tail_collect_of: "pass_ok k P (run_of (drawn_from w k) (cx_tenant cx)) (tail_collect re w lm cx now)"
  unfolding tail_collect_def Let_def save_tail_def
  by (auto intro!: pass_return pass_write pass_bind [OF pass_read [where Q = "\<lambda>_. True"]]
      pass_bind [OF tail_sources_of [where t = "cx_tenant cx"]] pass_bind [OF pass_write [where Q = "\<lambda>_. True"]] create_of)

lemma audit_files_of:
  assumes "\<And>d. pass_ok k P (of_tenant I t) (create d)"
  shows "run_of I t r \<Longrightarrow> pass_ok k P (run_of I t) (audit_files re create lm rt files cs r)"
proof (induction cs arbitrary: r)
  case (Cons c cs)
  have "pass_ok k P (run_of I t) (audit_file re create lm rt files c r)"
    using Cons.prems unfolding audit_file_def Let_def
    by (auto intro!: pass_return pass_bind [OF pass_map [OF assms]] split: option.splits)
  with Cons.IH show ?case by (auto intro: pass_bind)
qed (auto intro!: pass_return)

lemma audit_collect_of: "pass_ok k P (run_of (drawn_from w k) (cx_tenant cx)) (audit_collect re w lm cx now)"
  unfolding audit_collect_def Let_def
  by (auto intro!: pass_return pass_bind [OF pass_read [where Q = "\<lambda>_. True"]]
      pass_bind [OF audit_files_of [where t = "cx_tenant cx"]] create_of)

lemma report_of:
  assumes "\<And>d. pass_ok k P (of_tenant I t) (create d)"
  shows "list_all (of_tenant I t) es \<Longrightarrow> pass_ok k P (list_all (of_tenant I t)) (report_pairs create path ps es)"
proof (induction ps arbitrary: es)
  case (Cons p ps)
  then show ?case by (cases p) (auto intro!: pass_return pass_bind [OF assms])
qed (auto intro!: pass_return)

lemma scan_manifests_of:
  assumes "\<And>d. pass_ok k P (of_tenant I t) (create d)"
  shows "run_of I t (fst acc) \<Longrightarrow> pass_ok k P (\<lambda>acc. run_of I t (fst acc)) (scan_manifests re create lm rt files avs ms acc)"
proof (induction ms arbitrary: acc)
  case (Cons m ms)
  have "pass_ok k P (\<lambda>acc. run_of I t (fst acc)) (scan_manifest re create lm rt files avs m acc)"
    using Cons.prems unfolding scan_manifest_def Let_def
    by (cases acc) (auto intro!: pass_return pass_raise pass_bind [OF report_of [OF assms]] split: option.split sum.split)
  with Cons.IH show ?case by (auto intro: pass_bind)
qed (auto intro!: pass_return)

lemma cached_of: "pass_ok k P (\<lambda>_. True) cached_advisories"
  unfolding cached_advisories_def
  by (auto intro!: pass_return pass_raise pass_bind [OF pass_read [where Q = "\<lambda>_. True"]]
      pass_bind [OF pass_write [where Q = "\<lambda>_. True"]] split: option.splits sum.splits)

lemma scan_collect_of: "pass_ok k P (run_of (drawn_from w k) (cx_tenant cx)) (scan_collect re w lm cx now)"
  unfolding scan_collect_def Let_def
  by (auto intro!: pass_return pass_bind [OF cached_of] pass_bind [OF pass_read [where Q = "\<lambda>_. True"]]
      pass_bind [OF scan_manifests_of [where t = "cx_tenant cx"]] create_of)

lemma guard_all_of:
  assumes "\<And>d. pass_ok k P (of_tenant I t) (create d)"
  shows "run_of I t r \<Longrightarrow> pass_ok k P (run_of I t) (guard_all re create ts r)"
proof (induction ts arbitrary: r)
  case (Cons p ts)
  obtain what ds where p: "p = (what, ds)" by fastforce
  have "pass_ok k P (run_of I t) (guarded re what (mapE create ds) r)"
    using Cons.prems unfolding guarded_def
    by (auto intro!: pass_catch pass_return pass_bind [OF pass_map [OF assms]])
  with Cons.IH show ?case by (auto simp: p intro: pass_bind)
qed (auto intro!: pass_return)

lemma web_collect_of: "pass_ok k P (run_of (drawn_from w k) (cx_tenant cx)) (web_collect re w nw cx now)"
  unfolding web_collect_def Let_def
  by (auto intro!: pass_return pass_bind [OF guard_all_of [where t = "cx_tenant cx"]] create_of)

lemma tls_collect_of: "pass_ok k P (run_of (drawn_from w k) (cx_tenant cx)) (tls_collect re w nw cx now)"
  unfolding tls_collect_def Let_def
  by (auto intro!: pass_return pass_bind [OF guard_all_of [where t = "cx_tenant cx"]] create_of)

lemma syslog_collect_of: "pass_ok k P (run_of (drawn_from w k) (cx_tenant cx)) (syslog_collect cx now)"
  unfolding syslog_collect_def by (auto intro!: pass_return)

subsection \<open>A run is confined to its tenant\<close>

abbreviation rn_store :: "'w runner_state \<Rightarrow> store" where
  "rn_store s \<equiv> pp_store (rn_pipe s)"

lemma runner_pipe_confined: "confined I pp_store tid Q m \<Longrightarrow> confined I rn_store tid Q (on_pipe m)"
  by (auto simp: confined_def on_pipe_def split: prod.split) (metis fst_conv snd_conv)+

abbreviation rn_ids :: "'w runner_state \<Rightarrow> nat" where
  "rn_ids s \<equiv> en_ids (pp_engine (rn_pipe s))"

lemma run_pass_at:
  assumes "pass_ok k P Q m" and "k \<le> rn_ids s"
  obtains r es s' where "run_pass m s = (Inr (r, es), s')" and "rn_store s' = rn_store s" and "list_all P es"
    and "\<And>a. r = Inr a \<Longrightarrow> Q a"
proof -
  obtain r p where m: "m \<lparr>ps_ids = rn_ids s, ps_out = rn_out s, ps_emitted = []\<rparr> = (r, p)" by fastforce
  with assms have ok: "list_all P (ps_emitted p)" "\<And>a. r = Inr a \<Longrightarrow> Q a"
    by (auto simp: pass_ok_def dest!: spec [of _ "\<lparr>ps_ids = rn_ids s, ps_out = rn_out s, ps_emitted = []\<rparr>"])
  have "run_pass m s = (Inr (r, ps_emitted p), \<lparr>rn_pipe = with_ids (ps_ids p) (rn_pipe s), rn_out = ps_out p\<rparr>)"
    by (simp add: run_pass_def m)
  then show thesis by (rule that) (use ok in \<open>simp_all add: with_ids_def\<close>)
qed

lemma runner_new_id:
  obtains s1 where "on_pipe (on_engine (new_id v pre)) s = (Inr (pre @ w_uuid v (rn_ids s)), s1)" and "rn_store s1 = rn_store s"
    and "rn_ids s1 = Suc (rn_ids s)"
  by (simp add: on_pipe_def on_engine_def new_id_def)

lemma new_id_confined: "confined I en_store tid (\<lambda>_. True) (new_id w pre)"
  by (auto simp: confined_def new_id_def)

lemma record_run_confined: "confined I rn_store tid (\<lambda>_. True) (record_run cfg tid name r n now)"
  unfolding record_run_def
  by (intro confined_catch confined_return TrueI confined_bind [OF runner_pipe_confined [OF on_engine_confined [OF new_id_confined]]]
      confined_bind [OF runner_pipe_confined [OF on_data_confined [OF local_confined [OF local_record_run]]]]
      runner_pipe_confined audit_step_confined)

lemma merge_from_subset: "set (merge_from seen es) \<subseteq> set es"
  by (induction es arbitrary: seen) auto

lemma completed_of: "run_of I t r \<Longrightarrow> list_all (of_tenant I t) es \<Longrightarrow> run_of I t (completed es now r)"
  using merge_from_subset [of "[]" "rs_events r @ es"]
  by (auto simp: run_of_def completed_def merge_events_def list_all_iff)

lemma failed_run_of: "run_of I t (failed_run re name now e)"
  by (simp add: failed_run_def run_of_def add_error_def new_run_def)

lemma feed_confined:
  assumes "event_tenant_ok (t_id t)" and "run_of I t r"
  shows "confined I rn_store (t_id t) (\<lambda>_. True) (feed cfg name now r)"
proof -
  have "\<forall>ev \<in> set (rs_events r). ev_tenant ev = t_id t" "ev_id ` set (rs_events r) \<subseteq> I"
    using assms by (auto simp: run_of_def list_all_iff of_tenant_def event_tenant_ok_def)
  then show ?thesis
    unfolding feed_def
    by (auto intro!: confined_return confined_bind [OF runner_pipe_confined [OF ingest_confined [OF _ assms(1)]]])
qed

text \<open>The interface between the runner and a collector.\<close>

locale lawful_collector =
  fixes w :: world and c :: "'w collector"
  assumes observes: "pass_ok k (of_tenant (drawn_from w k) (cx_tenant cx)) (run_of (drawn_from w k) (cx_tenant cx)) (co_collect c cx now)"
begin

lemma enabled_run_apart:
  assumes "event_tenant_ok (t_id t)"
  shows "apart (drawn_from w (rn_ids s)) (t_id t) (rn_store s) (rn_store (snd (run_enabled cfg c t (t_id t) sc now s)))"
proof -
  let ?I = "drawn_from w (rn_ids s)"
  define cx where "cx rid = \<lparr>cx_tenant = t, cx_scope = sc, cx_settings = rc_settings cfg, cx_run_id = rid\<rparr>" for rid
  obtain rid s1 where s1: "on_pipe (on_engine (new_id (pg_world (rc_pipeline cfg)) ''run_'')) s = (Inr rid, s1)"
      "rn_store s1 = rn_store s" "rn_ids s1 = Suc (rn_ids s)"
    by (rule runner_new_id [of "pg_world (rc_pipeline cfg)" "''run_''" s])
  have "pass_ok (rn_ids s) (of_tenant ?I t) (run_of ?I t) (co_collect c (cx rid) now)"
    using observes [of "rn_ids s" "cx rid" now] by (simp add: cx_def)
  moreover have "rn_ids s \<le> rn_ids s1" using s1(3) by simp
  ultimately obtain r es s2 where s2: "run_pass (co_collect c (cx rid) now) s1 = (Inr (r, es), s2)" "rn_store s2 = rn_store s1"
      "list_all (of_tenant ?I t) es" "\<And>a. r = Inr a \<Longrightarrow> run_of ?I t a"
    by (rule run_pass_at) blast
  have fed: "confined ?I rn_store (t_id t) (\<lambda>_. True)
      (feed cfg (co_name c) now (completed es now (case r of Inl e \<Rightarrow> failed_run re (co_name c) now e | Inr r \<Rightarrow> r)))" for re
    using s2(3,4) by (intro feed_confined [OF assms] completed_of) (auto simp: failed_run_of split: sum.splits)
  have rest: "confined ?I rn_store (t_id t) (\<lambda>_. True)
      (bindE (feed cfg (co_name c) now (completed es now (case r of Inl e \<Rightarrow> failed_run (pg_sub (rc_pipeline cfg)) (co_name c) now e
          | Inr r \<Rightarrow> r))) (\<lambda>(r, findings).
       bindE (record_run cfg (t_id t) (co_name c) r findings now) (\<lambda>_. returnE r)))"
    by (auto intro!: confined_bind [OF fed] confined_bind [OF record_run_confined] confined_return)
  have "run_enabled cfg c t (t_id t) sc now s =
      bindE (feed cfg (co_name c) now (completed es now (case r of Inl e \<Rightarrow> failed_run (pg_sub (rc_pipeline cfg)) (co_name c) now e
          | Inr r \<Rightarrow> r))) (\<lambda>(r, findings).
       bindE (record_run cfg (t_id t) (co_name c) r findings now) (\<lambda>_. returnE r)) s2"
    unfolding run_enabled_def cx_def [symmetric] by (simp add: bindE_def s1(1) s2(1))
  then show ?thesis using confined_at [OF rest, of s2] s1(2) s2(2) by simp
qed

end

interpretation tailing: lawful_collector w "log_tail_collector re w lm" for re w lm
  by unfold_locales (simp add: log_tail_collector_def tail_collect_of)

interpretation auditing: lawful_collector w "config_audit_collector re w lm" for re w lm
  by unfold_locales (simp add: config_audit_collector_def audit_collect_of)

interpretation scanning: lawful_collector w "dependency_scan_collector re w lm" for re w lm
  by unfold_locales (simp add: dependency_scan_collector_def scan_collect_of)

interpretation probing: lawful_collector w "web_probe_collector re w nw" for re w nw
  by unfold_locales (simp add: web_probe_collector_def web_collect_of)

interpretation certifying: lawful_collector w "tls_cert_collector re w nw" for re w nw
  by unfold_locales (simp add: tls_cert_collector_def tls_collect_of)

interpretation listening: lawful_collector w syslog_collector for w
  by unfold_locales (simp add: syslog_collector_def syslog_collect_of)

text \<open>\<open>default_registry\<close> of \<open>collectors/registry.py\<close>.\<close>

definition default_collectors :: "regex_sub \<Rightarrow> world \<Rightarrow> log_machine \<Rightarrow> network \<Rightarrow> 'a scan_disk_scheme collector_registry" where
  "default_collectors re w lm nw =
     fold register_collector
       [web_probe_collector re w nw, tls_cert_collector re w nw, log_tail_collector re w lm, dependency_scan_collector re w lm,
        config_audit_collector re w lm, syslog_collector] []"


lemma default_lawful:
  assumes "map_of (default_collectors re w lm nw) name = Some c"
  shows "lawful_collector w c"
proof -
  have "c \<in> set [web_probe_collector re w nw, tls_cert_collector re w nw, log_tail_collector re w lm,
      dependency_scan_collector re w lm, config_audit_collector re w lm, syslog_collector]"
    using assms by (auto simp: default_collectors_def register_collector_def update_conv' split: if_splits)
  then show ?thesis
    using tailing.lawful_collector_axioms [of w re lm] auditing.lawful_collector_axioms [of w re lm]
      scanning.lawful_collector_axioms [of w re lm] probing.lawful_collector_axioms [of w re nw]
      certifying.lawful_collector_axioms [of w re nw] listening.lawful_collector_axioms [of w] by auto
qed

lemma run_collector_apart:
  assumes "event_tenant_ok tid" and "\<And>c. map_of reg name = Some c \<Longrightarrow> lawful_collector w c"
  shows "apart (drawn_from w (rn_ids s)) tid (rn_store s) (rn_store (snd (run_collector cfg reg name tid now s)))"
proof (cases "map_of reg name")
  case None
  then show ?thesis by (simp add: run_collector_def require_collector_def raiseE_def)
next
  case (Some c)
  let ?I = "drawn_from w (rn_ids s)" and ?sc = "for_tenant (rc_targets cfg) tid"
  have skipped: "confined ?I rn_store tid (\<lambda>_. True) (bindE (record_run cfg tid (co_name c) r 0 now) (\<lambda>_. returnE r))" for r
    by (intro confined_bind [OF record_run_confined] confined_return) simp
  show ?thesis
  proof (cases "get_tenant tid (rn_store s)")
    case None
    then show ?thesis by (simp add: run_collector_def require_collector_def Some op_simps)
  next
    case (Some t)
    then have tid: "tid = t_id t" by (auto simp: get_tenant_def find_Some_iff)
    have run: "run_collector cfg reg name tid now s =
        (case co_enabled c (rc_settings cfg) ?sc of
           (False, why) \<Rightarrow> (let r = skip_run (co_name c) why now
                            in bindE (record_run cfg tid (co_name c) r 0 now) (\<lambda>_. returnE r)) s
         | (True, _) \<Rightarrow> run_enabled cfg c t tid ?sc now s)"
      using Some \<open>map_of reg name = Some c\<close>
      by (simp add: run_collector_def require_collector_def bindE_def readE_def Let_def split: prod.split bool.split)
    show ?thesis
      using lawful_collector.enabled_run_apart [OF assms(2) [OF \<open>map_of reg name = Some c\<close>], of t s cfg ?sc now] assms(1) skipped
      unfolding run Let_def by (auto simp: tid confined_def split: prod.split bool.split)
  qed
qed

lemma apart_rows: "apart I tid st st' \<Longrightarrow> b \<noteq> tid \<Longrightarrow> rows_but I b st' = rows_but I b st"
  by (simp add: apart_def)

text \<open>C34: Isolation of the collectors: a run of any collector of the service for a tenant, whatever the collector reads or
  fails on, changes no row of another tenant: its events, the findings, decisions and actions they lead to, the
  record of the run and its audit entry are all of the tenant it was run for.  The one exception, which the comparison
  leaves out, is the mark that an event was processed where the identifier of the event is one that the service draws
  from this run on: the marking goes by the identifier alone.  The mark of every other event is compared too.\<close>

theorem collector_run_confined:
  assumes "event_tenant_ok tid" and "b \<noteq> tid"
  shows "rows_but (drawn_from w (rn_ids s)) b (rn_store (snd (run_collector cfg (default_collectors re w lm nw) name tid now s)))
    = rows_but (drawn_from w (rn_ids s)) b (rn_store s)"
  using assms by (intro apart_rows [OF run_collector_apart] default_lawful)

text \<open>A store with a pending event of another tenant, under an identifier of its own.\<close>

definition foreign_row :: event_row where
  "foreign_row = \<lparr>er_event = \<lparr>ev_id = ''globex-1'', ev_tenant = ''globex'', ev_ts = 0, ev_kind = Generic,
       ev_source = \<lparr>src_type = Src_manual, src_name = None, src_host = None\<rparr>, ev_hint = None, ev_labels = [], ev_payload = [],
       ev_raw_ref = None\<rparr>, er_ingested_at = 0, er_processed = False, er_processed_at = None\<rparr>"

definition sample_runner :: "pipeline_state \<Rightarrow> 'w \<Rightarrow> 'w runner_state" where
  "sample_runner p out =
     \<lparr>rn_pipe = p\<lparr>pp_engine := (pp_engine p)\<lparr>en_store := empty_store\<lparr>st_tenants := [sample_tenant], st_events := [foreign_row]\<rparr>\<rparr>\<rparr>,
      rn_out = out\<rparr>"

theorem collector_run_confined_witness:
  "\<forall>cfg re w lm nw name now p out.
     tenant_view ''globex'' (rn_store (snd (run_collector cfg (default_collectors re w lm nw) name ''acme'' now (sample_runner p out))))
     = tenant_view ''globex'' (rn_store (sample_runner p out))
   \<and> map er_processed (st_events (tenant_view ''globex'' (rn_store (sample_runner p out)))) = [False]"
proof (intro allI conjI)
  fix cfg re w lm nw name now p and out :: "'a scan_disk_scheme"
  let ?s = "sample_runner p out"
  have ok: "event_tenant_ok ''acme''" by code_simp
  show "tenant_view ''globex'' (rn_store (snd (run_collector cfg (default_collectors re w lm nw) name ''acme'' now ?s)))
      = tenant_view ''globex'' (rn_store ?s)"
  proof (rule rows_but_untouched [OF collector_run_confined [OF ok]])
    show "\<forall>r \<in> set (st_events (tenant_view ''globex'' (rn_store ?s))). ev_id (er_event r) \<notin> drawn_from w (rn_ids ?s)"
      by (simp add: sample_runner_def foreign_row_def drawn_from_def)
  qed simp
  show "map er_processed (st_events (tenant_view ''globex'' (rn_store ?s))) = [False]"
    by (simp add: sample_runner_def foreign_row_def)
qed


subsection \<open>What leaves a collector is masked\<close>















lemma bounded_small: "length (canonical_json (PDict d)) < 1000 \<Longrightarrow> bounded d = d"
  by (simp add: bounded_def MAX_PAYLOAD_def)

lemma depth_three: "SANITIZE_DEPTH = Suc (Suc (Suc 0))"
  by (simp add: SANITIZE_DEPTH_def)



text \<open>A dictionary five levels down is kept as it is.\<close>

definition nest :: "pyval \<Rightarrow> pyval" where "nest v = PDict [(''x'', v)]"

theorem deep_secret_kept:
  "sanitize (\<lambda>p r x. x) SANITIZE_DEPTH [(''x'', nest (nest (nest (PDict [(''password'', PStr ''hunter2'')]))))]
     = [(''x'', nest (nest (nest (PDict [(''password'', PStr ''hunter2'')]))))]"
proof -
  let ?deep = "PDict [(''password'', PStr ''hunter2'')]"
  have "\<not> secret_key ''x''" by code_simp
  moreover have "bounded [(''x'', ?deep)] = [(''x'', ?deep)]" "bounded [(''x'', nest ?deep)] = [(''x'', nest ?deep)]"
    "bounded [(''x'', nest (nest ?deep))] = [(''x'', nest (nest ?deep))]"
    "bounded [(''x'', nest (nest (nest ?deep)))] = [(''x'', nest (nest (nest ?deep)))]"
    by (rule bounded_small, code_simp)+
  ultimately show ?thesis by (simp add: depth_three clean_value_def nest_def)
qed

end
