(* ===== verification/TailProps.thy ===== *)
theory TailProps
  imports LogTail ActionSafety
begin

section \<open>Following a file delivers every line once\<close>

text \<open>
  The specification of the follower: the drafts of a text are those of its lines, blank and unreadable ones left out.
  Passes over a file that grows by whole lines, within the limits of a pass, deliver together the drafts of the whole
  file, each once and in order.  Then what happens outside of these conditions: beyond the limits, in the middle of a
  line, and on a date the reader does not expect.
\<close>

subsection \<open>Lines of a growing text\<close>

definition complete :: "string \<Rightarrow> bool" where
  "complete s \<longleftrightarrow> s = [] \<or> last s = LF"

lemma complete_append: "complete a \<Longrightarrow> complete b \<Longrightarrow> complete (a @ b)"
  by (auto simp: complete_def last_append split: if_splits)

lemma complete_tl: "complete (c # cs) \<Longrightarrow> complete cs"
  by (auto simp: complete_def split: if_splits)

lemma CR_not_LF: "CR \<noteq> LF"
  by (simp add: CR_def LF_def)

lemma newlines_append: "complete a \<Longrightarrow> universal_newlines (a @ b) = universal_newlines a @ universal_newlines b"
proof (induction a rule: universal_newlines.induct)
  case (1 a)
  show ?case
  proof (cases a)
    case Nil
    then show ?thesis by (simp add: universal_newlines.simps [of "[]"])
  next
    case (Cons c cs)
    show ?thesis
    proof (cases "c = CR")
      case True
      then have "cs \<noteq> []" using 1(3) CR_not_LF by (auto simp: Cons complete_def)
      then have first: "take 1 (cs @ b) = take 1 cs" by (cases cs) auto
      define rest where "rest = (if take 1 cs = [LF] then drop 1 cs else cs)"
      have "complete rest" using complete_tl [of c cs] complete_tl [of LF "tl cs"] 1(3) Cons
        by (cases cs) (auto simp: rest_def)
      then have "universal_newlines (rest @ b) = universal_newlines rest @ universal_newlines b"
        using 1(1) Cons True by (simp add: rest_def)
      moreover have "(if take 1 (cs @ b) = [LF] then drop 1 (cs @ b) else cs @ b) = rest @ b"
        using \<open>cs \<noteq> []\<close> by (cases cs) (auto simp: rest_def)
      ultimately show ?thesis
        using True by (simp add: Cons universal_newlines.simps [of "CR # _"] rest_def)
    next
      case False
      then show ?thesis
        using 1(2) 1(3) Cons complete_tl [of c cs] by (simp add: universal_newlines.simps [of "c # _"])
    qed
  qed
qed

lemma newlines_complete: "complete a \<Longrightarrow> complete (universal_newlines a)"
proof (induction a rule: universal_newlines.induct)
  case (1 a)
  show ?case
  proof (cases a)
    case (Cons c cs)
    define rest where "rest = (if take 1 cs = [LF] then drop 1 cs else cs)"
    have rest: "complete rest" using complete_tl [of c cs] complete_tl [of LF "tl cs"] 1(3) Cons
      by (cases cs) (auto simp: rest_def)
    show ?thesis
    proof (cases "c = CR")
      case True
      then have "complete (universal_newlines rest)" using 1(1) Cons rest by (simp add: rest_def)
      then show ?thesis using True by (auto simp: Cons universal_newlines.simps [of "CR # _"] rest_def complete_def)
    next
      case False
      then have "complete (universal_newlines cs)" using 1(2) 1(3) Cons complete_tl [of c cs] by simp
      moreover have "cs = [] \<Longrightarrow> c = LF" using 1(3) Cons by (simp add: complete_def)
      moreover have "cs \<noteq> [] \<Longrightarrow> universal_newlines cs \<noteq> []"
        by (cases cs) (auto simp: universal_newlines.simps [of "_ # _"])
      ultimately show ?thesis using False
        by (cases "cs = []") (auto simp: Cons universal_newlines.simps [of "_ # _"] universal_newlines.simps [of "[]"] complete_def)
    qed
  qed (simp add: universal_newlines.simps [of "[]"] complete_def)
qed

lemma keep_append: "complete a \<Longrightarrow> keep_lines (a @ b) = keep_lines a @ keep_lines b"
proof (induction a)
  case (Cons c cs)
  show ?case
  proof (cases "c = LF")
    case False
    then have "cs \<noteq> []" using Cons.prems by (auto simp: complete_def)
    then have "keep_lines cs \<noteq> []" by (cases cs) (auto split: list.splits)
    with False Cons show ?thesis by (auto dest: complete_tl split: list.splits)
  qed (use Cons complete_tl in auto)
qed simp

lemma concat_keep: "concat (keep_lines s) = s"
  by (induction s) (auto split: list.splits)

lemma newlines_length: "length (universal_newlines s) \<le> length s"
proof (induction s rule: universal_newlines.induct)
  case (1 s)
  show ?case
  proof (cases s)
    case (Cons c cs)
    with 1 show ?thesis by (subst universal_newlines.simps) (auto split: if_splits)
  qed (simp add: universal_newlines.simps)
qed


subsection \<open>One pass\<close>

definition line_of :: "(string \<Rightarrow> time option) \<Rightarrow> string \<Rightarrow> string \<Rightarrow> parsed_line option" where
  "line_of from_iso fmt l =
     (if str_strip (chomp l) = [] then None
      else case parse_log_line from_iso (chomp l) fmt of Inl _ \<Rightarrow> None | Inr p \<Rightarrow> p)"

definition text_lines :: "string \<Rightarrow> string list" where
  "text_lines s = keep_lines (universal_newlines s)"

definition drafts :: "(string \<Rightarrow> time option) \<Rightarrow> string \<Rightarrow> string \<Rightarrow> string \<Rightarrow> draft list" where
  "drafts from_iso path fmt s = map (line_draft path) (List.map_filter (line_of from_iso fmt) (text_lines s))"

definition readable :: "(string \<Rightarrow> time option) \<Rightarrow> string \<Rightarrow> string \<Rightarrow> bool" where
  "readable from_iso fmt s \<longleftrightarrow> (\<forall>l \<in> set (text_lines s). \<forall>e. parse_log_line from_iso (chomp l) fmt \<noteq> Inl e)"

definition from_draft :: "regex_sub \<Rightarrow> tenant \<Rightarrow> draft \<Rightarrow> event \<Rightarrow> bool" where
  "from_draft re t d ev \<longleftrightarrow> (\<exists>eid now. make_event re t eid now d = Inr ev)"

lemma text_lines_append: "complete a \<Longrightarrow> text_lines (a @ b) = text_lines a @ text_lines b"
  by (simp add: text_lines_def newlines_append keep_append newlines_complete)

lemma drafts_append: "complete a \<Longrightarrow> drafts from_iso path fmt (a @ b) = drafts from_iso path fmt a @ drafts from_iso path fmt b"
  by (simp add: drafts_def text_lines_append map_filter_def)

lemma labels_flat: "\<exists>ls. validate_labels (map (\<lambda>(k, v). (k, strip_label (scalar re v))) d) = Inr ls"
proof (induction d)
  case (Cons kv d)
  have "is_scalar (strip_label (scalar re v))" for v
    by (cases v) (simp_all add: scalar_def strip_label_def)
  with Cons show ?case by (cases kv) auto
qed simp

lemma create_total:
  assumes "validate_event_tenant (t_id (cx_tenant cx)) = Inr tid"
  shows "\<exists>ev. create_event re w cx now d s = (Inr ev, s\<lparr>ps_ids := Suc (ps_ids s)\<rparr>) \<and> from_draft re (cx_tenant cx) d ev"
proof -
  obtain ls where "validate_labels (map (\<lambda>(k, v). (k, strip_label (scalar re v))) (dr_labels d)) = Inr ls"
    using labels_flat by blast
  then show ?thesis using assms
    by (auto simp: create_event_def pass_id_def op_simps from_draft_def make_event_def)
qed

text \<open>The interface between the loop over the lines and the creation of events, which succeeds for a tenant that is able to
  have events.\<close>

locale total_reader =
  fixes rd :: "'w reader" and built :: "draft \<Rightarrow> event \<Rightarrow> bool" and able :: bool
  assumes creates: "able \<Longrightarrow> \<exists>ev. rd_create rd d s = (Inr ev, s\<lparr>ps_ids := Suc (ps_ids s)\<rparr>) \<and> built d ev"
begin

lemma reads_all:
  assumes able
    and "\<And>l e. l \<in> set ls \<Longrightarrow> parse_log_line (rd_iso rd) (chomp l) fmt \<noteq> Inl e"
    and "n + sum_list (map length ls) \<le> MAX_BYTES_PER_RUN" and "length es + length ls \<le> MAX_EVENTS_PER_FILE"
  shows "\<exists>new i. read_lines rd path fmt ls n es s = (Inr (False, es @ new), s\<lparr>ps_ids := i\<rparr>)
     \<and> list_all2 built (map (line_draft path) (List.map_filter (line_of (rd_iso rd) fmt) ls)) new"
  using assms(2-)
proof (induction ls arbitrary: n es s)
  case Nil
  show ?case by (auto simp: returnE_def map_filter_def intro: exI [of _ "ps_ids s"])
next
  case (Cons l ls)
  have within: "\<not> (MAX_BYTES_PER_RUN < n + length l \<or> MAX_EVENTS_PER_FILE \<le> length es)" using Cons.prems by simp
  show ?case
  proof (cases "line_of (rd_iso rd) fmt l")
    case None
    then have "str_strip (chomp l) = [] \<or> parse_log_line (rd_iso rd) (chomp l) fmt = Inr None"
      using Cons.prems(1) [of l] by (auto simp: line_of_def split: sum.splits if_splits)
    then have "read_lines rd path fmt (l # ls) n es s = read_lines rd path fmt ls (n + length l) es s"
      using within by (auto simp: Let_def)
    then show ?thesis using Cons.IH [of "n + length l" es s] Cons.prems None by (simp add: map_filter_def)
  next
    case (Some p)
    then have p: "str_strip (chomp l) \<noteq> []" "parse_log_line (rd_iso rd) (chomp l) fmt = Inr (Some p)"
      by (auto simp: line_of_def split: sum.splits if_splits)
    obtain ev where ev: "rd_create rd (line_draft path p) s = (Inr ev, s\<lparr>ps_ids := Suc (ps_ids s)\<rparr>)"
        "built (line_draft path p) ev" using creates [OF assms(1)] by blast
    have "read_lines rd path fmt (l # ls) n es s
        = read_lines rd path fmt ls (n + length l) (es @ [ev]) (s\<lparr>ps_ids := Suc (ps_ids s)\<rparr>)"
      using within p ev by (auto simp: Let_def bindE_def)
    then show ?thesis
      using Cons.IH [of "n + length l" "es @ [ev]" "s\<lparr>ps_ids := Suc (ps_ids s)\<rparr>"] Cons.prems Some ev(2)
      by (auto simp: map_filter_def)
  qed
qed

lemma reads_break:
  assumes able
    and "\<And>l e. l \<in> set ls \<Longrightarrow> parse_log_line (rd_iso rd) (chomp l) fmt \<noteq> Inl e"
    and "MAX_BYTES_PER_RUN < n + sum_list (map length ls)" and "n \<le> MAX_BYTES_PER_RUN"
  shows "\<exists>new i. read_lines rd path fmt ls n es s = (Inr (True, new), s\<lparr>ps_ids := i\<rparr>)"
  using assms(2-)
proof (induction ls arbitrary: n es s)
  case (Cons l ls)
  show ?case
  proof (cases "MAX_BYTES_PER_RUN < n + length l \<or> MAX_EVENTS_PER_FILE \<le> length es")
    case True
    then show ?thesis by (auto simp: returnE_def intro: exI [of _ "ps_ids s"])
  next
    case within: False
    have on: "\<exists>new i. read_lines rd path fmt ls (n + length l) es' s' = (Inr (True, new), s'\<lparr>ps_ids := i\<rparr>)" for es' s'
      using Cons.prems within by (intro Cons.IH) auto
    show ?thesis
    proof (cases "parse_log_line (rd_iso rd) (chomp l) fmt")
      case (Inl e)
      with Cons.prems(1) [of l e] show ?thesis by simp
    next
      case (Inr found)
      show ?thesis
      proof (cases found)
        case None
        then show ?thesis using within Inr on [of es s] by (auto simp: Let_def)
      next
        case (Some p)
        obtain ev where "rd_create rd (line_draft path p) s = (Inr ev, s\<lparr>ps_ids := Suc (ps_ids s)\<rparr>)"
          using creates [OF assms(1)] by blast
        then show ?thesis
          using within Inr Some on [of es s] on [of "es @ [ev]" "s\<lparr>ps_ids := Suc (ps_ids s)\<rparr>"] by (auto simp: Let_def bindE_def)
      qed
    qed
  qed
qed simp

end

definition able_tenant :: "tenant \<Rightarrow> bool" where
  "able_tenant t \<longleftrightarrow> (\<exists>tid. validate_event_tenant (t_id t) = Inr tid)"

interpretation following: total_reader "\<lparr>rd_create = create_event re w cx now, rd_iso = from_iso\<rparr>"
    "from_draft re (cx_tenant cx)" "able_tenant (cx_tenant cx)" for re w cx now from_iso
  by unfold_locales (auto simp: able_tenant_def dest: create_total)

text \<open>What the state remembers of a file once \<open>old\<close> has been delivered.\<close>

definition remembers :: "string \<Rightarrow> string \<Rightarrow> tail_map \<Rightarrow> bool" where
  "remembers key old m \<longleftrightarrow>
     (case map_of m key of
        None \<Rightarrow> old = []
      | Some e \<Rightarrow> tl_offset e = length old \<and> tl_size e \<le> length old)"

definition within_limits :: "string \<Rightarrow> bool" where
  "within_limits new \<longleftrightarrow> length new \<le> MAX_BYTES_PER_RUN \<and> length (text_lines new) \<le> MAX_EVENTS_PER_FILE"

lemma rewound_offset:
  assumes "remembers key old m" and "df_text f = old @ new"
  shows "tl_offset (rewound f (case map_of m key of None \<Rightarrow> new_tail | Some e \<Rightarrow> e)) = length old"
    and "tl_size (rewound f (case map_of m key of None \<Rightarrow> new_tail | Some e \<Rightarrow> e)) = length (old @ new)"
  using assms by (auto simp: remembers_def rewound_def new_tail_def Let_def split: option.splits)

lemma sum_lines: "sum_list (map length (text_lines s)) \<le> length s"
  using newlines_length [of s] concat_keep [of "universal_newlines s"]
  by (simp add: text_lines_def flip: length_concat)

lemma pass_delivers:
  fixes re w cx now lm path fmt
  defines "rd \<equiv> \<lparr>rd_create = create_event re w cx now, rd_iso = lm_iso lm\<rparr>"
  assumes "able_tenant (cx_tenant cx)" and "remembers (lm_resolve lm path) old m" and "df_text f = old @ new"
    and "df_error f = None" and "within_limits new" and "readable (lm_iso lm) fmt new"
  shows "\<exists>es m' i. read_new_lines rd lm path fmt f m s = (Inr (Inr es, m'), s\<lparr>ps_ids := i\<rparr>)
     \<and> remembers (lm_resolve lm path) (old @ new) m'
     \<and> list_all2 (from_draft re (cx_tenant cx)) (drafts (lm_iso lm) path fmt new) es"
proof -
  define e where "e = rewound f (case map_of m (lm_resolve lm path) of None \<Rightarrow> new_tail | Some e \<Rightarrow> e)"
  have e: "tl_offset e = length old" "tl_size e = length (old @ new)"
    using rewound_offset [OF assms(3,4)] by (simp_all add: e_def)
  then have unread: "drop (tl_offset e) (df_text f) = new" by (simp add: assms(4))
  have "\<exists>es i. read_lines rd path fmt (text_lines new) 0 [] s = (Inr (False, [] @ es), s\<lparr>ps_ids := i\<rparr>)
      \<and> list_all2 (from_draft re (cx_tenant cx)) (map (line_draft path) (List.map_filter (line_of (rd_iso rd) fmt) (text_lines new))) es"
    unfolding rd_def
    using assms(2,6,7) sum_lines [of new]
    by (intro following.reads_all) (auto simp: readable_def within_limits_def)
  then obtain es i where es: "read_lines rd path fmt (text_lines new) 0 [] s = (Inr (False, es), s\<lparr>ps_ids := i\<rparr>)"
      "list_all2 (from_draft re (cx_tenant cx)) (drafts (lm_iso lm) path fmt new) es"
    by (auto simp: drafts_def rd_def)
  show ?thesis
    using es e
    by (auto simp: read_new_lines_def Let_def assms(5) unread bindE_def returnE_def remembers_def assms(4) update_conv'
        simp flip: e_def text_lines_def)
qed

subsection \<open>Passes over a growing file\<close>

text \<open>The passes of the collector over one declared file, given with the instant of each pass and the file it finds.\<close>

definition found_at :: "log_machine \<Rightarrow> collector_context \<Rightarrow> log_source \<Rightarrow> string" where
  "found_at lm cx src = lm_path lm (cs_root (cx_settings cx)) (ls_path src)"

definition put_file :: "string \<Rightarrow> disk_file \<Rightarrow> disk pass_state \<Rightarrow> disk pass_state" where
  "put_file path f s = s\<lparr>ps_out := (ps_out s)\<lparr>dk_files := (dk_files (ps_out s))(path := Some f)\<rparr>\<rparr>"

fun followed ::
    "regex_sub \<Rightarrow> world \<Rightarrow> log_machine \<Rightarrow> collector_context \<Rightarrow> string \<Rightarrow> (time \<times> disk_file) list \<Rightarrow> disk pass_state \<Rightarrow> event list" where
  "followed re w lm cx path [] s = []"
| "followed re w lm cx path ((now, f) # ps) s =
     (case tail_collect re w lm cx now (put_file path f s) of
        (Inr r, s') \<Rightarrow> rs_events r @ followed re w lm cx path ps s'
      | (Inl _, s') \<Rightarrow> followed re w lm cx path ps s')"

text \<open>Each pass finds the previous text with whole lines added, no more than a pass takes.\<close>

fun grows :: "string \<Rightarrow> (time \<times> disk_file) list \<Rightarrow> bool" where
  "grows old [] = True"
| "grows old ((_, f) # ps) \<longleftrightarrow>
     df_error f = None \<and> prefix old (df_text f) \<and> complete (drop (length old) (df_text f))
     \<and> within_limits (drop (length old) (df_text f)) \<and> grows (df_text f) ps"

fun last_text :: "string \<Rightarrow> (time \<times> disk_file) list \<Rightarrow> string" where
  "last_text old [] = old"
| "last_text old ((_, f) # ps) = last_text (df_text f) ps"

lemma readable_append: "complete a \<Longrightarrow> readable from_iso fmt (a @ b) \<longleftrightarrow> readable from_iso fmt a \<and> readable from_iso fmt b"
  by (auto simp: readable_def text_lines_append)

lemma grows_last: "grows old ps \<Longrightarrow> \<exists>new. last_text old ps = old @ new"
proof (induction ps arbitrary: old)
  case (Cons p ps)
  then show ?case by (cases p) (fastforce simp: prefix_def)
qed simp

lemma collect_delivers:
  assumes "ts_log_sources (cx_scope cx) = [src]" and "able_tenant (cx_tenant cx)"
    and "remembers (lm_resolve lm (found_at lm cx src)) old (load_tail (dk_tail (ps_out s)))"
    and "dk_files (ps_out s) (found_at lm cx src) = Some f" and "df_text f = old @ new" and "df_error f = None"
    and "within_limits new" and "readable (lm_iso lm) (ls_format src) new"
  shows "\<exists>r s'. tail_collect re w lm cx now s = (Inr r, s')
     \<and> remembers (lm_resolve lm (found_at lm cx src)) (old @ new) (load_tail (dk_tail (ps_out s')))
     \<and> list_all2 (from_draft re (cx_tenant cx)) (drafts (lm_iso lm) (found_at lm cx src) (ls_format src) new) (rs_events r)"
proof -
  from pass_delivers [OF assms(2,3,5,6,7,8), of re w now s]
  obtain es m' i where read: "read_new_lines \<lparr>rd_create = create_event re w cx now, rd_iso = lm_iso lm\<rparr> lm (found_at lm cx src)
        (ls_format src) f (load_tail (dk_tail (ps_out s))) s = (Inr (Inr es, m'), s\<lparr>ps_ids := i\<rparr>)"
      and m': "remembers (lm_resolve lm (found_at lm cx src)) (old @ new) m'"
      and es: "list_all2 (from_draft re (cx_tenant cx)) (drafts (lm_iso lm) (found_at lm cx src) (ls_format src) new) es"
    by blast
  have events: "rs_events (add_per_file p v (new_run n t\<lparr>rs_events := rs_events (new_run n t) @ es\<rparr>)) = es" for p v n t
    by (simp add: add_per_file_def set_detail_def new_run_def)
  show ?thesis
    using read m' es assms(1,4) events
    by (simp add: tail_collect_def tail_source_def save_tail_def Let_def op_simps found_at_def load_tail_def set_detail_def)
qed

text \<open>C35: Within its limits, following a log delivers every line exactly once: a tenant has a single source, followed with no
  saved position from the first pass on; between two passes the file grows by whole lines, by at most 5000 of them and
  4 MiB; and reading the date of a line raises nothing, which always holds for the format of a web server.  The events of
  the passes are then, in order and one for one, those of the lines of the whole file.  Without these limits lines are
  lost: see \<open>over_limit_never_read\<close> and \<open>numeric_date_stops_the_pass\<close>.\<close>

theorem followed_exactly_once:
  assumes "ts_log_sources (cx_scope cx) = [src]" and "able_tenant (cx_tenant cx)" and "dk_tail (ps_out s) = Tail_absent"
    and "grows [] ps" and "readable (lm_iso lm) (ls_format src) (last_text [] ps)"
  shows "list_all2 (from_draft re (cx_tenant cx)) (drafts (lm_iso lm) (found_at lm cx src) (ls_format src) (last_text [] ps))
     (followed re w lm cx (found_at lm cx src) ps s)"
proof -
  let ?d = "drafts (lm_iso lm) (found_at lm cx src) (ls_format src)"
  have "\<exists>new. last_text old ps = old @ new
      \<and> list_all2 (from_draft re (cx_tenant cx)) (?d new) (followed re w lm cx (found_at lm cx src) ps s)"
    if "remembers (lm_resolve lm (found_at lm cx src)) old (load_tail (dk_tail (ps_out s)))" and "complete old" and "grows old ps"
      and "readable (lm_iso lm) (ls_format src) (last_text old ps)" for old
    using that
  proof (induction ps arbitrary: old s)
    case Nil
    then show ?case by (auto simp: drafts_def text_lines_def map_filter_def universal_newlines.simps)
  next
    case (Cons p ps)
    obtain now f where p: "p = (now, f)" by fastforce
    with Cons.prems(3) obtain add where add: "df_text f = old @ add" "complete add" "within_limits add" "df_error f = None"
        "grows (old @ add) ps" by (auto elim: prefixE)
    obtain rest where rest: "last_text (old @ add) ps = (old @ add) @ rest" using grows_last [OF add(5)] by blast
    have whole: "complete (old @ add)" using Cons.prems(2) add(2) by (rule complete_append)
    then have ok: "readable (lm_iso lm) (ls_format src) add"
      using Cons.prems(2,4) add(2) rest by (simp add: p add(1) readable_append)
    let ?s = "put_file (found_at lm cx src) f s"
    obtain r s' where r: "tail_collect re w lm cx now ?s = (Inr r, s')"
        "remembers (lm_resolve lm (found_at lm cx src)) (old @ add) (load_tail (dk_tail (ps_out s')))"
        "list_all2 (from_draft re (cx_tenant cx)) (?d add) (rs_events r)"
      using collect_delivers [OF assms(1,2) _ _ add(1,4,3) ok, of ?s re w now] Cons.prems(1) by (auto simp: put_file_def)
    obtain new where "last_text (old @ add) ps = (old @ add) @ new"
        "list_all2 (from_draft re (cx_tenant cx)) (?d new) (followed re w lm cx (found_at lm cx src) ps s')"
      using Cons.IH [OF r(2) whole add(5)] Cons.prems(4) by (auto simp: p add(1))
    then show ?case
      using r(1,3) add(1,2) by (intro exI [of _ "add @ new"]) (simp add: p drafts_append list_all2_appendI)
  qed
  from this [of "[]"] assms(3-5) show ?thesis by (auto simp: remembers_def load_tail_def complete_def)
qed


lemma plain_readable: "fmt \<notin> {''json'', ''auto''} \<Longrightarrow> readable from_iso fmt s"
  by (auto simp: readable_def parse_log_line_def split: option.splits if_splits)

definition boot_log :: log_source where
  "boot_log = \<lparr>ls_path = ''/var/log/boot'', ls_format = ''text'', ls_tags = []\<rparr>"

definition boot_machine :: log_machine where
  "boot_machine = \<lparr>lm_path = (\<lambda>rt p. p), lm_resolve = (\<lambda>p. p), lm_iso = (\<lambda>_. None)\<rparr>"

definition boot_context :: collector_context where
  "boot_context =
     \<lparr>cx_tenant = sample_tenant, cx_scope = (empty_scope ''acme'')\<lparr>ts_log_sources := [boot_log]\<rparr>,
      cx_settings = \<lparr>cs_root = ''/srv'', cs_syslog = False, cs_max_targets = 10\<rparr>, cx_run_id = ''run_0''\<rparr>"

definition boot_file :: "string \<Rightarrow> disk_file" where
  "boot_file body = \<lparr>df_text = body, df_mtime = 0, df_error = None\<rparr>"

definition boot_passes :: "(time \<times> disk_file) list" where
  "boot_passes = [(0, boot_file (''up'' @ [LF])), (60, boot_file (''up'' @ [LF] @ ''on'' @ [LF]))]"

definition boot_state :: "disk pass_state" where
  "boot_state = \<lparr>ps_ids = 0, ps_out = \<lparr>dk_files = (\<lambda>_. None), dk_tail = Tail_absent\<rparr>, ps_emitted = []\<rparr>"

theorem followed_exactly_once_witness:
  "\<forall>w. list_all2 (from_draft (\<lambda>p r x. x) sample_tenant)
     (drafts (\<lambda>_. None) ''/var/log/boot'' ''text'' (''up'' @ [LF] @ ''on'' @ [LF]))
     (followed (\<lambda>p r x. x) w boot_machine boot_context ''/var/log/boot'' boot_passes boot_state)"
proof
  fix w
  have "able_tenant (cx_tenant boot_context)"
    unfolding able_tenant_def by (rule exI [of _ "''acme''"]) code_simp
  moreover have "grows [] boot_passes"
    by (simp add: boot_passes_def boot_file_def complete_def within_limits_def text_lines_def universal_newlines.simps
        MAX_BYTES_PER_RUN_def MAX_EVENTS_PER_FILE_def LF_def CR_def)
  moreover have "readable (lm_iso boot_machine) (ls_format boot_log) (last_text [] boot_passes)"
    by (rule plain_readable) (simp add: boot_log_def)
  moreover have "ts_log_sources (cx_scope boot_context) = [boot_log]" "dk_tail (ps_out boot_state) = Tail_absent"
    by (simp_all add: boot_context_def boot_state_def)
  moreover have "found_at boot_machine boot_context boot_log = ''/var/log/boot''" "last_text [] boot_passes = ''up'' @ [LF] @ ''on'' @ [LF]"
    by (simp_all add: found_at_def boot_machine_def boot_log_def boot_passes_def boot_file_def)
  ultimately show "list_all2 (from_draft (\<lambda>p r x. x) sample_tenant)
     (drafts (\<lambda>_. None) ''/var/log/boot'' ''text'' (''up'' @ [LF] @ ''on'' @ [LF]))
     (followed (\<lambda>p r x. x) w boot_machine boot_context ''/var/log/boot'' boot_passes boot_state)"
    using followed_exactly_once [of boot_context boot_log boot_state boot_passes boot_machine "\<lambda>p r x. x" w]
    by (simp add: boot_machine_def boot_log_def boot_context_def)
qed

subsection \<open>Outside of these conditions\<close>

lemma newlines_plain: "CR \<notin> set s \<Longrightarrow> universal_newlines s = s"
  by (induction s) (auto simp: universal_newlines.simps)

text \<open>
  When more than a pass takes is unread, the loop is left by \<open>break\<close> and \<open>tell\<close> raises: the pass delivers nothing and
  the position does not move, so the next pass finds the same text, or a longer one.
\<close>

theorem over_limit_never_read:
  assumes "able_tenant (cx_tenant cx)" and "remembers (lm_resolve lm path) old m" and "df_text f = old @ new"
    and "df_error f = None" and "MAX_BYTES_PER_RUN < length new" and "CR \<notin> set new" and "readable (lm_iso lm) fmt new"
  shows "\<exists>m' s'. read_new_lines \<lparr>rd_create = create_event re w cx now, rd_iso = lm_iso lm\<rparr> lm path fmt f m s
      = (Inr (Inl TELL_ERROR, m'), s')
     \<and> map_option tl_offset (map_of m' (lm_resolve lm path)) = map_option tl_offset (map_of m (lm_resolve lm path))"
proof -
  define e where "e = rewound f (case map_of m (lm_resolve lm path) of None \<Rightarrow> new_tail | Some e \<Rightarrow> e)"
  have e: "tl_offset e = length old" using rewound_offset [OF assms(2,3)] by (simp add: e_def)
  have "\<exists>es i. read_lines \<lparr>rd_create = create_event re w cx now, rd_iso = lm_iso lm\<rparr> path fmt (text_lines new) 0 [] s
      = (Inr (True, es), s\<lparr>ps_ids := i\<rparr>)"
    using assms(1,5,6,7) concat_keep [of new]
    by (intro following.reads_break) (auto simp: readable_def text_lines_def newlines_plain simp flip: length_concat)
  then obtain es i where es: "read_lines \<lparr>rd_create = create_event re w cx now, rd_iso = lm_iso lm\<rparr> path fmt (text_lines new) 0 [] s
      = (Inr (True, es), s\<lparr>ps_ids := i\<rparr>)" by blast
  have "map_of m (lm_resolve lm path) = Some d \<Longrightarrow> tl_offset d = length old" for d
    using assms(2) by (simp add: remembers_def)
  with es e show ?thesis
    by (auto simp: read_new_lines_def Let_def assms(3,4) bindE_def returnE_def kept_def update_conv'
        simp flip: e_def text_lines_def split: option.splits)
qed

text \<open>A pass that finds a line being written delivers its beginning, and the next one its end, as two lines.\<close>

theorem torn_line_in_two:
  "drafts (\<lambda>_. None) p ''text'' ''u'' @ drafts (\<lambda>_. None) p ''text'' (''p'' @ [LF]) \<noteq> drafts (\<lambda>_. None) p ''text'' (''up'' @ [LF])"
proof -
  have "length (List.map_filter (line_of (\<lambda>_. None) ''text'') (text_lines ''u'')) = 1"
    "length (List.map_filter (line_of (\<lambda>_. None) ''text'') (text_lines (''p'' @ [LF]))) = 1"
    "length (List.map_filter (line_of (\<lambda>_. None) ''text'') (text_lines (''up'' @ [LF]))) = 1" by code_simp+
  then show ?thesis by (auto simp: drafts_def dest!: arg_cong [where f = length])
qed

text \<open>
  A structured line whose date is a number makes the reading of the date raise: the pass stops, its events are lost, and
  the position is not saved, so that the next pass meets the same line.
\<close>

theorem numeric_date_stops_the_pass:
  assumes "json_loads (chomp l) = Some (PDict d)" and "dict_val d ''ts'' = PInt i" and "i \<noteq> 0"
    and "text_lines (df_text f) = l # ls" and "str_strip (chomp l) \<noteq> []" and "length l \<le> MAX_BYTES_PER_RUN"
    and "ts_log_sources (cx_scope cx) = [\<lparr>ls_path = p, ls_format = ''json'', ls_tags = tags\<rparr>]" and "df_error f = None"
    and "dk_files (ps_out s) (lm_path lm (cs_root (cx_settings cx)) p) = Some f" and "dk_tail (ps_out s) = Tail_absent"
  shows "\<exists>why. tail_collect re w lm cx now s = (Inl (Foreign ''AttributeError'' why), s)"
proof -
  have "find (\<lambda>k. truthy (dict_val d k)) [''ts'', ''timestamp'', ''time''] = Some ''ts''" using assms(2,3) by simp
  then have raised: "\<exists>why. parse_log_line from_iso (chomp l) ''json'' = Inl (Foreign ''AttributeError'' why)" for from_iso
    using assms(1,2) by (simp add: parse_log_line_def parse_json_log_def parse_dt_def either_def Let_def)
  have fresh: "tl_offset (rewound f new_tail) = 0" by (simp add: rewound_def new_tail_def Let_def)
  have limit: "\<not> (MAX_BYTES_PER_RUN < length l \<or> MAX_EVENTS_PER_FILE \<le> length ([] :: event list))"
    using assms(6) by (simp add: MAX_EVENTS_PER_FILE_def)
  from raised [of "lm_iso lm"] obtain why where why: "parse_log_line (lm_iso lm) (chomp l) ''json'' = Inl (Foreign ''AttributeError'' why)"
    by blast
  then have "read_lines \<lparr>rd_create = create_event re w cx now, rd_iso = lm_iso lm\<rparr> path ''json'' (text_lines (df_text f)) 0 [] s
      = (Inl (Foreign ''AttributeError'' why), s)" for path
    using limit assms(5) by (simp add: assms(4) Let_def raiseE_def)
  then show ?thesis
    using assms(7-10) fresh
    by (auto simp: tail_collect_def tail_source_def read_new_lines_def Let_def op_simps load_tail_def simp flip: text_lines_def)
qed

end
