(* ===== verification/CheckProps.thy ===== *)
theory CheckProps
  imports TailProps DependencyScan Probes
begin

section \<open>What the checks of the collectors decide\<close>

text \<open>
  The audit of a configuration reports exactly the settings that are there and should not be, or are not there and
  should be; a scan reports the vulnerable dependencies of its manifests, in order and up to the limit of each, the ranges
  of the advisories being read as an operator and a bound, and versions are compared by a total preorder.  Then the cases in which the code does not decide what it announces.
\<close>

subsection \<open>Configuration\<close>

definition occurs :: "re \<Rightarrow> string \<Rightarrow> bool" where
  "occurs r body \<longleftrightarrow> (\<exists>w v t. body = w @ v \<and> derives r \<lparr>po_before = rev w, po_rest = v, po_groups = []\<rparr> t)"

lemma search_occurs: "re_search r body = None \<longleftrightarrow> \<not> occurs r body"
  by (auto simp: re_search_def search_from_None occurs_def)

lemma triggered_iff: "triggered ck body \<noteq> None \<longleftrightarrow> occurs (ck_pattern ck) body = ck_expect_absent ck"
  using search_occurs [of "ck_pattern ck" body] by (auto simp: triggered_def split: option.splits)

text \<open>Exactness of a configuration audit: the checks reported on a text are those whose pattern occurs in it when the
  setting should be absent, and those whose pattern occurs nowhere when it should be present, in the order of the
  list.\<close>

theorem run_checks_exact:
  "map cn_check (run_checks body cks) = map ck_check (filter (\<lambda>ck. occurs (ck_pattern ck) body = ck_expect_absent ck) cks)"
proof (induction cks)
  case (Cons ck cks)
  then show ?case
    using triggered_iff [of ck body]
    by (cases "triggered ck body") (auto simp: run_checks_def map_filter_def)
qed (simp add: run_checks_def map_filter_def)

theorem modern_protocols_reported:
  "triggered (WEB_CHECKS ! 0) ''ssl_protocols TLSv1.2;'' = Some (''ssl_protocols TLSv1'', 1)"
  by code_simp

theorem directive_line_shifted:
  "triggered (SSH_CHECKS ! 0) ([LF] @ ''PermitRootLogin yes'') = Some (''PermitRootLogin yes'', 1)
   \<and> splitlines ([LF] @ ''PermitRootLogin yes'') ! 1 = ''PermitRootLogin yes''"
  by code_simp

theorem any_limit_of_tries_accepted: "triggered (SSH_CHECKS ! 3) ''MaxAuthTries 100'' = None"
  by code_simp

subsection \<open>Versions\<close>

lemma compare_cases:
  "compare_versions a b < 0 \<longleftrightarrow> version_key a < version_key b" "compare_versions a b \<le> 0 \<longleftrightarrow> version_key a \<le> version_key b"
  "compare_versions a b = 0 \<longleftrightarrow> version_key a = version_key b"
  by (auto simp: compare_versions_def Let_def)

lemma compare_flip: "compare_versions b a = - compare_versions a b"
  by (simp add: compare_versions_def Let_def)

lemma affects_lower:
  assumes "re_match AFFECTED_SPEC (str_strip (av_affected a)) = Some m" and "group_text m ''op'' \<in> {''<'', ''<=''}"
    and "affects a v" and "compare_versions u v \<le> 0"
  shows "affects a u"
  using assms by (auto simp: affects_def Let_def compare_cases)

theorem post_release_before_release: "compare_versions ''1.0.post1'' ''1.0'' = -1"
  by code_simp

theorem http_names_ignored: "requirement_of ''httpx==0.1'' = None"
  by code_simp

theorem package_list_raises: "\<exists>why. parse_package_json ''[]'' = Inl (Foreign ''AttributeError'' why)"
proof -
  have "json_loads ''[]'' = Some (PList [])" by code_simp
  then show ?thesis by (simp add: parse_package_json_def attribute_error_def)
qed

subsection \<open>Ranges of versions\<close>

text \<open>The position \<open>n\<close> characters further.\<close>

definition advance :: "nat \<Rightarrow> position \<Rightarrow> position" where
  "advance n s = s\<lparr>po_before := rev (take n (po_rest s)) @ po_before s, po_rest := drop n (po_rest s)\<rparr>"

lemma advance_simps [simp]: "advance 0 s = s" "po_rest (advance n s) = drop n (po_rest s)" "po_groups (advance n s) = po_groups s"
  by (simp_all add: advance_def)

lemma advance_Suc: "po_rest s = c # cs \<Longrightarrow> advance (Suc n) s = advance n (s\<lparr>po_before := c # po_before s, po_rest := cs\<rparr>)"
  by (simp add: advance_def)

text \<open>A greedy repetition of a class of characters tries the longest run first.\<close>

lemma repetitions_head:
  "length (po_rest s) \<le> n \<Longrightarrow>
     \<exists>ts. repetitions n True (runs (R_char p)) s = advance (length (takeWhile p (po_rest s))) s # ts"
proof (induction n arbitrary: s)
  case (Suc n)
  show ?case
  proof (cases "po_rest s")
    case (Cons c cs)
    show ?thesis
    proof (cases "p c")
      case True
      let ?t = "s\<lparr>po_before := c # po_before s, po_rest := cs\<rparr>"
      obtain ts where "repetitions n True (runs (R_char p)) ?t = advance (length (takeWhile p cs)) ?t # ts"
        using Suc.IH [of ?t] Suc.prems Cons by (force simp del: runs.simps)
      moreover have "runs (R_char p) s = [?t]" using True by (simp add: Cons)
      ultimately show ?thesis using True by (simp add: Cons Let_def advance_Suc [OF Cons] del: runs.simps)
    qed (simp add: Cons Let_def)
  qed simp
qed simp

lemma many_head: "\<exists>ts. runs (r_many (R_char p)) s = advance (length (takeWhile p (po_rest s))) s # ts"
  using repetitions_head [of s "length (po_rest s)" p] by simp

lemma some_head:
  assumes "po_rest s = c # cs" and "p c"
  shows "\<exists>ts. runs (r_some (R_char p)) s = advance (length (takeWhile p (po_rest s))) s # ts"
  using many_head [of p "s\<lparr>po_before := c # po_before s, po_rest := cs\<rparr>"] assms
  by (auto simp: r_some_def advance_Suc [OF assms(1)])

lemma many_forward: "derives (r_many (R_char p)) s t \<Longrightarrow> \<exists>w. list_all p w \<and> po_rest s = w @ po_rest t \<and> po_groups t = po_groups s"
proof (induction "r_many (R_char p)" s t rule: derives.induct)
  case (d_more s t u)
  then obtain c cs where "po_rest s = c # cs" "p c" "t = s\<lparr>po_before := c # po_before s, po_rest := cs\<rparr>"
    by (auto simp: derives_simps)
  with d_more show ?case by (auto intro: exI [of _ "c # w" for w])
qed (auto intro: exI [of _ "[]"])

lemma some_forward:
  "derives (r_some (R_char p)) s t
     \<Longrightarrow> \<exists>w. w \<noteq> [] \<and> list_all p w \<and> po_rest s = w @ po_rest t \<and> po_groups t = po_groups s"
proof -
  assume "derives (r_some (R_char p)) s t"
  then obtain c cs where c: "po_rest s = c # cs" "p c"
      and more: "derives (r_many (R_char p)) (s\<lparr>po_before := c # po_before s, po_rest := cs\<rparr>) t"
    by (auto simp: r_some_def derives_simps)
  from many_forward [OF more] obtain w where "list_all p w" "cs = w @ po_rest t" "po_groups t = po_groups s" by auto
  with c show ?thesis by (intro exI [of _ "c # w"]) simp
qed

lemma runs_lit: "runs (r_lit w) s = (if prefix w (po_rest s) then [advance (length w) s] else [])"
proof (induction w arbitrary: s)
  case (Cons c w)
  have "runs (r_lit (c # w)) s = concat (map (runs (r_lit w)) (runs (R_char (\<lambda>x. x = c)) s))"
    by (simp add: r_lit_def r_seq_def)
  then show ?case by (cases "po_rest s") (simp_all add: Cons.IH advance_Suc)
qed (simp add: r_lit_def r_seq_def)

definition bound_tail :: re where
  "bound_tail = R_cat (r_many r_space) (R_cat (R_group ''bound'' (r_some r_dot)) (R_cat R_end R_eps))"

definition bounded_by :: "string \<Rightarrow> string option" where
  "bounded_by s = (let b = dropWhile is_space s in if b = [] \<or> CHR 0x0A \<in> set b then None else Some b)"

lemma bound_tail_some:
  assumes "bounded_by (po_rest s) = Some b"
  shows "\<exists>u us. runs bound_tail s = u # us \<and> po_groups u = (''bound'', b) # po_groups s"
proof -
  obtain t where t: "t = advance (length (takeWhile is_space (po_rest s))) s" by blast
  have b: "po_rest t = b" "b \<noteq> []" "CHR 0x0A \<notin> set b"
    using assms by (auto simp: t bounded_by_def Let_def dropWhile_eq_drop split: if_splits)
  then obtain c cs where c: "po_rest t = c # cs" "c \<noteq> CHR 0x0A" by (cases b) auto
  have all: "takeWhile (\<lambda>c. c \<noteq> CHR 0x0A) b = b" using b(3) by (auto simp: takeWhile_eq_all_conv)
  obtain ts where ts: "runs (r_many r_space) s = t # ts" using many_head [of is_space s] unfolding r_space_def t by blast
  obtain e where e: "e = advance (length b) t" by blast
  obtain us where us: "runs (r_some r_dot) t = e # us"
    using some_head [of t c cs "\<lambda>c. c \<noteq> CHR 0x0A"] c b(1) all unfolding r_dot_def e by metis
  have "po_rest e = []" "consumed t e = b" "po_groups e = po_groups s" using b(1) by (auto simp: e t consumed_def)
  then show ?thesis unfolding bound_tail_def by (simp del: runs.simps(5) add: ts us)
qed

lemma bound_tail_none:
  assumes "bounded_by (po_rest s) = None" and "po_rest s \<noteq> [] \<Longrightarrow> \<not> is_space (last (po_rest s))"
  shows "runs bound_tail s = []"
proof (rule ccontr)
  assume "runs bound_tail s \<noteq> []"
  then obtain t where "t \<in> set (runs bound_tail s)" by (metis list.set_sel(1))
  then obtain m e where m: "derives (r_many r_space) s m" and e: "derives (r_some r_dot) m e" "po_rest e = [] \<or> po_rest e = [CHR 0x0A]"
    unfolding runs_exact bound_tail_def by (auto simp: derives_simps)
  obtain w where w: "list_all is_space w" "po_rest s = w @ po_rest m" using many_forward m unfolding r_space_def by blast
  obtain g where g: "g \<noteq> []" "list_all (\<lambda>c. c \<noteq> CHR 0x0A) g" "po_rest m = g @ po_rest e"
    using some_forward e(1) unfolding r_dot_def by blast
  have "is_space (CHR 0x0A)" by code_simp
  then have "po_rest e = []" using assms(2) e(2) w(2) g by auto
  then have s: "po_rest s = w @ g" "\<not> is_space (last g)" using w g assms(2) by auto
  then have "dropWhile is_space (po_rest s) = dropWhile is_space g"
    using w(1) by (auto simp: list_all_iff dropWhile_append)
  moreover have "dropWhile is_space g \<noteq> []" using s(2) g(1) by (metis dropWhile_eq_Nil_conv last_in_set)
  moreover have "CHR 0x0A \<notin> set (dropWhile is_space g)" using g(2) by (auto simp: list_all_iff dest: set_dropWhileD)
  ultimately show False using assms(1) by (simp add: bounded_by_def Let_def del: dropWhile_eq_Nil_conv)
qed

text \<open>The operator and the bound of a range: the first operator, the longer ones before the shorter, that leaves a bound.\<close>

definition range_with :: "string \<Rightarrow> string \<Rightarrow> (string \<times> string) option" where
  "range_with text op = (if prefix op text then map_option (Pair op) (bounded_by (drop (length op) text)) else None)"

fun first_of :: "('a \<Rightarrow> 'b option) \<Rightarrow> 'a list \<Rightarrow> 'b option" where
  "first_of f [] = None"
| "first_of f (x # xs) = (case f x of None \<Rightarrow> first_of f xs | Some y \<Rightarrow> Some y)"

definition range_parts :: "string \<Rightarrow> (string \<times> string) option" where
  "range_parts text = first_of (range_with text) [''<='', ''>='', ''<'', ''>'', ''=='']"

lemma range_with_runs:
  assumes "text \<noteq> [] \<Longrightarrow> \<not> is_space (last text)" and s: "s = (advance (length op) (at_start text))\<lparr>po_groups := [(''op'', op)]\<rparr>"
  shows "range_with text op = Some (op', b) \<and> prefix op text \<Longrightarrow>
           op' = op \<and> (\<exists>u us. runs bound_tail s = u # us \<and> po_groups u = [(''bound'', b), (''op'', op)])"
    and "range_with text op = None \<and> prefix op text \<Longrightarrow> runs bound_tail s = []"
proof -
  have rest: "po_rest s = drop (length op) text" by (simp add: s at_start_def)
  assume "range_with text op = Some (op', b) \<and> prefix op text"
  then have "op' = op" "bounded_by (po_rest s) = Some b" by (auto simp: range_with_def rest)
  then show "op' = op \<and> (\<exists>u us. runs bound_tail s = u # us \<and> po_groups u = [(''bound'', b), (''op'', op)])"
    using bound_tail_some [of s b] by (simp add: s)
next
  have rest: "po_rest s = drop (length op) text" by (simp add: s at_start_def)
  assume "range_with text op = None \<and> prefix op text"
  then have "bounded_by (po_rest s) = None" by (auto simp: range_with_def rest)
  moreover have "\<not> is_space (last (po_rest s))" if "po_rest s \<noteq> []"
    using that assms(1) rest by (cases "text = []") (auto simp: last_drop)
  ultimately show "runs bound_tail s = []" using bound_tail_none by blast
qed

definition op_ends :: "string \<Rightarrow> string \<Rightarrow> position list" where
  "op_ends text op =
     (if prefix op text then runs bound_tail ((advance (length op) (at_start text))\<lparr>po_groups := [(''op'', op)]\<rparr>) else [])"

lemma affected_runs:
  "runs AFFECTED_SPEC (at_start text) = concat (map (op_ends text) [''<='', ''>='', ''<'', ''>'', ''==''])"
proof -
  have start: "po_rest (at_start text) = text" "po_before (at_start text) = []" "po_groups (at_start text) = []"
    by (simp_all add: at_start_def)
  have used: "prefix w text \<Longrightarrow> consumed (at_start text) (advance (length w) (at_start text)) = w" for w
    by (auto simp: consumed_def start prefix_def)
  have op: "runs (R_group ''op'' (r_any (map r_lit ops))) (at_start text)
      = concat (map (\<lambda>w. if prefix w text then [(advance (length w) (at_start text))\<lparr>po_groups := [(''op'', w)]\<rparr>] else []) ops)" for ops
  proof (induction ops rule: induct_list012)
    case (3 x y zs)
    then show ?case using used [of x] by (auto simp: runs_lit start)
  qed (use used in \<open>auto simp: runs_lit start split: list.splits\<close>)
  have spec: "AFFECTED_SPEC = R_cat R_start (R_cat (R_group ''op'' (r_any (map r_lit [''<='', ''>='', ''<'', ''>'', ''=='']))) bound_tail)"
    by (simp add: AFFECTED_SPEC_def bound_tail_def r_seq_def)
  have "concat (map (runs bound_tail) (runs (R_group ''op'' (r_any (map r_lit ops))) (at_start text))) = concat (map (op_ends text) ops)" for ops
    unfolding op by (induction ops) (simp_all add: op_ends_def)
  moreover have "runs (R_cat R_start (R_cat q bound_tail)) (at_start text) = concat (map (runs bound_tail) (runs q (at_start text)))" for q
    by (simp add: start)
  ultimately show ?thesis unfolding spec by metis
qed

lemma affected_parts:
  assumes "text \<noteq> [] \<Longrightarrow> \<not> is_space (last text)"
  shows "case range_parts text of
      None \<Rightarrow> re_match AFFECTED_SPEC text = None
    | Some (op, b) \<Rightarrow> \<exists>m. re_match AFFECTED_SPEC text = Some m \<and> group_text m ''op'' = op \<and> group_text m ''bound'' = b"
proof -
  have "case first_of (range_with text) ops of
      None \<Rightarrow> concat (map (op_ends text) ops) = []
    | Some (op, b) \<Rightarrow> \<exists>m ms. concat (map (op_ends text) ops) = m # ms \<and> po_groups m = [(''bound'', b), (''op'', op)]" for ops
  proof (induction ops)
    case (Cons op ops)
    show ?case
    proof (cases "range_with text op")
      case None
      then have "op_ends text op = []"
        using range_with_runs(2) [OF assms refl] by (auto simp: op_ends_def)
      then show ?thesis using Cons.IH None by (auto split: option.splits prod.splits)
    next
      case (Some ob)
      obtain o' b where ob: "ob = (o', b)" by fastforce
      have "prefix op text" using Some by (simp add: range_with_def split: if_splits)
      then show ?thesis
        using range_with_runs(1) [OF assms refl, of op o' b] Some by (auto simp: op_ends_def ob)
    qed
  qed simp
  note tries = this [of "[''<='', ''>='', ''<'', ''>'', ''=='']", folded affected_runs range_parts_def]
  show ?thesis
  proof (cases "range_parts text")
    case None
    with tries have "runs AFFECTED_SPEC (at_start text) = []" by simp
    with None show ?thesis by (simp add: re_match_def)
  next
    case (Some ob)
    obtain op b where ob: "ob = (op, b)" by fastforce
    from tries Some ob obtain m ms where "runs AFFECTED_SPEC (at_start text) = m # ms" "po_groups m = [(''bound'', b), (''op'', op)]"
      by auto
    with Some ob show ?thesis by (simp add: re_match_def group_text_def re_group_def)
  qed
qed

text \<open>Whether a version is in a range: the order of the keys of the versions, as the operator asks.\<close>

definition in_range :: "string \<Rightarrow> string \<Rightarrow> bool" where
  "in_range limits v =
     (case range_parts (str_strip limits) of
        None \<Rightarrow> False
      | Some (op, b) \<Rightarrow>
          op = ''<'' \<and> version_key v < version_key b \<or> op = ''<='' \<and> version_key v \<le> version_key b
          \<or> op = ''>'' \<and> version_key v > version_key b \<or> op = ''>='' \<and> version_key v \<ge> version_key b
          \<or> op = ''=='' \<and> version_key v = version_key b)"

lemma strip_last: "str_strip s \<noteq> [] \<Longrightarrow> \<not> is_space (last (str_strip s))"
  unfolding str_strip_def strip_with_def by (metis hd_dropWhile last_rev rev_is_Nil_conv)

lemma dropWhile_strip: "dropWhile is_space (str_strip s) = str_strip s"
proof (cases "dropWhile is_space s")
  case (Cons c cs)
  then have c: "\<not> is_space c" by (simp add: dropWhile_eq_Cons_conv)
  then have "dropWhile is_space (rev cs @ [c]) = dropWhile is_space (rev cs) @ [c]" by (simp add: dropWhile_append)
  then show ?thesis using c by (simp add: str_strip_def strip_with_def Cons)
qed (simp add: str_strip_def strip_with_def del: dropWhile_eq_Nil_conv)

lemma strip_strip: "str_strip (str_strip s) = str_strip s"
proof (cases "str_strip s = []")
  case False
  obtain x xs where x: "rev (str_strip s) = x # xs" using False by (metis neq_Nil_conv rev_is_Nil_conv)
  then have "\<not> is_space x" using strip_last [OF False] by (metis last_rev list.sel(1) rev_rev_ident)
  then have "dropWhile is_space (rev (str_strip s)) = rev (str_strip s)" by (simp add: x)
  then show ?thesis
    by (subst (1) str_strip_def) (simp add: strip_with_def dropWhile_strip)
next
  case True
  have "str_strip [] = []" by (simp add: str_strip_def strip_with_def)
  with True show ?thesis by simp
qed

lemma key_strip: "version_key (str_strip v) = version_key v"
  by (simp add: version_key_def strip_strip)

lemma affects_in_range: "affects a v = in_range (av_affected a) v"
proof (cases "range_parts (str_strip (av_affected a))")
  case None
  then show ?thesis using affected_parts [OF strip_last, of "av_affected a"] by (simp add: affects_def in_range_def)
next
  case (Some ob)
  obtain op b where ob: "ob = (op, b)" by fastforce
  obtain m where m: "re_match AFFECTED_SPEC (str_strip (av_affected a)) = Some m" "group_text m ''op'' = op" "group_text m ''bound'' = b"
    using affected_parts [OF strip_last, of "av_affected a"] Some ob by auto
  have "op \<in> {''<='', ''>='', ''<'', ''>'', ''==''}"
    using Some unfolding ob range_parts_def by (auto simp: range_with_def split: if_splits option.splits)
  then show ?thesis
    by (auto simp: affects_def in_range_def Some ob m Let_def compare_versions_def key_strip)
qed

subsection \<open>A scan\<close>

text \<open>An advisory is about a dependency when it names its package, its ecosystem or none, and a range its version is in.\<close>

definition vulnerable :: "declared_dependency \<Rightarrow> advisory \<Rightarrow> bool" where
  "vulnerable d a \<longleftrightarrow> av_package a = str_lower (dp_name d) \<and> (av_ecosystem a = [] \<or> av_ecosystem a = dp_ecosystem d)
     \<and> in_range (av_affected a) (dp_version d)"

lemma concerned_exact: "concerned d a = vulnerable d a"
  by (simp add: concerned_def vulnerable_def affects_in_range)

lemma report_delivers:
  assumes "able_tenant (cx_tenant cx)" and "length es < MAX_FINDINGS_PER_MANIFEST"
  shows "\<exists>new i. report_pairs (create_event re w cx now) path ps es s = (Inr (es @ new), s\<lparr>ps_ids := i\<rparr>)
     \<and> list_all2 (from_draft re (cx_tenant cx))
         (map (\<lambda>(d, a). advisory_draft path d a)
           (take (MAX_FINDINGS_PER_MANIFEST - length es) (filter (\<lambda>(d, a). concerned d a) ps))) new"
  using assms(2)
proof (induction ps arbitrary: es s)
  case Nil
  then show ?case by (auto simp: returnE_def intro: exI [of _ "ps_ids s"])
next
  case (Cons p ps)
  obtain d a where p: "p = (d, a)" by fastforce
  show ?case
  proof (cases "concerned d a")
    case False
    then show ?thesis using Cons by (simp add: p)
  next
    case True
    obtain ev where ev: "create_event re w cx now (advisory_draft path d a) s = (Inr ev, s\<lparr>ps_ids := Suc (ps_ids s)\<rparr>)"
        "from_draft re (cx_tenant cx) (advisory_draft path d a) ev"
      using assms(1) create_total unfolding able_tenant_def by blast
    show ?thesis
    proof (cases "MAX_FINDINGS_PER_MANIFEST \<le> length (es @ [ev])")
      case stop: True
      then have "MAX_FINDINGS_PER_MANIFEST - length es = 1" using Cons.prems by simp
      then show ?thesis using ev True stop by (auto simp: p bindE_def returnE_def)
    next
      case False
      then have "MAX_FINDINGS_PER_MANIFEST - length es = Suc (MAX_FINDINGS_PER_MANIFEST - length (es @ [ev]))" by simp
      then show ?thesis
        using ev True False Cons.IH [of "es @ [ev]" "s\<lparr>ps_ids := Suc (ps_ids s)\<rparr>"] by (auto simp: p bindE_def)
    qed
  qed
qed

text \<open>What a manifest declares: nothing when it is missing or cannot be read.\<close>

definition declared :: "log_machine \<Rightarrow> string \<Rightarrow> (string \<Rightarrow> disk_file option) \<Rightarrow> string \<Rightarrow> exn + declared_dependency list" where
  "declared lm rootdir files manifest =
     (let path = lm_path lm rootdir manifest
      in case files path of
           None \<Rightarrow> Inr []
         | Some f \<Rightarrow> if df_error f \<noteq> None then Inr [] else parse_manifest (path_name path) (universal_newlines (df_text f)))"

definition manifest_findings ::
    "log_machine \<Rightarrow> string \<Rightarrow> (string \<Rightarrow> disk_file option) \<Rightarrow> advisory list \<Rightarrow> string \<Rightarrow> draft list" where
  "manifest_findings lm rootdir files avs manifest =
     (case declared lm rootdir files manifest of
        Inl _ \<Rightarrow> []
      | Inr ds \<Rightarrow> take 100 [advisory_draft (lm_path lm rootdir manifest) d a. d \<leftarrow> ds, a \<leftarrow> avs, vulnerable d a])"

lemma pairs_comprehension:
  "[f d a. d \<leftarrow> ds, a \<leftarrow> avs, vulnerable d a] = map (\<lambda>(d, a). f d a) (filter (\<lambda>(d, a). concerned d a) (pairs ds avs))"
proof (induction ds)
  case (Cons d ds)
  have "[f d a. a \<leftarrow> avs, vulnerable d a] = map (\<lambda>(d, a). f d a) (filter (\<lambda>(d, a). concerned d a) (map (Pair d) avs))"
    by (induction avs) (simp_all add: concerned_exact)
  with Cons show ?case by (simp add: pairs_def)
qed (simp add: pairs_def)

lemma error_events [simp]: "rs_events (add_error re why r) = rs_events r" "rs_events (set_detail k v r) = rs_events r"
  by (simp_all add: add_error_def set_detail_def)

lemma scan_one:
  assumes "able_tenant (cx_tenant cx)" and "declared lm rootdir files manifest = Inr ds"
  shows "\<exists>r' a' f' new i. scan_manifest re (create_event re w cx now) lm rootdir files avs manifest (r, a, f) s
       = (Inr (r', a', f'), s\<lparr>ps_ids := i\<rparr>)
     \<and> rs_events r' = rs_events r @ new
     \<and> list_all2 (from_draft re (cx_tenant cx)) (manifest_findings lm rootdir files avs manifest) new"
proof (cases "\<exists>f. files (lm_path lm rootdir manifest) = Some f \<and> df_error f = None")
  case False
  then have "declared lm rootdir files manifest = Inr []" by (auto simp: declared_def Let_def split: option.splits)
  then have none: "manifest_findings lm rootdir files avs manifest = []" by (simp add: manifest_findings_def)
  show ?thesis
  proof (cases "files (lm_path lm rootdir manifest)")
    case None
    then show ?thesis using none by (auto simp: scan_manifest_def returnE_def Let_def intro!: exI [of _ "ps_ids s"])
  next
    case (Some g)
    then obtain why where "df_error g = Some why" using False by auto
    then show ?thesis using none Some by (auto simp: scan_manifest_def returnE_def Let_def file_error_def intro!: exI [of _ "ps_ids s"])
  qed
next
  case True
  let ?path = "lm_path lm rootdir manifest"
  from True obtain g where g: "files ?path = Some g" "df_error g = None" by blast
  then have parsed: "parse_manifest (path_name ?path) (universal_newlines (df_text g)) = Inr ds"
    using assms(2) by (simp add: declared_def)
  obtain es i where es: "report_pairs (create_event re w cx now) ?path (pairs ds avs) [] s = (Inr es, s\<lparr>ps_ids := i\<rparr>)"
      "list_all2 (from_draft re (cx_tenant cx))
         (map (\<lambda>(d, a). advisory_draft ?path d a) (take 100 (filter (\<lambda>(d, a). concerned d a) (pairs ds avs)))) es"
    using report_delivers [OF assms(1), of "[]" re w now ?path "pairs ds avs" s] by (auto simp: MAX_FINDINGS_PER_MANIFEST_def)
  moreover have "manifest_findings lm rootdir files avs manifest
      = map (\<lambda>(d, a). advisory_draft ?path d a) (take 100 (filter (\<lambda>(d, a). concerned d a) (pairs ds avs)))"
    unfolding manifest_findings_def assms(2) sum.case pairs_comprehension by (simp add: take_map)
  moreover have "rs_events (add_per_manifest nm v (limit_error re nm k (r\<lparr>rs_events := rs_events r @ es\<rparr>))) = rs_events r @ es" for nm v k
    by (simp add: add_per_manifest_def limit_error_def)
  ultimately show ?thesis
    using g parsed by (simp add: scan_manifest_def bindE_def returnE_def Let_def) blast
qed

lemma scan_all:
  assumes "able_tenant (cx_tenant cx)" and "\<And>m. m \<in> set ms \<Longrightarrow> \<exists>ds. declared lm rootdir files m = Inr ds"
  shows "\<exists>r' a' f' new i. scan_manifests re (create_event re w cx now) lm rootdir files avs ms (r, a, f) s
       = (Inr (r', a', f'), s\<lparr>ps_ids := i\<rparr>)
     \<and> rs_events r' = rs_events r @ new
     \<and> list_all2 (from_draft re (cx_tenant cx)) (concat (map (manifest_findings lm rootdir files avs) ms)) new"
  using assms(2)
proof (induction ms arbitrary: r a f s)
  case Nil
  show ?case by (auto simp: returnE_def intro!: exI [of _ "ps_ids s"])
next
  case (Cons m ms)
  obtain ds where "declared lm rootdir files m = Inr ds" using Cons.prems by auto
  from scan_one [OF assms(1) this, of re w now avs r a f s] obtain r1 a1 f1 new1 i where
    one: "scan_manifest re (create_event re w cx now) lm rootdir files avs m (r, a, f) s = (Inr (r1, a1, f1), s\<lparr>ps_ids := i\<rparr>)"
      "rs_events r1 = rs_events r @ new1"
      "list_all2 (from_draft re (cx_tenant cx)) (manifest_findings lm rootdir files avs m) new1" by blast
  from Cons.IH [of r1 a1 f1 "s\<lparr>ps_ids := i\<rparr>"] Cons.prems obtain r2 a2 f2 new2 j where
    rest: "scan_manifests re (create_event re w cx now) lm rootdir files avs ms (r1, a1, f1) (s\<lparr>ps_ids := i\<rparr>)
        = (Inr (r2, a2, f2), s\<lparr>ps_ids := j\<rparr>)"
      "rs_events r2 = rs_events r1 @ new2"
      "list_all2 (from_draft re (cx_tenant cx)) (concat (map (manifest_findings lm rootdir files avs) ms)) new2" by auto
  have "scan_manifests re (create_event re w cx now) lm rootdir files avs (m # ms) (r, a, f) s = (Inr (r2, a2, f2), s\<lparr>ps_ids := j\<rparr>)"
    by (simp add: bindE_def one(1) rest(1))
  with one rest show ?case by (auto intro!: exI [of _ "new1 @ new2"] list_all2_appendI)
qed

definition known_advisories :: "'a scan_disk_scheme \<Rightarrow> exn + advisory list" where
  "known_advisories out = (case ad_cache out of Some avs \<Rightarrow> Inr avs | None \<Rightarrow> load_advisories (ad_document out))"

text \<open>C37: Exactness of a scan: the events of a pass are, manifest after manifest in the order they are declared, those of the
  pairs of a declared dependency and an advisory on it, dependencies first in the order of the file and then advisories
  in the order of the snapshot, up to 100 of them for each manifest; a manifest that is missing or cannot be read gives
  none and stops no other.  An advisory is on a dependency when it has its package name, its ecosystem or none, and its
  range, an operator and a bound, holds of the version in the order of the keys of versions.\<close>

theorem scan_exact:
  assumes "able_tenant (cx_tenant cx)" and "known_advisories (ps_out s) = Inr avs"
    and "\<And>m. m \<in> set (ts_manifests (cx_scope cx)) \<Longrightarrow> \<exists>ds. declared lm (cs_root (cx_settings cx)) (dk_files (ps_out s)) m = Inr ds"
  shows "\<exists>r s'. scan_collect re w lm cx now s = (Inr r, s')
     \<and> list_all2 (from_draft re (cx_tenant cx))
         (concat (map (manifest_findings lm (cs_root (cx_settings cx)) (dk_files (ps_out s)) avs) (ts_manifests (cx_scope cx))))
         (rs_events r)"
proof (cases "ts_manifests (cx_scope cx) = []")
  case True
  then show ?thesis by (simp add: scan_collect_def returnE_def skip_run_def new_run_def)
next
  case False
  obtain s1 where s1: "cached_advisories s = (Inr avs, s1)" "dk_files (ps_out s1) = dk_files (ps_out s)"
    using assms(2) by (auto simp: known_advisories_def cached_advisories_def op_simps split: option.splits)
  show ?thesis
  proof (cases "avs = []")
    case True
    have "manifest_findings lm rootdir files [] m = []" for rootdir files m
      by (simp add: manifest_findings_def split: sum.splits)
    then have none: "concat (map (manifest_findings lm rootdir files []) ms) = []" for rootdir files ms by simp
    show ?thesis unfolding True none
      using False True s1 by (simp add: scan_collect_def bindE_def returnE_def readE_def new_run_def Let_def)
  next
    case some: False
    let ?run = "set_detail ''advisories_loaded'' (PInt (int (length avs)))
      (set_detail ''manifests'' (PList (map PStr (ts_manifests (cx_scope cx)))) (new_run ''dependency_scan'' now))"
    let ?found = "manifest_findings lm (cs_root (cx_settings cx)) (dk_files (ps_out s)) avs"
    have start: "rs_events ?run = []" by (simp add: new_run_def)
    obtain r a f i where "scan_manifests re (create_event re w cx now) lm (cs_root (cx_settings cx)) (dk_files (ps_out s)) avs
          (ts_manifests (cx_scope cx)) (?run, 0, 0) s1 = (Inr (r, a, f), s1\<lparr>ps_ids := i\<rparr>)"
        "list_all2 (from_draft re (cx_tenant cx)) (concat (map ?found (ts_manifests (cx_scope cx)))) (rs_events r)"
      using scan_all [OF assms(1,3), where r = ?run and a = 0 and f = 0 and s = s1 and avs = avs and now = now and re = re and w = w]
      unfolding start append_Nil by blast
    with False some s1 show ?thesis by (simp add: scan_collect_def bindE_def returnE_def readE_def Let_def)
  qed
qed

definition django_advisory :: advisory where
  "django_advisory =
     \<lparr>av_cve = ''CVE-0'', av_package = ''django'', av_ecosystem = ''pypi'', av_affected = ''<3.2.5'', av_fixed = ''3.2.5'', av_cvss = 9,
      av_severity = ''critical'', av_summary = [], av_references = []\<rparr>"

definition django_file :: disk_file where
  "django_file = boot_file (''Django==3.2'' @ [LF] @ ''flask==2.0'' @ [LF])"

definition django_context :: collector_context where
  "django_context = boot_context\<lparr>cx_scope :=
     (empty_scope ''acme'')\<lparr>ts_manifests := [''/srv/requirements.txt'', ''/srv/gone.txt'', ''/dev/requirements.txt'']\<rparr>\<rparr>"

definition django_disk :: scan_disk where
  "django_disk =
     \<lparr>dk_files = (\<lambda>p. if p \<in> {''/srv/requirements.txt'', ''/dev/requirements.txt''} then Some django_file else None), dk_tail = Tail_absent,
      ad_document = None, ad_path = ''/srv/advisories.json'',
      ad_cache = Some [django_advisory\<lparr>av_ecosystem := ''npm''\<rparr>, django_advisory]\<rparr>"

definition django_dependencies :: "declared_dependency list" where
  "django_dependencies =
     [\<lparr>dp_name = ''django'', dp_version = ''3.2'', dp_ecosystem = ''pypi'', dp_raw = ''Django==3.2''\<rparr>,
      \<lparr>dp_name = ''flask'', dp_version = ''2.0'', dp_ecosystem = ''pypi'', dp_raw = ''flask==2.0''\<rparr>]"

lemma django_declared: "parse_manifest ''requirements.txt'' (universal_newlines (df_text django_file)) = Inr django_dependencies"
  by code_simp

lemma django_in_range: "in_range ''<3.2.5'' ''3.2''"
  unfolding affects_in_range [of django_advisory, unfolded django_advisory_def advisory.simps, symmetric] by code_simp

theorem scan_exact_witness:
  "\<forall>w. \<exists>r s' a b. scan_collect (\<lambda>p r x. x) w boot_machine django_context 0 \<lparr>ps_ids = 0, ps_out = django_disk, ps_emitted = []\<rparr> = (Inr r, s')
      \<and> rs_events r = [a, b]
      \<and> from_draft (\<lambda>p r x. x) sample_tenant (advisory_draft ''/srv/requirements.txt'' (django_dependencies ! 0) django_advisory) a
      \<and> from_draft (\<lambda>p r x. x) sample_tenant (advisory_draft ''/dev/requirements.txt'' (django_dependencies ! 0) django_advisory) b"
proof
  fix w
  let ?s = "\<lparr>ps_ids = 0, ps_out = django_disk, ps_emitted = []\<rparr>"
  let ?avs = "[django_advisory\<lparr>av_ecosystem := ''npm''\<rparr>, django_advisory]"
  have able: "able_tenant (cx_tenant django_context)"
    unfolding able_tenant_def by (rule exI [of _ "''acme''"]) code_simp
  have known: "known_advisories (ps_out ?s) = Inr ?avs" by (simp add: known_advisories_def django_disk_def)
  have ms: "ts_manifests (cx_scope django_context) = [''/srv/requirements.txt'', ''/srv/gone.txt'', ''/dev/requirements.txt'']"
      "cs_root (cx_settings django_context) = ''/srv''" "cx_tenant django_context = sample_tenant"
    by (simp_all add: django_context_def boot_context_def)
  have names: "path_name ''/srv/requirements.txt'' = ''requirements.txt''" "path_name ''/dev/requirements.txt'' = ''requirements.txt''"
    by code_simp+
  have ds: "declared boot_machine ''/srv'' (dk_files django_disk) ''/srv/requirements.txt'' = Inr django_dependencies"
      "declared boot_machine ''/srv'' (dk_files django_disk) ''/dev/requirements.txt'' = Inr django_dependencies"
      "declared boot_machine ''/srv'' (dk_files django_disk) ''/srv/gone.txt'' = Inr []"
    using django_declared by (simp_all add: declared_def django_disk_def boot_machine_def names) (simp_all add: django_file_def boot_file_def)
  have low: "str_lower ''django'' = ''django''" "str_lower ''flask'' \<noteq> ''django''" by code_simp+
  have "vulnerable (django_dependencies ! 0) django_advisory" "\<not> vulnerable (django_dependencies ! 1) (django_advisory\<lparr>av_ecosystem := eco\<rparr>)"
      "\<not> vulnerable (django_dependencies ! 0) (django_advisory\<lparr>av_ecosystem := ''npm''\<rparr>)" for eco
    using django_in_range low by (simp_all add: vulnerable_def django_dependencies_def django_advisory_def)
  moreover have "\<not> vulnerable (django_dependencies ! 1) django_advisory" using low by (simp add: vulnerable_def django_dependencies_def django_advisory_def)
  moreover have boot_path: "lm_path boot_machine rootdir m = m" for rootdir m by (simp add: boot_machine_def)
  ultimately have found: "manifest_findings boot_machine ''/srv'' (dk_files django_disk) ?avs m
      = (if m = ''/srv/gone.txt'' then [] else [advisory_draft m (django_dependencies ! 0) django_advisory])"
    if "m \<in> {''/srv/requirements.txt'', ''/dev/requirements.txt'', ''/srv/gone.txt''}" for m
    using that ds by (auto simp: manifest_findings_def django_dependencies_def boot_path) 
  have parses: "\<exists>ds. declared boot_machine (cs_root (cx_settings django_context)) (dk_files (ps_out ?s)) m = Inr ds"
    if "m \<in> set (ts_manifests (cx_scope django_context))" for m
    using that ds by (auto simp: ms)
  obtain r s' where "scan_collect (\<lambda>p r x. x) w boot_machine django_context 0 ?s = (Inr r, s')"
      "list_all2 (from_draft (\<lambda>p r x. x) sample_tenant)
         [advisory_draft ''/srv/requirements.txt'' (django_dependencies ! 0) django_advisory,
          advisory_draft ''/dev/requirements.txt'' (django_dependencies ! 0) django_advisory] (rs_events r)"
    using scan_exact [OF able known parses, of "\<lambda>p r x. x" w 0] by (auto simp: ms found)
  then show "\<exists>r s' a b. scan_collect (\<lambda>p r x. x) w boot_machine django_context 0 ?s = (Inr r, s')
      \<and> rs_events r = [a, b]
      \<and> from_draft (\<lambda>p r x. x) sample_tenant (advisory_draft ''/srv/requirements.txt'' (django_dependencies ! 0) django_advisory) a
      \<and> from_draft (\<lambda>p r x. x) sample_tenant (advisory_draft ''/dev/requirements.txt'' (django_dependencies ! 0) django_advisory) b"
    by (auto simp: list_all2_Cons1)
qed

subsection \<open>Probes\<close>

text \<open>Without verification the certificate of the peer is empty (the documented answer of \<open>getpeercert\<close>).\<close>

theorem certificate_never_read:
  assumes "\<And>peer v c. nw_tls nw host port = Handshake peer v c \<Longrightarrow> peer = None"
  shows "\<exists>d. check_certificate nw now host port = [d] \<and> map_of (dr_labels d) ''check'' = Some (PStr ''tls_handshake_failed'')
     \<and> dr_hint d = Some High"
proof -
  have "ci_not_after (inspect_certificate nw now host port) = None"
    using assms by (cases "nw_tls nw host port")
      (auto simp: inspect_certificate_def Let_def no_cert_def empty_certificate_def parse_ssl_date_def opt_truthy_def)
  then show ?thesis by (simp add: check_certificate_def ci_ok_def tls_draft_def Let_def)
qed

lemma no_signature_of_nothing: "match_signature path [] = []"
proof -
  have "\<forall>x \<in> set SIGNATURES. \<forall>m \<in> set (snd x). str_lower m \<noteq> []"
    by (simp add: SIGNATURES_def str_lower_def)
  then have markers: "m \<in> set (snd x) \<Longrightarrow> x \<in> set SIGNATURES \<Longrightarrow> str_lower m \<noteq> []" for x m by blast
  show ?thesis
  proof (cases "find (\<lambda>(k, _). sublist k path) SIGNATURES")
    case (Some x)
    then have "x \<in> set SIGNATURES" by (auto simp: find_Some_iff intro: nth_mem)
    with markers [of _ x] have "filter (\<lambda>m. sublist (str_lower m) (str_lower [])) (snd x) = []"
      by (auto simp: filter_empty_conv str_lower_def)
    with Some show ?thesis by (simp add: match_signature_def split_beta)
  qed (simp add: match_signature_def)
qed

text \<open>\<open>urlopen\<close> raises for every status outside of 200-299, and an error carries no body.\<close>

theorem restricted_path_never_reported:
  assumes "\<And>u st hs body fin ms. nw_open nw u = Replied st hs body fin ms \<Longrightarrow> st < 300" and "d \<in> set (check_exposed_paths nw url host)"
  shows "map_of (dr_labels d) ''check'' = Some (PStr ''exposed_path'')"
proof -
  obtain p where p: "exposed_path nw url host p = Some d"
    using assms(2) by (auto simp: check_exposed_paths_def map_filter_def)
  obtain path sev why where pp: "p = (path, sev, why)" by (metis surj_pair)
  define r where "r = fetch nw (nw_join nw (slashed url) (dropWhile (\<lambda>c. c = CHR ''/'') path))"
  have "hr_status r = 200 \<or> match_signature path (hr_body r) = [] \<or> hr_status r \<notin> set [200, 301, 302, 401, 403]"
  proof (cases "nw_open nw (nw_join nw (slashed url) (dropWhile (\<lambda>c. c = CHR ''/'') path))")
    case (Replied st hs body fin ms)
    then have "st < 300" by (rule assms(1))
    with Replied show ?thesis by (cases "st = 200") (auto simp: r_def fetch_def blank_response_def no_signature_of_nothing)
  qed (simp_all add: r_def fetch_def blank_response_def no_signature_of_nothing)
  with p show ?thesis
    by (auto simp: pp exposed_path_def web_draft_def Let_def simp flip: r_def split: if_splits)
qed

theorem unconfirmed_path_reported:
  assumes "starts_any [''http://'', ''https://''] (str_lower (nw_join nw (slashed url) (dropWhile (\<lambda>c. c = CHR ''/'') path)))"
    and "nw_open nw (nw_join nw (slashed url) (dropWhile (\<lambda>c. c = CHR ''/'') path)) = Replied 200 hs body fin ms"
    and "match_signature path (take MAX_BODY_BYTES body) = []"
  shows "\<exists>d. exposed_path nw url host (path, sev, why) = Some d \<and> dr_hint d = Some sev
     \<and> map_of (dr_payload d) ''signature_match'' = Some (PList [])"
  using assms by (simp add: exposed_path_def fetch_def blank_response_def web_draft_def Let_def)

theorem subversion_never_confirmed: "match_signature ''/.svn/entries'' body = []"
proof -
  have "find (\<lambda>(k, _). sublist k ''/.svn/entries'') SIGNATURES = None" by code_simp
  then show ?thesis by (simp add: match_signature_def)
qed

theorem last_cookie_hides_the_others:
  "check_cookies url host ((blank_response url)\<lparr>hr_headers :=
     header_dict [(''Set-Cookie'', ''sid=1''), (''Set-Cookie'', ''theme=dark; Secure; HttpOnly; SameSite=Lax'')]\<rparr>) = []"
proof -
  have "header_dict [(''Set-Cookie'', ''sid=1''), (''Set-Cookie'', ''theme=dark; Secure; HttpOnly; SameSite=Lax'')]
      = [(''set-cookie'', ''theme=dark; Secure; HttpOnly; SameSite=Lax'')]" by code_simp
  moreover have "filter (\<lambda>(a, _). \<not> sublist a (str_lower ''theme=dark; Secure; HttpOnly; SameSite=Lax'')) COOKIE_ATTRIBUTES = []"
    by code_simp
  ultimately show ?thesis by (simp add: check_cookies_def)
qed

subsection \<open>Runs\<close>

text \<open>The status of a skipped run is refused by the table of runs, and the refusal is swallowed with the audit entry.\<close>

theorem skipped_run_leaves_no_trace:
  assumes "rs_status r = Run_skipped"
  shows "pp_store (rn_pipe (snd (record_run cfg tid name r n now s))) = pp_store (rn_pipe s)"
  using assms
  by (simp add: record_run_def op_simps on_pipe_def on_engine_def on_data_def on_store_def new_id_def record_collector_run_def)

subsection \<open>The scheduler\<close>

lemma due_update: "k' \<noteq> k \<Longrightarrow> due now k' i (AList.update k t offs) = due now k' i offs"
  by (simp add: due_def update_conv')

lemma still_due:
  assumes "distinct (map fst (p # ks))" and "\<And>k i. (k, i) \<in> set (p # ks) \<Longrightarrow> due now k i offs" and "(k', i') \<in> set ks"
  shows "due now k' i' (AList.update (fst p) now offs)"
proof -
  have "fst p \<notin> fst ` set ks" using assms(1) by simp
  moreover have "k' \<in> fst ` set ks" using assms(3) by (rule rev_image_eqI) simp
  ultimately have "k' \<noteq> fst p" by metis
  with assms(2,3) show ?thesis by (simp add: due_update)
qed

lemma tick_started:
  assumes "distinct (map fst ks)" and "\<And>k i. (k, i) \<in> set ks \<Longrightarrow> due now k i offs"
  shows "fst (tick now locked ks offs) = (if locked then [] else map fst ks)"
  using assms
proof (induction ks arbitrary: offs)
  case (Cons p ks)
  then have "fst (tick now locked ks (AList.update (fst p) now offs)) = (if locked then [] else map fst ks)"
    by (intro Cons.IH still_due [OF Cons.prems]) auto
  with Cons.prems(2) [of "fst p" "snd p"] show ?case by (cases p; cases locked) (simp_all add: split_beta)
qed simp

lemma tick_offsets:
  assumes "distinct (map fst ks)" and "\<And>k i. (k, i) \<in> set ks \<Longrightarrow> due now k i offs"
  shows "map_of (snd (tick now locked ks offs)) key = (if key \<in> fst ` set ks then Some now else map_of offs key)"
  using assms
proof (induction ks arbitrary: offs)
  case (Cons p ks)
  then have "map_of (snd (tick now locked ks (AList.update (fst p) now offs))) key
      = (if key \<in> fst ` set ks then Some now else map_of (AList.update (fst p) now offs) key)"
    by (intro Cons.IH still_due [OF Cons.prems]) auto
  with Cons.prems(2) [of "fst p" "snd p"] show ?case by (cases p) (simp add: split_beta update_conv')
qed simp

lemma first_offset: "map_of (first_offsets ks) k = Some t \<Longrightarrow> t \<le> 81"
  by (auto simp: first_offsets_def dest!: map_of_SomeD)

lemma first_offsets_keys: "map fst (first_offsets ks) = map fst ks"
proof -
  have "map fst (first_offsets ks) = map fst (map snd (enumerate 0 ks))"
    by (simp add: first_offsets_def comp_def split_beta del: map_snd_enumerate)
  then show ?thesis by simp
qed

text \<open>
  The first offsets are between 0 and 81 seconds, and are compared to the present time of day as if they were instants:
  the first tick of a service started since 1970 finds everything due, and every collector has the same offset from
  then on.
\<close>

theorem first_tick_starts_everything:
  assumes "distinct (map fst ks)" and "\<And>k i. (k, i) \<in> set ks \<Longrightarrow> 81 + of_int i \<le> now"
  shows "fst (tick now False ks (first_offsets ks)) = map fst ks
     \<and> (\<forall>k \<in> set (map fst ks). map_of (snd (tick now False ks (first_offsets ks))) k = Some now)"
proof -
  have "due now k i (first_offsets ks)" if "(k, i) \<in> set ks" for k i
  proof -
    have "k \<in> set (map fst (first_offsets ks))" using that first_offsets_keys [of ks] by force
    then obtain t where t: "map_of (first_offsets ks) k = Some t" by (metis map_of_eq_None_iff list.set_map not_Some_eq)
    then show ?thesis using first_offset [OF t] assms(2) [OF that] by (simp add: due_def)
  qed
  note tick_started [OF assms(1) this] tick_offsets [OF assms(1) this]
  then show ?thesis by (intro conjI ballI) simp_all
qed

theorem refused_start_is_not_deferred:
  assumes "distinct (map fst ks)" and "\<And>k i. (k, i) \<in> set ks \<Longrightarrow> due now k i offs"
  shows "fst (tick now True ks offs) = [] \<and> (\<forall>k \<in> set (map fst ks). map_of (snd (tick now True ks offs)) k = Some now)"
  by (intro conjI ballI) (simp_all add: tick_started [OF assms] tick_offsets [OF assms])

end
