(* ===== verification/Metrics.thy ===== *)
theory Metrics
  imports PyVal "HOL-Library.Product_Lexorder"
begin

section \<open>Metrics\<close>

text \<open>
  \<open>observability/metrics.py\<close>: counters, gauges and histograms kept by name and labels, and their text in the
  exposition format of Prometheus.  Floats are rationals, and \<open>format_g\<close> is the format \<open>g\<close> of a float.  The labels are
  keyword arguments, so their names are distinct.  Left out: the lock, and the clock of the timer of \<open>track\<close>, which
  calls \<open>observe\<close>.
\<close>

subsection \<open>Registry\<close>

type_synonym metric_labels = "(string \<times> string) list"
type_synonym metric_key = "string \<times> metric_labels"

definition DEFAULT_BUCKETS :: "rat list" where
  "DEFAULT_BUCKETS =
     [1 / 1000, 5 / 1000, 1 / 100, 25 / 1000, 5 / 100, 1 / 10, 25 / 100, 5 / 10, 1, 25 / 10, 5]"

record histogram =
  hg_bounds :: "rat list"
  hg_counts :: "int list"
  hg_sum :: rat
  hg_count :: int

record metrics =
  mt_counters :: "(metric_key \<times> rat) list"
  mt_gauges :: "(metric_key \<times> rat) list"
  mt_histograms :: "(metric_key \<times> histogram) list"
  mt_help :: "(string \<times> string) list"
  mt_types :: "(string \<times> string) list"

definition new_metrics :: metrics where
  "new_metrics = \<lparr>mt_counters = [], mt_gauges = [], mt_histograms = [], mt_help = [], mt_types = []\<rparr>"

definition label_key :: "metric_labels \<Rightarrow> metric_labels" where
  "label_key ls = sort ls"

definition describe :: "string \<Rightarrow> string \<Rightarrow> string \<Rightarrow> metrics \<Rightarrow> metrics" where
  "describe name help_text kind m =
     m\<lparr>mt_help := AList.update name help_text (mt_help m), mt_types := AList.update name kind (mt_types m)\<rparr>"

definition default_type :: "string \<Rightarrow> string \<Rightarrow> metrics \<Rightarrow> metrics" where
  "default_type name kind m =
     (if map_of (mt_types m) name = None then m\<lparr>mt_types := AList.update name kind (mt_types m)\<rparr> else m)"

definition counted :: "metrics \<Rightarrow> metric_key \<Rightarrow> rat" where
  "counted m k = (case map_of (mt_counters m) k of None \<Rightarrow> 0 | Some v \<Rightarrow> v)"

definition inc_metric :: "string \<Rightarrow> rat \<Rightarrow> metric_labels \<Rightarrow> metrics \<Rightarrow> metrics" where
  "inc_metric name v ls m =
     (let k = (name, label_key ls)
      in default_type name ''counter'' (m\<lparr>mt_counters := AList.update k (counted m k + v) (mt_counters m)\<rparr>))"

definition set_metric :: "string \<Rightarrow> rat \<Rightarrow> metric_labels \<Rightarrow> metrics \<Rightarrow> metrics" where
  "set_metric name v ls m =
     default_type name ''gauge'' (m\<lparr>mt_gauges := AList.update (name, label_key ls) v (mt_gauges m)\<rparr>)"

definition add_observation :: "rat \<Rightarrow> histogram \<Rightarrow> histogram" where
  "add_observation v h =
     h\<lparr>hg_sum := hg_sum h + v, hg_count := hg_count h + 1,
       hg_counts := map2 (\<lambda>b n. if v \<le> b then n + 1 else n) (hg_bounds h) (hg_counts h)\<rparr>"

definition observe_metric :: "string \<Rightarrow> rat \<Rightarrow> rat list option \<Rightarrow> metric_labels \<Rightarrow> metrics \<Rightarrow> metrics" where
  "observe_metric name v buckets ls m =
     (let k = (name, label_key ls);
          bounds = (case buckets of Some bs \<Rightarrow> if bs = [] then DEFAULT_BUCKETS else bs | None \<Rightarrow> DEFAULT_BUCKETS);
          blank = \<lparr>hg_bounds = bounds, hg_counts = replicate (length bounds) 0, hg_sum = 0, hg_count = 0\<rparr>
      in case map_of (mt_histograms m) k of
           None \<Rightarrow>
             default_type name ''histogram'' (m\<lparr>mt_histograms := AList.update k (add_observation v blank) (mt_histograms m)\<rparr>)
         | Some h \<Rightarrow> m\<lparr>mt_histograms := AList.update k (add_observation v h) (mt_histograms m)\<rparr>)"

definition counter_value :: "string \<Rightarrow> metric_labels \<Rightarrow> metrics \<Rightarrow> rat" where
  "counter_value name ls m = counted m (name, label_key ls)"

definition gauge_value :: "string \<Rightarrow> metric_labels \<Rightarrow> metrics \<Rightarrow> rat option" where
  "gauge_value name ls m = map_of (mt_gauges m) (name, label_key ls)"

text \<open>
  \<open>snapshot\<close> calls \<open>_label_key\<close> on the stored key, which is a tuple: an empty one is false and gives \<open>()\<close>, another has no
  \<open>items\<close>.
\<close>

definition snapshot_name :: "metric_key \<Rightarrow> unit + string" where
  "snapshot_name k = (if snd k = [] then Inr (fst k @ ''()'') else Inl ())"

definition snapshot_part :: "(metric_key \<times> 'v) list \<Rightarrow> unit + (string \<times> 'v) list" where
  "snapshot_part es =
     (if list_ex (\<lambda>(k, _). snapshot_name k = Inl ()) es then Inl ()
      else Inr (map (\<lambda>(k, v). (fst k @ ''()'', v)) es))"

subsection \<open>Text\<close>

text \<open>The decimal exponent of a positive number, and its six significant digits.\<close>

definition exponent10 :: "rat \<Rightarrow> int" where
  "exponent10 x = (if 1 \<le> x then int (length (dec_str \<lfloor>x\<rfloor>)) - 1 else - int (length (dec_str (\<lceil>1 / x\<rceil> - 1))))"

definition significant :: "rat \<Rightarrow> int \<times> int" where
  "significant x =
     (let e = exponent10 x;
          m = round_half_even (if e \<le> 5 then x * 10 ^ nat (5 - e) else x / 10 ^ nat (e - 5))
      in if m = 1000000 then (100000, e + 1) else (m, e))"

definition drop_zeros :: "string \<Rightarrow> string" where
  "drop_zeros s = rev (dropWhile (\<lambda>c. c = CHR ''0'') (rev s))"

definition pointed :: "string \<Rightarrow> string \<Rightarrow> string" where
  "pointed whole tail = (if drop_zeros tail = [] then whole else whole @ ''.'' @ drop_zeros tail)"

definition format_g :: "rat \<Rightarrow> string" where
  "format_g x =
     (if x = 0 then ''0''
      else case significant \<bar>x\<bar> of (m, e) \<Rightarrow>
        let ds = dec_str m;
            body = (if e < -4 \<or> 6 \<le> e
                    then pointed (take 1 ds) (drop 1 ds) @ ''e'' @ (if e < 0 then ''-'' else ''+'') @ pad_left 2 (CHR ''0'') (dec_str \<bar>e\<bar>)
                    else if 0 \<le> e then pointed (take (nat e + 1) ds) (drop (nat e + 1) ds)
                    else pointed ''0'' (replicate (nat (- e - 1)) (CHR ''0'') @ ds))
        in (if x < 0 then ''-'' else []) @ body)"

definition escape_char :: "char \<Rightarrow> string" where
  "escape_char c =
     (if c = CHR 0x5C then [CHR 0x5C, CHR 0x5C] else if c = CHR 0x22 then [CHR 0x5C, CHR 0x22]
      else if c = CHR 0x0A then '' '' else [c])"

definition escape_label :: "string \<Rightarrow> string" where
  "escape_label s = concat (map escape_char s)"

definition label_text :: "string \<times> string \<Rightarrow> string" where
  "label_text kv = fst kv @ ''='' @ [CHR 0x22] @ escape_label (snd kv) @ [CHR 0x22]"

definition format_labels :: "metric_labels \<Rightarrow> metric_labels \<Rightarrow> string" where
  "format_labels ls extra =
     (let items = ls @ sort extra
      in if items = [] then [] else ''{'' @ join_with '','' (map label_text items) @ ''}'')"

definition header_lines :: "metrics \<Rightarrow> string \<Rightarrow> string list" where
  "header_lines m name =
     [''# HELP '' @ name @ '' '' @ (case map_of (mt_help m) name of Some h \<Rightarrow> h | None \<Rightarrow> replace_char (CHR ''_'') '' '' name),
      ''# TYPE '' @ name @ '' '' @ (case map_of (mt_types m) name of Some t \<Rightarrow> t | None \<Rightarrow> ''gauge'')]"

fun emit_lines :: "metrics \<Rightarrow> (metric_key \<times> string list) list \<Rightarrow> string list \<Rightarrow> string list" where
  "emit_lines m [] emitted = []"
| "emit_lines m ((k, ls) # es) emitted =
     (if fst k \<in> set emitted then ls @ emit_lines m es emitted
      else header_lines m (fst k) @ ls @ emit_lines m es (fst k # emitted))"

definition value_line :: "metric_key \<Rightarrow> rat \<Rightarrow> string" where
  "value_line k v = fst k @ format_labels (snd k) [] @ '' '' @ format_g v"

definition histogram_lines :: "metric_key \<Rightarrow> histogram \<Rightarrow> string list" where
  "histogram_lines k h =
     map (\<lambda>(b, n). fst k @ ''_bucket'' @ format_labels (snd k) [(''le'', float_repr b)] @ '' '' @ int_str n)
       (zip (hg_bounds h) (hg_counts h))
     @ [fst k @ ''_bucket'' @ format_labels (snd k) [(''le'', ''+Inf'')] @ '' '' @ int_str (hg_count h),
        fst k @ ''_sum'' @ format_labels (snd k) [] @ '' '' @ format_g (hg_sum h),
        fst k @ ''_count'' @ format_labels (snd k) [] @ '' '' @ int_str (hg_count h)]"

definition entries :: "(metric_key \<Rightarrow> 'v \<Rightarrow> string list) \<Rightarrow> (metric_key \<times> 'v) list \<Rightarrow> (metric_key \<times> string list) list" where
  "entries f es = map (\<lambda>(k, v). (k, f k v)) (sort_key fst es)"

definition render_text :: "metrics \<Rightarrow> string" where
  "render_text m =
     join_with [CHR 0x0A]
       (emit_lines m
         (entries (\<lambda>k v. [value_line k v]) (mt_counters m) @ entries (\<lambda>k v. [value_line k v]) (mt_gauges m)
          @ entries histogram_lines (mt_histograms m)) [])
     @ [CHR 0x0A]"

text \<open>The functions registered for a scrape; one that raises does not stop the others.\<close>

fun run_refreshers :: "(metrics, 'e, unit) op list \<Rightarrow> (metrics, 'e, unit) op" where
  "run_refreshers [] = returnE ()"
| "run_refreshers (c # cs) = bindE (catchE c (\<lambda>_. returnE ())) (\<lambda>_. run_refreshers cs)"

definition render :: "(metrics, 'e, unit) op list \<Rightarrow> (metrics, 'e, string) op" where
  "render cs = bindE (run_refreshers cs) (\<lambda>_. readE render_text)"

subsection \<open>Catalogue\<close>

definition METRICS_CATALOG :: "(string \<times> string) list" where
  "METRICS_CATALOG =
     [(''thotsecure_events_ingested_total'', ''Nombre total d'' @ [CHR 0x27] @ ''evenements acceptes par tenant.''),
      (''thotsecure_events_rejected_total'', ''Nombre d'' @ [CHR 0x27] @ ''evenements refuses (tenant inconnu, lot trop grand).''),
      (''thotsecure_findings_total'', ''Findings crees, par severite.''),
      (''thotsecure_findings_open'', ''Findings actuellement ouverts.''),
      (''thotsecure_rule_eval_seconds'', ''Duree d'' @ [CHR 0x27] @ ''evaluation d'' @ [CHR 0x27] @ ''un evenement par le moteur de regles.''),
      (''thotsecure_pipeline_processed_total'', ''Evenements traversant le pipeline complet.''),
      (''thotsecure_pipeline_errors_total'', ''Erreurs de traitement du pipeline.''),
      (''thotsecure_actions_total'', ''Actions par statut et par playbook.''),
      (''thotsecure_actions_auto_total'', ''Actions declenchees sans approbation humaine.''),
      (''thotsecure_actions_pending_approval'', ''Actions en attente d'' @ [CHR 0x27] @ ''approbation.''),
      (''thotsecure_rollbacks_total'', ''Rollbacks executes.''),
      (''thotsecure_decisions_total'', ''Decisions par type (auto, require_approval, notify_only, ignore).''),
      (''thotsecure_audit_records_total'', ''Enregistrements du journal d'' @ [CHR 0x27] @ ''audit.''),
      (''thotsecure_audit_chain_valid'', ''1 si la chaine d'' @ [CHR 0x27] @ ''audit est integre, 0 sinon (alerte critique).''),
      (''thotsecure_dry_run'', ''1 si le mode simulation est actif (valeur attendue en production supervisee).''),
      (''thotsecure_api_requests_total'', ''Requetes HTTP par route et par code de statut.''),
      (''thotsecure_api_request_seconds'', ''Latence des requetes HTTP.''),
      (''thotsecure_ws_clients'', ''Clients WebSocket connectes.''),
      (''thotsecure_collector_runs_total'', ''Executions de collecteurs, par collecteur et statut.''),
      (''thotsecure_collector_errors_total'', ''Erreurs de collecte.''),
      (''thotsecure_bus_dropped_total'', ''Evenements ecartes par le bus (file pleine).''),
      (''thotsecure_bus_published_total'', ''Evenements publies sur le bus.''),
      (''thotsecure_http_probe_requests_total'', ''Requetes emises par l'' @ [CHR 0x27] @ ''audit de surface.''),
      (''thotsecure_up'', ''1 si le service repond (toujours 1 sur une reponse reussie).''),
      (''thotsecure_start_time_seconds'', ''Horodatage Unix de demarrage du service.'')]"

definition catalog_type :: "string \<Rightarrow> string" where
  "catalog_type name =
     (if suffix ''_seconds'' name \<and> \<not> suffix ''_start_time_seconds'' name then ''histogram''
      else if suffix ''_total'' name then ''counter'' else ''gauge'')"

definition register_catalog :: "metrics \<Rightarrow> metrics" where
  "register_catalog m = fold (\<lambda>(n, h). describe n h (catalog_type n)) METRICS_CATALOG m"

end
