(* ===== verification/Config.thy ===== *)
theory Config
  imports Auth Scope
begin

section \<open>Configuration\<close>

text \<open>
  \<open>core/config.py\<close>: the validation of the settings, the choice of the signing key, the place of the database and the
  warnings shown at the start.  A settings record holds the fields these read, after the conversion of each variable
  to its type.  A \<open>ValueError\<close> of a field is collected in a validation error; a \<open>ConfigError\<close> is none of its kind and
  escapes at once.  The signing key lives in a file that may be read or written or not; \<open>resolve\<close> and \<open>home\<close> stand for
  \<open>Path.resolve\<close> and \<open>Path.expanduser\<close>.
\<close>

subsection \<open>Fields\<close>

record service_settings =
  sx_env :: string
  sx_instance :: string
  sx_port :: int
  sx_secret_key :: string
  sx_key_source :: string
  sx_bootstrap :: string
  sx_db_url :: string
  sx_db_sslmode :: string
  sx_db_pool :: int
  sx_bus :: string
  sx_nats_url :: string
  sx_autonomy :: string
  sx_dry_run :: bool
  sx_require_targets :: bool
  sx_threshold :: rat
  sx_collectors :: bool
  sx_rate_limit :: int
  sx_max_batch :: int
  sx_log_level :: string
  sx_retention :: int
  sx_tls :: bool
  sx_tls_cert :: "string option"
  sx_tls_key :: "string option"

definition default_settings :: service_settings where
  "default_settings =
     \<lparr>sx_env = ''dev'', sx_instance = ''thotsecure'', sx_port = 8080, sx_secret_key = [], sx_key_source = ''ephemeral'',
      sx_bootstrap = DEV_BOOTSTRAP_KEY, sx_db_url = ''sqlite:///./data/thotsecure.db'', sx_db_sslmode = [], sx_db_pool = 8,
      sx_bus = ''memory'', sx_nats_url = ''nats://127.0.0.1:4222'', sx_autonomy = ''supervised'', sx_dry_run = True,
      sx_require_targets = True, sx_threshold = 85, sx_collectors = False, sx_rate_limit = 600, sx_max_batch = 500,
      sx_log_level = ''INFO'', sx_retention = 30, sx_tls = False, sx_tls_cert = None, sx_tls_key = None\<rparr>"

definition config_error :: "string \<Rightarrow> exn" where
  "config_error why = Err ConfigError why []"

text \<open>What a field validator does of a value: keep it, refuse it, or raise.\<close>

datatype field_check = Kept | Refused string | Stops exn

definition log_level_check :: "string \<Rightarrow> field_check" where
  "log_level_check v =
     (if str_upper v \<in> set [''DEBUG'', ''INFO'', ''WARNING'', ''ERROR'', ''CRITICAL''] then Kept
      else Refused (''niveau de log invalide: '' @ v))"

definition port_check :: "int \<Rightarrow> field_check" where
  "port_check v = (if 1 \<le> v \<and> v \<le> 65535 then Kept else Refused ''port hors bornes (1-65535)'')"

text \<open>\<open>s.partition(sep)\<close>.\<close>

fun partition_at :: "string \<Rightarrow> string \<Rightarrow> string \<times> string" where
  "partition_at sep [] = ([], [])"
| "partition_at sep (c # cs) =
     (if prefix sep (c # cs) then ([], drop (length sep) (c # cs))
      else (case partition_at sep cs of (a, b) \<Rightarrow> (c # a, b)))"

definition db_url_check :: "string \<Rightarrow> field_check" where
  "db_url_check v =
     (case partition_at ''://'' v of (scheme, rest) \<Rightarrow>
        if scheme = ''sqlite'' then Kept
        else (case partition_at ''+'' scheme of (base, driver) \<Rightarrow>
          if base \<in> set [''postgresql'', ''postgres'']
          then if driver \<in> set [[], ''psycopg'', ''psycopg2''] then Kept
               else Refused (''THOT_DB_URL : pilote PostgreSQL '' @ quote driver @ '' non supporte (adaptateur synchrone) ; utilisez ''
                 @ quote ''postgresql://'' @ '', '' @ quote ''postgresql+psycopg://'' @ '' ou '' @ quote ''postgresql+psycopg2://'')
          else Refused (''THOT_DB_URL doit commencer par '' @ quote ''sqlite://'' @ '' (defaut, aucune dependance) ou ''
                 @ quote ''postgresql://'' @ '' (backend PostgreSQL/TimescaleDB, extra '' @ quote ''postgres'' @ '')''
                 @ (if rest = [] then [] else '' - recu : '' @ quote (take 24 rest)))))"

definition BOOTSTRAP_FORMAT :: string where
  "BOOTSTRAP_FORMAT =
     ''THOT_BOOTSTRAP_API_KEY doit etre au format '' @ quote ''thot_<identifiant>_<secret>''
     @ '' (exactement deux caracteres de soulignement), p. ex. '' @ quote ''thot_BOOTSTRAP_unSecretDeSeizeCaracteres''"

definition bootstrap_check :: "string \<Rightarrow> field_check" where
  "bootstrap_check v =
     (case split_on (CHR ''_'') v of
        [p, _, secret] \<Rightarrow>
          if p \<noteq> ''thot'' then Stops (config_error BOOTSTRAP_FORMAT)
          else if length secret < 16
            then Stops (config_error (''THOT_BOOTSTRAP_API_KEY : le secret doit faire au moins 16 caracteres ''
                   @ ''(contrainte du format de cle API)''))
            else Kept
      | _ \<Rightarrow> Stops (config_error BOOTSTRAP_FORMAT))"

definition sslmode_check :: "string \<Rightarrow> field_check" where
  "sslmode_check v =
     (if v \<in> set [[], ''disable'', ''allow'', ''prefer'', ''require'', ''verify-ca'', ''verify-full''] then Kept
      else Refused (''THOT_DB_SSLMODE doit etre vide (choix automatique) ou l'' @ [CHR 0x27]
             @ ''une de : disable, allow, prefer, require, verify-ca, verify-full''))"

definition pool_check :: "int \<Rightarrow> field_check" where
  "pool_check v = (if v \<le> 0 then Refused ''THOT_DB_POOL_MAX_SIZE doit etre strictement positif'' else Kept)"

definition nats_check :: "string \<Rightarrow> field_check" where
  "nats_check v =
     (if v \<noteq> [] \<and> \<not> prefix ''nats://'' v \<and> \<not> prefix ''tls://'' v
      then Refused (''THOT_NATS_URL doit commencer par '' @ quote ''nats://'' @ '' ou '' @ quote ''tls://'') else Kept)"

definition positive_check :: "int \<Rightarrow> field_check" where
  "positive_check v = (if v \<le> 0 then Refused ''la valeur doit etre strictement positive'' else Kept)"

text \<open>The validators in the order of the fields.\<close>

definition field_checks :: "service_settings \<Rightarrow> field_check list" where
  "field_checks s =
     [port_check (sx_port s), bootstrap_check (sx_bootstrap s), db_url_check (sx_db_url s), sslmode_check (sx_db_sslmode s),
      pool_check (sx_db_pool s), nats_check (sx_nats_url s), positive_check (sx_rate_limit s),
      positive_check (sx_max_batch s), log_level_check (sx_log_level s), positive_check (sx_retention s)]"

fun collect_checks :: "field_check list \<Rightarrow> exn + string list" where
  "collect_checks [] = Inr []"
| "collect_checks (Kept # cs) = collect_checks cs"
| "collect_checks (Refused why # cs) = (case collect_checks cs of Inl e \<Rightarrow> Inl e | Inr ws \<Rightarrow> Inr (why # ws))"
| "collect_checks (Stops e # cs) = Inl e"

definition validate_fields :: "service_settings \<Rightarrow> exn + service_settings" where
  "validate_fields s =
     (case collect_checks (field_checks s) of
        Inl e \<Rightarrow> Inl e
      | Inr [] \<Rightarrow> Inr (s\<lparr>sx_log_level := str_upper (sx_log_level s)\<rparr>)
      | Inr ws \<Rightarrow> Inl (Foreign ''ValidationError'' (join_with [CHR 0x0A] ws)))"

subsection \<open>The signing key\<close>

record key_disk =
  kd_text :: "string option"
  kd_reads :: bool
  kd_writes :: bool

text \<open>\<open>_resolve_secret_key\<close>; \<open>fresh\<close> gives the successive random texts.\<close>

definition resolve_secret_key :: "(nat \<Rightarrow> string) \<Rightarrow> service_settings \<Rightarrow> key_disk \<Rightarrow> service_settings \<times> key_disk" where
  "resolve_secret_key fresh s d =
     (let stored = str_strip (case kd_text d of None \<Rightarrow> [] | Some k \<Rightarrow> k)
      in if sx_secret_key s \<noteq> [] then (s\<lparr>sx_key_source := ''env''\<rparr>, d)
         else if kd_text d \<noteq> None \<and> \<not> kd_reads d then (s\<lparr>sx_secret_key := fresh 0, sx_key_source := ''ephemeral''\<rparr>, d)
         else if stored \<noteq> [] then (s\<lparr>sx_secret_key := stored, sx_key_source := ''file''\<rparr>, d)
         else if kd_writes d then (s\<lparr>sx_secret_key := fresh 0, sx_key_source := ''file''\<rparr>, d\<lparr>kd_text := Some (fresh 0)\<rparr>)
         else (s\<lparr>sx_secret_key := fresh 1, sx_key_source := ''ephemeral''\<rparr>, d))"

definition coherent :: "service_settings \<Rightarrow> exn + unit" where
  "coherent s =
     (if sx_env s = ''prod'' \<and> sx_bootstrap s = DEV_BOOTSTRAP_KEY
      then Inl (config_error (''En production, THOT_BOOTSTRAP_API_KEY doit etre remplacee : la cle de developpement est publique ''
             @ ''et donc compromise.''))
      else if sx_env s = ''prod'' \<and> sx_tls s \<and> \<not> (opt_truthy (sx_tls_cert s) \<and> opt_truthy (sx_tls_key s))
      then Inl (config_error ''THOT_TLS_ENABLED=true exige THOT_TLS_CERT_FILE et THOT_TLS_KEY_FILE.'')
      else if sx_bus s = ''nats'' \<and> sx_nats_url s = [] then Inl (config_error ''THOT_BUS=nats exige THOT_NATS_URL.'')
      else if sx_threshold s \<le> 0 \<or> 100 < sx_threshold s
      then Inl (config_error ''THOT_CRITICAL_SCORE_THRESHOLD doit etre dans ]0, 100].'')
      else Inr ())"

text \<open>\<open>Settings(...)\<close>: the field validators, then the validator of the model.\<close>

definition load_settings :: "(nat \<Rightarrow> string) \<Rightarrow> service_settings \<Rightarrow> key_disk \<Rightarrow> (exn + service_settings) \<times> key_disk" where
  "load_settings fresh s d =
     (case validate_fields s of
        Inl e \<Rightarrow> (Inl e, d)
      | Inr v \<Rightarrow>
          (case coherent v of
             Inl e \<Rightarrow> (Inl e, d)
           | Inr _ \<Rightarrow> (case resolve_secret_key fresh v d of (v', d') \<Rightarrow> (Inr v', d'))))"

text \<open>\<open>get_settings(**overrides)\<close>: the present settings are dumped, changed and loaded again.\<close>

definition overridden ::
    "(nat \<Rightarrow> string) \<Rightarrow> (service_settings \<Rightarrow> service_settings) \<Rightarrow> service_settings \<Rightarrow> key_disk \<Rightarrow> (exn + service_settings) \<times> key_disk" where
  "overridden fresh change base d = load_settings fresh (change base) d"

subsection \<open>Paths\<close>

definition resolve_path :: "(string \<Rightarrow> string) \<Rightarrow> (string \<Rightarrow> string) \<Rightarrow> string \<Rightarrow> string \<Rightarrow> string" where
  "resolve_path resolve home rootdir v =
     (let p = home v in resolve (if prefix ''/'' p then p else rootdir @ ''/'' @ p))"

definition db_path :: "(string \<Rightarrow> string) \<Rightarrow> (string \<Rightarrow> string) \<Rightarrow> string \<Rightarrow> service_settings \<Rightarrow> exn + string" where
  "db_path resolve home rootdir s =
     (if \<not> prefix ''sqlite://'' (sx_db_url s)
      then Inl (config_error (''THOT_DB_URL n'' @ [CHR 0x27] @ ''est pas SQLite : utilisez store_location(store) pour decrire l''
             @ [CHR 0x27] @ ''emplacement reel du magasin.''))
      else
        let raw = drop (length ''sqlite://'') (sx_db_url s)
        in Inr (if prefix ''//'' raw then resolve (home (drop 1 raw))
                else resolve (rootdir @ ''/'' @ dropWhile (\<lambda>c. c = CHR ''/'') raw)))"

subsection \<open>Warnings\<close>

definition key_is_ephemeral :: "service_settings \<Rightarrow> bool" where
  "key_is_ephemeral s \<longleftrightarrow> sx_key_source s = ''ephemeral''"

definition bootstrap_key_is_dev :: "service_settings \<Rightarrow> bool" where
  "bootstrap_key_is_dev s \<longleftrightarrow> sx_bootstrap s = DEV_BOOTSTRAP_KEY"

definition warning :: "bool \<Rightarrow> string \<Rightarrow> string list" where
  "warning shown why = (if shown then [why] else [])"

definition safety_warnings :: "string \<Rightarrow> service_settings \<Rightarrow> string list" where
  "safety_warnings key_file s =
     warning (\<not> sx_dry_run s)
       (''THOT_DRY_RUN=false : les contre-mesures ont un EFFET REEL. Verifiez vos playbooks, vos cibles declarees et ''
        @ ''votre capacite de rollback.'')
     @ warning (sx_autonomy s = ''auto'')
       (''THOT_AUTONOMY=auto : des actions peuvent etre executees sans approbation humaine. Chaque action reste ''
        @ ''reversible et auditee.'')
     @ (if key_is_ephemeral s
        then [''THOT_SECRET_KEY n'' @ [CHR 0x27] @ ''est pas definie et aucune cle n'' @ [CHR 0x27] @ ''a pu etre persistee ('' @ key_file
              @ '') : une cle ephemere a ete generee. Les cles API et les sessions ne seront pas partagees entre processus et ''
              @ ''seront invalidees au redemarrage. Definissez THOT_SECRET_KEY.'']
        else warning (sx_key_source s = ''file'')
          (''Cle de signature persistee dans '' @ key_file @ '' (permissions 0600). Pour un deploiement multi-noeuds ou un ''
           @ ''conteneur sans volume persistant, definissez THOT_SECRET_KEY explicitement.''))
     @ warning (bootstrap_key_is_dev s)
       (''THOT_BOOTSTRAP_API_KEY utilise la valeur de developpement publique. Creez une cle dediee puis supprimez ''
        @ ''celle-ci.'')
     @ warning (key_is_ephemeral s \<and> sx_env s \<noteq> ''dev'')
       (''En environnement non-dev, definir THOT_SECRET_KEY est obligatoire pour la stabilite de l'' @ [CHR 0x27]
        @ ''authentification.'')
     @ warning (sx_bus s = ''memory'')
       (''THOT_BUS=memory : les evenements en cours de traitement sont perdus au redemarrage. Utilisez '' @ quote ''sqlite''
        @ '' ou '' @ quote ''nats'' @ '' en production.'')
     @ warning (\<not> sx_require_targets s)
       (''THOT_REQUIRE_TARGET_DECLARATION=false : les actions ne sont plus limitees a votre perimetre declare. ''
        @ ''Fortement deconseille.'')"

definition public_summary :: "string \<Rightarrow> service_settings \<Rightarrow> dict" where
  "public_summary key_file s =
     [(''env'', PStr (sx_env s)), (''instance'', PStr (sx_instance s)), (''autonomy'', PStr (sx_autonomy s)),
      (''dry_run'', PBool (sx_dry_run s)), (''bus'', PStr (sx_bus s)), (''collectors_enabled'', PBool (sx_collectors s)),
      (''retention_days'', PInt (sx_retention s)), (''tls_enabled'', PBool (sx_tls s)),
      (''require_target_declaration'', PBool (sx_require_targets s)),
      (''unsafe_defaults'', PList (map PStr (safety_warnings key_file s)))]"

end
