(* ===== verification/Service.thy ===== *)
theory Service
  imports Api Bus Metrics Config
begin

section \<open>The service\<close>

text \<open>
  \<open>service.py\<close>: the container of the components, the reloading of what they are configured with, a pass of
  maintenance, the gauges refreshed at each scrape, and the entries of the journal at the start and at the end.  The
  settings the engines read (\<open>ae_settings\<close>) are those of the configuration.  A reload is given the files it finds and the
  documents they hold.  Left out: the tasks of the event loop, which call these operations, and the views that join
  the statistics of the components.
\<close>

subsection \<open>State\<close>

record service =
  sv_settings :: service_settings
  sv_config :: api_config
  sv_state :: api_state
  sv_playbook_diagnostics :: "rule_diagnostic list"
  sv_collector_targets :: target_registry
  sv_metrics :: metrics
  sv_bus :: bus
  sv_bus_name :: string
  sv_started :: time
  sv_last_purge :: "time option"

record service_files =
  fs_playbook_schema :: playbook_schema
  fs_playbooks :: "rule_file list option"
  fs_connectors :: "pyval option"
  fs_targets :: "pyval option"
  fs_playbooks_path :: string
  fs_connectors_path :: string
  fs_targets_path :: string

type_synonym 'a service_op = "(service, exn, 'a) op"

abbreviation sv_store :: "service \<Rightarrow> store" where
  "sv_store s \<equiv> as_store (sv_state s)"

definition on_api :: "'a api_op \<Rightarrow> 'a service_op" where
  "on_api m s = (case m (sv_state s) of (r, a) \<Rightarrow> (r, s\<lparr>sv_state := a\<rparr>))"

definition on_service_engine :: "'a engine_op \<Rightarrow> 'a service_op" where
  "on_service_engine m = on_api (on_pipe (on_engine m))"

text \<open>The configuration of the action engine inside that of the pipeline.\<close>

definition with_actions :: "(action_engine \<Rightarrow> action_engine) \<Rightarrow> api_config \<Rightarrow> api_config" where
  "with_actions f cfg = cfg\<lparr>ap_pipe := (ap_pipe cfg)\<lparr>pg_actions := f (pg_actions (ap_pipe cfg))\<rparr>\<rparr>"

definition with_registry :: "target_registry \<Rightarrow> api_state \<Rightarrow> api_state" where
  "with_registry r a =
     a\<lparr>as_pipe := (as_pipe a)\<lparr>pp_decision := (pp_decision (as_pipe a))\<lparr>de_registry := r\<rparr>\<rparr>\<rparr>"

definition with_connectors :: "connector_registry \<Rightarrow> engine_state \<Rightarrow> engine_state" where
  "with_connectors g e = e\<lparr>en_exec := (en_exec e)\<lparr>ex_registry := g\<rparr>\<rparr>"

subsection \<open>Reloading\<close>

definition service_reload_playbooks :: "service_files \<Rightarrow> api_call \<Rightarrow> (int \<times> rule_diagnostic list) service_op" where
  "service_reload_playbooks fs c s =
     (case load_playbooks_from_dir (ap_yaml (sv_config s)) (fs_playbook_schema fs) None (fs_playbooks_path fs) (fs_playbooks fs) of
        (playbooks, diags) \<Rightarrow>
          let s1 = s\<lparr>sv_playbook_diagnostics := diags,
                     sv_config := with_actions (\<lambda>e. e\<lparr>ae_playbooks := playbooks\<rparr>) (sv_config s)\<rparr>
          in bindE (on_api (service_reload_policies (sv_config s1) c)) (\<lambda>_. returnE (int (length playbooks), diags)) s1)"

definition service_reload_connectors :: "service_files \<Rightarrow> connector_registry service_op" where
  "service_reload_connectors fs s =
     (case registry_from_file (fs_connectors_path fs) (fs_connectors fs) (sx_dry_run (sv_settings s)) None of
        Inl e \<Rightarrow> raiseE e s
      | Inr g \<Rightarrow> bindE (on_service_engine (writeE (with_connectors g))) (\<lambda>_. returnE g) s)"

definition service_reload_targets :: "service_files \<Rightarrow> target_registry service_op" where
  "service_reload_targets fs =
     (case from_file (fs_targets_path fs) (fs_targets fs) of
        Inl e \<Rightarrow> raiseE e
      | Inr r \<Rightarrow>
          bindE (writeE (\<lambda>s. s\<lparr>sv_state := with_registry r (sv_state s), sv_collector_targets := r\<rparr>)) (\<lambda>_. returnE r))"

definition service_reload_all :: "service_files \<Rightarrow> api_call \<Rightarrow> (int \<times> int \<times> int) service_op" where
  "service_reload_all fs c =
     bindE (readE sv_config) (\<lambda>cfg.
     bindE (on_api (service_reload_rules cfg c)) (\<lambda>(rules, _).
     bindE (service_reload_playbooks fs c) (\<lambda>(playbooks, _).
     bindE (readE sv_config) (\<lambda>cfg'.
     bindE (on_api (service_reload_policies cfg' c)) (\<lambda>(policies, _).
     bindE (service_reload_connectors fs) (\<lambda>_.
     bindE (service_reload_targets fs) (\<lambda>_.
     returnE (rules, playbooks, policies))))))))"

text \<open>The registry of connectors \<open>build_service\<close> makes, with the root of the relative paths.\<close>

definition built_connectors :: "service_files \<Rightarrow> service_settings \<Rightarrow> string \<Rightarrow> exn + connector_registry" where
  "built_connectors fs st rootdir = registry_from_file (fs_connectors_path fs) (fs_connectors fs) (sx_dry_run st) (Some rootdir)"

subsection \<open>Journal of the service\<close>

definition primary_tenant :: "store \<Rightarrow> string" where
  "primary_tenant st = (case list_tenants st of t # _ \<Rightarrow> t_id t | [] \<Rightarrow> ''system'')"

definition system_entry :: "string \<Rightarrow> string \<Rightarrow> dict \<Rightarrow> dict \<Rightarrow> time \<Rightarrow> unit service_op" where
  "system_entry tid what target after now =
     bindE (on_api (on_db (record_audit tid ''system'' what ''system'' target [] after [] now))) (\<lambda>_. returnE ())"

definition record_startup_audit :: "string \<Rightarrow> int \<Rightarrow> time \<Rightarrow> unit service_op" where
  "record_startup_audit key_file rules now =
     bindE (readE id) (\<lambda>s.
       let tid = primary_tenant (sv_store s); st = sv_settings s; warnings = safety_warnings key_file st
       in bindE (system_entry tid ''system.start'' [(''type'', PStr ''service''), (''id'', PStr (sx_instance st))]
                   [(''rules'', PInt rules), (''playbooks'', PInt (int (length (ae_playbooks (ap_actions (sv_config s)))))),
                    (''policies'', PInt (int (length (as_policies (sv_state s))))), (''bus'', PStr (sv_bus_name s)),
                    (''env'', PStr (sx_env st))] now) (\<lambda>_.
          if warnings = [] then returnE ()
          else system_entry tid ''system.unsafe_default'' [(''type'', PStr ''configuration''), (''id'', PStr ''startup'')]
                 [(''dry_run'', PBool (sx_dry_run st)), (''autonomy'', PStr (sx_autonomy st)),
                  (''warnings'', PList (map PStr warnings))] now))"

definition record_stop :: "time \<Rightarrow> unit service_op" where
  "record_stop now =
     bindE (readE id) (\<lambda>s.
       system_entry (primary_tenant (sv_store s)) ''system.stop''
         [(''type'', PStr ''service''), (''id'', PStr (sx_instance (sv_settings s)))]
         [(''uptime_seconds'', PFloat (of_int (now - sv_started s) / 1000000))] now)"

subsection \<open>Gauges\<close>

definition gauge_name :: "string \<Rightarrow> string" where
  "gauge_name n = ''thotsecure_'' @ n"

definition set_counts :: "string \<Rightarrow> string \<Rightarrow> string \<Rightarrow> (string \<times> int) list \<Rightarrow> metrics \<Rightarrow> metrics" where
  "set_counts name tid label counts m =
     fold (\<lambda>(k, n). set_metric (gauge_name name) (of_int n) [(''tenant'', tid), (label, k)]) counts m"

definition count_of :: "string \<Rightarrow> (string \<times> int) list \<Rightarrow> int" where
  "count_of k counts = (case map_of counts k of None \<Rightarrow> 0 | Some n \<Rightarrow> n)"

definition refresh_tenant :: "bool \<Rightarrow> store \<Rightarrow> tenant \<Rightarrow> metrics \<Rightarrow> metrics" where
  "refresh_tenant dry st t m =
     (case count_findings (t_id t) None st of (by_severity, _, _) \<Rightarrow>
        set_metric (gauge_name ''dry_run'') (if dry \<or> t_dry_run t then 1 else 0) [(''tenant'', t_id t)]
          (set_counts ''actions_total'' (t_id t) ''status'' (actions_by_status (t_id t) None st)
             (set_counts ''findings_total'' (t_id t) ''severity'' by_severity m)))"

definition total_of :: "(tenant \<Rightarrow> int) \<Rightarrow> store \<Rightarrow> rat" where
  "total_of f st = of_int (sum_list (map f (list_tenants st)))"

definition by_status :: "store \<Rightarrow> tenant \<Rightarrow> (string \<times> int) list" where
  "by_status st t = fst (snd (count_findings (t_id t) None st))"

definition bus_gauges :: "dict \<Rightarrow> metrics \<Rightarrow> metrics" where
  "bus_gauges d m =
     fold (\<lambda>(k, v). case v of
         PInt n \<Rightarrow> set_metric (gauge_name (''bus_'' @ k)) (of_int n) []
       | PBool b \<Rightarrow> set_metric (gauge_name (''bus_'' @ k)) (if b then 1 else 0) []
       | PFloat x \<Rightarrow> set_metric (gauge_name (''bus_'' @ k)) x []
       | _ \<Rightarrow> id) d m"

definition refresh_metrics :: "service \<Rightarrow> metrics" where
  "refresh_metrics s =
     (let st = sv_store s; set_one = (\<lambda>n v. set_metric (gauge_name n) v [])
      in set_one ''findings_total_all'' (total_of (\<lambda>t. sum_list (map snd (by_status st t))) st)
          (bus_gauges (bus_stats (sv_bus_name s) (sv_bus s))
          (set_one ''audit_chain_valid'' (if vr_valid (verify None st) then 1 else 0)
          (set_one ''audit_records_total'' (of_int (count_audit (primary_tenant st) None st))
          (set_one ''start_time_seconds'' (of_int (sv_started s) / 1000000)
          (set_one ''up'' 1
          (set_one ''actions_pending_approval'' (total_of (\<lambda>t. count_of ''pending_approval'' (actions_by_status (t_id t) None st)) st)
          (set_one ''findings_open'' (total_of (\<lambda>t. count_of ''open'' (by_status st t)) st)
          (fold (refresh_tenant (sx_dry_run (sv_settings s)) st) (list_tenants st) (sv_metrics s))))))))))"

definition scrape :: "service \<Rightarrow> string \<times> service" where
  "scrape s = (let m = refresh_metrics s in (render_text m, s\<lparr>sv_metrics := m\<rparr>))"

subsection \<open>Maintenance\<close>

definition PURGE_INTERVAL_SECONDS :: int where "PURGE_INTERVAL_SECONDS = 3600"

definition purge_due :: "time \<Rightarrow> service \<Rightarrow> bool" where
  "purge_due now s \<longleftrightarrow>
     (case sv_last_purge s of None \<Rightarrow> True | Some t \<Rightarrow> seconds PURGE_INTERVAL_SECONDS < now - t)"

text \<open>\<open>try: m except Exception: log\<close>.\<close>

definition attempted :: "'a service_op \<Rightarrow> 'a option service_op" where
  "attempted m = catchE (bindE m (\<lambda>a. returnE (Some a))) (\<lambda>_. returnE None)"

definition maintenance_pass ::
    "time \<Rightarrow> ((int \<times> int) option \<times> (int \<times> int \<times> int) option) service_op" where
  "maintenance_pass now =
     bindE (readE sv_config) (\<lambda>cfg.
     bindE (attempted (on_service_engine (reap (ap_actions cfg) (pg_world (ap_pipe cfg)) None now))) (\<lambda>reaped.
     bindE (readE (purge_due now)) (\<lambda>is_due.
     bindE (if is_due
            then attempted (bindE (on_api (on_pipe (purge_expired (ap_pipe cfg) now))) (\<lambda>n.
                   bindE (writeE (\<lambda>s. s\<lparr>sv_last_purge := Some now\<rparr>)) (\<lambda>_. returnE n)))
            else returnE None) (\<lambda>purged.
     bindE (writeE (\<lambda>s. s\<lparr>sv_metrics := refresh_metrics s\<rparr>)) (\<lambda>_. returnE (reaped, purged))))))"

end
