(* ===== verification/Operations.thy ===== *)
theory Operations
  imports Service Probes
begin

section \<open>Operations on the whole service\<close>

text \<open>
  What joins the store, the collectors and the service: the overview of \<open>storage/store.py\<close> and its route of
  \<open>routers/health.py\<close>, and the routes of \<open>routers/security.py\<close> on collectors.  The state pairs the service with what
  the collectors observe.  An average over no row, or equal to zero, is absent, as in the code.  Left out: the measure of
  the time taken, and the schema of an overview.
\<close>

subsection \<open>Overview\<close>

record overview =
  ov_tenant :: string
  ov_window_hours :: int
  ov_events_total :: int
  ov_events_by_kind :: "(string \<times> int) list"
  ov_findings_total :: int
  ov_findings_open :: int
  ov_by_severity :: "(string \<times> int) list"
  ov_by_status :: "(string \<times> int) list"
  ov_top_rules :: "(string \<times> int \<times> rat) list"
  ov_actions_total :: int
  ov_actions_by_status :: "(string \<times> int) list"
  ov_actions_auto :: int
  ov_actions_manual :: int
  ov_actions_rolled_back :: int
  ov_actions_failed :: int
  ov_mttd :: "rat option"
  ov_mttr :: "rat option"
  ov_autonomy :: string
  ov_dry_run :: bool
  ov_audit_records :: int
  ov_collectors :: "collector_status list"

text \<open>\<open>AVG\<close> of durations in seconds; \<open>if row["..."]\<close> drops zero.\<close>

definition average_seconds :: "time list \<Rightarrow> rat option" where
  "average_seconds ds =
     (let a = of_int (sum_list ds) / 1000000 / of_nat (length ds) in if ds = [] \<or> a = 0 then None else Some a)"

definition detection_delay :: "finding \<Rightarrow> time" where
  "detection_delay f = f_created_at f - f_first_seen f"

definition resolution_delay :: "finding \<Rightarrow> time" where
  "resolution_delay f = f_updated_at f - f_created_at f"

definition actions_in_mode :: "string \<Rightarrow> action_mode \<Rightarrow> time \<Rightarrow> store \<Rightarrow> int" where
  "actions_in_mode tid mode since st =
     int (length (filter (\<lambda>a. a_tenant a = tid \<and> a_mode a = mode \<and> since_ok (Some since) (a_requested_at a)) (st_actions st)))"

definition stats_overview :: "string \<Rightarrow> int \<Rightarrow> collector_status list \<Rightarrow> time \<Rightarrow> store \<Rightarrow> overview" where
  "stats_overview tid hours collectors now st =
     (let since = now - seconds (hours * 3600);
          found = get_tenant tid st;
          findings = count_findings tid (Some since) st;
          actions = actions_by_status tid (Some since) st;
          mine = filter (\<lambda>f. f_tenant f = tid) (st_findings st);
          by_severity = fst findings; by_state = fst (snd findings)
      in \<lparr>ov_tenant = tid, ov_window_hours = hours, ov_events_total = count_events tid (Some since) st,
          ov_events_by_kind = events_by_kind tid (Some since) st, ov_findings_total = sum_list (map snd by_state),
          ov_findings_open = count_of ''open'' by_state, ov_by_severity = by_severity, ov_by_status = by_state,
          ov_top_rules = snd (snd findings), ov_actions_total = sum_list (map snd actions), ov_actions_by_status = actions,
          ov_actions_auto = actions_in_mode tid Act_auto since st, ov_actions_manual = actions_in_mode tid Act_manual since st,
          ov_actions_rolled_back = count_of ''rolled_back'' actions, ov_actions_failed = count_of ''failed'' actions,
          ov_mttd = average_seconds (map detection_delay (filter (\<lambda>f. since_ok (Some since) (f_created_at f)) mine)),
          ov_mttr = average_seconds
            (map resolution_delay (filter (\<lambda>f. f_status f = Closed \<and> since_ok (Some since) (f_updated_at f)) mine)),
          ov_autonomy = (case found of Some t \<Rightarrow> mode_str (t_mode t) | None \<Rightarrow> ''supervised''),
          ov_dry_run = (case found of Some t \<Rightarrow> t_dry_run t | None \<Rightarrow> True), ov_audit_records = count_audit tid None st,
          ov_collectors = collectors\<rparr>)"

subsection \<open>State\<close>

record 'w operated =
  ot_service :: service
  ot_out :: 'w

type_synonym ('w, 'a) operation = "('w operated, exn, 'a) op"

record 'w operations_config =
  oc_registry :: "'w collector_registry"
  oc_settings :: collector_settings

abbreviation ot_store :: "'w operated \<Rightarrow> store" where
  "ot_store s \<equiv> sv_store (ot_service s)"

definition on_calls :: "'a api_op \<Rightarrow> ('w, 'a) operation" where
  "on_calls m s = (case on_api m (ot_service s) of (r, v) \<Rightarrow> (r, s\<lparr>ot_service := v\<rparr>))"

definition runner_of :: "'w operations_config \<Rightarrow> service \<Rightarrow> runner_config" where
  "runner_of oc s =
     \<lparr>rc_pipeline = ap_pipe (sv_config s), rc_targets = sv_collector_targets s, rc_settings = oc_settings oc\<rparr>"

definition with_pipe :: "pipeline_state \<Rightarrow> service \<Rightarrow> service" where
  "with_pipe p s = s\<lparr>sv_state := (sv_state s)\<lparr>as_pipe := p\<rparr>\<rparr>"

definition on_runner :: "('w, 'a) run_op \<Rightarrow> ('w, 'a) operation" where
  "on_runner m s =
     (case m \<lparr>rn_pipe = as_pipe (sv_state (ot_service s)), rn_out = ot_out s\<rparr> of
        (r, t) \<Rightarrow> (r, s\<lparr>ot_service := with_pipe (rn_pipe t) (ot_service s), ot_out := rn_out t\<rparr>))"

definition on_gauges :: "(metrics \<Rightarrow> metrics) \<Rightarrow> ('w, unit) operation" where
  "on_gauges f = writeE (\<lambda>s. s\<lparr>ot_service := (ot_service s)\<lparr>sv_metrics := f (sv_metrics (ot_service s))\<rparr>\<rparr>)"

subsection \<open>Routes\<close>

definition overview_route ::
    "'w operations_config \<Rightarrow> principal \<Rightarrow> string option \<Rightarrow> int \<Rightarrow> time \<Rightarrow> ('w, overview) operation" where
  "overview_route oc p requested hours now =
     bindE (on_calls (allow CAP_READ_STATS p)) (\<lambda>_.
     bindE (on_calls (resolve_tenant p requested)) (\<lambda>t.
     readE (\<lambda>s. stats_overview (t_id t) (max 1 (min hours (24 * 30)))
       (runner_status (runner_of oc (ot_service s)) (oc_registry oc) (t_id t) (ot_store s)) now (ot_store s))))"

definition list_collectors_route :: "'w operations_config \<Rightarrow> principal \<Rightarrow> ('w, collector_status list \<times> string list) operation" where
  "list_collectors_route oc p =
     bindE (on_calls (allow CAP_READ_STATS p)) (\<lambda>_.
     bindE (readE (\<lambda>s. runner_status (runner_of oc (ot_service s)) (oc_registry oc) (pr_tenant p) (ot_store s))) (\<lambda>cs.
     returnE (cs, map cl_name (filter cl_enabled cs))))"

definition every_finding :: finding_query where
  "every_finding =
     \<lparr>fq_status = None, fq_severity = None, fq_rule_id = None, fq_since = None, fq_until = None, fq_min_risk = None, fq_q = None\<rparr>"

definition count_run :: "string \<Rightarrow> collector_result \<Rightarrow> metrics \<Rightarrow> metrics" where
  "count_run name r m =
     (let m1 = inc_metric ''thotsecure_collector_runs_total'' 1 [(''collector'', name), (''status'', run_status_str (rs_status r))] m
      in if rs_errors r = [] then m1
         else inc_metric ''thotsecure_collector_errors_total'' (of_nat (length (rs_errors r))) [(''collector'', name)] m1)"

definition run_collector_route ::
    "'w operations_config \<Rightarrow> string \<Rightarrow> principal \<Rightarrow> time \<Rightarrow> ('w, collector_result \<times> finding list) operation" where
  "run_collector_route oc name p now =
     bindE (on_calls (allow CAP_EXECUTE_ACTIONS p)) (\<lambda>_.
     bindE (readE (\<lambda>s. runner_of oc (ot_service s))) (\<lambda>rc.
     bindE (on_runner (run_collector rc (oc_registry oc) name (pr_tenant p) now)) (\<lambda>r.
     bindE (on_gauges (count_run name r)) (\<lambda>_.
     bindE (readE (\<lambda>s. fst (list_findings (pr_tenant p) every_finding ''last_seen'' 5 None (ot_store s)))) (\<lambda>fs.
     returnE (r, fs))))))"

definition collector_checks_route ::
    "principal \<Rightarrow> ('w, (string \<times> string list) list \<times> (string \<times> string \<times> severity) list \<times> (string \<times> severity) list) operation" where
  "collector_checks_route p =
     bindE (on_calls (allow CAP_READ_RULES p)) (\<lambda>_.
     returnE (available_checks, map (\<lambda>(h, check, sev, _). (h, check, sev)) SECURITY_HEADERS,
       map (\<lambda>(path, sev, _). (path, sev)) EXPOSED_PATHS))"

end
