(* ===== verification/MetricsProps.thy ===== *)
theory MetricsProps
  imports Metrics
begin

section \<open>What the metrics say\<close>

text \<open>
  A histogram is compared to the history of its observations, and the text of a label is read back.
\<close>

subsection \<open>Histograms\<close>

datatype metric_op =
    M_inc string rat metric_labels
  | M_set string rat metric_labels
  | M_observe string rat "rat list option" metric_labels

fun apply_metric :: "metric_op \<Rightarrow> metrics \<Rightarrow> metrics" where
  "apply_metric (M_inc n v ls) m = inc_metric n v ls m"
| "apply_metric (M_set n v ls) m = set_metric n v ls m"
| "apply_metric (M_observe n v bs ls) m = observe_metric n v bs ls m"

text \<open>The observations of a key, each with the bounds it was made with.\<close>

fun observation :: "metric_key \<Rightarrow> metric_op \<Rightarrow> (rat list \<times> rat) option" where
  "observation k (M_observe n v bs ls) =
     (if k = (n, label_key ls)
      then Some (case bs of Some b \<Rightarrow> if b = [] then DEFAULT_BUCKETS else b | None \<Rightarrow> DEFAULT_BUCKETS, v) else None)"
| "observation k _ = None"

definition summary_of :: "rat list \<Rightarrow> rat list \<Rightarrow> histogram" where
  "summary_of bounds vs =
     \<lparr>hg_bounds = bounds, hg_counts = map (\<lambda>b. int (length (filter (\<lambda>v. v \<le> b) vs))) bounds, hg_sum = sum_list vs,
      hg_count = int (length vs)\<rparr>"

definition summary :: "(rat list \<times> rat) list \<Rightarrow> histogram option" where
  "summary obs = (case obs of [] \<Rightarrow> None | (bounds, _) # _ \<Rightarrow> Some (summary_of bounds (map snd obs)))"

lemma add_summary: "add_observation v (summary_of bounds vs) = summary_of bounds (vs @ [v])"
proof -
  have "map2 (\<lambda>b n. if v \<le> b then n + 1 else n) bounds (map (\<lambda>b. int (length (filter (\<lambda>v. v \<le> b) vs))) bounds)
      = map (\<lambda>b. int (length (filter (\<lambda>v. v \<le> b) (vs @ [v])))) bounds"
    by (induction bounds) auto
  then show ?thesis by (simp add: add_observation_def summary_of_def)
qed

lemma summary_snoc:
  "summary (obs @ [(bounds, v)])
     = Some (add_observation v (case summary obs of None \<Rightarrow> summary_of bounds [] | Some h \<Rightarrow> h))"
  by (cases obs) (auto simp: summary_def add_summary)

lemma blank_summary: "summary_of bounds [] = \<lparr>hg_bounds = bounds, hg_counts = replicate (length bounds) 0, hg_sum = 0, hg_count = 0\<rparr>"
  by (simp add: summary_of_def map_replicate_const)

lemma default_type_frame [simp]: "mt_histograms (default_type n k m) = mt_histograms m"
  by (simp add: default_type_def)

lemma histogram_step:
  "map_of (mt_histograms (apply_metric op m)) k
     = (case observation k op of
          None \<Rightarrow> map_of (mt_histograms m) k
        | Some (bounds, v) \<Rightarrow>
            Some (add_observation v (case map_of (mt_histograms m) k of None \<Rightarrow> summary_of bounds [] | Some h \<Rightarrow> h)))"
  by (cases op) (auto simp: inc_metric_def set_metric_def observe_metric_def Let_def blank_summary update_conv' split: option.splits)

text \<open>Exactness of the histograms: after any sequence of increments, settings and observations, the histogram of a name and
  labels is the summary of its own observations, with the bounds of the first: the sum, the number, and under every
  bound the number of observations that do not exceed it.\<close>

theorem histogram_exact:
  "map_of (mt_histograms (fold apply_metric ops new_metrics)) k = summary (List.map_filter (observation k) ops)"
proof (induction ops rule: rev_induct)
  case Nil
  then show ?case by (simp add: new_metrics_def summary_def map_filter_def)
next
  case (snoc op ops)
  then show ?case
    by (cases "observation k op") (auto simp: histogram_step summary_snoc map_filter_def)
qed

lemma summary_cumulative: "b \<le> c \<Longrightarrow> length (filter (\<lambda>v. v \<le> b) vs) \<le> length (filter (\<lambda>v. v \<le> (c::rat)) vs)"
  by (induction vs) auto

subsection \<open>Labels\<close>

text \<open>A reader of the exposition format: the text up to the closing quote, and what follows it.\<close>

fun read_label :: "string \<Rightarrow> (string \<times> string) option" where
  "read_label [] = None"
| "read_label (c # cs) =
     (if c = CHR 0x22 then Some ([], cs)
      else if c = CHR 0x5C then (case cs of [] \<Rightarrow> None | d # ds \<Rightarrow> map_option (map_prod ((#) d) id) (read_label ds))
      else map_option (map_prod ((#) c) id) (read_label cs))"

text \<open>No label breaks the exposition: whatever its value, its text is read back up to its closing quote as the value
  itself, with its line feeds as spaces, and what follows is left for the rest of the line.\<close>

theorem label_roundtrip:
  "read_label (escape_label s @ [CHR 0x22] @ rest) = Some (map (\<lambda>c. if c = CHR 0x0A then CHR '' '' else c) s, rest)"
  by (induction s) (auto simp: escape_label_def escape_char_def)

lemma label_one_line: "CHR 0x0A \<notin> set (escape_label s)"
  by (auto simp: escape_label_def escape_char_def split: if_splits)

subsection \<open>A limit\<close>

text \<open>\<open>snapshot\<close> reads the labels of a stored metric as a dictionary: it raises as soon as one metric has a label.\<close>

theorem labelled_counter_breaks_snapshot: "snapshot_part (mt_counters (inc_metric name v [kv] m)) = Inl ()"
proof -
  have "map_of (mt_counters (inc_metric name v [kv] m)) (name, [kv]) \<noteq> None"
    by (simp add: inc_metric_def default_type_def label_key_def Let_def update_conv')
  then obtain x where "((name, [kv]), x) \<in> set (mt_counters (inc_metric name v [kv] m))"
    by (auto dest: map_of_SomeD)
  then have "list_ex (\<lambda>(k, _). snapshot_name k = Inl ()) (mt_counters (inc_metric name v [kv] m))"
    by (force simp: list_ex_iff snapshot_name_def)
  then show ?thesis by (simp add: snapshot_part_def)
qed

end
