(* ===== verification/ServiceProps.thy ===== *)
theory ServiceProps
  imports Service MetricsProps
begin

section \<open>What the configuration and the service guarantee\<close>

subsection \<open>Settings\<close>

text \<open>
  Settings that are loaded are within the bounds of every validator: in production the documented bootstrap key is refused
  and TLS comes with its two files; the bus has an address, the database a known scheme.
\<close>

lemma collect_kept: "collect_checks cs = Inr [] \<longleftrightarrow> (\<forall>c \<in> set cs. c = Kept)"
  by (induction cs rule: collect_checks.induct) (auto split: sum.splits)

lemma validate_kept: "validate_fields s = Inr v \<longleftrightarrow> (\<forall>c \<in> set (field_checks s). c = Kept) \<and> v = s\<lparr>sx_log_level := str_upper (sx_log_level s)\<rparr>"
  unfolding validate_fields_def collect_kept [symmetric]
  by (auto split: sum.splits list.splits)

lemma resolve_fields:
  assumes "resolve_secret_key fresh s d = (v, d')"
  shows "v = s\<lparr>sx_secret_key := sx_secret_key v, sx_key_source := sx_key_source v\<rparr>"
  using assms by (auto simp: resolve_secret_key_def Let_def split: if_splits)

theorem accepted_settings_sound:
  assumes "load_settings fresh s d = (Inr v, d')"
  shows "1 \<le> sx_port v \<and> sx_port v \<le> 65535 \<and> bootstrap_key_accepted (sx_bootstrap v) \<and> 0 < sx_rate_limit v \<and> 0 < sx_max_batch v
     \<and> 0 < sx_retention v \<and> 0 < sx_threshold v \<and> sx_threshold v \<le> 100 \<and> (sx_bus v = ''nats'' \<longrightarrow> sx_nats_url v \<noteq> [])
     \<and> (sx_env v = ''prod'' \<longrightarrow> sx_bootstrap v \<noteq> DEV_BOOTSTRAP_KEY
         \<and> (sx_tls v \<longrightarrow> opt_truthy (sx_tls_cert v) \<and> opt_truthy (sx_tls_key v)))"
proof -
  obtain u where u: "validate_fields s = Inr u" and ok: "coherent u = Inr ()" and v: "resolve_secret_key fresh u d = (v, d')"
    using assms by (auto simp: load_settings_def split: sum.splits prod.splits)
  have kept: "\<forall>c \<in> set (field_checks s). c = Kept" and us: "u = s\<lparr>sx_log_level := str_upper (sx_log_level s)\<rparr>"
    using u by (simp_all add: validate_kept)
  have bounds: "1 \<le> sx_port s" "sx_port s \<le> 65535" "bootstrap_check (sx_bootstrap s) = Kept" "0 < sx_rate_limit s"
      "0 < sx_max_batch s" "0 < sx_retention s"
    using kept by (auto simp: field_checks_def port_check_def positive_check_def split: if_splits)
  have key: "bootstrap_key_accepted (sx_bootstrap s)"
    using bounds(3) by (auto simp: bootstrap_check_def bootstrap_key_accepted_def split: list.splits if_splits)
  show ?thesis
    using bounds key ok resolve_fields [OF v] us by (cases v) (auto simp: coherent_def split: if_splits)
qed

theorem accepted_settings_sound_witness:
  "\<forall>fresh d. \<exists>v d'. load_settings fresh default_settings d = (Inr v, d') \<and> bootstrap_key_accepted (sx_bootstrap v)"
proof (intro allI)
  fix fresh d
  have "\<exists>v d'. load_settings fresh default_settings d = (Inr v, d')"
  proof -
    have "validate_fields default_settings = Inr default_settings" "coherent default_settings = Inr ()" by code_simp+
    then show ?thesis by (simp add: load_settings_def split: prod.splits)
  qed
  with accepted_settings_sound [of fresh default_settings d]
  show "\<exists>v d'. load_settings fresh default_settings d = (Inr v, d') \<and> bootstrap_key_accepted (sx_bootstrap v)" by blast
qed

text \<open>
  Two processes that start one after the other on a disk that can be read and written, without a key of their own, sign with
  the same key.
\<close>

theorem secret_key_shared:
  assumes "sx_secret_key s = []" and "sx_secret_key s' = []" and "kd_reads d" and "kd_writes d"
    and "str_strip (fresh 0) = fresh 0" and "fresh 0 \<noteq> []"
  shows "sx_secret_key (fst (resolve_secret_key fresh' s' (snd (resolve_secret_key fresh s d))))
       = sx_secret_key (fst (resolve_secret_key fresh s d))
     \<and> sx_key_source (fst (resolve_secret_key fresh s d)) = ''file''"
  using assms by (auto simp: resolve_secret_key_def Let_def)

lemma no_warning: "warning b why = [] \<longleftrightarrow> \<not> b"
  by (simp add: warning_def)

theorem warnings_exact:
  "safety_warnings f s = [] \<longleftrightarrow>
     sx_dry_run s \<and> sx_autonomy s \<noteq> ''auto'' \<and> sx_key_source s \<notin> set [''ephemeral'', ''file'']
     \<and> sx_bootstrap s \<noteq> DEV_BOOTSTRAP_KEY \<and> sx_bus s \<noteq> ''memory'' \<and> sx_require_targets s"
  by (auto simp: safety_warnings_def no_warning key_is_ephemeral_def bootstrap_key_is_dev_def)

text \<open>
  Settings loaded again with an override carry the key they had, which then counts as given by the environment: the warning
  that the key is ephemeral is gone.
\<close>

theorem override_hides_ephemeral:
  assumes "sx_key_source s = ''ephemeral''" and "sx_secret_key s \<noteq> []" and "overridden fresh id s d = (Inr v, d')"
  shows "sx_secret_key v = sx_secret_key s \<and> sx_key_source v = ''env''"
  using assms by (auto simp: overridden_def load_settings_def validate_kept resolve_secret_key_def split: sum.splits prod.splits if_splits)

text \<open>A database URL without \<open>://\<close> is accepted, and has no path.\<close>

theorem bare_sqlite_accepted:
  "db_url_check ''sqlite'' = Kept \<and> (\<exists>e. db_path res hm rootdir (default_settings\<lparr>sx_db_url := ''sqlite''\<rparr>) = Inl e)"
proof
  show "db_url_check ''sqlite'' = Kept" by code_simp
  show "\<exists>e. db_path res hm rootdir (default_settings\<lparr>sx_db_url := ''sqlite''\<rparr>) = Inl e"
    by (simp add: db_path_def)
qed

subsection \<open>Reloading\<close>

text \<open>
  The registry of connectors made at the start resolves relative paths from the root of the project; the one of a reload
  has lost it.
\<close>

lemma registry_root: "registry_from_file path parsed dry rdir = Inr g \<Longrightarrow> cg_root_dir g = rdir"
  by (auto simp: registry_from_file_def new_registry_def Let_def split: option.splits pyval.splits if_splits)

theorem reload_loses_root:
  "(built_connectors fs st rootdir = Inr g \<longrightarrow> cg_root_dir g = Some rootdir)
     \<and> (fst (service_reload_connectors fs s) = Inr h \<longrightarrow> cg_root_dir h = None)"
proof
  show "built_connectors fs st rootdir = Inr g \<longrightarrow> cg_root_dir g = Some rootdir"
    by (auto simp: built_connectors_def dest: registry_root)
  show "fst (service_reload_connectors fs s) = Inr h \<longrightarrow> cg_root_dir h = None"
    by (auto simp: service_reload_connectors_def op_simps on_service_engine_def on_api_def Api.on_pipe_def on_engine_def
        dest: registry_root split: sum.splits)
qed

subsection \<open>Maintenance\<close>

lemma attempted_returns: "\<exists>a s'. attempted m s = (Inr a, s')"
  by (auto simp: attempted_def op_simps split: prod.splits sum.splits)

text \<open>A pass of maintenance always returns, and the gauges are those of the state it leaves.\<close>

theorem maintenance_returns:
  "\<exists>r s'. maintenance_pass now s = (Inr r, s'\<lparr>sv_metrics := refresh_metrics s'\<rparr>)"
proof -
  obtain a s1 where a: "attempted (on_service_engine (reap (ap_actions (sv_config s)) (pg_world (ap_pipe (sv_config s))) None now)) s
      = (Inr a, s1)" using attempted_returns by blast
  obtain b s2 where b: "attempted (bindE (on_api (Api.on_pipe (purge_expired (ap_pipe (sv_config s)) now))) (\<lambda>n.
      bindE (writeE (\<lambda>s. s\<lparr>sv_last_purge := Some now\<rparr>)) (\<lambda>_. returnE n))) s1 = (Inr b, s2)" using attempted_returns by blast
  show ?thesis
    using a b by (cases "purge_due now s1") (auto simp: maintenance_pass_def op_simps)
qed

subsection \<open>Gauges\<close>

lemma gauge_set:
  "gauge_value n ls (set_metric n' v ls' m) = (if n = n' \<and> label_key ls = label_key ls' then Some v else gauge_value n ls m)"
  by (simp add: gauge_value_def set_metric_def default_type_def update_conv')

definition action_gauge :: "string \<Rightarrow> string \<Rightarrow> metrics \<Rightarrow> rat option" where
  "action_gauge tid k = gauge_value (gauge_name ''actions_total'') [(''tenant'', tid), (''status'', k)]"

lemma label_key_two: "label_key [(''tenant'', a), (''status'', b)] = [(''status'', b), (''tenant'', a)]"
proof -
  have "(''status'' :: string) < ''tenant''" by code_simp
  then have "\<not> (''tenant'', a) \<le> (''status'', b)" by (simp add: less_eq_prod_def)
  then show ?thesis by (simp add: label_key_def)
qed

lemma name_inj [simp]: "gauge_name a = gauge_name b \<longleftrightarrow> a = b"
  by (simp add: gauge_name_def)

lemma action_gauge_other: "name \<noteq> ''actions_total'' \<Longrightarrow> action_gauge tid k (set_metric (gauge_name name) v ls m) = action_gauge tid k m"
  by (simp add: action_gauge_def gauge_set)

lemma action_gauge_counts_other:
  "name \<noteq> ''actions_total'' \<Longrightarrow> action_gauge tid k (set_counts name t l cs m) = action_gauge tid k m"
  unfolding set_counts_def by (induction cs arbitrary: m) (auto simp: action_gauge_other)

lemma action_gauge_counts:
  assumes "distinct (map fst cs)"
  shows "action_gauge tid k (set_counts ''actions_total'' t ''status'' cs m)
     = (if t = tid \<and> map_of cs k \<noteq> None then map_option of_int (map_of cs k) else action_gauge tid k m)"
  using assms unfolding set_counts_def
proof (induction cs arbitrary: m)
  case (Cons c cs)
  obtain j n where c: "c = (j, n)" by fastforce
  have "map_of cs j = None" using Cons.prems by (simp add: c map_of_eq_None_iff)
  with Cons.IH [of "set_metric (gauge_name ''actions_total'') (of_int n) [(''tenant'', t), (''status'', j)] m"] Cons.prems
  show ?case by (auto simp: c action_gauge_def gauge_set label_key_two)
qed simp

lemma group_count_keys: "distinct (map fst (group_count key rows))"
  by (simp add: group_count_def comp_def)

lemma map_of_group_count:
  "map_of (group_count key rows) k
     = (if k \<in> key ` set rows then Some (int (length (filter (\<lambda>r. key r = k) rows))) else None)"
  by (simp add: group_count_def map_of_map_keys map_of_map_restrict restrict_map_def)

definition actions_with :: "string \<Rightarrow> string \<Rightarrow> store \<Rightarrow> nat" where
  "actions_with tid k st = length (filter (\<lambda>a. a_tenant a = tid \<and> status_str (a_status a) = k) (st_actions st))"

lemma map_of_actions:
  "map_of (actions_by_status tid None st) k = (if actions_with tid k st = 0 then None else Some (int (actions_with tid k st)))"
  by (auto simp: actions_by_status_def map_of_group_count actions_with_def since_ok_def filter_empty_conv conj_commute)

lemma actions_by_status_keys: "distinct (map fst (actions_by_status tid since st))"
  by (simp only: actions_by_status_def group_count_keys)

lemma action_gauge_tenant:
  "action_gauge tid k (refresh_tenant dry st t m)
     = (if t_id t = tid \<and> actions_with tid k st \<noteq> 0 then Some (of_nat (actions_with tid k st)) else action_gauge tid k m)"
  by (auto simp: refresh_tenant_def action_gauge_other action_gauge_counts_other map_of_actions
      action_gauge_counts [OF actions_by_status_keys] split: prod.split)

lemma action_gauge_tenants:
  "action_gauge tid k (fold (refresh_tenant dry st) ts m)
     = (if tid \<in> t_id ` set ts \<and> actions_with tid k st \<noteq> 0 then Some (of_nat (actions_with tid k st)) else action_gauge tid k m)"
  by (induction ts arbitrary: m) (auto simp: action_gauge_tenant)

lemma action_gauge_bus: "action_gauge tid k (bus_gauges d m) = action_gauge tid k m"
  unfolding bus_gauges_def by (induction d arbitrary: m) (auto simp: action_gauge_other split: pyval.splits)

text \<open>
  The gauges of actions: a refresh gives each status its number of actions, and leaves what was there for a status that no
  action has any more, against the promise of values that are always fresh.
\<close>

theorem action_gauge_exact:
  "action_gauge tid k (refresh_metrics s)
     = (if tid \<in> t_id ` set (list_tenants (sv_store s)) \<and> actions_with tid k (sv_store s) \<noteq> 0
        then Some (of_nat (actions_with tid k (sv_store s))) else action_gauge tid k (sv_metrics s))"
  by (simp add: refresh_metrics_def Let_def action_gauge_other action_gauge_bus action_gauge_tenants)

theorem settled_status_keeps_gauge:
  assumes "actions_with tid ''pending_approval'' (sv_store s) = 0" and "action_gauge tid ''pending_approval'' (sv_metrics s) = Some 1"
  shows "action_gauge tid ''pending_approval'' (refresh_metrics s) = Some 1"
proof -
  have "action_gauge tid k (refresh_metrics s) = action_gauge tid k (sv_metrics s)" if "actions_with tid k (sv_store s) = 0" for k
    using that by (simp add: refresh_metrics_def Let_def action_gauge_other action_gauge_bus action_gauge_tenants)
  with assms show ?thesis by simp
qed

end
