(* ===== verification/OperationsProps.thy ===== *)
theory OperationsProps
  imports Operations ApiProps CollectorProps ServiceProps
begin

section \<open>Operations: isolation and figures\<close>

text \<open>
  A collection asked through the API stays in the tenant of the caller, and the figures of an overview agree with one
  another and with the rows.
\<close>

subsection \<open>Isolation\<close>

lemma on_calls_confined: "confined I as_store tid Q m \<Longrightarrow> confined I ot_store tid Q (on_calls m)"
  by (auto simp: confined_def on_calls_def on_api_def split: prod.split) (metis fst_conv snd_conv)+

abbreviation ot_ids :: "'w operated \<Rightarrow> nat" where
  "ot_ids s \<equiv> as_ids (sv_state (ot_service s))"

lemma on_runner_apart:
  assumes "\<And>r. apart (drawn_from w (rn_ids r)) tid (rn_store r) (rn_store (snd (m r)))"
  shows "apart (drawn_from w (ot_ids s)) tid (ot_store s) (ot_store (snd (on_runner m s)))"
  using assms [of "\<lparr>rn_pipe = as_pipe (sv_state (ot_service s)), rn_out = ot_out s\<rparr>"]
  by (auto simp: on_runner_def with_pipe_def split: prod.split)

lemma run_route_apart:
  assumes "event_tenant_ok (pr_tenant p)" and "\<And>c. map_of (oc_registry oc) name = Some c \<Longrightarrow> lawful_collector w c"
  shows "apart (drawn_from w (ot_ids s)) (pr_tenant p) (ot_store s) (ot_store (snd (run_collector_route oc name p now s)))"
proof -
  let ?I = "drawn_from w (ot_ids s)" and ?run = "run_collector (runner_of oc (ot_service s)) (oc_registry oc) name (pr_tenant p) now"
  obtain r s1 where s1: "on_runner ?run s = (r, s1)" by fastforce
  have run: "apart ?I (pr_tenant p) (ot_store s) (ot_store s1)"
    using on_runner_apart [of w "pr_tenant p" ?run s] run_collector_apart [OF assms] s1 by simp
  obtain q where q: "on_calls (allow CAP_EXECUTE_ACTIONS p) s = (q, s)"
    by (cases "has_capability (pr_role p) CAP_EXECUTE_ACTIONS")
       (simp_all add: on_calls_def on_api_def allow_def require_capability_def raiseE_def returnE_def)
  have "ot_store (snd (run_collector_route oc name p now s)) = ot_store (if isl q then s else s1)"
    using q s1
    by (cases q; cases r) (simp_all add: run_collector_route_def bindE_def readE_def on_gauges_def writeE_def returnE_def)
  then show ?thesis using run by simp
qed

text \<open>A collection asked through the API changes no row of another tenant than that of the caller, whatever the
  collector reads or fails on, but for the mark of an event whose identifier the service draws from then on.\<close>

theorem run_route_confined:
  assumes "event_tenant_ok (pr_tenant p)" and "b \<noteq> pr_tenant p" and "oc_registry oc = default_collectors re w lm nw"
  shows "rows_but (drawn_from w (ot_ids s)) b (ot_store (snd (run_collector_route oc name p now s)))
    = rows_but (drawn_from w (ot_ids s)) b (ot_store s)"
  using assms by (intro apart_rows [OF run_route_apart]) (auto intro: default_lawful)

text \<open>Without the capability to act, the route answers that it is forbidden, and nothing moves.\<close>

lemma run_route_denied:
  assumes "\<not> has_capability (pr_role p) CAP_EXECUTE_ACTIONS"
  shows "run_collector_route oc name p now s = (Inl (forbidden p CAP_EXECUTE_ACTIONS), s)"
proof -
  have "allow CAP_EXECUTE_ACTIONS p a = (Inl (forbidden p CAP_EXECUTE_ACTIONS), a)" for a
    using assms by (simp add: allow_def require_capability_def raiseE_def forbidden_def)
  then have "on_calls (allow CAP_EXECUTE_ACTIONS p) s = (Inl (forbidden p CAP_EXECUTE_ACTIONS), s)"
    by (simp add: on_calls_def on_api_def)
  then show ?thesis by (simp add: run_collector_route_def bindE_def [of "on_calls m" for m])
qed

subsection \<open>Figures of an overview\<close>

lemma groups_length: "length xs = (\<Sum>k \<in> set (map key xs). length (filter (\<lambda>r. key r = k) xs))"
proof (induction xs)
  case (Cons r xs)
  have "(\<Sum>k \<in> set (map key (r # xs)). length (filter (\<lambda>x. key x = k) (r # xs)))
      = (\<Sum>k \<in> insert (key r) (set (map key xs)). (if key r = k then 1 else 0) + length (filter (\<lambda>x. key x = k) xs))"
    by (intro sum.cong) auto
  also have "\<dots> = 1 + (\<Sum>k \<in> insert (key r) (set (map key xs)). length (filter (\<lambda>x. key x = k) xs))"
    by (simp add: sum.distrib)
  also have "(\<Sum>k \<in> insert (key r) (set (map key xs)). length (filter (\<lambda>x. key x = k) xs))
      = (\<Sum>k \<in> set (map key xs). length (filter (\<lambda>x. key x = k) xs))"
    by (intro sum.mono_neutral_right) (auto simp: filter_empty_conv)
  finally show ?case using Cons.IH by simp
qed simp

text \<open>The counts of the groups add up to the rows.\<close>

lemma group_count_total: "sum_list (map snd (group_count key xs)) = int (length xs)"
proof -
  have n: "length xs = (\<Sum>k \<in> set (map key xs). length (filter (\<lambda>r. key r = k) xs))"
    by (simp only: groups_length)
  show ?thesis
    by (simp add: group_count_def comp_def sum_list_distinct_conv_sum_set n)
qed

text \<open>The totals of an overview are the numbers of rows: its findings are those of the tenant seen in the window, and each
  action of the window is either automatic or manual.\<close>

theorem overview_consistent:
  fixes hours now :: int
  defines "since \<equiv> to_millis (now - seconds (hours * 3600))"
  shows "ov_findings_total (stats_overview tid hours cs now st)
      = int (length (filter (\<lambda>f. f_tenant f = tid \<and> since \<le> f_last_seen f) (st_findings st)))
    \<and> ov_actions_auto (stats_overview tid hours cs now st) + ov_actions_manual (stats_overview tid hours cs now st)
      = ov_actions_total (stats_overview tid hours cs now st)"
proof -
  have "length (filter (\<lambda>a. P a \<and> a_mode a = Act_auto \<and> R a) as) + length (filter (\<lambda>a. P a \<and> a_mode a = Act_manual \<and> R a) as)
      = length (filter (\<lambda>a. P a \<and> R a) as)" for P R and as :: "action list"
    by (induction as) (auto intro: action_mode.exhaust)
  then show ?thesis
    by (simp add: stats_overview_def Let_def count_findings_def actions_by_status_def actions_in_mode_def group_count_total
        since_def since_ok_def flip: of_nat_add)
qed

end
