(* ===== verification/Opa.thy ===== *)
theory Opa
  imports Json Scope
begin

section \<open>Delegation of policies\<close>

text \<open>
  \<open>decision/opa.py\<close>: the evaluation of a document by the binary \<open>opa\<close> and the normalisation of what it answers.  The
  machine is a parameter: the look-up of a program, the existence of a path, and the outcome of a process.  The
  keys that are kept are listed in one order; the code iterates over a set.
\<close>

subsection \<open>Evaluation\<close>

datatype process_outcome = Not_run string | Exited int string string

record opa_machine =
  om_which :: "string \<Rightarrow> string option"
  om_exists :: "string \<Rightarrow> bool"
  om_run :: "string list \<Rightarrow> string \<Rightarrow> process_outcome"

record opa_evaluator =
  op_binary :: "string option"
  op_query :: string
  op_rego_dir :: "string option"
  op_resolved :: "string option"
  op_evaluations :: int
  op_failures :: int

definition DEFAULT_QUERY :: string where "DEFAULT_QUERY = ''data.thotsecure.decision''"

definition MAX_INPUT_BYTES :: nat where "MAX_INPUT_BYTES = 256 * 1024"

definition new_opa :: "string option \<Rightarrow> string option \<Rightarrow> opa_evaluator" where
  "new_opa binary rego_dir =
     \<lparr>op_binary = binary, op_query = DEFAULT_QUERY,
      op_rego_dir = (case rego_dir of Some d \<Rightarrow> if d = [] then None else Some d | None \<Rightarrow> None),
      op_resolved = None, op_evaluations = 0, op_failures = 0\<rparr>"

datatype opa_result = Opa_ok dict | Opa_failed string

definition first_text :: "string option list \<Rightarrow> string" where
  "first_text xs = (case find opt_truthy xs of Some (Some s) \<Rightarrow> s | _ \<Rightarrow> [])"

definition resolved_binary :: "opa_machine \<Rightarrow> opa_evaluator \<Rightarrow> string" where
  "resolved_binary om s =
     (let candidate = first_text [op_binary s, om_which om ''opa'']
      in if candidate = [] then []
         else first_text [om_which om candidate, if om_exists om candidate then Some candidate else None])"

definition available :: "opa_machine \<Rightarrow> opa_evaluator \<Rightarrow> bool \<times> opa_evaluator" where
  "available om s =
     (case op_resolved s of
        Some r \<Rightarrow> (r \<noteq> [], s)
      | None \<Rightarrow> let r = resolved_binary om s in (r \<noteq> [], s\<lparr>op_resolved := Some r\<rparr>))"

text \<open>\<open>json.dumps(document, ensure_ascii=False, default=str)\<close>, and its length in UTF-8.\<close>

definition input_char :: "char \<Rightarrow> string" where
  "input_char c = (if code c < 127 then esc_char c else [c])"

primrec input_json :: "pyval \<Rightarrow> string" where
  "input_json PNone = ''null''"
| "input_json (PBool b) = (if b then ''true'' else ''false'')"
| "input_json (PInt i) = int_str i"
| "input_json (PFloat x) = float_repr x"
| "input_json (PStr s) = [CHR 0x22] @ concat (map input_char s) @ [CHR 0x22]"
| "input_json (PTime t) = [CHR 0x22] @ concat (map input_char (datetime_str t)) @ [CHR 0x22]"
| "input_json (PList xs) = ''['' @ join_with '', '' (map input_json xs) @ '']''"
| "input_json (PDict d) =
     ''{'' @ join_with '', '' (map (\<lambda>(k, t). [CHR 0x22] @ concat (map input_char k) @ [CHR 0x22] @ '': '' @ t)
        (map (map_prod id input_json) d)) @ ''}''"

definition utf8_length :: "string \<Rightarrow> nat" where
  "utf8_length s = sum_list (map (\<lambda>c. if code c < 128 then 1 else 2) s)"

definition opa_command :: "opa_machine \<Rightarrow> opa_evaluator \<Rightarrow> string list" where
  "opa_command om s =
     [first_text [op_resolved s, Some ''opa''], ''eval'', ''--format=json'', ''--stdin-input'']
     @ (case op_rego_dir s of Some d \<Rightarrow> if om_exists om d then [d] else [] | None \<Rightarrow> []) @ [op_query s]"

text \<open>\<open>v[key]\<close> and \<open>v[0]\<close>.\<close>

definition not_subscriptable :: "pyval \<Rightarrow> exn" where
  "not_subscriptable v = Foreign ''TypeError'' (repr_str (type_name v) @ '' object is not subscriptable'')"

definition item_of :: "string \<Rightarrow> pyval \<Rightarrow> exn + pyval" where
  "item_of k v =
     (case v of
        PDict d \<Rightarrow> (case map_of d k of Some x \<Rightarrow> Inr x | None \<Rightarrow> Inl (Foreign ''KeyError'' (repr_str k)))
      | PList _ \<Rightarrow> Inl (Foreign ''TypeError'' ''list indices must be integers or slices, not str'')
      | PStr _ \<Rightarrow> Inl (Foreign ''TypeError'' ''string indices must be integers, not str'')
      | _ \<Rightarrow> Inl (not_subscriptable v))"

definition first_of :: "pyval \<Rightarrow> exn + pyval" where
  "first_of v =
     (case v of
        PList (x # _) \<Rightarrow> Inr x
      | PList [] \<Rightarrow> Inl (Foreign ''IndexError'' ''list index out of range'')
      | PStr (c # _) \<Rightarrow> Inr (PStr [c])
      | PStr [] \<Rightarrow> Inl (Foreign ''IndexError'' ''string index out of range'')
      | PDict _ \<Rightarrow> Inl (Foreign ''KeyError'' ''0'')
      | _ \<Rightarrow> Inl (not_subscriptable v))"

definition thenR :: "exn + 'a \<Rightarrow> ('a \<Rightarrow> exn + 'b) \<Rightarrow> exn + 'b" where
  "thenR r f = (case r of Inl e \<Rightarrow> Inl e | Inr a \<Rightarrow> f a)"

definition expression_value :: "pyval \<Rightarrow> exn + pyval" where
  "expression_value d =
     thenR (item_of ''result'' d) (\<lambda>r. thenR (first_of r) (\<lambda>e. thenR (item_of ''expressions'' e) (\<lambda>xs.
       thenR (first_of xs) (item_of ''value''))))"

definition readable_error :: "exn \<Rightarrow> bool" where
  "readable_error e \<longleftrightarrow> (case e of Foreign k _ \<Rightarrow> k \<in> set [''ValueError'', ''KeyError'', ''IndexError''] | _ \<Rightarrow> False)"

definition failed :: "string \<Rightarrow> opa_evaluator \<Rightarrow> (exn + opa_result) \<times> opa_evaluator" where
  "failed why s = (Inr (Opa_failed why), s\<lparr>op_failures := op_failures s + 1\<rparr>)"

definition answer_of :: "string \<Rightarrow> opa_evaluator \<Rightarrow> (exn + opa_result) \<times> opa_evaluator" where
  "answer_of stdout s =
     (case (case json_loads stdout of None \<Rightarrow> Inl (Foreign ''ValueError'' []) | Some d \<Rightarrow> expression_value d) of
        Inl e \<Rightarrow> if readable_error e then failed ''reponse OPA illisible'' s else (Inl e, s)
      | Inr (PDict d) \<Rightarrow> (Inr (Opa_ok d), s)
      | Inr _ \<Rightarrow> (Inr (Opa_failed ''la politique Rego doit retourner un objet''), s))"

definition evaluate_opa :: "opa_machine \<Rightarrow> dict \<Rightarrow> opa_evaluator \<Rightarrow> (exn + opa_result) \<times> opa_evaluator" where
  "evaluate_opa om doc s0 =
     (case available om (s0\<lparr>op_evaluations := op_evaluations s0 + 1\<rparr>) of
        (False, s) \<Rightarrow> (Inr (Opa_failed ''binaire OPA indisponible''), s)
      | (True, s) \<Rightarrow>
          let body = input_json (PDict doc)
          in if MAX_INPUT_BYTES < utf8_length body
             then (Inr (Opa_failed (''document d'' @ [CHR 0x27] @ ''entree trop volumineux pour OPA'')), s)
             else case om_run om (opa_command om s) body of
               Not_run why \<Rightarrow> failed why s
             | Exited status out err \<Rightarrow> if status \<noteq> 0 then failed (take 500 err) s else answer_of out s)"

definition opa_stats :: "opa_machine \<Rightarrow> opa_evaluator \<Rightarrow> dict \<times> opa_evaluator" where
  "opa_stats om s =
     (case available om s of
        (b, s') \<Rightarrow>
          ([(''available'', PBool b), (''query'', PStr (op_query s')), (''evaluations'', PInt (op_evaluations s')),
            (''failures'', PInt (op_failures s'))], s'))"

subsection \<open>Normalisation\<close>

definition REGO_KEYS :: "string list" where
  "REGO_KEYS =
     [''decision'', ''playbook'', ''params'', ''reason'', ''cooldown_seconds'', ''max_actions_per_hour'', ''dry_run'']"

definition REGO_DECISIONS :: "string list" where
  "REGO_DECISIONS = [''auto'', ''require_approval'', ''notify_only'', ''ignore'']"

definition kept_keys :: "dict \<Rightarrow> dict" where
  "kept_keys p = List.map_filter (\<lambda>k. map_option (Pair k) (map_of p k)) REGO_KEYS"

definition decided :: "dict \<Rightarrow> dict" where
  "decided d =
     (if \<exists>x \<in> set REGO_DECISIONS. dict_val d ''decision'' = PStr x then d
      else dict_set ''reason'' (PStr (''OPA a retourne une decision inconnue ('' @ py_repr (dict_val d ''decision'') @ '') : repli sur ''
             @ quote ''notify_only'')) (dict_set ''decision'' (PStr ''notify_only'') d))"

definition with_params :: "dict \<Rightarrow> dict" where
  "with_params d = (case dict_val d ''params'' of PDict _ \<Rightarrow> d | _ \<Rightarrow> dict_set ''params'' (PDict []) d)"

text \<open>A list or a dictionary cannot be looked up in a set: it has no hash.\<close>

definition decision_from_rego :: "dict \<Rightarrow> exn + dict" where
  "decision_from_rego payload =
     (let d = kept_keys payload
      in case dict_val d ''decision'' of
           PList _ \<Rightarrow> Inl (Foreign ''TypeError'' (''unhashable type: '' @ quote ''list''))
         | PDict _ \<Rightarrow> Inl (Foreign ''TypeError'' (''unhashable type: '' @ quote ''dict''))
         | _ \<Rightarrow> Inr (with_params (decided d)))"

subsection \<open>What is guaranteed\<close>

lemma dict_val_set: "dict_val (dict_set k v d) j = (if j = k then v else dict_val d j)"
  by (auto simp: dict_val_def update_conv')

lemma keys_set: "set (map fst (dict_set k v d)) = insert k (set (map fst d))"
  by (auto simp: update_conv' simp flip: dom_map_of_conv_image_fst)

lemma kept_keys_keys: "set (map fst (kept_keys p)) \<subseteq> set REGO_KEYS"
  by (auto simp: kept_keys_def map_filter_def)

text \<open>
  Whatever the policy answers, what is kept has only known keys, a known decision and parameters that are an object; it
  raises exactly when the decision is a list or an object.
\<close>

theorem rego_normalised:
  assumes "decision_from_rego p = Inr d"
  shows "set (map fst d) \<subseteq> set REGO_KEYS \<and> (\<exists>x \<in> set REGO_DECISIONS. dict_val d ''decision'' = PStr x)
     \<and> (\<exists>e. dict_val d ''params'' = PDict e)"
proof -
  have d: "d = with_params (decided (kept_keys p))"
    using assms by (auto simp: decision_from_rego_def Let_def split: pyval.splits)
  have keys: "''decision'' \<in> set REGO_KEYS" "''reason'' \<in> set REGO_KEYS" "''params'' \<in> set REGO_KEYS"
    by (simp_all add: REGO_KEYS_def)
  have "set (map fst (decided (kept_keys p))) \<subseteq> set REGO_KEYS"
    using kept_keys_keys [of p] keys unfolding decided_def by (auto simp: keys_set simp del: set_map)
  then have "set (map fst d) \<subseteq> set REGO_KEYS"
    using keys unfolding d with_params_def by (auto simp: keys_set simp del: set_map split: pyval.split)
  moreover have "\<exists>x \<in> set REGO_DECISIONS. dict_val (decided (kept_keys p)) ''decision'' = PStr x"
    by (auto simp: decided_def dict_val_set REGO_DECISIONS_def)
  then have "\<exists>x \<in> set REGO_DECISIONS. dict_val d ''decision'' = PStr x"
    unfolding d with_params_def by (auto simp: dict_val_set split: pyval.splits)
  moreover have "\<exists>e. dict_val d ''params'' = PDict e"
    unfolding d with_params_def by (auto simp: dict_val_set split: pyval.splits)
  ultimately show ?thesis by blast
qed

theorem rego_raises_iff:
  "(\<exists>e. decision_from_rego p = Inl e)
     \<longleftrightarrow> (\<exists>xs. dict_val (kept_keys p) ''decision'' = PList xs) \<or> (\<exists>d. dict_val (kept_keys p) ''decision'' = PDict d)"
  by (auto simp: decision_from_rego_def Let_def split: pyval.splits)

text \<open>An answer that is a list escapes as a type error, which nothing catches.\<close>

theorem list_answer_escapes: "\<exists>why. fst (answer_of ''[]'' s) = Inl (Foreign ''TypeError'' why)"
proof -
  have "json_loads ''[]'' = Some (PList [])" by code_simp
  then show ?thesis by (simp add: answer_of_def expression_value_def thenR_def item_of_def readable_error_def)
qed

end
