(* ===== verification/Spec2Isabelle.thy ===== *)
theory Spec2Isabelle
  imports Rbac Risk RateLimit StoreLaws StorePages AuditLog DecisionProps ActionSafety DetectionProps RuleLoaderProps AnomalyProps AuthRace Bus PipelineProps LoaderProps LocalProps ApiProps StreamProps CollectorProps CheckProps OperationsProps Opa
begin

text \<open>
  Thot Secure is a defensive security service: collectors send it events, rules detect, a score ranks, policies
  decide, playbooks act through connectors, and an audit journal records it all.  This library models the core of
  the Python package \<open>src/src/thotsecure\<close> and proves what makes it safe.  Every theory names the file it
  models; a definition keeps the name of the function it translates where Isabelle allows it.

  \<^bold>\<open>The program, part by part\<close>

  \<^item> \<^bold>\<open>Foundations.\<close>  \<open>Prelude\<close>: texts, rounding, and computations that may raise (\<open>bindE\<close>, \<open>catchE\<close>, \<open>keeps\<close>).
    \<open>Clock\<close>, \<open>PyVal\<close>, \<open>Sha256\<close>, \<open>IpAddr\<close>, \<open>Json\<close>, \<open>Util\<close>: \<open>core/util.py\<close> and what it takes from the standard library
    (instants, values of documents, SHA-256 on 32-bit words, addresses, JSON texts).  \<open>Crypto\<close>: HMAC, scrypt, Base64
    and UTF-8 as \<open>tenancy/auth.py\<close> uses them.  \<open>Errors\<close>: \<open>core/errors.py\<close>.  \<open>Models\<close>: the documents of
    \<open>core/models.py\<close> with their validators.
  \<^item> \<^bold>\<open>Identity and limits.\<close>  \<open>Rbac\<close>: \<open>tenancy/rbac.py\<close>.  \<open>Auth\<close>, \<open>AuthProps\<close>: \<open>tenancy/auth.py\<close>, API keys, their cache,
    sessions, bootstrap.  \<open>AuthRace\<close>: threads of \<open>authenticate\<close> between whose steps the service and other processes
    work.  \<open>RateLimit\<close>: \<open>observability/ratelimit.py\<close>.
  \<^item> \<^bold>\<open>Storage.\<close>  \<open>Store\<close>: \<open>storage/store.py\<close> and the constraints of \<open>storage/schema.py\<close>, a record of tables with one
    operation per method.  \<open>StoreProps\<close>: integrity and isolation of tenants.  \<open>StoreLaws\<close>, \<open>StorePages\<close>: look-ups after
    writes, and pagination.
  \<^item> \<^bold>\<open>Audit.\<close>  \<open>Hashchain\<close>: \<open>audit/hashchain.py\<close>.  \<open>AuditLog\<close>: \<open>audit/chain.py\<close>.
  \<^item> \<^bold>\<open>Detection.\<close>  \<open>Matchers\<close>: \<open>detection/matchers.py\<close>.  \<open>RuleLoader\<close>, \<open>RuleLoaderProps\<close>: \<open>detection/rule_loader.py\<close>, the
    translation of Sigma rules and the loading of a directory.  \<open>Detection\<close>, \<open>DetectionProps\<close>: \<open>detection/engine.py\<close>.
    \<open>Anomaly\<close>, \<open>AnomalyProps\<close>: \<open>detection/anomaly.py\<close>.  \<open>Risk\<close>: \<open>scoring/risk.py\<close>.
  \<^item> \<^bold>\<open>Decision.\<close>  \<open>Scope\<close>: \<open>scope.py\<close>, the declared perimeter.  \<open>Decision\<close>, \<open>DecisionProps\<close>: \<open>decision/engine.py\<close>.
    \<open>Opa\<close>: \<open>decision/opa.py\<close>, the delegation to an external binary, and the normalisation of its answers.
  \<^item> \<^bold>\<open>Action.\<close>  \<open>Connectors\<close>: \<open>actions/connectors/base.py\<close>, \<open>simulation.py\<close>, \<open>actions/registry.py\<close>.  \<open>Executor\<close>,
    \<open>ExecutorProps\<close>: \<open>actions/executor.py\<close>.  \<open>ActionEngine\<close>: \<open>actions/engine.py\<close>.  \<open>ActionLife\<close>: the abstract life cycle
    of an action.  \<open>ActionProps\<close>: the simulation of the one by the other.  \<open>ActionSafety\<close>: what follows.
    \<open>LocalConnectors\<close>, \<open>LocalProps\<close>: \<open>actions/connectors/local.py\<close>, the drivers that act on the machine.
  \<^item> \<^bold>\<open>Libraries.\<close>  \<open>Loaders\<close>, \<open>LoaderProps\<close>: \<open>decision/policy_loader.py\<close> and \<open>actions/playbook_loader.py\<close>.
  \<^item> \<^bold>\<open>Composition.\<close>  \<open>Bus\<close>: \<open>bus/base.py\<close>, \<open>bus/memory.py\<close>, \<open>bus/sqlite_bus.py\<close>.  \<open>Pipeline\<close>, \<open>PipelineProps\<close>: \<open>pipeline.py\<close>, which
    calls the store, the detection engine, the anomaly detector, the decision engine, the action engine and the
    journal for every event.  \<open>Confined\<close>: an operation done for a tenant changes the rows of no other, carried from the
    store through the engines to the pipeline; the rows are compared with \<open>rows_but\<close>, which leaves out the processed
    mark of the events whose identifiers the operation marks, since the marking goes by the identifier alone.
  \<^item> \<^bold>\<open>Collectors.\<close>  \<open>Regex\<close>, \<open>PyTime\<close>: the part of \<open>re\<close> and of \<open>datetime.strptime\<close> they use, as an executable matcher.
    \<open>Collectors\<close>: \<open>collectors/base.py\<close>, \<open>registry.py\<close>, \<open>runner.py\<close>, the cleaning of what is collected, a run, the ticks of
    the scheduler, the status.  \<open>LogTail\<close>, \<open>ConfigAudit\<close>, \<open>DependencyScan\<close>, \<open>Syslog\<close>: the collectors of these names.
    \<open>Probes\<close>: \<open>net.py\<close>, \<open>web_probe.py\<close>, \<open>tls_cert.py\<close>.  \<open>CollectorProps\<close>: runs are confined to their tenant and
    payloads are masked.  \<open>TailProps\<close>: within the limits of a pass, a log is delivered line by line, exactly once.  \<open>CheckProps\<close>: what the checks,
    the scans and the scheduler do.
  \<^item> \<^bold>\<open>API.\<close>  \<open>Api\<close>, \<open>ApiProps\<close>: \<open>api/deps.py\<close>, \<open>api/errors.py\<close> and the routes of \<open>api/routers\<close> that read and change the
    state: \<open>serve\<close> authenticates, \<open>route\<close> dispatches a request to its handler, \<open>handle_error\<close> answers an exception.
    \<open>Streams\<close>, \<open>StreamProps\<close>: \<open>api/ws.py\<close> and \<open>api/routers/stream.py\<close>, the live streams and their bounded queues.
  \<^item> \<^bold>\<open>Service.\<close>  \<open>Config\<close>: \<open>core/config.py\<close>, the validators of the settings and the signing key.  \<open>Metrics\<close>, \<open>MetricsProps\<close>:
    \<open>observability/metrics.py\<close>, exactness of the histograms and the text of labels.  \<open>Service\<close>, \<open>ServiceProps\<close>: \<open>service.py\<close>,
    reloading, maintenance and gauges.  \<open>Operations\<close>, \<open>OperationsProps\<close>: the overview of a tenant and the routes on
    collectors, over the service and what the collectors observe.

  \<^bold>\<open>State and errors\<close>

  An object with state is a record, a method a function from the state to a result and a state.  The type
  \<open>('s, 'e, 'a) op\<close> is a computation that may raise: \<open>Inl\<close> is the exception, and the state it leaves is kept, so the
  writes made before an error are visible.  The engines stack their states: \<open>store\<close> inside \<open>engine_state\<close> (with the
  effects handed to native drivers) inside \<open>pipeline_state\<close>, with \<open>on_store\<close>, \<open>on_exec\<close>, \<open>on_engine\<close>, \<open>on_data\<close> to run an
  operation of a part on the whole.  The effects on the outside world are a list of what native drivers were given;
  \<open>nothing reaches the outside world\<close> means that this list does not grow.

  \<^bold>\<open>What the lemmas show\<close>

  \<^item> The action engine and the pipeline refine the life cycle (\<open>engine_refines_life\<close>, \<open>pipeline_refines_life\<close>), by a
    simulation of every operation on every branch; safety is read off the abstract machine.
  \<^item> The locales \<open>run_relation\<close>, \<open>quiet_relation\<close>, \<open>finding_relation\<close>, \<open>reaction\<close> and \<open>pipeline_run\<close> carry a relation between
    states through the pipeline; their four interpretations give refinement, the rows of the events, the inertness of
    manual mode, and deduplication.  The locale \<open>hash_chain\<close> carries the reasoning on chains of records and is
    interpreted on the journal.  The locale \<open>undoable_calls\<close> carries the undoing of a series of operations with the parameters of their steps
    and their tokens, \<open>undoable\<close>, a sublocale of it, by the tokens alone; they are interpreted on the Nginx driver and
    on the quarantine.  The locale \<open>lawful_collector\<close> is what the runner relies on of
    a collector, interpreted on the six of the service; \<open>total_reader\<close> is what the loop over the lines of a log relies on.
  \<^item> \<open>Confined\<close> has one rule per combinator and one lemma per operation; the isolation of tenants by the API is their
    composition over every route.
  \<^item> Decisions, guards, thresholds, the parser of conditions, verification of the journal, pagination, rendering,
    sessions and statistics are characterised exactly, errors included.
  \<^item> Some theorems state a limit of the code on a concrete input, where the code does not do what its comments
    promise; each is introduced by a sentence that says so.

  \<^bold>\<open>Bounds and fuel\<close>

  The parser of Sigma conditions is given one unit of fuel per token and one more, and \<open>parser_terminates\<close> shows it
  is enough; the JSON reader is given the length of its text, and its round trip shows that it suffices for what the
  program writes.  The other loops are structural or
  have a measure.  The code's own bounds are kept: five attempts to insert an action, 500 rows a page, 500 events a
  batch, 10000 entries a window, 25 samples of evidence,
  4 MiB and 5000 events a pass over a log, 100 advisories a manifest, 50 items a list and 32 KiB a payload.  The matcher of
  regular expressions is structural on the expression; a loop has the length of the rest of the text as fuel, since an
  iteration that takes nothing is cut, and \<open>runs_exact\<close> shows it is enough.

  \<^bold>\<open>Parameters\<close>

  What is not in the repository is an argument: the regular expression engine and its substitution, the square root
  and the logarithm, the parsed YAML documents and the schemas of rules, policies, playbooks and events, the answers of native drivers
  (\<open>world\<close>), the local machine (\<open>machine\<close>), the outcome of a process (\<open>opa_machine\<close>), the file of the signing key (\<open>key_disk\<close>), the files and the network the collectors observe (\<open>disk\<close>, \<open>log_machine\<close>, \<open>network\<close>),
  \<open>datetime.fromisoformat\<close>, \<open>urllib.parse\<close>, random identifiers, and the clocks.  An operation reads the clock once.

  \<^bold>\<open>Conventions\<close>

  Instants are integers in microseconds; floats are rationals (the code's rounding is written out where it rounds);
  texts are lists of characters up to code 255, messages are written without accents, the ellipsis is the character 0x85.
  Digests are computed, not assumed free of collisions: tamper evidence exhibits a collision as the alternative.

  \<^bold>\<open>Not modelled\<close>

  The PostgreSQL store (the same operations in the dialect of a server), the connectors to cloud services and
  NATS (network I/O), the sockets and the tasks of the event loop, the user interface and the command line (glue over the
  modelled parts), the reading of the environment, logging and reports (formatting), and the routes of the API that only
  format a library or a report.  The reading of a
  document by a schema is a parameter.  Interleavings inside one operation are
  not modelled, except those of authentications with the rest (\<open>AuthRace\<close>, \<open>revocation_race\<close>).
\<close>

end
